(* ===== verification/Prelude.thy ===== *)
theory Prelude
  imports Main "HOL-Library.Word" "HOL-Library.Char_ord" "HOL-Library.List_Lexorder"
begin

text \<open>
  What the components share: Rust's \<open>str\<close> operations on UTF-8 bytes, machine integers, the
  \<open>serde_json::Value\<close> data model, and the collections of simplification rules the
  component theories extend.

  A Rust \<open>&str\<close> or \<open>String\<close> is a HOL \<^typ>\<open>string\<close>: a list of bytes, the UTF-8
  encoding of the text, so \<^const>\<open>length\<close> is \<open>str::len\<close>, slicing is by byte offset
  and \<open><\<close> is the byte-wise order of \<open>str\<close>.
\<close>

section \<open>Rule collections and type names\<close>

named_theorems str_simps \<open>rewriting the string operations\<close>
named_theorems json_simps \<open>rewriting the JSON accessors\<close>

type_synonym u64 = "64 word"
type_synonym u8 = "8 word"

text \<open>
  \<open>i64\<close> and \<open>i32\<close> values are \<^typ>\<open>int\<close> with their range written out where an
  operation can leave it.
\<close>

definition i64_min :: int where "i64_min = - (2 ^ 63)"
definition i64_max :: int where "i64_max = 2 ^ 63 - 1"
definition i32_min :: int where "i32_min = - (2 ^ 31)"
definition i32_max :: int where "i32_max = 2 ^ 31 - 1"
definition u64_max :: nat where "u64_max = 2 ^ 64 - 1"

section \<open>Strings\<close>

subsection \<open>Bytes\<close>

definition byte :: "char \<Rightarrow> nat" where
  "byte c = of_char c"

definition is_ascii_lowercase :: "char \<Rightarrow> bool" where
  "is_ascii_lowercase c \<longleftrightarrow> 97 \<le> byte c \<and> byte c \<le> 122"

definition is_ascii_uppercase :: "char \<Rightarrow> bool" where
  "is_ascii_uppercase c \<longleftrightarrow> 65 \<le> byte c \<and> byte c \<le> 90"

definition is_ascii_digit :: "char \<Rightarrow> bool" where
  "is_ascii_digit c \<longleftrightarrow> 48 \<le> byte c \<and> byte c \<le> 57"

text \<open>\<open>u8::is_ascii_whitespace\<close>: space, tab, line feed, form feed, carriage return.\<close>

definition is_ascii_whitespace :: "char \<Rightarrow> bool" where
  "is_ascii_whitespace c \<longleftrightarrow> byte c \<in> {32, 9, 10, 12, 13}"

definition ascii_lower :: "char \<Rightarrow> char" where
  "ascii_lower c = (if is_ascii_uppercase c then char_of (byte c + 32) else c)"

definition to_ascii_lowercase :: "string \<Rightarrow> string" where
  "to_ascii_lowercase = map ascii_lower"

definition eq_ignore_ascii_case :: "string \<Rightarrow> string \<Rightarrow> bool" where
  "eq_ignore_ascii_case s t \<longleftrightarrow> to_ascii_lowercase s = to_ascii_lowercase t"

subsection \<open>Searching and splitting\<close>

fun starts_with :: "string \<Rightarrow> string \<Rightarrow> bool" where
  "starts_with s [] = True"
| "starts_with [] (p # ps) = False"
| "starts_with (c # cs) (p # ps) = (c = p \<and> starts_with cs ps)"

definition ends_with :: "string \<Rightarrow> string \<Rightarrow> bool" where
  "ends_with s p = starts_with (rev s) (rev p)"

definition strip_prefix :: "string \<Rightarrow> string \<Rightarrow> string option" where
  "strip_prefix s p = (if starts_with s p then Some (drop (length p) s) else None)"

definition strip_suffix :: "string \<Rightarrow> string \<Rightarrow> string option" where
  "strip_suffix s p = (if ends_with s p then Some (take (length s - length p) s) else None)"

text \<open>\<open>str::find\<close> with a string pattern: the byte offset of the leftmost match.\<close>

fun str_find :: "string \<Rightarrow> string \<Rightarrow> nat option" where
  "str_find [] p = (if p = [] then Some 0 else None)"
| "str_find (c # cs) p =
     (if starts_with (c # cs) p then Some 0 else map_option Suc (str_find cs p))"

definition contains :: "string \<Rightarrow> string \<Rightarrow> bool" where
  "contains s p \<longleftrightarrow> str_find s p \<noteq> None"

text \<open>\<open>str::split_once\<close> and \<open>str::split\<close> with an ASCII delimiter.\<close>

fun split_once :: "string \<Rightarrow> char \<Rightarrow> (string \<times> string) option" where
  "split_once [] d = None"
| "split_once (c # cs) d =
     (if c = d then Some ([], cs)
      else map_option (\<lambda>(a, b). (c # a, b)) (split_once cs d))"

fun split_on :: "string \<Rightarrow> char \<Rightarrow> string list" where
  "split_on [] d = [[]]"
| "split_on (c # cs) d =
     (if c = d then [] # split_on cs d
      else (case split_on cs d of [] \<Rightarrow> [[c]] | w # ws \<Rightarrow> (c # w) # ws))"

fun join :: "string \<Rightarrow> string list \<Rightarrow> string" where
  "join sep [] = []"
| "join sep [w] = w"
| "join sep (w # ws) = w @ sep @ join sep ws"

subsection \<open>Trimming\<close>

text \<open>
  \<open>char::is_whitespace\<close> is Unicode's White\_Space property; these are the UTF-8 encodings
  of its twenty-five characters.
\<close>

definition white_space :: "string list" where
  "white_space =
     [[CHR '' ''], [CHR 0x09], [CHR 0x0A], [CHR 0x0B], [CHR 0x0C], [CHR 0x0D],
      [CHR 0xC2, CHR 0x85], [CHR 0xC2, CHR 0xA0], [CHR 0xE1, CHR 0x9A, CHR 0x80],
      [CHR 0xE2, CHR 0x80, CHR 0x80], [CHR 0xE2, CHR 0x80, CHR 0x81],
      [CHR 0xE2, CHR 0x80, CHR 0x82], [CHR 0xE2, CHR 0x80, CHR 0x83],
      [CHR 0xE2, CHR 0x80, CHR 0x84], [CHR 0xE2, CHR 0x80, CHR 0x85],
      [CHR 0xE2, CHR 0x80, CHR 0x86], [CHR 0xE2, CHR 0x80, CHR 0x87],
      [CHR 0xE2, CHR 0x80, CHR 0x88], [CHR 0xE2, CHR 0x80, CHR 0x89],
      [CHR 0xE2, CHR 0x80, CHR 0x8A], [CHR 0xE2, CHR 0x80, CHR 0xA8],
      [CHR 0xE2, CHR 0x80, CHR 0xA9], [CHR 0xE2, CHR 0x80, CHR 0xAF],
      [CHR 0xE2, CHR 0x81, CHR 0x9F], [CHR 0xE3, CHR 0x80, CHR 0x80]]"

lemma white_space_nonempty: "w \<in> set white_space \<Longrightarrow> 0 < length w"
  by (auto simp: white_space_def)

lemma find_SomeD: "find P xs = Some x \<Longrightarrow> x \<in> set xs \<and> P x"
  by (induction xs) (auto split: if_splits)

text \<open>Drop matches of the given byte sequences from the front while there are any.\<close>

function drop_seqs :: "string list \<Rightarrow> string \<Rightarrow> string" where
  "drop_seqs ws s =
     (case find (\<lambda>w. w \<noteq> [] \<and> starts_with s w) ws of
        None \<Rightarrow> s
      | Some w \<Rightarrow> drop_seqs ws (drop (length w) s))"
  by pat_completeness auto
termination
proof (relation "measure (\<lambda>(ws, s). length s)", goal_cases)
  case (2 ws s w)
  then have "w \<noteq> []" "starts_with s w" by (auto dest: find_SomeD)
  then show ?case by (cases s; cases w) auto
qed simp

declare drop_seqs.simps [simp del]

definition trim_start :: "string \<Rightarrow> string" where
  "trim_start s = drop_seqs white_space s"

definition trim_end :: "string \<Rightarrow> string" where
  "trim_end s = rev (drop_seqs (map rev white_space) (rev s))"

definition trim :: "string \<Rightarrow> string" where
  "trim s = trim_end (trim_start s)"

text \<open>\<open>Some\<close> of the trimmed text unless it is empty: the idiom
  \<open>.map(str::trim).filter(|v| !v.is_empty())\<close>.\<close>

definition non_empty_trimmed :: "string \<Rightarrow> string option" where
  "non_empty_trimmed s = (let t = trim s in if t = [] then None else Some t)"

subsection \<open>Integers as text\<close>

definition digit_val :: "char \<Rightarrow> nat option" where
  "digit_val c = (if is_ascii_digit c then Some (byte c - 48) else None)"

fun digits_val :: "nat \<Rightarrow> string \<Rightarrow> nat option" where
  "digits_val acc [] = Some acc"
| "digits_val acc (c # cs) =
     (case digit_val c of None \<Rightarrow> None | Some d \<Rightarrow> digits_val (10 * acc + d) cs)"

text \<open>
  \<open>str::parse\<close> for the integer types: an optional sign (\<open>-\<close> for the signed types
  only), at least one digit, and a value in range; everything else is an error.
\<close>

definition parse_unsigned :: "nat \<Rightarrow> string \<Rightarrow> nat option" where
  "parse_unsigned bound s =
     (let ds = (case s of [] \<Rightarrow> [] | c # cs \<Rightarrow> if c = CHR ''+'' then cs else s)
      in if ds = [] then None
         else case digits_val 0 ds of
                None \<Rightarrow> None
              | Some n \<Rightarrow> if n \<le> bound then Some n else None)"

definition parse_signed :: "int \<Rightarrow> int \<Rightarrow> string \<Rightarrow> int option" where
  "parse_signed lo hi s =
     (let (neg, ds) = (case s of [] \<Rightarrow> (False, [])
                       | c # cs \<Rightarrow> if c = CHR ''-'' then (True, cs)
                                  else if c = CHR ''+'' then (False, cs) else (False, s))
      in if ds = [] then None
         else case digits_val 0 ds of
                None \<Rightarrow> None
              | Some n \<Rightarrow>
                  (let v = (if neg then - int n else int n)
                   in if lo \<le> v \<and> v \<le> hi then Some v else None))"

definition parse_u64 :: "string \<Rightarrow> nat option" where
  "parse_u64 = parse_unsigned u64_max"

definition parse_i64 :: "string \<Rightarrow> int option" where
  "parse_i64 = parse_signed i64_min i64_max"

definition parse_i32 :: "string \<Rightarrow> int option" where
  "parse_i32 = parse_signed i32_min i32_max"

text \<open>Decimal output, as \<open>to_string\<close> prints an unsigned integer.\<close>

fun nat_to_string :: "nat \<Rightarrow> string" where
  "nat_to_string n =
     (if n < 10 then [char_of (48 + n)]
      else nat_to_string (n div 10) @ [char_of (48 + n mod 10)])"

declare nat_to_string.simps [simp del]

text \<open>The \<open>saturating_*\<close> operations of \<open>u64\<close>.\<close>

definition saturating_add :: "u64 \<Rightarrow> u64 \<Rightarrow> u64" where
  "saturating_add a b = (if unat a + unat b \<le> u64_max then a + b else of_nat u64_max)"

definition saturating_sub :: "u64 \<Rightarrow> u64 \<Rightarrow> u64" where
  "saturating_sub a b = (if b \<le> a then a - b else 0)"

definition saturating_mul :: "u64 \<Rightarrow> u64 \<Rightarrow> u64" where
  "saturating_mul a b = (if unat a * unat b \<le> u64_max then a * b else of_nat u64_max)"

text \<open>The casts \<open>as i32\<close> and \<open>as i64\<close> keep the low bits.\<close>

definition as_i32 :: "nat \<Rightarrow> int" where
  "as_i32 n = (int n + 2 ^ 31) mod 2 ^ 32 - 2 ^ 31"

definition as_i64 :: "nat \<Rightarrow> int" where
  "as_i64 n = (int n + 2 ^ 63) mod 2 ^ 64 - 2 ^ 63"

section \<open>Options and results\<close>

text \<open>\<open>Option::or\<close> and \<open>Option::unwrap_or\<close>.\<close>

definition or_else :: "'a option \<Rightarrow> 'a option \<Rightarrow> 'a option" where
  "or_else a b = (case a of Some v \<Rightarrow> Some v | None \<Rightarrow> b)"

definition unwrap_or :: "'a option \<Rightarrow> 'a \<Rightarrow> 'a" where
  "unwrap_or a b = (case a of None \<Rightarrow> b | Some v \<Rightarrow> v)"


text \<open>\<open>let v = r?; k(v)\<close> on a \<open>Result\<close>, and \<open>o.map(f).transpose()\<close>.\<close>

definition try_then :: "'e + 'a \<Rightarrow> ('a \<Rightarrow> 'e + 'b) \<Rightarrow> 'e + 'b" where
  "try_then r k = (case r of Inl e \<Rightarrow> Inl e | Inr v \<Rightarrow> k v)"

definition try_map :: "('a \<Rightarrow> 'e + 'b) \<Rightarrow> 'a option \<Rightarrow> 'e + 'b option" where
  "try_map f x = (case x of None \<Rightarrow> Inr None | Some v \<Rightarrow> try_then (f v) (\<lambda>u. Inr (Some u)))"

definition with_context :: "string \<Rightarrow> 'e + 'a \<Rightarrow> string + 'a" where
  "with_context c r = (case r of Inl _ \<Rightarrow> Inl c | Inr v \<Rightarrow> Inr v)"

lemma try_then_simps [simp]: "try_then (Inl e) k = Inl e" "try_then (Inr v) k = k v"
  by (simp_all add: try_then_def)

lemma try_then_Inr: "try_then r k = Inr y \<longleftrightarrow> (\<exists>v. r = Inr v \<and> k v = Inr y)"
  by (cases r) simp_all

lemma try_map_Inr:
  "try_map f x = Inr y \<longleftrightarrow> (x = None \<and> y = None \<or> (\<exists>v u. x = Some v \<and> f v = Inr u \<and> y = Some u))"
  by (cases x) (auto simp: try_map_def try_then_Inr)

lemma with_context_Inr [simp]: "with_context c r = Inr v \<longleftrightarrow> r = Inr v"
  by (cases r) (simp_all add: with_context_def)

lemma unat_saturating:
  "unat (saturating_add a b) = min (unat a + unat b) u64_max"
  "unat (saturating_sub a b) = unat a - unat b"
proof -
  have "unat (of_nat u64_max :: u64) = u64_max" by (simp add: unat_of_nat u64_max_def)
  moreover have "unat (a + b) = unat a + unat b" if "unat a + unat b \<le> u64_max"
    using that by (simp add: unat_word_ariths u64_max_def)
  ultimately show "unat (saturating_add a b) = min (unat a + unat b) u64_max"
    by (simp add: saturating_add_def)
  show "unat (saturating_sub a b) = unat a - unat b"
    by (auto simp: saturating_sub_def unat_sub word_le_nat_alt)
qed

section \<open>JSON values\<close>

text \<open>
  \<open>serde_json::Value\<close>. A number is an unsigned or a negative 64-bit integer or an
  \<open>f64\<close>, kept as its bit pattern and never computed with. An object is a
  \<open>BTreeMap<String, Value>\<close> (the crates do not enable \<open>preserve_order\<close>): its entries
  in ascending key order, each key once.
\<close>

datatype json_num = PosInt u64 | NegInt int | Float "64 word"

datatype json =
    JNull
  | JBool bool
  | JNumber json_num
  | JString string
  | JArray "json list"
  | JObject "(string \<times> json) list"

type_synonym json_map = "(string \<times> json) list"

lemma json_size_entry [termination_simp]:
  "(k, v) \<in> set kvs \<Longrightarrow> size v < Suc (size_list (size_prod (\<lambda>_. 0) size) kvs)"
  by (induction kvs) auto

subsection \<open>Maps\<close>

fun obj_insert :: "string \<Rightarrow> 'v \<Rightarrow> (string \<times> 'v) list \<Rightarrow> (string \<times> 'v) list" where
  "obj_insert k v [] = [(k, v)]"
| "obj_insert k v ((k', v') # m) =
     (if k < k' then (k, v) # (k', v') # m
      else if k = k' then (k, v) # m
      else (k', v') # obj_insert k v m)"

definition obj_remove :: "string \<Rightarrow> (string \<times> 'v) list \<Rightarrow> (string \<times> 'v) list" where
  "obj_remove k m = filter (\<lambda>e. fst e \<noteq> k) m"

definition obj_of_list :: "(string \<times> 'v) list \<Rightarrow> (string \<times> 'v) list" where
  "obj_of_list es = fold (\<lambda>(k, v) m. obj_insert k v m) es []"

definition obj_wf :: "(string \<times> 'v) list \<Rightarrow> bool" where
  "obj_wf m \<longleftrightarrow> sorted_wrt (<) (map fst m)"

fun json_wf :: "json \<Rightarrow> bool" where
  "json_wf (JArray vs) = list_all json_wf vs"
| "json_wf (JObject m) = (obj_wf m \<and> list_all (\<lambda>(k, v). json_wf v) m)"
| "json_wf _ = True"

subsection \<open>Accessors\<close>

fun json_get :: "json \<Rightarrow> string \<Rightarrow> json option" where
  "json_get (JObject m) k = map_of m k"
| "json_get _ k = None"

fun as_str :: "json \<Rightarrow> string option" where
  "as_str (JString s) = Some s"
| "as_str _ = None"

fun as_bool :: "json \<Rightarrow> bool option" where
  "as_bool (JBool b) = Some b"
| "as_bool _ = None"

fun as_u64 :: "json \<Rightarrow> u64 option" where
  "as_u64 (JNumber (PosInt n)) = Some n"
| "as_u64 _ = None"

fun as_array :: "json \<Rightarrow> json list option" where
  "as_array (JArray vs) = Some vs"
| "as_array _ = None"

fun as_object :: "json \<Rightarrow> json_map option" where
  "as_object (JObject m) = Some m"
| "as_object _ = None"

text \<open>Objects and numbers of \<open>json!\<close>.\<close>

definition jobj :: "(string \<times> json) list \<Rightarrow> json" where
  "jobj kvs = JObject (obj_of_list kvs)"

definition jnat :: "nat \<Rightarrow> json" where
  "jnat n = JNumber (PosInt (of_nat n))"

definition opt_nat_json :: "nat option \<Rightarrow> json" where
  "opt_nat_json x = (case x of None \<Rightarrow> JNull | Some n \<Rightarrow> jnat n)"

definition opt_str_json :: "string option \<Rightarrow> json" where
  "opt_str_json x = (case x of None \<Rightarrow> JNull | Some s \<Rightarrow> JString s)"

text \<open>\<open>v.get(k).and_then(Value::as_str)\<close> and its siblings.\<close>

definition get_str :: "json \<Rightarrow> string \<Rightarrow> string option" where
  "get_str v k = Option.bind (json_get v k) as_str"

definition get_bool :: "json \<Rightarrow> string \<Rightarrow> bool option" where
  "get_bool v k = Option.bind (json_get v k) as_bool"

definition get_u64 :: "json \<Rightarrow> string \<Rightarrow> u64 option" where
  "get_u64 v k = Option.bind (json_get v k) as_u64"

section \<open>Lemmas\<close>

subsection \<open>Strings\<close>

lemma starts_with_iff [str_simps]: "starts_with s p \<longleftrightarrow> (\<exists>t. s = p @ t)"
  by (induction s p rule: starts_with.induct) auto

lemma starts_with_append [simp]: "starts_with (p @ t) p"
  by (auto simp: starts_with_iff)

lemma starts_with_take: "starts_with s p \<longleftrightarrow> take (length p) s = p"
  by (metis append_eq_conv_conj starts_with_iff)

lemma ends_with_iff [str_simps]: "ends_with s p \<longleftrightarrow> (\<exists>t. s = t @ p)"
proof -
  have "(\<exists>t. rev s = rev p @ t) \<longleftrightarrow> (\<exists>t. s = t @ p)"
    by (metis rev_append rev_rev_ident)
  then show ?thesis by (simp add: ends_with_def starts_with_iff)
qed

lemma strip_prefix_Some: "strip_prefix s p = Some t \<longleftrightarrow> s = p @ t"
  by (auto simp: strip_prefix_def starts_with_iff)

lemma strip_suffix_Some: "strip_suffix s p = Some t \<longleftrightarrow> s = t @ p"
  by (auto simp: strip_suffix_def ends_with_iff)

lemma strip_suffix_None: "strip_suffix s p = None \<longleftrightarrow> (\<nexists>t. s = t @ p)"
  by (auto simp: strip_suffix_def ends_with_iff)

text \<open>The leftmost match: the text splits there, and no match starts earlier.\<close>

lemma str_find_Some:
  "str_find s p = Some i \<Longrightarrow>
     (\<exists>post. s = take i s @ p @ post) \<and> i + length p \<le> length s \<and>
     (\<forall>j < i. \<not> starts_with (drop j s) p)"
proof (induction s arbitrary: i)
  case Nil
  then show ?case by (auto split: if_splits)
next
  case (Cons c cs)
  show ?case
  proof (cases "starts_with (c # cs) p")
    case True
    with Cons.prems have [simp]: "i = 0" by simp
    from True obtain t where "c # cs = p @ t" by (auto simp: starts_with_iff)
    moreover from this have "length (c # cs) = length p + length t" by (metis length_append)
    ultimately show ?thesis by auto
  next
    case False
    with Cons.prems obtain i' where i: "i = Suc i'" "str_find cs p = Some i'"
      by (auto split: if_splits)
    from Cons.IH [OF i(2)] False show ?thesis
      by (auto simp: i(1) less_Suc_eq_0_disj)
  qed
qed

lemma str_find_None: "str_find s p = None \<longleftrightarrow> (\<nexists>pre post. s = pre @ p @ post)"
proof (induction s)
  case Nil
  then show ?case by auto
next
  case (Cons c cs)
  have "(\<exists>pre post. c # cs = pre @ p @ post) \<longleftrightarrow>
      starts_with (c # cs) p \<or> (\<exists>pre post. cs = pre @ p @ post)"
    by (auto simp: starts_with_iff Cons_eq_append_conv)
  with Cons.IH show ?case by auto
qed

lemma contains_iff [str_simps]: "contains s p \<longleftrightarrow> (\<exists>pre post. s = pre @ p @ post)"
  by (auto simp: contains_def str_find_None simp del: not_None_eq)

lemma split_once_Some:
  "split_once s d = Some (a, b) \<longleftrightarrow> s = a @ d # b \<and> d \<notin> set a"
proof (induction s arbitrary: a)
  case (Cons c cs)
  then show ?case by (cases a) auto
qed simp

lemma split_once_None: "split_once s d = None \<longleftrightarrow> d \<notin> set s"
  by (induction s) auto

lemma split_on_nonempty [simp]: "split_on s d \<noteq> []"
  by (induction s) (auto split: list.splits)

lemma split_on_no_delim: "w \<in> set (split_on s d) \<Longrightarrow> d \<notin> set w"
  by (induction s arbitrary: w) (auto split: list.splits if_splits)

lemma join_Cons: "ws \<noteq> [] \<Longrightarrow> join sep (w # ws) = w @ sep @ join sep ws"
  by (cases ws) auto

lemma join_split_on: "join [d] (split_on s d) = s"
proof (induction s)
  case (Cons c cs)
  show ?case
  proof (cases "c = d")
    case True
    with Cons show ?thesis by (simp add: join_Cons)
  next
    case False
    obtain w ws where "split_on cs d = w # ws" by (cases "split_on cs d") auto
    with False Cons show ?thesis by (cases ws) auto
  qed
qed simp

lemma split_on_join:
  "ws \<noteq> [] \<Longrightarrow> \<forall>w \<in> set ws. d \<notin> set w \<Longrightarrow> split_on (join [d] ws) d = ws"
proof (induction ws)
  case (Cons w ws)
  have hd: "d \<notin> set w \<Longrightarrow> split_on (w @ t) d =
      (case split_on t d of [] \<Rightarrow> [w] | v # vs \<Rightarrow> (w @ v) # vs)" for w t
    by (induction w) (auto split: list.splits)
  show ?case
  proof (cases "ws = []")
    case True
    with Cons.prems hd [of w "[]"] show ?thesis by simp
  next
    case False
    with Cons show ?thesis by (simp add: join_Cons hd)
  qed
qed simp

subsection \<open>Trimming\<close>

lemma drop_seqs_suffix: "\<exists>p. s = p @ drop_seqs ws s"
proof (induction ws s rule: drop_seqs.induct)
  case (1 ws s)
  show ?case
  proof (cases "find (\<lambda>w. w \<noteq> [] \<and> starts_with s w) ws")
    case None
    then show ?thesis by (simp add: drop_seqs.simps [of ws s])
  next
    case (Some w)
    with 1 [OF Some] obtain p where "drop (length w) s = p @ drop_seqs ws (drop (length w) s)"
      by auto
    then have "s = (take (length w) s @ p) @ drop_seqs ws (drop (length w) s)"
      by (metis append.assoc append_take_drop_id)
    moreover from Some have "drop_seqs ws s = drop_seqs ws (drop (length w) s)"
      by (simp add: drop_seqs.simps [of ws s])
    ultimately show ?thesis by metis
  qed
qed

lemma drop_seqs_stop: "w \<in> set ws \<Longrightarrow> w \<noteq> [] \<Longrightarrow> \<not> starts_with (drop_seqs ws s) w"
proof (induction ws s rule: drop_seqs.induct)
  case (1 ws s)
  show ?case
  proof (cases "find (\<lambda>w. w \<noteq> [] \<and> starts_with s w) ws")
    case None
    then have "drop_seqs ws s = s" by (simp add: drop_seqs.simps [of ws s])
    with None 1 show ?thesis by (auto simp: find_None_iff)
  next
    case (Some v)
    with 1 show ?thesis by (simp add: drop_seqs.simps [of ws s])
  qed
qed

lemma drop_seqs_done:
  "(\<And>w. w \<in> set ws \<Longrightarrow> w \<noteq> [] \<Longrightarrow> \<not> starts_with s w) \<Longrightarrow> drop_seqs ws s = s"
  by (subst drop_seqs.simps) (auto simp: find_None_iff split: option.split dest: find_SomeD)

lemma trim_start_stop: "w \<in> set white_space \<Longrightarrow> \<not> starts_with (trim_start s) w"
  by (metis drop_seqs_stop length_greater_0_conv trim_start_def white_space_nonempty)

lemma trim_end_stop: "w \<in> set white_space \<Longrightarrow> \<not> ends_with (trim_end s) w"
proof -
  assume "w \<in> set white_space"
  then have "rev w \<in> set (map rev white_space)" "rev w \<noteq> []"
    using white_space_nonempty by fastforce+
  from drop_seqs_stop [OF this, of "rev s"] show ?thesis
    by (simp add: ends_with_def trim_end_def)
qed

lemma trim_end_prefix: "\<exists>q. s = trim_end s @ q"
  using drop_seqs_suffix [of "rev s" "map rev white_space"]
  by (metis rev_append rev_rev_ident trim_end_def)

lemma trim_start_suffix: "\<exists>p. s = p @ trim_start s"
  by (simp add: drop_seqs_suffix trim_start_def)

lemma trim_infix: "\<exists>p q. s = p @ trim s @ q"
  by (metis append.assoc trim_def trim_end_prefix trim_start_suffix)

lemma length_trim: "length (trim s) \<le> length s"
  using trim_infix [of s] by (metis length_append le_add1 le_add2 le_trans)

lemma trim_no_start: "w \<in> set white_space \<Longrightarrow> \<not> starts_with (trim s) w"
proof
  assume w: "w \<in> set white_space" and "starts_with (trim s) w"
  then obtain t where "trim s = w @ t" by (auto simp: starts_with_iff)
  moreover obtain q where "trim_start s = trim s @ q"
    using trim_end_prefix [of "trim_start s"] by (auto simp: trim_def)
  ultimately have "starts_with (trim_start s) w" by (auto simp: starts_with_iff)
  with trim_start_stop [OF w] show False by blast
qed

lemma trim_idem [simp]: "trim (trim s) = trim s"
proof -
  have "trim_start (trim s) = trim s"
    unfolding trim_start_def [of "trim s"] by (rule drop_seqs_done) (rule trim_no_start)
  moreover have "trim_end (trim s) = trim s"
    unfolding trim_end_def [of "trim s"]
  proof (subst drop_seqs_done)
    fix w assume "w \<in> set (map rev white_space)" "w \<noteq> []"
    then have "\<not> ends_with (trim s) (rev w)"
      by (auto simp: trim_def trim_end_stop)
    then show "\<not> starts_with (rev (trim s)) w" by (simp add: ends_with_def)
  qed simp
  ultimately show ?thesis by (simp add: trim_def)
qed

lemma non_empty_trimmed_Some:
  "non_empty_trimmed s = Some t \<longleftrightarrow> t = trim s \<and> t \<noteq> []"
  by (auto simp: non_empty_trimmed_def Let_def)

lemma non_empty_trimmed_None: "non_empty_trimmed s = None \<longleftrightarrow> trim s = []"
  by (auto simp: non_empty_trimmed_def Let_def)

lemma non_empty_trimmed_idem: "non_empty_trimmed (trim s) = non_empty_trimmed s"
  by (simp add: non_empty_trimmed_def)

subsection \<open>Letter case\<close>

lemma byte_char_of: "byte (char_of n) = n mod 256"
  by (simp add: byte_def)

lemma byte_inject: "byte c = byte d \<longleftrightarrow> c = d"
  by (simp add: byte_def)

lemma byte_ascii_lower:
  "byte (ascii_lower c) = (if is_ascii_uppercase c then byte c + 32 else byte c)"
  by (simp add: ascii_lower_def is_ascii_uppercase_def byte_char_of)

lemma ascii_lower_idem [simp]: "ascii_lower (ascii_lower c) = ascii_lower c"
  by (simp add: byte_inject [symmetric] byte_ascii_lower is_ascii_uppercase_def)

lemma to_ascii_lowercase_idem [simp]:
  "to_ascii_lowercase (to_ascii_lowercase s) = to_ascii_lowercase s"
  by (simp add: to_ascii_lowercase_def)

text \<open>Lower-casing only touches letters, so it commutes with trimming.\<close>

lemma ascii_lower_eq:
  "\<not> is_ascii_lowercase d \<Longrightarrow> \<not> is_ascii_uppercase d \<Longrightarrow> ascii_lower c = d \<longleftrightarrow> c = d"
  by (auto simp: byte_inject [symmetric] byte_ascii_lower is_ascii_lowercase_def
      is_ascii_uppercase_def split: if_splits)

lemma white_space_not_letter:
  "list_all (list_all (\<lambda>d. \<not> is_ascii_lowercase d \<and> \<not> is_ascii_uppercase d)) white_space"
  by code_simp

lemma starts_with_lower:
  "list_all (\<lambda>d. \<not> is_ascii_lowercase d \<and> \<not> is_ascii_uppercase d) w \<Longrightarrow>
   starts_with (to_ascii_lowercase s) w \<longleftrightarrow> starts_with s w"
  by (induction s w rule: starts_with.induct) (auto simp: to_ascii_lowercase_def ascii_lower_eq)

lemma drop_seqs_lower:
  assumes "list_all (list_all (\<lambda>d. \<not> is_ascii_lowercase d \<and> \<not> is_ascii_uppercase d)) ws"
  shows "drop_seqs ws (to_ascii_lowercase s) = to_ascii_lowercase (drop_seqs ws s)"
  using assms
proof (induction ws s rule: drop_seqs.induct)
  case (1 ws s)
  have same: "find (\<lambda>w. w \<noteq> [] \<and> starts_with (to_ascii_lowercase s) w) ws =
      find (\<lambda>w. w \<noteq> [] \<and> starts_with s w) ws"
    using "1.prems" by (intro find_cong refl) (auto simp: list_all_iff starts_with_lower)
  show ?case
  proof (cases "find (\<lambda>w. w \<noteq> [] \<and> starts_with s w) ws")
    case None
    with same show ?thesis by (simp add: drop_seqs.simps [of ws])
  next
    case (Some w)
    have "drop (length w) (to_ascii_lowercase s) = to_ascii_lowercase (drop (length w) s)"
      by (simp add: to_ascii_lowercase_def drop_map)
    with same Some 1 show ?thesis
      by (simp add: drop_seqs.simps [of ws s] drop_seqs.simps [of ws "to_ascii_lowercase s"])
  qed
qed

lemma rev_to_ascii_lowercase: "rev (to_ascii_lowercase s) = to_ascii_lowercase (rev s)"
  by (simp add: to_ascii_lowercase_def rev_map)

lemma trim_lower: "trim (to_ascii_lowercase s) = to_ascii_lowercase (trim s)"
proof -
  have "list_all (list_all (\<lambda>d. \<not> is_ascii_lowercase d \<and> \<not> is_ascii_uppercase d))
      (map rev white_space)"
    using white_space_not_letter by (simp add: list_all_iff)
  then show ?thesis
    using white_space_not_letter
    by (simp add: trim_def trim_start_def trim_end_def drop_seqs_lower rev_to_ascii_lowercase)
qed

subsection \<open>Maps and JSON\<close>

lemma map_of_obj_insert [json_simps]:
  "map_of (obj_insert k v m) = (map_of m)(k \<mapsto> v)"
  by (induction m) (auto simp: fun_eq_iff)

lemma map_of_obj_remove [json_simps]:
  "map_of (obj_remove k m) = (map_of m)(k := None)"
  by (induction m) (auto simp: obj_remove_def fun_eq_iff)

lemma map_of_obj_remove_other [simp]: "k \<noteq> k' \<Longrightarrow> map_of (obj_remove k' m) k = map_of m k"
  by (simp add: map_of_obj_remove)

lemma set_keys_obj_insert: "fst ` set (obj_insert k v m) = insert k (fst ` set m)"
  by (induction k v m rule: obj_insert.induct) (simp_all add: insert_commute)

lemma obj_wf_insert: "obj_wf m \<Longrightarrow> obj_wf (obj_insert k v m)"
proof (induction m)
  case (Cons e m)
  obtain k' v' where e: "e = (k', v')" by force
  have keys: "set (map fst (obj_insert k v m)) = insert k (set (map fst m))"
    using set_keys_obj_insert [of k v m] by simp
  from Cons e keys show ?case by (auto simp: obj_wf_def)
qed (simp add: obj_wf_def)

lemma obj_wf_remove: "obj_wf m \<Longrightarrow> obj_wf (obj_remove k m)"
  unfolding obj_wf_def obj_remove_def
  by (induction m) auto

lemma obj_insert_append:
  "obj_wf m \<Longrightarrow> \<forall>k' \<in> fst ` set m. k' < k \<Longrightarrow> obj_insert k v m = m @ [(k, v)]"
  by (induction m) (auto simp: obj_wf_def)

lemma obj_of_list_append:
  "obj_wf (m @ es) \<Longrightarrow> fold (\<lambda>(k, v) m. obj_insert k v m) es m = m @ es"
proof (induction es arbitrary: m)
  case (Cons e es)
  obtain k v where e: "e = (k, v)" by force
  from Cons.prems e have m: "obj_wf m" "\<forall>k' \<in> fst ` set m. k' < k"
    by (auto simp: obj_wf_def sorted_wrt_append)
  from Cons.prems e have "obj_wf ((m @ [(k, v)]) @ es)" by simp
  from Cons.IH [OF this] e m show ?case by (simp add: obj_insert_append)
qed simp

text \<open>Building a map from entries already in key order gives those entries.\<close>

lemma obj_of_list_wf [json_simps]: "obj_wf es \<Longrightarrow> obj_of_list es = es"
  unfolding obj_of_list_def by (rule obj_of_list_append [of "[]", simplified])

lemma obj_wf_of_list: "obj_wf (obj_of_list es)"
proof -
  have "obj_wf m \<Longrightarrow> obj_wf (fold (\<lambda>(k, v) m. obj_insert k v m) es m)" for m
    by (induction es arbitrary: m) (auto simp: obj_wf_insert)
  then show ?thesis by (simp add: obj_of_list_def obj_wf_def)
qed

lemma set_obj_insert: "set (obj_insert k v m) \<subseteq> insert (k, v) (set m)"
proof (induction k v m rule: obj_insert.induct)
  case (2 k v k' v' m)
  then show ?case
    by (cases "k < k'"; cases "k = k'") (simp_all add: subset_insertI2, blast+)
qed simp

lemma json_wf_get: "json_wf v \<Longrightarrow> json_get v k = Some w \<Longrightarrow> json_wf w"
  by (cases v) (auto simp: list_all_iff dest!: map_of_SomeD)

lemma json_wf_insert:
  "json_wf (JObject m) \<Longrightarrow> json_wf v \<Longrightarrow> json_wf (JObject (obj_insert k v m))"
  using set_obj_insert [of k v m] by (auto simp: obj_wf_insert list_all_iff)

lemma get_str_Some [json_simps]:
  "get_str v k = Some s \<longleftrightarrow> json_get v k = Some (JString s)"
proof -
  have "as_str w = Some s \<longleftrightarrow> w = JString s" for w by (cases w) auto
  then show ?thesis by (auto simp: get_str_def Option.bind_eq_Some_conv)
qed

text \<open>A map is determined by its lookups.\<close>

lemma obj_wf_distinct: "obj_wf m \<Longrightarrow> distinct (map fst m)"
  unfolding obj_wf_def by (metis strict_sorted_iff)

lemma obj_wf_eqI:
  assumes "obj_wf m" and "obj_wf m'" and "map_of m = map_of m'"
  shows "m = m'"
proof -
  have "set (map fst m') = set (map fst m)"
    using assms(3) dom_map_of_conv_image_fst [of m] dom_map_of_conv_image_fst [of m'] by simp
  with assms(1,2) have keys: "map fst m' = map fst m"
    unfolding obj_wf_def by (rule strict_sorted_equal)
  have rebuild: "map (\<lambda>k. (k, the (map_of m k))) (map fst m) = m" if "obj_wf m" for m :: "(string \<times> 'a) list"
    unfolding map_map using obj_wf_distinct [OF that] by (intro map_idI) auto
  show ?thesis by (metis assms keys rebuild)
qed

section \<open>Paths\<close>

text \<open>
  \<open>std::path\<close> on Unix. A path is its text; \<open>components\<close> skips empty parts and every
  \<open>.\<close> but a leading one, and never resolves \<open>..\<close>.
\<close>

datatype path_component = RootDir | CurDir | ParentDir | Normal string

type_synonym path = string

definition is_absolute :: "path \<Rightarrow> bool" where
  "is_absolute p = starts_with p ''/''"

definition body_component :: "string \<Rightarrow> path_component option" where
  "body_component w =
     (if w = [] \<or> w = ''.'' then None
      else if w = ''..'' then Some ParentDir else Some (Normal w))"

definition components :: "path \<Rightarrow> path_component list" where
  "components p =
     (let parts = split_on p (CHR ''/'');
          front = (if is_absolute p then [RootDir]
                   else if hd parts = ''.'' then [CurDir] else [])
      in front @ List.map_filter body_component parts)"

text \<open>\<open>PathBuf::push\<close> and \<open>Path::join\<close>: an absolute argument replaces the path.\<close>

definition path_push :: "path \<Rightarrow> path \<Rightarrow> path" where
  "path_push base p =
     (if is_absolute p then p
      else if base = [] \<or> last base = CHR ''/'' then base @ p
      else base @ CHR ''/'' # p)"

text \<open>\<open>Path::starts_with\<close> compares whole components.\<close>

definition path_starts_with :: "path \<Rightarrow> path \<Rightarrow> bool" where
  "path_starts_with p base =
     (take (length (components base)) (components p) = components base)"

lemma path_starts_with_iff:
  "path_starts_with p base \<longleftrightarrow> (\<exists>cs. components p = components base @ cs)"
  unfolding path_starts_with_def by (metis append_eq_conv_conj append_take_drop_id)

lemma components_root:
  "RootDir \<in> set (components p) \<longleftrightarrow> is_absolute p"
  by (auto simp: components_def Let_def body_component_def List.map_filter_def split: if_splits)

lemma split_on_append_delim: "split_on (a @ d # b) d = split_on a d @ split_on b d"
  by (induction a) (auto split: list.splits simp: Cons_eq_append_conv)

lemma split_on_singleton: "d \<notin> set w \<Longrightarrow> split_on w d = [w]"
  by (induction w) auto

lemma map_filter_append: "List.map_filter f (xs @ ys) = List.map_filter f xs @ List.map_filter f ys"
  by (simp add: List.map_filter_def)

lemma hd_split_on_append: "a \<noteq> [] \<Longrightarrow> hd (split_on a d @ ys) = hd (split_on a d)"
  by simp

text \<open>
  Joining a relative path whose first part is not \<open>.\<close> onto a base appends its components.
\<close>

lemma components_path_push:
  assumes "base \<noteq> []" and "\<not> is_absolute p" and "hd (split_on p (CHR ''/'')) \<noteq> ''.''"
  shows "components (path_push base p) = components base @ components p"
proof -
  obtain b where b: "path_push base p = b @ CHR ''/'' # p"
      and base: "base = b \<or> base = b @ ''/''"
    using assms(1,2) by (cases "last base = CHR ''/''")
      (auto simp: path_push_def dest: append_butlast_last_id [symmetric])
  have abs: "is_absolute (path_push base p) = is_absolute base"
    unfolding b using base assms(1) by (cases b) (auto simp: is_absolute_def)
  have split: "split_on (path_push base p) (CHR ''/'') =
      split_on b (CHR ''/'') @ split_on p (CHR ''/'')"
    by (simp add: b split_on_append_delim)
  have filt: "List.map_filter body_component (split_on base (CHR ''/'')) =
      List.map_filter body_component (split_on b (CHR ''/''))"
    using base by (auto simp: split_on_append_delim map_filter_append
        body_component_def List.map_filter_def)
  have "hd (split_on base (CHR ''/'')) = hd (split_on b (CHR ''/''))"
    using base by (auto simp: split_on_append_delim)
  with abs split filt assms(2,3) show ?thesis
    by (auto simp: components_def Let_def map_filter_append)
qed

end
