(* ===== verification/LlmText.thy ===== *)
theory LlmText
  imports Prelude
begin

text \<open>
  Shaping text for a byte budget (\<open>worker/src/llm.rs\<close>): cutting at UTF-8 character boundaries,
  head-and-tail summaries, chunking, and the ranking and selection of context documents.

  A Rust \<open>str\<close> is valid UTF-8, and slicing it off a character boundary panics. The text operations
  here keep validity, so that none of the slices panics; chunking loses nothing.
\<close>

section \<open>Characters in UTF-8\<close>

definition is_continuation :: "char \<Rightarrow> bool" where
  "is_continuation c \<longleftrightarrow> 128 \<le> byte c \<and> byte c < 192"

text \<open>\<open>str::is_char_boundary\<close>\<close>

definition is_char_boundary :: "string \<Rightarrow> nat \<Rightarrow> bool" where
  "is_char_boundary s i \<longleftrightarrow> i = 0 \<or> i = length s \<or> i < length s \<and> \<not> is_continuation (s ! i)"

text \<open>
  The shape of a valid \<open>str\<close>: every character is a leading byte followed by as many continuation
  bytes as it announces.
\<close>

definition char_len :: "char \<Rightarrow> nat" where
  "char_len c = (let b = byte c in
     if b < 128 then 1 else if 192 \<le> b \<and> b < 224 then 2 else if 224 \<le> b \<and> b < 240 then 3
     else if 240 \<le> b \<and> b < 248 then 4 else 0)"

function utf8 :: "string \<Rightarrow> bool" where
  "utf8 [] = True"
| "utf8 (c # s) = (char_len c \<noteq> 0 \<and> char_len c - 1 \<le> length s \<and>
     list_all is_continuation (take (char_len c - 1) s) \<and> utf8 (drop (char_len c - 1) s))"
  by pat_completeness auto
termination by (relation "measure length") auto

section \<open>Cutting\<close>

fun back_to_boundary :: "string \<Rightarrow> nat \<Rightarrow> nat" where
  "back_to_boundary s 0 = 0"
| "back_to_boundary s (Suc i) = (if is_char_boundary s (Suc i) then Suc i else back_to_boundary s i)"

definition clamp_utf8_boundary :: "string \<Rightarrow> nat \<Rightarrow> nat" where
  "clamp_utf8_boundary s i = back_to_boundary s (min i (length s))"

definition truncate_text_for_budget :: "string \<Rightarrow> nat \<Rightarrow> string" where
  "truncate_text_for_budget s budget =
     (if budget = 0 \<or> s = [] then []
      else if length s \<le> budget then s
      else take (clamp_utf8_boundary s budget) s)"

definition truncate_text_from_end_for_budget :: "string \<Rightarrow> nat \<Rightarrow> string" where
  "truncate_text_from_end_for_budget s budget =
     (if budget = 0 \<or> s = [] then []
      else if length s \<le> budget then s
      else drop (clamp_utf8_boundary s (length s - budget)) s)"

definition line_feed :: string where "line_feed = [CHR 0x0A]"

text \<open>
  \<open>(budget as f64 * 0.65) as usize\<close> is \<open>budget * 65 div 100\<close> for every budget below \<open>2 ^ 46\<close>: the
  product is at least 0.05 away from the next integer unless it is one, and rounding moves it by
  less.
\<close>

definition summarize_text_for_budget :: "string \<Rightarrow> nat \<Rightarrow> string" where
  "summarize_text_for_budget s budget_bytes =
     (if length s \<le> budget_bytes then s
      else let budget = max budget_bytes 64;
               head_budget = budget * 65 div 100;
               tail_budget = budget * 25 div 100;
               head = truncate_text_for_budget s (max head_budget 16);
               tail = truncate_text_from_end_for_budget s (max tail_budget 16)
           in truncate_text_for_budget
                (''[summary-trimmed]'' @ line_feed @ head @ line_feed @ ''...'' @ line_feed @ tail) budget)"

section \<open>Chunking and retrieval\<close>

record llm_context_document =
  doc_id :: string
  doc_text :: string

definition context_document :: "string \<Rightarrow> string \<Rightarrow> llm_context_document" where
  "context_document i t = \<lparr>doc_id = i, doc_text = t\<rparr>"

text \<open>The loop of \<open>split_text_chunks\<close>: \<open>n\<close> chunks are out, the next one starts at \<open>start\<close>.\<close>

function chunk_loop :: "string \<Rightarrow> nat \<Rightarrow> nat \<Rightarrow> nat \<Rightarrow> llm_context_document list" where
  "chunk_loop s chunk_bytes start n =
     (if start < length s then
        let stop = clamp_utf8_boundary s (min (start + chunk_bytes) (length s))
        in if stop \<le> start then []
           else context_document (''chunk-'' @ nat_to_string (n + 1)) (take (stop - start) (drop start s))
                # chunk_loop s chunk_bytes stop (n + 1)
      else [])"
  by pat_completeness auto
termination by (relation "measure (\<lambda>(s, _, start, _). length s - start)") auto

declare chunk_loop.simps [simp del]

definition split_text_chunks :: "string \<Rightarrow> nat \<Rightarrow> llm_context_document list" where
  "split_text_chunks s chunk_bytes = (if s = [] then [] else chunk_loop s (max chunk_bytes 256) 0 0)"

text \<open>
  The words of a text: maximal runs of ASCII letters and digits longer than two bytes, in lower
  case. No byte of a non-ASCII character is one, so splitting the bytes splits the characters.
\<close>

definition is_ascii_alphanumeric :: "char \<Rightarrow> bool" where
  "is_ascii_alphanumeric c \<longleftrightarrow> is_ascii_lowercase c \<or> is_ascii_uppercase c \<or> is_ascii_digit c"

fun split_where :: "(char \<Rightarrow> bool) \<Rightarrow> string \<Rightarrow> string list" where
  "split_where p [] = [[]]"
| "split_where p (c # cs) =
     (if p c then [] # split_where p cs
      else (case split_where p cs of [] \<Rightarrow> [[c]] | w # ws \<Rightarrow> (c # w) # ws))"

definition tokenize :: "string \<Rightarrow> string set" where
  "tokenize s = set (map to_ascii_lowercase
     (filter (\<lambda>t. 2 < length t) (map trim (split_where (\<lambda>c. \<not> is_ascii_alphanumeric c) s))))"

definition token_overlap_score :: "string set \<Rightarrow> string \<Rightarrow> nat" where
  "token_overlap_score query_tokens s =
     (if query_tokens = {} then 0 else card (query_tokens \<inter> tokenize s))"

text \<open>
  Documents by falling score, equal scores in the order given: the comparator's second key is the
  index, and \<^const>\<open>sort_key\<close> is stable.
\<close>

definition ranked :: "string \<Rightarrow> llm_context_document list \<Rightarrow> llm_context_document list" where
  "ranked query docs =
     (let tokens = tokenize query in sort_key (\<lambda>d. - int (token_overlap_score tokens (doc_text d))) docs)"

fun select_excerpts :: "nat \<Rightarrow> nat \<Rightarrow> llm_context_document list \<Rightarrow> llm_context_document list" where
  "select_excerpts max_bytes used [] = []"
| "select_excerpts max_bytes used (d # ds) =
     (if max_bytes \<le> used then []
      else let excerpt = truncate_text_for_budget (doc_text d) (max (max_bytes - used) 64)
           in if excerpt = [] then select_excerpts max_bytes used ds
              else context_document (doc_id d) excerpt
                   # select_excerpts max_bytes (used + length excerpt) ds)"

definition rank_and_select_documents ::
    "string \<Rightarrow> llm_context_document list \<Rightarrow> nat \<Rightarrow> nat \<Rightarrow> llm_context_document list" where
  "rank_and_select_documents query docs top_k max_bytes =
     (let selected = select_excerpts max_bytes 0 (take top_k (ranked query docs))
      in if selected = [] \<and> docs \<noteq> []
         then [context_document (doc_id (hd docs))
                 (truncate_text_for_budget (doc_text (hd docs)) (max max_bytes 64))]
         else selected)"

definition document_block :: "llm_context_document \<Rightarrow> string" where
  "document_block d = ''---- '' @ doc_id d @ '' ----'' @ line_feed @ doc_text d @ line_feed"

definition build_retrieval_prompt :: "string \<Rightarrow> llm_context_document list \<Rightarrow> nat \<Rightarrow> string" where
  "build_retrieval_prompt query selected max_bytes =
     truncate_text_for_budget
       (''Query:'' @ line_feed @ query @ line_feed @ line_feed @ ''Relevant context:'' @ line_feed
         @ concat (map document_block selected))
       (max max_bytes 256)"

section \<open>Lemmas on boundaries\<close>

lemma back_to_boundary_le: "back_to_boundary s i \<le> i"
  by (induction i) auto

lemma back_to_boundary_is: "is_char_boundary s (back_to_boundary s i)"
  by (induction i) (auto simp: is_char_boundary_def)

lemma back_to_boundary_ge: "is_char_boundary s j \<Longrightarrow> j \<le> i \<Longrightarrow> j \<le> back_to_boundary s i"
  by (induction i) (auto simp: le_Suc_eq)

lemma clamp_le: "clamp_utf8_boundary s i \<le> i" "clamp_utf8_boundary s i \<le> length s"
  using back_to_boundary_le [of s "min i (length s)"] by (auto simp: clamp_utf8_boundary_def)

lemma clamp_boundary: "is_char_boundary s (clamp_utf8_boundary s i)"
  by (simp add: clamp_utf8_boundary_def back_to_boundary_is)

lemma clamp_ge: "is_char_boundary s j \<Longrightarrow> j \<le> i \<Longrightarrow> j \<le> length s \<Longrightarrow> j \<le> clamp_utf8_boundary s i"
  by (simp add: clamp_utf8_boundary_def back_to_boundary_ge)

lemma boundary_le: "is_char_boundary s j \<Longrightarrow> j \<le> length s"
  by (auto simp: is_char_boundary_def)

lemma char_len_cases: "char_len c = 0 \<or> (char_len c \<le> 4 \<and> \<not> is_continuation c)"
  by (auto simp: char_len_def is_continuation_def Let_def)

lemma utf8_head: "utf8 (c # s) \<Longrightarrow> \<not> is_continuation c"
  using char_len_cases [of c] by auto

text \<open>A boundary of the characters after the first one is a boundary of the text.\<close>

lemma boundary_shift:
  assumes "utf8 (c # s)" and "is_char_boundary (drop (char_len c - 1) s) j"
  shows "is_char_boundary (c # s) (char_len c + j)"
proof -
  let ?n = "char_len c - 1" and ?r = "drop (char_len c - 1) s"
  have n: "char_len c = Suc ?n" "?n \<le> length s" "utf8 ?r" using assms(1) by auto
  have "\<not> is_continuation (?r ! 0)" if "?r \<noteq> []"
    using utf8_head n(3) that by (cases ?r) auto
  with assms(2) n(2) show ?thesis
    by (subst n(1)) (auto simp: is_char_boundary_def)
qed

lemma utf8_boundary_near:
  "utf8 s \<Longrightarrow> i \<le> length s \<Longrightarrow> \<exists>j \<le> i. i \<le> j + 3 \<and> is_char_boundary s j"
proof (induction s arbitrary: i rule: utf8.induct)
  case 1
  then show ?case by (auto simp: is_char_boundary_def)
next
  case (2 c s)
  show ?case
  proof (cases "i < char_len c")
    case True
    then have "i \<le> 3" using char_len_cases [of c] by auto
    then show ?thesis by (intro exI [of _ 0]) (simp add: is_char_boundary_def)
  next
    case False
    let ?r = "drop (char_len c - 1) s"
    from "2.prems" have "utf8 ?r" "i - char_len c \<le> length ?r" by auto
    from "2.IH" [OF this] obtain j where j: "j \<le> i - char_len c" "i - char_len c \<le> j + 3"
      "is_char_boundary ?r j" by blast
    with False boundary_shift [OF "2.prems"(1) j(3)] show ?thesis
      by (intro exI [of _ "char_len c + j"]) auto
  qed
qed

lemma utf8_cut:
  "utf8 s \<Longrightarrow> is_char_boundary s j \<Longrightarrow> utf8 (take j s) \<and> utf8 (drop j s)"
proof (induction s arbitrary: j rule: utf8.induct)
  case 1
  then show ?case by simp
next
  case (2 c s)
  let ?n = "char_len c - 1"
  from "2.prems"(1) have n: "char_len c = Suc ?n" "?n \<le> length s"
      "list_all is_continuation (take ?n s)" "utf8 (drop ?n s)" by auto
  show ?case
  proof (cases j)
    case (Suc i)
    have "?n \<le> i"
    proof (rule ccontr)
      assume "\<not> ?n \<le> i"
      then have "i < length s" "take ?n s ! i \<in> set (take ?n s)" using n(2) by (linarith, intro nth_mem, simp)
      then show False
        using n(3) "2.prems"(2) Suc \<open>\<not> ?n \<le> i\<close> n(2) by (auto simp: is_char_boundary_def list_all_iff)
    qed
    then have "is_char_boundary (drop ?n s) (i - ?n)"
      using "2.prems"(2) Suc n(2) by (auto simp: is_char_boundary_def intro: diff_less_mono)
    from "2.IH" [OF n(4) this] have "utf8 (take (i - ?n) (drop ?n s))" "utf8 (drop i s)"
      using \<open>?n \<le> i\<close> by (auto simp: add.commute)
    moreover have "take ?n (take i s) = take ?n s" "?n \<le> length (take i s)"
      using \<open>?n \<le> i\<close> n(2) by (auto simp: min_def)
    ultimately show ?thesis using n "2.prems"(1) Suc by (simp add: drop_take)
  qed (use "2.prems"(1) in simp)
qed

lemma utf8_append: "utf8 a \<Longrightarrow> utf8 b \<Longrightarrow> utf8 (a @ b)"
  by (induction a rule: utf8.induct) auto

lemma utf8_concat: "list_all utf8 ss \<Longrightarrow> utf8 (concat ss)"
  by (induction ss) (auto intro: utf8_append)

section \<open>Lemmas on cutting\<close>

named_theorems text_ok \<open>operations that keep valid UTF-8\<close>

lemma truncate_length: "length (truncate_text_for_budget s b) \<le> b"
  using clamp_le [of s b] by (auto simp: truncate_text_for_budget_def)

lemma truncate_utf8 [text_ok]: "utf8 s \<Longrightarrow> utf8 (truncate_text_for_budget s b)"
  using utf8_cut [OF _ clamp_boundary] by (auto simp: truncate_text_for_budget_def)

lemma truncate_from_end_utf8 [text_ok]: "utf8 s \<Longrightarrow> utf8 (truncate_text_from_end_for_budget s b)"
  using utf8_cut [OF _ clamp_boundary] by (auto simp: truncate_text_from_end_for_budget_def)

lemma utf8_literals [text_ok]:
  "utf8 line_feed" "utf8 ''[summary-trimmed]''" "utf8 ''...''" "utf8 ''---- ''" "utf8 '' ----''"
  "utf8 ''Query:''" "utf8 ''Relevant context:''" "utf8 ''chunk-''" "utf8 ''doc-''"
  by code_simp+

lemma summarize_length: "length (summarize_text_for_budget s b) \<le> max b 64"
  using truncate_length by (auto simp: summarize_text_for_budget_def Let_def)

lemma summarize_utf8 [text_ok]: "utf8 s \<Longrightarrow> utf8 (summarize_text_for_budget s b)"
proof (cases "length s \<le> b")
  case False
  assume "utf8 s"
  with False show ?thesis
    by (simp only: summarize_text_for_budget_def Let_def if_False) (intro utf8_append text_ok)
qed (simp add: summarize_text_for_budget_def)

section \<open>Lemmas on chunks and documents\<close>

abbreviation docs_utf8 :: "llm_context_document list \<Rightarrow> bool" where
  "docs_utf8 \<equiv> list_all (\<lambda>d. utf8 (doc_id d) \<and> utf8 (doc_text d))"

lemma context_document_fields [simp]:
  "doc_id (context_document i t) = i" "doc_text (context_document i t) = t"
  by (simp_all add: context_document_def)

text \<open>A chunk has room for a whole character, so the loop always moves on.\<close>

lemma chunk_loop_progress:
  assumes "utf8 s" and "is_char_boundary s start" and "start < length s" and "4 \<le> b"
  shows "start < clamp_utf8_boundary s (min (start + b) (length s))"
proof -
  let ?i = "min (start + b) (length s)"
  from utf8_boundary_near [OF assms(1), of ?i] obtain j where
    j: "j \<le> ?i" "?i \<le> j + 3" "is_char_boundary s j" by auto
  show ?thesis
  proof (cases "start < j")
    case True
    then show ?thesis using clamp_ge [OF j(3) j(1)] boundary_le [OF j(3)] by simp
  next
    case False
    with j(2) assms(3,4) have "?i = length s" by linarith
    then show ?thesis
      using clamp_ge [of s "length s" ?i] assms(3) by (simp add: is_char_boundary_def)
  qed
qed

lemma chunk_loop_concat:
  assumes "utf8 s" and "is_char_boundary s start" and "4 \<le> b"
  shows "concat (map doc_text (chunk_loop s b start n)) = drop start s"
  using assms
proof (induction s b start n rule: chunk_loop.induct)
  case (1 s b start n)
  let ?stop = "clamp_utf8_boundary s (min (start + b) (length s))"
  show ?case
  proof (cases "start < length s")
    case True
    note stop = chunk_loop_progress [OF "1.prems"(1,2) True "1.prems"(3)]
    from "1.IH" [OF True refl _ "1.prems"(1) clamp_boundary "1.prems"(3)] stop
    have "concat (map doc_text (chunk_loop s b ?stop (n + 1))) = drop ?stop s" by simp
    with stop True show ?thesis
      by (subst chunk_loop.simps) (simp add: Let_def, metis add_diff_inverse_nat append_take_drop_id
        drop_drop le_add_diff_inverse2 less_imp_le_nat not_less)
  qed (simp add: chunk_loop.simps)
qed

lemma chunk_loop_sizes:
  "c \<in> set (chunk_loop s b start n) \<Longrightarrow> 0 < length (doc_text c) \<and> length (doc_text c) \<le> b"
proof (induction s b start n rule: chunk_loop.induct)
  case (1 s b start n)
  let ?stop = "clamp_utf8_boundary s (min (start + b) (length s))"
  have stop: "?stop \<le> start + b" "?stop \<le> length s" using clamp_le [of s "min (start + b) (length s)"] by simp_all
  from "1.prems" have "start < length s" "\<not> ?stop \<le> start"
    by (auto simp: chunk_loop.simps [of s b start n] Let_def split: if_splits)
  with "1.prems" have "c = context_document (''chunk-'' @ nat_to_string (n + 1))
      (take (?stop - start) (drop start s)) \<or> c \<in> set (chunk_loop s b ?stop (n + 1))"
    by (auto simp: chunk_loop.simps [of s b start n] Let_def)
  then show ?case
    using "1.IH" [OF \<open>start < length s\<close> refl \<open>\<not> ?stop \<le> start\<close>] stop \<open>\<not> ?stop \<le> start\<close> by auto
qed

lemma select_excerpts_utf8: "docs_utf8 ds \<Longrightarrow> docs_utf8 (select_excerpts m u ds)"
  by (induction m u ds rule: select_excerpts.induct) (auto simp: Let_def intro: text_ok)

lemma rank_and_select_utf8 [text_ok]: "docs_utf8 ds \<Longrightarrow> docs_utf8 (rank_and_select_documents q ds k m)"
proof -
  assume ds: "docs_utf8 ds"
  then have "docs_utf8 (take k (ranked q ds))"
    by (auto simp: list_all_iff ranked_def Let_def dest: in_set_takeD)
  with ds show ?thesis
    by (cases ds) (auto simp: rank_and_select_documents_def Let_def intro: text_ok select_excerpts_utf8)
qed

lemma build_retrieval_prompt_utf8 [text_ok]:
  "utf8 q \<Longrightarrow> docs_utf8 ds \<Longrightarrow> utf8 (build_retrieval_prompt q ds m)"
proof -
  assume q: "utf8 q" and ds: "docs_utf8 ds"
  have "list_all utf8 (map document_block ds)"
    using ds unfolding document_block_def
    by (simp only: list_all_iff list.set_map ball_simps) (blast intro: utf8_append text_ok)
  with q show ?thesis
    unfolding build_retrieval_prompt_def by (intro text_ok utf8_append utf8_concat)
qed

lemma rank_and_select_count: "length (rank_and_select_documents q ds k m) \<le> max k 1"
proof -
  have "length (select_excerpts m u es) \<le> length es" for u es
    by (induction m u es rule: select_excerpts.induct) (auto simp: Let_def)
  from this [of 0 "take k (ranked q ds)"] show ?thesis
    by (auto simp: rank_and_select_documents_def Let_def)
qed

text \<open>The chunks of a text are its pieces in order: nothing is lost, and every chunk fits.\<close>

lemma split_text_chunks_concat: "utf8 s \<Longrightarrow> concat (map doc_text (split_text_chunks s b)) = s"
  using chunk_loop_concat [of s 0 "max b 256" 0]
  by (auto simp: split_text_chunks_def is_char_boundary_def)

lemma split_text_chunks_sizes:
  "c \<in> set (split_text_chunks s b) \<Longrightarrow> 0 < length (doc_text c) \<and> length (doc_text c) \<le> max b 256"
  using chunk_loop_sizes by (auto simp: split_text_chunks_def split: if_splits)

lemma utf8_nat_to_string [text_ok]: "utf8 (nat_to_string n)"
proof (induction n rule: nat_to_string.induct)
  case (1 n)
  have "utf8 [char_of (48 + d)]" if "d < 10" for d :: nat
    using that by (simp add: char_len_def byte_char_of Let_def)
  with 1 show ?case
    by (subst nat_to_string.simps) (auto intro!: utf8_append)
qed

lemma boundary_drop:
  "is_char_boundary s i \<Longrightarrow> is_char_boundary s j \<Longrightarrow> i \<le> j \<Longrightarrow> is_char_boundary (drop i s) (j - i)"
  by (auto simp: is_char_boundary_def intro: diff_less_mono)

lemma chunk_loop_utf8:
  assumes "utf8 s" and "is_char_boundary s start"
  shows "docs_utf8 (chunk_loop s b start n)"
  using assms
proof (induction s b start n rule: chunk_loop.induct)
  case (1 s b start n)
  let ?stop = "clamp_utf8_boundary s (min (start + b) (length s))"
  have "utf8 (take (?stop - start) (drop start s))" if "start < ?stop"
    using utf8_cut [OF _ boundary_drop [OF "1.prems"(2) clamp_boundary less_imp_le [OF that]]]
      utf8_cut [OF "1.prems"] by blast
  moreover have "utf8 (''chunk-'' @ nat_to_string (n + 1))" by (intro utf8_append text_ok)
  ultimately show ?case
    using "1.IH" [OF _ refl _ "1.prems"(1) clamp_boundary]
    by (subst chunk_loop.simps) (auto simp: Let_def simp del: append_Cons)
qed

lemma split_text_chunks_utf8 [text_ok]: "utf8 s \<Longrightarrow> docs_utf8 (split_text_chunks s b)"
  using chunk_loop_utf8 [of s 0] by (auto simp: split_text_chunks_def is_char_boundary_def)

end
