(* ===== verification/LlmConfig.thy ===== *)
theory LlmConfig
  imports LlmText
begin

text \<open>
  The configuration of the LLM gateway (\<open>worker/src/llm.rs\<close>): its enumerations and their spelling,
  the environment readers, \<open>LlmConfig::from_env\<close> and the routing defaults per channel.

  The process environment, \<open>serde_json::from_str\<close>, \<open>f64\<close> parsing, the process id and the resolution of
  secret references are arguments.
\<close>

section \<open>Enumerations\<close>

datatype llm_mode = LocalOnly | LocalFirst | RemoteOnly
datatype llm_route = Local | Remote
datatype llm_request_class = Interactive | Batch
datatype llm_large_input_policy = Direct | SummarizeFirst | ChunkAndRetrieve | EscalateRemote
datatype llm_remote_egress_class = NeverLeavesPrem | RedactedOnly | CloudAllowed
datatype llm_verifier_mode = Heuristic | Deterministic | ModelJudge | Hybrid
datatype llm_local_tier = Workhorse | Small

fun mode_as_str :: "llm_mode \<Rightarrow> string" where
  "mode_as_str LocalOnly = ''local_only''"
| "mode_as_str LocalFirst = ''local_first''"
| "mode_as_str RemoteOnly = ''remote_only''"

fun route_as_str :: "llm_route \<Rightarrow> string" where
  "route_as_str Local = ''local''"
| "route_as_str Remote = ''remote''"

fun request_class_as_str :: "llm_request_class \<Rightarrow> string" where
  "request_class_as_str Interactive = ''interactive''"
| "request_class_as_str Batch = ''batch''"

fun large_input_policy_as_str :: "llm_large_input_policy \<Rightarrow> string" where
  "large_input_policy_as_str Direct = ''direct''"
| "large_input_policy_as_str SummarizeFirst = ''summarize_first''"
| "large_input_policy_as_str ChunkAndRetrieve = ''chunk_and_retrieve''"
| "large_input_policy_as_str EscalateRemote = ''escalate_remote''"

fun egress_class_as_str :: "llm_remote_egress_class \<Rightarrow> string" where
  "egress_class_as_str NeverLeavesPrem = ''never_leaves_prem''"
| "egress_class_as_str RedactedOnly = ''redacted_only''"
| "egress_class_as_str CloudAllowed = ''cloud_allowed''"

fun verifier_mode_as_str :: "llm_verifier_mode \<Rightarrow> string" where
  "verifier_mode_as_str Heuristic = ''heuristic''"
| "verifier_mode_as_str Deterministic = ''deterministic''"
| "verifier_mode_as_str ModelJudge = ''model_judge''"
| "verifier_mode_as_str Hybrid = ''hybrid''"

fun local_tier_as_str :: "llm_local_tier \<Rightarrow> string" where
  "local_tier_as_str Workhorse = ''workhorse''"
| "local_tier_as_str Small = ''small''"

definition mode_parse :: "string \<Rightarrow> string + llm_mode" where
  "mode_parse raw =
     (let s = to_ascii_lowercase (trim raw) in
      if s = ''local_only'' then Inr LocalOnly
      else if s = ''local_first'' \<or> s = [] then Inr LocalFirst
      else if s = ''remote_only'' then Inr RemoteOnly
      else Inl (''invalid LLM_MODE `'' @ s @ ''` (supported: local_only, local_first, remote_only)''))"

definition request_class_parse :: "string \<Rightarrow> string + llm_request_class" where
  "request_class_parse raw =
     (let s = to_ascii_lowercase (trim raw) in
      if s = [] \<or> s = ''interactive'' then Inr Interactive
      else if s = ''batch'' then Inr Batch
      else Inl (''invalid llm request class `'' @ s @ ''` (supported: interactive, batch)''))"

definition large_input_policy_parse :: "string \<Rightarrow> string + llm_large_input_policy" where
  "large_input_policy_parse raw =
     (let s = to_ascii_lowercase (trim raw) in
      if s = [] \<or> s = ''summarize_first'' then Inr SummarizeFirst
      else if s = ''direct'' then Inr Direct
      else if s = ''chunk_and_retrieve'' \<or> s = ''chunk_retrieve'' then Inr ChunkAndRetrieve
      else if s = ''escalate_remote'' \<or> s = ''remote'' then Inr EscalateRemote
      else Inl (''invalid LLM_LARGE_INPUT_POLICY `'' @ s
             @ ''` (supported: direct, summarize_first, chunk_and_retrieve, escalate_remote)''))"

definition egress_class_parse :: "string \<Rightarrow> string + llm_remote_egress_class" where
  "egress_class_parse raw =
     (let s = to_ascii_lowercase (trim raw) in
      if s = [] \<or> s = ''cloud_allowed'' then Inr CloudAllowed
      else if s = ''redacted_only'' then Inr RedactedOnly
      else if s = ''never_leaves_prem'' then Inr NeverLeavesPrem
      else Inl (''invalid LLM_REMOTE_EGRESS_CLASS `'' @ s
             @ ''` (supported: cloud_allowed, redacted_only, never_leaves_prem)''))"

definition verifier_mode_parse :: "string \<Rightarrow> string + llm_verifier_mode" where
  "verifier_mode_parse raw =
     (let s = to_ascii_lowercase (trim raw) in
      if s = [] \<or> s = ''heuristic'' then Inr Heuristic
      else if s = ''deterministic'' then Inr Deterministic
      else if s = ''model_judge'' \<or> s = ''judge'' then Inr ModelJudge
      else if s = ''hybrid'' then Inr Hybrid
      else Inl (''invalid LLM_VERIFIER_MODE `'' @ s
             @ ''` (supported: heuristic, deterministic, model_judge, hybrid)''))"

definition local_tier_parse :: "string \<Rightarrow> string \<Rightarrow> string + llm_local_tier" where
  "local_tier_parse raw key_name =
     (let s = to_ascii_lowercase (trim raw) in
      if s = [] \<or> s = ''workhorse'' \<or> s = ''default'' then Inr Workhorse
      else if s = ''small'' then Inr Small
      else Inl (''invalid '' @ key_name @ '' `'' @ s @ ''` (supported: workhorse, small)''))"

section \<open>The configuration\<close>

record llm_endpoint_config =
  ep_base_url :: string
  ep_model :: string
  ep_api_key :: "string option"

text \<open>Sizes and times are \<^typ>\<open>nat\<close>: \<open>usize\<close> and \<open>u64\<close> values read from the environment.\<close>

record llm_config =
  lc_mode :: llm_mode
  lc_timeout_ms :: nat
  lc_max_input_bytes :: nat
  lc_max_prompt_bytes :: nat
  lc_max_output_bytes :: nat
  lc_large_input_threshold_bytes :: nat
  lc_large_input_policy :: llm_large_input_policy
  lc_large_input_summary_target_bytes :: nat
  lc_context_retrieval_top_k :: nat
  lc_context_retrieval_max_bytes :: nat
  lc_context_retrieval_chunk_bytes :: nat
  lc_admission_enabled :: bool
  lc_admission_interactive_max_inflight :: nat
  lc_admission_batch_max_inflight :: nat
  lc_cache_enabled :: bool
  lc_cache_ttl_secs :: nat
  lc_cache_max_entries :: nat
  lc_distributed_enabled :: bool
  lc_distributed_fail_open :: bool
  lc_distributed_owner :: string
  lc_distributed_admission_enabled :: bool
  lc_distributed_admission_lease_ms :: nat
  lc_distributed_cache_enabled :: bool
  lc_distributed_cache_namespace_max_entries :: nat
  lc_verifier_enabled :: bool
  lc_verifier_mode :: llm_verifier_mode
  lc_verifier_min_score_pct :: nat
  lc_verifier_escalate_remote :: bool
  lc_verifier_min_response_chars :: nat
  lc_verifier_judge :: "llm_endpoint_config option"
  lc_verifier_judge_timeout_ms :: nat
  lc_verifier_judge_fail_open :: bool
  lc_slo_interactive_max_latency_ms :: "nat option"
  lc_slo_batch_max_latency_ms :: "nat option"
  lc_slo_alert_threshold_pct :: "nat option"
  lc_slo_breach_escalate_remote :: bool
  lc_local :: "llm_endpoint_config option"
  lc_local_models :: "string list"
  lc_local_small :: "llm_endpoint_config option"
  lc_local_small_models :: "string list"
  lc_local_interactive_tier :: llm_local_tier
  lc_local_batch_tier :: llm_local_tier
  lc_remote :: "llm_endpoint_config option"
  lc_remote_models :: "string list"
  lc_remote_egress_enabled :: bool
  lc_remote_egress_class :: llm_remote_egress_class
  lc_remote_host_allowlist :: "string list"
  lc_remote_token_budget_per_run :: "nat option"
  lc_remote_token_budget_per_tenant :: "nat option"
  lc_remote_token_budget_per_agent :: "nat option"
  lc_remote_token_budget_per_model :: "nat option"
  lc_remote_token_budget_window_secs :: nat
  lc_remote_token_budget_soft_alert_threshold_pct :: "nat option"
  lc_remote_cost_per_1k_tokens_usd :: "64 word"

section \<open>Reading the environment\<close>

type_synonym env_vars = "string \<rightharpoonup> string"

definition trim_end_slashes :: "string \<Rightarrow> string" where
  "trim_end_slashes s = rev (dropWhile (\<lambda>c. c = CHR ''/'') (rev s))"

definition normalize_base_url :: "string \<Rightarrow> string" where
  "normalize_base_url raw = trim_end_slashes (trim raw)"

definition normalize_model_list :: "string list \<Rightarrow> string \<Rightarrow> string list" where
  "normalize_model_list raw fallback =
     (let models = rev (fold (\<lambda>m ms. case non_empty_trimmed m of
            None \<Rightarrow> ms | Some t \<Rightarrow> if t \<in> set ms then ms else t # ms) raw [])
      in if models = [] then (case non_empty_trimmed fallback of None \<Rightarrow> [] | Some t \<Rightarrow> [t])
         else models)"

definition read_env_u64 :: "env_vars \<Rightarrow> string \<Rightarrow> nat \<Rightarrow> string + nat" where
  "read_env_u64 env key dflt =
     (case env key of
        Some v \<Rightarrow> (case parse_u64 v of
            None \<Rightarrow> Inl (''invalid integer for '' @ key @ '': '' @ v) | Some n \<Rightarrow> Inr n)
      | None \<Rightarrow> Inr dflt)"

definition read_env_u64_optional :: "env_vars \<Rightarrow> string \<Rightarrow> string + nat option" where
  "read_env_u64_optional env key =
     (case env key of
        Some v \<Rightarrow>
          (let t = trim v in
           if t = [] then Inr None
           else case parse_u64 t of
                  None \<Rightarrow> Inl (''invalid integer for '' @ key @ '': '' @ t) | Some n \<Rightarrow> Inr (Some n))
      | None \<Rightarrow> Inr None)"

definition read_env_u8_optional :: "env_vars \<Rightarrow> string \<Rightarrow> string + nat option" where
  "read_env_u8_optional env key =
     (case env key of
        Some v \<Rightarrow>
          (let t = trim v in
           if t = [] then Inr None
           else case parse_unsigned 255 t of
                  None \<Rightarrow> Inl (''invalid integer for '' @ key @ '': '' @ v)
                | Some n \<Rightarrow>
                    if n = 0 \<or> 100 < n
                    then Inl (key @ '' must be between 1 and 100 when set (got '' @ nat_to_string n @ '')'')
                    else Inr (Some n))
      | None \<Rightarrow> Inr None)"

definition read_env_f64 :: "(string \<Rightarrow> 64 word option) \<Rightarrow> env_vars \<Rightarrow> string \<Rightarrow> 64 word \<Rightarrow> string + 64 word" where
  "read_env_f64 parse_f64 env key dflt =
     (case env key of
        Some v \<Rightarrow> (case parse_f64 v of
            None \<Rightarrow> Inl (''invalid float for '' @ key @ '': '' @ v) | Some x \<Rightarrow> Inr x)
      | None \<Rightarrow> Inr dflt)"

definition read_env_bool :: "env_vars \<Rightarrow> string \<Rightarrow> bool \<Rightarrow> bool" where
  "read_env_bool env key dflt =
     (case env key of
        Some v \<Rightarrow> to_ascii_lowercase (trim v) \<in> {''1'', ''true'', ''yes''}
      | None \<Rightarrow> dflt)"

definition read_env_csv :: "env_vars \<Rightarrow> string \<Rightarrow> string list" where
  "read_env_csv env key =
     (case env key of
        None \<Rightarrow> []
      | Some raw \<Rightarrow> filter (\<lambda>v. v \<noteq> []) (map trim (split_on raw (CHR '',''))))"

definition read_env_optional_string :: "env_vars \<Rightarrow> string \<Rightarrow> string option" where
  "read_env_optional_string env key = Option.bind (env key) non_empty_trimmed"

definition read_env_or :: "env_vars \<Rightarrow> string \<Rightarrow> string \<Rightarrow> string" where
  "read_env_or env key dflt = (case env key of None \<Rightarrow> dflt | Some v \<Rightarrow> v)"

section \<open>\<open>LlmConfig::from_env\<close>\<close>

text \<open>
  What \<open>from_env\<close> calls: \<open>read_env_secret\<close> of a value key and a reference key, \<open>f64\<close> parsing and the
  process id as text.
\<close>

record env_services =
  es_secret :: "string \<Rightarrow> string \<Rightarrow> string + string option"
  es_parse_f64 :: "string \<Rightarrow> 64 word option"
  es_process_id :: string

definition endpoint_config :: "string \<Rightarrow> string \<Rightarrow> string option \<Rightarrow> llm_endpoint_config" where
  "endpoint_config base_url model api_key =
     \<lparr>ep_base_url = normalize_base_url base_url, ep_model = model,
      ep_api_key = Option.bind api_key non_empty_trimmed\<rparr>"

definition distributed_owner :: "env_vars \<Rightarrow> string \<Rightarrow> string" where
  "distributed_owner env pid =
     (case Option.bind (env ''LLM_DISTRIBUTED_OWNER'') non_empty_trimmed of
        Some v \<Rightarrow> v
      | None \<Rightarrow>
          (let host = (case Option.bind (env ''HOSTNAME'') non_empty_trimmed of
                         Some h \<Rightarrow> h | None \<Rightarrow> ''worker'')
           in host @ ''-'' @ pid))"

definition first_model_endpoint ::
    "string list \<Rightarrow> string \<Rightarrow> string option \<Rightarrow> llm_endpoint_config option" where
  "first_model_endpoint models base_url api_key =
     (case models of
        [] \<Rightarrow> None
      | m # _ \<Rightarrow> map_option (\<lambda>model. endpoint_config base_url model api_key) (non_empty_trimmed m))"

text \<open>
  The remote endpoint and the verifier's judge: a base URL and a model, both or neither, and a key
  that is only looked up when both are set.
\<close>

definition paired_endpoint ::
    "string option \<Rightarrow> string option \<Rightarrow> (string + string option) \<Rightarrow> string \<Rightarrow> string \<Rightarrow>
     string + llm_endpoint_config option" where
  "paired_endpoint base_url model api_key empty_error pair_error =
     (case (base_url, model) of
        (Some url, Some m) \<Rightarrow>
          (case non_empty_trimmed m of
             None \<Rightarrow> Inl empty_error
           | Some t \<Rightarrow> try_then api_key (\<lambda>key. Inr (Some (endpoint_config url t key))))
      | (None, None) \<Rightarrow> Inr None
      | _ \<Rightarrow> Inl pair_error)"

definition remote_endpoint_from_env ::
    "env_services \<Rightarrow> env_vars \<Rightarrow> string list \<Rightarrow> string + llm_endpoint_config option" where
  "remote_endpoint_from_env es env remote_models =
     paired_endpoint (read_env_optional_string env ''LLM_REMOTE_BASE_URL'')
       (case remote_models of [] \<Rightarrow> None | m # _ \<Rightarrow> Some m)
       (es_secret es ''LLM_REMOTE_API_KEY'' ''LLM_REMOTE_API_KEY_REF'')
       ''LLM_REMOTE_MODEL must not be empty when provided''
       ''LLM_REMOTE_BASE_URL and LLM_REMOTE_MODEL must be set together''"

definition judge_endpoint_from_env ::
    "env_services \<Rightarrow> env_vars \<Rightarrow> string + llm_endpoint_config option" where
  "judge_endpoint_from_env es env =
     paired_endpoint (read_env_optional_string env ''LLM_VERIFIER_JUDGE_BASE_URL'')
       (read_env_optional_string env ''LLM_VERIFIER_JUDGE_MODEL'')
       (es_secret es ''LLM_VERIFIER_JUDGE_API_KEY'' ''LLM_VERIFIER_JUDGE_API_KEY_REF'')
       ''LLM_VERIFIER_JUDGE_MODEL must not be empty when provided''
       ''LLM_VERIFIER_JUDGE_BASE_URL and LLM_VERIFIER_JUDGE_MODEL must be set together''"

text \<open>
  The values read before the record is built, in the order the code reads them; then the ones read
  while it is built.
\<close>

definition llm_config_from_env :: "env_services \<Rightarrow> env_vars \<Rightarrow> string + llm_config" where
  "llm_config_from_env es env =
    try_then (mode_parse (read_env_or env ''LLM_MODE'' ''local_first'')) (\<lambda>mode.
    try_then (read_env_u64 env ''LLM_MAX_INPUT_BYTES'' 262144) (\<lambda>max_input_bytes.
    try_then (read_env_u64 env ''LLM_MAX_PROMPT_BYTES'' 32000) (\<lambda>max_prompt_bytes.
    try_then (read_env_u64 env ''LLM_MAX_OUTPUT_BYTES'' 64000) (\<lambda>max_output_bytes.
    if max_input_bytes < max_prompt_bytes
    then Inl (''LLM_MAX_INPUT_BYTES ('' @ nat_to_string max_input_bytes
           @ '') must be >= LLM_MAX_PROMPT_BYTES ('' @ nat_to_string max_prompt_bytes @ '')'')
    else
    try_then (read_env_u64 env ''LLM_LARGE_INPUT_THRESHOLD_BYTES'' 12000) (\<lambda>threshold.
    try_then (large_input_policy_parse (read_env_or env ''LLM_LARGE_INPUT_POLICY'' ''summarize_first'')) (\<lambda>policy.
    try_then (read_env_u64 env ''LLM_LARGE_INPUT_SUMMARY_TARGET_BYTES'' (max (max_prompt_bytes div 2) 1)) (\<lambda>summary_target.
    try_then (read_env_u64 env ''LLM_CONTEXT_RETRIEVAL_TOP_K'' 6) (\<lambda>top_k.
    try_then (read_env_u64 env ''LLM_CONTEXT_RETRIEVAL_MAX_BYTES'' max_prompt_bytes) (\<lambda>retrieval_max.
    try_then (read_env_u64 env ''LLM_CONTEXT_RETRIEVAL_CHUNK_BYTES'' 2048) (\<lambda>chunk.
    try_then (read_env_u64 env ''LLM_ADMISSION_INTERACTIVE_MAX_INFLIGHT'' 8) (\<lambda>adm_interactive.
    try_then (read_env_u64 env ''LLM_ADMISSION_BATCH_MAX_INFLIGHT'' 2) (\<lambda>adm_batch.
    let distributed_enabled = read_env_bool env ''LLM_DISTRIBUTED_ENABLED'' False;
        owner = distributed_owner env (es_process_id es) in
    try_then (read_env_u64 env ''LLM_VERIFIER_MIN_SCORE_PCT'' 65) (\<lambda>min_score.
    try_then (read_env_u64 env ''LLM_VERIFIER_MIN_RESPONSE_CHARS'' 48) (\<lambda>min_chars.
    try_then (verifier_mode_parse (read_env_or env ''LLM_VERIFIER_MODE'' ''heuristic'')) (\<lambda>verifier_mode.
    let local_base_url = unwrap_or (read_env_optional_string env ''LLM_LOCAL_BASE_URL'') ''http://127.0.0.1:11434/v1'';
        local_model = unwrap_or (read_env_optional_string env ''LLM_LOCAL_MODEL'') ''qwen2.5:7b-instruct'';
        local_models = normalize_model_list (read_env_csv env ''LLM_LOCAL_MODELS'') local_model in
    try_then (es_secret es ''LLM_LOCAL_API_KEY'' ''LLM_LOCAL_API_KEY_REF'') (\<lambda>local_api_key.
    try_then (es_secret es ''LLM_LOCAL_SMALL_API_KEY'' ''LLM_LOCAL_SMALL_API_KEY_REF'') (\<lambda>small_key.
    let small_key = (case small_key of Some k \<Rightarrow> Some k | None \<Rightarrow> local_api_key);
        local_small_model = unwrap_or (read_env_optional_string env ''LLM_LOCAL_SMALL_MODEL'') [];
        local_small_models = normalize_model_list (read_env_csv env ''LLM_LOCAL_SMALL_MODELS'') local_small_model;
        small_base_url = unwrap_or (read_env_optional_string env ''LLM_LOCAL_SMALL_BASE_URL'') local_base_url in
    try_then (local_tier_parse (read_env_or env ''LLM_LOCAL_INTERACTIVE_TIER'' ''workhorse'') ''LLM_LOCAL_INTERACTIVE_TIER'') (\<lambda>interactive_tier.
    try_then (local_tier_parse (read_env_or env ''LLM_LOCAL_BATCH_TIER'' ''workhorse'') ''LLM_LOCAL_BATCH_TIER'') (\<lambda>batch_tier.
    let remote_models = normalize_model_list (read_env_csv env ''LLM_REMOTE_MODELS'')
          (unwrap_or (read_env_optional_string env ''LLM_REMOTE_MODEL'') []) in
    try_then (remote_endpoint_from_env es env remote_models) (\<lambda>remote.
    try_then (judge_endpoint_from_env es env) (\<lambda>judge.
    if verifier_mode = ModelJudge \<and> judge = None
    then Inl ''LLM_VERIFIER_MODE=model_judge requires LLM_VERIFIER_JUDGE_BASE_URL and LLM_VERIFIER_JUDGE_MODEL''
    else
    try_then (read_env_u64 env ''LLM_TIMEOUT_MS'' 12000) (\<lambda>timeout.
    try_then (read_env_u64 env ''LLM_CACHE_TTL_SECS'' 300) (\<lambda>cache_ttl.
    try_then (read_env_u64 env ''LLM_CACHE_MAX_ENTRIES'' 1024) (\<lambda>cache_max.
    try_then (read_env_u64 env ''LLM_DISTRIBUTED_ADMISSION_LEASE_MS'' 30000) (\<lambda>lease_ms.
    try_then (read_env_u64 env ''LLM_DISTRIBUTED_CACHE_NAMESPACE_MAX_ENTRIES'' 4096) (\<lambda>namespace_max.
    try_then (read_env_u64 env ''LLM_VERIFIER_JUDGE_TIMEOUT_MS'' 4000) (\<lambda>judge_timeout.
    try_then (read_env_u64_optional env ''LLM_SLO_INTERACTIVE_MAX_LATENCY_MS'') (\<lambda>slo_interactive.
    try_then (read_env_u64_optional env ''LLM_SLO_BATCH_MAX_LATENCY_MS'') (\<lambda>slo_batch.
    try_then (read_env_u8_optional env ''LLM_SLO_ALERT_THRESHOLD_PCT'') (\<lambda>slo_alert.
    try_then (egress_class_parse (read_env_or env ''LLM_REMOTE_EGRESS_CLASS'' ''cloud_allowed'')) (\<lambda>egress_class.
    try_then (read_env_u64_optional env ''LLM_REMOTE_TOKEN_BUDGET_PER_RUN'') (\<lambda>per_run.
    try_then (read_env_u64_optional env ''LLM_REMOTE_TOKEN_BUDGET_PER_TENANT'') (\<lambda>per_tenant.
    try_then (read_env_u64_optional env ''LLM_REMOTE_TOKEN_BUDGET_PER_AGENT'') (\<lambda>per_agent.
    try_then (read_env_u64_optional env ''LLM_REMOTE_TOKEN_BUDGET_PER_MODEL'') (\<lambda>per_model.
    try_then (read_env_u64 env ''LLM_REMOTE_TOKEN_BUDGET_WINDOW_SECS'' 86400) (\<lambda>window.
    try_then (read_env_u8_optional env ''LLM_REMOTE_TOKEN_BUDGET_SOFT_ALERT_THRESHOLD_PCT'') (\<lambda>soft_alert.
    try_then (read_env_f64 (es_parse_f64 es) env ''LLM_REMOTE_COST_PER_1K_TOKENS_USD'' 0) (\<lambda>cost.
    Inr \<lparr>lc_mode = mode, lc_timeout_ms = timeout, lc_max_input_bytes = max_input_bytes,
      lc_max_prompt_bytes = max_prompt_bytes, lc_max_output_bytes = max_output_bytes,
      lc_large_input_threshold_bytes = threshold, lc_large_input_policy = policy,
      lc_large_input_summary_target_bytes = max summary_target 1,
      lc_context_retrieval_top_k = max top_k 1, lc_context_retrieval_max_bytes = max retrieval_max 256,
      lc_context_retrieval_chunk_bytes = max chunk 256,
      lc_admission_enabled = read_env_bool env ''LLM_ADMISSION_ENABLED'' True,
      lc_admission_interactive_max_inflight = max adm_interactive 1,
      lc_admission_batch_max_inflight = max adm_batch 1,
      lc_cache_enabled = read_env_bool env ''LLM_CACHE_ENABLED'' False,
      lc_cache_ttl_secs = cache_ttl, lc_cache_max_entries = cache_max,
      lc_distributed_enabled = distributed_enabled,
      lc_distributed_fail_open = read_env_bool env ''LLM_DISTRIBUTED_FAIL_OPEN'' True,
      lc_distributed_owner = owner,
      lc_distributed_admission_enabled = read_env_bool env ''LLM_DISTRIBUTED_ADMISSION_ENABLED'' distributed_enabled,
      lc_distributed_admission_lease_ms = max lease_ms 250,
      lc_distributed_cache_enabled = read_env_bool env ''LLM_DISTRIBUTED_CACHE_ENABLED'' distributed_enabled,
      lc_distributed_cache_namespace_max_entries = namespace_max,
      lc_verifier_enabled = read_env_bool env ''LLM_VERIFIER_ENABLED'' False,
      lc_verifier_mode = verifier_mode, lc_verifier_min_score_pct = max 1 (min min_score 100),
      lc_verifier_escalate_remote = read_env_bool env ''LLM_VERIFIER_ESCALATE_REMOTE'' True,
      lc_verifier_min_response_chars = max min_chars 8, lc_verifier_judge = judge,
      lc_verifier_judge_timeout_ms = max judge_timeout 250,
      lc_verifier_judge_fail_open = read_env_bool env ''LLM_VERIFIER_JUDGE_FAIL_OPEN'' True,
      lc_slo_interactive_max_latency_ms = slo_interactive, lc_slo_batch_max_latency_ms = slo_batch,
      lc_slo_alert_threshold_pct = slo_alert,
      lc_slo_breach_escalate_remote = read_env_bool env ''LLM_SLO_BREACH_ESCALATE_REMOTE'' False,
      lc_local = first_model_endpoint local_models local_base_url local_api_key,
      lc_local_models = local_models,
      lc_local_small = first_model_endpoint local_small_models small_base_url small_key,
      lc_local_small_models = local_small_models, lc_local_interactive_tier = interactive_tier,
      lc_local_batch_tier = batch_tier, lc_remote = remote, lc_remote_models = remote_models,
      lc_remote_egress_enabled = read_env_bool env ''LLM_REMOTE_EGRESS_ENABLED'' False,
      lc_remote_egress_class = egress_class,
      lc_remote_host_allowlist = read_env_csv env ''LLM_REMOTE_HOST_ALLOWLIST'',
      lc_remote_token_budget_per_run = per_run, lc_remote_token_budget_per_tenant = per_tenant,
      lc_remote_token_budget_per_agent = per_agent, lc_remote_token_budget_per_model = per_model,
      lc_remote_token_budget_window_secs = max window 1,
      lc_remote_token_budget_soft_alert_threshold_pct = soft_alert,
      lc_remote_cost_per_1k_tokens_usd = cost\<rparr>))))))))))))))))))))))))))))))))))))))"

section \<open>Routing defaults per channel\<close>

record llm_channel_route_defaults =
  cd_prefer :: "llm_route option"
  cd_request_class :: "llm_request_class option"
  cd_local_tier :: "llm_local_tier option"

type_synonym llm_channel_defaults_config = "string \<rightharpoonup> llm_channel_route_defaults"

definition parse_route_preference :: "string \<Rightarrow> string + llm_route" where
  "parse_route_preference raw =
     (let s = to_ascii_lowercase raw in
      if s = ''local'' then Inr Local
      else if s = ''remote'' then Inr Remote
      else Inl (''invalid llm.infer args.prefer `'' @ s @ ''` (supported: local, remote)''))"

definition normalize_channel_name :: "string \<Rightarrow> string option" where
  "normalize_channel_name raw =
     (let t = trim raw;
          u = trim (case strip_prefix t ''#'' of None \<Rightarrow> t | Some r \<Rightarrow> r)
      in if u = [] then None else Some (to_ascii_lowercase u))"

definition default_channel_defaults :: llm_channel_defaults_config where
  "default_channel_defaults =
     [''general'' \<mapsto> \<lparr>cd_prefer = None, cd_request_class = Some Interactive, cd_local_tier = Some Workhorse\<rparr>,
      ''inbox'' \<mapsto> \<lparr>cd_prefer = None, cd_request_class = Some Interactive, cd_local_tier = Some Small\<rparr>,
      ''monitoring'' \<mapsto> \<lparr>cd_prefer = None, cd_request_class = Some Batch, cd_local_tier = Some Small\<rparr>]"

text \<open>\<open>v.get(k1).or_else(|| v.get(k2))\<close> and the idiom \<open>.and_then(as_str).map(trim).filter(non-empty)\<close>.\<close>

definition get_either :: "json \<Rightarrow> string \<Rightarrow> string \<Rightarrow> json option" where
  "get_either v k1 k2 = (case json_get v k1 of Some x \<Rightarrow> Some x | None \<Rightarrow> json_get v k2)"

definition trimmed_str :: "json option \<Rightarrow> string option" where
  "trimmed_str x = Option.bind (Option.bind x as_str) non_empty_trimmed"

definition parse_channel_defaults_entry :: "string \<Rightarrow> json \<Rightarrow> string + llm_channel_route_defaults" where
  "parse_channel_defaults_entry channel v =
     (case as_object v of
        None \<Rightarrow> Inl (''LLM_CHANNEL_DEFAULTS_JSON.'' @ channel
               @ '' must be an object (or null to disable built-in default)'')
      | Some _ \<Rightarrow>
          try_then (with_context (''invalid LLM channel default `prefer` for channel `'' @ channel @ ''`'')
            (try_map parse_route_preference (trimmed_str (json_get v ''prefer'')))) (\<lambda>prefer.
          try_then (with_context (''invalid LLM channel default `request_class` for channel `'' @ channel @ ''`'')
            (try_map request_class_parse (trimmed_str (get_either v ''request_class'' ''queue_class'')))) (\<lambda>class.
          try_then (with_context (''invalid LLM channel default `local_tier` for `'' @ channel @ ''`'')
            (try_map (\<lambda>raw. local_tier_parse raw ''LLM_CHANNEL_DEFAULTS_JSON.local_tier'')
               (trimmed_str (json_get v ''local_tier'')))) (\<lambda>tier.
          Inr \<lparr>cd_prefer = prefer, cd_request_class = class, cd_local_tier = tier\<rparr>))))"

fun apply_channel_entries ::
    "json_map \<Rightarrow> llm_channel_defaults_config \<Rightarrow> string + llm_channel_defaults_config" where
  "apply_channel_entries [] defaults = Inr defaults"
| "apply_channel_entries ((channel_raw, v) # rest) defaults =
     (case normalize_channel_name channel_raw of
        None \<Rightarrow> apply_channel_entries rest defaults
      | Some channel \<Rightarrow>
          if v = JNull then apply_channel_entries rest (defaults(channel := None))
          else try_then (parse_channel_defaults_entry channel v)
                 (\<lambda>entry. apply_channel_entries rest (defaults(channel \<mapsto> entry))))"

definition resolve_channel_defaults_from_env ::
    "(string \<Rightarrow> json option) \<Rightarrow> env_vars \<Rightarrow> string + llm_channel_defaults_config" where
  "resolve_channel_defaults_from_env from_str env =
     (case read_env_optional_string env ''LLM_CHANNEL_DEFAULTS_JSON'' of
        None \<Rightarrow> Inr default_channel_defaults
      | Some raw \<Rightarrow>
          (case from_str raw of
             None \<Rightarrow> Inl ''invalid JSON in LLM_CHANNEL_DEFAULTS_JSON''
           | Some payload \<Rightarrow>
               (case as_object payload of
                  None \<Rightarrow> Inl ''LLM_CHANNEL_DEFAULTS_JSON must be a JSON object mapping channel->defaults''
                | Some entries \<Rightarrow> apply_channel_entries entries default_channel_defaults)))"

section \<open>What a configuration read from the environment satisfies\<close>

definition models_ok :: "string list \<Rightarrow> bool" where
  "models_ok ms \<longleftrightarrow> distinct ms \<and> list_all (\<lambda>m. m \<noteq> [] \<and> trim m = m) ms"

definition endpoint_of :: "string list \<Rightarrow> llm_endpoint_config option \<Rightarrow> bool" where
  "endpoint_of models ep \<longleftrightarrow>
     (case models of [] \<Rightarrow> ep = None | m # _ \<Rightarrow> (\<exists>e. ep = Some e \<and> ep_model e = m))"

definition config_ok :: "llm_config \<Rightarrow> bool" where
  "config_ok c \<longleftrightarrow>
     lc_max_prompt_bytes c \<le> lc_max_input_bytes c \<and>
     0 < lc_large_input_summary_target_bytes c \<and> 0 < lc_context_retrieval_top_k c \<and>
     256 \<le> lc_context_retrieval_max_bytes c \<and> 256 \<le> lc_context_retrieval_chunk_bytes c \<and>
     0 < lc_admission_interactive_max_inflight c \<and> 0 < lc_admission_batch_max_inflight c \<and>
     lc_verifier_min_score_pct c \<in> {1..100} \<and> 8 \<le> lc_verifier_min_response_chars c \<and>
     (lc_verifier_mode c = ModelJudge \<longrightarrow> lc_verifier_judge c \<noteq> None) \<and>
     pred_option (\<lambda>p. p \<in> {1..100}) (lc_slo_alert_threshold_pct c) \<and>
     pred_option (\<lambda>p. p \<in> {1..100}) (lc_remote_token_budget_soft_alert_threshold_pct c) \<and>
     0 < lc_remote_token_budget_window_secs c \<and>
     models_ok (lc_local_models c) \<and> models_ok (lc_local_small_models c) \<and> models_ok (lc_remote_models c) \<and>
     lc_local c \<noteq> None \<and>
     endpoint_of (lc_local_models c) (lc_local c) \<and>
     endpoint_of (lc_local_small_models c) (lc_local_small c) \<and>
     endpoint_of (lc_remote_models c) (lc_remote c)"

lemma normalize_models_fold:
  "models_ok (rev ms) \<Longrightarrow> models_ok (rev (fold (\<lambda>m ms. case non_empty_trimmed m of
     None \<Rightarrow> ms | Some t \<Rightarrow> if t \<in> set ms then ms else t # ms) raw ms))"
  by (induction raw arbitrary: ms)
    (auto simp: models_ok_def non_empty_trimmed_Some split: option.split)

lemma normalize_model_list_ok: "models_ok (normalize_model_list raw fallback)"
  using normalize_models_fold [of "[]" raw]
  by (auto simp: normalize_model_list_def Let_def models_ok_def non_empty_trimmed_Some split: option.split)

lemma normalize_model_list_Nil: "normalize_model_list raw fallback = [] \<Longrightarrow> trim fallback = []"
  by (auto simp: normalize_model_list_def Let_def non_empty_trimmed_None split: if_splits option.splits)

lemma endpoint_config_fields [simp]:
  "ep_model (endpoint_config u m k) = m" "ep_base_url (endpoint_config u m k) = normalize_base_url u"
  by (simp_all add: endpoint_config_def)

lemma first_model_endpoint_of: "models_ok ms \<Longrightarrow> endpoint_of ms (first_model_endpoint ms u k)"
  by (cases ms) (auto simp: endpoint_of_def first_model_endpoint_def models_ok_def non_empty_trimmed_def)

lemma remote_endpoint_of:
  "remote_endpoint_from_env es env ms = Inr ep \<Longrightarrow> models_ok ms \<Longrightarrow> endpoint_of ms ep"
  by (cases ms) (auto simp: endpoint_of_def remote_endpoint_from_env_def paired_endpoint_def models_ok_def
      non_empty_trimmed_def try_then_Inr split: option.splits if_splits)

lemma read_u8_range: "read_env_u8_optional env key = Inr p \<Longrightarrow> pred_option (\<lambda>p. p \<in> {1..100}) p"
  by (cases p) (auto simp: read_env_u8_optional_def Let_def split: option.splits if_splits)

lemma try_then_InrE:
  assumes "try_then r k = Inr y"
  obtains v where "r = Inr v" and "k v = Inr y"
  using assms by (auto simp: try_then_Inr)

lemma Inr_sym: "Inr a = Inr b \<Longrightarrow> b = a"
  by simp

lemma ok_unlessE:
  assumes "(if b then Inl e else r) = Inr y"
  obtains "\<not> b" and "r = Inr y"
  using assms by (auto split: if_splits)

text \<open>
  A configuration that \<open>LlmConfig::from_env\<close> accepts is well formed, whatever the environment:
  the input limit covers the prompt limit, every clamped bound holds, percentages lie in 1..100, the
  judge is there when the verifier's mode needs it, the local endpoint always exists, each model list
  holds distinct trimmed names, and each endpoint serves the first model of its list.
\<close>

theorem llm_config_from_env_ok:
  assumes "llm_config_from_env es env = Inr c"
  shows "config_ok c"
proof -
  have local: "normalize_model_list raw (unwrap_or (read_env_optional_string env k)
      ''qwen2.5:7b-instruct'') \<noteq> []" for raw k
  proof
    assume "normalize_model_list raw (unwrap_or (read_env_optional_string env k)
      ''qwen2.5:7b-instruct'') = []"
    from normalize_model_list_Nil [OF this] have "trim ''qwen2.5:7b-instruct'' = []"
      by (auto simp: unwrap_or_def read_env_optional_string_def non_empty_trimmed_Some
          split: option.splits Option.bind_splits)
    moreover have "trim ''qwen2.5:7b-instruct'' \<noteq> []" by code_simp
    ultimately show False by simp
  qed
  have some: "first_model_endpoint ms u k \<noteq> None" if "models_ok ms" "ms \<noteq> []" for ms u k
    using that first_model_endpoint_of [of ms u k] by (auto simp: endpoint_of_def split: list.splits)
  from assms show ?thesis
    unfolding llm_config_from_env_def Let_def
    by - (elim try_then_InrE ok_unlessE, drule Inr_sym,
      simp add: config_ok_def normalize_model_list_ok first_model_endpoint_of remote_endpoint_of
        read_u8_range [unfolded atLeastAtMost_iff One_nat_def] less_max_iff_disj local some)
qed

definition no_env_services :: env_services where
  "no_env_services = \<lparr>es_secret = \<lambda>_ _. Inr None, es_parse_f64 = \<lambda>_. None, es_process_id = ''1''\<rparr>"

theorem llm_config_from_env_ok_witness:
  "\<exists>c. llm_config_from_env no_env_services Map.empty = Inr c \<and> config_ok c"
proof -
  have "mode_parse ''local_first'' = Inr LocalFirst"
      "large_input_policy_parse ''summarize_first'' = Inr SummarizeFirst"
      "verifier_mode_parse ''heuristic'' = Inr Heuristic" "egress_class_parse ''cloud_allowed'' = Inr CloudAllowed"
      "local_tier_parse ''workhorse'' k = Inr Workhorse" for k
    by (code_simp, code_simp, code_simp, code_simp) (simp add: local_tier_parse_def, code_simp)
  then have "\<exists>c. llm_config_from_env no_env_services Map.empty = Inr c"
    by (simp add: llm_config_from_env_def no_env_services_def read_env_or_def read_env_u64_def
        read_env_u64_optional_def read_env_u8_optional_def read_env_f64_def remote_endpoint_from_env_def
        judge_endpoint_from_env_def paired_endpoint_def read_env_optional_string_def read_env_csv_def
        normalize_model_list_def unwrap_or_def non_empty_trimmed_def Let_def
        trim_def trim_start_def trim_end_def drop_seqs.simps white_space_def)
  then show ?thesis using llm_config_from_env_ok by blast
qed

end
