(* ===== verification/LlmRouting.thy ===== *)
theory LlmRouting
  imports LlmConfig
begin

text \<open>
  From the arguments of an \<open>llm.infer\<close> action to the endpoint that serves it (\<open>worker/src/llm.rs\<close>): the
  parsed arguments, the prompt plan, the choice of route, tier and model, the scope that policy
  judges, and the egress policy of the remote route.
\<close>

section \<open>Arguments\<close>

text \<open>
  A temperature is kept as the JSON number it is converted from; the conversion to \<open>f32\<close> happens
  where it is printed or sent.
\<close>

record llm_infer_action_args =
  ia_prompt :: string
  ia_channel :: "string option"
  ia_system :: "string option"
  ia_prefer :: "llm_route option"
  ia_prefer_explicit :: bool
  ia_request_class :: llm_request_class
  ia_request_class_explicit :: bool
  ia_local_tier :: "llm_local_tier option"
  ia_local_tier_explicit :: bool
  ia_model :: "string option"
  ia_large_input_policy :: "llm_large_input_policy option"
  ia_redacted :: bool
  ia_context_documents :: "llm_context_document list"
  ia_context_query :: "string option"
  ia_context_top_k :: "nat option"
  ia_context_max_bytes :: "nat option"
  ia_verifier_required :: bool
  ia_max_tokens :: "nat option"
  ia_temperature :: "json_num option"

fun parse_documents_from :: "nat \<Rightarrow> json list \<Rightarrow> llm_context_document list" where
  "parse_documents_from idx [] = []"
| "parse_documents_from idx (item # items) =
     (case trimmed_str (json_get item ''text'') of
        None \<Rightarrow> parse_documents_from (idx + 1) items
      | Some t \<Rightarrow>
          (let src = (case get_either item ''id'' ''path'' of
                        Some x \<Rightarrow> Some x | None \<Rightarrow> json_get item ''source'');
               i = (case trimmed_str src of
                      Some v \<Rightarrow> v | None \<Rightarrow> ''doc-'' @ nat_to_string (idx + 1))
           in context_document i t # parse_documents_from (idx + 1) items))"

definition parse_context_documents :: "json option \<Rightarrow> llm_context_document list" where
  "parse_context_documents v =
     (case Option.bind v as_array of None \<Rightarrow> [] | Some items \<Rightarrow> parse_documents_from 0 items)"

definition u32_max :: nat where "u32_max = 2 ^ 32 - 1"

fun as_number :: "json \<Rightarrow> json_num option" where
  "as_number (JNumber n) = Some n"
| "as_number _ = None"

definition clamp_to :: "nat \<Rightarrow> nat \<Rightarrow> nat \<Rightarrow> nat" where
  "clamp_to lo hi n = max lo (min n hi)"

definition parse_action_args :: "json \<Rightarrow> nat \<Rightarrow> string + llm_infer_action_args" where
  "parse_action_args args max_input_bytes =
    (case trimmed_str (json_get args ''prompt'') of
       None \<Rightarrow> Inl ''llm.infer args.prompt is required''
     | Some prompt \<Rightarrow>
        if max_input_bytes < length prompt
        then Inl (''llm.infer prompt exceeded '' @ nat_to_string max_input_bytes @ '' bytes'')
        else
          let prefer_raw = trimmed_str (json_get args ''prefer'');
              class_raw = trimmed_str (get_either args ''request_class'' ''queue_class'');
              tier_raw = trimmed_str (json_get args ''local_tier'')
          in
          try_then (try_map parse_route_preference prefer_raw) (\<lambda>prefer.
          try_then (try_map request_class_parse class_raw) (\<lambda>class.
          try_then (try_map (\<lambda>raw. local_tier_parse raw ''llm.infer args.local_tier'') tier_raw) (\<lambda>tier.
          try_then (try_map large_input_policy_parse (get_str args ''large_input_policy'')) (\<lambda>policy.
          Inr \<lparr>ia_prompt = prompt,
               ia_channel = Option.bind (Option.bind (get_either args ''channel'' ''llm_channel'') as_str)
                              normalize_channel_name,
               ia_system = trimmed_str (json_get args ''system''),
               ia_prefer = prefer, ia_prefer_explicit = (prefer_raw \<noteq> None),
               ia_request_class = unwrap_or class Interactive,
               ia_request_class_explicit = (class_raw \<noteq> None),
               ia_local_tier = tier, ia_local_tier_explicit = (tier_raw \<noteq> None),
               ia_model = trimmed_str (json_get args ''model''),
               ia_large_input_policy = policy,
               ia_redacted = unwrap_or (get_bool args ''redacted'') False,
               ia_context_documents = parse_context_documents (json_get args ''context_documents''),
               ia_context_query = trimmed_str (json_get args ''context_query''),
               ia_context_top_k = map_option (\<lambda>n. clamp_to 1 32 (unat n)) (get_u64 args ''context_top_k''),
               ia_context_max_bytes =
                 map_option (\<lambda>n. clamp_to 256 (512 * 1024) (unat n)) (get_u64 args ''context_max_bytes''),
               ia_verifier_required =
                 unwrap_or (Option.bind (get_either args ''verify'' ''verifier_required'') as_bool) False,
               ia_max_tokens = map_option (\<lambda>n. min (unat n) u32_max) (get_u64 args ''max_tokens''),
               ia_temperature = Option.bind (json_get args ''temperature'') as_number\<rparr>)))))"

section \<open>The prompt plan\<close>

record llm_prompt_plan =
  pl_prompt :: string
  pl_channel :: "string option"
  pl_channel_defaults_applied :: bool
  pl_prefer :: "llm_route option"
  pl_request_class :: llm_request_class
  pl_local_tier :: "llm_local_tier option"
  pl_model :: "string option"
  pl_large_input_policy :: llm_large_input_policy
  pl_large_input_applied :: bool
  pl_large_input_reason_code :: string
  pl_prompt_bytes_original :: nat
  pl_prompt_bytes_effective :: nat
  pl_retrieval_candidate_documents :: nat
  pl_retrieval_selected_documents :: nat

record retrieval_output =
  ro_prompt :: string
  ro_candidate_documents :: nat
  ro_selected_documents :: nat
  ro_reason_code :: string

definition build_retrieved_prompt :: "llm_infer_action_args \<Rightarrow> llm_config \<Rightarrow> retrieval_output" where
  "build_retrieved_prompt parsed cfg =
     (let top_k = clamp_to 1 32 (unwrap_or (ia_context_top_k parsed) (lc_context_retrieval_top_k cfg));
          max_bytes = max (unwrap_or (ia_context_max_bytes parsed) (lc_context_retrieval_max_bytes cfg)) 256;
          query = unwrap_or (ia_context_query parsed) (ia_prompt parsed);
          docs = (if ia_context_documents parsed = []
                  then split_text_chunks (ia_prompt parsed) (lc_context_retrieval_chunk_bytes cfg)
                  else ia_context_documents parsed);
          selected = rank_and_select_documents query docs top_k max_bytes
      in \<lparr>ro_prompt = build_retrieval_prompt (truncate_text_for_budget query 1024) selected max_bytes,
          ro_candidate_documents = length docs, ro_selected_documents = length selected,
          ro_reason_code = (if ia_context_documents parsed = []
            then ''large_input_chunk_retrieve_prompt'' else ''large_input_chunk_retrieve_documents'')\<rparr>)"

text \<open>What the channel's defaults fill in where the arguments say nothing.\<close>

definition prefer_with :: "llm_channel_route_defaults option \<Rightarrow> llm_infer_action_args \<Rightarrow> llm_route option" where
  "prefer_with pol parsed =
     (case Option.bind pol cd_prefer of
        Some r \<Rightarrow> if ia_prefer_explicit parsed then ia_prefer parsed else Some r
      | None \<Rightarrow> ia_prefer parsed)"

definition class_with :: "llm_channel_route_defaults option \<Rightarrow> llm_infer_action_args \<Rightarrow> llm_request_class" where
  "class_with pol parsed =
     (case Option.bind pol cd_request_class of
        Some c \<Rightarrow> if ia_request_class_explicit parsed then ia_request_class parsed else c
      | None \<Rightarrow> ia_request_class parsed)"

definition tier_with :: "llm_channel_route_defaults option \<Rightarrow> llm_infer_action_args \<Rightarrow> llm_local_tier option" where
  "tier_with pol parsed =
     (case Option.bind pol cd_local_tier of
        Some t \<Rightarrow> if ia_local_tier_explicit parsed then ia_local_tier parsed else Some t
      | None \<Rightarrow> ia_local_tier parsed)"

definition defaults_applied :: "llm_channel_route_defaults option \<Rightarrow> llm_infer_action_args \<Rightarrow> bool" where
  "defaults_applied pol parsed \<longleftrightarrow>
     \<not> ia_prefer_explicit parsed \<and> Option.bind pol cd_prefer \<noteq> None \<or>
     \<not> ia_request_class_explicit parsed \<and> Option.bind pol cd_request_class \<noteq> None \<or>
     \<not> ia_local_tier_explicit parsed \<and> Option.bind pol cd_local_tier \<noteq> None"

text \<open>
  The large-input step: prompt, whether a policy applied, its reason, the two document counts, and
  whether the route is forced to remote.
\<close>

definition large_input_step ::
    "llm_infer_action_args \<Rightarrow> llm_config \<Rightarrow> string \<times> bool \<times> string \<times> nat \<times> nat \<times> bool" where
  "large_input_step parsed cfg =
     (let prompt = ia_prompt parsed;
          policy = unwrap_or (ia_large_input_policy parsed) (lc_large_input_policy cfg);
          r = build_retrieved_prompt parsed cfg
      in if lc_large_input_threshold_bytes cfg < length prompt
         then (case policy of
                 Direct \<Rightarrow> (prompt, False, ''large_input_direct'', 0, 0, False)
               | SummarizeFirst \<Rightarrow>
                   (summarize_text_for_budget prompt (lc_large_input_summary_target_bytes cfg), True,
                    ''large_input_summarize_first'', 0, 0, False)
               | ChunkAndRetrieve \<Rightarrow>
                   (ro_prompt r, True, ro_reason_code r, ro_candidate_documents r, ro_selected_documents r, False)
               | EscalateRemote \<Rightarrow> (prompt, True, ''large_input_escalate_remote'', 0, 0, True))
         else if ia_context_documents parsed \<noteq> []
         then (ro_prompt r, True, ''context_retrieval_applied'', ro_candidate_documents r,
               ro_selected_documents r, False)
         else (prompt, False, ''direct'', 0, 0, False))"

definition build_prompt_plan ::
    "(string + llm_channel_defaults_config) \<Rightarrow> llm_infer_action_args \<Rightarrow> llm_config \<Rightarrow> string + llm_prompt_plan" where
  "build_prompt_plan channel_defaults parsed cfg =
     try_then channel_defaults (\<lambda>defaults.
       let pol = Option.bind (ia_channel parsed) defaults;
           (prompt, applied, reason, candidates, selected, to_remote) = large_input_step parsed cfg;
           trimmed = lc_max_prompt_bytes cfg < length prompt;
           prompt' = (if trimmed then summarize_text_for_budget prompt (lc_max_prompt_bytes cfg) else prompt);
           reason' = (if trimmed \<and> (reason = ''direct'' \<or> reason = ''large_input_direct'')
                      then ''prompt_trimmed_to_budget'' else reason)
       in if trim prompt' = []
          then Inl ''llm.infer prompt became empty after large-input policy processing''
          else Inr \<lparr>pl_prompt = prompt', pl_channel = ia_channel parsed,
                 pl_channel_defaults_applied = defaults_applied pol parsed,
                 pl_prefer = (if to_remote then Some Remote else prefer_with pol parsed),
                 pl_request_class = class_with pol parsed, pl_local_tier = tier_with pol parsed,
                 pl_model = ia_model parsed,
                 pl_large_input_policy = unwrap_or (ia_large_input_policy parsed) (lc_large_input_policy cfg),
                 pl_large_input_applied = (applied \<or> trimmed), pl_large_input_reason_code = reason',
                 pl_prompt_bytes_original = length (ia_prompt parsed),
                 pl_prompt_bytes_effective = length prompt',
                 pl_retrieval_candidate_documents = candidates,
                 pl_retrieval_selected_documents = selected\<rparr>)"

section \<open>Route, endpoint and model\<close>

record route_decision =
  rd_route :: llm_route
  rd_reason_code :: string

definition decide :: "llm_route \<Rightarrow> string \<Rightarrow> string + route_decision" where
  "decide r reason = Inr \<lparr>rd_route = r, rd_reason_code = reason\<rparr>"

definition select_route_with_reason :: "llm_config \<Rightarrow> llm_route option \<Rightarrow> string + route_decision" where
  "select_route_with_reason cfg prefer =
     (case lc_mode cfg of
        LocalOnly \<Rightarrow>
          if lc_local cfg = None then Inl ''LLM_MODE=local_only but local model is not configured''
          else if prefer = Some Remote
            then Inl ''llm.infer prefer=remote is not allowed when LLM_MODE=local_only''
          else decide Local ''mode_local_only''
      | RemoteOnly \<Rightarrow>
          if lc_remote cfg = None then Inl ''LLM_MODE=remote_only but remote model is not configured''
          else if prefer = Some Local
            then Inl ''llm.infer prefer=local is not allowed when LLM_MODE=remote_only''
          else decide Remote ''mode_remote_only''
      | LocalFirst \<Rightarrow>
          if prefer = Some Remote \<and> lc_remote cfg \<noteq> None then decide Remote ''prefer_remote_local_first''
          else if lc_local cfg \<noteq> None then decide Local ''local_first_default_local''
          else if lc_remote cfg \<noteq> None then decide Remote ''local_unavailable_remote_fallback''
          else Inl ''no LLM endpoint is configured (set local and/or remote endpoint env vars)'')"

definition resolve_default_local_tier :: "llm_request_class \<Rightarrow> llm_config \<Rightarrow> llm_local_tier" where
  "resolve_default_local_tier class cfg =
     (case class of Interactive \<Rightarrow> lc_local_interactive_tier cfg | Batch \<Rightarrow> lc_local_batch_tier cfg)"

definition select_model_for_route ::
    "llm_route \<Rightarrow> llm_local_tier option \<Rightarrow> string option \<Rightarrow> string list \<Rightarrow> string list \<Rightarrow> string list \<Rightarrow>
     string \<Rightarrow> string + string" where
  "select_model_for_route route tier requested local_models small_models remote_models default_model =
     (let allowed = (case route of
            Local \<Rightarrow> (case tier of Some Small \<Rightarrow> small_models | _ \<Rightarrow> local_models)
          | Remote \<Rightarrow> remote_models)
      in case Option.bind requested non_empty_trimmed of
           Some raw \<Rightarrow>
             if allowed = [] \<and> default_model = raw then Inr raw
             else if raw \<in> set allowed then Inr raw
             else Inl (''llm.infer args.model `'' @ raw @ ''` is not permitted for route `''
                    @ route_as_str route @ ''`'')
         | None \<Rightarrow>
             (case allowed of
                m # _ \<Rightarrow> Inr m
              | [] \<Rightarrow> if default_model \<noteq> [] then Inr default_model
                      else Inl (''no model configured for route `'' @ route_as_str route
                             @ ''` and no fallback model exists'')))"

record route_endpoint_selection =
  rs_endpoint :: llm_endpoint_config
  rs_local_tier_requested :: "llm_local_tier option"
  rs_local_tier_selected :: "llm_local_tier option"
  rs_local_tier_reason_code :: "string option"

text \<open>The tier that serves a local request: the requested one if it is configured, else the other.\<close>

definition pick_local_tier ::
    "llm_config \<Rightarrow> llm_local_tier \<Rightarrow> string + llm_local_tier \<times> llm_endpoint_config \<times> string" where
  "pick_local_tier cfg requested =
     (let none = Inl ''local route selected but no local endpoint is configured'' in
      case requested of
        Small \<Rightarrow>
          (case lc_local_small cfg of
             Some e \<Rightarrow> Inr (Small, e, ''local_tier_small'')
           | None \<Rightarrow> (case lc_local cfg of
               Some e \<Rightarrow> Inr (Workhorse, e, ''local_tier_small_fallback_workhorse'') | None \<Rightarrow> none))
      | Workhorse \<Rightarrow>
          (case lc_local cfg of
             Some e \<Rightarrow> Inr (Workhorse, e, ''local_tier_workhorse'')
           | None \<Rightarrow> (case lc_local_small cfg of
               Some e \<Rightarrow> Inr (Small, e, ''local_tier_workhorse_fallback_small'') | None \<Rightarrow> none)))"

definition select_endpoint_for_route ::
    "llm_config \<Rightarrow> llm_route \<Rightarrow> llm_prompt_plan \<Rightarrow> bool \<Rightarrow> string + route_endpoint_selection" where
  "select_endpoint_for_route cfg route plan allow_model_override =
     (let with_model = (\<lambda>tier e. if allow_model_override
            then try_then (select_model_for_route route tier (pl_model plan) (lc_local_models cfg)
                   (lc_local_small_models cfg) (lc_remote_models cfg) (ep_model e))
                   (\<lambda>m. Inr (e\<lparr>ep_model := m\<rparr>))
            else Inr e)
      in case route of
           Local \<Rightarrow>
             (let requested = unwrap_or (pl_local_tier plan)
                    (resolve_default_local_tier (pl_request_class plan) cfg) in
              try_then (pick_local_tier cfg requested) (\<lambda>(tier, e, reason).
              try_then (with_model (Some tier) e) (\<lambda>e'.
              Inr \<lparr>rs_endpoint = e', rs_local_tier_requested = Some requested,
                   rs_local_tier_selected = Some tier, rs_local_tier_reason_code = Some reason\<rparr>)))
         | Remote \<Rightarrow>
             (case lc_remote cfg of
                None \<Rightarrow> Inl ''remote route selected but remote endpoint is not configured''
              | Some e \<Rightarrow>
                  try_then (with_model None e) (\<lambda>e'.
                  Inr \<lparr>rs_endpoint = e', rs_local_tier_requested = None,
                       rs_local_tier_selected = None, rs_local_tier_reason_code = None\<rparr>)))"

section \<open>Scope and egress\<close>

text \<open>The scope of an \<open>llm.infer\<close> action: what the worker's policy check compares with the grants.\<close>

definition scope_of :: "llm_route \<Rightarrow> string \<Rightarrow> string" where
  "scope_of route model = route_as_str route @ '':'' @ model"

definition policy_scope_for_action ::
    "(string + llm_channel_defaults_config) \<Rightarrow> json \<Rightarrow> llm_config \<Rightarrow> string + string" where
  "policy_scope_for_action channel_defaults args cfg =
     try_then (parse_action_args args (lc_max_input_bytes cfg)) (\<lambda>parsed.
     try_then (build_prompt_plan channel_defaults parsed cfg) (\<lambda>plan.
     try_then (select_route_with_reason cfg (pl_prefer plan)) (\<lambda>d.
     try_then (select_endpoint_for_route cfg (rd_route d) plan True) (\<lambda>s.
     Inr (scope_of (rd_route d) (ep_model (rs_endpoint s)))))))"

text \<open>
  \<open>url_host\<close> is \<open>Url::parse\<close> followed by \<open>host_str\<close>: an error, or the host if the URL has one.
\<close>

definition enforce_remote_egress_policy ::
    "(string \<Rightarrow> string option option) \<Rightarrow> llm_route \<Rightarrow> llm_endpoint_config \<Rightarrow> llm_config \<Rightarrow>
     llm_infer_action_args \<Rightarrow> string + string option" where
  "enforce_remote_egress_policy url_host route e cfg args =
     (if route \<noteq> Remote then Inr None
      else if lc_remote_egress_class cfg = NeverLeavesPrem
        then Inl ''llm.infer remote route blocked: LLM_REMOTE_EGRESS_CLASS=never_leaves_prem''
      else if lc_remote_egress_class cfg = RedactedOnly \<and> \<not> ia_redacted args
        then Inl ''llm.infer remote route blocked: LLM_REMOTE_EGRESS_CLASS=redacted_only requires args.redacted=true''
      else if \<not> lc_remote_egress_enabled cfg
        then Inl ''llm.infer remote route blocked: LLM_REMOTE_EGRESS_ENABLED is not enabled''
      else if lc_remote_host_allowlist cfg = []
        then Inl ''llm.infer remote route blocked: LLM_REMOTE_HOST_ALLOWLIST is empty''
      else case url_host (ep_base_url e) of
             None \<Rightarrow> Inl (''invalid remote base URL `'' @ ep_base_url e @ ''`'')
           | Some None \<Rightarrow> Inl (''remote base URL missing host: '' @ ep_base_url e)
           | Some (Some host) \<Rightarrow>
               if list_ex (\<lambda>allowed. eq_ignore_ascii_case allowed host) (lc_remote_host_allowlist cfg)
               then Inr (Some host)
               else Inl (''llm.infer remote host `'' @ host @ ''` is not allowlisted''))"

section \<open>The prompt sent\<close>

definition args_utf8 :: "llm_infer_action_args \<Rightarrow> bool" where
  "args_utf8 a \<longleftrightarrow> utf8 (ia_prompt a) \<and> pred_option utf8 (ia_context_query a) \<and> docs_utf8 (ia_context_documents a)"

lemma build_retrieved_prompt_utf8: "args_utf8 a \<Longrightarrow> utf8 (ro_prompt (build_retrieved_prompt a cfg))"
  by (cases "ia_context_query a")
    (auto simp: build_retrieved_prompt_def Let_def args_utf8_def unwrap_or_def intro!: text_ok)

lemma large_input_step_utf8:
  "large_input_step a cfg = (prompt, rest) \<Longrightarrow> args_utf8 a \<Longrightarrow> utf8 prompt"
  by (auto simp: large_input_step_def Let_def build_retrieved_prompt_utf8 args_utf8_def
      split: if_splits llm_large_input_policy.splits intro: text_ok)

lemma retrieved_documents: "ro_selected_documents (build_retrieved_prompt a cfg) \<le> 32"
proof -
  let ?k = "clamp_to 1 32 (unwrap_or (ia_context_top_k a) (lc_context_retrieval_top_k cfg))"
  have "length (rank_and_select_documents q ds ?k m) \<le> 32" for q ds m
    using rank_and_select_count [of q ds ?k m] by (simp add: clamp_to_def)
  then show ?thesis by (simp add: build_retrieved_prompt_def Let_def)
qed

lemma large_input_step_documents:
  "large_input_step a cfg = (prompt, applied, reason, candidates, selected, r) \<Longrightarrow> selected \<le> 32"
  using retrieved_documents
  by (auto simp: large_input_step_def Let_def split: if_splits llm_large_input_policy.splits)

section \<open>The endpoint chosen\<close>

definition route_models :: "llm_config \<Rightarrow> llm_route \<Rightarrow> string set" where
  "route_models cfg route =
     (case route of Local \<Rightarrow> set (lc_local_models cfg) \<union> set (lc_local_small_models cfg)
      | Remote \<Rightarrow> set (lc_remote_models cfg))"

text \<open>The endpoints of a route in the configuration, whatever model is asked of them.\<close>

definition route_endpoints :: "llm_config \<Rightarrow> llm_route \<Rightarrow> llm_endpoint_config set" where
  "route_endpoints cfg route =
     (case route of Local \<Rightarrow> set_option (lc_local cfg) \<union> set_option (lc_local_small cfg)
      | Remote \<Rightarrow> set_option (lc_remote cfg))"

lemma pick_local_tier_Inr:
  "pick_local_tier cfg q = Inr (tier, e, reason) \<Longrightarrow>
     (tier = Small \<and> lc_local_small cfg = Some e) \<or> (tier = Workhorse \<and> lc_local cfg = Some e)"
  by (auto simp: pick_local_tier_def Let_def split: llm_local_tier.splits option.splits)

lemma select_model_allowed:
  assumes "select_model_for_route route tier req lm sm rm d = Inr m"
  shows "m \<in> set (case route of Local \<Rightarrow> (case tier of Some Small \<Rightarrow> sm | _ \<Rightarrow> lm) | Remote \<Rightarrow> rm) \<or>
    (case route of Local \<Rightarrow> (case tier of Some Small \<Rightarrow> sm | _ \<Rightarrow> lm) | Remote \<Rightarrow> rm) = [] \<and> m = d"
  using assms unfolding select_model_for_route_def Let_def
  by (auto split: option.splits if_splits list.splits)

lemma endpoint_of_Some: "endpoint_of ms (Some e) \<Longrightarrow> ep_model e \<in> set ms"
  by (auto simp: endpoint_of_def split: list.splits)

lemma select_endpoint_Inr:
  assumes "select_endpoint_for_route cfg route plan ov = Inr s" and "config_ok cfg"
  shows "ep_model (rs_endpoint s) \<in> route_models cfg route \<and>
    (\<exists>e \<in> route_endpoints cfg route. rs_endpoint s = e\<lparr>ep_model := ep_model (rs_endpoint s)\<rparr> \<and>
       (\<not> ov \<longrightarrow> rs_endpoint s = e))"
proof -
  have ok: "endpoint_of (lc_local_models cfg) (lc_local cfg)"
      "endpoint_of (lc_local_small_models cfg) (lc_local_small cfg)"
      "endpoint_of (lc_remote_models cfg) (lc_remote cfg)"
    using assms(2) by (simp_all add: config_ok_def)
  show ?thesis
  proof (cases route)
    case Local
    with assms(1) obtain q tier e reason where
      t: "pick_local_tier cfg q = Inr (tier, e, reason)" and
      m: "ov \<and> (\<exists>m. select_model_for_route Local (Some tier) (pl_model plan) (lc_local_models cfg)
          (lc_local_small_models cfg) (lc_remote_models cfg) (ep_model e) = Inr m \<and>
          rs_endpoint s = e\<lparr>ep_model := m\<rparr>) \<or> \<not> ov \<and> rs_endpoint s = e"
      by (auto simp: select_endpoint_for_route_def Let_def try_then_Inr split: if_splits)
    from pick_local_tier_Inr [OF t] m ok show ?thesis
      by (auto simp: Local route_models_def route_endpoints_def dest!: select_model_allowed endpoint_of_Some)
  next
    case Remote
    with assms(1) obtain e where
      t: "lc_remote cfg = Some e" and
      m: "ov \<and> (\<exists>m. select_model_for_route Remote None (pl_model plan) (lc_local_models cfg)
          (lc_local_small_models cfg) (lc_remote_models cfg) (ep_model e) = Inr m \<and>
          rs_endpoint s = e\<lparr>ep_model := m\<rparr>) \<or> \<not> ov \<and> rs_endpoint s = e"
      by (auto simp: select_endpoint_for_route_def Let_def try_then_Inr split: if_splits option.splits)
    from t m ok show ?thesis
      by (auto simp: Remote route_models_def route_endpoints_def dest!: select_model_allowed endpoint_of_Some)
  qed
qed

lemma scope_of_inject: "scope_of r m = scope_of r' m' \<longleftrightarrow> r = r' \<and> m = m'"
  by (cases r; cases r') (auto simp: scope_of_def)

lemma scope_of_prefix: "starts_with (scope_of r m) ''local:'' \<longleftrightarrow> r = Local"
  "starts_with (scope_of r m) ''remote:'' \<longleftrightarrow> r = Remote"
  by (cases r; simp add: scope_of_def starts_with_iff)+

section \<open>Properties\<close>

text \<open>
  The prompt sent is bounded and whole: whatever the arguments, documents and large-input policy,
  a prompt plan holds a prompt that is not blank, takes at most \<open>max_prompt_bytes\<close> bytes (64 if that is
  smaller), is valid UTF-8, so that no slice of the shaping code cuts a character, and names its own
  size; at most 32 documents are selected.
\<close>

theorem prompt_plan_bounds:
  assumes "build_prompt_plan channel_defaults parsed cfg = Inr plan" and "args_utf8 parsed"
  shows "trim (pl_prompt plan) \<noteq> [] \<and> length (pl_prompt plan) \<le> max (lc_max_prompt_bytes cfg) 64 \<and>
    utf8 (pl_prompt plan) \<and> pl_prompt_bytes_effective plan = length (pl_prompt plan) \<and>
    pl_prompt_bytes_original plan = length (ia_prompt parsed) \<and> pl_retrieval_selected_documents plan \<le> 32"
proof -
  obtain prompt applied reason candidates selected r where
    step: "large_input_step parsed cfg = (prompt, applied, reason, candidates, selected, r)"
    by (metis prod_cases6)
  note facts = large_input_step_utf8 [OF step assms(2)] large_input_step_documents [OF step]
  from assms(1) facts show ?thesis
    using summarize_length [of prompt "lc_max_prompt_bytes cfg"] summarize_utf8 [OF facts(1)]
    by (auto simp: build_prompt_plan_def step try_then_Inr Let_def max_def split: if_splits)
qed

definition sample_llm_args :: llm_infer_action_args where
  "sample_llm_args = \<lparr>ia_prompt = ''hello'', ia_channel = None, ia_system = None, ia_prefer = None,
     ia_prefer_explicit = False, ia_request_class = Interactive, ia_request_class_explicit = False,
     ia_local_tier = None, ia_local_tier_explicit = False, ia_model = None, ia_large_input_policy = None,
     ia_redacted = False, ia_context_documents = [], ia_context_query = None, ia_context_top_k = None,
     ia_context_max_bytes = None, ia_verifier_required = True, ia_max_tokens = None, ia_temperature = None\<rparr>"

definition sample_local :: llm_endpoint_config where
  "sample_local = \<lparr>ep_base_url = ''http://localhost:11434/v1'', ep_model = ''small-model'', ep_api_key = None\<rparr>"

definition sample_remote :: llm_endpoint_config where
  "sample_remote = \<lparr>ep_base_url = ''https://api.remote/v1'', ep_model = ''big-model'', ep_api_key = Some ''k''\<rparr>"

text \<open>Both endpoints configured, remote egress open to the remote host, no remote tokens to spend.\<close>

definition sample_llm_config :: llm_config where
  "sample_llm_config = \<lparr>lc_mode = LocalFirst, lc_timeout_ms = 12000, lc_max_input_bytes = 262144,
     lc_max_prompt_bytes = 32000, lc_max_output_bytes = 64000, lc_large_input_threshold_bytes = 12000,
     lc_large_input_policy = SummarizeFirst, lc_large_input_summary_target_bytes = 16000,
     lc_context_retrieval_top_k = 6, lc_context_retrieval_max_bytes = 32000,
     lc_context_retrieval_chunk_bytes = 2048, lc_admission_enabled = True,
     lc_admission_interactive_max_inflight = 8, lc_admission_batch_max_inflight = 2,
     lc_cache_enabled = False, lc_cache_ttl_secs = 300, lc_cache_max_entries = 1024,
     lc_distributed_enabled = False, lc_distributed_fail_open = True, lc_distributed_owner = ''w'',
     lc_distributed_admission_enabled = False, lc_distributed_admission_lease_ms = 30000,
     lc_distributed_cache_enabled = False, lc_distributed_cache_namespace_max_entries = 4096,
     lc_verifier_enabled = False, lc_verifier_mode = Heuristic, lc_verifier_min_score_pct = 65,
     lc_verifier_escalate_remote = True, lc_verifier_min_response_chars = 48, lc_verifier_judge = None,
     lc_verifier_judge_timeout_ms = 4000, lc_verifier_judge_fail_open = True,
     lc_slo_interactive_max_latency_ms = None, lc_slo_batch_max_latency_ms = None,
     lc_slo_alert_threshold_pct = None, lc_slo_breach_escalate_remote = False,
     lc_local = Some sample_local, lc_local_models = [''small-model''], lc_local_small = None,
     lc_local_small_models = [], lc_local_interactive_tier = Workhorse, lc_local_batch_tier = Workhorse,
     lc_remote = Some sample_remote, lc_remote_models = [''big-model''], lc_remote_egress_enabled = True,
     lc_remote_egress_class = CloudAllowed, lc_remote_host_allowlist = [''api.remote''],
     lc_remote_token_budget_per_run = Some 0, lc_remote_token_budget_per_tenant = Some 0,
     lc_remote_token_budget_per_agent = None, lc_remote_token_budget_per_model = None,
     lc_remote_token_budget_window_secs = 86400, lc_remote_token_budget_soft_alert_threshold_pct = None,
     lc_remote_cost_per_1k_tokens_usd = 0\<rparr>"

definition sample_plan :: llm_prompt_plan where
  "sample_plan = \<lparr>pl_prompt = ''hello'', pl_channel = None, pl_channel_defaults_applied = False,
     pl_prefer = None, pl_request_class = Interactive, pl_local_tier = None, pl_model = None,
     pl_large_input_policy = SummarizeFirst, pl_large_input_applied = False,
     pl_large_input_reason_code = ''direct'', pl_prompt_bytes_original = 5, pl_prompt_bytes_effective = 5,
     pl_retrieval_candidate_documents = 0, pl_retrieval_selected_documents = 0\<rparr>"

lemma sample_plan_built:
  "build_prompt_plan (Inr default_channel_defaults) sample_llm_args sample_llm_config = Inr sample_plan"
proof -
  have "trim ''hello'' = ''hello''" by code_simp
  then show ?thesis
    by (simp add: build_prompt_plan_def large_input_step_def sample_llm_args_def sample_llm_config_def
        sample_plan_def Let_def unwrap_or_def defaults_applied_def prefer_with_def class_with_def tier_with_def)
qed

theorem prompt_plan_bounds_witness:
  "trim (pl_prompt sample_plan) \<noteq> [] \<and> length (pl_prompt sample_plan) \<le> 32000 \<and> utf8 (pl_prompt sample_plan)"
proof -
  have "utf8 ''hello''" by code_simp
  then have "args_utf8 sample_llm_args" by (simp add: args_utf8_def sample_llm_args_def)
  from prompt_plan_bounds [OF sample_plan_built this] show ?thesis
    by (simp add: sample_llm_config_def)
qed

end
