(* ===== verification/RunStore.thy ===== *)
theory RunStore
  imports Prelude "HOL-Library.Product_Lexorder"
begin

text \<open>
  The \<open>runs\<close> table and the scheduler leases, as the statements of \<open>core/src/db.rs\<close>
  (PostgreSQL) and \<open>core/src/db_dual.rs\<close>, \<open>core/src/db_worker_dual.rs\<close> (SQLite) read and write
  them: creating runs (with and without a semantic deduplication key), claiming the next queued
  run under in-flight caps, renewing a lease, finishing a run, requeueing expired runs.

  A table is the list of its rows in storage order; a statement is one atomic function of it.
  Time is in milliseconds. A statement reads the clock \<open>now\<close> it is given: \<open>now()\<close> in
  PostgreSQL. SQLite compares \<open>datetime(...)\<close> texts, which have whole seconds: \<open>secs\<close>. Rows
  that tie in an \<open>ORDER BY\<close> keep their storage order. Identifiers (\<open>Uuid\<close>) are strings.
\<close>

section \<open>Rows and statements\<close>

type_synonym uuid = string
type_synonym time = int

record run_row =
  r_id :: uuid
  r_tenant :: string
  r_agent :: uuid
  r_user :: "uuid option"
  r_recipe :: string
  r_status :: string
  r_input :: json
  r_requested :: json
  r_granted :: json
  r_error :: "json option"
  r_dedupe :: "string option"
  r_created :: time
  r_started :: "time option"
  r_finished :: "time option"
  r_attempts :: int
  r_owner :: "string option"
  r_expires :: "time option"

record new_run =
  nr_id :: uuid
  nr_tenant :: string
  nr_agent :: uuid
  nr_user :: "uuid option"
  nr_recipe :: string
  nr_status :: string
  nr_input :: json
  nr_requested :: json
  nr_granted :: json
  nr_error :: "json option"

type_synonym runs = "run_row list"

text \<open>
  What a statement may report: a violated constraint, a refusal of the persistence layer itself
  (\<open>sqlx::Error::Protocol\<close>), no row where one is expected (\<open>fetch_one\<close>), a column that cannot be
  decoded (\<open>row.get\<close> panics), no connection, an integer out of its range.
\<close>

datatype db_error =
  UniqueViolation | CheckViolation | ForeignKeyViolation | Protocol string | RowNotFound |
  Undecodable | Unavailable | OutOfRange

text \<open>An \<open>UPDATE ... WHERE\<close> and the number of rows it affects.\<close>

definition update_where :: "('r \<Rightarrow> bool) \<Rightarrow> ('r \<Rightarrow> 'r) \<Rightarrow> 'r list \<Rightarrow> 'r list \<times> nat" where
  "update_where P f rows = (map (\<lambda>r. if P r then f r else r) rows, length (filter P rows))"

abbreviation active :: "run_row \<Rightarrow> bool" where
  "active r \<equiv> r_status r = ''queued'' \<or> r_status r = ''running''"

definition run_statuses :: "string list" where
  "run_statuses = [''queued'', ''running'', ''succeeded'', ''failed'', ''canceled'']"

definition clamp_lease_ms :: "nat \<Rightarrow> int" where
  "clamp_lease_ms lease_for = min (max 1 (int lease_for)) i64_max"

section \<open>PostgreSQL\<close>

subsection \<open>Creating runs\<close>

definition row_of_new :: "time \<Rightarrow> string option \<Rightarrow> new_run \<Rightarrow> run_row" where
  "row_of_new now key n =
     \<lparr>r_id = nr_id n, r_tenant = nr_tenant n, r_agent = nr_agent n, r_user = nr_user n,
      r_recipe = nr_recipe n, r_status = nr_status n, r_input = nr_input n,
      r_requested = nr_requested n, r_granted = nr_granted n, r_error = nr_error n,
      r_dedupe = key, r_created = now, r_started = None, r_finished = None, r_attempts = 0,
      r_owner = None, r_expires = None\<rparr>"

text \<open>
  The table's constraints on an insert: the status check, the primary key and, by the argument
  \<open>fk\<close>, the references to agents and users.
\<close>

definition insert_check :: "(new_run \<Rightarrow> bool) \<Rightarrow> new_run \<Rightarrow> runs \<Rightarrow> db_error option" where
  "insert_check fk n rows =
     (if nr_status n \<notin> set run_statuses then Some CheckViolation
      else if list_ex (\<lambda>r. r_id r = nr_id n) rows then Some UniqueViolation
      else if \<not> fk n then Some ForeignKeyViolation
      else None)"

definition create_run ::
    "(new_run \<Rightarrow> bool) \<Rightarrow> time \<Rightarrow> new_run \<Rightarrow> runs \<Rightarrow> (db_error + run_row) \<times> runs" where
  "create_run fk now n rows =
     (case insert_check fk n rows of
        Some e \<Rightarrow> (Inl e, rows)
      | None \<Rightarrow> (let r = row_of_new now None n in (Inr r, rows @ [r])))"

text \<open>
  The partial unique index \<open>(tenant_id, semantic_dedupe_key) WHERE status IN ('queued',
  'running')\<close>: a new row conflicts only if it is in the index itself.
\<close>

definition dedupe_conflict :: "new_run \<Rightarrow> string \<Rightarrow> runs \<Rightarrow> bool" where
  "dedupe_conflict n key rows \<longleftrightarrow>
     (nr_status n = ''queued'' \<or> nr_status n = ''running'') \<and>
     list_ex (\<lambda>r. r_tenant r = nr_tenant n \<and> r_dedupe r = Some key \<and> active r) rows"

definition create_run_with_semantic_dedupe_key ::
    "(new_run \<Rightarrow> bool) \<Rightarrow> time \<Rightarrow> new_run \<Rightarrow> string \<Rightarrow> runs \<Rightarrow>
     (db_error + run_row option) \<times> runs" where
  "create_run_with_semantic_dedupe_key fk now n key rows =
     (if nr_status n \<notin> set run_statuses then (Inl CheckViolation, rows)
      else if dedupe_conflict n key rows then (Inr None, rows)
      else case insert_check fk n rows of
        Some e \<Rightarrow> (Inl e, rows)
      | None \<Rightarrow> (let r = row_of_new now (Some key) n in (Inr (Some r), rows @ [r])))"

definition get_active_run_id_by_semantic_dedupe_key ::
    "string \<Rightarrow> string \<Rightarrow> runs \<Rightarrow> uuid option" where
  "get_active_run_id_by_semantic_dedupe_key tenant key rows =
     (case rev (sort_key (\<lambda>r. (r_created r, r_id r))
        (filter (\<lambda>r. r_tenant r = tenant \<and> r_dedupe r = Some key \<and> active r) rows)) of
        [] \<Rightarrow> None
      | r # _ \<Rightarrow> Some (r_id r))"

definition get_run_status :: "string \<Rightarrow> uuid \<Rightarrow> runs \<Rightarrow> run_row option" where
  "get_run_status tenant rid rows = find (\<lambda>r. r_tenant r = tenant \<and> r_id r = rid) rows"

definition count_tenant_inflight_runs :: "string \<Rightarrow> runs \<Rightarrow> int" where
  "count_tenant_inflight_runs tenant rows =
     int (length (filter (\<lambda>r. r_tenant r = tenant \<and> active r) rows))"

definition count_inflight_runs :: "runs \<Rightarrow> int" where
  "count_inflight_runs rows = int (length (filter active rows))"

subsection \<open>Claiming a run\<close>

text \<open>
  \<open>lower(COALESCE(input_json->>'queue_class', input_json->>'llm_queue_class', 'interactive'))\<close>.
  A value that is neither a string nor null has a text that is no class name; the empty string
  stands for it.
\<close>

definition text_field :: "json \<Rightarrow> string \<Rightarrow> string option" where
  "text_field v k =
     (case json_get v k of
        None \<Rightarrow> None
      | Some JNull \<Rightarrow> None
      | Some (JString s) \<Rightarrow> Some s
      | Some _ \<Rightarrow> Some [])"

definition queue_class :: "json \<Rightarrow> string" where
  "queue_class input =
     to_ascii_lowercase
       (case text_field input ''queue_class'' of
          Some s \<Rightarrow> s
        | None \<Rightarrow> (case text_field input ''llm_queue_class'' of
            Some s \<Rightarrow> s | None \<Rightarrow> ''interactive''))"

definition fifteen_minutes :: int where
  "fifteen_minutes = 15 * 60 * 1000"

definition queue_rank :: "time \<Rightarrow> run_row \<Rightarrow> nat" where
  "queue_rank now r =
     (if queue_class (r_input r) = ''batch'' \<and> r_created r \<le> now - fifteen_minutes then 0
      else if queue_class (r_input r) = ''interactive'' then 0
      else if queue_class (r_input r) = ''batch'' then 1
      else 0)"

definition claimable :: "time \<Rightarrow> run_row \<Rightarrow> bool" where
  "claimable now r \<longleftrightarrow> r_status r = ''queued'' \<and>
     (case r_expires r of None \<Rightarrow> True | Some e \<Rightarrow> e < now)"

definition claim_candidates :: "time \<Rightarrow> runs \<Rightarrow> runs" where
  "claim_candidates now rows =
     take 64 (sort_key (\<lambda>r. (queue_rank now r, r_created r)) (filter (claimable now) rows))"

definition count_running :: "runs \<Rightarrow> int" where
  "count_running rows = int (length (filter (\<lambda>r. r_status r = ''running'') rows))"

definition count_tenant_running :: "string \<Rightarrow> runs \<Rightarrow> int" where
  "count_tenant_running tenant rows =
     int (length (filter (\<lambda>r. r_tenant r = tenant \<and> r_status r = ''running'') rows))"

definition mark_claimed :: "time \<Rightarrow> string \<Rightarrow> nat \<Rightarrow> run_row \<Rightarrow> run_row" where
  "mark_claimed now worker lease_for r =
     r\<lparr>r_status := ''running'',
       r_started := (case r_started r of None \<Rightarrow> Some now | Some t \<Rightarrow> Some t),
       r_attempts := r_attempts r + 1,
       r_owner := Some worker,
       r_expires := Some (now + clamp_lease_ms lease_for)\<rparr>"

text \<open>The guarded \<open>UPDATE ... RETURNING\<close> that takes one run.\<close>

definition try_claim :: "time \<Rightarrow> string \<Rightarrow> nat \<Rightarrow> uuid \<Rightarrow> runs \<Rightarrow> run_row option \<times> runs" where
  "try_claim now worker lease_for rid rows =
     (case filter (\<lambda>r. r_id r = rid \<and> claimable now r) rows of
        [] \<Rightarrow> (None, rows)
      | r # _ \<Rightarrow>
          (Some (mark_claimed now worker lease_for r),
           fst (update_where (\<lambda>r. r_id r = rid \<and> claimable now r)
             (mark_claimed now worker lease_for) rows)))"

fun claim_loop ::
    "time \<Rightarrow> string \<Rightarrow> nat \<Rightarrow> int \<Rightarrow> runs \<Rightarrow> runs \<Rightarrow> run_row option \<times> runs" where
  "claim_loop now worker lease_for tenant_cap [] rows = (None, rows)"
| "claim_loop now worker lease_for tenant_cap (c # cs) rows =
     (if tenant_cap \<le> count_tenant_running (r_tenant c) rows
      then claim_loop now worker lease_for tenant_cap cs rows
      else case try_claim now worker lease_for (r_id c) rows of
        (Some r, rows') \<Rightarrow> (Some r, rows')
      | (None, rows') \<Rightarrow> claim_loop now worker lease_for tenant_cap cs rows')"

definition claim_next_queued_run_with_limits ::
    "time \<Rightarrow> string \<Rightarrow> nat \<Rightarrow> int \<Rightarrow> int \<Rightarrow> runs \<Rightarrow> run_row option \<times> runs" where
  "claim_next_queued_run_with_limits now worker lease_for global_max tenant_max rows =
     (let candidates = claim_candidates now rows;
          global_cap = max global_max 1;
          tenant_cap = max tenant_max 1
      in if candidates = [] then (None, rows)
         else if global_cap \<le> count_running rows then (None, rows)
         else claim_loop now worker lease_for tenant_cap candidates rows)"

definition claim_next_queued_run ::
    "time \<Rightarrow> string \<Rightarrow> nat \<Rightarrow> runs \<Rightarrow> run_row option \<times> runs" where
  "claim_next_queued_run now worker lease_for rows =
     claim_next_queued_run_with_limits now worker lease_for i64_max i64_max rows"

subsection \<open>Leases and completion\<close>

definition renew_run_lease ::
    "time \<Rightarrow> uuid \<Rightarrow> string \<Rightarrow> nat \<Rightarrow> runs \<Rightarrow> bool \<times> runs" where
  "renew_run_lease now rid worker lease_for rows =
     (let (rows', n) =
        update_where (\<lambda>r. r_id r = rid \<and> r_status r = ''running'' \<and> r_owner r = Some worker \<and>
            (case r_expires r of None \<Rightarrow> False | Some e \<Rightarrow> now < e))
          (\<lambda>r. r\<lparr>r_expires := Some (now + clamp_lease_ms lease_for)\<rparr>) rows
      in (n = 1, rows'))"

definition mark_run_succeeded :: "time \<Rightarrow> uuid \<Rightarrow> string \<Rightarrow> runs \<Rightarrow> bool \<times> runs" where
  "mark_run_succeeded now rid worker rows =
     (let (rows', n) =
        update_where (\<lambda>r. r_id r = rid \<and> r_status r = ''running'' \<and> r_owner r = Some worker)
          (\<lambda>r. r\<lparr>r_status := ''succeeded'', r_finished := Some now, r_owner := None,
                 r_expires := None\<rparr>) rows
      in (n = 1, rows'))"

definition mark_run_failed :: "time \<Rightarrow> uuid \<Rightarrow> string \<Rightarrow> json \<Rightarrow> runs \<Rightarrow> bool \<times> runs" where
  "mark_run_failed now rid worker error rows =
     (let (rows', n) =
        update_where (\<lambda>r. r_id r = rid \<and> r_status r = ''running'' \<and> r_owner r = Some worker)
          (\<lambda>r. r\<lparr>r_status := ''failed'', r_finished := Some now, r_error := Some error,
                 r_owner := None, r_expires := None\<rparr>) rows
      in (n = 1, rows'))"

definition lease_expired :: "time \<Rightarrow> run_row \<Rightarrow> bool" where
  "lease_expired now r \<longleftrightarrow> r_status r = ''running'' \<and>
     (case r_expires r of None \<Rightarrow> False | Some e \<Rightarrow> e < now)"

definition mark_requeued :: "run_row \<Rightarrow> run_row" where
  "mark_requeued r = r\<lparr>r_status := ''queued'', r_owner := None, r_expires := None\<rparr>"

definition requeue_expired_runs :: "time \<Rightarrow> int \<Rightarrow> runs \<Rightarrow> nat \<times> runs" where
  "requeue_expired_runs now limit rows =
     (let expired = take (nat (max limit 0))
            (sort_key (\<lambda>r. the (r_expires r)) (filter (lease_expired now) rows));
          (rows', n) = update_where (\<lambda>r. r_id r \<in> set (map r_id expired)) mark_requeued rows
      in (n, rows'))"

subsection \<open>Scheduler leases\<close>

record scheduler_lease =
  sl_owner :: string
  sl_expires :: time

record scheduler_lease_params =
  slp_name :: string
  slp_owner :: string
  slp_for :: nat

definition try_acquire_scheduler_lease ::
    "time \<Rightarrow> scheduler_lease_params \<Rightarrow> (string \<rightharpoonup> scheduler_lease) \<Rightarrow>
     bool \<times> (string \<rightharpoonup> scheduler_lease)" where
  "try_acquire_scheduler_lease now p leases =
     (let new = \<lparr>sl_owner = slp_owner p, sl_expires = now + clamp_lease_ms (slp_for p)\<rparr>
      in case leases (slp_name p) of
           None \<Rightarrow> (True, leases(slp_name p \<mapsto> new))
         | Some old \<Rightarrow>
             if sl_expires old < now \<or> sl_owner old = slp_owner p
             then (True, leases(slp_name p \<mapsto> new))
             else (False, leases))"

section \<open>SQLite\<close>

definition secs :: "time \<Rightarrow> int" where
  "secs t = t div 1000"

definition create_run_sqlite ::
    "(new_run \<Rightarrow> bool) \<Rightarrow> time \<Rightarrow> new_run \<Rightarrow> runs \<Rightarrow> (db_error + run_row) \<times> runs" where
  "create_run_sqlite fk now n rows =
     (case insert_check fk n rows of
        Some e \<Rightarrow> (Inl e, rows)
      | None \<Rightarrow> (let r = row_of_new now None n in (Inr r, rows @ [r])))"

definition queue_rank_sqlite :: "time \<Rightarrow> run_row \<Rightarrow> nat" where
  "queue_rank_sqlite now r =
     (if queue_class (r_input r) = ''batch'' \<and> secs (r_created r) \<le> secs (now - fifteen_minutes)
      then 0
      else if queue_class (r_input r) = ''interactive'' then 0
      else if queue_class (r_input r) = ''batch'' then 1
      else 0)"

definition claimable_sqlite :: "time \<Rightarrow> run_row \<Rightarrow> bool" where
  "claimable_sqlite now r \<longleftrightarrow> r_status r = ''queued'' \<and>
     (case r_expires r of None \<Rightarrow> True | Some e \<Rightarrow> secs e < secs now)"

definition claim_candidates_sqlite :: "nat \<Rightarrow> time \<Rightarrow> runs \<Rightarrow> runs" where
  "claim_candidates_sqlite limit now rows =
     take limit (sort_key (\<lambda>r. (queue_rank_sqlite now r, secs (r_created r)))
       (filter (claimable_sqlite now) rows))"

definition try_claim_sqlite ::
    "time \<Rightarrow> string \<Rightarrow> nat \<Rightarrow> uuid \<Rightarrow> runs \<Rightarrow> run_row option \<times> runs" where
  "try_claim_sqlite now worker lease_for rid rows =
     (case update_where (\<lambda>r. r_id r = rid \<and> claimable_sqlite now r)
        (mark_claimed now worker lease_for) rows of
        (rows', n) \<Rightarrow>
          if n \<noteq> 1 then (None, rows') else (find (\<lambda>r. r_id r = rid) rows', rows'))"

text \<open>\<open>for _ in 0..3\<close>: the retries of the unlimited claim.\<close>

fun claim_attempts_sqlite ::
    "nat \<Rightarrow> time \<Rightarrow> string \<Rightarrow> nat \<Rightarrow> runs \<Rightarrow> run_row option \<times> runs" where
  "claim_attempts_sqlite 0 now worker lease_for rows = (None, rows)"
| "claim_attempts_sqlite (Suc n) now worker lease_for rows =
     (case claim_candidates_sqlite 1 now rows of
        [] \<Rightarrow> (None, rows)
      | c # _ \<Rightarrow>
          (case try_claim_sqlite now worker lease_for (r_id c) rows of
             (Some r, rows') \<Rightarrow> (Some r, rows')
           | (None, rows') \<Rightarrow> claim_attempts_sqlite n now worker lease_for rows'))"

definition claim_next_queued_run_sqlite ::
    "time \<Rightarrow> string \<Rightarrow> nat \<Rightarrow> runs \<Rightarrow> run_row option \<times> runs" where
  "claim_next_queued_run_sqlite now worker lease_for rows =
     claim_attempts_sqlite 3 now worker lease_for rows"

fun claim_loop_sqlite ::
    "time \<Rightarrow> string \<Rightarrow> nat \<Rightarrow> int \<Rightarrow> runs \<Rightarrow> runs \<Rightarrow> run_row option \<times> runs" where
  "claim_loop_sqlite now worker lease_for tenant_cap [] rows = (None, rows)"
| "claim_loop_sqlite now worker lease_for tenant_cap (c # cs) rows =
     (if tenant_cap \<le> count_tenant_running (r_tenant c) rows
      then claim_loop_sqlite now worker lease_for tenant_cap cs rows
      else case try_claim_sqlite now worker lease_for (r_id c) rows of
        (Some r, rows') \<Rightarrow> (Some r, rows')
      | (None, rows') \<Rightarrow> claim_loop_sqlite now worker lease_for tenant_cap cs rows')"

definition claim_next_queued_run_with_limits_sqlite ::
    "time \<Rightarrow> string \<Rightarrow> nat \<Rightarrow> int \<Rightarrow> int \<Rightarrow> runs \<Rightarrow> run_row option \<times> runs" where
  "claim_next_queued_run_with_limits_sqlite now worker lease_for global_max tenant_max rows =
     (let candidates = claim_candidates_sqlite 64 now rows;
          global_cap = max global_max 1;
          tenant_cap = max tenant_max 1
      in if candidates = [] then (None, rows)
         else if global_cap \<le> count_running rows then (None, rows)
         else claim_loop_sqlite now worker lease_for tenant_cap candidates rows)"

definition renew_run_lease_sqlite ::
    "time \<Rightarrow> uuid \<Rightarrow> string \<Rightarrow> nat \<Rightarrow> runs \<Rightarrow> bool \<times> runs" where
  "renew_run_lease_sqlite now rid worker lease_for rows =
     (let (rows', n) =
        update_where (\<lambda>r. r_id r = rid \<and> r_status r = ''running'' \<and> r_owner r = Some worker \<and>
            (case r_expires r of None \<Rightarrow> False | Some e \<Rightarrow> secs now < secs e))
          (\<lambda>r. r\<lparr>r_expires := Some (now + clamp_lease_ms lease_for)\<rparr>) rows
      in (n = 1, rows'))"

definition mark_run_succeeded_sqlite :: "time \<Rightarrow> uuid \<Rightarrow> string \<Rightarrow> runs \<Rightarrow> bool \<times> runs" where
  "mark_run_succeeded_sqlite now rid worker rows =
     (let (rows', n) =
        update_where (\<lambda>r. r_id r = rid \<and> r_status r = ''running'' \<and>
            (r_owner r = Some worker \<or> r_owner r = None))
          (\<lambda>r. r\<lparr>r_status := ''succeeded'', r_finished := Some now, r_owner := None,
                 r_expires := None\<rparr>) rows
      in (n = 1, rows'))"

definition mark_run_failed_sqlite ::
    "time \<Rightarrow> uuid \<Rightarrow> string \<Rightarrow> json \<Rightarrow> runs \<Rightarrow> bool \<times> runs" where
  "mark_run_failed_sqlite now rid worker error rows =
     (let (rows', n) =
        update_where (\<lambda>r. r_id r = rid \<and> r_status r = ''running'' \<and>
            (r_owner r = Some worker \<or> r_owner r = None))
          (\<lambda>r. r\<lparr>r_status := ''failed'', r_finished := Some now, r_error := Some error,
                 r_owner := None, r_expires := None\<rparr>) rows
      in (n = 1, rows'))"

definition lease_expired_sqlite :: "time \<Rightarrow> run_row \<Rightarrow> bool" where
  "lease_expired_sqlite now r \<longleftrightarrow> r_status r = ''running'' \<and>
     (case r_expires r of None \<Rightarrow> False | Some e \<Rightarrow> secs e < secs now)"

definition requeue_expired_runs_sqlite :: "time \<Rightarrow> int \<Rightarrow> runs \<Rightarrow> nat \<times> runs" where
  "requeue_expired_runs_sqlite now limit rows =
     (let expired = take (nat (max limit 0))
            (sort_key (\<lambda>r. secs (the (r_expires r))) (filter (lease_expired_sqlite now) rows));
          (rows', n) = update_where (\<lambda>r. r_id r \<in> set (map r_id expired)) mark_requeued rows
      in (n, rows'))"

definition try_acquire_scheduler_lease_sqlite ::
    "time \<Rightarrow> scheduler_lease_params \<Rightarrow> (string \<rightharpoonup> scheduler_lease) \<Rightarrow>
     bool \<times> (string \<rightharpoonup> scheduler_lease)" where
  "try_acquire_scheduler_lease_sqlite now p leases =
     (let new = \<lparr>sl_owner = slp_owner p, sl_expires = now + clamp_lease_ms (slp_for p)\<rparr>
      in case leases (slp_name p) of
           None \<Rightarrow> (True, leases(slp_name p \<mapsto> new))
         | Some old \<Rightarrow>
             if secs (sl_expires old) < secs now \<or> sl_owner old = slp_owner p
             then (True, leases(slp_name p \<mapsto> new))
             else (False, leases))"

end
