(* ===== verification/TriggerRows.thy ===== *)
theory TriggerRows
  imports RunStore
begin

text \<open>
  The rows of the trigger tables and the values the trigger statements of \<open>core/src/db.rs\<close> take
  and return. A trigger starts runs: on an interval, on a cron schedule, for events posted to a
  webhook, or by hand. \<open>trigger_runs\<close> records each firing under a deduplication key,
  \<open>trigger_events\<close> is the queue of webhook events.
\<close>

record trigger_record =
  t_id :: uuid
  t_tenant_id :: string
  t_agent_id :: uuid
  t_triggered_by_user_id :: "uuid option"
  t_recipe_id :: string
  t_status :: string
  t_trigger_type :: string
  t_interval_seconds :: "int option"
  t_cron_expression :: "string option"
  t_schedule_timezone :: string
  t_misfire_policy :: string
  t_max_attempts :: int
  t_max_inflight_runs :: int
  t_jitter_seconds :: int
  t_consecutive_failures :: int
  t_dead_lettered_at :: "time option"
  t_dead_letter_reason :: "string option"
  t_webhook_secret_ref :: "string option"
  t_input_json :: json
  t_requested_capabilities :: json
  t_granted_capabilities :: json
  t_next_fire_at :: time
  t_last_fired_at :: "time option"
  t_created_at :: time
  t_updated_at :: time

record trigger_run_row =
  tr_id :: uuid
  tr_trigger_id :: uuid
  tr_run_id :: "uuid option"
  tr_scheduled_for :: time
  tr_status :: string
  tr_dedupe_key :: string
  tr_error_json :: "json option"

record trigger_event_row =
  te_id :: uuid
  te_trigger_id :: uuid
  te_tenant_id :: string
  te_event_id :: string
  te_semantic_dedupe_key :: string
  te_payload_json :: json
  te_status :: string
  te_attempts :: int
  te_next_attempt_at :: time
  te_last_error_json :: "json option"
  te_created_at :: time
  te_processed_at :: "time option"
  te_dead_lettered_at :: "time option"

record new_interval_trigger =
  ni_id :: uuid
  ni_tenant_id :: string
  ni_agent_id :: uuid
  ni_triggered_by_user_id :: "uuid option"
  ni_recipe_id :: string
  ni_interval_seconds :: int
  ni_input_json :: json
  ni_requested_capabilities :: json
  ni_granted_capabilities :: json
  ni_next_fire_at :: time
  ni_status :: string
  ni_misfire_policy :: string
  ni_max_attempts :: int
  ni_max_inflight_runs :: int
  ni_jitter_seconds :: int
  ni_webhook_secret_ref :: "string option"

record new_webhook_trigger =
  nw_id :: uuid
  nw_tenant_id :: string
  nw_agent_id :: uuid
  nw_triggered_by_user_id :: "uuid option"
  nw_recipe_id :: string
  nw_input_json :: json
  nw_requested_capabilities :: json
  nw_granted_capabilities :: json
  nw_status :: string
  nw_max_attempts :: int
  nw_max_inflight_runs :: int
  nw_jitter_seconds :: int
  nw_webhook_secret_ref :: "string option"

record new_cron_trigger =
  nc_id :: uuid
  nc_tenant_id :: string
  nc_agent_id :: uuid
  nc_triggered_by_user_id :: "uuid option"
  nc_recipe_id :: string
  nc_cron_expression :: string
  nc_schedule_timezone :: string
  nc_input_json :: json
  nc_requested_capabilities :: json
  nc_granted_capabilities :: json
  nc_status :: string
  nc_misfire_policy :: string
  nc_max_attempts :: int
  nc_max_inflight_runs :: int
  nc_jitter_seconds :: int

record trigger_dispatch_record =
  td_trigger_id :: uuid
  td_trigger_type :: string
  td_trigger_event_id :: "string option"
  td_run_id :: uuid
  td_tenant_id :: string
  td_agent_id :: uuid
  td_triggered_by_user_id :: "uuid option"
  td_recipe_id :: string
  td_scheduled_for :: time
  td_next_fire_at :: time

datatype trigger_event_enqueue_unavailable_reason =
    TriggerNotFound | TriggerDisabled | TriggerTypeMismatch | TriggerScheduleBroken | PayloadMalformed

datatype trigger_event_enqueue_outcome =
    EventEnqueued
  | EventDuplicate
  | EventTriggerUnavailable trigger_event_enqueue_unavailable_reason

datatype trigger_event_replay_outcome = ReplayRequeued | ReplayNotFound | ReplayNotDeadLettered string

datatype manual_trigger_fire_outcome =
    FireCreated trigger_dispatch_record
  | FireDuplicate "uuid option"
  | FireInflightLimited
  | FireTriggerUnavailable

record update_trigger_params =
  up_interval_seconds :: "int option"
  up_cron_expression :: "string option"
  up_schedule_timezone :: "string option"
  up_misfire_policy :: "string option"
  up_max_attempts :: "int option"
  up_max_inflight_runs :: "int option"
  up_jitter_seconds :: "int option"
  up_webhook_secret_ref :: "string option"

record new_trigger_audit_event =
  ta_id :: uuid
  ta_trigger_id :: uuid
  ta_tenant_id :: string
  ta_actor :: string
  ta_event_type :: string
  ta_payload_json :: json

end
