(* ===== verification/MaintenanceRows.thy ===== *)
theory MaintenanceRows
  imports RunStore
begin

text \<open>
  The rows of the tables that the worker maintains between runs (\<open>core/src/db.rs\<close>): the memory of
  agents with its compactions (\<open>migrations/0013\<close>, \<open>0014\<close>), and the outbox of compliance events for
  a SIEM (\<open>migrations/0015\<close>).
\<close>

record new_memory_record =
  m_id :: uuid
  m_tenant_id :: string
  m_agent_id :: uuid
  m_run_id :: "uuid option"
  m_step_id :: "uuid option"
  m_memory_kind :: string
  m_scope :: string
  m_content_json :: json
  m_summary_text :: "string option"
  m_source :: string
  m_redaction_applied :: bool
  m_expires_at :: "time option"

record memory_record = new_memory_record +
  m_compacted_at :: "time option"
  m_created_at :: time
  m_updated_at :: time

record new_memory_compaction_record =
  mc_id :: uuid
  mc_tenant_id :: string
  mc_agent_id :: "uuid option"
  mc_memory_kind :: string
  mc_scope :: string
  mc_source_count :: int
  mc_source_entry_ids :: json
  mc_summary_json :: json

record memory_compaction_record = new_memory_compaction_record +
  mc_created_at :: time

record new_siem_record =
  sd_id :: uuid
  sd_tenant_id :: string
  sd_run_id :: "uuid option"
  sd_adapter :: string
  sd_delivery_target :: string
  sd_content_type :: string
  sd_payload_ndjson :: string
  sd_max_attempts :: int

record siem_record = new_siem_record +
  sd_status :: string
  sd_attempts :: int
  sd_next_attempt_at :: time
  sd_leased_by :: "string option"
  sd_lease_expires_at :: "time option"
  sd_last_error :: "string option"
  sd_last_http_status :: "int option"
  sd_created_at :: time
  sd_updated_at :: time
  sd_delivered_at :: "time option"

end
