(* ===== verification/StepStore.thy ===== *)
theory StepStore
  imports TriggerRows MaintenanceRows
begin

text \<open>
  The tables a worker writes while it processes a run: \<open>steps\<close>, \<open>action_requests\<close>,
  \<open>action_results\<close>, \<open>audit_events\<close> and \<open>artifacts\<close>, with the statements of \<open>core/src/db.rs\<close>
  and the constraints of \<open>migrations/0001_init.sql\<close> they run into. A statement that violates a
  constraint returns the error and changes nothing. References to agents and users are assumed
  to hold: the ids come from the claimed run.
\<close>

section \<open>Rows\<close>

record new_step =
  s_id :: uuid
  s_run :: uuid
  s_tenant :: string
  s_agent :: uuid
  s_user :: "uuid option"
  s_name :: string
  s_status :: string
  s_input :: json
  s_error :: "json option"

record step_row = new_step +
  s_output :: "json option"
  s_created :: time
  s_finished :: "time option"

record new_action_request =
  q_id :: uuid
  q_step :: uuid
  q_type :: string
  q_args :: json
  q_justification :: "string option"
  q_status :: string
  q_reason :: "string option"

record new_action_result =
  x_id :: uuid
  x_request :: uuid
  x_status :: string
  x_result :: "json option"
  x_error :: "json option"

record new_audit_event =
  a_id :: uuid
  a_run :: uuid
  a_step :: "uuid option"
  a_tenant :: string
  a_agent :: "uuid option"
  a_user :: "uuid option"
  a_actor :: string
  a_type :: string
  a_payload :: json

record new_artifact =
  f_id :: uuid
  f_run :: uuid
  f_path :: string
  f_content_type :: string
  f_size :: int
  f_checksum :: "string option"
  f_storage_ref :: string

record db =
  d_runs :: runs
  d_steps :: "step_row list"
  d_requests :: "new_action_request list"
  d_results :: "new_action_result list"
  d_audit :: "new_audit_event list"
  d_artifacts :: "new_artifact list"
  d_triggers :: "trigger_record list"
  d_trigger_runs :: "trigger_run_row list"
  d_trigger_events :: "trigger_event_row list"
  d_trigger_audit :: "new_trigger_audit_event list"
  d_leases :: "string \<rightharpoonup> scheduler_lease"
  d_memory :: "memory_record list"
  d_compactions :: "memory_compaction_record list"
  d_outbox :: "siem_record list"

definition empty_db :: db where
  "empty_db = \<lparr>d_runs = [], d_steps = [], d_requests = [], d_results = [], d_audit = [],
     d_artifacts = [], d_triggers = [], d_trigger_runs = [], d_trigger_events = [],
     d_trigger_audit = [], d_leases = Map.empty, d_memory = [], d_compactions = [], d_outbox = []\<rparr>"

lemma empty_db_simps [simp]:
  "d_runs empty_db = []" "d_steps empty_db = []" "d_requests empty_db = []" "d_results empty_db = []"
  "d_audit empty_db = []" "d_artifacts empty_db = []" "d_triggers empty_db = []"
  "d_trigger_runs empty_db = []" "d_trigger_events empty_db = []" "d_trigger_audit empty_db = []"
  "d_leases empty_db = Map.empty" "d_memory empty_db = []" "d_compactions empty_db = []"
  "d_outbox empty_db = []"
  by (simp_all add: empty_db_def)

section \<open>Statements\<close>

definition step_statuses :: "string list" where
  "step_statuses = [''queued'', ''running'', ''succeeded'', ''failed'', ''skipped'']"

definition request_statuses :: "string list" where
  "request_statuses = [''requested'', ''allowed'', ''denied'', ''executed'', ''failed'']"

definition result_statuses :: "string list" where
  "result_statuses = [''executed'', ''failed'', ''denied'']"

definition step_of_new :: "time \<Rightarrow> new_step \<Rightarrow> step_row" where
  "step_of_new now n = new_step.extend n
     \<lparr>s_output = None, s_created = now, s_finished = None\<rparr>"

definition create_step :: "time \<Rightarrow> new_step \<Rightarrow> db \<Rightarrow> (db_error + step_row) \<times> db" where
  "create_step now n d =
     (if s_status n \<notin> set step_statuses then (Inl CheckViolation, d)
      else if list_ex (\<lambda>s. s_id s = s_id n) (d_steps d) then (Inl UniqueViolation, d)
      else if \<not> list_ex (\<lambda>r. r_id r = s_run n) (d_runs d) then (Inl ForeignKeyViolation, d)
      else let row = step_of_new now n in (Inr row, d\<lparr>d_steps := d_steps d @ [row]\<rparr>))"

definition step_open :: "step_row \<Rightarrow> bool" where
  "step_open s \<longleftrightarrow> s_status s = ''queued'' \<or> s_status s = ''running''"

definition mark_step_succeeded :: "time \<Rightarrow> uuid \<Rightarrow> json \<Rightarrow> db \<Rightarrow> (db_error + bool) \<times> db" where
  "mark_step_succeeded now sid output d =
     (let (rows, n) = update_where (\<lambda>s. s_id s = sid \<and> step_open s)
        (\<lambda>s. s\<lparr>s_status := ''succeeded'', s_output := Some output, s_finished := Some now\<rparr>)
        (d_steps d)
      in (Inr (n = 1), d\<lparr>d_steps := rows\<rparr>))"

definition mark_step_failed :: "time \<Rightarrow> uuid \<Rightarrow> json \<Rightarrow> db \<Rightarrow> (db_error + bool) \<times> db" where
  "mark_step_failed now sid error d =
     (let (rows, n) = update_where (\<lambda>s. s_id s = sid \<and> step_open s)
        (\<lambda>s. s\<lparr>s_status := ''failed'', s_error := Some error, s_finished := Some now\<rparr>)
        (d_steps d)
      in (Inr (n = 1), d\<lparr>d_steps := rows\<rparr>))"

definition create_action_request ::
    "time \<Rightarrow> new_action_request \<Rightarrow> db \<Rightarrow> (db_error + unit) \<times> db" where
  "create_action_request now q d =
     (if q_status q \<notin> set request_statuses then (Inl CheckViolation, d)
      else if list_ex (\<lambda>p. q_id p = q_id q) (d_requests d) then (Inl UniqueViolation, d)
      else if \<not> list_ex (\<lambda>s. s_id s = q_step q) (d_steps d) then (Inl ForeignKeyViolation, d)
      else (Inr (), d\<lparr>d_requests := d_requests d @ [q]\<rparr>))"

definition update_action_request_status ::
    "time \<Rightarrow> uuid \<Rightarrow> string \<Rightarrow> string option \<Rightarrow> db \<Rightarrow> (db_error + bool) \<times> db" where
  "update_action_request_status now qid status reason d =
     (if status \<notin> set request_statuses \<and> list_ex (\<lambda>q. q_id q = qid) (d_requests d)
      then (Inl CheckViolation, d)
      else let (rows, n) = update_where (\<lambda>q. q_id q = qid)
             (\<lambda>q. q\<lparr>q_status := status, q_reason := reason\<rparr>) (d_requests d)
           in (Inr (n = 1), d\<lparr>d_requests := rows\<rparr>))"

text \<open>
  \<open>INSERT ... ON CONFLICT (action_request_id) DO UPDATE\<close>: the row of a request keeps its id.
\<close>

definition create_action_result ::
    "time \<Rightarrow> new_action_result \<Rightarrow> db \<Rightarrow> (db_error + unit) \<times> db" where
  "create_action_result now x d =
     (if x_status x \<notin> set result_statuses then (Inl CheckViolation, d)
      else if list_ex (\<lambda>y. x_request y = x_request x) (d_results d)
      then (Inr (), d\<lparr>d_results := fst (update_where (\<lambda>y. x_request y = x_request x)
             (\<lambda>y. y\<lparr>x_status := x_status x, x_result := x_result x, x_error := x_error x\<rparr>)
             (d_results d))\<rparr>)
      else if list_ex (\<lambda>y. x_id y = x_id x) (d_results d) then (Inl UniqueViolation, d)
      else if \<not> list_ex (\<lambda>q. q_id q = x_request x) (d_requests d) then (Inl ForeignKeyViolation, d)
      else (Inr (), d\<lparr>d_results := d_results d @ [x]\<rparr>))"

definition append_audit_event :: "time \<Rightarrow> new_audit_event \<Rightarrow> db \<Rightarrow> (db_error + unit) \<times> db" where
  "append_audit_event now a d =
     (if list_ex (\<lambda>b. a_id b = a_id a) (d_audit d) then (Inl UniqueViolation, d)
      else if \<not> list_ex (\<lambda>r. r_id r = a_run a) (d_runs d) \<or>
              (case a_step a of None \<Rightarrow> False
               | Some sid \<Rightarrow> \<not> list_ex (\<lambda>s. s_id s = sid) (d_steps d))
      then (Inl ForeignKeyViolation, d)
      else (Inr (), d\<lparr>d_audit := d_audit d @ [a]\<rparr>))"

text \<open>The unique index \<open>(run_id, path)\<close> allows one artifact row for each path of a run.\<close>

definition persist_artifact_metadata ::
    "time \<Rightarrow> new_artifact \<Rightarrow> db \<Rightarrow> (db_error + new_artifact) \<times> db" where
  "persist_artifact_metadata now f d =
     (if list_ex (\<lambda>g. f_id g = f_id f \<or> f_run g = f_run f \<and> f_path g = f_path f) (d_artifacts d)
      then (Inl UniqueViolation, d)
      else if \<not> list_ex (\<lambda>r. r_id r = f_run f) (d_runs d) then (Inl ForeignKeyViolation, d)
      else (Inr f, d\<lparr>d_artifacts := d_artifacts d @ [f]\<rparr>))"

end
