(* ===== verification/Skillrunner.thy ===== *)
theory Skillrunner
  imports Prelude
begin

text \<open>
  The out-of-process skill boundary: the message types of \<open>skillrunner/src/protocol.rs\<close> and
  the runner of \<open>skillrunner/src/runner.rs\<close>, which starts a child process, writes one
  request line, reads one capped response line under a time-out and classifies the reply.

  The child process is a parameter: a record of what the operating system reports about it
  (whether it spawns, what its pipes do, the bytes that arrive before the read deadline, when
  it exits). The JSON codec of \<open>serde_json\<close> is a pair of functions. An await that is under
  no time-out and never completes makes the whole call not return (\<^const>\<open>None\<close>).
\<close>

section \<open>Protocol\<close>

record skill_grant =
  sg_capability :: string
  sg_scope :: string

record invoke_context =
  ctx_tenant_id :: string
  ctx_run_id :: string
  ctx_step_id :: string
  ctx_time_budget_ms :: u64
  ctx_trace_id :: "string option"
  ctx_granted_capabilities :: "skill_grant list"

record action_request =
  act_id :: string
  act_type :: string
  act_args :: json
  act_justification :: string
  act_contract_version :: "string option"
  act_schema_id :: "string option"

record invoke_request =
  req_id :: string
  req_context :: invoke_context
  req_input :: json

record invoke_result =
  res_id :: string
  res_output :: json
  res_action_requests :: "action_request list"

record skill_description =
  sd_name :: string
  sd_version :: string
  sd_description :: string
  sd_inputs_schema :: json
  sd_outputs_schema :: json
  sd_requested_capabilities :: "skill_grant list"
  sd_action_types :: "string list"

record protocol_error =
  pe_code :: string
  pe_message :: string
  pe_details :: json

datatype skill_message =
    Describe string
  | DescribeResult string skill_description
  | Invoke string invoke_context json
  | InvokeResult string json "action_request list"
  | ErrorMsg string protocol_error

definition into_message :: "invoke_request \<Rightarrow> skill_message" where
  "into_message r = Invoke (req_id r) (req_context r) (req_input r)"

definition from_invoke_result :: "invoke_result \<Rightarrow> skill_message" where
  "from_invoke_result v = InvokeResult (res_id v) (res_output v) (res_action_requests v)"

text \<open>\<open>to_vec\<close> is \<open>serde_json::to_vec\<close>; it fails with \<^const>\<open>None\<close>.\<close>

definition newline :: char where
  "newline = CHR 0x0A"

definition encode_ndjson :: "(skill_message \<Rightarrow> string option) \<Rightarrow> skill_message \<Rightarrow> string option" where
  "encode_ndjson to_vec m = map_option (\<lambda>bytes. bytes @ [newline]) (to_vec m)"

definition decode_ndjson :: "(string \<Rightarrow> skill_message option) \<Rightarrow> string \<Rightarrow> skill_message option" where
  "decode_ndjson from_slice line = from_slice line"

section \<open>Runner\<close>

record runner_config =
  rc_command :: string
  rc_args :: "string list"
  rc_timeout :: nat
  rc_max_output_bytes :: nat
  rc_env_allowlist :: "string list"

definition runner_config_new :: "string \<Rightarrow> runner_config" where
  "runner_config_new command =
     \<lparr>rc_command = command, rc_args = [], rc_timeout = 5000,
      rc_max_output_bytes = 64 * 1024, rc_env_allowlist = []\<rparr>"

datatype runner_error =
    SpawnFailed | MissingStdin | MissingStdout | IoError | Timeout
  | OutputTooLarge nat | ProtocolEncode | ProtocolDecode
  | MismatchedResponseId string string
  | SkillReturnedError string string string
  | UnexpectedResponse string
  | SkillExitedNonZero "int option"
  | NoOutput

text \<open>The environment of the child: cleared, one fixed variable, then the allowlisted ones.\<close>

definition sandbox_flag :: string where
  "sandbox_flag = ''SECUREAGNT_SKILL_SANDBOXED''"

definition child_env :: "(string \<rightharpoonup> string) \<Rightarrow> string list \<Rightarrow> (string \<rightharpoonup> string)" where
  "child_env env allowlist =
     fold (\<lambda>key e. case env key of Some v \<Rightarrow> e(key \<mapsto> v) | None \<Rightarrow> e)
       allowlist [sandbox_flag \<mapsto> ''1'']"

text \<open>
  What a read of one byte can report. The list given to the reader holds the reads that complete
  before the deadline; when it runs out the reader is still waiting.
\<close>

datatype read_event = Byte char | Eof | ReadError

datatype read_outcome = Pending | Ready "runner_error + string"

fun read_line_capped :: "nat \<Rightarrow> string \<Rightarrow> read_event list \<Rightarrow> read_outcome" where
  "read_line_capped max_output_bytes bytes [] = Pending"
| "read_line_capped max_output_bytes bytes (ReadError # evs) = Ready (Inl IoError)"
| "read_line_capped max_output_bytes bytes (Eof # evs) =
     (if bytes = [] then Ready (Inl NoOutput) else Ready (Inr bytes))"
| "read_line_capped max_output_bytes bytes (Byte c # evs) =
     (if length bytes + 1 > max_output_bytes then Ready (Inl (OutputTooLarge max_output_bytes))
      else if c = newline then Ready (Inr (bytes @ [c]))
      else read_line_capped max_output_bytes (bytes @ [c]) evs)"

datatype await = Done | Failed | Never

record exit_status =
  es_code :: "int option"

text \<open>\<open>ExitStatus::success\<close>: the process exited with code 0, not by a signal.\<close>

definition exit_success :: "exit_status \<Rightarrow> bool" where
  "exit_success s \<longleftrightarrow> es_code s = Some 0"

datatype wait_outcome = Exited exit_status | WaitError | StillRunning

record child =
  ch_spawns :: bool
  ch_has_stdin :: bool
  ch_has_stdout :: bool
  ch_write :: await
  ch_shutdown :: await
  ch_stdout :: "read_event list"
  ch_wait_unbounded :: wait_outcome
  ch_wait_in_time :: wait_outcome

text \<open>What the call leaves: its result and whether the child was killed.\<close>

record invoke_outcome =
  io_result :: "runner_error + invoke_result"
  io_killed :: bool

definition returned :: "runner_error + invoke_result \<Rightarrow> invoke_outcome option" where
  "returned r = Some \<lparr>io_result = r, io_killed = False\<rparr>"

definition kill_and_fail :: "runner_error \<Rightarrow> invoke_outcome option" where
  "kill_and_fail e = Some \<lparr>io_result = Inl e, io_killed = True\<rparr>"

fun message_type_name :: "skill_message \<Rightarrow> string" where
  "message_type_name (Describe _) = ''describe''"
| "message_type_name (DescribeResult _ _) = ''describe_result''"
| "message_type_name (Invoke _ _ _) = ''invoke''"
| "message_type_name (InvokeResult _ _ _) = ''invoke_result''"
| "message_type_name (ErrorMsg _ _) = ''error''"

text \<open>The reply once a line has been read, up to the final wait.\<close>

definition wait_for_exit :: "child \<Rightarrow> invoke_result \<Rightarrow> invoke_outcome option" where
  "wait_for_exit ch result =
     (case ch_wait_in_time ch of
        StillRunning \<Rightarrow> kill_and_fail Timeout
      | WaitError \<Rightarrow> returned (Inl IoError)
      | Exited s \<Rightarrow>
          if \<not> exit_success s then returned (Inl (SkillExitedNonZero (es_code s)))
          else returned (Inr result))"

definition handle_response ::
    "(string \<Rightarrow> skill_message option) \<Rightarrow> child \<Rightarrow> string \<Rightarrow> string \<Rightarrow> invoke_outcome option" where
  "handle_response from_slice ch request_id response_bytes =
     (case decode_ndjson from_slice response_bytes of
        None \<Rightarrow> returned (Inl ProtocolDecode)
      | Some (InvokeResult id' output action_requests) \<Rightarrow>
          if id' \<noteq> request_id then kill_and_fail (MismatchedResponseId request_id id')
          else wait_for_exit ch
                 \<lparr>res_id = id', res_output = output, res_action_requests = action_requests\<rparr>
      | Some (ErrorMsg id' err) \<Rightarrow>
          kill_and_fail (SkillReturnedError id' (pe_code err) (pe_message err))
      | Some other \<Rightarrow> kill_and_fail (UnexpectedResponse (message_type_name other)))"

definition handle_no_output :: "child \<Rightarrow> invoke_outcome option" where
  "handle_no_output ch =
     (case ch_wait_unbounded ch of
        StillRunning \<Rightarrow> None
      | WaitError \<Rightarrow> returned (Inl IoError)
      | Exited s \<Rightarrow>
          if \<not> exit_success s then returned (Inl (SkillExitedNonZero (es_code s)))
          else returned (Inl NoOutput))"

definition invoke ::
    "(skill_message \<Rightarrow> string option) \<Rightarrow> (string \<Rightarrow> skill_message option) \<Rightarrow>
     runner_config \<Rightarrow> child \<Rightarrow> invoke_request \<Rightarrow> invoke_outcome option" where
  "invoke to_vec from_slice config ch request =
     (if \<not> ch_spawns ch then returned (Inl SpawnFailed)
      else if \<not> ch_has_stdin ch then returned (Inl MissingStdin)
      else if \<not> ch_has_stdout ch then returned (Inl MissingStdout)
      else case encode_ndjson to_vec (into_message request) of
        None \<Rightarrow> returned (Inl ProtocolEncode)
      | Some encoded \<Rightarrow>
          (case ch_write ch of
             Never \<Rightarrow> None
           | Failed \<Rightarrow> returned (Inl IoError)
           | Done \<Rightarrow>
               (case ch_shutdown ch of
                  Never \<Rightarrow> None
                | Failed \<Rightarrow> returned (Inl IoError)
                | Done \<Rightarrow>
                    (case read_line_capped (rc_max_output_bytes config) [] (ch_stdout ch) of
                       Pending \<Rightarrow> kill_and_fail Timeout
                     | Ready (Inl NoOutput) \<Rightarrow> handle_no_output ch
                     | Ready (Inl error) \<Rightarrow> kill_and_fail error
                     | Ready (Inr response_bytes) \<Rightarrow>
                         handle_response from_slice ch (req_id request) response_bytes))))"

section \<open>Lemmas\<close>

lemma fold_env_dom:
  "fold (\<lambda>key e. case env key of Some v \<Rightarrow> e(key \<mapsto> v) | None \<Rightarrow> e) allow e0 k =
     (if k \<in> set allow \<and> env k \<noteq> None then env k else e0 k)"
  by (induction allow arbitrary: e0) (auto split: option.split)

lemma child_env_apply:
  "child_env env allow k =
     (if k \<in> set allow \<and> env k \<noteq> None then env k
      else if k = sandbox_flag then Some ''1'' else None)"
  by (simp add: child_env_def fold_env_dom)

lemma read_line_capped_Inr:
  "read_line_capped cap bytes evs = Ready (Inr out) \<Longrightarrow> length bytes \<le> cap \<Longrightarrow>
     (\<exists>more. out = bytes @ more) \<and> length out \<le> cap \<and> out \<noteq> []"
proof (induction cap bytes evs rule: read_line_capped.induct)
  case (4 cap bytes c evs)
  then show ?case by (auto split: if_splits)
qed (auto split: if_splits)

lemma read_line_capped_one_line:
  "read_line_capped cap bytes evs = Ready (Inr out) \<Longrightarrow> newline \<notin> set bytes \<Longrightarrow>
     newline \<notin> set (butlast out)"
  by (induction cap bytes evs rule: read_line_capped.induct)
    (auto split: if_splits dest: in_set_butlastD)

lemma read_line_capped_line:
  "newline \<notin> set bs \<Longrightarrow> length acc + length bs + 1 \<le> cap \<Longrightarrow>
   read_line_capped cap acc (map Byte bs @ Byte newline # evs) = Ready (Inr (acc @ bs @ [newline]))"
  by (induction bs arbitrary: acc) auto

lemma read_line_capped_overflow:
  "newline \<notin> set bs \<Longrightarrow> length acc \<le> cap \<Longrightarrow> cap < length acc + length bs \<Longrightarrow>
   read_line_capped cap acc (map Byte bs @ evs) = Ready (Inl (OutputTooLarge cap))"
  by (induction bs arbitrary: acc) auto

lemmas invoke_unfold = invoke_def handle_response_def handle_no_output_def wait_for_exit_def
  returned_def kill_and_fail_def

lemma invoke_Inr_iff:
  "invoke to_vec from_slice config ch request = Some \<lparr>io_result = Inr r, io_killed = k\<rparr> \<longleftrightarrow>
     \<not> k \<and> ch_spawns ch \<and> ch_has_stdin ch \<and> ch_has_stdout ch \<and>
     to_vec (into_message request) \<noteq> None \<and> ch_write ch = Done \<and> ch_shutdown ch = Done \<and>
     (\<exists>line s. read_line_capped (rc_max_output_bytes config) [] (ch_stdout ch) = Ready (Inr line) \<and>
        from_slice line = Some (from_invoke_result r) \<and> res_id r = req_id request \<and>
        ch_wait_in_time ch = Exited s \<and> exit_success s)"
proof (cases r)
  case (fields i out acts)
  show ?thesis
    unfolding fields
    by (auto simp: invoke_unfold encode_ndjson_def decode_ndjson_def from_invoke_result_def
        split: option.splits await.splits read_outcome.splits sum.splits runner_error.splits
          skill_message.splits wait_outcome.splits if_splits)
qed

lemma read_line_capped_NoOutput:
  "read_line_capped cap bytes evs = Ready (Inl NoOutput) \<longleftrightarrow> bytes = [] \<and> (\<exists>rest. evs = Eof # rest)"
  by (induction cap bytes evs rule: read_line_capped.induct) auto

lemma handle_response_returns: "handle_response from_slice ch i line \<noteq> None"
  by (auto simp: handle_response_def wait_for_exit_def returned_def kill_and_fail_def
      split: option.splits skill_message.splits wait_outcome.splits)

lemma handle_no_output_None: "handle_no_output ch = None \<longleftrightarrow> ch_wait_unbounded ch = StillRunning"
  by (auto simp: handle_no_output_def returned_def split: wait_outcome.splits)

section \<open>Properties\<close>

text \<open>
  (C3) A skill's answer is accepted only under the protocol's conditions: one line of at most
  \<open>max_output_bytes\<close> bytes was read, it decodes to an \<open>invoke_result\<close> that carries the
  request's own id, and the process then exited by itself with status 0 (it was not killed).
\<close>

theorem invoke_accepts_only_valid_reply:
  assumes "invoke to_vec from_slice config ch request = Some \<lparr>io_result = Inr r, io_killed = k\<rparr>"
  shows "res_id r = req_id request \<and> \<not> k \<and>
    (\<exists>line s. from_slice line = Some (from_invoke_result r) \<and>
       length line \<le> rc_max_output_bytes config \<and> newline \<notin> set (butlast line) \<and>
       ch_wait_in_time ch = Exited s \<and> es_code s = Some 0)"
proof -
  from assms [unfolded invoke_Inr_iff] obtain line s where
      read: "read_line_capped (rc_max_output_bytes config) [] (ch_stdout ch) = Ready (Inr line)"
      and rest: "\<not> k" "from_slice line = Some (from_invoke_result r)" "res_id r = req_id request"
        "ch_wait_in_time ch = Exited s" "exit_success s"
    by blast
  from read_line_capped_Inr [OF read] read_line_capped_one_line [OF read] rest
  show ?thesis unfolding exit_success_def by auto
qed

text \<open>
  (C4) Round trip of the protocol: if the codec decodes what it encodes and never emits a line
  feed, then a child that writes the encoding of a result with the request's id, within the cap,
  and exits with status 0 makes \<open>invoke\<close> return exactly that result.
\<close>

theorem invoke_round_trip:
  assumes codec: "encode_ndjson to_vec (from_invoke_result r) = Some (bytes @ [newline])"
      "newline \<notin> set bytes" "from_slice (bytes @ [newline]) = Some (from_invoke_result r)"
    and request: "to_vec (into_message request) \<noteq> None" "res_id r = req_id request"
    and child: "ch_spawns ch" "ch_has_stdin ch" "ch_has_stdout ch" "ch_write ch = Done"
      "ch_shutdown ch = Done" "ch_stdout ch = map Byte (bytes @ [newline]) @ evs"
      "ch_wait_in_time ch = Exited \<lparr>es_code = Some 0\<rparr>"
    and cap: "length bytes < rc_max_output_bytes config"
  shows "invoke to_vec from_slice config ch request =
    Some \<lparr>io_result = Inr r, io_killed = False\<rparr>"
proof -
  have "read_line_capped (rc_max_output_bytes config) [] (ch_stdout ch) =
      Ready (Inr (bytes @ [newline]))"
    using read_line_capped_line [OF codec(2), of "[]"] cap child(6) by simp
  then show ?thesis unfolding invoke_Inr_iff
    using codec(3) request child by (auto simp: exit_success_def)
qed

definition demo_request :: invoke_request where
  "demo_request = \<lparr>req_id = ''r1'', req_context = \<lparr>ctx_tenant_id = ''t'', ctx_run_id = ''run'',
     ctx_step_id = ''step'', ctx_time_budget_ms = 5000, ctx_trace_id = None,
     ctx_granted_capabilities = []\<rparr>, req_input = JNull\<rparr>"

definition demo_result :: invoke_result where
  "demo_result = \<lparr>res_id = ''r1'', res_output = JBool True, res_action_requests = []\<rparr>"

definition demo_to_vec :: "skill_message \<Rightarrow> string option" where
  "demo_to_vec m = Some (case m of InvokeResult _ _ _ \<Rightarrow> ''ok'' | _ \<Rightarrow> ''other'')"

definition demo_from_slice :: "string \<Rightarrow> skill_message option" where
  "demo_from_slice line =
     (if line = ''ok'' @ [newline] then Some (InvokeResult ''r1'' (JBool True) []) else None)"

definition demo_child :: child where
  "demo_child = \<lparr>ch_spawns = True, ch_has_stdin = True, ch_has_stdout = True, ch_write = Done,
     ch_shutdown = Done, ch_stdout = map Byte (''ok'' @ [newline]),
     ch_wait_unbounded = Exited \<lparr>es_code = Some 0\<rparr>,
     ch_wait_in_time = Exited \<lparr>es_code = Some 0\<rparr>\<rparr>"

lemmas demo_defs = demo_request_def demo_result_def demo_to_vec_def demo_from_slice_def
  demo_child_def

theorem invoke_round_trip_witness:
  "invoke demo_to_vec demo_from_slice (runner_config_new ''python3'') demo_child demo_request =
     Some \<lparr>io_result = Inr demo_result, io_killed = False\<rparr>"
  by (rule invoke_round_trip [where bytes = "''ok''" and evs = "[]"])
    (simp_all add: demo_defs encode_ndjson_def from_invoke_result_def into_message_def
      newline_def runner_config_new_def)

theorem invoke_accepts_only_valid_reply_witness:
  "res_id demo_result = req_id demo_request \<and>
   invoke demo_to_vec demo_from_slice (runner_config_new ''python3'') demo_child demo_request =
     Some \<lparr>io_result = Inr demo_result, io_killed = False\<rparr>"
proof -
  have run: "invoke demo_to_vec demo_from_slice (runner_config_new ''python3'') demo_child
      demo_request = Some \<lparr>io_result = Inr demo_result, io_killed = False\<rparr>"
    by (simp add: invoke_unfold demo_defs encode_ndjson_def decode_ndjson_def into_message_def
        newline_def runner_config_new_def exit_success_def)
  with invoke_accepts_only_valid_reply [OF run] show ?thesis by blast
qed

text \<open>
  The output cap is enforced while reading: a child that sends more bytes than the cap
  without a line feed is killed and reported as \<open>OutputTooLarge\<close>, whatever else it does.
\<close>

theorem invoke_kills_oversized_output:
  assumes "ch_spawns ch" "ch_has_stdin ch" "ch_has_stdout ch" "to_vec (into_message request) \<noteq> None"
    and "ch_write ch = Done" "ch_shutdown ch = Done"
    and "ch_stdout ch = map Byte bs @ evs" "newline \<notin> set bs"
    and "rc_max_output_bytes config < length bs"
  shows "invoke to_vec from_slice config ch request =
    Some \<lparr>io_result = Inl (OutputTooLarge (rc_max_output_bytes config)), io_killed = True\<rparr>"
  using assms read_line_capped_overflow [of bs "[]" "rc_max_output_bytes config" evs]
  by (auto simp: invoke_unfold encode_ndjson_def)

theorem invoke_kills_oversized_output_witness:
  "invoke demo_to_vec demo_from_slice ((runner_config_new ''sh'')\<lparr>rc_max_output_bytes := 2\<rparr>)
     (demo_child\<lparr>ch_stdout := map Byte ''abc''\<rparr>) demo_request =
     Some \<lparr>io_result = Inl (OutputTooLarge 2), io_killed = True\<rparr>"
proof -
  let ?cfg = "(runner_config_new ''sh'')\<lparr>rc_max_output_bytes := 2\<rparr>"
  let ?ch = "demo_child\<lparr>ch_stdout := map Byte ''abc''\<rparr>"
  have "invoke demo_to_vec demo_from_slice ?cfg ?ch demo_request =
     Some \<lparr>io_result = Inl (OutputTooLarge (rc_max_output_bytes ?cfg)), io_killed = True\<rparr>"
    by (rule invoke_kills_oversized_output [where bs = "''abc''" and evs = "[]"])
      (simp_all add: demo_defs newline_def)
  then show ?thesis by simp
qed

text \<open>
  (C5) Exactly when the call returns. The time-out covers reading the reply and the final wait
  only: the call never returns if writing the request or closing the pipe blocks for ever, and it
  never returns if the child closes its output without writing anything and keeps running.
\<close>

theorem invoke_returns_iff:
  assumes "ch_spawns ch" "ch_has_stdin ch" "ch_has_stdout ch" "to_vec (into_message request) \<noteq> None"
  shows "invoke to_vec from_slice config ch request = None \<longleftrightarrow>
    ch_write ch = Never \<or> ch_write ch = Done \<and>
      (ch_shutdown ch = Never \<or> ch_shutdown ch = Done \<and>
        (\<exists>rest. ch_stdout ch = Eof # rest) \<and> ch_wait_unbounded ch = StillRunning)"
  using assms read_line_capped_NoOutput [of "rc_max_output_bytes config" "[]" "ch_stdout ch"]
  by (auto simp: invoke_def encode_ndjson_def returned_def kill_and_fail_def
      handle_response_returns handle_no_output_None simp del: not_None_eq
      split: await.split read_outcome.split sum.split runner_error.split)

theorem invoke_returns_iff_witness:
  "invoke demo_to_vec demo_from_slice (runner_config_new ''sh'')
     (demo_child\<lparr>ch_stdout := [Eof], ch_wait_unbounded := StillRunning\<rparr>) demo_request = None"
  by (subst invoke_returns_iff) (simp_all add: demo_defs)

text \<open>
  The child sees no variable of the worker's environment that is not on the allowlist:
  every variable it has is the sandbox flag or an allowlisted variable with the worker's value.
\<close>

theorem child_env_confined:
  "child_env env allow k = Some v \<longleftrightarrow>
     k \<in> set allow \<and> env k = Some v \<or>
     (k \<notin> set allow \<or> env k = None) \<and> k = sandbox_flag \<and> v = ''1''"
  by (auto simp: child_env_apply split: if_splits)

theorem child_env_confined_witness:
  "child_env [''HOME'' \<mapsto> ''/root'', ''AWS_KEY'' \<mapsto> ''k''] [''HOME''] ''HOME'' = Some ''/root'' \<and>
   child_env [''HOME'' \<mapsto> ''/root'', ''AWS_KEY'' \<mapsto> ''k''] [''HOME''] ''AWS_KEY'' = None"
proof -
  let ?e = "[''HOME'' \<mapsto> ''/root'', ''AWS_KEY'' \<mapsto> ''k'']"
  have "child_env ?e [''HOME''] ''HOME'' = Some ''/root''"
    by (subst child_env_confined) simp
  moreover have "child_env ?e [''HOME''] ''AWS_KEY'' \<noteq> Some v" for v
    by (subst child_env_confined) (simp add: sandbox_flag_def)
  ultimately show ?thesis by (metis not_Some_eq)
qed

end
