(* ===== verification/Effects.thy ===== *)
theory Effects
  imports StepStore Skillrunner
begin

text \<open>
  How stateful code runs: a computation takes the state and returns an error text
  (\<open>anyhow::Error\<close>) or a value, and the state after it. The worker's state is the world: it holds
  the database, the state behind the action connectors (\<open>'x\<close>), the supplies of UUIDs and of
  statements, and a ghost log of the actions handed to a connector, each with the database at
  that moment.

  The environment says what is outside: the UUIDs drawn, the clock, which database statements
  fail (any of them may), the texts of SQL errors.
\<close>

section \<open>World and computations\<close>

record call =
  c_request :: uuid
  c_action :: action_request
  c_db :: db

record 'x world =
  w_db :: db
  w_ext :: 'x
  w_uuids :: nat
  w_stmts :: nat
  w_calls :: "call list"

record outside =
  o_uuid :: "nat \<Rightarrow> uuid"
  o_now :: "nat \<Rightarrow> time"
  o_fault :: "nat \<Rightarrow> string option"
  o_sql_text :: "db_error \<Rightarrow> string"

text \<open>Computations over any state \<open>'s\<close>; those of the worker are over the world.\<close>

type_synonym ('s, 'a) action = "'s \<Rightarrow> (string + 'a) \<times> 's"
type_synonym ('x, 'a) comp = "('x world, 'a) action"

definition ret :: "'a \<Rightarrow> ('s, 'a) action" where
  "ret v = (\<lambda>w. (Inr v, w))"

definition fail :: "string \<Rightarrow> ('s, 'a) action" where
  "fail e = (\<lambda>w. (Inl e, w))"

text \<open>\<open>let v = m?; k(v)\<close>\<close>

definition bind :: "('s, 'a) action \<Rightarrow> ('a \<Rightarrow> ('s, 'b) action) \<Rightarrow> ('s, 'b) action" where
  "bind m k = (\<lambda>w. case m w of (Inl e, w') \<Rightarrow> (Inl e, w') | (Inr v, w') \<Rightarrow> k v w')"

text \<open>\<open>match m { Ok(v) => k(v), Err(e) => h(e) }\<close>\<close>

definition handle :: "('s, 'a) action \<Rightarrow> (string \<Rightarrow> ('s, 'b) action) \<Rightarrow> ('a \<Rightarrow> ('s, 'b) action) \<Rightarrow>
    ('s, 'b) action" where
  "handle m h k = (\<lambda>w. case m w of (Inl e, w') \<Rightarrow> h e w' | (Inr v, w') \<Rightarrow> k v w')"

text \<open>\<open>m1?; ...; mn?; k\<close>\<close>

primrec seq :: "('s, unit) action list \<Rightarrow> ('s, 'b) action \<Rightarrow> ('s, 'b) action" where
  "seq [] k = k"
| "seq (m # ms) k = bind m (\<lambda>_. seq ms k)"

definition new_v4 :: "outside \<Rightarrow> ('x, uuid) comp" where
  "new_v4 env = (\<lambda>w. (Inr (o_uuid env (w_uuids w)), w\<lparr>w_uuids := Suc (w_uuids w)\<rparr>))"

definition stmt :: "outside \<Rightarrow> (time \<Rightarrow> db \<Rightarrow> (db_error + 'a) \<times> db) \<Rightarrow> ('x, 'a) comp" where
  "stmt env f = (\<lambda>w.
     let n = w_stmts w; w1 = w\<lparr>w_stmts := Suc n\<rparr>
     in case o_fault env n of
          Some e \<Rightarrow> (Inl e, w1)
        | None \<Rightarrow>
            (case f (o_now env n) (w_db w) of
               (Inl e, d) \<Rightarrow> (Inl (o_sql_text env e), w1)
             | (Inr v, d) \<Rightarrow> (Inr v, w1\<lparr>w_db := d\<rparr>)))"

text \<open>\<open>OffsetDateTime::now_utc()\<close> between statements\<close>

definition now_utc :: "outside \<Rightarrow> ('x, time) comp" where
  "now_utc env = (\<lambda>w. (Inr (o_now env (w_stmts w)), w))"

definition ignore :: "('s, 'a) action \<Rightarrow> ('s, unit) action" where
  "ignore m = bind m (\<lambda>_. ret ())"

text \<open>\<open>r?\<close> on a value, and \<open>let _ = m\<close>.\<close>

definition lift :: "string + 'a \<Rightarrow> 's \<Rightarrow> (string + 'a) \<times> 's" where
  "lift r = (\<lambda>s. (r, s))"

definition try_ignore :: "('s, 'a) action \<Rightarrow> ('s, unit) action" where
  "try_ignore m = handle m (\<lambda>_. ret ()) (\<lambda>_. ret ())"

section \<open>Reasoning about computations\<close>

text \<open>
  \<open>wp m Q E w\<close>: run from \<open>w\<close>, the computation ends with a value and a state in \<open>Q\<close>, or with an
  error and a state in \<open>E\<close>.
\<close>

named_theorems wp_simps \<open>weakest preconditions of the computations\<close>

definition wp :: "('s, 'a) action \<Rightarrow> ('a \<Rightarrow> 's \<Rightarrow> bool) \<Rightarrow> (string \<Rightarrow> 's \<Rightarrow> bool) \<Rightarrow>
    's \<Rightarrow> bool" where
  "wp m Q E w = (case m w of (Inl e, w') \<Rightarrow> E e w' | (Inr v, w') \<Rightarrow> Q v w')"

lemma wp_ret [wp_simps]: "wp (ret v) Q E = Q v"
  by (simp add: fun_eq_iff wp_def ret_def)

lemma wp_fail [wp_simps]: "wp (fail e) Q E = E e"
  by (simp add: fun_eq_iff wp_def fail_def)

lemma wp_bind [wp_simps]: "wp (bind m k) Q E = wp m (\<lambda>v. wp (k v) Q E) E"
  by (simp add: fun_eq_iff wp_def bind_def split: prod.split sum.split)

lemma wp_handle [wp_simps]: "wp (handle m h k) Q E = wp m (\<lambda>v. wp (k v) Q E) (\<lambda>e. wp (h e) Q E)"
  by (simp add: fun_eq_iff wp_def handle_def split: prod.split sum.split)

lemma wp_seq [wp_simps]:
  "wp (seq [] k) Q E = wp k Q E"
  "wp (seq (m # ms) k) Q E = wp m (\<lambda>_. wp (seq ms k) Q E) E"
  by (simp_all add: wp_bind)

lemma wp_new_v4 [wp_simps]:
  "wp (new_v4 env) Q E = (\<lambda>w. Q (o_uuid env (w_uuids w)) (w\<lparr>w_uuids := Suc (w_uuids w)\<rparr>))"
  by (simp add: fun_eq_iff wp_def new_v4_def)

lemma wp_now_utc [wp_simps]: "wp (now_utc env) Q E = (\<lambda>w. Q (o_now env (w_stmts w)) w)"
  by (simp add: fun_eq_iff wp_def now_utc_def)

lemma wp_ignore [wp_simps]: "wp (ignore m) Q E = wp m (\<lambda>_. Q ()) E"
  by (simp add: ignore_def wp_bind wp_ret)

lemma wp_lift [wp_simps]: "wp (lift r) Q E = (\<lambda>s. case r of Inl e \<Rightarrow> E e s | Inr v \<Rightarrow> Q v s)"
  by (simp add: fun_eq_iff wp_def lift_def split: sum.split)

lemma wp_try_ignore [wp_simps]: "wp (try_ignore m) Q E = wp m (\<lambda>_. Q ()) (\<lambda>_. Q ())"
  by (simp add: try_ignore_def wp_handle wp_ret)

lemma wp_mono:
  "wp m Q E w \<Longrightarrow> (\<And>v w'. Q v w' \<Longrightarrow> Q' v w') \<Longrightarrow> (\<And>e w'. E e w' \<Longrightarrow> E' e w') \<Longrightarrow> wp m Q' E' w"
  by (auto simp: wp_def split: prod.splits sum.splits)

lemma wp_run: "wp m Q E w \<Longrightarrow> m w = (res, w') \<Longrightarrow> (case res of Inl e \<Rightarrow> E e w' | Inr v \<Rightarrow> Q v w')"
  by (simp add: wp_def split: sum.splits)

text \<open>
  A statement either leaves the database as it is, or succeeds and changes it as the statement
  says; it never touches the rest of the world but the statement counter.
\<close>

lemma wp_stmtI:
  assumes "\<And>e w'. w_db w' = w_db w \<Longrightarrow> w_calls w' = w_calls w \<Longrightarrow> w_ext w' = w_ext w \<Longrightarrow> E e w'"
    and "\<And>now v w'. fst (f now (w_db w)) = Inr v \<Longrightarrow> w_db w' = snd (f now (w_db w)) \<Longrightarrow> w_calls w' = w_calls w \<Longrightarrow>
      w_ext w' = w_ext w \<Longrightarrow> w_uuids w' = w_uuids w \<Longrightarrow> Q v w'"
  shows "wp (stmt env f) Q E w"
proof -
  have "Q v (w\<lparr>w_stmts := n, w_db := d\<rparr>)" if "f now (w_db w) = (Inr v, d)" for now v d n
    by (rule assms(2) [of now]) (simp_all add: that)
  with assms(1) show ?thesis
    by (auto simp: wp_def stmt_def Let_def split: option.splits prod.splits sum.splits)
qed

end
