(* ===== verification/Policy.thy ===== *)
theory Policy
  imports Prelude
begin

text \<open>
  The capability model of \<open>core/src/policy.rs\<close>: what a run is granted, what an action asks
  for, and the default-deny decision between the two.
\<close>

section \<open>Capabilities, grants and requests\<close>

datatype capability_kind =
    ObjectRead | ObjectWrite | MemoryRead | MemoryWrite | MessageSend | MessageReceive
  | PaymentSend | LlmInfer | LocalExec | DbQuery | HttpRequest

definition from_action_type :: "string \<Rightarrow> capability_kind option" where
  "from_action_type action_type =
     (if action_type = ''object.read'' then Some ObjectRead
      else if action_type = ''object.write'' then Some ObjectWrite
      else if action_type = ''memory.read'' then Some MemoryRead
      else if action_type = ''memory.write'' then Some MemoryWrite
      else if action_type = ''message.send'' then Some MessageSend
      else if action_type = ''message.receive'' then Some MessageReceive
      else if action_type = ''payment.send'' then Some PaymentSend
      else if action_type = ''llm.infer'' then Some LlmInfer
      else if action_type = ''local.exec'' then Some LocalExec
      else if action_type = ''db.query'' then Some DbQuery
      else if action_type = ''http.request'' then Some HttpRequest
      else None)"

record capability_limits =
  max_payload_bytes :: "u64 option"

record capability_grant =
  kind :: capability_kind
  grant_scope :: string
  limits :: capability_limits

definition grant_new :: "capability_kind \<Rightarrow> string \<Rightarrow> capability_grant" where
  "grant_new k scope =
     \<lparr>kind = k, grant_scope = scope, limits = \<lparr>max_payload_bytes = None\<rparr>\<rparr>"

definition with_max_payload_bytes :: "capability_grant \<Rightarrow> u64 \<Rightarrow> capability_grant" where
  "with_max_payload_bytes g n = g\<lparr>limits := (limits g)\<lparr>max_payload_bytes := Some n\<rparr>\<rparr>"

record grant_set =
  grants :: "capability_grant list"

record policy_request =
  action_type :: string
  scope :: string
  payload_bytes :: u64

datatype deny_reason =
    UnknownActionType | CapabilityMissing | ScopeMismatch | PayloadTooLarge
  | InvalidActionContract

fun deny_reason_as_str :: "deny_reason \<Rightarrow> string" where
  "deny_reason_as_str UnknownActionType = ''unknown_action_type''"
| "deny_reason_as_str CapabilityMissing = ''capability_missing''"
| "deny_reason_as_str ScopeMismatch = ''scope_mismatch''"
| "deny_reason_as_str PayloadTooLarge = ''payload_too_large''"
| "deny_reason_as_str InvalidActionContract = ''invalid_action_contract''"

datatype policy_decision = Allow | Deny deny_reason

section \<open>The decision\<close>

definition scope_matches :: "string \<Rightarrow> string \<Rightarrow> bool" where
  "scope_matches granted requested =
     (case strip_suffix granted ''*'' of
        Some prefix \<Rightarrow> starts_with requested prefix
      | None \<Rightarrow> granted = requested)"

definition within_limit :: "capability_grant \<Rightarrow> u64 \<Rightarrow> bool" where
  "within_limit g n =
     (case max_payload_bytes (limits g) of None \<Rightarrow> True | Some m \<Rightarrow> n \<le> m)"

definition is_action_allowed :: "grant_set \<Rightarrow> policy_request \<Rightarrow> policy_decision" where
  "is_action_allowed gs request =
     (case from_action_type (action_type request) of
        None \<Rightarrow> Deny UnknownActionType
      | Some k \<Rightarrow>
          (let kind_grants = filter (\<lambda>g. kind g = k) (grants gs)
           in if kind_grants = [] then Deny CapabilityMissing
              else
                (let scoped_grants =
                       filter (\<lambda>g. scope_matches (grant_scope g) (scope request)) kind_grants
                 in if scoped_grants = [] then Deny ScopeMismatch
                    else if list_ex (\<lambda>g. within_limit g (payload_bytes request)) scoped_grants
                         then Allow else Deny PayloadTooLarge)))"

section \<open>Lemmas\<close>

text \<open>A grant covers a request when its kind, its scope and its payload limit all do.\<close>

definition covers :: "capability_grant \<Rightarrow> policy_request \<Rightarrow> bool" where
  "covers g r \<longleftrightarrow> from_action_type (action_type r) = Some (kind g) \<and>
     scope_matches (grant_scope g) (scope r) \<and> within_limit g (payload_bytes r)"

lemma scope_matches_star [str_simps]:
  "scope_matches (p @ ''*'') s \<longleftrightarrow> (\<exists>t. s = p @ t)"
  by (simp add: scope_matches_def strip_suffix_def ends_with_iff starts_with_iff)

lemma scope_matches_exact: "\<not> ends_with g ''*'' \<Longrightarrow> scope_matches g s \<longleftrightarrow> g = s"
  by (simp add: scope_matches_def strip_suffix_def)

lemma allow_iff_covers:
  "is_action_allowed gs r = Allow \<longleftrightarrow> (\<exists>g \<in> set (grants gs). covers g r)"
  by (auto simp: is_action_allowed_def covers_def Let_def list_ex_iff filter_empty_conv
      split: option.splits)

lemma deny_iff:
  "is_action_allowed gs r = Deny d \<longleftrightarrow>
     (case from_action_type (action_type r) of
        None \<Rightarrow> d = UnknownActionType
      | Some k \<Rightarrow>
          if \<forall>g \<in> set (grants gs). kind g \<noteq> k then d = CapabilityMissing
          else if \<forall>g \<in> set (grants gs). kind g = k \<longrightarrow> \<not> scope_matches (grant_scope g) (scope r)
               then d = ScopeMismatch
          else (\<forall>g \<in> set (grants gs). \<not> covers g r) \<and> d = PayloadTooLarge)"
  by (auto simp: is_action_allowed_def covers_def Let_def list_ex_iff filter_empty_conv
      split: option.splits)

lemma allow_mono:
  "is_action_allowed gs r = Allow \<Longrightarrow> set (grants gs) \<subseteq> set (grants gs') \<Longrightarrow>
   is_action_allowed gs' r = Allow"
  by (auto simp: allow_iff_covers)

lemma deny_reason_as_str_inject: "deny_reason_as_str a = deny_reason_as_str b \<Longrightarrow> a = b"
  by (cases a; cases b) simp_all

section \<open>Properties\<close>

text \<open>
  (C1) Default deny: an action is allowed iff one grant of the run covers it alone: the grant has
  the capability of the action type, its scope is the requested one or a \<open>*\<close>-terminated prefix
  of it, and its payload limit, if any, is not exceeded. Unknown action types and an empty grant
  set are never allowed.
\<close>

theorem is_action_allowed_iff:
  "is_action_allowed gs r = Allow \<longleftrightarrow>
     (\<exists>g \<in> set (grants gs). from_action_type (action_type r) = Some (kind g) \<and>
        (grant_scope g = scope r \<and> \<not> ends_with (grant_scope g) ''*'' \<or>
         (\<exists>p rest. grant_scope g = p @ ''*'' \<and> scope r = p @ rest)) \<and>
        (max_payload_bytes (limits g) = None \<or>
         (\<exists>m. max_payload_bytes (limits g) = Some m \<and> payload_bytes r \<le> m)))"
proof -
  have "scope_matches s q \<longleftrightarrow>
      s = q \<and> \<not> ends_with s ''*'' \<or> (\<exists>p rest. s = p @ ''*'' \<and> q = p @ rest)" for s q
    by (cases "ends_with s ''*''") (auto simp: scope_matches_exact str_simps)
  moreover have "within_limit g n \<longleftrightarrow> max_payload_bytes (limits g) = None \<or>
      (\<exists>m. max_payload_bytes (limits g) = Some m \<and> n \<le> m)" for g n
    by (simp add: within_limit_def split: option.split)
  ultimately show ?thesis by (simp add: allow_iff_covers covers_def)
qed

text \<open>
  The reason of a denial is the first check that failed, in the order action type,
  capability, scope, payload; adding grants to a set never turns an allowed action into a denied
  one.
\<close>

theorem is_action_allowed_deny_reason:
  assumes "is_action_allowed gs r = Deny d"
  shows "d = (case from_action_type (action_type r) of
        None \<Rightarrow> UnknownActionType
      | Some k \<Rightarrow>
          if \<forall>g \<in> set (grants gs). kind g \<noteq> k then CapabilityMissing
          else if \<forall>g \<in> set (grants gs). kind g = k \<longrightarrow> \<not> scope_matches (grant_scope g) (scope r)
               then ScopeMismatch
          else PayloadTooLarge) \<and>
    (set (grants gs') \<subseteq> set (grants gs) \<longrightarrow> is_action_allowed gs' r \<noteq> Allow)"
proof
  show "set (grants gs') \<subseteq> set (grants gs) \<longrightarrow> is_action_allowed gs' r \<noteq> Allow"
    using assms allow_mono [of gs' r gs] by auto
qed (use assms in \<open>auto simp: deny_iff split: option.splits if_splits\<close>)

theorem is_action_allowed_deny_reason_witness:
  "let gs = \<lparr>grants = [grant_new ObjectRead ''a/*'']\<rparr>;
       r = \<lparr>action_type = ''object.write'', scope = ''a/b'', payload_bytes = 1\<rparr>
   in is_action_allowed gs r = Deny CapabilityMissing \<and> is_action_allowed \<lparr>grants = []\<rparr> r \<noteq> Allow"
proof -
  let ?gs = "\<lparr>grants = [grant_new ObjectRead ''a/*'']\<rparr>"
  let ?r = "\<lparr>action_type = ''object.write'', scope = ''a/b'', payload_bytes = 1\<rparr>"
  have d: "is_action_allowed ?gs ?r = Deny CapabilityMissing"
    by (simp add: is_action_allowed_def from_action_type_def grant_new_def)
  from is_action_allowed_deny_reason [OF d, of "\<lparr>grants = []\<rparr>"] d show ?thesis
    by (simp add: Let_def)
qed

end
