(* ===== verification/ActionContract.thy ===== *)
theory ActionContract
  imports Policy Skillrunner
begin

text \<open>
  How the worker reads what a skill asks for (\<open>worker/src/lib.rs\<close>): normalisation of an action
  request, its contract check, the policy request derived from it, and the grants parsed from
  the run's \<open>granted_capabilities\<close>.

  Two functions are arguments: \<open>json_len\<close>, the length of \<open>serde_json::to_vec\<close> of a value
  (\<^const>\<open>Inl\<close> with the error text if it fails), and \<open>llm_scope\<close>, the scope the LLM router gives an
  \<open>llm.infer\<close> action.
\<close>

section \<open>Normalisation\<close>

definition normalized_action_type :: "string \<Rightarrow> string" where
  "normalized_action_type value = to_ascii_lowercase (trim value)"

definition normalize_action_type_list :: "string list \<Rightarrow> string list" where
  "normalize_action_type_list values =
     filter (\<lambda>v. v \<noteq> []) (map normalized_action_type values)"

definition canonicalize_action_arg_alias :: "string \<Rightarrow> string list \<Rightarrow> json_map \<Rightarrow> json_map" where
  "canonicalize_action_arg_alias canonical aliases m =
     (let canonical_value = map_of m canonical;
          m1 = obj_remove canonical m;
          (final_value, m2) =
            (if canonical_value = None
             then fold (\<lambda>alias (v, m).
                    (case v of None \<Rightarrow> map_of m alias | Some x \<Rightarrow> Some x, obj_remove alias m))
                  aliases (canonical_value, m1)
             else (canonical_value, fold obj_remove aliases m1))
      in case final_value of None \<Rightarrow> m2 | Some v \<Rightarrow> obj_insert canonical v m2)"

text \<open>\<open>if let Some(Value::String(v)) = map.get_mut(f) { *v = v.trim() }\<close>\<close>

definition trim_field :: "string \<Rightarrow> json_map \<Rightarrow> json_map" where
  "trim_field f m =
     (case map_of m f of Some (JString v) \<Rightarrow> obj_insert f (JString (trim v)) m | _ \<Rightarrow> m)"

definition action_arg_aliases :: "(string \<times> string list) list" where
  "action_arg_aliases =
     [(''path'', [''file_path'', ''filepath'', ''source_path'']),
      (''destination'', [''to'', ''recipient'', ''recipient_id'']),
      (''source'', [''from'', ''sender'', ''sender_id'']),
      (''scope'', [''scope_name'', ''scope-name'']),
      (''template_id'', [''template'', ''template-id'', ''template_name''])]"

definition canonicalize_action_arg_aliases :: "json_map \<Rightarrow> json_map" where
  "canonicalize_action_arg_aliases m =
     fold trim_field [''path'', ''destination'', ''scope'', ''template_id'']
       (fold (\<lambda>(c, al). canonicalize_action_arg_alias c al) action_arg_aliases m)"

definition trim_optional :: "string option \<Rightarrow> string option" where
  "trim_optional v = Option.bind v non_empty_trimmed"

definition normalize_args :: "json \<Rightarrow> json" where
  "normalize_args args =
     (case args of
        JObject m \<Rightarrow>
          JObject (fold trim_field [''path'', ''destination'', ''source'', ''scope'', ''template_id'']
            (canonicalize_action_arg_aliases m))
      | other \<Rightarrow> other)"

definition normalize_skill_action :: "action_request \<Rightarrow> action_request" where
  "normalize_skill_action a =
     a\<lparr>act_type := normalized_action_type (act_type a),
       act_contract_version := trim_optional (act_contract_version a),
       act_schema_id := trim_optional (act_schema_id a),
       act_args := normalize_args (act_args a)\<rparr>"

section \<open>Contract\<close>

record contract_error =
  ce_reason :: deny_reason
  ce_detail :: string

definition contract_invalid :: "string \<Rightarrow> contract_error" where
  "contract_invalid detail = \<lparr>ce_reason = InvalidActionContract, ce_detail = detail\<rparr>"

definition is_supported_action_type_for_contract_check :: "string \<Rightarrow> bool" where
  "is_supported_action_type_for_contract_check t \<longleftrightarrow>
     t \<in> {''object.read'', ''memory.read'', ''memory.write'', ''object.write'', ''message.send'',
          ''message.receive'', ''payment.send'', ''llm.infer'', ''local.exec''}"

definition normalize_contract_version :: "string \<Rightarrow> string option" where
  "normalize_contract_version raw =
     (if trim raw \<in> {''1'', ''v1'', ''V1''} then Some ''1'' else None)"

definition validate_action_contract :: "action_request \<Rightarrow> contract_error + unit" where
  "validate_action_contract a =
     (let t = normalized_action_type (act_type a);
          version = Option.bind (act_contract_version a) non_empty_trimmed;
          schema = Option.bind (act_schema_id a) non_empty_trimmed
      in if (version \<noteq> None) \<noteq> (schema \<noteq> None)
         then Inl (contract_invalid
           ''action_contract_version and action_schema_id must be provided together'')
         else case version of
           None \<Rightarrow> Inr ()
         | Some v \<Rightarrow>
             (case normalize_contract_version v of
                None \<Rightarrow> Inl (contract_invalid (''unsupported action_contract_version `'' @ v @ ''`''))
              | Some normalized_version \<Rightarrow>
                  (case schema of
                     None \<Rightarrow> Inl (contract_invalid ''action_schema_id must be a non-empty string'')
                   | Some schema_id \<Rightarrow>
                       if \<not> is_supported_action_type_for_contract_check t then Inr ()
                       else case split_once schema_id (CHR '':'') of
                         None \<Rightarrow> Inl (contract_invalid
                           ''action_schema_id must use `<action_type>:<version>` format'')
                       | Some (schema_action_type, schema_version_raw) \<Rightarrow>
                           (case normalize_contract_version schema_version_raw of
                              None \<Rightarrow> Inl (contract_invalid
                                (''unsupported action_contract_version `'' @ schema_id @ ''`''))
                            | Some schema_version \<Rightarrow>
                                if normalized_action_type (trim schema_action_type) \<noteq> t
                                then Inl (contract_invalid
                                  ''action_schema_id action type does not match action_type'')
                                else if schema_version \<noteq> normalized_version
                                then Inl (contract_invalid
                                  ''action_schema_id version does not match action_contract_version'')
                                else if contains schema_id ''..''
                                then Inl (contract_invalid
                                  ''action_schema_id contains disallowed path segments'')
                                else Inr ()))))"

definition required_trimmed_arg :: "action_request \<Rightarrow> string \<Rightarrow> string \<Rightarrow> contract_error + string" where
  "required_trimmed_arg a field label =
     (case Option.bind (get_str (act_args a) field) non_empty_trimmed of
        None \<Rightarrow> Inl (contract_invalid (label @ '' is required and must not be empty''))
      | Some value \<Rightarrow> Inr value)"

definition policy_scope ::
    "(json \<Rightarrow> string + string) \<Rightarrow> action_request \<Rightarrow> contract_error + string" where
  "policy_scope llm_scope a =
     (let t = act_type a in
      if t = ''object.write'' then required_trimmed_arg a ''path'' ''object.write args.path''
      else if t = ''message.send''
        then required_trimmed_arg a ''destination'' ''message.send args.destination''
      else if t = ''message.receive''
        then required_trimmed_arg a ''source'' ''message.receive args.source''
      else if t = ''payment.send''
        then required_trimmed_arg a ''destination'' ''payment.send args.destination''
      else if t = ''memory.read'' \<or> t = ''memory.write''
        then required_trimmed_arg a ''scope'' ''memory action args.scope''
      else if t = ''llm.infer''
        then (case llm_scope (act_args a) of
                Inl e \<Rightarrow> Inl (contract_invalid e) | Inr s \<Rightarrow> Inr s)
      else if t = ''local.exec''
        then (case required_trimmed_arg a ''template_id'' ''local.exec args.template_id'' of
                Inl e \<Rightarrow> Inl e | Inr template \<Rightarrow> Inr (''local.exec:'' @ template))
      else Inr [])"

definition to_policy_request ::
    "(json \<Rightarrow> string + nat) \<Rightarrow> (json \<Rightarrow> string + string) \<Rightarrow> action_request \<Rightarrow>
     contract_error + policy_request" where
  "to_policy_request json_len llm_scope a =
     (case validate_action_contract a of
        Inl e \<Rightarrow> Inl e
      | Inr _ \<Rightarrow>
          (case json_len (act_args a) of
             Inl error \<Rightarrow> Inl (contract_invalid
               (''failed serializing action args for payload sizing: '' @ error))
           | Inr n \<Rightarrow>
               (case policy_scope llm_scope a of
                  Inl e \<Rightarrow> Inl e
                | Inr s \<Rightarrow>
                    Inr \<lparr>action_type = act_type a, scope = s, payload_bytes = of_nat n\<rparr>)))"

section \<open>Grants\<close>

definition parse_capability_kind :: "string \<Rightarrow> capability_kind option" where
  "parse_capability_kind value =
     (if value \<in> {''object.read'', ''object_read''} then Some ObjectRead
      else if value \<in> {''object.write'', ''object_write''} then Some ObjectWrite
      else if value \<in> {''memory.read'', ''memory_read''} then Some MemoryRead
      else if value \<in> {''memory.write'', ''memory_write''} then Some MemoryWrite
      else if value \<in> {''message.send'', ''message_send''} then Some MessageSend
      else if value \<in> {''message.receive'', ''message_receive''} then Some MessageReceive
      else if value \<in> {''payment.send'', ''payment_send''} then Some PaymentSend
      else if value \<in> {''llm.infer'', ''llm_infer''} then Some LlmInfer
      else if value \<in> {''local.exec'', ''local_exec''} then Some LocalExec
      else if value \<in> {''db.query'', ''db_query''} then Some DbQuery
      else if value \<in> {''http.request'', ''http_request''} then Some HttpRequest
      else None)"

fun capability_kind_to_action_type :: "capability_kind \<Rightarrow> string" where
  "capability_kind_to_action_type ObjectRead = ''object.read''"
| "capability_kind_to_action_type ObjectWrite = ''object.write''"
| "capability_kind_to_action_type MemoryRead = ''memory.read''"
| "capability_kind_to_action_type MemoryWrite = ''memory.write''"
| "capability_kind_to_action_type MessageSend = ''message.send''"
| "capability_kind_to_action_type MessageReceive = ''message.receive''"
| "capability_kind_to_action_type PaymentSend = ''payment.send''"
| "capability_kind_to_action_type LlmInfer = ''llm.infer''"
| "capability_kind_to_action_type LocalExec = ''local.exec''"
| "capability_kind_to_action_type DbQuery = ''db.query''"
| "capability_kind_to_action_type HttpRequest = ''http.request''"

definition parse_capability_grant :: "json \<Rightarrow> capability_grant option" where
  "parse_capability_grant value =
     (case get_str value ''capability'' of None \<Rightarrow> None | Some capability \<Rightarrow>
      case get_str value ''scope'' of None \<Rightarrow> None | Some sc \<Rightarrow>
      case parse_capability_kind capability of None \<Rightarrow> None | Some k \<Rightarrow>
        (let grant = grant_new k sc
         in case Option.bind (json_get value ''limits'') (\<lambda>l. get_u64 l ''max_payload_bytes'') of
              Some n \<Rightarrow> Some (with_max_payload_bytes grant n)
            | None \<Rightarrow> Some grant))"

definition parse_grant_set :: "json \<Rightarrow> grant_set" where
  "parse_grant_set raw =
     (case as_array raw of
        None \<Rightarrow> \<lparr>grants = []\<rparr>
      | Some items \<Rightarrow> \<lparr>grants = List.map_filter parse_capability_grant items\<rparr>)"

section \<open>Governance approval\<close>

definition requires_governance_approval :: "string list \<Rightarrow> string \<Rightarrow> bool" where
  "requires_governance_approval approval_required_action_types t =
     (if approval_required_action_types = [] then False
      else list_ex (\<lambda>c. c = normalized_action_type t) approval_required_action_types)"

definition is_action_governance_approved :: "action_request \<Rightarrow> bool" where
  "is_action_governance_approved a =
     (if get_bool (act_args a) ''approved'' = Some True then True
      else if act_type a = ''payment.send''
        then get_bool (act_args a) ''payment_approved'' = Some True
      else False)"

section \<open>Lemmas\<close>

subsection \<open>Normalised arguments\<close>

fun first_present :: "(string \<Rightarrow> json option) \<Rightarrow> string list \<Rightarrow> json option" where
  "first_present f [] = None"
| "first_present f (k # ks) = (case f k of None \<Rightarrow> first_present f ks | Some v \<Rightarrow> Some v)"

fun trim_json :: "json \<Rightarrow> json" where
  "trim_json (JString s) = JString (trim s)"
| "trim_json v = v"

lemma map_of_fold_remove:
  "map_of (fold obj_remove ks m) = (\<lambda>k. if k \<in> set ks then None else map_of m k)"
  by (induction ks arbitrary: m) (auto simp: map_of_obj_remove fun_eq_iff)

lemma first_present_remove:
  "f k = None \<Longrightarrow> first_present (f(k := None)) ks = first_present f ks"
  by (metis fun_upd_triv)

lemma fold_alias:
  "fold (\<lambda>alias (v, m). (case v of None \<Rightarrow> map_of m alias | Some x \<Rightarrow> Some x, obj_remove alias m))
     al (v, m) =
   (case v of None \<Rightarrow> first_present (map_of m) al | Some x \<Rightarrow> Some x, fold obj_remove al m)"
  by (induction al arbitrary: v m)
    (auto simp: map_of_obj_remove first_present_remove split: option.splits)

lemma map_of_trim_field:
  "map_of (trim_field f m) = (map_of m)(f := map_option trim_json (map_of m f))"
  by (auto simp: trim_field_def map_of_obj_insert fun_eq_iff split: option.splits json.splits)

lemma map_of_canonicalize_alias:
  assumes "c \<notin> set al"
  shows "map_of (canonicalize_action_arg_alias c al m) =
    (\<lambda>k. if k = c then first_present (map_of m) (c # al)
          else if k \<in> set al then None else map_of m k)"
proof (cases "map_of m c")
  case None
  then have "first_present (map_of (obj_remove c m)) al = first_present (map_of m) al"
    by (simp add: map_of_obj_remove first_present_remove)
  with None assms show ?thesis
    by (auto simp: canonicalize_action_arg_alias_def Let_def fold_alias map_of_fold_remove
        map_of_obj_insert map_of_obj_remove fun_eq_iff split: option.splits)
next
  case (Some v)
  with assms show ?thesis
    by (auto simp: canonicalize_action_arg_alias_def Let_def map_of_fold_remove
        map_of_obj_insert map_of_obj_remove fun_eq_iff)
qed

lemma trim_json_idem [simp]: "trim_json (trim_json v) = trim_json v"
  by (cases v) auto

lemma map_option_trim_json_idem [simp]:
  "map_option trim_json (map_option trim_json v) = map_option trim_json v"
  by (cases v) auto

lemma map_of_fold_trim_field:
  "map_of (fold trim_field fs m) k =
     (if k \<in> set fs then map_option trim_json (map_of m k) else map_of m k)"
  by (induction fs arbitrary: m) (auto simp: map_of_trim_field)

abbreviation "table_keys tbl \<equiv> concat (map (\<lambda>(c, al). c # al) tbl)"
abbreviation "fold_aliases \<equiv> fold (\<lambda>(c, al). canonicalize_action_arg_alias c al)"

lemma first_present_cong: "(\<And>k. k \<in> set ks \<Longrightarrow> f k = g k) \<Longrightarrow> first_present f ks = first_present g ks"
  by (induction ks) (auto split: option.split)

lemma fold_aliases_other:
  "distinct (table_keys tbl) \<Longrightarrow> k \<notin> set (table_keys tbl) \<Longrightarrow>
   map_of (fold_aliases tbl m) k = map_of m k"
proof (induction tbl arbitrary: m)
  case (Cons e tbl)
  obtain c al where e: "e = (c, al)" by force
  with Cons.prems have "map_of (canonicalize_action_arg_alias c al m) k = map_of m k"
    by (subst map_of_canonicalize_alias) auto
  with Cons e show ?case by simp
qed simp

lemma fold_aliases_canonical:
  "distinct (table_keys tbl) \<Longrightarrow> (c, al) \<in> set tbl \<Longrightarrow>
   map_of (fold_aliases tbl m) c = first_present (map_of m) (c # al) \<and>
   (\<forall>k \<in> set al. map_of (fold_aliases tbl m) k = None)"
proof (induction tbl arbitrary: m)
  case (Cons e tbl)
  obtain c0 al0 where e: "e = (c0, al0)" by force
  let ?m = "canonicalize_action_arg_alias c0 al0 m"
  have d: "distinct (table_keys tbl)" "c0 \<notin> set al0" and
    disj: "set (c0 # al0) \<inter> set (table_keys tbl) = {}"
    using Cons.prems(1) e by auto
  note m = map_of_canonicalize_alias [OF d(2), of m]
  show ?case
  proof (cases "(c, al) = (c0, al0)")
    case True
    then have [simp]: "c0 = c" "al0 = al" by simp_all
    from disj have "k \<in> set (c # al) \<Longrightarrow> map_of (fold_aliases tbl ?m) k = map_of ?m k" for k
      by (intro fold_aliases_other [OF d(1)]) (simp only: disjoint_iff \<open>c0 = c\<close> \<open>al0 = al\<close> not_False_eq_True)
    moreover from d(2) have "c \<notin> set al" by simp
    ultimately show ?thesis unfolding e by (simp add: map_of_canonicalize_alias)
  next
    case False
    with Cons.prems e have mem: "(c, al) \<in> set tbl" by auto
    then have "set (c # al) \<subseteq> set (table_keys tbl)" by auto
    with disj have "k \<in> set (c # al) \<Longrightarrow> k \<noteq> c0 \<and> k \<notin> set al0" for k
      by (metis disjoint_iff list.set_intros subsetD)
    then have "k \<in> set (c # al) \<Longrightarrow> map_of ?m k = map_of m k" for k
      unfolding m by simp
    then have "first_present (map_of ?m) (c # al) = first_present (map_of m) (c # al)"
      by (rule first_present_cong)
    with Cons.IH [OF d(1) mem, of ?m] e show ?thesis by simp
  qed
qed simp

lemma alias_table_distinct: "distinct (table_keys action_arg_aliases)"
  by code_simp

lemma alias_table_canonical:
  "(c, al) \<in> set action_arg_aliases \<Longrightarrow>
     c \<in> {''path'', ''destination'', ''source'', ''scope'', ''template_id''}"
  by (auto simp: action_arg_aliases_def)

lemma json_get_normalize_args:
  "json_get (normalize_args (JObject m)) k =
     (if k \<in> {''path'', ''destination'', ''source'', ''scope'', ''template_id''}
      then map_option trim_json (map_of (fold_aliases action_arg_aliases m) k)
      else map_of (fold_aliases action_arg_aliases m) k)"
  unfolding normalize_args_def canonicalize_action_arg_aliases_def json.case json_get.simps
    map_of_fold_trim_field
  by auto

lemma normalize_args_canonical:
  assumes "(c, al) \<in> set action_arg_aliases"
  shows "json_get (normalize_args (JObject m)) c =
    map_option trim_json (first_present (map_of m) (c # al))"
  using fold_aliases_canonical [OF alias_table_distinct assms] alias_table_canonical [OF assms]
  by (simp add: json_get_normalize_args del: first_present.simps)

lemma normalize_args_alias:
  assumes "(c, al) \<in> set action_arg_aliases" and "k \<in> set al"
  shows "json_get (normalize_args (JObject m)) k = None"
  using fold_aliases_canonical [OF alias_table_distinct assms(1)] assms(2)
  by (simp add: json_get_normalize_args)

lemma normalize_args_other:
  assumes "k \<notin> set (table_keys action_arg_aliases)"
  shows "json_get (normalize_args (JObject m)) k = map_of m k"
proof -
  have "{''path'', ''destination'', ''source'', ''scope'', ''template_id''} \<subseteq>
      set (table_keys action_arg_aliases)"
    by (simp add: action_arg_aliases_def)
  with assms have "k \<notin> {''path'', ''destination'', ''source'', ''scope'', ''template_id''}"
    by blast
  with fold_aliases_other [OF alias_table_distinct assms] show ?thesis
    by (simp only: json_get_normalize_args if_False)
qed

lemma normalized_field_trimmed:
  assumes "(c, al) \<in> set action_arg_aliases" and "get_str (normalize_args v) c = Some s"
  shows "trim s = s"
proof (cases v)
  case (JObject m)
  with assms obtain w where "trim_json w = JString s"
    by (auto simp: get_str_Some normalize_args_canonical)
  then show ?thesis by (cases w) auto
qed (use assms in \<open>auto simp: normalize_args_def get_str_def\<close>)

lemma obj_wf_trim_fields: "obj_wf m \<Longrightarrow> obj_wf (fold trim_field fs m)"
  by (induction fs arbitrary: m) (auto simp: trim_field_def obj_wf_insert split: option.split json.split)

lemma obj_wf_fold_remove: "obj_wf m \<Longrightarrow> obj_wf (fold obj_remove ks m)"
  by (induction ks arbitrary: m) (auto simp: obj_wf_remove)

lemma obj_wf_alias: "obj_wf m \<Longrightarrow> obj_wf (canonicalize_action_arg_alias c al m)"
  by (auto simp: canonicalize_action_arg_alias_def Let_def fold_alias obj_wf_insert
      obj_wf_fold_remove obj_wf_remove split: option.split)

lemma obj_wf_fold_aliases: "obj_wf m \<Longrightarrow> obj_wf (fold_aliases tbl m)"
  by (induction tbl arbitrary: m) (auto simp: obj_wf_alias)

lemma normalize_args_object:
  "\<exists>m'. normalize_args (JObject m) = JObject m' \<and> (obj_wf m \<longrightarrow> obj_wf m')"
  unfolding normalize_args_def canonicalize_action_arg_aliases_def json.case
  using obj_wf_trim_fields obj_wf_fold_aliases by blast

lemma first_present_only_first:
  "(\<And>k. k \<in> set al \<Longrightarrow> f k = None) \<Longrightarrow> first_present f (c # al) = f c"
proof -
  assume none: "\<And>k. k \<in> set al \<Longrightarrow> f k = None"
  then have "first_present f al = None" by (induction al) auto
  then show ?thesis by (simp split: option.split)
qed

lemma normalize_args_idem:
  assumes "json_wf args"
  shows "normalize_args (normalize_args args) = normalize_args args"
proof (cases args)
  case (JObject m)
  with assms have m: "obj_wf m" by simp
  obtain m1 where m1: "normalize_args (JObject m) = JObject m1" "obj_wf m1"
    using normalize_args_object m by blast
  obtain m2 where m2: "normalize_args (JObject m1) = JObject m2" "obj_wf m2"
    using normalize_args_object m1(2) by blast
  have look1: "map_of m1 k = json_get (normalize_args (JObject m)) k" for k by (simp add: m1)
  have look2: "map_of m2 k = json_get (normalize_args (JObject m1)) k" for k by (simp add: m2)
  have "map_of m2 k = map_of m1 k" for k
  proof (cases "k \<in> set (table_keys action_arg_aliases)")
    case False
    then show ?thesis unfolding look2 by (rule normalize_args_other)
  next
    case True
    then obtain c al where tbl: "(c, al) \<in> set action_arg_aliases" and k: "k = c \<or> k \<in> set al"
      by auto
    show ?thesis
    proof (cases "k \<in> set al")
      case True
      with tbl show ?thesis unfolding look2 look1 by (simp only: normalize_args_alias)
    next
      case False
      with k have "k = c" by simp
      have "first_present (map_of m1) (c # al) = map_of m1 c"
        by (rule first_present_only_first) (simp only: look1 normalize_args_alias [OF tbl])
      then show ?thesis
        unfolding look2 \<open>k = c\<close> normalize_args_canonical [OF tbl] look1 by simp
    qed
  qed
  then have "m2 = m1" by (intro obj_wf_eqI m1 m2 ext)
  with JObject m1 m2 show ?thesis by simp
qed (simp_all add: normalize_args_def)

lemma normalized_action_type_idem [simp]:
  "normalized_action_type (normalized_action_type t) = normalized_action_type t"
  by (simp add: normalized_action_type_def trim_lower)

lemma trim_optional_idem [simp]: "trim_optional (trim_optional v) = trim_optional v"
  by (cases v) (auto simp: trim_optional_def non_empty_trimmed_def Let_def)

subsection \<open>The policy request\<close>

lemma required_trimmed_arg_Inr:
  "required_trimmed_arg a f l = Inr s \<longleftrightarrow>
     (\<exists>raw. get_str (act_args a) f = Some raw \<and> s = trim raw \<and> s \<noteq> [])"
  by (auto simp: required_trimmed_arg_def non_empty_trimmed_Some non_empty_trimmed_None
      Option.bind_eq_Some_conv Option.bind_eq_None_conv split: option.splits)

lemma required_arg_normalized:
  assumes "(f, al) \<in> set action_arg_aliases"
    and "required_trimmed_arg (normalize_skill_action a) f l = Inr s"
  shows "get_str (act_args (normalize_skill_action a)) f = Some s \<and> s \<noteq> []"
  using assms normalized_field_trimmed [OF assms(1), of "act_args a"]
  by (auto simp: required_trimmed_arg_Inr normalize_skill_action_def)

lemma to_policy_request_Inr:
  "to_policy_request json_len llm_scope a = Inr r \<longleftrightarrow>
     validate_action_contract a = Inr () \<and> (\<exists>n. json_len (act_args a) = Inr n \<and>
       policy_scope llm_scope a = Inr (scope r) \<and> action_type r = act_type a \<and>
       payload_bytes r = of_nat n)"
  by (cases r) (auto simp: to_policy_request_def split: sum.splits option.splits)

lemma policy_scope_of:
  "act_type a = ''object.write'' \<Longrightarrow>
     policy_scope ls a = required_trimmed_arg a ''path'' ''object.write args.path''"
  "act_type a = ''message.send'' \<Longrightarrow>
     policy_scope ls a = required_trimmed_arg a ''destination'' ''message.send args.destination''"
  "act_type a = ''message.receive'' \<Longrightarrow>
     policy_scope ls a = required_trimmed_arg a ''source'' ''message.receive args.source''"
  "act_type a = ''payment.send'' \<Longrightarrow>
     policy_scope ls a = required_trimmed_arg a ''destination'' ''payment.send args.destination''"
  "act_type a = ''memory.read'' \<Longrightarrow>
     policy_scope ls a = required_trimmed_arg a ''scope'' ''memory action args.scope''"
  "act_type a = ''memory.write'' \<Longrightarrow>
     policy_scope ls a = required_trimmed_arg a ''scope'' ''memory action args.scope''"
  by (simp_all add: policy_scope_def)

lemma policy_scope_of_local_exec:
  "act_type a = ''local.exec'' \<Longrightarrow> policy_scope ls a = Inr s \<Longrightarrow>
     \<exists>arg. required_trimmed_arg a ''template_id'' ''local.exec args.template_id'' = Inr arg \<and>
       s = ''local.exec:'' @ arg"
  by (simp add: policy_scope_def split: sum.splits)

abbreviation scoped_arguments :: "(string \<times> string) set" where
  "scoped_arguments \<equiv>
     {(''object.write'', ''path''), (''message.send'', ''destination''),
      (''message.receive'', ''source''), (''payment.send'', ''destination''),
      (''memory.read'', ''scope''), (''memory.write'', ''scope'')}"

lemma policy_scope_scoped:
  assumes "(act_type a, f) \<in> scoped_arguments"
  shows "\<exists>l. policy_scope ls a = required_trimmed_arg a f l"
  using assms policy_scope_of [of a ls] by (simp only: insert_iff prod.inject empty_iff) metis

lemma contract_invalid_reason [simp]: "ce_reason (contract_invalid d) = InvalidActionContract"
  by (simp add: contract_invalid_def)

lemma validate_action_contract_reason:
  "validate_action_contract a = Inl e \<Longrightarrow> \<exists>d. e = contract_invalid d"
  unfolding validate_action_contract_def Let_def
  by (simp split: option.splits prod.splits if_split_asm; blast)

lemma required_trimmed_arg_reason:
  "required_trimmed_arg a f l = Inl e \<Longrightarrow> \<exists>d. e = contract_invalid d"
  by (auto simp: required_trimmed_arg_def split: option.splits)

lemma policy_scope_reason:
  "policy_scope llm_scope a = Inl e \<Longrightarrow> \<exists>d. e = contract_invalid d"
  unfolding policy_scope_def Let_def
  by (simp split: sum.splits if_split_asm; (blast dest: required_trimmed_arg_reason)?)

lemma contract_error_reason:
  "to_policy_request json_len llm_scope a = Inl e \<Longrightarrow> ce_reason e = InvalidActionContract"
  unfolding to_policy_request_def
  by (auto split: sum.splits option.splits dest!: validate_action_contract_reason
      policy_scope_reason)

subsection \<open>Parsed grants\<close>

lemma parse_capability_grant_Some:
  "parse_capability_grant v = Some g \<longleftrightarrow>
     (\<exists>c. get_str v ''capability'' = Some c \<and> parse_capability_kind c = Some (kind g) \<and>
       get_str v ''scope'' = Some (grant_scope g) \<and>
       max_payload_bytes (limits g) =
         Option.bind (json_get v ''limits'') (\<lambda>l. get_u64 l ''max_payload_bytes''))"
  by (cases g; cases "limits g")
    (auto simp: parse_capability_grant_def grant_new_def with_max_payload_bytes_def Let_def
      split: option.splits)

lemma set_map_filter: "y \<in> set (List.map_filter f xs) \<longleftrightarrow> (\<exists>x \<in> set xs. f x = Some y)"
  by (force simp: List.map_filter_def)

lemma parsed_grant_iff:
  "g \<in> set (grants (parse_grant_set raw)) \<longleftrightarrow>
     (\<exists>items v. raw = JArray items \<and> v \<in> set items \<and> parse_capability_grant v = Some g)"
  by (cases raw) (auto simp: parse_grant_set_def set_map_filter)

lemma parse_capability_kind_cases:
  "parse_capability_kind s = Some k \<longleftrightarrow>
     s = capability_kind_to_action_type k \<or>
     s = map (\<lambda>c. if c = CHR ''.'' then CHR ''_'' else c) (capability_kind_to_action_type k)"
  by (cases k) (simp_all add: parse_capability_kind_def)

lemma from_action_type_inverse: "from_action_type t = Some k \<Longrightarrow> capability_kind_to_action_type k = t"
  by (auto simp: from_action_type_def split: if_splits)

section \<open>Properties\<close>

text \<open>
  (C6) What policy judges is what the worker executes: the scope of the policy request derived
  from a normalised action is the very argument the executor later reads (the path written, the
  destination sent or paid to, the source received from, the memory scope, the template run),
  never a different spelling or an alias of it, and it is not empty.
\<close>

theorem policy_scope_is_executed_argument:
  assumes "to_policy_request json_len llm_scope (normalize_skill_action a) = Inr r"
    and "(t, f) \<in> scoped_arguments \<and> pre = [] \<or> (t, f) = (''local.exec'', ''template_id'') \<and> pre = ''local.exec:''"
    and "normalized_action_type (act_type a) = t"
  shows "\<exists>arg. get_str (act_args (normalize_skill_action a)) f = Some arg \<and> arg \<noteq> [] \<and>
    trim arg = arg \<and> scope r = pre @ arg \<and> action_type r = t"
proof -
  let ?a = "normalize_skill_action a"
  have t: "act_type ?a = t" using assms(3) by (simp add: normalize_skill_action_def)
  from assms(1) have sc: "policy_scope llm_scope ?a = Inr (scope r)" and "action_type r = t"
    by (auto simp: to_policy_request_Inr t)
  from assms(2) have "f \<in> fst ` set action_arg_aliases"
    unfolding action_arg_aliases_def by (elim disjE conjE insertE emptyE; simp)
  then obtain al where tbl: "(f, al) \<in> set action_arg_aliases" by fastforce
  have "\<exists>l arg. required_trimmed_arg ?a f l = Inr arg \<and> scope r = pre @ arg"
    using assms(2)
  proof
    assume "(t, f) \<in> scoped_arguments \<and> pre = []"
    then have "(act_type ?a, f) \<in> scoped_arguments" and "pre = []"
      unfolding t by (rule conjunct1, rule conjunct2)
    with policy_scope_scoped [OF this(1), of llm_scope] sc show ?thesis by (metis append_Nil)
  next
    assume "(t, f) = (''local.exec'', ''template_id'') \<and> pre = ''local.exec:''"
    with policy_scope_of_local_exec [OF _ sc] t show ?thesis by blast
  qed
  then obtain l arg where "required_trimmed_arg ?a f l = Inr arg" "scope r = pre @ arg" by blast
  with required_arg_normalized [OF tbl, of a l arg] \<open>action_type r = t\<close>
  show ?thesis by (auto simp: required_trimmed_arg_Inr)
qed

definition sample_send :: action_request where
  "sample_send = \<lparr>act_id = ''a1'', act_type = '' Message.Send '',
     act_args = JObject [(''text'', JString ''hi''), (''to'', JString '' slack:C1 '')],
     act_justification = ''notify'', act_contract_version = None, act_schema_id = None\<rparr>"

lemma sample_send_normalized:
  "normalize_args (act_args sample_send) =
     JObject [(''destination'', JString ''slack:C1''), (''text'', JString ''hi'')]"
  "normalized_action_type (act_type sample_send) = ''message.send''"
  "trim ''slack:C1'' = ''slack:C1''"
  unfolding sample_send_def action_request.simps by code_simp+

lemma sample_send_normalize:
  "normalize_skill_action sample_send = sample_send\<lparr>act_type := ''message.send'',
     act_args := JObject [(''destination'', JString ''slack:C1''), (''text'', JString ''hi'')]\<rparr>"
  by (simp add: normalize_skill_action_def sample_send_normalized)
    (simp add: sample_send_def trim_optional_def)

lemma sample_send_request:
  "to_policy_request (\<lambda>_. Inr 41) (\<lambda>_. Inl []) (normalize_skill_action sample_send) =
     Inr \<lparr>action_type = ''message.send'', scope = ''slack:C1'', payload_bytes = 41\<rparr>"
proof -
  have "required_trimmed_arg (normalize_skill_action sample_send) ''destination'' l = Inr ''slack:C1''"
    for l unfolding required_trimmed_arg_Inr sample_send_normalize
    by (simp add: get_str_def sample_send_normalized)
  moreover have "act_type (normalize_skill_action sample_send) = ''message.send''"
    by (simp add: sample_send_normalize)
  moreover have "validate_action_contract (normalize_skill_action sample_send) = Inr ()"
    by (simp add: sample_send_normalize validate_action_contract_def) (simp add: sample_send_def)
  ultimately show ?thesis by (simp add: to_policy_request_Inr policy_scope_of(2))
qed

theorem policy_scope_is_executed_argument_witness:
  "\<exists>arg. get_str (act_args (normalize_skill_action sample_send)) ''destination'' = Some arg \<and>
     arg \<noteq> [] \<and> trim arg = arg \<and>
     to_policy_request (\<lambda>_. Inr 41) (\<lambda>_. Inl []) (normalize_skill_action sample_send) =
       Inr \<lparr>action_type = ''message.send'', scope = [] @ arg, payload_bytes = 41\<rparr>"
  using policy_scope_is_executed_argument [OF sample_send_request, of "''message.send''"
      "''destination''" "[]"]
  by (auto simp: sample_send_normalized sample_send_request)

text \<open>
  Normalising a request twice is normalising it once, so a request that was stored
  normalised is judged and executed as it was recorded.
\<close>

theorem normalize_skill_action_idem:
  assumes "json_wf (act_args a)"
  shows "normalize_skill_action (normalize_skill_action a) = normalize_skill_action a"
  using normalize_args_idem [OF assms] by (simp add: normalize_skill_action_def)

theorem normalize_skill_action_idem_witness:
  "normalize_skill_action (normalize_skill_action sample_send) \<noteq> sample_send \<and>
   normalize_skill_action (normalize_skill_action sample_send) = normalize_skill_action sample_send"
proof -
  have "json_wf (act_args sample_send)" unfolding sample_send_def action_request.simps by code_simp
  from normalize_skill_action_idem [OF this] show ?thesis
    by (simp add: sample_send_normalize) (simp add: sample_send_def)
qed

text \<open>
  Alias resolution, for every row of the alias table: the canonical argument becomes the
  first of the canonical name and its aliases that is present, with surrounding white space
  removed from a string; no alias survives; and every other argument is untouched.
\<close>

theorem normalize_args_aliases:
  "((c, al) \<in> set action_arg_aliases \<longrightarrow>
     json_get (normalize_args (JObject m)) c =
       map_option trim_json (first_present (map_of m) (c # al)) \<and>
     (\<forall>k \<in> set al. json_get (normalize_args (JObject m)) k = None)) \<and>
   (k \<notin> set (table_keys action_arg_aliases) \<longrightarrow>
     json_get (normalize_args (JObject m)) k = map_of m k)"
  using normalize_args_canonical normalize_args_alias normalize_args_other by blast

theorem normalize_args_aliases_witness:
  "json_get (normalize_args (JObject [(''from'', JString ''nostr'')])) ''source'' =
     Some (JString ''nostr'') \<and>
   json_get (normalize_args (JObject [(''from'', JString ''nostr'')])) ''from'' = None"
proof -
  have row: "(''source'', [''from'', ''sender'', ''sender_id'']) \<in> set action_arg_aliases"
    by (simp add: action_arg_aliases_def)
  have "trim ''nostr'' = ''nostr''" by code_simp
  with row normalize_args_aliases [of "''source''" "[''from'', ''sender'', ''sender_id'']"
      "[(''from'', JString ''nostr'')]"]
  show ?thesis by simp
qed

text \<open>
  Parsed grants are exactly those written in \<open>granted_capabilities\<close>: a grant is in the set
  iff an element of the array names its kind (dotted or underscored spelling), carries its scope
  verbatim and, as limit, the \<open>max_payload_bytes\<close> of its \<open>limits\<close> where that is an unsigned
  64-bit number. Any other limit counts as no limit at all.
\<close>

theorem parse_grant_set_exact:
  "g \<in> set (grants (parse_grant_set raw)) \<longleftrightarrow>
     (\<exists>items v c. raw = JArray items \<and> v \<in> set items \<and> get_str v ''capability'' = Some c \<and>
       (c = capability_kind_to_action_type (kind g) \<or>
        c = map (\<lambda>c. if c = CHR ''.'' then CHR ''_'' else c)
              (capability_kind_to_action_type (kind g))) \<and>
       get_str v ''scope'' = Some (grant_scope g) \<and>
       max_payload_bytes (limits g) =
         Option.bind (json_get v ''limits'') (\<lambda>l. get_u64 l ''max_payload_bytes''))"
  unfolding parsed_grant_iff parse_capability_grant_Some parse_capability_kind_cases by blast

end
