(* ===== verification/Redaction.thy ===== *)
theory Redaction
  imports Prelude
begin

text \<open>
  Secret redaction, \<open>core/src/redaction.rs\<close>: the text passes for \<open>nsec1\<close> keys and bearer
  tokens, and the JSON pass that blanks the values of sensitive keys. The byte loops of the
  source advance an index over the input; here they recurse on the text that is left.
\<close>

section \<open>Definitions\<close>

definition redacted :: string where
  "redacted = ''[REDACTED]''"

definition sensitive_key_patterns :: "string list" where
  "sensitive_key_patterns =
     [''password'', ''passwd'', ''secret'', ''token'', ''api_key'', ''apikey'',
      ''authorization'', ''cookie'', ''private_key'', ''nsec'']"

definition is_sensitive_key :: "string \<Rightarrow> bool" where
  "is_sensitive_key key =
     (let k = to_ascii_lowercase key
      in list_ex (\<lambda>pattern. contains k pattern) sensitive_key_patterns)"

definition is_token_char :: "char \<Rightarrow> bool" where
  "is_token_char b \<longleftrightarrow> is_ascii_lowercase b \<or> is_ascii_digit b"

definition is_terminator :: "char \<Rightarrow> bool" where
  "is_terminator b \<longleftrightarrow> is_ascii_whitespace b \<or>
     b \<in> {CHR 0x22, CHR 0x27, CHR '','', CHR '';'', CHR '')'', CHR '']''}"

text \<open>
  The loop of the source makes no progress on an empty prefix; its only caller passes
  \<open>nsec1\<close>. The first equation makes the model total there.
\<close>

function redact_prefixed_token :: "string \<Rightarrow> string \<Rightarrow> string" where
  "redact_prefixed_token input prefix =
     (if prefix = [] then input
      else case str_find input prefix of
        None \<Rightarrow> input
      | Some found \<Rightarrow>
          (let tok = takeWhile is_token_char (drop (found + length prefix) input);
               len = length prefix + length tok
           in take found input
              @ (if len \<ge> length prefix + 16 then redacted else take len (drop found input))
              @ redact_prefixed_token (drop (found + len) input) prefix))"
  by pat_completeness auto
termination
proof (relation "measure (\<lambda>(input, prefix). length input)", goal_cases)
  case (2 input prefix found tok len)
  then have "found + length prefix \<le> length input" "0 < length prefix"
    using str_find_Some [of input prefix found] by simp_all
  then show ?case unfolding in_measure case_prod_conv length_drop 2(4) by linarith
qed simp

declare redact_prefixed_token.simps [simp del]

definition find_case_insensitive :: "string \<Rightarrow> string \<Rightarrow> nat option" where
  "find_case_insensitive haystack needle =
     str_find (to_ascii_lowercase haystack) (to_ascii_lowercase needle)"

lemma length_to_ascii_lowercase [simp]: "length (to_ascii_lowercase s) = length s"
  by (simp add: to_ascii_lowercase_def)

function redact_bearer_tokens :: "string \<Rightarrow> string" where
  "redact_bearer_tokens input =
     (case find_case_insensitive input ''bearer '' of
        None \<Rightarrow> input
      | Some marker \<Rightarrow>
          take (marker + 7) input @ redacted
          @ redact_bearer_tokens
              (dropWhile (\<lambda>b. \<not> is_terminator b) (drop (marker + 7) input)))"
  by pat_completeness auto
termination
proof (relation "measure length", goal_cases)
  case (2 input marker)
  then have "marker + 7 \<le> length input"
    using str_find_Some [of "to_ascii_lowercase input" "to_ascii_lowercase ''bearer ''" marker]
    by (simp add: find_case_insensitive_def)
  moreover have "length (dropWhile (\<lambda>b. \<not> is_terminator b) (drop (marker + 7) input))
      \<le> length (drop (marker + 7) input)"
    by (rule length_dropWhile_le)
  ultimately show ?case by simp
qed simp

declare redact_bearer_tokens.simps [simp del]

definition nsec_prefix :: string where
  "nsec_prefix = ''nsec1''"

definition redact_text :: "string \<Rightarrow> string" where
  "redact_text text = redact_bearer_tokens (redact_prefixed_token text nsec_prefix)"

fun redact_json :: "json \<Rightarrow> json" where
  "redact_json (JObject m) =
     JObject (obj_of_list
       (map (\<lambda>(key, val).
               (key, if is_sensitive_key key then JString redacted else redact_json val)) m))"
| "redact_json (JArray items) = JArray (map redact_json items)"
| "redact_json (JString text) = JString (redact_text text)"
| "redact_json value = value"

definition redact_memory_content ::
    "json \<Rightarrow> string option \<Rightarrow> json \<times> string option \<times> bool" where
  "redact_memory_content content_json summary_text =
     (let redacted_content = redact_json content_json;
          redacted_summary = map_option redact_text summary_text;
          content_changed = (redacted_content \<noteq> content_json);
          summary_changed = (case (summary_text, redacted_summary) of
                               (Some original, Some new) \<Rightarrow> original \<noteq> new
                             | _ \<Rightarrow> False)
      in (redacted_content, redacted_summary, content_changed \<or> summary_changed))"

section \<open>What a redacted text may hold\<close>

text \<open>No Nostr secret key: \<open>nsec1\<close> is never followed by sixteen or more token bytes.\<close>

definition nsec_free :: "string \<Rightarrow> bool" where
  "nsec_free s \<longleftrightarrow>
     (\<forall>pre tok post. s = pre @ nsec_prefix @ tok @ post \<longrightarrow>
        list_all is_token_char tok \<longrightarrow> length tok < 16)"

text \<open>Every bearer marker, in any letter case, is followed by the placeholder.\<close>

definition bearer_covered :: "string \<Rightarrow> bool" where
  "bearer_covered s \<longleftrightarrow>
     (\<forall>pre m post. s = pre @ m @ post \<longrightarrow> to_ascii_lowercase m = ''bearer '' \<longrightarrow>
        starts_with post redacted)"

text \<open>A value whose strings are all clean and whose sensitive keys are all blanked.\<close>

fun json_clean :: "json \<Rightarrow> bool" where
  "json_clean (JObject m) =
     list_all (\<lambda>(k, v). json_clean v \<and> (is_sensitive_key k \<longrightarrow> v = JString redacted)) m"
| "json_clean (JArray vs) = list_all json_clean vs"
| "json_clean (JString s) = (nsec_free s \<and> bearer_covered s)"
| "json_clean _ = True"

subsection \<open>Occurrences and separators\<close>

text \<open>A factor that avoids the separator lies on one side of it.\<close>

lemma factor_across:
  assumes "a @ c # b = pre @ x @ post" and "c \<notin> set x" and "x \<noteq> []"
  shows "(\<exists>post'. a = pre @ x @ post' \<and> post = post' @ c # b) \<or>
         (\<exists>pre'. pre = a @ c # pre' \<and> b = pre' @ x @ post)"
proof -
  from assms(1) obtain us where
    "a = pre @ us \<and> us @ c # b = x @ post \<or> a @ us = pre \<and> c # b = us @ x @ post"
    by (auto simp: append_eq_append_conv2)
  then show ?thesis
  proof (elim disjE conjE)
    assume a: "a = pre @ us" and us: "us @ c # b = x @ post"
    from us obtain vs where "us = x @ vs \<and> vs @ c # b = post \<or> us @ vs = x \<and> c # b = vs @ post"
      by (auto simp: append_eq_append_conv2)
    with a assms(2) show ?thesis by (cases vs) auto
  next
    assume "a @ us = pre" and "c # b = us @ x @ post"
    with assms(2,3) show ?thesis by (cases us; cases x) auto
  qed
qed

lemma nsec_freeI:
  "(\<And>pre tok post. s = pre @ nsec_prefix @ tok @ post \<Longrightarrow> list_all is_token_char tok \<Longrightarrow>
      length tok < 16) \<Longrightarrow> nsec_free s"
  by (simp add: nsec_free_def)

lemma nsec_freeD:
  "nsec_free s \<Longrightarrow> s = pre @ nsec_prefix @ tok @ post \<Longrightarrow> list_all is_token_char tok \<Longrightarrow>
     length tok < 16"
  unfolding nsec_free_def by blast

lemma nsec_prefix_facts [simp]:
  "list_all is_token_char nsec_prefix" "nsec_prefix \<noteq> []" "length nsec_prefix = 5"
  by code_simp+

lemma nsec_free_join:
  assumes "nsec_free a" and "nsec_free b" and "\<not> is_token_char c"
  shows "nsec_free (a @ c # b)"
proof (rule nsec_freeI)
  fix pre tok post
  assume eq: "a @ c # b = pre @ nsec_prefix @ tok @ post" and tok: "list_all is_token_char tok"
  have "c \<notin> set (nsec_prefix @ tok)"
    using tok assms(3) nsec_prefix_facts(1) by (auto simp: list_all_iff)
  with factor_across [of a c b pre "nsec_prefix @ tok" post] eq
  consider post' where "a = pre @ nsec_prefix @ tok @ post'"
    | pre' where "b = pre' @ nsec_prefix @ tok @ post"
    by auto
  then show "length tok < 16"
    using assms(1,2) tok by cases (blast dest: nsec_freeD)+
qed

lemma nsec_free_factor: "nsec_free (a @ b @ c) \<Longrightarrow> nsec_free b"
  by (rule nsec_freeI) (rule nsec_freeD [of _ "a @ _" _ "_ @ c"], auto)

lemma nsec_free_drop: "nsec_free s \<Longrightarrow> nsec_free (drop n s)"
  using nsec_free_factor [of "take n s" "drop n s" "[]"] by simp

lemma nsec_free_take: "nsec_free s \<Longrightarrow> nsec_free (take n s)"
  using nsec_free_factor [of "[]" "take n s" "drop n s"] by simp

lemma nsec_free_absent: "str_find s nsec_prefix = None \<Longrightarrow> nsec_free s"
  by (rule nsec_freeI) (auto simp: str_find_None)

lemma redacted_no_nsec: "str_find redacted nsec_prefix = None"
  by code_simp

lemma redacted_split: "redacted = [] @ CHR ''['' # ''REDACTED'' @ '']''"
  by (simp add: redacted_def)

lemma nsec_free_REDACTED: "nsec_free ''REDACTED''"
  by (rule nsec_free_absent) code_simp

lemma brackets_not_token: "\<not> is_token_char (CHR ''['')" "\<not> is_token_char (CHR '']'')"
  by code_simp+

lemma nsec_free_around:
  assumes "nsec_free a" and "nsec_free b"
  shows "nsec_free (a @ redacted @ b)"
proof -
  have "nsec_free (''REDACTED'' @ CHR '']'' # b)"
    using assms(2) by (intro nsec_free_join nsec_free_REDACTED brackets_not_token)
  with assms(1) have "nsec_free (a @ CHR ''['' # (''REDACTED'' @ CHR '']'' # b))"
    by (rule nsec_free_join) (rule brackets_not_token)
  then show ?thesis by (simp add: redacted_def)
qed

subsection \<open>The first pass removes every secret key\<close>

lemma leftmost_prefix_free:
  assumes "str_find s p = Some i" and "p \<noteq> []" and "take (i + k) s = pre @ p @ post"
  shows "i \<le> length pre"
proof (rule ccontr)
  assume "\<not> i \<le> length pre"
  then have "\<not> starts_with (drop (length pre) s) p"
    using str_find_Some [OF assms(1)] by auto
  moreover have "s = pre @ p @ (post @ drop (i + k) s)"
    using append_take_drop_id [of "i + k" s] assms(3) by simp
  then have "starts_with (drop (length pre) s) p"
    by (metis append_eq_conv_conj starts_with_append)
  ultimately show False by blast
qed

lemma redact_prefixed_token_head:
  assumes "\<not> is_token_char c"
  shows "\<exists>out. redact_prefixed_token (c # r) nsec_prefix = c # out"
proof (cases "str_find (c # r) nsec_prefix")
  case None
  then show ?thesis by (simp add: redact_prefixed_token.simps [of "c # r"])
next
  case (Some found)
  have "\<not> starts_with (c # r) nsec_prefix"
    using assms nsec_prefix_facts(1) by (auto simp: nsec_prefix_def)
  with Some obtain f where "found = Suc f" by (cases found) auto
  with Some show ?thesis by (simp add: redact_prefixed_token.simps [of "c # r"] Let_def)
qed

lemma nsec_free_short:
  assumes "str_find s nsec_prefix = Some i" and "k < 16"
  shows "nsec_free (take (i + (5 + k)) s)"
proof (rule nsec_freeI)
  fix pre tok post
  assume eq: "take (i + (5 + k)) s = pre @ nsec_prefix @ tok @ post"
  have "i \<le> length pre"
    using leftmost_prefix_free [OF assms(1) _ eq] by simp
  moreover have "length (pre @ nsec_prefix @ tok @ post) \<le> i + (5 + k)"
    by (metis eq length_take min.cobounded2)
  ultimately show "length tok < 16" using assms(2) by simp
qed

lemma nsec_free_before: "str_find s nsec_prefix = Some i \<Longrightarrow> nsec_free (take i s)"
  using nsec_free_take [OF nsec_free_short [of s i 0], of i] by (simp add: min_def)

lemma nsec_free_redact_prefixed: "nsec_free (redact_prefixed_token s nsec_prefix)"
proof (induction s "nsec_prefix :: string" rule: redact_prefixed_token.induct)
  case (1 s)
  show ?case
  proof (cases "str_find s nsec_prefix")
    case None
    then show ?thesis by (simp add: redact_prefixed_token.simps [of s] nsec_free_absent)
  next
    case (Some i)
    let ?tok = "takeWhile is_token_char (drop (i + 5) s)"
    let ?rest = "drop (i + (5 + length ?tok)) s"
    have IH: "nsec_free (redact_prefixed_token ?rest nsec_prefix)"
      using "1.hyps" [OF _ Some refl refl] by simp
    show ?thesis
    proof (cases "16 \<le> length ?tok")
      case True
      then show ?thesis
        using nsec_free_around [OF nsec_free_before [OF Some] IH] Some
        by (simp add: redact_prefixed_token.simps [of s] Let_def)
    next
      case False
      have out: "redact_prefixed_token s nsec_prefix =
          take (i + (5 + length ?tok)) s @ redact_prefixed_token ?rest nsec_prefix"
        using Some False by (simp add: redact_prefixed_token.simps [of s] Let_def take_add)
      have short: "nsec_free (take (i + (5 + length ?tok)) s)"
        using False by (intro nsec_free_short [OF Some]) simp
      show ?thesis
      proof (cases ?rest)
        case Nil
        with out short show ?thesis
          by (simp add: redact_prefixed_token.simps [of "[]"])
      next
        case (Cons c r)
        have "?rest = dropWhile is_token_char (drop (i + 5) s)"
          by (metis add.assoc add.commute drop_drop dropWhile_eq_drop)
        with Cons have c: "\<not> is_token_char c" by (metis hd_dropWhile list.distinct(1) list.sel(1))
        obtain o' where o': "redact_prefixed_token ?rest nsec_prefix = c # o'"
          using redact_prefixed_token_head [OF c, of r] Cons by auto
        with IH have "nsec_free o'" using nsec_free_drop [of "c # o'" 1] by simp
        with short show ?thesis unfolding out o' by (rule nsec_free_join) (rule c)
      qed
    qed
  qed
qed

subsection \<open>The second pass covers every bearer token and keeps the first pass's work\<close>

abbreviation "marker_text \<equiv> ''bearer ''"

lemma lower_append: "to_ascii_lowercase (a @ b) = to_ascii_lowercase a @ to_ascii_lowercase b"
  by (simp add: to_ascii_lowercase_def)

lemma lower_take: "to_ascii_lowercase (take n s) = take n (to_ascii_lowercase s)"
  by (simp add: to_ascii_lowercase_def take_map)

lemma lower_marker [simp]: "to_ascii_lowercase marker_text = marker_text"
  by code_simp

lemma ascii_lower_brackets:
  "ascii_lower (CHR ''['') = CHR ''[''" "ascii_lower (CHR '']'') = CHR '']''"
  by code_simp+

lemma marker_avoids_brackets:
  assumes "to_ascii_lowercase m = marker_text"
  shows "CHR ''['' \<notin> set m" "CHR '']'' \<notin> set m" "m \<noteq> []" "length m = 7"
proof -
  have "ascii_lower c \<in> set marker_text" if "c \<in> set m" for c
    using that assms by (metis image_eqI list.set_map to_ascii_lowercase_def)
  from this [of "CHR ''[''"] this [of "CHR '']''"]
  show "CHR ''['' \<notin> set m" "CHR '']'' \<notin> set m"
    by (auto simp: ascii_lower_brackets)
  show "length m = 7" using arg_cong [OF assms, of length] by simp
  then show "m \<noteq> []" by auto
qed

lemma REDACTED_no_marker:
  "to_ascii_lowercase m = marker_text \<Longrightarrow> ''REDACTED'' \<noteq> pre @ m @ post"
proof
  assume m: "to_ascii_lowercase m = marker_text" and "''REDACTED'' = pre @ m @ post"
  then have "to_ascii_lowercase ''REDACTED'' =
      to_ascii_lowercase pre @ marker_text @ to_ascii_lowercase post"
    by (simp add: lower_append del: append_Cons)
  then have "str_find (to_ascii_lowercase ''REDACTED'') marker_text \<noteq> None"
    unfolding str_find_None by blast
  moreover have "str_find (to_ascii_lowercase ''REDACTED'') marker_text = None"
    by code_simp
  ultimately show False by contradiction
qed

lemma redact_bearer_unfold:
  "find_case_insensitive s marker_text = Some k \<Longrightarrow>
   redact_bearer_tokens s = take (k + 7) s @ CHR ''['' # ''REDACTED'' @ CHR '']'' #
     redact_bearer_tokens (dropWhile (\<lambda>b. \<not> is_terminator b) (drop (k + 7) s))"
  by (simp add: redact_bearer_tokens.simps [of s] redacted_def)

lemma find_ci_Some:
  assumes "find_case_insensitive s marker_text = Some k"
  shows "str_find (to_ascii_lowercase s) marker_text = Some k" "k + 7 \<le> length s"
  using assms str_find_Some [of "to_ascii_lowercase s" marker_text k]
  by (simp_all add: find_case_insensitive_def)

lemma marker_only_at_end:
  assumes f: "find_case_insensitive s marker_text = Some k"
    and eq: "take (k + 7) s = pre @ m @ post" and m: "to_ascii_lowercase m = marker_text"
  shows "post = []"
proof -
  have "take (k + 7) (to_ascii_lowercase s) =
      to_ascii_lowercase pre @ marker_text @ to_ascii_lowercase post"
    by (metis eq lower_append lower_take m)
  from leftmost_prefix_free [OF find_ci_Some(1) [OF f] _ this] have "k \<le> length pre" by simp
  moreover have "length pre + 7 + length post = k + 7"
    using arg_cong [OF eq, of length] find_ci_Some(2) [OF f] marker_avoids_brackets(4) [OF m]
    by simp
  ultimately have "length post = 0" by linarith
  then show ?thesis by simp
qed

lemma bearer_covered_redact: "bearer_covered (redact_bearer_tokens s)"
proof (induction s rule: redact_bearer_tokens.induct)
  case (1 s)
  show ?case
  proof (cases "find_case_insensitive s marker_text")
    case None
    have "s \<noteq> pre @ m @ post" if "to_ascii_lowercase m = marker_text" for pre m post
    proof
      assume "s = pre @ m @ post"
      then have "to_ascii_lowercase s =
          to_ascii_lowercase pre @ marker_text @ to_ascii_lowercase post"
        by (simp add: lower_append that)
      with None show False unfolding find_case_insensitive_def lower_marker str_find_None by blast
    qed
    with None show ?thesis
      by (auto simp: redact_bearer_tokens.simps [of s] bearer_covered_def)
  next
    case (Some k)
    let ?rest = "redact_bearer_tokens (dropWhile (\<lambda>b. \<not> is_terminator b) (drop (k + 7) s))"
    have IH: "bearer_covered ?rest" using 1 Some by simp
    show ?thesis unfolding bearer_covered_def
    proof (intro allI impI)
      fix pre m post
      assume out: "redact_bearer_tokens s = pre @ m @ post"
        and m: "to_ascii_lowercase m = marker_text"
      note mk = marker_avoids_brackets [OF m]
      from factor_across [OF out [unfolded redact_bearer_unfold [OF Some]] mk(1,3)]
      show "starts_with post redacted"
      proof (elim disjE exE conjE)
        fix post'
        assume "take (k + 7) s = pre @ m @ post'"
          and post: "post = post' @ CHR ''['' # ''REDACTED'' @ CHR '']'' # ?rest"
        with marker_only_at_end [OF Some _ m] have "post' = []" by blast
        with post show ?thesis by (simp add: redacted_def)
      next
        fix pre'
        assume "''REDACTED'' @ CHR '']'' # ?rest = pre' @ m @ post"
        from factor_across [OF this mk(2,3)] show ?thesis
          using REDACTED_no_marker [OF m] IH m by (auto simp: bearer_covered_def)
      qed
    qed
  qed
qed

lemma nsec_free_redact_bearer: "nsec_free s \<Longrightarrow> nsec_free (redact_bearer_tokens s)"
proof (induction s rule: redact_bearer_tokens.induct)
  case (1 s)
  show ?case
  proof (cases "find_case_insensitive s marker_text")
    case None
    with 1 show ?thesis by (simp add: redact_bearer_tokens.simps [of s])
  next
    case (Some k)
    let ?tail = "dropWhile (\<lambda>b. \<not> is_terminator b) (drop (k + 7) s)"
    have "nsec_free ?tail"
      unfolding dropWhile_eq_drop by (intro nsec_free_drop "1.prems")
    with 1 Some have "nsec_free (redact_bearer_tokens ?tail)" by simp
    from nsec_free_around [OF nsec_free_take [OF "1.prems", of "k + 7"] this]
    show ?thesis by (simp add: redact_bearer_unfold [OF Some] redacted_def)
  qed
qed

lemma redact_text_clean: "nsec_free (redact_text s) \<and> bearer_covered (redact_text s)"
  by (simp add: redact_text_def bearer_covered_redact nsec_free_redact_bearer
      nsec_free_redact_prefixed)

subsection \<open>Values\<close>

lemma set_obj_of_list: "set (obj_of_list es) \<subseteq> set es"
proof -
  have "set (fold (\<lambda>(k, v) m. obj_insert k v m) es m) \<subseteq> set es \<union> set m" for m
  proof (induction es arbitrary: m)
    case (Cons e es)
    obtain k v where "e = (k, v)" by force
    with Cons [of "obj_insert k v m"] set_obj_insert [of k v m] show ?case by auto
  qed simp
  from this [of "[]"] show ?thesis by (simp add: obj_of_list_def)
qed

definition redact_entry :: "string \<Rightarrow> json \<Rightarrow> json" where
  "redact_entry key val = (if is_sensitive_key key then JString redacted else redact_json val)"

lemma redact_json_object:
  "obj_wf m \<Longrightarrow> redact_json (JObject m) = JObject (map (\<lambda>(k, v). (k, redact_entry k v)) m)"
proof -
  assume "obj_wf m"
  moreover have "map fst (map (\<lambda>(k, v). (k, redact_entry k v)) m) = map fst m"
    by (induction m) auto
  ultimately have "obj_wf (map (\<lambda>(k, v). (k, redact_entry k v)) m)"
    by (simp only: obj_wf_def)
  then show ?thesis by (simp add: redact_entry_def obj_of_list_wf)
qed

lemma json_clean_redacted: "nsec_free redacted" "bearer_covered redacted"
proof -
  show "nsec_free redacted" by (rule nsec_free_absent) (rule redacted_no_nsec)
  have "redacted = [] @ CHR ''['' # ''REDACTED'' @ CHR '']'' # []" by (simp add: redacted_def)
  moreover have "\<not> ([] @ CHR ''['' # ''REDACTED'' @ CHR '']'' # [] = pre @ m @ post)"
    if m: "to_ascii_lowercase m = marker_text" for pre m post
  proof
    note mk = marker_avoids_brackets [OF m]
    assume "[] @ CHR ''['' # ''REDACTED'' @ CHR '']'' # [] = pre @ m @ post"
    from factor_across [OF this mk(1,3)] mk(3)
    obtain pre' where "''REDACTED'' @ CHR '']'' # [] = pre' @ m @ post" by auto
    from factor_across [OF this mk(2,3)] mk(3) REDACTED_no_marker [OF m] show False by auto
  qed
  ultimately show "bearer_covered redacted" by (auto simp: bearer_covered_def)
qed

lemma json_clean_redact: "json_clean (redact_json v)"
proof (induction v rule: redact_json.induct)
  case (1 m)
  let ?es = "map (\<lambda>(k, v). (k, if is_sensitive_key k then JString redacted else redact_json v)) m"
  have "json_clean v' \<and> (is_sensitive_key k \<longrightarrow> v' = JString redacted)"
    if "(k, v') \<in> set ?es" for k v'
    using that 1 by (auto simp: json_clean_redacted split: if_splits)
  with set_obj_of_list [of ?es] show ?case by (auto simp: list_all_iff)
next
  case (2 items)
  then show ?case by (simp add: list_all_iff)
next
  case (3 t)
  then show ?case by (simp add: redact_text_clean)
qed simp_all

lemma redact_json_wf: "json_wf v \<Longrightarrow> json_wf (redact_json v)"
proof (induction v rule: redact_json.induct)
  case (1 m)
  let ?es = "map (\<lambda>(k, v). (k, if is_sensitive_key k then JString redacted else redact_json v)) m"
  have "json_wf v'" if "(k, v') \<in> set ?es" for k v'
    using that 1 by (auto simp: list_all_iff split: if_splits)
  with set_obj_of_list [of ?es] show ?case by (auto simp: list_all_iff obj_wf_of_list)
qed (auto simp: list_all_iff)

section \<open>Properties\<close>



text \<open>
  Redaction is exact on objects: looking a key up in the redacted object gives nothing where
  the original has nothing, the placeholder where the key is sensitive, and the redacted
  original value otherwise.
\<close>

theorem redact_json_lookup:
  assumes "json_wf v"
  shows "json_get (redact_json v) k =
    map_option (\<lambda>x. if is_sensitive_key k then JString redacted else redact_json x) (json_get v k)"
proof (cases v)
  case (JObject m)
  with assms have "obj_wf m" by simp
  moreover have "map_of (map (\<lambda>(k, v). (k, redact_entry k v)) m) k =
      map_option (redact_entry k) (map_of m k)"
    by (induction m) auto
  ultimately show ?thesis
    by (simp add: JObject redact_json_object redact_entry_def [abs_def] del: redact_json.simps)
qed simp_all

theorem redact_json_lookup_witness:
  "json_get (redact_json (JObject [(''a'', JBool True)])) ''a'' = Some (JBool True)"
proof -
  have wf: "json_wf (JObject [(''a'', JBool True)])" by (simp add: obj_wf_def)
  have "\<not> is_sensitive_key ''a''" by code_simp
  with redact_json_lookup [OF wf, of "''a''"] show ?thesis by simp
qed

text \<open>
  The flag of \<open>redact_memory_content\<close> is exact: it is false only if both the content and
  the summary come back unchanged, and the two results are the redactions of the inputs.
\<close>

theorem redact_memory_content_flag:
  "redact_memory_content c s = (c', s', changed) \<longleftrightarrow>
     c' = redact_json c \<and> s' = map_option redact_text s \<and> (changed \<longleftrightarrow> (c', s') \<noteq> (c, s))"
  by (cases s) (auto simp: redact_memory_content_def Let_def)

text \<open>
  Two limits of the bearer pass. A second space after the marker ends the token at once, so
  the credential after it survives; and redacting twice is not the same as redacting once: the
  closing bracket of the placeholder is itself a terminator and is left behind.
\<close>

theorem redact_text_bearer_limits:
  "redact_text ''Bearer  s3cr3t'' = ''Bearer [REDACTED] s3cr3t'' \<and>
   redact_text (redact_text ''Bearer s3cr3t'') = ''Bearer [REDACTED]]''"
  by code_simp

end
