(* ===== verification/Worker.thy ===== *)
theory Worker
  imports Effects ActionContract Redaction
begin

text \<open>
  The worker's processing of a claimed run (\<open>worker/src/lib.rs\<close>): \<open>process_claimed_run\<close> with the
  action loop, the preparation of the skill's input, the skill's invocation, and the dispatch of
  allowed actions to their connectors.

  Arguments stand for what the worker calls: the skill runner, the agent context loader, the
  file system and SHA-256 of the provenance check, the length of serialised JSON, the LLM scope,
  and the connectors (object store, messaging, payments, LLM, local execution).
\<close>

section \<open>Configuration and connectors\<close>

record worker_config =
  wc_worker_id :: string
  wc_skill_command :: string
  wc_skill_args :: "string list"
  wc_skill_recipe_commands :: "string \<rightharpoonup> string list"
  wc_skill_script_sha256 :: "string option"
  wc_skill_timeout :: nat
  wc_skill_max_output_bytes :: nat
  wc_skill_env_allowlist :: "string list"
  wc_agent_context_enabled :: bool
  wc_agent_context_required :: bool
  wc_approval_required_action_types :: "string list"
  wc_remote_token_budget_per_run :: "u64 option"

record action_execution_context =
  remote_llm_tokens_remaining :: "u64 option"
  payment_spend_msat :: u64
  last_llm_response_text :: "string option"

type_synonym 'x connector =
  "run_row \<Rightarrow> uuid \<Rightarrow> json \<Rightarrow> action_execution_context \<Rightarrow> 'x \<Rightarrow>
   (string + json) \<times> action_execution_context \<times> 'x"

record 'x connectors =
  k_object_write :: "'x connector"
  k_message_send :: "'x connector"
  k_message_receive :: "'x connector"
  k_payment_send :: "'x connector"
  k_llm_infer :: "'x connector"
  k_local_exec :: "'x connector"

datatype context_load =
    ContextLoaded json json
  | ContextNotFound "string list"
  | ContextFailed string

record services =
  v_json_len :: "json \<Rightarrow> string + nat"
  v_llm_scope :: "json \<Rightarrow> string + string"
  v_context :: "string \<Rightarrow> uuid \<Rightarrow> context_load"
  v_runner :: "runner_config \<Rightarrow> invoke_request \<Rightarrow> string + invoke_result"
  v_read_file :: "string \<Rightarrow> string + string"
  v_sha256_hex :: "string \<Rightarrow> string"

section \<open>Audit\<close>

definition extract_trace_id_from_run_input :: "json \<Rightarrow> string option" where
  "extract_trace_id_from_run_input input = get_str input ''_trace''"

definition append_trace_to_audit_payload :: "json \<Rightarrow> string \<Rightarrow> json" where
  "append_trace_to_audit_payload payload trace_id =
     (case payload of
        JObject m \<Rightarrow> JObject (obj_insert ''trace_id'' (JString trace_id) m)
      | other \<Rightarrow> jobj [(''payload'', other), (''trace_id'', JString trace_id)])"

definition worker_append_audit_event :: "outside \<Rightarrow> new_audit_event \<Rightarrow> ('x, unit) comp" where
  "worker_append_audit_event env ev =
     stmt env (\<lambda>now. append_audit_event now (ev\<lparr>a_payload := redact_json (a_payload ev)\<rparr>))"

definition append_audit_event_with_trace ::
    "outside \<Rightarrow> new_audit_event \<Rightarrow> string option \<Rightarrow> ('x, unit) comp" where
  "append_audit_event_with_trace env ev trace =
     worker_append_audit_event env
       (case trace of
          None \<Rightarrow> ev
        | Some t \<Rightarrow> ev\<lparr>a_payload := append_trace_to_audit_payload (a_payload ev) t\<rparr>)"

text \<open>The event every call site of the worker builds for a run.\<close>

definition audit_run_event ::
    "outside \<Rightarrow> worker_config \<Rightarrow> run_row \<Rightarrow> uuid option \<Rightarrow> string option \<Rightarrow> string \<Rightarrow> json \<Rightarrow>
     ('x, unit) comp" where
  "audit_run_event env cfg run step trace etype payload =
     bind (new_v4 env) (\<lambda>i. append_audit_event_with_trace env
       \<lparr>a_id = i, a_run = r_id run, a_step = step, a_tenant = r_tenant run,
        a_agent = Some (r_agent run), a_user = r_user run,
        a_actor = ''worker:'' @ wc_worker_id cfg, a_type = etype, a_payload = payload\<rparr> trace)"

section \<open>The skill's input\<close>

definition inject_agent_context_payload :: "json \<Rightarrow> json \<Rightarrow> json" where
  "inject_agent_context_payload input ctx =
     (case input of
        JObject m \<Rightarrow> JObject (obj_insert ''agent_context'' ctx m)
      | other \<Rightarrow> jobj [(''input'', other), (''agent_context'', ctx)])"

definition inject_runtime_metadata_payload :: "json \<Rightarrow> run_row \<Rightarrow> json" where
  "inject_runtime_metadata_payload input run =
     (let metadata = jobj [(''tenant_id'', JString (r_tenant run)),
            (''agent_id'', JString (r_agent run)), (''run_id'', JString (r_id run)),
            (''recipe_id'', JString (r_recipe run))]
      in case input of
           JObject m \<Rightarrow>
             JObject (case map_of m ''runtime'' of
               None \<Rightarrow> obj_insert ''runtime'' metadata m | Some _ \<Rightarrow> m)
         | other \<Rightarrow> jobj [(''input'', other), (''runtime'', metadata)])"

definition prepare_skill_input_with_agent_context ::
    "outside \<Rightarrow> services \<Rightarrow> worker_config \<Rightarrow> run_row \<Rightarrow> uuid \<Rightarrow> string option \<Rightarrow>
     ('x, json) comp" where
  "prepare_skill_input_with_agent_context env sv cfg run step_id trace =
     (let input = inject_runtime_metadata_payload (r_input run) run;
          ev = audit_run_event env cfg run (Some step_id) trace;
          required = (''required'', JBool (wc_agent_context_required cfg))
      in if \<not> wc_agent_context_enabled cfg then ret input
         else case v_context sv (r_tenant run) (r_agent run) of
           ContextLoaded summary ctx \<Rightarrow>
             seq [ev ''agent.context.loaded'' summary]
               (ret (inject_agent_context_payload input ctx))
         | ContextNotFound paths \<Rightarrow>
             seq [ev ''agent.context.not_found''
                    (jobj [(''searched_paths'', JArray (map JString paths)), required])]
               (if wc_agent_context_required cfg
                then fail (''agent context profile required but not found for agent '' @ r_agent run)
                else ret input)
         | ContextFailed e \<Rightarrow>
             seq [ev ''agent.context.error'' (jobj [(''error'', JString (redact_text e)), required])]
               (if wc_agent_context_required cfg
                then fail (''agent context profile load failed: '' @ e)
                else ret input))"

section \<open>Invoking the skill\<close>

definition resolve_skill_command_for_run ::
    "worker_config \<Rightarrow> string \<Rightarrow> string + string \<times> string list" where
  "resolve_skill_command_for_run cfg recipe_id =
     (case wc_skill_recipe_commands cfg recipe_id of
        Some recipe_command \<Rightarrow>
          (case recipe_command of
             [] \<Rightarrow> Inl (''WORKER_SKILL_RECIPE_COMMANDS entry for `'' @ recipe_id @ ''` is empty'')
           | c # rest \<Rightarrow> Inr (c, rest))
      | None \<Rightarrow> Inr (wc_skill_command cfg, wc_skill_args cfg))"

definition provenance_script_path :: "string \<Rightarrow> string list \<Rightarrow> string" where
  "provenance_script_path command args =
     (case args of
        [] \<Rightarrow> command
      | first_arg # _ \<Rightarrow> if starts_with first_arg ''-'' then command else first_arg)"

definition verify_skill_script_provenance ::
    "services \<Rightarrow> worker_config \<Rightarrow> string \<Rightarrow> string list \<Rightarrow> string + unit" where
  "verify_skill_script_provenance sv cfg command args =
     (case wc_skill_script_sha256 cfg of
        None \<Rightarrow> Inr ()
      | Some expected_digest \<Rightarrow>
          (let script_path = provenance_script_path command args
           in if trim script_path = [] then
                Inl ''WORKER_SKILL_SCRIPT_SHA256 requires WORKER_SKILL_SCRIPT or executable path''
              else case v_read_file sv script_path of
                Inl e \<Rightarrow>
                  Inl (''failed reading skill script for provenance check: '' @ script_path @ '': '' @ e)
              | Inr script_bytes \<Rightarrow>
                  (let actual_digest = v_sha256_hex sv script_bytes
                   in if actual_digest \<noteq> expected_digest
                      then Inl (''WORKER_SKILL_SCRIPT_SHA256 mismatch for '' @ script_path @
                        '' (expected='' @ expected_digest @ '', got='' @ actual_digest @ '')'')
                      else Inr ())))"

definition invoke_skill ::
    "outside \<Rightarrow> services \<Rightarrow> worker_config \<Rightarrow> run_row \<Rightarrow> uuid \<Rightarrow> string option \<Rightarrow> json \<Rightarrow>
     grant_set \<Rightarrow> ('x, invoke_result) comp" where
  "invoke_skill env sv cfg run step_id trace input gs =
     (case resolve_skill_command_for_run cfg (r_recipe run) of
        Inl e \<Rightarrow> fail e
      | Inr (command, args) \<Rightarrow>
          (case verify_skill_script_provenance sv cfg command args of
             Inl e \<Rightarrow> fail e
           | Inr _ \<Rightarrow>
               bind (new_v4 env) (\<lambda>i.
                 case v_runner sv
                   \<lparr>rc_command = command, rc_args = args, rc_timeout = wc_skill_timeout cfg,
                    rc_max_output_bytes = wc_skill_max_output_bytes cfg,
                    rc_env_allowlist = wc_skill_env_allowlist cfg\<rparr>
                   \<lparr>req_id = i,
                    req_context =
                      \<lparr>ctx_tenant_id = r_tenant run, ctx_run_id = r_id run, ctx_step_id = step_id,
                       ctx_time_budget_ms = of_nat (min (max 1 (wc_skill_timeout cfg)) u64_max),
                       ctx_trace_id = trace,
                       ctx_granted_capabilities =
                         map (\<lambda>g. \<lparr>sg_capability = capability_kind_to_action_type (kind g),
                                   sg_scope = grant_scope g\<rparr>) (grants gs)\<rparr>,
                    req_input = input\<rparr> of
                   Inl e \<Rightarrow> fail e
                 | Inr result \<Rightarrow> ret result)))"

section \<open>Dispatch\<close>

definition connector_for :: "'x connectors \<Rightarrow> string \<Rightarrow> 'x connector option" where
  "connector_for k t =
     (if t = ''object.write'' then Some (k_object_write k)
      else if t = ''message.send'' then Some (k_message_send k)
      else if t = ''message.receive'' then Some (k_message_receive k)
      else if t = ''payment.send'' then Some (k_payment_send k)
      else if t = ''llm.infer'' then Some (k_llm_infer k)
      else if t = ''local.exec'' then Some (k_local_exec k)
      else None)"

text \<open>Running a connector; the call is logged with the database it starts from.\<close>

definition call_connector ::
    "'x connector \<Rightarrow> run_row \<Rightarrow> uuid \<Rightarrow> action_request \<Rightarrow> action_execution_context \<Rightarrow>
     ('x, json \<times> action_execution_context) comp" where
  "call_connector f run rid a ctx = (\<lambda>w.
     case f run rid (act_args a) ctx (w_ext w) of
       (res, ctx', x) \<Rightarrow>
         (case res of Inl e \<Rightarrow> Inl e | Inr v \<Rightarrow> Inr (v, ctx'),
          w\<lparr>w_ext := x,
            w_calls := w_calls w @ [\<lparr>c_request = rid, c_action = a, c_db = w_db w\<rparr>]\<rparr>))"

definition execute_action ::
    "'x connectors \<Rightarrow> run_row \<Rightarrow> uuid \<Rightarrow> action_request \<Rightarrow> action_execution_context \<Rightarrow>
     ('x, json \<times> action_execution_context) comp" where
  "execute_action k run rid a ctx =
     (case connector_for k (act_type a) of
        Some f \<Rightarrow> call_connector f run rid a ctx
      | None \<Rightarrow> fail (''unsupported action type: '' @ act_type a))"

section \<open>Alerts of an LLM result\<close>

definition extract_llm_budget_soft_alerts :: "json \<Rightarrow> json list" where
  "extract_llm_budget_soft_alerts result =
     (case Option.bind (Option.bind (json_get result ''token_accounting'')
        (\<lambda>v. json_get v ''soft_alerts'')) as_array of None \<Rightarrow> [] | Some xs \<Rightarrow> xs)"

definition extract_llm_slo_alerts :: "json \<Rightarrow> json list" where
  "extract_llm_slo_alerts result =
     (let gateway = json_get result ''gateway'';
          str = (\<lambda>k. case Option.bind gateway (\<lambda>g. get_str g k) of
                  None \<Rightarrow> JNull | Some s \<Rightarrow> JString s);
          num = (\<lambda>k. case Option.bind gateway (\<lambda>g. get_u64 g k) of
                  None \<Rightarrow> JNull | Some n \<Rightarrow> JNumber (PosInt n));
          status = (case Option.bind gateway (\<lambda>g. get_str g ''slo_status'') of
                  None \<Rightarrow> ''not_configured'' | Some s \<Rightarrow> s)
      in if status \<noteq> ''warn'' \<and> status \<noteq> ''breach'' then []
         else [jobj [(''status'', JString status), (''request_class'', str ''request_class''),
                (''threshold_ms'', num ''slo_threshold_ms''), (''latency_ms'', num ''slo_latency_ms''),
                (''reason_code'', str ''slo_reason_code'')]])"

section \<open>One action\<close>

text \<open>
  What a call site of the loop has at hand: the environment, the configuration, the run, the
  step and the trace id.
\<close>

record 'x site =
  z_env :: outside
  z_services :: services
  z_connectors :: "'x connectors"
  z_config :: worker_config
  z_run :: run_row
  z_step :: uuid
  z_trace :: "string option"

definition site_event :: "'x site \<Rightarrow> string \<Rightarrow> json \<Rightarrow> ('x, unit) comp" where
  "site_event z etype payload =
     audit_run_event (z_env z) (z_config z) (z_run z) (Some (z_step z)) (z_trace z) etype payload"

definition set_request_status :: "'x site \<Rightarrow> uuid \<Rightarrow> string \<Rightarrow> string option \<Rightarrow> ('x, unit) comp" where
  "set_request_status z rid status reason =
     ignore (stmt (z_env z) (\<lambda>now. update_action_request_status now rid status reason))"

definition add_result ::
    "'x site \<Rightarrow> uuid \<Rightarrow> string \<Rightarrow> json option \<Rightarrow> json option \<Rightarrow> ('x, unit) comp" where
  "add_result z rid status result error =
     bind (new_v4 (z_env z)) (\<lambda>i.
       stmt (z_env z) (\<lambda>now. create_action_result now
         \<lparr>x_id = i, x_request = rid, x_status = status, x_result = result, x_error = error\<rparr>))"

definition fail_step :: "'x site \<Rightarrow> json \<Rightarrow> ('x, unit) comp" where
  "fail_step z error =
     ignore (stmt (z_env z) (\<lambda>now. mark_step_failed now (z_step z) (redact_json error)))"

text \<open>The three denials differ in their payloads and in the error they return.\<close>

definition deny_action ::
    "'x site \<Rightarrow> uuid \<Rightarrow> string \<Rightarrow> (string \<times> json) list \<Rightarrow> (string \<times> json) list \<Rightarrow> string \<Rightarrow> string \<Rightarrow>
     ('x, 'a) comp" where
  "deny_action z rid reason result_extra event_extra atype message =
     seq [set_request_status z rid ''denied'' (Some reason),
          add_result z rid ''denied'' None (Some (redact_json (jobj
            ([(''code'', JString ''POLICY_DENIED''), (''reason'', JString reason)] @ result_extra)))),
          site_event z ''action.denied'' (jobj
            ([(''action_type'', JString atype), (''reason'', JString reason)] @ event_extra)),
          fail_step z (jobj [(''code'', JString ''ACTION_DENIED''), (''reason'', JString reason)])]
       (fail message)"

definition action_failed :: "'x site \<Rightarrow> uuid \<Rightarrow> string \<Rightarrow> string \<Rightarrow> ('x, 'a) comp" where
  "action_failed z rid atype error =
     (let error_message = redact_text error;
          error_json = jobj [(''code'', JString ''ACTION_EXECUTION_FAILED''),
            (''message'', JString error_message)]
      in seq [set_request_status z rid ''failed'' (Some ''execution_failed''),
              add_result z rid ''failed'' None (Some (redact_json error_json)),
              site_event z ''action.failed'' (jobj [(''action_type'', JString atype),
                (''error'', JString error_message)]),
              fail_step z error_json]
           (fail (''action execution failed: '' @ error_message)))"

definition alert_event ::
    "'x site \<Rightarrow> string \<Rightarrow> string \<Rightarrow> uuid \<Rightarrow> json list \<Rightarrow> ('x, unit) comp" where
  "alert_event z etype atype rid alerts =
     (if alerts = [] then ret ()
      else site_event z etype (jobj [(''action_type'', JString atype),
        (''action_request_id'', JString rid), (''alerts'', JArray alerts)]))"

definition action_executed :: "'x site \<Rightarrow> uuid \<Rightarrow> string \<Rightarrow> json \<Rightarrow> ('x, unit) comp" where
  "action_executed z rid atype result =
     (let llm = (atype = ''llm.infer'');
          soft = (if llm then extract_llm_budget_soft_alerts result else []);
          slo = (if llm then extract_llm_slo_alerts result else [])
      in seq [set_request_status z rid ''executed'' None,
              add_result z rid ''executed'' (Some (redact_json result)) None,
              alert_event z ''llm.budget.soft_alert'' atype rid soft,
              alert_event z ''llm.slo.alert'' atype rid slo]
           (site_event z ''action.executed'' (jobj [(''action_type'', JString atype),
              (''result'', result)])))"

definition allow_action ::
    "'x site \<Rightarrow> uuid \<Rightarrow> action_request \<Rightarrow> policy_request \<Rightarrow> action_execution_context \<Rightarrow>
     ('x, action_execution_context) comp" where
  "allow_action z rid a r ctx =
     (if requires_governance_approval (wc_approval_required_action_types (z_config z)) (action_type r)
         \<and> \<not> is_action_governance_approved a
      then deny_action z rid ''approval_required'' [] [(''source'', JString ''governance'')]
             (action_type r) (''action denied by governance approval gate: '' @ ''approval_required'')
      else seq [set_request_status z rid ''allowed'' None,
                site_event z ''action.allowed'' (jobj [(''action_type'', JString (action_type r))])]
             (handle (execute_action (z_connectors z) (z_run z) rid a ctx)
               (action_failed z rid (action_type r))
               (\<lambda>(result, ctx'). seq [action_executed z rid (action_type r) result] (ret ctx'))))"

definition decide_action ::
    "'x site \<Rightarrow> grant_set \<Rightarrow> uuid \<Rightarrow> action_request \<Rightarrow> action_execution_context \<Rightarrow>
     ('x, action_execution_context) comp" where
  "decide_action z gs rid a ctx =
     (case to_policy_request (v_json_len (z_services z)) (v_llm_scope (z_services z)) a of
        Inl contract_error \<Rightarrow>
          deny_action z rid (deny_reason_as_str (ce_reason contract_error))
            [(''detail'', JString (ce_detail contract_error))]
            [(''source'', JString ''contract''), (''detail'', JString (ce_detail contract_error))]
            (act_type a) ''action denied by contract validation''
      | Inr r \<Rightarrow>
          (case is_action_allowed gs r of
             Allow \<Rightarrow> allow_action z rid a r ctx
           | Deny reason \<Rightarrow>
               deny_action z rid (deny_reason_as_str reason) [] [] (action_type r)
                 (''action denied by policy: '' @ deny_reason_as_str reason)))"

definition process_action ::
    "'x site \<Rightarrow> grant_set \<Rightarrow> action_request \<Rightarrow> action_execution_context \<Rightarrow>
     ('x, action_execution_context) comp" where
  "process_action z gs skill_action ctx =
     (let a = normalize_skill_action skill_action
      in bind (new_v4 (z_env z)) (\<lambda>rid.
           seq [stmt (z_env z) (\<lambda>now. create_action_request now
                  \<lparr>q_id = rid, q_step = z_step z, q_type = act_type a,
                   q_args = redact_json (act_args a),
                   q_justification = Some (redact_text (act_justification a)),
                   q_status = ''requested'', q_reason = None\<rparr>),
                site_event z ''action.requested'' (jobj [(''action_id'', JString (act_id a)),
                  (''action_type'', JString (act_type a))])]
             (decide_action z gs rid a ctx)))"

fun process_actions ::
    "'x site \<Rightarrow> grant_set \<Rightarrow> action_request list \<Rightarrow> action_execution_context \<Rightarrow> ('x, unit) comp" where
  "process_actions z gs [] ctx = ret ()"
| "process_actions z gs (a # as) ctx =
     bind (process_action z gs a ctx) (process_actions z gs as)"

section \<open>The claimed run\<close>

definition process_step ::
    "'x site \<Rightarrow> ('x, unit) comp" where
  "process_step z =
     (let env = z_env z; cfg = z_config z; run = z_run z; gs = parse_grant_set (r_granted run)
      in bind (prepare_skill_input_with_agent_context env (z_services z) cfg run (z_step z) (z_trace z))
        (\<lambda>input.
          handle (invoke_skill env (z_services z) cfg run (z_step z) (z_trace z) input gs)
            (\<lambda>error. let error_message = redact_text error in
               seq [fail_step z (jobj [(''code'', JString ''SKILL_INVOKE_FAILED''),
                      (''message'', JString error_message)]),
                    site_event z ''step.failed'' (jobj [(''error'', JString error_message)])]
                 (fail error))
            (\<lambda>result.
               seq [site_event z ''skill.invoked''
                      (jobj [(''action_request_count'', jnat (length (res_action_requests result))),
                         (''agent_context_enabled'', JBool (wc_agent_context_enabled cfg))]),
                    process_actions z gs (res_action_requests result)
                      \<lparr>remote_llm_tokens_remaining = wc_remote_token_budget_per_run cfg,
                       payment_spend_msat = 0, last_llm_response_text = None\<rparr>,
                    ignore (stmt env (\<lambda>now. mark_step_succeeded now (z_step z) (res_output result)))]
                 (site_event z ''step.completed'' (jobj [])))))"

definition process_claimed_run ::
    "outside \<Rightarrow> services \<Rightarrow> 'x connectors \<Rightarrow> worker_config \<Rightarrow> run_row \<Rightarrow> string option \<Rightarrow>
     ('x, unit) comp" where
  "process_claimed_run env sv k cfg run trace =
     bind (new_v4 env) (\<lambda>sid.
       bind (stmt env (\<lambda>now. create_step now
              \<lparr>s_id = sid, s_run = r_id run, s_tenant = r_tenant run, s_agent = r_agent run,
               s_user = r_user run, s_name = r_recipe run, s_status = ''running'',
               s_input = r_input run, s_error = None\<rparr>)) (\<lambda>step.
         let z = \<lparr>z_env = env, z_services = sv, z_connectors = k, z_config = cfg, z_run = run,
                  z_step = s_id step, z_trace = trace\<rparr>
         in seq [site_event z ''step.started'' (jobj [(''step_name'', JString (s_name step))])]
              (process_step z)))"

end
