(* ===== verification/LlmGateway.thy ===== *)
theory LlmGateway
  imports LlmRouting Worker
begin

text \<open>
  The LLM gateway (\<open>worker/src/llm.rs\<close>): admission control, the response cache in the process and in
  the database, the chat request, the verifier and its judge, latency objectives, the escalation to
  the remote route, and the gateway's decision record.

  The state is what these share: the cache and the admission counters of the process, the gateway and
  usage tables of the database, and a ghost log of the chat requests that left the process. Everything
  outside (clocks, the HTTP exchange, database faults, hashing, JSON parsing, float formatting, URL
  parsing, the \<open>mock://\<close> endpoints of the test deployments) is an argument, numbered by the step at
  which it is asked.
\<close>

section \<open>State\<close>

record chat_message =
  cm_role :: string
  cm_content :: string

record chat_completion_request =
  cq_model :: string
  cq_messages :: "chat_message list"
  cq_max_tokens :: "nat option"
  cq_temperature :: "json_num option"

record usage =
  us_prompt_tokens :: "nat option"
  us_completion_tokens :: "nat option"
  us_total_tokens :: "nat option"

record chat_completion_response =
  cr_choices :: "string list"
  cr_usage :: "usage option"

record cached_completion =
  cc_response_text :: string
  cc_prompt_tokens :: "nat option"
  cc_completion_tokens :: "nat option"
  cc_total_tokens :: "nat option"

record cache_entry =
  ce_value :: cached_completion
  ce_inserted_at :: nat

record admission_lease_row =
  al_namespace :: string
  al_lane :: string
  al_slot_index :: nat
  al_lease_id :: uuid
  al_lease_owner :: string
  al_expires_at :: time

record gateway_cache_row =
  gc_cache_key_sha256 :: string
  gc_namespace :: string
  gc_route :: string
  gc_model :: string
  gc_response_json :: json
  gc_expires_at :: time
  gc_updated_at :: time

record token_usage_row =
  tu_id :: uuid
  tu_run_id :: uuid
  tu_action_request_id :: uuid
  tu_tenant_id :: string
  tu_agent_id :: uuid
  tu_route :: string
  tu_model_key :: string
  tu_consumed_tokens :: int
  tu_estimated_cost_usd :: "64 word option"
  tu_window_started_at :: time
  tu_window_duration_seconds :: int
  tu_created_at :: time

text \<open>Why a chat request was sent: to complete the prompt on a route, or to have an answer judged.\<close>

datatype purpose = Completion llm_route | Judge

record sent_request =
  sr_purpose :: purpose
  sr_url :: string
  sr_api_key :: "string option"
  sr_request :: chat_completion_request

record gateway =
  g_cache :: "(string \<times> cache_entry) list"
  g_interactive_inflight :: nat
  g_batch_inflight :: nat
  g_leases :: "admission_lease_row list"
  g_entries :: "gateway_cache_row list"
  g_usage :: "token_usage_row list"
  g_sent :: "sent_request list"
  g_step :: nat

datatype http_outcome =
    ClientFailed
  | SendFailed
  | ErrorStatus
  | BadJson
  | Answered chat_completion_response

record llm_outside =
  lo_instant_ns :: "nat \<Rightarrow> nat"
  lo_now :: "nat \<Rightarrow> time"
  lo_uuid :: "nat \<Rightarrow> uuid"
  lo_http :: "nat \<Rightarrow> string \<Rightarrow> string option \<Rightarrow> chat_completion_request \<Rightarrow> http_outcome"
  lo_db_fault :: "nat \<Rightarrow> string option"
  lo_mock :: "llm_endpoint_config \<Rightarrow> chat_message list \<Rightarrow> llm_infer_action_args \<Rightarrow> llm_config \<Rightarrow>
    string + cached_completion"
  lo_url_host :: "string \<Rightarrow> string option option"
  lo_sha256_hex :: "string \<Rightarrow> string"
  lo_from_str :: "string \<Rightarrow> json option"
  lo_fmt_temperature :: "json_num \<Rightarrow> string"
  lo_estimated_cost :: "64 word \<Rightarrow> nat \<Rightarrow> 64 word option"
  lo_time_json :: "time \<Rightarrow> json"
  lo_sql_text :: "db_error \<Rightarrow> string"
  lo_env :: env_vars

type_synonym 'a gw = "(gateway, 'a) action"

text \<open>Asking the outside: the answer to the current step.\<close>

definition ask :: "(nat \<Rightarrow> 'a) \<Rightarrow> 'a gw" where
  "ask f = (\<lambda>g. (Inr (f (g_step g)), g\<lparr>g_step := Suc (g_step g)\<rparr>))"

text \<open>A database statement: it fails without effect, or runs at the database's clock.\<close>

definition gw_stmt :: "llm_outside \<Rightarrow> (time \<Rightarrow> gateway \<Rightarrow> 'a \<times> gateway) \<Rightarrow> 'a gw" where
  "gw_stmt env f = (\<lambda>g.
     let n = g_step g; g1 = g\<lparr>g_step := Suc n\<rparr>
     in case lo_db_fault env n of
          Some e \<Rightarrow> (Inl e, g1)
        | None \<Rightarrow> (let (v, g2) = f (lo_now env n) g1 in (Inr v, g2)))"

section \<open>The gateway tables\<close>

text \<open>\<open>try_acquire_llm_gateway_admission_lease\<close>: the lowest slot without a live lease.\<close>

definition lease_live :: "time \<Rightarrow> string \<Rightarrow> string \<Rightarrow> nat \<Rightarrow> admission_lease_row \<Rightarrow> bool" where
  "lease_live now ns lane slot r \<longleftrightarrow>
     al_namespace r = ns \<and> al_lane r = lane \<and> al_slot_index r = slot \<and> now < al_expires_at r"

definition try_acquire_llm_gateway_admission_lease ::
    "string \<Rightarrow> string \<Rightarrow> int \<Rightarrow> uuid \<Rightarrow> string \<Rightarrow> nat \<Rightarrow> time \<Rightarrow> gateway \<Rightarrow> admission_lease_row option \<times> gateway" where
  "try_acquire_llm_gateway_admission_lease ns lane max_inflight lease_id owner lease_ms now g =
     (if max_inflight \<le> 0 then (None, g)
      else case find (\<lambda>slot. \<not> list_ex (lease_live now ns lane slot) (g_leases g))
                  [1..<Suc (nat max_inflight)] of
        None \<Rightarrow> (None, g)
      | Some slot \<Rightarrow>
          (let row = \<lparr>al_namespace = ns, al_lane = lane, al_slot_index = slot, al_lease_id = lease_id,
                 al_lease_owner = owner, al_expires_at = now + clamp_lease_ms lease_ms\<rparr>
           in (Some row, g\<lparr>g_leases := row # filter (\<lambda>r. \<not> (al_namespace r = ns \<and> al_lane r = lane \<and>
                 al_slot_index r = slot)) (g_leases g)\<rparr>)))"

definition release_llm_gateway_admission_lease ::
    "admission_lease_row \<Rightarrow> gateway \<Rightarrow> bool \<times> gateway" where
  "release_llm_gateway_admission_lease lease g =
     (let mine = (\<lambda>r. al_namespace r = al_namespace lease \<and> al_lane r = al_lane lease \<and>
            al_slot_index r = al_slot_index lease \<and> al_lease_id r = al_lease_id lease)
      in (length (filter mine (g_leases g)) = 1, g\<lparr>g_leases := filter (\<lambda>r. \<not> mine r) (g_leases g)\<rparr>))"

definition get_llm_gateway_cache_entry ::
    "string \<Rightarrow> string \<Rightarrow> time \<Rightarrow> gateway \<Rightarrow> gateway_cache_row option \<times> gateway" where
  "get_llm_gateway_cache_entry ns key now g =
     (find (\<lambda>r. gc_namespace r = ns \<and> gc_cache_key_sha256 r = key \<and> now < gc_expires_at r) (g_entries g), g)"

definition upsert_llm_gateway_cache_entry ::
    "string \<Rightarrow> string \<Rightarrow> string \<Rightarrow> string \<Rightarrow> json \<Rightarrow> nat \<Rightarrow> time \<Rightarrow> gateway \<Rightarrow> unit \<times> gateway" where
  "upsert_llm_gateway_cache_entry key ns route model response ttl_ms now g =
     ((), g\<lparr>g_entries := \<lparr>gc_cache_key_sha256 = key, gc_namespace = ns, gc_route = route, gc_model = model,
        gc_response_json = response, gc_expires_at = now + clamp_lease_ms ttl_ms, gc_updated_at = now\<rparr>
        # filter (\<lambda>r. gc_cache_key_sha256 r \<noteq> key) (g_entries g)\<rparr>)"

text \<open>
  Pruning drops the expired rows of the namespace, then its rows beyond the \<open>max_entries\<close> most recently
  updated; rows updated at the same moment are kept in the order of the table.
\<close>

definition expire_namespace :: "string \<Rightarrow> time \<Rightarrow> gateway \<Rightarrow> gateway" where
  "expire_namespace ns now g =
     g\<lparr>g_entries := filter (\<lambda>r. \<not> (gc_namespace r = ns \<and> gc_expires_at r \<le> now)) (g_entries g)\<rparr>"

definition overflow_keys :: "string \<Rightarrow> nat \<Rightarrow> gateway_cache_row list \<Rightarrow> string set" where
  "overflow_keys ns max_entries rows =
     set (map gc_cache_key_sha256 (drop max_entries
       (sort_key (\<lambda>r. - gc_updated_at r) (filter (\<lambda>r. gc_namespace r = ns) rows))))"

definition prune_llm_gateway_cache_namespace ::
    "llm_outside \<Rightarrow> string \<Rightarrow> int \<Rightarrow> unit gw" where
  "prune_llm_gateway_cache_namespace env ns max_entries =
     bind (gw_stmt env (\<lambda>now g. ((), expire_namespace ns now g))) (\<lambda>_.
     if max_entries \<le> 0 then ret ()
     else gw_stmt env (\<lambda>now g. ((), g\<lparr>g_entries := filter (\<lambda>r. \<not> (gc_namespace r = ns \<and>
            gc_cache_key_sha256 r \<in> overflow_keys ns (nat max_entries) (g_entries g))) (g_entries g)\<rparr>)))"

section \<open>Chat requests\<close>

definition build_messages :: "string option \<Rightarrow> string \<Rightarrow> chat_message list" where
  "build_messages system prompt =
     (case system of None \<Rightarrow> [] | Some s \<Rightarrow> [\<lparr>cm_role = ''system'', cm_content = s\<rparr>])
     @ [\<lparr>cm_role = ''user'', cm_content = prompt\<rparr>]"

text \<open>One HTTP exchange. The request has left the process unless the client could not be built.\<close>

definition post_chat ::
    "llm_outside \<Rightarrow> purpose \<Rightarrow> llm_endpoint_config \<Rightarrow> chat_completion_request \<Rightarrow> http_outcome gw" where
  "post_chat env why e req = (\<lambda>g.
     let n = g_step g; url = trim_end_slashes (ep_base_url e) @ ''/chat/completions'';
         out = lo_http env n url (ep_api_key e) req; g1 = g\<lparr>g_step := Suc n\<rparr>
     in (Inr out,
         if out = ClientFailed then g1
         else g1\<lparr>g_sent := g_sent g @ [\<lparr>sr_purpose = why, sr_url = url, sr_api_key = ep_api_key e,
                                          sr_request = req\<rparr>]\<rparr>))"

definition completion_of :: "llm_config \<Rightarrow> chat_completion_response \<Rightarrow> string + cached_completion" where
  "completion_of cfg payload =
     (case cr_choices payload of
        [] \<Rightarrow> Inl ''llm.infer response missing choices[0].message.content''
      | t # _ \<Rightarrow>
          if lc_max_output_bytes cfg < length t
          then Inl (''llm.infer output exceeded '' @ nat_to_string (lc_max_output_bytes cfg) @ '' bytes'')
          else Inr \<lparr>cc_response_text = t,
                 cc_prompt_tokens = Option.bind (cr_usage payload) us_prompt_tokens,
                 cc_completion_tokens = Option.bind (cr_usage payload) us_completion_tokens,
                 cc_total_tokens = Option.bind (cr_usage payload) us_total_tokens\<rparr>)"

definition request_chat_completion ::
    "llm_outside \<Rightarrow> llm_endpoint_config \<Rightarrow> chat_message list \<Rightarrow> llm_infer_action_args \<Rightarrow> llm_config \<Rightarrow>
     llm_route \<Rightarrow> cached_completion gw" where
  "request_chat_completion env e messages parsed cfg route =
     (if starts_with (ep_base_url e) ''mock://'' then lift (lo_mock env e messages parsed cfg)
      else bind (post_chat env (Completion route) e
             \<lparr>cq_model = ep_model e, cq_messages = messages, cq_max_tokens = ia_max_tokens parsed,
              cq_temperature = ia_temperature parsed\<rparr>) (\<lambda>out.
        case out of
          ClientFailed \<Rightarrow> fail ''failed building LLM HTTP client''
        | SendFailed \<Rightarrow> fail (''llm.infer request failed for route '' @ route_as_str route)
        | ErrorStatus \<Rightarrow> fail (''llm.infer endpoint returned error for '' @ route_as_str route)
        | BadJson \<Rightarrow> fail ''failed decoding llm.infer response JSON''
        | Answered payload \<Rightarrow> lift (completion_of cfg payload)))"

section \<open>The response cache\<close>

definition message_bytes :: "chat_message \<Rightarrow> string" where
  "message_bytes m = cm_role m @ '':'' @ cm_content m @ ''|''"

text \<open>The bytes hashed into a cache key.\<close>

definition cache_key_bytes ::
    "(json_num \<Rightarrow> string) \<Rightarrow> string \<Rightarrow> llm_route \<Rightarrow> string \<Rightarrow> chat_message list \<Rightarrow> nat option \<Rightarrow>
     json_num option \<Rightarrow> string" where
  "cache_key_bytes fmt ns route model messages max_tokens temperature =
     ns @ ''|'' @ route_as_str route @ ''|'' @ model @ ''|'' @ concat (map message_bytes messages)
     @ nat_to_string (unwrap_or max_tokens 0) @ ''|''
     @ (case temperature of None \<Rightarrow> [] | Some t \<Rightarrow> fmt t)"

definition compute_cache_key ::
    "llm_outside \<Rightarrow> string \<Rightarrow> llm_route \<Rightarrow> string \<Rightarrow> chat_message list \<Rightarrow> nat option \<Rightarrow> json_num option \<Rightarrow> string" where
  "compute_cache_key env ns route model messages max_tokens temperature =
     lo_sha256_hex env (cache_key_bytes (lo_fmt_temperature env) ns route model messages max_tokens temperature)"

definition ns_per_sec :: nat where "ns_per_sec = 10 ^ 9"

text \<open>
  The \<open>HashMap\<close> of the process as a list of its entries; its iteration order, which decides among
  entries inserted at the same instant, is the list's order.
\<close>

definition cache_lookup :: "llm_outside \<Rightarrow> string \<Rightarrow> nat \<Rightarrow> cached_completion option gw" where
  "cache_lookup env key ttl_ns = bind (ask (lo_instant_ns env)) (\<lambda>now g.
     case map_of (g_cache g) key of
       None \<Rightarrow> (Inr None, g)
     | Some e \<Rightarrow>
         if ttl_ns < now - ce_inserted_at e
         then (Inr None, g\<lparr>g_cache := filter (\<lambda>(k, _). k \<noteq> key) (g_cache g)\<rparr>)
         else (Inr (Some (ce_value e)), g))"

fun oldest_key :: "(string \<times> cache_entry) list \<Rightarrow> string option" where
  "oldest_key [] = None"
| "oldest_key ((k, e) # rest) =
     (case oldest_key rest of
        None \<Rightarrow> Some k
      | Some k' \<Rightarrow>
          (case map_of rest k' of
             None \<Rightarrow> Some k
           | Some e' \<Rightarrow> if ce_inserted_at e' < ce_inserted_at e then Some k' else Some k))"

definition cache_put :: "string \<Rightarrow> cache_entry \<Rightarrow> nat \<Rightarrow> (string \<times> cache_entry) list \<Rightarrow>
    (string \<times> cache_entry) list" where
  "cache_put key e max_entries entries =
     (let m = (key, e) # filter (\<lambda>(k, _). k \<noteq> key) entries
      in if length m \<le> max_entries then m
         else case oldest_key m of None \<Rightarrow> m | Some k0 \<Rightarrow> filter (\<lambda>(k, _). k \<noteq> k0) m)"

definition cache_insert :: "llm_outside \<Rightarrow> string \<Rightarrow> cached_completion \<Rightarrow> nat \<Rightarrow> unit gw" where
  "cache_insert env key v max_entries = bind (ask (lo_instant_ns env)) (\<lambda>now g.
     (Inr (), g\<lparr>g_cache := cache_put key \<lparr>ce_value = v, ce_inserted_at = now\<rparr> max_entries (g_cache g)\<rparr>))"

text \<open>\<open>CachedCompletion\<close> as JSON, and back: serde accepts an object or a list of the four fields.\<close>

definition completion_to_json :: "cached_completion \<Rightarrow> json" where
  "completion_to_json c = jobj [(''response_text'', JString (cc_response_text c)),
     (''prompt_tokens'', opt_nat_json (cc_prompt_tokens c)),
     (''completion_tokens'', opt_nat_json (cc_completion_tokens c)),
     (''total_tokens'', opt_nat_json (cc_total_tokens c))]"

definition opt_u32_from :: "json option \<Rightarrow> nat option option" where
  "opt_u32_from v =
     (case v of
        None \<Rightarrow> Some None
      | Some JNull \<Rightarrow> Some None
      | Some (JNumber (PosInt n)) \<Rightarrow> if unat n \<le> u32_max then Some (Some (unat n)) else None
      | Some _ \<Rightarrow> None)"

definition completion_from_fields :: "json option \<Rightarrow> json option \<Rightarrow> json option \<Rightarrow> json option \<Rightarrow>
    cached_completion option" where
  "completion_from_fields t p c n =
     (case (Option.bind t as_str, opt_u32_from p, opt_u32_from c, opt_u32_from n) of
        (Some text, Some p', Some c', Some n') \<Rightarrow>
          Some \<lparr>cc_response_text = text, cc_prompt_tokens = p', cc_completion_tokens = c', cc_total_tokens = n'\<rparr>
      | _ \<Rightarrow> None)"

fun completion_from_json :: "json \<Rightarrow> cached_completion option" where
  "completion_from_json (JObject m) = completion_from_fields (map_of m ''response_text'')
     (map_of m ''prompt_tokens'') (map_of m ''completion_tokens'') (map_of m ''total_tokens'')"
| "completion_from_json (JArray [t, p, c, n]) = completion_from_fields (Some t) (Some p) (Some c) (Some n)"
| "completion_from_json _ = None"

section \<open>Completing on a route\<close>

record route_completion =
  rc_completion :: cached_completion
  rc_cache_status :: string
  rc_cache_key_sha256 :: "string option"
  rc_remote_host :: "string option"

definition completed :: "cached_completion \<Rightarrow> string \<Rightarrow> string option \<Rightarrow> string option \<Rightarrow> route_completion" where
  "completed c status key host =
     \<lparr>rc_completion = c, rc_cache_status = status, rc_cache_key_sha256 = key, rc_remote_host = host\<rparr>"

text \<open>What does not go through the distributed cache; \<open>fallback\<close> says that it was tried.\<close>

definition complete_locally_cached ::
    "llm_outside \<Rightarrow> llm_route \<Rightarrow> llm_endpoint_config \<Rightarrow> chat_message list \<Rightarrow> llm_infer_action_args \<Rightarrow>
     llm_config \<Rightarrow> string \<Rightarrow> string option \<Rightarrow> bool \<Rightarrow> route_completion gw" where
  "complete_locally_cached env route e messages parsed cfg key host fallback =
     (if lc_cache_enabled cfg \<and> 0 < lc_cache_ttl_secs cfg then
        bind (cache_lookup env key (lc_cache_ttl_secs cfg * ns_per_sec)) (\<lambda>hit.
          case hit of
            Some c \<Rightarrow> ret (completed c (if fallback then ''distributed_fail_open_local_hit'' else ''hit'')
                             (Some key) host)
          | None \<Rightarrow>
              bind (request_chat_completion env e messages parsed cfg route) (\<lambda>c.
              bind (cache_insert env key c (max (lc_cache_max_entries cfg) 1)) (\<lambda>_.
              ret (completed c (if fallback then ''distributed_fail_open_local_miss'' else ''miss'')
                     (Some key) host))))
      else
        bind (request_chat_completion env e messages parsed cfg route) (\<lambda>c.
        ret (completed c
          (if lc_cache_enabled cfg
           then if fallback then ''distributed_fail_open_local_bypass_ttl0'' else ''bypass_ttl0''
           else ''disabled'') None host)))"

definition execute_route_completion ::
    "llm_outside \<Rightarrow> llm_route \<Rightarrow> llm_endpoint_config \<Rightarrow> llm_infer_action_args \<Rightarrow> llm_prompt_plan \<Rightarrow>
     llm_config \<Rightarrow> string option \<Rightarrow> bool \<Rightarrow> route_completion gw" where
  "execute_route_completion env route e parsed plan cfg cache_namespace has_pool =
     bind (lift (enforce_remote_egress_policy (lo_url_host env) route e cfg parsed)) (\<lambda>host.
     let messages = build_messages (ia_system parsed) (pl_prompt plan);
         ns = unwrap_or cache_namespace ''global'';
         key = compute_cache_key env ns route (ep_model e) messages (ia_max_tokens parsed) (ia_temperature parsed);
         locally = complete_locally_cached env route e messages parsed cfg key host
     in if lc_cache_enabled cfg \<and> 0 < lc_cache_ttl_secs cfg \<and> lc_distributed_enabled cfg \<and>
           lc_distributed_cache_enabled cfg
        then
          if has_pool then
            handle (gw_stmt env (get_llm_gateway_cache_entry ns key))
              (\<lambda>_. if \<not> lc_distributed_fail_open cfg
                   then fail ''llm.infer distributed cache lookup failed and fail-open is disabled''
                   else locally True)
              (\<lambda>hit. case hit of
                 Some row \<Rightarrow>
                   (case completion_from_json (gc_response_json row) of
                      None \<Rightarrow> fail ''invalid llm gateway cache payload (expected CachedCompletion)''
                    | Some c \<Rightarrow> ret (completed c ''distributed_hit'' (Some key) host))
               | None \<Rightarrow>
                   bind (request_chat_completion env e messages parsed cfg route) (\<lambda>c.
                   seq [try_ignore (gw_stmt env (upsert_llm_gateway_cache_entry key ns (route_as_str route)
                          (ep_model e) (completion_to_json c) (1000 * lc_cache_ttl_secs cfg))),
                        try_ignore (prune_llm_gateway_cache_namespace env ns
                          (as_i64 (lc_distributed_cache_namespace_max_entries cfg)))]
                     (ret (completed c ''distributed_miss'' (Some key) host))))
          else if \<not> lc_distributed_fail_open cfg
            then fail ''llm.infer distributed cache is enabled but no database pool was provided''
          else locally True
        else locally False)"

end
