(* ===== verification/LlmControls.thy ===== *)
theory LlmControls
  imports LlmGateway
begin

text \<open>
  The controls around a completion (\<open>worker/src/llm.rs\<close>): latency objectives, the verifier, admission,
  escalation to the remote route and \<open>execute_llm_infer\<close>, which composes them.
\<close>

section \<open>Reason codes and latency objectives\<close>

text \<open>The characters of valid UTF-8 are its bytes that are not continuations.\<close>

definition compact_reason :: "string \<Rightarrow> string" where
  "compact_reason raw =
     take 80 (map (\<lambda>c. if is_ascii_alphanumeric c \<or> c = CHR ''_'' \<or> c = CHR ''-'' then c else CHR ''_'')
       (filter (\<lambda>c. \<not> is_continuation c) raw))"

definition combine_reason_code :: "string \<Rightarrow> string list \<Rightarrow> string option" where
  "combine_reason_code prefix reasons =
     (if reasons = [] then None else Some (prefix @ '':'' @ join ''|'' reasons))"

definition combine_optional_reason_codes :: "string option \<Rightarrow> string option \<Rightarrow> string option" where
  "combine_optional_reason_codes primary secondary =
     (case (primary, secondary) of
        (None, None) \<Rightarrow> None
      | (Some p, None) \<Rightarrow> Some p
      | (None, Some s) \<Rightarrow> Some s
      | (Some p, Some s) \<Rightarrow> Some (p @ ''|'' @ s))"

definition duration_ms_u64 :: "nat \<Rightarrow> nat" where
  "duration_ms_u64 ns = min (ns div 10 ^ 6) u64_max"

definition lane_slo_threshold_ms :: "llm_request_class \<Rightarrow> llm_config \<Rightarrow> nat option" where
  "lane_slo_threshold_ms class cfg =
     (case class of Interactive \<Rightarrow> lc_slo_interactive_max_latency_ms cfg
      | Batch \<Rightarrow> lc_slo_batch_max_latency_ms cfg)"

record lane_slo_evaluation =
  slo_status :: string
  slo_reason_code :: "string option"

definition evaluate_lane_slo :: "nat \<Rightarrow> nat option \<Rightarrow> nat option \<Rightarrow> lane_slo_evaluation" where
  "evaluate_lane_slo latency_ms threshold alert_pct =
     (case threshold of
        None \<Rightarrow> \<lparr>slo_status = ''not_configured'', slo_reason_code = None\<rparr>
      | Some threshold_ms \<Rightarrow>
          if threshold_ms = 0
          then \<lparr>slo_status = ''not_configured'', slo_reason_code = Some ''threshold_zero_disabled''\<rparr>
          else if threshold_ms < latency_ms
          then \<lparr>slo_status = ''breach'', slo_reason_code = Some (''latency_threshold_breach:''
                  @ nat_to_string latency_ms @ ''>'' @ nat_to_string threshold_ms)\<rparr>
          else
            (let usage_pct = min (latency_ms * 100) u64_max div threshold_ms in
             case alert_pct of
               Some pct \<Rightarrow>
                 if 0 < pct \<and> pct \<le> usage_pct
                 then \<lparr>slo_status = ''warn'', slo_reason_code = Some (''latency_threshold_near:''
                         @ nat_to_string usage_pct @ ''pct>='' @ nat_to_string pct @ ''pct'')\<rparr>
                 else \<lparr>slo_status = ''ok'', slo_reason_code = None\<rparr>
             | None \<Rightarrow> \<lparr>slo_status = ''ok'', slo_reason_code = None\<rparr>))"

section \<open>The verifier\<close>

definition uncertain_phrases :: "string list" where
  "uncertain_phrases = [''i'' @ [CHR 0x27] @ ''m not sure'', ''i am not sure'', ''i do not know'',
     ''i don'' @ [CHR 0x27] @ ''t know'', ''cannot assist'']"

definition deterministic_verifier_reason_codes :: "string \<Rightarrow> string \<Rightarrow> nat \<Rightarrow> string list" where
  "deterministic_verifier_reason_codes prompt response min_chars =
     (let r = to_ascii_lowercase (trim response) in
      (if length r < min_chars then [''short_response''] else [])
      @ (if list_ex (contains r) uncertain_phrases then [''uncertain_response''] else [])
      @ (if contains (to_ascii_lowercase prompt) ''json'' \<and>
            \<not> (starts_with r ''{'' \<or> starts_with r ''['')
         then [''json_expected_non_json_response''] else [])
      @ (if 512 < length prompt \<and> length r < min (min_chars * 2) u64_max
         then [''long_prompt_underanswered''] else []))"

definition reason_penalty :: "string \<Rightarrow> int" where
  "reason_penalty reason =
     (if reason = ''short_response'' then 35
      else if reason = ''uncertain_response'' then 20
      else if reason = ''json_expected_non_json_response'' then 25
      else if reason = ''long_prompt_underanswered'' then 15
      else 0)"

definition score_response :: "string \<Rightarrow> string \<Rightarrow> nat \<Rightarrow> nat" where
  "score_response prompt response min_chars =
     (let score = fold (\<lambda>reason s. s - reason_penalty reason)
            (deterministic_verifier_reason_codes prompt response min_chars) (100 :: int)
      in nat (max 0 (min score 100)))"

record llm_verifier_judge_outcome =
  vj_score_pct :: nat
  vj_reason_code :: "string option"

record llm_verifier_outcome =
  vo_score_pct :: nat
  vo_judge_score_pct :: "nat option"
  vo_reason_code :: "string option"

text \<open>The first number of at most 100 among the runs of digits.\<close>

fun first_score :: "string list \<Rightarrow> nat option" where
  "first_score [] = None"
| "first_score (t # ts) =
     (if t = [] then first_score ts
      else case parse_unsigned 65535 t of
             Some n \<Rightarrow> if n \<le> 100 then Some n else first_score ts
           | None \<Rightarrow> first_score ts)"

definition parse_verifier_judge_response :: "(string \<Rightarrow> json option) \<Rightarrow> string \<Rightarrow> string + llm_verifier_judge_outcome" where
  "parse_verifier_judge_response from_str raw =
     (case Option.bind (from_str raw) (\<lambda>v. map_option (\<lambda>s. (v, s)) (get_u64 v ''score_pct'')) of
        Some (v, score) \<Rightarrow>
          Inr \<lparr>vj_score_pct = min (unat score) 100, vj_reason_code = trimmed_str (json_get v ''reason_code'')\<rparr>
      | None \<Rightarrow>
          (case first_score (split_where (\<lambda>c. \<not> is_ascii_digit c) raw) of
             Some n \<Rightarrow> Inr \<lparr>vj_score_pct = n, vj_reason_code = None\<rparr>
           | None \<Rightarrow> Inl ''verifier judge response did not include a parseable score_pct (0..100)''))"

definition quote :: string where "quote = [CHR 0x22]"

definition judge_request :: "llm_endpoint_config \<Rightarrow> string \<Rightarrow> string \<Rightarrow> chat_completion_request" where
  "judge_request e prompt response =
     \<lparr>cq_model = ep_model e,
      cq_messages = [\<lparr>cm_role = ''system'', cm_content =
          ''You are a strict response verifier. Return compact JSON only: {'' @ quote @ ''score_pct'' @ quote
          @ '': <0-100>, '' @ quote @ ''reason_code'' @ quote @ '': '' @ quote @ ''<short_snake_case>'' @ quote @ ''}.''\<rparr>,
        \<lparr>cm_role = ''user'', cm_content = ''Prompt:'' @ line_feed @ prompt @ line_feed @ line_feed @ ''Response:''
          @ line_feed @ response @ line_feed @ line_feed @ ''Evaluate quality/safety/completeness.''\<rparr>],
      cq_max_tokens = Some 96, cq_temperature = Some (Float 0)\<rparr>"

definition request_verifier_judge_score ::
    "llm_outside \<Rightarrow> llm_endpoint_config \<Rightarrow> string \<Rightarrow> string \<Rightarrow> llm_verifier_judge_outcome gw" where
  "request_verifier_judge_score env e prompt response =
     bind (post_chat env Judge e (judge_request e prompt response)) (\<lambda>out.
       case out of
         ClientFailed \<Rightarrow> fail ''failed building verifier judge HTTP client''
       | SendFailed \<Rightarrow> fail ''verifier judge request failed''
       | ErrorStatus \<Rightarrow> fail ''verifier judge endpoint returned error''
       | BadJson \<Rightarrow> fail ''failed decoding verifier judge response JSON''
       | Answered payload \<Rightarrow>
           (case cr_choices payload of
              [] \<Rightarrow> fail ''verifier judge response missing choices[0].message.content''
            | content # _ \<Rightarrow> lift (parse_verifier_judge_response (lo_from_str env) content)))"

definition evaluate_verifier :: "llm_outside \<Rightarrow> string \<Rightarrow> string \<Rightarrow> llm_config \<Rightarrow> llm_verifier_outcome gw" where
  "evaluate_verifier env prompt response cfg =
     (let codes = deterministic_verifier_reason_codes prompt response (lc_verifier_min_response_chars cfg);
          det = score_response prompt response (lc_verifier_min_response_chars cfg);
          alone = (\<lambda>prefix reasons. ret \<lparr>vo_score_pct = det, vo_judge_score_pct = None,
                     vo_reason_code = combine_reason_code prefix reasons\<rparr>);
          hybrid = (lc_verifier_mode cfg = Hybrid)
      in if lc_verifier_mode cfg = Heuristic \<or> lc_verifier_mode cfg = Deterministic
         then alone ''deterministic'' codes
         else case lc_verifier_judge cfg of
                Some e \<Rightarrow>
                  handle (request_verifier_judge_score env e prompt response)
                    (\<lambda>err. if \<not> lc_verifier_judge_fail_open cfg
                           then fail ''verifier judge failed and fail-open is disabled''
                           else alone ''judge_fail_open'' (codes @ [''judge_failed:'' @ compact_reason err]))
                    (\<lambda>judge. ret
                      \<lparr>vo_score_pct = (if hybrid then (det + vj_score_pct judge) div 2 else vj_score_pct judge),
                       vo_judge_score_pct = Some (vj_score_pct judge),
                       vo_reason_code = combine_reason_code (if hybrid then ''hybrid'' else ''model_judge'')
                         (codes @ [case vj_reason_code judge of Some c \<Rightarrow> ''judge:'' @ c | None \<Rightarrow> ''judge:ok''])\<rparr>)
              | None \<Rightarrow>
                  if lc_verifier_mode cfg = ModelJudge
                  then fail ''LLM_VERIFIER_MODE=model_judge requires verifier judge endpoint configuration''
                  else alone ''hybrid_unconfigured_fallback'' codes)"

section \<open>Admission\<close>

datatype admission_release =
    ReleaseNone
  | ReleaseLocal llm_request_class
  | ReleaseDistributed admission_lease_row

text \<open>
  \<open>try_reserve_slot\<close>: the compare-and-exchange loop ends with an increment of a counter that was below
  the limit at that moment, or with a load at the limit.
\<close>

definition reserve_slot :: "llm_request_class \<Rightarrow> nat \<Rightarrow> gateway \<Rightarrow> bool \<times> gateway" where
  "reserve_slot class max_inflight g =
     (case class of
        Interactive \<Rightarrow>
          if max_inflight \<le> g_interactive_inflight g then (False, g)
          else (True, g\<lparr>g_interactive_inflight := Suc (g_interactive_inflight g)\<rparr>)
      | Batch \<Rightarrow>
          if max_inflight \<le> g_batch_inflight g then (False, g)
          else (True, g\<lparr>g_batch_inflight := Suc (g_batch_inflight g)\<rparr>))"

definition admission_limit :: "llm_request_class \<Rightarrow> llm_config \<Rightarrow> nat" where
  "admission_limit class cfg =
     (case class of Interactive \<Rightarrow> max (lc_admission_interactive_max_inflight cfg) 1
      | Batch \<Rightarrow> max (lc_admission_batch_max_inflight cfg) 1)"

definition admission_denied :: "llm_request_class \<Rightarrow> llm_config \<Rightarrow> string" where
  "admission_denied class cfg = ''llm.infer admission denied: request_class='' @ request_class_as_str class
     @ '' saturated (max_inflight='' @ nat_to_string (admission_limit class cfg) @ '')''"

definition acquire_local_admission :: "llm_infer_action_args \<Rightarrow> llm_config \<Rightarrow> admission_release gw" where
  "acquire_local_admission parsed cfg = (\<lambda>g.
     case reserve_slot (ia_request_class parsed) (admission_limit (ia_request_class parsed) cfg) g of
       (True, g') \<Rightarrow> (Inr (ReleaseLocal (ia_request_class parsed)), g')
     | (False, g') \<Rightarrow> (Inl (admission_denied (ia_request_class parsed) cfg), g'))"

definition acquire_admission ::
    "llm_outside \<Rightarrow> llm_infer_action_args \<Rightarrow> llm_config \<Rightarrow> string option \<Rightarrow> bool \<Rightarrow> (admission_release \<times> string) gw" where
  "acquire_admission env parsed cfg cache_namespace has_pool =
     (let class = ia_request_class parsed;
          distributed = lc_distributed_enabled cfg \<and> lc_distributed_admission_enabled cfg;
          locally = bind (acquire_local_admission parsed cfg) (\<lambda>r.
            ret (r, if distributed then ''distributed_fail_open_local'' else ''admitted''))
      in if \<not> lc_admission_enabled cfg then ret (ReleaseNone, ''disabled'')
         else if distributed then
           if has_pool then
             bind (ask (lo_uuid env)) (\<lambda>lease_id.
             handle (gw_stmt env (try_acquire_llm_gateway_admission_lease
                 (unwrap_or cache_namespace ''global'') (request_class_as_str class)
                 (as_i32 (admission_limit class cfg)) lease_id (lc_distributed_owner cfg)
                 (lc_distributed_admission_lease_ms cfg)))
               (\<lambda>_. if \<not> lc_distributed_fail_open cfg
                    then fail ''llm.infer distributed admission backend failed''
                    else locally)
               (\<lambda>lease. case lease of
                  Some l \<Rightarrow> ret (ReleaseDistributed l, ''distributed_admitted'')
                | None \<Rightarrow> fail (admission_denied class cfg)))
           else if \<not> lc_distributed_fail_open cfg
             then fail ''llm.infer distributed admission is enabled but no database pool was provided''
           else locally
         else locally)"

text \<open>
  \<open>Drop\<close> of the guard. The distributed lease is deleted by a spawned task whose result is ignored: the
  statement runs, or fails and leaves the lease to expire.
\<close>

definition release_admission :: "llm_outside \<Rightarrow> admission_release \<Rightarrow> unit gw" where
  "release_admission env r =
     (case r of
        ReleaseNone \<Rightarrow> ret ()
      | ReleaseLocal Interactive \<Rightarrow>
          (\<lambda>g. (Inr (), g\<lparr>g_interactive_inflight := g_interactive_inflight g - 1\<rparr>))
      | ReleaseLocal Batch \<Rightarrow> (\<lambda>g. (Inr (), g\<lparr>g_batch_inflight := g_batch_inflight g - 1\<rparr>))
      | ReleaseDistributed lease \<Rightarrow>
          try_ignore (gw_stmt env (\<lambda>_. release_llm_gateway_admission_lease lease)))"

section \<open>Running with controls\<close>

text \<open>What serves the request so far: the route, its endpoint, the completion and the reason.\<close>

record serving =
  sv_route :: llm_route
  sv_selection :: route_endpoint_selection
  sv_completion :: route_completion
  sv_reason :: string

record llm_execution_outcome =
  eo_route :: llm_route
  eo_model :: string
  eo_response_text :: string
  eo_prompt_tokens :: "nat option"
  eo_completion_tokens :: "nat option"
  eo_total_tokens :: "nat option"
  eo_admission_status :: string
  eo_cache_status :: string
  eo_cache_key_sha256 :: "string option"
  eo_verifier_enabled :: bool
  eo_verifier_mode :: string
  eo_verifier_score_pct :: "nat option"
  eo_verifier_judge_score_pct :: "nat option"
  eo_verifier_threshold_pct :: "nat option"
  eo_verifier_escalated :: bool
  eo_verifier_reason_code :: "string option"
  eo_slo_threshold_ms :: "nat option"
  eo_slo_latency_ms :: nat
  eo_slo_status :: string
  eo_slo_reason_code :: "string option"
  eo_route_reason_code :: string
  eo_local_tier_requested :: "string option"
  eo_local_tier_selected :: "string option"
  eo_local_tier_reason_code :: "string option"
  eo_remote_host :: "string option"

text \<open>The request being served, and where.\<close>

record request_site =
  rq_env :: llm_outside
  rq_parsed :: llm_infer_action_args
  rq_plan :: llm_prompt_plan
  rq_config :: llm_config
  rq_namespace :: "string option"
  rq_has_pool :: bool

definition complete_on :: "request_site \<Rightarrow> llm_route \<Rightarrow> route_endpoint_selection \<Rightarrow> route_completion gw" where
  "complete_on q route sel = execute_route_completion (rq_env q) route (rs_endpoint sel) (rq_parsed q)
     (rq_plan q) (rq_config q) (rq_namespace q) (rq_has_pool q)"

text \<open>
  An escalation: the remote endpoint with its configured model. A completion there replaces what
  serves the request; a failure of it does not.
\<close>

definition escalate_remote ::
    "request_site \<Rightarrow> string \<Rightarrow> (string \<Rightarrow> 'r gw) \<Rightarrow> (serving \<Rightarrow> 'r gw) \<Rightarrow> 'r gw" where
  "escalate_remote q reason failed succeeded =
     bind (lift (select_endpoint_for_route (rq_config q) Remote (rq_plan q) False)) (\<lambda>sel.
     handle (complete_on q Remote sel) failed
       (\<lambda>rc. succeeded \<lparr>sv_route = Remote, sv_selection = sel, sv_completion = rc, sv_reason = reason\<rparr>))"

definition slo_step :: "request_site \<Rightarrow> serving \<Rightarrow> lane_slo_evaluation \<Rightarrow> (serving \<times> string option) gw" where
  "slo_step q s slo =
     (if sv_route s = Local \<and> slo_status slo = ''breach'' \<and> lc_slo_breach_escalate_remote (rq_config q) \<and>
         lc_remote (rq_config q) \<noteq> None
      then escalate_remote q ''slo_escalated_remote_latency_breach''
             (\<lambda>err. ret (s, Some (''latency_breach_remote_escalation_failed:'' @ compact_reason err)))
             (\<lambda>s'. ret (s', Some ''latency_breach_remote_escalated''))
      else ret (s, None))"

record verdict =
  vd_score :: "nat option"
  vd_judge_score :: "nat option"
  vd_escalated :: bool
  vd_reason :: "string option"

definition verifier_step :: "request_site \<Rightarrow> serving \<Rightarrow> (serving \<times> verdict) gw" where
  "verifier_step q s =
     (let cfg = rq_config q in
      if \<not> (lc_verifier_enabled cfg \<or> ia_verifier_required (rq_parsed q))
      then ret (s, \<lparr>vd_score = None, vd_judge_score = None, vd_escalated = False, vd_reason = None\<rparr>)
      else bind (evaluate_verifier (rq_env q) (pl_prompt (rq_plan q))
                   (cc_response_text (rc_completion (sv_completion s))) cfg) (\<lambda>v.
        let vd = \<lparr>vd_score = Some (vo_score_pct v), vd_judge_score = vo_judge_score_pct v,
                  vd_escalated = False, vd_reason = vo_reason_code v\<rparr>
        in if sv_route s = Local \<and> vo_score_pct v < lc_verifier_min_score_pct cfg
           then if lc_verifier_escalate_remote cfg \<and> lc_remote cfg \<noteq> None
                then escalate_remote q ''verifier_escalated_remote_low_score''
                       (\<lambda>err. ret (s, vd\<lparr>vd_reason := Some (''low_score_remote_escalation_failed:''
                                          @ compact_reason err)\<rparr>))
                       (\<lambda>s'. ret (s', vd\<lparr>vd_escalated := True, vd_reason := Some ''low_score_remote_escalated''\<rparr>))
                else ret (s, vd\<lparr>vd_reason := Some ''low_score_no_remote_escalation''\<rparr>)
           else ret (s, vd)))"

definition outcome_of ::
    "request_site \<Rightarrow> string \<Rightarrow> serving \<Rightarrow> verdict \<Rightarrow> nat option \<Rightarrow> nat \<Rightarrow> lane_slo_evaluation \<Rightarrow> string option \<Rightarrow>
     llm_execution_outcome" where
  "outcome_of q admission_status s vd threshold latency slo note =
     (let cfg = rq_config q; sel = sv_selection s; rc = sv_completion s; c = rc_completion rc;
          verifier = lc_verifier_enabled cfg \<or> ia_verifier_required (rq_parsed q)
      in \<lparr>eo_route = sv_route s, eo_model = ep_model (rs_endpoint sel),
          eo_response_text = cc_response_text c, eo_prompt_tokens = cc_prompt_tokens c,
          eo_completion_tokens = cc_completion_tokens c, eo_total_tokens = cc_total_tokens c,
          eo_admission_status = admission_status, eo_cache_status = rc_cache_status rc,
          eo_cache_key_sha256 = rc_cache_key_sha256 rc, eo_verifier_enabled = verifier,
          eo_verifier_mode = verifier_mode_as_str (lc_verifier_mode cfg),
          eo_verifier_score_pct = vd_score vd, eo_verifier_judge_score_pct = vd_judge_score vd,
          eo_verifier_threshold_pct = (if verifier then Some (lc_verifier_min_score_pct cfg) else None),
          eo_verifier_escalated = vd_escalated vd, eo_verifier_reason_code = vd_reason vd,
          eo_slo_threshold_ms = threshold, eo_slo_latency_ms = latency, eo_slo_status = slo_status slo,
          eo_slo_reason_code = combine_optional_reason_codes (slo_reason_code slo) note,
          eo_route_reason_code = sv_reason s,
          eo_local_tier_requested = map_option local_tier_as_str (rs_local_tier_requested sel),
          eo_local_tier_selected = map_option local_tier_as_str (rs_local_tier_selected sel),
          eo_local_tier_reason_code = rs_local_tier_reason_code sel,
          eo_remote_host = rc_remote_host rc\<rparr>)"

definition run_llm_with_controls :: "request_site \<Rightarrow> string \<Rightarrow> llm_execution_outcome gw" where
  "run_llm_with_controls q admission_status =
     (let cfg = rq_config q; plan = rq_plan q;
          instant = ask (lo_instant_ns (rq_env q));
          threshold = lane_slo_threshold_ms (ia_request_class (rq_parsed q)) cfg;
          alert = lc_slo_alert_threshold_pct cfg
      in bind instant (\<lambda>started.
         bind (lift (select_route_with_reason cfg (pl_prefer plan))) (\<lambda>d.
         bind (lift (select_endpoint_for_route cfg (rd_route d) plan True)) (\<lambda>sel.
         bind instant (\<lambda>first_started.
         bind (complete_on q (rd_route d) sel) (\<lambda>rc.
         bind instant (\<lambda>first_ended.
         bind (slo_step q
                 \<lparr>sv_route = rd_route d, sv_selection = sel, sv_completion = rc,
                  sv_reason = rd_reason_code d @ (case rs_local_tier_reason_code sel of
                                 None \<Rightarrow> [] | Some r \<Rightarrow> ''|'' @ r)\<rparr>
                 (evaluate_lane_slo (duration_ms_u64 (first_ended - first_started)) threshold alert)) (\<lambda>(s, note).
         bind (verifier_step q s) (\<lambda>(s, vd).
         bind instant (\<lambda>ended.
         let latency = duration_ms_u64 (ended - started)
         in ret (outcome_of q admission_status s vd threshold latency
                   (evaluate_lane_slo latency threshold alert) note)))))))))))"

section \<open>\<open>execute_llm_infer\<close>\<close>

definition build_gateway_decision :: "llm_config \<Rightarrow> llm_execution_outcome \<Rightarrow> llm_prompt_plan \<Rightarrow> json" where
  "build_gateway_decision cfg o1 plan = jobj
     [(''version'', JString ''m14i.v1''), (''mode'', JString (mode_as_str (lc_mode cfg))),
      (''channel'', opt_str_json (pl_channel plan)),
      (''channel_defaults_applied'', JBool (pl_channel_defaults_applied plan)),
      (''request_class'', JString (request_class_as_str (pl_request_class plan))),
      (''queue_lane'', JString (request_class_as_str (pl_request_class plan))),
      (''selected_route'', JString (route_as_str (eo_route o1))),
      (''reason_code'', JString (eo_route_reason_code o1)),
      (''local_tier_requested'', opt_str_json (eo_local_tier_requested o1)),
      (''local_tier_selected'', opt_str_json (eo_local_tier_selected o1)),
      (''local_tier_reason_code'', opt_str_json (eo_local_tier_reason_code o1)),
      (''prefer'', opt_str_json (map_option route_as_str (pl_prefer plan))),
      (''large_input_policy'', JString (large_input_policy_as_str (pl_large_input_policy plan))),
      (''large_input_applied'', JBool (pl_large_input_applied plan)),
      (''large_input_reason_code'', JString (pl_large_input_reason_code plan)),
      (''prompt_bytes_original'', jnat (pl_prompt_bytes_original plan)),
      (''prompt_bytes_effective'', jnat (pl_prompt_bytes_effective plan)),
      (''retrieval_candidate_documents'', jnat (pl_retrieval_candidate_documents plan)),
      (''retrieval_selected_documents'', jnat (pl_retrieval_selected_documents plan)),
      (''admission_status'', JString (eo_admission_status o1)),
      (''cache_status'', JString (eo_cache_status o1)),
      (''cache_key_sha256'', opt_str_json (eo_cache_key_sha256 o1)),
      (''verifier_enabled'', JBool (eo_verifier_enabled o1)),
      (''verifier_mode'', JString (eo_verifier_mode o1)),
      (''verifier_score_pct'', opt_nat_json (eo_verifier_score_pct o1)),
      (''verifier_judge_score_pct'', opt_nat_json (eo_verifier_judge_score_pct o1)),
      (''verifier_threshold_pct'', opt_nat_json (eo_verifier_threshold_pct o1)),
      (''verifier_escalated'', JBool (eo_verifier_escalated o1)),
      (''verifier_reason_code'', opt_str_json (eo_verifier_reason_code o1)),
      (''slo_threshold_ms'', opt_nat_json (eo_slo_threshold_ms o1)),
      (''slo_latency_ms'', jnat (eo_slo_latency_ms o1)),
      (''slo_status'', JString (eo_slo_status o1)),
      (''slo_reason_code'', opt_str_json (eo_slo_reason_code o1)),
      (''local_available'', JBool (lc_local cfg \<noteq> None \<or> lc_local_small cfg \<noteq> None)),
      (''remote_available'', JBool (lc_remote cfg \<noteq> None)),
      (''remote_egress_class'', JString (egress_class_as_str (lc_remote_egress_class cfg))),
      (''remote_host'', opt_str_json (eo_remote_host o1))]"

record llm_infer_result =
  ir_route :: string
  ir_model :: string
  ir_gateway :: json
  ir_response_text :: string
  ir_prompt_tokens :: "nat option"
  ir_completion_tokens :: "nat option"
  ir_total_tokens :: "nat option"

text \<open>The guard of an admission lives until the end of the call, however it ends.\<close>

definition guarded :: "llm_outside \<Rightarrow> admission_release \<Rightarrow> 'a gw \<Rightarrow> 'a gw" where
  "guarded env r m = (\<lambda>g. let (res, g1) = m g in (res, snd (release_admission env r g1)))"

definition channel_defaults :: "llm_outside \<Rightarrow> string + llm_channel_defaults_config" where
  "channel_defaults env = resolve_channel_defaults_from_env (lo_from_str env) (lo_env env)"

definition execute_llm_infer ::
    "llm_outside \<Rightarrow> json \<Rightarrow> llm_config \<Rightarrow> string option \<Rightarrow> bool \<Rightarrow> llm_infer_result gw" where
  "execute_llm_infer env args cfg cache_namespace has_pool =
     bind (lift (parse_action_args args (lc_max_input_bytes cfg))) (\<lambda>parsed.
     bind (acquire_admission env parsed cfg cache_namespace has_pool) (\<lambda>(guard, admission_status).
     guarded env guard
       (bind (lift (build_prompt_plan (channel_defaults env) parsed cfg)) (\<lambda>plan.
        bind (run_llm_with_controls
                \<lparr>rq_env = env, rq_parsed = parsed, rq_plan = plan, rq_config = cfg,
                 rq_namespace = cache_namespace, rq_has_pool = has_pool\<rparr> admission_status) (\<lambda>o1.
        ret \<lparr>ir_route = route_as_str (eo_route o1), ir_model = eo_model o1,
             ir_gateway = build_gateway_decision cfg o1 plan, ir_response_text = eo_response_text o1,
             ir_prompt_tokens = eo_prompt_tokens o1, ir_completion_tokens = eo_completion_tokens o1,
             ir_total_tokens = eo_total_tokens o1\<rparr>)))))"

end
