(* ===== verification/LlmSafety.thy ===== *)
theory LlmSafety
  imports LlmControls
begin

text \<open>
  What leaves the process for an \<open>llm.infer\<close> action. Every chat request of a call is accounted for: it
  goes to an endpoint of the configuration with that endpoint's key, a remote one only under the
  egress policy, and it either has the scope that policy judged or is an escalation that the
  configuration enables.
\<close>

section \<open>Reasoning about what is sent\<close>

text \<open>
  \<open>does P Q m\<close>: whatever the outside answers, the requests that \<open>m\<close> sends satisfy \<open>P\<close>, the usage
  table stays as it is, and a value \<open>m\<close> returns satisfies \<open>Q\<close>.
\<close>

definition does :: "(sent_request \<Rightarrow> bool) \<Rightarrow> ('a \<Rightarrow> bool) \<Rightarrow> 'a gw \<Rightarrow> bool" where
  "does P Q m \<longleftrightarrow> (\<forall>g res g'. m g = (res, g') \<longrightarrow>
     (\<exists>new. g_sent g' = g_sent g @ new \<and> list_all P new) \<and> g_usage g' = g_usage g \<and> (\<forall>v. res = Inr v \<longrightarrow> Q v))"

named_theorems does_rules \<open>what the gateway's steps send\<close>

lemma doesD:
  assumes "does P Q m" and "m g = (res, g')"
  shows "\<exists>new. g_sent g' = g_sent g @ new \<and> list_all P new" and "res = Inr v \<Longrightarrow> Q v" and "g_usage g' = g_usage g"
  using assms unfolding does_def by blast+

text \<open>A step that sends nothing.\<close>

lemma does_silent:
  assumes "\<And>g res g'. m g = (res, g') \<Longrightarrow> g_sent g' = g_sent g \<and> g_usage g' = g_usage g \<and> (\<forall>v. res = Inr v \<longrightarrow> Q v)"
  shows "does P Q m"
  unfolding does_def
proof (intro allI impI)
  fix g res g' assume "m g = (res, g')"
  from assms [OF this] show "(\<exists>new. g_sent g' = g_sent g @ new \<and> list_all P new) \<and> g_usage g' = g_usage g \<and>
      (\<forall>v. res = Inr v \<longrightarrow> Q v)"
    by (intro conjI exI [of _ "[]"]) simp_all
qed

lemma does_basic [does_rules]:
  "Q v \<Longrightarrow> does P Q (ret v)" "does P Q (fail e)" "(\<And>v. r = Inr v \<Longrightarrow> Q v) \<Longrightarrow> does P Q (lift r)"
  by (rule does_silent, auto simp: ret_def fail_def lift_def)+

lemma does_ask [does_rules]: "does P (\<lambda>_. True) (ask f)"
  by (rule does_silent) (auto simp: ask_def)

lemma does_handle:
  assumes "does P R m" and "\<And>e. does P Q (h e)" and "\<And>v. R v \<Longrightarrow> does P Q (k v)"
  shows "does P Q (handle m h k)"
  unfolding does_def
proof (intro allI impI)
  fix g res g' assume r: "handle m h k g = (res, g')"
  obtain r1 g1 where m: "m g = (r1, g1)" by force
  from doesD(1) [OF assms(1) m] obtain new where new: "g_sent g1 = g_sent g @ new" "list_all P new" by blast
  obtain m2 where m2: "m2 g1 = (res, g')" "does P Q m2"
    using r m assms(2,3) doesD(2) [OF assms(1) m] by (cases r1) (auto simp: handle_def)
  from doesD(1) [OF m2(2,1)] obtain new2 where "g_sent g' = g_sent g1 @ new2" "list_all P new2" by blast
  with new have "g_sent g' = g_sent g @ new @ new2 \<and> list_all P (new @ new2)" by simp
  then show "(\<exists>new. g_sent g' = g_sent g @ new \<and> list_all P new) \<and> g_usage g' = g_usage g \<and>
      (\<forall>v. res = Inr v \<longrightarrow> Q v)"
    using doesD(2,3) [OF m2(2,1)] doesD(3) [OF assms(1) m] by auto
qed

lemma bind_handle: "bind m k = handle m fail k"
  by (simp add: fun_eq_iff bind_def handle_def fail_def split: prod.split sum.split)

lemma does_bind: "does P R m \<Longrightarrow> (\<And>v. R v \<Longrightarrow> does P Q (k v)) \<Longrightarrow> does P Q (bind m k)"
  unfolding bind_handle by (erule does_handle) (auto intro: does_rules)

lemma does_after: "does P (\<lambda>_. True) m \<Longrightarrow> (\<And>v. does P Q (k v)) \<Longrightarrow> does P Q (bind m k)"
  by (rule does_bind)

lemma does_lift_bind: "(\<And>v. r = Inr v \<Longrightarrow> does P Q (k v)) \<Longrightarrow> does P Q (bind (lift r) k)"
  by (rule does_bind [where R="\<lambda>v. r = Inr v"]) (auto intro: does_rules)

lemma does_weaken: "does P R m \<Longrightarrow> (\<And>v. R v \<Longrightarrow> Q v) \<Longrightarrow> does P Q m"
  unfolding does_def by blast

lemma does_gw_stmt:
  assumes "\<And>now g. g_sent (snd (f now g)) = g_sent g \<and> g_usage (snd (f now g)) = g_usage g"
  shows "does P (\<lambda>_. True) (gw_stmt env f)"
proof (rule does_silent)
  fix g res g' assume "gw_stmt env f g = (res, g')"
  then have "g_sent g' = g_sent g \<and> g_usage g' = g_usage g"
    using assms [of "lo_now env (g_step g)" "g\<lparr>g_step := Suc (g_step g)\<rparr>"]
    by (auto simp: gw_stmt_def Let_def split: option.splits prod.splits)
  then show "g_sent g' = g_sent g \<and> g_usage g' = g_usage g \<and> (\<forall>v. res = Inr v \<longrightarrow> True)" by simp
qed

lemma does_try_ignore [does_rules]: "does P Q m \<Longrightarrow> does P (\<lambda>_. True) (try_ignore m)"
  unfolding try_ignore_def by (erule does_handle) (auto intro: does_rules)

lemma does_gateway_tables [does_rules]:
  "does P (\<lambda>_. True) (gw_stmt env (get_llm_gateway_cache_entry ns key))"
  "does P (\<lambda>_. True) (gw_stmt env (upsert_llm_gateway_cache_entry key ns rt md js ttl))"
  "does P (\<lambda>_. True) (gw_stmt env (try_acquire_llm_gateway_admission_lease ns lane mx li ow ms))"
  "does P (\<lambda>_. True) (gw_stmt env (\<lambda>_. release_llm_gateway_admission_lease lease))"
  "does P (\<lambda>_. True) (prune_llm_gateway_cache_namespace env ns mx2)"
  unfolding prune_llm_gateway_cache_namespace_def
  by (intro does_gw_stmt does_after conjI;
      simp add: get_llm_gateway_cache_entry_def upsert_llm_gateway_cache_entry_def Let_def does_gw_stmt
        try_acquire_llm_gateway_admission_lease_def release_llm_gateway_admission_lease_def
        expire_namespace_def does_basic split: option.split)+

lemma does_cache [does_rules]:
  "does P (\<lambda>_. True) (cache_lookup env key ttl)" "does P (\<lambda>_. True) (cache_insert env key v mx)"
  unfolding cache_lookup_def cache_insert_def
  by (intro does_after does_ask does_silent; auto split: option.splits if_splits)+

section \<open>One completion\<close>

abbreviation chat_url :: "llm_endpoint_config \<Rightarrow> string" where
  "chat_url e \<equiv> trim_end_slashes (ep_base_url e) @ ''/chat/completions''"

lemma does_post_chat:
  assumes "P \<lparr>sr_purpose = why, sr_url = chat_url e, sr_api_key = ep_api_key e, sr_request = req\<rparr>"
  shows "does P (\<lambda>_. True) (post_chat env why e req)"
  using assms unfolding does_def post_chat_def Let_def by auto

definition egress_permits :: "llm_outside \<Rightarrow> llm_config \<Rightarrow> llm_infer_action_args \<Rightarrow> llm_endpoint_config \<Rightarrow> bool" where
  "egress_permits env cfg parsed e \<longleftrightarrow>
     lc_remote_egress_class cfg \<noteq> NeverLeavesPrem \<and>
     (lc_remote_egress_class cfg = RedactedOnly \<longrightarrow> ia_redacted parsed) \<and>
     lc_remote_egress_enabled cfg \<and>
     (\<exists>host. lo_url_host env (ep_base_url e) = Some (Some host) \<and>
        list_ex (\<lambda>allowed. eq_ignore_ascii_case allowed host) (lc_remote_host_allowlist cfg))"

lemma enforce_remote_egress_Inr:
  "enforce_remote_egress_policy (lo_url_host env) Remote e cfg parsed = Inr host \<Longrightarrow> egress_permits env cfg parsed e"
  by (auto simp: enforce_remote_egress_policy_def egress_permits_def split: if_splits option.splits)

text \<open>
  A completion request on a route: a configured endpoint of the route with its own key, an allowed
  model, and the egress policy if the route is remote.
\<close>

definition completion_ok ::
    "llm_outside \<Rightarrow> llm_config \<Rightarrow> llm_infer_action_args \<Rightarrow> llm_route \<Rightarrow> sent_request \<Rightarrow> bool" where
  "completion_ok env cfg parsed route sr \<longleftrightarrow>
     (\<exists>e \<in> route_endpoints cfg route. sr_url sr = chat_url e \<and> sr_api_key sr = ep_api_key e \<and>
        cq_model (sr_request sr) \<in> route_models cfg route \<and>
        (route = Remote \<longrightarrow> egress_permits env cfg parsed e))"

definition sends_on :: "request_site \<Rightarrow> llm_route \<Rightarrow> route_endpoint_selection \<Rightarrow> sent_request \<Rightarrow> bool" where
  "sends_on q route sel sr \<longleftrightarrow> sr_purpose sr = Completion route \<and>
     cq_model (sr_request sr) = ep_model (rs_endpoint sel) \<and>
     completion_ok (rq_env q) (rq_config q) (rq_parsed q) route sr"

lemma does_request_chat:
  assumes "\<And>req. cq_model req = ep_model e \<Longrightarrow>
      P \<lparr>sr_purpose = Completion route, sr_url = chat_url e, sr_api_key = ep_api_key e, sr_request = req\<rparr>"
  shows "does P (\<lambda>_. True) (request_chat_completion env e messages parsed cfg route)"
  unfolding request_chat_completion_def
  by (simp only: if_split, intro conjI impI does_after does_post_chat assms)
    (auto intro!: does_rules split: http_outcome.splits)

lemma does_locally_cached:
  assumes "\<And>req. cq_model req = ep_model e \<Longrightarrow>
      P \<lparr>sr_purpose = Completion route, sr_url = chat_url e, sr_api_key = ep_api_key e, sr_request = req\<rparr>"
  shows "does P (\<lambda>_. True) (complete_locally_cached env route e messages parsed cfg key host fb)"
  unfolding complete_locally_cached_def
  using does_request_chat [where P=P, OF assms]
  by (auto intro!: does_after does_rules split: option.splits)

lemma does_complete_on:
  assumes "config_ok (rq_config q)"
    and "select_endpoint_for_route (rq_config q) route plan ov = Inr sel"
    and "\<And>sr. sends_on q route sel sr \<Longrightarrow> P sr"
  shows "does P (\<lambda>_. True) (complete_on q route sel)"
proof -
  let ?e = "rs_endpoint sel"
  from select_endpoint_Inr [OF assms(2,1)] obtain e where
    e: "ep_model ?e \<in> route_models (rq_config q) route" "e \<in> route_endpoints (rq_config q) route"
      "ep_base_url ?e = ep_base_url e" "ep_api_key ?e = ep_api_key e"
    by (metis llm_endpoint_config.select_convs(1,3) llm_endpoint_config.surjective
        llm_endpoint_config.update_convs(2))
  have P: "P \<lparr>sr_purpose = Completion route, sr_url = chat_url ?e, sr_api_key = ep_api_key ?e, sr_request = req\<rparr>"
    if m: "cq_model req = ep_model ?e" and h: "enforce_remote_egress_policy (lo_url_host (rq_env q)) route ?e
        (rq_config q) (rq_parsed q) = Inr host" for req host
  proof (rule assms(3))
    have "egress_permits (rq_env q) (rq_config q) (rq_parsed q) e" if "route = Remote"
      using enforce_remote_egress_Inr h that e(3) by (fastforce simp: egress_permits_def)
    with m e show "sends_on q route sel \<lparr>sr_purpose = Completion route, sr_url = chat_url ?e,
        sr_api_key = ep_api_key ?e, sr_request = req\<rparr>"
      by (auto simp: sends_on_def completion_ok_def intro!: bexI [of _ e])
  qed
  note rules = does_request_chat [where P=P, OF P] does_locally_cached [where P=P, OF P]
  show ?thesis
    unfolding complete_on_def execute_route_completion_def Let_def
    by (rule does_lift_bind) (auto intro!: does_handle [OF does_gateway_tables(1)] does_after rules does_rules
        split: option.splits)
qed

section \<open>A call\<close>

text \<open>Whether the configuration and the arguments let a local answer be escalated.\<close>

definition may_escalate :: "llm_config \<Rightarrow> llm_infer_action_args \<Rightarrow> bool" where
  "may_escalate cfg parsed \<longleftrightarrow> lc_slo_breach_escalate_remote cfg \<or>
     lc_verifier_escalate_remote cfg \<and> (lc_verifier_enabled cfg \<or> ia_verifier_required parsed)"

text \<open>
  A request is accounted for by the scope \<open>sc\<close> that policy judged: it has that scope; or that scope is
  a local one and the request is an escalation, to the remote endpoint's own model; or it asks the
  judge.
\<close>

definition accounted ::
    "llm_outside \<Rightarrow> llm_config \<Rightarrow> llm_infer_action_args \<Rightarrow> string \<Rightarrow> sent_request \<Rightarrow> bool" where
  "accounted env cfg parsed sc sr \<longleftrightarrow>
     (case sr_purpose sr of
        Judge \<Rightarrow> (\<exists>e. lc_verifier_judge cfg = Some e \<and> sr_url sr = chat_url e \<and> sr_api_key sr = ep_api_key e)
      | Completion route \<Rightarrow>
          completion_ok env cfg parsed route sr \<and>
          (sc = scope_of route (cq_model (sr_request sr)) \<or>
           route = Remote \<and> starts_with sc ''local:'' \<and> may_escalate cfg parsed \<and>
           (\<exists>e. lc_remote cfg = Some e \<and> cq_model (sr_request sr) = ep_model e)))"

definition served :: "llm_config \<Rightarrow> llm_infer_action_args \<Rightarrow> string \<Rightarrow> llm_route \<Rightarrow> string \<Rightarrow> bool" where
  "served cfg parsed sc route model \<longleftrightarrow> sc = scope_of route model \<or>
     route = Remote \<and> starts_with sc ''local:'' \<and> may_escalate cfg parsed"

lemma does_verifier:
  assumes "\<And>e sr. lc_verifier_judge cfg = Some e \<Longrightarrow> sr_purpose sr = Judge \<Longrightarrow> sr_url sr = chat_url e \<Longrightarrow>
      sr_api_key sr = ep_api_key e \<Longrightarrow> P sr"
  shows "does P (\<lambda>_. True) (evaluate_verifier env prompt response cfg)"
proof -
  have "does P (\<lambda>_. True) (request_verifier_judge_score env e prompt response)"
    if "lc_verifier_judge cfg = Some e" for e
    unfolding request_verifier_judge_score_def
    by (rule does_after [OF does_post_chat]) (use assms [OF that] in \<open>auto intro!: does_rules
        split: http_outcome.splits list.splits\<close>)
  then show ?thesis
    unfolding evaluate_verifier_def Let_def
    by (auto intro!: does_handle [where R="\<lambda>_. True"] does_rules split: option.splits)
qed

lemma does_escalate:
  assumes "config_ok (rq_config q)" and "starts_with sc ''local:''" and "may_escalate (rq_config q) (rq_parsed q)"
    and "\<And>e. does (accounted (rq_env q) (rq_config q) (rq_parsed q) sc) Q (failed e)"
    and "\<And>s. sv_route s = Remote \<Longrightarrow> does (accounted (rq_env q) (rq_config q) (rq_parsed q) sc) Q (succeeded s)"
  shows "does (accounted (rq_env q) (rq_config q) (rq_parsed q) sc) Q (escalate_remote q reason failed succeeded)"
  unfolding escalate_remote_def
proof (rule does_bind [where R="\<lambda>sel. select_endpoint_for_route (rq_config q) Remote (rq_plan q) False = Inr sel"])
  fix sel assume sel: "select_endpoint_for_route (rq_config q) Remote (rq_plan q) False = Inr sel"
  from select_endpoint_Inr [OF sel assms(1)] have
    "lc_remote (rq_config q) = Some (rs_endpoint sel)" by (auto simp: route_endpoints_def)
  then have "accounted (rq_env q) (rq_config q) (rq_parsed q) sc sr" if "sends_on q Remote sel sr" for sr
    using that assms(2,3) by (auto simp: accounted_def sends_on_def)
  with does_complete_on [OF assms(1) sel] show "does (accounted (rq_env q) (rq_config q) (rq_parsed q) sc) Q
    (handle (complete_on q Remote sel) failed (\<lambda>rc. succeeded
       \<lparr>sv_route = Remote, sv_selection = sel, sv_completion = rc, sv_reason = reason\<rparr>))"
    by (intro does_handle [where R="\<lambda>_. True"] assms(4,5)) simp_all
qed (rule does_basic(3))

text \<open>What serves a request after the controls ran.\<close>

lemma does_slo_step:
  assumes "config_ok (rq_config q)" and "sc = scope_of (sv_route s) (ep_model (rs_endpoint (sv_selection s)))"
  shows "does (accounted (rq_env q) (rq_config q) (rq_parsed q) sc)
    (\<lambda>(s', note). served (rq_config q) (rq_parsed q) sc (sv_route s') (ep_model (rs_endpoint (sv_selection s'))))
    (slo_step q s slo)"
proof (cases "sv_route s = Local \<and> lc_slo_breach_escalate_remote (rq_config q)")
  case True
  then have "starts_with sc ''local:''" "may_escalate (rq_config q) (rq_parsed q)"
    using assms(2) scope_of_prefix(1) by (auto simp: may_escalate_def)
  with assms show ?thesis
    unfolding slo_step_def
    by (auto intro!: does_escalate does_basic(1) simp: served_def)
qed (use assms(2) in \<open>auto simp: slo_step_def served_def intro!: does_basic(1)\<close>)

lemma does_verifier_step:
  assumes "config_ok (rq_config q)"
    and "served (rq_config q) (rq_parsed q) sc (sv_route s) (ep_model (rs_endpoint (sv_selection s)))"
  shows "does (accounted (rq_env q) (rq_config q) (rq_parsed q) sc)
    (\<lambda>(s', vd). served (rq_config q) (rq_parsed q) sc (sv_route s') (ep_model (rs_endpoint (sv_selection s'))))
    (verifier_step q s)"
proof (cases "lc_verifier_enabled (rq_config q) \<or> ia_verifier_required (rq_parsed q)")
  case True
  have verifier: "does (accounted (rq_env q) (rq_config q) (rq_parsed q) sc) (\<lambda>_. True)
      (evaluate_verifier (rq_env q) pr re (rq_config q))" for pr re
    by (rule does_verifier) (simp add: accounted_def)
  have esc: "starts_with sc ''local:'' \<and> may_escalate (rq_config q) (rq_parsed q)"
    if "sv_route s = Local" "lc_verifier_escalate_remote (rq_config q)"
    using assms(2) that True scope_of_prefix(1) by (auto simp: served_def may_escalate_def)
  show ?thesis
    unfolding verifier_step_def Let_def
    using True assms esc
    by (auto intro!: does_after [OF verifier] does_escalate does_basic(1) simp: served_def)
qed (use assms(2) in \<open>auto simp: verifier_step_def intro!: does_basic(1)\<close>)

lemma does_run_llm:
  assumes "config_ok (rq_config q)"
    and "\<And>d sel. select_route_with_reason (rq_config q) (pl_prefer (rq_plan q)) = Inr d \<Longrightarrow>
      select_endpoint_for_route (rq_config q) (rd_route d) (rq_plan q) True = Inr sel \<Longrightarrow>
      sc = scope_of (rd_route d) (ep_model (rs_endpoint sel))"
  shows "does (accounted (rq_env q) (rq_config q) (rq_parsed q) sc)
    (\<lambda>o1. served (rq_config q) (rq_parsed q) sc (eo_route o1) (eo_model o1)) (run_llm_with_controls q st)"
proof -
  let ?P = "accounted (rq_env q) (rq_config q) (rq_parsed q) sc"
  let ?served = "\<lambda>s. served (rq_config q) (rq_parsed q) sc (sv_route s) (ep_model (rs_endpoint (sv_selection s)))"
  have complete: "does ?P (\<lambda>_. True) (complete_on q (rd_route d) sel)"
    if "select_route_with_reason (rq_config q) (pl_prefer (rq_plan q)) = Inr d"
      and "select_endpoint_for_route (rq_config q) (rd_route d) (rq_plan q) True = Inr sel" for d sel
    by (rule does_complete_on [OF assms(1) that(2)])
      (use assms(2) [OF that] in \<open>auto simp: accounted_def sends_on_def\<close>)
  have rest: "does ?P (\<lambda>o1. served (rq_config q) (rq_parsed q) sc (eo_route o1) (eo_model o1))
      (bind (verifier_step q s) (\<lambda>(s, vd). bind (ask i) (\<lambda>ended. ret (outcome_of q st s vd th (lat ended) (slo ended) nt))))"
    if "?served s" for s i th lat slo nt
    by (rule does_bind [OF does_verifier_step [OF assms(1) that]])
      (auto simp: outcome_of_def Let_def intro!: does_after [OF does_ask] does_basic(1))
  show ?thesis
    unfolding run_llm_with_controls_def Let_def
    by (intro does_after [OF does_ask] does_lift_bind does_after [OF complete]
        does_bind [OF does_slo_step [OF assms(1)]]) (auto intro: assms(2) rest)
qed

lemma does_acquire_admission: "does P (\<lambda>_. True) (acquire_admission env parsed cfg ns pool)"
proof -
  have "does P (\<lambda>_. True) (acquire_local_admission parsed cfg)"
    by (rule does_silent) (auto simp: acquire_local_admission_def reserve_slot_def
        split: llm_request_class.splits if_splits)
  then show ?thesis
    unfolding acquire_admission_def Let_def
    by (auto intro!: does_after does_handle [OF does_gateway_tables(3)] does_rules split: option.splits)
qed

lemma does_guarded:
  assumes "does P Q m"
  shows "does P Q (guarded env r m)"
proof -
  have "does (\<lambda>_. False) (\<lambda>_. True) (release_admission env r)"
    by (cases r) (auto simp: release_admission_def intro!: does_rules intro: does_silent
        split: llm_request_class.splits)
  from doesD(1,3) [OF this prod.collapse [symmetric]] have
    "g_usage (snd (release_admission env r g)) = g_usage g \<and>
     (\<exists>new. g_sent (snd (release_admission env r g)) = g_sent g @ new \<and> list_all (\<lambda>_. False) new)" for g by simp
  then have "g_usage (snd (release_admission env r g)) = g_usage g \<and>
      g_sent (snd (release_admission env r g)) = g_sent g" for g
    by (metis append.right_neutral list.exhaust list.pred_inject(2))
  with assms show ?thesis by (auto simp: does_def guarded_def split: prod.splits)
qed

lemma execute_llm_infer_does:
  assumes "config_ok cfg" and "parse_action_args args (lc_max_input_bytes cfg) = Inr parsed"
    and "\<And>s. policy_scope_for_action (channel_defaults env) args cfg = Inr s \<Longrightarrow> sc = s"
  shows "does (accounted env cfg parsed sc)
    (\<lambda>r. \<exists>route. ir_route r = route_as_str route \<and> served cfg parsed sc route (ir_model r))
    (execute_llm_infer env args cfg ns pool)"
proof -
  let ?q = "\<lambda>plan. \<lparr>rq_env = env, rq_parsed = parsed, rq_plan = plan, rq_config = cfg,
    rq_namespace = ns, rq_has_pool = pool\<rparr>"
  have run: "does (accounted env cfg parsed sc) (\<lambda>o1. served cfg parsed sc (eo_route o1) (eo_model o1))
      (run_llm_with_controls (?q plan) st)"
    if "build_prompt_plan (channel_defaults env) parsed cfg = Inr plan" for plan st
    using does_run_llm [of "?q plan" sc st] assms that
    by (auto simp: policy_scope_for_action_def)
  show ?thesis
    unfolding execute_llm_infer_def assms(2)
    by (intro does_lift_bind does_after [OF does_acquire_admission])
      (auto intro!: does_guarded does_lift_bind does_bind [OF run] does_basic(1))
qed

section \<open>Properties\<close>


section \<open>A verified prompt\<close>

text \<open>Every endpoint answers at once that it is not sure; the remote host is the allowlisted one.\<close>

definition sample_llm_outside :: llm_outside where
  "sample_llm_outside = \<lparr>lo_instant_ns = \<lambda>_. 0, lo_now = \<lambda>_. 0, lo_uuid = \<lambda>_. ''u'',
     lo_http = \<lambda>_ _ _ _. Answered \<lparr>cr_choices = [''I am not sure''], cr_usage = None\<rparr>, lo_db_fault = \<lambda>_. None,
     lo_mock = \<lambda>_ _ _ _. Inl [], lo_url_host = \<lambda>_. Some (Some ''api.remote''), lo_sha256_hex = \<lambda>s. s,
     lo_from_str = \<lambda>_. None, lo_fmt_temperature = \<lambda>_. [],
     lo_estimated_cost = \<lambda>_ _. None, lo_time_json = \<lambda>_. JNull, lo_sql_text = \<lambda>_. [], lo_env = \<lambda>_. None\<rparr>"

definition sample_prompt :: json where
  "sample_prompt = jobj [(''prompt'', JString ''hello''), (''verify'', JBool True)]"

definition no_gateway :: gateway where
  "no_gateway = \<lparr>g_cache = [], g_interactive_inflight = 0, g_batch_inflight = 0, g_leases = [], g_entries = [],
     g_usage = [], g_sent = [], g_step = 0\<rparr>"

lemma sample_parsed: "parse_action_args sample_prompt (lc_max_input_bytes sample_llm_config) = Inr sample_llm_args"
proof -
  have "non_empty_trimmed ''hello'' = Some ''hello''" by code_simp
  then show ?thesis
    by (simp add: parse_action_args_def sample_prompt_def jobj_def obj_of_list_def trimmed_str_def
        get_either_def get_str_def get_bool_def get_u64_def parse_context_documents_def try_map_def
        unwrap_or_def sample_llm_config_def sample_llm_args_def)
qed

lemma sample_defaults: "channel_defaults sample_llm_outside = Inr default_channel_defaults"
  by (simp add: channel_defaults_def resolve_channel_defaults_from_env_def read_env_optional_string_def
      sample_llm_outside_def)

definition sample_selection :: route_endpoint_selection where
  "sample_selection = \<lparr>rs_endpoint = sample_local, rs_local_tier_requested = Some Workhorse,
     rs_local_tier_selected = Some Workhorse, rs_local_tier_reason_code = Some ''local_tier_workhorse''\<rparr>"

lemma sample_routing:
  "select_route_with_reason sample_llm_config (pl_prefer sample_plan) =
     Inr \<lparr>rd_route = Local, rd_reason_code = ''local_first_default_local''\<rparr>"
  "select_endpoint_for_route sample_llm_config Local sample_plan True = Inr sample_selection"
  "select_endpoint_for_route sample_llm_config Remote sample_plan False = Inr
     \<lparr>rs_endpoint = sample_remote, rs_local_tier_requested = None, rs_local_tier_selected = None,
      rs_local_tier_reason_code = None\<rparr>"
  by (simp_all add: select_route_with_reason_def decide_def select_endpoint_for_route_def pick_local_tier_def
      resolve_default_local_tier_def select_model_for_route_def unwrap_or_def Let_def
      sample_llm_config_def sample_plan_def sample_selection_def sample_local_def)

lemma sample_scope: "policy_scope_for_action (channel_defaults sample_llm_outside) sample_prompt sample_llm_config =
    Inr ''local:small-model''"
  unfolding policy_scope_for_action_def sample_parsed sample_defaults
  by (simp add: sample_plan_built sample_routing scope_of_def sample_selection_def sample_local_def)

definition sample_site :: "string option \<Rightarrow> request_site" where
  "sample_site ns = \<lparr>rq_env = sample_llm_outside, rq_parsed = sample_llm_args, rq_plan = sample_plan,
     rq_config = sample_llm_config, rq_namespace = ns, rq_has_pool = False\<rparr>"

definition sample_sent :: "request_site \<Rightarrow> llm_route \<Rightarrow> llm_endpoint_config \<Rightarrow> sent_request" where
  "sample_sent q route e = \<lparr>sr_purpose = Completion route, sr_url = chat_url e, sr_api_key = ep_api_key e,
     sr_request = \<lparr>cq_model = ep_model e,
                   cq_messages = build_messages (ia_system (rq_parsed q)) (pl_prompt (rq_plan q)),
                   cq_max_tokens = ia_max_tokens (rq_parsed q), cq_temperature = ia_temperature (rq_parsed q)\<rparr>\<rparr>"

definition unsure :: cached_completion where
  "unsure = \<lparr>cc_response_text = ''I am not sure'', cc_prompt_tokens = None, cc_completion_tokens = None,
     cc_total_tokens = None\<rparr>"

lemma sample_complete:
  assumes "rq_env q = sample_llm_outside" and "rq_config q = sample_llm_config"
    and "route = Local \<and> e = sample_local \<and> host = None \<or> route = Remote \<and> e = sample_remote \<and> host = Some ''api.remote''"
    and "rs_endpoint sel = e"
  shows "complete_on q route sel g =
    (Inr (completed unsure ''disabled'' None host),
     g\<lparr>g_step := Suc (g_step g), g_sent := g_sent g @ [sample_sent q route e]\<rparr>)"
proof -
  have host: "enforce_remote_egress_policy (lo_url_host sample_llm_outside) route e sample_llm_config
      (rq_parsed q) = Inr host"
    using assms(3) by (auto simp: enforce_remote_egress_policy_def sample_llm_outside_def sample_llm_config_def
        eq_ignore_ascii_case_def)
  have http: "\<not> starts_with (ep_base_url e) ''mock://''"
    using assms(3) by (auto simp: sample_local_def sample_remote_def)
  have "lc_cache_enabled sample_llm_config = False" "lc_max_output_bytes sample_llm_config = 64000"
    by (simp_all add: sample_llm_config_def)
  with host http show ?thesis
    unfolding complete_on_def execute_route_completion_def assms(1,2,4)
    by (simp add: bind_def lift_def ret_def Let_def complete_locally_cached_def request_chat_completion_def
        post_chat_def completion_of_def sample_sent_def completed_def unsure_def sample_llm_outside_def)
qed

lemma sample_score: "score_response ''hello'' ''I am not sure'' 48 = 45"
  by code_simp

lemma sample_run:
  "\<exists>o1 g'. run_llm_with_controls (sample_site ns) st g = (Inr o1, g') \<and> eo_route o1 = Remote \<and>
     eo_model o1 = ''big-model'' \<and> eo_total_tokens o1 = None \<and>
     g_sent g' = g_sent g @ [sample_sent (sample_site ns) Local sample_local, sample_sent (sample_site ns) Remote sample_remote]"
proof -
  have sel: "rs_endpoint sample_selection = sample_local" by (simp add: sample_selection_def)
  have cfg: "lc_slo_breach_escalate_remote sample_llm_config = False"
      "lc_verifier_escalate_remote sample_llm_config = True" "lc_remote sample_llm_config = Some sample_remote"
      "lc_verifier_min_score_pct sample_llm_config = 65" "lc_verifier_mode sample_llm_config = Heuristic"
      "lc_verifier_min_response_chars sample_llm_config = 48"
      "ia_verifier_required sample_llm_args" "pl_prompt sample_plan = ''hello''"
    by (simp_all add: sample_llm_config_def sample_llm_args_def sample_plan_def)
  have site: "rq_env (sample_site ns) = sample_llm_outside" "rq_parsed (sample_site ns) = sample_llm_args"
      "rq_plan (sample_site ns) = sample_plan" "rq_config (sample_site ns) = sample_llm_config"
    by (simp_all add: sample_site_def)
  have "cc_response_text unsure = ''I am not sure''" "cc_total_tokens unsure = None" "ep_model sample_remote = ''big-model''"
    by (simp_all add: unsure_def sample_remote_def)
  then show ?thesis
    unfolding run_llm_with_controls_def Let_def
    by (simp add: site cfg sample_routing bind_def handle_def lift_def ret_def ask_def slo_step_def
        verifier_step_def escalate_remote_def evaluate_verifier_def sample_score Let_def
        sample_complete [where e=sample_local, OF site(1,4) _ sel]
        sample_complete [where e=sample_remote and route=Remote, OF site(1,4)] completed_def outcome_of_def)
qed

lemma sample_infer:
  assumes "g_interactive_inflight g = 0"
  shows "\<exists>r g'. execute_llm_infer sample_llm_outside sample_prompt sample_llm_config ns False g = (Inr r, g') \<and>
     ir_route r = ''remote'' \<and> ir_model r = ''big-model'' \<and> ir_total_tokens r = None \<and>
     g_sent g' = g_sent g @ [sample_sent (sample_site ns) Local sample_local, sample_sent (sample_site ns) Remote sample_remote]"
proof -
  let ?g = "g\<lparr>g_interactive_inflight := 1\<rparr>"
  have adm: "acquire_admission sample_llm_outside sample_llm_args sample_llm_config ns False g =
      (Inr (ReleaseLocal Interactive, ''admitted''), ?g)"
    using assms by (simp add: acquire_admission_def acquire_local_admission_def reserve_slot_def
        admission_limit_def sample_llm_config_def sample_llm_args_def bind_def ret_def Let_def)
  obtain o1 g' where run: "run_llm_with_controls (sample_site ns) ''admitted'' ?g = (Inr o1, g')"
      "eo_route o1 = Remote" "eo_model o1 = ''big-model''" "eo_total_tokens o1 = None"
      "g_sent g' = g_sent g @ [sample_sent (sample_site ns) Local sample_local, sample_sent (sample_site ns) Remote sample_remote]"
    using sample_run [of ns "''admitted''" ?g] by auto
  have rel: "g_sent (snd (release_admission sample_llm_outside (ReleaseLocal Interactive) g')) = g_sent g'"
    by (simp add: release_admission_def)
  show ?thesis
    unfolding execute_llm_infer_def sample_parsed sample_defaults
    using adm run rel
    by (simp add: bind_def lift_def ret_def guarded_def sample_plan_built sample_site_def)
qed


end
