(* ===== verification/LlmAction.thy ===== *)
theory LlmAction
  imports LlmSafety
begin

text \<open>
  The \<open>llm.infer\<close> connector of the worker (\<open>execute_llm_infer_action\<close> in \<open>worker/src/lib.rs\<close>): the request
  class and the channel it takes from the run's input, the remote token budgets, the call of the
  gateway, and the usage table (\<open>core/src/db.rs\<close>, \<open>core/src/db_worker_dual.rs\<close>).
\<close>

section \<open>The usage table\<close>

text \<open>
  The two back ends differ in the clock they compare: PostgreSQL in full, SQLite's \<open>datetime\<close> in whole
  seconds.
\<close>

type_synonym window_test = "time \<Rightarrow> time \<Rightarrow> bool"

definition since_pg :: window_test where
  "since_pg start created \<longleftrightarrow> start \<le> created"

definition since_sqlite :: window_test where
  "since_sqlite start created \<longleftrightarrow> secs start \<le> secs created"

definition remote_usage :: "window_test \<Rightarrow> (token_usage_row \<Rightarrow> bool) \<Rightarrow> time \<Rightarrow> token_usage_row list \<Rightarrow> int" where
  "remote_usage since p start rows =
     sum_list (map tu_consumed_tokens
       (filter (\<lambda>r. p r \<and> tu_route r = ''remote'' \<and> since start (tu_created_at r)) rows))"

definition sum_llm_consumed_tokens_for_tenant_since :: "window_test \<Rightarrow> string \<Rightarrow> time \<Rightarrow> token_usage_row list \<Rightarrow> int" where
  "sum_llm_consumed_tokens_for_tenant_since since tenant = remote_usage since (\<lambda>r. tu_tenant_id r = tenant)"

definition sum_llm_consumed_tokens_for_agent_since ::
    "window_test \<Rightarrow> string \<Rightarrow> uuid \<Rightarrow> time \<Rightarrow> token_usage_row list \<Rightarrow> int" where
  "sum_llm_consumed_tokens_for_agent_since since tenant agent =
     remote_usage since (\<lambda>r. tu_tenant_id r = tenant \<and> tu_agent_id r = agent)"

definition sum_llm_consumed_tokens_for_model_since ::
    "window_test \<Rightarrow> string \<Rightarrow> string \<Rightarrow> time \<Rightarrow> token_usage_row list \<Rightarrow> int" where
  "sum_llm_consumed_tokens_for_model_since since tenant model_key =
     remote_usage since (\<lambda>r. tu_tenant_id r = tenant \<and> tu_model_key r = model_key)"

text \<open>
  The insert: the keys are unique, the route is known, tokens are not negative and the window is
  positive, or the statement fails.
\<close>

definition usage_check :: "token_usage_row \<Rightarrow> token_usage_row list \<Rightarrow> db_error option" where
  "usage_check r rows =
     (if list_ex (\<lambda>x. tu_id x = tu_id r \<or> tu_action_request_id x = tu_action_request_id r) rows
      then Some UniqueViolation
      else if tu_route r \<notin> {''local'', ''remote''} \<or> tu_consumed_tokens r < 0 \<or> tu_window_duration_seconds r \<le> 0
      then Some CheckViolation
      else None)"

definition create_llm_token_usage_record :: "llm_outside \<Rightarrow> token_usage_row \<Rightarrow> unit gw" where
  "create_llm_token_usage_record env r =
     bind (gw_stmt env (\<lambda>now g.
       let r' = r\<lparr>tu_created_at := now\<rparr> in
       case usage_check r' (g_usage g) of
         Some e \<Rightarrow> (Inl (lo_sql_text env e), g)
       | None \<Rightarrow> (Inr (), g\<lparr>g_usage := g_usage g @ [r']\<rparr>))) lift"

section \<open>The run's defaults\<close>

definition channel_at :: "json option \<Rightarrow> string option" where
  "channel_at v = Option.bind (Option.bind v as_str) normalize_channel_name"

definition infer_run_llm_channel :: "json \<Rightarrow> string option" where
  "infer_run_llm_channel input =
     (case channel_at (get_either input ''llm_channel'' ''channel'') of
        Some c \<Rightarrow> Some c
      | None \<Rightarrow>
          (case channel_at (Option.bind (json_get input ''_trigger'') (\<lambda>t. json_get t ''channel'')) of
             Some c \<Rightarrow> Some c
           | None \<Rightarrow> channel_at (Option.bind (json_get input ''event_payload'') (\<lambda>p. json_get p ''channel''))))"

fun insert_field :: "string \<Rightarrow> string \<Rightarrow> json \<Rightarrow> json" where
  "insert_field k v (JObject m) = JObject (obj_insert k (JString v) m)"
| "insert_field k v other = other"

definition fill_absent :: "string \<Rightarrow> string option \<Rightarrow> json \<Rightarrow> json" where
  "fill_absent k d args =
     (case json_get args k of
        Some _ \<Rightarrow> args
      | None \<Rightarrow> (case d of None \<Rightarrow> args | Some v \<Rightarrow> insert_field k v args))"

text \<open>The arguments with the run's request class and channel filled in.\<close>

definition effective_args :: "json \<Rightarrow> json \<Rightarrow> json" where
  "effective_args input args =
     fill_absent ''channel'' (infer_run_llm_channel input)
       (fill_absent ''request_class'' (trimmed_str (get_either input ''queue_class'' ''llm_queue_class'')) args)"

section \<open>Budgets\<close>

definition budget_exceeded :: "string \<Rightarrow> nat \<Rightarrow> nat \<Rightarrow> string \<Rightarrow> string" where
  "budget_exceeded what remaining estimate rest =
     ''llm.infer '' @ what @ '' token budget exceeded (remaining='' @ nat_to_string remaining
     @ '', requested_estimate='' @ nat_to_string estimate @ rest @ '')''"

text \<open>
  One windowed budget: nothing if it is not configured; else the spent tokens are read, and what
  remains is returned unless the estimate exceeds it.
\<close>

definition check_budget ::
    "llm_outside \<Rightarrow> (token_usage_row list \<Rightarrow> int) \<Rightarrow> nat option \<Rightarrow> nat \<Rightarrow> string \<Rightarrow> string \<Rightarrow> nat option gw" where
  "check_budget env spent_of limit estimate what rest =
     (case limit of
        None \<Rightarrow> ret None
      | Some l \<Rightarrow>
          bind (gw_stmt env (\<lambda>_ g. (spent_of (g_usage g), g))) (\<lambda>n.
            let spent = nat (max n 0) in
            if l < min (spent + estimate) u64_max
            then fail (budget_exceeded what (l - spent) estimate rest)
            else ret (Some (l - spent))))"

record budgets =
  bg_tenant :: "nat option"
  bg_agent :: "nat option"
  bg_model :: "nat option"

definition no_budgets :: budgets where
  "no_budgets = \<lparr>bg_tenant = None, bg_agent = None, bg_model = None\<rparr>"

record llm_call =
  ll_env :: llm_outside
  ll_since :: window_test
  ll_config :: llm_config
  ll_has_pool :: bool

definition window_secs :: "llm_config \<Rightarrow> nat" where
  "window_secs cfg = max (lc_remote_token_budget_window_secs cfg) 1"

definition check_run_budget :: "u64 option \<Rightarrow> nat \<Rightarrow> unit gw" where
  "check_run_budget remaining estimate =
     (case remaining of
        None \<Rightarrow> ret ()
      | Some r \<Rightarrow> if unat r < estimate then fail (budget_exceeded ''remote'' (unat r) estimate []) else ret ())"

definition check_budgets ::
    "llm_call \<Rightarrow> run_row \<Rightarrow> string \<Rightarrow> nat \<Rightarrow> time \<Rightarrow> u64 option \<Rightarrow> budgets gw" where
  "check_budgets c run model_scope estimate start remaining =
     (let env = ll_env c; cfg = ll_config c; since = ll_since c;
          window = '', window_secs='' @ nat_to_string (window_secs cfg)
      in bind (check_run_budget remaining estimate) (\<lambda>_.
         bind (check_budget env (sum_llm_consumed_tokens_for_tenant_since since (r_tenant run) start)
                 (lc_remote_token_budget_per_tenant cfg) estimate ''tenant'' window) (\<lambda>tenant.
         bind (check_budget env (sum_llm_consumed_tokens_for_agent_since since (r_tenant run) (r_agent run) start)
                 (lc_remote_token_budget_per_agent cfg) estimate ''agent'' window) (\<lambda>agent.
         bind (check_budget env (sum_llm_consumed_tokens_for_model_since since (r_tenant run) model_scope start)
                 (lc_remote_token_budget_per_model cfg) estimate ''model''
                 ('', model_scope='' @ model_scope @ window)) (\<lambda>model.
         ret \<lparr>bg_tenant = tenant, bg_agent = agent, bg_model = model\<rparr>)))))"

section \<open>Soft alerts\<close>

definition maybe_push_llm_budget_soft_alert ::
    "string \<Rightarrow> nat option \<Rightarrow> nat option \<Rightarrow> nat \<Rightarrow> nat option \<Rightarrow> string option \<Rightarrow> json list \<Rightarrow> json list" where
  "maybe_push_llm_budget_soft_alert what limit remaining threshold_pct window model_scope alerts =
     (case (limit, remaining) of
        (Some l, Some r) \<Rightarrow>
          if l = 0 then alerts
          else let used = l - r; usage_pct = min (used * 100) u64_max div l
               in if usage_pct < threshold_pct then alerts
                  else alerts @ [jobj [(''scope'', JString what), (''threshold_pct'', jnat threshold_pct),
                         (''usage_pct'', jnat usage_pct), (''used_tokens'', jnat used),
                         (''remaining_tokens'', jnat r), (''limit_tokens'', jnat l),
                         (''window_secs'', opt_nat_json window), (''model_scope'', opt_str_json model_scope)]]
      | _ \<Rightarrow> alerts)"

definition soft_alerts :: "llm_config \<Rightarrow> u64 option \<Rightarrow> budgets \<Rightarrow> string \<Rightarrow> json list" where
  "soft_alerts cfg run_remaining b model_scope =
     (case lc_remote_token_budget_soft_alert_threshold_pct cfg of
        None \<Rightarrow> []
      | Some pct \<Rightarrow>
          maybe_push_llm_budget_soft_alert ''model'' (lc_remote_token_budget_per_model cfg) (bg_model b) pct
            (Some (window_secs cfg)) (Some model_scope)
          (maybe_push_llm_budget_soft_alert ''agent'' (lc_remote_token_budget_per_agent cfg) (bg_agent b) pct
            (Some (window_secs cfg)) None
          (maybe_push_llm_budget_soft_alert ''tenant'' (lc_remote_token_budget_per_tenant cfg) (bg_tenant b) pct
            (Some (window_secs cfg)) None
          (maybe_push_llm_budget_soft_alert ''run'' (lc_remote_token_budget_per_run cfg)
            (map_option unat run_remaining) pct None None []))))"

section \<open>The connector\<close>

definition spend :: "nat \<Rightarrow> nat option \<Rightarrow> nat option" where
  "spend n = map_option (\<lambda>r. r - n)"

definition charge_run :: "nat \<Rightarrow> action_execution_context \<Rightarrow> action_execution_context" where
  "charge_run n ctx = ctx\<lparr>remote_llm_tokens_remaining :=
     map_option (\<lambda>r. saturating_sub r (of_nat n)) (remote_llm_tokens_remaining ctx)\<rparr>"

definition infer_result_json ::
    "llm_call \<Rightarrow> llm_infer_result \<Rightarrow> nat \<Rightarrow> nat \<Rightarrow> time \<Rightarrow> u64 option \<Rightarrow> budgets \<Rightarrow> json list \<Rightarrow> 64 word option \<Rightarrow> json" where
  "infer_result_json c r estimate consumed start run_remaining b alerts cost =
     (let cfg = ll_config c in jobj
      [(''route'', JString (ir_route r)), (''model'', JString (ir_model r)), (''gateway'', ir_gateway r),
       (''response_text'', JString (ir_response_text r)), (''prompt_tokens'', opt_nat_json (ir_prompt_tokens r)),
       (''completion_tokens'', opt_nat_json (ir_completion_tokens r)),
       (''total_tokens'', opt_nat_json (ir_total_tokens r)),
       (''token_accounting'', jobj
         [(''estimated_tokens'', jnat estimate), (''consumed_tokens'', jnat consumed),
          (''remote_token_budget_remaining'', opt_nat_json (map_option unat run_remaining)),
          (''remote_budget_window_secs'', jnat (window_secs cfg)),
          (''remote_budget_window_started_at'', lo_time_json (ll_env c) start),
          (''remote_token_budget_remaining_tenant'', opt_nat_json (bg_tenant b)),
          (''remote_token_budget_remaining_agent'', opt_nat_json (bg_agent b)),
          (''remote_token_budget_remaining_model'', opt_nat_json (bg_model b)),
          (''soft_alert_threshold_pct'', opt_nat_json (lc_remote_token_budget_soft_alert_threshold_pct cfg)),
          (''soft_alerts'', JArray alerts),
          (''estimated_cost_usd'', case cost of None \<Rightarrow> JNull | Some f \<Rightarrow> JNumber (Float f))])])"

definition token_estimate :: "json \<Rightarrow> nat" where
  "token_estimate args = (case get_u64 args ''max_tokens'' of None \<Rightarrow> 512 | Some n \<Rightarrow> unat n)"

definition window_start :: "llm_config \<Rightarrow> time \<Rightarrow> time" where
  "window_start cfg now = now - 1000 * as_i64 (window_secs cfg)"

text \<open>What happens before the gateway is called: the scope, the estimate, the window and the budgets.\<close>

record infer_setup =
  is_args :: json
  is_scope :: string
  is_estimate :: nat
  is_start :: time
  is_budgets :: budgets

definition infer_preflight :: "llm_call \<Rightarrow> run_row \<Rightarrow> json \<Rightarrow> action_execution_context \<Rightarrow> infer_setup gw" where
  "infer_preflight c run args ctx =
     (let env = ll_env c; cfg = ll_config c; eff = effective_args (r_input run) args in
      bind (lift (policy_scope_for_action (channel_defaults env) eff cfg)) (\<lambda>sc.
      bind (ask (lo_now env)) (\<lambda>now.
      let estimate = token_estimate eff; start = window_start cfg now in
      bind (if starts_with sc ''remote:''
            then check_budgets c run sc estimate start (remote_llm_tokens_remaining ctx)
            else ret no_budgets) (\<lambda>b.
      ret \<lparr>is_args = eff, is_scope = sc, is_estimate = estimate, is_start = start, is_budgets = b\<rparr>))))"

definition usage_row ::
    "llm_call \<Rightarrow> run_row \<Rightarrow> uuid \<Rightarrow> infer_setup \<Rightarrow> string \<Rightarrow> nat \<Rightarrow> 64 word option \<Rightarrow> uuid \<Rightarrow> token_usage_row" where
  "usage_row c run request_id s model consumed cost i =
     \<lparr>tu_id = i, tu_run_id = r_id run, tu_action_request_id = request_id, tu_tenant_id = r_tenant run,
      tu_agent_id = r_agent run, tu_route = ''remote'', tu_model_key = ''remote:'' @ model,
      tu_consumed_tokens = as_i64 consumed, tu_estimated_cost_usd = cost, tu_window_started_at = is_start s,
      tu_window_duration_seconds = as_i64 (window_secs (ll_config c)), tu_created_at = 0\<rparr>"

text \<open>
  The connector. The run's remaining tokens are charged before the usage row is written, and stay
  charged if writing it fails.
\<close>

definition execute_llm_infer_action :: "llm_call \<Rightarrow> gateway connector" where
  "execute_llm_infer_action c run request_id args ctx g =
     (let env = ll_env c; cfg = ll_config c in
      case infer_preflight c run args ctx g of
        (Inl e, g1) \<Rightarrow> (Inl e, ctx, g1)
      | (Inr s, g1) \<Rightarrow>
         (case execute_llm_infer env (is_args s) cfg
                 (Some (''tenant:'' @ r_tenant run @ '':agent:'' @ r_agent run)) (ll_has_pool c) g1 of
            (Inl e, g2) \<Rightarrow> (Inl e, ctx, g2)
          | (Inr r, g2) \<Rightarrow>
              (let consumed = unwrap_or (ir_total_tokens r) (is_estimate s); b = is_budgets s
               in if ir_route r = ''remote'' then
                    (let ctx1 = charge_run consumed ctx;
                         b1 = \<lparr>bg_tenant = spend consumed (bg_tenant b), bg_agent = spend consumed (bg_agent b),
                               bg_model = spend consumed (bg_model b)\<rparr>;
                         cost = lo_estimated_cost env (lc_remote_cost_per_1k_tokens_usd cfg) consumed;
                         left = remote_llm_tokens_remaining ctx1
                     in case bind (ask (lo_uuid env)) (\<lambda>i. create_llm_token_usage_record env
                               (usage_row c run request_id s (ir_model r) consumed cost i)) g2 of
                          (Inl e, g3) \<Rightarrow> (Inl e, ctx1, g3)
                        | (Inr _, g3) \<Rightarrow>
                            (Inr (infer_result_json c r (is_estimate s) consumed (is_start s) left b1
                                    (soft_alerts cfg left b1 (is_scope s)) cost),
                             ctx1\<lparr>last_llm_response_text := Some (ir_response_text r)\<rparr>, g3))
                  else
                    (Inr (infer_result_json c r (is_estimate s) consumed (is_start s)
                            (remote_llm_tokens_remaining ctx) b [] None),
                     ctx\<lparr>last_llm_response_text := Some (ir_response_text r)\<rparr>, g2))))"

section \<open>What a call is admitted and charged\<close>

text \<open>A budget admits an estimate.\<close>

definition fits :: "nat option \<Rightarrow> int \<Rightarrow> nat \<Rightarrow> bool" where
  "fits limit spent estimate \<longleftrightarrow> (\<forall>l. limit = Some l \<longrightarrow> l < u64_max \<longrightarrow> spent + int estimate \<le> int l)"

definition same_ledger :: "gateway \<Rightarrow> gateway \<Rightarrow> bool" where
  "same_ledger g g' \<longleftrightarrow> g_usage g' = g_usage g \<and> g_sent g' = g_sent g"

lemma same_ledger_refl [simp]: "same_ledger g g"
  by (simp add: same_ledger_def)

lemma wp_check_budget:
  "wp (check_budget env f limit estimate what rest) (\<lambda>_ g'. same_ledger g g' \<and> fits limit (f (g_usage g)) estimate)
     (\<lambda>_. same_ledger g) g"
proof (cases limit)
  case (Some l)
  have "fits (Some l) n estimate" if "\<not> l < min (nat (max n 0) + estimate) u64_max" for n
    using that by (auto simp: fits_def)
  then show ?thesis
    unfolding check_budget_def Some
    by (auto simp: wp_simps wp_def gw_stmt_def ret_def fail_def bind_def Let_def same_ledger_def
        split: option.splits)
qed (simp add: check_budget_def wp_simps fits_def)

text \<open>What the checks of a remote call establish about the usage table it found.\<close>

definition budgets_fit :: "llm_call \<Rightarrow> run_row \<Rightarrow> string \<Rightarrow> nat \<Rightarrow> time \<Rightarrow> u64 option \<Rightarrow> token_usage_row list \<Rightarrow> bool" where
  "budgets_fit c run model_scope estimate start remaining rows \<longleftrightarrow>
     (\<forall>r. remaining = Some r \<longrightarrow> estimate \<le> unat r) \<and>
     fits (lc_remote_token_budget_per_tenant (ll_config c))
       (sum_llm_consumed_tokens_for_tenant_since (ll_since c) (r_tenant run) start rows) estimate \<and>
     fits (lc_remote_token_budget_per_agent (ll_config c))
       (sum_llm_consumed_tokens_for_agent_since (ll_since c) (r_tenant run) (r_agent run) start rows) estimate \<and>
     fits (lc_remote_token_budget_per_model (ll_config c))
       (sum_llm_consumed_tokens_for_model_since (ll_since c) (r_tenant run) model_scope start rows) estimate"

lemma wp_check_budgets:
  "wp (check_budgets c run sc estimate start remaining)
     (\<lambda>_ g'. same_ledger g g' \<and> budgets_fit c run sc estimate start remaining (g_usage g)) (\<lambda>_. same_ledger g) g"
proof -
  have run: "wp (check_run_budget remaining estimate)
      (\<lambda>_ g'. g' = g \<and> (\<forall>r. remaining = Some r \<longrightarrow> estimate \<le> unat r)) (\<lambda>_. same_ledger g) g"
    by (auto simp: check_run_budget_def wp_simps split: option.split)
  have trans: "same_ledger g g1 \<Longrightarrow> same_ledger g1 g2 \<Longrightarrow> same_ledger g g2" for g1 g2
    by (simp add: same_ledger_def)
  show ?thesis
    unfolding check_budgets_def Let_def wp_simps
    by (rule wp_mono [OF run], elim conjE, hypsubst, rule wp_mono [OF wp_check_budget], elim conjE,
        rule wp_mono [OF wp_check_budget], elim conjE, rule wp_mono [OF wp_check_budget])
      (auto simp: budgets_fit_def same_ledger_def)
qed

definition preflight_ok :: "llm_call \<Rightarrow> run_row \<Rightarrow> json \<Rightarrow> action_execution_context \<Rightarrow> gateway \<Rightarrow> infer_setup \<Rightarrow> bool" where
  "preflight_ok c run args ctx g s \<longleftrightarrow>
     is_args s = effective_args (r_input run) args \<and>
     policy_scope_for_action (channel_defaults (ll_env c)) (is_args s) (ll_config c) = Inr (is_scope s) \<and>
     is_estimate s = token_estimate (is_args s) \<and>
     (\<exists>n. is_start s = window_start (ll_config c) (lo_now (ll_env c) n)) \<and>
     (starts_with (is_scope s) ''remote:'' \<longrightarrow> budgets_fit c run (is_scope s) (is_estimate s) (is_start s)
        (remote_llm_tokens_remaining ctx) (g_usage g))"

lemma wp_infer_preflight:
  "wp (infer_preflight c run args ctx) (\<lambda>s g'. same_ledger g g' \<and> preflight_ok c run args ctx g s)
     (\<lambda>_. same_ledger g) g"
proof -
  let ?eff = "effective_args (r_input run) args"
  have ask: "wp (ask f) Q E g0 = Q (f (g_step g0)) (g0\<lparr>g_step := Suc (g_step g0)\<rparr>)" for f Q E g0
    by (simp add: wp_def ask_def)
  have lift: "wp (lift r) Q E g0 = (case r of Inl e \<Rightarrow> E e g0 | Inr v \<Rightarrow> Q v g0)" for r :: "string + 'a" and Q E and g0 :: gateway
    by (simp add: wp_def lift_def split: sum.split)
  have step: "same_ledger g (g\<lparr>g_step := n\<rparr>)" "g_usage (g\<lparr>g_step := n\<rparr>) = g_usage g" for n
    by (simp_all add: same_ledger_def)
  have checks: "wp (check_budgets c run sc estimate start remaining)
     (\<lambda>_ g'. same_ledger g g' \<and> budgets_fit c run sc estimate start remaining (g_usage g)) (\<lambda>_. same_ledger g)
     (g\<lparr>g_step := n\<rparr>)" for sc estimate start remaining n
    by (rule wp_mono [OF wp_check_budgets]) (auto simp: same_ledger_def)
  show ?thesis
    unfolding infer_preflight_def Let_def
    by (auto simp: wp_simps ask lift preflight_ok_def step split: sum.split intro!: wp_mono [OF checks])
qed

lemma usage_recorded:
  assumes "bind (ask u) (\<lambda>i. create_llm_token_usage_record env (r i)) g = (res, g')"
  defines "row \<equiv> (r (u (g_step g)))\<lparr>tu_created_at := lo_now env (Suc (g_step g))\<rparr>"
  shows "g_sent g' = g_sent g"
    and "res = Inr v \<Longrightarrow> g_usage g' = g_usage g @ [row] \<and> usage_check row (g_usage g) = None"
  using assms(1) unfolding row_def
  by (auto simp: bind_def ask_def create_llm_token_usage_record_def gw_stmt_def lift_def Let_def
      split: option.splits prod.splits sum.splits)

text \<open>How a served call is charged: a remote one adds its usage row and takes its tokens from the run.\<close>

definition charged ::
    "llm_call \<Rightarrow> run_row \<Rightarrow> uuid \<Rightarrow> infer_setup \<Rightarrow> llm_infer_result \<Rightarrow> action_execution_context \<Rightarrow> gateway \<Rightarrow>
     action_execution_context \<Rightarrow> gateway \<Rightarrow> bool" where
  "charged c run rid s r ctx g ctx' g' \<longleftrightarrow>
     (let n = unwrap_or (ir_total_tokens r) (is_estimate s) in
      if ir_route r = ''remote''
      then remote_llm_tokens_remaining ctx' =
             map_option (\<lambda>k. saturating_sub k (of_nat n)) (remote_llm_tokens_remaining ctx) \<and>
           (\<exists>i cost now row. row = (usage_row c run rid s (ir_model r) n cost i)\<lparr>tu_created_at := now\<rparr> \<and>
              g_usage g' = g_usage g @ [row] \<and> usage_check row (g_usage g) = None)
      else remote_llm_tokens_remaining ctx' = remote_llm_tokens_remaining ctx \<and> g_usage g' = g_usage g)"

text \<open>
  The stages of the connector: the checks, the gateway's call, and, when it was served remotely, the
  usage row.
\<close>

lemma llm_action_stages:
  assumes "execute_llm_infer_action c run rid args ctx g = (res, ctx', g')"
  obtains (refused) e where "res = Inl e" "same_ledger g g'"
  | (called) s g1 r0 g2 where "preflight_ok c run args ctx g s" "same_ledger g g1"
      "execute_llm_infer (ll_env c) (is_args s) (ll_config c)
         (Some (''tenant:'' @ r_tenant run @ '':agent:'' @ r_agent run)) (ll_has_pool c) g1 = (r0, g2)"
      "g_sent g' = g_sent g2" "\<And>j. res = Inr j \<Longrightarrow> \<exists>r. r0 = Inr r \<and> charged c run rid s r ctx g2 ctx' g'"
proof -
  obtain p g1 where p: "infer_preflight c run args ctx g = (p, g1)" by force
  note pre = wp_run [OF wp_infer_preflight p]
  show thesis
  proof (cases p)
    case (Inl e)
    with assms p pre show ?thesis by (intro refused) (auto simp: execute_llm_infer_action_def Let_def)
  next
    case (Inr s)
    let ?ns = "Some (''tenant:'' @ r_tenant run @ '':agent:'' @ r_agent run)"
    obtain r0 g2 where r0: "execute_llm_infer (ll_env c) (is_args s) (ll_config c) ?ns (ll_has_pool c) g1 = (r0, g2)"
      by force
    from pre Inr have s: "preflight_ok c run args ctx g s" "same_ledger g g1" by simp_all
    note def = assms [unfolded execute_llm_infer_action_def Let_def p Inr prod.case sum.case r0]
    show ?thesis
    proof (cases "\<exists>r. r0 = Inr r \<and> ir_route r = ''remote''")
      case True
      then obtain r where r: "r0 = Inr r" "ir_route r = ''remote''" by blast
      let ?n = "unwrap_or (ir_total_tokens r) (is_estimate s)"
      let ?cost = "lo_estimated_cost (ll_env c) (lc_remote_cost_per_1k_tokens_usd (ll_config c)) ?n"
      obtain u g3 where u: "bind (ask (lo_uuid (ll_env c))) (\<lambda>i. create_llm_token_usage_record (ll_env c)
          (usage_row c run rid s (ir_model r) ?n ?cost i)) g2 = (u, g3)" by force
      have fin: "g' = g3" "remote_llm_tokens_remaining ctx' =
            map_option (\<lambda>k. saturating_sub k (of_nat ?n)) (remote_llm_tokens_remaining ctx)"
          "\<And>j. res = Inr j \<Longrightarrow> \<exists>v. u = Inr v"
        using def unfolding r(1) sum.case r(2) u by (auto simp: charge_run_def split: sum.splits)
      have "charged c run rid s r ctx g2 ctx' g'" if "u = Inr v" for v
        using usage_recorded(2) [OF u that] fin(1,2) r(2) unfolding charged_def Let_def by auto
      then show ?thesis
        by (intro called [OF s r0]) (use usage_recorded(1) [OF u] fin r in auto)
    next
      case False
      with def s r0 show ?thesis by (intro called) (auto simp: charged_def split: sum.splits)
    qed
  qed
qed

lemma remote_usage_append:
  "remote_usage since p start (rows @ [r]) =
     remote_usage since p start rows + (if p r \<and> tu_route r = ''remote'' \<and> since start (tu_created_at r)
       then tu_consumed_tokens r else 0)"
  by (simp add: remote_usage_def)

section \<open>Properties\<close>

text \<open>
  (C19) Remote token budgets: if the scope of the effective arguments is remote, the call succeeds only if
  its estimate fit what was left of the run's tokens and of each budget that is configured, on either
  back end; it adds exactly one usage row, of the run's tenant and agent and under the judged scope, with
  a count that is not negative, and the tenant's usage afterwards exceeds its limit by no more than the
  count exceeds the estimate.
\<close>

theorem remote_budget_respected:
  assumes "config_ok (ll_config c)" and "execute_llm_infer_action c run rid args ctx g = (Inr j, ctx', g')"
    and "policy_scope_for_action (channel_defaults (ll_env c)) (effective_args (r_input run) args) (ll_config c) = Inr sc"
    and "starts_with sc ''remote:''"
  shows "\<exists>n start estimate row. start = window_start (ll_config c) (lo_now (ll_env c) n) \<and>
    estimate = token_estimate (effective_args (r_input run) args) \<and>
    budgets_fit c run sc estimate start (remote_llm_tokens_remaining ctx) (g_usage g) \<and>
    g_usage g' = g_usage g @ [row] \<and> tu_tenant_id row = r_tenant run \<and> tu_agent_id row = r_agent run \<and>
    tu_route row = ''remote'' \<and> tu_model_key row = sc \<and> 0 \<le> tu_consumed_tokens row \<and>
    (\<forall>l. lc_remote_token_budget_per_tenant (ll_config c) = Some l \<longrightarrow> l < u64_max \<longrightarrow>
       sum_llm_consumed_tokens_for_tenant_since (ll_since c) (r_tenant run) start (g_usage g') \<le>
         int l + tu_consumed_tokens row - int estimate)"
  using assms(2)
proof (cases rule: llm_action_stages)
  case (called s g1 r0 g2)
  from called(5) [OF refl] obtain r where r: "r0 = Inr r" "charged c run rid s r ctx g2 ctx' g'" by blast
  from called(1) assms(3) have s: "is_args s = effective_args (r_input run) args" "is_scope s = sc"
    by (auto simp: preflight_ok_def)
  with called(1) assms(4) obtain n where fit: "budgets_fit c run sc (is_estimate s) (is_start s)
      (remote_llm_tokens_remaining ctx) (g_usage g)"
    and est: "is_start s = window_start (ll_config c) (lo_now (ll_env c) n)"
      "is_estimate s = token_estimate (effective_args (r_input run) args)"
    unfolding preflight_ok_def by metis
  from assms(3) obtain parsed where p: "parse_action_args (is_args s) (lc_max_input_bytes (ll_config c)) = Inr parsed"
    by (auto simp: policy_scope_for_action_def try_then_Inr s)
  have does: "does (accounted (ll_env c) (ll_config c) parsed sc)
      (\<lambda>r. \<exists>route. ir_route r = route_as_str route \<and> served (ll_config c) parsed sc route (ir_model r))
      (execute_llm_infer (ll_env c) (is_args s) (ll_config c)
        (Some (''tenant:'' @ r_tenant run @ '':agent:'' @ r_agent run)) (ll_has_pool c))"
    using assms(3) s by (intro execute_llm_infer_does [OF assms(1) p]) simp
  have "\<not> starts_with sc ''local:''" using assms(4) by (auto simp: starts_with_iff)
  with doesD(2) [OF does called(3) r(1)] have sc: "ir_route r = ''remote''" "sc = ''remote:'' @ ir_model r"
    using assms(4) scope_of_prefix(2) by (auto simp: served_def scope_of_def)
  have usage: "g_usage g2 = g_usage g"
    using doesD(3) [OF does called(3)] called(2) by (simp add: same_ledger_def)
  from r(2) sc(1) usage obtain i cost now row where row:
      "row = (usage_row c run rid s (ir_model r) (unwrap_or (ir_total_tokens r) (is_estimate s)) cost i)
         \<lparr>tu_created_at := now\<rparr>"
      "g_usage g' = g_usage g @ [row]" "usage_check row (g_usage g) = None"
    by (auto simp: charged_def Let_def)
  then have f: "tu_tenant_id row = r_tenant run" "tu_agent_id row = r_agent run" "tu_route row = ''remote''"
      "tu_model_key row = sc" "0 \<le> tu_consumed_tokens row"
    by (auto simp: usage_row_def sc(2) usage_check_def split: if_splits)
  have "sum_llm_consumed_tokens_for_tenant_since (ll_since c) (r_tenant run) (is_start s) (g_usage g') \<le>
      int l + tu_consumed_tokens row - int (is_estimate s)"
    if "lc_remote_token_budget_per_tenant (ll_config c) = Some l" "l < u64_max" for l
    using fit that f(5) unfolding row(2)
    by (auto simp: budgets_fit_def fits_def sum_llm_consumed_tokens_for_tenant_since_def remote_usage_append)
  with fit est row(2) f show ?thesis by metis
qed simp

end
