(* ===== verification/WorkerSafety.thy ===== *)
theory WorkerSafety
  imports Worker
begin

text \<open>
  What holds of every run a worker processes, whatever the skill asks for and whichever
  statements fail: no connector is called without authorisation, calls follow the skill's order
  and stop at the first refusal, what is stored is redacted, and success means that every
  requested action was executed.
\<close>

section \<open>Computations that keep a property\<close>

text \<open>A property of the database kept on every path, and computations that call no connector.\<close>

definition keeps :: "(db \<Rightarrow> bool) \<Rightarrow> ('x, 'a) comp \<Rightarrow> bool" where
  "keeps P m \<longleftrightarrow> (\<forall>w. P (w_db w) \<longrightarrow> P (w_db (snd (m w))))"

definition quiet :: "('x, 'a) comp \<Rightarrow> bool" where
  "quiet m \<longleftrightarrow> (\<forall>w. w_calls (snd (m w)) = w_calls w)"

named_theorems kept \<open>computations that keep a property\<close>

lemma keeps_basic [kept]: "keeps P (ret v)" "keeps P (fail e)" "keeps P (new_v4 env)" "keeps P (now_utc env)"
  by (simp_all add: keeps_def ret_def fail_def new_v4_def now_utc_def)

lemma quiet_basic [kept]: "quiet (ret v)" "quiet (fail e)" "quiet (new_v4 env)" "quiet (now_utc env)"
  by (simp_all add: quiet_def ret_def fail_def new_v4_def now_utc_def)

lemma keeps_bind [kept]: "keeps P m \<Longrightarrow> (\<And>v. keeps P (k v)) \<Longrightarrow> keeps P (bind m k)"
  by (simp add: keeps_def bind_def split: prod.split sum.split) (metis snd_conv)

lemma quiet_bind [kept]: "quiet m \<Longrightarrow> (\<And>v. quiet (k v)) \<Longrightarrow> quiet (bind m k)"
  by (simp add: quiet_def bind_def split: prod.split sum.split) (metis snd_conv)

lemma keeps_handle [kept]:
  "keeps P m \<Longrightarrow> (\<And>e. keeps P (h e)) \<Longrightarrow> (\<And>v. keeps P (k v)) \<Longrightarrow> keeps P (handle m h k)"
  by (simp add: keeps_def handle_def split: prod.split sum.split) (metis snd_conv)

lemma quiet_handle [kept]:
  "quiet m \<Longrightarrow> (\<And>e. quiet (h e)) \<Longrightarrow> (\<And>v. quiet (k v)) \<Longrightarrow> quiet (handle m h k)"
  by (simp add: quiet_def handle_def split: prod.split sum.split) (metis snd_conv)

lemma keeps_seq [kept]: "list_all (keeps P) ms \<Longrightarrow> keeps P k \<Longrightarrow> keeps P (seq ms k)"
  by (induction ms) (auto intro: keeps_bind)

lemma quiet_seq [kept]: "list_all quiet ms \<Longrightarrow> quiet k \<Longrightarrow> quiet (seq ms k)"
  by (induction ms) (auto intro: quiet_bind)

lemma keeps_ignore [kept]: "keeps P m \<Longrightarrow> keeps P (ignore m)"
  by (simp add: ignore_def keeps_bind keeps_basic)

lemma quiet_ignore [kept]: "quiet m \<Longrightarrow> quiet (ignore m)"
  by (simp add: ignore_def quiet_bind quiet_basic)

lemma quiet_stmt [kept]: "quiet (stmt env f)"
  by (simp add: quiet_def stmt_def Let_def split: option.split prod.split sum.split)

lemma keeps_stmt: "(\<And>now d v d'. P d \<Longrightarrow> f now d = (Inr v, d') \<Longrightarrow> P d') \<Longrightarrow> keeps P (stmt env f)"
  by (auto simp: keeps_def stmt_def Let_def split: option.split prod.split sum.split)

lemma keeps_wp: "keeps P m \<Longrightarrow> P (w_db w) \<Longrightarrow> wp m (\<lambda>_ w'. P (w_db w')) (\<lambda>_ w'. P (w_db w')) w"
  unfolding keeps_def wp_def by (drule spec [of _ w]) (auto split: prod.split sum.split)

lemma quiet_wp:
  "quiet m \<Longrightarrow> wp m (\<lambda>_ w'. w_calls w' = w_calls w) (\<lambda>_ w'. w_calls w' = w_calls w) w"
  unfolding quiet_def wp_def by (drule spec [of _ w]) (auto split: prod.split sum.split)

lemma wp_conj: "wp m Q E w \<Longrightarrow> wp m Q' E' w \<Longrightarrow> wp m (\<lambda>v w. Q v w \<and> Q' v w) (\<lambda>e w. E e w \<and> E' e w) w"
  by (auto simp: wp_def split: prod.splits sum.splits)

lemma quiet_parts [kept]:
  "quiet (audit_run_event env cfg run step trace etype payload)" "quiet (site_event z etype payload)"
  "quiet (set_request_status z rid status reason)" "quiet (add_result z rid status result error)"
  "quiet (fail_step z err)" "quiet (deny_action z rid why re ee at msg)"
  "quiet (action_failed z rid at e)" "quiet (alert_event z et at rid alerts)"
  "quiet (action_executed z rid at res)"
  unfolding site_event_def audit_run_event_def append_audit_event_with_trace_def worker_append_audit_event_def
    set_request_status_def add_result_def fail_step_def deny_action_def action_failed_def
    alert_event_def action_executed_def Let_def
  by (auto intro!: kept)

lemma quiet_prepare [kept]: "quiet (prepare_skill_input_with_agent_context env sv cfg run sid trace)"
  by (auto simp: prepare_skill_input_with_agent_context_def Let_def intro!: kept split: context_load.split)

lemma quiet_invoke_skill [kept]: "quiet (invoke_skill env sv cfg run sid trace input gs)"
  by (auto simp: invoke_skill_def intro!: kept split: sum.split prod.split)

text \<open>Computations that always end in an error.\<close>

definition fails :: "('x, 'a) comp \<Rightarrow> bool" where
  "fails m \<longleftrightarrow> (\<forall>w. isl (fst (m w)))"

lemma fails_fail: "fails (fail e)"
  by (simp add: fails_def fail_def)

lemma fails_seq: "fails k \<Longrightarrow> fails (seq ms k)"
  by (induction ms) (auto simp: fails_def bind_def split: prod.split sum.split)

lemma fails_parts: "fails (deny_action z rid why re ee at msg)" "fails (action_failed z rid at e)"
  by (simp_all add: deny_action_def action_failed_def Let_def fails_seq fails_fail del: seq.simps)

lemma wp_fails:
  "fails m \<Longrightarrow> wp m Q' E w \<Longrightarrow> wp m Q E w"
  by (auto simp: fails_def wp_def split: prod.splits sum.splits dest!: spec [of _ w])

lemma wp_quiet_fails:
  assumes "quiet m" and "fails m" and "\<And>e w'. w_calls w' = w_calls w \<Longrightarrow> E e w'"
  shows "wp m Q E w"
  by (rule wp_fails [OF assms(2)], rule wp_mono [OF quiet_wp [OF assms(1)]])
    (use assms(3) in auto)

section \<open>Authorisation\<close>

text \<open>
  A call is authorised for a run and step: the action is a normalised request that meets its
  contract, the run's grants allow it, it carries the approval the configuration asks for, and
  the database at the moment of the call shows the request as allowed and the audit event.
\<close>

definition authorised :: "services \<Rightarrow> worker_config \<Rightarrow> run_row \<Rightarrow> uuid \<Rightarrow> call \<Rightarrow> bool" where
  "authorised sv cfg run sid c \<longleftrightarrow>
     (\<exists>a. c_action c = normalize_skill_action a) \<and>
     (\<exists>r. to_policy_request (v_json_len sv) (v_llm_scope sv) (c_action c) = Inr r \<and>
        is_action_allowed (parse_grant_set (r_granted run)) r = Allow \<and>
        (requires_governance_approval (wc_approval_required_action_types cfg) (action_type r) \<longrightarrow>
           is_action_governance_approved (c_action c))) \<and>
     (\<exists>q \<in> set (d_requests (c_db c)). q_id q = c_request c \<and> q_step q = sid \<and>
        q_type q = act_type (c_action c) \<and> q_args q = redact_json (act_args (c_action c)) \<and>
        q_status q = ''allowed'') \<and>
     (\<exists>a \<in> set (d_audit (c_db c)). a_run a = r_id run \<and> a_step a = Some sid \<and>
        a_type a = ''action.allowed'')"

abbreviation recorded :: "'x site \<Rightarrow> uuid \<Rightarrow> action_request \<Rightarrow> string \<Rightarrow> db \<Rightarrow> bool" where
  "recorded z rid a status d \<equiv> \<exists>q \<in> set (d_requests d). q_id q = rid \<and> q_step q = z_step z \<and>
     q_type q = act_type a \<and> q_args q = redact_json (act_args a) \<and> q_status q = status"

lemma wp_site_event:
  assumes "\<And>e w'. w_db w' = w_db w \<Longrightarrow> w_calls w' = w_calls w \<Longrightarrow> E e w'"
    and "\<And>a p w'. w_db w' = (w_db w)\<lparr>d_audit := d_audit (w_db w) @ [a]\<rparr> \<Longrightarrow>
      w_calls w' = w_calls w \<Longrightarrow> a_run a = r_id (z_run z) \<Longrightarrow> a_step a = Some (z_step z) \<Longrightarrow>
      a_type a = etype \<Longrightarrow> a_payload a = redact_json p \<Longrightarrow> Q () w'"
  shows "wp (site_event z etype payload) Q E w"
  unfolding site_event_def audit_run_event_def append_audit_event_with_trace_def
    worker_append_audit_event_def wp_bind wp_new_v4
  by (rule wp_stmtI)
    (auto simp: append_audit_event_def split: if_splits option.splits intro!: assms)

lemma wp_set_request_status:
  assumes "\<And>e w'. w_db w' = w_db w \<Longrightarrow> w_calls w' = w_calls w \<Longrightarrow> E e w'"
    and "\<And>w'. w_db w' = (w_db w)\<lparr>d_requests := map (\<lambda>q. if q_id q = rid
        then q\<lparr>q_status := status, q_reason := reason\<rparr> else q) (d_requests (w_db w))\<rparr> \<Longrightarrow>
      w_calls w' = w_calls w \<Longrightarrow> Q () w'"
  shows "wp (set_request_status z rid status reason) Q E w"
  unfolding set_request_status_def wp_ignore
  by (rule wp_stmtI)
    (auto simp: update_action_request_status_def update_where_def split: if_splits intro!: assms)

lemma wp_call_connector:
  "wp (call_connector f run rid a ctx) Q E w =
     (case f run rid (act_args a) ctx (w_ext w) of (res, ctx', x) \<Rightarrow>
        let w' = w\<lparr>w_ext := x, w_calls := w_calls w @ [\<lparr>c_request = rid, c_action = a, c_db = w_db w\<rparr>]\<rparr>
        in case res of Inl e \<Rightarrow> E e w' | Inr v \<Rightarrow> Q (v, ctx') w')"
  by (auto simp: wp_def call_connector_def Let_def split: prod.split sum.split)

text \<open>What one action adds to the log of calls: nothing, or one authorised call of itself.\<close>

definition adds :: "'x site \<Rightarrow> action_request \<Rightarrow> call list \<Rightarrow> call list \<Rightarrow> bool" where
  "adds z a cs cs' \<longleftrightarrow>
     (\<exists>c. cs' = cs @ [c] \<and> c_action c = a \<and>
        authorised (z_services z) (z_config z) (z_run z) (z_step z) c)"

lemma quiet_adds:
  "quiet m \<Longrightarrow> adds z a cs (w_calls w) \<Longrightarrow>
   wp m (\<lambda>_ w'. adds z a cs (w_calls w')) (\<lambda>_ w'. adds z a cs (w_calls w') \<or> w_calls w' = cs) w"
  by (rule wp_mono [OF quiet_wp]) simp_all

lemma wp_execute_action:
  assumes auth: "\<And>c. c = \<lparr>c_request = rid, c_action = a, c_db = w_db w\<rparr> \<Longrightarrow>
      authorised (z_services z) (z_config z) (z_run z) (z_step z) c"
  shows "wp (execute_action k run rid a ctx)
    (\<lambda>_ w'. adds z a (w_calls w) (w_calls w'))
    (\<lambda>_ w'. adds z a (w_calls w) (w_calls w') \<or> w_calls w' = w_calls w) w"
  using auth
  by (auto simp: execute_action_def wp_call_connector wp_fail adds_def Let_def
      split: option.split prod.split sum.split)

abbreviation one_call :: "'x site \<Rightarrow> action_request \<Rightarrow> call list \<Rightarrow> 'b \<Rightarrow> 'x world \<Rightarrow> bool" where
  "one_call z a cs \<equiv> \<lambda>_ w'. adds z a cs (w_calls w')"

abbreviation at_most_one_call :: "'x site \<Rightarrow> action_request \<Rightarrow> call list \<Rightarrow> 'b \<Rightarrow> 'x world \<Rightarrow> bool" where
  "at_most_one_call z a cs \<equiv> \<lambda>_ w'. adds z a cs (w_calls w') \<or> w_calls w' = cs"

abbreviation execute_and_record ::
    "'x site \<Rightarrow> uuid \<Rightarrow> action_request \<Rightarrow> policy_request \<Rightarrow> action_execution_context \<Rightarrow>
     ('x, action_execution_context) comp" where
  "execute_and_record z rid a r ctx \<equiv>
     handle (execute_action (z_connectors z) (z_run z) rid a ctx)
       (action_failed z rid (action_type r))
       (\<lambda>(result, ctx'). seq [action_executed z rid (action_type r) result] (ret ctx'))"

lemma wp_execute_and_record:
  assumes "authorised (z_services z) (z_config z) (z_run z) (z_step z)
    \<lparr>c_request = rid, c_action = a, c_db = w_db w\<rparr>"
  shows "wp (execute_and_record z rid a r ctx) (one_call z a (w_calls w))
    (at_most_one_call z a (w_calls w)) w"
  unfolding wp_handle
proof (rule wp_mono [OF wp_execute_action])
  show "wp (case v of (result, ctx') \<Rightarrow> seq [action_executed z rid (action_type r) result] (ret ctx'))
      (one_call z a (w_calls w)) (at_most_one_call z a (w_calls w)) w'"
    if "adds z a (w_calls w) (w_calls w')" for v w'
    using that by (cases v) (auto intro!: quiet_adds kept)
  show "wp (action_failed z rid (action_type r) e)
      (one_call z a (w_calls w)) (at_most_one_call z a (w_calls w)) w'"
    if "adds z a (w_calls w) (w_calls w') \<or> w_calls w' = w_calls w" for e w'
    using that by (intro wp_quiet_fails kept fails_parts) auto
qed (use assms in simp)

lemma recorded_allowed:
  assumes "recorded z rid a st d"
  shows "recorded z rid a st' (d\<lparr>d_requests := map (\<lambda>q. if q_id q = rid
    then q\<lparr>q_status := st', q_reason := why\<rparr> else q) (d_requests d)\<rparr>)"
proof -
  from assms obtain q where q: "q \<in> set (d_requests d)" "q_id q = rid" "q_step q = z_step z"
      "q_type q = act_type a" "q_args q = redact_json (act_args a)" by blast
  let ?f = "\<lambda>q. if q_id q = rid then q\<lparr>q_status := st', q_reason := why\<rparr> else q"
  have "?f q \<in> set (map ?f (d_requests d))" using q(1) unfolding set_map by (rule imageI)
  then show ?thesis using q(2-) by (intro bexI [of _ "?f q"]) simp_all
qed

lemma wp_allow_action:
  fixes z :: "'x site"
  assumes "a = normalize_skill_action a0"
    and "to_policy_request (v_json_len (z_services z)) (v_llm_scope (z_services z)) a = Inr r"
    and "is_action_allowed (parse_grant_set (r_granted (z_run z))) r = Allow"
    and "recorded z rid a st (w_db w)"
  shows "wp (allow_action z rid a r ctx) (one_call z a (w_calls w)) (at_most_one_call z a (w_calls w)) w"
proof (cases "requires_governance_approval (wc_approval_required_action_types (z_config z))
    (action_type r) \<and> \<not> is_action_governance_approved a")
  case True
  then show ?thesis
    by (simp add: allow_action_def) (rule wp_quiet_fails; auto intro: kept fails_parts)
next
  case False
  have "wp (site_event z ''action.allowed'' p) (\<lambda>_. wp (execute_and_record z rid a r ctx)
      (one_call z a (w_calls w)) (at_most_one_call z a (w_calls w)))
    (at_most_one_call z a (w_calls w)) w1"
    if calls: "w_calls w1 = w_calls w" and rec: "recorded z rid a ''allowed'' (w_db w1)" for w1 p
  proof (rule wp_site_event)
    fix ev p' and w2 :: "'x world"
    assume db: "w_db w2 = (w_db w1)\<lparr>d_audit := d_audit (w_db w1) @ [ev]\<rparr>"
      and c2: "w_calls w2 = w_calls w1" and "a_run ev = r_id (z_run z)"
        "a_step ev = Some (z_step z)" "a_type ev = ''action.allowed''"
    with assms(1-3) False rec
    have "authorised (z_services z) (z_config z) (z_run z) (z_step z)
        \<lparr>c_request = rid, c_action = a, c_db = w_db w2\<rparr>"
      unfolding authorised_def by auto
    from wp_execute_and_record [OF this]
    show "wp (execute_and_record z rid a r ctx)
        (one_call z a (w_calls w)) (at_most_one_call z a (w_calls w)) w2"
      by (simp add: c2 calls)
  qed (simp add: calls)
  with False recorded_allowed [OF assms(4), where st'="''allowed''" and why=None] show ?thesis
    unfolding allow_action_def
    by (simp only: if_False wp_seq) (rule wp_set_request_status; simp)
qed

lemma wp_decide_action:
  assumes "a = normalize_skill_action a0" and "recorded z rid a st (w_db w)"
  shows "wp (decide_action z (parse_grant_set (r_granted (z_run z))) rid a ctx)
    (one_call z a (w_calls w)) (at_most_one_call z a (w_calls w)) w"
  unfolding decide_action_def using wp_allow_action [OF assms(1) _ _ assms(2)]
  by (auto split: sum.split policy_decision.split intro!: wp_quiet_fails kept fails_parts)

lemma wp_process_action:
  fixes z :: "'x site"
  shows "wp (process_action z (parse_grant_set (r_granted (z_run z))) a0 ctx)
     (one_call z (normalize_skill_action a0) (w_calls w))
     (at_most_one_call z (normalize_skill_action a0) (w_calls w)) w"
proof -
  let ?a = "normalize_skill_action a0" and ?gs = "parse_grant_set (r_granted (z_run z))"
  have ev: "wp (site_event z ''action.requested'' p) (\<lambda>_. wp (decide_action z ?gs rid ?a ctx)
      (one_call z ?a (w_calls w)) (at_most_one_call z ?a (w_calls w)))
    (at_most_one_call z ?a (w_calls w)) w1"
    if "w_calls w1 = w_calls w" and "recorded z rid ?a ''requested'' (w_db w1)" for w1 p rid
  proof (rule wp_site_event)
    fix ev p' and w2 :: "'x world"
    assume db: "w_db w2 = (w_db w1)\<lparr>d_audit := d_audit (w_db w1) @ [ev]\<rparr>"
      and c2: "w_calls w2 = w_calls w1"
    with that(2) have "recorded z rid ?a ''requested'' (w_db w2)" by simp
    from wp_decide_action [OF refl this]
    show "wp (decide_action z ?gs rid ?a ctx) (one_call z ?a (w_calls w))
        (at_most_one_call z ?a (w_calls w)) w2"
      by (simp add: c2 that(1))
  qed (simp add: that(1))
  show ?thesis
    unfolding process_action_def Let_def wp_bind wp_new_v4 wp_seq
    by (rule wp_stmtI, simp, rule ev) (auto simp: create_action_request_def split: if_splits)
qed

subsection \<open>The whole run\<close>

text \<open>The calls of a list of actions: authorised, and one for each action of a prefix.\<close>

definition calls_for :: "'x site \<Rightarrow> action_request list \<Rightarrow> call list \<Rightarrow> bool" where
  "calls_for z as cs \<longleftrightarrow> map c_action cs = map normalize_skill_action as \<and>
     list_all (authorised (z_services z) (z_config z) (z_run z) (z_step z)) cs"

lemma calls_for_Cons:
  "adds z (normalize_skill_action a) cs0 cs1 \<Longrightarrow> cs2 = cs1 @ cs \<Longrightarrow> calls_for z as cs \<Longrightarrow>
   \<exists>cs'. cs2 = cs0 @ cs' \<and> calls_for z (a # as) cs'"
  by (auto simp: adds_def calls_for_def)

lemma wp_process_actions:
  fixes z :: "'x site"
  shows "wp (process_actions z (parse_grant_set (r_granted (z_run z))) as ctx)
     (\<lambda>_ w'. \<exists>cs. w_calls w' = w_calls w @ cs \<and> calls_for z as cs)
     (\<lambda>_ w'. \<exists>cs n. w_calls w' = w_calls w @ cs \<and> calls_for z (take n as) cs) w"
proof (induction as arbitrary: ctx w)
  case Nil
  then show ?case by (simp add: wp_ret calls_for_def)
next
  case (Cons a as)
  show ?case
    unfolding process_actions.simps wp_bind
  proof (rule wp_mono [OF wp_process_action])
    fix ctx' and w1 :: "'x world"
    assume one: "adds z (normalize_skill_action a) (w_calls w) (w_calls w1)"
    show "wp (process_actions z (parse_grant_set (r_granted (z_run z))) as ctx')
        (\<lambda>_ w'. \<exists>cs. w_calls w' = w_calls w @ cs \<and> calls_for z (a # as) cs)
        (\<lambda>_ w'. \<exists>cs n. w_calls w' = w_calls w @ cs \<and> calls_for z (take n (a # as)) cs) w1"
      by (rule wp_mono [OF Cons.IH]) (metis calls_for_Cons [OF one], metis calls_for_Cons [OF one] take_Suc_Cons)
  next
    fix e :: string and w1 :: "'x world"
    assume "adds z (normalize_skill_action a) (w_calls w) (w_calls w1) \<or> w_calls w1 = w_calls w"
    then show "\<exists>cs n. w_calls w1 = w_calls w @ cs \<and> calls_for z (take n (a # as)) cs"
    proof
      assume "adds z (normalize_skill_action a) (w_calls w) (w_calls w1)"
      then show ?thesis by (intro exI [of _ "[last (w_calls w1)]"] exI [of _ 1])
          (auto simp: adds_def calls_for_def)
    qed (auto simp: calls_for_def intro!: exI [of _ "[]"] exI [of _ 0])
  qed
qed

abbreviation skill_result :: "services \<Rightarrow> invoke_result \<Rightarrow> bool" where
  "skill_result sv result \<equiv> \<exists>c rq. v_runner sv c rq = Inr result"

lemma wp_invoke_skill:
  assumes "\<And>e w'. w_calls w' = w_calls w \<Longrightarrow> E e w'"
    and "\<And>result w'. w_calls w' = w_calls w \<Longrightarrow> skill_result sv result \<Longrightarrow> Q result w'"
  shows "wp (invoke_skill env sv cfg run sid trace input gs) Q E w"
  unfolding invoke_skill_def
  by (auto simp: wp_simps split: sum.split prod.split intro!: assms)

text \<open>The calls of a step that asked for the actions of \<open>result\<close>, of which \<open>n\<close> were reached.\<close>

abbreviation step_calls :: "'x site \<Rightarrow> call list \<Rightarrow> 'b \<Rightarrow> 'x world \<Rightarrow> bool" where
  "step_calls z cs0 \<equiv> \<lambda>_ w'. w_calls w' = cs0 \<or>
     (\<exists>result cs n. skill_result (z_services z) result \<and> w_calls w' = cs0 @ cs \<and>
        calls_for z (take n (res_action_requests result)) cs)"

abbreviation all_calls :: "'x site \<Rightarrow> call list \<Rightarrow> 'b \<Rightarrow> 'x world \<Rightarrow> bool" where
  "all_calls z cs0 \<equiv> \<lambda>_ w'. \<exists>result cs. skill_result (z_services z) result \<and>
     w_calls w' = cs0 @ cs \<and> calls_for z (res_action_requests result) cs"

lemma wp_quiet_after:
  assumes "quiet m" and "all_calls z cs0 u w"
  shows "wp m (all_calls z cs0) (step_calls z cs0) w"
  by (rule wp_mono [OF quiet_wp [OF assms(1)]]) (use assms(2) in \<open>simp, metis take_all_iff order_refl\<close>)

lemma wp_step_actions:
  fixes z :: "'x site" and w :: "'x world"
  assumes "skill_result (z_services z) result" and "w_calls w = cs0"
  shows "wp (seq [site_event z et p,
      process_actions z (parse_grant_set (r_granted (z_run z))) (res_action_requests result) ctx,
      ignore (stmt env f)] (site_event z et' p'))
    (all_calls z cs0) (step_calls z cs0) w"
proof -
  let ?gs = "parse_grant_set (r_granted (z_run z))"
  have last: "wp (seq [ignore (stmt env f)] (site_event z et' p'))
      (all_calls z cs0) (step_calls z cs0) w2"
    if "all_calls z cs0 () w2" for w2
    using that by (intro wp_quiet_after kept) (auto intro: kept)
  have actions: "wp (process_actions z ?gs (res_action_requests result) ctx)
      (\<lambda>_. wp (seq [ignore (stmt env f)] (site_event z et' p'))
        (all_calls z cs0) (step_calls z cs0))
      (step_calls z cs0) w1" if "w_calls w1 = cs0" for w1
    by (rule wp_mono [OF wp_process_actions]) (rule last, use that assms(1) in auto)
  show ?thesis
    unfolding wp_seq(2) [of "site_event z et p"] wp_seq(2) [of "process_actions z ?gs _ ctx"]
    by (rule wp_mono [OF quiet_wp [OF quiet_parts(2)]], rule actions) (simp_all add: assms(2))
qed

lemma wp_process_step:
  fixes z :: "'x site" and w :: "'x world"
  shows "wp (process_step z) (all_calls z (w_calls w)) (step_calls z (w_calls w)) w"
proof -
  have failed: "wp (seq [fail_step z p, site_event z et p'] (fail e)) Q (step_calls z (w_calls w)) w2"
    if "w_calls w2 = w_calls w" for w2 p et p' e Q
    by (rule wp_quiet_fails) (auto simp: that intro!: kept fails_seq fails_fail simp del: seq.simps)
  show ?thesis
    unfolding process_step_def Let_def wp_bind wp_handle
    by (rule wp_mono [OF quiet_wp [OF quiet_prepare]], rule wp_invoke_skill,
        rule failed, simp, rule wp_step_actions) simp_all
qed

text \<open>The step is created first; nothing is called before.\<close>

lemma wp_process_claimed_run:
  fixes w :: "'x world"
  shows "wp (process_claimed_run env sv k cfg run trace)
    (\<lambda>_ w'. \<exists>z. z_services z = sv \<and> z_config z = cfg \<and> z_run z = run \<and> all_calls z (w_calls w) () w')
    (\<lambda>_ w'. \<exists>z. z_services z = sv \<and> z_config z = cfg \<and> z_run z = run \<and> step_calls z (w_calls w) () w') w"
  (is "wp _ ?Q ?E w")
proof -
  let ?z = "\<lambda>sid. \<lparr>z_env = env, z_services = sv, z_connectors = k, z_config = cfg, z_run = run,
    z_step = sid, z_trace = trace\<rparr>"
  have step: "wp (process_step (?z sid)) ?Q ?E w2" if "w_calls w2 = w_calls w" for sid w2
    by (rule wp_mono [OF wp_process_step [of "?z sid" w2]])
      (unfold that, rule exI [of _ "?z sid"], simp, rule exI [of _ "?z sid"], simp)
  have "wp (site_event (?z sid) et p) (\<lambda>_. wp (process_step (?z sid)) ?Q ?E) ?E w1"
    if "w_calls w1 = w_calls w" for sid w1 et p
    by (rule wp_mono [OF quiet_wp [OF quiet_parts(2)]], rule step)
      (auto simp: that intro!: exI [of _ "?z sid"])
  then show ?thesis
    unfolding process_claimed_run_def Let_def wp_bind wp_seq wp_new_v4
    by (intro wp_stmtI) (auto intro!: exI [of _ "?z []"])
qed

section \<open>What is stored\<close>

definition stored_clean :: "db \<Rightarrow> bool" where
  "stored_clean d \<longleftrightarrow>
     (\<forall>a \<in> set (d_audit d). json_clean (a_payload a)) \<and>
     (\<forall>q \<in> set (d_requests d). json_clean (q_args q) \<and>
        (\<forall>j. q_justification q = Some j \<longrightarrow> nsec_free j \<and> bearer_covered j)) \<and>
     (\<forall>x \<in> set (d_results d). (\<forall>v. x_result x = Some v \<longrightarrow> json_clean v) \<and>
        (\<forall>v. x_error x = Some v \<longrightarrow> json_clean v)) \<and>
     (\<forall>s \<in> set (d_steps d). \<forall>v. s_error s = Some v \<longrightarrow> json_clean v)"

lemma clean_site_event [kept]: "keeps stored_clean (site_event z et p)"
  unfolding site_event_def audit_run_event_def append_audit_event_with_trace_def worker_append_audit_event_def
  by (intro kept keeps_stmt)
    (auto simp: append_audit_event_def stored_clean_def json_clean_redact split: if_splits option.splits)

lemma clean_set_request_status [kept]: "keeps stored_clean (set_request_status z rid st why)"
  unfolding set_request_status_def
  by (intro kept keeps_stmt)
    (auto simp: update_action_request_status_def update_where_def stored_clean_def split: if_splits)

lemma clean_add_result [kept]:
  "keeps stored_clean (add_result z rid st None (Some (redact_json e)))"
  "keeps stored_clean (add_result z rid st (Some (redact_json r)) None)"
  unfolding add_result_def
  by ((intro kept keeps_stmt,
      auto simp: create_action_result_def update_where_def stored_clean_def json_clean_redact
        split: if_splits)[1])+

lemma clean_fail_step [kept]: "keeps stored_clean (fail_step z e)"
  unfolding fail_step_def
  by (intro kept keeps_stmt)
    (auto simp: mark_step_failed_def update_where_def stored_clean_def json_clean_redact)

lemma clean_create_request [kept]:
  "keeps stored_clean (stmt env (\<lambda>now. create_action_request now
     \<lparr>q_id = i, q_step = sid, q_type = t, q_args = redact_json v,
      q_justification = Some (redact_text j), q_status = st, q_reason = why\<rparr>))"
  by (intro keeps_stmt)
    (auto simp: create_action_request_def stored_clean_def json_clean_redact redact_text_clean
      split: if_splits)

lemma clean_steps [kept]:
  "keeps stored_clean (stmt env (\<lambda>now. mark_step_succeeded now sid out))"
  "s_error n = None \<Longrightarrow> keeps stored_clean (stmt env (\<lambda>now. create_step now n))"
  by ((intro keeps_stmt,
      auto simp: mark_step_succeeded_def update_where_def create_step_def step_of_new_def
        new_step.extend_def stored_clean_def Let_def split: if_splits)[1])+

lemma keeps_execute_action [kept]: "keeps P (execute_action k run rid a ctx)"
  by (auto simp: execute_action_def call_connector_def keeps_def fail_def split: option.split prod.split)

lemma clean_parts [kept]:
  "keeps stored_clean (deny_action z rid why re ee at msg)"
  "keeps stored_clean (action_failed z rid at e)" "keeps stored_clean (alert_event z et at rid alerts)"
  "keeps stored_clean (action_executed z rid at res)"
  unfolding deny_action_def action_failed_def alert_event_def action_executed_def Let_def
  by (auto intro!: kept)

lemma clean_decide_action [kept]: "keeps stored_clean (decide_action z gs rid a ctx)"
  unfolding decide_action_def allow_action_def
  by (auto intro!: kept split: sum.split policy_decision.split prod.split)

lemma clean_process_actions [kept]: "keeps stored_clean (process_actions z gs as ctx)"
proof (induction as arbitrary: ctx)
  case (Cons a as)
  then show ?case by (auto simp: process_action_def Let_def intro!: kept)
qed (simp add: kept)

lemma clean_audit_run_event [kept]: "keeps stored_clean (audit_run_event env cfg run st tr et p)"
  unfolding audit_run_event_def append_audit_event_with_trace_def worker_append_audit_event_def
  by (intro kept keeps_stmt)
    (auto simp: append_audit_event_def stored_clean_def json_clean_redact split: if_splits option.splits)

lemma clean_process_step [kept]: "keeps stored_clean (process_step z)"
  unfolding process_step_def prepare_skill_input_with_agent_context_def invoke_skill_def Let_def
  by (auto intro!: kept split: context_load.split sum.split prod.split)

lemma clean_process_claimed_run: "keeps stored_clean (process_claimed_run env sv k cfg run trace)"
  unfolding process_claimed_run_def Let_def by (auto intro!: kept)

section \<open>What success means\<close>

text \<open>
  While its actions are processed a step is running and each of its earlier requests executed;
  only the request in hand may have another status.
\<close>

definition step_status :: "uuid \<Rightarrow> string \<Rightarrow> db \<Rightarrow> bool" where
  "step_status sid st d \<longleftrightarrow> (\<exists>s \<in> set (d_steps d). s_id s = sid \<and> s_status s = st)"

definition executed_but :: "uuid \<Rightarrow> string \<Rightarrow> uuid set \<Rightarrow> db \<Rightarrow> bool" where
  "executed_but sid st X d \<longleftrightarrow> step_status sid st d \<and>
     (\<forall>q \<in> set (d_requests d). q_step q = sid \<longrightarrow> q_id q \<notin> X \<longrightarrow> q_status q = ''executed'')"

named_theorems exec_kept \<open>computations that keep the progress of a step\<close>

lemma executed_event [exec_kept]: "keeps (executed_but sid st X) (site_event z et p)"
  unfolding site_event_def audit_run_event_def append_audit_event_with_trace_def worker_append_audit_event_def
  by (intro kept keeps_stmt)
    (auto simp: append_audit_event_def executed_but_def step_status_def split: if_splits option.splits)

lemma executed_result [exec_kept]: "keeps (executed_but sid st X) (add_result z rid s r e)"
  unfolding add_result_def
  by (intro kept keeps_stmt)
    (auto simp: create_action_result_def executed_but_def step_status_def split: if_splits)

lemma executed_alert [exec_kept]: "keeps (executed_but sid st X) (alert_event z et at rid alerts)"
  by (auto simp: alert_event_def intro!: kept exec_kept)

lemma executed_status [exec_kept]:
  "keeps (executed_but sid st {rid}) (set_request_status z rid rs why)"
  unfolding set_request_status_def
  by (intro kept keeps_stmt)
    (auto simp: update_action_request_status_def update_where_def executed_but_def step_status_def
      split: if_splits)

lemma wp_status_executed:
  assumes "executed_but sid st {rid} (w_db w)"
  shows "wp (set_request_status z rid ''executed'' why)
    (\<lambda>_ w'. executed_but sid st {} (w_db w')) (\<lambda>_ _. True) w"
  by (rule wp_set_request_status) (use assms in \<open>auto simp: executed_but_def step_status_def\<close>)

abbreviation on_success :: "(db \<Rightarrow> bool) \<Rightarrow> ('x, 'a) comp \<Rightarrow> 'x world \<Rightarrow> bool" where
  "on_success P m w \<equiv> wp m (\<lambda>_ w'. P (w_db w')) (\<lambda>_ _. True) w"

lemma keeps_on_success: "keeps P m \<Longrightarrow> P (w_db w) \<Longrightarrow> on_success P m w"
  by (rule wp_mono [OF keeps_wp]) auto

lemma wp_action_executed:
  assumes "executed_but sid st {rid} (w_db w)"
  shows "on_success (executed_but sid st {}) (action_executed z rid at res) w"
  unfolding action_executed_def Let_def wp_seq(2) [of "set_request_status z rid ''executed'' None"]
  by (rule wp_mono [OF wp_status_executed [OF assms]])
    (auto intro!: keeps_on_success kept exec_kept simp del: seq.simps)

lemma fails_on_success: "fails m \<Longrightarrow> on_success P m w"
  by (erule wp_fails [where Q'="\<lambda>_ _. True"]) (simp add: wp_def split: prod.split sum.split)

lemma wp_allow_executed:
  assumes "executed_but sid st {rid} (w_db w)"
  shows "on_success (executed_but sid st {}) (allow_action z rid a r ctx) w"
proof -
  let ?P = "executed_but sid st {rid}"
  have exec: "on_success (executed_but sid st {}) (execute_and_record z rid a r ctx) w2"
    if "?P (w_db w2)" for w2
    unfolding wp_handle
  proof (rule wp_mono [OF keeps_wp [where P="?P", OF keeps_execute_action that]])
    show "on_success (executed_but sid st {}) (case v of (result, ctx') \<Rightarrow>
        seq [action_executed z rid (action_type r) result] (ret ctx')) w'" if "?P (w_db w')" for v w'
      using wp_action_executed [OF that] by (cases v) (simp add: wp_bind wp_ret)
  qed (rule fails_on_success, rule fails_parts)
  have event: "wp (site_event z et p) (\<lambda>_. on_success (executed_but sid st {})
      (execute_and_record z rid a r ctx)) (\<lambda>_ _. True) w1" if "?P (w_db w1)" for w1 et p
    by (rule wp_mono [OF keeps_wp [where P="?P", OF executed_event that]], erule exec) simp
  show ?thesis
  proof (cases "requires_governance_approval (wc_approval_required_action_types (z_config z))
      (action_type r) \<and> \<not> is_action_governance_approved a")
    case False
    then show ?thesis
      unfolding allow_action_def if_not_P [OF False] wp_seq
      by (intro wp_mono [OF keeps_wp [where P="?P", OF executed_status assms]], elim event) simp
  qed (simp add: allow_action_def fails_on_success fails_parts)
qed

lemma wp_decide_executed:
  assumes "executed_but sid st {rid} (w_db w)"
  shows "on_success (executed_but sid st {}) (decide_action z gs rid a ctx) w"
  unfolding decide_action_def
  by (auto split: sum.split policy_decision.split
      intro: wp_allow_executed [OF assms] fails_on_success [OF fails_parts(1)])

lemma wp_process_action_executed:
  assumes "executed_but sid st {} (w_db w)"
  shows "on_success (executed_but sid st {}) (process_action z gs a ctx) w"
proof -
  have event: "wp (site_event z et p) (\<lambda>_. on_success (executed_but sid st {})
      (decide_action z gs rid a' ctx)) (\<lambda>_ _. True) w1"
    if "executed_but sid st {rid} (w_db w1)" for w1 et p rid a'
    by (rule wp_mono [OF keeps_wp [where P="executed_but sid st {rid}", OF executed_event that]],
        erule wp_decide_executed) simp
  show ?thesis
    unfolding process_action_def Let_def wp_bind wp_new_v4 wp_seq
    by (rule wp_stmtI, simp, rule event)
      (use assms in \<open>auto simp: create_action_request_def executed_but_def step_status_def
        split: if_splits\<close>)
qed

lemma wp_process_actions_executed:
  "executed_but sid st {} (w_db w) \<Longrightarrow>
   on_success (executed_but sid st {}) (process_actions z gs as ctx) w"
proof (induction as arbitrary: ctx w)
  case (Cons a as)
  show ?case
    unfolding process_actions.simps wp_bind
    by (rule wp_mono [OF wp_process_action_executed [OF Cons.prems]]) (erule Cons.IH, simp)
qed (simp add: wp_ret)

lemma executed_prepare [exec_kept]:
  "keeps (executed_but sid st X) (prepare_skill_input_with_agent_context env sv cfg run sid' tr)"
proof -
  have "keeps (executed_but sid st X) (audit_run_event env cfg run (Some sid') tr et p)" for et p
    using executed_event [of sid st X "\<lparr>z_env = env, z_services = sv, z_connectors = undefined,
      z_config = cfg, z_run = run, z_step = sid', z_trace = tr\<rparr>" et p]
    by (simp add: site_event_def)
  then show ?thesis
    unfolding prepare_skill_input_with_agent_context_def Let_def
    by (auto intro!: kept split: context_load.split)
qed

lemma executed_invoke [exec_kept]:
  "keeps (executed_but sid st X) (invoke_skill env sv cfg run sid' tr input gs)"
  by (auto simp: invoke_skill_def intro!: kept split: sum.split prod.split)

lemma wp_step_succeeds:
  assumes "executed_but sid ''running'' {} (w_db w)"
  shows "on_success (executed_but sid ''succeeded'' {})
    (stmt env (\<lambda>now. mark_step_succeeded now sid out)) w"
proof (rule wp_stmtI)
  fix now v and w' :: "'a world"
  assume db: "w_db w' = snd (mark_step_succeeded now sid out (w_db w))"
  obtain s where s: "s \<in> set (d_steps (w_db w))" "s_id s = sid" "s_status s = ''running''"
    using assms by (auto simp: executed_but_def step_status_def)
  let ?f = "\<lambda>s. if s_id s = sid \<and> step_open s then s\<lparr>s_status := ''succeeded'', s_output := Some out,
    s_finished := Some now\<rparr> else s"
  have steps: "d_steps (w_db w') = map ?f (d_steps (w_db w))" "d_requests (w_db w') = d_requests (w_db w)"
    by (simp_all add: db mark_step_succeeded_def update_where_def)
  have "?f s \<in> set (d_steps (w_db w'))" using s(1) unfolding steps set_map by (rule imageI)
  moreover have "s_id (?f s) = sid" "s_status (?f s) = ''succeeded''"
    using s by (simp_all add: step_open_def)
  ultimately show "executed_but sid ''succeeded'' {} (w_db w')"
    using assms unfolding executed_but_def step_status_def steps(2) by blast
qed simp

lemma wp_process_step_executed:
  assumes "executed_but (z_step z) ''running'' {} (w_db w)"
  shows "on_success (executed_but (z_step z) ''succeeded'' {}) (process_step z) w"
proof -
  let ?R = "executed_but (z_step z) ''running'' {}" and ?S = "executed_but (z_step z) ''succeeded'' {}"
  have finish: "wp (stmt env (\<lambda>now. mark_step_succeeded now (z_step z) out))
      (\<lambda>_. on_success ?S (site_event z et p)) (\<lambda>_ _. True) w3" if "?R (w_db w3)" for w3 env out et p
    by (rule wp_mono [OF wp_step_succeeds [OF that]]) (auto intro: keeps_on_success exec_kept)
  have actions: "wp (process_actions z gs as ctx) (\<lambda>_. wp (stmt env (\<lambda>now. mark_step_succeeded now
      (z_step z) out)) (\<lambda>_. on_success ?S (site_event z et p)) (\<lambda>_ _. True)) (\<lambda>_ _. True) w2"
    if "?R (w_db w2)" for w2 gs as ctx env out et p
    by (rule wp_mono [OF wp_process_actions_executed [OF that]]) (auto intro: finish)
  have invoked: "on_success ?S (seq [site_event z et' p', process_actions z gs as ctx,
      ignore (stmt env (\<lambda>now. mark_step_succeeded now (z_step z) out))] (site_event z et p)) w1"
    if "?R (w_db w1)" for w1 gs as ctx env out et p et' p'
    unfolding wp_seq wp_ignore
    by (rule wp_mono [OF keeps_wp [where P="?R", OF executed_event that]]) (auto intro: actions)
  have run: "wp (invoke_skill env sv cfg run sid tr input gs) (\<lambda>result. on_success ?S
      (seq [site_event z et' (p' result), process_actions z gs (res_action_requests result) ctx,
        ignore (stmt env (\<lambda>now. mark_step_succeeded now (z_step z) (res_output result)))]
        (site_event z et p)))
      (\<lambda>e. on_success ?S (seq [fail_step z (q e), site_event z ft (r e)] (fail e))) w1"
    if "?R (w_db w1)" for w1 env sv cfg run sid tr input gs ctx et p et' p' q r ft
    by (rule wp_mono [OF keeps_wp [where P="?R", OF executed_invoke that]], erule invoked)
      (intro fails_on_success fails_seq fails_fail)
  show ?thesis
    unfolding process_step_def Let_def wp_bind wp_handle
    by (rule wp_mono [OF keeps_wp [where P="?R", OF executed_prepare assms]], erule run) simp
qed

lemma wp_process_claimed_run_executed:
  assumes "\<And>q. q \<in> set (d_requests (w_db w)) \<Longrightarrow> q_step q \<in> s_id ` set (d_steps (w_db w))"
  shows "on_success (\<lambda>d. \<exists>sid. executed_but sid ''succeeded'' {} d)
    (process_claimed_run env sv k cfg run trace) w"
proof -
  have step: "on_success (\<lambda>d. \<exists>sid. executed_but sid ''succeeded'' {} d) (seq [site_event z et p] (process_step z)) w1"
    if "executed_but (z_step z) ''running'' {} (w_db w1)" for w1 z et p
    unfolding wp_seq
    by (rule wp_mono [OF keeps_wp [where P="executed_but (z_step z) ''running'' {}", OF executed_event that]])
      (auto intro: wp_mono [OF wp_process_step_executed])
  show ?thesis
    unfolding process_claimed_run_def Let_def wp_bind wp_new_v4
    by (rule wp_stmtI, simp, rule step)
      (use assms in \<open>auto simp: create_step_def step_of_new_def new_step.extend_def executed_but_def
        step_status_def list_ex_iff image_iff Let_def split: if_splits; metis\<close>)
qed

section \<open>Properties\<close>

text \<open>
  (C11) No unauthorised effect: whatever the skill returns, whichever connector or statement
  fails, each call that processing a run makes to a connector is authorised: the action meets its
  contract, the grants of the run allow it, a required approval is there, and at the moment of
  the call the database already shows the request, with its redacted arguments, as \<open>allowed\<close>
  and the \<open>action.allowed\<close> audit event of the step.
\<close>

theorem only_authorised_calls:
  "\<exists>sid cs. w_calls (snd (process_claimed_run env sv k cfg run trace w)) = w_calls w @ cs \<and>
     list_all (authorised sv cfg run sid) cs"
proof -
  obtain res w' where r: "process_claimed_run env sv k cfg run trace w = (res, w')" by force
  from wp_run [OF wp_process_claimed_run r] show ?thesis
    by (cases res) (auto simp: r calls_for_def)
qed

text \<open>
  Order and stop: the calls are the skill's actions, normalised, in the order the skill gave
  them and without gaps, so nothing is executed after an action that was denied or failed; and if
  the run is processed without error, every requested action was called.
\<close>

theorem calls_follow_the_skill:
  assumes "process_claimed_run env sv k cfg run trace w = (res, w')"
  shows "w_calls w' = w_calls w \<and> res \<noteq> Inr () \<or>
    (\<exists>result cs n. skill_result sv result \<and> w_calls w' = w_calls w @ cs \<and>
       map c_action cs = map normalize_skill_action (take n (res_action_requests result)) \<and>
       (res = Inr () \<longrightarrow> n = length (res_action_requests result)))"
proof (cases res)
  case (Inl e)
  with wp_run [OF wp_process_claimed_run assms] show ?thesis by (auto simp: calls_for_def)
next
  case (Inr u)
  with wp_run [OF wp_process_claimed_run assms] obtain result cs where
    "skill_result sv result" "w_calls w' = w_calls w @ cs"
    "map c_action cs = map normalize_skill_action (res_action_requests result)"
    by (auto simp: calls_for_def)
  then show ?thesis by (intro disjI2 exI [of _ result] exI [of _ cs]
        exI [of _ "length (res_action_requests result)"]) simp
qed

text \<open>
  (C12) Redaction at rest: processing a run, on every path, keeps the tables free of the secrets
  the redactor knows: audit payloads, the arguments and justification of action requests, the
  results and errors of actions, and the errors of steps.
\<close>

theorem processing_stores_redacted:
  assumes "stored_clean (w_db w)"
  shows "stored_clean (w_db (snd (process_claimed_run env sv k cfg run trace w)))"
  using assms clean_process_claimed_run [of env sv k cfg run trace] unfolding keeps_def by blast


text \<open>
  A step left running: when the agent context is required and cannot be found, processing
  stops with an error but changes no step, so the step it created stays \<open>running\<close>, whatever is
  done to the run afterwards.
\<close>

theorem missing_context_leaves_step_open:
  assumes "wc_agent_context_enabled (z_config z)" and "wc_agent_context_required (z_config z)"
    and "v_context (z_services z) (r_tenant (z_run z)) (r_agent (z_run z)) = ContextNotFound paths"
  shows "isl (fst (process_step z w)) \<and>
    d_steps (w_db (snd (process_step z w))) = d_steps (w_db w)"
proof -
  have ev: "wp (audit_run_event env cfg run step tr et p) (\<lambda>_ w'. d_steps (w_db w') = d_steps (w_db w))
      (\<lambda>_ w'. d_steps (w_db w') = d_steps (w_db w)) w" for env cfg run step tr et p
    unfolding audit_run_event_def append_audit_event_with_trace_def worker_append_audit_event_def
      wp_bind wp_new_v4
    by (rule wp_stmtI) (auto simp: append_audit_event_def split: if_splits option.splits)
  have "wp (process_step z) (\<lambda>_ _. False) (\<lambda>_ w'. d_steps (w_db w') = d_steps (w_db w)) w"
    unfolding process_step_def prepare_skill_input_with_agent_context_def Let_def
    by (simp add: assms wp_bind wp_fail) (rule wp_mono [OF ev]; simp)
  then show ?thesis by (auto simp: wp_def split: prod.splits sum.splits)
qed

end
