(* ===== verification/WorkerLiveness.thy ===== *)
theory WorkerLiveness
  imports WorkerSafety
begin

text \<open>
  Granted work goes through: when the database answers and UUIDs are fresh, a run whose skill
  returns only permitted actions, and whose connectors succeed, is processed to the end.
\<close>

section \<open>A database that answers\<close>

definition healthy :: "outside \<Rightarrow> bool" where
  "healthy env \<longleftrightarrow> (\<forall>n. o_fault env n = None) \<and> inj (o_uuid env)"

text \<open>The UUIDs still to come occur in no table, the run is there, and the step, if given.\<close>

definition ready :: "outside \<Rightarrow> run_row \<Rightarrow> uuid set \<Rightarrow> uuid set \<Rightarrow> 'x world \<Rightarrow> bool" where
  "ready env run sids rids w \<longleftrightarrow>
     (\<forall>n \<ge> w_uuids w. o_uuid env n \<notin> s_id ` set (d_steps (w_db w)) \<and>
        o_uuid env n \<notin> q_id ` set (d_requests (w_db w)) \<and>
        o_uuid env n \<notin> x_id ` set (d_results (w_db w)) \<and>
        o_uuid env n \<notin> a_id ` set (d_audit (w_db w))) \<and>
     r_id run \<in> r_id ` set (d_runs (w_db w)) \<and> sids \<subseteq> s_id ` set (d_steps (w_db w)) \<and>
     rids \<subseteq> q_id ` set (d_requests (w_db w))"

abbreviation gets :: "('a \<Rightarrow> 'x world \<Rightarrow> bool) \<Rightarrow> ('x, 'a) comp \<Rightarrow> 'x world \<Rightarrow> bool" where
  "gets Q m w \<equiv> wp m Q (\<lambda>_ _. False) w"

lemma wp_stmt_ok:
  assumes "healthy env" and "\<And>now. \<exists>v d. f now (w_db w) = (Inr v, d) \<and>
    (\<forall>n. Q v (w\<lparr>w_stmts := n, w_db := d\<rparr>))"
  shows "wp (stmt env f) Q E w"
proof -
  obtain v d where "f (o_now env (w_stmts w)) (w_db w) = (Inr v, d)"
      "Q v (w\<lparr>w_stmts := Suc (w_stmts w), w_db := d\<rparr>)"
    using assms(2) by blast
  with assms(1) show ?thesis by (simp add: wp_def stmt_def Let_def healthy_def)
qed

lemma list_ex_id: "list_ex (\<lambda>b. f b = i) xs \<longleftrightarrow> i \<in> f ` set xs"
  by (auto simp: list_ex_iff)

lemma append_audit_ok:
  "a_id a \<notin> a_id ` set (d_audit d) \<Longrightarrow> a_run a \<in> r_id ` set (d_runs d) \<Longrightarrow>
   a_step a = Some sid \<Longrightarrow> sid \<in> s_id ` set (d_steps d) \<Longrightarrow>
   append_audit_event now a d = (Inr (), d\<lparr>d_audit := d_audit d @ [a]\<rparr>)"
  by (simp add: append_audit_event_def list_ex_id)

lemma healthy_inj: "healthy env \<Longrightarrow> o_uuid env n = o_uuid env m \<longleftrightarrow> n = m"
  by (auto simp: healthy_def inj_def)

lemma ready_audit:
  assumes "healthy env" and "ready env run sids rids w" and "a_id a = o_uuid env (w_uuids w)"
  shows "ready env run sids rids (w\<lparr>w_uuids := Suc (w_uuids w), w_stmts := n,
    w_db := (w_db w)\<lparr>d_audit := d_audit (w_db w) @ [a]\<rparr>\<rparr>)"
  using assms(2,3) by (simp add: ready_def healthy_inj [OF assms(1)])

lemma gets_site_event:
  assumes "healthy (z_env z)" and "ready (z_env z) (z_run z) sids rids w" and "z_step z \<in> sids"
  shows "gets (\<lambda>_. ready (z_env z) (z_run z) sids rids) (site_event z et p) w"
proof -
  have "o_uuid (z_env z) (w_uuids w) \<notin> a_id ` set (d_audit (w_db w))"
      "r_id (z_run z) \<in> r_id ` set (d_runs (w_db w))" "z_step z \<in> s_id ` set (d_steps (w_db w))"
    using assms(2,3) by (auto simp: ready_def)
  then show ?thesis
    unfolding site_event_def audit_run_event_def append_audit_event_with_trace_def
      worker_append_audit_event_def wp_bind wp_new_v4
    by (intro wp_stmt_ok [OF assms(1)])
      (simp add: append_audit_ok split: option.split, simp add: ready_audit [OF assms(1,2)])
qed

lemma update_where_ids:
  "(\<And>r. f (g r) = f r) \<Longrightarrow> f ` set (fst (update_where P g rows)) = f ` set rows"
  unfolding update_where_def fst_conv set_map image_image by (rule image_cong) simp_all

lemma gets_set_request_status:
  assumes "healthy (z_env z)" and "ready env run sids rids w" and "st \<in> set request_statuses"
  shows "gets (\<lambda>_. ready env run sids rids) (set_request_status z rid st why) w"
  unfolding set_request_status_def wp_ignore
  by (intro wp_stmt_ok [OF assms(1)])
    (use assms(2,3) in \<open>simp add: update_action_request_status_def update_where_ids ready_def
      case_prod_beta\<close>)

lemma gets_add_result:
  assumes "healthy (z_env z)" and "ready (z_env z) run sids rids w" and "rid \<in> rids"
    and "st \<in> set result_statuses"
  shows "gets (\<lambda>_. ready (z_env z) run sids rids) (add_result z rid st r e) w"
proof -
  have "o_uuid (z_env z) (w_uuids w) \<notin> x_id ` set (d_results (w_db w))"
      "rid \<in> q_id ` set (d_requests (w_db w))"
    using assms(2,3) by (auto simp: ready_def)
  then show ?thesis
    unfolding add_result_def wp_bind wp_new_v4
    by (intro wp_stmt_ok [OF assms(1)])
      (use assms(2,4) in \<open>simp add: create_action_result_def update_where_ids list_ex_id ready_def
        healthy_inj [OF assms(1)]\<close>)
qed

lemma gets_alert:
  assumes "healthy (z_env z)" and "ready (z_env z) (z_run z) sids rids w" and "z_step z \<in> sids"
  shows "gets (\<lambda>_. ready (z_env z) (z_run z) sids rids) (alert_event z et at rid alerts) w"
  using gets_site_event [OF assms] assms(2) by (simp add: alert_event_def wp_ret)

lemma gets_mono: "gets P m w \<Longrightarrow> (\<And>v w'. P v w' \<Longrightarrow> gets Q (k v) w') \<Longrightarrow> gets Q (bind m k) w"
  unfolding wp_bind by (erule wp_mono) auto

section \<open>One permitted action\<close>

text \<open>
  An action the worker will carry out for a run: its normal form meets the contract, is allowed,
  has the approval it needs, and its connector succeeds whatever state it finds.
\<close>

definition permitted :: "services \<Rightarrow> 'x connectors \<Rightarrow> worker_config \<Rightarrow> run_row \<Rightarrow> action_request \<Rightarrow> bool" where
  "permitted sv k cfg run skill_action \<longleftrightarrow>
     (let a = normalize_skill_action skill_action in
      \<exists>r f. to_policy_request (v_json_len sv) (v_llm_scope sv) a = Inr r \<and>
        is_action_allowed (parse_grant_set (r_granted run)) r = Allow \<and>
        (requires_governance_approval (wc_approval_required_action_types cfg) (action_type r) \<longrightarrow>
           is_action_governance_approved a) \<and>
        connector_for k (act_type a) = Some f \<and>
        (\<forall>rid ctx x. \<exists>v ctx' x'. f run rid (act_args a) ctx x = (Inr v, ctx', x')))"

lemma gets_action_executed:
  assumes "healthy (z_env z)" and "ready (z_env z) (z_run z) sids rids w" and "z_step z \<in> sids"
    and "rid \<in> rids"
  shows "gets (\<lambda>_. ready (z_env z) (z_run z) sids rids) (action_executed z rid at res) w"
proof -
  let ?R = "ready (z_env z) (z_run z) sids rids"
  have st: "''executed'' \<in> set request_statuses" "''executed'' \<in> set result_statuses"
    by (simp_all add: request_statuses_def result_statuses_def)
  show ?thesis
    unfolding action_executed_def Let_def seq.simps
    by (intro gets_mono [OF gets_set_request_status [OF assms(1,2) st(1)]]
        gets_mono [OF gets_add_result [OF assms(1) _ assms(4) st(2), where sids=sids and run="z_run z"]]
        gets_mono [OF gets_alert [OF assms(1) _ assms(3), where rids=rids]]
        gets_site_event [OF assms(1) _ assms(3)])
qed

lemma gets_execute_and_record:
  assumes "healthy (z_env z)" and "ready (z_env z) (z_run z) sids rids w" and "z_step z \<in> sids"
    and "rid \<in> rids" and "connector_for (z_connectors z) (act_type a) = Some f"
    and "\<And>ctx x. \<exists>v ctx' x'. f (z_run z) rid (act_args a) ctx x = (Inr v, ctx', x')"
  shows "gets (\<lambda>_. ready (z_env z) (z_run z) sids rids) (execute_and_record z rid a r ctx) w"
proof -
  obtain v ctx' x' where f: "f (z_run z) rid (act_args a) ctx (w_ext w) = (Inr v, ctx', x')"
    using assms(6) by blast
  have "ready (z_env z) (z_run z) sids rids (w\<lparr>w_ext := x', w_calls := cs\<rparr>)" for cs
    using assms(2) by (simp add: ready_def)
  from gets_action_executed [OF assms(1) this assms(3,4)] show ?thesis
    unfolding wp_handle execute_action_def assms(5) option.case wp_call_connector f
    by (simp add: Let_def wp_bind wp_ret)
qed

lemma gets_decide_action:
  assumes "healthy (z_env z)" and "ready (z_env z) (z_run z) sids rids w" and "z_step z \<in> sids"
    and "rid \<in> rids"
    and "permitted (z_services z) (z_connectors z) (z_config z) (z_run z) skill_action"
  shows "gets (\<lambda>_. ready (z_env z) (z_run z) sids rids)
    (decide_action z (parse_grant_set (r_granted (z_run z))) rid (normalize_skill_action skill_action) ctx) w"
proof -
  let ?a = "normalize_skill_action skill_action"
  obtain r f where p: "to_policy_request (v_json_len (z_services z)) (v_llm_scope (z_services z)) ?a = Inr r"
      "is_action_allowed (parse_grant_set (r_granted (z_run z))) r = Allow"
    and gov: "\<not> (requires_governance_approval (wc_approval_required_action_types (z_config z)) (action_type r) \<and>
      \<not> is_action_governance_approved ?a)"
    and f: "connector_for (z_connectors z) (act_type ?a) = Some f"
      "\<And>rid ctx x. \<exists>v ctx' x'. f (z_run z) rid (act_args ?a) ctx x = (Inr v, ctx', x')"
    using assms(5) unfolding permitted_def Let_def by blast
  have st: "''allowed'' \<in> set request_statuses" by (simp add: request_statuses_def)
  show ?thesis
    unfolding decide_action_def p sum.case policy_decision.case allow_action_def if_not_P [OF gov] seq.simps
    by (intro gets_mono [OF gets_set_request_status [OF assms(1,2) st]]
        gets_mono [OF gets_site_event [OF assms(1) _ assms(3), where rids=rids]]
        gets_execute_and_record [OF assms(1) _ assms(3,4) f, unfolded seq.simps])
qed

lemma ready_weaken: "ready env run sids rids w \<Longrightarrow> rids' \<subseteq> rids \<Longrightarrow> ready env run sids rids' w"
  by (auto simp: ready_def)

lemma gets_process_action:
  fixes z :: "'x site"
  assumes "healthy (z_env z)" and "ready (z_env z) (z_run z) {z_step z} {} w"
    and "permitted (z_services z) (z_connectors z) (z_config z) (z_run z) a"
  shows "gets (\<lambda>_. ready (z_env z) (z_run z) {z_step z} {})
    (process_action z (parse_grant_set (r_granted (z_run z))) a ctx) w"
proof -
  let ?rid = "o_uuid (z_env z) (w_uuids w)" and ?gs = "parse_grant_set (r_granted (z_run z))"
  have rest: "gets (\<lambda>_. ready (z_env z) (z_run z) {z_step z} {})
      (seq [site_event z et p] (decide_action z ?gs ?rid (normalize_skill_action a) ctx)) w1"
    if "ready (z_env z) (z_run z) {z_step z} {?rid} w1" for w1 et p
    unfolding seq.simps
  proof (rule gets_mono [OF gets_site_event [OF assms(1) that]])
    fix w2 :: "'x world" assume r2: "ready (z_env z) (z_run z) {z_step z} {?rid} w2"
    show "gets (\<lambda>_. ready (z_env z) (z_run z) {z_step z} {})
        (decide_action z ?gs ?rid (normalize_skill_action a) ctx) w2"
      by (rule wp_mono [OF gets_decide_action [OF assms(1) r2 _ _ assms(3)]])
        (auto intro: ready_weaken)
  qed simp
  have "?rid \<notin> q_id ` set (d_requests (w_db w))" "z_step z \<in> s_id ` set (d_steps (w_db w))"
    using assms(2) by (auto simp: ready_def)
  then show ?thesis
    unfolding process_action_def Let_def wp_bind wp_new_v4 seq.simps(2) [of "stmt _ _"]
    by (intro wp_stmt_ok [OF assms(1)])
      (use assms(2) in \<open>auto simp: create_action_request_def list_ex_id request_statuses_def ready_def
        healthy_inj [OF assms(1)] simp del: seq.simps intro!: rest\<close>)
qed

lemma gets_process_actions:
  assumes "healthy (z_env z)" and "ready (z_env z) (z_run z) {z_step z} {} w"
    and "list_all (permitted (z_services z) (z_connectors z) (z_config z) (z_run z)) as"
  shows "gets (\<lambda>_. ready (z_env z) (z_run z) {z_step z} {})
    (process_actions z (parse_grant_set (r_granted (z_run z))) as ctx) w"
  using assms(2,3)
proof (induction as arbitrary: ctx w)
  case (Cons a as)
  then show ?case
    by (auto intro!: gets_mono [OF gets_process_action [OF assms(1)]])
qed (simp add: wp_ret)

section \<open>The whole run\<close>

text \<open>The skill can be started and answers with permitted actions only.\<close>

definition skill_behaves :: "services \<Rightarrow> 'x connectors \<Rightarrow> worker_config \<Rightarrow> run_row \<Rightarrow> bool" where
  "skill_behaves sv k cfg run \<longleftrightarrow>
     (\<exists>command args. resolve_skill_command_for_run cfg (r_recipe run) = Inr (command, args) \<and>
        verify_skill_script_provenance sv cfg command args = Inr ()) \<and>
     (\<forall>c rq. \<exists>result. v_runner sv c rq = Inr result \<and>
        list_all (permitted sv k cfg run) (res_action_requests result))"

definition context_available :: "services \<Rightarrow> worker_config \<Rightarrow> run_row \<Rightarrow> bool" where
  "context_available sv cfg run \<longleftrightarrow> \<not> wc_agent_context_enabled cfg \<or>
     \<not> wc_agent_context_required cfg \<or>
     (\<exists>summary ctx. v_context sv (r_tenant run) (r_agent run) = ContextLoaded summary ctx)"

lemma gets_prepare:
  fixes z :: "'x site" and w :: "'x world"
  assumes "healthy (z_env z)" and "ready (z_env z) (z_run z) {z_step z} {} w"
    and "context_available (z_services z) (z_config z) (z_run z)"
  shows "gets (\<lambda>_. ready (z_env z) (z_run z) {z_step z} {})
    (prepare_skill_input_with_agent_context (z_env z) (z_services z) (z_config z) (z_run z) (z_step z)
      (z_trace z)) w"
proof -
  have ev: "gets (\<lambda>_. ready (z_env z) (z_run z) {z_step z} {})
      (bind (audit_run_event (z_env z) (z_config z) (z_run z) (Some (z_step z)) (z_trace z) et p) (\<lambda>_. ret v)) w"
    for et p v
    using gets_site_event [OF assms(1,2), of et p] by (simp add: site_event_def wp_bind wp_ret)
  show ?thesis
    using assms(2,3) unfolding prepare_skill_input_with_agent_context_def Let_def context_available_def
    by (auto simp: wp_ret ev split: context_load.split)
qed

lemma gets_invoke_skill:
  fixes z :: "'x site" and w :: "'x world"
  assumes "ready (z_env z) (z_run z) {z_step z} {} w" and "skill_behaves sv k cfg run"
  shows "gets (\<lambda>result w'. ready (z_env z) (z_run z) {z_step z} {} w' \<and>
      list_all (permitted sv k cfg run) (res_action_requests result))
    (invoke_skill env sv cfg run sid tr input gs) w"
proof -
  obtain command args where c: "resolve_skill_command_for_run cfg (r_recipe run) = Inr (command, args)"
      "verify_skill_script_provenance sv cfg command args = Inr ()"
    using assms(2) by (auto simp: skill_behaves_def)
  have "gets (\<lambda>result w'. ready (z_env z) (z_run z) {z_step z} {} w' \<and>
        list_all (permitted sv k cfg run) (res_action_requests result))
      (case v_runner sv rc rq of Inl e \<Rightarrow> fail e | Inr result \<Rightarrow> ret result) (w\<lparr>w_uuids := Suc (w_uuids w)\<rparr>)"
    for rc rq
  proof -
    obtain result where "v_runner sv rc rq = Inr result"
        "list_all (permitted sv k cfg run) (res_action_requests result)"
      using assms(2) unfolding skill_behaves_def by blast
    then show ?thesis using assms(1) by (simp add: wp_ret ready_def)
  qed
  then show ?thesis unfolding invoke_skill_def c sum.case prod.case wp_bind wp_new_v4 .
qed

lemma gets_step_succeeds:
  assumes "healthy env" and "ready env' run sids rids w"
  shows "gets (\<lambda>_. ready env' run sids rids) (ignore (stmt env (\<lambda>now. mark_step_succeeded now sid out))) w"
  unfolding wp_ignore
  by (intro wp_stmt_ok [OF assms(1)])
    (use assms(2) in \<open>simp add: mark_step_succeeded_def case_prod_beta update_where_ids ready_def\<close>)

lemma gets_process_step:
  assumes "healthy (z_env z)" and "ready (z_env z) (z_run z) {z_step z} {} w"
    and "context_available (z_services z) (z_config z) (z_run z)"
    and "skill_behaves (z_services z) (z_connectors z) (z_config z) (z_run z)"
  shows "gets (\<lambda>_ _. True) (process_step z) w"
proof -
  let ?R = "ready (z_env z) (z_run z) {z_step z} {}"
  have finish: "gets (\<lambda>_ _. True) (seq [site_event z et p, process_actions z
      (parse_grant_set (r_granted (z_run z))) as ctx,
      ignore (stmt (z_env z) (\<lambda>now. mark_step_succeeded now (z_step z) out))] (site_event z et' p')) w1"
    if "?R w1 \<and> list_all (permitted (z_services z) (z_connectors z) (z_config z) (z_run z)) as"
    for w1 et p as ctx out et' p'
    unfolding seq.simps
    by (intro gets_mono [OF gets_site_event [OF assms(1), where rids="{}" and sids="{z_step z}"]]
        gets_mono [OF gets_process_actions [OF assms(1)]] gets_mono [OF gets_step_succeeds [OF assms(1)]]
        wp_mono [OF gets_site_event [OF assms(1), where rids="{}" and sids="{z_step z}"]])
      (use that in auto)
  show ?thesis
    unfolding process_step_def Let_def wp_bind wp_handle
    by (rule wp_mono [OF gets_prepare [OF assms(1-3)]],
        rule wp_mono [OF gets_invoke_skill [OF _ assms(4), where z=z]]) (auto intro: finish simp del: seq.simps)
qed

lemma gets_process_claimed_run:
  assumes "healthy env" and "ready env run {} {} w" and "context_available sv cfg run"
    and "skill_behaves sv k cfg run"
  shows "gets (\<lambda>_ _. True) (process_claimed_run env sv k cfg run trace) w"
proof -
  let ?sid = "o_uuid env (w_uuids w)"
  let ?z = "\<lparr>z_env = env, z_services = sv, z_connectors = k, z_config = cfg, z_run = run,
    z_step = ?sid, z_trace = trace\<rparr>"
  have rest: "gets (\<lambda>_ _. True) (seq [site_event ?z et p] (process_step ?z)) w1"
    if "ready env run {?sid} {} w1" for w1 et p
    unfolding seq.simps
    by (rule gets_mono [OF gets_site_event [where rids="{}" and sids="{?sid}"]])
      (use assms that gets_process_step [of ?z] in auto)
  have "?sid \<notin> s_id ` set (d_steps (w_db w))" "r_id run \<in> r_id ` set (d_runs (w_db w))"
    using assms(2) by (auto simp: ready_def)
  then show ?thesis
    unfolding process_claimed_run_def Let_def wp_bind wp_new_v4
    by (intro wp_stmt_ok [OF assms(1)])
      (use assms(2) in \<open>auto simp: create_step_def list_ex_id step_statuses_def step_of_new_def
        new_step.extend_def ready_def Let_def healthy_inj [OF assms(1)] simp del: seq.simps intro!: rest\<close>)
qed

section \<open>Properties\<close>

text \<open>
  (C14) Liveness: if no statement fails and the UUIDs drawn are fresh, the run is in the table, the
  agent context is there when it is required, and the skill starts and answers with actions that
  are permitted and whose connectors succeed, then the run is processed without error.
\<close>

theorem granted_run_succeeds:
  assumes "healthy env" and "ready env run {} {} w" and "context_available sv cfg run"
    and "skill_behaves sv k cfg run"
  shows "fst (process_claimed_run env sv k cfg run trace w) = Inr ()"
  using gets_process_claimed_run [OF assms, of trace]
  by (auto simp: wp_def split: prod.splits sum.splits)

section \<open>A concrete run\<close>

definition sample_env :: outside where
  "sample_env = \<lparr>o_uuid = (\<lambda>n. replicate n CHR ''x''), o_now = int, o_fault = (\<lambda>_. None),
     o_sql_text = (\<lambda>_. ''sql'')\<rparr>"

definition sample_services :: services where
  "sample_services = \<lparr>v_json_len = (\<lambda>_. Inr 41), v_llm_scope = (\<lambda>_. Inl []),
     v_context = (\<lambda>_ _. ContextNotFound [''/agents'']),
     v_runner = (\<lambda>_ rq. Inr \<lparr>res_id = req_id rq, res_output = JNull,
       res_action_requests = [sample_send]\<rparr>),
     v_read_file = (\<lambda>_. Inl ''none''), v_sha256_hex = (\<lambda>_. [])\<rparr>"

definition sample_connectors :: "nat connectors" where
  "sample_connectors = (let ok = (\<lambda>run rid args ctx n. (Inr JNull, ctx, Suc n)) in
     \<lparr>k_object_write = ok, k_message_send = ok, k_message_receive = ok, k_payment_send = ok,
      k_llm_infer = ok, k_local_exec = ok\<rparr>)"

definition sample_config :: "bool \<Rightarrow> worker_config" where
  "sample_config required = \<lparr>wc_worker_id = ''w1'', wc_skill_command = ''skill'', wc_skill_args = [],
     wc_skill_recipe_commands = Map.empty, wc_skill_script_sha256 = None, wc_skill_timeout = 5000,
     wc_skill_max_output_bytes = 65536, wc_skill_env_allowlist = [],
     wc_agent_context_enabled = required, wc_agent_context_required = required,
     wc_approval_required_action_types = [], wc_remote_token_budget_per_run = None\<rparr>"

definition sample_claimed :: run_row where
  "sample_claimed = (row_of_new 0 None
     \<lparr>nr_id = ''run'', nr_tenant = ''t'', nr_agent = ''agent'', nr_user = None, nr_recipe = ''r'',
      nr_status = ''running'', nr_input = JNull, nr_requested = JArray [],
      nr_granted = JArray [JObject [(''capability'', JString ''message.send''),
        (''scope'', JString ''slack:*'')]], nr_error = None\<rparr>)"

definition sample_world :: "nat world" where
  "sample_world = \<lparr>w_db = empty_db\<lparr>d_runs := [sample_claimed]\<rparr>, w_ext = 0, w_uuids = 0, w_stmts = 0, w_calls = []\<rparr>"

lemma sample_healthy: "healthy sample_env"
  by (auto simp: healthy_def sample_env_def inj_def dest: arg_cong [where f=length])

lemma sample_ready: "ready sample_env sample_claimed {} {} sample_world"
  by (simp add: ready_def sample_world_def)

lemma sample_permitted: "permitted sample_services sample_connectors (sample_config b) sample_claimed sample_send"
proof -
  have grants: "parse_grant_set (r_granted sample_claimed) = \<lparr>grants = [grant_new MessageSend ''slack:*'']\<rparr>"
    by (simp add: sample_claimed_def row_of_new_def parse_grant_set_def parse_capability_grant_def
        get_str_def parse_capability_kind_def List.map_filter_def)
  have "scope_matches (''slack:'' @ ''*'') ''slack:C1''" unfolding scope_matches_star by simp
  then have "is_action_allowed (parse_grant_set (r_granted sample_claimed))
      \<lparr>action_type = ''message.send'', scope = ''slack:C1'', payload_bytes = 41\<rparr> = Allow"
    by (simp add: grants allow_iff_covers covers_def grant_new_def from_action_type_def within_limit_def)
  moreover have "act_type (normalize_skill_action sample_send) = ''message.send''"
    by (simp add: sample_send_normalize)
  ultimately show ?thesis
    using sample_send_request
    by (simp add: permitted_def sample_services_def sample_config_def requires_governance_approval_def
        connector_for_def sample_connectors_def Let_def)
qed

lemma sample_behaves: "skill_behaves sample_services sample_connectors (sample_config b) sample_claimed"
proof -
  have "\<exists>result. v_runner sample_services c rq = Inr result \<and>
      list_all (permitted sample_services sample_connectors (sample_config b) sample_claimed)
        (res_action_requests result)" for c rq
    using sample_permitted [of b] by (simp add: sample_services_def)
  then show ?thesis
    by (simp add: skill_behaves_def resolve_skill_command_for_run_def
        verify_skill_script_provenance_def sample_config_def)
qed

lemma sample_context: "context_available sample_services (sample_config False) sample_claimed"
  by (simp add: context_available_def sample_config_def)

abbreviation sample_processing :: "(string + unit) \<times> nat world" where
  "sample_processing \<equiv> process_claimed_run sample_env sample_services sample_connectors
     (sample_config False) sample_claimed None sample_world"

lemma sample_succeeds: "\<exists>w'. sample_processing = (Inr (), w')"
  using gets_process_claimed_run [OF sample_healthy sample_ready sample_context sample_behaves, of None]
  by (auto simp: wp_def split: prod.splits sum.splits)

theorem granted_run_succeeds_witness: "fst sample_processing = Inr ()"
  by (rule granted_run_succeeds [OF sample_healthy sample_ready sample_context sample_behaves])

theorem calls_follow_the_skill_witness: "map c_action (w_calls (snd sample_processing)) = [normalize_skill_action sample_send]"
proof -
  obtain w' where w': "sample_processing = (Inr (), w')" using sample_succeeds by blast
  from calls_follow_the_skill [OF w'] w' show ?thesis
    by (auto simp: sample_services_def sample_world_def)
qed

theorem processing_stores_redacted_witness: "stored_clean (w_db (snd sample_processing))"
  by (rule processing_stores_redacted) (simp add: stored_clean_def sample_world_def)


theorem missing_context_leaves_step_open_witness:
  "isl (fst (process_step \<lparr>z_env = sample_env, z_services = sample_services,
     z_connectors = sample_connectors, z_config = sample_config True, z_run = sample_claimed,
     z_step = ''s'', z_trace = None\<rparr> sample_world))"
  by (rule missing_context_leaves_step_open [THEN conjunct1])
    (simp_all add: sample_config_def sample_services_def)

end
