(* ===== verification/RunLeases.thy ===== *)
theory RunLeases
  imports RunStore
begin

text \<open>
  Ownership of runs. Every write to the \<open>runs\<close> table is one guarded statement, so the workers'
  interleavings are the sequences of such statements: a run is executed from the log they leave.
  The interface the worker relies on is the locale \<open>run_store\<close>; both back ends implement it.
\<close>

section \<open>Stores, statements and their log\<close>

record store =
  st_insert :: "time \<Rightarrow> new_run \<Rightarrow> runs \<Rightarrow> (db_error + run_row) \<times> runs"
  st_claim :: "time \<Rightarrow> string \<Rightarrow> nat \<Rightarrow> uuid \<Rightarrow> runs \<Rightarrow> run_row option \<times> runs"
  st_renew :: "time \<Rightarrow> uuid \<Rightarrow> string \<Rightarrow> nat \<Rightarrow> runs \<Rightarrow> bool \<times> runs"
  st_succeed :: "time \<Rightarrow> uuid \<Rightarrow> string \<Rightarrow> runs \<Rightarrow> bool \<times> runs"
  st_fail :: "time \<Rightarrow> uuid \<Rightarrow> string \<Rightarrow> json \<Rightarrow> runs \<Rightarrow> bool \<times> runs"
  st_requeue :: "time \<Rightarrow> int \<Rightarrow> runs \<Rightarrow> nat \<times> runs"

definition postgres :: "(new_run \<Rightarrow> bool) \<Rightarrow> store" where
  "postgres fk = \<lparr>st_insert = create_run fk, st_claim = try_claim, st_renew = renew_run_lease,
     st_succeed = mark_run_succeeded, st_fail = mark_run_failed,
     st_requeue = requeue_expired_runs\<rparr>"

definition sqlite :: "(new_run \<Rightarrow> bool) \<Rightarrow> store" where
  "sqlite fk = \<lparr>st_insert = create_run_sqlite fk, st_claim = try_claim_sqlite,
     st_renew = renew_run_lease_sqlite, st_succeed = mark_run_succeeded_sqlite,
     st_fail = mark_run_failed_sqlite, st_requeue = requeue_expired_runs_sqlite\<rparr>"

datatype run_stmt =
    Insert new_run
  | Claim uuid string nat
  | Renew uuid string nat
  | Succeed uuid string
  | Fail uuid string json
  | Requeue int

text \<open>A log entry names the run and, where a lease is set, the worker and its expiry.\<close>

datatype run_event =
    Claimed uuid string time
  | Renewed uuid string time time
  | Finished uuid string
  | Requeued uuid time

definition requeued_ids :: "runs \<Rightarrow> runs \<Rightarrow> uuid list" where
  "requeued_ids rows rows' = map (r_id \<circ> fst) (filter (\<lambda>(r, r'). r \<noteq> r') (zip rows rows'))"

fun exec_stmt :: "store \<Rightarrow> time \<Rightarrow> run_stmt \<Rightarrow> runs \<Rightarrow> runs \<times> run_event list" where
  "exec_stmt S now (Insert n) rows = (snd (st_insert S now n rows), [])"
| "exec_stmt S now (Claim rid w lease) rows =
     (case st_claim S now w lease rid rows of
        (Some r, rows') \<Rightarrow> (rows', [Claimed rid w (the (r_expires r))])
      | (None, rows') \<Rightarrow> (rows', []))"
| "exec_stmt S now (Renew rid w lease) rows =
     (case st_renew S now rid w lease rows of
        (ok, rows') \<Rightarrow>
          (rows', if ok then [Renewed rid w now (now + clamp_lease_ms lease)] else []))"
| "exec_stmt S now (Succeed rid w) rows =
     (case st_succeed S now rid w rows of
        (ok, rows') \<Rightarrow> (rows', if ok then [Finished rid w] else []))"
| "exec_stmt S now (Fail rid w e) rows =
     (case st_fail S now rid w e rows of
        (ok, rows') \<Rightarrow> (rows', if ok then [Finished rid w] else []))"
| "exec_stmt S now (Requeue limit) rows =
     (case st_requeue S now limit rows of
        (_, rows') \<Rightarrow> (rows', map (\<lambda>i. Requeued i now) (requeued_ids rows rows')))"

fun exec_stmts :: "store \<Rightarrow> (time \<times> run_stmt) list \<Rightarrow> runs \<Rightarrow> runs \<times> run_event list" where
  "exec_stmts S [] rows = (rows, [])"
| "exec_stmts S ((now, s) # ss) rows =
     (case exec_stmt S now s rows of (rows1, ev) \<Rightarrow>
      case exec_stmts S ss rows1 of (rows2, evs) \<Rightarrow> (rows2, ev @ evs))"

text \<open>The API and the scheduler only insert queued runs.\<close>

fun stmt_ok :: "time \<times> run_stmt \<Rightarrow> bool" where
  "stmt_ok (_, Insert n) \<longleftrightarrow> nr_status n = ''queued''"
| "stmt_ok _ \<longleftrightarrow> True"

section \<open>The table's invariant\<close>

text \<open>Exactly the running rows have an owner and an expiry.\<close>

definition row_ok :: "run_row \<Rightarrow> bool" where
  "row_ok r \<longleftrightarrow> r_status r \<in> set run_statuses \<and>
     (r_owner r \<noteq> None \<longleftrightarrow> r_status r = ''running'') \<and>
     (r_expires r \<noteq> None \<longleftrightarrow> r_status r = ''running'')"

definition runs_ok :: "runs \<Rightarrow> bool" where
  "runs_ok rows \<longleftrightarrow> distinct (map r_id rows) \<and> list_all row_ok rows"

section \<open>The specification: one lease per run\<close>

text \<open>
  Abstractly a run is free, leased to one worker until an expiry, or done. A log is legal if
  every claim takes a free run, renewals and completions come from the holder (a renewal before
  the expiry), only an expired lease is given back, and nothing happens to a run that is done.
\<close>

datatype lease_state = Leased string time | Done

type_synonym leases = "uuid \<rightharpoonup> lease_state"

fun lease_event :: "run_event \<Rightarrow> leases \<Rightarrow> leases option" where
  "lease_event (Claimed rid w e) L =
     (if L rid = None then Some (L(rid \<mapsto> Leased w e)) else None)"
| "lease_event (Renewed rid w now e) L =
     (case L rid of
        Some (Leased v old) \<Rightarrow>
          if v = w \<and> now < old then Some (L(rid \<mapsto> Leased w e)) else None
      | _ \<Rightarrow> None)"
| "lease_event (Finished rid w) L =
     (case L rid of
        Some (Leased v _) \<Rightarrow> if v = w then Some (L(rid \<mapsto> Done)) else None
      | _ \<Rightarrow> None)"
| "lease_event (Requeued rid now) L =
     (case L rid of
        Some (Leased _ e) \<Rightarrow> if e < now then Some (L(rid := None)) else None
      | _ \<Rightarrow> None)"

fun lease_log :: "run_event list \<Rightarrow> leases \<Rightarrow> leases option" where
  "lease_log [] L = Some L"
| "lease_log (ev # evs) L = Option.bind (lease_event ev L) (lease_log evs)"

definition row_of :: "runs \<Rightarrow> uuid \<Rightarrow> run_row option" where
  "row_of rows rid = find (\<lambda>r. r_id r = rid) rows"

definition lease_row :: "run_row \<Rightarrow> lease_state option" where
  "lease_row r =
     (case (r_owner r, r_expires r) of
        (Some w, Some e) \<Rightarrow> Some (Leased w e)
      | _ \<Rightarrow> if r_status r = ''queued'' then None else Some Done)"

definition lease_of :: "runs \<Rightarrow> leases" where
  "lease_of rows rid = Option.bind (row_of rows rid) lease_row"

abbreviation held_by :: "leases \<Rightarrow> uuid \<Rightarrow> string \<Rightarrow> bool" where
  "held_by L rid w \<equiv> \<exists>e. L rid = Some (Leased w e)"

section \<open>The interface\<close>

text \<open>
  What a back end promises. Each statement rewrites the row with the given id or leaves the
  table alone; a claim succeeds only on a queued row, a renewal and a completion only for the
  holder, and a requeue takes only rows whose lease has run out.
\<close>

abbreviation upd_row :: "uuid \<Rightarrow> (run_row \<Rightarrow> run_row) \<Rightarrow> runs \<Rightarrow> runs" where
  "upd_row rid f rows \<equiv> map (\<lambda>q. if r_id q = rid then f q else q) rows"

definition finish_row :: "string \<Rightarrow> time \<Rightarrow> json option \<Rightarrow> run_row \<Rightarrow> run_row" where
  "finish_row st now err r =
     r\<lparr>r_status := st, r_finished := Some now,
       r_error := (case err of None \<Rightarrow> r_error r | Some e \<Rightarrow> Some e),
       r_owner := None, r_expires := None\<rparr>"

locale run_store =
  fixes S :: store
  assumes insert_law: "runs_ok rows \<Longrightarrow> nr_status n = ''queued'' \<Longrightarrow>
      snd (st_insert S now n rows) = rows \<or>
      nr_id n \<notin> r_id ` set rows \<and> snd (st_insert S now n rows) = rows @ [row_of_new now None n]"
    and claim_law: "runs_ok rows \<Longrightarrow> st_claim S now w l rid rows = (res, rows') \<Longrightarrow>
      res = None \<and> rows' = rows \<or>
      (\<exists>r. row_of rows rid = Some r \<and> r_status r = ''queued'' \<and>
        res = Some (mark_claimed now w l r) \<and> rows' = upd_row rid (mark_claimed now w l) rows)"
    and renew_law: "runs_ok rows \<Longrightarrow> st_renew S now rid w l rows = (ok, rows') \<Longrightarrow>
      \<not> ok \<and> rows' = rows \<or>
      ok \<and> (\<exists>e. lease_of rows rid = Some (Leased w e) \<and> now < e) \<and>
        rows' = upd_row rid (\<lambda>q. q\<lparr>r_expires := Some (now + clamp_lease_ms l)\<rparr>) rows"
    and succeed_law: "runs_ok rows \<Longrightarrow> st_succeed S now rid w rows = (ok, rows') \<Longrightarrow>
      (ok \<longleftrightarrow> held_by (lease_of rows) rid w) \<and>
      rows' = (if ok then upd_row rid (finish_row ''succeeded'' now None) rows else rows)"
    and fail_law: "runs_ok rows \<Longrightarrow> st_fail S now rid w e rows = (ok, rows') \<Longrightarrow>
      (ok \<longleftrightarrow> held_by (lease_of rows) rid w) \<and>
      rows' = (if ok then upd_row rid (finish_row ''failed'' now (Some e)) rows else rows)"
    and requeue_law: "runs_ok rows \<Longrightarrow> st_requeue S now limit rows = (count, rows') \<Longrightarrow>
      \<exists>ids. rows' = map (\<lambda>q. if r_id q \<in> ids then mark_requeued q else q) rows \<and>
        (\<forall>r \<in> set rows. r_id r \<in> ids \<longrightarrow>
          r_status r = ''running'' \<and> (\<exists>e. r_expires r = Some e \<and> e < now))"

section \<open>Rows under updates\<close>

lemma row_of_Some: "row_of rows rid = Some r \<Longrightarrow> r \<in> set rows \<and> r_id r = rid"
  by (auto simp: row_of_def dest: find_SomeD)

lemma row_of_append:
  "row_of (rows @ [r]) k =
     (case row_of rows k of Some q \<Rightarrow> Some q | None \<Rightarrow> if r_id r = k then Some r else None)"
  by (induction rows) (simp_all add: row_of_def)

lemma row_of_map:
  assumes "\<And>q. r_id (f q) = r_id q"
  shows "row_of (map (\<lambda>q. if P q then f q else q) rows) k =
    map_option (\<lambda>q. if P q then f q else q) (row_of rows k)"
  by (induction rows) (simp_all add: row_of_def assms)

lemma lease_of_upd:
  assumes "\<And>q. r_id (f q) = r_id q" and "row_of rows rid = Some r"
  shows "lease_of (upd_row rid f rows) = (lease_of rows)(rid := lease_row (f r))"
proof
  fix k
  show "lease_of (upd_row rid f rows) k = ((lease_of rows)(rid := lease_row (f r))) k"
  proof (cases "k = rid")
    case True
    with assms(2) row_of_Some [OF assms(2)] show ?thesis
      by (simp add: lease_of_def row_of_map [where f=f, OF assms(1)])
  next
    case False
    then have "row_of rows k = Some q \<Longrightarrow> r_id q \<noteq> rid" for q by (auto dest: row_of_Some)
    with False show ?thesis
      by (cases "row_of rows k") (simp_all add: lease_of_def row_of_map [where f=f, OF assms(1)])
  qed
qed

lemma row_of_mem:
  assumes "distinct (map r_id rows)" and "r \<in> set rows"
  shows "row_of rows (r_id r) = Some r"
  using assms by (induction rows) (auto simp: row_of_def image_iff)

lemma runs_ok_mem: "runs_ok rows \<Longrightarrow> r \<in> set rows \<Longrightarrow> row_ok r \<and> row_of rows (r_id r) = Some r"
  by (auto simp: runs_ok_def list_all_iff row_of_mem)

lemma runs_ok_map:
  assumes "runs_ok rows" and "\<And>q. r_id (f q) = r_id q"
    and "\<And>q. q \<in> set rows \<Longrightarrow> P q \<Longrightarrow> row_ok (f q)"
  shows "runs_ok (map (\<lambda>q. if P q then f q else q) rows)"
proof -
  have "map r_id (map (\<lambda>q. if P q then f q else q) rows) = map r_id rows"
    unfolding map_map by (rule map_cong) (simp_all add: assms(2))
  moreover have "list_all row_ok (map (\<lambda>q. if P q then f q else q) rows)"
    using assms(1,3) by (auto simp: runs_ok_def list_all_iff)
  ultimately show ?thesis using assms(1) unfolding runs_ok_def by argo
qed

lemma row_fields [simp]:
  "r_id (mark_claimed now w l q) = r_id q" "r_id (mark_requeued q) = r_id q"
  "r_id (finish_row st now err q) = r_id q"
  "lease_row (mark_claimed now w l q) = Some (Leased w (now + clamp_lease_ms l))"
  "lease_row (mark_requeued q) = None"
  "st \<noteq> ''queued'' \<Longrightarrow> lease_row (finish_row st now err q) = Some Done"
  "r_status (mark_requeued q) = ''queued''"
  "r_expires (mark_claimed now w l q) = Some (now + clamp_lease_ms l)"
  "r_id (row_of_new now key n) = nr_id n" 
  "nr_status n = ''queued'' \<Longrightarrow> lease_row (row_of_new now key n) = None"
  by (simp_all add: mark_claimed_def mark_requeued_def finish_row_def lease_row_def row_of_new_def)

lemma row_ok_updates:
  "row_ok (mark_claimed now w l q)" "row_ok (mark_requeued q)"
  "row_ok (finish_row ''succeeded'' now err q)" "row_ok (finish_row ''failed'' now err q)"
  "row_ok (row_of_new now key n) \<longleftrightarrow> nr_status n \<in> set run_statuses \<and> nr_status n \<noteq> ''running''"
  by (simp_all add: row_ok_def mark_claimed_def mark_requeued_def finish_row_def run_statuses_def
      row_of_new_def)

lemma lease_of_running:
  assumes "runs_ok rows" and "row_of rows rid = Some r"
  shows "lease_of rows rid = (if r_status r = ''running''
    then Some (Leased (the (r_owner r)) (the (r_expires r)))
    else if r_status r = ''queued'' then None else Some Done)"
proof -
  have "row_ok r" using assms runs_ok_mem row_of_Some by metis
  with assms(2) show ?thesis
    by (auto simp: lease_of_def lease_row_def row_ok_def split: option.splits)
qed

lemma lease_of_absent: "i \<notin> r_id ` set rows \<Longrightarrow> lease_of rows i = None"
  by (cases "row_of rows i") (auto simp: lease_of_def dest: row_of_Some)

lemma lease_of_insert: "lease_row r = None \<Longrightarrow> lease_of (rows @ [r]) = lease_of rows"
  by (auto simp: lease_of_def row_of_append split: option.splits)

lemma runs_ok_insert:
  "runs_ok rows \<Longrightarrow> row_ok r \<Longrightarrow> r_id r \<notin> r_id ` set rows \<Longrightarrow> runs_ok (rows @ [r])"
  by (simp add: runs_ok_def)

lemma lease_log_append: "lease_log (xs @ ys) L = Option.bind (lease_log xs L) (lease_log ys)"
proof (induction xs arbitrary: L)
  case (Cons a xs)
  then show ?case by (cases "lease_event a L") simp_all
qed simp

lemma lease_log_requeued:
  assumes "distinct ids" and "\<And>i. i \<in> set ids \<Longrightarrow> \<exists>w e. L i = Some (Leased w e) \<and> e < now"
  shows "lease_log (map (\<lambda>i. Requeued i now) ids) L =
    Some (\<lambda>i. if i \<in> set ids then None else L i)"
  using assms
proof (induction ids arbitrary: L)
  case (Cons i ids)
  obtain w e where "L i = Some (Leased w e)" "e < now" using Cons.prems(2) by force
  moreover have "lease_log (map (\<lambda>i. Requeued i now) ids) (L(i := None)) =
      Some (\<lambda>k. if k \<in> set ids then None else (L(i := None)) k)"
    using Cons.prems by (intro Cons.IH) auto
  ultimately show ?case by (auto simp: fun_eq_iff)
qed simp

lemma requeued_ids_map:
  assumes "\<And>r. r \<in> set rows \<Longrightarrow> r_id r \<in> ids \<Longrightarrow> r_status r = ''running''"
  shows "requeued_ids rows (map (\<lambda>q. if r_id q \<in> ids then mark_requeued q else q) rows) =
    filter (\<lambda>i. i \<in> ids) (map r_id rows)"
proof -
  have "mark_requeued r \<noteq> r" if "r_status r = ''running''" for r
  proof
    assume "mark_requeued r = r"
    from arg_cong [OF this, of r_status] that show False by simp
  qed
  then have "r_status r = ''running'' \<Longrightarrow> r \<noteq> mark_requeued r" for r by metis
  with assms show ?thesis by (induction rows) (force simp: requeued_ids_def)+
qed

lemma lease_of_requeue:
  "lease_of (map (\<lambda>q. if r_id q \<in> ids then mark_requeued q else q) rows) =
     (\<lambda>i. if i \<in> ids then None else lease_of rows i)"
proof
  fix i show "lease_of (map (\<lambda>q. if r_id q \<in> ids then mark_requeued q else q) rows) i =
      (if i \<in> ids then None else lease_of rows i)"
    by (cases "row_of rows i") (auto simp: lease_of_def row_of_map [where f=mark_requeued]
        dest: row_of_Some)
qed

section \<open>Every store refines the specification\<close>

context run_store
begin

lemma exec_insert:
  assumes "runs_ok rows" and "nr_status n = ''queued''"
    and "exec_stmt S now (Insert n) rows = (rows', evs)"
  shows "runs_ok rows' \<and> lease_log evs (lease_of rows) = Some (lease_of rows')"
proof -
  have "row_ok (row_of_new now None n)" using assms(2) by (simp add: row_ok_updates run_statuses_def)
  with insert_law [OF assms(1,2), of now] assms show ?thesis
    by (auto simp: runs_ok_insert lease_of_insert)
qed

lemma exec_claim:
  assumes "runs_ok rows" and "exec_stmt S now (Claim rid w l) rows = (rows', evs)"
  shows "runs_ok rows' \<and> lease_log evs (lease_of rows) = Some (lease_of rows')"
proof -
  obtain res where res: "st_claim S now w l rid rows = (res, rows')"
      and evs: "evs = (case res of None \<Rightarrow> [] | Some r \<Rightarrow> [Claimed rid w (the (r_expires r))])"
    using assms(2) by (auto split: prod.splits option.splits)
  from claim_law [OF assms(1) res] show ?thesis
  proof
    assume "\<exists>r. row_of rows rid = Some r \<and> r_status r = ''queued'' \<and>
      res = Some (mark_claimed now w l r) \<and> rows' = upd_row rid (mark_claimed now w l) rows"
    then obtain r where r: "row_of rows rid = Some r" "r_status r = ''queued''"
      "res = Some (mark_claimed now w l r)" "rows' = upd_row rid (mark_claimed now w l) rows"
      by blast
    with assms(1) have "runs_ok rows'" by (auto intro: runs_ok_map simp: row_ok_updates)
    moreover have "lease_of rows rid = None"
      using lease_of_running [OF assms(1) r(1)] r(2) by simp
    ultimately show ?thesis
      using r evs lease_of_upd [where f="mark_claimed now w l", OF _ r(1)] by simp
  qed (use assms evs in auto)
qed

lemma exec_renew:
  assumes "runs_ok rows" and "exec_stmt S now (Renew rid w l) rows = (rows', evs)"
  shows "runs_ok rows' \<and> lease_log evs (lease_of rows) = Some (lease_of rows')"
proof -
  let ?f = "\<lambda>q. q\<lparr>r_expires := Some (now + clamp_lease_ms l)\<rparr>"
  obtain ok where ok: "st_renew S now rid w l rows = (ok, rows')"
      and evs: "evs = (if ok then [Renewed rid w now (now + clamp_lease_ms l)] else [])"
    using assms(2) by (auto split: prod.splits)
  from renew_law [OF assms(1) ok] show ?thesis
  proof
    assume a: "ok \<and> (\<exists>e. lease_of rows rid = Some (Leased w e) \<and> now < e) \<and> rows' = upd_row rid ?f rows"
    then obtain e r where e: "lease_of rows rid = Some (Leased w e)" "now < e" and
        r: "row_of rows rid = Some r" "lease_row r = Some (Leased w e)"
      by (auto simp: lease_of_def Option.bind_eq_Some_conv)
    have run: "r_status r = ''running''" and w: "r_owner r = Some w"
      using lease_of_running [OF assms(1) r(1)] e r(2)
      by (auto split: if_splits simp: lease_row_def split: option.splits)
    have "row_ok (?f q)" if "q \<in> set rows" "r_id q = rid" for q
      using that run runs_ok_mem [OF assms(1) that(1)] r(1) by (auto simp: row_ok_def)
    then have "runs_ok rows'" using a assms(1) by (auto intro!: runs_ok_map)
    moreover have "lease_of rows' = (lease_of rows)(rid := Some (Leased w (now + clamp_lease_ms l)))"
      using a lease_of_upd [where f="?f", OF _ r(1)] w by (simp add: lease_row_def)
    ultimately show ?thesis using a e evs by simp
  qed (use assms evs in auto)
qed

lemma finish_refines:
  assumes "runs_ok rows" and "ok \<longleftrightarrow> held_by (lease_of rows) rid w"
    and "rows' = (if ok then upd_row rid (finish_row st now err) rows else rows)"
    and "st = ''succeeded'' \<or> st = ''failed''" and "evs = (if ok then [Finished rid w] else [])"
  shows "runs_ok rows' \<and> lease_log evs (lease_of rows) = Some (lease_of rows')"
proof (cases ok)
  case True
  with assms(2) obtain r e where r: "row_of rows rid = Some r" "lease_of rows rid = Some (Leased w e)"
    by (auto simp: lease_of_def Option.bind_eq_Some_conv)
  have "runs_ok (upd_row rid (finish_row st now err) rows)"
    using assms(1,4) by (auto intro!: runs_ok_map simp: row_ok_updates)
  moreover have "st \<noteq> ''queued''" using assms(4) by auto
  ultimately show ?thesis
    using True assms(3,5) r lease_of_upd [where f="finish_row st now err", OF _ r(1)] by simp
qed (use assms in simp)

lemma exec_finish:
  assumes "runs_ok rows" and "s = Succeed rid w \<or> s = Fail rid w e"
    and "exec_stmt S now s rows = (rows', evs)"
  shows "runs_ok rows' \<and> lease_log evs (lease_of rows) = Some (lease_of rows')"
proof (cases "s = Succeed rid w")
  case True
  then obtain ok where ok: "st_succeed S now rid w rows = (ok, rows')"
      and evs: "evs = (if ok then [Finished rid w] else [])"
    using assms(3) by (auto split: prod.splits)
  with succeed_law [OF assms(1) ok] assms(1) show ?thesis
    by (intro finish_refines [where st="''succeeded''" and err=None]) auto
next
  case False
  then obtain ok where ok: "st_fail S now rid w e rows = (ok, rows')"
      and evs: "evs = (if ok then [Finished rid w] else [])"
    using assms(2,3) by (auto split: prod.splits)
  with fail_law [OF assms(1) ok] assms(1) show ?thesis
    by (intro finish_refines [where st="''failed''" and err="Some e"]) auto
qed

lemma exec_requeue:
  assumes "runs_ok rows" and "exec_stmt S now (Requeue limit) rows = (rows', evs)"
  shows "runs_ok rows' \<and> lease_log evs (lease_of rows) = Some (lease_of rows')"
proof -
  obtain n where n: "st_requeue S now limit rows = (n, rows')"
      and evs: "evs = map (\<lambda>i. Requeued i now) (requeued_ids rows rows')"
    using assms(2) by (auto split: prod.splits)
  from requeue_law [OF assms(1) n] obtain ids where
    rows': "rows' = map (\<lambda>q. if r_id q \<in> ids then mark_requeued q else q) rows" and
    exp: "\<And>r. r \<in> set rows \<Longrightarrow> r_id r \<in> ids \<Longrightarrow>
      r_status r = ''running'' \<and> (\<exists>e. r_expires r = Some e \<and> e < now)"
    by blast
  let ?ids = "filter (\<lambda>i. i \<in> ids) (map r_id rows)"
  have ids: "requeued_ids rows rows' = ?ids"
    unfolding rows' using exp by (intro requeued_ids_map) blast
  have "\<exists>w e. lease_of rows i = Some (Leased w e) \<and> e < now" if "i \<in> set ?ids" for i
  proof -
    from that obtain r where r: "r \<in> set rows" "r_id r = i" "i \<in> ids" by auto
    with lease_of_running [OF assms(1), of i r] runs_ok_mem [OF assms(1), of r] exp [of r]
    show ?thesis by auto
  qed
  then have "lease_log evs (lease_of rows) = Some (\<lambda>i. if i \<in> set ?ids then None else lease_of rows i)"
    unfolding evs ids using assms(1)
    by (intro lease_log_requeued) (auto simp: runs_ok_def)
  also have "(\<lambda>i. if i \<in> set ?ids then None else lease_of rows i) = lease_of rows'"
    unfolding rows' lease_of_requeue
    using lease_of_absent by (auto simp: fun_eq_iff)
  finally show ?thesis
    using assms(1) unfolding rows' by (auto intro: runs_ok_map simp: row_ok_updates)
qed

lemma exec_stmt_refines:
  assumes "runs_ok rows" and "stmt_ok (now, s)" and "exec_stmt S now s rows = (rows', evs)"
  shows "runs_ok rows' \<and> lease_log evs (lease_of rows) = Some (lease_of rows')"
proof (cases s)
  case (Insert n)
  with assms exec_insert [OF assms(1), of n] show ?thesis by (simp del: exec_stmt.simps)
next
  case (Claim rid w l)
  with assms(3) exec_claim [OF assms(1)] show ?thesis by (simp only:)
next
  case (Renew rid w l)
  with assms(3) exec_renew [OF assms(1)] show ?thesis by (simp only:)
next
  case (Succeed rid w)
  from exec_finish [OF assms(1) disjI1 [OF Succeed] assms(3)] show ?thesis .
next
  case (Fail rid w e)
  from exec_finish [OF assms(1) disjI2 [OF Fail] assms(3)] show ?thesis .
next
  case (Requeue limit)
  with assms(3) exec_requeue [OF assms(1)] show ?thesis by (simp only:)
qed

lemma exec_stmts_refines:
  assumes "runs_ok rows" and "list_all stmt_ok ss" and "exec_stmts S ss rows = (rows', evs)"
  shows "runs_ok rows' \<and> lease_log evs (lease_of rows) = Some (lease_of rows')"
  using assms
proof (induction ss arbitrary: rows evs)
  case (Cons a ss)
  obtain now s where a: "a = (now, s)" by force
  obtain rows1 ev where 1: "exec_stmt S now s rows = (rows1, ev)" by force
  obtain evs' where 2: "exec_stmts S ss rows1 = (rows', evs')" and evs: "evs = ev @ evs'"
    using Cons.prems(3) a 1 by (auto split: prod.splits)
  have "runs_ok rows1 \<and> lease_log ev (lease_of rows) = Some (lease_of rows1)"
    using exec_stmt_refines [OF Cons.prems(1) _ 1] Cons.prems(2) a by simp
  with Cons.IH [OF _ _ 2] Cons.prems(2) evs show ?case by (simp add: lease_log_append)
qed simp

end

section \<open>Both back ends are stores\<close>

text \<open>With distinct ids, a guarded update by id touches at most one row.\<close>

lemma filter_by_id:
  assumes "distinct (map r_id rows)"
  shows "filter (\<lambda>r. r_id r = rid \<and> P r) rows =
    (case row_of rows rid of Some r \<Rightarrow> if P r then [r] else [] | None \<Rightarrow> [])"
  using assms
proof (induction rows)
  case (Cons a rows)
  have "filter (\<lambda>r. r_id r = r_id a \<and> P r) rows = []"
    using Cons.prems by (auto simp: filter_empty_conv image_iff)
  with Cons show ?case by (auto simp: row_of_def)
qed (simp add: row_of_def)

lemma update_by_id:
  assumes "runs_ok rows"
  shows "update_where (\<lambda>r. r_id r = rid \<and> P r) f rows =
    (case row_of rows rid of
       Some r \<Rightarrow> if P r then (upd_row rid f rows, 1) else (rows, 0)
     | None \<Rightarrow> (rows, 0))"
proof -
  have d: "distinct (map r_id rows)" using assms by (simp add: runs_ok_def)
  have same: "row_of rows rid = Some r \<Longrightarrow> q \<in> set rows \<Longrightarrow> r_id q = rid \<Longrightarrow> q = r" for q r
    using row_of_mem [OF d, of q] by auto
  have none: "row_of rows rid = None \<Longrightarrow> q \<in> set rows \<Longrightarrow> r_id q \<noteq> rid" for q
    using row_of_mem [OF d, of q] by auto
  show ?thesis
  proof (cases "row_of rows rid")
    case None
    with none show ?thesis by (simp add: update_where_def filter_by_id [OF d] map_idI)
  next
    case (Some r)
    have "map (\<lambda>q. if r_id q = rid \<and> P q then f q else q) rows =
        (if P r then upd_row rid f rows else rows)"
      using same [OF Some] by (auto intro!: map_idI)
    with Some show ?thesis by (simp add: update_where_def filter_by_id [OF d])
  qed
qed

lemma runs_ok_row: "runs_ok rows \<Longrightarrow> row_of rows rid = Some r \<Longrightarrow> row_ok r"
  using runs_ok_mem row_of_Some by metis

lemma held_by_row:
  assumes "runs_ok rows"
  shows "held_by (lease_of rows) rid w \<longleftrightarrow>
    (\<exists>r. row_of rows rid = Some r \<and> r_status r = ''running'' \<and> r_owner r = Some w)"
  using lease_of_running [OF assms, of rid] runs_ok_row [OF assms, of rid]
  by (cases "row_of rows rid") (auto simp: lease_of_def row_ok_def)

lemma requeue_ids:
  assumes "runs_ok rows" and "set expired \<subseteq> {r \<in> set rows. E r}"
    and "\<And>r. E r \<Longrightarrow> r_status r = ''running'' \<and> (\<exists>e. r_expires r = Some e \<and> e < now)"
  shows "\<exists>ids. fst (update_where (\<lambda>r. r_id r \<in> set (map r_id expired)) mark_requeued rows) =
      map (\<lambda>q. if r_id q \<in> ids then mark_requeued q else q) rows \<and>
    (\<forall>r \<in> set rows. r_id r \<in> ids \<longrightarrow>
      r_status r = ''running'' \<and> (\<exists>e. r_expires r = Some e \<and> e < now))"
proof (intro exI [of _ "set (map r_id expired)"] conjI ballI impI)
  fix r assume r: "r \<in> set rows" "r_id r \<in> set (map r_id expired)"
  then obtain q where q: "q \<in> set expired" "r_id q = r_id r" by auto
  with assms(2) have "q \<in> set rows" "E q" by auto
  with runs_ok_mem [OF assms(1)] r(1) q(2) have "q = r" by (metis option.inject)
  with assms(3) \<open>E q\<close>
  show "r_status r = ''running''" "\<exists>e. r_expires r = Some e \<and> e < now" by simp_all
qed (simp add: update_where_def)

lemma set_expired: "set (take n (sort_key k (filter E rows))) \<subseteq> {r \<in> set rows. E r}"
  using set_take_subset by fastforce

lemma secs_mono: "secs a < secs b \<Longrightarrow> a < b"
  unfolding secs_def using zdiv_mono1 [of b a 1000] by linarith

lemma lease_expired_running:
  "lease_expired now r \<Longrightarrow> r_status r = ''running'' \<and> (\<exists>e. r_expires r = Some e \<and> e < now)"
  by (auto simp: lease_expired_def split: option.splits)

lemma lease_expired_sqlite_running:
  "lease_expired_sqlite now r \<Longrightarrow> r_status r = ''running'' \<and> (\<exists>e. r_expires r = Some e \<and> e < now)"
  by (auto simp: lease_expired_sqlite_def secs_mono split: option.splits)

lemma find_upd_row:
  "row_of rows rid = Some r \<Longrightarrow>
   find (\<lambda>r. r_id r = rid) (upd_row rid (mark_claimed now w l) rows) = Some (mark_claimed now w l r)"
  using row_of_map [where f="mark_claimed now w l" and P="\<lambda>q. r_id q = rid" and rows=rows and k=rid]
  by (auto simp: row_of_def [symmetric] dest: row_of_Some)

interpretation pg: run_store "postgres fk" for fk
proof
  show "snd (st_insert (postgres fk) now n rows) = rows \<or>
      nr_id n \<notin> r_id ` set rows \<and>
      snd (st_insert (postgres fk) now n rows) = rows @ [row_of_new now None n]" for now n rows
    by (auto simp: postgres_def create_run_def insert_check_def list_ex_iff Let_def)
next
  fix rows now w l rid res rows'
  assume "runs_ok rows" "st_claim (postgres fk) now w l rid rows = (res, rows')"
  then show "res = None \<and> rows' = rows \<or>
      (\<exists>r. row_of rows rid = Some r \<and> r_status r = ''queued'' \<and>
        res = Some (mark_claimed now w l r) \<and> rows' = upd_row rid (mark_claimed now w l) rows)"
    by (auto simp: postgres_def try_claim_def filter_by_id update_by_id runs_ok_def claimable_def
        split: option.splits if_splits)
next
  fix rows now rid w l ok rows'
  assume ok: "runs_ok rows" and "st_renew (postgres fk) now rid w l rows = (ok, rows')"
  then show "\<not> ok \<and> rows' = rows \<or>
      ok \<and> (\<exists>e. lease_of rows rid = Some (Leased w e) \<and> now < e) \<and>
        rows' = upd_row rid (\<lambda>q. q\<lparr>r_expires := Some (now + clamp_lease_ms l)\<rparr>) rows"
    by (auto simp: postgres_def renew_run_lease_def update_by_id lease_of_running [OF ok]
        split: option.splits if_splits)
next
  fix rows now rid w ok rows'
  assume ok: "runs_ok rows" and "st_succeed (postgres fk) now rid w rows = (ok, rows')"
  then show "(ok \<longleftrightarrow> held_by (lease_of rows) rid w) \<and>
      rows' = (if ok then upd_row rid (finish_row ''succeeded'' now None) rows else rows)"
    unfolding held_by_row [OF ok]
    by (auto simp: postgres_def mark_run_succeeded_def update_by_id finish_row_def
        split: option.splits if_splits)
next
  fix rows now rid w e ok rows'
  assume ok: "runs_ok rows" and "st_fail (postgres fk) now rid w e rows = (ok, rows')"
  then show "(ok \<longleftrightarrow> held_by (lease_of rows) rid w) \<and>
      rows' = (if ok then upd_row rid (finish_row ''failed'' now (Some e)) rows else rows)"
    unfolding held_by_row [OF ok]
    by (auto simp: postgres_def mark_run_failed_def update_by_id finish_row_def
        split: option.splits if_splits)
next
  fix rows now limit n rows'
  assume "runs_ok rows" "st_requeue (postgres fk) now limit rows = (n, rows')"
  moreover from this have "rows' = fst (update_where (\<lambda>r. r_id r \<in> set (map r_id
      (take (nat (max limit 0)) (sort_key (\<lambda>r. the (r_expires r))
        (filter (lease_expired now) rows))))) mark_requeued rows)"
    by (auto simp: postgres_def requeue_expired_runs_def Let_def split: prod.splits)
  ultimately show "\<exists>ids. rows' = map (\<lambda>q. if r_id q \<in> ids then mark_requeued q else q) rows \<and>
        (\<forall>r \<in> set rows. r_id r \<in> ids \<longrightarrow>
          r_status r = ''running'' \<and> (\<exists>e. r_expires r = Some e \<and> e < now))"
    using requeue_ids [OF _ set_expired lease_expired_running] by (simp only:)
qed

text \<open>
  SQLite looks at whole seconds, and lets a worker finish a running row without owner; neither
  weakens the contract, since the invariant excludes such rows.
\<close>

interpretation lite: run_store "sqlite fk" for fk
proof
  show "snd (st_insert (sqlite fk) now n rows) = rows \<or>
      nr_id n \<notin> r_id ` set rows \<and>
      snd (st_insert (sqlite fk) now n rows) = rows @ [row_of_new now None n]" for now n rows
    by (auto simp: sqlite_def create_run_sqlite_def insert_check_def list_ex_iff Let_def)
next
  fix rows now w l rid res rows'
  assume "runs_ok rows" "st_claim (sqlite fk) now w l rid rows = (res, rows')"
  then show "res = None \<and> rows' = rows \<or>
      (\<exists>r. row_of rows rid = Some r \<and> r_status r = ''queued'' \<and>
        res = Some (mark_claimed now w l r) \<and> rows' = upd_row rid (mark_claimed now w l) rows)"
    by (auto simp: sqlite_def try_claim_sqlite_def update_by_id claimable_sqlite_def
        find_upd_row split: option.splits if_splits)
next
  fix rows now rid w l ok rows'
  assume ok: "runs_ok rows" and "st_renew (sqlite fk) now rid w l rows = (ok, rows')"
  then show "\<not> ok \<and> rows' = rows \<or>
      ok \<and> (\<exists>e. lease_of rows rid = Some (Leased w e) \<and> now < e) \<and>
        rows' = upd_row rid (\<lambda>q. q\<lparr>r_expires := Some (now + clamp_lease_ms l)\<rparr>) rows"
    by (auto simp: sqlite_def renew_run_lease_sqlite_def update_by_id lease_of_running [OF ok]
        dest: secs_mono split: option.splits if_splits)
next
  fix rows now rid w ok rows'
  assume ok: "runs_ok rows" and "st_succeed (sqlite fk) now rid w rows = (ok, rows')"
  then show "(ok \<longleftrightarrow> held_by (lease_of rows) rid w) \<and>
      rows' = (if ok then upd_row rid (finish_row ''succeeded'' now None) rows else rows)"
    using runs_ok_row [OF ok, of rid] unfolding held_by_row [OF ok]
    by (auto simp: sqlite_def mark_run_succeeded_sqlite_def update_by_id finish_row_def row_ok_def
        split: option.splits if_splits)
next
  fix rows now rid w e ok rows'
  assume ok: "runs_ok rows" and "st_fail (sqlite fk) now rid w e rows = (ok, rows')"
  then show "(ok \<longleftrightarrow> held_by (lease_of rows) rid w) \<and>
      rows' = (if ok then upd_row rid (finish_row ''failed'' now (Some e)) rows else rows)"
    using runs_ok_row [OF ok, of rid] unfolding held_by_row [OF ok]
    by (auto simp: sqlite_def mark_run_failed_sqlite_def update_by_id finish_row_def row_ok_def
        split: option.splits if_splits)
next
  fix rows now limit n rows'
  assume "runs_ok rows" "st_requeue (sqlite fk) now limit rows = (n, rows')"
  moreover from this have "rows' = fst (update_where (\<lambda>r. r_id r \<in> set (map r_id
      (take (nat (max limit 0)) (sort_key (\<lambda>r. secs (the (r_expires r)))
        (filter (lease_expired_sqlite now) rows))))) mark_requeued rows)"
    by (auto simp: sqlite_def requeue_expired_runs_sqlite_def Let_def split: prod.splits)
  ultimately show "\<exists>ids. rows' = map (\<lambda>q. if r_id q \<in> ids then mark_requeued q else q) rows \<and>
        (\<forall>r \<in> set rows. r_id r \<in> ids \<longrightarrow>
          r_status r = ''running'' \<and> (\<exists>e. r_expires r = Some e \<and> e < now))"
    using requeue_ids [OF _ set_expired lease_expired_sqlite_running] by (simp only:)
qed

section \<open>Legal logs\<close>

text \<open>The expiry that a log has last set for a run.\<close>

fun set_expiry :: "uuid \<Rightarrow> run_event \<Rightarrow> time option \<Rightarrow> time option" where
  "set_expiry rid (Claimed i w e) acc = (if i = rid then Some e else acc)"
| "set_expiry rid (Renewed i w now e) acc = (if i = rid then Some e else acc)"
| "set_expiry rid _ acc = acc"

definition expiry_in_force :: "uuid \<Rightarrow> run_event list \<Rightarrow> time option" where
  "expiry_in_force rid evs = fold (set_expiry rid) evs None"

lemma lease_log_expiry:
  assumes "lease_log evs L = Some L'" and "L' rid = Some (Leased v x)"
    and "\<And>v x. L rid = Some (Leased v x) \<Longrightarrow> acc = Some x"
  shows "fold (set_expiry rid) evs acc = Some x"
  using assms
proof (induction evs arbitrary: L acc)
  case (Cons ev evs)
  then obtain L1 where L1: "lease_event ev L = Some L1" "lease_log evs L1 = Some L'"
    by (auto simp: Option.bind_eq_Some_conv)
  have "L1 rid = Some (Leased v x) \<Longrightarrow> set_expiry rid ev acc = Some x" for v x
    using L1(1) Cons.prems(3)
    by (cases ev) (auto split: if_splits option.splits lease_state.splits)
  with Cons.IH [OF L1(2) Cons.prems(2)] show ?case by simp
qed simp

text \<open>A run that is not free becomes free only by a requeue after the expiry in force.\<close>

lemma lease_log_freed:
  assumes "lease_log evs L = Some L'" and "L rid \<noteq> None" and "L' rid = None"
  shows "\<exists>b1 t b2 L1 v x. evs = b1 @ Requeued rid t # b2 \<and> lease_log b1 L = Some L1 \<and>
    L1 rid = Some (Leased v x) \<and> x < t"
  using assms
proof (induction evs arbitrary: L)
  case (Cons ev evs)
  then obtain L1 where L1: "lease_event ev L = Some L1" "lease_log evs L1 = Some L'"
    by (auto simp: Option.bind_eq_Some_conv)
  show ?case
  proof (cases "L1 rid")
    case None
    with L1(1) Cons.prems(2) obtain t v x where "ev = Requeued rid t" "L rid = Some (Leased v x)" "x < t"
      by (cases ev) (auto split: if_splits option.splits lease_state.splits)
    then show ?thesis by (intro exI [of _ "[]"]) auto
  next
    case Some
    with Cons.IH [OF L1(2)] Cons.prems(3) obtain b1 t b2 L2 v x where
      "evs = b1 @ Requeued rid t # b2" "lease_log b1 L1 = Some L2" "L2 rid = Some (Leased v x)" "x < t"
      by blast
    with L1(1) show ?thesis
      by (intro exI [of _ "ev # b1"] exI [of _ t] exI [of _ b2] exI [of _ L2]) simp
  qed
qed simp

lemma lease_log_two_claims:
  assumes "lease_log (a @ Claimed rid w e # b @ Claimed rid w' e' # c) L \<noteq> None"
  shows "\<exists>b1 t b2 x. b = b1 @ Requeued rid t # b2 \<and>
    expiry_in_force rid (a @ Claimed rid w e # b1) = Some x \<and> x < t"
proof -
  obtain L1 where 1: "lease_log a L = Some L1"
      and 2: "Option.bind (lease_event (Claimed rid w e) L1)
        (lease_log (b @ Claimed rid w' e' # c)) \<noteq> None"
    using assms by (cases "lease_log a L") (simp_all add: lease_log_append)
  let ?L2 = "L1(rid \<mapsto> Leased w e)"
  have "lease_log (b @ Claimed rid w' e' # c) ?L2 \<noteq> None" using 2 by (auto split: if_splits)
  then obtain L3 where 3: "lease_log b ?L2 = Some L3" and "L3 rid = None"
    by (cases "lease_log b ?L2") (auto simp: lease_log_append split: if_splits)
  with lease_log_freed [OF 3, of rid] obtain b1 t b2 L4 v x where
    b: "b = b1 @ Requeued rid t # b2" "lease_log b1 ?L2 = Some L4" "L4 rid = Some (Leased v x)" "x < t"
    by auto
  have "fold (set_expiry rid) b1 (Some e) = Some x"
    by (rule lease_log_expiry [OF b(2,3)]) simp
  with b show ?thesis by (auto simp: expiry_in_force_def)
qed

lemma lease_log_done:
  "lease_log evs L = Some L' \<Longrightarrow> L rid = Some Done \<Longrightarrow>
   L' rid = Some Done \<and> (\<forall>w e. Claimed rid w e \<notin> set evs)"
proof (induction evs arbitrary: L)
  case (Cons ev evs)
  then obtain L1 where L1: "lease_event ev L = Some L1" "lease_log evs L1 = Some L'"
    by (auto simp: Option.bind_eq_Some_conv)
  have "L1 rid = Some Done \<and> (\<forall>w e. ev \<noteq> Claimed rid w e)" using L1(1) Cons.prems(2)
    by (cases ev) (auto split: if_splits option.splits lease_state.splits)
  with Cons.IH [OF L1(2)] show ?case by auto
qed simp

section \<open>Properties\<close>

definition sample_run :: "uuid \<Rightarrow> string \<Rightarrow> new_run" where
  "sample_run i t = \<lparr>nr_id = i, nr_tenant = t, nr_agent = ''agent'', nr_user = None,
     nr_recipe = ''recipe'', nr_status = ''queued'', nr_input = JNull, nr_requested = JArray [],
     nr_granted = JArray [], nr_error = None\<rparr>"

definition sample_stmts :: "(time \<times> run_stmt) list" where
  "sample_stmts = [(0, Insert (sample_run ''r'' ''t'')), (10, Claim ''r'' ''w1'' 5),
     (12000, Requeue 10), (12001, Claim ''r'' ''w2'' 5), (12002, Succeed ''r'' ''w1''),
     (12003, Succeed ''r'' ''w2'')]"

lemma sample_ok: "list_all stmt_ok sample_stmts" "runs_ok []"
  by (simp_all add: sample_stmts_def sample_run_def runs_ok_def)

text \<open>The first worker's completion comes after its lease was given to another: it is refused.\<close>

lemma sample_log:
  "snd (exec_stmts (sqlite (\<lambda>_. True)) sample_stmts []) =
     [Claimed ''r'' ''w1'' 15, Requeued ''r'' 12000, Claimed ''r'' ''w2'' 12006,
      Finished ''r'' ''w2'']"
  by (simp add: sample_stmts_def sqlite_def create_run_sqlite_def insert_check_def run_statuses_def
      sample_run_def row_of_new_def try_claim_sqlite_def update_where_def claimable_sqlite_def
      mark_claimed_def clamp_lease_ms_def i64_max_def requeue_expired_runs_sqlite_def
      lease_expired_sqlite_def secs_def mark_requeued_def requeued_ids_def
      mark_run_succeeded_sqlite_def Let_def)

text \<open>
  (C7) Refinement: whatever statements any number of workers, schedulers and API servers issue,
  in any order and at any times, on PostgreSQL or on SQLite, the log they leave is legal for the
  one-lease-per-run specification, the leases written in the table are the abstract ones, and the
  table keeps its invariant: distinct ids, and an owner and an expiry on exactly the running rows.
\<close>

theorem stores_refine_leases:
  assumes "S = postgres fk \<or> S = sqlite fk" and "runs_ok rows" and "list_all stmt_ok ss"
    and "exec_stmts S ss rows = (rows', evs)"
  shows "runs_ok rows' \<and> lease_log evs (lease_of rows) = Some (lease_of rows')"
  using assms pg.exec_stmts_refines lite.exec_stmts_refines by blast

theorem stores_refine_leases_witness:
  "let (rows, evs) = exec_stmts (sqlite (\<lambda>_. True)) sample_stmts []
   in evs \<noteq> [] \<and> runs_ok rows \<and> lease_log evs (lease_of []) = Some (lease_of rows)"
proof -
  obtain rows evs where e: "exec_stmts (sqlite (\<lambda>_. True)) sample_stmts [] = (rows, evs)" by force
  with sample_log have "evs \<noteq> []" by auto
  with stores_refine_leases [OF disjI2 [OF refl] sample_ok(2,1) e] e show ?thesis by simp
qed

text \<open>
  (C8) Exclusive execution: if a run is claimed twice, it was given back in between, at a time
  after the expiry of the lease then in force; and a run that a worker has finished is never
  claimed again.
\<close>

theorem claims_are_exclusive:
  assumes "S = postgres fk \<or> S = sqlite fk" and "runs_ok rows" and "list_all stmt_ok ss"
    and "exec_stmts S ss rows = (rows', evs)"
  shows "(evs = a @ Claimed rid w e # b @ Claimed rid w' e' # c \<longrightarrow>
      (\<exists>b1 t b2 x. b = b1 @ Requeued rid t # b2 \<and>
        expiry_in_force rid (a @ Claimed rid w e # b1) = Some x \<and> x < t)) \<and>
    (evs = a @ Finished rid w # b \<longrightarrow> Claimed rid w' e' \<notin> set b)"
proof -
  have legal: "lease_log evs (lease_of rows) \<noteq> None"
    using assms pg.exec_stmts_refines lite.exec_stmts_refines by (metis option.discI)
  have "Claimed rid w' e' \<notin> set b" if "evs = a @ Finished rid w # b"
  proof -
    from legal that obtain L1 L2 where "lease_event (Finished rid w) L1 = Some L2"
        and 2: "lease_log b L2 \<noteq> None"
      by (auto simp: lease_log_append Option.bind_eq_None_conv simp del: lease_event.simps)
    then have "L2 rid = Some Done" by (auto split: option.splits lease_state.splits if_splits)
    with 2 lease_log_done show ?thesis by blast
  qed
  with legal lease_log_two_claims show ?thesis by blast
qed

theorem claims_are_exclusive_witness:
  "\<exists>b1 t b2 x. [Requeued ''r'' 12000] = b1 @ Requeued ''r'' t # b2 \<and>
     expiry_in_force ''r'' ([] @ Claimed ''r'' ''w1'' 15 # b1) = Some x \<and> x < t"
proof -
  obtain rows evs where e: "exec_stmts (sqlite (\<lambda>_. True)) sample_stmts [] = (rows, evs)" by force
  with sample_log have evs: "evs = [] @ Claimed ''r'' ''w1'' 15 # [Requeued ''r'' 12000] @
      Claimed ''r'' ''w2'' 12006 # [Finished ''r'' ''w2'']"
    by simp
  from claims_are_exclusive [OF disjI2 [OF refl] sample_ok(2,1) e] evs show ?thesis by blast
qed

end
