(* ===== verification/RunClaims.thy ===== *)
theory RunClaims
  imports RunLeases
begin

text \<open>
  What one claim does, seen alone: which run it takes, the in-flight caps, the order of the
  queue; how far the two back ends agree; deduplication of active runs; the scheduler lease.
\<close>

section \<open>The claim, in closed form\<close>

abbreviation under_cap :: "int \<Rightarrow> runs \<Rightarrow> run_row \<Rightarrow> bool" where
  "under_cap tenant_max rows c \<equiv> count_tenant_running (r_tenant c) rows < max tenant_max 1"

lemma try_claim_row:
  assumes "runs_ok rows" and "c \<in> set rows" and "claimable now c"
  shows "try_claim now w l (r_id c) rows =
    (Some (mark_claimed now w l c), upd_row (r_id c) (mark_claimed now w l) rows)"
proof -
  have "row_of rows (r_id c) = Some c" using runs_ok_mem [OF assms(1,2)] by simp
  with assms(1,3) show ?thesis
    by (simp add: try_claim_def filter_by_id update_by_id runs_ok_def)
qed

lemma claim_loop_find:
  assumes "runs_ok rows" and "set cs \<subseteq> {c \<in> set rows. claimable now c}"
  shows "claim_loop now w l cap cs rows =
    (case find (\<lambda>c. count_tenant_running (r_tenant c) rows < cap) cs of
       None \<Rightarrow> (None, rows)
     | Some c \<Rightarrow> (Some (mark_claimed now w l c), upd_row (r_id c) (mark_claimed now w l) rows))"
  using assms(2) by (induction cs) (auto simp: try_claim_row [OF assms(1)])

lemma candidates_subset: "set (claim_candidates now rows) \<subseteq> {c \<in> set rows. claimable now c}"
  unfolding claim_candidates_def by (rule set_expired)

lemma claim_closed_form:
  assumes "runs_ok rows"
  shows "claim_next_queued_run_with_limits now w l gmax tmax rows =
    (if max gmax 1 \<le> count_running rows then (None, rows)
     else case find (under_cap tmax rows) (claim_candidates now rows) of
       None \<Rightarrow> (None, rows)
     | Some c \<Rightarrow> (Some (mark_claimed now w l c), upd_row (r_id c) (mark_claimed now w l) rows))"
  using claim_loop_find [OF assms candidates_subset]
  by (auto simp: claim_next_queued_run_with_limits_def Let_def)

section \<open>Counting\<close>

lemma count_after_claim:
  assumes "runs_ok rows" and "c \<in> set rows" and "r_status c = ''queued''"
  shows "length (filter (\<lambda>r. P (r_tenant r) \<and> r_status r = ''running'')
      (upd_row (r_id c) (mark_claimed now w l) rows)) =
    length (filter (\<lambda>r. P (r_tenant r) \<and> r_status r = ''running'') rows) +
      (if P (r_tenant c) then 1 else 0)"
proof -
  have d: "distinct (map r_id rows)" using assms(1) by (simp add: runs_ok_def)
  from d assms(2) obtain xs ys where rows: "rows = xs @ c # ys"
      and out: "r_id c \<notin> r_id ` set xs" "r_id c \<notin> r_id ` set ys"
    by (auto simp: in_set_conv_decomp)
  have same: "upd_row (r_id c) (mark_claimed now w l) zs = zs" if "r_id c \<notin> r_id ` set zs" for zs
    using that by (intro map_idI) (auto simp: image_iff)
  show ?thesis
    using assms(3) by (simp add: rows same [OF out(1)] same [OF out(2)])
      (simp add: mark_claimed_def)
qed

lemma find_Some_split:
  "find P xs = Some x \<Longrightarrow> \<exists>ys zs. xs = ys @ x # zs \<and> (\<forall>y \<in> set ys. \<not> P y) \<and> P x"
proof (induction xs)
  case (Cons a xs)
  show ?case
  proof (cases "P a")
    case False
    with Cons obtain ys zs where "xs = ys @ x # zs" "\<forall>y \<in> set ys. \<not> P y" "P x" by auto
    with False show ?thesis by (intro exI [of _ "a # ys"] exI [of _ zs]) auto
  qed (use Cons.prems in force)
qed simp

section \<open>Properties of the claim\<close>

text \<open>
  A claim, seen as one step, takes exactly the first of the 64 best-ranked claimable runs
  whose tenant is below its cap, provided the global cap is not reached; it marks that run as
  running for the worker until the lease ends, counts the attempt, and leaves every other row
  as it was. Afterwards both caps still hold. It returns nothing in all other cases.
\<close>

theorem claim_takes_first_eligible:
  assumes "runs_ok rows"
    and "claim_next_queued_run_with_limits now w l gmax tmax rows = (res, rows')"
  shows "case res of
      None \<Rightarrow> rows' = rows \<and> (max gmax 1 \<le> count_running rows \<or>
        (\<forall>c \<in> set (claim_candidates now rows). \<not> under_cap tmax rows c))
    | Some r \<Rightarrow> (\<exists>before c after. claim_candidates now rows = before @ c # after \<and>
        (\<forall>b \<in> set before. \<not> under_cap tmax rows b) \<and> under_cap tmax rows c \<and>
        r = mark_claimed now w l c \<and> row_of rows (r_id c) = Some c \<and>
        row_of rows' (r_id c) = Some r \<and> (\<forall>i. i \<noteq> r_id c \<longrightarrow> row_of rows' i = row_of rows i) \<and>
        count_running rows' \<le> max gmax 1 \<and>
        count_tenant_running (r_tenant c) rows' \<le> max tmax 1)"
proof (cases res)
  case None
  with assms show ?thesis
    by (auto simp: claim_closed_form find_None_iff split: if_splits option.splits)
next
  case (Some r)
  with assms obtain c where c: "find (under_cap tmax rows) (claim_candidates now rows) = Some c"
      and r: "r = mark_claimed now w l c"
      and rows': "rows' = upd_row (r_id c) (mark_claimed now w l) rows"
      and g: "count_running rows < max gmax 1"
    by (auto simp: claim_closed_form split: if_splits option.splits)
  obtain before after where split: "claim_candidates now rows = before @ c # after"
      "\<forall>b \<in> set before. \<not> under_cap tmax rows b" "under_cap tmax rows c"
    using find_Some_split [OF c] by blast
  have mem: "c \<in> set rows" "r_status c = ''queued''"
    using split(1) candidates_subset [of now rows] by (auto simp: claimable_def)
  have row: "row_of rows (r_id c) = Some c" using runs_ok_mem [OF assms(1) mem(1)] by simp
  have "row_of rows' i = row_of rows i" if "i \<noteq> r_id c" for i
    using that unfolding rows' by (cases "row_of rows i")
      (auto simp: row_of_map [where f="mark_claimed now w l"] dest: row_of_Some)
  moreover have "row_of rows' (r_id c) = Some r"
    unfolding rows' r by (simp add: row row_of_map [where f="mark_claimed now w l"])
  moreover have "count_running rows' \<le> max gmax 1"
    using g count_after_claim [OF assms(1) mem, of "\<lambda>_. True" now w l]
    by (simp add: count_running_def rows')
  moreover have "count_tenant_running (r_tenant c) rows' \<le> max tmax 1"
    using split(3) count_after_claim [OF assms(1) mem, of "\<lambda>t. t = r_tenant c" now w l]
    by (simp add: count_tenant_running_def rows')
  ultimately show ?thesis using Some split r row by auto
qed

section \<open>Limits of the caps\<close>

definition row_at :: "uuid \<Rightarrow> string \<Rightarrow> time \<Rightarrow> run_row" where
  "row_at i t created = row_of_new created None (sample_run i t)"

lemma row_at_fields [simp]:
  "r_id (row_at i t c) = i" "r_tenant (row_at i t c) = t" "r_status (row_at i t c) = ''queued''"
  "r_created (row_at i t c) = c" "r_expires (row_at i t c) = None" "r_input (row_at i t c) = JNull"
  "row_ok (row_at i t c)"
  by (simp_all add: row_at_def row_of_new_def sample_run_def row_ok_def run_statuses_def)

lemma queue_class_null: "queue_class JNull = ''interactive''"
  by code_simp

lemma queue_rank_row_at [simp]: "queue_rank now (row_at i t c) = 0"
  by (simp add: queue_rank_def queue_class_null)

text \<open>
  (C19) The caps are not kept across interleavings: the global count is read once, before the
  loop. Two workers with a global cap of one both read a count of zero; the second claims the
  next tenant's run after the first has claimed, and two runs are running.
\<close>

definition two_queued :: runs where
  "two_queued = [row_at ''a'' ''t1'' 0, row_at ''b'' ''t2'' 1]"

theorem global_cap_race:
  "\<exists>ra rb rows1 rows2. runs_ok two_queued \<and> count_running two_queued < 1 \<and>
     claim_next_queued_run_with_limits 2 ''w1'' 100 1 5 two_queued = (Some ra, rows1) \<and>
     claim_loop 2 ''w2'' 100 5 (claim_candidates 2 two_queued) rows1 = (Some rb, rows2) \<and>
     count_running rows2 = 2"
  by (simp add: two_queued_def claim_next_queued_run_with_limits_def claim_candidates_def
      claimable_def count_running_def count_tenant_running_def try_claim_def update_where_def
      mark_claimed_def runs_ok_def)

text \<open>
  (C20) Head-of-line blocking: candidates are cut to 64 before the tenant caps are looked at, so
  64 older runs of one tenant that is at its cap hide every other tenant's run. The claim finds
  nothing although a run of a tenant with nothing running is queued and the global cap is free.
\<close>

definition ids :: "nat \<Rightarrow> uuid list" where
  "ids n = map (\<lambda>k. replicate k CHR ''x'') [0..<n]"

definition blocked_queue :: runs where
  "blocked_queue = mark_claimed 0 ''w0'' 1000 (row_at ''busy'' ''t1'' 0) #
     map (\<lambda>i. row_at i ''t1'' 1) (ids 64) @ [row_at ''victim'' ''t2'' 2]"

lemma ids_props: "length (ids n) = n" "distinct (ids n)" "i \<in> set (ids n) \<Longrightarrow> set i \<subseteq> {CHR ''x''}"
  by (auto simp: ids_def distinct_map inj_on_def)

lemma blocked_candidates:
  "claim_candidates 5 blocked_queue = map (\<lambda>i. row_at i ''t1'' 1) (ids 64)"
proof -
  let ?xs = "map (\<lambda>i. row_at i ''t1'' 1) (ids 64)" and ?v = "row_at ''victim'' ''t2'' 2"
  let ?k = "\<lambda>r. (queue_rank 5 r, r_created r)"
  have "filter (claimable 5) blocked_queue = ?xs @ [?v]"
    by (simp add: blocked_queue_def claimable_def mark_claimed_def filter_True)
  moreover have "sorted (map ?k (?xs @ [?v]))" 
    by (simp only: map_append sorted_append) (auto simp: sorted_map sorted_wrt_map)
  ultimately have "claim_candidates 5 blocked_queue = take 64 (?xs @ [?v])"
    unfolding claim_candidates_def by (simp only: sort_key_id_if_sorted)
  then show ?thesis by (simp add: ids_props(1))
qed

theorem claim_head_of_line_blocking:
  "runs_ok blocked_queue \<and> count_running blocked_queue = 1 \<and>
   row_at ''victim'' ''t2'' 2 \<in> set blocked_queue \<and>
   claimable 5 (row_at ''victim'' ''t2'' 2) \<and> count_tenant_running ''t2'' blocked_queue = 0 \<and>
   claim_next_queued_run_with_limits 5 ''w'' 1000 10 1 blocked_queue = (None, blocked_queue)"
proof (intro conjI)
  have "''busy'' \<notin> set (ids 64)" "''victim'' \<notin> set (ids 64)" by (auto dest: ids_props(3))
  then show ok: "runs_ok blocked_queue"
    by (simp add: blocked_queue_def runs_ok_def ids_props(2) row_ok_updates comp_def
        list_all_iff)
  have t1: "count_tenant_running ''t1'' blocked_queue = 1"
    by (simp add: blocked_queue_def count_tenant_running_def mark_claimed_def)
  show "claim_next_queued_run_with_limits 5 ''w'' 1000 10 1 blocked_queue = (None, blocked_queue)"
    unfolding claim_closed_form [OF ok] blocked_candidates
    by (subst find_None_iff [THEN iffD2]) (auto simp: t1)
qed (simp_all add: blocked_queue_def count_running_def count_tenant_running_def mark_claimed_def
    claimable_def)

section \<open>Agreement of the back ends\<close>

abbreviation whole :: "time \<Rightarrow> bool" where
  "whole t \<equiv> t mod 1000 = 0"

definition whole_rows :: "runs \<Rightarrow> bool" where
  "whole_rows rows \<longleftrightarrow>
     (\<forall>r \<in> set rows. whole (r_created r) \<and> (\<forall>e. r_expires r = Some e \<longrightarrow> whole e))"

lemma secs_mult: "whole a \<Longrightarrow> a = 1000 * secs a"
  unfolding secs_def by (metis add.right_neutral mult_div_mod_eq)

lemma secs_whole:
  assumes "whole a" and "whole b"
  shows "secs a < secs b \<longleftrightarrow> a < b" and "secs a \<le> secs b \<longleftrightarrow> a \<le> b"
    and "secs a = secs b \<longleftrightarrow> a = b"
  using secs_mult [OF assms(1)] secs_mult [OF assms(2)] by linarith+

text \<open>Sorting by two keys that order a list's elements alike gives the same list.\<close>

lemma sort_key_order_iso:
  fixes f :: "'r \<Rightarrow> 'k::linorder" and g :: "'r \<Rightarrow> 'l::linorder"
  assumes "\<And>x y. x \<in> set xs \<Longrightarrow> y \<in> set xs \<Longrightarrow> f x \<le> f y \<longleftrightarrow> g x \<le> g y"
  shows "sort_key f xs = sort_key g xs"
proof -
  have ins: "insort_key f x ys = insort_key g x ys"
    if "insert x (set ys) \<subseteq> set xs" for x ys
    using that by (induction ys) (auto simp: assms)
  have "sort_key f zs = sort_key g zs" if "set zs \<subseteq> set xs" for zs
    using that by (induction zs) (auto intro!: ins)
  then show ?thesis by blast
qed

lemma whole_shift: "whole now \<Longrightarrow> whole (now - fifteen_minutes)"
  by (simp add: fifteen_minutes_def mod_diff_right_eq [symmetric])

lemma row_guards_agree:
  assumes "whole now" and "whole_rows rows" and "r \<in> set rows"
  shows "claimable_sqlite now r = claimable now r"
    and "lease_expired_sqlite now r = lease_expired now r"
    and "queue_rank_sqlite now r = queue_rank now r"
  using assms secs_whole(2) [OF _ whole_shift [OF assms(1)]]
  by (auto simp: whole_rows_def claimable_sqlite_def claimable_def lease_expired_sqlite_def
      lease_expired_def queue_rank_sqlite_def queue_rank_def secs_whole split: option.split)

lemma update_where_cong:
  "(\<And>r. r \<in> set rows \<Longrightarrow> P r = Q r) \<Longrightarrow> update_where P f rows = update_where Q f rows"
  by (auto simp: update_where_def cong: filter_cong)

lemma try_claim_agrees:
  assumes "runs_ok rows" and "whole now" and "whole_rows rows"
  shows "try_claim_sqlite now w l rid rows = try_claim now w l rid rows"
proof (cases "row_of rows rid")
  case (Some r)
  then have "r \<in> set rows" by (auto dest: row_of_Some)
  with Some row_guards_agree(1) [OF assms(2,3), of r] assms(1) show ?thesis
    by (simp add: try_claim_sqlite_def try_claim_def update_by_id filter_by_id runs_ok_def
        find_upd_row)
qed (use assms(1) in \<open>simp add: try_claim_sqlite_def try_claim_def update_by_id filter_by_id
  runs_ok_def\<close>)

lemma claim_loop_agrees:
  assumes "runs_ok rows" and "whole now" and "whole_rows rows"
  shows "claim_loop_sqlite now w l cap cs rows = claim_loop now w l cap cs rows"
proof (induction cs)
  case (Cons c cs)
  have "rows' = rows" if "try_claim now w l (r_id c) rows = (None, rows')" for rows'
    using pg.claim_law [OF assms(1), of _ now w l "r_id c" None rows'] that
    by (auto simp: postgres_def)
  with Cons show ?case by (auto simp: try_claim_agrees [OF assms] split: option.split prod.split)
qed simp

lemma candidates_agree:
  assumes "whole now" and "whole_rows rows"
  shows "claim_candidates_sqlite 64 now rows = claim_candidates now rows"
proof -
  have "filter (claimable_sqlite now) rows = filter (claimable now) rows"
    using row_guards_agree(1) [OF assms] by (auto intro: filter_cong)
  moreover have "sort_key (\<lambda>r. (queue_rank_sqlite now r, secs (r_created r))) (filter (claimable now) rows) =
      sort_key (\<lambda>r. (queue_rank now r, r_created r)) (filter (claimable now) rows)"
    by (rule sort_key_order_iso)
      (use assms(2) in \<open>auto simp: row_guards_agree(3) [OF assms] less_eq_prod_def secs_whole whole_rows_def\<close>)
  ultimately show ?thesis by (simp add: claim_candidates_sqlite_def claim_candidates_def)
qed

lemma expired_agree:
  assumes "whole now" and "whole_rows rows"
  shows "sort_key (\<lambda>r. secs (the (r_expires r))) (filter (lease_expired_sqlite now) rows) =
    sort_key (\<lambda>r. the (r_expires r)) (filter (lease_expired now) rows)"
proof -
  have "filter (lease_expired_sqlite now) rows = filter (lease_expired now) rows"
    using row_guards_agree(2) [OF assms] by (auto intro: filter_cong)
  moreover have "sort_key (\<lambda>r. secs (the (r_expires r))) (filter (lease_expired now) rows) =
      sort_key (\<lambda>r. the (r_expires r)) (filter (lease_expired now) rows)"
  proof (rule sort_key_order_iso)
    fix x y assume "x \<in> set (filter (lease_expired now) rows)" "y \<in> set (filter (lease_expired now) rows)"
    with assms(2) have "whole (the (r_expires x))" "whole (the (r_expires y))"
      by (auto simp: whole_rows_def dest!: lease_expired_running)
    then show "secs (the (r_expires x)) \<le> secs (the (r_expires y)) \<longleftrightarrow>
        the (r_expires x) \<le> the (r_expires y)" by (rule secs_whole(2))
  qed
  ultimately show ?thesis by simp
qed

text \<open>
  (C9) Back-end parity: on a table that meets the invariant and whose timestamps, like the
  clock, fall on whole seconds, SQLite and PostgreSQL do the same: claim, renewal, completion
  and requeue return the same results and leave the same rows.
\<close>

theorem sqlite_agrees_on_whole_seconds:
  assumes "runs_ok rows" and "whole now" and "whole_rows rows"
  shows "claim_next_queued_run_with_limits_sqlite now w l gmax tmax rows =
      claim_next_queued_run_with_limits now w l gmax tmax rows \<and>
    renew_run_lease_sqlite now rid w l rows = renew_run_lease now rid w l rows \<and>
    mark_run_succeeded_sqlite now rid w rows = mark_run_succeeded now rid w rows \<and>
    mark_run_failed_sqlite now rid w err rows = mark_run_failed now rid w err rows \<and>
    requeue_expired_runs_sqlite now limit rows = requeue_expired_runs now limit rows"
proof (intro conjI)
  have owner: "r \<in> set rows \<Longrightarrow> (r_id r = rid \<and> r_status r = ''running'' \<and>
      (r_owner r = Some w \<or> r_owner r = None)) =
      (r_id r = rid \<and> r_status r = ''running'' \<and> r_owner r = Some w)" for r
    using runs_ok_mem [OF assms(1), of r] by (auto simp: row_ok_def)
  show "claim_next_queued_run_with_limits_sqlite now w l gmax tmax rows =
      claim_next_queued_run_with_limits now w l gmax tmax rows"
    unfolding claim_next_queued_run_with_limits_sqlite_def claim_next_queued_run_with_limits_def
      candidates_agree [OF assms(2,3)] claim_loop_agrees [OF assms] by (rule refl)
  show "renew_run_lease_sqlite now rid w l rows = renew_run_lease now rid w l rows"
    unfolding renew_run_lease_sqlite_def renew_run_lease_def
    by (subst update_where_cong) (use assms in \<open>auto simp: secs_whole whole_rows_def split: option.split\<close>)
  show "mark_run_succeeded_sqlite now rid w rows = mark_run_succeeded now rid w rows"
    unfolding mark_run_succeeded_sqlite_def mark_run_succeeded_def
    by (simp only: update_where_cong [OF owner])
  show "mark_run_failed_sqlite now rid w err rows = mark_run_failed now rid w err rows"
    unfolding mark_run_failed_sqlite_def mark_run_failed_def
    by (simp only: update_where_cong [OF owner])
  show "requeue_expired_runs_sqlite now limit rows = requeue_expired_runs now limit rows"
    unfolding requeue_expired_runs_sqlite_def requeue_expired_runs_def expired_agree [OF assms(2,3)]
    by (rule refl)
qed

definition sample_rows :: runs where
  "sample_rows = [(row_at ''r'' ''t'' 1000)\<lparr>r_status := ''running'', r_owner := Some ''w'',
     r_expires := Some 8000\<rparr>, row_at ''q'' ''t'' 2000]"

lemma sample_rows_ok: "runs_ok sample_rows" "whole_rows sample_rows"
  by (simp_all add: sample_rows_def runs_ok_def whole_rows_def row_at_def row_of_new_def
      sample_run_def row_ok_def run_statuses_def)

theorem sqlite_agrees_on_whole_seconds_witness:
  "claim_next_queued_run_with_limits_sqlite 9000 ''v'' 5 1 1 sample_rows =
     claim_next_queued_run_with_limits 9000 ''v'' 5 1 1 sample_rows \<and>
   requeue_expired_runs_sqlite 9000 10 sample_rows = requeue_expired_runs 9000 10 sample_rows"
  using sqlite_agrees_on_whole_seconds [OF sample_rows_ok(1) _ sample_rows_ok(2), of 9000]
  by simp

theorem claim_takes_first_eligible_witness:
  "\<exists>r rows'. claim_next_queued_run_with_limits 3000 ''v'' 5 2 2 sample_rows = (Some r, rows') \<and>
     count_running rows' \<le> 2"
proof -
  have "filter (claimable 3000) sample_rows = [row_at ''q'' ''t'' 2000]"
    by (simp add: sample_rows_def claimable_def)
  then have c: "claim_candidates 3000 sample_rows = [row_at ''q'' ''t'' 2000]"
    by (simp add: claim_candidates_def)
  obtain res rows' where e:
    "claim_next_queued_run_with_limits 3000 ''v'' 5 2 2 sample_rows = (res, rows')" by force
  have "count_running sample_rows = 1" "count_tenant_running ''t'' sample_rows = 1"
    by (simp_all add: count_running_def count_tenant_running_def sample_rows_def)
  with e have "res \<noteq> None" by (auto simp: claim_closed_form [OF sample_rows_ok(1)] c)
  with claim_takes_first_eligible [OF sample_rows_ok(1) e] e show ?thesis by auto
qed

text \<open>
  Where the back ends differ: SQLite compares whole seconds, so a lease that ends within the
  current second cannot be renewed there although it is still live, and PostgreSQL renews it.
\<close>

theorem sqlite_renew_same_second:
  "let rows = [mark_claimed 1000 ''w'' 900 (row_at ''r'' ''t'' 0)]
   in runs_ok rows \<and> fst (renew_run_lease 1500 ''r'' ''w'' 900 rows) \<and>
      \<not> fst (renew_run_lease_sqlite 1500 ''r'' ''w'' 900 rows)"
  by (simp add: runs_ok_def row_ok_updates renew_run_lease_def renew_run_lease_sqlite_def
      update_where_def mark_claimed_def clamp_lease_ms_def i64_max_def secs_def row_ok_def
      run_statuses_def)

section \<open>Deduplication and the scheduler lease\<close>

text \<open>At most one active run for each tenant and key.\<close>

definition dedupe_ok :: "runs \<Rightarrow> bool" where
  "dedupe_ok rows \<longleftrightarrow>
     (\<forall>t k. length (filter (\<lambda>r. r_tenant r = t \<and> r_dedupe r = Some k \<and> active r) rows) \<le> 1)"

lemma sort_key_Nil: "sort_key k xs = [] \<longleftrightarrow> xs = []"
  by (metis length_0_conv length_sort)

lemma case_list_None: "(case xs of [] \<Rightarrow> None | r # _ \<Rightarrow> Some (f r)) = None \<longleftrightarrow> xs = []"
  by (cases xs) simp_all

text \<open>
  (C10) Semantic deduplication: creating a queued run with a key keeps the rule that each tenant
  has at most one active run per key; it returns nothing exactly when such a run is there, and
  then the lookup names one; otherwise, once inserted, the lookup names the new run.
\<close>

theorem create_run_dedupes:
  assumes "dedupe_ok rows" and "nr_status n = ''queued''"
    and "create_run_with_semantic_dedupe_key fk now n key rows = (Inr res, rows')"
  shows "dedupe_ok rows' \<and>
    (res = None \<longleftrightarrow> get_active_run_id_by_semantic_dedupe_key (nr_tenant n) key rows \<noteq> None) \<and>
    (case res of
       None \<Rightarrow> rows' = rows
     | Some r \<Rightarrow> rows' = rows @ [r] \<and> r_id r = nr_id n \<and>
         get_active_run_id_by_semantic_dedupe_key (nr_tenant n) key rows' = Some (nr_id n))"
proof -
  let ?act = "filter (\<lambda>r. r_tenant r = nr_tenant n \<and> r_dedupe r = Some key \<and> active r)"
  have look: "get_active_run_id_by_semantic_dedupe_key (nr_tenant n) key xs = None \<longleftrightarrow> ?act xs = []"
    for xs unfolding get_active_run_id_by_semantic_dedupe_key_def case_list_None
    by (simp only: rev_is_Nil_conv sort_key_Nil)
  have conf: "dedupe_conflict n key rows \<longleftrightarrow> ?act rows \<noteq> []"
    using assms(2) by (auto simp: dedupe_conflict_def list_ex_iff filter_empty_conv)
  show ?thesis
  proof (cases res)
    case None
    with assms(3) have "dedupe_conflict n key rows" "rows' = rows"
      by (auto simp: create_run_with_semantic_dedupe_key_def Let_def split: if_splits option.splits)
    with None assms(1) look conf show ?thesis by simp
  next
    case (Some r)
    with assms(3) have nc: "\<not> dedupe_conflict n key rows" and r: "r = row_of_new now (Some key) n"
        and rows': "rows' = rows @ [r]"
      by (auto simp: create_run_with_semantic_dedupe_key_def Let_def split: if_splits option.splits)
    have fields: "r_tenant r = nr_tenant n" "r_dedupe r = Some key" "r_status r = ''queued''" "r_id r = nr_id n"
      using assms(2) by (simp_all add: r row_of_new_def)
    have "dedupe_ok rows'"
      using assms(1) nc conf by (auto simp: dedupe_ok_def rows' fields)
    moreover have "get_active_run_id_by_semantic_dedupe_key (nr_tenant n) key rows' = Some (nr_id n)"
      using nc conf by (simp add: get_active_run_id_by_semantic_dedupe_key_def rows' fields)
    ultimately show ?thesis using Some nc conf look rows' fields by simp
  qed
qed

theorem create_run_dedupes_witness:
  "\<exists>r rows'. create_run_with_semantic_dedupe_key (\<lambda>_. True) 5 (sample_run ''r'' ''t'') ''k'' [] =
     (Inr (Some r), rows') \<and> dedupe_ok rows' \<and>
     get_active_run_id_by_semantic_dedupe_key ''t'' ''k'' rows' = Some ''r''"
proof -
  have n: "nr_status (sample_run ''r'' ''t'') = ''queued''" "nr_tenant (sample_run ''r'' ''t'') = ''t''"
    "nr_id (sample_run ''r'' ''t'') = ''r''"
    by (simp_all add: sample_run_def)
  have e: "create_run_with_semantic_dedupe_key (\<lambda>_. True) 5 (sample_run ''r'' ''t'') ''k'' [] =
      (Inr (Some (row_of_new 5 (Some ''k'') (sample_run ''r'' ''t''))),
       [row_of_new 5 (Some ''k'') (sample_run ''r'' ''t'')])"
    by (simp add: create_run_with_semantic_dedupe_key_def n run_statuses_def dedupe_conflict_def
        insert_check_def Let_def)
  have "dedupe_ok []" by (simp add: dedupe_ok_def)
  from create_run_dedupes [OF this n(1) e] show ?thesis using n e by simp
qed

text \<open>
  The scheduler's lock as an interface: acquiring fails only while another owner's lease has not
  lapsed, and a lease lapses only after its expiry.
\<close>

locale scheduler_lock =
  fixes acquire :: "time \<Rightarrow> scheduler_lease_params \<Rightarrow> (string \<rightharpoonup> scheduler_lease) \<Rightarrow>
      bool \<times> (string \<rightharpoonup> scheduler_lease)"
    and lapsed :: "time \<Rightarrow> time \<Rightarrow> bool"
  assumes lapsed_late: "lapsed e now \<Longrightarrow> e < now"
    and acquire_law: "acquire now p L =
      (if (\<exists>l. L (slp_name p) = Some l \<and> sl_owner l \<noteq> slp_owner p \<and> \<not> lapsed (sl_expires l) now)
       then (False, L)
       else (True, L(slp_name p \<mapsto>
         \<lparr>sl_owner = slp_owner p, sl_expires = now + clamp_lease_ms (slp_for p)\<rparr>)))"
begin

lemma exclusive:
  assumes "acquire now p L = (True, L')" and "slp_name q = slp_name p" and "slp_owner q \<noteq> slp_owner p"
    and "now' \<le> now + clamp_lease_ms (slp_for p)"
  shows "acquire now' q L' = (False, L')"
proof -
  have "L' (slp_name q) = Some \<lparr>sl_owner = slp_owner p, sl_expires = now + clamp_lease_ms (slp_for p)\<rparr>"
    using assms(1,2) by (auto simp: acquire_law [of now] split: if_splits)
  moreover have "\<not> lapsed (now + clamp_lease_ms (slp_for p)) now'"
    using lapsed_late [of _ now'] assms(4) by fastforce
  ultimately show ?thesis using assms(3) by (simp add: acquire_law [of now'])
qed

lemma reentrant:
  assumes "acquire now p L = (True, L')" and "slp_name q = slp_name p" and "slp_owner q = slp_owner p"
  shows "fst (acquire now' q L')"
  using assms by (auto simp: acquire_law [of now] acquire_law [of now'] split: if_splits)

end

interpretation pg_lock: scheduler_lock try_acquire_scheduler_lease "\<lambda>e now. e < now"
  by unfold_locales (auto simp: try_acquire_scheduler_lease_def Let_def split: option.splits)

interpretation lite_lock: scheduler_lock try_acquire_scheduler_lease_sqlite "\<lambda>e now. secs e < secs now"
  by unfold_locales (auto simp: try_acquire_scheduler_lease_sqlite_def Let_def secs_mono
      split: option.splits)

text \<open>
  One scheduler at a time: once a worker has the scheduler lease, no other worker gets it
  before its expiry has passed, on either back end; the holder itself can always extend it.
\<close>

theorem scheduler_lease_exclusive:
  assumes "acq = try_acquire_scheduler_lease \<or> acq = try_acquire_scheduler_lease_sqlite"
    and "acq now p L = (True, L')" and "slp_name q = slp_name p"
  shows "(slp_owner q \<noteq> slp_owner p \<and> now' \<le> now + clamp_lease_ms (slp_for p) \<longrightarrow>
      acq now' q L' = (False, L')) \<and>
    (slp_owner q = slp_owner p \<longrightarrow> fst (acq now' q L'))"
  using assms(1)
proof
  assume [simp]: "acq = try_acquire_scheduler_lease"
  show ?thesis
    using assms(2,3) pg_lock.exclusive [of now p L L' q now'] pg_lock.reentrant [of now p L L' q now']
    by simp
next
  assume [simp]: "acq = try_acquire_scheduler_lease_sqlite"
  show ?thesis
    using assms(2,3) lite_lock.exclusive [of now p L L' q now']
      lite_lock.reentrant [of now p L L' q now']
    by simp
qed

theorem scheduler_lease_exclusive_witness:
  "let p = \<lparr>slp_name = ''s'', slp_owner = ''w1'', slp_for = 100\<rparr>;
       q = \<lparr>slp_name = ''s'', slp_owner = ''w2'', slp_for = 100\<rparr>
   in \<not> fst (try_acquire_scheduler_lease 50 q (snd (try_acquire_scheduler_lease 0 p Map.empty)))"
proof -
  let ?p = "\<lparr>slp_name = ''s'', slp_owner = ''w1'', slp_for = 100\<rparr>"
  let ?q = "\<lparr>slp_name = ''s'', slp_owner = ''w2'', slp_for = 100\<rparr>"
  obtain L' where L': "try_acquire_scheduler_lease 0 ?p Map.empty = (True, L')"
    by (simp add: try_acquire_scheduler_lease_def)
  have "(50::int) \<le> 0 + clamp_lease_ms 100" by (simp add: clamp_lease_ms_def i64_max_def)
  with scheduler_lease_exclusive [OF disjI1 [OF refl] L', of ?q 50] L' show ?thesis by simp
qed

end
