(* ===== verification/ObjectStore.thy ===== *)
theory ObjectStore
  imports Worker "HOL-Library.Sublist"
begin

text \<open>
  The object store of the worker: path sanitising, the artifact root of a tenant and the
  \<open>object.write\<close> connector (\<open>worker/src/lib.rs\<close>), with the back end choice of
  \<open>core/src/storage.rs\<close>. The file system is a map from paths to contents; an argument says how
  creating a directory or writing a file fails. Symbolic links are not modelled.
\<close>

section \<open>Choice of the database back end\<close>

datatype storage_backend = Postgres | Sqlite

fun storage_backend_as_str :: "storage_backend \<Rightarrow> string" where
  "storage_backend_as_str Postgres = ''postgres''"
| "storage_backend_as_str Sqlite = ''sqlite''"

record storage_backend_error =
  sbe_database_url :: string
  sbe_reason :: string

definition detect_storage_backend :: "string \<Rightarrow> storage_backend_error + storage_backend" where
  "detect_storage_backend database_url =
     (let trimmed = trim database_url; lower = to_ascii_lowercase trimmed
      in if trimmed = [] then
           Inl \<lparr>sbe_database_url = database_url, sbe_reason = ''empty value''\<rparr>
         else if starts_with lower ''postgres://'' \<or> starts_with lower ''postgresql://''
         then Inr Postgres
         else if starts_with lower ''sqlite:'' then Inr Sqlite
         else Inl \<lparr>sbe_database_url = database_url, sbe_reason =
           ''unsupported URL scheme (expected postgres://, postgresql://, or sqlite:)''\<rparr>)"

section \<open>Paths\<close>

fun push_components :: "path \<Rightarrow> path_component list \<Rightarrow> path \<Rightarrow> string + path" where
  "push_components path [] cleaned = Inr cleaned"
| "push_components path (CurDir # cs) cleaned = push_components path cs cleaned"
| "push_components path (Normal part # cs) cleaned =
     push_components path cs (path_push cleaned part)"
| "push_components path (c # cs) cleaned = Inl (''unsafe path component in '' @ path)"

definition sanitize_relative_path :: "path \<Rightarrow> string + path" where
  "sanitize_relative_path path =
     (if is_absolute path then Inl (''absolute paths are not allowed: '' @ path)
      else case push_components path (components path) [] of
        Inl e \<Rightarrow> Inl e
      | Inr cleaned \<Rightarrow>
          if cleaned = [] then Inl ''empty artifact path is not allowed'' else Inr cleaned)"

definition tenant_scoped_artifact_root :: "path \<Rightarrow> string \<Rightarrow> string + path" where
  "tenant_scoped_artifact_root artifact_root tenant_id =
     (case sanitize_relative_path tenant_id of
        Inl e \<Rightarrow> Inl e
      | Inr safe_tenant_path \<Rightarrow>
          Inr (path_push (path_push artifact_root ''tenants'') safe_tenant_path))"

section \<open>Writing an object\<close>

type_synonym files = "path \<rightharpoonup> string"

text \<open>
  \<open>Path::parent\<close> of a path that ends with a normal component after a single separator.
\<close>

definition path_parent :: "path \<Rightarrow> path" where
  "path_parent p = rev (drop 1 (dropWhile (\<lambda>c. c \<noteq> CHR ''/'') (rev p)))"

text \<open>
  What the file system answers: the error of creating a directory, the error of a write with
  what the file holds after it (\<open>fs::write\<close> truncates before it writes).
\<close>

record disk =
  k_mkdir :: "path \<Rightarrow> string option"
  k_write :: "path \<Rightarrow> string \<Rightarrow> (string \<times> string option) option"

definition create_dir_all :: "disk \<Rightarrow> path \<Rightarrow> ('x, unit) comp" where
  "create_dir_all k parent =
     (case k_mkdir k parent of
        Some e \<Rightarrow> fail (''failed to create artifact directory '' @ parent @ '': '' @ e)
      | None \<Rightarrow> ret ())"

definition write_file :: "disk \<Rightarrow> path \<Rightarrow> string \<Rightarrow> (files, unit) comp" where
  "write_file k p content = (\<lambda>w.
     case k_write k p content of
       Some (e, left) \<Rightarrow>
         (Inl (''failed writing artifact '' @ p @ '': '' @ e), w\<lparr>w_ext := (w_ext w)(p := left)\<rparr>)
     | None \<Rightarrow> (Inr (), w\<lparr>w_ext := (w_ext w)(p \<mapsto> content)\<rparr>))"

definition execute_object_write_action ::
    "outside \<Rightarrow> disk \<Rightarrow> path \<Rightarrow> run_row \<Rightarrow> json \<Rightarrow> (files, json) comp" where
  "execute_object_write_action env k artifact_root run args =
     (case get_str args ''path'' of
        None \<Rightarrow> fail ''object.write args.path is required''
      | Some path \<Rightarrow>
     case get_str args ''content'' of
        None \<Rightarrow> fail ''object.write args.content is required''
      | Some content \<Rightarrow>
     case sanitize_relative_path path of
        Inl e \<Rightarrow> fail e
      | Inr safe_rel_path \<Rightarrow>
     case tenant_scoped_artifact_root artifact_root (r_tenant run) of
        Inl e \<Rightarrow> fail e
      | Inr tenant_root \<Rightarrow>
     let full_path = path_push tenant_root safe_rel_path
     in seq [create_dir_all k (path_parent full_path), write_file k full_path content]
          (bind (new_v4 env) (\<lambda>i.
            bind (stmt env (\<lambda>now. persist_artifact_metadata now
                   \<lparr>f_id = i, f_run = r_id run, f_path = safe_rel_path,
                    f_content_type = ''text/markdown'', f_size = int (length content),
                    f_checksum = None, f_storage_ref = full_path\<rparr>)) (\<lambda>artifact.
              ret (jobj [(''artifact_id'', JString (f_id artifact)),
                (''path'', JString (f_path artifact)),
                (''size_bytes'', JNumber (PosInt (of_int (f_size artifact)))),
                (''storage_ref'', JString (f_storage_ref artifact))])))))"

section \<open>Lemmas\<close>

text \<open>A part of a clean path: not empty, no separator, neither \<open>.\<close> nor \<open>..\<close>.\<close>

definition clean_part :: "string \<Rightarrow> bool" where
  "clean_part w \<longleftrightarrow> w \<noteq> [] \<and> CHR ''/'' \<notin> set w \<and> w \<noteq> ''.'' \<and> w \<noteq> ''..''"

lemma components_join:
  assumes "ws \<noteq> []" and "list_all clean_part ws"
  shows "components (join ''/'' ws) = map Normal ws" and "\<not> is_absolute (join ''/'' ws)"
    and "hd (split_on (join ''/'' ws) (CHR ''/'')) \<noteq> ''.''" and "join ''/'' ws \<noteq> []"
proof -
  have split: "split_on (join ''/'' ws) (CHR ''/'') = ws"
    using assms by (intro split_on_join) (auto simp: list_all_iff clean_part_def)
  obtain w rest where ws: "ws = w # rest" using assms(1) by (cases ws) auto
  with assms(2) have w: "clean_part w" by simp
  show abs: "\<not> is_absolute (join ''/'' ws)"
    using w unfolding ws is_absolute_def
    by (cases rest; cases w) (auto simp: clean_part_def str_simps)
  show hd: "hd (split_on (join ''/'' ws) (CHR ''/'')) \<noteq> ''.''"
    unfolding split using w ws by (simp add: clean_part_def)
  have "List.map_filter body_component ws = map Normal ws"
    using assms(2) by (induction ws) (auto simp: List.map_filter_def body_component_def clean_part_def)
  with abs hd split show "components (join ''/'' ws) = map Normal ws"
    by (simp add: components_def Let_def)
  show "join ''/'' ws \<noteq> []" using w unfolding ws by (cases rest) (auto simp: clean_part_def)
qed

lemma components_parts:
  "Normal w \<in> set (components p) \<Longrightarrow> clean_part w"
  using split_on_no_delim [of w p "CHR ''/''"]
  by (auto simp: components_def Let_def List.map_filter_def body_component_def clean_part_def
      split: if_splits)

lemma join_snoc: "ws \<noteq> [] \<Longrightarrow> join sep (ws @ [w]) = join sep ws @ sep @ w"
  by (induction ws rule: induct_list012) (auto simp: join_Cons)

lemma path_push_join:
  assumes "list_all clean_part ws" and "clean_part w"
  shows "path_push (join ''/'' ws) w = join ''/'' (ws @ [w])"
proof -
  have rel: "\<not> is_absolute w" using assms(2) by (cases w) (auto simp: is_absolute_def clean_part_def)
  show ?thesis
  proof (cases "ws = []")
    case False
    then obtain us v where ws: "ws = us @ [v]" by (cases ws rule: rev_cases) auto
    then have v: "v \<noteq> []" "CHR ''/'' \<notin> set v" using assms(1) by (auto simp: clean_part_def)
    then have "last (join ''/'' ws) = last v"
      by (cases "us = []") (simp_all add: ws join_snoc)
    with v have "last (join ''/'' ws) \<noteq> CHR ''/''" by (metis last_in_set)
    moreover have "join ''/'' (ws @ [w]) = join ''/'' ws @ ''/'' @ w"
      using False by (rule join_snoc)
    ultimately show ?thesis
      using rel components_join(4) [OF False assms(1)] by (simp add: path_push_def)
  qed (simp add: path_push_def rel)
qed

lemma push_components_Inr:
  assumes "push_components p cs (join ''/'' ws) = Inr q" and "list_all clean_part ws"
    and "\<And>w. Normal w \<in> set cs \<Longrightarrow> clean_part w"
  shows "\<exists>vs. q = join ''/'' (ws @ vs) \<and> list_all clean_part vs \<and>
    filter (\<lambda>c. c \<noteq> CurDir) cs = map Normal vs"
  using assms
proof (induction p cs "join ''/'' ws" arbitrary: ws rule: push_components.induct)
  case (3 path part cs)
  then have part: "clean_part part" by simp
  with "3.prems" have "push_components path cs (join ''/'' (ws @ [part])) = Inr q"
    by (simp add: path_push_join)
  with "3.hyps" [of "ws @ [part]"] "3.prems" part obtain vs where
    "q = join ''/'' ((ws @ [part]) @ vs)" "list_all clean_part vs"
    "filter (\<lambda>c. c \<noteq> CurDir) cs = map Normal vs"
    by (auto simp: path_push_join)
  with part show ?case by (intro exI [of _ "part # vs"]) simp
qed auto

lemma sanitize_Inr:
  assumes "sanitize_relative_path p = Inr q"
  shows "\<exists>ws. ws \<noteq> [] \<and> list_all clean_part ws \<and> q = join ''/'' ws \<and>
    filter (\<lambda>c. c \<noteq> CurDir) (components p) = map Normal ws"
proof -
  from assms have "push_components p (components p) (join ''/'' []) = Inr q" and "q \<noteq> []"
    by (auto simp: sanitize_relative_path_def split: if_splits sum.splits)
  moreover from push_components_Inr [OF this(1)] components_parts [of _ p] obtain vs where
    "q = join ''/'' vs" "list_all clean_part vs"
    "filter (\<lambda>c. c \<noteq> CurDir) (components p) = map Normal vs"
    by auto
  ultimately show ?thesis by (intro exI [of _ vs]) auto
qed

lemma components_push_join:
  assumes "ws \<noteq> []" and "list_all clean_part ws"
  shows "components (path_push base (join ''/'' ws)) = components base @ map Normal ws"
proof (cases "base = []")
  case True
  have "components [] = []" by code_simp
  with True components_join [OF assms] show ?thesis by (simp add: path_push_def)
next
  case False
  with components_join [OF assms] show ?thesis by (simp add: components_path_push)
qed

lemma tenant_root_Inr:
  assumes "tenant_scoped_artifact_root root t = Inr q"
  shows "\<exists>ts. ts \<noteq> [] \<and> list_all clean_part ts \<and>
    filter (\<lambda>c. c \<noteq> CurDir) (components t) = map Normal ts \<and>
    components q = components root @ Normal ''tenants'' # map Normal ts"
proof -
  from assms obtain s where s: "sanitize_relative_path t = Inr s"
      and q: "q = path_push (path_push root (join ''/'' [''tenants''])) s"
    by (auto simp: tenant_scoped_artifact_root_def split: sum.splits)
  from sanitize_Inr [OF s] obtain ts where ts: "ts \<noteq> []" "list_all clean_part ts"
      "s = join ''/'' ts" "filter (\<lambda>c. c \<noteq> CurDir) (components t) = map Normal ts"
    by blast
  have "components (path_push root (join ''/'' [''tenants''])) = components root @ [Normal ''tenants'']"
    using components_push_join [of "[''tenants'']" root] by (simp add: clean_part_def)
  then have "components q = components root @ Normal ''tenants'' # map Normal ts"
    unfolding q ts(3) components_push_join [OF ts(1,2)] by simp
  with ts show ?thesis by blast
qed

text \<open>What a write can touch, and what it does when it succeeds.\<close>

definition object_path :: "path \<Rightarrow> run_row \<Rightarrow> json \<Rightarrow> path option" where
  "object_path root run args =
     (case (get_str args ''path'', get_str args ''content'') of
        (Some p, Some _) \<Rightarrow>
          (case (sanitize_relative_path p, tenant_scoped_artifact_root root (r_tenant run)) of
             (Inr q, Inr t) \<Rightarrow> Some (path_push t q)
           | _ \<Rightarrow> None)
      | _ \<Rightarrow> None)"

lemma wp_create_dir_all:
  "wp (create_dir_all k d) Q E w =
     (case k_mkdir k d of Some e \<Rightarrow> E (''failed to create artifact directory '' @ d @ '': '' @ e) w
      | None \<Rightarrow> Q () w)"
  by (simp add: create_dir_all_def wp_simps split: option.split)

lemma wp_write_file:
  "wp (write_file k p c) Q E w =
     (case k_write k p c of
        Some (e, left) \<Rightarrow>
          E (''failed writing artifact '' @ p @ '': '' @ e) (w\<lparr>w_ext := (w_ext w)(p := left)\<rparr>)
      | None \<Rightarrow> Q () (w\<lparr>w_ext := (w_ext w)(p \<mapsto> c)\<rparr>))"
  by (simp add: wp_def write_file_def split: option.split)

lemma object_write_touches:
  assumes "execute_object_write_action env k root run args w = (res, w')"
    and "w_ext w' p \<noteq> w_ext w p"
  shows "object_path root run args = Some p"
proof -
  have "wp (execute_object_write_action env k root run args)
      (\<lambda>_ w'. \<forall>p. w_ext w' p \<noteq> w_ext w p \<longrightarrow> object_path root run args = Some p)
      (\<lambda>_ w'. \<forall>p. w_ext w' p \<noteq> w_ext w p \<longrightarrow> object_path root run args = Some p) w"
    unfolding execute_object_write_action_def Let_def
    by (auto simp: object_path_def wp_simps wp_create_dir_all wp_write_file
        split: option.split sum.split if_splits intro!: wp_stmtI)
  from wp_run [OF this assms(1)] assms(2) show ?thesis by (auto split: sum.splits)
qed

lemma object_path_components:
  assumes "object_path root run args = Some p"
  shows "\<exists>arg ts ws. get_str args ''path'' = Some arg \<and> ts \<noteq> [] \<and> ws \<noteq> [] \<and>
    components p = components root @ Normal ''tenants'' # map Normal ts @ map Normal ws \<and>
    filter (\<lambda>c. c \<noteq> CurDir) (components (r_tenant run)) = map Normal ts \<and>
    filter (\<lambda>c. c \<noteq> CurDir) (components arg) = map Normal ws"
proof -
  from assms obtain arg q t where a: "get_str args ''path'' = Some arg"
      "sanitize_relative_path arg = Inr q" "tenant_scoped_artifact_root root (r_tenant run) = Inr t"
      "p = path_push t q"
    unfolding object_path_def by (auto split: option.splits sum.splits)
  from sanitize_Inr [OF a(2)] obtain ws where ws: "ws \<noteq> []" "list_all clean_part ws" "q = join ''/'' ws"
      "filter (\<lambda>c. c \<noteq> CurDir) (components arg) = map Normal ws" by blast
  from tenant_root_Inr [OF a(3)] obtain ts where ts: "ts \<noteq> []"
      "filter (\<lambda>c. c \<noteq> CurDir) (components (r_tenant run)) = map Normal ts"
      "components t = components root @ Normal ''tenants'' # map Normal ts" by blast
  have "components p = components root @ Normal ''tenants'' # map Normal ts @ map Normal ws"
    unfolding a(4) ws(3) using components_push_join [OF ws(1,2)] ts(3) by simp
  with a(1) ws ts show ?thesis by blast
qed

section \<open>Properties\<close>

text \<open>
  (C15) Confinement: whatever the path argument and the tenant id are, the only file that
  \<open>object.write\<close> can create or change, also when it fails half way, lies under
  \<open>tenants/<tenant>\<close> of the artifact root: its components are those of the root, then \<open>tenants\<close>,
  then the named parts of the tenant id, then the named parts of the path. No \<open>..\<close> is ever
  followed and no absolute path accepted.
\<close>

theorem object_write_confined:
  assumes "execute_object_write_action env k root run args w = (res, w')"
    and "w_ext w' p \<noteq> w_ext w p"
  shows "\<exists>arg ts ws. get_str args ''path'' = Some arg \<and> ts \<noteq> [] \<and> ws \<noteq> [] \<and>
    components p = components root @ Normal ''tenants'' # map Normal ts @ map Normal ws \<and>
    filter (\<lambda>c. c \<noteq> CurDir) (components (r_tenant run)) = map Normal ts \<and>
    filter (\<lambda>c. c \<noteq> CurDir) (components arg) = map Normal ws"
  by (rule object_path_components [OF object_write_touches [OF assms]])

definition object_args :: "string \<Rightarrow> string \<Rightarrow> json" where
  "object_args p c = jobj [(''path'', JString p), (''content'', JString c)]"

lemma object_args_fields [simp]:
  "get_str (object_args p c) ''path'' = Some p" "get_str (object_args p c) ''content'' = Some c"
  by (simp_all add: object_args_def jobj_def get_str_def obj_of_list_def)

text \<open>
  Tenants do not share files: if neither tenant id's list of named parts is a prefix of the
  other's (in particular for different ids of one part), no write of the one tenant and no write of
  the other can change the same file, whatever the paths. The condition is needed: tenant \<open>a\<close>
  writing \<open>b/f\<close> and tenant \<open>a/b\<close> writing \<open>f\<close> write the same file.
\<close>

theorem object_write_tenant_isolation:
  "(\<forall>env k root run args w res w' p env2 k2 run2 args2 v res2 v'.
      execute_object_write_action env k root run args w = (res, w') \<longrightarrow> w_ext w' p \<noteq> w_ext w p \<longrightarrow>
      execute_object_write_action env2 k2 root run2 args2 v = (res2, v') \<longrightarrow> w_ext v' p \<noteq> w_ext v p \<longrightarrow>
      prefix (filter (\<lambda>c. c \<noteq> CurDir) (components (r_tenant run)))
             (filter (\<lambda>c. c \<noteq> CurDir) (components (r_tenant run2))) \<or>
      prefix (filter (\<lambda>c. c \<noteq> CurDir) (components (r_tenant run2)))
             (filter (\<lambda>c. c \<noteq> CurDir) (components (r_tenant run)))) \<and>
   object_path ''/art'' (r\<lparr>r_tenant := ''a''\<rparr>) (object_args ''b/f'' ''1'') =
   object_path ''/art'' (r\<lparr>r_tenant := ''a/b''\<rparr>) (object_args ''f'' ''2'') \<and>
   object_path ''/art'' (r\<lparr>r_tenant := ''a''\<rparr>) (object_args ''b/f'' ''1'') \<noteq> None"
proof (intro conjI allI impI)
  fix env k root run args w res w' p env2 k2 run2 args2 v res2 v'
  assume "execute_object_write_action env k root run args w = (res, w')" "w_ext w' p \<noteq> w_ext w p"
    and "execute_object_write_action env2 k2 root run2 args2 v = (res2, v')" "w_ext v' p \<noteq> w_ext v p"
  from object_path_components [OF object_write_touches [OF this(1,2)]]
    object_path_components [OF object_write_touches [OF this(3,4)]]
  obtain ts ws ts2 ws2 where
    "components root @ Normal ''tenants'' # map Normal ts @ map Normal ws =
     components root @ Normal ''tenants'' # map Normal ts2 @ map Normal ws2"
    "filter (\<lambda>c. c \<noteq> CurDir) (components (r_tenant run)) = map Normal ts"
    "filter (\<lambda>c. c \<noteq> CurDir) (components (r_tenant run2)) = map Normal ts2"
    by metis
  then have "map Normal ts @ map Normal ws = map Normal ts2 @ map Normal ws2"
      "filter (\<lambda>c. c \<noteq> CurDir) (components (r_tenant run)) = map Normal ts"
      "filter (\<lambda>c. c \<noteq> CurDir) (components (r_tenant run2)) = map Normal ts2"
    by simp_all
  then show "prefix (filter (\<lambda>c. c \<noteq> CurDir) (components (r_tenant run)))
             (filter (\<lambda>c. c \<noteq> CurDir) (components (r_tenant run2))) \<or>
      prefix (filter (\<lambda>c. c \<noteq> CurDir) (components (r_tenant run2)))
             (filter (\<lambda>c. c \<noteq> CurDir) (components (r_tenant run)))"
    by (metis prefixI prefix_same_cases)
next
  have ev: "sanitize_relative_path ''a'' = Inr ''a''" "sanitize_relative_path ''a/b'' = Inr ''a/b''"
      "sanitize_relative_path ''b/f'' = Inr ''b/f''" "sanitize_relative_path ''f'' = Inr ''f''"
      "path_push (path_push (path_push ''/art'' ''tenants'') ''a'') ''b/f'' = ''/art/tenants/a/b/f''"
      "path_push (path_push (path_push ''/art'' ''tenants'') ''a/b'') ''f'' = ''/art/tenants/a/b/f''"
    by code_simp+
  show "object_path ''/art'' (r\<lparr>r_tenant := ''a''\<rparr>) (object_args ''b/f'' ''1'') =
     object_path ''/art'' (r\<lparr>r_tenant := ''a/b''\<rparr>) (object_args ''f'' ''2'')"
    "object_path ''/art'' (r\<lparr>r_tenant := ''a''\<rparr>) (object_args ''b/f'' ''1'') \<noteq> None"
    by (simp_all add: object_path_def tenant_scoped_artifact_root_def ev)
qed

text \<open>
  Writing a path of a run twice: after a successful write, a second write of the same path in
  the same run replaces the contents of the file and then fails on the unique index
  \<open>(run_id, path)\<close>: the action is reported as failed, the file holds the new contents, and the
  artifact row still has the size of the old ones.
\<close>

theorem object_rewrite_fails_after_writing:
  assumes "execute_object_write_action env k root run args w = (Inr v, w1)"
    and "get_str args2 ''path'' = get_str args ''path''" and "get_str args2 ''content'' = Some new"
    and "\<forall>p. k_mkdir k p = None" and "\<forall>p c. k_write k p c = None"
    and "o_fault env (w_stmts w1) = None"
  shows "\<exists>p old w2. object_path root run args = Some p \<and> get_str args ''content'' = Some old \<and>
    execute_object_write_action env k root run args2 w1 = (Inl (o_sql_text env UniqueViolation), w2) \<and>
    w_ext w1 p = Some old \<and> w_ext w2 = (w_ext w1)(p \<mapsto> new) \<and> w_db w2 = w_db w1 \<and>
    (\<exists>f\<in>set (d_artifacts (w_db w2)). f_run f = r_id run \<and> f_storage_ref f = p \<and>
       f_size f = int (length old))"
proof -
  from assms(1) obtain path old q t where a: "get_str args ''path'' = Some path"
      "get_str args ''content'' = Some old" "sanitize_relative_path path = Inr q"
      "tenant_scoped_artifact_root root (r_tenant run) = Inr t"
    unfolding execute_object_write_action_def by (auto simp: fail_def split: option.splits sum.splits)
  let ?p = "path_push t q"
  have "wp (execute_object_write_action env k root run args)
      (\<lambda>_ w1. w_ext w1 ?p = Some old \<and> (\<exists>f\<in>set (d_artifacts (w_db w1)). f_run f = r_id run \<and>
         f_path f = q \<and> f_storage_ref f = ?p \<and> f_size f = int (length old))) (\<lambda>_ _. True) w"
    unfolding execute_object_write_action_def Let_def using a
    by (auto simp: wp_simps wp_create_dir_all wp_write_file persist_artifact_metadata_def
        split: option.split if_splits intro!: wp_stmtI)
  from wp_run [OF this assms(1)] obtain f where f: "w_ext w1 ?p = Some old" "f \<in> set (d_artifacts (w_db w1))"
      "f_run f = r_id run" "f_path f = q" "f_storage_ref f = ?p" "f_size f = int (length old)" by auto
  define g where "g i = \<lparr>f_id = i, f_run = r_id run, f_path = q,
      f_content_type = ''text/markdown'', f_size = int (length new), f_checksum = None,
      f_storage_ref = ?p\<rparr>" for i
  have dup: "persist_artifact_metadata now (g i) (w_db w1) = (Inl UniqueViolation, w_db w1)" for now i
    using f by (auto simp: persist_artifact_metadata_def list_ex_iff g_def)
  define w2 where "w2 = w1\<lparr>w_ext := (w_ext w1)(?p \<mapsto> new), w_uuids := Suc (w_uuids w1),
      w_stmts := Suc (w_stmts w1)\<rparr>"
  have "execute_object_write_action env k root run args2 w1 = (Inl (o_sql_text env UniqueViolation), w2)"
    unfolding execute_object_write_action_def Let_def w2_def using a assms dup
    by (simp add: bind_def create_dir_all_def write_file_def ret_def new_v4_def stmt_def flip: g_def)
  moreover have "w_ext w2 = (w_ext w1)(?p \<mapsto> new)" "w_db w2 = w_db w1" by (simp_all add: w2_def)
  moreover have "object_path root run args = Some ?p" using a by (simp add: object_path_def)
  ultimately show ?thesis using f a by auto
qed

section \<open>Witnesses\<close>

definition sample_disk :: disk where
  "sample_disk = \<lparr>k_mkdir = (\<lambda>_. None), k_write = (\<lambda>_ _. None)\<rparr>"

definition sample_outside :: outside where
  "sample_outside = \<lparr>o_uuid = (\<lambda>n. replicate n (CHR ''u'')), o_now = (\<lambda>n. 0), o_fault = (\<lambda>_. None),
     o_sql_text = (\<lambda>_. ''sql'')\<rparr>"

definition sample_object_run :: "string \<Rightarrow> run_row" where
  "sample_object_run tenant = row_of_new 0 None \<lparr>nr_id = ''r'', nr_tenant = tenant, nr_agent = ''a'',
     nr_user = None, nr_recipe = ''s'', nr_status = ''queued'', nr_input = JNull, nr_requested = JNull,
     nr_granted = JNull, nr_error = None\<rparr>"

definition sample_start :: "string \<Rightarrow> files world" where
  "sample_start tenant = \<lparr>w_db = empty_db\<lparr>d_runs := [sample_object_run tenant]\<rparr>, w_ext = Map.empty, w_uuids = 0, w_stmts = 0,
     w_calls = []\<rparr>"

abbreviation sample_write :: "string \<Rightarrow> string \<Rightarrow> string \<Rightarrow> (string + json) \<times> files world" where
  "sample_write tenant p c \<equiv> execute_object_write_action sample_outside sample_disk ''/art''
     (sample_object_run tenant) (object_args p c) (sample_start tenant)"

lemma sample_paths:
  "sanitize_relative_path ''a'' = Inr ''a''" "sanitize_relative_path ''a/b'' = Inr ''a/b''"
  "sanitize_relative_path ''c'' = Inr ''c''"
  "sanitize_relative_path ''b/f'' = Inr ''b/f''" "sanitize_relative_path ''f'' = Inr ''f''"
  "path_push (path_push (path_push ''/art'' ''tenants'') ''a'') ''b/f'' = ''/art/tenants/a/b/f''"
  "path_push (path_push (path_push ''/art'' ''tenants'') ''a/b'') ''f'' = ''/art/tenants/a/b/f''"
  by code_simp+

lemma sample_write_ok:
  assumes "sanitize_relative_path tenant = Inr t" and "sanitize_relative_path p = Inr q"
    and "path_push (path_push (path_push ''/art'' ''tenants'') t) q = full"
  shows "\<exists>v w'. sample_write tenant p c = (Inr v, w') \<and> w_ext w' = [full \<mapsto> c] \<and> w_stmts w' = 1"
  unfolding execute_object_write_action_def Let_def using assms
  by (simp add: sample_outside_def sample_disk_def sample_start_def sample_object_run_def row_of_new_def
      tenant_scoped_artifact_root_def bind_def create_dir_all_def write_file_def ret_def new_v4_def
      stmt_def persist_artifact_metadata_def)

theorem object_write_confined_witness:
  "\<exists>ws. components ''/art/tenants/a/b/f'' =
     components ''/art'' @ Normal ''tenants'' # map Normal [''a''] @ map Normal ws"
proof -
  obtain v w' where w: "sample_write ''a'' ''b/f'' ''1'' = (Inr v, w')" "w_ext w' = [''/art/tenants/a/b/f'' \<mapsto> ''1'']"
    using sample_write_ok [OF sample_paths(1,4,6)] by blast
  then have "w_ext w' ''/art/tenants/a/b/f'' \<noteq> w_ext (sample_start ''a'') ''/art/tenants/a/b/f''"
    by (simp add: sample_start_def)
  from object_write_confined [OF w(1) this] obtain ts ws where
    "components ''/art/tenants/a/b/f'' =
       components ''/art'' @ Normal ''tenants'' # map Normal ts @ map Normal ws"
    "filter (\<lambda>c. c \<noteq> CurDir) (components (r_tenant (sample_object_run ''a''))) = map Normal ts" by blast
  moreover have "components ''a'' = [Normal ''a'']" by code_simp
  ultimately show ?thesis by (auto simp: sample_object_run_def row_of_new_def)
qed

theorem object_write_tenant_isolation_witness:
  "prefix (components ''a'') (components ''a/b'') \<or> prefix (components ''a/b'') (components ''a'')"
proof -
  obtain v w' v2 w2 where w: "sample_write ''a'' ''b/f'' ''1'' = (v, w')"
      "w_ext w' = [''/art/tenants/a/b/f'' \<mapsto> ''1'']"
      "sample_write ''a/b'' ''f'' ''2'' = (v2, w2)" "w_ext w2 = [''/art/tenants/a/b/f'' \<mapsto> ''2'']"
    using sample_write_ok [OF sample_paths(1,4,6)] sample_write_ok [OF sample_paths(2,5,7)] by blast
  have "w_ext w' ''/art/tenants/a/b/f'' \<noteq> w_ext (sample_start ''a'') ''/art/tenants/a/b/f''"
      "w_ext w2 ''/art/tenants/a/b/f'' \<noteq> w_ext (sample_start ''a/b'') ''/art/tenants/a/b/f''"
    using w by (simp_all add: sample_start_def)
  moreover have "filter (\<lambda>c. c \<noteq> CurDir) (components ''a'') = components ''a''"
      "filter (\<lambda>c. c \<noteq> CurDir) (components ''a/b'') = components ''a/b''" by code_simp+
  ultimately show ?thesis
    using object_write_tenant_isolation [THEN conjunct1, rule_format, OF w(1) _ w(3)]
    by (simp add: sample_object_run_def row_of_new_def)
qed

theorem object_rewrite_fails_after_writing_witness:
  "\<exists>w1 w2. snd (sample_write ''a'' ''b/f'' ''1'') = w1 \<and>
    execute_object_write_action sample_outside sample_disk ''/art'' (sample_object_run ''a'')
      (object_args ''b/f'' ''new'') w1 = (Inl ''sql'', w2) \<and>
    w_ext w2 ''/art/tenants/a/b/f'' = Some ''new''"
proof -
  obtain v w1 where w: "sample_write ''a'' ''b/f'' ''1'' = (Inr v, w1)"
    using sample_write_ok [OF sample_paths(1,4,6)] by blast
  have "object_path ''/art'' (sample_object_run ''a'') (object_args ''b/f'' ''1'') = Some ''/art/tenants/a/b/f''"
    using sample_paths
    by (simp add: object_path_def tenant_scoped_artifact_root_def sample_object_run_def row_of_new_def)
  with object_rewrite_fails_after_writing [OF w, of "object_args ''b/f'' ''new''" "''new''"] w
  show ?thesis by (auto simp: sample_disk_def sample_outside_def)
qed

end
