(* ===== verification/WorkerCycle.thy ===== *)
theory WorkerCycle
  imports WorkerLiveness RunClaims ObjectStore
begin

text \<open>
  One cycle of the worker (\<open>process_once_dual\<close> of \<open>worker/src/lib.rs\<close>): requeue expired runs,
  claim one, renew its lease, process it, and write the outcome back under the lease.

  Other workers, schedulers and API servers run at the same time: before each of the cycle's
  statements on the \<open>runs\<close> table they may execute any statements of their own (\<open>y_others\<close>). What
  the cycle does between the requeue and the claim (memory compaction, the SIEM outbox, trigger
  dispatch) is the argument \<open>y_before\<close>.
\<close>

section \<open>The cycle\<close>

datatype worker_cycle_outcome =
    ClaimedAndSucceeded uuid
  | ClaimedAndFailed uuid
  | Idle nat

record cycle_config =
  cy_worker :: worker_config
  cy_lease_for :: nat
  cy_requeue_limit :: int
  cy_claim_max_inflight_runs :: int
  cy_trigger_tenant_max_inflight_runs :: int

type_synonym claim_next = "time \<Rightarrow> string \<Rightarrow> nat \<Rightarrow> int \<Rightarrow> int \<Rightarrow> runs \<Rightarrow> run_row option \<times> runs"

record 'x cycle =
  y_env :: outside
  y_services :: services
  y_connectors :: "'x connectors"
  y_config :: cycle_config
  y_store :: store
  y_claim_next :: claim_next
  y_others :: "nat \<Rightarrow> runs \<Rightarrow> runs"
  y_before :: "('x, unit) comp"
  y_time_json :: "time \<Rightarrow> json"

abbreviation y_worker_id :: "'x cycle \<Rightarrow> string" where
  "y_worker_id y \<equiv> wc_worker_id (cy_worker (y_config y))"

text \<open>The dispatch of the \<open>_dual\<close> functions on the pool's back end.\<close>

definition dual_store :: "storage_backend \<Rightarrow> (new_run \<Rightarrow> bool) \<Rightarrow> store" where
  "dual_store b = (case b of Postgres \<Rightarrow> postgres | Sqlite \<Rightarrow> sqlite)"

definition claim_next_queued_run_with_limits_dual :: "storage_backend \<Rightarrow> claim_next" where
  "claim_next_queued_run_with_limits_dual b =
     (case b of Postgres \<Rightarrow> claim_next_queued_run_with_limits
      | Sqlite \<Rightarrow> claim_next_queued_run_with_limits_sqlite)"

text \<open>A statement on the \<open>runs\<close> table, after whatever the other processes have done.\<close>

definition interference :: "'x cycle \<Rightarrow> ('x, unit) comp" where
  "interference y = (\<lambda>w. (Inr (), w\<lparr>w_db := (w_db w)\<lparr>d_runs :=
     y_others y (w_stmts w) (d_runs (w_db w))\<rparr>\<rparr>))"

definition runs_stmt :: "'x cycle \<Rightarrow> (time \<Rightarrow> runs \<Rightarrow> 'a \<times> runs) \<Rightarrow> ('x, 'a) comp" where
  "runs_stmt y f =
     bind (interference y) (\<lambda>_. stmt (y_env y) (\<lambda>now d.
       case f now (d_runs d) of (v, rows) \<Rightarrow> (Inr v, d\<lparr>d_runs := rows\<rparr>)))"

definition jint :: "int \<Rightarrow> json" where
  "jint n = JNumber (if n < 0 then NegInt n else PosInt (of_int n))"

definition jopt :: "('a \<Rightarrow> json) \<Rightarrow> 'a option \<Rightarrow> json" where
  "jopt f v = (case v of None \<Rightarrow> JNull | Some x \<Rightarrow> f x)"

definition cycle_event :: "'x cycle \<Rightarrow> run_row \<Rightarrow> string \<Rightarrow> json \<Rightarrow> ('x, unit) comp" where
  "cycle_event y run etype payload =
     audit_run_event (y_env y) (cy_worker (y_config y)) run None
       (extract_trace_id_from_run_input (r_input run)) etype payload"

definition fail_run :: "'x cycle \<Rightarrow> run_row \<Rightarrow> string \<Rightarrow> string \<Rightarrow> ('x, bool) comp" where
  "fail_run y run code message =
     runs_stmt y (\<lambda>now. st_fail (y_store y) now (r_id run) (y_worker_id y)
       (redact_json (jobj [(''code'', JString code), (''message'', JString message)])))"

definition lease_not_renewed :: "'x cycle \<Rightarrow> run_row \<Rightarrow> nat \<Rightarrow> ('x, worker_cycle_outcome) comp" where
  "lease_not_renewed y run requeued =
     seq [cycle_event y run ''run.lease_renew_failed'' (jobj []),
          ignore (fail_run y run ''LEASE_RENEW_FAILED'' ''worker failed to renew run lease after claim'')]
       (ret (Idle requeued))"

definition run_succeeded :: "'x cycle \<Rightarrow> run_row \<Rightarrow> ('x, worker_cycle_outcome) comp" where
  "run_succeeded y run =
     bind (runs_stmt y (\<lambda>now. st_succeed (y_store y) now (r_id run) (y_worker_id y))) (\<lambda>completed.
       if completed then
         seq [cycle_event y run ''run.completed'' (jobj [(''status'', JString ''succeeded''),
                (''attempts'', jint (r_attempts run))])]
           (ret (ClaimedAndSucceeded (r_id run)))
       else
         seq [ignore (fail_run y run ''RUN_FINALIZE_FAILED'' ''worker could not mark run as succeeded'')]
           (ret (ClaimedAndFailed (r_id run))))"

definition run_failed :: "'x cycle \<Rightarrow> run_row \<Rightarrow> string \<Rightarrow> ('x, worker_cycle_outcome) comp" where
  "run_failed y run error =
     (let error_message = redact_text error
      in seq [ignore (fail_run y run ''RUN_EXECUTION_FAILED'' error_message),
              cycle_event y run ''run.failed'' (jobj [(''error'', JString error_message)])]
           (ret (ClaimedAndFailed (r_id run))))"

definition run_claimed :: "'x cycle \<Rightarrow> run_row \<Rightarrow> nat \<Rightarrow> ('x, worker_cycle_outcome) comp" where
  "run_claimed y run requeued =
     seq [cycle_event y run ''run.claimed'' (jobj [(''attempts'', jint (r_attempts run)),
            (''lease_owner'', jopt JString (r_owner run)),
            (''lease_expires_at'', jopt (y_time_json y) (r_expires run))])]
       (bind (runs_stmt y (\<lambda>now. st_renew (y_store y) now (r_id run) (y_worker_id y)
                (cy_lease_for (y_config y)))) (\<lambda>renewed.
         if \<not> renewed then lease_not_renewed y run requeued
         else seq [cycle_event y run ''run.processing_started''
                     (jobj [(''recipe_id'', JString (r_recipe run)),
                       (''attempts'', jint (r_attempts run))])]
                (handle (process_claimed_run (y_env y) (y_services y) (y_connectors y)
                    (cy_worker (y_config y)) run (extract_trace_id_from_run_input (r_input run)))
                  (run_failed y run)
                  (\<lambda>_. run_succeeded y run))))"

definition process_once_dual :: "'x cycle \<Rightarrow> ('x, worker_cycle_outcome) comp" where
  "process_once_dual y =
     bind (runs_stmt y (\<lambda>now. st_requeue (y_store y) now (cy_requeue_limit (y_config y)))) (\<lambda>requeued.
     bind (y_before y) (\<lambda>_.
     bind (runs_stmt y (\<lambda>now. y_claim_next y now (y_worker_id y) (cy_lease_for (y_config y))
             (cy_claim_max_inflight_runs (y_config y))
             (cy_trigger_tenant_max_inflight_runs (y_config y)))) (\<lambda>claimed.
       case claimed of
         None \<Rightarrow> ret (Idle requeued)
       | Some run \<Rightarrow> run_claimed y run requeued)))"

section \<open>The interface of the store\<close>

text \<open>Claiming under caps takes one queued run, or leaves the table alone.\<close>

locale cycle_store = run_store S for S :: store +
  fixes claim_next :: claim_next
  assumes claim_next_law: "runs_ok rows \<Longrightarrow> claim_next now wk l gm tm rows = (res, rows') \<Longrightarrow>
      res = None \<and> rows' = rows \<or>
      (\<exists>rid r. row_of rows rid = Some r \<and> r_status r = ''queued'' \<and>
        res = Some (mark_claimed now wk l r) \<and> rows' = upd_row rid (mark_claimed now wk l) rows)"

lemma claim_loop_law:
  assumes "runs_ok rows" and "claim_loop now wk l tc cs rows = (res, rows')"
  shows "res = None \<and> rows' = rows \<or>
      (\<exists>rid r. row_of rows rid = Some r \<and> r_status r = ''queued'' \<and>
        res = Some (mark_claimed now wk l r) \<and> rows' = upd_row rid (mark_claimed now wk l) rows)"
  using assms
proof (induction cs)
  case (Cons c cs)
  show ?case
  proof (cases "tc \<le> count_tenant_running (r_tenant c) rows")
    case False
    obtain res1 rows1 where 1: "try_claim now wk l (r_id c) rows = (res1, rows1)" by force
    have "st_claim (postgres undefined) now wk l (r_id c) rows = (res1, rows1)"
      using 1 by (simp add: postgres_def)
    from pg.claim_law [OF Cons.prems(1) this] False 1 Cons show ?thesis
      by (auto split: option.splits)
  qed (use Cons in auto)
qed simp

lemma claim_loop_sqlite_law:
  assumes "runs_ok rows" and "claim_loop_sqlite now wk l tc cs rows = (res, rows')"
  shows "res = None \<and> rows' = rows \<or>
      (\<exists>rid r. row_of rows rid = Some r \<and> r_status r = ''queued'' \<and>
        res = Some (mark_claimed now wk l r) \<and> rows' = upd_row rid (mark_claimed now wk l) rows)"
  using assms
proof (induction cs)
  case (Cons c cs)
  show ?case
  proof (cases "tc \<le> count_tenant_running (r_tenant c) rows")
    case False
    obtain res1 rows1 where 1: "try_claim_sqlite now wk l (r_id c) rows = (res1, rows1)" by force
    have "st_claim (sqlite undefined) now wk l (r_id c) rows = (res1, rows1)"
      using 1 by (simp add: sqlite_def)
    from lite.claim_law [OF Cons.prems(1) this] False 1 Cons show ?thesis
      by (auto split: option.splits)
  qed (use Cons in auto)
qed simp

interpretation pg_cycle: cycle_store "postgres fk" claim_next_queued_run_with_limits for fk
  by unfold_locales
    (auto simp: claim_next_queued_run_with_limits_def Let_def dest: claim_loop_law split: if_splits)

interpretation lite_cycle: cycle_store "sqlite fk" claim_next_queued_run_with_limits_sqlite for fk
  by unfold_locales
    (auto simp: claim_next_queued_run_with_limits_sqlite_def Let_def dest: claim_loop_sqlite_law
      split: if_splits)

section \<open>The other processes\<close>

text \<open>
  The others issue legal statements, none of them in this worker's name (worker ids are unique).
\<close>

fun foreign_stmt :: "string \<Rightarrow> time \<times> run_stmt \<Rightarrow> bool" where
  "foreign_stmt wk (_, Claim _ v _) \<longleftrightarrow> v \<noteq> wk"
| "foreign_stmt wk (_, Renew _ v _) \<longleftrightarrow> v \<noteq> wk"
| "foreign_stmt wk (_, Succeed _ v) \<longleftrightarrow> v \<noteq> wk"
| "foreign_stmt wk (_, Fail _ v _) \<longleftrightarrow> v \<noteq> wk"
| "foreign_stmt wk _ \<longleftrightarrow> True"

definition foreign :: "store \<Rightarrow> string \<Rightarrow> (nat \<Rightarrow> runs \<Rightarrow> runs) \<Rightarrow> bool" where
  "foreign S wk others \<longleftrightarrow> (\<forall>n rows. \<exists>ss. list_all stmt_ok ss \<and> list_all (foreign_stmt wk) ss \<and>
     others n rows = fst (exec_stmts S ss rows))"

fun foreign_event :: "string \<Rightarrow> run_event \<Rightarrow> bool" where
  "foreign_event wk (Claimed _ v _) \<longleftrightarrow> v \<noteq> wk"
| "foreign_event wk (Renewed _ v _ _) \<longleftrightarrow> v \<noteq> wk"
| "foreign_event wk _ \<longleftrightarrow> True"

lemma foreign_events:
  "foreign_stmt wk (now, st) \<Longrightarrow> list_all (foreign_event wk) (snd (exec_stmt S now st rows))"
  by (cases st) (auto simp: list_all_iff split: prod.splits option.splits)

lemma foreign_events_all:
  "list_all (foreign_stmt wk) ss \<Longrightarrow> list_all (foreign_event wk) (snd (exec_stmts S ss rows))"
proof (induction S ss rows rule: exec_stmts.induct)
  case (2 S now st ss rows)
  then show ?case using foreign_events [of wk now st S rows] by (auto split: prod.splits)
qed simp

lemma foreign_log:
  "lease_log evs L = Some L' \<Longrightarrow> list_all (foreign_event wk) evs \<Longrightarrow>
   L' rid = Some (Leased wk e) \<Longrightarrow> L rid = Some (Leased wk e)"
proof (induction evs arbitrary: L)
  case (Cons ev evs)
  then obtain L1 where L1: "lease_event ev L = Some L1" "lease_log evs L1 = Some L'"
    by (auto simp: Option.bind_eq_Some_conv)
  with Cons have "L1 rid = Some (Leased wk e)" by simp
  with L1(1) Cons.prems(2) show ?case
    by (cases ev) (auto split: if_splits option.splits lease_state.splits)
qed simp

section \<open>What the worker holds\<close>

text \<open>The invariant of the table, and that the worker holds no run outside a given set.\<close>

definition holds_within :: "string \<Rightarrow> uuid set \<Rightarrow> runs \<Rightarrow> bool" where
  "holds_within wk A rows \<longleftrightarrow> runs_ok rows \<and>
     (\<forall>rid e. lease_of rows rid = Some (Leased wk e) \<longrightarrow> rid \<in> A)"

lemma holds_within_mono: "holds_within wk A rows \<Longrightarrow> A \<subseteq> B \<Longrightarrow> holds_within wk B rows"
  by (auto simp: holds_within_def)

lemma holds_within_upd:
  assumes "holds_within wk A rows" and "row_of rows rid = Some r" and "\<And>q. r_id (f q) = r_id q"
    and "row_ok (f r)" and "\<And>e. lease_row (f r) = Some (Leased wk e) \<Longrightarrow> rid \<in> B"
    and "A - {rid} \<subseteq> B"
  shows "holds_within wk B (upd_row rid f rows)"
proof -
  have ok: "runs_ok rows" using assms(1) by (simp add: holds_within_def)
  have "runs_ok (upd_row rid f rows)"
  proof (rule runs_ok_map [OF ok assms(3)])
    fix q assume "q \<in> set rows" "r_id q = rid"
    with runs_ok_mem [OF ok, of q] assms(2) have "q = r" by simp
    with assms(4) show "row_ok (f q)" by simp
  qed
  moreover have "lease_of (upd_row rid f rows) = (lease_of rows)(rid := lease_row (f r))"
    by (rule lease_of_upd [OF assms(3,2)])
  ultimately show ?thesis using assms(1,5,6) by (auto simp: holds_within_def)
qed

context run_store
begin

lemma foreign_holds:
  assumes "holds_within wk A rows" and "list_all stmt_ok ss" and "list_all (foreign_stmt wk) ss"
  shows "holds_within wk A (fst (exec_stmts S ss rows))"
proof -
  obtain rows' evs where e: "exec_stmts S ss rows = (rows', evs)" by force
  with assms have ok: "runs_ok rows'" and log: "lease_log evs (lease_of rows) = Some (lease_of rows')"
    using exec_stmts_refines by (auto simp: holds_within_def)
  have "list_all (foreign_event wk) evs"
    using foreign_events_all [OF assms(3), of S rows] e by simp
  from foreign_log [OF log this] ok assms(1) e show ?thesis
    unfolding holds_within_def by fastforce
qed

lemma others_hold: "foreign S wk others \<Longrightarrow> holds_within wk A rows \<Longrightarrow> holds_within wk A (others n rows)"
  unfolding foreign_def using foreign_holds by metis

lemma requeue_holds:
  assumes "holds_within wk A rows" and "st_requeue S now lim rows = (n, rows')"
  shows "holds_within wk A rows'"
  using foreign_holds [OF assms(1), of "[(now, Requeue lim)]"] assms(2) by simp

lemma renew_holds:
  assumes "holds_within wk A rows" and "st_renew S now rid wk l rows = (ok, rows')"
  shows "holds_within wk A rows'"
proof -
  have ok: "runs_ok rows" using assms(1) by (simp add: holds_within_def)
  have "holds_within wk A (upd_row rid (\<lambda>q. q\<lparr>r_expires := Some (now + clamp_lease_ms l)\<rparr>) rows)"
    if lease: "lease_of rows rid = Some (Leased wk e)" for e
  proof -
    from lease obtain r where r: "row_of rows rid = Some r" by (auto simp: lease_of_def Option.bind_eq_Some_conv)
    with lease have "lease_row r = Some (Leased wk e)" by (simp add: lease_of_def)
    moreover have "row_ok r" by (rule runs_ok_row [OF ok r])
    ultimately have "row_ok (r\<lparr>r_expires := Some (now + clamp_lease_ms l)\<rparr>)"
      by (auto simp: row_ok_def lease_row_def split: option.splits if_splits)
    moreover have "rid \<in> A" using assms(1) lease by (auto simp: holds_within_def)
    ultimately show ?thesis by (intro holds_within_upd [OF assms(1) r]) auto
  qed
  with renew_law [OF ok assms(2)] assms(1) show ?thesis by auto
qed

lemma finish_holds:
  assumes "holds_within wk {rid} rows"
    and "rows' = (if held_by (lease_of rows) rid wk then upd_row rid (finish_row st now err) rows else rows)"
    and "st = ''succeeded'' \<or> st = ''failed''"
  shows "holds_within wk {} rows'"
proof (cases "held_by (lease_of rows) rid wk")
  case True
  then obtain r where r: "row_of rows rid = Some r" by (auto simp: lease_of_def Option.bind_eq_Some_conv)
  have "holds_within wk {} (upd_row rid (finish_row st now err) rows)"
    by (rule holds_within_upd [OF assms(1) r])
      (use assms(3) in \<open>auto simp: finish_row_def row_ok_def run_statuses_def lease_row_def\<close>)
  with True assms(2) show ?thesis by simp
next
  case False
  with assms show ?thesis by (auto simp: holds_within_def)
qed

end

context cycle_store
begin

lemma claim_next_holds:
  assumes "holds_within wk {} rows" and "claim_next now wk l gm tm rows = (res, rows')"
  shows "case res of None \<Rightarrow> rows' = rows | Some r \<Rightarrow> holds_within wk {r_id r} rows'"
proof -
  have ok: "runs_ok rows" using assms(1) by (simp add: holds_within_def)
  have "holds_within wk {r_id r} (upd_row rid (mark_claimed now wk l) rows)"
    if r: "row_of rows rid = Some r" for rid r
    by (rule holds_within_upd [OF assms(1) r])
      (use row_of_Some [OF r] in \<open>auto simp: mark_claimed_def row_ok_def run_statuses_def\<close>)
  with claim_next_law [OF ok assms(2)] show ?thesis by (auto simp: mark_claimed_def)
qed

end

section \<open>The cycle's steps\<close>

lemma wp_runs_stmtI:
  fixes w :: "'x world"
  assumes "\<And>n. J (y_others y n (d_runs (w_db w)))"
    and "\<And>e w'. J (d_runs (w_db w')) \<Longrightarrow> E e w'"
    and "\<And>now rows v rows' w'. J rows \<Longrightarrow> f now rows = (v, rows') \<Longrightarrow> d_runs (w_db w') = rows' \<Longrightarrow> Q v w'"
  shows "wp (runs_stmt y f) Q E w"
proof -
  let ?w = "w\<lparr>w_db := (w_db w)\<lparr>d_runs := y_others y (w_stmts w) (d_runs (w_db w))\<rparr>\<rparr>"
  have J: "J (d_runs (w_db ?w))" using assms(1) by simp
  have "wp (stmt (y_env y) (\<lambda>now d. case f now (d_runs d) of (v, rows) \<Rightarrow> (Inr v, d\<lparr>d_runs := rows\<rparr>)))
      Q E ?w"
  proof (rule wp_stmtI)
    fix e and w' :: "'x world" assume "w_db w' = w_db ?w"
    with assms(2) J show "E e w'" by simp
  next
    fix now v and w' :: "'x world"
    assume "fst (case f now (d_runs (w_db ?w)) of (v, rows) \<Rightarrow> (Inr v, w_db ?w\<lparr>d_runs := rows\<rparr>)) = Inr v"
      and "w_db w' = snd (case f now (d_runs (w_db ?w)) of (v, rows) \<Rightarrow> (Inr v, w_db ?w\<lparr>d_runs := rows\<rparr>))"
    with assms(3) [OF J, of now] show "Q v w'" by (auto split: prod.splits)
  qed
  then show ?thesis by (simp add: runs_stmt_def interference_def wp_def bind_def)
qed

text \<open>Neither the audit nor the processing of the run touches the \<open>runs\<close> table.\<close>

named_theorems runs_kept \<open>computations that leave the runs table alone\<close>

lemma runs_kept_audit [runs_kept]: "keeps (\<lambda>d. P (d_runs d)) (audit_run_event env cfg run st tr et p)"
  unfolding audit_run_event_def append_audit_event_with_trace_def worker_append_audit_event_def
  by (intro keeps_bind keeps_basic keeps_stmt) (auto simp: append_audit_event_def split: if_splits)

lemma runs_kept_stmts [runs_kept]:
  "keeps (\<lambda>d. P (d_runs d)) (site_event z et p)"
  "keeps (\<lambda>d. P (d_runs d)) (set_request_status z rid s why)"
  "keeps (\<lambda>d. P (d_runs d)) (add_result z rid s res err)"
  "keeps (\<lambda>d. P (d_runs d)) (fail_step z error)"
  unfolding site_event_def set_request_status_def add_result_def fail_step_def
  by (auto intro!: runs_kept_audit kept keeps_stmt
      simp: update_action_request_status_def create_action_result_def mark_step_failed_def Let_def
      split: if_splits prod.splits)

lemma runs_kept_parts [runs_kept]:
  "keeps (\<lambda>d. P (d_runs d)) (alert_event z et at rid alerts)"
  "keeps (\<lambda>d. P (d_runs d)) (deny_action z rid why re ee at msg)"
  "keeps (\<lambda>d. P (d_runs d)) (action_failed z rid at e)"
  "keeps (\<lambda>d. P (d_runs d)) (action_executed z rid at res)"
  unfolding alert_event_def deny_action_def action_failed_def action_executed_def Let_def
  by (auto intro!: runs_kept kept keeps_stmt)

lemma runs_kept_decide [runs_kept]: "keeps (\<lambda>d. P (d_runs d)) (decide_action z gs rid a ctx)"
  unfolding decide_action_def allow_action_def
  by (auto intro!: runs_kept kept keeps_stmt
      split: sum.split policy_decision.split prod.split)

lemma runs_kept_actions [runs_kept]: "keeps (\<lambda>d. P (d_runs d)) (process_actions z gs as ctx)"
proof (induction z gs as ctx rule: process_actions.induct)
  case (2 z gs a as ctx)
  then show ?case
    by (auto intro!: runs_kept kept keeps_stmt
      simp: process_action_def Let_def create_action_request_def split: if_splits)
qed (simp add: keeps_basic)

lemma runs_kept_process_step [runs_kept]: "keeps (\<lambda>d. P (d_runs d)) (process_step z)"
  unfolding process_step_def Let_def prepare_skill_input_with_agent_context_def invoke_skill_def
  by (auto intro!: runs_kept kept keeps_stmt
      simp: mark_step_succeeded_def Let_def split: context_load.split sum.split prod.splits)

lemma runs_kept_process_claimed_run [runs_kept]:
  "keeps (\<lambda>d. P (d_runs d)) (process_claimed_run env sv k cfg run trace)"
  unfolding process_claimed_run_def Let_def
  by (auto intro!: runs_kept kept keeps_stmt
      simp: create_step_def Let_def split: if_splits)

text \<open>The table while the worker may hold a run of a set, and after a cycle's outcome.\<close>

abbreviation table_within :: "string \<Rightarrow> uuid set \<Rightarrow> 'x world \<Rightarrow> bool" where
  "table_within wk A w \<equiv> holds_within wk A (d_runs (w_db w))"

definition outcome_true :: "string \<Rightarrow> worker_cycle_outcome \<Rightarrow> runs \<Rightarrow> bool" where
  "outcome_true wk out rows \<longleftrightarrow> holds_within wk {} rows \<and>
     (case out of
        ClaimedAndSucceeded rid \<Rightarrow> (\<exists>r. row_of rows rid = Some r \<and> r_status r = ''succeeded'')
      | _ \<Rightarrow> True)"

lemma wp_cycle_event:
  fixes w :: "'x world"
  assumes "P (d_runs (w_db w))" and "\<And>e w'. P (d_runs (w_db w')) \<Longrightarrow> E e w'"
    and "\<And>w'. P (d_runs (w_db w')) \<Longrightarrow> Q () w'"
  shows "wp (cycle_event y run et p) Q E w"
  unfolding cycle_event_def
  by (rule wp_mono [OF keeps_wp [where P="\<lambda>d. P (d_runs d)", OF runs_kept_audit]])
    (use assms in auto)

lemma row_of_finished:
  assumes "row_of rows rid = Some r"
  shows "\<exists>q. row_of (upd_row rid (finish_row st now err) rows) rid = Some q \<and> r_status q = st"
  using assms row_of_Some [OF assms]
  by (auto simp: row_of_map [where f="finish_row st now err"] finish_row_def)

context cycle_store
begin

lemma wp_fail_run:
  fixes w :: "'x world"
  assumes "y_store y = S" and "foreign S (y_worker_id y) (y_others y)"
    and "table_within (y_worker_id y) {r_id run} w"
  shows "wp (fail_run y run c m) (\<lambda>_. table_within (y_worker_id y) {})
    (\<lambda>_. table_within (y_worker_id y) {r_id run}) w"
  unfolding fail_run_def assms(1)
proof (rule wp_runs_stmtI [where J="holds_within (y_worker_id y) {r_id run}"])
  fix now rows v rows' and w' :: "'x world"
  assume J: "holds_within (y_worker_id y) {r_id run} rows" and db: "d_runs (w_db w') = rows'"
    and "st_fail S now (r_id run) (y_worker_id y)
      (redact_json (jobj [(''code'', JString c), (''message'', JString m)])) rows = (v, rows')"
  from fail_law [OF _ this(3)] J finish_holds [OF J, of rows' "''failed''"] db
  show "table_within (y_worker_id y) {} w'" by (auto simp: holds_within_def)
qed (use assms(3) others_hold [OF assms(2)] in auto)

lemma wp_run_succeeded:
  fixes w :: "'x world"
  assumes "y_store y = S" and "foreign S (y_worker_id y) (y_others y)"
    and "table_within (y_worker_id y) {r_id run} w"
  shows "wp (run_succeeded y run) (\<lambda>out w'. outcome_true (y_worker_id y) out (d_runs (w_db w')))
    (\<lambda>_. table_within (y_worker_id y) {r_id run}) w"
  unfolding run_succeeded_def wp_simps assms(1)
proof (rule wp_runs_stmtI [where J="holds_within (y_worker_id y) {r_id run}"])
  let ?wk = "y_worker_id y"
  fix now rows completed rows' and w' :: "'x world"
  assume J: "holds_within ?wk {r_id run} rows" and db: "d_runs (w_db w') = rows'"
    and f: "st_succeed S now (r_id run) ?wk rows = (completed, rows')"
  have law: "completed \<longleftrightarrow> held_by (lease_of rows) (r_id run) ?wk"
      "rows' = (if completed then upd_row (r_id run) (finish_row ''succeeded'' now None) rows else rows)"
    using succeed_law [OF _ f] J by (auto simp: holds_within_def)
  have idle: "holds_within ?wk {} rows'" using finish_holds [OF J, of rows' "''succeeded''"] law by auto
  have done_row: "\<exists>r. row_of rows' (r_id run) = Some r \<and> r_status r = ''succeeded''" if completed
    using that law row_of_finished by (auto simp: lease_of_def Option.bind_eq_Some_conv)
  show "wp (if completed
       then seq [cycle_event y run ''run.completed'' (jobj [(''status'', JString ''succeeded''),
                (''attempts'', jint (r_attempts run))])] (ret (ClaimedAndSucceeded (r_id run)))
       else seq [ignore (fail_run y run ''RUN_FINALIZE_FAILED'' ''worker could not mark run as succeeded'')]
           (ret (ClaimedAndFailed (r_id run))))
     (\<lambda>out w'. outcome_true ?wk out (d_runs (w_db w'))) (\<lambda>_. table_within ?wk {r_id run}) w'"
  proof (cases completed)
    case True
    have "outcome_true ?wk (ClaimedAndSucceeded (r_id run)) rows'"
      using idle done_row [OF True] by (simp add: outcome_true_def)
    with True db holds_within_mono [of ?wk "{}" _ "{r_id run}"] show ?thesis
      by (auto simp: wp_simps outcome_true_def
          intro!: wp_cycle_event [where P="outcome_true ?wk (ClaimedAndSucceeded (r_id run))"])
  next
    case False
    have "table_within ?wk {r_id run} w'" using idle db holds_within_mono by auto
    from wp_fail_run [OF assms(1,2) this] False show ?thesis
      by (auto simp: wp_simps outcome_true_def elim!: wp_mono)
  qed
qed (use assms(3) others_hold [OF assms(2)] in auto)

lemma wp_run_failed:
  fixes w :: "'x world"
  assumes "y_store y = S" and "foreign S (y_worker_id y) (y_others y)"
    and "table_within (y_worker_id y) {r_id run} w"
  shows "wp (run_failed y run err) (\<lambda>out w'. outcome_true (y_worker_id y) out (d_runs (w_db w')))
    (\<lambda>_. table_within (y_worker_id y) {r_id run}) w"
  unfolding run_failed_def Let_def wp_simps
  by (rule wp_mono [OF wp_fail_run [OF assms]])
    (auto simp: outcome_true_def intro: holds_within_mono
      intro!: wp_cycle_event [where P="holds_within (y_worker_id y) {}"])

lemma wp_lease_not_renewed:
  fixes w :: "'x world"
  assumes "y_store y = S" and "foreign S (y_worker_id y) (y_others y)"
    and "table_within (y_worker_id y) {r_id run} w"
  shows "wp (lease_not_renewed y run n) (\<lambda>out w'. outcome_true (y_worker_id y) out (d_runs (w_db w')))
    (\<lambda>_. table_within (y_worker_id y) {r_id run}) w"
  unfolding lease_not_renewed_def wp_simps
  by (rule wp_cycle_event [where P="holds_within (y_worker_id y) {r_id run}"])
    (use assms in \<open>auto simp: outcome_true_def intro!: wp_mono [OF wp_fail_run [OF assms(1,2)]]\<close>)

lemma wp_run_claimed:
  fixes w :: "'x world"
  assumes "y_store y = S" and "foreign S (y_worker_id y) (y_others y)"
    and "table_within (y_worker_id y) {r_id run} w"
  shows "wp (run_claimed y run n) (\<lambda>out w'. outcome_true (y_worker_id y) out (d_runs (w_db w')))
    (\<lambda>_. table_within (y_worker_id y) {r_id run}) w"
proof -
  let ?wk = "y_worker_id y" let ?J = "holds_within (y_worker_id y) {r_id run}"
  let ?Q = "\<lambda>out (w'::'x world). outcome_true ?wk out (d_runs (w_db w'))"
  let ?E = "\<lambda>_ (w'::'x world). table_within ?wk {r_id run} w'"
  have process: "wp (process_claimed_run (y_env y) (y_services y) (y_connectors y)
      (cy_worker (y_config y)) run tr) (\<lambda>_. wp (run_succeeded y run) ?Q ?E)
      (\<lambda>e. wp (run_failed y run e) ?Q ?E) w2" if "?J (d_runs (w_db w2))" for tr w2
    by (rule wp_mono [OF keeps_wp [where P="\<lambda>d. ?J (d_runs d)",
          OF runs_kept_process_claimed_run]])
      (use that wp_run_succeeded [OF assms(1,2)] wp_run_failed [OF assms(1,2)] in auto)
  have renewed: "wp (runs_stmt y (\<lambda>now. st_renew S now (r_id run) ?wk (cy_lease_for (y_config y))))
      (\<lambda>_ w'. ?J (d_runs (w_db w'))) ?E w2" if "?J (d_runs (w_db w2))" for w2 :: "'x world"
    by (rule wp_runs_stmtI [where J="?J"])
      (use that others_hold [OF assms(2)] renew_holds in auto)
  show ?thesis
    unfolding run_claimed_def wp_simps assms(1)
  proof (rule wp_cycle_event [where P="?J"])
    fix w2 :: "'x world" assume "?J (d_runs (w_db w2))"
    then show "wp (runs_stmt y (\<lambda>now. st_renew S now (r_id run) ?wk (cy_lease_for (y_config y))))
      (\<lambda>v. wp (if \<not> v then lease_not_renewed y run n
         else seq [cycle_event y run ''run.processing_started''
                     (jobj [(''recipe_id'', JString (r_recipe run)),
                       (''attempts'', jint (r_attempts run))])]
                (handle (process_claimed_run (y_env y) (y_services y) (y_connectors y)
                    (cy_worker (y_config y)) run (extract_trace_id_from_run_input (r_input run)))
                  (run_failed y run) (\<lambda>_. run_succeeded y run))) ?Q ?E) ?E w2"
      by (rule wp_mono [OF renewed])
        (auto simp: wp_simps intro!: wp_lease_not_renewed [OF assms(1,2)] process
          wp_cycle_event [where P="?J"])
  qed (use assms(3) in auto)
qed

lemma wp_process_once:
  fixes w :: "'x world"
  assumes "y_store y = S" and "y_claim_next y = claim_next"
    and "foreign S (y_worker_id y) (y_others y)"
    and "keeps (\<lambda>d. holds_within (y_worker_id y) {} (d_runs d)) (y_before y)"
    and "table_within (y_worker_id y) {} w"
  shows "wp (process_once_dual y) (\<lambda>out w'. outcome_true (y_worker_id y) out (d_runs (w_db w')))
    (\<lambda>_ w'. \<exists>rid. table_within (y_worker_id y) {rid} w') w"
proof -
  let ?wk = "y_worker_id y" let ?J = "holds_within (y_worker_id y) {}"
  let ?Q = "\<lambda>out (w'::'x world). outcome_true ?wk out (d_runs (w_db w'))"
  let ?E = "\<lambda>_ (w'::'x world). \<exists>rid. table_within ?wk {rid} w'"
  have weak: "?J (d_runs (w_db w2)) \<Longrightarrow> ?E e w2" for e :: string and w2 :: "'x world"
    using holds_within_mono by blast
  have claimed: "wp (case v of None \<Rightarrow> ret (Idle n) | Some run \<Rightarrow> run_claimed y run n) ?Q ?E w2"
    if "?J rows" "claim_next now ?wk l g t rows = (v, rows')" "d_runs (w_db w2) = rows'"
    for v n now l g t rows rows' w2
    using claim_next_holds [OF that(1,2)] that
    by (auto simp: wp_simps outcome_true_def split: option.splits
        intro!: wp_mono [OF wp_run_claimed [OF assms(1,3)]])
  show ?thesis
    unfolding process_once_dual_def wp_simps assms(1,2)
  proof (rule wp_runs_stmtI [where J="?J"])
    fix now rows n rows' and w2 :: "'x world"
    assume "?J rows" "st_requeue S now (cy_requeue_limit (y_config y)) rows = (n, rows')"
      "d_runs (w_db w2) = rows'"
    then have "?J (d_runs (w_db w2))" using requeue_holds by blast
    from keeps_wp [OF assms(4) this]
    show "wp (y_before y) (\<lambda>_. wp (runs_stmt y (\<lambda>now. claim_next now ?wk (cy_lease_for (y_config y))
             (cy_claim_max_inflight_runs (y_config y))
             (cy_trigger_tenant_max_inflight_runs (y_config y))))
        (\<lambda>v. wp (case v of None \<Rightarrow> ret (Idle n) | Some run \<Rightarrow> run_claimed y run n) ?Q ?E) ?E) ?E w2"
      by (rule wp_mono) (auto intro!: wp_runs_stmtI [where J="?J"] others_hold [OF assms(3)]
          intro: claimed weak)
  qed (use assms(5) others_hold [OF assms(3)] weak in auto)
qed

end

section \<open>A worker that has lost its lease\<close>

lemma run_runs_stmt:
  assumes "y_others y = (\<lambda>_ rows. rows)" and "o_fault (y_env y) (w_stmts w) = None"
    and "f (o_now (y_env y) (w_stmts w)) (d_runs (w_db w)) = (v, d_runs (w_db w))"
  shows "runs_stmt y f w = (Inr v, w\<lparr>w_stmts := Suc (w_stmts w)\<rparr>)"
  using assms by (simp add: runs_stmt_def interference_def bind_def stmt_def Let_def)

context run_store
begin

lemma lost_lease_statements:
  assumes "runs_ok rows" and "\<not> held_by (lease_of rows) rid wk"
  shows "st_fail S now rid wk err rows = (False, rows)" "st_succeed S now rid wk rows = (False, rows)"
  using fail_law [OF assms(1), of now rid wk err] succeed_law [OF assms(1), of now rid wk] assms(2)
  by (cases "st_fail S now rid wk err rows"; cases "st_succeed S now rid wk rows"; auto)+

lemma lost_lease_run_failed:
  fixes w :: "'x world"
  assumes "y_store y = S" and "y_others y = (\<lambda>_ rows. rows)" and "\<forall>n. o_fault (y_env y) n = None"
    and "runs_ok (d_runs (w_db w))" and "\<not> held_by (lease_of (d_runs (w_db w))) (r_id run) (y_worker_id y)"
    and "\<forall>a \<in> set (d_audit (w_db w)). a_id a \<noteq> o_uuid (y_env y) (w_uuids w)"
    and "r_id run \<in> r_id ` set (d_runs (w_db w))"
  shows "\<exists>w' a. run_failed y run err w = (Inr (ClaimedAndFailed (r_id run)), w') \<and>
    w_db w' = (w_db w)\<lparr>d_audit := d_audit (w_db w) @ [a]\<rparr> \<and> a_type a = ''run.failed'' \<and> a_run a = r_id run"
proof -
  have 1: "fail_run y run c m w = (Inr False, w\<lparr>w_stmts := Suc (w_stmts w)\<rparr>)" for c m
    unfolding fail_run_def
    by (rule run_runs_stmt) (use assms lost_lease_statements(1) in auto)
  show ?thesis
    unfolding run_failed_def Let_def
    using 1 assms(3,6,7)
    by (auto simp: ignore_def bind_def ret_def cycle_event_def audit_run_event_def new_v4_def
        append_audit_event_with_trace_def worker_append_audit_event_def stmt_def Let_def
        append_audit_event_def list_ex_iff split: option.splits)
qed

lemma lost_lease_run_succeeded:
  fixes w :: "'x world"
  assumes "y_store y = S" and "y_others y = (\<lambda>_ rows. rows)" and "\<forall>n. o_fault (y_env y) n = None"
    and "runs_ok (d_runs (w_db w))" and "\<not> held_by (lease_of (d_runs (w_db w))) (r_id run) (y_worker_id y)"
  shows "\<exists>w'. run_succeeded y run w = (Inr (ClaimedAndFailed (r_id run)), w') \<and> w_db w' = w_db w"
proof -
  have 1: "runs_stmt y (\<lambda>now. st_succeed (y_store y) now (r_id run) (y_worker_id y)) w =
      (Inr False, w\<lparr>w_stmts := Suc (w_stmts w)\<rparr>)"
    by (rule run_runs_stmt) (use assms lost_lease_statements(2) in auto)
  have 2: "fail_run y run c m (w\<lparr>w_stmts := n\<rparr>) = (Inr False, w\<lparr>w_stmts := Suc n\<rparr>)" for c m n
    unfolding fail_run_def
    by (subst run_runs_stmt) (use assms lost_lease_statements(1) in auto)
  show ?thesis unfolding run_succeeded_def
    by (simp add: bind_def 1 2 ignore_def ret_def)
qed

end

section \<open>Properties\<close>

text \<open>
  A cycle gives its run back: whatever the other processes do to the \<open>runs\<close> table between the
  cycle's statements, and whichever statements fail, the table keeps its invariant. If the cycle
  returns an outcome, the worker holds no run afterwards, and \<open>ClaimedAndSucceeded\<close> is reported
  only for a run whose row says \<open>succeeded\<close>. If the cycle returns an error, the worker holds at
  most one run, which its expiry gives back.
\<close>

theorem cycle_releases_its_run:
  fixes w :: "'x world"
  assumes "y_store y = dual_store b fk" and "y_claim_next y = claim_next_queued_run_with_limits_dual b"
    and "foreign (dual_store b fk) (y_worker_id y) (y_others y)"
    and "keeps (\<lambda>d. holds_within (y_worker_id y) {} (d_runs d)) (y_before y)"
    and "holds_within (y_worker_id y) {} (d_runs (w_db w))"
    and "process_once_dual y w = (res, w')"
  shows "case res of
      Inr out \<Rightarrow> holds_within (y_worker_id y) {} (d_runs (w_db w')) \<and>
        (\<forall>rid. out = ClaimedAndSucceeded rid \<longrightarrow>
          (\<exists>r. row_of (d_runs (w_db w')) rid = Some r \<and> r_status r = ''succeeded''))
    | Inl _ \<Rightarrow> \<exists>rid. holds_within (y_worker_id y) {rid} (d_runs (w_db w'))"
proof -
  have "wp (process_once_dual y) (\<lambda>out w'. outcome_true (y_worker_id y) out (d_runs (w_db w')))
    (\<lambda>_ w'. \<exists>rid. table_within (y_worker_id y) {rid} w') w"
    using assms(1-5) pg_cycle.wp_process_once [of y fk w] lite_cycle.wp_process_once [of y fk w]
    by (cases b) (auto simp: dual_store_def claim_next_queued_run_with_limits_dual_def)
  from wp_run [OF this assms(6)] show ?thesis
    by (auto simp: outcome_true_def split: sum.splits worker_cycle_outcome.splits)
qed

text \<open>
  A worker that has lost its lease: if the run is no longer held by the worker when its
  processing ends (its lease ran out, another worker took the run over and may have finished it),
  the \<open>runs\<close> table is left alone on both paths. After a failure the worker still writes a
  \<open>run.failed\<close> audit event for the run; after a success it writes nothing. Both report
  \<open>ClaimedAndFailed\<close>.
\<close>

theorem lost_lease_outcome:
  fixes w :: "'x world"
  assumes "y_store y = dual_store b fk" and "y_others y = (\<lambda>_ rows. rows)"
    and "\<forall>n. o_fault (y_env y) n = None" and "runs_ok (d_runs (w_db w))"
    and "\<not> held_by (lease_of (d_runs (w_db w))) (r_id run) (y_worker_id y)"
    and "\<forall>a \<in> set (d_audit (w_db w)). a_id a \<noteq> o_uuid (y_env y) (w_uuids w)"
    and "r_id run \<in> r_id ` set (d_runs (w_db w))"
  shows "(\<exists>w' a. run_failed y run err w = (Inr (ClaimedAndFailed (r_id run)), w') \<and>
      w_db w' = (w_db w)\<lparr>d_audit := d_audit (w_db w) @ [a]\<rparr> \<and>
      a_type a = ''run.failed'' \<and> a_run a = r_id run) \<and>
    (\<exists>w'. run_succeeded y run w = (Inr (ClaimedAndFailed (r_id run)), w') \<and> w_db w' = w_db w)"
proof (cases b)
  case Postgres
  then have S: "y_store y = postgres fk" using assms(1) by (simp add: dual_store_def)
  show ?thesis
    by (intro conjI pg.lost_lease_run_failed [OF S assms(2-7)] pg.lost_lease_run_succeeded [OF S assms(2-5)])
next
  case Sqlite
  then have S: "y_store y = sqlite fk" using assms(1) by (simp add: dual_store_def)
  show ?thesis
    by (intro conjI lite.lost_lease_run_failed [OF S assms(2-7)] lite.lost_lease_run_succeeded [OF S assms(2-5)])
qed

section \<open>Witnesses\<close>

definition sample_cycle :: "nat cycle" where
  "sample_cycle = \<lparr>y_env = sample_env, y_services = sample_services, y_connectors = sample_connectors,
     y_config = \<lparr>cy_worker = sample_config False, cy_lease_for = 30000, cy_requeue_limit = 10,
       cy_claim_max_inflight_runs = 8, cy_trigger_tenant_max_inflight_runs = 4\<rparr>,
     y_store = dual_store Sqlite (\<lambda>_. True), y_claim_next = claim_next_queued_run_with_limits_dual Sqlite,
     y_others = (\<lambda>_ rows. rows), y_before = ret (), y_time_json = jint\<rparr>"

definition sample_table :: "string \<Rightarrow> nat world" where
  "sample_table status = sample_world\<lparr>w_db := (w_db sample_world)\<lparr>d_runs :=
     [sample_claimed\<lparr>r_status := status\<rparr>]\<rparr>\<rparr>"

lemma sample_table_ok:
  assumes "status = ''queued'' \<or> status = ''succeeded''"
  shows "holds_within wk {} (d_runs (w_db (sample_table status)))"
  using assms by (auto simp: sample_table_def holds_within_def runs_ok_def row_ok_def run_statuses_def
      sample_claimed_def row_of_new_def lease_of_def row_of_def lease_row_def
      split: if_splits option.splits)

lemma sample_foreign: "foreign S wk (\<lambda>_ rows. rows)"
proof -
  have "list_all stmt_ok [] \<and> list_all (foreign_stmt wk) [] \<and> rows = fst (exec_stmts S [] rows)" for rows
    by simp
  then show ?thesis unfolding foreign_def by blast
qed

theorem cycle_releases_its_run_witness:
  "case process_once_dual sample_cycle (sample_table ''queued'') of (res, w') \<Rightarrow>
     (case res of
        Inr out \<Rightarrow> holds_within ''w1'' {} (d_runs (w_db w')) \<and>
          (\<forall>rid. out = ClaimedAndSucceeded rid \<longrightarrow>
            (\<exists>r. row_of (d_runs (w_db w')) rid = Some r \<and> r_status r = ''succeeded''))
      | Inl _ \<Rightarrow> \<exists>rid. holds_within ''w1'' {rid} (d_runs (w_db w')))"
proof -
  obtain res w' where e: "process_once_dual sample_cycle (sample_table ''queued'') = (res, w')" by force
  have wk: "y_worker_id sample_cycle = ''w1''" by (simp add: sample_cycle_def sample_config_def)
  have "case res of
      Inr out \<Rightarrow> holds_within (y_worker_id sample_cycle) {} (d_runs (w_db w')) \<and>
        (\<forall>rid. out = ClaimedAndSucceeded rid \<longrightarrow>
          (\<exists>r. row_of (d_runs (w_db w')) rid = Some r \<and> r_status r = ''succeeded''))
    | Inl _ \<Rightarrow> \<exists>rid. holds_within (y_worker_id sample_cycle) {rid} (d_runs (w_db w'))"
    by (rule cycle_releases_its_run [where b=Sqlite and fk="\<lambda>_. True", OF _ _ _ _ _ e])
      (simp_all add: sample_table_ok, simp_all add: sample_cycle_def sample_foreign keeps_basic)
  then show ?thesis unfolding e wk by simp
qed

text \<open>Another worker has finished the run; the stale worker's failure is audited all the same.\<close>

theorem lost_lease_outcome_witness:
  "\<exists>w' a. run_failed sample_cycle sample_claimed ''boom'' (sample_table ''succeeded'') =
       (Inr (ClaimedAndFailed ''run''), w') \<and>
     d_audit (w_db w') = [a] \<and> a_type a = ''run.failed'' \<and> a_run a = ''run'' \<and>
     map r_status (d_runs (w_db w')) = [''succeeded'']"
proof -
  have id: "r_id sample_claimed = ''run''" by (simp add: sample_claimed_def row_of_new_def)
  have db: "d_audit (w_db (sample_table ''succeeded'')) = []"
      "map r_status (d_runs (w_db (sample_table ''succeeded''))) = [''succeeded'']"
      "map r_id (d_runs (w_db (sample_table ''succeeded''))) = [''run'']"
    by (simp_all add: sample_table_def sample_world_def id)
  have ok: "runs_ok (d_runs (w_db (sample_table ''succeeded'')))"
      "\<not> held_by (lease_of (d_runs (w_db (sample_table ''succeeded'')))) ''run'' (y_worker_id sample_cycle)"
    using sample_table_ok [of "''succeeded''" "y_worker_id sample_cycle"] by (auto simp: holds_within_def)
  have "''run'' \<in> r_id ` set (d_runs (w_db (sample_table ''succeeded'')))"
    using db(3) by (metis list.set_intros(1) list.set_map)
  with lost_lease_outcome [of sample_cycle Sqlite "\<lambda>_. True" "sample_table ''succeeded''" sample_claimed "''boom''"]
    ok db show ?thesis
    by (auto simp: id sample_cycle_def sample_env_def)
qed

end
