(* ===== verification/EndToEnd.thy ===== *)
theory EndToEnd
  imports WorkerCycle
begin

text \<open>
  What spans the components: from the \<open>granted_capabilities\<close> JSON of a claimed run, through the
  contract and the policy, to the calls the cycle makes and the files they can write.
\<close>

section \<open>Granted calls\<close>

text \<open>
  An entry of the run's grants covers a call: it names the call's action type (with dots or with
  underscores) and its scope matches the argument that the connector will read.
\<close>

definition entry_covers :: "json \<Rightarrow> string \<Rightarrow> string \<Rightarrow> bool" where
  "entry_covers v atype arg \<longleftrightarrow>
     (\<exists>cap sc. get_str v ''capability'' = Some cap \<and>
        (cap = atype \<or> cap = map (\<lambda>c. if c = CHR ''.'' then CHR ''_'' else c) atype) \<and>
        get_str v ''scope'' = Some sc \<and> scope_matches sc arg)"

definition grants_cover :: "json \<Rightarrow> string \<Rightarrow> string \<Rightarrow> bool" where
  "grants_cover raw atype arg \<longleftrightarrow> (\<exists>items. raw = JArray items \<and> list_ex (\<lambda>v. entry_covers v atype arg) items)"

lemma scoped_field: "(t, f) \<in> scoped_arguments \<Longrightarrow> \<exists>al. (f, al) \<in> set action_arg_aliases"
  unfolding action_arg_aliases_def by (elim insertE emptyE) auto

lemma authorised_granted:
  assumes "authorised sv cfg run sid c" and "(act_type (c_action c), f) \<in> scoped_arguments"
  shows "\<exists>arg. get_str (act_args (c_action c)) f = Some arg \<and>
    grants_cover (r_granted run) (act_type (c_action c)) arg"
proof -
  from assms(1) obtain a r where a: "c_action c = normalize_skill_action a"
      and r: "to_policy_request (v_json_len sv) (v_llm_scope sv) (c_action c) = Inr r"
        "is_action_allowed (parse_grant_set (r_granted run)) r = Allow"
    by (auto simp: authorised_def)
  from policy_scope_scoped [OF assms(2), of "v_llm_scope sv"] obtain l where
    "policy_scope (v_llm_scope sv) (c_action c) = required_trimmed_arg (c_action c) f l" by blast
  with r(1) have "required_trimmed_arg (normalize_skill_action a) f l = Inr (scope r)"
    by (auto simp: to_policy_request_Inr a)
  then have arg: "get_str (act_args (c_action c)) f = Some (scope r)"
    using scoped_field [OF assms(2)] required_arg_normalized a by auto
  from r(2) obtain g where g: "g \<in> set (grants (parse_grant_set (r_granted run)))" "covers g r"
    by (auto simp: allow_iff_covers)
  from g(1) obtain items v cap where v: "r_granted run = JArray items" "v \<in> set items"
      "get_str v ''capability'' = Some cap" "parse_capability_kind cap = Some (kind g)"
      "get_str v ''scope'' = Some (grant_scope g)"
    by (auto simp: parsed_grant_iff parse_capability_grant_Some)
  have "capability_kind_to_action_type (kind g) = act_type (c_action c)"
    using g(2) r(1) from_action_type_inverse by (auto simp: covers_def to_policy_request_Inr)
  with v g(2) have "entry_covers v (act_type (c_action c)) (scope r)"
    by (auto simp: entry_covers_def covers_def parse_capability_kind_cases)
  with v arg show ?thesis by (auto simp: grants_cover_def list_ex_iff)
qed

section \<open>The calls of a cycle\<close>

lemma quiet_cycle [kept]:
  "quiet (cycle_event y run et p)" "quiet (runs_stmt y f)" "quiet (fail_run y run c m)"
  "quiet (lease_not_renewed y run n)" "quiet (run_succeeded y run)" "quiet (run_failed y run err)"
proof -
  show 1: "quiet (cycle_event y run et p)" for et p
    by (simp add: cycle_event_def quiet_parts)
  show 2: "quiet (runs_stmt y f)" for f :: "time \<Rightarrow> runs \<Rightarrow> 'c \<times> runs"
    unfolding runs_stmt_def interference_def
    by (intro quiet_bind quiet_stmt) (simp add: quiet_def)
  show 3: "quiet (fail_run y run c m)" for c m by (simp add: fail_run_def 2)
  show "quiet (lease_not_renewed y run n)" "quiet (run_failed y run err)"
    by (simp_all add: lease_not_renewed_def run_failed_def Let_def 1 3 kept)
  have "quiet (runs_stmt y g)" for g :: "time \<Rightarrow> runs \<Rightarrow> bool \<times> runs"
    unfolding runs_stmt_def interference_def
    by (intro quiet_bind quiet_stmt) (simp add: quiet_def)
  then show "quiet (run_succeeded y run)"
    unfolding run_succeeded_def by (auto intro!: quiet_bind 1 3 kept)
qed

text \<open>The calls logged since a world are those of one claimed run, all of them authorised.\<close>

definition claimed_by :: "'x cycle \<Rightarrow> run_row \<Rightarrow> bool" where
  "claimed_by y run \<longleftrightarrow> (\<exists>now rows rows'. y_claim_next y now (y_worker_id y) (cy_lease_for (y_config y))
     (cy_claim_max_inflight_runs (y_config y)) (cy_trigger_tenant_max_inflight_runs (y_config y)) rows =
     (Some run, rows'))"

lemma claimed_byI:
  "y_claim_next y now (y_worker_id y) (cy_lease_for (y_config y)) (cy_claim_max_inflight_runs (y_config y))
     (cy_trigger_tenant_max_inflight_runs (y_config y)) rows = (Some run, rows') \<Longrightarrow> claimed_by y run"
  unfolding claimed_by_def by blast

definition calls_since :: "'x cycle \<Rightarrow> call list \<Rightarrow> 'x world \<Rightarrow> bool" where
  "calls_since y cs0 w \<longleftrightarrow> w_calls w = cs0 \<or>
     (\<exists>run sid cs. claimed_by y run \<and> w_calls w = cs0 @ cs \<and>
        list_all (authorised (y_services y) (cy_worker (y_config y)) run sid) cs)"

lemma quiet_calls_since:
  fixes w :: "'x world"
  assumes "quiet m" and "calls_since y cs0 w"
  shows "wp m (\<lambda>_. calls_since y cs0) (\<lambda>_. calls_since y cs0) w"
  by (rule wp_mono [OF quiet_wp [OF assms(1)]]) (use assms(2) in \<open>simp_all add: calls_since_def\<close>)

lemma wp_claimed_calls:
  fixes w :: "'x world"
  assumes "claimed_by y run" and "w_calls w = cs0"
  shows "wp (run_claimed y run n) (\<lambda>_. calls_since y cs0) (\<lambda>_. calls_since y cs0) w"
proof -
  let ?P = "\<lambda>(_::worker_cycle_outcome) (w'::'x world). calls_since y cs0 w'"
  let ?E = "\<lambda>(_::string) (w'::'x world). calls_since y cs0 w'"
  have same: "w_calls w' = cs0 \<Longrightarrow> calls_since y cs0 w'" for w' :: "'x world"
    by (simp add: calls_since_def)
  have process: "wp (process_claimed_run (y_env y) (y_services y) (y_connectors y)
      (cy_worker (y_config y)) run tr) (\<lambda>_. wp (run_succeeded y run) ?P ?E)
      (\<lambda>e. wp (run_failed y run e) ?P ?E) w2" if "w_calls w2 = cs0" for tr w2
  proof (rule wp_mono [OF wp_process_claimed_run])
    fix w' :: "'x world" assume "\<exists>z :: 'x site. z_services z = y_services y \<and> z_config z = cy_worker (y_config y) \<and>
      z_run z = run \<and> all_calls z (w_calls w2) () w'"
    with that assms(1) have "calls_since y cs0 w'" by (auto simp: calls_for_def calls_since_def)
    then show "wp (run_succeeded y run) ?P ?E w'" by (intro quiet_calls_since quiet_cycle)
  next
    fix e and w' :: "'x world" assume "\<exists>z :: 'x site. z_services z = y_services y \<and> z_config z = cy_worker (y_config y) \<and>
      z_run z = run \<and> step_calls z (w_calls w2) () w'"
    with that assms(1) have "calls_since y cs0 w'" by (auto simp: calls_for_def calls_since_def)
    then show "wp (run_failed y run e) ?P ?E w'" by (intro quiet_calls_since quiet_cycle)
  qed
  have started: "wp (cycle_event y run et p) (\<lambda>_. wp (process_claimed_run (y_env y) (y_services y)
      (y_connectors y) (cy_worker (y_config y)) run tr) (\<lambda>_. wp (run_succeeded y run) ?P ?E)
      (\<lambda>e. wp (run_failed y run e) ?P ?E)) ?E w2" if "w_calls w2 = cs0" for tr w2 et p
    by (rule wp_mono [OF quiet_wp [OF quiet_cycle(1)]]) (simp_all add: that process same)
  have renewed: "wp (runs_stmt y f) (\<lambda>v. wp (if \<not> v then lease_not_renewed y run n
       else seq [cycle_event y run et p] (handle (process_claimed_run (y_env y) (y_services y)
         (y_connectors y) (cy_worker (y_config y)) run tr) (run_failed y run) (\<lambda>_. run_succeeded y run))) ?P ?E)
      ?E w2" if "w_calls w2 = cs0" for f et p tr w2
    by (rule wp_mono [OF quiet_wp [OF quiet_cycle(2)]])
      (simp_all add: that wp_simps started same quiet_calls_since quiet_cycle)
  show ?thesis
    unfolding run_claimed_def wp_simps
    by (rule wp_mono [OF quiet_wp [OF quiet_cycle(1)]])
      (simp_all add: assms(2) renewed [unfolded wp_simps] wp_simps same)
qed

lemma wp_process_once_calls:
  fixes w :: "'x world"
  assumes "quiet (y_before y)"
  shows "wp (process_once_dual y) (\<lambda>_. calls_since y (w_calls w)) (\<lambda>_. calls_since y (w_calls w)) w"
proof -
  let ?P = "\<lambda>(_::worker_cycle_outcome) (w'::'x world). calls_since y (w_calls w) w'"
  let ?E = "\<lambda>(_::string) (w'::'x world). calls_since y (w_calls w) w'"
  have same: "w_calls w' = w_calls w \<Longrightarrow> calls_since y (w_calls w) w'" for w' :: "'x world"
    by (simp add: calls_since_def)
  have claim: "wp (runs_stmt y f) (\<lambda>v w'. w_calls w' = w_calls w2 \<and> (\<exists>now rows rows'. f now rows = (v, rows')))
      (\<lambda>_ w'. w_calls w' = w_calls w2) w2" for w2 and f :: "time \<Rightarrow> runs \<Rightarrow> run_row option \<times> runs"
    by (rule wp_mono [OF wp_conj [OF quiet_wp [OF quiet_cycle(2)]
          wp_runs_stmtI [where J="\<lambda>_. True" and E="\<lambda>_ _. True"
            and Q="\<lambda>v _. \<exists>now rows rows'. f now rows = (v, rows')"]]]) auto
  have "wp (runs_stmt y (\<lambda>now. y_claim_next y now (y_worker_id y) (cy_lease_for (y_config y))
             (cy_claim_max_inflight_runs (y_config y))
             (cy_trigger_tenant_max_inflight_runs (y_config y))))
        (\<lambda>v. wp (case v of None \<Rightarrow> ret (Idle n) | Some run \<Rightarrow> run_claimed y run n) ?P ?E) ?E w2"
    if "w_calls w2 = w_calls w" for n w2
    by (rule wp_mono [OF claim])
      (use that claimed_byI [of y] in \<open>auto simp: wp_simps split: option.split intro!: same wp_claimed_calls\<close>)
  then have "wp (y_before y) (\<lambda>_. wp (runs_stmt y (\<lambda>now. y_claim_next y now (y_worker_id y)
             (cy_lease_for (y_config y)) (cy_claim_max_inflight_runs (y_config y))
             (cy_trigger_tenant_max_inflight_runs (y_config y))))
        (\<lambda>v. wp (case v of None \<Rightarrow> ret (Idle n) | Some run \<Rightarrow> run_claimed y run n) ?P ?E) ?E) ?E w2"
    if "w_calls w2 = w_calls w" for n w2
    by (intro wp_mono [OF quiet_wp [OF assms]]) (use that in \<open>auto intro!: same\<close>)
  then show ?thesis
    unfolding process_once_dual_def wp_simps
    by (intro wp_mono [OF quiet_wp [OF quiet_cycle(2)]]) (auto intro!: same)
qed

section \<open>Granted directories\<close>

text \<open>The named parts of a path, \<open>.\<close> skipped.\<close>

abbreviation named :: "path \<Rightarrow> path_component list" where
  "named p \<equiv> filter (\<lambda>c. c \<noteq> CurDir) (components p)"

lemma named_relative:
  assumes "\<not> is_absolute p"
  shows "named p = List.map_filter body_component (split_on p (CHR ''/''))"
  using assms
  by (auto simp: components_def Let_def body_component_def List.map_filter_def filter_id_conv)

lemma named_append:
  assumes "\<not> is_absolute (d @ ''/'' @ p)" and "d \<noteq> []"
  shows "\<exists>cs. named (d @ ''/'' @ p) = named d @ cs"
proof -
  have "\<not> is_absolute d" using assms by (cases d) (auto simp: is_absolute_def str_simps)
  then show ?thesis
    using assms(1) by (simp add: named_relative split_on_append_delim map_filter_append)
qed

lemma object_path_relative:
  "object_path root run args = Some p \<Longrightarrow> get_str args ''path'' = Some arg \<Longrightarrow> \<not> is_absolute arg"
  by (auto simp: object_path_def sanitize_relative_path_def split: option.splits sum.splits if_splits)

section \<open>Properties\<close>

text \<open>
  From the grants to the calls: every connector call of a cycle, whatever the other processes
  do and whichever statements fail, belongs to the run the cycle claimed, and for every action type
  that is judged by an argument, an entry of that run's \<open>granted_capabilities\<close> names the action
  type and has a scope that matches the very argument the connector is called with.
\<close>

theorem cycle_calls_are_granted:
  assumes "quiet (y_before y)" and "process_once_dual y w = (res, w')"
  shows "w_calls w' = w_calls w \<or>
    (\<exists>run cs. claimed_by y run \<and> w_calls w' = w_calls w @ cs \<and>
       (\<forall>c \<in> set cs. \<forall>f. (act_type (c_action c), f) \<in> scoped_arguments \<longrightarrow>
          (\<exists>arg. get_str (act_args (c_action c)) f = Some arg \<and>
             grants_cover (r_granted run) (act_type (c_action c)) arg)))"
proof -
  have "calls_since y (w_calls w) w'"
    using wp_run [OF wp_process_once_calls [OF assms(1)] assms(2)] by (simp split: sum.splits)
  then consider "w_calls w' = w_calls w" | run sid cs where "claimed_by y run"
      "w_calls w' = w_calls w @ cs"
      "\<And>c. c \<in> set cs \<Longrightarrow> authorised (y_services y) (cy_worker (y_config y)) run sid c"
    unfolding calls_since_def list_all_iff by blast
  then show ?thesis
  proof cases
    case 2
    then show ?thesis
      by (intro disjI2 exI [of _ run] exI [of _ cs] conjI ballI allI impI authorised_granted)
  qed simp
qed

text \<open>
  A granted directory confines writes: if every \<open>object.write\<close> entry of a run's grants has a
  scope of the form \<open>d/*\<close>, then the file an authorised \<open>object.write\<close> call can change lies, in
  the tenant's part of the artifact root, under one of those directories \<open>d\<close>, although policy
  compares texts and the file is found by its sanitised components.
\<close>

theorem granted_directory_confines_writes:
  assumes "authorised sv cfg run sid c" and "act_type (c_action c) = ''object.write''"
    and "execute_object_write_action env k root run (act_args (c_action c)) w = (res, w')"
    and "w_ext w' p \<noteq> w_ext w p"
    and "\<forall>items v sc. r_granted run = JArray items \<longrightarrow> v \<in> set items \<longrightarrow>
      get_str v ''capability'' = Some ''object.write'' \<or> get_str v ''capability'' = Some ''object_write'' \<longrightarrow>
      get_str v ''scope'' = Some sc \<longrightarrow> (\<exists>d. d \<noteq> [] \<and> sc = d @ ''/*'')"
  shows "\<exists>items v d rest. r_granted run = JArray items \<and> v \<in> set items \<and>
    get_str v ''scope'' = Some (d @ ''/*'') \<and>
    components p = components root @ Normal ''tenants'' # named (r_tenant run) @ named d @ rest"
proof -
  have path: "object_path root run (act_args (c_action c)) = Some p"
    by (rule object_write_touches [OF assms(3,4)])
  from object_path_components [OF path] obtain arg where arg:
    "get_str (act_args (c_action c)) ''path'' = Some arg"
    "components p = components root @ Normal ''tenants'' # named (r_tenant run) @ named arg" by metis
  from authorised_granted [OF assms(1), of "''path''"] assms(2) arg(1) have
    "grants_cover (r_granted run) ''object.write'' arg" by auto
  then obtain items v sc where v: "r_granted run = JArray items" "v \<in> set items"
      "get_str v ''scope'' = Some sc" "scope_matches sc arg"
      "get_str v ''capability'' = Some ''object.write'' \<or> get_str v ''capability'' = Some ''object_write''"
    by (auto simp: grants_cover_def list_ex_iff entry_covers_def)
  with assms(5) obtain d where d: "d \<noteq> []" "sc = d @ ''/*''" by blast
  have sc: "sc = (d @ ''/'') @ ''*''" using d by simp
  from v(4) obtain t where t: "arg = d @ ''/'' @ t" unfolding sc scope_matches_star by auto
  from named_append [of d t] object_path_relative [OF path arg(1)] d(1) obtain rest where
    "named arg = named d @ rest" unfolding t by blast
  with v d arg(2) show ?thesis by (intro exI [of _ items] exI [of _ v] exI [of _ d] exI [of _ rest]) simp
qed

section \<open>Witnesses\<close>

theorem cycle_calls_are_granted_witness:
  "\<exists>res w'. process_once_dual sample_cycle (sample_table ''queued'') = (res, w') \<and>
    (w_calls w' = [] \<or> (\<exists>run cs. claimed_by sample_cycle run \<and> w_calls w' = cs \<and>
       (\<forall>c \<in> set cs. \<forall>f. (act_type (c_action c), f) \<in> scoped_arguments \<longrightarrow>
          (\<exists>arg. get_str (act_args (c_action c)) f = Some arg \<and>
             grants_cover (r_granted run) (act_type (c_action c)) arg))))"
proof -
  obtain res w' where e: "process_once_dual sample_cycle (sample_table ''queued'') = (res, w')" by force
  have "quiet (y_before sample_cycle)" by (simp add: sample_cycle_def quiet_basic)
  moreover have "w_calls (sample_table ''queued'') = []" by (simp add: sample_table_def sample_world_def)
  ultimately show ?thesis
    using cycle_calls_are_granted [OF _ e] e by simp
qed

definition sample_object_action :: action_request where
  "sample_object_action = \<lparr>act_id = ''a1'', act_type = ''object.write'',
     act_args = object_args ''b/f'' ''1'', act_justification = ''save'', act_contract_version = None,
     act_schema_id = None\<rparr>"

definition sample_granted_run :: run_row where
  "sample_granted_run = (sample_object_run ''a'')\<lparr>r_granted :=
     JArray [jobj [(''capability'', JString ''object.write''), (''scope'', JString ''b/*'')]]\<rparr>"

definition sample_call :: call where
  "sample_call = \<lparr>c_request = ''q'', c_action = sample_object_action,
     c_db = empty_db\<lparr>d_requests := [\<lparr>q_id = ''q'', q_step = ''s'',
       q_type = ''object.write'', q_args = redact_json (object_args ''b/f'' ''1''),
       q_justification = None, q_status = ''allowed'', q_reason = None\<rparr>],
       d_audit := [\<lparr>a_id = ''e'', a_run = ''r'', a_step = Some ''s'', a_tenant = ''a'', a_agent = None,
         a_user = None, a_actor = ''w'', a_type = ''action.allowed'', a_payload = JNull\<rparr>]\<rparr>\<rparr>"

lemma sample_object_normal: "normalize_skill_action sample_object_action = sample_object_action"
proof -
  have "normalize_args (object_args ''b/f'' ''1'') = object_args ''b/f'' ''1''"
      "normalized_action_type ''object.write'' = ''object.write''"
    by code_simp+
  then show ?thesis
    by (simp add: normalize_skill_action_def sample_object_action_def trim_optional_def)
qed

lemma sample_object_request:
  "to_policy_request (\<lambda>_. Inr 41) (\<lambda>_. Inl []) sample_object_action =
     Inr \<lparr>action_type = ''object.write'', scope = ''b/f'', payload_bytes = 41\<rparr>"
proof -
  have "trim ''b/f'' = ''b/f''" by code_simp
  then have "required_trimmed_arg sample_object_action ''path'' l = Inr ''b/f''" for l
    unfolding required_trimmed_arg_Inr by (simp add: sample_object_action_def)
  moreover have "validate_action_contract sample_object_action = Inr ()"
    by (simp add: sample_object_action_def validate_action_contract_def)
  ultimately show ?thesis by (simp add: to_policy_request_Inr policy_scope_of(1) sample_object_action_def)
qed

lemma sample_call_authorised: "authorised sample_services (sample_config False) sample_granted_run ''s'' sample_call"
proof -
  have grants: "parse_grant_set (r_granted sample_granted_run) = \<lparr>grants = [grant_new ObjectWrite ''b/*'']\<rparr>"
    by (simp add: sample_granted_run_def parse_grant_set_def parse_capability_grant_def jobj_def
        get_str_def obj_of_list_def parse_capability_kind_def List.map_filter_def)
  have "scope_matches (''b/'' @ ''*'') ''b/f''" unfolding scope_matches_star by simp
  then have "is_action_allowed (parse_grant_set (r_granted sample_granted_run))
      \<lparr>action_type = ''object.write'', scope = ''b/f'', payload_bytes = 41\<rparr> = Allow"
    by (simp add: grants allow_iff_covers covers_def grant_new_def from_action_type_def within_limit_def)
  with sample_object_request sample_object_normal show ?thesis
    by (auto simp: authorised_def sample_call_def sample_services_def sample_config_def
        requires_governance_approval_def sample_granted_run_def sample_object_run_def row_of_new_def
        sample_object_action_def intro!: exI [of _ sample_object_action])
qed

theorem granted_directory_confines_writes_witness:
  "\<exists>rest. components ''/art/tenants/a/b/f'' =
     components ''/art'' @ Normal ''tenants'' # named ''a'' @ named ''b'' @ rest"
proof -
  let ?run = "sample_granted_run"
  have path: "get_str (act_args (c_action sample_call)) ''path'' = Some ''b/f''"
      "get_str (act_args (c_action sample_call)) ''content'' = Some ''1''"
      "act_type (c_action sample_call) = ''object.write''" "r_tenant ?run = ''a''"
    by (simp_all add: sample_call_def sample_object_action_def sample_granted_run_def
        sample_object_run_def row_of_new_def)
  obtain res w' where e: "execute_object_write_action sample_outside sample_disk ''/art'' ?run
      (act_args (c_action sample_call)) (sample_start ''a'') = (res, w')" by force
  have "w_ext w' ''/art/tenants/a/b/f'' = Some ''1''"
    using e unfolding execute_object_write_action_def Let_def
    by (auto simp: path sample_paths sample_outside_def sample_disk_def sample_start_def
      tenant_scoped_artifact_root_def bind_def create_dir_all_def write_file_def ret_def new_v4_def
      stmt_def persist_artifact_metadata_def split: if_splits)
  then have changed: "w_ext w' ''/art/tenants/a/b/f'' \<noteq> w_ext (sample_start ''a'') ''/art/tenants/a/b/f''"
    by (simp add: sample_start_def)
  have scopes: "r_granted ?run = JArray items \<Longrightarrow> v \<in> set items \<Longrightarrow>
      get_str v ''scope'' = Some sc \<Longrightarrow> sc = ''b'' @ ''/*''" for items v sc
    by (auto simp: sample_granted_run_def jobj_def get_str_def obj_of_list_def)
  have dirs: "\<exists>d. d \<noteq> [] \<and> sc = d @ ''/*''" if "r_granted ?run = JArray items" "v \<in> set items"
    "get_str v ''scope'' = Some sc" for items v sc
    using scopes [OF that] by (intro exI [of _ "''b''"]) simp
  from granted_directory_confines_writes [OF sample_call_authorised path(3) e changed] dirs
  obtain items v d rest where r: "r_granted ?run = JArray items" "v \<in> set items"
    "get_str v ''scope'' = Some (d @ ''/*'')"
    "components ''/art/tenants/a/b/f'' = components ''/art'' @ Normal ''tenants'' # named (r_tenant ?run) @ named d @ rest"
    by blast
  with scopes [OF r(1-3)] path(4) show ?thesis by auto
qed

end
