(* ===== verification/ApiGrants.thy ===== *)
theory ApiGrants
  imports ActionContract
begin

text \<open>
  What the API grants to a run it creates (\<open>api/src/lib.rs\<close>): the request's capabilities are
  normalised and filtered, restricted to the recipe's bundle and to the caller's role, and clamped
  to the platform's payload limits. The result is the \<open>granted_capabilities\<close> JSON that the worker
  later parses and judges every action by.
\<close>

section \<open>Errors and roles\<close>

record api_error =
  ae_status :: nat
  ae_code :: string
  ae_message :: string

definition bad_request :: "string \<Rightarrow> api_error" where
  "bad_request m = \<lparr>ae_status = 400, ae_code = ''BAD_REQUEST'', ae_message = m\<rparr>"

definition unauthorized :: "string \<Rightarrow> api_error" where
  "unauthorized m = \<lparr>ae_status = 401, ae_code = ''UNAUTHORIZED'', ae_message = m\<rparr>"

definition forbidden :: "string \<Rightarrow> api_error" where
  "forbidden m = \<lparr>ae_status = 403, ae_code = ''FORBIDDEN'', ae_message = m\<rparr>"

definition conflict :: "string \<Rightarrow> api_error" where
  "conflict m = \<lparr>ae_status = 409, ae_code = ''CONFLICT'', ae_message = m\<rparr>"

definition not_found :: "string \<Rightarrow> api_error" where
  "not_found m = \<lparr>ae_status = 404, ae_code = ''NOT_FOUND'', ae_message = m\<rparr>"

definition internal :: "string \<Rightarrow> api_error" where
  "internal m = \<lparr>ae_status = 500, ae_code = ''INTERNAL'', ae_message = m\<rparr>"

datatype role_preset = Owner | Operator | Viewer

definition role_parse :: "string \<Rightarrow> role_preset option" where
  "role_parse raw =
     (let r = to_ascii_lowercase (trim raw)
      in if r = ''owner'' then Some Owner
         else if r = ''operator'' then Some Operator
         else if r = ''viewer'' then Some Viewer
         else None)"

fun role_as_str :: "role_preset \<Rightarrow> string" where
  "role_as_str Owner = ''owner''"
| "role_as_str Operator = ''operator''"
| "role_as_str Viewer = ''viewer''"

section \<open>Limits and scopes\<close>

definition MAX_OBJECT_WRITE_PAYLOAD_BYTES :: u64 where "MAX_OBJECT_WRITE_PAYLOAD_BYTES = 500000"
definition MAX_MESSAGE_SEND_PAYLOAD_BYTES :: u64 where "MAX_MESSAGE_SEND_PAYLOAD_BYTES = 20000"
definition MAX_OBJECT_READ_PAYLOAD_BYTES :: u64 where "MAX_OBJECT_READ_PAYLOAD_BYTES = 128000"
definition MAX_LOCAL_EXEC_PAYLOAD_BYTES :: u64 where "MAX_LOCAL_EXEC_PAYLOAD_BYTES = 4096"
definition MAX_LLM_INFER_PAYLOAD_BYTES :: u64 where "MAX_LLM_INFER_PAYLOAD_BYTES = 32000"
definition MAX_PAYMENT_SEND_PAYLOAD_BYTES :: u64 where "MAX_PAYMENT_SEND_PAYLOAD_BYTES = 16000"
definition MAX_MEMORY_READ_PAYLOAD_BYTES :: u64 where "MAX_MEMORY_READ_PAYLOAD_BYTES = 64000"
definition MAX_MEMORY_WRITE_PAYLOAD_BYTES :: u64 where "MAX_MEMORY_WRITE_PAYLOAD_BYTES = 64000"

text \<open>The arms of the \<open>match\<close>: each spelling and the name it stands for.\<close>

definition capability_spellings :: "(string \<times> string) list" where
  "capability_spellings =
     [(''object.read'', ''object.read''), (''object_read'', ''object.read''),
      (''object.write'', ''object.write''), (''object_write'', ''object.write''),
      (''memory.read'', ''memory.read''), (''memory_read'', ''memory.read''),
      (''memory.write'', ''memory.write''), (''memory_write'', ''memory.write''),
      (''message.send'', ''message.send''), (''message_send'', ''message.send''),
      (''message.receive'', ''message.receive''), (''message_receive'', ''message.receive''),
      (''payment.send'', ''payment.send''), (''payment_send'', ''payment.send''),
      (''llm.infer'', ''llm.infer''), (''llm_infer'', ''llm.infer''),
      (''local.exec'', ''local.exec''), (''local_exec'', ''local.exec''),
      (''db.query'', ''db.query''), (''db_query'', ''db.query''),
      (''http.request'', ''http.request''), (''http_request'', ''http.request'')]"

definition normalize_capability :: "string \<Rightarrow> string option" where
  "normalize_capability raw = map_of capability_spellings (to_ascii_lowercase (trim raw))"

definition is_scope_allowed_for_capability :: "string \<Rightarrow> string \<Rightarrow> bool" where
  "is_scope_allowed_for_capability capability sc =
     (if contains sc ''..'' \<or> CHR 0x00 \<in> set sc then False
      else if capability = ''object.read'' then starts_with sc ''podcasts/''
      else if capability = ''object.write'' then starts_with sc ''shownotes/''
      else if capability = ''memory.read'' \<or> capability = ''memory.write''
        then starts_with sc ''memory:''
      else if capability = ''message.send'' \<or> capability = ''message.receive''
        then starts_with sc ''whitenoise:'' \<or> starts_with sc ''slack:''
      else if capability = ''payment.send''
        then starts_with sc ''nwc:'' \<or> starts_with sc ''cashu:''
      else if capability = ''llm.infer''
        then starts_with sc ''local:'' \<or> starts_with sc ''remote:''
      else if capability = ''local.exec'' then starts_with sc ''local.exec:''
      else False)"

definition hard_max :: "string \<Rightarrow> u64" where
  "hard_max capability =
     (if capability = ''object.read'' then MAX_OBJECT_READ_PAYLOAD_BYTES
      else if capability = ''object.write'' then MAX_OBJECT_WRITE_PAYLOAD_BYTES
      else if capability = ''memory.read'' then MAX_MEMORY_READ_PAYLOAD_BYTES
      else if capability = ''memory.write'' then MAX_MEMORY_WRITE_PAYLOAD_BYTES
      else if capability = ''message.send'' \<or> capability = ''message.receive''
        then MAX_MESSAGE_SEND_PAYLOAD_BYTES
      else if capability = ''payment.send'' then MAX_PAYMENT_SEND_PAYLOAD_BYTES
      else if capability = ''llm.infer'' then MAX_LLM_INFER_PAYLOAD_BYTES
      else if capability = ''local.exec'' then MAX_LOCAL_EXEC_PAYLOAD_BYTES
      else 0)"

definition resolve_max_payload_bytes :: "string \<Rightarrow> json option \<Rightarrow> u64" where
  "resolve_max_payload_bytes capability lim =
     (case Option.bind lim as_u64 of
        Some value \<Rightarrow> if 0 < value then min value (hard_max capability) else hard_max capability
      | None \<Rightarrow> hard_max capability)"

definition capability_json :: "string \<Rightarrow> string \<Rightarrow> u64 option \<Rightarrow> u64 option \<Rightarrow> json" where
  "capability_json capability sc requested_max bundle_max =
     (let hard_max = resolve_max_payload_bytes capability None;
          bundle_cap = (case bundle_max of None \<Rightarrow> hard_max | Some m \<Rightarrow> min m hard_max);
          capped_max = (case requested_max of
              None \<Rightarrow> bundle_cap
            | Some v \<Rightarrow> if 0 < v then min v bundle_cap else bundle_cap)
      in JObject (obj_of_list [(''capability'', JString capability), (''scope'', JString sc),
           (''limits'', JObject [(''max_payload_bytes'', JNumber (PosInt capped_max))])]))"

definition scope_within :: "string \<Rightarrow> string \<Rightarrow> bool" where
  "scope_within granted requested =
     (case strip_suffix granted ''*'' of
        Some prefix \<Rightarrow> starts_with requested prefix
      | None \<Rightarrow> granted = requested)"

fun role_allows_capability :: "role_preset \<Rightarrow> string \<Rightarrow> string \<Rightarrow> bool" where
  "role_allows_capability Owner capability sc = True"
| "role_allows_capability Operator capability sc = (capability \<noteq> ''local.exec'')"
| "role_allows_capability Viewer capability sc =
     (capability = ''object.read'' \<or> capability = ''llm.infer'' \<and> starts_with sc ''local:'')"

section \<open>Requests and bundles\<close>

record requested_capability =
  rc_capability :: string
  rc_scope :: string
  rc_max :: "u64 option"

record bundle_capability =
  bc_capability :: string
  bc_scope :: string
  bc_max :: "u64 option"

definition bc :: "string \<Rightarrow> string \<Rightarrow> u64 \<Rightarrow> bundle_capability" where
  "bc c s m = \<lparr>bc_capability = c, bc_scope = s, bc_max = Some m\<rparr>"

fun parse_requested_items :: "json list \<Rightarrow> api_error + requested_capability list" where
  "parse_requested_items [] = Inr []"
| "parse_requested_items (item # items) =
     (case get_str item ''capability'' of
        None \<Rightarrow> Inl (bad_request ''capability entry missing string `capability`'')
      | Some capability_raw \<Rightarrow>
     case map_option trim (get_str item ''scope'') of
        None \<Rightarrow> Inl (bad_request ''capability entry missing string `scope`'')
      | Some sc \<Rightarrow>
     if sc = [] then Inl (bad_request ''capability scope must not be empty'')
     else case normalize_capability capability_raw of
        None \<Rightarrow> parse_requested_items items
      | Some capability \<Rightarrow>
     if \<not> is_scope_allowed_for_capability capability sc then parse_requested_items items
     else case parse_requested_items items of
        Inl e \<Rightarrow> Inl e
      | Inr parsed \<Rightarrow>
          Inr (\<lparr>rc_capability = capability, rc_scope = sc,
            rc_max = Option.bind (json_get item ''limits'') (\<lambda>l. get_u64 l ''max_payload_bytes'')\<rparr>
            # parsed))"

definition parse_requested_capabilities :: "json \<Rightarrow> api_error + requested_capability list" where
  "parse_requested_capabilities requested =
     (case as_array requested of
        None \<Rightarrow> Inl (bad_request ''requested_capabilities must be an array'')
      | Some items \<Rightarrow> parse_requested_items items)"

definition recipe_bundles :: "(string \<times> bundle_capability list) list" where
  "recipe_bundles =
     [(''show_notes_v1'',
        [bc ''object.read'' ''podcasts/*'' MAX_OBJECT_READ_PAYLOAD_BYTES,
         bc ''object.write'' ''shownotes/*'' MAX_OBJECT_WRITE_PAYLOAD_BYTES,
         bc ''message.send'' ''whitenoise:*'' MAX_MESSAGE_SEND_PAYLOAD_BYTES,
         bc ''llm.infer'' ''local:*'' MAX_LLM_INFER_PAYLOAD_BYTES,
         bc ''local.exec'' ''local.exec:file.head'' MAX_LOCAL_EXEC_PAYLOAD_BYTES]),
      (''notify_v1'',
        [bc ''message.send'' ''whitenoise:*'' MAX_MESSAGE_SEND_PAYLOAD_BYTES,
         bc ''message.send'' ''slack:*'' MAX_MESSAGE_SEND_PAYLOAD_BYTES,
         bc ''llm.infer'' ''local:*'' MAX_LLM_INFER_PAYLOAD_BYTES]),
      (''operator_reply_v1'', [bc ''message.send'' ''whitenoise:*'' MAX_MESSAGE_SEND_PAYLOAD_BYTES]),
      (''operator_chat_v1'',
        [bc ''message.send'' ''whitenoise:*'' MAX_MESSAGE_SEND_PAYLOAD_BYTES,
         bc ''message.send'' ''slack:*'' MAX_MESSAGE_SEND_PAYLOAD_BYTES,
         bc ''llm.infer'' ''local:*'' MAX_LLM_INFER_PAYLOAD_BYTES,
         bc ''llm.infer'' ''remote:*'' MAX_LLM_INFER_PAYLOAD_BYTES]),
      (''payments_v1'', [bc ''payment.send'' ''nwc:*'' MAX_PAYMENT_SEND_PAYLOAD_BYTES]),
      (''payments_cashu_v1'', [bc ''payment.send'' ''cashu:*'' MAX_PAYMENT_SEND_PAYLOAD_BYTES]),
      (''memory_v1'',
        [bc ''memory.read'' ''memory:*'' MAX_MEMORY_READ_PAYLOAD_BYTES,
         bc ''memory.write'' ''memory:*'' MAX_MEMORY_WRITE_PAYLOAD_BYTES]),
      (''llm_local_v1'', [bc ''llm.infer'' ''local:*'' MAX_LLM_INFER_PAYLOAD_BYTES]),
      (''llm_remote_v1'', [bc ''llm.infer'' ''remote:*'' MAX_LLM_INFER_PAYLOAD_BYTES]),
      (''local_exec_v1'',
        [bc ''local.exec'' ''local.exec:file.head'' MAX_LOCAL_EXEC_PAYLOAD_BYTES,
         bc ''local.exec'' ''local.exec:file.word_count'' MAX_LOCAL_EXEC_PAYLOAD_BYTES])]"

definition resolve_recipe_capability_bundle :: "string \<Rightarrow> bundle_capability list option" where
  "resolve_recipe_capability_bundle recipe_id = map_of recipe_bundles recipe_id"

definition resolve_granted_capabilities ::
    "string \<Rightarrow> role_preset \<Rightarrow> json \<Rightarrow> api_error + json" where
  "resolve_granted_capabilities recipe_id role requested_capabilities =
     (case parse_requested_capabilities requested_capabilities of
        Inl e \<Rightarrow> Inl e
      | Inr requested \<Rightarrow>
     case resolve_recipe_capability_bundle recipe_id of
        None \<Rightarrow> Inr (JArray
          (map (\<lambda>i. capability_json (rc_capability i) (rc_scope i) (rc_max i) None)
            (filter (\<lambda>i. role_allows_capability role (rc_capability i) (rc_scope i)) requested)))
      | Some whole \<Rightarrow>
     let bundle = filter (\<lambda>b. role_allows_capability role (bc_capability b) (bc_scope b)) whole
     in if requested = [] then
          Inr (JArray (map (\<lambda>b. capability_json (bc_capability b) (bc_scope b) None (bc_max b)) bundle))
        else
          Inr (JArray (List.map_filter (\<lambda>i.
            map_option (\<lambda>b. capability_json (rc_capability i) (rc_scope i) (rc_max i) (bc_max b))
              (find (\<lambda>b. bc_capability b = rc_capability i \<and> scope_within (bc_scope b) (rc_scope i))
                bundle)) requested)))"

section \<open>Scopes\<close>

lemma scope_within_matches: "scope_within = scope_matches"
  by (simp add: fun_eq_iff scope_within_def scope_matches_def)

lemma scope_matches_cases:
  "scope_matches s x \<longleftrightarrow> (\<exists>p t. s = p @ ''*'' \<and> x = p @ t) \<or> (\<nexists>p. s = p @ ''*'') \<and> x = s"
  by (auto simp: scope_matches_def strip_suffix_Some strip_suffix_None starts_with_iff
      split: option.splits)

text \<open>A prefix that does not end with a star passes from a granted scope to what it matches.\<close>

lemma scope_matches_prefix:
  assumes "starts_with s q" and "q = [] \<or> last q \<noteq> CHR ''*''" and "scope_matches s x"
  shows "starts_with x q"
proof -
  from assms(1) obtain t where s: "s = q @ t" by (auto simp: starts_with_iff)
  have "\<exists>u. x = q @ u" if "s = p @ ''*''" "x = p @ v" for p v
  proof (cases t rule: rev_cases)
    case Nil
    with s that(1) assms(2) show ?thesis by auto
  next
    case (snoc t' c)
    with s that have "p = q @ t'" by simp
    with that(2) show ?thesis by simp
  qed
  with assms(3) s show ?thesis unfolding scope_matches_cases starts_with_iff by blast
qed

lemma scope_matches_trans:
  assumes "scope_matches b s" and "scope_matches s x" and "\<nexists>p. b = p @ ''**''"
  shows "scope_matches b x"
proof (cases "\<exists>p. b = p @ ''*''")
  case True
  then obtain p where b: "b = p @ ''*''" by blast
  have "p = [] \<or> last p \<noteq> CHR ''*''"
  proof (rule ccontr)
    assume "\<not> (p = [] \<or> last p \<noteq> CHR ''*'')"
    then have "p = butlast p @ ''*''" by (metis append_butlast_last_id)
    with b have "b = butlast p @ ''**''" by (metis append.assoc append_Cons append_Nil)
    with assms(3) show False by blast
  qed
  moreover have "starts_with s p" using assms(1) b by (auto simp: scope_matches_star starts_with_iff)
  ultimately have "starts_with x p" using scope_matches_prefix assms(2) by blast
  then show ?thesis unfolding b scope_matches_star starts_with_iff .
next
  case False
  with assms(1,2) show ?thesis by (simp add: scope_matches_cases)
qed

section \<open>Names, bundles and entries\<close>

lemma spellings_names:
  assumes "(a, c) \<in> set capability_spellings"
  shows "parse_capability_kind c = from_action_type c \<and> from_action_type c \<noteq> None"
proof -
  have "list_all (\<lambda>(a, c). parse_capability_kind c = from_action_type c \<and> from_action_type c \<noteq> None)
      capability_spellings" by code_simp
  with assms show ?thesis by (auto simp: list_all_iff)
qed

lemma normalize_capability_name:
  "normalize_capability raw = Some c \<Longrightarrow> parse_capability_kind c = from_action_type c"
  by (auto simp: normalize_capability_def dest!: map_of_SomeD spellings_names)

text \<open>What holds of every bundle entry, by inspection.\<close>

definition bundle_ok :: "bundle_capability \<Rightarrow> bool" where
  "bundle_ok b \<longleftrightarrow> parse_capability_kind (bc_capability b) = from_action_type (bc_capability b) \<and>
     bc_capability b \<noteq> ''db.query'' \<and> bc_capability b \<noteq> ''http.request'' \<and> \<not> ends_with (bc_scope b) ''**''"

lemma bundles_ok:
  assumes "resolve_recipe_capability_bundle recipe = Some bs" and "b \<in> set bs"
  shows "bundle_ok b"
proof -
  have "list_all (\<lambda>(r, bs). list_all bundle_ok bs) recipe_bundles" by code_simp
  with assms show ?thesis
    by (auto simp: resolve_recipe_capability_bundle_def list_all_iff dest!: map_of_SomeD)
qed

lemma capability_json_fields:
  "get_str (capability_json c s rm bm) ''capability'' = Some c"
  "get_str (capability_json c s rm bm) ''scope'' = Some s"
  "\<exists>m. Option.bind (json_get (capability_json c s rm bm) ''limits'')
     (\<lambda>l. get_u64 l ''max_payload_bytes'') = Some m \<and> m \<le> hard_max c \<and>
     (\<forall>b. bm = Some b \<longrightarrow> m \<le> b) \<and> (\<forall>r. rm = Some r \<longrightarrow> 0 < r \<longrightarrow> m \<le> r)"
  by (auto simp: capability_json_def get_str_def get_u64_def obj_of_list_def Let_def
      resolve_max_payload_bytes_def min_le_iff_disj split: option.splits)

text \<open>An item that the parser keeps: a known name and an allowed scope.\<close>

definition item_ok :: "requested_capability \<Rightarrow> bool" where
  "item_ok i \<longleftrightarrow> parse_capability_kind (rc_capability i) = from_action_type (rc_capability i) \<and>
     is_scope_allowed_for_capability (rc_capability i) (rc_scope i)"

lemma parse_requested_items_ok:
  "parse_requested_items items = Inr parsed \<Longrightarrow> i \<in> set parsed \<Longrightarrow> item_ok i"
proof (induction items arbitrary: parsed)
  case (Cons item items)
  then consider ps where "parse_requested_items items = Inr ps" "i \<in> set ps"
    | raw sc where "normalize_capability raw = Some (rc_capability i)"
        "is_scope_allowed_for_capability (rc_capability i) (rc_scope i)"
    by (auto split: option.splits if_splits sum.splits)
  then show ?case
    by cases (use Cons.IH in \<open>auto simp: item_ok_def dest: normalize_capability_name\<close>)
qed simp

text \<open>
  Where an entry of the result comes from: the name, scope and limits it was built with, the role
  that allows it, the bundle entry it lies within and the requested item it answers.
\<close>

definition sourced_by :: "string \<Rightarrow> role_preset \<Rightarrow> requested_capability list \<Rightarrow> string \<Rightarrow> string \<Rightarrow>
    u64 option \<Rightarrow> u64 option \<Rightarrow> bool" where
  "sourced_by recipe role requested c s rm bm \<longleftrightarrow>
     parse_capability_kind c = from_action_type c \<and> c \<noteq> ''db.query'' \<and> c \<noteq> ''http.request'' \<and>
     (case resolve_recipe_capability_bundle recipe of
        None \<Rightarrow> role_allows_capability role c s
      | Some bs \<Rightarrow> \<exists>b \<in> set bs. bc_capability b = c \<and> bc_max b = bm \<and> scope_matches (bc_scope b) s \<and>
          role_allows_capability role c (bc_scope b)) \<and>
     (requested = [] \<and> resolve_recipe_capability_bundle recipe \<noteq> None \<or>
      (\<exists>i \<in> set requested. rc_capability i = c \<and> rc_scope i = s \<and> rc_max i = rm))"

definition sourced :: "string \<Rightarrow> role_preset \<Rightarrow> requested_capability list \<Rightarrow> json \<Rightarrow> bool" where
  "sourced recipe role requested v \<longleftrightarrow>
     (\<exists>c s rm bm. v = capability_json c s rm bm \<and> sourced_by recipe role requested c s rm bm)"

lemma not_hard_denied:
  "is_scope_allowed_for_capability c s \<Longrightarrow> c \<noteq> ''db.query'' \<and> c \<noteq> ''http.request''"
  by (auto simp: is_scope_allowed_for_capability_def split: if_splits)

lemma scope_matches_self: "\<not> ends_with s ''**'' \<Longrightarrow> scope_matches s s"
  by (auto simp: scope_matches_cases)

lemma map_filter_set: "set (List.map_filter f xs) = {y. \<exists>x \<in> set xs. f x = Some y}"
  by (auto simp: set_map_filter)

lemma resolve_granted_sourced:
  assumes "resolve_granted_capabilities recipe role req = Inr raw"
  shows "\<exists>requested items. parse_requested_capabilities req = Inr requested \<and> raw = JArray items \<and>
    (\<forall>v \<in> set items. sourced recipe role requested v)"
proof -
  from assms obtain requested where r: "parse_requested_capabilities req = Inr requested"
    by (auto simp: resolve_granted_capabilities_def split: sum.splits)
  then have ok: "item_ok i" if "i \<in> set requested" for i
    using that parse_requested_items_ok
    by (auto simp: parse_requested_capabilities_def split: option.splits)
  show ?thesis
  proof (cases "resolve_recipe_capability_bundle recipe")
    case None
    with assms r ok not_hard_denied show ?thesis
      by (fastforce simp: resolve_granted_capabilities_def sourced_def sourced_by_def item_ok_def)
  next
    case (Some bs)
    note bok = bundles_ok [OF Some]
    show ?thesis
    proof (cases "requested = []")
      case True
      have "sourced recipe role requested (capability_json (bc_capability b) (bc_scope b) None (bc_max b))"
        if "b \<in> set bs" "role_allows_capability role (bc_capability b) (bc_scope b)" for b
        using that bok [OF that(1)] True Some scope_matches_self
        unfolding sourced_def sourced_by_def bundle_ok_def by fastforce
      with assms r True Some show ?thesis by (auto simp: resolve_granted_capabilities_def Let_def)
    next
      case False
      have "sourced recipe role requested (capability_json (rc_capability i) (rc_scope i) (rc_max i) (bc_max b))"
        if "i \<in> set requested" "b \<in> set bs" "role_allows_capability role (bc_capability b) (bc_scope b)"
          "bc_capability b = rc_capability i" "scope_within (bc_scope b) (rc_scope i)" for i b
        using that bok [OF that(2)] ok [OF that(1)] Some
        unfolding sourced_def sourced_by_def bundle_ok_def scope_within_matches by fastforce
      with assms r False Some show ?thesis
        by (auto simp: resolve_granted_capabilities_def Let_def map_filter_set dest!: find_SomeD)
    qed
  qed
qed

text \<open>An action allowed by parsed entries is covered by one of them.\<close>

lemma allowed_by_entry:
  assumes "is_action_allowed (parse_grant_set (JArray items)) r = Allow"
    and "\<forall>v \<in> set items. sourced recipe role requested v"
  shows "\<exists>s rm bm. sourced_by recipe role requested (action_type r) s rm bm \<and>
    scope_matches s (scope r) \<and> payload_bytes r \<le> hard_max (action_type r) \<and>
    (\<forall>b. bm = Some b \<longrightarrow> payload_bytes r \<le> b)"
proof -
  from assms(1) obtain g v where g: "covers g r" "v \<in> set items" "parse_capability_grant v = Some g"
    by (auto simp: allow_iff_covers parsed_grant_iff)
  with assms(2) obtain c s rm bm where v: "v = capability_json c s rm bm"
      "sourced_by recipe role requested c s rm bm"
    by (auto simp: sourced_def)
  then have name: "parse_capability_kind c = from_action_type c" by (simp add: sourced_by_def)
  from g(3) have p: "parse_capability_kind c = Some (kind g)" "grant_scope g = s"
      "max_payload_bytes (limits g) = Option.bind (json_get v ''limits'') (\<lambda>l. get_u64 l ''max_payload_bytes'')"
    by (auto simp: parse_capability_grant_Some v(1) capability_json_fields)
  have "action_type r = c"
    using g(1) p(1) name from_action_type_inverse by (metis covers_def)
  moreover obtain m where "max_payload_bytes (limits g) = Some m" "m \<le> hard_max c"
      "\<forall>b. bm = Some b \<longrightarrow> m \<le> b"
    using capability_json_fields(3) [of c s rm bm] p(3) v(1) by auto
  moreover from this g(1) have "payload_bytes r \<le> m" by (simp add: covers_def within_limit_def)
  ultimately show ?thesis using g(1) p(2) v(2)
    by (intro exI [of _ s] exI [of _ rm] exI [of _ bm]) (auto simp: covers_def intro: order_trans)
qed

lemma role_scope:
  assumes "role_allows_capability role c s" and "scope_matches s x"
  shows "(role = Viewer \<longrightarrow> c = ''object.read'' \<or> c = ''llm.infer'' \<and> starts_with x ''local:'') \<and>
    (role = Operator \<longrightarrow> c \<noteq> ''local.exec'')"
  using assms scope_matches_prefix [of s "''local:''" x] by (cases role) auto

lemma resolve_allowed:
  assumes "resolve_granted_capabilities recipe role req = Inr raw"
    and "is_action_allowed (parse_grant_set raw) r = Allow"
  shows "\<exists>requested s rm bm. parse_requested_capabilities req = Inr requested \<and>
    sourced_by recipe role requested (action_type r) s rm bm \<and> scope_matches s (scope r) \<and>
    payload_bytes r \<le> hard_max (action_type r) \<and> (\<forall>b. bm = Some b \<longrightarrow> payload_bytes r \<le> b)"
proof -
  obtain requested items where rq: "parse_requested_capabilities req = Inr requested" "raw = JArray items"
      "\<forall>v \<in> set items. sourced recipe role requested v"
    using resolve_granted_sourced [OF assms(1)] by blast
  with allowed_by_entry [OF _ rq(3), of r] assms(2) show ?thesis by blast
qed

lemma bundle_scope_matches:
  assumes "resolve_recipe_capability_bundle recipe = Some bs" and "b \<in> set bs"
    and "scope_matches (bc_scope b) s" and "scope_matches s x"
  shows "scope_matches (bc_scope b) x"
  using scope_matches_trans [OF assms(3,4)] bundles_ok [OF assms(1,2)]
  by (auto simp: bundle_ok_def ends_with_iff)

lemma allowed_for_role:
  assumes "resolve_granted_capabilities recipe role req = Inr raw"
    and "is_action_allowed (parse_grant_set raw) r = Allow"
  shows "(role = Viewer \<longrightarrow> action_type r = ''object.read'' \<or>
      action_type r = ''llm.infer'' \<and> starts_with (scope r) ''local:'') \<and>
    (role = Operator \<longrightarrow> action_type r \<noteq> ''local.exec'')"
proof -
  obtain requested s rm bm where e: "sourced_by recipe role requested (action_type r) s rm bm"
      "scope_matches s (scope r)"
    using resolve_allowed [OF assms] by blast
  then have "\<exists>s. role_allows_capability role (action_type r) s \<and> scope_matches s (scope r)"
    using bundle_scope_matches by (auto simp: sourced_by_def split: option.splits)
  then show ?thesis using role_scope by blast
qed

section \<open>Properties\<close>

text \<open>
  (C16) What an API-created run may do: an action that policy allows under the grants the API
  resolved is permitted by the caller's role (a viewer gets \<open>object.read\<close> and local
  \<open>llm.infer\<close> only, an operator never \<open>local.exec\<close>), stays within an entry of the recipe's
  bundle in scope and payload if the recipe has one, answers an item of the request unless no
  item was kept, never is \<open>db.query\<close> or \<open>http.request\<close>, and respects the platform's payload
  limit.
\<close>

theorem grants_within_role_and_recipe:
  assumes "resolve_granted_capabilities recipe role req = Inr raw"
    and "is_action_allowed (parse_grant_set raw) r = Allow"
  shows "(role = Viewer \<longrightarrow> action_type r = ''object.read'' \<or>
      action_type r = ''llm.infer'' \<and> starts_with (scope r) ''local:'') \<and>
    (role = Operator \<longrightarrow> action_type r \<noteq> ''local.exec'') \<and>
    (\<forall>bs. resolve_recipe_capability_bundle recipe = Some bs \<longrightarrow>
      (\<exists>b \<in> set bs. bc_capability b = action_type r \<and> scope_matches (bc_scope b) (scope r) \<and>
         (\<forall>m. bc_max b = Some m \<longrightarrow> payload_bytes r \<le> m))) \<and>
    (\<exists>requested. parse_requested_capabilities req = Inr requested \<and>
      (requested = [] \<and> resolve_recipe_capability_bundle recipe \<noteq> None \<or>
       (\<exists>i \<in> set requested. rc_capability i = action_type r \<and> scope_matches (rc_scope i) (scope r)))) \<and>
    action_type r \<noteq> ''db.query'' \<and> action_type r \<noteq> ''http.request'' \<and>
    payload_bytes r \<le> hard_max (action_type r)"
proof -
  obtain requested s rm bm where e: "parse_requested_capabilities req = Inr requested"
      "sourced_by recipe role requested (action_type r) s rm bm"
      "scope_matches s (scope r)" "payload_bytes r \<le> hard_max (action_type r)"
      "\<forall>b. bm = Some b \<longrightarrow> payload_bytes r \<le> b"
    using resolve_allowed [OF assms] by blast
  have "\<exists>b \<in> set bs. bc_capability b = action_type r \<and> scope_matches (bc_scope b) (scope r) \<and>
         (\<forall>m. bc_max b = Some m \<longrightarrow> payload_bytes r \<le> m)"
    if bs: "resolve_recipe_capability_bundle recipe = Some bs" for bs
  proof -
    from e(2) bs obtain b where b: "b \<in> set bs" "bc_capability b = action_type r" "bc_max b = bm"
        "scope_matches (bc_scope b) s" by (auto simp: sourced_by_def)
    with e(5) bundle_scope_matches [OF bs b(1,4) e(3)] show ?thesis by blast
  qed
  moreover have "requested = [] \<and> resolve_recipe_capability_bundle recipe \<noteq> None \<or>
       (\<exists>i \<in> set requested. rc_capability i = action_type r \<and> scope_matches (rc_scope i) (scope r))"
    using e(2,3) by (auto simp: sourced_by_def)
  ultimately show ?thesis
    using e(1,2,4) allowed_for_role [OF assms] by (simp add: sourced_by_def)
qed

definition sample_grant_request :: json where
  "sample_grant_request = JArray [JObject [(''capability'', JString ''payment_send''),
     (''scope'', JString '' nwc:alice '')]]"

definition sample_payment :: "string \<Rightarrow> policy_request" where
  "sample_payment s = \<lparr>action_type = ''payment.send'', scope = s, payload_bytes = 100\<rparr>"

lemma sample_grants:
  "resolve_granted_capabilities ''payments_v1'' Operator sample_grant_request =
     Inr (JArray [capability_json ''payment.send'' ''nwc:alice'' None (Some MAX_PAYMENT_SEND_PAYLOAD_BYTES)])"
  by code_simp

lemma sample_payment_allowed:
  "is_action_allowed (parse_grant_set (JArray [capability_json ''payment.send'' ''nwc:alice'' None
     (Some MAX_PAYMENT_SEND_PAYLOAD_BYTES)])) (sample_payment ''nwc:alice'') = Allow"
  by code_simp

theorem grants_within_role_and_recipe_witness:
  "\<exists>b \<in> set (the (resolve_recipe_capability_bundle ''payments_v1'')).
     bc_capability b = ''payment.send'' \<and> scope_matches (bc_scope b) ''nwc:alice''"
proof -
  have "resolve_recipe_capability_bundle ''payments_v1'' =
      Some [bc ''payment.send'' ''nwc:*'' MAX_PAYMENT_SEND_PAYLOAD_BYTES]" by code_simp
  with grants_within_role_and_recipe [OF sample_grants sample_payment_allowed] show ?thesis
    by (auto simp: sample_payment_def)
qed

text \<open>
  A request whose items are all refused is treated as no request: asked for a payment to a
  scope that is not allowed, the API grants the recipe's whole bundle, and the run may pay any
  \<open>nwc:\<close> destination; asked for one \<open>nwc:\<close> destination, the run may pay only that one.
\<close>

theorem refused_request_widens_to_bundle:
  "\<exists>wide narrow.
     resolve_granted_capabilities ''payments_v1'' Operator (JArray [JObject
       [(''capability'', JString ''payment.send''), (''scope'', JString ''bank:alice'')]]) = Inr wide \<and>
     is_action_allowed (parse_grant_set wide) (sample_payment ''nwc:mallory'') = Allow \<and>
     resolve_granted_capabilities ''payments_v1'' Operator sample_grant_request = Inr narrow \<and>
     is_action_allowed (parse_grant_set narrow) (sample_payment ''nwc:mallory'') = Deny ScopeMismatch"
proof -
  have "resolve_granted_capabilities ''payments_v1'' Operator (JArray [JObject
       [(''capability'', JString ''payment.send''), (''scope'', JString ''bank:alice'')]]) =
     Inr (JArray [capability_json ''payment.send'' ''nwc:*'' None (Some MAX_PAYMENT_SEND_PAYLOAD_BYTES)])"
    by code_simp
  moreover have "is_action_allowed (parse_grant_set (JArray [capability_json ''payment.send'' ''nwc:*'' None
      (Some MAX_PAYMENT_SEND_PAYLOAD_BYTES)])) (sample_payment ''nwc:mallory'') = Allow" by code_simp
  moreover have "is_action_allowed (parse_grant_set (JArray [capability_json ''payment.send'' ''nwc:alice'' None
      (Some MAX_PAYMENT_SEND_PAYLOAD_BYTES)])) (sample_payment ''nwc:mallory'') = Deny ScopeMismatch" by code_simp
  ultimately show ?thesis using sample_grants by blast
qed

end
