(* ===== verification/ApiRuns.thy ===== *)
theory ApiRuns
  imports ApiGrants Worker RunClaims
begin

text \<open>
  The API's run endpoints (\<open>api/src/lib.rs\<close>): who calls (tenant, role, trusted proxy token), the
  in-flight limit of the tenant, the semantic deduplication key, and creating and reading runs.

  The request is the value Axum has extracted: header values that are not text are \<open>Some None\<close>.
  SHA-256 and the JSON serialiser are arguments.
\<close>

section \<open>Handlers\<close>

type_synonym headers = "string \<rightharpoonup> string option"

record app_state =
  st_tenant_max_inflight_runs :: "int option"
  st_tenant_max_triggers :: "int option"
  st_trusted_proxy_auth_enabled :: bool
  st_trusted_proxy_auth_secret :: "string option"
  st_trusted_proxy_auth_error :: "string option"

type_synonym ('x, 'a) handler = "'x world \<Rightarrow> (api_error + 'a) \<times> 'x world"

definition done_with :: "'a \<Rightarrow> ('x, 'a) handler" where
  "done_with v = (\<lambda>w. (Inr v, w))"

definition reject :: "api_error \<Rightarrow> ('x, 'a) handler" where
  "reject e = (\<lambda>w. (Inl e, w))"

definition and_then :: "('x, 'a) handler \<Rightarrow> ('a \<Rightarrow> ('x, 'b) handler) \<Rightarrow> ('x, 'b) handler" where
  "and_then m k = (\<lambda>w. case m w of (Inl e, w') \<Rightarrow> (Inl e, w') | (Inr v, w') \<Rightarrow> k v w')"

definition from_result :: "api_error + 'a \<Rightarrow> ('x, 'a) handler" where
  "from_result r = (case r of Inl e \<Rightarrow> reject e | Inr v \<Rightarrow> done_with v)"

text \<open>\<open>map_err(|err| ApiError::internal(format!("...: {err}")))\<close> on a database call.\<close>

definition or_internal :: "string \<Rightarrow> ('x, 'a) comp \<Rightarrow> ('x, 'a) handler" where
  "or_internal what m = (\<lambda>w. case m w of
     (Inl e, w') \<Rightarrow> (Inl (internal (what @ '': '' @ e)), w') | (Inr v, w') \<Rightarrow> (Inr v, w'))"

definition runs_table :: "(time \<Rightarrow> runs \<Rightarrow> (db_error + 'a) \<times> runs) \<Rightarrow> time \<Rightarrow> db \<Rightarrow> (db_error + 'a) \<times> db" where
  "runs_table f now d = (case f now (d_runs d) of (r, rows) \<Rightarrow> (r, d\<lparr>d_runs := rows\<rparr>))"

section \<open>The caller\<close>

definition tenant_from_headers :: "headers \<Rightarrow> api_error + string" where
  "tenant_from_headers hs =
     (case hs ''x-tenant-id'' of
        None \<Rightarrow> Inl (bad_request ''missing x-tenant-id header'')
      | Some None \<Rightarrow> Inl (bad_request ''x-tenant-id header is not valid UTF-8'')
      | Some (Some raw) \<Rightarrow>
          if trim raw = [] then Inl (bad_request ''x-tenant-id header must not be empty'')
          else Inr (trim raw))"

definition enforce_trusted_proxy_auth :: "app_state \<Rightarrow> headers \<Rightarrow> api_error + unit" where
  "enforce_trusted_proxy_auth st hs =
     (if \<not> st_trusted_proxy_auth_enabled st then Inr ()
      else case st_trusted_proxy_auth_error st of
        Some e \<Rightarrow> Inl (internal
          (''trusted proxy auth is enabled but secret resolution failed: '' @ e))
      | None \<Rightarrow>
     case Option.bind (st_trusted_proxy_auth_secret st) (\<lambda>v. if trim v = [] then None else Some v) of
        None \<Rightarrow> Inl (internal ''trusted proxy auth is enabled but no shared secret is configured'')
      | Some expected \<Rightarrow>
     case hs ''x-auth-proxy-token'' of
        None \<Rightarrow> Inl (unauthorized ''missing x-auth-proxy-token header'')
      | Some None \<Rightarrow> Inl (bad_request ''x-auth-proxy-token header is not valid UTF-8'')
      | Some (Some provided) \<Rightarrow>
          if provided \<noteq> expected then Inl (unauthorized ''trusted proxy token validation failed'')
          else Inr ())"

definition role_from_headers :: "app_state \<Rightarrow> headers \<Rightarrow> api_error + role_preset" where
  "role_from_headers st hs =
     (case enforce_trusted_proxy_auth st hs of
        Inl e \<Rightarrow> Inl e
      | Inr _ \<Rightarrow>
     case hs ''x-user-role'' of
        None \<Rightarrow> Inr Owner
      | Some None \<Rightarrow> Inl (bad_request ''x-user-role header is not valid UTF-8'')
      | Some (Some v) \<Rightarrow>
          (case role_parse v of
             None \<Rightarrow> Inl (bad_request ''x-user-role must be one of: owner, operator, viewer'')
           | Some role \<Rightarrow> Inr role))"

section \<open>The deduplication key\<close>

fun canonicalize_json_for_semantic_dedupe :: "json \<Rightarrow> json" where
  "canonicalize_json_for_semantic_dedupe (JObject m) =
     JObject (obj_of_list (sort_key fst
       (map (\<lambda>(k, v). (k, canonicalize_json_for_semantic_dedupe v)) m)))"
| "canonicalize_json_for_semantic_dedupe (JArray vs) =
     JArray (map canonicalize_json_for_semantic_dedupe vs)"
| "canonicalize_json_for_semantic_dedupe v = v"

record create_run_request =
  cr_agent_id :: uuid
  cr_triggered_by_user_id :: "uuid option"
  cr_recipe_id :: string
  cr_input :: json
  cr_requested_capabilities :: json

definition dedupe_payload :: "string \<Rightarrow> create_run_request \<Rightarrow> role_preset \<Rightarrow> json" where
  "dedupe_payload tenant_id req role = jobj
     [(''tenant_id'', JString tenant_id), (''agent_id'', JString (cr_agent_id req)),
      (''triggered_by_user_id'', (case cr_triggered_by_user_id req of None \<Rightarrow> JNull | Some u \<Rightarrow> JString u)),
      (''recipe_id'', JString (cr_recipe_id req)), (''role_preset'', JString (role_as_str role)),
      (''input'', canonicalize_json_for_semantic_dedupe (cr_input req)),
      (''requested_capabilities'',
        canonicalize_json_for_semantic_dedupe (cr_requested_capabilities req))]"

definition compute_run_semantic_dedupe_key ::
    "(json \<Rightarrow> string + string) \<Rightarrow> (string \<Rightarrow> string) \<Rightarrow> string \<Rightarrow> create_run_request \<Rightarrow> role_preset \<Rightarrow>
     api_error + string" where
  "compute_run_semantic_dedupe_key to_vec sha256_hex tenant_id req role =
     (case to_vec (dedupe_payload tenant_id req role) of
        Inl e \<Rightarrow> Inl (internal (''failed serializing run semantic dedupe payload: '' @ e))
      | Inr dedupe_bytes \<Rightarrow> Inr (sha256_hex dedupe_bytes))"

section \<open>Creating and reading runs\<close>

definition inject_trace_id_into_input :: "json \<Rightarrow> string \<Rightarrow> json" where
  "inject_trace_id_into_input input trace_id =
     (case input of
        JObject m \<Rightarrow> JObject (obj_insert ''_trace'' (JString trace_id) m)
      | other \<Rightarrow> jobj [(''input'', other), (''_trace'', JString trace_id)])"

definition make_new_run ::
    "string \<Rightarrow> create_run_request \<Rightarrow> json \<Rightarrow> uuid \<Rightarrow> new_run" where
  "make_new_run tenant_id req granted run_id =
     \<lparr>nr_id = run_id, nr_tenant = tenant_id, nr_agent = cr_agent_id req,
      nr_user = cr_triggered_by_user_id req, nr_recipe = cr_recipe_id req, nr_status = ''queued'',
      nr_input = inject_trace_id_into_input (cr_input req) run_id,
      nr_requested = cr_requested_capabilities req, nr_granted = granted, nr_error = None\<rparr>"

record run_response =
  rp_id :: uuid
  rp_tenant_id :: string
  rp_agent_id :: uuid
  rp_triggered_by_user_id :: "uuid option"
  rp_recipe_id :: string
  rp_status :: string
  rp_trace_id :: "string option"
  rp_requested_capabilities :: json
  rp_granted_capabilities :: json
  rp_created_at :: time
  rp_started_at :: "time option"
  rp_finished_at :: "time option"
  rp_error_json :: "json option"
  rp_attempts :: int
  rp_lease_owner :: "string option"
  rp_lease_expires_at :: "time option"

definition run_to_response :: "run_row \<Rightarrow> run_response" where
  "run_to_response run =
     \<lparr>rp_id = r_id run, rp_tenant_id = r_tenant run, rp_agent_id = r_agent run,
      rp_triggered_by_user_id = r_user run, rp_recipe_id = r_recipe run, rp_status = r_status run,
      rp_trace_id = get_str (r_input run) ''_trace'', rp_requested_capabilities = r_requested run,
      rp_granted_capabilities = r_granted run, rp_created_at = r_created run,
      rp_started_at = r_started run, rp_finished_at = r_finished run, rp_error_json = r_error run,
      rp_attempts = r_attempts run, rp_lease_owner = r_owner run, rp_lease_expires_at = r_expires run\<rparr>"

definition array_len :: "json \<Rightarrow> nat" where
  "array_len v = (case as_array v of None \<Rightarrow> 0 | Some vs \<Rightarrow> length vs)"

definition audit_run_created ::
    "outside \<Rightarrow> string \<Rightarrow> role_preset \<Rightarrow> create_run_request \<Rightarrow> json \<Rightarrow> uuid \<Rightarrow> ('x, unit) comp" where
  "audit_run_created env tenant_id role req granted run_id =
     bind (new_v4 env) (\<lambda>i. stmt env (\<lambda>now. append_audit_event now
       \<lparr>a_id = i, a_run = run_id, a_step = None, a_tenant = tenant_id,
        a_agent = Some (cr_agent_id req), a_user = cr_triggered_by_user_id req, a_actor = ''api'',
        a_type = ''run.created'',
        a_payload = jobj [(''recipe_id'', JString (cr_recipe_id req)),
          (''role_preset'', JString (role_as_str role)), (''trace_id'', JString run_id),
          (''requested_capability_count'', jnat (array_len (cr_requested_capabilities req))),
          (''granted_capability_count'', jnat (array_len granted))]\<rparr>))"

record api_services =
  as_to_vec :: "json \<Rightarrow> string + string"
  as_sha256_hex :: "string \<Rightarrow> string"
  as_fk :: "new_run \<Rightarrow> bool"

definition create_run_common ::
    "outside \<Rightarrow> api_services \<Rightarrow> string \<Rightarrow> role_preset \<Rightarrow> create_run_request \<Rightarrow>
     ('x, nat \<times> run_response) handler" where
  "create_run_common env sv tenant_id role req =
     and_then (from_result (resolve_granted_capabilities (cr_recipe_id req) role
       (cr_requested_capabilities req))) (\<lambda>granted.
     and_then (from_result (compute_run_semantic_dedupe_key (as_to_vec sv) (as_sha256_hex sv)
       tenant_id req role)) (\<lambda>key.
     and_then (or_internal ''failed creating run'' (bind (new_v4 env) (\<lambda>run_id.
       stmt env (runs_table (\<lambda>now. create_run_with_semantic_dedupe_key (as_fk sv) now
         (make_new_run tenant_id req granted run_id) key))))) (\<lambda>created.
     and_then (case created of
         Some row \<Rightarrow> done_with (r_id row, 201, True)
       | None \<Rightarrow>
           and_then (or_internal ''failed checking active run for semantic dedupe key''
             (stmt env (\<lambda>now d. (Inr (get_active_run_id_by_semantic_dedupe_key tenant_id key (d_runs d)), d))))
             (\<lambda>existing. case existing of
                None \<Rightarrow> reject (conflict ''run already exists in race with completion; retry request'')
              | Some i \<Rightarrow> done_with (i, 200, False)))
       (\<lambda>(run_id, status_code, created_new_run).
     and_then (if created_new_run
         then or_internal ''failed appending run.created audit event''
           (audit_run_created env tenant_id role req granted run_id)
         else done_with ()) (\<lambda>_.
     and_then (or_internal ''failed loading created run''
       (stmt env (\<lambda>now d. (Inr (get_run_status tenant_id run_id (d_runs d)), d)))) (\<lambda>loaded.
       case loaded of
         None \<Rightarrow> reject (internal ''created run could not be reloaded'')
       | Some run \<Rightarrow> done_with (status_code, run_to_response run)))))))"

definition tenant_inflight_limited :: "string \<Rightarrow> api_error" where
  "tenant_inflight_limited m =
     \<lparr>ae_status = 429, ae_code = ''TENANT_INFLIGHT_LIMITED'', ae_message = m\<rparr>"

definition create_run_handler ::
    "(int \<Rightarrow> string) \<Rightarrow> outside \<Rightarrow> api_services \<Rightarrow> app_state \<Rightarrow> headers \<Rightarrow> create_run_request \<Rightarrow>
     ('x, nat \<times> run_response) handler" where
  "create_run_handler show_int env sv st hs req =
     and_then (from_result (tenant_from_headers hs)) (\<lambda>tenant_id.
     and_then (from_result (role_from_headers st hs)) (\<lambda>role.
     and_then (case st_tenant_max_inflight_runs st of
         None \<Rightarrow> done_with ()
       | Some limit \<Rightarrow>
           and_then (or_internal ''failed counting tenant inflight runs''
             (stmt env (\<lambda>now d. (Inr (count_tenant_inflight_runs tenant_id (d_runs d)), d)))) (\<lambda>inflight.
             if limit \<le> inflight
             then reject (tenant_inflight_limited (''tenant is at max inflight run capacity (limit='' @
               show_int limit @ '', inflight='' @ show_int inflight @ '')''))
             else done_with ())) (\<lambda>_.
       create_run_common env sv tenant_id role req)))"

definition get_run_handler :: "outside \<Rightarrow> headers \<Rightarrow> uuid \<Rightarrow> ('x, nat \<times> run_response) handler" where
  "get_run_handler env hs run_id =
     and_then (from_result (tenant_from_headers hs)) (\<lambda>tenant_id.
     and_then (or_internal ''failed fetching run''
       (stmt env (\<lambda>now d. (Inr (get_run_status tenant_id run_id (d_runs d)), d)))) (\<lambda>found.
       case found of
         None \<Rightarrow> reject (not_found ''run not found'')
       | Some run \<Rightarrow> done_with (200, run_to_response run)))"

section \<open>Reasoning about handlers\<close>

named_theorems hwp_simps \<open>weakest preconditions of handlers\<close>

definition hwp :: "('x, 'a) handler \<Rightarrow> ('a \<Rightarrow> 'x world \<Rightarrow> bool) \<Rightarrow> (api_error \<Rightarrow> 'x world \<Rightarrow> bool) \<Rightarrow>
    'x world \<Rightarrow> bool" where
  "hwp m Q E w = (case m w of (Inl e, w') \<Rightarrow> E e w' | (Inr v, w') \<Rightarrow> Q v w')"

lemma hwp_basic [hwp_simps]:
  "hwp (done_with v) Q E = Q v" "hwp (reject e) Q E = E e"
  "hwp (and_then m k) Q E = hwp m (\<lambda>v. hwp (k v) Q E) E"
  "hwp (or_internal what c) Q E = wp c Q (\<lambda>e. E (internal (what @ '': '' @ e)))"
  by (simp_all add: fun_eq_iff hwp_def wp_def done_with_def reject_def and_then_def or_internal_def
      split: prod.split sum.split)

lemma hwp_from_result [hwp_simps]:
  "hwp (from_result r) Q E w = (case r of Inl e \<Rightarrow> E e w | Inr v \<Rightarrow> Q v w)"
  by (simp add: from_result_def hwp_simps split: sum.split)

lemma hwp_run: "hwp m Q E w \<Longrightarrow> m w = (res, w') \<Longrightarrow> (case res of Inl e \<Rightarrow> E e w' | Inr v \<Rightarrow> Q v w')"
  by (simp add: hwp_def split: sum.splits)

lemma hwp_mono:
  "hwp m Q E w \<Longrightarrow> (\<And>v w'. Q v w' \<Longrightarrow> Q' v w') \<Longrightarrow> (\<And>e w'. E e w' \<Longrightarrow> E' e w') \<Longrightarrow> hwp m Q' E' w"
  by (auto simp: hwp_def split: prod.splits sum.splits)

text \<open>A statement that only reads.\<close>

lemma wp_read:
  assumes "\<And>e w'. w_db w' = w_db w \<Longrightarrow> E e w'" and "\<And>w'. w_db w' = w_db w \<Longrightarrow> Q (f (w_db w)) w'"
  shows "wp (stmt env (\<lambda>now d. (Inr (f d), d))) Q E w"
  by (rule wp_stmtI) (use assms in auto)

section \<open>What a created run is\<close>

text \<open>The row that a request of a caller with a role may add, and the one it may be answered with.\<close>

definition new_row_for :: "string \<Rightarrow> role_preset \<Rightarrow> create_run_request \<Rightarrow> string \<Rightarrow> run_row \<Rightarrow> bool" where
  "new_row_for tenant role req key r \<longleftrightarrow>
     r_tenant r = tenant \<and> r_recipe r = cr_recipe_id req \<and> r_agent r = cr_agent_id req \<and>
     r_user r = cr_triggered_by_user_id req \<and> r_requested r = cr_requested_capabilities req \<and>
     resolve_granted_capabilities (r_recipe r) role (r_requested r) = Inr (r_granted r) \<and>
     r_status r = ''queued'' \<and> r_owner r = None \<and> r_attempts r = 0 \<and> r_dedupe r = Some key \<and>
     get_str (r_input r) ''_trace'' = Some (r_id r)"

lemma injected_trace: "get_str (inject_trace_id_into_input v i) ''_trace'' = Some i"
  by (cases v) (simp_all add: inject_trace_id_into_input_def get_str_def jobj_def obj_of_list_def json_simps)

lemma created_row_for:
  assumes "resolve_granted_capabilities (cr_recipe_id req) role (cr_requested_capabilities req) = Inr granted"
  shows "new_row_for tenant role req key (row_of_new now (Some key) (make_new_run tenant req granted i))"
  using assms by (simp add: new_row_for_def row_of_new_def make_new_run_def injected_trace)

lemma create_statement:
  assumes "create_run_with_semantic_dedupe_key fk now n key rows = (Inr res, rows')"
  shows "case res of None \<Rightarrow> rows' = rows
    | Some r \<Rightarrow> r = row_of_new now (Some key) n \<and> rows' = rows @ [r] \<and> nr_id n \<notin> r_id ` set rows"
  using assms
  by (auto simp: create_run_with_semantic_dedupe_key_def insert_check_def Let_def list_ex_iff
      split: if_splits option.splits)

lemma active_run_lookup:
  assumes "get_active_run_id_by_semantic_dedupe_key tenant key rows = Some i"
  shows "\<exists>r \<in> set rows. r_id r = i \<and> r_tenant r = tenant \<and> r_dedupe r = Some key \<and> active r"
proof -
  let ?rs = "rev (sort_key (\<lambda>r. (r_created r, r_id r))
    (filter (\<lambda>r. r_tenant r = tenant \<and> r_dedupe r = Some key \<and> active r) rows))"
  from assms have "?rs \<noteq> []" and "i = r_id (hd ?rs)"
    by (auto simp: get_active_run_id_by_semantic_dedupe_key_def split: list.splits)
  moreover from this(1) have "hd ?rs \<in> set ?rs" by (rule hd_in_set)
  ultimately show ?thesis by auto
qed

definition added :: "string \<Rightarrow> role_preset \<Rightarrow> create_run_request \<Rightarrow> string \<Rightarrow> runs \<Rightarrow> runs \<Rightarrow> bool" where
  "added tenant role req key rows rows' \<longleftrightarrow> rows' = rows \<or>
     (\<exists>row. rows' = rows @ [row] \<and> new_row_for tenant role req key row)"

definition answered :: "string \<Rightarrow> role_preset \<Rightarrow> create_run_request \<Rightarrow> string \<Rightarrow> runs \<Rightarrow> runs \<Rightarrow>
    nat \<times> run_response \<Rightarrow> bool" where
  "answered tenant role req key rows rows' = (\<lambda>(status, resp).
     status = 201 \<and> (\<exists>row. rows' = rows @ [row] \<and> new_row_for tenant role req key row \<and>
       resp = run_to_response row) \<or>
     status = 200 \<and> rows' = rows \<and> (\<exists>row \<in> set rows. active row \<and> r_tenant row = tenant \<and>
       r_dedupe row = Some key \<and> rp_id resp = r_id row \<and> rp_tenant_id resp = tenant))"

lemma reload_new: "i \<notin> r_id ` set rows \<Longrightarrow> r_id r = i \<Longrightarrow> r_tenant r = t \<Longrightarrow>
    get_run_status t i (rows @ [r]) = Some r"
  by (induction rows) (auto simp: get_run_status_def)

lemma audit_created_keeps_runs:
  fixes w :: "'x world"
  assumes "\<And>e w'. d_runs (w_db w') = d_runs (w_db w) \<Longrightarrow> E e w'"
    and "\<And>v w'. d_runs (w_db w') = d_runs (w_db w) \<Longrightarrow> Q v w'"
  shows "wp (audit_run_created env tenant role req granted i) Q E w"
  unfolding audit_run_created_def wp_simps
  by (rule wp_stmtI) (use assms in \<open>auto simp: append_audit_event_def split: if_splits\<close>)

text \<open>After the insert: the audit event and the reload.\<close>

lemma hwp_answer_new:
  fixes w :: "'x world"
  assumes "d_runs (w_db w) = rows @ [row]" and "new_row_for tenant role req key row"
    and "r_id row \<notin> r_id ` set rows"
  shows "hwp (and_then (or_internal c1 (audit_run_created env tenant role req granted (r_id row))) (\<lambda>_.
      and_then (or_internal c2 (stmt env (\<lambda>now d. (Inr (get_run_status tenant (r_id row) (d_runs d)), d))))
        (\<lambda>loaded. case loaded of None \<Rightarrow> reject e | Some run \<Rightarrow> done_with (201, run_to_response run))))
    (\<lambda>v w'. answered tenant role req key rows (d_runs (w_db w')) v)
    (\<lambda>_ w'. added tenant role req key rows (d_runs (w_db w'))) w"
proof -
  have fresh: "get_run_status tenant (r_id row) (rows @ [row]) = Some row"
    using assms(2,3) by (intro reload_new) (auto simp: new_row_for_def)
  have add: "added tenant role req key rows (rows @ [row])" using assms(2) by (auto simp: added_def)
  have ans: "answered tenant role req key rows (rows @ [row]) (201, run_to_response row)"
    using assms(2) by (auto simp: answered_def)
  show ?thesis
    unfolding hwp_simps
    by (intro audit_created_keeps_runs wp_read)
      (use assms(1) fresh add ans in \<open>simp_all add: hwp_simps\<close>)
qed

lemma answered_existing:
  assumes "get_active_run_id_by_semantic_dedupe_key tenant key rows = Some i"
    and "get_run_status tenant i rows = Some run"
  shows "answered tenant role req key rows rows (200, run_to_response run)"
proof -
  from active_run_lookup [OF assms(1)] obtain row where "row \<in> set rows" "r_id row = i"
      "r_tenant row = tenant" "r_dedupe row = Some key" "active row" by blast
  moreover have "r_id run = i" "r_tenant run = tenant"
    using assms(2) by (auto simp: get_run_status_def dest: find_SomeD)
  ultimately show ?thesis by (auto simp: answered_def run_to_response_def)
qed

lemma hwp_create_run_common:
  fixes w :: "'x world"
  shows "hwp (create_run_common env sv tenant role req)
    (\<lambda>v w'. \<exists>key. compute_run_semantic_dedupe_key (as_to_vec sv) (as_sha256_hex sv) tenant req role = Inr key \<and>
      answered tenant role req key (d_runs (w_db w)) (d_runs (w_db w')) v)
    (\<lambda>_ w'. \<exists>key. added tenant role req key (d_runs (w_db w)) (d_runs (w_db w'))) w"
proof (cases "resolve_granted_capabilities (cr_recipe_id req) role (cr_requested_capabilities req)")
  case (Inl e)
  then show ?thesis by (simp add: create_run_common_def hwp_simps added_def)
next
  case granted: (Inr granted)
  show ?thesis
  proof (cases "compute_run_semantic_dedupe_key (as_to_vec sv) (as_sha256_hex sv) tenant req role")
    case (Inl e)
    with granted show ?thesis by (simp add: create_run_common_def hwp_simps added_def)
  next
    case key: (Inr key)
    let ?rows = "d_runs (w_db w)"
    let ?Q = "\<lambda>v (w'::'x world). answered tenant role req key ?rows (d_runs (w_db w')) v"
    let ?E = "\<lambda>(_::api_error) (w'::'x world). added tenant role req key ?rows (d_runs (w_db w'))"
    have "hwp (create_run_common env sv tenant role req) ?Q ?E w"
      unfolding create_run_common_def hwp_simps granted key sum.case wp_simps
    proof (rule wp_stmtI, goal_cases)
      case (1 e w')
      then show ?case by (simp add: added_def)
    next
      case (2 now created w')
      let ?n = "make_new_run tenant req granted (o_uuid env (w_uuids w))"
      obtain res rows' where st: "create_run_with_semantic_dedupe_key (as_fk sv) now ?n key ?rows = (res, rows')"
        by force
      with 2 have res: "res = Inr created" and db: "d_runs (w_db w') = rows'"
        by (auto simp: runs_table_def)
      note stmt_facts = create_statement [OF st [unfolded res]]
      show ?case
      proof (cases created)
        case None
        with stmt_facts db have "d_runs (w_db w') = ?rows" by simp
        then show ?thesis
          by (auto simp: None hwp_simps added_def answered_existing split: option.split intro!: wp_read)
      next
        case (Some row)
        with stmt_facts db created_row_for [OF granted] have
          "d_runs (w_db w') = ?rows @ [row]" "new_row_for tenant role req key row" "r_id row \<notin> r_id ` set ?rows"
          by (auto simp: row_of_new_def)
        from hwp_answer_new [OF this] Some show ?thesis by (simp add: hwp_simps)
      qed
    qed
    then show ?thesis by (rule hwp_mono) (use key in auto)
  qed
qed

section \<open>The handlers\<close>

lemma canonicalize_wf: "json_wf v \<Longrightarrow> canonicalize_json_for_semantic_dedupe v = v"
proof (induction v rule: canonicalize_json_for_semantic_dedupe.induct)
  case (1 m)
  have "map (\<lambda>(k, v). (k, canonicalize_json_for_semantic_dedupe v)) m = m"
    using 1 by (intro map_idI) (fastforce simp: list_all_iff)
  moreover have "sort_key fst m = m"
    using 1 by (intro sort_key_id_if_sorted)
      (auto simp: obj_wf_def sorted_wrt_map intro: sorted_wrt_mono_rel [of _ "\<lambda>x y. fst x < fst y"])
  ultimately show ?case using 1 by (simp add: obj_of_list_wf)
next
  case (2 vs)
  then show ?case by (simp add: list_all_iff map_idI)
qed simp_all

text \<open>The caller that a handler accepts.\<close>

definition token_ok :: "app_state \<Rightarrow> headers \<Rightarrow> bool" where
  "token_ok st hs \<longleftrightarrow> \<not> st_trusted_proxy_auth_enabled st \<or>
     (\<exists>s. st_trusted_proxy_auth_secret st = Some s \<and> trim s \<noteq> [] \<and> st_trusted_proxy_auth_error st = None \<and>
        hs ''x-auth-proxy-token'' = Some (Some s))"

lemma enforce_iff: "enforce_trusted_proxy_auth st hs = Inr () \<longleftrightarrow> token_ok st hs"
  by (auto simp: enforce_trusted_proxy_auth_def token_ok_def Option.bind_eq_Some_conv
      split: option.splits if_splits)

lemma role_needs_token: "role_from_headers st hs = Inr role \<Longrightarrow> token_ok st hs"
  by (auto simp: role_from_headers_def enforce_iff [symmetric] split: sum.splits)

definition below_limit :: "app_state \<Rightarrow> string \<Rightarrow> runs \<Rightarrow> bool" where
  "below_limit st tenant rows \<longleftrightarrow>
     (case st_tenant_max_inflight_runs st of None \<Rightarrow> True
      | Some limit \<Rightarrow> count_tenant_inflight_runs tenant rows < limit)"

lemma hwp_create_run_handler:
  fixes w :: "'x world"
  shows "hwp (create_run_handler sh env sv st hs req)
    (\<lambda>v w'. \<exists>tenant role key. tenant_from_headers hs = Inr tenant \<and> role_from_headers st hs = Inr role \<and>
      compute_run_semantic_dedupe_key (as_to_vec sv) (as_sha256_hex sv) tenant req role = Inr key \<and>
      below_limit st tenant (d_runs (w_db w)) \<and>
      answered tenant role req key (d_runs (w_db w)) (d_runs (w_db w')) v)
    (\<lambda>_ w'. d_runs (w_db w') = d_runs (w_db w) \<or>
      (\<exists>tenant role key. tenant_from_headers hs = Inr tenant \<and> role_from_headers st hs = Inr role \<and>
        below_limit st tenant (d_runs (w_db w)) \<and>
        added tenant role req key (d_runs (w_db w)) (d_runs (w_db w')))) w"
    (is "hwp _ ?Q ?E w")
proof (cases "tenant_from_headers hs")
  case (Inl e)
  then show ?thesis by (simp add: create_run_handler_def hwp_simps)
next
  case tenant: (Inr tenant)
  show ?thesis
  proof (cases "role_from_headers st hs")
    case (Inl e)
    with tenant show ?thesis by (simp add: create_run_handler_def hwp_simps)
  next
    case role: (Inr role)
    have common: "hwp (create_run_common env sv tenant role req) ?Q ?E w2"
      if "d_runs (w_db w2) = d_runs (w_db w)" "below_limit st tenant (d_runs (w_db w))" for w2 :: "'x world"
      by (rule hwp_mono [OF hwp_create_run_common]) (use that tenant role in auto)
    show ?thesis
      using tenant role common
      by (cases "st_tenant_max_inflight_runs st")
        (auto simp: create_run_handler_def hwp_simps below_limit_def intro!: wp_read)
  qed
qed

section \<open>Properties\<close>


section \<open>A concrete request\<close>

definition sample_state :: app_state where
  "sample_state = \<lparr>st_tenant_max_inflight_runs = Some 2, st_tenant_max_triggers = Some 5, st_trusted_proxy_auth_enabled = True,
     st_trusted_proxy_auth_secret = Some ''s3'', st_trusted_proxy_auth_error = None\<rparr>"

definition sample_headers :: headers where
  "sample_headers = [''x-tenant-id'' \<mapsto> Some '' t '', ''x-user-role'' \<mapsto> Some ''Operator'',
     ''x-auth-proxy-token'' \<mapsto> Some ''s3'']"

definition sample_create :: create_run_request where
  "sample_create = \<lparr>cr_agent_id = ''agent'', cr_triggered_by_user_id = None, cr_recipe_id = ''payments_v1'',
     cr_input = JNull, cr_requested_capabilities = sample_grant_request\<rparr>"

definition sample_api :: api_services where
  "sample_api = \<lparr>as_to_vec = (\<lambda>_. Inr ''bytes''), as_sha256_hex = (\<lambda>b. ''key:'' @ b), as_fk = (\<lambda>_. True)\<rparr>"

definition sample_clock :: outside where
  "sample_clock = \<lparr>o_uuid = (\<lambda>n. replicate (Suc n) CHR ''u''), o_now = int, o_fault = (\<lambda>_. None),
     o_sql_text = (\<lambda>_. ''sql'')\<rparr>"

definition sample_empty :: "unit world" where
  "sample_empty = \<lparr>w_db = empty_db, w_ext = (), w_uuids = 0, w_stmts = 0, w_calls = []\<rparr>"

abbreviation sample_creation :: "(api_error + nat \<times> run_response) \<times> unit world" where
  "sample_creation \<equiv> create_run_handler (\<lambda>_. []) sample_clock sample_api sample_state sample_headers
     sample_create sample_empty"

lemma sample_created: "\<exists>resp w'. sample_creation = (Inr (201, resp), w')"
proof -
  have hs: "tenant_from_headers sample_headers = Inr ''t''"
      "role_from_headers sample_state sample_headers = Inr Operator"
    by code_simp+
  have limit: "st_tenant_max_inflight_runs sample_state = Some 2" by (simp add: sample_state_def)
  show ?thesis
    using sample_grants
    by (simp add: create_run_handler_def hs limit from_result_def and_then_def done_with_def
        or_internal_def stmt_def sample_clock_def sample_empty_def count_tenant_inflight_runs_def
        create_run_common_def sample_create_def compute_run_semantic_dedupe_key_def sample_api_def
        bind_def new_v4_def runs_table_def create_run_with_semantic_dedupe_key_def make_new_run_def
        run_statuses_def dedupe_conflict_def insert_check_def audit_run_created_def
        append_audit_event_def get_run_status_def row_of_new_def Let_def)
qed


end
