(* ===== verification/ApiToWorker.thy ===== *)
theory ApiToWorker
  imports EndToEnd ApiRuns
begin

text \<open>
  From the caller's role to the connectors: the grants the API stores with a run are the ones the
  worker judges its actions by.
\<close>

text \<open>What a role never reaches.\<close>

definition role_permits :: "services \<Rightarrow> role_preset \<Rightarrow> action_request \<Rightarrow> bool" where
  "role_permits sv role a \<longleftrightarrow>
     (role = Viewer \<longrightarrow> act_type a = ''object.read'' \<or> act_type a = ''llm.infer'' \<and>
        (\<exists>s. v_llm_scope sv (act_args a) = Inr s \<and> starts_with s ''local:'')) \<and>
     (role = Operator \<longrightarrow> act_type a \<noteq> ''local.exec'')"

lemma llm_scope_of:
  assumes "policy_scope ls a = Inr s" and "act_type a = ''llm.infer''"
  shows "ls (act_args a) = Inr s"
  using assms by (simp add: policy_scope_def split: sum.splits)

lemma authorised_role_permits:
  assumes "authorised sv cfg run sid c"
    and "resolve_granted_capabilities recipe role req = Inr (r_granted run)"
  shows "role_permits sv role (c_action c)"
proof -
  from assms(1) obtain r where r: "to_policy_request (v_json_len sv) (v_llm_scope sv) (c_action c) = Inr r"
      "is_action_allowed (parse_grant_set (r_granted run)) r = Allow"
    by (auto simp: authorised_def)
  from r(1) have t: "action_type r = act_type (c_action c)"
      and sc: "policy_scope (v_llm_scope sv) (c_action c) = Inr (scope r)"
    by (auto simp: to_policy_request_Inr)
  note allowed = allowed_for_role [OF assms(2) r(2), unfolded t]
  show ?thesis
    unfolding role_permits_def
  proof (intro conjI impI)
    assume "role = Viewer"
    with allowed consider "act_type (c_action c) = ''object.read''"
      | "act_type (c_action c) = ''llm.infer''" "starts_with (scope r) ''local:''" by blast
    then show "act_type (c_action c) = ''object.read'' \<or> act_type (c_action c) = ''llm.infer'' \<and>
        (\<exists>s. v_llm_scope sv (act_args (c_action c)) = Inr s \<and> starts_with s ''local:'')"
    proof cases
      case 2
      then show ?thesis using llm_scope_of [OF sc] by (intro disjI2 conjI exI [of _ "scope r"])
    qed simp
  next
    assume "role = Operator"
    with allowed show "act_type (c_action c) \<noteq> ''local.exec''" by blast
  qed
qed

text \<open>
  The caller's role bounds the worker: if the grants of the run that a cycle claimed were
  resolved for a role, then no connector call of the cycle goes beyond that role: for a viewer's
  run only \<open>object.read\<close> and \<open>llm.infer\<close> on a local route, for an operator's run no
  \<open>local.exec\<close>.
\<close>

theorem cycle_calls_respect_role:
  assumes "quiet (y_before y)" and "process_once_dual y w = (res, w')"
  shows "w_calls w' = w_calls w \<or>
    (\<exists>run cs. claimed_by y run \<and> w_calls w' = w_calls w @ cs \<and>
       (\<forall>recipe role req. resolve_granted_capabilities recipe role req = Inr (r_granted run) \<longrightarrow>
          list_all (\<lambda>c. role_permits (y_services y) role (c_action c)) cs))"
proof -
  have "calls_since y (w_calls w) w'"
    using wp_run [OF wp_process_once_calls [OF assms(1)] assms(2)] by (simp split: sum.splits)
  then consider "w_calls w' = w_calls w" | run sid cs where "claimed_by y run"
      "w_calls w' = w_calls w @ cs"
      "\<And>c. c \<in> set cs \<Longrightarrow> authorised (y_services y) (cy_worker (y_config y)) run sid c"
    unfolding calls_since_def list_all_iff by blast
  then show ?thesis
  proof cases
    case 2
    then show ?thesis
      unfolding list_all_iff
      by (intro disjI2 exI [of _ run] exI [of _ cs] conjI ballI allI impI authorised_role_permits)
  qed simp
qed

theorem cycle_calls_respect_role_witness:
  "\<exists>res w'. process_once_dual sample_cycle (sample_table ''queued'') = (res, w') \<and>
    (w_calls w' = [] \<or> (\<exists>run cs. claimed_by sample_cycle run \<and> w_calls w' = cs \<and>
       (\<forall>recipe role req. resolve_granted_capabilities recipe role req = Inr (r_granted run) \<longrightarrow>
          list_all (\<lambda>c. role_permits (y_services sample_cycle) role (c_action c)) cs)))"
proof -
  obtain res w' where e: "process_once_dual sample_cycle (sample_table ''queued'') = (res, w')" by force
  have "quiet (y_before sample_cycle)" by (simp add: sample_cycle_def quiet_basic)
  moreover have "w_calls (sample_table ''queued'') = []" by (simp add: sample_table_def sample_world_def)
  ultimately show ?thesis using cycle_calls_respect_role [OF _ e] e by simp
qed

end
