(* ===== verification/LlmEndToEnd.thy ===== *)
theory LlmEndToEnd
  imports LlmAction ApiToWorker
begin

text \<open>
  From a caller's role to the model endpoints: what the grants of a run mean for the requests that its
  \<open>llm.infer\<close> actions send, and two ways in which the code goes beyond them.
\<close>

section \<open>Judged and executed scope\<close>

text \<open>
  The connector of a call that is judged and executed with the same arguments, and that the
  configuration does not escalate, sends requests of the judged scope only.
\<close>

lemma connector_sends_judged:
  assumes "config_ok (ll_config c)" and "execute_llm_infer_action c run rid args ctx g = (res, ctx', g')"
    and "policy_scope_for_action (channel_defaults (ll_env c)) (effective_args (r_input run) args) (ll_config c) =
      Inr (scope_of route model)"
    and "\<not> lc_slo_breach_escalate_remote (ll_config c)" and "\<not> lc_verifier_escalate_remote (ll_config c)"
  shows "\<exists>new. g_sent g' = g_sent g @ new \<and>
    list_all (\<lambda>sr. sr_purpose sr = Judge \<or> sr_purpose sr = Completion route \<and> cq_model (sr_request sr) = model) new"
    and "res = Inr j \<Longrightarrow> route = Local \<Longrightarrow> g_usage g' = g_usage g"
proof -
  have "(\<exists>new. g_sent g' = g_sent g @ new \<and>
      list_all (\<lambda>sr. sr_purpose sr = Judge \<or> sr_purpose sr = Completion route \<and> cq_model (sr_request sr) = model) new) \<and>
    (res = Inr j \<longrightarrow> route = Local \<longrightarrow> g_usage g' = g_usage g)"
    using assms(2)
  proof (cases rule: llm_action_stages)
    case (called s g1 r0 g2)
    let ?sc = "scope_of route model"
    from called(1) assms(3) have s: "is_args s = effective_args (r_input run) args"
      by (simp add: preflight_ok_def)
    from assms(3) obtain parsed where p: "parse_action_args (is_args s) (lc_max_input_bytes (ll_config c)) = Inr parsed"
      by (auto simp: policy_scope_for_action_def try_then_Inr s)
    have no: "\<not> may_escalate (ll_config c) parsed" using assms(4,5) by (simp add: may_escalate_def)
    have does: "does (accounted (ll_env c) (ll_config c) parsed ?sc)
        (\<lambda>r. \<exists>route. ir_route r = route_as_str route \<and> served (ll_config c) parsed ?sc route (ir_model r))
        (execute_llm_infer (ll_env c) (is_args s) (ll_config c)
          (Some (''tenant:'' @ r_tenant run @ '':agent:'' @ r_agent run)) (ll_has_pool c))"
      using assms(3) s by (intro execute_llm_infer_does [OF assms(1) p]) simp
    have "sr_purpose sr = Judge \<or> sr_purpose sr = Completion route \<and> cq_model (sr_request sr) = model"
      if "accounted (ll_env c) (ll_config c) parsed ?sc sr" for sr
      using that no by (auto simp: accounted_def scope_of_inject split: purpose.splits)
    then have sent: "\<exists>new. g_sent g2 = g_sent g1 @ new \<and> list_all (\<lambda>sr. sr_purpose sr = Judge \<or>
        sr_purpose sr = Completion route \<and> cq_model (sr_request sr) = model) new"
      using doesD(1) [OF does called(3)] by (auto simp: list_all_iff)
    have "g_usage g' = g_usage g" if "res = Inr j" "route = Local"
    proof -
      from called(5) [OF that(1)] obtain r where r: "r0 = Inr r" "charged c run rid s r ctx g2 ctx' g'" by blast
      from doesD(2) [OF does called(3) r(1)] no that(2) have "ir_route r = ''local''"
        by (auto simp: served_def scope_of_inject)
      with r(2) doesD(3) [OF does called(3)] called(2) show ?thesis
        by (simp add: charged_def same_ledger_def)
    qed
    with sent called(2,4) show ?thesis by (auto simp: same_ledger_def)
  qed (auto simp: same_ledger_def)
  then show "\<exists>new. g_sent g' = g_sent g @ new \<and>
    list_all (\<lambda>sr. sr_purpose sr = Judge \<or> sr_purpose sr = Completion route \<and> cq_model (sr_request sr) = model) new"
    and "res = Inr j \<Longrightarrow> route = Local \<Longrightarrow> g_usage g' = g_usage g" by blast+
qed

lemma scope_route: "policy_scope_for_action cd args cfg = Inr sc \<Longrightarrow> \<exists>route model. sc = scope_of route model"
  by (auto simp: policy_scope_for_action_def try_then_Inr)


section \<open>A viewer's run\<close>

definition viewer_grants :: json where
  "viewer_grants = JArray [capability_json ''llm.infer'' ''local:*'' None (Some MAX_LLM_INFER_PAYLOAD_BYTES)]"

definition viewer_run :: "json \<Rightarrow> run_row" where
  "viewer_run input = (sample_object_run ''t'')\<lparr>r_input := input, r_granted := viewer_grants\<rparr>"

definition infer_action :: "json \<Rightarrow> action_request" where
  "infer_action args = \<lparr>act_id = ''a1'', act_type = ''llm.infer'', act_args = args, act_justification = ''ask'',
     act_contract_version = None, act_schema_id = None\<rparr>"

definition sample_llm_call :: "llm_config \<Rightarrow> llm_call" where
  "sample_llm_call cfg = \<lparr>ll_env = sample_llm_outside, ll_since = since_sqlite, ll_config = cfg, ll_has_pool = False\<rparr>"

definition fresh_context :: action_execution_context where
  "fresh_context = \<lparr>remote_llm_tokens_remaining = Some 0, payment_spend_msat = 0, last_llm_response_text = None\<rparr>"

lemma viewer_grants_resolved: "resolve_granted_capabilities ''llm_local_v1'' Viewer (JArray []) = Inr viewer_grants"
  by code_simp

lemma viewer_allowed:
  "is_action_allowed (parse_grant_set viewer_grants)
     \<lparr>action_type = ''llm.infer'', scope = ''local:small-model'', payload_bytes = 40\<rparr> = Allow"
  "is_action_allowed (parse_grant_set viewer_grants)
     \<lparr>action_type = ''llm.infer'', scope = ''remote:big-model'', payload_bytes = 40\<rparr> = Deny ScopeMismatch"
  by code_simp+

lemma infer_request:
  assumes "f args = Inr sc"
  shows "to_policy_request (\<lambda>_. Inr 40) f (infer_action args) =
    Inr \<lparr>action_type = ''llm.infer'', scope = sc, payload_bytes = 40\<rparr>"
proof -
  have "validate_action_contract (infer_action args) = Inr ()"
    by (simp add: infer_action_def validate_action_contract_def)
  with assms show ?thesis
    by (simp add: to_policy_request_Inr policy_scope_def infer_action_def)
qed

lemma effective_nothing: "effective_args JNull args = args"
  by (simp add: effective_args_def fill_absent_def infer_run_llm_channel_def channel_at_def get_either_def
      trimmed_str_def split: option.split)

lemma viewer_run_fields [simp]: "r_input (viewer_run i) = i" "r_granted (viewer_run i) = viewer_grants"
  by (simp_all add: viewer_run_def)

lemma sample_config_ok: "config_ok sample_llm_config"
proof -
  have "trim ''small-model'' = ''small-model''" "trim ''big-model'' = ''big-model''" by code_simp+
  then show ?thesis
    by (simp add: config_ok_def sample_llm_config_def models_ok_def endpoint_of_def sample_local_def sample_remote_def)
qed

lemmas branches = if_cong option.case_cong llm_large_input_policy.case_cong llm_mode.case_cong
  llm_route.case_cong llm_local_tier.case_cong llm_request_class.case_cong

lemma scope_ignores_escalation:
  "policy_scope_for_action cd args (cfg\<lparr>lc_verifier_escalate_remote := b\<rparr>) = policy_scope_for_action cd args cfg"
proof -
  let ?cfg = "cfg\<lparr>lc_verifier_escalate_remote := b\<rparr>"
  have "build_retrieved_prompt p ?cfg = build_retrieved_prompt p cfg" for p
    by (simp add: build_retrieved_prompt_def cong: branches split del: if_split)
  then have "large_input_step p ?cfg = large_input_step p cfg" for p
    by (simp add: large_input_step_def cong: branches split del: if_split)
  then have "build_prompt_plan cd p ?cfg = build_prompt_plan cd p cfg" for p
    by (simp add: build_prompt_plan_def cong: branches)
  moreover have "select_route_with_reason ?cfg p = select_route_with_reason cfg p" for p
    by (simp add: select_route_with_reason_def cong: branches)
  moreover have "pick_local_tier ?cfg t = pick_local_tier cfg t" for t
    by (simp add: pick_local_tier_def cong: branches)
  then have "select_endpoint_for_route ?cfg r p ov = select_endpoint_for_route cfg r p ov" for r p ov
    by (simp add: select_endpoint_for_route_def resolve_default_local_tier_def cong: branches)
  ultimately show ?thesis by (simp add: policy_scope_for_action_def)
qed


section \<open>Beyond the role\<close>

text \<open>
  Escalation goes beyond the judged scope, the role and the budgets. A viewer's run has a grant for
  \<open>local:*\<close> only, and no remote token may be spent by the run or the tenant. Policy judges the scope
  \<open>local:small-model\<close> and allows the action. The skill asked for verification, the local model is not sure,
  and the connector sends the prompt to the remote endpoint, reports success and charges 512 remote
  tokens to the tenant.
\<close>

theorem escalation_exceeds_role:
  "\<exists>r j ctx' g'. resolve_granted_capabilities ''llm_local_v1'' Viewer (JArray []) = Inr viewer_grants \<and>
     to_policy_request (\<lambda>_. Inr 40) (\<lambda>v. policy_scope_for_action (channel_defaults sample_llm_outside) v
       sample_llm_config) (infer_action sample_prompt) = Inr r \<and>
     is_action_allowed (parse_grant_set viewer_grants) r = Allow \<and>
     lc_remote_token_budget_per_tenant sample_llm_config = Some 0 \<and>
     execute_llm_infer_action (sample_llm_call sample_llm_config) (viewer_run JNull) ''q'' sample_prompt
       fresh_context no_gateway = (Inr j, ctx', g') \<and>
     map sr_purpose (g_sent g') = [Completion Local, Completion Remote] \<and>
     map tu_consumed_tokens (g_usage g') = [512]"
proof -
  let ?c = "sample_llm_call sample_llm_config" and ?run = "viewer_run JNull"
  let ?s = "\<lparr>is_args = sample_prompt, is_scope = ''local:small-model'', is_estimate = 512,
    is_start = window_start sample_llm_config 0, is_budgets = no_budgets\<rparr>"
  let ?g = "no_gateway\<lparr>g_step := 1\<rparr>"
  have call: "ll_env ?c = sample_llm_outside" "ll_config ?c = sample_llm_config" "ll_has_pool ?c = False"
    by (simp_all add: sample_llm_call_def)
  have out: "lo_now sample_llm_outside n = 0" "lo_uuid sample_llm_outside n = ''u''"
      "lo_db_fault sample_llm_outside n = None" "lo_estimated_cost sample_llm_outside w k = None" for n w k
    by (simp_all add: sample_llm_outside_def)
  have "token_estimate sample_prompt = 512"
    by (simp add: token_estimate_def get_u64_def sample_prompt_def jobj_def obj_of_list_def)
  then have pre: "infer_preflight ?c ?run sample_prompt fresh_context no_gateway = (Inr ?s, ?g)"
    by (simp add: infer_preflight_def call effective_nothing sample_scope bind_def lift_def ask_def ret_def Let_def
        out no_gateway_def)
  let ?ns = "Some (''tenant:'' @ r_tenant ?run @ '':agent:'' @ r_agent ?run)"
  obtain r g2 where e: "execute_llm_infer sample_llm_outside sample_prompt sample_llm_config ?ns False ?g = (Inr r, g2)"
      "ir_route r = ''remote''" "ir_total_tokens r = None"
      "g_sent g2 = [sample_sent (sample_site ?ns) Local sample_local, sample_sent (sample_site ?ns) Remote sample_remote]"
    using sample_infer [of ?g ?ns] by (auto simp: no_gateway_def)
  have usage: "g_usage g2 = []"
    using doesD(3) [OF execute_llm_infer_does [OF sample_config_ok sample_parsed] e(1)] sample_scope
    by (simp add: no_gateway_def)
  have casts: "as_i64 512 = 512" "as_i64 (window_secs sample_llm_config) = 86400"
    by (simp_all add: as_i64_def window_secs_def sample_llm_config_def)
  let ?row = "\<lambda>i. usage_row ?c ?run ''q'' ?s (ir_model r) 512 None i"
  have row: "bind (ask (lo_uuid sample_llm_outside)) (\<lambda>i. create_llm_token_usage_record sample_llm_outside (?row i)) g2 =
      (Inr (), g2\<lparr>g_step := Suc (Suc (g_step g2)), g_usage := [?row ''u'']\<rparr>)"
    by (simp add: bind_def ask_def create_llm_token_usage_record_def gw_stmt_def lift_def Let_def usage
        usage_check_def usage_row_def casts call out)
  have "\<exists>j ctx'. execute_llm_infer_action ?c ?run ''q'' sample_prompt fresh_context no_gateway =
      (Inr j, ctx', g2\<lparr>g_step := Suc (Suc (g_step g2)), g_usage := [?row ''u'']\<rparr>)"
    unfolding execute_llm_infer_action_def Let_def pre prod.case sum.case infer_setup.simps call e(1)
    using row e(2,3) by (simp add: unwrap_or_def out)
  moreover have "map sr_purpose (g_sent g2) = [Completion Local, Completion Remote]"
    using e(4) by (simp add: sample_sent_def)
  moreover have "tu_consumed_tokens (?row ''u'') = 512" by (simp add: usage_row_def casts)
  moreover have "lc_remote_token_budget_per_tenant sample_llm_config = Some 0" by (simp add: sample_llm_config_def)
  moreover have "to_policy_request (\<lambda>_. Inr 40) (\<lambda>v. policy_scope_for_action (channel_defaults sample_llm_outside) v
       sample_llm_config) (infer_action sample_prompt) =
     Inr \<lparr>action_type = ''llm.infer'', scope = ''local:small-model'', payload_bytes = 40\<rparr>"
    by (rule infer_request) (rule sample_scope)
  ultimately show ?thesis using viewer_grants_resolved viewer_allowed(1) by fastforce
qed

section \<open>Channels of the run's input\<close>

text \<open>A deployment whose \<open>LLM_CHANNEL_DEFAULTS_JSON\<close> sends the channel \<open>ops\<close> to the remote route.\<close>

definition ops_outside :: llm_outside where
  "ops_outside = sample_llm_outside\<lparr>lo_env := [''LLM_CHANNEL_DEFAULTS_JSON'' \<mapsto> ''x''],
     lo_from_str := \<lambda>_. Some (JObject [(''ops'', JObject [(''prefer'', JString ''remote'')])])\<rparr>"

definition plain_prompt :: json where
  "plain_prompt = JObject [(''prompt'', JString ''hello'')]"

definition ops_defaults :: llm_channel_defaults_config where
  "ops_defaults = default_channel_defaults(''ops'' \<mapsto>
     \<lparr>cd_prefer = Some Remote, cd_request_class = None, cd_local_tier = None\<rparr>)"

lemma ops_channel_defaults: "channel_defaults ops_outside = Inr ops_defaults"
proof -
  have "normalize_channel_name ''ops'' = Some ''ops''" "non_empty_trimmed ''x'' = Some ''x''"
      "non_empty_trimmed ''remote'' = Some ''remote''" "parse_route_preference ''remote'' = Inr Remote"
    by code_simp+
  then show ?thesis
    by (simp add: channel_defaults_def resolve_channel_defaults_from_env_def read_env_optional_string_def
        ops_outside_def parse_channel_defaults_entry_def try_map_def with_context_def trimmed_str_def get_either_def
        ops_defaults_def)
qed

lemma plain_scope:
  assumes "ch = None \<and> args = plain_prompt \<and> route = Local \<and> model = ''small-model'' \<or>
      ch = Some ''ops'' \<and> args = JObject [(''channel'', JString ''ops''), (''prompt'', JString ''hello'')] \<and>
        route = Remote \<and> model = ''big-model''"
  shows "policy_scope_for_action (Inr ops_defaults) args sample_llm_config = Inr (scope_of route model)"
proof -
  let ?parsed = "sample_llm_args\<lparr>ia_verifier_required := False, ia_channel := ch\<rparr>"
  have trims: "non_empty_trimmed ''hello'' = Some ''hello''" "trim ''hello'' = ''hello''"
      "normalize_channel_name ''ops'' = Some ''ops''" by code_simp+
  have parsed: "parse_action_args args (lc_max_input_bytes sample_llm_config) = Inr ?parsed"
    using assms trims by (elim disjE conjE; simp add: parse_action_args_def plain_prompt_def trimmed_str_def
        get_either_def get_str_def get_bool_def get_u64_def parse_context_documents_def try_map_def
        unwrap_or_def sample_llm_config_def sample_llm_args_def)
  have "build_prompt_plan (Inr ops_defaults) ?parsed sample_llm_config = Inr (sample_plan\<lparr>pl_channel := ch,
      pl_channel_defaults_applied := (ch \<noteq> None), pl_prefer := (if ch = None then None else Some Remote)\<rparr>)"
    using assms trims by (elim disjE conjE; simp add: build_prompt_plan_def large_input_step_def
        sample_llm_args_def sample_llm_config_def sample_plan_def Let_def unwrap_or_def defaults_applied_def
        prefer_with_def class_with_def tier_with_def ops_defaults_def)
  with parsed assms show ?thesis
    by (elim disjE conjE; simp add: policy_scope_for_action_def select_route_with_reason_def decide_def
      select_endpoint_for_route_def pick_local_tier_def resolve_default_local_tier_def select_model_for_route_def
      unwrap_or_def Let_def sample_llm_config_def sample_plan_def)
qed

text \<open>
  The run's input changes the scope after it was judged. Policy judges an action by the arguments the
  skill gave, here \<open>local:small-model\<close>, which a viewer's grant allows; the connector first fills in the
  channel named in the run's input, and the scope it executes is \<open>remote:big-model\<close>, which that grant
  denies.
\<close>

theorem run_channel_changes_judged_scope:
  "policy_scope_for_action (channel_defaults ops_outside) plain_prompt sample_llm_config = Inr ''local:small-model'' \<and>
   is_action_allowed (parse_grant_set viewer_grants)
     \<lparr>action_type = ''llm.infer'', scope = ''local:small-model'', payload_bytes = 40\<rparr> = Allow \<and>
   policy_scope_for_action (channel_defaults ops_outside)
     (effective_args (JObject [(''channel'', JString ''ops'')]) plain_prompt) sample_llm_config = Inr ''remote:big-model'' \<and>
   is_action_allowed (parse_grant_set viewer_grants)
     \<lparr>action_type = ''llm.infer'', scope = ''remote:big-model'', payload_bytes = 40\<rparr> = Deny ScopeMismatch"
proof -
  have "effective_args (JObject [(''channel'', JString ''ops'')]) plain_prompt =
      JObject [(''channel'', JString ''ops''), (''prompt'', JString ''hello'')]" by code_simp
  then show ?thesis
    using plain_scope [of None plain_prompt Local "''small-model''"]
      plain_scope [of "Some ''ops''" _ Remote "''big-model''"] viewer_allowed
    by (simp add: ops_channel_defaults scope_of_def)
qed

section \<open>A remote call within its budgets\<close>

definition remote_prompt :: json where
  "remote_prompt = JObject [(''max_tokens'', JNumber (PosInt 0)), (''prefer'', JString ''remote''), (''prompt'', JString ''hello'')]"

definition remote_args :: llm_infer_action_args where
  "remote_args = sample_llm_args\<lparr>ia_prefer := Some Remote, ia_prefer_explicit := True,
     ia_verifier_required := False, ia_max_tokens := Some 0\<rparr>"

definition remote_plan :: llm_prompt_plan where
  "remote_plan = sample_plan\<lparr>pl_prefer := Some Remote\<rparr>"

lemma remote_prepared:
  "parse_action_args remote_prompt (lc_max_input_bytes sample_llm_config) = Inr remote_args"
  "build_prompt_plan (channel_defaults sample_llm_outside) remote_args sample_llm_config = Inr remote_plan"
proof -
  have trims: "non_empty_trimmed ''hello'' = Some ''hello''" "trim ''hello'' = ''hello''"
      "non_empty_trimmed ''remote'' = Some ''remote''" "parse_route_preference ''remote'' = Inr Remote" by code_simp+
  then show "parse_action_args remote_prompt (lc_max_input_bytes sample_llm_config) = Inr remote_args"
    by (simp add: parse_action_args_def remote_prompt_def remote_args_def trimmed_str_def
        get_either_def get_str_def get_bool_def get_u64_def parse_context_documents_def try_map_def
        unwrap_or_def sample_llm_config_def sample_llm_args_def)
  from trims show "build_prompt_plan (channel_defaults sample_llm_outside) remote_args sample_llm_config = Inr remote_plan"
    by (simp add: sample_defaults build_prompt_plan_def large_input_step_def remote_args_def remote_plan_def
        sample_llm_args_def sample_llm_config_def sample_plan_def Let_def unwrap_or_def defaults_applied_def
        prefer_with_def class_with_def tier_with_def)
qed

definition remote_selection :: route_endpoint_selection where
  "remote_selection = \<lparr>rs_endpoint = sample_remote, rs_local_tier_requested = None, rs_local_tier_selected = None,
     rs_local_tier_reason_code = None\<rparr>"

lemma remote_routing:
  "select_route_with_reason sample_llm_config (pl_prefer remote_plan) =
     Inr \<lparr>rd_route = Remote, rd_reason_code = ''prefer_remote_local_first''\<rparr>"
  "select_endpoint_for_route sample_llm_config Remote remote_plan True = Inr remote_selection"
  by (simp_all add: select_route_with_reason_def decide_def select_endpoint_for_route_def
      select_model_for_route_def unwrap_or_def Let_def sample_llm_config_def remote_plan_def sample_plan_def
      remote_selection_def sample_remote_def)

lemma remote_scope:
  "policy_scope_for_action (channel_defaults sample_llm_outside) remote_prompt sample_llm_config = Inr ''remote:big-model''"
  unfolding policy_scope_for_action_def
  by (simp add: remote_prepared remote_routing scope_of_def remote_selection_def sample_remote_def)

lemma remote_infer:
  assumes "g_interactive_inflight g = 0"
  shows "\<exists>r g'. execute_llm_infer sample_llm_outside remote_prompt sample_llm_config ns False g = (Inr r, g') \<and>
     ir_route r = ''remote'' \<and> ir_total_tokens r = None"
proof -
  let ?g = "g\<lparr>g_interactive_inflight := 1\<rparr>"
  let ?q = "\<lparr>rq_env = sample_llm_outside, rq_parsed = remote_args, rq_plan = remote_plan,
     rq_config = sample_llm_config, rq_namespace = ns, rq_has_pool = False\<rparr>"
  have adm: "acquire_admission sample_llm_outside remote_args sample_llm_config ns False g =
      (Inr (ReleaseLocal Interactive, ''admitted''), ?g)"
    using assms by (simp add: acquire_admission_def acquire_local_admission_def reserve_slot_def
        admission_limit_def sample_llm_config_def sample_llm_args_def remote_args_def bind_def ret_def Let_def)
  have cfg: "lc_verifier_enabled sample_llm_config = False" "ia_verifier_required remote_args = False"
      "rs_endpoint remote_selection = sample_remote"
    by (simp_all add: sample_llm_config_def remote_args_def remote_selection_def)
  have "\<exists>o1 g'. run_llm_with_controls ?q ''admitted'' ?g = (Inr o1, g') \<and> eo_route o1 = Remote \<and> eo_total_tokens o1 = None"
    unfolding run_llm_with_controls_def Let_def
    by (simp add: cfg remote_routing bind_def lift_def ret_def ask_def slo_step_def verifier_step_def
        sample_complete [where e=sample_remote and route=Remote] completed_def outcome_of_def unsure_def Let_def)
  then obtain o1 g' where run: "run_llm_with_controls ?q ''admitted'' ?g = (Inr o1, g')" "eo_route o1 = Remote"
    "eo_total_tokens o1 = None" by blast
  then show ?thesis
    unfolding execute_llm_infer_def
    using adm by (simp add: remote_prepared bind_def lift_def ret_def guarded_def)
qed

lemma remote_action_succeeds:
  "\<exists>j ctx' g'. execute_llm_infer_action (sample_llm_call sample_llm_config) (viewer_run JNull) ''q'' remote_prompt
     fresh_context no_gateway = (Inr j, ctx', g')"
proof -
  let ?c = "sample_llm_call sample_llm_config" and ?run = "viewer_run JNull"
  have call: "ll_env ?c = sample_llm_outside" "ll_config ?c = sample_llm_config" "ll_has_pool ?c = False"
      "ll_since ?c = since_sqlite"
    by (simp_all add: sample_llm_call_def)
  have out: "lo_now sample_llm_outside n = 0" "lo_uuid sample_llm_outside n = ''u''"
      "lo_db_fault sample_llm_outside n = None" "lo_estimated_cost sample_llm_outside w k = None" for n w k
    by (simp_all add: sample_llm_outside_def)
  have cfg: "lc_remote_token_budget_per_tenant sample_llm_config = Some 0"
      "lc_remote_token_budget_per_agent sample_llm_config = None"
      "lc_remote_token_budget_per_model sample_llm_config = None"
      "as_i64 (window_secs sample_llm_config) = 86400" "as_i64 0 = 0"
    by (simp_all add: sample_llm_config_def as_i64_def window_secs_def)
  have est: "token_estimate remote_prompt = 0"
    by (simp add: token_estimate_def get_u64_def remote_prompt_def)
  have "\<exists>s n. infer_preflight ?c ?run remote_prompt fresh_context no_gateway = (Inr s, no_gateway\<lparr>g_step := n\<rparr>) \<and>
      is_args s = remote_prompt \<and> is_estimate s = 0"
    by (simp add: infer_preflight_def call effective_nothing remote_scope bind_def lift_def ask_def ret_def Let_def
        out no_gateway_def est check_budgets_def check_run_budget_def fresh_context_def check_budget_def gw_stmt_def
        cfg sum_llm_consumed_tokens_for_tenant_since_def remote_usage_def)
  then obtain s n where pre: "infer_preflight ?c ?run remote_prompt fresh_context no_gateway =
      (Inr s, no_gateway\<lparr>g_step := n\<rparr>)" "is_args s = remote_prompt" "is_estimate s = 0" by blast
  let ?ns = "Some (''tenant:'' @ r_tenant ?run @ '':agent:'' @ r_agent ?run)"
  obtain r g2 where e: "execute_llm_infer sample_llm_outside remote_prompt sample_llm_config ?ns False
      (no_gateway\<lparr>g_step := n\<rparr>) = (Inr r, g2)" "ir_route r = ''remote''" "ir_total_tokens r = None"
    using remote_infer [of "no_gateway\<lparr>g_step := n\<rparr>" ?ns] by (auto simp: no_gateway_def)
  have usage: "g_usage g2 = []"
    using doesD(3) [OF execute_llm_infer_does [OF sample_config_ok remote_prepared(1)] e(1)] remote_scope
    by (simp add: no_gateway_def)
  have "\<exists>g3. bind (ask (lo_uuid sample_llm_outside)) (\<lambda>i. create_llm_token_usage_record sample_llm_outside
      (usage_row ?c ?run ''q'' s (ir_model r) 0 None i)) g2 = (Inr (), g3)"
    by (simp add: bind_def ask_def create_llm_token_usage_record_def gw_stmt_def lift_def Let_def usage
        usage_check_def usage_row_def cfg call out)
  then show ?thesis
    unfolding execute_llm_infer_action_def Let_def pre prod.case sum.case call e(1)
    using e(2,3) by (auto simp: unwrap_or_def out)
qed

theorem remote_budget_respected_witness:
  "\<exists>g'. \<exists>j ctx'. execute_llm_infer_action (sample_llm_call sample_llm_config) (viewer_run JNull) ''q'' remote_prompt
      fresh_context no_gateway = (Inr j, ctx', g') \<and>
    (\<exists>row. g_usage g' = [row] \<and> tu_model_key row = ''remote:big-model'' \<and> tu_agent_id row = ''a'')"
proof -
  obtain j ctx' g' where e: "execute_llm_infer_action (sample_llm_call sample_llm_config) (viewer_run JNull) ''q''
      remote_prompt fresh_context no_gateway = (Inr j, ctx', g')" using remote_action_succeeds by blast
  have sc: "policy_scope_for_action (channel_defaults (ll_env (sample_llm_call sample_llm_config)))
      (effective_args (r_input (viewer_run JNull)) remote_prompt) (ll_config (sample_llm_call sample_llm_config)) =
      Inr ''remote:big-model''"
    by (simp add: sample_llm_call_def effective_nothing remote_scope)
  have "config_ok (ll_config (sample_llm_call sample_llm_config))"
    by (simp add: sample_llm_call_def sample_config_ok)
  from remote_budget_respected [OF this e sc] e show ?thesis
    by (auto simp: no_gateway_def viewer_run_def sample_object_run_def row_of_new_def)
qed

end
