(* ===== verification/TriggerStore.thy ===== *)
theory TriggerStore
  imports StepStore
begin

text \<open>
  The statements on the trigger tables (\<open>core/src/db.rs\<close>, with the constraints of
  \<open>migrations/0003\<close> to \<open>0006\<close> and \<open>0020\<close>): creating and updating triggers, queueing and replaying
  webhook events, firing by hand. Dispatch is in \<open>TriggerDispatch\<close>.

  A transaction is one atomic function of the database: it returns the error of the first
  statement that fails and then leaves every table as it was, or a value and the new tables. The
  cron and time zone libraries, the hash behind the jitter, SHA-256, the JSON serialiser and the
  references to agents and users are arguments (\<open>trigger_services\<close>); \<open>now\<close> is the time of the
  transaction, for \<open>now()\<close> and for \<open>OffsetDateTime::now_utc()\<close>. Times stay within the range
  of \<open>OffsetDateTime\<close>.
\<close>

section \<open>Services\<close>

record trigger_services =
  ts_timezone_error :: "string \<Rightarrow> string option"
  ts_schedule_error :: "string \<Rightarrow> string option"
  ts_next_after :: "string \<Rightarrow> string \<Rightarrow> time \<Rightarrow> time option"
  ts_timestamp_error :: "int \<Rightarrow> string option"
  ts_hash :: "uuid \<Rightarrow> time \<Rightarrow> u64"
  ts_to_vec :: "json \<Rightarrow> string option"
  ts_json_text :: "json \<Rightarrow> string"
  ts_sha256_hex :: "string \<Rightarrow> string"
  ts_run_fk :: "new_run \<Rightarrow> bool"
  ts_trigger_fk :: "uuid \<Rightarrow> uuid option \<Rightarrow> bool"

definition seconds :: "int \<Rightarrow> int" where
  "seconds n = n * 1000"

text \<open>\<open>t.unix_timestamp_nanos().to_string()\<close>\<close>

definition int_to_string :: "int \<Rightarrow> string" where
  "int_to_string n = (if n < 0 then CHR ''-'' # nat_to_string (nat (- n)) else nat_to_string (nat n))"

definition nanos_key :: "time \<Rightarrow> string" where
  "nanos_key t = int_to_string (t * 1000000)"

definition next_cron_fire_at :: "trigger_services \<Rightarrow> string \<Rightarrow> string \<Rightarrow> time \<Rightarrow> string + time" where
  "next_cron_fire_at sv cron_expression schedule_timezone after =
     (case ts_timezone_error sv schedule_timezone of
        Some err \<Rightarrow> Inl (''invalid schedule_timezone `'' @ schedule_timezone @ ''`: '' @ err)
      | None \<Rightarrow>
     case ts_schedule_error sv cron_expression of
        Some err \<Rightarrow> Inl (''invalid cron_expression `'' @ cron_expression @ ''`: '' @ err)
      | None \<Rightarrow>
     case ts_next_after sv cron_expression schedule_timezone after of
        None \<Rightarrow> Inl ''cron schedule has no next fire time''
      | Some next \<Rightarrow>
     case ts_timestamp_error sv (secs next) of
        Some err \<Rightarrow> Inl (''invalid computed next_fire_at timestamp: '' @ err)
      | None \<Rightarrow> Inr (seconds (secs next)))"

definition apply_jitter :: "trigger_services \<Rightarrow> time \<Rightarrow> uuid \<Rightarrow> int \<Rightarrow> time \<Rightarrow> time" where
  "apply_jitter sv scheduled_for trigger_id jitter_seconds entropy_time =
     (if jitter_seconds \<le> 0 then scheduled_for
      else scheduled_for +
        seconds (int (unat (ts_hash sv trigger_id entropy_time) mod (nat jitter_seconds + 1))))"

definition trigger_error_payload :: "string \<Rightarrow> string \<Rightarrow> string \<Rightarrow> json" where
  "trigger_error_payload code message reason_class =
     jobj [(''code'', JString code), (''message'', JString message),
       (''reason_class'', JString reason_class)]"

definition merge_json_objects :: "json \<Rightarrow> json \<Rightarrow> json" where
  "merge_json_objects primary overlay =
     (case primary of
        JObject merged \<Rightarrow>
          JObject (case overlay of
              JObject overlay_map \<Rightarrow> fold (\<lambda>(k, v). obj_insert k v) overlay_map merged
            | _ \<Rightarrow> merged)
      | other \<Rightarrow> jobj [(''input'', other), (''_trigger'', overlay)])"

definition inject_trace_id :: "json \<Rightarrow> string \<Rightarrow> json" where
  "inject_trace_id input trace_id =
     (case input of
        JObject m \<Rightarrow> JObject (obj_insert ''_trace'' (JString trace_id) m)
      | other \<Rightarrow> jobj [(''_trace'', JString trace_id), (''input'', other)])"

section \<open>Triggers\<close>

definition trigger_type_check :: "trigger_record \<Rightarrow> bool" where
  "trigger_type_check t \<longleftrightarrow>
     t_trigger_type t = ''interval'' \<and> t_cron_expression t = None \<and>
       (case t_interval_seconds t of None \<Rightarrow> False | Some n \<Rightarrow> 0 < n) \<or>
     t_trigger_type t = ''webhook'' \<and> t_interval_seconds t = None \<and> t_cron_expression t = None \<or>
     t_trigger_type t = ''cron'' \<and> t_interval_seconds t = None \<and> t_cron_expression t \<noteq> None"

definition trigger_check :: "trigger_record \<Rightarrow> bool" where
  "trigger_check t \<longleftrightarrow>
     (t_status t = ''enabled'' \<or> t_status t = ''disabled'') \<and> trigger_type_check t \<and>
     (t_misfire_policy t = ''fire_now'' \<or> t_misfire_policy t = ''skip'') \<and>
     0 < t_max_attempts t \<and> 0 < t_max_inflight_runs t \<and>
     0 \<le> t_jitter_seconds t \<and> t_jitter_seconds t \<le> 3600 \<and>
     0 \<le> t_consecutive_failures t \<and> t_schedule_timezone t \<noteq> []"

definition insert_trigger ::
    "trigger_services \<Rightarrow> trigger_record \<Rightarrow> db \<Rightarrow> (db_error + trigger_record) \<times> db" where
  "insert_trigger sv t d =
     (if \<not> trigger_check t then (Inl CheckViolation, d)
      else if list_ex (\<lambda>u. t_id u = t_id t) (d_triggers d) then (Inl UniqueViolation, d)
      else if \<not> ts_trigger_fk sv (t_agent_id t) (t_triggered_by_user_id t)
      then (Inl ForeignKeyViolation, d)
      else (Inr t, d\<lparr>d_triggers := d_triggers d @ [t]\<rparr>))"

definition create_interval_trigger ::
    "trigger_services \<Rightarrow> time \<Rightarrow> new_interval_trigger \<Rightarrow> db \<Rightarrow> (db_error + trigger_record) \<times> db" where
  "create_interval_trigger sv now n = insert_trigger sv
     \<lparr>t_id = ni_id n, t_tenant_id = ni_tenant_id n, t_agent_id = ni_agent_id n,
      t_triggered_by_user_id = ni_triggered_by_user_id n, t_recipe_id = ni_recipe_id n,
      t_status = ni_status n, t_trigger_type = ''interval'',
      t_interval_seconds = Some (ni_interval_seconds n), t_cron_expression = None,
      t_schedule_timezone = ''UTC'', t_misfire_policy = ni_misfire_policy n,
      t_max_attempts = ni_max_attempts n, t_max_inflight_runs = ni_max_inflight_runs n,
      t_jitter_seconds = ni_jitter_seconds n, t_consecutive_failures = 0, t_dead_lettered_at = None,
      t_dead_letter_reason = None, t_webhook_secret_ref = ni_webhook_secret_ref n,
      t_input_json = ni_input_json n, t_requested_capabilities = ni_requested_capabilities n,
      t_granted_capabilities = ni_granted_capabilities n, t_next_fire_at = ni_next_fire_at n,
      t_last_fired_at = None, t_created_at = now, t_updated_at = now\<rparr>"

definition create_webhook_trigger ::
    "trigger_services \<Rightarrow> time \<Rightarrow> new_webhook_trigger \<Rightarrow> db \<Rightarrow> (db_error + trigger_record) \<times> db" where
  "create_webhook_trigger sv now n = insert_trigger sv
     \<lparr>t_id = nw_id n, t_tenant_id = nw_tenant_id n, t_agent_id = nw_agent_id n,
      t_triggered_by_user_id = nw_triggered_by_user_id n, t_recipe_id = nw_recipe_id n,
      t_status = nw_status n, t_trigger_type = ''webhook'', t_interval_seconds = None,
      t_cron_expression = None, t_schedule_timezone = ''UTC'', t_misfire_policy = ''fire_now'',
      t_max_attempts = nw_max_attempts n, t_max_inflight_runs = nw_max_inflight_runs n,
      t_jitter_seconds = nw_jitter_seconds n, t_consecutive_failures = 0, t_dead_lettered_at = None,
      t_dead_letter_reason = None, t_webhook_secret_ref = nw_webhook_secret_ref n,
      t_input_json = nw_input_json n, t_requested_capabilities = nw_requested_capabilities n,
      t_granted_capabilities = nw_granted_capabilities n, t_next_fire_at = now,
      t_last_fired_at = None, t_created_at = now, t_updated_at = now\<rparr>"

definition create_cron_trigger ::
    "trigger_services \<Rightarrow> time \<Rightarrow> new_cron_trigger \<Rightarrow> db \<Rightarrow> (db_error + trigger_record) \<times> db" where
  "create_cron_trigger sv now n d =
     (case next_cron_fire_at sv (nc_cron_expression n) (nc_schedule_timezone n) now of
        Inl err \<Rightarrow> (Inl (Protocol err), d)
      | Inr next_fire_at \<Rightarrow> insert_trigger sv
     \<lparr>t_id = nc_id n, t_tenant_id = nc_tenant_id n, t_agent_id = nc_agent_id n,
      t_triggered_by_user_id = nc_triggered_by_user_id n, t_recipe_id = nc_recipe_id n,
      t_status = nc_status n, t_trigger_type = ''cron'', t_interval_seconds = None,
      t_cron_expression = Some (nc_cron_expression n),
      t_schedule_timezone = nc_schedule_timezone n, t_misfire_policy = nc_misfire_policy n,
      t_max_attempts = nc_max_attempts n, t_max_inflight_runs = nc_max_inflight_runs n,
      t_jitter_seconds = nc_jitter_seconds n, t_consecutive_failures = 0, t_dead_lettered_at = None,
      t_dead_letter_reason = None, t_webhook_secret_ref = None, t_input_json = nc_input_json n,
      t_requested_capabilities = nc_requested_capabilities n,
      t_granted_capabilities = nc_granted_capabilities n,
      t_next_fire_at = apply_jitter sv next_fire_at (nc_id n) (nc_jitter_seconds n) now,
      t_last_fired_at = None, t_created_at = now, t_updated_at = now\<rparr> d)"

definition count_tenant_triggers :: "string \<Rightarrow> db \<Rightarrow> int" where
  "count_tenant_triggers tenant_id d =
     int (length (filter (\<lambda>t. t_tenant_id t = tenant_id) (d_triggers d)))"

definition get_trigger :: "string \<Rightarrow> uuid \<Rightarrow> db \<Rightarrow> trigger_record option" where
  "get_trigger tenant_id trigger_id d =
     find (\<lambda>t. t_tenant_id t = tenant_id \<and> t_id t = trigger_id) (d_triggers d)"

text \<open>
  \<open>UPDATE triggers SET ... WHERE ... RETURNING\<close>: the check constraints hold for every row it
  writes, or the statement fails.
\<close>

definition update_triggers ::
    "(trigger_record \<Rightarrow> bool) \<Rightarrow> (trigger_record \<Rightarrow> trigger_record) \<Rightarrow> db \<Rightarrow>
     (db_error + trigger_record option) \<times> db" where
  "update_triggers p f d =
     (let changed = map f (filter p (d_triggers d))
      in if \<not> list_all trigger_check changed then (Inl CheckViolation, d)
         else (Inr (case changed of [] \<Rightarrow> None | t # _ \<Rightarrow> Some t),
               d\<lparr>d_triggers := map (\<lambda>t. if p t then f t else t) (d_triggers d)\<rparr>))"

definition update_trigger_status ::
    "time \<Rightarrow> string \<Rightarrow> uuid \<Rightarrow> string \<Rightarrow> db \<Rightarrow> (db_error + trigger_record option) \<times> db" where
  "update_trigger_status now tenant_id trigger_id status =
     update_triggers (\<lambda>t. t_tenant_id t = tenant_id \<and> t_id t = trigger_id)
       (\<lambda>t. t\<lparr>t_status := status, t_updated_at := now\<rparr>)"

text \<open>The time a changed trigger fires next, before jitter.\<close>

definition rescheduled ::
    "trigger_services \<Rightarrow> time \<Rightarrow> trigger_record \<Rightarrow> int option \<Rightarrow> string option \<Rightarrow> string \<Rightarrow> db_error + time" where
  "rescheduled sv now existing interval_seconds cron_expression schedule_timezone =
     (if t_trigger_type existing = ''interval'' then Inr (now + seconds (unwrap_or interval_seconds 60))
      else if t_trigger_type existing = ''cron'' then
        (case cron_expression of
           None \<Rightarrow> Inl (Protocol ''cron trigger requires cron_expression'')
         | Some expression \<Rightarrow>
             (case next_cron_fire_at sv expression schedule_timezone now of
                Inl err \<Rightarrow> Inl (Protocol err) | Inr t \<Rightarrow> Inr t))
      else Inr (t_next_fire_at existing))"

definition update_trigger_config ::
    "trigger_services \<Rightarrow> time \<Rightarrow> string \<Rightarrow> uuid \<Rightarrow> update_trigger_params \<Rightarrow> db \<Rightarrow>
     (db_error + trigger_record option) \<times> db" where
  "update_trigger_config sv now tenant_id trigger_id params d =
     (case get_trigger tenant_id trigger_id d of
        None \<Rightarrow> (Inr None, d)
      | Some existing \<Rightarrow>
          (let interval_seconds = or_else (up_interval_seconds params) (t_interval_seconds existing);
               cron_expression = or_else (up_cron_expression params) (t_cron_expression existing);
               schedule_timezone = unwrap_or (up_schedule_timezone params) (t_schedule_timezone existing);
               misfire_policy = unwrap_or (up_misfire_policy params) (t_misfire_policy existing);
               max_attempts = unwrap_or (up_max_attempts params) (t_max_attempts existing);
               max_inflight_runs = unwrap_or (up_max_inflight_runs params) (t_max_inflight_runs existing);
               jitter_seconds = unwrap_or (up_jitter_seconds params) (t_jitter_seconds existing);
               webhook_secret_ref = or_else (up_webhook_secret_ref params) (t_webhook_secret_ref existing)
           in case rescheduled sv now existing interval_seconds cron_expression schedule_timezone of
                Inl e \<Rightarrow> (Inl e, d)
              | Inr next_fire_at \<Rightarrow>
                  update_triggers (\<lambda>t. t_tenant_id t = tenant_id \<and> t_id t = trigger_id)
                    (\<lambda>t. t\<lparr>t_interval_seconds := interval_seconds, t_cron_expression := cron_expression,
                       t_schedule_timezone := schedule_timezone, t_misfire_policy := misfire_policy,
                       t_max_attempts := max_attempts, t_max_inflight_runs := max_inflight_runs,
                       t_jitter_seconds := jitter_seconds, t_webhook_secret_ref := webhook_secret_ref,
                       t_next_fire_at := apply_jitter sv next_fire_at (t_id existing) jitter_seconds now,
                       t_updated_at := now\<rparr>) d))"

definition append_trigger_audit_event ::
    "new_trigger_audit_event \<Rightarrow> db \<Rightarrow> (db_error + unit) \<times> db" where
  "append_trigger_audit_event a d =
     (if list_ex (\<lambda>b. ta_id b = ta_id a) (d_trigger_audit d) then (Inl UniqueViolation, d)
      else if \<not> list_ex (\<lambda>t. t_id t = ta_trigger_id a) (d_triggers d) then (Inl ForeignKeyViolation, d)
      else (Inr (), d\<lparr>d_trigger_audit := d_trigger_audit d @ [a]\<rparr>))"

section \<open>Webhook events\<close>

fun canonicalize_json_for_trigger_event_semantic_dedupe :: "json \<Rightarrow> json" where
  "canonicalize_json_for_trigger_event_semantic_dedupe (JObject m) =
     JObject (obj_of_list (sort_key fst
       (map (\<lambda>(k, v). (k, canonicalize_json_for_trigger_event_semantic_dedupe v)) m)))"
| "canonicalize_json_for_trigger_event_semantic_dedupe (JArray vs) =
     JArray (map canonicalize_json_for_trigger_event_semantic_dedupe vs)"
| "canonicalize_json_for_trigger_event_semantic_dedupe v = v"

definition compute_trigger_event_semantic_dedupe_key ::
    "trigger_services \<Rightarrow> string \<Rightarrow> uuid \<Rightarrow> json \<Rightarrow> string" where
  "compute_trigger_event_semantic_dedupe_key sv tenant_id trigger_id payload_json =
     (let dedupe_payload = jobj [(''tenant_id'', JString tenant_id), (''trigger_id'', JString trigger_id),
            (''payload'', canonicalize_json_for_trigger_event_semantic_dedupe payload_json)]
      in ts_sha256_hex sv (unwrap_or (ts_to_vec sv dedupe_payload) (ts_json_text sv dedupe_payload)))"

text \<open>
  \<open>INSERT ... ON CONFLICT DO NOTHING\<close> on the primary key and the unique indexes
  \<open>(trigger_id, event_id)\<close> and \<open>(trigger_id, semantic_dedupe_key)\<close>. \<open>row_id\<close> is the new UUID.
\<close>

definition event_conflict :: "trigger_event_row \<Rightarrow> trigger_event_row \<Rightarrow> bool" where
  "event_conflict e f \<longleftrightarrow> te_id f = te_id e \<or> te_trigger_id f = te_trigger_id e \<and>
     (te_event_id f = te_event_id e \<or> te_semantic_dedupe_key f = te_semantic_dedupe_key e)"

definition enqueue_trigger_event ::
    "trigger_services \<Rightarrow> uuid \<Rightarrow> time \<Rightarrow> string \<Rightarrow> uuid \<Rightarrow> string \<Rightarrow> json \<Rightarrow> db \<Rightarrow>
     trigger_event_enqueue_outcome \<times> db" where
  "enqueue_trigger_event sv row_id now tenant_id trigger_id event_id payload_json d =
     (if as_object payload_json = None then (EventTriggerUnavailable PayloadMalformed, d)
      else case get_trigger tenant_id trigger_id d of
        None \<Rightarrow> (EventTriggerUnavailable TriggerNotFound, d)
      | Some t \<Rightarrow>
          if t_status t \<noteq> ''enabled'' then (EventTriggerUnavailable TriggerDisabled, d)
          else if t_trigger_type t \<noteq> ''webhook'' then (EventTriggerUnavailable TriggerTypeMismatch, d)
          else if t_dead_lettered_at t \<noteq> None then (EventTriggerUnavailable TriggerScheduleBroken, d)
          else
            let e = \<lparr>te_id = row_id, te_trigger_id = trigger_id, te_tenant_id = tenant_id,
                  te_event_id = event_id,
                  te_semantic_dedupe_key =
                    compute_trigger_event_semantic_dedupe_key sv tenant_id trigger_id payload_json,
                  te_payload_json = payload_json, te_status = ''pending'', te_attempts = 0,
                  te_next_attempt_at = now, te_last_error_json = None, te_created_at = now,
                  te_processed_at = None, te_dead_lettered_at = None\<rparr>
            in if list_ex (event_conflict e) (d_trigger_events d) then (EventDuplicate, d)
               else (EventEnqueued, d\<lparr>d_trigger_events := d_trigger_events d @ [e]\<rparr>))"

definition requeue_dead_letter_trigger_event ::
    "time \<Rightarrow> string \<Rightarrow> uuid \<Rightarrow> string \<Rightarrow> db \<Rightarrow> (db_error + trigger_event_replay_outcome) \<times> db" where
  "requeue_dead_letter_trigger_event now tenant_id trigger_id event_id d =
     (let this = (\<lambda>e. te_trigger_id e = trigger_id \<and> te_tenant_id e = tenant_id \<and> te_event_id e = event_id)
      in case find this (d_trigger_events d) of
           None \<Rightarrow> (Inr ReplayNotFound, d)
         | Some e \<Rightarrow>
             if te_status e \<noteq> ''dead_lettered'' then (Inr (ReplayNotDeadLettered (te_status e)), d)
             else
               (case update_where this
                   (\<lambda>e. e\<lparr>te_status := ''pending'', te_attempts := 0, te_next_attempt_at := now,
                      te_last_error_json := None, te_processed_at := None, te_dead_lettered_at := None\<rparr>)
                   (d_trigger_events d) of
                  (events, n) \<Rightarrow>
                    if n = 1 then (Inr ReplayRequeued, d\<lparr>d_trigger_events := events\<rparr>)
                    else (Inl (Protocol ''failed to requeue locked dead-letter trigger event row''), d)))"

section \<open>Firing\<close>

text \<open>
  \<open>SELECT COUNT(*) FROM trigger_runs tr JOIN runs r ON r.id = tr.run_id WHERE tr.trigger_id = ...
  AND r.status IN ('queued', 'running')\<close>
\<close>

definition count_inflight_runs_for_trigger_tx :: "uuid \<Rightarrow> db \<Rightarrow> int" where
  "count_inflight_runs_for_trigger_tx trigger_id d =
     int (sum_list (map (\<lambda>tr. length (filter (\<lambda>r. tr_run_id tr = Some (r_id r) \<and> active r) (d_runs d)))
       (filter (\<lambda>tr. tr_trigger_id tr = trigger_id) (d_trigger_runs d))))"

definition count_inflight_runs_for_tenant_tx :: "string \<Rightarrow> db \<Rightarrow> int" where
  "count_inflight_runs_for_tenant_tx tenant_id d = count_tenant_inflight_runs tenant_id (d_runs d)"

definition insert_run :: "trigger_services \<Rightarrow> time \<Rightarrow> new_run \<Rightarrow> db \<Rightarrow> db_error + db" where
  "insert_run sv now n d =
     (case create_run (ts_run_fk sv) now n (d_runs d) of
        (Inl e, _) \<Rightarrow> Inl e | (Inr _, rows) \<Rightarrow> Inr (d\<lparr>d_runs := rows\<rparr>))"

text \<open>The unique index \<open>(trigger_id, dedupe_key)\<close>, the primary key and the references.\<close>

definition insert_trigger_run :: "trigger_run_row \<Rightarrow> db \<Rightarrow> db_error + db" where
  "insert_trigger_run tr d =
     (if list_ex (\<lambda>u. tr_id u = tr_id tr \<or>
           tr_trigger_id u = tr_trigger_id tr \<and> tr_dedupe_key u = tr_dedupe_key tr) (d_trigger_runs d)
      then Inl UniqueViolation
      else if \<not> list_ex (\<lambda>t. t_id t = tr_trigger_id tr) (d_triggers d) \<or>
              (case tr_run_id tr of None \<Rightarrow> False | Some i \<Rightarrow> \<not> list_ex (\<lambda>r. r_id r = i) (d_runs d))
      then Inl ForeignKeyViolation
      else Inr (d\<lparr>d_trigger_runs := d_trigger_runs d @ [tr]\<rparr>))"

definition set_trigger :: "uuid \<Rightarrow> (trigger_record \<Rightarrow> trigger_record) \<Rightarrow> db \<Rightarrow> db" where
  "set_trigger trigger_id f d =
     d\<lparr>d_triggers := map (\<lambda>t. if t_id t = trigger_id then f t else t) (d_triggers d)\<rparr>"

definition mark_fired :: "time \<Rightarrow> trigger_record \<Rightarrow> trigger_record" where
  "mark_fired now t = t\<lparr>t_last_fired_at := Some now, t_consecutive_failures := 0, t_updated_at := now\<rparr>"

text \<open>The end of a transaction: commit, or drop with the connection and roll back.\<close>

definition commit :: "db \<Rightarrow> db_error + 'a \<times> db \<Rightarrow> (db_error + 'a) \<times> db" where
  "commit d r = (case r of Inl e \<Rightarrow> (Inl e, d) | Inr (v, d') \<Rightarrow> (Inr v, d'))"

text \<open>The queued run of a firing trigger, and the record of a firing.\<close>

definition run_of_trigger :: "trigger_record \<Rightarrow> uuid \<Rightarrow> json \<Rightarrow> new_run" where
  "run_of_trigger t run_id input_json =
     \<lparr>nr_id = run_id, nr_tenant = t_tenant_id t, nr_agent = t_agent_id t,
      nr_user = t_triggered_by_user_id t, nr_recipe = t_recipe_id t, nr_status = ''queued'',
      nr_input = input_json, nr_requested = t_requested_capabilities t,
      nr_granted = t_granted_capabilities t, nr_error = None\<rparr>"

definition created_trigger_run :: "uuid \<Rightarrow> uuid \<Rightarrow> uuid \<Rightarrow> time \<Rightarrow> string \<Rightarrow> trigger_run_row" where
  "created_trigger_run row_id trigger_id run_id scheduled_for dedupe_key =
     \<lparr>tr_id = row_id, tr_trigger_id = trigger_id, tr_run_id = Some run_id,
      tr_scheduled_for = scheduled_for, tr_status = ''created'', tr_dedupe_key = dedupe_key,
      tr_error_json = None\<rparr>"

definition failed_trigger_run :: "uuid \<Rightarrow> uuid \<Rightarrow> time \<Rightarrow> string \<Rightarrow> json \<Rightarrow> trigger_run_row" where
  "failed_trigger_run row_id trigger_id scheduled_for dedupe_key error_json =
     \<lparr>tr_id = row_id, tr_trigger_id = trigger_id, tr_run_id = None,
      tr_scheduled_for = scheduled_for, tr_status = ''failed'', tr_dedupe_key = dedupe_key,
      tr_error_json = Some error_json\<rparr>"

definition dispatch_of ::
    "trigger_record \<Rightarrow> string \<Rightarrow> string option \<Rightarrow> uuid \<Rightarrow> time \<Rightarrow> time \<Rightarrow> trigger_dispatch_record" where
  "dispatch_of t trigger_type event_id run_id scheduled_for next_fire_at =
     \<lparr>td_trigger_id = t_id t, td_trigger_type = trigger_type, td_trigger_event_id = event_id,
      td_run_id = run_id, td_tenant_id = t_tenant_id t, td_agent_id = t_agent_id t,
      td_triggered_by_user_id = t_triggered_by_user_id t, td_recipe_id = t_recipe_id t,
      td_scheduled_for = scheduled_for, td_next_fire_at = next_fire_at\<rparr>"

definition default_tenant_max_inflight_runs :: int where
  "default_tenant_max_inflight_runs = 100"

abbreviation trigger_ready :: "trigger_record \<Rightarrow> bool" where
  "trigger_ready t \<equiv> t_status t = ''enabled'' \<and> t_dead_lettered_at t = None"

definition manual_envelope :: "uuid \<Rightarrow> string \<Rightarrow> json option \<Rightarrow> json" where
  "manual_envelope trigger_id idempotency_key payload_json =
     jobj [(''_trigger'', jobj [(''type'', JString ''manual''), (''trigger_id'', JString trigger_id),
              (''idempotency_key'', JString idempotency_key)]),
           (''manual_payload'', unwrap_or payload_json JNull)]"

definition fire_trigger_manually_with_limits ::
    "trigger_services \<Rightarrow> uuid \<Rightarrow> uuid \<Rightarrow> time \<Rightarrow> string \<Rightarrow> uuid \<Rightarrow> string \<Rightarrow> json option \<Rightarrow> int \<Rightarrow> db \<Rightarrow>
     (db_error + manual_trigger_fire_outcome) \<times> db" where
  "fire_trigger_manually_with_limits sv run_id row_id now tenant_id trigger_id idempotency_key
       payload_json tenant_max_inflight_runs d =
     (case find (\<lambda>t. t_id t = trigger_id \<and> t_tenant_id t = tenant_id \<and> trigger_ready t) (d_triggers d) of
        None \<Rightarrow> (Inr FireTriggerUnavailable, d)
      | Some t \<Rightarrow>
          let dedupe_key = ''manual:'' @ idempotency_key
          in case find (\<lambda>tr. tr_trigger_id tr = trigger_id \<and> tr_dedupe_key tr = dedupe_key) (d_trigger_runs d) of
               Some tr \<Rightarrow> (Inr (FireDuplicate (tr_run_id tr)), d)
             | None \<Rightarrow>
                 if t_max_inflight_runs t \<le> count_inflight_runs_for_trigger_tx trigger_id d \<or>
                    max tenant_max_inflight_runs 1 \<le> count_inflight_runs_for_tenant_tx (t_tenant_id t) d
                 then (Inr FireInflightLimited, d)
                 else commit d (try_then
                   (insert_run sv now (run_of_trigger t run_id
                      (inject_trace_id (merge_json_objects (t_input_json t)
                         (manual_envelope trigger_id idempotency_key payload_json)) run_id)) d) (\<lambda>d1.
                   try_then (insert_trigger_run (created_trigger_run row_id trigger_id run_id now dedupe_key)
                     (set_trigger trigger_id (mark_fired now) d1)) (\<lambda>d2.
                   Inr (FireCreated (dispatch_of t ''manual'' (Some idempotency_key) run_id now
                     (t_next_fire_at t)), d2)))))"

definition fire_trigger_manually ::
    "trigger_services \<Rightarrow> uuid \<Rightarrow> uuid \<Rightarrow> time \<Rightarrow> string \<Rightarrow> uuid \<Rightarrow> string \<Rightarrow> json option \<Rightarrow> db \<Rightarrow>
     (db_error + manual_trigger_fire_outcome) \<times> db" where
  "fire_trigger_manually sv run_id row_id now tenant_id trigger_id idempotency_key payload_json =
     fire_trigger_manually_with_limits sv run_id row_id now tenant_id trigger_id idempotency_key
       payload_json default_tenant_max_inflight_runs"

end
