(* ===== verification/ApiTriggers.thy ===== *)
theory ApiTriggers
  imports ApiRuns TriggerStore WorkerCycle
begin

text \<open>
  The API's trigger endpoints on PostgreSQL (\<open>api/src/lib.rs\<close>): creating interval, cron and
  webhook triggers, changing, enabling and disabling them, posting events to a webhook, replaying
  dead-lettered events and firing by hand.

  \<open>Uuid::parse_str\<close>, the secret resolver and the serialiser of times are arguments
  (\<open>trigger_api_services\<close>), with the services of the trigger statements.
\<close>

section \<open>Requests and responses\<close>

record create_trigger_request =
  ct_agent_id :: uuid
  ct_triggered_by_user_id :: "uuid option"
  ct_recipe_id :: string
  ct_input :: json
  ct_requested_capabilities :: json
  ct_interval_seconds :: int
  ct_max_inflight_runs :: int
  ct_jitter_seconds :: int

record create_webhook_trigger_request =
  cw_agent_id :: uuid
  cw_triggered_by_user_id :: "uuid option"
  cw_recipe_id :: string
  cw_input :: json
  cw_requested_capabilities :: json
  cw_webhook_secret_ref :: "string option"
  cw_max_attempts :: int
  cw_max_inflight_runs :: int
  cw_jitter_seconds :: int

record create_cron_trigger_request =
  cx_agent_id :: uuid
  cx_triggered_by_user_id :: "uuid option"
  cx_recipe_id :: string
  cx_input :: json
  cx_requested_capabilities :: json
  cx_cron_expression :: string
  cx_schedule_timezone :: string
  cx_max_attempts :: int
  cx_max_inflight_runs :: int
  cx_jitter_seconds :: int

record trigger_event_request =
  tq_event_id :: string
  tq_payload :: json

record fire_trigger_request =
  fr_idempotency_key :: string
  fr_payload :: "json option"

record update_trigger_request =
  ur_interval_seconds :: "int option"
  ur_cron_expression :: "string option"
  ur_schedule_timezone :: "string option"
  ur_misfire_policy :: "string option"
  ur_max_attempts :: "int option"
  ur_max_inflight_runs :: "int option"
  ur_jitter_seconds :: "int option"
  ur_webhook_secret_ref :: "string option"

record trigger_response =
  tp_id :: uuid
  tp_tenant_id :: string
  tp_agent_id :: uuid
  tp_triggered_by_user_id :: "uuid option"
  tp_recipe_id :: string
  tp_status :: string
  tp_trigger_type :: string
  tp_interval_seconds :: "int option"
  tp_cron_expression :: "string option"
  tp_schedule_timezone :: string
  tp_misfire_policy :: string
  tp_max_attempts :: int
  tp_max_inflight_runs :: int
  tp_jitter_seconds :: int
  tp_consecutive_failures :: int
  tp_dead_lettered_at :: "time option"
  tp_dead_letter_reason :: "string option"
  tp_webhook_secret_configured :: bool
  tp_input_json :: json
  tp_requested_capabilities :: json
  tp_granted_capabilities :: json
  tp_next_fire_at :: time
  tp_last_fired_at :: "time option"
  tp_created_at :: time
  tp_updated_at :: time

definition trigger_to_response :: "trigger_record \<Rightarrow> trigger_response" where
  "trigger_to_response t =
     \<lparr>tp_id = t_id t, tp_tenant_id = t_tenant_id t, tp_agent_id = t_agent_id t,
      tp_triggered_by_user_id = t_triggered_by_user_id t, tp_recipe_id = t_recipe_id t,
      tp_status = t_status t, tp_trigger_type = t_trigger_type t,
      tp_interval_seconds = t_interval_seconds t, tp_cron_expression = t_cron_expression t,
      tp_schedule_timezone = t_schedule_timezone t, tp_misfire_policy = t_misfire_policy t,
      tp_max_attempts = t_max_attempts t, tp_max_inflight_runs = t_max_inflight_runs t,
      tp_jitter_seconds = t_jitter_seconds t, tp_consecutive_failures = t_consecutive_failures t,
      tp_dead_lettered_at = t_dead_lettered_at t, tp_dead_letter_reason = t_dead_letter_reason t,
      tp_webhook_secret_configured = (t_webhook_secret_ref t \<noteq> None), tp_input_json = t_input_json t,
      tp_requested_capabilities = t_requested_capabilities t,
      tp_granted_capabilities = t_granted_capabilities t, tp_next_fire_at = t_next_fire_at t,
      tp_last_fired_at = t_last_fired_at t, tp_created_at = t_created_at t, tp_updated_at = t_updated_at t\<rparr>"

record trigger_event_ingest_response =
  ei_trigger_id :: uuid
  ei_event_id :: string
  ei_status :: string

record trigger_fire_response =
  fp_trigger_id :: uuid
  fp_run_id :: "uuid option"
  fp_idempotency_key :: string
  fp_status :: string

text \<open>The body of a response, by its type.\<close>

datatype trigger_body =
    TriggerBody trigger_response
  | EventBody trigger_event_ingest_response
  | FireBody trigger_fire_response

record trigger_api_services =
  ty_trigger :: trigger_services
  ty_parse_uuid :: "string \<Rightarrow> uuid option"
  ty_resolve_secret :: "string \<Rightarrow> string + string option"
  ty_time_json :: "time \<Rightarrow> json"
  ty_show_int :: "int \<Rightarrow> string"

section \<open>Who may change a trigger\<close>

definition user_id_from_headers ::
    "(string \<Rightarrow> uuid option) \<Rightarrow> app_state \<Rightarrow> headers \<Rightarrow> api_error + uuid option" where
  "user_id_from_headers parse_uuid st hs =
     (case enforce_trusted_proxy_auth st hs of
        Inl e \<Rightarrow> Inl e
      | Inr _ \<Rightarrow>
     case hs ''x-user-id'' of
        None \<Rightarrow> Inr None
      | Some None \<Rightarrow> Inl (bad_request ''x-user-id header is not valid UTF-8'')
      | Some (Some v) \<Rightarrow>
          (case parse_uuid (trim v) of
             None \<Rightarrow> Inl (bad_request ''x-user-id header must be a valid UUID'')
           | Some u \<Rightarrow> Inr (Some u)))"

definition ensure_trigger_mutation_role :: "role_preset \<Rightarrow> api_error + unit" where
  "ensure_trigger_mutation_role role =
     (if role = Viewer then Inl (forbidden ''viewer role cannot mutate triggers'') else Inr ())"

definition resolve_trigger_actor_for_create ::
    "role_preset \<Rightarrow> uuid option \<Rightarrow> uuid option \<Rightarrow> api_error + uuid option" where
  "resolve_trigger_actor_for_create role actor_user_id requested_triggered_by_user_id =
     (case role of
        Owner \<Rightarrow> Inr requested_triggered_by_user_id
      | Operator \<Rightarrow>
          (case actor_user_id of
             None \<Rightarrow> Inl (forbidden ''operator role requires x-user-id for trigger mutation'')
           | Some actor \<Rightarrow>
               (case requested_triggered_by_user_id of
                  None \<Rightarrow> Inr (Some actor)
                | Some requested \<Rightarrow>
                    if requested \<noteq> actor
                    then Inl (forbidden ''operator can only create triggers for self'')
                    else Inr (Some actor)))
      | Viewer \<Rightarrow> Inl (forbidden ''viewer role cannot mutate triggers''))"

definition ensure_trigger_operator_ownership ::
    "role_preset \<Rightarrow> uuid option \<Rightarrow> uuid option \<Rightarrow> api_error + unit" where
  "ensure_trigger_operator_ownership role actor_user_id trigger_owner_user_id =
     (if role = Operator then
        (case actor_user_id of
           None \<Rightarrow> Inl (forbidden ''operator role requires x-user-id for trigger mutation'')
         | Some actor \<Rightarrow>
             if trigger_owner_user_id \<noteq> Some actor
             then Inl (forbidden ''operator cannot mutate triggers owned by another user'')
             else Inr ())
      else Inr ())"

text \<open>The four lines that open every handler that changes triggers.\<close>

definition mutation_caller ::
    "trigger_api_services \<Rightarrow> app_state \<Rightarrow> headers \<Rightarrow> api_error + string \<times> role_preset \<times> uuid option" where
  "mutation_caller ty st hs =
     try_then (tenant_from_headers hs) (\<lambda>tenant_id.
     try_then (role_from_headers st hs) (\<lambda>role_preset.
     try_then (user_id_from_headers (ty_parse_uuid ty) st hs) (\<lambda>actor_user_id.
     try_then (ensure_trigger_mutation_role role_preset) (\<lambda>_.
       Inr (tenant_id, role_preset, actor_user_id)))))"

definition tenant_trigger_limited :: "string \<Rightarrow> api_error" where
  "tenant_trigger_limited m = \<lparr>ae_status = 429, ae_code = ''TENANT_TRIGGER_LIMITED'', ae_message = m\<rparr>"

definition ensure_tenant_trigger_capacity ::
    "outside \<Rightarrow> (int \<Rightarrow> string) \<Rightarrow> app_state \<Rightarrow> string \<Rightarrow> ('x, unit) handler" where
  "ensure_tenant_trigger_capacity env show_int st tenant_id =
     (case st_tenant_max_triggers st of
        None \<Rightarrow> done_with ()
      | Some limit \<Rightarrow>
          and_then (or_internal ''failed counting tenant triggers''
            (stmt env (\<lambda>now d. (Inr (count_tenant_triggers tenant_id d), d)))) (\<lambda>trigger_count.
            if limit \<le> trigger_count
            then reject (tenant_trigger_limited (''tenant is at max trigger capacity (limit='' @
              show_int limit @ '', triggers='' @ show_int trigger_count @ '')''))
            else done_with ()))"

definition map_trigger_enqueue_unavailable_reason ::
    "trigger_event_enqueue_unavailable_reason \<Rightarrow> api_error" where
  "map_trigger_enqueue_unavailable_reason reason =
     (case reason of
        TriggerNotFound \<Rightarrow> not_found ''trigger not found''
      | TriggerDisabled \<Rightarrow> conflict ''trigger is not enabled''
      | TriggerScheduleBroken \<Rightarrow> conflict ''trigger is not enabled''
      | TriggerTypeMismatch \<Rightarrow> bad_request ''trigger does not accept webhook events''
      | PayloadMalformed \<Rightarrow> bad_request ''trigger event payload must be a JSON object'')"

definition append_trigger_audit ::
    "outside \<Rightarrow> string \<Rightarrow> uuid \<Rightarrow> role_preset \<Rightarrow> string \<Rightarrow> json \<Rightarrow> ('x, unit) handler" where
  "append_trigger_audit env tenant_id trigger_id role event_type payload_json =
     or_internal ''failed appending trigger audit event'' (bind (new_v4 env) (\<lambda>i.
       stmt env (\<lambda>now. append_trigger_audit_event
         \<lparr>ta_id = i, ta_trigger_id = trigger_id, ta_tenant_id = tenant_id, ta_actor = ''api'',
          ta_event_type = event_type,
          ta_payload_json = jobj [(''role_preset'', JString (role_as_str role)),
            (''details'', payload_json)]\<rparr>)))"

definition reject_if :: "bool \<Rightarrow> api_error \<Rightarrow> api_error + unit" where
  "reject_if c e = (if c then Inl e else Inr ())"

section \<open>Creating triggers\<close>

definition max_interval_seconds :: int where
  "max_interval_seconds = 31536000"

definition check_inflight_and_jitter :: "int \<Rightarrow> int \<Rightarrow> api_error + unit" where
  "check_inflight_and_jitter max_inflight_runs jitter_seconds =
     try_then (reject_if (max_inflight_runs \<le> 0 \<or> 1000 < max_inflight_runs)
       (bad_request ''max_inflight_runs must be between 1 and 1000'')) (\<lambda>_.
     reject_if (jitter_seconds < 0 \<or> 3600 < jitter_seconds)
       (bad_request ''jitter_seconds must be between 0 and 3600''))"

definition check_interval_request :: "create_trigger_request \<Rightarrow> api_error + unit" where
  "check_interval_request req =
     try_then (reject_if (ct_interval_seconds req \<le> 0)
       (bad_request ''interval_seconds must be greater than zero'')) (\<lambda>_.
     try_then (reject_if (max_interval_seconds < ct_interval_seconds req)
       (bad_request ''interval_seconds exceeds maximum of 31536000'')) (\<lambda>_.
     check_inflight_and_jitter (ct_max_inflight_runs req) (ct_jitter_seconds req)))"

definition check_attempts :: "int \<Rightarrow> api_error + unit" where
  "check_attempts max_attempts = reject_if (max_attempts \<le> 0 \<or> 20 < max_attempts)
     (bad_request ''max_attempts must be between 1 and 20'')"

definition check_cron_request :: "create_cron_trigger_request \<Rightarrow> api_error + unit" where
  "check_cron_request req =
     try_then (reject_if (trim (cx_cron_expression req) = [])
       (bad_request ''cron_expression must not be empty'')) (\<lambda>_.
     try_then (reject_if (trim (cx_schedule_timezone req) = [])
       (bad_request ''schedule_timezone must not be empty'')) (\<lambda>_.
     try_then (check_attempts (cx_max_attempts req)) (\<lambda>_.
     check_inflight_and_jitter (cx_max_inflight_runs req) (cx_jitter_seconds req))))"

definition check_webhook_request :: "create_webhook_trigger_request \<Rightarrow> api_error + unit" where
  "check_webhook_request req =
     try_then (check_attempts (cw_max_attempts req)) (\<lambda>_.
     check_inflight_and_jitter (cw_max_inflight_runs req) (cw_jitter_seconds req))"

text \<open>
  What the three create handlers share: the caller, the user the trigger runs for, the grants, the
  tenant's limit; then the insert, the audit event and the answer.
\<close>

definition create_trigger_with ::
    "outside \<Rightarrow> trigger_api_services \<Rightarrow> app_state \<Rightarrow> headers \<Rightarrow> uuid option \<Rightarrow> string \<Rightarrow> json \<Rightarrow>
     (string \<Rightarrow> uuid option \<Rightarrow> json \<Rightarrow> ('x, trigger_record) handler) \<Rightarrow> (trigger_record \<Rightarrow> json) \<Rightarrow>
     ('x, nat \<times> trigger_body) handler" where
  "create_trigger_with env ty st hs requested_user recipe_id requested store details =
     and_then (from_result (mutation_caller ty st hs)) (\<lambda>(tenant_id, role, actor).
     and_then (from_result (resolve_trigger_actor_for_create role actor requested_user)) (\<lambda>user.
     and_then (from_result (resolve_granted_capabilities recipe_id role requested)) (\<lambda>granted.
     and_then (ensure_tenant_trigger_capacity env (ty_show_int ty) st tenant_id) (\<lambda>_.
     and_then (store tenant_id user granted) (\<lambda>created.
     and_then (append_trigger_audit env tenant_id (t_id created) role ''trigger.created'' (details created)) (\<lambda>_.
       done_with (201, TriggerBody (trigger_to_response created))))))))"

definition create_trigger_handler ::
    "outside \<Rightarrow> trigger_api_services \<Rightarrow> app_state \<Rightarrow> headers \<Rightarrow> create_trigger_request \<Rightarrow>
     ('x, nat \<times> trigger_body) handler" where
  "create_trigger_handler env ty st hs req =
     and_then (from_result (check_interval_request req)) (\<lambda>_.
     create_trigger_with env ty st hs (ct_triggered_by_user_id req) (ct_recipe_id req)
       (ct_requested_capabilities req)
       (\<lambda>tenant_id user granted. or_internal ''failed creating trigger''
          (bind (new_v4 env) (\<lambda>i. bind (now_utc env) (\<lambda>t. stmt env (\<lambda>now. create_interval_trigger (ty_trigger ty) now
            \<lparr>ni_id = i, ni_tenant_id = tenant_id, ni_agent_id = ct_agent_id req, ni_triggered_by_user_id = user,
             ni_recipe_id = ct_recipe_id req, ni_interval_seconds = ct_interval_seconds req,
             ni_input_json = ct_input req, ni_requested_capabilities = ct_requested_capabilities req,
             ni_granted_capabilities = granted, ni_next_fire_at = t + seconds (ct_interval_seconds req),
             ni_status = ''enabled'', ni_misfire_policy = ''fire_now'', ni_max_attempts = 3,
             ni_max_inflight_runs = ct_max_inflight_runs req, ni_jitter_seconds = ct_jitter_seconds req,
             ni_webhook_secret_ref = None\<rparr>)))))
       (\<lambda>t. jobj [(''trigger_type'', JString (t_trigger_type t)),
          (''interval_seconds'', jopt jint (t_interval_seconds t)),
          (''max_inflight_runs'', jint (t_max_inflight_runs t)),
          (''jitter_seconds'', jint (t_jitter_seconds t))]))"

definition create_cron_trigger_handler ::
    "outside \<Rightarrow> trigger_api_services \<Rightarrow> app_state \<Rightarrow> headers \<Rightarrow> create_cron_trigger_request \<Rightarrow>
     ('x, nat \<times> trigger_body) handler" where
  "create_cron_trigger_handler env ty st hs req =
     and_then (from_result (check_cron_request req)) (\<lambda>_.
     create_trigger_with env ty st hs (cx_triggered_by_user_id req) (cx_recipe_id req)
       (cx_requested_capabilities req)
       (\<lambda>tenant_id user granted. or_internal ''failed creating cron trigger''
          (bind (new_v4 env) (\<lambda>i. stmt env (\<lambda>now. create_cron_trigger (ty_trigger ty) now
            \<lparr>nc_id = i, nc_tenant_id = tenant_id, nc_agent_id = cx_agent_id req, nc_triggered_by_user_id = user,
             nc_recipe_id = cx_recipe_id req, nc_cron_expression = trim (cx_cron_expression req),
             nc_schedule_timezone = trim (cx_schedule_timezone req), nc_input_json = cx_input req,
             nc_requested_capabilities = cx_requested_capabilities req, nc_granted_capabilities = granted,
             nc_status = ''enabled'', nc_misfire_policy = ''fire_now'', nc_max_attempts = cx_max_attempts req,
             nc_max_inflight_runs = cx_max_inflight_runs req, nc_jitter_seconds = cx_jitter_seconds req\<rparr>))))
       (\<lambda>t. jobj [(''trigger_type'', JString (t_trigger_type t)),
          (''cron_expression'', jopt JString (t_cron_expression t)),
          (''schedule_timezone'', JString (t_schedule_timezone t)),
          (''max_inflight_runs'', jint (t_max_inflight_runs t)),
          (''jitter_seconds'', jint (t_jitter_seconds t))]))"

definition create_webhook_trigger_handler ::
    "outside \<Rightarrow> trigger_api_services \<Rightarrow> app_state \<Rightarrow> headers \<Rightarrow> create_webhook_trigger_request \<Rightarrow>
     ('x, nat \<times> trigger_body) handler" where
  "create_webhook_trigger_handler env ty st hs req =
     and_then (from_result (check_webhook_request req)) (\<lambda>_.
     create_trigger_with env ty st hs (cw_triggered_by_user_id req) (cw_recipe_id req)
       (cw_requested_capabilities req)
       (\<lambda>tenant_id user granted. or_internal ''failed creating webhook trigger''
          (bind (new_v4 env) (\<lambda>i. stmt env (\<lambda>now. create_webhook_trigger (ty_trigger ty) now
            \<lparr>nw_id = i, nw_tenant_id = tenant_id, nw_agent_id = cw_agent_id req, nw_triggered_by_user_id = user,
             nw_recipe_id = cw_recipe_id req, nw_input_json = cw_input req,
             nw_requested_capabilities = cw_requested_capabilities req, nw_granted_capabilities = granted,
             nw_status = ''enabled'', nw_max_attempts = cw_max_attempts req,
             nw_max_inflight_runs = cw_max_inflight_runs req, nw_jitter_seconds = cw_jitter_seconds req,
             nw_webhook_secret_ref = cw_webhook_secret_ref req\<rparr>))))
       (\<lambda>t. jobj [(''trigger_type'', JString (t_trigger_type t)),
          (''max_attempts'', jint (t_max_attempts t)),
          (''max_inflight_runs'', jint (t_max_inflight_runs t)),
          (''jitter_seconds'', jint (t_jitter_seconds t)),
          (''webhook_secret_configured'', JBool (t_webhook_secret_ref t \<noteq> None))]))"

section \<open>Changing triggers\<close>

definition load_trigger :: "outside \<Rightarrow> string \<Rightarrow> uuid \<Rightarrow> ('x, trigger_record) handler" where
  "load_trigger env tenant_id trigger_id =
     and_then (or_internal ''failed loading trigger''
       (stmt env (\<lambda>now d. (Inr (get_trigger tenant_id trigger_id d), d)))) (\<lambda>found.
       case found of None \<Rightarrow> reject (not_found ''trigger not found'') | Some t \<Rightarrow> done_with t)"

definition check_some :: "'a option \<Rightarrow> ('a \<Rightarrow> bool) \<Rightarrow> string \<Rightarrow> api_error + unit" where
  "check_some v bad m = reject_if (case v of None \<Rightarrow> False | Some x \<Rightarrow> bad x) (bad_request m)"

definition check_update_request :: "update_trigger_request \<Rightarrow> api_error + unit" where
  "check_update_request req =
     try_then (check_some (ur_interval_seconds req) (\<lambda>n. n \<le> 0 \<or> max_interval_seconds < n)
       ''interval_seconds must be between 1 and 31536000'') (\<lambda>_.
     try_then (check_some (ur_cron_expression req) (\<lambda>s. trim s = [])
       ''cron_expression must not be empty'') (\<lambda>_.
     try_then (check_some (ur_schedule_timezone req) (\<lambda>s. trim s = [])
       ''schedule_timezone must not be empty'') (\<lambda>_.
     try_then (check_some (ur_misfire_policy req) (\<lambda>s. s \<noteq> ''fire_now'' \<and> s \<noteq> ''skip'')
       ''misfire_policy must be one of: fire_now, skip'') (\<lambda>_.
     try_then (check_some (ur_max_attempts req) (\<lambda>n. n \<le> 0 \<or> 20 < n)
       ''max_attempts must be between 1 and 20'') (\<lambda>_.
     try_then (check_some (ur_max_inflight_runs req) (\<lambda>n. n \<le> 0 \<or> 1000 < n)
       ''max_inflight_runs must be between 1 and 1000'') (\<lambda>_.
     check_some (ur_jitter_seconds req) (\<lambda>n. n < 0 \<or> 3600 < n)
       ''jitter_seconds must be between 0 and 3600''))))))"

definition check_schedule_fields :: "trigger_record \<Rightarrow> update_trigger_request \<Rightarrow> api_error + unit" where
  "check_schedule_fields existing req =
     (if t_trigger_type existing = ''interval'' then
        reject_if (ur_cron_expression req \<noteq> None \<or> ur_schedule_timezone req \<noteq> None)
          (bad_request ''interval trigger does not support cron schedule fields'')
      else if t_trigger_type existing = ''cron'' then
        reject_if (ur_interval_seconds req \<noteq> None)
          (bad_request ''cron trigger does not support interval_seconds'')
      else if t_trigger_type existing = ''webhook'' then
        reject_if (ur_interval_seconds req \<noteq> None \<or> ur_cron_expression req \<noteq> None \<or>
            ur_schedule_timezone req \<noteq> None)
          (bad_request ''webhook trigger does not support schedule fields'')
      else Inr ())"

definition update_params_of :: "update_trigger_request \<Rightarrow> update_trigger_params" where
  "update_params_of req =
     \<lparr>up_interval_seconds = ur_interval_seconds req,
      up_cron_expression = map_option trim (ur_cron_expression req),
      up_schedule_timezone = map_option trim (ur_schedule_timezone req),
      up_misfire_policy = ur_misfire_policy req, up_max_attempts = ur_max_attempts req,
      up_max_inflight_runs = ur_max_inflight_runs req, up_jitter_seconds = ur_jitter_seconds req,
      up_webhook_secret_ref = ur_webhook_secret_ref req\<rparr>"

definition found_or_404 :: "trigger_record option \<Rightarrow> ('x, trigger_record) handler" where
  "found_or_404 v = (case v of None \<Rightarrow> reject (not_found ''trigger not found'') | Some t \<Rightarrow> done_with t)"

definition update_trigger_handler ::
    "outside \<Rightarrow> trigger_api_services \<Rightarrow> app_state \<Rightarrow> headers \<Rightarrow> uuid \<Rightarrow> update_trigger_request \<Rightarrow>
     ('x, nat \<times> trigger_body) handler" where
  "update_trigger_handler env ty st hs trigger_id req =
     and_then (from_result (mutation_caller ty st hs)) (\<lambda>(tenant_id, role, actor).
     and_then (from_result (check_update_request req)) (\<lambda>_.
     and_then (load_trigger env tenant_id trigger_id) (\<lambda>existing.
     and_then (from_result (ensure_trigger_operator_ownership role actor (t_triggered_by_user_id existing))) (\<lambda>_.
     and_then (from_result (check_schedule_fields existing req)) (\<lambda>_.
     and_then (or_internal ''failed updating trigger'' (stmt env (\<lambda>now.
       update_trigger_config (ty_trigger ty) now tenant_id trigger_id (update_params_of req)))) (\<lambda>upd.
     and_then (found_or_404 upd) (\<lambda>updated.
     and_then (append_trigger_audit env tenant_id trigger_id role ''trigger.updated''
       (jobj [(''trigger_type'', JString (t_trigger_type updated)),
          (''interval_seconds'', jopt jint (t_interval_seconds updated)),
          (''cron_expression'', jopt JString (t_cron_expression updated)),
          (''schedule_timezone'', JString (t_schedule_timezone updated)),
          (''misfire_policy'', JString (t_misfire_policy updated)),
          (''max_attempts'', jint (t_max_attempts updated)),
          (''max_inflight_runs'', jint (t_max_inflight_runs updated)),
          (''jitter_seconds'', jint (t_jitter_seconds updated)),
          (''webhook_secret_configured'', JBool (t_webhook_secret_ref updated \<noteq> None))])) (\<lambda>_.
       done_with (200, TriggerBody (trigger_to_response updated))))))))))"

definition set_trigger_status_handler ::
    "outside \<Rightarrow> trigger_api_services \<Rightarrow> app_state \<Rightarrow> headers \<Rightarrow> uuid \<Rightarrow> string \<Rightarrow> string \<Rightarrow>
     ('x, nat \<times> trigger_body) handler" where
  "set_trigger_status_handler env ty st hs trigger_id status audit_event_type =
     and_then (from_result (mutation_caller ty st hs)) (\<lambda>(tenant_id, role, actor).
     and_then (load_trigger env tenant_id trigger_id) (\<lambda>existing.
     and_then (from_result (ensure_trigger_operator_ownership role actor (t_triggered_by_user_id existing))) (\<lambda>_.
     and_then (or_internal ''failed updating trigger status'' (stmt env (\<lambda>now.
       update_trigger_status now tenant_id trigger_id status))) (\<lambda>upd.
     and_then (found_or_404 upd) (\<lambda>updated.
     and_then (append_trigger_audit env tenant_id trigger_id role audit_event_type
       (jobj [(''status'', JString (t_status updated)),
          (''trigger_type'', JString (t_trigger_type updated))])) (\<lambda>_.
       done_with (200, TriggerBody (trigger_to_response updated))))))))"

definition enable_trigger_handler ::
    "outside \<Rightarrow> trigger_api_services \<Rightarrow> app_state \<Rightarrow> headers \<Rightarrow> uuid \<Rightarrow> ('x, nat \<times> trigger_body) handler" where
  "enable_trigger_handler env ty st hs trigger_id =
     set_trigger_status_handler env ty st hs trigger_id ''enabled'' ''trigger.enabled''"

definition disable_trigger_handler ::
    "outside \<Rightarrow> trigger_api_services \<Rightarrow> app_state \<Rightarrow> headers \<Rightarrow> uuid \<Rightarrow> ('x, nat \<times> trigger_body) handler" where
  "disable_trigger_handler env ty st hs trigger_id =
     set_trigger_status_handler env ty st hs trigger_id ''disabled'' ''trigger.disabled''"

section \<open>Events and firing\<close>

definition not_enabled :: "trigger_record \<Rightarrow> api_error + unit" where
  "not_enabled t = reject_if (t_status t \<noteq> ''enabled'' \<or> t_dead_lettered_at t \<noteq> None)
     (conflict ''trigger is not enabled'')"

definition check_trigger_secret ::
    "(string \<Rightarrow> string + string option) \<Rightarrow> headers \<Rightarrow> trigger_record \<Rightarrow> api_error + unit" where
  "check_trigger_secret resolve hs t =
     (case t_webhook_secret_ref t of
        None \<Rightarrow> Inr ()
      | Some reference \<Rightarrow>
     case hs ''x-trigger-secret'' of
        None \<Rightarrow> Inl (bad_request ''missing x-trigger-secret header'')
      | Some None \<Rightarrow> Inl (bad_request ''x-trigger-secret must be valid UTF-8'')
      | Some (Some provided) \<Rightarrow>
     case resolve reference of
        Inl err \<Rightarrow> Inl (internal (''failed resolving trigger secret: '' @ err))
      | Inr None \<Rightarrow> Inl (internal ''trigger secret reference resolved to empty'')
      | Inr (Some expected) \<Rightarrow>
          if provided \<noteq> expected then Inl (unauthorized ''trigger secret validation failed'')
          else Inr ())"

definition ingest_trigger_event_handler ::
    "outside \<Rightarrow> trigger_api_services \<Rightarrow> headers \<Rightarrow> uuid \<Rightarrow> trigger_event_request \<Rightarrow>
     ('x, nat \<times> trigger_body) handler" where
  "ingest_trigger_event_handler env ty hs trigger_id req =
     and_then (from_result (tenant_from_headers hs)) (\<lambda>tenant_id.
     and_then (from_result (reject_if (trim (tq_event_id req) = [])
       (bad_request ''event_id must not be empty''))) (\<lambda>_.
     and_then (from_result (reject_if (as_object (tq_payload req) = None)
       (bad_request ''trigger event payload must be a JSON object''))) (\<lambda>_.
     and_then (load_trigger env tenant_id trigger_id) (\<lambda>trigger.
     and_then (from_result (reject_if (t_trigger_type trigger \<noteq> ''webhook'')
       (bad_request ''trigger does not accept webhook events''))) (\<lambda>_.
     and_then (from_result (not_enabled trigger)) (\<lambda>_.
     and_then (from_result (check_trigger_secret (ty_resolve_secret ty) hs trigger)) (\<lambda>_.
     and_then (or_internal ''failed enqueueing trigger event'' (bind (new_v4 env) (\<lambda>row_id. stmt env (\<lambda>now d.
       case enqueue_trigger_event (ty_trigger ty) row_id now tenant_id trigger_id (tq_event_id req)
         (tq_payload req) d of (v, d') \<Rightarrow> (Inr v, d'))))) (\<lambda>out.
       let answer = (\<lambda>status. done_with (202, EventBody
             \<lparr>ei_trigger_id = trigger_id, ei_event_id = tq_event_id req, ei_status = status\<rparr>))
       in case out of
            EventEnqueued \<Rightarrow> answer ''queued''
          | EventDuplicate \<Rightarrow> answer ''duplicate''
          | EventTriggerUnavailable reason \<Rightarrow> reject (map_trigger_enqueue_unavailable_reason reason)))))))))"

definition trigger_inflight_limited :: api_error where
  "trigger_inflight_limited = \<lparr>ae_status = 429, ae_code = ''TRIGGER_INFLIGHT_LIMITED'',
     ae_message = ''trigger or tenant is at max inflight run capacity''\<rparr>"

definition fired_json :: "string \<Rightarrow> uuid option \<Rightarrow> string \<Rightarrow> json" where
  "fired_json status run_id idempotency_key =
     jobj [(''status'', JString status), (''run_id'', jopt JString run_id),
       (''idempotency_key'', JString idempotency_key)]"

definition audit_manual_run ::
    "outside \<Rightarrow> (time \<Rightarrow> json) \<Rightarrow> string \<Rightarrow> role_preset \<Rightarrow> trigger_dispatch_record \<Rightarrow> ('x, unit) handler" where
  "audit_manual_run env time_json tenant_id role v =
     or_internal ''failed appending manual trigger run.created audit event'' (bind (new_v4 env) (\<lambda>i.
       stmt env (\<lambda>now. append_audit_event now
         \<lparr>a_id = i, a_run = td_run_id v, a_step = None, a_tenant = tenant_id, a_agent = Some (td_agent_id v),
          a_user = td_triggered_by_user_id v, a_actor = ''api'', a_type = ''run.created'',
          a_payload = jobj [(''source'', JString ''trigger_manual_api''),
            (''trigger_id'', JString (td_trigger_id v)), (''trigger_type'', JString (td_trigger_type v)),
            (''trigger_event_id'', jopt JString (td_trigger_event_id v)),
            (''role_preset'', JString (role_as_str role)),
            (''scheduled_for'', time_json (td_scheduled_for v))]\<rparr>)))"

definition answer_fired ::
    "outside \<Rightarrow> trigger_api_services \<Rightarrow> string \<Rightarrow> role_preset \<Rightarrow> uuid \<Rightarrow> string \<Rightarrow> manual_trigger_fire_outcome \<Rightarrow>
     ('x, nat \<times> trigger_body) handler" where
  "answer_fired env ty tenant_id role trigger_id idempotency_key out =
     (let body = (\<lambda>run_id status. FireBody \<lparr>fp_trigger_id = trigger_id, fp_run_id = run_id,
            fp_idempotency_key = idempotency_key, fp_status = status\<rparr>)
      in case out of
           FireCreated v \<Rightarrow>
             and_then (append_trigger_audit env tenant_id trigger_id role ''trigger.fired_manual''
               (fired_json ''created'' (Some (td_run_id v)) idempotency_key)) (\<lambda>_.
             and_then (audit_manual_run env (ty_time_json ty) tenant_id role v) (\<lambda>_.
               done_with (202, body (Some (td_run_id v)) ''created'')))
         | FireDuplicate run_id \<Rightarrow>
             and_then (append_trigger_audit env tenant_id trigger_id role ''trigger.fired_manual''
               (fired_json ''duplicate'' run_id idempotency_key)) (\<lambda>_.
               done_with (200, body run_id ''duplicate''))
         | FireInflightLimited \<Rightarrow> reject trigger_inflight_limited
         | FireTriggerUnavailable \<Rightarrow> reject (conflict ''trigger is not enabled''))"

definition fire_trigger_handler ::
    "outside \<Rightarrow> trigger_api_services \<Rightarrow> app_state \<Rightarrow> headers \<Rightarrow> uuid \<Rightarrow> fire_trigger_request \<Rightarrow>
     ('x, nat \<times> trigger_body) handler" where
  "fire_trigger_handler env ty st hs trigger_id req =
     and_then (from_result (mutation_caller ty st hs)) (\<lambda>(tenant_id, role, actor).
     let idempotency_key = trim (fr_idempotency_key req) in
     and_then (from_result (reject_if (idempotency_key = [])
       (bad_request ''idempotency_key must not be empty''))) (\<lambda>_.
     and_then (from_result (reject_if (128 < length idempotency_key)
       (bad_request ''idempotency_key exceeds maximum length of 128''))) (\<lambda>_.
     and_then (load_trigger env tenant_id trigger_id) (\<lambda>trigger.
     and_then (from_result (ensure_trigger_operator_ownership role actor (t_triggered_by_user_id trigger))) (\<lambda>_.
     and_then (from_result (not_enabled trigger)) (\<lambda>_.
     and_then (or_internal ''failed firing trigger'' (bind (new_v4 env) (\<lambda>run_id. bind (new_v4 env) (\<lambda>row_id.
       stmt env (\<lambda>now. fire_trigger_manually (ty_trigger ty) run_id row_id now tenant_id trigger_id
         idempotency_key (fr_payload req)))))) (\<lambda>out.
       answer_fired env ty tenant_id role trigger_id idempotency_key out)))))))"

definition event_not_replayable :: "string \<Rightarrow> api_error" where
  "event_not_replayable status = \<lparr>ae_status = 409, ae_code = ''TRIGGER_EVENT_NOT_REPLAYABLE'',
     ae_message = ''trigger event cannot be replayed from status `'' @ status @ ''`''\<rparr>"

definition replay_trigger_event_handler ::
    "outside \<Rightarrow> trigger_api_services \<Rightarrow> app_state \<Rightarrow> headers \<Rightarrow> uuid \<Rightarrow> string \<Rightarrow>
     ('x, nat \<times> trigger_body) handler" where
  "replay_trigger_event_handler env ty st hs trigger_id raw_event_id =
     and_then (from_result (mutation_caller ty st hs)) (\<lambda>(tenant_id, role, actor).
     let event_id = trim raw_event_id in
     and_then (from_result (reject_if (event_id = []) (bad_request ''event_id must not be empty''))) (\<lambda>_.
     and_then (load_trigger env tenant_id trigger_id) (\<lambda>trigger.
     and_then (from_result (ensure_trigger_operator_ownership role actor (t_triggered_by_user_id trigger))) (\<lambda>_.
     and_then (from_result (reject_if (t_trigger_type trigger \<noteq> ''webhook'')
       (bad_request ''trigger does not support event replay''))) (\<lambda>_.
     and_then (from_result (not_enabled trigger)) (\<lambda>_.
     and_then (or_internal ''failed replaying trigger event'' (stmt env (\<lambda>now.
       requeue_dead_letter_trigger_event now tenant_id trigger_id event_id))) (\<lambda>out.
       case out of
         ReplayRequeued \<Rightarrow>
           and_then (append_trigger_audit env tenant_id trigger_id role ''trigger.event.replayed''
             (jobj [(''event_id'', JString event_id), (''status'', JString ''queued_for_replay'')])) (\<lambda>_.
             done_with (202, EventBody \<lparr>ei_trigger_id = trigger_id, ei_event_id = event_id,
               ei_status = ''queued_for_replay''\<rparr>))
       | ReplayNotFound \<Rightarrow> reject (not_found ''trigger event not found'')
       | ReplayNotDeadLettered status \<Rightarrow> reject (event_not_replayable status))))))))"

section \<open>The routes\<close>

datatype trigger_call =
    CreateInterval create_trigger_request
  | CreateCron create_cron_trigger_request
  | CreateWebhook create_webhook_trigger_request
  | UpdateTrigger uuid update_trigger_request
  | EnableTrigger uuid
  | DisableTrigger uuid
  | PostEvent uuid trigger_event_request
  | ReplayEvent uuid string
  | FireTrigger uuid fire_trigger_request

definition trigger_api ::
    "outside \<Rightarrow> trigger_api_services \<Rightarrow> app_state \<Rightarrow> headers \<Rightarrow> trigger_call \<Rightarrow>
     ('x, nat \<times> trigger_body) handler" where
  "trigger_api env ty st hs call =
     (case call of
        CreateInterval req \<Rightarrow> create_trigger_handler env ty st hs req
      | CreateCron req \<Rightarrow> create_cron_trigger_handler env ty st hs req
      | CreateWebhook req \<Rightarrow> create_webhook_trigger_handler env ty st hs req
      | UpdateTrigger i req \<Rightarrow> update_trigger_handler env ty st hs i req
      | EnableTrigger i \<Rightarrow> enable_trigger_handler env ty st hs i
      | DisableTrigger i \<Rightarrow> disable_trigger_handler env ty st hs i
      | PostEvent i req \<Rightarrow> ingest_trigger_event_handler env ty hs i req
      | ReplayEvent i event_id \<Rightarrow> replay_trigger_event_handler env ty st hs i event_id
      | FireTrigger i req \<Rightarrow> fire_trigger_handler env ty st hs i req)"

end
