(* ===== verification/TriggerDispatch.thy ===== *)
theory TriggerDispatch
  imports TriggerStore Effects
begin

text \<open>
  The dispatch of due triggers: \<open>dispatch_next_due_trigger_with_limits\<close> of \<open>core/src/db.rs\<close>
  (PostgreSQL) and \<open>core/src/db_worker_dual.rs\<close> (SQLite). One call starts at most one run: for
  the first pending webhook event, else for the first due cron trigger, else for the first due
  interval trigger. Rows locked by another transaction (\<open>SKIP LOCKED\<close>) are not modelled: a
  transaction sees the tables that the ones before it left.
\<close>

section \<open>Candidates\<close>

definition class_rank :: "bool \<Rightarrow> json \<Rightarrow> nat" where
  "class_rank aged input =
     (if queue_class input = ''batch'' \<and> aged then 0
      else if queue_class input = ''interactive'' then 0
      else if queue_class input = ''batch'' then 1
      else 0)"

definition below_caps :: "int \<Rightarrow> db \<Rightarrow> trigger_record \<Rightarrow> bool" where
  "below_caps tenant_max d t \<longleftrightarrow>
     count_inflight_runs_for_trigger_tx (t_id t) d < t_max_inflight_runs t \<and>
     count_inflight_runs_for_tenant_tx (t_tenant_id t) d < max tenant_max 1"

definition first_of :: "'a list \<Rightarrow> 'a option" where
  "first_of xs = (case xs of [] \<Rightarrow> None | x # _ \<Rightarrow> Some x)"

definition due_trigger :: "string \<Rightarrow> time \<Rightarrow> int \<Rightarrow> db \<Rightarrow> trigger_record option" where
  "due_trigger trigger_type now tenant_max d = first_of
     (sort_key (\<lambda>t. (class_rank (t_next_fire_at t \<le> now - fifteen_minutes) (t_input_json t),
          t_next_fire_at t, t_created_at t))
       (filter (\<lambda>t. trigger_ready t \<and> t_trigger_type t = trigger_type \<and> t_next_fire_at t \<le> now \<and>
          below_caps tenant_max d t) (d_triggers d)))"

definition due_trigger_sqlite :: "string \<Rightarrow> time \<Rightarrow> int \<Rightarrow> db \<Rightarrow> trigger_record option" where
  "due_trigger_sqlite trigger_type now tenant_max d = first_of
     (sort_key (\<lambda>t. (class_rank (secs (t_next_fire_at t) \<le> secs (now - fifteen_minutes)) (t_input_json t),
          secs (t_next_fire_at t), t_id t))
       (filter (\<lambda>t. trigger_ready t \<and> t_trigger_type t = trigger_type \<and>
          secs (t_next_fire_at t) \<le> secs now \<and> below_caps tenant_max d t) (d_triggers d)))"

text \<open>\<open>FROM trigger_events e JOIN triggers t ON t.id = e.trigger_id\<close>\<close>

definition event_joins :: "db \<Rightarrow> (trigger_event_row \<times> trigger_record) list" where
  "event_joins d = filter (\<lambda>(e, t). t_id t = te_trigger_id e)
     (List.product (d_trigger_events d) (d_triggers d))"

abbreviation event_ready :: "int \<Rightarrow> db \<Rightarrow> trigger_event_row \<Rightarrow> trigger_record \<Rightarrow> bool" where
  "event_ready tenant_max d e t \<equiv> te_status e = ''pending'' \<and> trigger_ready t \<and>
     t_trigger_type t = ''webhook'' \<and> below_caps tenant_max d t"

definition due_event :: "time \<Rightarrow> int \<Rightarrow> db \<Rightarrow> (trigger_event_row \<times> trigger_record) option" where
  "due_event now tenant_max d = first_of
     (sort_key (\<lambda>(e, t). (class_rank (te_created_at e \<le> now - fifteen_minutes) (t_input_json t),
          te_created_at e, te_id e))
       (filter (\<lambda>(e, t). te_next_attempt_at e \<le> now \<and> event_ready tenant_max d e t) (event_joins d)))"

definition due_event_sqlite :: "time \<Rightarrow> int \<Rightarrow> db \<Rightarrow> (trigger_event_row \<times> trigger_record) option" where
  "due_event_sqlite now tenant_max d = first_of
     (sort_key (\<lambda>(e, t). (class_rank (secs (te_created_at e) \<le> secs (now - fifteen_minutes)) (t_input_json t),
          secs (te_created_at e), te_id e))
       (filter (\<lambda>(e, t). secs (te_next_attempt_at e) \<le> secs now \<and> event_ready tenant_max d e t)
         (event_joins d)))"

section \<open>PostgreSQL\<close>

type_synonym dispatch = "(db_error + trigger_dispatch_record option) \<times> db"

definition misfire_error :: json where
  "misfire_error = trigger_error_payload ''MISFIRE_SKIPPED'' ''interval trigger misfire skipped''
     ''trigger_policy''"

definition fire_schedule ::
    "trigger_services \<Rightarrow> uuid \<Rightarrow> uuid \<Rightarrow> time \<Rightarrow> trigger_record \<Rightarrow> string \<Rightarrow> json \<Rightarrow> time \<Rightarrow> db \<Rightarrow>
     db_error + trigger_dispatch_record option \<times> db" where
  "fire_schedule sv run_id row_id now t trigger_type input next_fire_at d =
     try_then (insert_run sv now (run_of_trigger t run_id input) d) (\<lambda>d1.
     try_then (insert_trigger_run
         (created_trigger_run row_id (t_id t) run_id (t_next_fire_at t) (nanos_key (t_next_fire_at t)))
         (set_trigger (t_id t) (\<lambda>u. (mark_fired now u)\<lparr>t_next_fire_at := next_fire_at\<rparr>) d1)) (\<lambda>d2.
       Inr (Some (dispatch_of t trigger_type None run_id (t_next_fire_at t) next_fire_at), d2)))"

definition fire_interval ::
    "trigger_services \<Rightarrow> uuid \<Rightarrow> uuid \<Rightarrow> time \<Rightarrow> trigger_record \<Rightarrow> db \<Rightarrow>
     db_error + trigger_dispatch_record option \<times> db" where
  "fire_interval sv run_id row_id now t d =
     (case t_interval_seconds t of
        None \<Rightarrow> Inl Undecodable
      | Some interval_seconds \<Rightarrow>
          (let interval = seconds interval_seconds
           in if t_misfire_policy t = ''skip'' \<and> interval \<le> now - t_next_fire_at t
              then try_then (insert_trigger_run
                  (failed_trigger_run row_id (t_id t) (t_next_fire_at t) (nanos_key (t_next_fire_at t))
                     misfire_error)
                  (set_trigger (t_id t) (\<lambda>u. u\<lparr>t_next_fire_at :=
                       apply_jitter sv (now + interval) (t_id t) (t_jitter_seconds t) now,
                     t_updated_at := now\<rparr>) d)) (\<lambda>d1. Inr (None, d1))
              else fire_schedule sv run_id row_id now t ''interval'' (t_input_json t)
                (apply_jitter sv (t_next_fire_at t + interval) (t_id t) (t_jitter_seconds t) now) d))"

definition dispatch_next_due_interval_trigger_with_limits ::
    "trigger_services \<Rightarrow> uuid \<Rightarrow> uuid \<Rightarrow> int \<Rightarrow> time \<Rightarrow> db \<Rightarrow> dispatch" where
  "dispatch_next_due_interval_trigger_with_limits sv run_id row_id tenant_max now d =
     (case due_trigger ''interval'' now tenant_max d of
        None \<Rightarrow> (Inr None, d)
      | Some t \<Rightarrow> commit d (fire_interval sv run_id row_id now t d))"

definition dead_letter_trigger :: "time \<Rightarrow> string \<Rightarrow> trigger_record \<Rightarrow> trigger_record" where
  "dead_letter_trigger now reason t =
     t\<lparr>t_dead_lettered_at := Some now, t_dead_letter_reason := Some reason, t_updated_at := now\<rparr>"

definition cron_failed ::
    "uuid \<Rightarrow> time \<Rightarrow> trigger_record \<Rightarrow> string \<Rightarrow> db \<Rightarrow> db_error + trigger_dispatch_record option \<times> db" where
  "cron_failed row_id now t error_message d =
     try_then (insert_trigger_run
       (failed_trigger_run row_id (t_id t) (t_next_fire_at t) (nanos_key (t_next_fire_at t))
          (trigger_error_payload ''CRON_COMPUTE_FAILED'' error_message ''schedule''))
       (set_trigger (t_id t) (dead_letter_trigger now (''SCHEDULE_COMPUTE_FAILED: '' @ error_message)) d))
       (\<lambda>d1. Inr (None, d1))"

definition fire_cron ::
    "trigger_services \<Rightarrow> uuid \<Rightarrow> uuid \<Rightarrow> time \<Rightarrow> trigger_record \<Rightarrow> db \<Rightarrow>
     db_error + trigger_dispatch_record option \<times> db" where
  "fire_cron sv run_id row_id now t d =
     (case t_cron_expression t of
        None \<Rightarrow> Inl Undecodable
      | Some cron_expression \<Rightarrow>
     case next_cron_fire_at sv cron_expression (t_schedule_timezone t) (t_next_fire_at t) of
        Inl error_message \<Rightarrow> cron_failed row_id now t error_message d
      | Inr value \<Rightarrow> fire_schedule sv run_id row_id now t ''cron'' (t_input_json t)
          (apply_jitter sv value (t_id t) (t_jitter_seconds t) (t_next_fire_at t)) d)"

definition dispatch_next_due_cron_trigger ::
    "trigger_services \<Rightarrow> uuid \<Rightarrow> uuid \<Rightarrow> int \<Rightarrow> time \<Rightarrow> db \<Rightarrow> dispatch" where
  "dispatch_next_due_cron_trigger sv run_id row_id tenant_max now d =
     (case due_trigger ''cron'' now tenant_max d of
        None \<Rightarrow> (Inr None, d)
      | Some t \<Rightarrow> commit d (fire_cron sv run_id row_id now t d))"

definition max_event_payload_bytes :: nat where
  "max_event_payload_bytes = 64 * 1024"

definition payload_too_large :: "trigger_services \<Rightarrow> json \<Rightarrow> bool" where
  "payload_too_large sv payload \<longleftrightarrow>
     (case ts_to_vec sv payload of None \<Rightarrow> True | Some bytes \<Rightarrow> max_event_payload_bytes < length bytes)"

definition event_error :: json where
  "event_error = trigger_error_payload ''EVENT_PAYLOAD_TOO_LARGE''
     ''webhook trigger event payload exceeded 64KB'' ''event_payload''"

definition mark_event_failed :: "time \<Rightarrow> bool \<Rightarrow> trigger_event_row \<Rightarrow> trigger_event_row" where
  "mark_event_failed now dead_letter e =
     e\<lparr>te_attempts := te_attempts e + 1,
       te_status := (if dead_letter then ''dead_lettered'' else ''pending''),
       te_next_attempt_at := (if dead_letter then now else now + seconds 30),
       te_last_error_json := Some event_error,
       te_dead_lettered_at := (if dead_letter then Some now else None)\<rparr>"

definition mark_event_processed :: "time \<Rightarrow> trigger_event_row \<Rightarrow> trigger_event_row" where
  "mark_event_processed now e =
     e\<lparr>te_attempts := te_attempts e + 1, te_status := ''processed'', te_processed_at := Some now,
       te_next_attempt_at := now\<rparr>"

definition set_event :: "uuid \<Rightarrow> (trigger_event_row \<Rightarrow> trigger_event_row) \<Rightarrow> db \<Rightarrow> db" where
  "set_event row_id f d =
     d\<lparr>d_trigger_events := map (\<lambda>e. if te_id e = row_id then f e else e) (d_trigger_events d)\<rparr>"

definition webhook_envelope :: "uuid \<Rightarrow> string \<Rightarrow> json \<Rightarrow> json" where
  "webhook_envelope trigger_id event_id payload_json =
     jobj [(''_trigger'', jobj [(''type'', JString ''webhook''), (''trigger_id'', JString trigger_id),
              (''event_id'', JString event_id)]),
           (''event_payload'', payload_json)]"

definition webhook_run :: "trigger_event_row \<Rightarrow> trigger_record \<Rightarrow> uuid \<Rightarrow> new_run" where
  "webhook_run e t run_id = run_of_trigger t run_id
     (inject_trace_id (merge_json_objects (t_input_json t)
        (webhook_envelope (t_id t) (te_event_id e) (te_payload_json e))) run_id)"

definition fire_event ::
    "trigger_services \<Rightarrow> uuid \<Rightarrow> uuid \<Rightarrow> time \<Rightarrow> trigger_event_row \<Rightarrow> trigger_record \<Rightarrow> db \<Rightarrow>
     db_error + trigger_dispatch_record option \<times> db" where
  "fire_event sv run_id row_id now e t d =
     (if payload_too_large sv (te_payload_json e)
      then try_then (insert_trigger_run
          (failed_trigger_run row_id (t_id t) now (te_event_id e) event_error)
          (set_event (te_id e) (mark_event_failed now (t_max_attempts t \<le> te_attempts e + 1)) d))
          (\<lambda>d1. Inr (None, d1))
      else try_then (insert_run sv now (webhook_run e t run_id) d) (\<lambda>d1.
        try_then (insert_trigger_run
            (created_trigger_run row_id (t_id t) run_id now (te_event_id e))
            (set_trigger (t_id t) (mark_fired now) (set_event (te_id e) (mark_event_processed now) d1))) (\<lambda>d2.
        Inr (Some (dispatch_of t ''webhook'' (Some (te_event_id e)) run_id now now), d2))))"

definition dispatch_next_due_webhook_event ::
    "trigger_services \<Rightarrow> uuid \<Rightarrow> uuid \<Rightarrow> int \<Rightarrow> time \<Rightarrow> db \<Rightarrow> dispatch" where
  "dispatch_next_due_webhook_event sv run_id row_id tenant_max now d =
     (case due_event now tenant_max d of
        None \<Rightarrow> (Inr None, d)
      | Some (e, t) \<Rightarrow> commit d (fire_event sv run_id row_id now e t d))"

section \<open>SQLite\<close>

text \<open>
  Each update names the state it was read in (\<open>next_fire_at = ?3\<close>, \<open>status = 'pending'\<close>); when it
  changes no row the transaction ends without a firing. Scheduled runs get a trace id here.
\<close>

definition reserve_trigger ::
    "trigger_record \<Rightarrow> (trigger_record \<Rightarrow> trigger_record) \<Rightarrow> db \<Rightarrow> db \<times> nat" where
  "reserve_trigger t f d =
     (case update_where (\<lambda>u. t_id u = t_id t \<and> trigger_ready u \<and> t_next_fire_at u = t_next_fire_at t) f
        (d_triggers d) of (rows, n) \<Rightarrow> (d\<lparr>d_triggers := rows\<rparr>, n))"

definition fire_schedule_sqlite ::
    "trigger_services \<Rightarrow> uuid \<Rightarrow> uuid \<Rightarrow> time \<Rightarrow> trigger_record \<Rightarrow> string \<Rightarrow> time \<Rightarrow> db \<Rightarrow>
     db_error + trigger_dispatch_record option \<times> db" where
  "fire_schedule_sqlite sv run_id row_id now t trigger_type next_fire_at d =
     (case reserve_trigger t (\<lambda>u. (mark_fired now u)\<lparr>t_next_fire_at := next_fire_at\<rparr>) d of
        (d1, n) \<Rightarrow>
          if n \<noteq> 1 then Inr (None, d1)
          else
     try_then (insert_run sv now (run_of_trigger t run_id (inject_trace_id (t_input_json t) run_id)) d1) (\<lambda>d2.
     try_then (insert_trigger_run
         (created_trigger_run row_id (t_id t) run_id (t_next_fire_at t) (nanos_key (t_next_fire_at t))) d2) (\<lambda>d3.
       Inr (Some (dispatch_of t trigger_type None run_id (t_next_fire_at t) next_fire_at), d3))))"

definition fire_interval_sqlite ::
    "trigger_services \<Rightarrow> uuid \<Rightarrow> uuid \<Rightarrow> time \<Rightarrow> trigger_record \<Rightarrow> db \<Rightarrow>
     db_error + trigger_dispatch_record option \<times> db" where
  "fire_interval_sqlite sv run_id row_id now t d =
     (case t_interval_seconds t of
        None \<Rightarrow> Inl Undecodable
      | Some interval_seconds \<Rightarrow>
          (let interval = seconds interval_seconds
           in if t_misfire_policy t = ''skip'' \<and> interval \<le> now - t_next_fire_at t
              then (case reserve_trigger t (\<lambda>u. u\<lparr>t_next_fire_at :=
                       apply_jitter sv (now + interval) (t_id t) (t_jitter_seconds t) now,
                     t_updated_at := now\<rparr>) d of
                  (d1, n) \<Rightarrow>
                    if n \<noteq> 1 then Inr (None, d1)
                    else try_then (insert_trigger_run
                      (failed_trigger_run row_id (t_id t) (t_next_fire_at t) (nanos_key (t_next_fire_at t))
                         misfire_error) d1) (\<lambda>d2. Inr (None, d2)))
              else fire_schedule_sqlite sv run_id row_id now t ''interval''
                (apply_jitter sv (t_next_fire_at t + interval) (t_id t) (t_jitter_seconds t) now) d))"

definition dispatch_next_due_interval_trigger_with_limits_sqlite ::
    "trigger_services \<Rightarrow> uuid \<Rightarrow> uuid \<Rightarrow> int \<Rightarrow> time \<Rightarrow> db \<Rightarrow> dispatch" where
  "dispatch_next_due_interval_trigger_with_limits_sqlite sv run_id row_id tenant_max now d =
     (case due_trigger_sqlite ''interval'' now tenant_max d of
        None \<Rightarrow> (Inr None, d)
      | Some t \<Rightarrow> commit d (fire_interval_sqlite sv run_id row_id now t d))"

definition cron_failed_sqlite ::
    "uuid \<Rightarrow> time \<Rightarrow> trigger_record \<Rightarrow> string \<Rightarrow> db \<Rightarrow> db_error + trigger_dispatch_record option \<times> db" where
  "cron_failed_sqlite row_id now t error_message d =
     (case reserve_trigger t (dead_letter_trigger now (''SCHEDULE_COMPUTE_FAILED: '' @ error_message)) d of
        (d1, n) \<Rightarrow>
          if n \<noteq> 1 then Inr (None, d1)
          else try_then (insert_trigger_run
            (failed_trigger_run row_id (t_id t) (t_next_fire_at t) (nanos_key (t_next_fire_at t))
               (trigger_error_payload ''CRON_COMPUTE_FAILED'' error_message ''schedule'')) d1)
            (\<lambda>d2. Inr (None, d2)))"

definition fire_cron_sqlite ::
    "trigger_services \<Rightarrow> uuid \<Rightarrow> uuid \<Rightarrow> time \<Rightarrow> trigger_record \<Rightarrow> db \<Rightarrow>
     db_error + trigger_dispatch_record option \<times> db" where
  "fire_cron_sqlite sv run_id row_id now t d =
     (case t_cron_expression t of
        None \<Rightarrow> Inl Undecodable
      | Some cron_expression \<Rightarrow>
     case next_cron_fire_at sv cron_expression (t_schedule_timezone t) (t_next_fire_at t) of
        Inl error_message \<Rightarrow> cron_failed_sqlite row_id now t error_message d
      | Inr value \<Rightarrow> fire_schedule_sqlite sv run_id row_id now t ''cron''
          (apply_jitter sv value (t_id t) (t_jitter_seconds t) (t_next_fire_at t)) d)"

definition dispatch_next_due_cron_trigger_sqlite ::
    "trigger_services \<Rightarrow> uuid \<Rightarrow> uuid \<Rightarrow> int \<Rightarrow> time \<Rightarrow> db \<Rightarrow> dispatch" where
  "dispatch_next_due_cron_trigger_sqlite sv run_id row_id tenant_max now d =
     (case due_trigger_sqlite ''cron'' now tenant_max d of
        None \<Rightarrow> (Inr None, d)
      | Some t \<Rightarrow> commit d (fire_cron_sqlite sv run_id row_id now t d))"

definition reserve_event ::
    "trigger_event_row \<Rightarrow> (trigger_event_row \<Rightarrow> trigger_event_row) \<Rightarrow> db \<Rightarrow> db \<times> nat" where
  "reserve_event e f d =
     (case update_where (\<lambda>u. te_id u = te_id e \<and> te_status u = ''pending'') f (d_trigger_events d) of
        (rows, n) \<Rightarrow> (d\<lparr>d_trigger_events := rows\<rparr>, n))"

definition fire_event_sqlite ::
    "trigger_services \<Rightarrow> uuid \<Rightarrow> uuid \<Rightarrow> time \<Rightarrow> trigger_event_row \<Rightarrow> trigger_record \<Rightarrow> db \<Rightarrow>
     db_error + trigger_dispatch_record option \<times> db" where
  "fire_event_sqlite sv run_id row_id now e t d =
     (if payload_too_large sv (te_payload_json e)
      then (case reserve_event e (mark_event_failed now (t_max_attempts t \<le> te_attempts e + 1)) d of
          (d1, n) \<Rightarrow>
            if n \<noteq> 1 then Inr (None, d1)
            else try_then (insert_trigger_run
              (failed_trigger_run row_id (t_id t) now (te_event_id e) event_error) d1)
              (\<lambda>d2. Inr (None, d2)))
      else (case reserve_event e (mark_event_processed now) d of
          (d1, n) \<Rightarrow>
            if n \<noteq> 1 then Inr (None, d1)
            else try_then (insert_run sv now (webhook_run e t run_id) d1) (\<lambda>d2.
              try_then (insert_trigger_run
                  (created_trigger_run row_id (t_id t) run_id now (te_event_id e))
                  (set_trigger (t_id t) (mark_fired now) d2)) (\<lambda>d3.
              Inr (Some (dispatch_of t ''webhook'' (Some (te_event_id e)) run_id now now), d3)))))"

definition dispatch_next_due_webhook_event_sqlite ::
    "trigger_services \<Rightarrow> uuid \<Rightarrow> uuid \<Rightarrow> int \<Rightarrow> time \<Rightarrow> db \<Rightarrow> dispatch" where
  "dispatch_next_due_webhook_event_sqlite sv run_id row_id tenant_max now d =
     (case due_event_sqlite now tenant_max d of
        None \<Rightarrow> (Inr None, d)
      | Some (e, t) \<Rightarrow> commit d (fire_event_sqlite sv run_id row_id now e t d))"

section \<open>One dispatch\<close>

text \<open>
  Three transactions, each with its own clock and new UUIDs; the later ones only when the earlier
  ones start no run. An error of any of them is the error of the dispatch.
\<close>

definition dispatch_tx ::
    "outside \<Rightarrow> (uuid \<Rightarrow> uuid \<Rightarrow> int \<Rightarrow> time \<Rightarrow> db \<Rightarrow> dispatch) \<Rightarrow> int \<Rightarrow>
     ('x, trigger_dispatch_record option) comp" where
  "dispatch_tx env f tenant_max =
     bind (new_v4 env) (\<lambda>run_id. bind (new_v4 env) (\<lambda>row_id.
       stmt env (f run_id row_id tenant_max)))"

definition or_next ::
    "('x, 'a option) comp \<Rightarrow> ('x, 'a option) comp \<Rightarrow> ('x, 'a option) comp" where
  "or_next m k = bind m (\<lambda>r. case r of Some v \<Rightarrow> ret (Some v) | None \<Rightarrow> k)"

definition dispatch_next_due_trigger_with_limits ::
    "outside \<Rightarrow> trigger_services \<Rightarrow> int \<Rightarrow> ('x, trigger_dispatch_record option) comp" where
  "dispatch_next_due_trigger_with_limits env sv tenant_max =
     or_next (dispatch_tx env (dispatch_next_due_webhook_event sv) tenant_max)
       (or_next (dispatch_tx env (dispatch_next_due_cron_trigger sv) tenant_max)
         (dispatch_tx env (dispatch_next_due_interval_trigger_with_limits sv) tenant_max))"

definition dispatch_next_due_trigger_with_limits_sqlite ::
    "outside \<Rightarrow> trigger_services \<Rightarrow> int \<Rightarrow> ('x, trigger_dispatch_record option) comp" where
  "dispatch_next_due_trigger_with_limits_sqlite env sv tenant_max =
     or_next (dispatch_tx env (dispatch_next_due_webhook_event_sqlite sv) tenant_max)
       (or_next (dispatch_tx env (dispatch_next_due_cron_trigger_sqlite sv) tenant_max)
         (dispatch_tx env (dispatch_next_due_interval_trigger_with_limits_sqlite sv) tenant_max))"

end
