(* ===== verification/TriggerSafety.thy ===== *)
theory TriggerSafety
  imports TriggerDispatch RunLeases
begin

text \<open>
  The life of the trigger tables under any sequence of the statements of \<open>TriggerStore\<close> and
  \<open>TriggerDispatch\<close>, on either back end, interleaved with any statements on the runs: an
  invariant, by rule induction over the reachable tables, and what follows from it for schedules
  and webhook events.
\<close>

section \<open>Decimal keys\<close>

lemma nat_to_string_value: "foldl (\<lambda>a c. 10 * a + (byte c - 48)) 0 (nat_to_string n) = n"
  by (induction n rule: nat_to_string.induct) (subst nat_to_string.simps, simp add: byte_char_of)

lemma nat_to_string_inject: "nat_to_string m = nat_to_string n \<longleftrightarrow> m = n"
  by (metis nat_to_string_value)

lemma nat_to_string_digits: "c \<in> set (nat_to_string n) \<Longrightarrow> 48 \<le> byte c \<and> byte c \<le> 57"
  by (induction n rule: nat_to_string.induct)
    (subst (asm) (2) nat_to_string.simps, auto simp: byte_char_of split: if_splits)

lemma nat_to_string_nonempty: "nat_to_string n \<noteq> []"
  by (subst nat_to_string.simps) simp

lemma byte_minus: "byte CHR ''-'' = 45" and byte_m: "byte CHR ''m'' = 109"
  by (simp_all add: byte_def)

lemma int_to_string_inject: "int_to_string m = int_to_string n \<longleftrightarrow> m = n"
proof -
  have "CHR ''-'' # s \<noteq> nat_to_string k" for s k
  proof
    assume "CHR ''-'' # s = nat_to_string k"
    then have "CHR ''-'' \<in> set (nat_to_string k)" by (metis list.set_intros(1))
    from nat_to_string_digits [OF this] show False by (simp add: byte_minus)
  qed
  then show ?thesis by (auto simp: int_to_string_def nat_to_string_inject dest: sym)
qed

lemma nanos_key_inject: "nanos_key s = nanos_key t \<longleftrightarrow> s = t"
  by (simp add: nanos_key_def int_to_string_inject)

lemma nanos_key_not_manual: "\<not> starts_with (nanos_key t) ''manual:''"
proof
  assume "starts_with (nanos_key t) ''manual:''"
  then have "CHR ''m'' \<in> set (int_to_string (t * 1000000))"
    by (auto simp: starts_with_iff nanos_key_def)
  then have "\<exists>k. CHR ''m'' \<in> set (nat_to_string k)"
    by (auto simp: int_to_string_def split: if_splits)
  then show False using nat_to_string_digits byte_m by fastforce
qed

section \<open>Statements\<close>

definition run_ident :: "run_row \<Rightarrow> uuid \<times> string \<times> uuid \<times> uuid option \<times> string \<times> json \<times> json \<times> json" where
  "run_ident r = (r_id r, r_tenant r, r_agent r, r_user r, r_recipe r, r_input r, r_requested r, r_granted r)"

text \<open>No statement on the runs changes what a run is, only its state.\<close>

definition runs_grow :: "runs \<Rightarrow> runs \<Rightarrow> bool" where
  "runs_grow rows rows' \<longleftrightarrow> (\<forall>r \<in> set rows. \<exists>r' \<in> set rows'. run_ident r' = run_ident r)"

lemma runs_grow_refl [simp]: "runs_grow rows rows"
  by (auto simp: runs_grow_def)

lemma runs_grow_append [simp]: "runs_grow rows (rows @ new)"
  by (auto simp: runs_grow_def)

lemma runs_grow_map: "(\<And>r. run_ident (f r) = run_ident r) \<Longrightarrow> runs_grow rows (map f rows)"
  by (auto simp: runs_grow_def)

context run_store
begin

lemma exec_stmt_grow:
  assumes "runs_ok rows" and "stmt_ok (now, s)" and "exec_stmt S now s rows = (rows', ev)"
  shows "runs_grow rows rows'"
proof -
  have upd: "runs_grow rows (upd_row i f rows)" if "\<And>q. run_ident (f q) = run_ident q" for i f
    by (rule runs_grow_map) (simp add: that)
  show ?thesis
  proof (cases s)
    case (Insert n)
    then show ?thesis using insert_law [OF assms(1), of n now] assms by auto
  next
    case (Claim i w l)
    obtain res rows1 where e: "st_claim S now w l i rows = (res, rows1)" by force
    with Claim assms(3) have "rows' = rows1" by (auto split: option.splits)
    with claim_law [OF assms(1) e] show ?thesis by (auto simp: run_ident_def mark_claimed_def intro!: upd)
  next
    case (Renew i w l)
    obtain ok rows1 where e: "st_renew S now i w l rows = (ok, rows1)" by force
    with Renew assms(3) have "rows' = rows1" by simp
    with renew_law [OF assms(1) e] show ?thesis by (auto simp: run_ident_def intro!: upd)
  next
    case (Succeed i w)
    obtain ok rows1 where e: "st_succeed S now i w rows = (ok, rows1)" by force
    with Succeed assms(3) have "rows' = rows1" by simp
    with succeed_law [OF assms(1) e] show ?thesis by (auto simp: run_ident_def finish_row_def intro!: upd)
  next
    case (Fail i w x)
    obtain ok rows1 where e: "st_fail S now i w x rows = (ok, rows1)" by force
    with Fail assms(3) have "rows' = rows1" by simp
    with fail_law [OF assms(1) e] show ?thesis by (auto simp: run_ident_def finish_row_def intro!: upd)
  next
    case (Requeue limit)
    obtain c rows1 where e: "st_requeue S now limit rows = (c, rows1)" by force
    with Requeue assms(3) have "rows' = rows1" by simp
    moreover obtain ids where "rows1 = map (\<lambda>q. if r_id q \<in> ids then mark_requeued q else q) rows"
      using requeue_law [OF assms(1) e] by blast
    ultimately show ?thesis by (auto simp: run_ident_def mark_requeued_def intro!: runs_grow_map)
  qed
qed

end

lemma insert_run_Inr: "insert_run sv now n d = Inr d1 \<longleftrightarrow>
    insert_check (ts_run_fk sv) n (d_runs d) = None \<and>
    d1 = d\<lparr>d_runs := d_runs d @ [row_of_new now None n]\<rparr>"
  by (auto simp: insert_run_def create_run_def Let_def split: option.splits)

lemma insert_trigger_run_Inr: "insert_trigger_run tr d = Inr d1 \<longleftrightarrow>
    (\<forall>u \<in> set (d_trigger_runs d). tr_id u \<noteq> tr_id tr \<and>
       (tr_trigger_id u, tr_dedupe_key u) \<noteq> (tr_trigger_id tr, tr_dedupe_key tr)) \<and>
    (\<exists>t \<in> set (d_triggers d). t_id t = tr_trigger_id tr) \<and>
    (case tr_run_id tr of None \<Rightarrow> True | Some i \<Rightarrow> \<exists>r \<in> set (d_runs d). r_id r = i) \<and>
    d1 = d\<lparr>d_trigger_runs := d_trigger_runs d @ [tr]\<rparr>"
  by (auto simp: insert_trigger_run_def list_ex_iff split: option.splits)

lemma commit_Pair: "commit d r = (res, d') \<longleftrightarrow>
    (\<exists>e. r = Inl e \<and> res = Inl e \<and> d' = d) \<or> (\<exists>v. r = Inr (v, d') \<and> res = Inr v)"
  by (auto simp: commit_def split: sum.splits)

lemma first_of_Some:
  assumes "first_of (sort_key f (filter P xs)) = Some x" shows "x \<in> set xs \<and> P x"
proof -
  have "x \<in> set (sort_key f (filter P xs))"
    using assms by (cases "sort_key f (filter P xs)") (simp_all add: first_of_def)
  then show ?thesis by simp
qed

lemma filter_only: "distinct xs \<Longrightarrow> x \<in> set xs \<Longrightarrow> filter (\<lambda>u. u = x) xs = [x]"
  by (induction xs) (auto simp: filter_empty_conv)

text \<open>An update that is guarded by a key and holds for the row with that key writes just this row.\<close>

lemma update_where_only:
  assumes "distinct (map k xs)" and "x \<in> set xs" and "P x" and "\<And>u. P u \<Longrightarrow> k u = k x"
  shows "update_where P f xs = (map (\<lambda>u. if k u = k x then f u else u) xs, 1)"
proof -
  have key: "k u = k x \<longleftrightarrow> u = x" if "u \<in> set xs" for u
    using assms(1,2) that by (auto simp: distinct_map dest: inj_onD)
  have P: "P u \<longleftrightarrow> u = x" if "u \<in> set xs" for u
    using assms(3,4) key [OF that] by blast
  have "filter P xs = [x]"
    using filter_only [of xs x] assms(1,2) by (simp add: P distinct_map cong: filter_cong)
  moreover have "map (\<lambda>u. if P u then f u else u) xs = map (\<lambda>u. if k u = k x then f u else u) xs"
    by (rule map_cong [OF refl]) (simp add: P key)
  ultimately show ?thesis by (simp add: update_where_def)
qed

lemma reserve_trigger_only:
  assumes "distinct (map t_id (d_triggers d))" and "t \<in> set (d_triggers d)" and "trigger_ready t"
  shows "reserve_trigger t f d = (set_trigger (t_id t) f d, 1)"
proof -
  have "update_where (\<lambda>u. t_id u = t_id t \<and> trigger_ready u \<and> t_next_fire_at u = t_next_fire_at t) f
      (d_triggers d) = (map (\<lambda>u. if t_id u = t_id t then f u else u) (d_triggers d), 1)"
    by (rule update_where_only [OF assms(1,2)]) (use assms(3) in simp_all)
  then show ?thesis by (simp add: reserve_trigger_def set_trigger_def)
qed

lemma reserve_event_only:
  assumes "distinct (map te_id (d_trigger_events d))" and "e \<in> set (d_trigger_events d)"
    and "te_status e = ''pending''"
  shows "reserve_event e f d = (set_event (te_id e) f d, 1)"
proof -
  have "update_where (\<lambda>u. te_id u = te_id e \<and> te_status u = ''pending'') f (d_trigger_events d) =
      (map (\<lambda>u. if te_id u = te_id e then f u else u) (d_trigger_events d), 1)"
    by (rule update_where_only [OF assms(1,2)]) (use assms(3) in simp_all)
  then show ?thesis by (simp add: reserve_event_def set_event_def)
qed

section \<open>The interface of a back end\<close>

text \<open>
  What a dispatch transaction promises on tables with unique ids: it does nothing, or it ends as
  the firing of a row that is ready, due to the second, and below both caps. The firings are the
  ones of the PostgreSQL code; only a scheduled run's input may differ.
\<close>

abbreviation ids_ok :: "db \<Rightarrow> bool" where
  "ids_ok d \<equiv> distinct (map t_id (d_triggers d)) \<and> distinct (map te_id (d_trigger_events d))"

definition fire_interval_with ::
    "trigger_services \<Rightarrow> json \<Rightarrow> uuid \<Rightarrow> uuid \<Rightarrow> time \<Rightarrow> trigger_record \<Rightarrow> db \<Rightarrow>
     db_error + trigger_dispatch_record option \<times> db" where
  "fire_interval_with sv input run_id row_id now t d =
     fire_interval sv run_id row_id now (t\<lparr>t_input_json := input\<rparr>) d"

definition fire_cron_with ::
    "trigger_services \<Rightarrow> json \<Rightarrow> uuid \<Rightarrow> uuid \<Rightarrow> time \<Rightarrow> trigger_record \<Rightarrow> db \<Rightarrow>
     db_error + trigger_dispatch_record option \<times> db" where
  "fire_cron_with sv input run_id row_id now t d =
     fire_cron sv run_id row_id now (t\<lparr>t_input_json := input\<rparr>) d"

abbreviation due_now :: "string \<Rightarrow> time \<Rightarrow> int \<Rightarrow> db \<Rightarrow> trigger_record \<Rightarrow> bool" where
  "due_now ttype now tmax d t \<equiv> t \<in> set (d_triggers d) \<and> trigger_ready t \<and> t_trigger_type t = ttype \<and>
     secs (t_next_fire_at t) \<le> secs now \<and> below_caps tmax d t"

abbreviation event_now :: "int \<Rightarrow> db \<Rightarrow> trigger_event_row \<Rightarrow> trigger_record \<Rightarrow> bool" where
  "event_now tmax d e t \<equiv> e \<in> set (d_trigger_events d) \<and> t \<in> set (d_triggers d) \<and>
     t_id t = te_trigger_id e \<and> event_ready tmax d e t"

type_synonym dispatch_fn = "trigger_services \<Rightarrow> uuid \<Rightarrow> uuid \<Rightarrow> int \<Rightarrow> time \<Rightarrow> db \<Rightarrow> dispatch"

locale trigger_backend =
  fixes webhook_fn cron_fn interval_fn :: dispatch_fn
  assumes webhook_law: "ids_ok d \<Longrightarrow> webhook_fn sv run_id row_id tmax now d = (res, d') \<Longrightarrow>
      res = Inr None \<and> d' = d \<or>
      (\<exists>e t. event_now tmax d e t \<and> (res, d') = commit d (fire_event sv run_id row_id now e t d))"
    and cron_law: "ids_ok d \<Longrightarrow> cron_fn sv run_id row_id tmax now d = (res, d') \<Longrightarrow>
      res = Inr None \<and> d' = d \<or>
      (\<exists>t input. due_now ''cron'' now tmax d t \<and>
        (res, d') = commit d (fire_cron_with sv input run_id row_id now t d))"
    and interval_law: "ids_ok d \<Longrightarrow> interval_fn sv run_id row_id tmax now d = (res, d') \<Longrightarrow>
      res = Inr None \<and> d' = d \<or>
      (\<exists>t input. due_now ''interval'' now tmax d t \<and>
        (res, d') = commit d (fire_interval_with sv input run_id row_id now t d))"

lemma secs_le: "s \<le> t \<Longrightarrow> secs s \<le> secs t"
  by (simp add: secs_def zdiv_mono1)

lemma due_trigger_law: "due_trigger ttype now tmax d = Some t \<Longrightarrow> due_now ttype now tmax d t"
  by (auto simp: due_trigger_def secs_le dest!: first_of_Some)

lemma due_trigger_sqlite_law: "due_trigger_sqlite ttype now tmax d = Some t \<Longrightarrow> due_now ttype now tmax d t"
  by (auto simp: due_trigger_sqlite_def dest!: first_of_Some)

lemma due_event_law: "due_event now tmax d = Some (e, t) \<Longrightarrow> event_now tmax d e t"
  by (auto simp: due_event_def event_joins_def dest!: first_of_Some)

lemma due_event_sqlite_law: "due_event_sqlite now tmax d = Some (e, t) \<Longrightarrow> event_now tmax d e t"
  by (auto simp: due_event_sqlite_def event_joins_def dest!: first_of_Some)

lemma same_input [simp]: "t\<lparr>t_input_json := t_input_json t\<rparr> = t"
  by simp

lemma set_trigger_runs [simp]: "set_trigger i f (d\<lparr>d_runs := rows\<rparr>) = (set_trigger i f d)\<lparr>d_runs := rows\<rparr>"
  by (simp add: set_trigger_def)

lemma set_trigger_fields [simp]:
  "d_runs (set_trigger i f d) = d_runs d" "d_trigger_runs (set_trigger i f d) = d_trigger_runs d"
  "d_trigger_events (set_trigger i f d) = d_trigger_events d"
  by (simp_all add: set_trigger_def)

lemma set_event_fields [simp]:
  "d_runs (set_event i g d) = d_runs d" "d_trigger_runs (set_event i g d) = d_trigger_runs d"
  "d_triggers (set_event i g d) = d_triggers d"
  by (simp_all add: set_event_def)

lemma insert_run_set_trigger: "insert_run sv now n (set_trigger i f d) =
    (case insert_run sv now n d of Inl e \<Rightarrow> Inl e | Inr d1 \<Rightarrow> Inr (set_trigger i f d1))"
  by (simp add: insert_run_def split: prod.splits sum.splits)

lemma insert_run_set_event: "insert_run sv now n (set_event i g d) =
    (case insert_run sv now n d of Inl e \<Rightarrow> Inl e | Inr d1 \<Rightarrow> Inr (set_event i g d1))"
  by (simp add: insert_run_def set_event_def split: prod.splits sum.splits)

lemma fire_schedule_sqlite_eq:
  assumes "ids_ok d" and "t \<in> set (d_triggers d)" and "trigger_ready t"
  shows "fire_schedule_sqlite sv run_id row_id now t ttype next d =
    fire_schedule sv run_id row_id now t ttype (inject_trace_id (t_input_json t) run_id) next d"
  using assms
  by (simp add: fire_schedule_sqlite_def fire_schedule_def reserve_trigger_only insert_run_set_trigger
      split: sum.split)

lemma fire_schedule_input: "fire_schedule sv run_id row_id now (t\<lparr>t_input_json := i\<rparr>) ttype input next d =
    fire_schedule sv run_id row_id now t ttype input next d"
  by (simp add: fire_schedule_def run_of_trigger_def dispatch_of_def)

lemma fire_cron_sqlite_eq:
  assumes "ids_ok d" and "t \<in> set (d_triggers d)" and "trigger_ready t"
  shows "fire_cron_sqlite sv run_id row_id now t d =
    fire_cron_with sv (inject_trace_id (t_input_json t) run_id) run_id row_id now t d"
  using assms
  by (simp add: fire_cron_sqlite_def fire_cron_with_def fire_cron_def fire_schedule_sqlite_eq
      cron_failed_sqlite_def cron_failed_def reserve_trigger_only fire_schedule_input
      split: option.split sum.split)

lemma fire_interval_sqlite_eq:
  assumes "ids_ok d" and "t \<in> set (d_triggers d)" and "trigger_ready t"
  shows "fire_interval_sqlite sv run_id row_id now t d =
    fire_interval_with sv (inject_trace_id (t_input_json t) run_id) run_id row_id now t d"
  using assms
  by (simp add: fire_interval_sqlite_def fire_interval_with_def fire_interval_def fire_schedule_sqlite_eq
      reserve_trigger_only fire_schedule_input Let_def split: option.split)

lemma fire_event_sqlite_eq:
  assumes "ids_ok d" and "e \<in> set (d_trigger_events d)" and "te_status e = ''pending''"
  shows "fire_event_sqlite sv run_id row_id now e t d = fire_event sv run_id row_id now e t d"
  using assms
  by (simp add: fire_event_sqlite_def fire_event_def reserve_event_only insert_run_set_event split: sum.split)

lemma schedule_law:
  assumes "(case x of None \<Rightarrow> (Inr None, d) | Some t \<Rightarrow> commit d (f t)) = (res, d')"
    and "\<And>t. x = Some t \<Longrightarrow> P t" and "\<And>t. P t \<Longrightarrow> f t = g (h t) t"
  shows "res = Inr None \<and> d' = d \<or> (\<exists>t input. P t \<and> (res, d') = commit d (g input t))"
proof (cases x)
  case (Some t)
  with assms have "P t \<and> (res, d') = commit d (g (h t) t)" by simp
  then show ?thesis by blast
qed (use assms(1) in simp)

lemma event_law:
  assumes "(case x of None \<Rightarrow> (Inr None, d) | Some (e, t) \<Rightarrow> commit d (f e t)) = (res, d')"
    and "\<And>e t. x = Some (e, t) \<Longrightarrow> P e t" and "\<And>e t. P e t \<Longrightarrow> f e t = g e t"
  shows "res = Inr None \<and> d' = d \<or> (\<exists>e t. P e t \<and> (res, d') = commit d (g e t))"
proof (cases x)
  case (Some et)
  obtain e t where "et = (e, t)" by force
  with Some assms have "P e t \<and> (res, d') = commit d (g e t)" by simp
  then show ?thesis by blast
qed (use assms(1) in simp)

interpretation pg_triggers: trigger_backend dispatch_next_due_webhook_event
  dispatch_next_due_cron_trigger dispatch_next_due_interval_trigger_with_limits
proof
  fix sv run_id row_id tmax now d res d'
  show "res = Inr None \<and> d' = d \<or>
      (\<exists>e t. event_now tmax d e t \<and> (res, d') = commit d (fire_event sv run_id row_id now e t d))"
    if "dispatch_next_due_webhook_event sv run_id row_id tmax now d = (res, d')"
    by (rule event_law [OF that [unfolded dispatch_next_due_webhook_event_def] due_event_law]) simp_all
  show "res = Inr None \<and> d' = d \<or> (\<exists>t input. due_now ''cron'' now tmax d t \<and>
      (res, d') = commit d (fire_cron_with sv input run_id row_id now t d))"
    if "dispatch_next_due_cron_trigger sv run_id row_id tmax now d = (res, d')"
    by (rule schedule_law [OF that [unfolded dispatch_next_due_cron_trigger_def] due_trigger_law,
          where h = t_input_json]) (simp_all add: fire_cron_with_def)
  show "res = Inr None \<and> d' = d \<or> (\<exists>t input. due_now ''interval'' now tmax d t \<and>
      (res, d') = commit d (fire_interval_with sv input run_id row_id now t d))"
    if "dispatch_next_due_interval_trigger_with_limits sv run_id row_id tmax now d = (res, d')"
    by (rule schedule_law [OF that [unfolded dispatch_next_due_interval_trigger_with_limits_def] due_trigger_law,
          where h = t_input_json]) (simp_all add: fire_interval_with_def)
qed

interpretation lite_triggers: trigger_backend dispatch_next_due_webhook_event_sqlite
  dispatch_next_due_cron_trigger_sqlite dispatch_next_due_interval_trigger_with_limits_sqlite
proof
  fix sv run_id row_id tmax now d res d'
  assume ids: "ids_ok d"
  show "res = Inr None \<and> d' = d \<or>
      (\<exists>e t. event_now tmax d e t \<and> (res, d') = commit d (fire_event sv run_id row_id now e t d))"
    if "dispatch_next_due_webhook_event_sqlite sv run_id row_id tmax now d = (res, d')"
    by (rule event_law [OF that [unfolded dispatch_next_due_webhook_event_sqlite_def] due_event_sqlite_law])
      (use fire_event_sqlite_eq [OF ids] in simp_all)
  show "res = Inr None \<and> d' = d \<or> (\<exists>t input. due_now ''cron'' now tmax d t \<and>
      (res, d') = commit d (fire_cron_with sv input run_id row_id now t d))"
    if "dispatch_next_due_cron_trigger_sqlite sv run_id row_id tmax now d = (res, d')"
    by (rule schedule_law [OF that [unfolded dispatch_next_due_cron_trigger_sqlite_def] due_trigger_sqlite_law,
          where h = "\<lambda>t. inject_trace_id (t_input_json t) run_id"])
      (use fire_cron_sqlite_eq [OF ids] in simp_all)
  show "res = Inr None \<and> d' = d \<or> (\<exists>t input. due_now ''interval'' now tmax d t \<and>
      (res, d') = commit d (fire_interval_with sv input run_id row_id now t d))"
    if "dispatch_next_due_interval_trigger_with_limits_sqlite sv run_id row_id tmax now d = (res, d')"
    by (rule schedule_law [OF that [unfolded dispatch_next_due_interval_trigger_with_limits_sqlite_def]
          due_trigger_sqlite_law, where h = "\<lambda>t. inject_trace_id (t_input_json t) run_id"])
      (use fire_interval_sqlite_eq [OF ids] in simp_all)
qed

section \<open>Reachable tables\<close>

text \<open>One statement or transaction at a time; times do not run backwards.\<close>

inductive trigger_step :: "trigger_services \<Rightarrow> time \<Rightarrow> db \<Rightarrow> db \<Rightarrow> bool" for sv where
  create_interval: "create_interval_trigger sv now ni d = (res, d') \<Longrightarrow> trigger_step sv now d d'"
| create_webhook: "create_webhook_trigger sv now nw d = (res, d') \<Longrightarrow> trigger_step sv now d d'"
| create_cron: "create_cron_trigger sv now nc d = (res, d') \<Longrightarrow> trigger_step sv now d d'"
| set_status: "update_trigger_status now tenant i st d = (upd, d') \<Longrightarrow> trigger_step sv now d d'"
| configure: "update_trigger_config sv now tenant i params d = (upd, d') \<Longrightarrow> trigger_step sv now d d'"
| enqueue: "enqueue_trigger_event sv row_id now tenant i event_id payload d = (enq, d') \<Longrightarrow>
    trigger_step sv now d d'"
| replay: "requeue_dead_letter_trigger_event now tenant i event_id d = (rep, d') \<Longrightarrow>
    trigger_step sv now d d'"
| fire: "fire_trigger_manually_with_limits sv run_id row_id now tenant i key mp tmax d = (fired, d') \<Longrightarrow>
    trigger_step sv now d d'"
| webhook: "dispatch_next_due_webhook_event sv run_id row_id tmax now d = (dis, d') \<Longrightarrow>
    trigger_step sv now d d'"
| cron: "dispatch_next_due_cron_trigger sv run_id row_id tmax now d = (dis, d') \<Longrightarrow>
    trigger_step sv now d d'"
| interval: "dispatch_next_due_interval_trigger_with_limits sv run_id row_id tmax now d = (dis, d') \<Longrightarrow>
    trigger_step sv now d d'"
| webhook_sqlite: "dispatch_next_due_webhook_event_sqlite sv run_id row_id tmax now d = (dis, d') \<Longrightarrow>
    trigger_step sv now d d'"
| cron_sqlite: "dispatch_next_due_cron_trigger_sqlite sv run_id row_id tmax now d = (dis, d') \<Longrightarrow>
    trigger_step sv now d d'"
| interval_sqlite:
    "dispatch_next_due_interval_trigger_with_limits_sqlite sv run_id row_id tmax now d = (dis, d') \<Longrightarrow>
    trigger_step sv now d d'"
| runs_postgres: "stmt_ok (now, s) \<Longrightarrow> exec_stmt (postgres fk) now s (d_runs d) = (rows, ev) \<Longrightarrow>
    trigger_step sv now d (d\<lparr>d_runs := rows\<rparr>)"
| runs_sqlite: "stmt_ok (now, s) \<Longrightarrow> exec_stmt (sqlite fk) now s (d_runs d) = (rows, ev) \<Longrightarrow>
    trigger_step sv now d (d\<lparr>d_runs := rows\<rparr>)"
| runs_dedupe: "nr_status n = ''queued'' \<Longrightarrow>
    create_run_with_semantic_dedupe_key fk now n key (d_runs d) = (cr, rows) \<Longrightarrow>
    trigger_step sv now d (d\<lparr>d_runs := rows\<rparr>)"
| elsewhere: "d_runs d' = d_runs d \<Longrightarrow> d_triggers d' = d_triggers d \<Longrightarrow>
    d_trigger_runs d' = d_trigger_runs d \<Longrightarrow> d_trigger_events d' = d_trigger_events d \<Longrightarrow>
    trigger_step sv now d d'"

inductive trigger_reach :: "trigger_services \<Rightarrow> time \<Rightarrow> db \<Rightarrow> bool" for sv where
  empty: "trigger_reach sv now empty_db"
| step: "trigger_reach sv T d \<Longrightarrow> T \<le> now \<Longrightarrow> trigger_step sv now d d' \<Longrightarrow> trigger_reach sv now d'"

section \<open>The invariant\<close>

text \<open>A run of a trigger is of the trigger's tenant, agent, user and recipe, with its grants.\<close>

definition run_from :: "trigger_record \<Rightarrow> run_row \<Rightarrow> bool" where
  "run_from t r \<longleftrightarrow> r_tenant r = t_tenant_id t \<and> r_agent r = t_agent_id t \<and>
     r_user r = t_triggered_by_user_id t \<and> r_recipe r = t_recipe_id t \<and>
     r_requested r = t_requested_capabilities t \<and> r_granted r = t_granted_capabilities t"

text \<open>
  A scheduled trigger's firings, by hand apart, are keyed by their slot; the slot is in the past,
  and before the next one unless the schedule is broken.
\<close>

definition slot_ok :: "time \<Rightarrow> trigger_record \<Rightarrow> trigger_run_row \<Rightarrow> bool" where
  "slot_ok T t tr \<longleftrightarrow> t_trigger_type t \<noteq> ''webhook'' \<longrightarrow>
     starts_with (tr_dedupe_key tr) ''manual:'' \<or>
     tr_dedupe_key tr = nanos_key (tr_scheduled_for tr) \<and> secs (tr_scheduled_for tr) \<le> secs T \<and>
     (t_trigger_type t = ''cron'' \<longrightarrow> tr_scheduled_for tr mod 1000 = 0) \<and>
     (tr_scheduled_for tr < t_next_fire_at t \<or> t_dead_lettered_at t \<noteq> None)"

definition firing_ok :: "time \<Rightarrow> db \<Rightarrow> trigger_run_row \<Rightarrow> bool" where
  "firing_ok T d tr \<longleftrightarrow> (\<exists>t \<in> set (d_triggers d). t_id t = tr_trigger_id tr \<and> slot_ok T t tr \<and>
     (\<forall>i. tr_run_id tr = Some i \<longrightarrow> (\<exists>r \<in> set (d_runs d). r_id r = i \<and> run_from t r)))"

definition trigger_ok :: "trigger_record \<Rightarrow> bool" where
  "trigger_ok t \<longleftrightarrow> trigger_check t \<and> (t_trigger_type t = ''cron'' \<longrightarrow> t_next_fire_at t mod 1000 = 0)"

text \<open>
  An event is tried at most once: when it has been tried, a firing of its trigger has its id as
  key. If it was processed, that firing has the run with its payload; if not, its payload is
  too large.
\<close>

definition firing_of :: "db \<Rightarrow> trigger_event_row \<Rightarrow> trigger_run_row \<Rightarrow> bool" where
  "firing_of d e tr \<longleftrightarrow> tr \<in> set (d_trigger_runs d) \<and> tr_trigger_id tr = te_trigger_id e \<and>
     tr_dedupe_key tr = te_event_id e"

definition processed_as :: "db \<Rightarrow> trigger_event_row \<Rightarrow> trigger_record \<Rightarrow> bool" where
  "processed_as d e t \<longleftrightarrow> (\<exists>tr r. firing_of d e tr \<and> tr_run_id tr = Some (r_id r) \<and> r \<in> set (d_runs d) \<and>
     run_from t r \<and> r_input r = nr_input (webhook_run e t (r_id r)))"

definition event_ok :: "trigger_services \<Rightarrow> db \<Rightarrow> trigger_event_row \<Rightarrow> bool" where
  "event_ok sv d e \<longleftrightarrow> (\<exists>t \<in> set (d_triggers d). t_id t = te_trigger_id e \<and>
     t_trigger_type t = ''webhook'' \<and> t_tenant_id t = te_tenant_id e \<and>
     (te_status e = ''pending'' \<and> te_attempts e = 0 \<or>
      te_status e = ''processed'' \<and> te_attempts e = 1 \<and> processed_as d e t \<or>
      (te_status e = ''pending'' \<or> te_status e = ''dead_lettered'') \<and> te_attempts e = 1 \<and>
        payload_too_large sv (te_payload_json e) \<and> (\<exists>tr. firing_of d e tr)))"

definition trigger_inv :: "trigger_services \<Rightarrow> time \<Rightarrow> db \<Rightarrow> bool" where
  "trigger_inv sv T d \<longleftrightarrow>
     runs_ok (d_runs d) \<and> distinct (map t_id (d_triggers d)) \<and>
     distinct (map (\<lambda>tr. (tr_trigger_id tr, tr_dedupe_key tr)) (d_trigger_runs d)) \<and>
     distinct (map te_id (d_trigger_events d)) \<and>
     distinct (map (\<lambda>e. (te_trigger_id e, te_event_id e)) (d_trigger_events d)) \<and>
     (\<forall>t \<in> set (d_triggers d). trigger_ok t) \<and>
     (\<forall>tr \<in> set (d_trigger_runs d). firing_ok T d tr) \<and>
     (\<forall>e \<in> set (d_trigger_events d). event_ok sv d e)"

subsection \<open>What keeps it\<close>

definition trigger_ident :: "trigger_record \<Rightarrow>
    uuid \<times> string \<times> uuid \<times> uuid option \<times> string \<times> string \<times> json \<times> json \<times> json" where
  "trigger_ident t = (t_id t, t_tenant_id t, t_agent_id t, t_triggered_by_user_id t, t_recipe_id t,
     t_trigger_type t, t_input_json t, t_requested_capabilities t, t_granted_capabilities t)"

lemma run_from_ident: "run_ident r' = run_ident r \<Longrightarrow> trigger_ident t' = trigger_ident t \<Longrightarrow>
    run_from t' r' = run_from t r"
  by (simp add: run_from_def run_ident_def trigger_ident_def)

lemma webhook_input_ident: "trigger_ident t' = trigger_ident t \<Longrightarrow>
    nr_input (webhook_run e t' i) = nr_input (webhook_run e t i)"
  by (simp add: webhook_run_def run_of_trigger_def trigger_ident_def)

lemma inv_later: "trigger_inv sv T d \<Longrightarrow> T \<le> T' \<Longrightarrow> trigger_inv sv T' d"
proof -
  assume inv: "trigger_inv sv T d" and le: "T \<le> T'"
  have "secs T \<le> secs T'" using le by (simp add: secs_def zdiv_mono1)
  then have "slot_ok T t tr \<Longrightarrow> slot_ok T' t tr" for t tr by (auto simp: slot_ok_def)
  then have "firing_ok T d tr \<Longrightarrow> firing_ok T' d tr" for tr by (auto simp: firing_ok_def)
  with inv show ?thesis by (auto simp: trigger_inv_def)
qed

lemma inv_runs:
  assumes inv: "trigger_inv sv T d" and "runs_ok rows" and grow: "runs_grow (d_runs d) rows"
  shows "trigger_inv sv T (d\<lparr>d_runs := rows\<rparr>)"
proof -
  have found: "\<exists>r' \<in> set rows. run_ident r' = run_ident r" if "r \<in> set (d_runs d)" for r
    using grow that by (simp add: runs_grow_def)
  have "firing_ok T (d\<lparr>d_runs := rows\<rparr>) tr" if ok: "firing_ok T d tr" for tr
  proof -
    from ok obtain t where t: "t \<in> set (d_triggers d)" "t_id t = tr_trigger_id tr" "slot_ok T t tr"
        "\<forall>i. tr_run_id tr = Some i \<longrightarrow> (\<exists>r \<in> set (d_runs d). r_id r = i \<and> run_from t r)"
      by (auto simp: firing_ok_def)
    have "\<exists>r \<in> set rows. r_id r = i \<and> run_from t r" if run: "tr_run_id tr = Some i" for i
    proof -
      obtain r where r: "r \<in> set (d_runs d)" "r_id r = i" "run_from t r" using t(4) run by blast
      obtain r' where r': "r' \<in> set rows" "run_ident r' = run_ident r" using found [OF r(1)] by blast
      have "r_id r' = i" "run_from t r'"
        using r r'(2) run_from_ident [OF r'(2) refl] by (auto simp: run_ident_def)
      with r'(1) show ?thesis by blast
    qed
    with t show ?thesis by (auto simp: firing_ok_def intro!: bexI [of _ t])
  qed
  moreover have "processed_as (d\<lparr>d_runs := rows\<rparr>) e t" if p: "processed_as d e t" for e t
  proof -
    from p obtain tr r where r: "firing_of d e tr" "tr_run_id tr = Some (r_id r)" "r \<in> set (d_runs d)"
        "run_from t r" "r_input r = nr_input (webhook_run e t (r_id r))" by (auto simp: processed_as_def)
    obtain r' where r': "r' \<in> set rows" "run_ident r' = run_ident r" using found [OF r(3)] by blast
    from r'(2) have "r_id r' = r_id r" "r_input r' = r_input r" "run_from t r'"
      using run_from_ident [of r' r t t] r(4) by (simp_all add: run_ident_def)
    then show ?thesis using r r'(1) by (auto simp: processed_as_def firing_of_def intro!: exI [of _ tr] exI [of _ r'])
  qed
  then have "event_ok sv (d\<lparr>d_runs := rows\<rparr>) e" if "event_ok sv d e" for e
    using that by (fastforce simp: event_ok_def firing_of_def)
  ultimately show ?thesis using inv assms(2) by (simp add: trigger_inv_def)
qed

lemma inv_triggers:
  assumes inv: "trigger_inv sv T d" and "distinct (map t_id ts)" and "\<forall>t \<in> set ts. trigger_ok t"
    and keep: "\<And>t. t \<in> set (d_triggers d) \<Longrightarrow> \<exists>t' \<in> set ts. trigger_ident t' = trigger_ident t \<and>
      (\<forall>tr. slot_ok T t tr \<longrightarrow> slot_ok T t' tr)"
  shows "trigger_inv sv T (d\<lparr>d_triggers := ts\<rparr>)"
proof -
  have "firing_ok T (d\<lparr>d_triggers := ts\<rparr>) tr" if ok: "firing_ok T d tr" for tr
  proof -
    from ok obtain t where t: "t \<in> set (d_triggers d)" "t_id t = tr_trigger_id tr" "slot_ok T t tr"
        "\<forall>i. tr_run_id tr = Some i \<longrightarrow> (\<exists>r \<in> set (d_runs d). r_id r = i \<and> run_from t r)"
      by (auto simp: firing_ok_def)
    obtain t' where t': "t' \<in> set ts" "trigger_ident t' = trigger_ident t" "slot_ok T t' tr"
      using keep [OF t(1)] t(3) by blast
    have "t_id t' = t_id t" "run_from t' = run_from t"
      using t'(2) by (auto simp: trigger_ident_def run_from_def)
    with t t' show ?thesis by (auto simp: firing_ok_def intro!: bexI [of _ t'])
  qed
  moreover have "event_ok sv (d\<lparr>d_triggers := ts\<rparr>) e" if ok: "event_ok sv d e" for e
  proof -
    from ok obtain t where t: "t \<in> set (d_triggers d)" "t_id t = te_trigger_id e"
      "t_trigger_type t = ''webhook''" "t_tenant_id t = te_tenant_id e"
      and st: "te_status e = ''pending'' \<and> te_attempts e = 0 \<or>
        te_status e = ''processed'' \<and> te_attempts e = 1 \<and> processed_as d e t \<or>
        (te_status e = ''pending'' \<or> te_status e = ''dead_lettered'') \<and> te_attempts e = 1 \<and>
        payload_too_large sv (te_payload_json e) \<and> (\<exists>tr. firing_of d e tr)"
      by (auto simp: event_ok_def)
    obtain t' where t': "t' \<in> set ts" "trigger_ident t' = trigger_ident t" using keep [OF t(1)] by blast
    have "run_from t' = run_from t" "nr_input (webhook_run e t' i) = nr_input (webhook_run e t i)" for i
      using t'(2) webhook_input_ident [OF t'(2)] by (auto simp: trigger_ident_def run_from_def)
    then have "processed_as (d\<lparr>d_triggers := ts\<rparr>) e t' = processed_as d e t"
      by (simp add: processed_as_def firing_of_def)
    then show ?thesis using t t' st
      by (auto simp: event_ok_def firing_of_def trigger_ident_def intro!: bexI [of _ t'])
  qed
  ultimately show ?thesis using inv assms(2,3) by (simp add: trigger_inv_def)
qed

lemma inv_firing:
  assumes inv: "trigger_inv sv T d" and "firing_ok T d tr"
    and "\<forall>u \<in> set (d_trigger_runs d). (tr_trigger_id u, tr_dedupe_key u) \<noteq> (tr_trigger_id tr, tr_dedupe_key tr)"
  shows "trigger_inv sv T (d\<lparr>d_trigger_runs := d_trigger_runs d @ [tr]\<rparr>)"
proof -
  let ?d = "d\<lparr>d_trigger_runs := d_trigger_runs d @ [tr]\<rparr>"
  have "firing_ok T ?d u = firing_ok T d u" for u by (simp add: firing_ok_def)
  moreover have "event_ok sv d e \<Longrightarrow> event_ok sv ?d e" for e
    by (fastforce simp: event_ok_def processed_as_def firing_of_def)
  ultimately show ?thesis using assms by (auto simp: trigger_inv_def)
qed

lemma inv_events:
  assumes "trigger_inv sv T d" and "distinct (map te_id es)"
    and "distinct (map (\<lambda>e. (te_trigger_id e, te_event_id e)) es)" and "\<forall>e \<in> set es. event_ok sv d e"
  shows "trigger_inv sv T (d\<lparr>d_trigger_events := es\<rparr>)"
proof -
  have "firing_ok T (d\<lparr>d_trigger_events := es\<rparr>) = firing_ok T d"
    "event_ok sv (d\<lparr>d_trigger_events := es\<rparr>) = event_ok sv d"
    by (simp_all add: fun_eq_iff firing_ok_def event_ok_def processed_as_def firing_of_def)
  then show ?thesis using assms by (simp add: trigger_inv_def)
qed

end
