(* ===== verification/TriggerInvariant.thy ===== *)
theory TriggerInvariant
  imports TriggerSafety
begin

text \<open>
  Every statement and transaction keeps the invariant of the trigger tables. The cron library is
  assumed to return times strictly after the reference time, at whole seconds.
\<close>

definition cron_lib :: "trigger_services \<Rightarrow> bool" where
  "cron_lib sv \<longleftrightarrow> (\<forall>expression tz after next. ts_next_after sv expression tz after = Some next \<longrightarrow>
     after < next \<and> next mod 1000 = 0)"

section \<open>Times\<close>

lemma seconds_mod [simp]: "seconds n mod 1000 = 0"
  by (simp add: seconds_def)

lemma jitter_bounds:
  "scheduled \<le> apply_jitter sv scheduled i j entropy \<and>
   apply_jitter sv scheduled i j entropy \<le> scheduled + seconds (max j 0) \<and>
   (scheduled mod 1000 = 0 \<longrightarrow> apply_jitter sv scheduled i j entropy mod 1000 = 0)"
proof (cases "j \<le> 0")
  case False
  let ?h = "unat (ts_hash sv i entropy) mod (nat j + 1)"
  have "?h < nat j + 1" by simp
  then have "int ?h \<le> j" using False by linarith
  moreover have "(scheduled + seconds (int ?h)) mod 1000 = 0" if "scheduled mod 1000 = 0"
    using that by (simp add: seconds_def mod_add_eq [symmetric])
  ultimately show ?thesis using False by (simp add: apply_jitter_def seconds_def max_def)
qed (simp add: apply_jitter_def seconds_def)

lemma jitter_le: "scheduled \<le> apply_jitter sv scheduled i j entropy"
  and jitter_mod: "scheduled mod 1000 = 0 \<Longrightarrow> apply_jitter sv scheduled i j entropy mod 1000 = 0"
  using jitter_bounds [of scheduled sv i j entropy] by simp_all

lemma next_cron_after:
  assumes "cron_lib sv" and "next_cron_fire_at sv expression tz after = Inr t"
  shows "after < t \<and> t mod 1000 = 0"
proof -
  from assms(2) obtain n where n: "ts_next_after sv expression tz after = Some n" "t = seconds (secs n)"
    by (auto simp: next_cron_fire_at_def split: option.splits)
  moreover from n(1) have "after < n" "n mod 1000 = 0" using assms(1) by (auto simp: cron_lib_def)
  ultimately show ?thesis by (auto simp: seconds_def secs_def)
qed

lemma whole_and_rest: "t = 1000 * secs t + t mod 1000" "0 \<le> t mod 1000" "t mod 1000 < 1000"
  for t :: time
  by (simp_all add: secs_def)

lemma past_slot: "secs s \<le> secs T \<Longrightarrow> s < T + 1000"
  using whole_and_rest [of s] whole_and_rest [of T] by linarith

lemma past_whole_slot: "secs s \<le> secs T \<Longrightarrow> s mod 1000 = 0 \<Longrightarrow> s \<le> T"
  using whole_and_rest [of s] whole_and_rest [of T] by linarith

section \<open>Triggers\<close>

lemma distinct_map_inj: "distinct (map k xs) \<Longrightarrow> x \<in> set xs \<Longrightarrow> y \<in> set xs \<Longrightarrow> k x = k y \<Longrightarrow> x = y"
  by (auto simp: distinct_map dest: inj_onD)

lemma same_trigger: "trigger_inv sv T d \<Longrightarrow> t \<in> set (d_triggers d) \<Longrightarrow> u \<in> set (d_triggers d) \<Longrightarrow>
    t_id t = t_id u \<Longrightarrow> t = u"
  unfolding trigger_inv_def by (elim conjE distinct_map_inj)

lemma same_event: "trigger_inv sv T d \<Longrightarrow> e \<in> set (d_trigger_events d) \<Longrightarrow> u \<in> set (d_trigger_events d) \<Longrightarrow>
    te_id e = te_id u \<Longrightarrow> e = u"
  unfolding trigger_inv_def by (elim conjE distinct_map_inj)

lemma inv_insert_trigger:
  assumes inv: "trigger_inv sv T d" and "insert_trigger sv t d = (res, d')"
    and "t_trigger_type t = ''cron'' \<Longrightarrow> t_next_fire_at t mod 1000 = 0"
  shows "trigger_inv sv T d'"
proof -
  from assms(2) have "d' = d \<or> trigger_check t \<and> (\<forall>u \<in> set (d_triggers d). t_id u \<noteq> t_id t) \<and>
      d' = d\<lparr>d_triggers := d_triggers d @ [t]\<rparr>"
    by (simp add: insert_trigger_def list_ex_iff split: if_split_asm)
  then consider "d' = d" | "trigger_check t" "\<forall>u \<in> set (d_triggers d). t_id u \<noteq> t_id t"
      "d' = d\<lparr>d_triggers := d_triggers d @ [t]\<rparr>"
    by blast
  then show ?thesis
  proof cases
    case 2
    have old: "distinct (map t_id (d_triggers d))" "\<forall>u \<in> set (d_triggers d). trigger_ok u"
      using inv by (simp_all add: trigger_inv_def)
    have "trigger_ok t" using 2(1) assms(3) by (simp add: trigger_ok_def)
    then have "trigger_inv sv T (d\<lparr>d_triggers := d_triggers d @ [t]\<rparr>)"
      by (intro inv_triggers [OF inv]) (use old 2(2) in auto)
    with 2 show ?thesis by simp
  qed (use inv in simp)
qed

text \<open>A row that is rewritten keeps its identity; its past slots stay in the past.\<close>

definition keeps_slots :: "time \<Rightarrow> trigger_record \<Rightarrow> trigger_record \<Rightarrow> bool" where
  "keeps_slots T t t' \<longleftrightarrow> trigger_ident t' = trigger_ident t \<and> trigger_ok t' \<and>
     (\<forall>tr. slot_ok T t tr \<longrightarrow> slot_ok T t' tr)"

lemma inv_map_triggers:
  assumes inv: "trigger_inv sv T d"
    and keep: "\<And>t. t \<in> set (d_triggers d) \<Longrightarrow> p t \<Longrightarrow> keeps_slots T t (f t)"
  shows "trigger_inv sv T (d\<lparr>d_triggers := map (\<lambda>t. if p t then f t else t) (d_triggers d)\<rparr>)"
proof (rule inv_triggers [OF inv])
  have "map t_id (map (\<lambda>t. if p t then f t else t) (d_triggers d)) = map t_id (d_triggers d)"
    using keep by (auto simp: keeps_slots_def trigger_ident_def)
  then show "distinct (map t_id (map (\<lambda>t. if p t then f t else t) (d_triggers d)))"
    using inv unfolding trigger_inv_def by presburger
  show "\<forall>t \<in> set (map (\<lambda>t. if p t then f t else t) (d_triggers d)). trigger_ok t"
    using inv keep by (auto simp: trigger_inv_def keeps_slots_def)
  fix t assume t: "t \<in> set (d_triggers d)"
  let ?t = "if p t then f t else t"
  have "?t \<in> set (map (\<lambda>t. if p t then f t else t) (d_triggers d))" using t by force
  moreover have "trigger_ident ?t = trigger_ident t \<and> (\<forall>tr. slot_ok T t tr \<longrightarrow> slot_ok T ?t tr)"
    using keep [OF t] by (auto simp: keeps_slots_def)
  ultimately show "\<exists>t' \<in> set (map (\<lambda>t. if p t then f t else t) (d_triggers d)).
      trigger_ident t' = trigger_ident t \<and> (\<forall>tr. slot_ok T t tr \<longrightarrow> slot_ok T t' tr)" by blast
qed

lemma inv_update_triggers:
  assumes inv: "trigger_inv sv T d" and "update_triggers p f d = (res, d')"
    and keep: "\<And>t. t \<in> set (d_triggers d) \<Longrightarrow> p t \<Longrightarrow> trigger_check (f t) \<Longrightarrow> keeps_slots T t (f t)"
  shows "trigger_inv sv T d'"
proof -
  from assms(2) have "d' = d \<or> list_all trigger_check (map f (filter p (d_triggers d))) \<and>
      d' = d\<lparr>d_triggers := map (\<lambda>t. if p t then f t else t) (d_triggers d)\<rparr>"
    by (simp add: update_triggers_def Let_def split: if_split_asm)
  then consider "d' = d" | "\<forall>t \<in> set (d_triggers d). p t \<longrightarrow> trigger_check (f t)"
      "d' = d\<lparr>d_triggers := map (\<lambda>t. if p t then f t else t) (d_triggers d)\<rparr>"
    by (auto simp only: list_all_iff set_map set_filter mem_Collect_eq)
  then show ?thesis
  proof cases
    case 2
    have "trigger_inv sv T (d\<lparr>d_triggers := map (\<lambda>t. if p t then f t else t) (d_triggers d)\<rparr>)"
      by (rule inv_map_triggers [OF inv]) (use keep 2(1) in blast)
    with 2(2) show ?thesis by simp
  qed (use inv in simp)
qed

lemma inv_update_status:
  assumes inv: "trigger_inv sv T d" and "update_trigger_status T tenant i st d = (res, d')"
  shows "trigger_inv sv T d'"
  by (rule inv_update_triggers [OF inv assms(2) [unfolded update_trigger_status_def]])
    (use inv in \<open>auto simp: keeps_slots_def trigger_ident_def trigger_ok_def slot_ok_def trigger_inv_def\<close>)

text \<open>A schedule that starts anew lies after every past slot.\<close>

lemma rescheduled_keeps_slots:
  assumes "cron_lib sv" and "trigger_ok t"
    and "rescheduled sv T t interval cron tz = Inr next"
    and f: "trigger_ident t' = trigger_ident t" "trigger_check t'" "t_interval_seconds t' = interval"
      "t_dead_lettered_at t' = t_dead_lettered_at t" "t_next_fire_at t' = apply_jitter sv next i j T"
  shows "keeps_slots T t t'"
proof -
  have type: "t_trigger_type t' = t_trigger_type t" using f(1) by (simp add: trigger_ident_def)
  have later: "next \<le> t_next_fire_at t'" using f(5) by (simp add: jitter_le)
  consider "t_trigger_type t = ''webhook''"
    | n where "t_trigger_type t = ''interval''" "interval = Some n" "0 < n" "next = T + seconds n"
    | "t_trigger_type t = ''cron''" "T < next" "next mod 1000 = 0"
    using f(2,3) type assms(2,3) next_cron_after [OF assms(1)]
    by (auto simp: trigger_check_def trigger_type_check_def rescheduled_def unwrap_or_def trigger_ok_def
        split: if_splits option.splits sum.splits)
  then show ?thesis
  proof cases
    case 1
    then show ?thesis using f(1,2) type by (auto simp: keeps_slots_def trigger_ok_def slot_ok_def)
  next
    case 2
    then have "T + 1000 \<le> t_next_fire_at t'" using later by (simp add: seconds_def)
    then have "slot_ok T t tr \<Longrightarrow> slot_ok T t' tr" for tr
      using type past_slot [of "tr_scheduled_for tr" T] by (auto simp: slot_ok_def)
    then show ?thesis using 2 f(1,2) type by (auto simp: keeps_slots_def trigger_ok_def)
  next
    case 3
    have "t_next_fire_at t' mod 1000 = 0" using f(5) jitter_mod 3(3) by simp
    moreover have "slot_ok T t tr \<Longrightarrow> slot_ok T t' tr" for tr
      using 3(1,2) type later past_whole_slot [of "tr_scheduled_for tr" T] by (auto simp: slot_ok_def)
    ultimately show ?thesis using f(1,2) by (auto simp: keeps_slots_def trigger_ok_def)
  qed
qed

lemma inv_update_config:
  assumes inv: "trigger_inv sv T d" and lib: "cron_lib sv"
    and "update_trigger_config sv T tenant i params d = (res, d')"
  shows "trigger_inv sv T d'"
proof (cases "get_trigger tenant i d")
  case None
  then show ?thesis using assms by (simp add: update_trigger_config_def)
next
  case (Some x)
  let ?interval = "or_else (up_interval_seconds params) (t_interval_seconds x)"
  let ?cron = "or_else (up_cron_expression params) (t_cron_expression x)"
  let ?tz = "unwrap_or (up_schedule_timezone params) (t_schedule_timezone x)"
  have x: "x \<in> set (d_triggers d)" "t_id x = i"
    using Some find_SomeD unfolding get_trigger_def by fastforce+
  show ?thesis
  proof (cases "rescheduled sv T x ?interval ?cron ?tz")
    case (Inl e)
    then show ?thesis using assms Some by (simp add: update_trigger_config_def Let_def)
  next
    case (Inr nxt)
    show ?thesis
    proof (rule inv_update_triggers [OF inv assms(3) [unfolded update_trigger_config_def Some Let_def Inr
            option.case sum.case]])
      fix t assume t: "t \<in> set (d_triggers d)" "t_tenant_id t = tenant \<and> t_id t = i"
      then have "t = x" using same_trigger [OF inv] x by simp
      moreover have "trigger_ok t" using inv t(1) by (simp add: trigger_inv_def)
      ultimately show "keeps_slots T t (t\<lparr>t_interval_seconds := ?interval, t_cron_expression := ?cron,
          t_schedule_timezone := ?tz, t_misfire_policy := mp, t_max_attempts := ma,
          t_max_inflight_runs := mi, t_jitter_seconds := js, t_webhook_secret_ref := ws,
          t_next_fire_at := apply_jitter sv nxt (t_id x) js T, t_updated_at := T\<rparr>)"
        if "trigger_check (t\<lparr>t_interval_seconds := ?interval, t_cron_expression := ?cron,
          t_schedule_timezone := ?tz, t_misfire_policy := mp, t_max_attempts := ma,
          t_max_inflight_runs := mi, t_jitter_seconds := js, t_webhook_secret_ref := ws,
          t_next_fire_at := apply_jitter sv nxt (t_id x) js T, t_updated_at := T\<rparr>)" for mp ma mi js ws
        using that Inr by (intro rescheduled_keeps_slots [OF lib]) (auto simp: trigger_ident_def)
    qed
  qed
qed

section \<open>Events\<close>

lemma inv_enqueue:
  assumes inv: "trigger_inv sv T d"
    and "enqueue_trigger_event sv row_id T tenant i event_id payload d = (res, d')"
  shows "trigger_inv sv T d'"
proof -
  let ?e = "\<lparr>te_id = row_id, te_trigger_id = i, te_tenant_id = tenant, te_event_id = event_id,
      te_semantic_dedupe_key = compute_trigger_event_semantic_dedupe_key sv tenant i payload,
      te_payload_json = payload, te_status = ''pending'', te_attempts = 0, te_next_attempt_at = T,
      te_last_error_json = None, te_created_at = T, te_processed_at = None, te_dead_lettered_at = None\<rparr>"
  from assms(2) have "d' = d \<or> (\<exists>t. get_trigger tenant i d = Some t \<and> t_trigger_type t = ''webhook'') \<and>
      (\<forall>f \<in> set (d_trigger_events d). \<not> event_conflict ?e f) \<and>
      d' = d\<lparr>d_trigger_events := d_trigger_events d @ [?e]\<rparr>"
    by (simp add: enqueue_trigger_event_def Let_def list_ex_iff split: if_split_asm option.split_asm)
  then consider "d' = d" | t where "get_trigger tenant i d = Some t" "t_trigger_type t = ''webhook''"
      "\<forall>f \<in> set (d_trigger_events d). \<not> event_conflict ?e f"
      "d' = d\<lparr>d_trigger_events := d_trigger_events d @ [?e]\<rparr>"
    by blast
  then show ?thesis
  proof cases
    case 2
    have t: "t \<in> set (d_triggers d)" "t_tenant_id t = tenant" "t_id t = i"
      using find_SomeD [OF 2(1) [unfolded get_trigger_def]] by auto
    have old: "distinct (map te_id (d_trigger_events d))" "\<forall>e \<in> set (d_trigger_events d). event_ok sv d e"
      "distinct (map (\<lambda>e. (te_trigger_id e, te_event_id e)) (d_trigger_events d))"
      using inv by (simp_all add: trigger_inv_def)
    have "event_ok sv d ?e" using t 2(2) by (auto simp: event_ok_def)
    then have "trigger_inv sv T (d\<lparr>d_trigger_events := d_trigger_events d @ [?e]\<rparr>)"
      by (intro inv_events [OF inv]) (use old 2(3) in \<open>auto simp: event_conflict_def\<close>)
    with 2(4) show ?thesis by simp
  qed (use inv in simp)
qed

text \<open>An event that is rewritten keeps its keys.\<close>

lemma inv_map_events:
  assumes inv: "trigger_inv sv T d"
    and keep: "\<And>e. e \<in> set (d_trigger_events d) \<Longrightarrow> p e \<Longrightarrow> te_id (g e) = te_id e \<and>
      te_trigger_id (g e) = te_trigger_id e \<and> te_event_id (g e) = te_event_id e \<and> event_ok sv d (g e)"
  shows "trigger_inv sv T (d\<lparr>d_trigger_events := map (\<lambda>e. if p e then g e else e) (d_trigger_events d)\<rparr>)"
proof (rule inv_events [OF inv])
  let ?es = "map (\<lambda>e. if p e then g e else e) (d_trigger_events d)"
  have old: "distinct (map te_id (d_trigger_events d))" "\<forall>e \<in> set (d_trigger_events d). event_ok sv d e"
    "distinct (map (\<lambda>e. (te_trigger_id e, te_event_id e)) (d_trigger_events d))"
    using inv by (simp_all add: trigger_inv_def)
  have "map te_id ?es = map te_id (d_trigger_events d)"
    "map (\<lambda>e. (te_trigger_id e, te_event_id e)) ?es =
      map (\<lambda>e. (te_trigger_id e, te_event_id e)) (d_trigger_events d)"
    using keep by auto
  then show "distinct (map te_id ?es)" "distinct (map (\<lambda>e. (te_trigger_id e, te_event_id e)) ?es)"
    using old by presburger+
  show "\<forall>e \<in> set ?es. event_ok sv d e" using old(2) keep by auto
qed

lemma inv_replay:
  assumes inv: "trigger_inv sv T d"
    and "requeue_dead_letter_trigger_event now tenant i event_id d = (res, d')"
  shows "trigger_inv sv T d'"
proof -
  let ?p = "\<lambda>e. te_trigger_id e = i \<and> te_tenant_id e = tenant \<and> te_event_id e = event_id"
  let ?g = "\<lambda>e. e\<lparr>te_status := ''pending'', te_attempts := 0, te_next_attempt_at := now,
      te_last_error_json := None, te_processed_at := None, te_dead_lettered_at := None\<rparr>"
  have "trigger_inv sv T (d\<lparr>d_trigger_events := map (\<lambda>e. if ?p e then ?g e else e) (d_trigger_events d)\<rparr>)"
  proof (rule inv_map_events [OF inv])
    fix e assume e: "e \<in> set (d_trigger_events d)" "?p e"
    then have "event_ok sv d e" using inv by (simp add: trigger_inv_def)
    then have "event_ok sv d (?g e)" by (auto simp: event_ok_def)
    then show "te_id (?g e) = te_id e \<and> te_trigger_id (?g e) = te_trigger_id e \<and>
        te_event_id (?g e) = te_event_id e \<and> event_ok sv d (?g e)" by simp
  qed
  moreover have "d' = d \<or>
      d' = d\<lparr>d_trigger_events := map (\<lambda>e. if ?p e then ?g e else e) (d_trigger_events d)\<rparr>"
    using assms(2)
    by (simp add: requeue_dead_letter_trigger_event_def update_where_def Let_def
        split: if_split_asm option.split_asm)
  ultimately show ?thesis using inv by auto
qed

section \<open>Firings\<close>

lemma runs_ok_append:
  assumes "runs_ok rows" and "insert_check fk n rows = None" and "nr_status n = ''queued''"
  shows "runs_ok (rows @ [row_of_new now key n])"
proof -
  have "nr_id n \<notin> r_id ` set rows"
    using assms(2) by (auto simp: insert_check_def list_ex_iff split: if_split_asm)
  then show ?thesis
    using assms(1,3) by (simp add: runs_ok_def row_ok_def row_of_new_def run_statuses_def)
qed

lemma inv_insert_run:
  assumes inv: "trigger_inv sv T d" and "insert_run sv now n d = Inr d1" and "nr_status n = ''queued''"
  shows "trigger_inv sv T d1"
proof -
  have n: "insert_check (ts_run_fk sv) n (d_runs d) = None"
    and d1: "d1 = d\<lparr>d_runs := d_runs d @ [row_of_new now None n]\<rparr>"
    using assms(2) by (simp_all add: insert_run_Inr)
  have "runs_ok (d_runs d)" using inv by (simp add: trigger_inv_def)
  then have "runs_ok (d_runs d @ [row_of_new now None n])" using n assms(3) by (rule runs_ok_append)
  then show ?thesis unfolding d1 by (rule inv_runs [OF inv]) simp
qed

lemma inv_set_trigger:
  assumes inv: "trigger_inv sv T d" and t: "t \<in> set (d_triggers d)" and "keeps_slots T t (f t)"
  shows "trigger_inv sv T (set_trigger (t_id t) f d)"
  unfolding set_trigger_def
proof (rule inv_map_triggers [OF inv])
  fix u assume "u \<in> set (d_triggers d)" "t_id u = t_id t"
  then have "u = t" using same_trigger [OF inv] t by simp
  with assms(3) show "keeps_slots T u (f u)" by simp
qed

lemma set_trigger_mem: "t \<in> set (d_triggers d) \<Longrightarrow> f t \<in> set (d_triggers (set_trigger (t_id t) f d))"
  by (force simp: set_trigger_def)

lemma inv_add_firing:
  assumes inv: "trigger_inv sv T d" and t: "t \<in> set (d_triggers d)" and keep: "keeps_slots T t (f t)"
    and tr: "tr_trigger_id tr = t_id t" "slot_ok T (f t) tr"
      "\<forall>i. tr_run_id tr = Some i \<longrightarrow> (\<exists>r \<in> set (d_runs d). r_id r = i \<and> run_from t r)"
    and ins: "insert_trigger_run tr (set_trigger (t_id t) f d) = Inr d'"
  shows "trigger_inv sv T d'"
proof -
  let ?d = "set_trigger (t_id t) f d"
  from ins have fresh: "\<forall>u \<in> set (d_trigger_runs ?d).
        (tr_trigger_id u, tr_dedupe_key u) \<noteq> (tr_trigger_id tr, tr_dedupe_key tr)"
    and d': "d' = ?d\<lparr>d_trigger_runs := d_trigger_runs ?d @ [tr]\<rparr>"
    by (simp_all add: insert_trigger_run_Inr)
  have "t_id (f t) = t_id t" "run_from (f t) = run_from t"
    using keep by (auto simp: keeps_slots_def trigger_ident_def run_from_def)
  then have "firing_ok T ?d tr"
    using tr set_trigger_mem [OF t, of f] by (auto simp: firing_ok_def intro!: bexI [of _ "f t"])
  from inv_firing [OF inv_set_trigger [where f = f, OF inv t keep] this fresh] show ?thesis unfolding d' .
qed

text \<open>The slots of a row that moves on, or is broken, stay before its next one.\<close>

lemma keeps_slots_later:
  assumes "trigger_ok t" and "trigger_ident t' = trigger_ident t" and "trigger_check t'"
    and "t_next_fire_at t \<le> t_next_fire_at t'"
    and "t_dead_lettered_at t \<noteq> None \<longrightarrow> t_dead_lettered_at t' \<noteq> None"
    and "t_trigger_type t = ''cron'' \<longrightarrow> t_next_fire_at t' mod 1000 = 0"
  shows "keeps_slots T t t'"
proof -
  have "t_trigger_type t' = t_trigger_type t" using assms(2) by (simp add: trigger_ident_def)
  then show ?thesis using assms by (auto simp: keeps_slots_def trigger_ok_def slot_ok_def)
qed

lemma next_slot:
  assumes "trigger_ok t" and "secs (t_next_fire_at t) \<le> secs T" and "trigger_ident t' = trigger_ident t"
    and "tr_dedupe_key tr = nanos_key (t_next_fire_at t)" and "tr_scheduled_for tr = t_next_fire_at t"
    and "t_next_fire_at t < t_next_fire_at t' \<or> t_dead_lettered_at t' \<noteq> None"
  shows "slot_ok T t' tr"
proof -
  have "t_trigger_type t' = t_trigger_type t" using assms(3) by (simp add: trigger_ident_def)
  then show ?thesis using assms by (auto simp: slot_ok_def trigger_ok_def)
qed

lemma run_of_trigger_from: "run_from t (row_of_new now key (run_of_trigger t i input))"
  by (simp add: run_from_def row_of_new_def run_of_trigger_def)

lemma inv_fire_schedule:
  assumes inv: "trigger_inv sv T d" and t: "t \<in> set (d_triggers d)"
    and due: "secs (t_next_fire_at t) \<le> secs T" and later: "t_next_fire_at t < nxt"
    and "t_trigger_type t = ''cron'' \<longrightarrow> nxt mod 1000 = 0"
    and fire: "fire_schedule sv run_id row_id T t ttype input nxt d = Inr (v, d')"
  shows "trigger_inv sv T d'"
proof -
  let ?n = "run_of_trigger t run_id input"
  let ?f = "\<lambda>u. (mark_fired T u)\<lparr>t_next_fire_at := nxt\<rparr>"
  obtain d1 where d1: "insert_run sv T ?n d = Inr d1"
    and tr: "insert_trigger_run (created_trigger_run row_id (t_id t) run_id (t_next_fire_at t)
        (nanos_key (t_next_fire_at t))) (set_trigger (t_id t) ?f d1) = Inr d'"
    using fire by (auto simp: fire_schedule_def try_then_Inr)
  have inv1: "trigger_inv sv T d1"
    by (rule inv_insert_run [OF inv d1]) (simp add: run_of_trigger_def)
  have runs: "d_runs d1 = d_runs d @ [row_of_new T None ?n]" and ts: "d_triggers d1 = d_triggers d"
    using d1 by (simp_all add: insert_run_Inr)
  have ok: "trigger_ok t" using inv t by (simp add: trigger_inv_def)
  have ident: "trigger_ident (?f t) = trigger_ident t" by (simp add: trigger_ident_def mark_fired_def)
  have "keeps_slots T t (?f t)"
    by (rule keeps_slots_later [OF ok ident])
      (use ok later assms(5) in \<open>auto simp: mark_fired_def trigger_ok_def trigger_check_def trigger_type_check_def\<close>)
  moreover have "row_of_new T None ?n \<in> set (d_runs d1)" by (simp add: runs)
  ultimately show ?thesis
    using tr t later
    by (intro inv_add_firing [OF inv1, where t = t and f = ?f])
      (auto simp: ts created_trigger_run_def next_slot [OF ok due ident] run_of_trigger_from
        intro!: bexI [of _ "row_of_new T None ?n"] simp: row_of_new_def run_of_trigger_def run_from_def)
qed

lemma inv_fire_interval:
  assumes inv: "trigger_inv sv T d" and due: "due_now ''interval'' T tmax d t"
    and fire: "fire_interval_with sv input run_id row_id T t d = Inr (v, d')"
  shows "trigger_inv sv T d'"
proof -
  have t: "t \<in> set (d_triggers d)" "secs (t_next_fire_at t) \<le> secs T" "t_trigger_type t = ''interval''"
    using due by simp_all
  have ok: "trigger_ok t" using inv t(1) by (simp add: trigger_inv_def)
  then obtain n where n: "t_interval_seconds t = Some n" "0 < n"
    using t(3) by (auto simp: trigger_ok_def trigger_check_def trigger_type_check_def split: option.splits)
  let ?skip = "apply_jitter sv (T + seconds n) (t_id t) (t_jitter_seconds t) T"
  let ?f = "\<lambda>u. u\<lparr>t_next_fire_at := ?skip, t_updated_at := T\<rparr>"
  let ?fire = "apply_jitter sv (t_next_fire_at t + seconds n) (t_id t) (t_jitter_seconds t) T"
  show ?thesis
  proof (cases "t_misfire_policy t = ''skip'' \<and> seconds n \<le> T - t_next_fire_at t")
    case False
    then have "fire_schedule sv run_id row_id T t ''interval'' input ?fire d = Inr (v, d')"
      using fire n by (cases "t_misfire_policy t = ''skip''")
        (simp_all add: fire_interval_with_def fire_interval_def Let_def fire_schedule_input)
    moreover have "t_next_fire_at t < ?fire"
      using n(2) jitter_le [of "t_next_fire_at t + seconds n" sv "t_id t" "t_jitter_seconds t" T]
      by (simp add: seconds_def)
    ultimately show ?thesis using t(3) by (intro inv_fire_schedule [OF inv t(1,2)]) auto
  next
    case True
    then have ins: "insert_trigger_run (failed_trigger_run row_id (t_id t) (t_next_fire_at t)
        (nanos_key (t_next_fire_at t)) misfire_error) (set_trigger (t_id t) ?f d) = Inr d'"
      using fire n by (auto simp: fire_interval_with_def fire_interval_def Let_def try_then_Inr)
    have ident: "trigger_ident (?f t) = trigger_ident t" by (simp add: trigger_ident_def)
    have later: "t_next_fire_at t < ?skip"
      using True n(2) jitter_le [of "T + seconds n" sv "t_id t" "t_jitter_seconds t" T]
      by (simp add: seconds_def)
    have "keeps_slots T t (?f t)"
      by (rule keeps_slots_later [OF ok ident])
        (use ok later t(3) in \<open>auto simp: trigger_ok_def trigger_check_def trigger_type_check_def\<close>)
    then show ?thesis
      using later
      by (intro inv_add_firing [OF inv t(1) _ _ _ _ ins])
        (auto simp: failed_trigger_run_def intro: next_slot [OF ok t(2) ident])
  qed
qed

lemma inv_fire_cron:
  assumes inv: "trigger_inv sv T d" and lib: "cron_lib sv" and due: "due_now ''cron'' T tmax d t"
    and fire: "fire_cron_with sv input run_id row_id T t d = Inr (v, d')"
  shows "trigger_inv sv T d'"
proof -
  have t: "t \<in> set (d_triggers d)" "secs (t_next_fire_at t) \<le> secs T" "t_trigger_type t = ''cron''"
    using due by simp_all
  have ok: "trigger_ok t" using inv t(1) by (simp add: trigger_inv_def)
  then obtain c where c: "t_cron_expression t = Some c"
    using t(3) by (auto simp: trigger_ok_def trigger_check_def trigger_type_check_def)
  show ?thesis
  proof (cases "next_cron_fire_at sv c (t_schedule_timezone t) (t_next_fire_at t)")
    case (Inr nxt)
    let ?fire = "apply_jitter sv nxt (t_id t) (t_jitter_seconds t) (t_next_fire_at t)"
    have "fire_schedule sv run_id row_id T t ''cron'' input ?fire d = Inr (v, d')"
      using fire c Inr by (simp add: fire_cron_with_def fire_cron_def fire_schedule_input)
    moreover have "t_next_fire_at t < nxt" "nxt mod 1000 = 0" using next_cron_after [OF lib Inr] by simp_all
    then have "t_next_fire_at t < ?fire" "?fire mod 1000 = 0"
      using jitter_le [of nxt sv "t_id t" "t_jitter_seconds t" "t_next_fire_at t"] jitter_mod by auto
    ultimately show ?thesis by (intro inv_fire_schedule [OF inv t(1,2)]) auto
  next
    case (Inl err)
    let ?f = "dead_letter_trigger T (''SCHEDULE_COMPUTE_FAILED: '' @ err)"
    have ins: "insert_trigger_run (failed_trigger_run row_id (t_id t) (t_next_fire_at t)
        (nanos_key (t_next_fire_at t)) (trigger_error_payload ''CRON_COMPUTE_FAILED'' err ''schedule''))
        (set_trigger (t_id t) ?f d) = Inr d'"
      using fire c Inl by (auto simp: fire_cron_with_def fire_cron_def cron_failed_def try_then_Inr)
    have ident: "trigger_ident (?f t) = trigger_ident t"
      by (simp add: trigger_ident_def dead_letter_trigger_def)
    have keep: "keeps_slots T t (?f t)"
      by (rule keeps_slots_later [OF ok ident])
        (use ok in \<open>auto simp: dead_letter_trigger_def trigger_ok_def trigger_check_def trigger_type_check_def\<close>)
    show ?thesis
      by (rule inv_add_firing [where f = ?f, OF inv t(1) keep _ _ _ ins])
        (auto simp: failed_trigger_run_def dead_letter_trigger_def intro!: next_slot [OF ok t(2)]
          simp: trigger_ident_def)
  qed
qed

lemma mark_fired_keeps: "trigger_ok t \<Longrightarrow> keeps_slots T t (mark_fired T t)"
  by (rule keeps_slots_later)
    (auto simp: mark_fired_def trigger_ident_def trigger_ok_def trigger_check_def trigger_type_check_def)

lemma inv_fire_manually:
  assumes inv: "trigger_inv sv T d"
    and "fire_trigger_manually_with_limits sv run_id row_id T tenant i key payload tmax d = (res, d')"
  shows "trigger_inv sv T d'"
proof -
  let ?input = "\<lambda>t. inject_trace_id (merge_json_objects (t_input_json t) (manual_envelope i key payload)) run_id"
  from assms(2) have "d' = d \<or> (\<exists>t d1. t \<in> set (d_triggers d) \<and> t_id t = i \<and>
      insert_run sv T (run_of_trigger t run_id (?input t)) d = Inr d1 \<and>
      insert_trigger_run (created_trigger_run row_id i run_id T (''manual:'' @ key))
        (set_trigger i (mark_fired T) d1) = Inr d')"
    by (auto simp: fire_trigger_manually_with_limits_def Let_def commit_Pair try_then_Inr
        split: if_split_asm option.split_asm dest!: find_SomeD)
  then consider "d' = d" | t d1 where "t \<in> set (d_triggers d)" "t_id t = i"
      "insert_run sv T (run_of_trigger t run_id (?input t)) d = Inr d1"
      "insert_trigger_run (created_trigger_run row_id i run_id T (''manual:'' @ key))
        (set_trigger (t_id t) (mark_fired T) d1) = Inr d'" by blast
  then show ?thesis
  proof cases
    case 2
    have inv1: "trigger_inv sv T d1"
      by (rule inv_insert_run [OF inv 2(3)]) (simp add: run_of_trigger_def)
    have d1: "d_runs d1 = d_runs d @ [row_of_new T None (run_of_trigger t run_id (?input t))]"
        "d_triggers d1 = d_triggers d"
      using 2(3) by (simp_all add: insert_run_Inr)
    have keep: "keeps_slots T t (mark_fired T t)"
      using inv 2(1) by (simp add: trigger_inv_def mark_fired_keeps)
    show ?thesis
      by (rule inv_add_firing [where f = "mark_fired T", OF inv1 _ keep _ _ _ 2(4)])
        (use 2(1,2) in \<open>auto simp: d1 created_trigger_run_def slot_ok_def row_of_new_def run_of_trigger_def
          run_from_def\<close>)
  qed (use inv in simp)
qed

text \<open>
  The event of a transaction. The firing is recorded before the event is marked, which leaves the
  same tables.
\<close>

lemma insert_trigger_run_set_event:
  "insert_trigger_run tr (set_event i g d) =
     (case insert_trigger_run tr d of Inl e \<Rightarrow> Inl e | Inr d1 \<Rightarrow> Inr (set_event i g d1))"
  by (simp add: insert_trigger_run_def set_event_def split: option.split)

lemma set_trigger_event: "set_trigger i f (set_event j g d) = set_event j g (set_trigger i f d)"
  by (simp add: set_trigger_def set_event_def)

lemma inv_set_event:
  assumes inv: "trigger_inv sv T d" and e: "e \<in> set (d_trigger_events d)"
    and g: "te_id (g e) = te_id e" "te_trigger_id (g e) = te_trigger_id e" "te_event_id (g e) = te_event_id e"
      "event_ok sv d (g e)"
  shows "trigger_inv sv T (set_event (te_id e) g d)"
  unfolding set_event_def
proof (rule inv_map_events [OF inv])
  fix u assume "u \<in> set (d_trigger_events d)" "te_id u = te_id e"
  then have "u = e" using same_event [OF inv] e by simp
  with g show "te_id (g u) = te_id u \<and> te_trigger_id (g u) = te_trigger_id u \<and>
      te_event_id (g u) = te_event_id u \<and> event_ok sv d (g u)" by simp
qed

lemma inv_fire_event:
  assumes inv: "trigger_inv sv T d" and ev: "event_now tmax d e t"
    and fire: "fire_event sv run_id row_id T e t d = Inr (v, d')"
  shows "trigger_inv sv T d'"
proof -
  have e: "e \<in> set (d_trigger_events d)" "te_status e = ''pending''"
    and t: "t \<in> set (d_triggers d)" "t_id t = te_trigger_id e" "t_trigger_type t = ''webhook''"
    using ev by simp_all
  have tenant: "t_tenant_id t = te_tenant_id e" and tried: "te_attempts e = 0 \<or> (\<exists>tr. firing_of d e tr)"
  proof -
    have "event_ok sv d e" using inv e(1) by (simp add: trigger_inv_def)
    then obtain u where "u \<in> set (d_triggers d)" "t_id u = te_trigger_id e" "t_tenant_id u = te_tenant_id e"
        "te_attempts e = 0 \<or> (\<exists>tr. firing_of d e tr)"
      using e(2) by (auto simp: event_ok_def)
    moreover from this(1,2) t(1,2) have "u = t" using same_trigger [OF inv] by simp
    ultimately show "t_tenant_id t = te_tenant_id e" "te_attempts e = 0 \<or> (\<exists>tr. firing_of d e tr)"
      by simp_all
  qed
  have untried: "te_attempts e = 0"
    if "insert_trigger_run tr d0 = Inr d1" "d_trigger_runs d0 = d_trigger_runs d"
      "tr_trigger_id tr = te_trigger_id e" "tr_dedupe_key tr = te_event_id e" for tr d0 d1
    using tried that by (auto simp: insert_trigger_run_Inr firing_of_def)
  have slot: "slot_ok T (f t) tr" if "t_trigger_type (f t) = t_trigger_type t" for f tr
    using that t(3) by (simp add: slot_ok_def)
  show ?thesis
  proof (cases "payload_too_large sv (te_payload_json e)")
    case True
    let ?tr = "failed_trigger_run row_id (t_id t) T (te_event_id e) event_error"
    let ?g = "mark_event_failed T (t_max_attempts t \<le> te_attempts e + 1)"
    obtain d1 where d1: "insert_trigger_run ?tr d = Inr d1" "d' = set_event (te_id e) ?g d1"
      using fire True
      by (auto simp: fire_event_def try_then_Inr insert_trigger_run_set_event split: sum.split_asm)
    have ts: "d_triggers d1 = d_triggers d" "d_trigger_runs d1 = d_trigger_runs d @ [?tr]"
        "d_trigger_events d1 = d_trigger_events d"
      using d1(1) by (simp_all add: insert_trigger_run_Inr)
    have "firing_ok T d ?tr"
      using t slot [of id] by (auto simp: firing_ok_def failed_trigger_run_def)
    then have inv1: "trigger_inv sv T d1"
      using inv_firing [OF inv] d1(1) by (simp add: insert_trigger_run_Inr)
    have "te_attempts e = 0" using untried [OF d1(1)] t(2) by (simp add: failed_trigger_run_def)
    moreover have "firing_of d1 (?g e) ?tr"
      using t(2) by (simp add: firing_of_def ts failed_trigger_run_def mark_event_failed_def)
    ultimately have "event_ok sv d1 (?g e)"
      using True t tenant
      by (auto simp: event_ok_def mark_event_failed_def ts intro!: bexI [of _ t])
    then show ?thesis unfolding d1(2)
      by (intro inv_set_event [OF inv1]) (simp_all add: ts e(1) mark_event_failed_def)
  next
    case False
    let ?n = "webhook_run e t run_id"
    let ?tr = "created_trigger_run row_id (t_id t) run_id T (te_event_id e)"
    let ?g = "mark_event_processed T"
    let ?row = "row_of_new T None ?n"
    obtain d1 where d1: "insert_run sv T ?n d = Inr d1"
      and "insert_trigger_run ?tr (set_event (te_id e) ?g (set_trigger (t_id t) (mark_fired T) d1)) = Inr d'"
      using fire False by (auto simp: fire_event_def try_then_Inr set_trigger_event)
    then obtain d2 where d2: "insert_trigger_run ?tr (set_trigger (t_id t) (mark_fired T) d1) = Inr d2"
        "d' = set_event (te_id e) ?g d2"
      by (auto simp: insert_trigger_run_set_event split: sum.split_asm)
    have inv1: "trigger_inv sv T d1"
      by (rule inv_insert_run [OF inv d1]) (simp add: webhook_run_def run_of_trigger_def)
    have ts: "d_triggers d1 = d_triggers d" "d_runs d1 = d_runs d @ [?row]"
        "d_trigger_runs d1 = d_trigger_runs d" "d_trigger_events d1 = d_trigger_events d"
      using d1 by (simp_all add: insert_run_Inr)
    have keep: "keeps_slots T t (mark_fired T t)"
      using inv t(1) by (simp add: trigger_inv_def mark_fired_keeps)
    have row: "run_from t ?row" "r_id ?row = run_id" "r_input ?row = nr_input ?n"
      by (simp_all add: webhook_run_def run_of_trigger_from)
        (simp_all add: row_of_new_def run_of_trigger_def)
    have inv2: "trigger_inv sv T d2"
      by (rule inv_add_firing [where f = "mark_fired T", OF inv1 _ keep _ _ _ d2(1)])
        (use t row slot [of "mark_fired T"] in \<open>auto simp: ts created_trigger_run_def mark_fired_def\<close>)
    have ts2: "d_triggers d2 = d_triggers (set_trigger (t_id t) (mark_fired T) d1)"
        "d_runs d2 = d_runs d @ [?row]" "d_trigger_runs d2 = d_trigger_runs d @ [?tr]"
        "d_trigger_events d2 = d_trigger_events d"
      using d2(1) by (simp_all add: insert_trigger_run_Inr ts)
    have t2: "mark_fired T t \<in> set (d_triggers d2)"
      using set_trigger_mem [of t d1 "mark_fired T"] t(1) by (simp add: ts2 ts)
    have "te_attempts e = 0" using untried [OF d2(1)] t(2) by (simp add: created_trigger_run_def ts)
    moreover have "processed_as d2 (?g e) (mark_fired T t)"
      unfolding processed_as_def
      by (rule exI [of _ ?tr], rule exI [of _ ?row])
        (use row t(2) in \<open>auto simp: ts2 firing_of_def created_trigger_run_def mark_event_processed_def
          mark_fired_def run_from_def webhook_run_def run_of_trigger_def\<close>)
    ultimately have "event_ok sv d2 (?g e)"
      unfolding event_ok_def
      by (intro bexI [OF _ t2]) (use t tenant in \<open>simp add: mark_event_processed_def mark_fired_def\<close>)
    then show ?thesis unfolding d2(2)
      by (intro inv_set_event [OF inv2]) (simp_all add: ts2 e(1) mark_event_processed_def)
  qed
qed

section \<open>Reachable tables\<close>

context trigger_backend
begin

lemma committed: "(res, d') = commit d r \<Longrightarrow> P d \<Longrightarrow> (\<And>v d1. r = Inr (v, d1) \<Longrightarrow> P d1) \<Longrightarrow> P d'"
  by (auto simp: commit_def split: sum.splits)

lemma ids: "trigger_inv sv T d \<Longrightarrow> ids_ok d"
  by (simp add: trigger_inv_def)

lemma webhook_keeps_inv:
  assumes inv: "trigger_inv sv T d" and step: "webhook_fn sv run_id row_id tmax T d = (res, d')"
  shows "trigger_inv sv T d'"
  using webhook_law [OF ids [OF inv] step]
proof (elim disjE exE)
  fix e t assume x: "event_now tmax d e t \<and> (res, d') = commit d (fire_event sv run_id row_id T e t d)"
  show ?thesis
    by (rule committed [where P = "trigger_inv sv T", OF x [THEN conjunct2] inv]) (rule inv_fire_event [OF inv x [THEN conjunct1]])
qed (use inv in simp)

lemma cron_keeps_inv:
  assumes inv: "trigger_inv sv T d" and lib: "cron_lib sv"
    and step: "cron_fn sv run_id row_id tmax T d = (res, d')"
  shows "trigger_inv sv T d'"
  using cron_law [OF ids [OF inv] step]
proof (elim disjE exE)
  fix t input assume x: "due_now ''cron'' T tmax d t \<and> (res, d') = commit d (fire_cron_with sv input run_id row_id T t d)"
  show ?thesis
    by (rule committed [where P = "trigger_inv sv T", OF x [THEN conjunct2] inv]) (rule inv_fire_cron [OF inv lib x [THEN conjunct1]])
qed (use inv in simp)

lemma interval_keeps_inv:
  assumes inv: "trigger_inv sv T d" and step: "interval_fn sv run_id row_id tmax T d = (res, d')"
  shows "trigger_inv sv T d'"
  using interval_law [OF ids [OF inv] step]
proof (elim disjE exE)
  fix t input assume x: "due_now ''interval'' T tmax d t \<and> (res, d') = commit d (fire_interval_with sv input run_id row_id T t d)"
  show ?thesis
    by (rule committed [where P = "trigger_inv sv T", OF x [THEN conjunct2] inv]) (rule inv_fire_interval [OF inv x [THEN conjunct1]])
qed (use inv in simp)

end

lemma inv_create:
  assumes "trigger_inv sv T d" and "cron_lib sv"
  shows "create_interval_trigger sv T ni d = (res, d') \<Longrightarrow> trigger_inv sv T d'"
    and "create_webhook_trigger sv T nw d = (res, d') \<Longrightarrow> trigger_inv sv T d'"
    and "create_cron_trigger sv T nc d = (res, d') \<Longrightarrow> trigger_inv sv T d'"
proof -
  show "create_interval_trigger sv T ni d = (res, d') \<Longrightarrow> trigger_inv sv T d'"
    unfolding create_interval_trigger_def by (erule inv_insert_trigger [OF assms(1)]) simp
  show "create_webhook_trigger sv T nw d = (res, d') \<Longrightarrow> trigger_inv sv T d'"
    unfolding create_webhook_trigger_def by (erule inv_insert_trigger [OF assms(1)]) simp
  show "trigger_inv sv T d'" if c: "create_cron_trigger sv T nc d = (res, d')"
  proof (cases "next_cron_fire_at sv (nc_cron_expression nc) (nc_schedule_timezone nc) T")
    case (Inl e)
    then show ?thesis using c assms(1) by (simp add: create_cron_trigger_def)
  next
    case (Inr t)
    have "t mod 1000 = 0" using next_cron_after [OF assms(2) Inr] by simp
    then show ?thesis
      by (intro inv_insert_trigger [OF assms(1) c [unfolded create_cron_trigger_def Inr sum.case]])
        (simp add: jitter_mod)
  qed
qed

lemma inv_run_statements:
  assumes inv: "trigger_inv sv T d" and ok: "stmt_ok (now, s)"
  shows "exec_stmt (postgres fk) now s (d_runs d) = (rows, ev) \<Longrightarrow> trigger_inv sv T (d\<lparr>d_runs := rows\<rparr>)"
    and "exec_stmt (sqlite fk) now s (d_runs d) = (rows, ev) \<Longrightarrow> trigger_inv sv T (d\<lparr>d_runs := rows\<rparr>)"
proof -
  have runs: "runs_ok (d_runs d)" using inv by (simp add: trigger_inv_def)
  show "trigger_inv sv T (d\<lparr>d_runs := rows\<rparr>)" if "exec_stmt (postgres fk) now s (d_runs d) = (rows, ev)"
    by (rule inv_runs [OF inv pg.exec_stmt_refines [OF runs ok that, THEN conjunct1] pg.exec_stmt_grow [OF runs ok that]])
  show "trigger_inv sv T (d\<lparr>d_runs := rows\<rparr>)" if "exec_stmt (sqlite fk) now s (d_runs d) = (rows, ev)"
    by (rule inv_runs [OF inv lite.exec_stmt_refines [OF runs ok that, THEN conjunct1] lite.exec_stmt_grow [OF runs ok that]])
qed

lemma inv_dedupe_run:
  assumes inv: "trigger_inv sv T d" and "nr_status n = ''queued''"
    and "create_run_with_semantic_dedupe_key fk now n key (d_runs d) = (res, rows)"
  shows "trigger_inv sv T (d\<lparr>d_runs := rows\<rparr>)"
proof -
  have ok: "runs_ok (d_runs d)" using inv by (simp add: trigger_inv_def)
  have "rows = d_runs d \<or> insert_check fk n (d_runs d) = None \<and> rows = d_runs d @ [row_of_new now (Some key) n]"
    using assms(3)
    by (simp add: create_run_with_semantic_dedupe_key_def Let_def split: if_split_asm option.split_asm)
  then have "runs_ok rows \<and> runs_grow (d_runs d) rows"
    using ok runs_ok_append [OF ok _ assms(2)] by auto
  then show ?thesis using inv_runs [OF inv] by blast
qed

lemma inv_elsewhere:
  assumes "trigger_inv sv T d" and "d_runs d' = d_runs d" "d_triggers d' = d_triggers d"
    "d_trigger_runs d' = d_trigger_runs d" "d_trigger_events d' = d_trigger_events d"
  shows "trigger_inv sv T d'"
proof -
  have "firing_ok T d' = firing_ok T d" "event_ok sv d' = event_ok sv d"
    using assms(2-5) by (simp_all add: fun_eq_iff firing_ok_def event_ok_def processed_as_def firing_of_def)
  then show ?thesis using assms by (simp add: trigger_inv_def)
qed

lemma step_keeps_inv:
  assumes step: "trigger_step sv now d d'" and inv: "trigger_inv sv now d" and lib: "cron_lib sv"
  shows "trigger_inv sv now d'"
proof -
  note keep = inv_create [OF inv lib] inv_update_status [OF inv] inv_update_config [OF inv lib]
    inv_enqueue [OF inv] inv_replay [OF inv] inv_fire_manually [OF inv]
    pg_triggers.webhook_keeps_inv [OF inv] pg_triggers.cron_keeps_inv [OF inv lib]
    pg_triggers.interval_keeps_inv [OF inv] lite_triggers.webhook_keeps_inv [OF inv]
    lite_triggers.cron_keeps_inv [OF inv lib] lite_triggers.interval_keeps_inv [OF inv]
  from step show ?thesis
  proof cases
    case (runs_postgres s fk rows ev)
    then show ?thesis using inv_run_statements(1) [OF inv] by simp
  next
    case (runs_sqlite s fk rows ev)
    then show ?thesis using inv_run_statements(2) [OF inv] by simp
  next
    case (runs_dedupe n fk key cr rows)
    then show ?thesis using inv_dedupe_run [OF inv] by simp
  next
    case elsewhere
    then show ?thesis by (rule inv_elsewhere [OF inv])
  qed (erule keep)+
qed

lemma reachable_inv: "trigger_reach sv T d \<Longrightarrow> cron_lib sv \<Longrightarrow> trigger_inv sv T d"
proof (induction rule: trigger_reach.induct)
  case (empty now)
  then show ?case by (simp add: trigger_inv_def runs_ok_def)
next
  case (step T d now d')
  then show ?case using step_keeps_inv inv_later by blast
qed

end
