(* ===== verification/TriggerProperties.thy ===== *)
theory TriggerProperties
  imports TriggerInvariant
begin

text \<open>
  What the invariant of the trigger tables gives: what a triggered run may do, that a schedule
  fires each slot once and is never stuck, that a webhook event is tried at most once, and what
  happens when it is tried again.
\<close>

section \<open>Runs of triggers\<close>

text \<open>
  (C21) Whatever statements and dispatches have run on either back end, a run that a trigger
  started belongs to the tenant, agent, user and recipe of that trigger, with the trigger's
  requested and granted capabilities and nothing more.
\<close>

theorem triggered_runs_follow_their_trigger:
  assumes "trigger_reach sv T d" and "cron_lib sv"
    and "tr \<in> set (d_trigger_runs d)" and "tr_run_id tr = Some i"
  shows "\<exists>t \<in> set (d_triggers d). \<exists>r \<in> set (d_runs d). t_id t = tr_trigger_id tr \<and> r_id r = i \<and>
    r_tenant r = t_tenant_id t \<and> r_agent r = t_agent_id t \<and> r_user r = t_triggered_by_user_id t \<and>
    r_recipe r = t_recipe_id t \<and> r_requested r = t_requested_capabilities t \<and>
    r_granted r = t_granted_capabilities t"
proof -
  have "firing_ok T d tr" using reachable_inv [OF assms(1,2)] assms(3) by (simp add: trigger_inv_def)
  then show ?thesis using assms(4) by (auto simp: firing_ok_def run_from_def)
qed

section \<open>Schedules\<close>

lemma next_slot_unused:
  assumes inv: "trigger_inv sv T d" and t: "t \<in> set (d_triggers d)" "t_trigger_type t \<noteq> ''webhook''" "trigger_ready t"
    and tr: "tr \<in> set (d_trigger_runs d)" "tr_trigger_id tr = t_id t"
  shows "tr_dedupe_key tr \<noteq> nanos_key (t_next_fire_at t)"
proof -
  have "firing_ok T d tr" using inv tr(1) by (simp add: trigger_inv_def)
  then obtain u where "u \<in> set (d_triggers d)" "t_id u = t_id t" "slot_ok T u tr"
    using tr(2) by (auto simp: firing_ok_def)
  then have "slot_ok T t tr" using same_trigger [OF inv _ t(1)] by blast
  then show ?thesis
    using t(2,3) nanos_key_not_manual nanos_key_inject by (auto simp: slot_ok_def)
qed

text \<open>UUIDs that are in no table, and a run whose references hold.\<close>

definition fresh_ids :: "db \<Rightarrow> uuid \<Rightarrow> uuid \<Rightarrow> bool" where
  "fresh_ids d run_id row_id \<longleftrightarrow> 
     (\<forall>r \<in> set (d_runs d). r_id r \<noteq> run_id) \<and> (\<forall>tr \<in> set (d_trigger_runs d). tr_id tr \<noteq> row_id)"

definition refs_ok :: "trigger_services \<Rightarrow> bool" where
  "refs_ok sv \<longleftrightarrow> (\<forall>n. ts_run_fk sv n)"

lemma insert_run_fresh:
  assumes "\<forall>r \<in> set (d_runs d). r_id r \<noteq> run_id" and "refs_ok sv"
  shows "insert_run sv now (run_of_trigger t run_id input) d =
    Inr (d\<lparr>d_runs := d_runs d @ [row_of_new now None (run_of_trigger t run_id input)]\<rparr>)"
  using assms by (auto simp: insert_run_Inr insert_check_def run_of_trigger_def refs_ok_def list_ex_iff run_statuses_def)

lemma insert_firing_fresh:
  assumes inv: "trigger_inv sv T d" and t: "t \<in> set (d_triggers d)" "t_trigger_type t \<noteq> ''webhook''" "trigger_ready t"
    and "tr_trigger_id tr = t_id t" "tr_dedupe_key tr = nanos_key (t_next_fire_at t)"
    and "\<forall>u \<in> set (d_trigger_runs d). tr_id u \<noteq> tr_id tr" and "d_trigger_runs d0 = d_trigger_runs d"
    and "t' \<in> set (d_triggers d0)" "t_id t' = t_id t"
    and "\<And>i. tr_run_id tr = Some i \<Longrightarrow> \<exists>r \<in> set (d_runs d0). r_id r = i"
  shows "insert_trigger_run tr d0 = Inr (d0\<lparr>d_trigger_runs := d_trigger_runs d0 @ [tr]\<rparr>)"
  using next_slot_unused [OF inv t] assms(5-) by (auto simp: insert_trigger_run_Inr split: option.split)

text \<open>A scheduled firing that is due is recorded, and the trigger moves on or is broken.\<close>

definition moved_on :: "trigger_record \<Rightarrow> db \<Rightarrow> bool" where
  "moved_on t d' \<longleftrightarrow> (\<exists>t' \<in> set (d_triggers d'). t_id t' = t_id t \<and>
     (t_next_fire_at t < t_next_fire_at t' \<or> t_dead_lettered_at t' \<noteq> None)) \<and>
     (\<exists>tr \<in> set (d_trigger_runs d'). tr_trigger_id tr = t_id t \<and> tr_scheduled_for tr = t_next_fire_at t \<and>
       tr_dedupe_key tr = nanos_key (t_next_fire_at t))"

lemma fire_schedule_moves_on:
  assumes inv: "trigger_inv sv T d" and t: "t \<in> set (d_triggers d)" "t_trigger_type t \<noteq> ''webhook''" "trigger_ready t"
    and fresh: "fresh_ids d run_id row_id" "refs_ok sv" and later: "t_next_fire_at t < nxt"
  shows "\<exists>v d'. fire_schedule sv run_id row_id now t ttype input nxt d = Inr (v, d') \<and> moved_on t d'"
proof -
  let ?n = "run_of_trigger t run_id input"
  let ?f = "\<lambda>u. (mark_fired now u)\<lparr>t_next_fire_at := nxt\<rparr>"
  let ?d1 = "d\<lparr>d_runs := d_runs d @ [row_of_new now None ?n]\<rparr>"
  let ?d2 = "set_trigger (t_id t) ?f ?d1"
  let ?tr = "created_trigger_run row_id (t_id t) run_id (t_next_fire_at t) (nanos_key (t_next_fire_at t))"
  have m: "?f t \<in> set (d_triggers ?d2)" using set_trigger_mem [of t ?d1 ?f] t(1) by simp
  have "insert_run sv now ?n d = Inr ?d1"
    using fresh by (intro insert_run_fresh) (simp_all add: fresh_ids_def)
  moreover have "insert_trigger_run ?tr ?d2 = Inr (?d2\<lparr>d_trigger_runs := d_trigger_runs ?d2 @ [?tr]\<rparr>)"
    by (rule insert_firing_fresh [OF inv t _ _ _ _ m])
      (use fresh in \<open>auto simp: created_trigger_run_def fresh_ids_def mark_fired_def row_of_new_def run_of_trigger_def\<close>)
  ultimately show ?thesis
    using m later
    by (auto simp: fire_schedule_def moved_on_def mark_fired_def created_trigger_run_def intro!: bexI [of _ "?f t"])
qed

lemma moved_on_failed:
  assumes inv: "trigger_inv sv T d" and t: "t \<in> set (d_triggers d)" "t_trigger_type t \<noteq> ''webhook''" "trigger_ready t"
    and fresh: "fresh_ids d run_id row_id" and "t_id (f t) = t_id t"
    and "t_next_fire_at t < t_next_fire_at (f t) \<or> t_dead_lettered_at (f t) \<noteq> None"
  shows "\<exists>d'. insert_trigger_run (failed_trigger_run row_id (t_id t) (t_next_fire_at t)
      (nanos_key (t_next_fire_at t)) err) (set_trigger (t_id t) f d) = Inr d' \<and> moved_on t d'"
proof -
  let ?d = "set_trigger (t_id t) f d"
  let ?tr = "failed_trigger_run row_id (t_id t) (t_next_fire_at t) (nanos_key (t_next_fire_at t)) err"
  have m: "f t \<in> set (d_triggers ?d)" by (rule set_trigger_mem [OF t(1)])
  have "insert_trigger_run ?tr ?d = Inr (?d\<lparr>d_trigger_runs := d_trigger_runs ?d @ [?tr]\<rparr>)"
    by (rule insert_firing_fresh [OF inv t _ _ _ _ m])
      (use fresh assms(6) in \<open>auto simp: failed_trigger_run_def fresh_ids_def\<close>)
  then show ?thesis
    using m assms(6,7) by (auto simp: moved_on_def failed_trigger_run_def intro!: bexI [of _ "f t"])
qed

lemma fire_interval_moves_on:
  assumes inv: "trigger_inv sv T d" and due: "due_now ''interval'' now tmax d t"
    and fresh: "fresh_ids d run_id row_id" "refs_ok sv"
  shows "\<exists>v d'. fire_interval_with sv input run_id row_id now t d = Inr (v, d') \<and> moved_on t d'"
proof -
  have t: "t \<in> set (d_triggers d)" "t_trigger_type t \<noteq> ''webhook''" "trigger_ready t" using due by auto
  have "trigger_ok t" using inv t(1) by (simp add: trigger_inv_def)
  then obtain n where n: "t_interval_seconds t = Some n" "0 < n"
    using due by (auto simp: trigger_ok_def trigger_check_def trigger_type_check_def split: option.splits)
  show ?thesis
  proof (cases "t_misfire_policy t = ''skip'' \<and> seconds n \<le> now - t_next_fire_at t")
    case True
    let ?f = "\<lambda>u. u\<lparr>t_next_fire_at := apply_jitter sv (now + seconds n) (t_id t) (t_jitter_seconds t) now,
        t_updated_at := now\<rparr>"
    have "t_next_fire_at t < t_next_fire_at (?f t)"
      using True n(2) jitter_le [of "now + seconds n" sv "t_id t" "t_jitter_seconds t" now]
      by (simp add: seconds_def)
    with moved_on_failed [OF inv t fresh(1), where f = ?f and err = misfire_error] True n
    show ?thesis by (auto simp: fire_interval_with_def fire_interval_def Let_def)
  next
    case False
    have "t_next_fire_at t < apply_jitter sv (t_next_fire_at t + seconds n) (t_id t) (t_jitter_seconds t) now"
      using n(2) jitter_le [of "t_next_fire_at t + seconds n" sv "t_id t" "t_jitter_seconds t" now]
      by (simp add: seconds_def)
    with fire_schedule_moves_on [OF inv t fresh] False n show ?thesis
      by (cases "t_misfire_policy t = ''skip''")
        (simp_all add: fire_interval_with_def fire_interval_def Let_def fire_schedule_input)
  qed
qed

lemma fire_cron_moves_on:
  assumes inv: "trigger_inv sv T d" and lib: "cron_lib sv" and due: "due_now ''cron'' now tmax d t"
    and fresh: "fresh_ids d run_id row_id" "refs_ok sv"
  shows "\<exists>v d'. fire_cron_with sv input run_id row_id now t d = Inr (v, d') \<and> moved_on t d'"
proof -
  have t: "t \<in> set (d_triggers d)" "t_trigger_type t \<noteq> ''webhook''" "trigger_ready t" using due by auto
  have "trigger_ok t" using inv t(1) by (simp add: trigger_inv_def)
  then obtain c where c: "t_cron_expression t = Some c"
    using due by (auto simp: trigger_ok_def trigger_check_def trigger_type_check_def)
  show ?thesis
  proof (cases "next_cron_fire_at sv c (t_schedule_timezone t) (t_next_fire_at t)")
    case (Inl e)
    let ?f = "dead_letter_trigger now (''SCHEDULE_COMPUTE_FAILED: '' @ e)"
    obtain d' where "insert_trigger_run (failed_trigger_run row_id (t_id t) (t_next_fire_at t)
        (nanos_key (t_next_fire_at t)) (trigger_error_payload ''CRON_COMPUTE_FAILED'' e ''schedule''))
        (set_trigger (t_id t) ?f d) = Inr d'" "moved_on t d'"
      using moved_on_failed [OF inv t fresh(1), where f = ?f] by (auto simp: dead_letter_trigger_def)
    then show ?thesis using Inl c
      by (simp add: fire_cron_with_def fire_cron_def cron_failed_def moved_on_def)
  next
    case (Inr nxt)
    have "t_next_fire_at t < apply_jitter sv nxt (t_id t) (t_jitter_seconds t) (t_next_fire_at t)"
      using next_cron_after [OF lib Inr] jitter_le [of nxt sv "t_id t" "t_jitter_seconds t" "t_next_fire_at t"]
      by simp
    with fire_schedule_moves_on [OF inv t fresh] Inr c show ?thesis
      by (simp add: fire_cron_with_def fire_cron_def fire_schedule_input)
  qed
qed

lemma one_firing_per_slot:
  assumes inv: "trigger_inv sv T d" and t: "t \<in> set (d_triggers d)" "t_trigger_type t \<noteq> ''webhook''"
    and tr: "tr \<in> set (d_trigger_runs d)" "tr_trigger_id tr = t_id t" "\<not> starts_with (tr_dedupe_key tr) ''manual:''"
    and tr': "tr' \<in> set (d_trigger_runs d)" "tr_trigger_id tr' = t_id t" "\<not> starts_with (tr_dedupe_key tr') ''manual:''"
    and same: "tr_scheduled_for tr = tr_scheduled_for tr'"
  shows "tr = tr'"
proof -
  have key: "tr_dedupe_key u = nanos_key (tr_scheduled_for u)"
    if u: "u \<in> set (d_trigger_runs d)" "tr_trigger_id u = t_id t" "\<not> starts_with (tr_dedupe_key u) ''manual:''" for u
  proof -
    have "firing_ok T d u" using inv u(1) by (simp add: trigger_inv_def)
    then obtain v where "v \<in> set (d_triggers d)" "t_id v = t_id t" "slot_ok T v u"
      using u(2) by (auto simp: firing_ok_def)
    then have "slot_ok T t u" using same_trigger [OF inv _ t(1)] by blast
    then show ?thesis using t(2) u(3) by (simp add: slot_ok_def)
  qed
  have "distinct (map (\<lambda>u. (tr_trigger_id u, tr_dedupe_key u)) (d_trigger_runs d))"
    using inv by (simp add: trigger_inv_def)
  then show ?thesis by (rule distinct_map_inj) (use tr tr' same key [OF tr] key [OF tr'] in auto)
qed

text \<open>
  (C22) Interval and cron triggers fire each slot once: two recorded firings of a trigger for
  the same slot, by hand apart, are the same row. And they are never stuck: with new UUIDs and
  existing references, a dispatch of the first due trigger succeeds on either back end, records
  the slot, and moves the trigger past it or marks its schedule broken.
\<close>

theorem schedules_fire_each_slot_once:
  assumes reach: "trigger_reach sv T d" and lib: "cron_lib sv" and refs: "refs_ok sv"
    and fresh: "fresh_ids d run_id row_id"
  shows "(\<forall>t tr tr'. t \<in> set (d_triggers d) \<and> t_trigger_type t \<noteq> ''webhook'' \<and>
        tr \<in> set (d_trigger_runs d) \<and> tr_trigger_id tr = t_id t \<and> \<not> starts_with (tr_dedupe_key tr) ''manual:'' \<and>
        tr' \<in> set (d_trigger_runs d) \<and> tr_trigger_id tr' = t_id t \<and> \<not> starts_with (tr_dedupe_key tr') ''manual:'' \<and>
        tr_scheduled_for tr = tr_scheduled_for tr' \<longrightarrow> tr = tr')
    \<and> (\<forall>t. due_trigger ''interval'' now tmax d = Some t \<longrightarrow>
        (\<exists>v d'. dispatch_next_due_interval_trigger_with_limits sv run_id row_id tmax now d = (Inr v, d') \<and> moved_on t d'))
    \<and> (\<forall>t. due_trigger ''cron'' now tmax d = Some t \<longrightarrow>
        (\<exists>v d'. dispatch_next_due_cron_trigger sv run_id row_id tmax now d = (Inr v, d') \<and> moved_on t d'))
    \<and> (\<forall>t. due_trigger_sqlite ''interval'' now tmax d = Some t \<longrightarrow>
        (\<exists>v d'. dispatch_next_due_interval_trigger_with_limits_sqlite sv run_id row_id tmax now d = (Inr v, d') \<and>
          moved_on t d'))
    \<and> (\<forall>t. due_trigger_sqlite ''cron'' now tmax d = Some t \<longrightarrow>
        (\<exists>v d'. dispatch_next_due_cron_trigger_sqlite sv run_id row_id tmax now d = (Inr v, d') \<and> moved_on t d'))"
proof (intro conjI allI impI)
  have inv: "trigger_inv sv T d" by (rule reachable_inv [OF reach lib])
  then have ids: "ids_ok d" by (simp add: trigger_inv_def)
  note interval = fire_interval_moves_on [OF inv _ fresh refs] and cron = fire_cron_moves_on [OF inv lib _ fresh refs]
  show "tr = tr'" if "t \<in> set (d_triggers d) \<and> t_trigger_type t \<noteq> ''webhook'' \<and>
        tr \<in> set (d_trigger_runs d) \<and> tr_trigger_id tr = t_id t \<and> \<not> starts_with (tr_dedupe_key tr) ''manual:'' \<and>
        tr' \<in> set (d_trigger_runs d) \<and> tr_trigger_id tr' = t_id t \<and> \<not> starts_with (tr_dedupe_key tr') ''manual:'' \<and>
        tr_scheduled_for tr = tr_scheduled_for tr'" for t tr tr'
    using one_firing_per_slot [OF inv] that by blast
  show "\<exists>v d'. dispatch_next_due_interval_trigger_with_limits sv run_id row_id tmax now d = (Inr v, d') \<and> moved_on t d'"
    if due: "due_trigger ''interval'' now tmax d = Some t" for t
    using interval [OF due_trigger_law [OF due], where input = "t_input_json t"] due
    by (auto simp: dispatch_next_due_interval_trigger_with_limits_def fire_interval_with_def commit_def)
  show "\<exists>v d'. dispatch_next_due_cron_trigger sv run_id row_id tmax now d = (Inr v, d') \<and> moved_on t d'"
    if due: "due_trigger ''cron'' now tmax d = Some t" for t
    using cron [OF due_trigger_law [OF due], where input = "t_input_json t"] due
    by (auto simp: dispatch_next_due_cron_trigger_def fire_cron_with_def commit_def)
  show "\<exists>v d'. dispatch_next_due_interval_trigger_with_limits_sqlite sv run_id row_id tmax now d = (Inr v, d') \<and>
      moved_on t d'"
    if due: "due_trigger_sqlite ''interval'' now tmax d = Some t" for t
    using interval [OF due_trigger_sqlite_law [OF due], where input = "inject_trace_id (t_input_json t) run_id"]
      due due_trigger_sqlite_law [OF due] fire_interval_sqlite_eq [OF ids, of t]
    by (auto simp: dispatch_next_due_interval_trigger_with_limits_sqlite_def commit_def)
  show "\<exists>v d'. dispatch_next_due_cron_trigger_sqlite sv run_id row_id tmax now d = (Inr v, d') \<and> moved_on t d'"
    if due: "due_trigger_sqlite ''cron'' now tmax d = Some t" for t
    using cron [OF due_trigger_sqlite_law [OF due], where input = "inject_trace_id (t_input_json t) run_id"]
      due due_trigger_sqlite_law [OF due] fire_cron_sqlite_eq [OF ids, of t]
    by (auto simp: dispatch_next_due_cron_trigger_sqlite_def commit_def)
qed

section \<open>Events\<close>

text \<open>
  (C23) A webhook event is tried at most once, whatever the trigger's \<open>max_attempts\<close>. Its firing is
  unique; a processed event has exactly the run with its payload, under the trigger's tenant and
  grants, and only an event whose payload is too large is dead-lettered, after its first try.
\<close>

theorem events_run_at_most_once:
  assumes "trigger_reach sv T d" and "cron_lib sv" and e: "e \<in> set (d_trigger_events d)"
  shows "te_attempts e \<le> 1
    \<and> (\<forall>tr tr'. firing_of d e tr \<and> firing_of d e tr' \<longrightarrow> tr = tr')
    \<and> (te_status e = ''processed'' \<longrightarrow> (\<exists>t \<in> set (d_triggers d). \<exists>tr r. firing_of d e tr \<and>
        tr_run_id tr = Some (r_id r) \<and> r \<in> set (d_runs d) \<and> t_id t = te_trigger_id e \<and>
        r_tenant r = te_tenant_id e \<and> r_granted r = t_granted_capabilities t \<and>
        r_input r = inject_trace_id (merge_json_objects (t_input_json t)
          (webhook_envelope (t_id t) (te_event_id e) (te_payload_json e))) (r_id r)))
    \<and> (te_status e = ''dead_lettered'' \<longrightarrow> payload_too_large sv (te_payload_json e) \<and> te_attempts e = 1)"
proof (intro conjI)
  have inv: "trigger_inv sv T d" by (rule reachable_inv [OF assms(1,2)])
  then have ok: "event_ok sv d e" using e by (simp add: trigger_inv_def)
  then show "te_attempts e \<le> 1" by (auto simp: event_ok_def)
  show "te_status e = ''dead_lettered'' \<longrightarrow> payload_too_large sv (te_payload_json e) \<and> te_attempts e = 1"
    using ok by (auto simp: event_ok_def)
  have "distinct (map (\<lambda>u. (tr_trigger_id u, tr_dedupe_key u)) (d_trigger_runs d))"
    using inv by (simp add: trigger_inv_def)
  then show "\<forall>tr tr'. firing_of d e tr \<and> firing_of d e tr' \<longrightarrow> tr = tr'"
    unfolding firing_of_def by (auto elim!: distinct_map_inj)
  show "te_status e = ''processed'' \<longrightarrow> (\<exists>t \<in> set (d_triggers d). \<exists>tr r. firing_of d e tr \<and>
        tr_run_id tr = Some (r_id r) \<and> r \<in> set (d_runs d) \<and> t_id t = te_trigger_id e \<and>
        r_tenant r = te_tenant_id e \<and> r_granted r = t_granted_capabilities t \<and>
        r_input r = inject_trace_id (merge_json_objects (t_input_json t)
          (webhook_envelope (t_id t) (te_event_id e) (te_payload_json e))) (r_id r))"
  proof
    assume "te_status e = ''processed''"
    then obtain t tr r where "t \<in> set (d_triggers d)" "t_id t = te_trigger_id e" "t_tenant_id t = te_tenant_id e"
      "firing_of d e tr" "tr_run_id tr = Some (r_id r)" "r \<in> set (d_runs d)" "run_from t r"
      "r_input r = nr_input (webhook_run e t (r_id r))"
      using ok by (auto simp: event_ok_def processed_as_def)
    then show "\<exists>t \<in> set (d_triggers d). \<exists>tr r. firing_of d e tr \<and>
        tr_run_id tr = Some (r_id r) \<and> r \<in> set (d_runs d) \<and> t_id t = te_trigger_id e \<and>
        r_tenant r = te_tenant_id e \<and> r_granted r = t_granted_capabilities t \<and>
        r_input r = inject_trace_id (merge_json_objects (t_input_json t)
          (webhook_envelope (t_id t) (te_event_id e) (te_payload_json e))) (r_id r)"
      by (intro bexI [of _ t] exI [of _ tr] exI [of _ r])
        (simp_all add: run_from_def webhook_run_def run_of_trigger_def)
  qed
qed

lemma tried_event_fails:
  assumes ev: "event_now tmax d e t" and fired: "firing_of d e tr"
  shows "\<exists>err. fire_event sv run_id row_id now e t d = Inl err"
proof -
  have used: "insert_trigger_run u d0 = Inl UniqueViolation"
    if "d_trigger_runs d0 = d_trigger_runs d" "tr_trigger_id u = t_id t" "tr_dedupe_key u = te_event_id e" for u d0
    using that ev fired by (auto simp: insert_trigger_run_def list_ex_iff firing_of_def)
  show ?thesis
  proof (cases "payload_too_large sv (te_payload_json e)")
    case True
    then show ?thesis by (auto simp: fire_event_def used failed_trigger_run_def)
  next
    case False
    show ?thesis
    proof (cases "insert_run sv now (webhook_run e t run_id) d")
      case (Inr d1)
      then have "d_trigger_runs d1 = d_trigger_runs d" by (simp add: insert_run_Inr)
      with False Inr show ?thesis by (simp add: fire_event_def used created_trigger_run_def)
    qed (use False in \<open>simp add: fire_event_def\<close>)
  qed
qed

lemma tried_event_rolls_back:
  assumes "ids_ok d" and "firing_of d e tr"
  shows "due_event now tmax d = Some (e, t) \<Longrightarrow>
      \<exists>err. dispatch_next_due_webhook_event sv run_id row_id tmax now d = (Inl err, d)"
    and "due_event_sqlite now tmax d = Some (e, t) \<Longrightarrow>
      \<exists>err. dispatch_next_due_webhook_event_sqlite sv run_id row_id tmax now d = (Inl err, d)"
proof -
  show "\<exists>err. dispatch_next_due_webhook_event sv run_id row_id tmax now d = (Inl err, d)"
    if due: "due_event now tmax d = Some (e, t)"
    using tried_event_fails [OF due_event_law [OF due] assms(2), of sv run_id row_id now] due
    by (auto simp: dispatch_next_due_webhook_event_def commit_def)
  show "\<exists>err. dispatch_next_due_webhook_event_sqlite sv run_id row_id tmax now d = (Inl err, d)"
    if due: "due_event_sqlite now tmax d = Some (e, t)"
    using tried_event_fails [OF due_event_sqlite_law [OF due] assms(2), of sv run_id row_id now] due
      fire_event_sqlite_eq [OF assms(1), of e] due_event_sqlite_law [OF due]
    by (auto simp: dispatch_next_due_webhook_event_sqlite_def commit_def)
qed

text \<open>A dispatch whose first transaction fails at the current time fails as a whole.\<close>

lemma dispatch_fails:
  assumes "\<And>run_id row_id. \<exists>err. f run_id row_id tmax (o_now env (w_stmts w)) (w_db w) = (Inl err, w_db w)"
  shows "\<exists>msg w'. or_next (dispatch_tx env f tmax) k w = (Inl msg, w') \<and> w_db w' = w_db w"
proof -
  let ?run = "o_uuid env (w_uuids w)" and ?row = "o_uuid env (Suc (w_uuids w))"
  obtain err where "f ?run ?row tmax (o_now env (w_stmts w)) (w_db w) = (Inl err, w_db w)" using assms by blast
  then show ?thesis
    by (cases "o_fault env (w_stmts w)")
      (simp_all add: or_next_def dispatch_tx_def bind_def new_v4_def stmt_def Let_def)
qed

text \<open>
  An event that has been tried (it failed once and waits for its second attempt, or it was
  dead-lettered and then replayed) violates the unique key of \<open>trigger_runs\<close> when it comes first
  again: the whole dispatch fails and changes nothing, on either back end. Since it stays first,
  no trigger of any tenant is dispatched after it.
\<close>

theorem tried_event_blocks_dispatch:
  assumes "trigger_reach sv T (w_db w)" and "cron_lib sv"
    and tried: "te_attempts e = 1 \<or> (\<exists>tr. firing_of (w_db w) e tr)"
  shows "(\<forall>t. due_event (o_now env (w_stmts w)) tmax (w_db w) = Some (e, t) \<longrightarrow>
      (\<exists>msg w'. dispatch_next_due_trigger_with_limits env sv tmax w = (Inl msg, w') \<and> w_db w' = w_db w))
    \<and> (\<forall>t. due_event_sqlite (o_now env (w_stmts w)) tmax (w_db w) = Some (e, t) \<longrightarrow>
      (\<exists>msg w'. dispatch_next_due_trigger_with_limits_sqlite env sv tmax w = (Inl msg, w') \<and> w_db w' = w_db w))"
proof -
  have inv: "trigger_inv sv T (w_db w)" by (rule reachable_inv [OF assms(1,2)])
  then have ids: "ids_ok (w_db w)" by (simp add: trigger_inv_def)
  have fired: "\<exists>tr. firing_of (w_db w) e tr" if "e \<in> set (d_trigger_events (w_db w))" "te_status e = ''pending''"
  proof -
    have "event_ok sv (w_db w) e" using inv that(1) by (simp add: trigger_inv_def)
    then show ?thesis using tried that(2) by (auto simp: event_ok_def)
  qed
  show ?thesis
  proof (intro conjI allI impI)
    show "\<exists>msg w'. dispatch_next_due_trigger_with_limits env sv tmax w = (Inl msg, w') \<and> w_db w' = w_db w"
      if due: "due_event (o_now env (w_stmts w)) tmax (w_db w) = Some (e, t)" for t
    proof -
      obtain tr where "firing_of (w_db w) e tr" using fired due_event_law [OF due] by blast
      from tried_event_rolls_back(1) [OF ids this due] show ?thesis
        unfolding dispatch_next_due_trigger_with_limits_def by (rule dispatch_fails)
    qed
    show "\<exists>msg w'. dispatch_next_due_trigger_with_limits_sqlite env sv tmax w = (Inl msg, w') \<and> w_db w' = w_db w"
      if due: "due_event_sqlite (o_now env (w_stmts w)) tmax (w_db w) = Some (e, t)" for t
    proof -
      obtain tr where "firing_of (w_db w) e tr" using fired due_event_sqlite_law [OF due] by blast
      from tried_event_rolls_back(2) [OF ids this due] show ?thesis
        unfolding dispatch_next_due_trigger_with_limits_sqlite_def by (rule dispatch_fails)
    qed
  qed
qed

section \<open>Caps\<close>

text \<open>What a dispatch that starts a run adds.\<close>

definition started :: "trigger_record \<Rightarrow> uuid \<Rightarrow> db \<Rightarrow> db \<Rightarrow> bool" where
  "started t run_id d d' \<longleftrightarrow> (\<forall>r \<in> set (d_runs d). r_id r \<noteq> run_id) \<and>
     (\<exists>row tr. d_runs d' = d_runs d @ [row] \<and> d_trigger_runs d' = d_trigger_runs d @ [tr] \<and>
       active row \<and> r_id row = run_id \<and> r_tenant row = t_tenant_id t \<and>
       tr_trigger_id tr = t_id t \<and> tr_run_id tr = Some run_id)"

lemma insert_run_started:
  assumes "insert_run sv now (run_of_trigger t run_id input) d = Inr d1"
    and "d_runs d0 = d_runs d1" "d_trigger_runs d0 = d_trigger_runs d"
    and "insert_trigger_run (created_trigger_run row_id (t_id t) run_id sch key) d0 = Inr d'"
  shows "started t run_id d d'"
  using assms
  by (auto simp: insert_run_Inr insert_trigger_run_Inr started_def insert_check_def list_ex_iff
      row_of_new_def run_of_trigger_def created_trigger_run_def split: if_split_asm)

lemma fire_schedule_started:
  assumes "fire_schedule sv run_id row_id now t ttype input nxt d = Inr (Some v, d')"
  shows "td_trigger_id v = t_id t \<and> started t run_id d d'"
proof -
  obtain d1 where d1: "insert_run sv now (run_of_trigger t run_id input) d = Inr d1"
    and tr: "insert_trigger_run (created_trigger_run row_id (t_id t) run_id (t_next_fire_at t)
        (nanos_key (t_next_fire_at t)))
        (set_trigger (t_id t) (\<lambda>u. (mark_fired now u)\<lparr>t_next_fire_at := nxt\<rparr>) d1) = Inr d'"
    and v: "td_trigger_id v = t_id t"
    using assms by (auto simp: fire_schedule_def try_then_Inr dispatch_of_def)
  have "d_trigger_runs d1 = d_trigger_runs d" using d1 by (simp add: insert_run_Inr)
  with v insert_run_started [OF d1 _ _ tr] show ?thesis by simp
qed

lemma fire_interval_started:
  assumes "fire_interval_with sv input run_id row_id now t d = Inr (Some v, d')"
  shows "td_trigger_id v = t_id t \<and> started t run_id d d'"
  using assms fire_schedule_started
  by (fastforce simp: fire_interval_with_def fire_interval_def Let_def fire_schedule_input try_then_Inr
      split: option.split_asm if_split_asm)

lemma fire_cron_started:
  assumes "fire_cron_with sv input run_id row_id now t d = Inr (Some v, d')"
  shows "td_trigger_id v = t_id t \<and> started t run_id d d'"
  using assms fire_schedule_started
  by (fastforce simp: fire_cron_with_def fire_cron_def cron_failed_def fire_schedule_input try_then_Inr
      split: option.split_asm sum.split_asm)

lemma fire_event_started:
  assumes "fire_event sv run_id row_id now e t d = Inr (Some v, d')"
  shows "td_trigger_id v = t_id t \<and> started t run_id d d'"
proof -
  obtain d1 where d1: "insert_run sv now (webhook_run e t run_id) d = Inr d1"
    and tr: "insert_trigger_run (created_trigger_run row_id (t_id t) run_id now (te_event_id e))
        (set_trigger (t_id t) (mark_fired now) (set_event (te_id e) (mark_event_processed now) d1)) = Inr d'"
    and v: "td_trigger_id v = t_id t"
    using assms by (auto simp: fire_event_def try_then_Inr dispatch_of_def split: if_split_asm)
  have "d_trigger_runs d1 = d_trigger_runs d" using d1 by (simp add: insert_run_Inr)
  with v insert_run_started [OF d1 [unfolded webhook_run_def] _ _ tr] show ?thesis by simp
qed

lemma started_counts:
  assumes inv: "trigger_inv sv T d" and st: "started t run_id d d'"
  shows "count_inflight_runs_for_trigger_tx (t_id t) d' = count_inflight_runs_for_trigger_tx (t_id t) d + 1"
    and "count_inflight_runs_for_tenant_tx (t_tenant_id t) d' = count_inflight_runs_for_tenant_tx (t_tenant_id t) d + 1"
proof -
  obtain row tr where d': "d_runs d' = d_runs d @ [row]" "d_trigger_runs d' = d_trigger_runs d @ [tr]"
    and new: "active row" "r_id row = run_id" "r_tenant row = t_tenant_id t" "tr_trigger_id tr = t_id t"
      "tr_run_id tr = Some run_id" and fresh: "\<forall>r \<in> set (d_runs d). r_id r \<noteq> run_id"
    using st by (auto simp: started_def)
  let ?n = "\<lambda>rows u. length (filter (\<lambda>r. tr_run_id u = Some (r_id r) \<and> active r) rows)"
  have old: "?n (d_runs d @ [row]) u = ?n (d_runs d) u" if "u \<in> set (d_trigger_runs d)" for u
  proof -
    have "firing_ok T d u" using inv that by (simp add: trigger_inv_def)
    then have "tr_run_id u \<noteq> Some run_id" using fresh by (auto simp: firing_ok_def)
    then show ?thesis using new(2) by simp
  qed
  have none: "filter (\<lambda>r. tr_run_id tr = Some (r_id r) \<and> active r) (d_runs d) = []"
    using fresh new(5) by (auto simp: filter_empty_conv)
  have "sum_list (map (?n (d_runs d @ [row])) (filter (\<lambda>u. tr_trigger_id u = t_id t) (d_trigger_runs d))) =
      sum_list (map (?n (d_runs d)) (filter (\<lambda>u. tr_trigger_id u = t_id t) (d_trigger_runs d)))"
    by (rule arg_cong [where f = sum_list], rule map_cong) (use old in auto)
  then show "count_inflight_runs_for_trigger_tx (t_id t) d' = count_inflight_runs_for_trigger_tx (t_id t) d + 1"
    using new none by (simp add: count_inflight_runs_for_trigger_tx_def d')
  show "count_inflight_runs_for_tenant_tx (t_tenant_id t) d' = count_inflight_runs_for_tenant_tx (t_tenant_id t) d + 1"
    using new by (simp add: count_inflight_runs_for_tenant_tx_def count_tenant_inflight_runs_def d')
qed

text \<open>A run starts below both caps, so neither is exceeded after it.\<close>

definition within_caps :: "int \<Rightarrow> db \<Rightarrow> trigger_dispatch_record \<Rightarrow> db \<Rightarrow> bool" where
  "within_caps tmax d v d' \<longleftrightarrow> (\<exists>t \<in> set (d_triggers d). t_id t = td_trigger_id v \<and>
     count_inflight_runs_for_trigger_tx (t_id t) d' \<le> t_max_inflight_runs t \<and>
     count_inflight_runs_for_tenant_tx (t_tenant_id t) d' \<le> max tmax 1)"

lemma started_within_caps:
  assumes "trigger_inv sv T d" and "t \<in> set (d_triggers d)" and "below_caps tmax d t"
    and "td_trigger_id v = t_id t \<and> started t run_id d d'"
  shows "within_caps tmax d v d'"
  using assms started_counts [OF assms(1), of t run_id d'] by (auto simp: within_caps_def below_caps_def)

lemma commit_Inr: "(Inr v, d') = commit d r \<longleftrightarrow> r = Inr (v, d')"
  by (auto simp: commit_def split: sum.splits)

context trigger_backend
begin

lemma dispatch_caps:
  assumes inv: "trigger_inv sv T d"
  shows "webhook_fn sv run_id row_id tmax now d = (Inr (Some v), d') \<Longrightarrow> within_caps tmax d v d'"
    and "cron_fn sv run_id row_id tmax now d = (Inr (Some v), d') \<Longrightarrow> within_caps tmax d v d'"
    and "interval_fn sv run_id row_id tmax now d = (Inr (Some v), d') \<Longrightarrow> within_caps tmax d v d'"
proof -
  show "within_caps tmax d v d'" if step: "webhook_fn sv run_id row_id tmax now d = (Inr (Some v), d')"
  proof -
    obtain e t where x: "event_now tmax d e t" "fire_event sv run_id row_id now e t d = Inr (Some v, d')"
      using webhook_law [OF ids [OF inv] step] unfolding commit_Inr by blast
    show ?thesis
      by (rule started_within_caps [OF inv _ _ fire_event_started [OF x(2)]]) (use x(1) in simp_all)
  qed
  show "within_caps tmax d v d'" if step: "cron_fn sv run_id row_id tmax now d = (Inr (Some v), d')"
  proof -
    obtain t input where x: "due_now ''cron'' now tmax d t" "fire_cron_with sv input run_id row_id now t d = Inr (Some v, d')"
      using cron_law [OF ids [OF inv] step] unfolding commit_Inr by blast
    show ?thesis
      by (rule started_within_caps [OF inv _ _ fire_cron_started [OF x(2)]]) (use x(1) in simp_all)
  qed
  show "within_caps tmax d v d'" if step: "interval_fn sv run_id row_id tmax now d = (Inr (Some v), d')"
  proof -
    obtain t input where x: "due_now ''interval'' now tmax d t" "fire_interval_with sv input run_id row_id now t d = Inr (Some v, d')"
      using interval_law [OF ids [OF inv] step] unfolding commit_Inr by blast
    show ?thesis
      by (rule started_within_caps [OF inv _ _ fire_interval_started [OF x(2)]]) (use x(1) in simp_all)
  qed
qed

end

text \<open>
  (C24) After a dispatch has started a run, the trigger has no more runs in flight than its
  \<open>max_inflight_runs\<close>, and the tenant no more than the configured cap, on either back end.
\<close>

theorem dispatch_respects_caps:
  assumes "trigger_reach sv T d" and "cron_lib sv"
    and "f \<in> {dispatch_next_due_webhook_event, dispatch_next_due_cron_trigger,
      dispatch_next_due_interval_trigger_with_limits, dispatch_next_due_webhook_event_sqlite,
      dispatch_next_due_cron_trigger_sqlite, dispatch_next_due_interval_trigger_with_limits_sqlite}"
    and "f sv run_id row_id tmax now d = (Inr (Some v), d')"
  shows "\<exists>t \<in> set (d_triggers d). t_id t = td_trigger_id v \<and>
     count_inflight_runs_for_trigger_tx (t_id t) d' \<le> t_max_inflight_runs t \<and>
     count_inflight_runs_for_tenant_tx (t_tenant_id t) d' \<le> max tmax 1"
proof -
  note inv = reachable_inv [OF assms(1,2)]
  have "within_caps tmax d v d'"
    using assms(3,4) pg_triggers.dispatch_caps [OF inv] lite_triggers.dispatch_caps [OF inv]
    by (auto simp only: insert_iff empty_iff)
  then show ?thesis unfolding within_caps_def .
qed

section \<open>An example\<close>

text \<open>
  A webhook trigger with three attempts, an event for it, and an interval trigger that is due: the
  serialised payload is an argument.
\<close>

definition sample_sv :: "nat \<Rightarrow> trigger_services" where
  "sample_sv len =
     \<lparr>ts_timezone_error = (\<lambda>_. None), ts_schedule_error = (\<lambda>_. None),
      ts_next_after = (\<lambda>_ _ t. Some (seconds (secs t + 60))), ts_timestamp_error = (\<lambda>_. None),
      ts_hash = (\<lambda>_ _. 0), ts_to_vec = (\<lambda>_. Some (replicate len CHR ''x'')), ts_json_text = (\<lambda>_. []),
      ts_sha256_hex = (\<lambda>s. s), ts_run_fk = (\<lambda>_. True), ts_trigger_fk = (\<lambda>_ _. True)\<rparr>"

definition sample_hook :: trigger_record where
  "sample_hook = \<lparr>t_id = ''t'', t_tenant_id = ''a'', t_agent_id = ''g'', t_triggered_by_user_id = None,
     t_recipe_id = ''r'', t_status = ''enabled'', t_trigger_type = ''webhook'', t_interval_seconds = None,
     t_cron_expression = None, t_schedule_timezone = ''UTC'', t_misfire_policy = ''fire_now'',
     t_max_attempts = 3, t_max_inflight_runs = 2, t_jitter_seconds = 0, t_consecutive_failures = 0,
     t_dead_lettered_at = None, t_dead_letter_reason = None, t_webhook_secret_ref = None,
     t_input_json = JObject [], t_requested_capabilities = JArray [], t_granted_capabilities = JArray [],
     t_next_fire_at = 0, t_last_fired_at = None, t_created_at = 0, t_updated_at = 0\<rparr>"

definition sample_timer :: trigger_record where
  "sample_timer = sample_hook\<lparr>t_id := ''i'', t_trigger_type := ''interval'', t_interval_seconds := Some 60,
     t_max_attempts := 1\<rparr>"

definition sample_event :: "nat \<Rightarrow> trigger_event_row" where
  "sample_event len = \<lparr>te_id = ''e'', te_trigger_id = ''t'', te_tenant_id = ''a'', te_event_id = ''ev'',
     te_semantic_dedupe_key = replicate len CHR ''x'', te_payload_json = JObject [], te_status = ''pending'',
     te_attempts = 0, te_next_attempt_at = 0, te_last_error_json = None, te_created_at = 0,
     te_processed_at = None, te_dead_lettered_at = None\<rparr>"

definition sample_db :: "nat \<Rightarrow> db" where
  "sample_db len = empty_db\<lparr>d_triggers := [sample_hook, sample_timer], d_trigger_events := [sample_event len]\<rparr>"

lemma sample_lib: "cron_lib (sample_sv len)"
  using whole_and_rest by (auto simp: cron_lib_def sample_sv_def seconds_def) (smt (verit) whole_and_rest)

lemma sample_refs: "refs_ok (sample_sv len)"
  by (simp add: refs_ok_def sample_sv_def)

lemma sample_reach: "trigger_reach (sample_sv len) 0 (sample_db len)"
proof -
  let ?sv = "sample_sv len"
  let ?d1 = "empty_db\<lparr>d_triggers := [sample_hook]\<rparr>"
  let ?d2 = "empty_db\<lparr>d_triggers := [sample_hook, sample_timer]\<rparr>"
  have "create_webhook_trigger ?sv 0 \<lparr>nw_id = ''t'', nw_tenant_id = ''a'', nw_agent_id = ''g'',
      nw_triggered_by_user_id = None, nw_recipe_id = ''r'', nw_input_json = JObject [],
      nw_requested_capabilities = JArray [], nw_granted_capabilities = JArray [], nw_status = ''enabled'',
      nw_max_attempts = 3, nw_max_inflight_runs = 2, nw_jitter_seconds = 0, nw_webhook_secret_ref = None\<rparr>
      empty_db = (Inr sample_hook, ?d1)"
    by (simp add: create_webhook_trigger_def insert_trigger_def trigger_check_def trigger_type_check_def
        sample_hook_def sample_sv_def)
  then have 1: "trigger_reach ?sv 0 ?d1"
    by (blast intro: trigger_reach.empty trigger_reach.step trigger_step.create_webhook order_refl)
  have "create_interval_trigger ?sv 0 \<lparr>ni_id = ''i'', ni_tenant_id = ''a'', ni_agent_id = ''g'',
      ni_triggered_by_user_id = None, ni_recipe_id = ''r'', ni_interval_seconds = 60, ni_input_json = JObject [],
      ni_requested_capabilities = JArray [], ni_granted_capabilities = JArray [], ni_next_fire_at = 0,
      ni_status = ''enabled'', ni_misfire_policy = ''fire_now'', ni_max_attempts = 1,
      ni_max_inflight_runs = 2, ni_jitter_seconds = 0, ni_webhook_secret_ref = None\<rparr>
      ?d1 = (Inr sample_timer, ?d2)"
    by (simp add: create_interval_trigger_def insert_trigger_def trigger_check_def trigger_type_check_def
        sample_hook_def sample_timer_def sample_sv_def)
  with 1 have 2: "trigger_reach ?sv 0 ?d2"
    by (blast intro: trigger_reach.step trigger_step.create_interval order_refl)
  have "enqueue_trigger_event ?sv ''e'' 0 ''a'' ''t'' ''ev'' (JObject []) ?d2 = (EventEnqueued, sample_db len)"
    by (simp add: enqueue_trigger_event_def get_trigger_def sample_hook_def sample_timer_def sample_sv_def
        compute_trigger_event_semantic_dedupe_key_def unwrap_or_def sample_db_def sample_event_def Let_def)
  with 2 show ?thesis by (blast intro: trigger_reach.step trigger_step.enqueue order_refl)
qed

lemma sample_due:
  "due_event 0 5 (sample_db len) = Some (sample_event len, sample_hook)"
  "due_trigger ''interval'' 0 5 (sample_db len) = Some sample_timer"
  by (simp_all add: due_event_def due_trigger_def event_joins_def first_of_def sample_db_def below_caps_def
      count_inflight_runs_for_trigger_tx_def count_inflight_runs_for_tenant_tx_def
      count_tenant_inflight_runs_def sample_hook_def sample_timer_def sample_event_def)

text \<open>A payload that fits is processed; one that does not is put off for thirty seconds.\<close>

definition sample_run :: run_row where
  "sample_run = row_of_new 0 None (webhook_run (sample_event 10) sample_hook ''run'')"

definition sample_done :: db where
  "sample_done = \<lparr>d_runs = [sample_run], d_steps = [], d_requests = [], d_results = [], d_audit = [],
     d_artifacts = [], d_triggers = [mark_fired 0 sample_hook, sample_timer],
     d_trigger_runs = [created_trigger_run ''row'' ''t'' ''run'' 0 ''ev''],
     d_trigger_events = [mark_event_processed 0 (sample_event 10)], d_trigger_audit = [],
     d_leases = Map.empty, d_memory = [], d_compactions = [], d_outbox = []\<rparr>"

definition sample_tried :: db where
  "sample_tried = (sample_db 70000)\<lparr>d_trigger_runs := [failed_trigger_run ''row'' ''t'' 0 ''ev'' event_error],
     d_trigger_events := [mark_event_failed 0 False (sample_event 70000)]\<rparr>"

lemma sample_processed:
  "dispatch_next_due_webhook_event (sample_sv 10) ''run'' ''row'' 5 0 (sample_db 10) =
     (Inr (Some (dispatch_of sample_hook ''webhook'' (Some ''ev'') ''run'' 0 0)), sample_done)"
proof -
  have small: "\<not> payload_too_large (sample_sv 10) (te_payload_json (sample_event 10))"
    by (simp add: payload_too_large_def sample_sv_def max_event_payload_bytes_def)
  have fk: "ts_run_fk (sample_sv 10) n" for n by (simp add: sample_sv_def)
  have "fire_event (sample_sv 10) ''run'' ''row'' 0 (sample_event 10) sample_hook (sample_db 10) =
      Inr (Some (dispatch_of sample_hook ''webhook'' (Some ''ev'') ''run'' 0 0), sample_done)"
    unfolding fire_event_def if_not_P [OF small]
    by (simp add: insert_run_def create_run_def insert_check_def fk Let_def insert_trigger_run_def
        sample_run_def sample_done_def set_event_def set_trigger_def sample_db_def created_trigger_run_def
        webhook_run_def run_of_trigger_def run_statuses_def empty_db_def sample_event_def sample_hook_def
        sample_timer_def mark_fired_def mark_event_processed_def row_of_new_def)
  then show ?thesis by (simp add: dispatch_next_due_webhook_event_def sample_due commit_def)
qed

lemma sample_put_off:
  "dispatch_next_due_webhook_event (sample_sv 70000) ''run'' ''row'' 5 0 (sample_db 70000) = (Inr None, sample_tried)"
proof -
  have large: "payload_too_large (sample_sv 70000) (te_payload_json (sample_event 70000))"
    by (simp add: payload_too_large_def sample_sv_def max_event_payload_bytes_def)
  have "fire_event (sample_sv 70000) ''run'' ''row'' 0 (sample_event 70000) sample_hook (sample_db 70000) =
      Inr (None, sample_tried)"
    unfolding fire_event_def if_P [OF large]
    by (simp add: insert_trigger_run_def sample_tried_def set_event_def sample_db_def failed_trigger_run_def
        sample_event_def sample_hook_def sample_timer_def mark_event_failed_def)
  then show ?thesis by (simp add: dispatch_next_due_webhook_event_def sample_due commit_def)
qed

lemma sample_done_reach: "trigger_reach (sample_sv 10) 0 sample_done"
  by (rule trigger_reach.step [OF sample_reach order_refl trigger_step.webhook [OF sample_processed]])

lemma sample_tried_reach: "trigger_reach (sample_sv 70000) 0 sample_tried"
  by (rule trigger_reach.step [OF sample_reach order_refl trigger_step.webhook [OF sample_put_off]])

theorem triggered_runs_follow_their_trigger_witness:
  "\<exists>t \<in> set (d_triggers sample_done). \<exists>r \<in> set (d_runs sample_done). t_id t = ''t'' \<and> r_id r = ''run'' \<and>
     r_granted r = t_granted_capabilities t"
  using triggered_runs_follow_their_trigger [OF sample_done_reach sample_lib,
    of "created_trigger_run ''row'' ''t'' ''run'' 0 ''ev''" "''run''"]
  by (auto simp: sample_done_def created_trigger_run_def)

theorem schedules_fire_each_slot_once_witness:
  "\<exists>v d'. dispatch_next_due_interval_trigger_with_limits (sample_sv 10) ''run'' ''row'' 5 0 (sample_db 10) =
     (Inr v, d') \<and> moved_on sample_timer d'"
proof -
  have "fresh_ids (sample_db 10) ''run'' ''row''" by (simp add: fresh_ids_def sample_db_def)
  from schedules_fire_each_slot_once [OF sample_reach sample_lib sample_refs this, of 0 5]
  show ?thesis using sample_due(2) by blast
qed

theorem events_run_at_most_once_witness:
  "te_status (mark_event_processed 0 (sample_event 10)) = ''processed'' \<and>
   (\<exists>tr r. firing_of sample_done (mark_event_processed 0 (sample_event 10)) tr \<and>
     tr_run_id tr = Some (r_id r) \<and> r \<in> set (d_runs sample_done))"
proof -
  have e: "mark_event_processed 0 (sample_event 10) \<in> set (d_trigger_events sample_done)"
    by (simp add: sample_done_def)
  have s: "te_status (mark_event_processed 0 (sample_event 10)) = ''processed''"
    by (simp add: mark_event_processed_def)
  show ?thesis using events_run_at_most_once [OF sample_done_reach sample_lib e] s by blast
qed

theorem dispatch_respects_caps_witness:
  "\<exists>t \<in> set (d_triggers (sample_db 10)). count_inflight_runs_for_trigger_tx (t_id t) sample_done \<le> t_max_inflight_runs t"
  using dispatch_respects_caps [where f = dispatch_next_due_webhook_event, OF sample_reach sample_lib _ sample_processed]
  by blast

text \<open>
  At thirty seconds the event that was too large comes first again, and the interval trigger is due
  behind it.
\<close>

definition sample_scheduler :: outside where
  "sample_scheduler = \<lparr>o_uuid = (\<lambda>n. replicate n CHR ''u''), o_now = (\<lambda>_. 30000), o_fault = (\<lambda>_. None),
     o_sql_text = (\<lambda>_. ''duplicate key'')\<rparr>"

definition sample_blocked :: "unit world" where
  "sample_blocked = \<lparr>w_db = sample_tried, w_ext = (), w_uuids = 0, w_stmts = 0, w_calls = []\<rparr>"

lemma sample_due_again:
  "due_event 30000 5 sample_tried = Some (mark_event_failed 0 False (sample_event 70000), sample_hook)"
  "due_trigger ''interval'' 30000 5 sample_tried = Some sample_timer"
  by (simp_all add: due_event_def due_trigger_def event_joins_def first_of_def sample_tried_def sample_db_def
      below_caps_def count_inflight_runs_for_trigger_tx_def count_inflight_runs_for_tenant_tx_def
      count_tenant_inflight_runs_def sample_hook_def sample_timer_def sample_event_def mark_event_failed_def
      seconds_def failed_trigger_run_def)

theorem tried_event_blocks_dispatch_witness:
  "due_trigger ''interval'' 30000 5 (w_db sample_blocked) = Some sample_timer \<and>
   (\<exists>msg w'. dispatch_next_due_trigger_with_limits sample_scheduler (sample_sv 70000) 5 sample_blocked = (Inl msg, w') \<and>
     w_db w' = w_db sample_blocked)"
proof -
  have db: "w_db sample_blocked = sample_tried" and now: "o_now sample_scheduler (w_stmts sample_blocked) = 30000"
    by (simp_all add: sample_blocked_def sample_scheduler_def)
  have tried: "te_attempts (mark_event_failed 0 False (sample_event 70000)) = 1"
    by (simp add: mark_event_failed_def sample_event_def)
  have "\<exists>msg w'. dispatch_next_due_trigger_with_limits sample_scheduler (sample_sv 70000) 5 sample_blocked = (Inl msg, w') \<and>
      w_db w' = w_db sample_blocked"
    using tried_event_blocks_dispatch [of "sample_sv 70000" 0 sample_blocked, unfolded db, OF sample_tried_reach
        sample_lib disjI1 [OF tried], of sample_scheduler 5] sample_due_again(1) unfolding now db by blast
  then show ?thesis using sample_due_again(2) by (simp add: db)
qed

end
