(* ===== verification/ApiTriggerSafety.thy ===== *)
theory ApiTriggerSafety
  imports ApiTriggers TriggerProperties ApiToWorker
begin

text \<open>
  Who can change what through the trigger endpoints: every change of the trigger tables is
  traced to a caller with the right role, tenant and user, or, for a posted event, to the secret
  of the webhook.
\<close>

section \<open>The caller\<close>

lemma mutation_caller_Inr:
  assumes "mutation_caller ty st hs = Inr (tenant, role, actor)"
  shows "tenant_from_headers hs = Inr tenant" "role_from_headers st hs = Inr role" "role \<noteq> Viewer"
    "user_id_from_headers (ty_parse_uuid ty) st hs = Inr actor" "token_ok st hs"
proof -
  show r: "role_from_headers st hs = Inr role" and "tenant_from_headers hs = Inr tenant"
      "user_id_from_headers (ty_parse_uuid ty) st hs = Inr actor" "role \<noteq> Viewer"
    using assms
    by (auto simp: mutation_caller_def try_then_Inr ensure_trigger_mutation_role_def split: if_splits)
  show "token_ok st hs" using role_needs_token [OF r] .
qed

text \<open>An owner may change any trigger of the tenant, an operator only those that run for him.\<close>

definition may_change :: "role_preset \<Rightarrow> uuid option \<Rightarrow> trigger_record \<Rightarrow> bool" where
  "may_change role actor t \<longleftrightarrow>
     role = Owner \<or> role = Operator \<and> actor \<noteq> None \<and> t_triggered_by_user_id t = actor"

lemma ownership_may_change:
  assumes "ensure_trigger_operator_ownership role actor (t_triggered_by_user_id t) = Inr ()" and "role \<noteq> Viewer"
  shows "may_change role actor t"
  using assms by (cases role) (auto simp: ensure_trigger_operator_ownership_def may_change_def
      split: if_splits option.splits)

section \<open>What a call may do\<close>

text \<open>A new trigger: of the caller's tenant, for a user he may act for, with his role's grants.\<close>

definition created_for :: "app_state \<Rightarrow> string \<Rightarrow> role_preset \<Rightarrow> uuid option \<Rightarrow> db \<Rightarrow> trigger_record \<Rightarrow> bool" where
  "created_for st tenant role actor d t \<longleftrightarrow>
     t_tenant_id t = tenant \<and> may_change role actor t \<and>
     resolve_granted_capabilities (t_recipe_id t) role (t_requested_capabilities t) =
       Inr (t_granted_capabilities t) \<and>
     trigger_check t \<and> t_max_inflight_runs t \<le> 1000 \<and> t_max_attempts t \<le> 20 \<and>
     (\<forall>n. t_interval_seconds t = Some n \<longrightarrow> n \<le> max_interval_seconds) \<and>
     (\<forall>limit. st_tenant_max_triggers st = Some limit \<longrightarrow> count_tenant_triggers tenant d < limit)"

text \<open>Rows of other triggers are kept, and the changed one keeps what it runs and for whom.\<close>

definition only_changes :: "uuid \<Rightarrow> trigger_record \<Rightarrow> trigger_record \<Rightarrow> bool" where
  "only_changes i t t' \<longleftrightarrow> t' = t \<or> t_id t = i \<and> trigger_ident t' = trigger_ident t"

definition fired_by :: "trigger_record \<Rightarrow> db \<Rightarrow> db \<Rightarrow> bool" where
  "fired_by t d d' \<longleftrightarrow> trigger_ready t \<and> (\<exists>r tr. d_runs d' = d_runs d @ [r] \<and> run_from t r \<and>
     r_status r = ''queued'' \<and> d_trigger_runs d' = d_trigger_runs d @ [tr] \<and>
     tr_trigger_id tr = t_id t \<and> tr_run_id tr = Some (r_id r))"

definition firings_kept :: "db \<Rightarrow> db \<Rightarrow> bool" where
  "firings_kept d d' \<longleftrightarrow> d_runs d' = d_runs d \<and> d_trigger_runs d' = d_trigger_runs d"

definition authorised_change :: "app_state \<Rightarrow> string \<Rightarrow> role_preset \<Rightarrow> uuid option \<Rightarrow> db \<Rightarrow> db \<Rightarrow> bool" where
  "authorised_change st tenant role actor d d' \<longleftrightarrow>
     (\<exists>t. d_triggers d' = d_triggers d @ [t] \<and> created_for st tenant role actor d t \<and> firings_kept d d') \<or>
     (\<exists>t \<in> set (d_triggers d). t_tenant_id t = tenant \<and> may_change role actor t \<and>
        list_all2 (only_changes (t_id t)) (d_triggers d) (d_triggers d') \<and>
        (firings_kept d d' \<or> fired_by t d d'))"

definition trigger_outcome :: "trigger_api_services \<Rightarrow> app_state \<Rightarrow> headers \<Rightarrow> db \<Rightarrow> db \<Rightarrow> bool" where
  "trigger_outcome ty st hs d d' \<longleftrightarrow>
     d_triggers d' = d_triggers d \<and> firings_kept d d' \<or>
     (\<exists>tenant role actor. mutation_caller ty st hs = Inr (tenant, role, actor) \<and>
        authorised_change st tenant role actor d d')"

text \<open>A new event, and an event put back.\<close>

definition secret_shown :: "(string \<Rightarrow> string + string option) \<Rightarrow> headers \<Rightarrow> trigger_record \<Rightarrow> bool" where
  "secret_shown resolve hs t \<longleftrightarrow> (\<forall>ref. t_webhook_secret_ref t = Some ref \<longrightarrow>
     (\<exists>s. resolve ref = Inr (Some s) \<and> hs ''x-trigger-secret'' = Some (Some s)))"

definition posted :: "trigger_api_services \<Rightarrow> headers \<Rightarrow> db \<Rightarrow> db \<Rightarrow> bool" where
  "posted ty hs d d' \<longleftrightarrow> (\<exists>t \<in> set (d_triggers d). \<exists>e.
     tenant_from_headers hs = Inr (t_tenant_id t) \<and> t_trigger_type t = ''webhook'' \<and> trigger_ready t \<and>
     secret_shown (ty_resolve_secret ty) hs t \<and>
     d_trigger_events d' = d_trigger_events d @ [e] \<and> te_trigger_id e = t_id t \<and>
     te_tenant_id e = t_tenant_id t \<and> te_status e = ''pending'' \<and> te_attempts e = 0 \<and>
     (\<forall>f \<in> set (d_trigger_events d). \<not> event_conflict e f))"

definition put_back :: "trigger_event_row \<Rightarrow> trigger_event_row \<Rightarrow> bool" where
  "put_back e e' \<longleftrightarrow> e' = e \<or> te_status e = ''dead_lettered'' \<and> te_status e' = ''pending'' \<and> te_attempts e' = 0 \<and>
     te_id e' = te_id e \<and> te_trigger_id e' = te_trigger_id e \<and> te_event_id e' = te_event_id e \<and>
     te_payload_json e' = te_payload_json e"

definition replayed :: "trigger_api_services \<Rightarrow> app_state \<Rightarrow> headers \<Rightarrow> db \<Rightarrow> db \<Rightarrow> bool" where
  "replayed ty st hs d d' \<longleftrightarrow> (\<exists>tenant role actor. \<exists>t \<in> set (d_triggers d).
     mutation_caller ty st hs = Inr (tenant, role, actor) \<and> t_tenant_id t = tenant \<and> may_change role actor t \<and>
     trigger_ready t \<and> list_all2 put_back (d_trigger_events d) (d_trigger_events d'))"

definition events_outcome :: "trigger_api_services \<Rightarrow> app_state \<Rightarrow> headers \<Rightarrow> db \<Rightarrow> db \<Rightarrow> bool" where
  "events_outcome ty st hs d d' \<longleftrightarrow> d_trigger_events d' = d_trigger_events d \<or> posted ty hs d d' \<or>
     replayed ty st hs d d'"

definition call_outcome :: "trigger_api_services \<Rightarrow> app_state \<Rightarrow> headers \<Rightarrow> db \<Rightarrow> db \<Rightarrow> bool" where
  "call_outcome ty st hs d d' \<longleftrightarrow> trigger_outcome ty st hs d d' \<and> events_outcome ty st hs d d'"

section \<open>Steps of the handlers\<close>

text \<open>However it ends, \<open>m\<close> leaves a database that satisfies \<open>R\<close>.\<close>

definition leaves :: "(db \<Rightarrow> bool) \<Rightarrow> ('x, 'a) handler \<Rightarrow> 'x world \<Rightarrow> bool" where
  "leaves R m w \<longleftrightarrow> hwp m (\<lambda>_ w'. R (w_db w')) (\<lambda>_ w'. R (w_db w')) w"

definition same_tables :: "db \<Rightarrow> db \<Rightarrow> bool" where
  "same_tables d d' \<longleftrightarrow> d_triggers d' = d_triggers d \<and> d_trigger_runs d' = d_trigger_runs d \<and>
     d_runs d' = d_runs d \<and> d_trigger_events d' = d_trigger_events d"

lemma same_tables_refl [simp]: "same_tables d d"
  by (simp add: same_tables_def)

lemma call_outcome_same: "same_tables d1 d2 \<Longrightarrow> call_outcome ty st hs d d1 = call_outcome ty st hs d d2"
  by (simp add: same_tables_def call_outcome_def trigger_outcome_def events_outcome_def
      authorised_change_def firings_kept_def fired_by_def posted_def replayed_def)

lemma call_outcome_none: "same_tables d d' \<Longrightarrow> call_outcome ty st hs d d'"
  by (simp add: same_tables_def call_outcome_def trigger_outcome_def events_outcome_def firings_kept_def)

definition closed :: "(db \<Rightarrow> bool) \<Rightarrow> bool" where
  "closed R \<longleftrightarrow> (\<forall>d d'. same_tables d d' \<longrightarrow> R d \<longrightarrow> R d')"

lemma closed_outcome: "closed (call_outcome ty st hs d)"
  using call_outcome_same by (auto simp: closed_def)

lemma closedD: "closed R \<Longrightarrow> R d \<Longrightarrow> same_tables d d' \<Longrightarrow> R d'"
  by (auto simp: closed_def)

lemma leaves_from_result:
  "R (w_db w) \<Longrightarrow> (\<And>v. r = Inr v \<Longrightarrow> leaves R (k v) w) \<Longrightarrow> leaves R (and_then (from_result r) k) w"
  by (cases r) (simp_all add: leaves_def hwp_simps)

lemma leaves_done: "R (w_db w) \<Longrightarrow> leaves R (done_with v) w" "R (w_db w) \<Longrightarrow> leaves R (reject e) w"
  by (simp_all add: leaves_def hwp_simps)

lemma leaves_load:
  assumes "R (w_db w)"
    and "\<And>t w'. w_db w' = w_db w \<Longrightarrow> get_trigger tenant i (w_db w) = Some t \<Longrightarrow> leaves R (k t) w'"
  shows "leaves R (and_then (load_trigger env tenant i) k) w"
  unfolding leaves_def load_trigger_def hwp_simps
  by (rule wp_read) (use assms in \<open>auto simp: leaves_def hwp_simps split: option.split\<close>)

lemma leaves_audit:
  assumes "closed R" "R (w_db w)"
    and "\<And>w'. R (w_db w') \<Longrightarrow> leaves R (k ()) w'"
  shows "leaves R (and_then (append_trigger_audit env tenant i role ty p) k) w"
  unfolding leaves_def append_trigger_audit_def hwp_simps wp_simps
proof (rule wp_stmtI, goal_cases)
  case (2 now v w')
  then have "same_tables (w_db w) (w_db w')"
    by (auto simp: append_trigger_audit_event_def same_tables_def split: if_splits)
  then have "R (w_db w')" using assms(1,2) by (blast dest: closedD)
  then show ?case using assms(3) by (simp add: leaves_def)
qed (use assms(2) in simp)

text \<open>A statement on the trigger tables, after fresh UUIDs.\<close>

lemma leaves_stmt:
  assumes "R (w_db w)"
    and "\<And>now v w'. fst (f now (w_db w)) = Inr v \<Longrightarrow> w_db w' = snd (f now (w_db w)) \<Longrightarrow> leaves R (k v) w'"
  shows "leaves R (and_then (or_internal what (stmt env f)) k) w"
  unfolding leaves_def hwp_simps
  by (rule wp_stmtI) (use assms in \<open>auto simp: leaves_def\<close>)

lemma leaves_bind_new:
  assumes "\<And>i w'. w_db w' = w_db w \<Longrightarrow> leaves R (and_then (or_internal what (m i)) k) w'"
  shows "leaves R (and_then (or_internal what (bind (new_v4 env) m)) k) w"
  using assms by (simp add: leaves_def hwp_simps wp_simps)

lemma leaves_bind_now:
  assumes "\<And>t w'. w_db w' = w_db w \<Longrightarrow> leaves R (and_then (or_internal what (m t)) k) w'"
  shows "leaves R (and_then (or_internal what (bind (now_utc env) m)) k) w"
  using assms by (simp add: leaves_def hwp_simps wp_simps)

lemmas leaves_intros = leaves_from_result leaves_done leaves_load leaves_audit leaves_bind_new leaves_bind_now

lemma get_trigger_Some:
  assumes "get_trigger tenant i d = Some t"
  shows "t \<in> set (d_triggers d)" "t_tenant_id t = tenant" "t_id t = i"
  using assms by (auto simp: get_trigger_def dest: find_SomeD)

subsection \<open>Creating\<close>

lemma leaves_capacity:
  assumes "R (w_db w)"
    and "\<And>w'. w_db w' = w_db w \<Longrightarrow>
      \<forall>limit. st_tenant_max_triggers st = Some limit \<longrightarrow> count_tenant_triggers tenant (w_db w) < limit \<Longrightarrow>
      leaves R (k ()) w'"
  shows "leaves R (and_then (ensure_tenant_trigger_capacity env sh st tenant) k) w"
proof (cases "st_tenant_max_triggers st")
  case None
  then show ?thesis
    using assms(2) [of w] by (simp add: leaves_def ensure_tenant_trigger_capacity_def hwp_simps)
next
  case (Some limit)
  then show ?thesis
    by (simp add: leaves_def ensure_tenant_trigger_capacity_def hwp_simps, intro wp_read)
      (use assms Some in \<open>auto simp: leaves_def hwp_simps\<close>)
qed

text \<open>What the three inserts share: they append one row for the given tenant, user and grants.\<close>

definition row_for :: "string \<Rightarrow> uuid option \<Rightarrow> string \<Rightarrow> json \<Rightarrow> json \<Rightarrow> trigger_record \<Rightarrow> bool" where
  "row_for tenant user recipe requested granted t \<longleftrightarrow>
     t_tenant_id t = tenant \<and> t_triggered_by_user_id t = user \<and> t_recipe_id t = recipe \<and>
     t_requested_capabilities t = requested \<and> t_granted_capabilities t = granted \<and>
     trigger_check t \<and> t_max_inflight_runs t \<le> 1000 \<and> t_max_attempts t \<le> 20 \<and>
     (\<forall>n. t_interval_seconds t = Some n \<longrightarrow> n \<le> max_interval_seconds)"

definition inserts ::
    "string \<Rightarrow> json \<Rightarrow> (string \<Rightarrow> uuid option \<Rightarrow> json \<Rightarrow> ('x, trigger_record) handler) \<Rightarrow> bool" where
  "inserts recipe requested store \<longleftrightarrow> (\<forall>R tenant user granted k w. R (w_db w) \<longrightarrow>
     (\<forall>t w'. w_db w' = (w_db w)\<lparr>d_triggers := d_triggers (w_db w) @ [t]\<rparr> \<longrightarrow>
        row_for tenant user recipe requested granted t \<longrightarrow> leaves R (k t :: ('x, nat \<times> trigger_body) handler) w') \<longrightarrow>
     leaves R (and_then (store tenant user granted) k) w)"

lemma insertsD:
  fixes k :: "trigger_record \<Rightarrow> ('x, nat \<times> trigger_body) handler"
  assumes "inserts recipe requested store" "R (w_db w)"
    and "\<And>t w'. w_db w' = (w_db w)\<lparr>d_triggers := d_triggers (w_db w) @ [t]\<rparr> \<Longrightarrow>
        row_for tenant user recipe requested granted t \<Longrightarrow> leaves R (k t) w'"
  shows "leaves R (and_then (store tenant user granted) k) w"
  by (rule assms(1) [unfolded inserts_def, rule_format, of R w]) (use assms(2,3) in auto)

lemma inserted_row:
  assumes "fst (insert_trigger sv t d) = Inr v"
    and "trigger_check t \<Longrightarrow> row_for tenant user recipe requested granted t"
  shows "snd (insert_trigger sv t d) = d\<lparr>d_triggers := d_triggers d @ [v]\<rparr> \<and>
    row_for tenant user recipe requested granted v"
  using assms by (auto simp: insert_trigger_def split: if_splits)

lemma leaves_insert:
  assumes "R (w_db w)"
    and "\<And>now d v. fst (f now d) = Inr v \<Longrightarrow> snd (f now d) = d\<lparr>d_triggers := d_triggers d @ [v]\<rparr> \<and>
      row_for tenant user recipe requested granted v"
    and "\<forall>t w'. w_db w' = (w_db w)\<lparr>d_triggers := d_triggers (w_db w) @ [t]\<rparr> \<longrightarrow>
        row_for tenant user recipe requested granted t \<longrightarrow> leaves R (k t) w'"
  shows "leaves R (and_then (or_internal what (stmt env f)) k) w"
  by (rule leaves_stmt) (use assms in auto)

lemma actor_may_change:
  assumes "resolve_trigger_actor_for_create role actor requested = Inr user" "t_triggered_by_user_id t = user"
  shows "may_change role actor t"
  using assms by (auto simp: resolve_trigger_actor_for_create_def may_change_def
      split: role_preset.splits option.splits if_splits)

lemma created_outcome:
  assumes "mutation_caller ty st hs = Inr (tenant, role, actor)"
    and "resolve_trigger_actor_for_create role actor requested_user = Inr user"
    and "resolve_granted_capabilities recipe role requested = Inr granted"
    and "\<forall>limit. st_tenant_max_triggers st = Some limit \<longrightarrow> count_tenant_triggers tenant d < limit"
    and "row_for tenant user recipe requested granted t"
  shows "call_outcome ty st hs d (d\<lparr>d_triggers := d_triggers d @ [t]\<rparr>)"
proof -
  have "may_change role actor t" using assms(2,5) by (auto simp: row_for_def intro: actor_may_change)
  then have "created_for st tenant role actor d t"
    using assms(3-5) by (auto simp: created_for_def row_for_def)
  then show ?thesis
    using assms(1) by (auto simp: call_outcome_def trigger_outcome_def authorised_change_def firings_kept_def
        events_outcome_def)
qed

lemma leaves_create_with:
  assumes "inserts recipe requested store"
  shows "leaves (call_outcome ty st hs (w_db w))
    (create_trigger_with env ty st hs requested_user recipe requested store details) w"
  unfolding create_trigger_with_def
proof (rule leaves_from_result, simp add: call_outcome_none, clarify)
  fix tenant role actor
  assume caller: "mutation_caller ty st hs = Inr (tenant, role, actor)"
  let ?R = "call_outcome ty st hs (w_db w)"
  have stored: "leaves ?R (and_then (store tenant user granted) (\<lambda>created.
      and_then (append_trigger_audit env tenant (t_id created) role ''trigger.created'' (details created)) (\<lambda>_.
        done_with (201::nat, TriggerBody (trigger_to_response created))))) w'"
    if "resolve_trigger_actor_for_create role actor requested_user = Inr user"
      "resolve_granted_capabilities recipe role requested = Inr granted" "w_db w' = w_db w"
      "\<forall>limit. st_tenant_max_triggers st = Some limit \<longrightarrow> count_tenant_triggers tenant (w_db w) < limit"
    for user granted w'
    by (rule insertsD [OF assms]; (intro leaves_audit closed_outcome leaves_done)?)
      (simp_all add: that call_outcome_none created_outcome [OF caller that(1,2,4)])
  show "leaves ?R (and_then (from_result (resolve_trigger_actor_for_create role actor requested_user)) (\<lambda>user.
      and_then (from_result (resolve_granted_capabilities recipe role requested)) (\<lambda>granted.
      and_then (ensure_tenant_trigger_capacity env (ty_show_int ty) st tenant) (\<lambda>_.
      and_then (store tenant user granted) (\<lambda>created.
      and_then (append_trigger_audit env tenant (t_id created) role ''trigger.created'' (details created)) (\<lambda>_.
        done_with (201::nat, TriggerBody (trigger_to_response created)))))))) w"
    by (intro leaves_from_result leaves_capacity stored) (simp_all add: call_outcome_none)
qed

lemma check_limits:
  "check_inflight_and_jitter n j = Inr () \<Longrightarrow> n \<le> 1000"
  "check_attempts a = Inr () \<Longrightarrow> a \<le> 20"
  "check_interval_request req = Inr () \<Longrightarrow>
     ct_interval_seconds req \<le> max_interval_seconds \<and> ct_max_inflight_runs req \<le> 1000"
  "check_cron_request cq = Inr () \<Longrightarrow> cx_max_inflight_runs cq \<le> 1000 \<and> cx_max_attempts cq \<le> 20"
  "check_webhook_request wq = Inr () \<Longrightarrow> cw_max_inflight_runs wq \<le> 1000 \<and> cw_max_attempts wq \<le> 20"
  by (auto simp: check_inflight_and_jitter_def check_attempts_def check_interval_request_def
      check_cron_request_def check_webhook_request_def reject_if_def try_then_Inr split: if_splits)

lemma interval_row:
  assumes "check_interval_request req = Inr ()"
    and "fst (create_interval_trigger sv now
            \<lparr>ni_id = i, ni_tenant_id = tenant_id, ni_agent_id = ct_agent_id req, ni_triggered_by_user_id = user,
             ni_recipe_id = ct_recipe_id req, ni_interval_seconds = ct_interval_seconds req,
             ni_input_json = ct_input req, ni_requested_capabilities = ct_requested_capabilities req,
             ni_granted_capabilities = granted, ni_next_fire_at = t,
             ni_status = ''enabled'', ni_misfire_policy = ''fire_now'', ni_max_attempts = 3,
             ni_max_inflight_runs = ct_max_inflight_runs req, ni_jitter_seconds = ct_jitter_seconds req,
             ni_webhook_secret_ref = None\<rparr> d) = Inr v" (is "fst (create_interval_trigger sv now ?n d) = _")
  shows "snd (create_interval_trigger sv now ?n d) = d\<lparr>d_triggers := d_triggers d @ [v]\<rparr> \<and>
    row_for tenant_id user (ct_recipe_id req) (ct_requested_capabilities req) granted v"
  unfolding create_interval_trigger_def
  by (rule inserted_row [OF assms(2) [unfolded create_interval_trigger_def]])
    (use check_limits(3) [OF assms(1)] in \<open>simp add: row_for_def\<close>)

lemma leaves_create_interval:
  "leaves (call_outcome ty st hs (w_db w)) (create_trigger_handler env ty st hs req) w"
  unfolding create_trigger_handler_def
  by (intro leaves_from_result leaves_create_with)
    (simp_all add: call_outcome_none inserts_def leaves_bind_new leaves_bind_now leaves_insert [OF _ interval_row])

lemma cron_row:
  assumes "check_cron_request req = Inr ()"
    and "fst (create_cron_trigger sv now
            \<lparr>nc_id = i, nc_tenant_id = tenant_id, nc_agent_id = cx_agent_id req, nc_triggered_by_user_id = user,
             nc_recipe_id = cx_recipe_id req, nc_cron_expression = trim (cx_cron_expression req),
             nc_schedule_timezone = trim (cx_schedule_timezone req), nc_input_json = cx_input req,
             nc_requested_capabilities = cx_requested_capabilities req, nc_granted_capabilities = granted,
             nc_status = ''enabled'', nc_misfire_policy = ''fire_now'', nc_max_attempts = cx_max_attempts req,
             nc_max_inflight_runs = cx_max_inflight_runs req, nc_jitter_seconds = cx_jitter_seconds req\<rparr> d) =
         Inr v" (is "fst (create_cron_trigger sv now ?n d) = _")
  shows "snd (create_cron_trigger sv now ?n d) = d\<lparr>d_triggers := d_triggers d @ [v]\<rparr> \<and>
    row_for tenant_id user (cx_recipe_id req) (cx_requested_capabilities req) granted v"
proof (cases "next_cron_fire_at sv (trim (cx_cron_expression req)) (trim (cx_schedule_timezone req)) now")
  case (Inl e)
  with assms(2) show ?thesis by (simp add: create_cron_trigger_def)
next
  case (Inr slot)
  then have c: "create_cron_trigger sv now ?n d = insert_trigger sv
     \<lparr>t_id = i, t_tenant_id = tenant_id, t_agent_id = cx_agent_id req, t_triggered_by_user_id = user,
      t_recipe_id = cx_recipe_id req, t_status = ''enabled'', t_trigger_type = ''cron'', t_interval_seconds = None,
      t_cron_expression = Some (trim (cx_cron_expression req)),
      t_schedule_timezone = trim (cx_schedule_timezone req), t_misfire_policy = ''fire_now'',
      t_max_attempts = cx_max_attempts req, t_max_inflight_runs = cx_max_inflight_runs req,
      t_jitter_seconds = cx_jitter_seconds req, t_consecutive_failures = 0, t_dead_lettered_at = None,
      t_dead_letter_reason = None, t_webhook_secret_ref = None, t_input_json = cx_input req,
      t_requested_capabilities = cx_requested_capabilities req, t_granted_capabilities = granted,
      t_next_fire_at = apply_jitter sv slot i (cx_jitter_seconds req) now,
      t_last_fired_at = None, t_created_at = now, t_updated_at = now\<rparr> d"
    by (simp add: create_cron_trigger_def)
  show ?thesis
    unfolding c by (rule inserted_row [OF assms(2) [unfolded c]])
      (use check_limits(4) [OF assms(1)] in \<open>simp add: row_for_def\<close>)
qed

lemma leaves_create_cron:
  "leaves (call_outcome ty st hs (w_db w)) (create_cron_trigger_handler env ty st hs req) w"
  unfolding create_cron_trigger_handler_def
  by (intro leaves_from_result leaves_create_with)
    (simp_all add: call_outcome_none inserts_def leaves_bind_new leaves_insert [OF _ cron_row])

lemma webhook_row:
  assumes "check_webhook_request req = Inr ()"
    and "fst (create_webhook_trigger sv now
            \<lparr>nw_id = i, nw_tenant_id = tenant_id, nw_agent_id = cw_agent_id req, nw_triggered_by_user_id = user,
             nw_recipe_id = cw_recipe_id req, nw_input_json = cw_input req,
             nw_requested_capabilities = cw_requested_capabilities req, nw_granted_capabilities = granted,
             nw_status = ''enabled'', nw_max_attempts = cw_max_attempts req,
             nw_max_inflight_runs = cw_max_inflight_runs req, nw_jitter_seconds = cw_jitter_seconds req,
             nw_webhook_secret_ref = cw_webhook_secret_ref req\<rparr> d) = Inr v"
      (is "fst (create_webhook_trigger sv now ?n d) = _")
  shows "snd (create_webhook_trigger sv now ?n d) = d\<lparr>d_triggers := d_triggers d @ [v]\<rparr> \<and>
    row_for tenant_id user (cw_recipe_id req) (cw_requested_capabilities req) granted v"
  unfolding create_webhook_trigger_def
  by (rule inserted_row [OF assms(2) [unfolded create_webhook_trigger_def]])
    (use check_limits(5) [OF assms(1)] in \<open>simp add: row_for_def\<close>)

lemma leaves_create_webhook:
  "leaves (call_outcome ty st hs (w_db w)) (create_webhook_trigger_handler env ty st hs req) w"
  unfolding create_webhook_trigger_handler_def
  by (intro leaves_from_result leaves_create_with)
    (simp_all add: call_outcome_none inserts_def leaves_bind_new leaves_insert [OF _ webhook_row])

subsection \<open>Changing\<close>

text \<open>A change of one trigger of the tenant that the caller may change.\<close>

lemma changed_outcome:
  assumes "mutation_caller ty st hs = Inr (tenant, role, actor)" "get_trigger tenant i d = Some t"
    and "ensure_trigger_operator_ownership role actor (t_triggered_by_user_id t) = Inr ()"
    and "list_all2 (only_changes i) (d_triggers d) (d_triggers d')"
    and "firings_kept d d' \<or> fired_by t d d'" "d_trigger_events d' = d_trigger_events d"
  shows "call_outcome ty st hs d d'"
proof -
  have "may_change role actor t" using assms(3) mutation_caller_Inr(3) [OF assms(1)] by (rule ownership_may_change)
  then have "authorised_change st tenant role actor d d'"
    using get_trigger_Some [OF assms(2)] assms(4,5) unfolding authorised_change_def by blast
  then show ?thesis using assms(1,6) by (auto simp: call_outcome_def trigger_outcome_def events_outcome_def)
qed

lemma update_triggers_changes:
  assumes "fst (update_triggers (\<lambda>t. t_tenant_id t = tenant \<and> t_id t = i) f d) = Inr v"
    and "\<And>t. trigger_ident (f t) = trigger_ident t"
    and "d' = snd (update_triggers (\<lambda>t. t_tenant_id t = tenant \<and> t_id t = i) f d)"
  shows "list_all2 (only_changes i) (d_triggers d) (d_triggers d')" "firings_kept d d'"
    "d_trigger_events d' = d_trigger_events d"
  using assms
  by (auto simp: update_triggers_def Let_def firings_kept_def list_all2_conv_all_nth only_changes_def
      split: if_splits)

lemma update_status_changes:
  assumes "fst (update_trigger_status now tenant i s d) = Inr v"
    and "d' = snd (update_trigger_status now tenant i s d)"
  shows "list_all2 (only_changes i) (d_triggers d) (d_triggers d')" "firings_kept d d'"
    "d_trigger_events d' = d_trigger_events d"
  by (rule update_triggers_changes [OF assms(1) [unfolded update_trigger_status_def] _
        assms(2) [unfolded update_trigger_status_def]]; simp add: trigger_ident_def)+

lemma update_config_changes:
  assumes "fst (update_trigger_config sv now tenant i params d) = Inr v"
    and "d' = snd (update_trigger_config sv now tenant i params d)"
  shows "list_all2 (only_changes i) (d_triggers d) (d_triggers d') \<and> firings_kept d d' \<and>
    d_trigger_events d' = d_trigger_events d"
proof -
  have none: ?thesis if "d' = d"
    using that by (simp add: firings_kept_def list_all2_refl only_changes_def)
  show ?thesis
  proof (cases "get_trigger tenant i d")
    case None
    with assms show ?thesis by (intro none) (simp add: update_trigger_config_def)
  next
    case (Some existing)
    let ?iv = "or_else (up_interval_seconds params) (t_interval_seconds existing)"
    let ?cr = "or_else (up_cron_expression params) (t_cron_expression existing)"
    let ?tz = "unwrap_or (up_schedule_timezone params) (t_schedule_timezone existing)"
    show ?thesis
    proof (cases "rescheduled sv now existing ?iv ?cr ?tz")
      case (Inl e)
      with Some assms show ?thesis by (simp add: update_trigger_config_def Let_def)
    next
      case (Inr slot)
      note upd = update_trigger_config_def [of sv now tenant i params d, unfolded Some Let_def option.case Inr sum.case]
      show ?thesis
        by (intro conjI; rule update_triggers_changes [OF assms(1) [unfolded upd] _ assms(2) [unfolded upd]];
            simp add: trigger_ident_def)
    qed
  qed
qed

lemma leaves_found:
  assumes "R (w_db w)" "\<And>t. v = Some t \<Longrightarrow> leaves R (k t) w"
  shows "leaves R (and_then (found_or_404 v) k) w"
  using assms by (cases v) (simp_all add: leaves_def found_or_404_def hwp_simps)

text \<open>A statement that changes the tables as allowed, and what follows it.\<close>

lemma leaves_change:
  assumes "R (w_db w)"
    and "\<And>now v d'. fst (f now (w_db w)) = Inr v \<Longrightarrow> d' = snd (f now (w_db w)) \<Longrightarrow> R d'"
    and "\<And>v w'. R (w_db w') \<Longrightarrow> leaves R (k v) w'"
  shows "leaves R (and_then (or_internal what (stmt env f)) k) w"
  by (rule leaves_stmt) (use assms in auto)

lemma leaves_set_status:
  "leaves (call_outcome ty st hs (w_db w)) (set_trigger_status_handler env ty st hs i status event) w"
  unfolding set_trigger_status_handler_def
proof (rule leaves_from_result, simp add: call_outcome_none, clarify)
  fix tenant role actor
  assume caller: "mutation_caller ty st hs = Inr (tenant, role, actor)"
  show "leaves (call_outcome ty st hs (w_db w))
    (and_then (load_trigger env tenant i) (\<lambda>existing.
     and_then (from_result (ensure_trigger_operator_ownership role actor (t_triggered_by_user_id existing))) (\<lambda>_.
     and_then (or_internal ''failed updating trigger status'' (stmt env (\<lambda>now.
       update_trigger_status now tenant i status))) (\<lambda>upd.
     and_then (found_or_404 upd) (\<lambda>updated.
     and_then (append_trigger_audit env tenant i role event
       (jobj [(''status'', JString (t_status updated)),
          (''trigger_type'', JString (t_trigger_type updated))])) (\<lambda>_.
       done_with (200, TriggerBody (trigger_to_response updated)))))))) w"
    by (intro leaves_load leaves_from_result leaves_change leaves_found leaves_audit closed_outcome leaves_done)
      (simp_all add: call_outcome_none changed_outcome [OF caller] update_status_changes)
qed

lemma leaves_update:
  "leaves (call_outcome ty st hs (w_db w)) (update_trigger_handler env ty st hs i req) w"
  unfolding update_trigger_handler_def
proof (rule leaves_from_result, simp add: call_outcome_none, clarify)
  fix tenant role actor
  assume caller: "mutation_caller ty st hs = Inr (tenant, role, actor)"
  show "leaves (call_outcome ty st hs (w_db w))
    (and_then (from_result (check_update_request req)) (\<lambda>_.
     and_then (load_trigger env tenant i) (\<lambda>existing.
     and_then (from_result (ensure_trigger_operator_ownership role actor (t_triggered_by_user_id existing))) (\<lambda>_.
     and_then (from_result (check_schedule_fields existing req)) (\<lambda>_.
     and_then (or_internal ''failed updating trigger'' (stmt env (\<lambda>now.
       update_trigger_config (ty_trigger ty) now tenant i (update_params_of req)))) (\<lambda>upd.
     and_then (found_or_404 upd) (\<lambda>updated.
     and_then (append_trigger_audit env tenant i role ''trigger.updated''
       (jobj [(''trigger_type'', JString (t_trigger_type updated)),
          (''interval_seconds'', jopt jint (t_interval_seconds updated)),
          (''cron_expression'', jopt JString (t_cron_expression updated)),
          (''schedule_timezone'', JString (t_schedule_timezone updated)),
          (''misfire_policy'', JString (t_misfire_policy updated)),
          (''max_attempts'', jint (t_max_attempts updated)),
          (''max_inflight_runs'', jint (t_max_inflight_runs updated)),
          (''jitter_seconds'', jint (t_jitter_seconds updated)),
          (''webhook_secret_configured'', JBool (t_webhook_secret_ref updated \<noteq> None))])) (\<lambda>_.
       done_with (200, TriggerBody (trigger_to_response updated)))))))))) w"
    by (intro leaves_load leaves_from_result leaves_change leaves_found leaves_audit closed_outcome leaves_done)
      (simp_all add: call_outcome_none changed_outcome [OF caller] update_config_changes)
qed

subsection \<open>Events\<close>

lemma enqueue_posted:
  assumes "d' = snd (enqueue_trigger_event sv row_id now tenant i event_id payload d)"
    and "get_trigger tenant i d = Some t" "tenant_from_headers hs = Inr tenant"
    and "check_trigger_secret (ty_resolve_secret ty) hs t = Inr ()"
  shows "call_outcome ty st hs d d'"
proof -
  have secret: "secret_shown (ty_resolve_secret ty) hs t"
    using assms(4) by (auto simp: secret_shown_def check_trigger_secret_def split: option.splits sum.splits if_splits)
  have "d' = d \<or> posted ty hs d d' \<and> d_triggers d' = d_triggers d \<and> firings_kept d d'"
    using assms(1-3) secret get_trigger_Some [OF assms(2)]
    by (auto simp: enqueue_trigger_event_def posted_def Let_def firings_kept_def list_ex_iff split: if_splits)
  then show ?thesis
  proof
    assume "d' = d"
    then show ?thesis by (simp add: call_outcome_none)
  qed (simp add: call_outcome_def trigger_outcome_def events_outcome_def)
qed

lemma leaves_ingest:
  "leaves (call_outcome ty st hs (w_db w)) (ingest_trigger_event_handler env ty hs i req) w"
  unfolding ingest_trigger_event_handler_def Let_def
  by (intro leaves_from_result leaves_load leaves_bind_new leaves_change)
    (simp_all add: call_outcome_none enqueue_posted leaves_done split_beta
      split: trigger_event_enqueue_outcome.split)

lemma found_only:
  assumes "find P xs = Some x" "length (filter P xs) = 1" "y \<in> set xs" "P y"
  shows "y = x"
proof -
  obtain z where "filter P xs = [z]" using assms(2) by (auto simp: length_Suc_conv)
  then have only: "set (filter P xs) = {z}" by simp
  have "y \<in> set (filter P xs)" "x \<in> set (filter P xs)" using assms(3,4) find_SomeD [OF assms(1)] by simp_all
  then show ?thesis unfolding only by simp
qed

lemma replay_put_back:
  assumes "fst (requeue_dead_letter_trigger_event now tenant i event_id d) = Inr v"
    and "d' = snd (requeue_dead_letter_trigger_event now tenant i event_id d)"
    and "get_trigger tenant i d = Some t" "mutation_caller ty st hs = Inr (tenant, role, actor)"
    and "ensure_trigger_operator_ownership role actor (t_triggered_by_user_id t) = Inr ()" "not_enabled t = Inr ()"
  shows "call_outcome ty st hs d d'"
proof -
  have owner: "may_change role actor t"
    using assms(5) mutation_caller_Inr(3) [OF assms(4)] by (rule ownership_may_change)
  have ready: "trigger_ready t" using assms(6) by (simp add: not_enabled_def reject_if_def split: if_splits)
  have kept: "d_triggers d' = d_triggers d \<and> firings_kept d d'"
    using assms(1,2) by (auto simp: requeue_dead_letter_trigger_event_def Let_def firings_kept_def
        split: option.splits if_splits prod.splits)
  let ?ev = "\<lambda>e. te_trigger_id e = i \<and> te_tenant_id e = tenant \<and> te_event_id e = event_id"
  have "list_all2 put_back (d_trigger_events d) (d_trigger_events d')"
  proof (cases "d' = d")
    case True
    then show ?thesis by (simp add: list_all2_refl put_back_def)
  next
    case False
    then obtain e where e: "find ?ev (d_trigger_events d) = Some e" "te_status e = ''dead_lettered''"
        "length (filter ?ev (d_trigger_events d)) = 1"
        "d_trigger_events d' = map (\<lambda>e. if ?ev e then
           e\<lparr>te_status := ''pending'', te_attempts := 0, te_next_attempt_at := now,
             te_last_error_json := None, te_processed_at := None, te_dead_lettered_at := None\<rparr> else e)
           (d_trigger_events d)"
      using assms(1,2) by (auto simp: requeue_dead_letter_trigger_event_def Let_def update_where_def
          split: option.splits if_splits)
    have "te_status x = ''dead_lettered''" if "x \<in> set (d_trigger_events d)" "?ev x" for x
      using found_only [OF e(1,3) that] e(2) by simp
    then show ?thesis unfolding e(4) by (auto simp: list_all2_conv_all_nth put_back_def)
  qed
  then have "replayed ty st hs d d'"
    using owner ready assms(4) get_trigger_Some [OF assms(3)] unfolding replayed_def by blast
  then show ?thesis using kept by (simp add: call_outcome_def trigger_outcome_def events_outcome_def)
qed

lemma leaves_replay:
  "leaves (call_outcome ty st hs (w_db w)) (replay_trigger_event_handler env ty st hs i raw) w"
  unfolding replay_trigger_event_handler_def Let_def
proof (rule leaves_from_result, simp add: call_outcome_none, clarify)
  fix tenant role actor
  assume caller: "mutation_caller ty st hs = Inr (tenant, role, actor)"
  have answer: "leaves (call_outcome ty st hs (w_db w)) (case out of
         ReplayRequeued \<Rightarrow>
           and_then (append_trigger_audit env tenant i role ''trigger.event.replayed''
             (jobj [(''event_id'', JString event_id), (''status'', JString ''queued_for_replay'')])) (\<lambda>_. done_with b)
       | ReplayNotFound \<Rightarrow> reject (not_found ''trigger event not found'')
       | ReplayNotDeadLettered status \<Rightarrow> reject (event_not_replayable status)) w'"
    if "call_outcome ty st hs (w_db w) (w_db w')" for out event_id b w'
    using that by (cases out) (auto intro!: leaves_audit closed_outcome leaves_done)
  show "leaves (call_outcome ty st hs (w_db w))
    (and_then (from_result (reject_if (trim raw = []) (bad_request ''event_id must not be empty''))) (\<lambda>_.
     and_then (load_trigger env tenant i) (\<lambda>trigger.
     and_then (from_result (ensure_trigger_operator_ownership role actor (t_triggered_by_user_id trigger))) (\<lambda>_.
     and_then (from_result (reject_if (t_trigger_type trigger \<noteq> ''webhook'')
       (bad_request ''trigger does not support event replay''))) (\<lambda>_.
     and_then (from_result (not_enabled trigger)) (\<lambda>_.
     and_then (or_internal ''failed replaying trigger event'' (stmt env (\<lambda>now.
       requeue_dead_letter_trigger_event now tenant i (trim raw)))) (\<lambda>out.
       case out of
         ReplayRequeued \<Rightarrow>
           and_then (append_trigger_audit env tenant i role ''trigger.event.replayed''
             (jobj [(''event_id'', JString (trim raw)), (''status'', JString ''queued_for_replay'')])) (\<lambda>_.
             done_with (202, EventBody \<lparr>ei_trigger_id = i, ei_event_id = trim raw,
               ei_status = ''queued_for_replay''\<rparr>))
       | ReplayNotFound \<Rightarrow> reject (not_found ''trigger event not found'')
       | ReplayNotDeadLettered status \<Rightarrow> reject (event_not_replayable status)))))))) w"
    by (intro leaves_load leaves_from_result leaves_change answer)
      (simp_all add: call_outcome_none replay_put_back [OF _ _ _ caller])
qed

subsection \<open>Firing\<close>

lemma past_early_returns:
  "p = (case s of Some x \<Rightarrow> (g x, d) | None \<Rightarrow> if c then (h, d) else q) \<Longrightarrow> snd p \<noteq> d \<Longrightarrow> p = q"
  by (auto split: option.splits if_splits)

lemma fire_changes:
  assumes "fst (fire_trigger_manually sv run_id row_id now tenant i key payload d) = Inr v"
    and "d' = snd (fire_trigger_manually sv run_id row_id now tenant i key payload d)"
    and "get_trigger tenant i d = Some t" "not_enabled t = Inr ()"
  shows "list_all2 (only_changes i) (d_triggers d) (d_triggers d') \<and> (firings_kept d d' \<or> fired_by t d d') \<and>
    d_trigger_events d' = d_trigger_events d"
proof (cases "d' = d")
  case True
  then show ?thesis by (simp add: list_all2_refl only_changes_def firings_kept_def)
next
  case False
  have ready: "trigger_ready t" using assms(4) by (simp add: not_enabled_def reject_if_def split: if_splits)
  have same: "find (\<lambda>t. t_id t = i \<and> t_tenant_id t = tenant \<and> trigger_ready t) ts = Some t"
    if "find (\<lambda>t. t_tenant_id t = tenant \<and> t_id t = i) ts = Some t" for ts
    using that ready by (induction ts) (auto split: if_splits)
  have f: "find (\<lambda>t. t_id t = i \<and> t_tenant_id t = tenant \<and> trigger_ready t) (d_triggers d) = Some t"
    by (rule same) (use assms(3) in \<open>simp add: get_trigger_def\<close>)
  let ?n = "run_of_trigger t run_id
     (inject_trace_id (merge_json_objects (t_input_json t) (manual_envelope i key payload)) run_id)"
  let ?d1 = "d\<lparr>d_runs := d_runs d @ [row_of_new now None ?n]\<rparr>"
  let ?tr = "created_trigger_run row_id i run_id now (''manual:'' @ key)"
  let ?body = "try_then (insert_run sv now ?n d) (\<lambda>d1.
      try_then (insert_trigger_run ?tr (set_trigger i (mark_fired now) d1)) (\<lambda>d2.
      Inr (FireCreated (dispatch_of t ''manual'' (Some key) run_id now (t_next_fire_at t)), d2)))"
  let ?seen = "find (\<lambda>tr. tr_trigger_id tr = i \<and> tr_dedupe_key tr = ''manual:'' @ key) (d_trigger_runs d)"
  let ?full = "t_max_inflight_runs t \<le> count_inflight_runs_for_trigger_tx i d \<or>
      max default_tenant_max_inflight_runs 1 \<le> count_inflight_runs_for_tenant_tx (t_tenant_id t) d"
  have "fire_trigger_manually sv run_id row_id now tenant i key payload d =
      (case ?seen of Some tr \<Rightarrow> (Inr (FireDuplicate (tr_run_id tr)), d)
       | None \<Rightarrow> if ?full then (Inr FireInflightLimited, d) else commit d ?body)"
    by (simp only: fire_trigger_manually_def fire_trigger_manually_with_limits_def f Let_def option.case)
  then have "fire_trigger_manually sv run_id row_id now tenant i key payload d = commit d ?body"
    by (rule past_early_returns) (use False assms(2) in simp)
  with assms(1,2) have "?body = Inr (v, d')" by (simp add: commit_def split: sum.splits prod.splits)
  then have d': "d' = (set_trigger i (mark_fired now) ?d1)\<lparr>d_trigger_runs := d_trigger_runs d @ [?tr]\<rparr>"
    by (simp add: try_then_Inr insert_run_Inr insert_trigger_run_Inr set_trigger_def)
  show ?thesis
    using ready get_trigger_Some [OF assms(3)] unfolding d'
    by (auto simp: set_trigger_def list_all2_conv_all_nth only_changes_def mark_fired_def trigger_ident_def
        fired_by_def created_trigger_run_def row_of_new_def run_of_trigger_def run_from_def)
qed

lemma leaves_answer_fired:
  "call_outcome ty st hs d (w_db w) \<Longrightarrow>
   leaves (call_outcome ty st hs d) (answer_fired env ty tenant role i key out) w"
proof -
  assume R: "call_outcome ty st hs d (w_db w)"
  have run: "leaves (call_outcome ty st hs d) (and_then (audit_manual_run env tj tenant role v) (\<lambda>_. done_with b)) w'"
    if "call_outcome ty st hs d (w_db w')" for tj v b w'
    unfolding audit_manual_run_def
  proof (intro leaves_bind_new leaves_change leaves_done, goal_cases)
    case (2 i w2 now v d')
    then have "same_tables (w_db w') d'"
      by (auto simp: append_audit_event_def same_tables_def split: if_splits)
    then show ?case using that closedD [OF closed_outcome] by blast
  qed (simp_all add: that)
  show ?thesis
    using R by (cases out) (auto simp: answer_fired_def Let_def intro!: leaves_audit run closed_outcome leaves_done)
qed

lemma leaves_fire:
  "leaves (call_outcome ty st hs (w_db w)) (fire_trigger_handler env ty st hs i req) w"
  unfolding fire_trigger_handler_def Let_def
proof (rule leaves_from_result, simp add: call_outcome_none, clarify)
  fix tenant role actor
  assume caller: "mutation_caller ty st hs = Inr (tenant, role, actor)"
  show "leaves (call_outcome ty st hs (w_db w))
    (and_then (from_result (reject_if (trim (fr_idempotency_key req) = [])
       (bad_request ''idempotency_key must not be empty''))) (\<lambda>_.
     and_then (from_result (reject_if (128 < length (trim (fr_idempotency_key req)))
       (bad_request ''idempotency_key exceeds maximum length of 128''))) (\<lambda>_.
     and_then (load_trigger env tenant i) (\<lambda>trigger.
     and_then (from_result (ensure_trigger_operator_ownership role actor (t_triggered_by_user_id trigger))) (\<lambda>_.
     and_then (from_result (not_enabled trigger)) (\<lambda>_.
     and_then (or_internal ''failed firing trigger'' (bind (new_v4 env) (\<lambda>run_id. bind (new_v4 env) (\<lambda>row_id.
       stmt env (\<lambda>now. fire_trigger_manually (ty_trigger ty) run_id row_id now tenant i
         (trim (fr_idempotency_key req)) (fr_payload req)))))) (\<lambda>out.
       answer_fired env ty tenant role i (trim (fr_idempotency_key req)) out))))))) w"
    by (intro leaves_load leaves_from_result leaves_bind_new leaves_change leaves_answer_fired)
      (simp_all add: call_outcome_none changed_outcome [OF caller] fire_changes)
qed

section \<open>The endpoints\<close>

lemma leaves_trigger_api: "leaves (call_outcome ty st hs (w_db w)) (trigger_api env ty st hs call) w"
  by (cases call) (simp_all add: trigger_api_def leaves_create_interval leaves_create_cron leaves_create_webhook
      leaves_update leaves_set_status enable_trigger_handler_def disable_trigger_handler_def leaves_ingest
      leaves_replay leaves_fire)

lemma trigger_api_outcome:
  assumes "trigger_api env ty st hs call w = (res, w')"
  shows "call_outcome ty st hs (w_db w) (w_db w')"
  using hwp_run [OF leaves_trigger_api [unfolded leaves_def] assms] by (simp split: sum.splits)

text \<open>
  (C30) Whatever a call to a trigger endpoint does and however it ends, triggers, runs and firings
  change only for a caller of the tenant with the owner or operator role (and the proxy's token
  where it is required). A new trigger belongs to the caller's tenant, holds the capabilities
  resolved for the caller's role and respects the tenant's limit; an existing one is changed or
  fired by an operator only if it runs for him, and keeps its tenant, agent, user, recipe and
  grants; a fired run has exactly those of its trigger.
\<close>

theorem trigger_changes_authorised:
  assumes "trigger_api env ty st hs call w = (res, w')"
  shows "d_triggers (w_db w') = d_triggers (w_db w) \<and> firings_kept (w_db w) (w_db w') \<or>
    (\<exists>tenant role actor. tenant_from_headers hs = Inr tenant \<and> role_from_headers st hs = Inr role \<and>
       user_id_from_headers (ty_parse_uuid ty) st hs = Inr actor \<and> role \<noteq> Viewer \<and> token_ok st hs \<and>
       authorised_change st tenant role actor (w_db w) (w_db w'))"
proof -
  have "trigger_outcome ty st hs (w_db w) (w_db w')"
    using trigger_api_outcome [OF assms] by (simp add: call_outcome_def)
  then consider "d_triggers (w_db w') = d_triggers (w_db w) \<and> firings_kept (w_db w) (w_db w')"
    | tenant role actor where "mutation_caller ty st hs = Inr (tenant, role, actor)"
      "authorised_change st tenant role actor (w_db w) (w_db w')"
    unfolding trigger_outcome_def by blast
  then show ?thesis
  proof cases
    case 2
    with mutation_caller_Inr [OF 2(1)] show ?thesis by blast
  qed blast
qed


subsection \<open>A concrete call\<close>

definition sample_trigger_sv :: trigger_services where
  "sample_trigger_sv =
     \<lparr>ts_timezone_error = (\<lambda>_. None), ts_schedule_error = (\<lambda>_. None), ts_next_after = (\<lambda>_ _ t. Some (t + 60000)),
      ts_timestamp_error = (\<lambda>_. None), ts_hash = (\<lambda>_ _. 0), ts_to_vec = (\<lambda>_. Some ''bytes''),
      ts_json_text = (\<lambda>_. ''json''), ts_sha256_hex = (\<lambda>b. b), ts_run_fk = (\<lambda>_. True),
      ts_trigger_fk = (\<lambda>_ _. True)\<rparr>"

definition sample_ty :: trigger_api_services where
  "sample_ty = \<lparr>ty_trigger = sample_trigger_sv, ty_parse_uuid = Some, ty_resolve_secret = (\<lambda>r. Inr (Some (''s:'' @ r))),
     ty_time_json = jint, ty_show_int = (\<lambda>_. [])\<rparr>"

definition operator_headers :: headers where
  "operator_headers = sample_headers(''x-user-id'' \<mapsto> Some ''me'', ''x-trigger-secret'' \<mapsto> Some ''s:ref'')"

definition sample_hook_request :: create_webhook_trigger_request where
  "sample_hook_request = \<lparr>cw_agent_id = ''agent'', cw_triggered_by_user_id = None, cw_recipe_id = ''payments_v1'',
     cw_input = JNull, cw_requested_capabilities = sample_grant_request, cw_webhook_secret_ref = Some ''ref'',
     cw_max_attempts = 3, cw_max_inflight_runs = 1, cw_jitter_seconds = 0\<rparr>"

abbreviation sample_hook_call :: "(api_error + nat \<times> trigger_body) \<times> unit world" where
  "sample_hook_call \<equiv> trigger_api sample_clock sample_ty sample_state operator_headers
     (CreateWebhook sample_hook_request) sample_empty"

lemma operator_caller: "mutation_caller sample_ty sample_state operator_headers = Inr (''t'', Operator, Some ''me'')"
  by code_simp

lemma sample_hook_created:
  "\<exists>t w'. sample_hook_call = (Inr (201, TriggerBody (trigger_to_response t)), w') \<and> d_triggers (w_db w') = [t] \<and>
     t_id t = ''u'' \<and> t_webhook_secret_ref t = Some ''ref'' \<and> t_triggered_by_user_id t = Some ''me''"
proof -
  have limit: "st_tenant_max_triggers sample_state = Some 5" by (simp add: sample_state_def)
  have ty: "ty_trigger sample_ty = sample_trigger_sv" "ts_trigger_fk sample_trigger_sv a u"  for a u
    by (simp_all add: sample_ty_def sample_trigger_sv_def)
  show ?thesis
    using sample_grants
    by (simp add: ty trigger_api_def create_webhook_trigger_handler_def check_webhook_request_def check_attempts_def
        check_inflight_and_jitter_def reject_if_def create_trigger_with_def operator_caller limit
        from_result_def and_then_def done_with_def or_internal_def stmt_def sample_clock_def sample_empty_def
        resolve_trigger_actor_for_create_def ensure_tenant_trigger_capacity_def count_tenant_triggers_def
        sample_hook_request_def bind_def new_v4_def create_webhook_trigger_def insert_trigger_def trigger_check_def
        trigger_type_check_def append_trigger_audit_def
        append_trigger_audit_event_def Let_def)
qed

theorem trigger_changes_authorised_witness:
  "\<exists>t w' res. sample_hook_call = (res, w') \<and> d_triggers (w_db w') = [t] \<and>
     created_for sample_state ''t'' Operator (Some ''me'') empty_db t"
proof -
  obtain t w' where e: "sample_hook_call = (Inr (201, TriggerBody (trigger_to_response t)), w')"
      and t: "d_triggers (w_db w') = [t]" using sample_hook_created by blast
  have d: "w_db sample_empty = empty_db" "d_triggers empty_db = []" by (simp_all add: sample_empty_def)
  have "tenant_from_headers operator_headers = Inr ''t''" "role_from_headers sample_state operator_headers = Inr Operator"
      "user_id_from_headers (ty_parse_uuid sample_ty) sample_state operator_headers = Inr (Some ''me'')"
    using mutation_caller_Inr [OF operator_caller] by simp_all
  with trigger_changes_authorised [OF e] t have
    "authorised_change sample_state ''t'' Operator (Some ''me'') empty_db (w_db w')"
    by (simp add: d)
  then show ?thesis using e t by (auto simp: authorised_change_def d)
qed

definition locked_hook :: trigger_record where
  "locked_hook = sample_hook\<lparr>t_tenant_id := ''t'', t_webhook_secret_ref := Some ''ref''\<rparr>"

definition hook_world :: "unit world" where
  "hook_world = sample_empty\<lparr>w_db := empty_db\<lparr>d_triggers := [locked_hook]\<rparr>\<rparr>"

abbreviation sample_post :: "(api_error + nat \<times> trigger_body) \<times> unit world" where
  "sample_post \<equiv> trigger_api sample_clock sample_ty sample_state operator_headers
     (PostEvent ''t'' \<lparr>tq_event_id = ''ev'', tq_payload = JObject []\<rparr>) hook_world"

lemma sample_post_adds: "\<exists>res w' e. sample_post = (res, w') \<and> d_trigger_events (w_db w') = [e]"
proof -
  have hs: "tenant_from_headers operator_headers = Inr ''t''"
    using mutation_caller_Inr [OF operator_caller] by simp
  have secret: "check_trigger_secret (ty_resolve_secret sample_ty) operator_headers locked_hook = Inr ()"
    by (simp add: check_trigger_secret_def locked_hook_def sample_hook_def sample_ty_def operator_headers_def)
  have hook: "t_trigger_type locked_hook = ''webhook''" "t_status locked_hook = ''enabled''"
      "t_dead_lettered_at locked_hook = None" "t_tenant_id locked_hook = ''t''" "t_id locked_hook = ''t''"
    by (simp_all add: locked_hook_def sample_hook_def)
  have ev: "trim ''ev'' = ''ev''" by code_simp
  show ?thesis
    by (simp add: trigger_api_def ingest_trigger_event_handler_def hs ev reject_if_def load_trigger_def
        from_result_def and_then_def done_with_def or_internal_def stmt_def sample_clock_def hook_world_def
        sample_empty_def get_trigger_def hook not_enabled_def secret bind_def new_v4_def
        enqueue_trigger_event_def Let_def)
qed


end
