(* ===== verification/SiemOutbox.thy ===== *)
theory SiemOutbox
  imports WorkerCycle
begin

text \<open>
  The outbox of compliance events: its statements (\<open>core/src/db.rs\<close>, and for SQLite
  \<open>core/src/db_worker_dual.rs\<close>) and the worker's delivery pass over it
  (\<open>process_compliance_siem_delivery_outbox\<close> in \<open>worker/src/lib.rs\<close>). The HTTP client and the bytes
  of a UUID are arguments.
\<close>

section \<open>Statements\<close>

definition siem_adapters :: "string list" where
  "siem_adapters = [''secureagnt_ndjson'', ''splunk_hec'', ''elastic_bulk'']"

definition create_compliance_siem_delivery_record ::
    "time \<Rightarrow> new_siem_record \<Rightarrow> db \<Rightarrow> (db_error + siem_record) \<times> db" where
  "create_compliance_siem_delivery_record now n d =
     (if sd_adapter n \<notin> set siem_adapters then (Inl CheckViolation, d)
      else if list_ex (\<lambda>r. sd_id r = sd_id n) (d_outbox d) then (Inl UniqueViolation, d)
      else if (case sd_run_id n of None \<Rightarrow> False | Some i \<Rightarrow> \<not> list_ex (\<lambda>r. r_id r = i) (d_runs d))
      then (Inl ForeignKeyViolation, d)
      else
        let row = new_siem_record.extend (n\<lparr>sd_max_attempts := min (max (sd_max_attempts n) 1) 100\<rparr>)
              \<lparr>sd_status = ''pending'', sd_attempts = 0, sd_next_attempt_at = now, sd_leased_by = None,
               sd_lease_expires_at = None, sd_last_error = None, sd_last_http_status = None,
               sd_created_at = now, sd_updated_at = now, sd_delivered_at = None\<rparr>
        in (Inr row, d\<lparr>d_outbox := d_outbox d @ [row]\<rparr>))"

definition siem_claimable :: "time \<Rightarrow> siem_record \<Rightarrow> bool" where
  "siem_claimable now r \<longleftrightarrow>
     (sd_status r = ''pending'' \<or> sd_status r = ''failed'') \<and> sd_next_attempt_at r \<le> now \<and>
     (case sd_lease_expires_at r of None \<Rightarrow> True | Some t \<Rightarrow> t \<le> now)"

definition siem_claimable_sqlite :: "time \<Rightarrow> siem_record \<Rightarrow> bool" where
  "siem_claimable_sqlite now r \<longleftrightarrow>
     (sd_status r = ''pending'' \<or> sd_status r = ''failed'') \<and> secs (sd_next_attempt_at r) \<le> secs now \<and>
     (case sd_lease_expires_at r of None \<Rightarrow> True | Some t \<Rightarrow> secs t \<le> secs now)"

definition siem_claimed :: "time \<Rightarrow> string \<Rightarrow> time \<Rightarrow> siem_record \<Rightarrow> siem_record" where
  "siem_claimed now owner expires r =
     r\<lparr>sd_status := ''processing'', sd_leased_by := Some owner, sd_lease_expires_at := Some expires,
       sd_updated_at := now\<rparr>"

definition siem_limit :: "int \<Rightarrow> nat" where
  "siem_limit limit = nat (min (max limit 1) 100)"

text \<open>One statement on PostgreSQL; the claimed rows are returned in storage order.\<close>

definition claim_pending_compliance_siem_delivery_records ::
    "time \<Rightarrow> string \<Rightarrow> nat \<Rightarrow> int \<Rightarrow> db \<Rightarrow> (db_error + siem_record list) \<times> db" where
  "claim_pending_compliance_siem_delivery_records now owner lease_for limit d =
     (let rids = map sd_id (take (siem_limit limit)
            (sort_key (\<lambda>r. (sd_next_attempt_at r, sd_created_at r, sd_id r))
              (filter (siem_claimable now) (d_outbox d))));
          p = (\<lambda>r. sd_id r \<in> set rids);
          f = siem_claimed now owner (now + clamp_lease_ms lease_for)
      in (Inr (map f (filter p (d_outbox d))),
          d\<lparr>d_outbox := map (\<lambda>r. if p r then f r else r) (d_outbox d)\<rparr>))"

text \<open>On SQLite one statement selects the candidates and one more claims each of them.\<close>

definition siem_candidates_sqlite :: "time \<Rightarrow> int \<Rightarrow> db \<Rightarrow> (db_error + uuid list) \<times> db" where
  "siem_candidates_sqlite now limit d =
     (Inr (map sd_id (take (siem_limit limit)
        (sort_key (\<lambda>r. (secs (sd_next_attempt_at r), secs (sd_created_at r), sd_id r))
          (filter (siem_claimable_sqlite now) (d_outbox d))))), d)"

definition claim_siem_record_sqlite ::
    "string \<Rightarrow> time \<Rightarrow> uuid \<Rightarrow> time \<Rightarrow> db \<Rightarrow> (db_error + bool) \<times> db" where
  "claim_siem_record_sqlite owner expires rid now d =
     (case update_where (\<lambda>r. sd_id r = rid \<and> siem_claimable_sqlite now r) (siem_claimed now owner expires)
        (d_outbox d) of (rows, n) \<Rightarrow> (Inr (n = 1), d\<lparr>d_outbox := rows\<rparr>))"

definition get_siem_record :: "uuid \<Rightarrow> db \<Rightarrow> (db_error + siem_record) \<times> db" where
  "get_siem_record rid d =
     (case find (\<lambda>r. sd_id r = rid) (d_outbox d) of None \<Rightarrow> (Inl RowNotFound, d) | Some r \<Rightarrow> (Inr r, d))"

text \<open>\<open>UPDATE ... WHERE id = $1 RETURNING\<close> with \<open>fetch_one\<close>.\<close>

definition update_siem_record ::
    "uuid \<Rightarrow> (siem_record \<Rightarrow> siem_record) \<Rightarrow> db \<Rightarrow> (db_error + siem_record) \<times> db" where
  "update_siem_record rid f d =
     (case find (\<lambda>r. sd_id r = rid) (d_outbox d) of
        None \<Rightarrow> (Inl RowNotFound, d)
      | Some r \<Rightarrow> (Inr (f r), d\<lparr>d_outbox := map (\<lambda>r. if sd_id r = rid then f r else r) (d_outbox d)\<rparr>))"

definition siem_delivered :: "time \<Rightarrow> int option \<Rightarrow> siem_record \<Rightarrow> siem_record" where
  "siem_delivered now http_status r =
     r\<lparr>sd_status := ''delivered'', sd_attempts := sd_attempts r + 1, sd_last_error := None,
       sd_last_http_status := http_status, sd_leased_by := None, sd_lease_expires_at := None,
       sd_delivered_at := Some now, sd_updated_at := now\<rparr>"

definition siem_failed :: "time \<Rightarrow> string \<Rightarrow> int option \<Rightarrow> time \<Rightarrow> siem_record \<Rightarrow> siem_record" where
  "siem_failed now error_message http_status retry_at r =
     (let last = sd_max_attempts r \<le> sd_attempts r + 1
      in r\<lparr>sd_attempts := sd_attempts r + 1,
           sd_status := (if last then ''dead_lettered'' else ''failed''),
           sd_last_error := Some error_message, sd_last_http_status := http_status,
           sd_leased_by := None, sd_lease_expires_at := None,
           sd_next_attempt_at := (if last then now else retry_at), sd_updated_at := now\<rparr>)"

definition siem_dead_lettered :: "time \<Rightarrow> string \<Rightarrow> int option \<Rightarrow> siem_record \<Rightarrow> siem_record" where
  "siem_dead_lettered now error_message http_status r =
     r\<lparr>sd_attempts := sd_attempts r + 1, sd_status := ''dead_lettered'',
       sd_last_error := Some error_message, sd_last_http_status := http_status,
       sd_leased_by := None, sd_lease_expires_at := None, sd_next_attempt_at := now,
       sd_updated_at := now\<rparr>"

definition mark_compliance_siem_delivery_record_delivered ::
    "uuid \<Rightarrow> int option \<Rightarrow> time \<Rightarrow> db \<Rightarrow> (db_error + siem_record) \<times> db" where
  "mark_compliance_siem_delivery_record_delivered rid http_status now =
     update_siem_record rid (siem_delivered now http_status)"

definition mark_compliance_siem_delivery_record_failed ::
    "uuid \<Rightarrow> string \<Rightarrow> int option \<Rightarrow> time \<Rightarrow> time \<Rightarrow> db \<Rightarrow> (db_error + siem_record) \<times> db" where
  "mark_compliance_siem_delivery_record_failed rid error_message http_status retry_at now =
     update_siem_record rid (siem_failed now error_message http_status retry_at)"

definition mark_compliance_siem_delivery_record_dead_lettered ::
    "uuid \<Rightarrow> string \<Rightarrow> int option \<Rightarrow> time \<Rightarrow> db \<Rightarrow> (db_error + siem_record) \<times> db" where
  "mark_compliance_siem_delivery_record_dead_lettered rid error_message http_status now =
     update_siem_record rid (siem_dead_lettered now error_message http_status)"

definition requeue_dead_letter_compliance_siem_delivery_record ::
    "time \<Rightarrow> string \<Rightarrow> uuid \<Rightarrow> time \<Rightarrow> db \<Rightarrow> (db_error + siem_record option) \<times> db" where
  "requeue_dead_letter_compliance_siem_delivery_record now tenant_id record_id retry_at d =
     (let p = (\<lambda>r. sd_id r = record_id \<and> sd_tenant_id r = tenant_id \<and> sd_status r = ''dead_lettered'');
          f = (\<lambda>r. r\<lparr>sd_status := ''pending'', sd_attempts := 0, sd_next_attempt_at := retry_at,
             sd_leased_by := None, sd_lease_expires_at := None, sd_last_error := None,
             sd_last_http_status := None, sd_updated_at := now\<rparr>)
      in (Inr (map_option f (find p (d_outbox d))),
          d\<lparr>d_outbox := map (\<lambda>r. if p r then f r else r) (d_outbox d)\<rparr>))"

section \<open>A delivery\<close>

datatype siem_delivery_attempt =
    Delivered "int option"
  | Failed "int option" string bool

record siem_config =
  sc_enabled :: bool
  sc_batch_size :: int
  sc_lease :: nat
  sc_retry_backoff :: nat
  sc_retry_jitter_max :: nat
  sc_http_enabled :: bool
  sc_http_auth_header :: string
  sc_http_auth_token :: "string option"

record siem_post =
  sp_url :: string
  sp_headers :: "(string \<times> string) list"
  sp_body :: string

text \<open>
  The client: building it may fail; a request changes the outside world and ends in an error, or in
  a status and a body that may be unreadable.
\<close>

record 'x siem_services =
  ss_client_error :: "string option"
  ss_post :: "siem_post \<Rightarrow> 'x \<Rightarrow> (string + int \<times> string option) \<times> 'x"
  ss_uuid_bytes :: "uuid \<Rightarrow> nat list"

definition with_optional_auth_header :: "string \<Rightarrow> string option \<Rightarrow> (string \<times> string) list" where
  "with_optional_auth_header header_name token =
     (case Option.bind token non_empty_trimmed of
        None \<Rightarrow> []
      | Some raw_token \<Rightarrow>
          [(header_name,
            if eq_ignore_ascii_case header_name ''authorization'' \<and>
               \<not> starts_with (to_ascii_lowercase raw_token) ''bearer ''
            then ''Bearer '' @ raw_token else raw_token)])"

definition is_non_retryable_siem_http_status :: "int \<Rightarrow> bool" where
  "is_non_retryable_siem_http_status status \<longleftrightarrow> status \<in> {400, 401, 403, 404, 405, 410, 422}"

definition deterministic_retry_jitter_ms :: "nat list \<Rightarrow> int \<Rightarrow> int \<Rightarrow> int" where
  "deterministic_retry_jitter_ms id_bytes attempt_count jitter_max_ms =
     (if jitter_max_ms \<le> 0 then 0
      else let accum = foldl (\<lambda>a b. a * 131 + of_nat b) (0 :: u64) id_bytes;
               salted = accum + of_int (max attempt_count 0)
           in uint salted mod jitter_max_ms)"

text \<open>\<open>body.chars().take(n)\<close> on UTF-8 bytes: a character is a byte and the continuation bytes after it.\<close>

definition continuation_byte :: "char \<Rightarrow> bool" where
  "continuation_byte c \<longleftrightarrow> 128 \<le> byte c \<and> byte c < 192"

fun take_chars :: "nat \<Rightarrow> string \<Rightarrow> string" where
  "take_chars (Suc n) (c # s) = c # takeWhile continuation_byte s @ take_chars n (dropWhile continuation_byte s)"
| "take_chars _ _ = []"

definition siem_response :: "string + int \<times> string option \<Rightarrow> siem_delivery_attempt" where
  "siem_response r =
     (case r of
        Inl err \<Rightarrow> Failed None (''http delivery request failed: '' @ err) True
      | Inr (status, body) \<Rightarrow>
          if 200 \<le> status \<and> status < 300 then Delivered (Some status)
          else Failed (Some status)
            (''http delivery failed: status='' @ nat_to_string (nat status) @ '' body='' @
               take_chars 512 (unwrap_or body []))
            (\<not> is_non_retryable_siem_http_status status))"

definition attempt_compliance_siem_delivery ::
    "'x siem_services \<Rightarrow> siem_config \<Rightarrow> siem_record \<Rightarrow> 'x \<Rightarrow> siem_delivery_attempt \<times> 'x" where
  "attempt_compliance_siem_delivery ss cfg r x =
     (let target = trim (sd_delivery_target r)
      in if eq_ignore_ascii_case target ''mock://success'' then (Delivered (Some 200), x)
         else if eq_ignore_ascii_case target ''mock://fail''
         then (Failed None ''mock failure target'' True, x)
         else if starts_with target ''http://'' \<or> starts_with target ''https://'' then
           (if \<not> sc_http_enabled cfg
            then (Failed None ''HTTP delivery is disabled by WORKER_COMPLIANCE_SIEM_HTTP_ENABLED'' False, x)
            else
              case ss_post ss \<lparr>sp_url = target,
                  sp_headers = [(''content-type'', sd_content_type r),
                    (''x-secureagnt-siem-adapter'', sd_adapter r)] @
                    with_optional_auth_header (sc_http_auth_header cfg) (sc_http_auth_token cfg),
                  sp_body = sd_payload_ndjson r\<rparr> x of
                (reply, x') \<Rightarrow> (siem_response reply, x'))
         else (Failed None (''unsupported SIEM delivery target scheme: '' @ target) False, x))"

section \<open>The delivery pass\<close>

fun claim_each_sqlite :: "outside \<Rightarrow> string \<Rightarrow> time \<Rightarrow> uuid list \<Rightarrow> ('x, siem_record list) comp" where
  "claim_each_sqlite env owner expires [] = ret []"
| "claim_each_sqlite env owner expires (rid # rids) =
     bind (stmt env (claim_siem_record_sqlite owner expires rid)) (\<lambda>claimed.
       if \<not> claimed then claim_each_sqlite env owner expires rids
       else bind (stmt env (\<lambda>_. get_siem_record rid)) (\<lambda>r.
         bind (claim_each_sqlite env owner expires rids) (\<lambda>rs. ret (r # rs))))"

definition claim_pending_compliance_siem_delivery_records_sqlite ::
    "outside \<Rightarrow> string \<Rightarrow> nat \<Rightarrow> int \<Rightarrow> ('x, siem_record list) comp" where
  "claim_pending_compliance_siem_delivery_records_sqlite env owner lease_for limit =
     bind (now_utc env) (\<lambda>now_utc.
     bind (stmt env (\<lambda>now. siem_candidates_sqlite now limit))
       (claim_each_sqlite env owner (now_utc + clamp_lease_ms lease_for)))"

definition claim_pending_compliance_siem_delivery_records_dual ::
    "storage_backend \<Rightarrow> outside \<Rightarrow> string \<Rightarrow> nat \<Rightarrow> int \<Rightarrow> ('x, siem_record list) comp" where
  "claim_pending_compliance_siem_delivery_records_dual b env owner lease_for limit =
     (case b of
        Postgres \<Rightarrow> stmt env (\<lambda>now. claim_pending_compliance_siem_delivery_records now owner lease_for limit)
      | Sqlite \<Rightarrow> claim_pending_compliance_siem_delivery_records_sqlite env owner lease_for limit)"

definition attempt :: "'x siem_services \<Rightarrow> siem_config \<Rightarrow> siem_record \<Rightarrow> ('x, siem_delivery_attempt) comp" where
  "attempt ss cfg r = (\<lambda>w.
     case attempt_compliance_siem_delivery ss cfg r (w_ext w) of (v, x) \<Rightarrow> (Inr v, w\<lparr>w_ext := x\<rparr>))"

definition retry_delay :: "'x siem_services \<Rightarrow> siem_config \<Rightarrow> siem_record \<Rightarrow> int" where
  "retry_delay ss cfg r =
     (let retry_ms = min (max (int (sc_retry_backoff cfg)) 1) i64_max;
          jitter_max_ms = min (int (sc_retry_jitter_max cfg)) i64_max
      in min (retry_ms + deterministic_retry_jitter_ms (ss_uuid_bytes ss (sd_id r)) (sd_attempts r) jitter_max_ms)
           i64_max)"

definition record_attempt ::
    "outside \<Rightarrow> 'x siem_services \<Rightarrow> siem_config \<Rightarrow> siem_record \<Rightarrow> siem_delivery_attempt \<Rightarrow> ('x, unit) comp" where
  "record_attempt env ss cfg r v =
     (case v of
        Delivered http_status \<Rightarrow>
          ignore (stmt env (mark_compliance_siem_delivery_record_delivered (sd_id r) http_status))
      | Failed http_status error retryable \<Rightarrow>
          if retryable
          then bind (now_utc env) (\<lambda>now_utc.
            ignore (stmt env (mark_compliance_siem_delivery_record_failed (sd_id r) error http_status
              (now_utc + retry_delay ss cfg r))))
          else ignore (stmt env (mark_compliance_siem_delivery_record_dead_lettered (sd_id r) error http_status)))"

fun deliver_each ::
    "outside \<Rightarrow> 'x siem_services \<Rightarrow> siem_config \<Rightarrow> siem_record list \<Rightarrow> ('x, unit) comp" where
  "deliver_each env ss cfg [] = ret ()"
| "deliver_each env ss cfg (r # rs) =
     bind (attempt ss cfg r) (\<lambda>v.
       bind (record_attempt env ss cfg r v) (\<lambda>_. deliver_each env ss cfg rs))"

definition process_compliance_siem_delivery_outbox ::
    "storage_backend \<Rightarrow> outside \<Rightarrow> 'x siem_services \<Rightarrow> string \<Rightarrow> siem_config \<Rightarrow> ('x, unit) comp" where
  "process_compliance_siem_delivery_outbox b env ss worker_id cfg =
     bind (claim_pending_compliance_siem_delivery_records_dual b env worker_id (sc_lease cfg) (sc_batch_size cfg))
       (\<lambda>records.
         if records = [] then ret ()
         else case (if sc_http_enabled cfg then ss_client_error ss else None) of
           Some _ \<Rightarrow> fail ''failed building SIEM delivery HTTP client''
         | None \<Rightarrow> deliver_each env ss cfg records)"

end
