(* ===== verification/SiemSafety.thy ===== *)
theory SiemSafety
  imports SiemOutbox
begin

text \<open>
  The delivery pass over the outbox: claims take only records that are pending or failed, a pass
  that ends well leaves none of its records in processing, the attempts stay within their maximum,
  and a record that a pass abandons is never taken up again.
\<close>

section \<open>Claims\<close>

text \<open>\<open>A\<close> is the set of claimed ids; every other row is left alone.\<close>

definition siem_taken :: "string \<Rightarrow> siem_record \<Rightarrow> siem_record \<Rightarrow> bool" where
  "siem_taken owner r r' \<longleftrightarrow>
     (sd_status r = ''pending'' \<or> sd_status r = ''failed'') \<and> (\<exists>now e. r' = siem_claimed now owner e r)"

definition claim_rel :: "string \<Rightarrow> uuid set \<Rightarrow> siem_record list \<Rightarrow> siem_record list \<Rightarrow> bool" where
  "claim_rel owner A = list_all2 (\<lambda>r r'. if sd_id r \<in> A then siem_taken owner r r' else r' = r)"

definition siem_ids :: "siem_record list \<Rightarrow> bool" where
  "siem_ids rows \<longleftrightarrow> distinct (map sd_id rows)"

lemma siem_claimed_simps [simp]:
  "sd_id (siem_claimed now owner e r) = sd_id r" "sd_status (siem_claimed now owner e r) = ''processing''"
  "sd_attempts (siem_claimed now owner e r) = sd_attempts r"
  "sd_max_attempts (siem_claimed now owner e r) = sd_max_attempts r"
  by (simp_all add: siem_claimed_def)

lemma siem_taken_id: "siem_taken owner r r' \<Longrightarrow> sd_id r' = sd_id r"
  by (auto simp: siem_taken_def)

lemma claim_rel_ids: "claim_rel owner A rows rows' \<Longrightarrow> map sd_id rows' = map sd_id rows"
  unfolding claim_rel_def
  by (induction rule: list_all2_induct) (auto split: if_splits dest: siem_taken_id)

lemma claim_rel_siem_ids: "claim_rel owner A rows rows' \<Longrightarrow> siem_ids rows \<Longrightarrow> siem_ids rows'"
  by (simp add: siem_ids_def claim_rel_ids)

lemma claim_rel_none: "claim_rel owner {} rows rows"
  by (simp add: claim_rel_def list_all2_same)

lemma claim_rel_empty: "claim_rel owner {} rows rows' \<Longrightarrow> rows' = rows"
  unfolding claim_rel_def by (induction rule: list_all2_induct) auto

lemma claim_rel_trans:
  assumes "claim_rel owner A rows rows1" and "claim_rel owner B rows1 rows2"
  shows "claim_rel owner (A \<union> B) rows rows2"
  using assms unfolding claim_rel_def
proof (induction arbitrary: rows2 rule: list_all2_induct)
  case (Cons r rows r1 rows1)
  then obtain r2 rs2 where r2: "rows2 = r2 # rs2" and
      hd: "if sd_id r1 \<in> B then siem_taken owner r1 r2 else r2 = r1" and
      tl: "list_all2 (\<lambda>r r'. if sd_id r \<in> A \<union> B then siem_taken owner r r' else r' = r) rows rs2"
    by (auto simp: list_all2_Cons1)
  from Cons.hyps(1) hd have "if sd_id r \<in> A \<union> B then siem_taken owner r r2 else r2 = r"
    by (auto simp: siem_taken_def split: if_splits)
  with r2 tl show ?case by simp
qed simp

lemma claim_rel_map:
  assumes "\<And>r. r \<in> set rows \<Longrightarrow> p r \<Longrightarrow> siem_taken owner r (f r)" and "\<And>r. r \<in> set rows \<Longrightarrow> p r \<longleftrightarrow> sd_id r \<in> A"
  shows "claim_rel owner A rows (map (\<lambda>r. if p r then f r else r) rows)"
  using assms by (induction rows) (auto simp: claim_rel_def)

lemma claim_rel_mem:
  assumes "claim_rel owner A rows rows'" and "r' \<in> set rows'"
  shows "\<exists>r \<in> set rows. sd_id r = sd_id r' \<and> (if sd_id r \<in> A then siem_taken owner r r' else r' = r)"
  using assms unfolding claim_rel_def
  by (induction rule: list_all2_induct) (auto split: if_splits dest: siem_taken_id)

lemma claim_rel_kept:
  assumes "claim_rel owner A rows rows'" and "r \<in> set rows" and "sd_id r \<notin> A"
  shows "r \<in> set rows'"
  using assms unfolding claim_rel_def by (induction rule: list_all2_induct) auto

lemma siem_ids_inj: "siem_ids rows \<Longrightarrow> r \<in> set rows \<Longrightarrow> s \<in> set rows \<Longrightarrow> sd_id r = sd_id s \<Longrightarrow> r = s"
  unfolding siem_ids_def by (meson distinct_map inj_onD)

lemma image_restrict: "S \<subseteq> f ` R \<Longrightarrow> f ` {r \<in> R. f r \<in> S} = S"
  by blast

lemma set_sort_take: "r \<in> set (take n (sort_key k rows)) \<Longrightarrow> r \<in> set rows"
  by (metis in_set_takeD set_sort)

section \<open>The interface of the outbox\<close>

text \<open>
  What a claim promises: the returned records are those it has put in processing, at most a
  hundred, and it has changed nothing else; when it fails half way, some may be in processing.
\<close>

definition claims_law ::
    "string \<Rightarrow> siem_record list \<Rightarrow> nat \<Rightarrow> siem_record list \<Rightarrow> 'x world \<Rightarrow> bool" where
  "claims_law owner rows n rs w' \<longleftrightarrow>
     claim_rel owner (sd_id ` set rs) rows (d_outbox (w_db w')) \<and> set rs \<subseteq> set (d_outbox (w_db w')) \<and>
     distinct (map sd_id rs) \<and> length rs \<le> n"

definition claims_failed :: "string \<Rightarrow> siem_record list \<Rightarrow> 'x world \<Rightarrow> bool" where
  "claims_failed owner rows w' \<longleftrightarrow> (\<exists>A. claim_rel owner A rows (d_outbox (w_db w')))"

text \<open>Computations that make no request to the outside.\<close>

definition silent :: "('x, 'a) comp \<Rightarrow> bool" where
  "silent m \<longleftrightarrow> (\<forall>w. w_ext (snd (m w)) = w_ext w)"

lemma silent_basic [kept]: "silent (ret v)" "silent (fail e)" "silent (stmt env f)" "silent (now_utc env)"
  by (simp_all add: now_utc_def silent_def ret_def fail_def stmt_def Let_def split: option.split prod.split sum.split)

lemma silent_bind [kept]: "silent m \<Longrightarrow> (\<And>v. silent (k v)) \<Longrightarrow> silent (bind m k)"
  by (simp add: silent_def bind_def split: prod.split sum.split) (metis snd_conv)

lemma silent_ignore [kept]: "silent m \<Longrightarrow> silent (ignore m)"
  by (simp add: ignore_def silent_bind silent_basic)

locale siem_store =
  fixes claim :: "outside \<Rightarrow> string \<Rightarrow> nat \<Rightarrow> int \<Rightarrow> ('x, siem_record list) comp"
  assumes claim_law: "siem_ids (d_outbox (w_db w)) \<Longrightarrow>
      wp (claim env owner lease_for limit) (claims_law owner (d_outbox (w_db w)) (siem_limit limit))
        (\<lambda>_. claims_failed owner (d_outbox (w_db w))) w"
    and claim_quiet: "quiet (claim env owner lease_for limit)"
    and claim_silent: "silent (claim env owner lease_for limit)"
    and claim_tables: "keeps (\<lambda>d. P (d\<lparr>d_outbox := []\<rparr>)) (claim env owner lease_for limit)"

lemma map_ids_filter: "siem_ids rows \<Longrightarrow> set rids \<subseteq> sd_id ` set rows \<Longrightarrow> distinct rids \<Longrightarrow>
    length (filter (\<lambda>r. sd_id r \<in> set rids) rows) = length rids"
proof -
  assume a: "siem_ids rows" "set rids \<subseteq> sd_id ` set rows" "distinct rids"
  have "distinct (map sd_id (filter (\<lambda>r. sd_id r \<in> set rids) rows))"
    using a(1) by (simp add: siem_ids_def distinct_map_filter)
  moreover have "set (map sd_id (filter (\<lambda>r. sd_id r \<in> set rids) rows)) = set rids" using a(2) by auto
  ultimately have "card (set rids) = length (map sd_id (filter (\<lambda>r. sd_id r \<in> set rids) rows))"
    by (metis distinct_card)
  with a(3) show ?thesis by (simp add: distinct_card)
qed

lemma distinct_taken:
  "siem_ids rows \<Longrightarrow> distinct (map sd_id (take n (sort_key k (filter p rows))))"
proof -
  assume "siem_ids rows"
  then have "distinct (map sd_id (filter p rows))" by (simp add: siem_ids_def distinct_map_filter)
  then have "distinct (map sd_id (sort_key k (filter p rows)))"
    by (metis distinct_map distinct_sort set_sort)
  then show ?thesis by (metis distinct_take take_map)
qed

lemma pg_claim_law:
  fixes w :: "'x world"
  assumes ids: "siem_ids (d_outbox (w_db w))"
  shows "wp (stmt env (\<lambda>now. claim_pending_compliance_siem_delivery_records now owner lease_for limit))
    (claims_law owner (d_outbox (w_db w)) (siem_limit limit)) (\<lambda>_. claims_failed owner (d_outbox (w_db w))) w"
proof (rule wp_stmtI)
  fix e and w' :: "'x world" assume "w_db w' = w_db w"
  then show "claims_failed owner (d_outbox (w_db w)) w'"
    unfolding claims_failed_def using claim_rel_none by metis
next
  fix now rs and w' :: "'x world"
  let ?rows = "d_outbox (w_db w)" let ?f = "siem_claimed now owner (now + clamp_lease_ms lease_for)"
  define cs where "cs = take (siem_limit limit) (sort_key (\<lambda>r. (sd_next_attempt_at r, sd_created_at r, sd_id r))
    (filter (siem_claimable now) ?rows))"
  let ?p = "\<lambda>r. sd_id r \<in> set (map sd_id cs)"
  assume rs: "fst (claim_pending_compliance_siem_delivery_records now owner lease_for limit (w_db w)) = Inr rs"
    and db: "w_db w' = snd (claim_pending_compliance_siem_delivery_records now owner lease_for limit (w_db w))"
  from rs have rs: "rs = map ?f (filter ?p ?rows)"
    by (simp add: claim_pending_compliance_siem_delivery_records_def Let_def cs_def)
  from db have db: "d_outbox (w_db w') = map (\<lambda>r. if ?p r then ?f r else r) ?rows"
    by (simp add: claim_pending_compliance_siem_delivery_records_def Let_def cs_def)
  have cs: "c \<in> set ?rows \<and> siem_claimable now c" if "c \<in> set cs" for c
    using set_sort_take [OF that [unfolded cs_def]] by simp
  have known: "set (map sd_id cs) \<subseteq> sd_id ` set ?rows" using cs by auto
  have "sd_id ` set rs = sd_id ` {r \<in> set ?rows. ?p r}" by (simp only: rs set_map set_filter image_image siem_claimed_simps)
  also have "\<dots> = set (map sd_id cs)" by (rule image_restrict [OF known])
  finally have set: "sd_id ` set rs = set (map sd_id cs)" .
  have "claim_rel owner (sd_id ` set rs) ?rows (d_outbox (w_db w'))"
    unfolding db set
  proof (rule claim_rel_map)
    fix r assume r: "r \<in> set ?rows" "?p r"
    then obtain c where c: "c \<in> set cs" "sd_id c = sd_id r" by auto
    have "c = r" by (rule siem_ids_inj [OF ids]) (use cs [OF c(1)] r(1) c(2) in auto)
    with cs [OF c(1)] have "siem_claimable now r" by blast
    then show "siem_taken owner r (?f r)" by (auto simp: siem_claimable_def siem_taken_def)
  qed simp
  moreover have "set rs \<subseteq> set (d_outbox (w_db w'))" by (auto simp: rs db)
  moreover have "distinct (map sd_id rs)"
    using ids distinct_map_filter [of sd_id ?rows ?p] by (simp only: rs siem_ids_def map_map comp_def siem_claimed_simps)
  moreover have "length rs = length (map sd_id cs)"
    unfolding rs length_map [of ?f]
    by (rule map_ids_filter [OF ids known]) (unfold cs_def, rule distinct_taken [OF ids])
  then have "length rs \<le> siem_limit limit" by (simp add: cs_def)
  ultimately show "claims_law owner ?rows (siem_limit limit) rs w'" unfolding claims_law_def by blast
qed

lemma filter_one:
  assumes "siem_ids rows" and "r \<in> set rows"
  shows "filter (\<lambda>q. sd_id q = sd_id r \<and> p q) rows = (if p r then [r] else [])"
  using assms
proof (induction rows)
  case (Cons a rows)
  then show ?case
    by (cases "a = r") (auto simp: siem_ids_def filter_empty_conv image_iff)
qed simp

lemma claim_one_sqlite:
  assumes "siem_ids (d_outbox d)" and "claim_siem_record_sqlite owner expires rid now d = (Inr v, d')"
  shows "claim_rel owner (if v then {rid} else {}) (d_outbox d) (d_outbox d')"
    and "v \<Longrightarrow> rid \<in> sd_id ` set (d_outbox d')"
proof -
  let ?p = "\<lambda>r. sd_id r = rid \<and> siem_claimable_sqlite now r" let ?f = "siem_claimed now owner expires"
  have v: "v \<longleftrightarrow> length (filter ?p (d_outbox d)) = 1"
    and d': "d_outbox d' = map (\<lambda>r. if ?p r then ?f r else r) (d_outbox d)"
    using assms(2) by (auto simp: claim_siem_record_sqlite_def update_where_def)
  have one: "length (filter ?p (d_outbox d)) = 1" if "r \<in> set (d_outbox d)" "?p r" for r
    using filter_one [OF assms(1) that(1), of "siem_claimable_sqlite now"] that(2) by simp
  have "claim_rel owner (if v then {rid} else {}) (d_outbox d) (map (\<lambda>r. if ?p r then ?f r else r) (d_outbox d))"
  proof (rule claim_rel_map)
    fix r assume "r \<in> set (d_outbox d)" "?p r"
    then show "siem_taken owner r (?f r)" by (auto simp: siem_claimable_sqlite_def siem_taken_def)
  next
    fix r assume r: "r \<in> set (d_outbox d)"
    show "?p r \<longleftrightarrow> sd_id r \<in> (if v then {rid} else {})"
    proof (cases v)
      case True
      with v have "filter ?p (d_outbox d) \<noteq> []" by auto
      then obtain q where q: "q \<in> set (d_outbox d)" "?p q" unfolding filter_empty_conv by blast
      have "r = q" if "sd_id r = rid" by (rule siem_ids_inj [OF assms(1) r q(1)]) (use q(2) that in simp)
      with q(2) True show ?thesis by auto
    next
      case False
      with one [OF r] v show ?thesis by auto
    qed
  qed
  with d' show rel: "claim_rel owner (if v then {rid} else {}) (d_outbox d) (d_outbox d')" by simp
  show "rid \<in> sd_id ` set (d_outbox d')" if v
  proof -
    from that v have "filter ?p (d_outbox d) \<noteq> []" by auto
    then obtain q where "q \<in> set (d_outbox d)" "?p q" unfolding filter_empty_conv by blast
    with claim_rel_ids [OF rel] show ?thesis by (metis image_eqI list.set_map)
  qed
qed

lemma claims_failedI: "claim_rel owner A rows (d_outbox (w_db w')) \<Longrightarrow> claims_failed owner rows w'"
  unfolding claims_failed_def by blast

lemma claims_failed_after:
  "claim_rel owner A rows rows1 \<Longrightarrow> claims_failed owner rows1 w' \<Longrightarrow> claims_failed owner rows w'"
  unfolding claims_failed_def using claim_rel_trans by blast

lemma get_siem_record_found:
  assumes "get_siem_record rid d = (Inr r, d')"
  shows "r \<in> set (d_outbox d) \<and> sd_id r = rid \<and> d' = d"
proof -
  from assms have "find (\<lambda>r. sd_id r = rid) (d_outbox d) = Some r" and d: "d' = d"
    by (simp_all add: get_siem_record_def split: option.splits)
  from find_SomeD [OF this(1)] d show ?thesis by simp
qed

text \<open>A row that was just claimed is not claimed again.\<close>

lemma claim_rel_not_again:
  assumes "claim_rel owner A rows rows'" and "r \<in> set rows" and "sd_status r = ''processing''"
  shows "sd_id r \<notin> A" and "r \<in> set rows'"
proof -
  from assms(1,2) have "\<exists>r'. if sd_id r \<in> A then siem_taken owner r r' else r' = r"
    unfolding claim_rel_def
  proof (induction rule: list_all2_induct)
    case (Cons x xs y ys)
    then show ?case by (cases "r = x") auto
  qed simp
  with assms(3) show "sd_id r \<notin> A" by (auto simp: siem_taken_def split: if_splits)
  with claim_rel_kept [OF assms(1,2)] show "r \<in> set rows'" by blast
qed

lemma claims_law_Cons:
  assumes "claim_rel owner {sd_id r} rows rows1" and "r \<in> set rows1" and "sd_status r = ''processing''"
    and "claims_law owner rows1 n rs w'"
  shows "claims_law owner rows (Suc n) (r # rs) w'"
proof -
  from assms(4) have law: "claim_rel owner (sd_id ` set rs) rows1 (d_outbox (w_db w'))"
      "set rs \<subseteq> set (d_outbox (w_db w'))" "distinct (map sd_id rs)" "length rs \<le> n"
    by (auto simp: claims_law_def)
  from claim_rel_not_again [OF law(1) assms(2,3)] have "sd_id r \<notin> sd_id ` set rs" "r \<in> set (d_outbox (w_db w'))" .
  with law claim_rel_trans [OF assms(1) law(1)] show ?thesis by (simp add: claims_law_def)
qed

lemma wp_claim_each:
  fixes w :: "'x world"
  assumes "siem_ids (d_outbox (w_db w))"
  shows "wp (claim_each_sqlite env owner expires rids)
    (claims_law owner (d_outbox (w_db w)) (length rids)) (\<lambda>_. claims_failed owner (d_outbox (w_db w))) w"
  using assms
proof (induction rids arbitrary: w)
  case Nil
  then show ?case by (simp add: wp_simps claims_law_def claim_rel_none)
next
  case (Cons rid rids)
  let ?rows = "d_outbox (w_db w)"
  show ?case
    unfolding claim_each_sqlite.simps wp_simps
  proof (rule wp_stmtI)
    fix e and w' :: "'x world" assume "w_db w' = w_db w"
    then show "claims_failed owner ?rows w'" using claim_rel_none claims_failedI by metis
  next
    fix now v and w1 :: "'x world"
    assume "fst (claim_siem_record_sqlite owner expires rid now (w_db w)) = Inr v"
      and "w_db w1 = snd (claim_siem_record_sqlite owner expires rid now (w_db w))"
    then have "claim_siem_record_sqlite owner expires rid now (w_db w) = (Inr v, w_db w1)" by (metis prod.collapse)
    note one = claim_one_sqlite [OF Cons.prems this]
    have ids1: "siem_ids (d_outbox (w_db w1))" by (rule claim_rel_siem_ids [OF one(1) Cons.prems])
    show "wp (if \<not> v then claim_each_sqlite env owner expires rids
        else bind (stmt env (\<lambda>_. get_siem_record rid)) (\<lambda>r. bind (claim_each_sqlite env owner expires rids)
          (\<lambda>rs. ret (r # rs))))
      (claims_law owner ?rows (length (rid # rids))) (\<lambda>_. claims_failed owner ?rows) w1"
    proof (cases v)
      case False
      with one(1) have rel: "claim_rel owner {} ?rows (d_outbox (w_db w1))" by simp
      then have "d_outbox (w_db w1) = ?rows" by (rule claim_rel_empty)
      with Cons.IH [OF ids1] False show ?thesis
        by (auto elim!: wp_mono simp: claims_law_def)
    next
      case True
      with one(1) have rel: "claim_rel owner {rid} ?rows (d_outbox (w_db w1))" by simp
      have "wp (stmt env (\<lambda>_. get_siem_record rid)) (\<lambda>r. wp (claim_each_sqlite env owner expires rids)
          (\<lambda>rs. claims_law owner ?rows (length (rid # rids)) (r # rs)) (\<lambda>_. claims_failed owner ?rows))
          (\<lambda>_. claims_failed owner ?rows) w1"
      proof (rule wp_stmtI)
        fix e and w' :: "'x world" assume "w_db w' = w_db w1"
        with rel show "claims_failed owner ?rows w'" by (metis claims_failedI)
      next
        fix now r and w2 :: "'x world"
        assume g: "fst (get_siem_record rid (w_db w1)) = Inr r" "w_db w2 = snd (get_siem_record rid (w_db w1))"
        then have "get_siem_record rid (w_db w1) = (Inr r, w_db w2)" by (simp add: prod_eq_iff)
        from get_siem_record_found [OF this] have r: "r \<in> set (d_outbox (w_db w1))" "sd_id r = rid"
          and w2: "w_db w2 = w_db w1" by blast+
        from claim_rel_mem [OF rel r(1)] r(2) have "\<exists>q. siem_taken owner q r" by auto
        then have "sd_status r = ''processing''" by (auto simp: siem_taken_def)
        note next_claim = claims_law_Cons [OF rel [folded r(2)] r(1) this]
        have "siem_ids (d_outbox (w_db w2))" using ids1 w2 by simp
        from Cons.IH [OF this] show "wp (claim_each_sqlite env owner expires rids)
          (\<lambda>rs. claims_law owner ?rows (length (rid # rids)) (r # rs)) (\<lambda>_. claims_failed owner ?rows) w2"
          unfolding w2 by (rule wp_mono) (simp_all add: next_claim claims_failed_after [OF rel])
      qed
      with True show ?thesis by (simp add: wp_simps)
    qed
  qed
qed

lemma sqlite_claim_law:
  fixes w :: "'x world"
  assumes "siem_ids (d_outbox (w_db w))"
  shows "wp (claim_pending_compliance_siem_delivery_records_sqlite env owner lease_for limit)
    (claims_law owner (d_outbox (w_db w)) (siem_limit limit)) (\<lambda>_. claims_failed owner (d_outbox (w_db w))) w"
proof -
  have "wp (stmt env (\<lambda>now. siem_candidates_sqlite now limit)) (\<lambda>rids. wp (claim_each_sqlite env owner expires rids)
      (claims_law owner (d_outbox (w_db w)) (siem_limit limit)) (\<lambda>_. claims_failed owner (d_outbox (w_db w))))
      (\<lambda>_. claims_failed owner (d_outbox (w_db w))) w" for expires
  proof (rule wp_stmtI)
    fix e and w' :: "'x world" assume "w_db w' = w_db w"
    then show "claims_failed owner (d_outbox (w_db w)) w'"
      unfolding claims_failed_def using claim_rel_none by metis
  next
    fix now rids and w1 :: "'x world"
    assume rids: "fst (siem_candidates_sqlite now limit (w_db w)) = Inr rids"
      and "w_db w1 = snd (siem_candidates_sqlite now limit (w_db w))"
    then have w1: "w_db w1 = w_db w" by (simp add: siem_candidates_sqlite_def)
    from rids have n: "length rids \<le> siem_limit limit" by (auto simp: siem_candidates_sqlite_def)
    have "siem_ids (d_outbox (w_db w1))" using assms w1 by simp
    from wp_claim_each [OF this]
    show "wp (claim_each_sqlite env owner expires rids) (claims_law owner (d_outbox (w_db w)) (siem_limit limit))
      (\<lambda>_. claims_failed owner (d_outbox (w_db w))) w1"
      unfolding w1 by (rule wp_mono) (use n in \<open>simp_all add: claims_law_def\<close>)
  qed
  then show ?thesis
    by (simp add: wp_simps claim_pending_compliance_siem_delivery_records_sqlite_def)
qed

lemma sqlite_claim_each_kept [kept]:
  "quiet (claim_each_sqlite env owner expires rids)" "silent (claim_each_sqlite env owner expires rids)"
  "keeps (\<lambda>d. P (d\<lparr>d_outbox := []\<rparr>)) (claim_each_sqlite env owner expires rids)"
proof -
  have one: "keeps (\<lambda>d. P (d\<lparr>d_outbox := []\<rparr>)) (stmt env (claim_siem_record_sqlite owner expires rid))"
      "keeps (\<lambda>d. P (d\<lparr>d_outbox := []\<rparr>)) (stmt env (\<lambda>_. get_siem_record rid))" for rid
    by (auto intro!: keeps_stmt simp: claim_siem_record_sqlite_def update_where_def get_siem_record_def
        split: option.splits)
  show "quiet (claim_each_sqlite env owner expires rids)" "silent (claim_each_sqlite env owner expires rids)"
    "keeps (\<lambda>d. P (d\<lparr>d_outbox := []\<rparr>)) (claim_each_sqlite env owner expires rids)"
    by (induction rids) (auto intro!: kept one)
qed

interpretation pg_siem: siem_store
  "\<lambda>env owner lease_for limit. stmt env (\<lambda>now. claim_pending_compliance_siem_delivery_records now owner lease_for limit)"
  by unfold_locales
    (auto intro!: pg_claim_law kept keeps_stmt
      simp: claim_pending_compliance_siem_delivery_records_def Let_def)

interpretation lite_siem: siem_store claim_pending_compliance_siem_delivery_records_sqlite
proof unfold_locales
  have one: "keeps (\<lambda>d. P (d\<lparr>d_outbox := []\<rparr>)) (stmt env (\<lambda>now. siem_candidates_sqlite now limit))"
    for P env limit by (auto intro!: keeps_stmt simp: siem_candidates_sqlite_def)
  show "quiet (claim_pending_compliance_siem_delivery_records_sqlite env owner lease_for limit)"
    "silent (claim_pending_compliance_siem_delivery_records_sqlite env owner lease_for limit)"
    "keeps (\<lambda>d. P (d\<lparr>d_outbox := []\<rparr>)) (claim_pending_compliance_siem_delivery_records_sqlite env owner lease_for limit)"
    for env owner lease_for limit P
    unfolding claim_pending_compliance_siem_delivery_records_sqlite_def
    by (auto intro!: kept one)
qed (rule sqlite_claim_law)

section \<open>Deliveries\<close>

text \<open>A record after an attempt: counted, released, and delivered, to be retried or given up.\<close>

definition siem_attempted :: "siem_record \<Rightarrow> siem_record \<Rightarrow> bool" where
  "siem_attempted r r' \<longleftrightarrow>
     new_siem_record.truncate r' = new_siem_record.truncate r \<and> sd_attempts r' = sd_attempts r + 1 \<and>
     sd_leased_by r' = None \<and> sd_lease_expires_at r' = None \<and>
     (sd_status r' = ''delivered'' \<and> sd_delivered_at r' \<noteq> None \<or>
      sd_status r' = ''failed'' \<and> sd_attempts r' < sd_max_attempts r' \<and> sd_delivered_at r' = sd_delivered_at r \<or>
      sd_status r' = ''dead_lettered'' \<and> sd_delivered_at r' = sd_delivered_at r)"

definition finish_rel :: "uuid set \<Rightarrow> siem_record list \<Rightarrow> siem_record list \<Rightarrow> bool" where
  "finish_rel A = list_all2 (\<lambda>r r'. if sd_id r \<in> A then siem_attempted r r' else r' = r)"

lemma siem_attempted_id: "siem_attempted r r' \<Longrightarrow> sd_id r' = sd_id r"
  by (simp add: siem_attempted_def new_siem_record.truncate_def)

lemma marks_attempt:
  "siem_attempted r (siem_delivered now st r)" "siem_attempted r (siem_failed now e st t r)"
  "siem_attempted r (siem_dead_lettered now e st r)"
  by (auto simp: siem_attempted_def siem_delivered_def siem_failed_def siem_dead_lettered_def
      new_siem_record.truncate_def Let_def)

lemma finish_rel_none: "finish_rel {} rows rows"
  by (simp add: finish_rel_def list_all2_same)

lemma finish_rel_ids: "finish_rel A rows rows' \<Longrightarrow> map sd_id rows' = map sd_id rows"
  unfolding finish_rel_def
  by (induction rule: list_all2_induct) (auto split: if_splits dest: siem_attempted_id)

lemma finish_rel_kept: "finish_rel A rows rows' \<Longrightarrow> r \<in> set rows \<Longrightarrow> sd_id r \<notin> A \<Longrightarrow> r \<in> set rows'"
  unfolding finish_rel_def by (induction rule: list_all2_induct) auto

lemma finish_rel_trans:
  assumes "finish_rel A rows rows1" and "finish_rel B rows1 rows2" and "A \<inter> B = {}"
  shows "finish_rel (A \<union> B) rows rows2"
  using assms(1,2) unfolding finish_rel_def
proof (induction arbitrary: rows2 rule: list_all2_induct)
  case (Cons r rows r1 rows1)
  then obtain r2 rs2 where r2: "rows2 = r2 # rs2" and
      hd: "if sd_id r1 \<in> B then siem_attempted r1 r2 else r2 = r1" and
      tl: "list_all2 (\<lambda>r r'. if sd_id r \<in> A \<union> B then siem_attempted r r' else r' = r) rows rs2"
    by (auto simp: list_all2_Cons1)
  from Cons.hyps(1) have "sd_id r1 = sd_id r" by (auto split: if_splits dest: siem_attempted_id)
  with Cons.hyps(1) hd assms(3) have "if sd_id r \<in> A \<union> B then siem_attempted r r2 else r2 = r"
    by (auto split: if_splits)
  with r2 tl show ?case by simp
qed simp

lemma update_siem_finish:
  assumes "update_siem_record rid f d = (Inr v, d')" and "\<And>r. siem_attempted r (f r)"
  shows "finish_rel {rid} (d_outbox d) (d_outbox d')"
proof -
  from assms(1) have "d_outbox d' = map (\<lambda>r. if sd_id r = rid then f r else r) (d_outbox d)"
    by (auto simp: update_siem_record_def split: option.splits)
  with assms(2) show ?thesis by (simp add: finish_rel_def list_all2_map2 list_all2_same)
qed

lemma marked_stmt:
  fixes w :: "'x world"
  assumes "\<And>now d. g now d = update_siem_record rid (f now) d" and "\<And>now r. siem_attempted r (f now r)"
  shows "wp (ignore (stmt env g)) (\<lambda>_ w'. finish_rel {rid} (d_outbox (w_db w)) (d_outbox (w_db w')))
    (\<lambda>_ w'. w_db w' = w_db w) w"
  unfolding wp_simps
proof (rule wp_stmtI)
  fix now v and w' :: "'x world"
  assume "fst (g now (w_db w)) = Inr v" "w_db w' = snd (g now (w_db w))"
  then have "update_siem_record rid (f now) (w_db w) = (Inr v, w_db w')" by (simp add: assms(1) prod_eq_iff)
  then show "finish_rel {rid} (d_outbox (w_db w)) (d_outbox (w_db w'))" by (rule update_siem_finish) (rule assms(2))
qed

lemma wp_record_attempt:
  fixes w :: "'x world"
  shows "wp (record_attempt env ss cfg r v)
    (\<lambda>_ w'. finish_rel {sd_id r} (d_outbox (w_db w)) (d_outbox (w_db w'))) (\<lambda>_ w'. w_db w' = w_db w) w"
proof (cases v)
  case (Delivered st)
  show ?thesis
    unfolding record_attempt_def Delivered siem_delivery_attempt.case
    by (rule marked_stmt [where f="\<lambda>now. siem_delivered now st"])
      (simp_all add: mark_compliance_siem_delivery_record_delivered_def marks_attempt)
next
  case (Failed st e retryable)
  show ?thesis
  proof (cases retryable)
    case True
    show ?thesis
      unfolding record_attempt_def Failed siem_delivery_attempt.case if_P [OF True] wp_bind wp_now_utc
      by (rule marked_stmt [where f="\<lambda>now. siem_failed now e st (o_now env (w_stmts w) + retry_delay ss cfg r)"])
        (simp_all add: mark_compliance_siem_delivery_record_failed_def marks_attempt)
  next
    case False
    then have "record_attempt env ss cfg r v =
        ignore (stmt env (mark_compliance_siem_delivery_record_dead_lettered (sd_id r) e st))"
      by (simp add: record_attempt_def Failed)
    then show ?thesis
      by (simp only:) (rule marked_stmt [where f="\<lambda>now. siem_dead_lettered now e st"],
        simp_all add: mark_compliance_siem_delivery_record_dead_lettered_def marks_attempt)
  qed
qed

lemma insert_psubset: "B \<subset> S \<Longrightarrow> a \<notin> S \<Longrightarrow> T = insert a S \<Longrightarrow> {a} \<union> B \<subset> T"
  by (metis insert_is_Un insert_ident insert_mono psubsetD psubset_eq)

lemma wp_attempt:
  fixes w :: "'x world"
  assumes "\<And>v w'. w_db w' = w_db w \<Longrightarrow> Q v w'"
  shows "wp (attempt ss cfg r) Q E w"
  using assms by (simp add: attempt_def wp_def split: prod.split)

lemma wp_deliver_each:
  fixes w :: "'x world"
  assumes "distinct (map sd_id rs)"
  shows "wp (deliver_each env ss cfg rs)
    (\<lambda>_ w'. finish_rel (sd_id ` set rs) (d_outbox (w_db w)) (d_outbox (w_db w')))
    (\<lambda>_ w'. \<exists>B \<subset> sd_id ` set rs. finish_rel B (d_outbox (w_db w)) (d_outbox (w_db w'))) w"
  using assms
proof (induction rs arbitrary: w)
  case Nil
  then show ?case by (simp add: wp_simps finish_rel_none)
next
  case (Cons r rs)
  let ?rows = "d_outbox (w_db w)"
  show ?case
    unfolding deliver_each.simps wp_simps
  proof (rule wp_attempt, rule wp_mono [OF wp_record_attempt])
    fix v and w1 w2 :: "'x world" assume w1: "w_db w1 = w_db w"
      and fin: "finish_rel {sd_id r} (d_outbox (w_db w1)) (d_outbox (w_db w2))"
    have new: "sd_id r \<notin> sd_id ` set rs" and ds: "distinct (map sd_id rs)" using Cons.prems by auto
    have fin: "finish_rel {sd_id r} ?rows (d_outbox (w_db w2))" using fin w1 by simp
    show "wp (deliver_each env ss cfg rs)
      (\<lambda>_ w'. finish_rel (sd_id ` set (r # rs)) ?rows (d_outbox (w_db w')))
      (\<lambda>_ w'. \<exists>B \<subset> sd_id ` set (r # rs). finish_rel B ?rows (d_outbox (w_db w'))) w2"
    proof (rule wp_mono [OF Cons.IH [OF ds]])
      fix u and w' :: "'x world" assume "finish_rel (sd_id ` set rs) (d_outbox (w_db w2)) (d_outbox (w_db w'))"
      from finish_rel_trans [OF fin this] new
      show "finish_rel (sd_id ` set (r # rs)) ?rows (d_outbox (w_db w'))" by simp
    next
      fix e and w' :: "'x world"
      assume "\<exists>B \<subset> sd_id ` set rs. finish_rel B (d_outbox (w_db w2)) (d_outbox (w_db w'))"
      then obtain B where B: "B \<subset> sd_id ` set rs" "finish_rel B (d_outbox (w_db w2)) (d_outbox (w_db w'))" by blast
      have "finish_rel ({sd_id r} \<union> B) ?rows (d_outbox (w_db w'))"
        by (rule finish_rel_trans [OF fin B(2)]) (use B(1) new in blast)
      moreover have "{sd_id r} \<union> B \<subset> sd_id ` set (r # rs)"
        by (rule insert_psubset [OF B(1)]) (use new in simp_all)
      ultimately show "\<exists>B \<subset> sd_id ` set (r # rs). finish_rel B ?rows (d_outbox (w_db w'))" by blast
    qed
  next
    fix e and w1 w2 :: "'x world" assume "w_db w1 = w_db w" "w_db w2 = w_db w1"
    then show "\<exists>B \<subset> sd_id ` set (r # rs). finish_rel B ?rows (d_outbox (w_db w2))"
      using finish_rel_none by (intro exI [of _ "{}"]) auto
  qed
qed

section \<open>The pass\<close>

text \<open>
  What a pass does to a row: it attempted the rows of \<open>B\<close>, has claimed the others of \<open>A\<close>, and
  left the rest alone.
\<close>

definition pass_row :: "string \<Rightarrow> uuid set \<Rightarrow> uuid set \<Rightarrow> siem_record \<Rightarrow> siem_record \<Rightarrow> bool" where
  "pass_row owner A B r r' \<longleftrightarrow>
     (if sd_id r \<in> B then (sd_status r = ''pending'' \<or> sd_status r = ''failed'') \<and> siem_attempted r r'
      else if sd_id r \<in> A then siem_taken owner r r' else r' = r)"

lemma taken_attempted:
  "siem_taken owner r r1 \<Longrightarrow> siem_attempted r1 r2 \<Longrightarrow>
   (sd_status r = ''pending'' \<or> sd_status r = ''failed'') \<and> siem_attempted r r2"
  by (auto simp: siem_taken_def siem_attempted_def siem_claimed_def new_siem_record.truncate_def)

lemma pass_rows:
  assumes "claim_rel owner A rows rows1" and "finish_rel B rows1 rows2" and "B \<subseteq> A"
  shows "list_all2 (pass_row owner A B) rows rows2"
  using assms(1,2) unfolding claim_rel_def finish_rel_def
proof (induction arbitrary: rows2 rule: list_all2_induct)
  case (Cons r rows r1 rows1)
  then obtain r2 rs2 where r2: "rows2 = r2 # rs2" "list_all2 (pass_row owner A B) rows rs2" and
      hd: "if sd_id r1 \<in> B then siem_attempted r1 r2 else r2 = r1"
    by (auto simp: list_all2_Cons1)
  from Cons.hyps(1) have "sd_id r1 = sd_id r" by (auto split: if_splits dest: siem_taken_id)
  with Cons.hyps(1) hd assms(3) have "pass_row owner A B r r2"
    by (auto simp: pass_row_def split: if_splits dest: taken_attempted)
  with r2 show ?case by simp
qed simp

definition pass_law :: "string \<Rightarrow> nat \<Rightarrow> siem_record list \<Rightarrow> string + unit \<Rightarrow> siem_record list \<Rightarrow> bool" where
  "pass_law owner n rows res rows' \<longleftrightarrow>
     (\<exists>A B. B \<subseteq> A \<and> list_all2 (pass_row owner A B) rows rows' \<and> (res = Inr () \<longrightarrow> A = B \<and> card A \<le> n))"

lemma pass_law_claims:
  assumes "claims_law owner rows n rs w" and "finish_rel B (d_outbox (w_db w)) rows'" and "B \<subseteq> sd_id ` set rs"
    and "res = Inr () \<Longrightarrow> B = sd_id ` set rs"
  shows "pass_law owner n rows res rows'"
proof -
  from assms(1) have rel: "claim_rel owner (sd_id ` set rs) rows (d_outbox (w_db w))" and "length rs \<le> n"
    by (simp_all add: claims_law_def)
  then have "card (sd_id ` set rs) \<le> n" using card_image_le [of "set rs" sd_id] card_length [of rs] by simp
  with pass_rows [OF rel assms(2,3)] assms(3,4) show ?thesis unfolding pass_law_def by blast
qed

context siem_store
begin

lemma wp_pass:
  assumes "siem_ids (d_outbox (w_db w))"
  shows "wp (bind (claim env wk lease_for limit) (\<lambda>records.
         if records = [] then ret ()
         else case ce of
           Some _ \<Rightarrow> fail msg
         | None \<Rightarrow> deliver_each env ss cfg records))
    (\<lambda>_ w'. pass_law wk (siem_limit limit) (d_outbox (w_db w)) (Inr ()) (d_outbox (w_db w')))
    (\<lambda>e w'. pass_law wk (siem_limit limit) (d_outbox (w_db w)) (Inl e) (d_outbox (w_db w'))) w"
  unfolding wp_bind
proof (rule wp_mono [OF claim_law [OF assms]])
  let ?rows = "d_outbox (w_db w)" let ?law = "\<lambda>res w'. pass_law wk (siem_limit limit) ?rows res (d_outbox (w_db w'))"
  fix rs and w1 :: "'x world" assume law: "claims_law wk ?rows (siem_limit limit) rs w1"
  show "wp (if rs = [] then ret () else case ce of Some _ \<Rightarrow> fail msg | None \<Rightarrow> deliver_each env ss cfg rs)
      (\<lambda>_. ?law (Inr ())) (\<lambda>e. ?law (Inl e)) w1"
  proof (cases "rs = []")
    case True
    with pass_law_claims [OF law finish_rel_none] show ?thesis by (simp add: wp_simps)
  next
    case False
    have failed: "?law (Inl e) w1" for e by (rule pass_law_claims [OF law finish_rel_none]) simp_all
    have "wp (deliver_each env ss cfg rs) (\<lambda>_. ?law (Inr ())) (\<lambda>e. ?law (Inl e)) w1"
    proof (rule wp_mono [OF wp_deliver_each])
      show "distinct (map sd_id rs)" using law by (simp add: claims_law_def)
    next
      fix u and w' :: "'x world" assume "finish_rel (sd_id ` set rs) (d_outbox (w_db w1)) (d_outbox (w_db w'))"
      from pass_law_claims [OF law this] show "?law (Inr ()) w'" by simp
    next
      fix e and w' :: "'x world"
      assume "\<exists>B \<subset> sd_id ` set rs. finish_rel B (d_outbox (w_db w1)) (d_outbox (w_db w'))"
      then show "?law (Inl e) w'" using pass_law_claims [OF law] by blast
    qed
    with False failed show ?thesis by (auto simp: wp_simps split: option.split)
  qed
next
  fix e and w1 :: "'x world" assume "claims_failed wk (d_outbox (w_db w)) w1"
  then obtain A where "claim_rel wk A (d_outbox (w_db w)) (d_outbox (w_db w1))" unfolding claims_failed_def by blast
  from pass_rows [OF this finish_rel_none] show
    "pass_law wk (siem_limit limit) (d_outbox (w_db w)) (Inl e) (d_outbox (w_db w1))"
    unfolding pass_law_def by blast
qed

end

lemma pass_law_holds:
  fixes w :: "'x world"
  assumes "siem_ids (d_outbox (w_db w))"
    and "process_compliance_siem_delivery_outbox b env ss wk cfg w = (res, w')"
  shows "pass_law wk (siem_limit (sc_batch_size cfg)) (d_outbox (w_db w)) res (d_outbox (w_db w'))"
proof -
  let ?law = "\<lambda>res (w' :: 'x world). pass_law wk (siem_limit (sc_batch_size cfg)) (d_outbox (w_db w)) res (d_outbox (w_db w'))"
  have "wp (process_compliance_siem_delivery_outbox b env ss wk cfg) (\<lambda>_. ?law (Inr ())) (\<lambda>e. ?law (Inl e)) w"
    unfolding process_compliance_siem_delivery_outbox_def claim_pending_compliance_siem_delivery_records_dual_def
    by (cases b) (simp_all only: storage_backend.case pg_siem.wp_pass [OF assms(1)] lite_siem.wp_pass [OF assms(1)])
  from wp_run [OF this assms(2)] show ?thesis by (cases res) simp_all
qed

section \<open>The invariant of the outbox\<close>

definition siem_row_ok :: "siem_record \<Rightarrow> bool" where
  "siem_row_ok r \<longleftrightarrow>
     sd_status r \<in> {''pending'', ''processing'', ''failed'', ''delivered'', ''dead_lettered''} \<and>
     0 \<le> sd_attempts r \<and> sd_attempts r \<le> sd_max_attempts r \<and> 1 \<le> sd_max_attempts r \<and> sd_max_attempts r \<le> 100 \<and>
     (sd_status r \<in> {''pending'', ''processing'', ''failed''} \<longrightarrow> sd_attempts r < sd_max_attempts r) \<and>
     (sd_status r = ''processing'' \<longleftrightarrow> sd_leased_by r \<noteq> None) \<and>
     (sd_leased_by r = None \<longleftrightarrow> sd_lease_expires_at r = None) \<and>
     (sd_status r = ''delivered'' \<longleftrightarrow> sd_delivered_at r \<noteq> None)"

definition outbox_ok :: "siem_record list \<Rightarrow> bool" where
  "outbox_ok rows \<longleftrightarrow> siem_ids rows \<and> list_all siem_row_ok rows"

lemma attempted_ok:
  assumes "sd_status r = ''pending'' \<or> sd_status r = ''failed''" and "siem_attempted r r'" and "siem_row_ok r"
  shows "siem_row_ok r'"
proof -
  have m: "sd_max_attempts r' = sd_max_attempts r"
    using assms(2) by (simp add: siem_attempted_def new_siem_record.truncate_def)
  have n: "0 \<le> sd_attempts r" "sd_attempts r < sd_max_attempts r" "1 \<le> sd_max_attempts r" "sd_max_attempts r \<le> 100"
      "sd_delivered_at r = None"
    using assms(1,3) unfolding siem_row_ok_def by (elim disjE; simp)+
  from assms(2) show ?thesis
    unfolding siem_attempted_def siem_row_ok_def by (elim conjE disjE) (use m n in simp_all)
qed

lemma taken_ok: "siem_taken owner r r' \<Longrightarrow> siem_row_ok r \<Longrightarrow> siem_row_ok r'"
  unfolding siem_taken_def siem_row_ok_def siem_claimed_def by (elim conjE exE disjE) simp_all

lemma pass_row_ok: "pass_row owner A B r r' \<Longrightarrow> siem_row_ok r \<Longrightarrow> siem_row_ok r' \<and> sd_id r' = sd_id r"
  unfolding pass_row_def
  using attempted_ok [of r r'] taken_ok [of owner r r'] siem_attempted_id [of r r'] siem_taken_id [of owner r r']
  by (simp split: if_split_asm)

lemma pass_rows_ok:
  assumes "list_all2 (pass_row owner A B) rows rows'" and "outbox_ok rows"
  shows "outbox_ok rows'"
proof -
  from assms have "list_all siem_row_ok rows' \<and> map sd_id rows' = map sd_id rows"
    unfolding outbox_ok_def by (induction rule: list_all2_induct) (auto simp: siem_ids_def dest: pass_row_ok)
  with assms(2) show ?thesis by (simp add: outbox_ok_def siem_ids_def)
qed

lemma silent_deliver_each:
  assumes "\<not> sc_http_enabled cfg"
  shows "silent (deliver_each env ss cfg rs)"
proof -
  have "silent (attempt ss cfg r)" for r
    using assms by (simp add: silent_def attempt_def attempt_compliance_siem_delivery_def Let_def)
  moreover have "silent (record_attempt env ss cfg r v)" for r v
    by (auto simp: record_attempt_def intro!: kept split: siem_delivery_attempt.split)
  ultimately show ?thesis by (induction rs) (auto intro!: kept)
qed

lemma silent_pass:
  assumes "\<not> sc_http_enabled cfg"
  shows "silent (process_compliance_siem_delivery_outbox b env ss wk cfg)"
  unfolding process_compliance_siem_delivery_outbox_def claim_pending_compliance_siem_delivery_records_dual_def
  using pg_siem.claim_silent lite_siem.claim_silent silent_deliver_each [OF assms]
  by (cases b) (auto intro!: kept split: option.split)


text \<open>
  A record whose worker stopped between the claim and the recording of the attempt is lost to
  delivery: its status is \<open>processing\<close>, and no later pass of any worker on either back end, however
  long after the lease has expired, nor a requeue of dead letters, changes it.
\<close>

theorem abandoned_siem_record_is_stuck:
  fixes w :: "'x world"
  assumes "siem_ids (d_outbox (w_db w))" and "r \<in> set (d_outbox (w_db w))" and "sd_status r = ''processing''"
  shows "(\<forall>b env ss wk cfg. r \<in> set (d_outbox (w_db (snd (process_compliance_siem_delivery_outbox b env ss wk cfg w))))) \<and>
    (\<forall>now tenant rid retry_at.
      r \<in> set (d_outbox (snd (requeue_dead_letter_compliance_siem_delivery_record now tenant rid retry_at (w_db w)))))"
proof (intro conjI allI)
  fix b env wk cfg and ss :: "'x siem_services"
  obtain res w' where e: "process_compliance_siem_delivery_outbox b env ss wk cfg w = (res, w')" by force
  from pass_law_holds [OF assms(1) this] obtain A B where "B \<subseteq> A"
      "list_all2 (pass_row wk A B) (d_outbox (w_db w)) (d_outbox (w_db w'))" unfolding pass_law_def by blast
  from this(2) assms(2) have "r \<in> set (d_outbox (w_db w'))"
  proof (induction rule: list_all2_induct)
    case (Cons x xs y ys)
    have "x = r \<Longrightarrow> y = r" using Cons.hyps(1) assms(3)
      by (auto simp: pass_row_def siem_taken_def split: if_splits)
    with Cons show ?case by auto
  qed simp
  with e show "r \<in> set (d_outbox (w_db (snd (process_compliance_siem_delivery_outbox b env ss wk cfg w))))" by simp
next
  fix now tenant rid retry_at
  show "r \<in> set (d_outbox (snd (requeue_dead_letter_compliance_siem_delivery_record now tenant rid retry_at (w_db w))))"
    using assms(2,3) by (force simp: requeue_dead_letter_compliance_siem_delivery_record_def Let_def)
qed

section \<open>An example\<close>

text \<open>One pending record for a test target; the statement after the claim may fail.\<close>

definition sample_siem :: siem_record where
  "sample_siem = \<lparr>sd_id = ''s'', sd_tenant_id = ''a'', sd_run_id = None, sd_adapter = ''splunk_hec'',
     sd_delivery_target = ''mock://success'', sd_content_type = ''application/x-ndjson'', sd_payload_ndjson = [],
     sd_max_attempts = 3, sd_status = ''pending'', sd_attempts = 0, sd_next_attempt_at = 0, sd_leased_by = None,
     sd_lease_expires_at = None, sd_last_error = None, sd_last_http_status = None, sd_created_at = 0,
     sd_updated_at = 0, sd_delivered_at = None\<rparr>"

definition sample_siem_config :: siem_config where
  "sample_siem_config = \<lparr>sc_enabled = True, sc_batch_size = 10, sc_lease = 30000, sc_retry_backoff = 5000,
     sc_retry_jitter_max = 1000, sc_http_enabled = False, sc_http_auth_header = ''authorization'',
     sc_http_auth_token = None\<rparr>"

definition sample_siem_services :: "unit siem_services" where
  "sample_siem_services = \<lparr>ss_client_error = None, ss_post = (\<lambda>_ x. (Inr (200, None), x)), ss_uuid_bytes = (\<lambda>_. [])\<rparr>"

definition sample_siem_env :: "bool \<Rightarrow> outside" where
  "sample_siem_env broken = \<lparr>o_uuid = (\<lambda>n. replicate n CHR ''u''), o_now = (\<lambda>n. int n),
     o_fault = (\<lambda>n. if broken \<and> n = 1 then Some ''connection lost'' else None), o_sql_text = (\<lambda>_. ''sql'')\<rparr>"

definition sample_siem_world :: "siem_record \<Rightarrow> nat \<Rightarrow> unit world" where
  "sample_siem_world r n = \<lparr>w_db = empty_db\<lparr>d_outbox := [r]\<rparr>, w_ext = (), w_uuids = 0, w_stmts = n, w_calls = []\<rparr>"

abbreviation sample_pass :: "bool \<Rightarrow> (unit, unit) comp" where
  "sample_pass broken \<equiv> process_compliance_siem_delivery_outbox Postgres (sample_siem_env broken)
     sample_siem_services ''w1'' sample_siem_config"

lemma sample_siem_claim:
  "claim_pending_compliance_siem_delivery_records 0 ''w1'' 30000 10 (w_db (sample_siem_world sample_siem 0)) =
     (Inr [siem_claimed 0 ''w1'' 30000 sample_siem], w_db (sample_siem_world (siem_claimed 0 ''w1'' 30000 sample_siem) 1))"
  by (simp add: claim_pending_compliance_siem_delivery_records_def Let_def sample_siem_world_def siem_claimable_def
      siem_limit_def clamp_lease_ms_def i64_max_def sample_siem_def)

lemma sample_target: "trim ''mock://success'' = ''mock://success''"
  by code_simp

lemma sample_attempt:
  "attempt_compliance_siem_delivery sample_siem_services sample_siem_config (siem_claimed 0 ''w1'' 30000 sample_siem) () =
     (Delivered (Some 200), ())"
  by (simp add: attempt_compliance_siem_delivery_def Let_def siem_claimed_def sample_siem_def sample_target
      eq_ignore_ascii_case_def)

lemmas sample_pass_defs = process_compliance_siem_delivery_outbox_def
  claim_pending_compliance_siem_delivery_records_dual_def bind_def stmt_def sample_siem_env_def
  sample_siem_config_def Let_def

lemma sample_abandoned:
  "sample_pass True (sample_siem_world sample_siem 0) =
     (Inl ''connection lost'', sample_siem_world (siem_claimed 0 ''w1'' 30000 sample_siem) 2)"
  using sample_siem_claim sample_attempt
  by (simp add: sample_pass_defs attempt_def record_attempt_def ignore_def sample_siem_world_def)

lemma sample_outbox_ok: "outbox_ok (d_outbox (w_db (sample_siem_world sample_siem 0)))"
  by (simp add: outbox_ok_def siem_ids_def siem_row_ok_def sample_siem_world_def sample_siem_def)


theorem abandoned_siem_record_is_stuck_witness:
  "fst (sample_pass True (sample_siem_world sample_siem 0)) = Inl ''connection lost'' \<and>
   siem_claimed 0 ''w1'' 30000 sample_siem \<in>
     set (d_outbox (w_db (snd (sample_pass False (snd (sample_pass True (sample_siem_world sample_siem 0)))))))"
proof -
  let ?w = "sample_siem_world (siem_claimed 0 ''w1'' 30000 sample_siem) 2"
  have "siem_ids (d_outbox (w_db ?w))" "siem_claimed 0 ''w1'' 30000 sample_siem \<in> set (d_outbox (w_db ?w))"
    by (simp_all add: siem_ids_def sample_siem_world_def)
  from abandoned_siem_record_is_stuck [OF this] show ?thesis by (simp add: sample_abandoned)
qed

end
