(* ===== verification/MemoryStore.thy ===== *)
theory MemoryStore
  imports SiemOutbox
begin

text \<open>
  The memory of agents (\<open>core/src/db.rs\<close>, and for SQLite \<open>core/src/db_worker_dual.rs\<close>): storing and
  listing records, compacting groups of old records, purging expired ones, and the worker's
  compaction with its audit events (\<open>process_once_dual\<close> in \<open>worker/src/lib.rs\<close>). References to agents
  are assumed to hold.
\<close>

section \<open>Records\<close>

definition memory_kinds :: "string list" where
  "memory_kinds = [''session'', ''semantic'', ''procedural'', ''handoff'']"

definition create_memory_record ::
    "time \<Rightarrow> new_memory_record \<Rightarrow> db \<Rightarrow> (db_error + memory_record) \<times> db" where
  "create_memory_record now n d =
     (if m_memory_kind n \<notin> set memory_kinds \<or> m_scope n = [] then (Inl CheckViolation, d)
      else if list_ex (\<lambda>r. m_id r = m_id n) (d_memory d) then (Inl UniqueViolation, d)
      else if (case m_run_id n of None \<Rightarrow> False | Some i \<Rightarrow> \<not> list_ex (\<lambda>r. r_id r = i) (d_runs d)) \<or>
              (case m_step_id n of None \<Rightarrow> False | Some i \<Rightarrow> \<not> list_ex (\<lambda>s. s_id s = i) (d_steps d))
      then (Inl ForeignKeyViolation, d)
      else let row = new_memory_record.extend n
             \<lparr>m_compacted_at = None, m_created_at = now, m_updated_at = now\<rparr>
           in (Inr row, d\<lparr>d_memory := d_memory d @ [row]\<rparr>))"

text \<open>
  \<open>LIKE\<close>: \<open>%\<close> stands for any text, \<open>_\<close> for one character, and a backslash escapes the next one.
\<close>

function sql_like :: "string \<Rightarrow> string \<Rightarrow> bool" where
  "sql_like [] s \<longleftrightarrow> s = []"
| "sql_like (q # p) s \<longleftrightarrow>
     (if q = CHR ''%'' then (if s = [] then sql_like p s else sql_like p s \<or> sql_like (q # p) (tl s))
      else if s = [] then False
      else if q = CHR ''_'' then sql_like p (dropWhile continuation_byte (tl s))
      else if q = CHR 0x5C \<and> p \<noteq> [] then hd s = hd p \<and> sql_like (tl p) (tl s)
      else hd s = q \<and> sql_like p (tl s))"
  by pat_completeness auto
termination
proof (relation "measure (\<lambda>(p, s). length p + length s)")
  fix q and p s :: string assume "q \<noteq> CHR ''%''" "s \<noteq> []" "q = CHR ''_''"
  show "((p, dropWhile continuation_byte (tl s)), q # p, s) \<in> measure (\<lambda>(p, s). length p + length s)"
    using length_dropWhile_le [of continuation_byte "tl s"] by simp
qed auto

definition memory_live :: "time \<Rightarrow> memory_record \<Rightarrow> bool" where
  "memory_live now r \<longleftrightarrow> m_compacted_at r = None \<and>
     (case m_expires_at r of None \<Rightarrow> True | Some t \<Rightarrow> now < t)"

definition newest_first :: "nat \<Rightarrow> memory_record list \<Rightarrow> memory_record list" where
  "newest_first n rows = take n (rev (sort_key (\<lambda>r. (m_created_at r, m_id r)) rows))"

definition list_limit :: "int \<Rightarrow> nat" where
  "list_limit limit = nat (min (max limit 1) 1000)"

definition list_tenant_memory_records ::
    "time \<Rightarrow> string \<Rightarrow> uuid option \<Rightarrow> string option \<Rightarrow> string option \<Rightarrow> int \<Rightarrow> db \<Rightarrow> memory_record list" where
  "list_tenant_memory_records now tenant_id agent_id memory_kind scope_prefix limit d =
     newest_first (list_limit limit)
       (filter (\<lambda>r. m_tenant_id r = tenant_id \<and> memory_live now r \<and>
          (case agent_id of None \<Rightarrow> True | Some a \<Rightarrow> m_agent_id r = a) \<and>
          (case memory_kind of None \<Rightarrow> True | Some k \<Rightarrow> m_memory_kind r = k) \<and>
          (case scope_prefix of None \<Rightarrow> True | Some p \<Rightarrow> sql_like (p @ ''%'') (m_scope r))) (d_memory d))"

definition list_tenant_handoff_memory_records ::
    "time \<Rightarrow> string \<Rightarrow> uuid option \<Rightarrow> uuid option \<Rightarrow> int \<Rightarrow> db \<Rightarrow> memory_record list" where
  "list_tenant_handoff_memory_records now tenant_id to_agent_id from_agent_id limit d =
     newest_first (list_limit limit)
       (filter (\<lambda>r. m_tenant_id r = tenant_id \<and> m_memory_kind r = ''handoff'' \<and>
          sql_like ''memory:handoff/%'' (m_scope r) \<and> memory_live now r \<and>
          (case to_agent_id of None \<Rightarrow> True | Some a \<Rightarrow> m_agent_id r = a) \<and>
          (case from_agent_id of None \<Rightarrow> True
           | Some a \<Rightarrow> get_str (m_content_json r) ''from_agent_id'' = Some a)) (d_memory d))"

definition purge_expired_tenant_memory_records :: "string \<Rightarrow> time \<Rightarrow> db \<Rightarrow> int \<times> db" where
  "purge_expired_tenant_memory_records tenant_id as_of d =
     (let p = (\<lambda>r. m_tenant_id r = tenant_id \<and>
            (case m_expires_at r of None \<Rightarrow> False | Some t \<Rightarrow> t \<le> as_of))
      in (int (length (filter p (d_memory d))), d\<lparr>d_memory := filter (\<lambda>r. \<not> p r) (d_memory d)\<rparr>))"

section \<open>Compaction\<close>

type_synonym memory_group = "string \<times> uuid \<times> string \<times> string"

definition group_of :: "memory_record \<Rightarrow> memory_group" where
  "group_of r = (m_tenant_id r, m_agent_id r, m_memory_kind r, m_scope r)"

record memory_compaction_candidate =
  cc_group :: memory_group
  cc_source_count :: int
  cc_source_entry_ids :: "uuid list"
  cc_run_id :: "uuid option"
  cc_step_id :: "uuid option"

record memory_compaction_group_outcome =
  cg_group :: memory_group
  cg_source_count :: int
  cg_source_entry_ids :: json
  cg_run_id :: "uuid option"
  cg_step_id :: "uuid option"

record memory_compaction_run_stats =
  cs_processed_groups :: int
  cs_compacted_source_records :: int
  cs_groups :: "memory_compaction_group_outcome list"

definition memory_old :: "time \<Rightarrow> time \<Rightarrow> memory_record \<Rightarrow> bool" where
  "memory_old now cutoff r \<longleftrightarrow> memory_live now r \<and> m_created_at r \<le> cutoff"

definition memory_old_sqlite :: "time \<Rightarrow> time \<Rightarrow> memory_record \<Rightarrow> bool" where
  "memory_old_sqlite now cutoff r \<longleftrightarrow> m_compacted_at r = None \<and>
     (case m_expires_at r of None \<Rightarrow> True | Some t \<Rightarrow> secs now < secs t) \<and>
     secs (m_created_at r) \<le> secs cutoff"

definition least_of :: "('a :: linorder) list \<Rightarrow> 'a" where
  "least_of xs = fold min xs (hd xs)"

text \<open>The oldest group first; on SQLite groups of the same second stay in the order of the table.\<close>

definition candidate_of :: "memory_record list \<Rightarrow> memory_group \<Rightarrow> memory_compaction_candidate" where
  "candidate_of rows g =
     (let rs = sort_key (\<lambda>r. (m_created_at r, m_id r)) (filter (\<lambda>r. group_of r = g) rows)
      in \<lparr>cc_group = g, cc_source_count = int (length rs), cc_source_entry_ids = map m_id rs,
          cc_run_id = m_run_id (last rs), cc_step_id = m_step_id (last rs)\<rparr>)"

definition groups_with :: "int \<Rightarrow> memory_record list \<Rightarrow> memory_group list" where
  "groups_with min_records rows =
     filter (\<lambda>g. min_records \<le> int (length (filter (\<lambda>r. group_of r = g) rows))) (remdups (map group_of rows))"

definition compaction_candidates ::
    "time \<Rightarrow> time \<Rightarrow> int \<Rightarrow> int \<Rightarrow> db \<Rightarrow> (db_error + memory_compaction_candidate list) \<times> db" where
  "compaction_candidates now cutoff min_records max_groups d =
     (let rows = filter (memory_old now cutoff) (d_memory d)
      in (Inr (map (candidate_of rows) (take (nat max_groups)
            (sort_key (\<lambda>g. (least_of (map m_created_at (filter (\<lambda>r. group_of r = g) rows)),
                least_of (map m_id (filter (\<lambda>r. group_of r = g) rows)), g))
              (groups_with min_records rows)))), d))"

definition candidate_of_sqlite :: "memory_record list \<Rightarrow> memory_group \<Rightarrow> memory_compaction_candidate" where
  "candidate_of_sqlite rows g =
     (let rs = sort_key (\<lambda>r. (secs (m_created_at r), m_id r)) (filter (\<lambda>r. group_of r = g) rows)
      in \<lparr>cc_group = g, cc_source_count = int (length rs), cc_source_entry_ids = [],
          cc_run_id = m_run_id (last rs), cc_step_id = m_step_id (last rs)\<rparr>)"

definition compaction_candidates_sqlite ::
    "time \<Rightarrow> time \<Rightarrow> int \<Rightarrow> int \<Rightarrow> db \<Rightarrow> (db_error + memory_compaction_candidate list) \<times> db" where
  "compaction_candidates_sqlite now cutoff min_records max_groups d =
     (let rows = filter (memory_old_sqlite now cutoff) (d_memory d)
      in (Inr (map (candidate_of_sqlite rows) (take (nat max_groups)
            (sort_key (\<lambda>g. least_of (map (\<lambda>r. secs (m_created_at r)) (filter (\<lambda>r. group_of r = g) rows)))
              (groups_with min_records rows)))), d))"

definition mark_compacted :: "time \<Rightarrow> memory_record \<Rightarrow> memory_record" where
  "mark_compacted now r = r\<lparr>m_compacted_at := Some now, m_updated_at := now\<rparr>"

definition compact_rows :: "uuid list \<Rightarrow> time \<Rightarrow> db \<Rightarrow> (db_error + uuid list) \<times> db" where
  "compact_rows source_ids now d =
     (let p = (\<lambda>r. m_id r \<in> set source_ids \<and> m_compacted_at r = None)
      in (Inr (map m_id (filter p (d_memory d))),
          d\<lparr>d_memory := map (\<lambda>r. if p r then mark_compacted now r else r) (d_memory d)\<rparr>))"

definition create_memory_compaction_record ::
    "time \<Rightarrow> new_memory_compaction_record \<Rightarrow> db \<Rightarrow> (db_error + memory_compaction_record) \<times> db" where
  "create_memory_compaction_record now n d =
     (if mc_memory_kind n \<notin> set memory_kinds \<or> mc_scope n = [] \<or> mc_source_count n \<le> 0
      then (Inl CheckViolation, d)
      else if list_ex (\<lambda>c. mc_id c = mc_id n) (d_compactions d) then (Inl UniqueViolation, d)
      else let row = new_memory_compaction_record.extend n \<lparr>mc_created_at = now\<rparr>
           in (Inr row, d\<lparr>d_compactions := d_compactions d @ [row]\<rparr>))"

definition uuid_array :: "uuid list \<Rightarrow> json" where
  "uuid_array rids = JArray (map JString rids)"

definition compaction_row ::
    "memory_compaction_candidate \<Rightarrow> uuid list \<Rightarrow> json \<Rightarrow> uuid \<Rightarrow> new_memory_compaction_record" where
  "compaction_row c compacted summary_json row_id =
     (case cc_group c of (tenant, agent, mkind, mscope) \<Rightarrow>
       \<lparr>mc_id = row_id, mc_tenant_id = tenant, mc_agent_id = Some agent, mc_memory_kind = mkind,
        mc_scope = mscope, mc_source_count = min (max (int (length compacted)) 1) i32_max,
        mc_source_entry_ids = uuid_array compacted, mc_summary_json = summary_json\<rparr>)"

definition group_outcome :: "memory_compaction_candidate \<Rightarrow> uuid list \<Rightarrow> memory_compaction_group_outcome" where
  "group_outcome c compacted =
     \<lparr>cg_group = cc_group c, cg_source_count = int (length compacted),
      cg_source_entry_ids = uuid_array compacted, cg_run_id = cc_run_id c, cg_step_id = cc_step_id c\<rparr>"

definition summary_fields :: "memory_compaction_candidate \<Rightarrow> (string \<times> json) list" where
  "summary_fields c = (case cc_group c of (_, _, mkind, mscope) \<Rightarrow>
     [(''memory_kind'', JString mkind), (''scope'', JString mscope)])"

text \<open>The insert that ends the compaction of a group, and the groups after it.\<close>

definition record_compaction ::
    "outside \<Rightarrow> (time \<Rightarrow> json) \<Rightarrow> memory_compaction_candidate \<Rightarrow> (string \<times> json) list \<Rightarrow> uuid list \<Rightarrow>
     ('x, memory_compaction_group_outcome list) comp \<Rightarrow> ('x, memory_compaction_group_outcome list) comp" where
  "record_compaction env time_json c about compacted rest =
     bind (now_utc env) (\<lambda>generated_at. bind (new_v4 env) (\<lambda>row_id.
       let summary = jobj (about @ [(''source_count'', jint (int (length compacted))),
             (''generated_at'', time_json generated_at)])
       in bind (stmt env (\<lambda>now. create_memory_compaction_record now (compaction_row c compacted summary row_id)))
            (\<lambda>_. bind rest (\<lambda>outcomes. ret (group_outcome c compacted # outcomes)))))"

fun compact_groups ::
    "outside \<Rightarrow> (time \<Rightarrow> json) \<Rightarrow> int \<Rightarrow> memory_compaction_candidate list \<Rightarrow>
     ('x, memory_compaction_group_outcome list) comp" where
  "compact_groups env time_json min_records [] = ret []"
| "compact_groups env time_json min_records (c # cs) =
     (if int (length (cc_source_entry_ids c)) < min_records then compact_groups env time_json min_records cs
      else bind (stmt env (compact_rows (cc_source_entry_ids c))) (\<lambda>compacted.
        if int (length compacted) < min_records then compact_groups env time_json min_records cs
        else record_compaction env time_json c
          (summary_fields c @ [(''candidate_source_count'', jint (cc_source_count c))]) compacted
          (compact_groups env time_json min_records cs)))"

definition run_stats :: "memory_compaction_group_outcome list \<Rightarrow> memory_compaction_run_stats" where
  "run_stats outcomes =
     \<lparr>cs_processed_groups = int (length outcomes),
      cs_compacted_source_records = sum_list (map cg_source_count outcomes), cs_groups = outcomes\<rparr>"

definition compact_memory_records ::
    "outside \<Rightarrow> (time \<Rightarrow> json) \<Rightarrow> time \<Rightarrow> int \<Rightarrow> int \<Rightarrow> ('x, memory_compaction_run_stats) comp" where
  "compact_memory_records env time_json cutoff min_records max_groups =
     bind (stmt env (\<lambda>now. compaction_candidates now cutoff (max min_records 2) (max max_groups 1))) (\<lambda>cs.
     bind (compact_groups env time_json (max min_records 2) cs) (\<lambda>outcomes. ret (run_stats outcomes)))"

text \<open>SQLite reads the ids of a group when it comes to it, and compacts the records one by one.\<close>

definition group_ids_sqlite :: "memory_group \<Rightarrow> time \<Rightarrow> time \<Rightarrow> db \<Rightarrow> (db_error + uuid list) \<times> db" where
  "group_ids_sqlite g cutoff now d =
     (Inr (map m_id (sort_key (\<lambda>r. (secs (m_created_at r), m_id r))
        (filter (\<lambda>r. group_of r = g \<and> memory_old_sqlite now cutoff r) (d_memory d)))), d)"

fun compact_each_sqlite :: "outside \<Rightarrow> uuid list \<Rightarrow> ('x, uuid list) comp" where
  "compact_each_sqlite env [] = ret []"
| "compact_each_sqlite env (i # rids) =
     bind (stmt env (compact_rows [i])) (\<lambda>changed.
     bind (compact_each_sqlite env rids) (\<lambda>rest.
       ret (if length changed = 1 then i # rest else rest)))"

fun compact_groups_sqlite ::
    "outside \<Rightarrow> (time \<Rightarrow> json) \<Rightarrow> time \<Rightarrow> int \<Rightarrow> memory_compaction_candidate list \<Rightarrow>
     ('x, memory_compaction_group_outcome list) comp" where
  "compact_groups_sqlite env time_json cutoff min_records [] = ret []"
| "compact_groups_sqlite env time_json cutoff min_records (c # cs) =
     bind (stmt env (group_ids_sqlite (cc_group c) cutoff)) (\<lambda>rids.
     bind (compact_each_sqlite env rids) (\<lambda>compacted.
       if int (length compacted) < min_records then compact_groups_sqlite env time_json cutoff min_records cs
       else record_compaction env time_json c (summary_fields c) compacted
         (compact_groups_sqlite env time_json cutoff min_records cs)))"

definition compact_memory_records_sqlite ::
    "outside \<Rightarrow> (time \<Rightarrow> json) \<Rightarrow> time \<Rightarrow> int \<Rightarrow> int \<Rightarrow> ('x, memory_compaction_run_stats) comp" where
  "compact_memory_records_sqlite env time_json cutoff min_records max_groups =
     bind (stmt env (\<lambda>now. compaction_candidates_sqlite now cutoff (max min_records 2) (max max_groups 1))) (\<lambda>cs.
     bind (compact_groups_sqlite env time_json cutoff (max min_records 2) cs) (\<lambda>outcomes. ret (run_stats outcomes)))"

definition compact_memory_records_dual ::
    "storage_backend \<Rightarrow> outside \<Rightarrow> (time \<Rightarrow> json) \<Rightarrow> time \<Rightarrow> int \<Rightarrow> int \<Rightarrow> ('x, memory_compaction_run_stats) comp" where
  "compact_memory_records_dual b =
     (case b of Postgres \<Rightarrow> compact_memory_records | Sqlite \<Rightarrow> compact_memory_records_sqlite)"

section \<open>The worker's compaction\<close>

record memory_config =
  mg_enabled :: bool
  mg_min_records :: int
  mg_max_groups_per_cycle :: int
  mg_min_age_secs :: int

fun audit_compactions :: "outside \<Rightarrow> string \<Rightarrow> memory_compaction_group_outcome list \<Rightarrow> ('x, unit) comp" where
  "audit_compactions env worker_id [] = ret ()"
| "audit_compactions env worker_id (g # gs) =
     (case cg_run_id g of
        None \<Rightarrow> audit_compactions env worker_id gs
      | Some run_id \<Rightarrow>
          (case cg_group g of (tenant, agent, mkind, mscope) \<Rightarrow>
            bind (new_v4 env) (\<lambda>i. bind (append_audit_event_with_trace env
              \<lparr>a_id = i, a_run = run_id, a_step = cg_step_id g, a_tenant = tenant, a_agent = Some agent,
               a_user = None, a_actor = ''worker:'' @ worker_id, a_type = ''memory.compacted'',
               a_payload = jobj [(''memory_kind'', JString mkind), (''scope'', JString mscope),
                 (''source_count'', jint (cg_source_count g)),
                 (''source_entry_ids'', cg_source_entry_ids g)]\<rparr> None)
              (\<lambda>_. audit_compactions env worker_id gs))))"

definition compact_memory ::
    "storage_backend \<Rightarrow> outside \<Rightarrow> (time \<Rightarrow> json) \<Rightarrow> string \<Rightarrow> memory_config \<Rightarrow> ('x, unit) comp" where
  "compact_memory b env time_json worker_id cfg =
     bind (now_utc env) (\<lambda>now_utc.
     bind (compact_memory_records_dual b env time_json (now_utc - 1000 * mg_min_age_secs cfg)
         (mg_min_records cfg) (mg_max_groups_per_cycle cfg))
       (\<lambda>stats. if cs_processed_groups stats > 0 then audit_compactions env worker_id (cs_groups stats)
          else ret ()))"

end
