(* ===== verification/MemorySafety.thy ===== *)
theory MemorySafety
  imports MemoryStore
begin

text \<open>
  What compaction does to the memory of agents: a compaction row stands for records of one tenant,
  agent, kind and scope; a compaction that succeeds accounts for every record it hides; one that
  fails between its statements hides records without a trace.
\<close>

section \<open>Rows and groups\<close>

definition memory_ids :: "db \<Rightarrow> bool" where
  "memory_ids d \<longleftrightarrow> distinct (map m_id (d_memory d))"

text \<open>The ids of a compaction row: at least two, of compacted records of its group.\<close>

definition hidden :: "db \<Rightarrow> memory_group \<Rightarrow> uuid \<Rightarrow> bool" where
  "hidden d g i \<longleftrightarrow> (\<exists>r \<in> set (d_memory d). m_id r = i \<and> group_of r = g \<and> m_compacted_at r \<noteq> None)"

definition listed :: "db \<Rightarrow> memory_group \<Rightarrow> uuid list \<Rightarrow> bool" where
  "listed d g rids \<longleftrightarrow> 2 \<le> length rids \<and> distinct rids \<and> (\<forall>i \<in> set rids. hidden d g i)"

definition compaction_sound :: "db \<Rightarrow> memory_compaction_record \<Rightarrow> bool" where
  "compaction_sound d c \<longleftrightarrow> (\<exists>agent rids. mc_agent_id c = Some agent \<and>
     mc_source_entry_ids c = uuid_array rids \<and>
     listed d (mc_tenant_id c, agent, mc_memory_kind c, mc_scope c) rids)"

definition memory_sound :: "db \<Rightarrow> bool" where
  "memory_sound d \<longleftrightarrow> memory_ids d \<and> (\<forall>c \<in> set (d_compactions d). compaction_sound d c)"

definition in_group :: "db \<Rightarrow> memory_group \<Rightarrow> uuid list \<Rightarrow> bool" where
  "in_group d g rids \<longleftrightarrow> (\<forall>r \<in> set (d_memory d). m_id r \<in> set rids \<longrightarrow> group_of r = g)"

definition uncompacted :: "db \<Rightarrow> uuid list \<Rightarrow> bool" where
  "uncompacted d rids \<longleftrightarrow> (\<forall>i \<in> set rids. \<exists>r \<in> set (d_memory d). m_id r = i \<and> m_compacted_at r = None)"

lemma mark_compacted_simps [simp]:
  "m_id (mark_compacted now r) = m_id r" "group_of (mark_compacted now r) = group_of r"
  "m_compacted_at (mark_compacted now r) = Some now"
  by (simp_all add: mark_compacted_def group_of_def)

lemma memory_inj: "memory_ids d \<Longrightarrow> r \<in> set (d_memory d) \<Longrightarrow> q \<in> set (d_memory d) \<Longrightarrow> m_id r = m_id q \<Longrightarrow> r = q"
  unfolding memory_ids_def by (meson distinct_map inj_onD)

section \<open>Compacting rows\<close>

text \<open>A row is left alone or compacted, and the other tables stay.\<close>

lemma compact_rows_memory:
  assumes "compact_rows rids now d = (Inr out, d')"
  shows "d_memory d' = map (\<lambda>r. if m_id r \<in> set rids \<and> m_compacted_at r = None then mark_compacted now r else r) (d_memory d)"
    and "out = map m_id (filter (\<lambda>r. m_id r \<in> set rids \<and> m_compacted_at r = None) (d_memory d))"
    and "d_compactions d' = d_compactions d" and "d' = d\<lparr>d_memory := d_memory d'\<rparr>"
  using assms by (auto simp: compact_rows_def Let_def)

lemma compact_rows_keeps:
  assumes "compact_rows rids now d = (Inr out, d')"
  shows "memory_ids d' \<longleftrightarrow> memory_ids d" and "listed d g xs \<Longrightarrow> listed d' g xs" and "hidden d g i \<Longrightarrow> hidden d' g i"
    and "in_group d' g xs \<longleftrightarrow> in_group d g xs" and "memory_sound d \<Longrightarrow> memory_sound d'"
proof -
  note m = compact_rows_memory [OF assms]
  let ?f = "\<lambda>r. if m_id r \<in> set rids \<and> m_compacted_at r = None then mark_compacted now r else r"
  have id: "m_id (?f r) = m_id r" "group_of (?f r) = group_of r"
      "m_compacted_at r \<noteq> None \<Longrightarrow> ?f r = r" for r by auto
  show ids: "memory_ids d' \<longleftrightarrow> memory_ids d" by (simp add: memory_ids_def m(1) comp_def id(1))
  show hid: "hidden d' g i" if "hidden d g i" for g i
  proof -
    from that obtain r where r: "r \<in> set (d_memory d)" "m_id r = i" "group_of r = g" "m_compacted_at r \<noteq> None"
      unfolding hidden_def by blast
    then have "?f r \<in> set (d_memory d')" unfolding m(1) set_map by (intro imageI)
    then have "r \<in> set (d_memory d')" unfolding id(3) [OF r(4)] .
    with r show ?thesis unfolding hidden_def by blast
  qed
  show lst: "listed d' g xs" if "listed d g xs" for g xs using that hid by (auto simp: listed_def)
  show "in_group d' g xs \<longleftrightarrow> in_group d g xs" by (simp only: in_group_def m(1) set_map ball_simps id)
  show "memory_sound d'" if "memory_sound d"
    unfolding memory_sound_def
  proof (intro conjI ballI)
    fix c assume "c \<in> set (d_compactions d')"
    with that m(3) have "compaction_sound d c" by (simp add: memory_sound_def)
    then show "compaction_sound d' c" unfolding compaction_sound_def using lst by blast
  qed (use that ids in \<open>simp add: memory_sound_def\<close>)
qed

lemma compact_rows_listed:
  assumes "compact_rows rids now d = (Inr out, d')" and "memory_ids d" and "in_group d g rids" and "2 \<le> length out"
  shows "listed d' g out"
proof -
  note m = compact_rows_memory [OF assms(1)]
  have "hidden d' g i" if "i \<in> set out" for i
  proof -
    from that obtain r where r: "r \<in> set (d_memory d)" "m_id r = i" "m_id r \<in> set rids" "m_compacted_at r = None"
      by (auto simp: m(2))
    then have "mark_compacted now r \<in> set (d_memory d')" by (auto simp: m(1) image_iff intro!: bexI [of _ r])
    moreover have "group_of r = g" using assms(3) r by (simp add: in_group_def)
    ultimately show ?thesis unfolding hidden_def using r by (intro bexI [of _ "mark_compacted now r"]) simp_all
  qed
  moreover have "distinct out" using assms(2) by (simp add: m(2) memory_ids_def distinct_map_filter)
  ultimately show ?thesis using assms(4) by (simp add: listed_def)
qed

lemma create_compaction_sound:
  assumes "create_memory_compaction_record now (compaction_row c out summary row_id) d = (Inr v, d')"
    and "memory_sound d" and "listed d (cc_group c) out"
  shows "memory_sound d'" and "d_memory d' = d_memory d"
    and "\<exists>k. d_compactions d' = d_compactions d @ [k] \<and> mc_source_entry_ids k = uuid_array out"
proof -
  obtain t a k s where g: "cc_group c = (t, a, k, s)" by (cases "cc_group c") auto
  let ?row = "new_memory_compaction_record.extend (compaction_row c out summary row_id) \<lparr>mc_created_at = now\<rparr>"
  from assms(1) have d': "d' = d\<lparr>d_compactions := d_compactions d @ [?row]\<rparr>"
    by (auto simp: create_memory_compaction_record_def Let_def split: if_split_asm)
  have row: "mc_agent_id ?row = Some a" "mc_tenant_id ?row = t" "mc_memory_kind ?row = k" "mc_scope ?row = s"
      "mc_source_entry_ids ?row = uuid_array out"
    by (simp_all add: compaction_row_def g new_memory_compaction_record.extend_def)
  have "listed d' = listed d" by (simp add: fun_eq_iff listed_def hidden_def d')
  then have snd: "compaction_sound d' = compaction_sound d" by (simp add: fun_eq_iff compaction_sound_def)
  have "compaction_sound d ?row"
    unfolding compaction_sound_def using row assms(3) g by (intro exI [of _ a] exI [of _ out]) simp
  with assms(2) show "memory_sound d'" by (auto simp: memory_sound_def snd) (auto simp: d' memory_ids_def)
  show "d_memory d' = d_memory d" by (simp add: d')
  show "\<exists>k. d_compactions d' = d_compactions d @ [k] \<and> mc_source_entry_ids k = uuid_array out"
    using row(5) by (simp add: d')
qed

section \<open>Compaction rows are sound\<close>

lemma wp_record_compaction:
  fixes w :: "'x world"
  assumes "memory_sound (w_db w)" and "listed (w_db w) (cc_group c) out"
    and "\<And>e w'. memory_sound (w_db w') \<Longrightarrow> E e w'"
    and "\<And>w'. memory_sound (w_db w') \<Longrightarrow> d_memory (w_db w') = d_memory (w_db w) \<Longrightarrow>
      \<exists>k. d_compactions (w_db w') = d_compactions (w_db w) @ [k] \<and> mc_source_entry_ids k = uuid_array out \<Longrightarrow>
      wp rest (\<lambda>gs. Q (group_outcome c out # gs)) E w'"
  shows "wp (record_compaction env tj c about out rest) Q E w"
proof -
  have "wp (stmt env (\<lambda>now. create_memory_compaction_record now (compaction_row c out summary row_id)))
      (\<lambda>_. wp rest (\<lambda>gs. Q (group_outcome c out # gs)) E) E w1" if w1: "w_db w1 = w_db w"
    for summary row_id and w1 :: "'x world"
  proof (rule wp_stmtI)
    fix e and w' :: "'x world" assume "w_db w' = w_db w1"
    with assms(1) w1 show "E e w'" by (intro assms(3)) simp
  next
    fix now v and w' :: "'x world"
    assume "fst (create_memory_compaction_record now (compaction_row c out summary row_id) (w_db w1)) = Inr v"
      "w_db w' = snd (create_memory_compaction_record now (compaction_row c out summary row_id) (w_db w1))"
    then have "create_memory_compaction_record now (compaction_row c out summary row_id) (w_db w) = (Inr v, w_db w')"
      by (simp add: prod_eq_iff w1)
    from create_compaction_sound [OF this assms(1,2)]
    show "wp rest (\<lambda>gs. Q (group_outcome c out # gs)) E w'" by (rule assms(4))
  qed
  then show ?thesis
    unfolding record_compaction_def wp_simps Let_def by simp
qed

section \<open>Compaction on PostgreSQL\<close>

text \<open>Every hidden record is listed in a compaction row.\<close>

definition accounted :: "db \<Rightarrow> bool" where
  "accounted d \<longleftrightarrow> (\<forall>r \<in> set (d_memory d). m_compacted_at r \<noteq> None \<longrightarrow>
     (\<exists>c \<in> set (d_compactions d). \<exists>rids. mc_source_entry_ids c = uuid_array rids \<and> m_id r \<in> set rids))"

definition candidate_ok :: "int \<Rightarrow> db \<Rightarrow> memory_compaction_candidate \<Rightarrow> bool" where
  "candidate_ok m d c \<longleftrightarrow> in_group d (cc_group c) (cc_source_entry_ids c) \<and>
     uncompacted d (cc_source_entry_ids c) \<and> distinct (cc_source_entry_ids c) \<and>
     m \<le> int (length (cc_source_entry_ids c))"

definition candidates_ok :: "int \<Rightarrow> db \<Rightarrow> memory_compaction_candidate list \<Rightarrow> bool" where
  "candidates_ok m d cs \<longleftrightarrow> distinct (map cc_group cs) \<and> list_all (candidate_ok m d) cs"

lemma compact_rows_all:
  assumes "compact_rows rids now d = (Inr out, d')" and "memory_ids d" and "uncompacted d rids" and "distinct rids"
  shows "set out = set rids" and "length out = length rids"
proof -
  note m = compact_rows_memory [OF assms(1)]
  show set: "set out = set rids" using assms(3) by (fastforce simp: m(2) uncompacted_def)
  have "distinct out" using assms(2) by (simp add: m(2) memory_ids_def distinct_map_filter)
  with set assms(4) show "length out = length rids" by (metis distinct_card)
qed

lemma candidates_ok_after:
  assumes "compact_rows (cc_source_entry_ids c) now d = (Inr out, d')" and "candidates_ok m d (c # cs)"
  shows "candidates_ok m d' cs"
proof -
  note m = compact_rows_memory [OF assms(1)] and kept = compact_rows_keeps [OF assms(1)]
  have c: "in_group d (cc_group c) (cc_source_entry_ids c)" and d: "distinct (map cc_group cs)"
    and new: "cc_group c \<notin> cc_group ` set cs" and ok: "list_all (candidate_ok m d) cs"
    using assms(2) by (auto simp: candidates_ok_def candidate_ok_def)
  have "uncompacted d' (cc_source_entry_ids b)" if b: "b \<in> set cs" for b
    unfolding uncompacted_def
  proof
    fix i assume i: "i \<in> set (cc_source_entry_ids b)"
    from ok b have "uncompacted d (cc_source_entry_ids b)" "in_group d (cc_group b) (cc_source_entry_ids b)"
      by (auto simp: list_all_iff candidate_ok_def)
    with i obtain r where "r \<in> set (d_memory d)" "m_id r = i" "m_compacted_at r = None"
      and "in_group d (cc_group b) (cc_source_entry_ids b)" unfolding uncompacted_def by blast
    then have r: "r \<in> set (d_memory d)" "m_id r = i" "m_compacted_at r = None" "group_of r = cc_group b"
      using i by (simp_all add: in_group_def)
    have "i \<notin> set (cc_source_entry_ids c)" using c r b new by (force simp: in_group_def)
    with r have "r \<in> set (d_memory d')" by (auto simp: m(1) image_iff intro!: bexI [of _ r])
    with r show "\<exists>r \<in> set (d_memory d'). m_id r = i \<and> m_compacted_at r = None" by blast
  qed
  with ok have "list_all (candidate_ok m d') cs" by (auto simp: list_all_iff candidate_ok_def kept(4))
  with d show ?thesis by (simp add: candidates_ok_def)
qed

lemma accounted_after:
  assumes "compact_rows rids now d = (Inr out, d')" and "accounted d" and "set out = set rids"
    and "d_memory d2 = d_memory d'" and "d_compactions d2 = d_compactions d' @ [k]"
    and "mc_source_entry_ids k = uuid_array out"
  shows "accounted d2"
  unfolding accounted_def
proof (intro ballI impI)
  note m = compact_rows_memory [OF assms(1)]
  fix r assume r: "r \<in> set (d_memory d2)" "m_compacted_at r \<noteq> None"
  then obtain q where q: "q \<in> set (d_memory d)"
      "r = (if m_id q \<in> set rids \<and> m_compacted_at q = None then mark_compacted now q else q)"
    by (auto simp: assms(4) m(1))
  show "\<exists>c \<in> set (d_compactions d2). \<exists>rids. mc_source_entry_ids c = uuid_array rids \<and> m_id r \<in> set rids"
  proof (cases "m_id q \<in> set rids \<and> m_compacted_at q = None")
    case True
    then have "m_id r \<in> set out" using q(2) assms(3) by simp
    with assms(6) show ?thesis by (intro bexI [of _ k]) (auto simp: assms(5))
  next
    case False
    with q r(2) assms(2) have "\<exists>c \<in> set (d_compactions d). \<exists>rids. mc_source_entry_ids c = uuid_array rids \<and> m_id r \<in> set rids"
      unfolding accounted_def by auto
    then show ?thesis by (auto simp: assms(5) m(3))
  qed
qed

lemma wp_compact_groups:
  fixes w :: "'x world"
  assumes "2 \<le> m" and "memory_sound (w_db w)" and "candidates_ok m (w_db w) cs"
  shows "wp (compact_groups env tj m cs)
    (\<lambda>_ w'. memory_sound (w_db w') \<and> (accounted (w_db w) \<longrightarrow> accounted (w_db w')))
    (\<lambda>_ w'. memory_sound (w_db w')) w"
  using assms(2,3)
proof (induction cs arbitrary: w)
  case Nil
  then show ?case by (simp add: wp_simps)
next
  case (Cons c cs)
  let ?rids = "cc_source_entry_ids c"
  let ?Q = "\<lambda>_ (w' :: 'x world). memory_sound (w_db w') \<and> (accounted (w_db w) \<longrightarrow> accounted (w_db w'))"
  let ?E = "\<lambda>_ (w' :: 'x world). memory_sound (w_db w')"
  from Cons.prems(2) have c: "candidate_ok m (w_db w) c" by (simp add: candidates_ok_def)
  then have big: "\<not> int (length ?rids) < m" by (simp add: candidate_ok_def)
  have "wp (stmt env (compact_rows ?rids)) (\<lambda>out. wp (if int (length out) < m then compact_groups env tj m cs
        else record_compaction env tj c (summary_fields c @ [(''candidate_source_count'', jint (cc_source_count c))]) out
          (compact_groups env tj m cs)) ?Q ?E) ?E w"
  proof (rule wp_stmtI)
    fix e and w' :: "'x world" assume "w_db w' = w_db w"
    with Cons.prems(1) show "memory_sound (w_db w')" by simp
  next
    fix now out and w1 :: "'x world"
    assume "fst (compact_rows ?rids now (w_db w)) = Inr out" "w_db w1 = snd (compact_rows ?rids now (w_db w))"
    then have step: "compact_rows ?rids now (w_db w) = (Inr out, w_db w1)" by (simp add: prod_eq_iff)
    note kept = compact_rows_keeps [OF step]
    have ids: "memory_ids (w_db w)" using Cons.prems(1) by (simp add: memory_sound_def)
    from c have all: "set out = set ?rids" "length out = length ?rids"
      using compact_rows_all [OF step ids] by (auto simp: candidate_ok_def)
    have "listed (w_db w1) (cc_group c) out"
      by (rule compact_rows_listed [OF step ids]) (use c all big assms(1) in \<open>auto simp: candidate_ok_def\<close>)
    then have "wp (record_compaction env tj c (summary_fields c @ [(''candidate_source_count'', jint (cc_source_count c))]) out
          (compact_groups env tj m cs)) ?Q ?E w1"
    proof (rule wp_record_compaction [OF kept(5) [OF Cons.prems(1)]])
      fix w2 :: "'x world" assume sound: "memory_sound (w_db w2)" and mem: "d_memory (w_db w2) = d_memory (w_db w1)"
        and "\<exists>k. d_compactions (w_db w2) = d_compactions (w_db w1) @ [k] \<and> mc_source_entry_ids k = uuid_array out"
      then obtain k where k: "d_compactions (w_db w2) = d_compactions (w_db w1) @ [k]"
        "mc_source_entry_ids k = uuid_array out" by blast
      have "candidates_ok m (w_db w1) cs" by (rule candidates_ok_after [OF step Cons.prems(2)])
      moreover from mem have "candidate_ok m (w_db w2) = candidate_ok m (w_db w1)"
        by (simp add: fun_eq_iff candidate_ok_def in_group_def uncompacted_def)
      ultimately have ok: "candidates_ok m (w_db w2) cs" by (simp add: candidates_ok_def)
      have acc: "accounted (w_db w) \<Longrightarrow> accounted (w_db w2)"
        by (rule accounted_after [OF step _ all(1) mem k])
      show "wp (compact_groups env tj m cs) (\<lambda>gs. ?Q (group_outcome c out # gs)) ?E w2"
        by (rule wp_mono [OF Cons.IH [OF sound ok]]) (use acc in auto)
    qed auto
    with all(2) big show "wp (if int (length out) < m then compact_groups env tj m cs
        else record_compaction env tj c (summary_fields c @ [(''candidate_source_count'', jint (cc_source_count c))]) out
          (compact_groups env tj m cs)) ?Q ?E w1" by simp
  qed
  with big show ?case by (simp add: wp_bind)
qed

lemma candidate_of_group: "cc_group (candidate_of rows g) = g"
  by (simp add: candidate_of_def Let_def)

lemma candidates_found:
  assumes "compaction_candidates now cutoff m n d = (Inr cs, d')" and "memory_ids d"
  shows "d' = d" and "candidates_ok m d cs"
proof -
  define rows where "rows = filter (memory_old now cutoff) (d_memory d)"
  define gs where "gs = take (nat n) (sort_key (\<lambda>g. (least_of (map m_created_at (filter (\<lambda>r. group_of r = g) rows)),
      least_of (map m_id (filter (\<lambda>r. group_of r = g) rows)), g)) (groups_with m rows))"
  from assms(1) show "d' = d" by (simp add: compaction_candidates_def Let_def)
  have cs: "cs = map (candidate_of rows) gs"
    using assms(1) [unfolded compaction_candidates_def Let_def prod.inject sum.inject]
    unfolding gs_def rows_def by (elim conjE) (rule sym)
  have gs: "distinct gs" "\<And>g. g \<in> set gs \<Longrightarrow> m \<le> int (length (filter (\<lambda>r. group_of r = g) rows))"
    using set_take_subset unfolding gs_def by (auto simp: groups_with_def dest!: in_set_takeD)
  have "candidate_ok m d (candidate_of rows g)" if "g \<in> set gs" for g
  proof -
    let ?rs = "filter (\<lambda>r. group_of r = g) rows"
    have ids: "cc_source_entry_ids (candidate_of rows g) = map m_id (sort_key (\<lambda>r. (m_created_at r, m_id r)) ?rs)"
      by (simp add: candidate_of_def Let_def)
    have mem: "r \<in> set (d_memory d) \<and> m_compacted_at r = None \<and> group_of r = g" if "r \<in> set ?rs" for r
      using that by (auto simp: rows_def memory_old_def memory_live_def)
    have "distinct (map m_id ?rs)" using assms(2) by (simp add: rows_def memory_ids_def distinct_map_filter)
    then have "distinct (map m_id (sort_key (\<lambda>r. (m_created_at r, m_id r)) ?rs))"
      by (simp add: distinct_map)
    moreover have "in_group d g (map m_id ?rs)"
      unfolding in_group_def
    proof (intro ballI impI)
      fix r assume r: "r \<in> set (d_memory d)" "m_id r \<in> set (map m_id ?rs)"
      then obtain q where q: "q \<in> set ?rs" "m_id r = m_id q" by auto
      with memory_inj [OF assms(2) r(1)] mem have "r = q" by blast
      with mem [OF q(1)] show "group_of r = g" by simp
    qed
    moreover have "uncompacted d (map m_id ?rs)"
      unfolding uncompacted_def
    proof
      fix i assume "i \<in> set (map m_id ?rs)"
      then obtain q where "q \<in> set ?rs" "m_id q = i" by auto
      with mem show "\<exists>r \<in> set (d_memory d). m_id r = i \<and> m_compacted_at r = None" by blast
    qed
    ultimately show ?thesis
      using gs(2) [OF that] unfolding candidate_ok_def candidate_of_group ids
      by (simp add: in_group_def uncompacted_def)
  qed
  moreover have "map cc_group cs = gs" by (simp add: cs comp_def candidate_of_group)
  ultimately show "candidates_ok m d cs" using gs(1) by (simp add: candidates_ok_def cs list_all_iff)
qed

section \<open>Compaction on SQLite\<close>

lemma keeps_hidden: "keeps (\<lambda>d. hidden d g i) (compact_each_sqlite env rids)"
proof (induction rids)
  case (Cons j rids)
  have "keeps (\<lambda>d. hidden d g i) (stmt env (compact_rows [j]))"
    by (rule keeps_stmt) (rule compact_rows_keeps(3))
  with Cons show ?case by (auto intro!: kept)
qed (simp add: kept)

lemma wp_compact_each:
  fixes w :: "'x world"
  assumes "memory_sound (w_db w)" and "in_group (w_db w) g rids" and "distinct rids"
  shows "wp (compact_each_sqlite env rids)
    (\<lambda>out w'. memory_sound (w_db w') \<and> set out \<subseteq> set rids \<and> distinct out \<and> (\<forall>i \<in> set out. hidden (w_db w') g i))
    (\<lambda>_ w'. memory_sound (w_db w')) w"
  using assms
proof (induction rids arbitrary: w)
  case Nil
  then show ?case by (simp add: wp_simps)
next
  case (Cons i rids)
  show ?case
    unfolding compact_each_sqlite.simps wp_simps
  proof (rule wp_stmtI)
    fix e and w' :: "'x world" assume "w_db w' = w_db w"
    with Cons.prems(1) show "memory_sound (w_db w')" by simp
  next
    fix now changed and w1 :: "'x world"
    assume "fst (compact_rows [i] now (w_db w)) = Inr changed" "w_db w1 = snd (compact_rows [i] now (w_db w))"
    then have step: "compact_rows [i] now (w_db w) = (Inr changed, w_db w1)" by (simp add: prod_eq_iff)
    note m = compact_rows_memory [OF step] and kept = compact_rows_keeps [OF step]
    have grp: "in_group (w_db w1) g rids" and i: "in_group (w_db w) g [i]"
      using Cons.prems(2) by (simp_all add: kept(4)) (auto simp: in_group_def)
    have hit: "hidden (w_db w1) g i" if "length changed = 1"
    proof -
      from that have "changed \<noteq> []" by auto
      then obtain r where r: "r \<in> set (d_memory (w_db w))" "m_id r = i" "m_compacted_at r = None"
        unfolding m(2) by (auto simp: filter_empty_conv)
      then have "mark_compacted now r \<in> set (d_memory (w_db w1))" by (auto simp: m(1) image_iff intro!: bexI [of _ r])
      with r i show ?thesis unfolding hidden_def in_group_def by (intro bexI [of _ "mark_compacted now r"]) simp_all
    qed
    have rest: "wp (compact_each_sqlite env rids)
        (\<lambda>out w'. (memory_sound (w_db w') \<and> set out \<subseteq> set rids \<and> distinct out \<and> (\<forall>i \<in> set out. hidden (w_db w') g i)) \<and>
          (length changed = 1 \<longrightarrow> hidden (w_db w') g i))
        (\<lambda>_ w'. memory_sound (w_db w') \<and> (length changed = 1 \<longrightarrow> hidden (w_db w') g i)) w1"
    proof (rule wp_conj)
      show "wp (compact_each_sqlite env rids)
          (\<lambda>out w'. memory_sound (w_db w') \<and> set out \<subseteq> set rids \<and> distinct out \<and> (\<forall>i \<in> set out. hidden (w_db w') g i))
          (\<lambda>_ w'. memory_sound (w_db w')) w1"
        by (rule Cons.IH [OF kept(5) [OF Cons.prems(1)] grp]) (use Cons.prems(3) in simp)
      show "wp (compact_each_sqlite env rids) (\<lambda>_ w'. length changed = 1 \<longrightarrow> hidden (w_db w') g i)
          (\<lambda>_ w'. length changed = 1 \<longrightarrow> hidden (w_db w') g i) w1"
        using keeps_wp [OF keeps_hidden [of g i env rids], of w1] hit by (cases "length changed = 1") (auto simp: wp_def split: prod.split sum.split)
    qed
    show "wp (compact_each_sqlite env rids)
      (\<lambda>rest w'. memory_sound (w_db w') \<and> set (if length changed = 1 then i # rest else rest) \<subseteq> set (i # rids) \<and>
         distinct (if length changed = 1 then i # rest else rest) \<and>
         (\<forall>j \<in> set (if length changed = 1 then i # rest else rest). hidden (w_db w') g j))
      (\<lambda>_ w'. memory_sound (w_db w')) w1"
      by (rule wp_mono [OF rest]) (use Cons.prems(3) in auto)
  qed
qed

lemma wp_compact_groups_sqlite:
  fixes w :: "'x world"
  assumes "2 \<le> m" and "memory_sound (w_db w)"
  shows "wp (compact_groups_sqlite env tj cutoff m cs) (\<lambda>_ w'. memory_sound (w_db w')) (\<lambda>_ w'. memory_sound (w_db w')) w"
  using assms(2)
proof (induction cs arbitrary: w)
  case Nil
  then show ?case by (simp add: wp_simps)
next
  case (Cons c cs)
  let ?S = "\<lambda>_ (w' :: 'x world). memory_sound (w_db w')"
  show ?case
    unfolding compact_groups_sqlite.simps wp_simps
  proof (rule wp_stmtI)
    fix e and w' :: "'x world" assume "w_db w' = w_db w"
    with Cons.prems show "memory_sound (w_db w')" by simp
  next
    fix now rids and w1 :: "'x world"
    assume rids: "fst (group_ids_sqlite (cc_group c) cutoff now (w_db w)) = Inr rids"
      and "w_db w1 = snd (group_ids_sqlite (cc_group c) cutoff now (w_db w))"
    then have w1: "w_db w1 = w_db w" by (simp add: group_ids_sqlite_def)
    have ids: "memory_ids (w_db w)" using Cons.prems by (simp add: memory_sound_def)
    let ?rs = "filter (\<lambda>r. group_of r = cc_group c \<and> memory_old_sqlite now cutoff r) (d_memory (w_db w))"
    have set: "set rids = m_id ` set ?rs" using rids by (auto simp: group_ids_sqlite_def)
    have "in_group (w_db w) (cc_group c) rids"
      using memory_inj [OF ids] by (fastforce simp: in_group_def set)
    moreover have "distinct rids"
    proof -
      have "distinct (map m_id ?rs)" using ids by (simp add: memory_ids_def distinct_map_filter)
      then show ?thesis using rids by (auto simp: group_ids_sqlite_def distinct_map)
    qed
    ultimately have each: "wp (compact_each_sqlite env rids)
        (\<lambda>out w'. memory_sound (w_db w') \<and> set out \<subseteq> set rids \<and> distinct out \<and> (\<forall>i \<in> set out. hidden (w_db w') (cc_group c) i))
        ?S w1"
      using Cons.prems w1 by (intro wp_compact_each) simp_all
    show "wp (compact_each_sqlite env rids) (\<lambda>out. wp (if int (length out) < m then compact_groups_sqlite env tj cutoff m cs
        else record_compaction env tj c (summary_fields c) out (compact_groups_sqlite env tj cutoff m cs)) ?S ?S) ?S w1"
    proof (rule wp_mono [OF each])
      fix out and w2 :: "'x world"
      assume out: "memory_sound (w_db w2) \<and> set out \<subseteq> set rids \<and> distinct out \<and> (\<forall>i \<in> set out. hidden (w_db w2) (cc_group c) i)"
      show "wp (if int (length out) < m then compact_groups_sqlite env tj cutoff m cs
        else record_compaction env tj c (summary_fields c) out (compact_groups_sqlite env tj cutoff m cs)) ?S ?S w2"
      proof (cases "int (length out) < m")
        case False
        with out assms(1) have "listed (w_db w2) (cc_group c) out" by (simp add: listed_def)
        with out have "wp (record_compaction env tj c (summary_fields c) out (compact_groups_sqlite env tj cutoff m cs)) ?S ?S w2"
          by (intro wp_record_compaction Cons.IH) auto
        with False show ?thesis by simp
      qed (use out Cons.IH in simp)
    qed
  qed
qed

section \<open>Soundness of compaction\<close>

text \<open>What every back end promises: compaction rows stay sound, also when compaction fails.\<close>

locale memory_compactor =
  fixes compact :: "outside \<Rightarrow> (time \<Rightarrow> json) \<Rightarrow> time \<Rightarrow> int \<Rightarrow> int \<Rightarrow> ('x, memory_compaction_run_stats) comp"
  assumes compact_sound: "memory_sound (w_db w) \<Longrightarrow>
      wp (compact env tj cutoff m n) (\<lambda>_ w'. memory_sound (w_db w')) (\<lambda>_ w'. memory_sound (w_db w')) w"

lemma wp_compact_pg:
  fixes w :: "'x world"
  assumes "memory_sound (w_db w)"
  shows "wp (compact_memory_records env tj cutoff m n)
    (\<lambda>_ w'. memory_sound (w_db w') \<and> (accounted (w_db w) \<longrightarrow> accounted (w_db w')))
    (\<lambda>_ w'. memory_sound (w_db w')) w"
  unfolding compact_memory_records_def wp_simps
proof (rule wp_stmtI)
  fix e and w' :: "'x world" assume "w_db w' = w_db w"
  with assms show "memory_sound (w_db w')" by simp
next
  fix now cs and w1 :: "'x world"
  let ?s = "compaction_candidates now cutoff (max m 2) (max n 1) (w_db w)"
  assume "fst ?s = Inr cs" "w_db w1 = snd ?s"
  then have step: "?s = (Inr cs, w_db w1)" by (simp add: prod_eq_iff)
  from assms have "memory_ids (w_db w)" by (simp add: memory_sound_def)
  from candidates_found [OF step this] have w1: "w_db w1 = w_db w" and ok: "candidates_ok (max m 2) (w_db w) cs" .
  from wp_compact_groups [of "max m 2" w1 cs env tj] assms ok
  show "wp (compact_groups env tj (max m 2) cs)
      (\<lambda>_ w'. memory_sound (w_db w') \<and> (accounted (w_db w) \<longrightarrow> accounted (w_db w')))
      (\<lambda>_ w'. memory_sound (w_db w')) w1"
    unfolding w1 by simp
qed

interpretation pg_memory: memory_compactor compact_memory_records
  by unfold_locales (rule wp_mono [OF wp_compact_pg], auto)

interpretation lite_memory: memory_compactor compact_memory_records_sqlite
proof
  fix w :: "'x world" and env tj cutoff m n assume sound: "memory_sound (w_db w)"
  show "wp (compact_memory_records_sqlite env tj cutoff m n) (\<lambda>_ w'. memory_sound (w_db w'))
    (\<lambda>_ w'. memory_sound (w_db w')) w"
    unfolding compact_memory_records_sqlite_def wp_simps
    by (rule wp_stmtI) (auto simp: compaction_candidates_sqlite_def Let_def sound intro!: wp_compact_groups_sqlite)
qed


section \<open>A compaction that fails half way\<close>

lemma compact_first_group:
  fixes w :: "'x world"
  assumes "compaction_candidates (o_now env (w_stmts w)) cutoff (max m 2) (max n 1) (w_db w) = (Inr (c # cs), w_db w)"
    and "candidate_ok (max m 2) (w_db w) c" and "memory_ids (w_db w)"
    and "o_fault env (w_stmts w) = None" and "o_fault env (Suc (w_stmts w)) = None"
    and "o_fault env (Suc (Suc (w_stmts w))) = Some e"
    and "compact_rows (cc_source_entry_ids c) (o_now env (Suc (w_stmts w))) (w_db w) = (Inr out, d')"
  shows "\<exists>w'. compact_memory_records env tj cutoff m n w = (Inl e, w') \<and> w_db w' = d'"
proof -
  from assms(2) have "length out = length (cc_source_entry_ids c)"
    by (intro compact_rows_all [OF assms(7,3)]) (simp_all add: candidate_ok_def)
  with assms(2) have big: "\<not> int (length out) < max m 2" "\<not> int (length (cc_source_entry_ids c)) < max m 2"
    unfolding candidate_ok_def by linarith+
  let ?w1 = "w\<lparr>w_stmts := Suc (w_stmts w)\<rparr>"
  let ?w2 = "w\<lparr>w_stmts := Suc (Suc (w_stmts w)), w_db := d'\<rparr>"
  have 1: "stmt env (\<lambda>now. compaction_candidates now cutoff (max m 2) (max n 1)) w = (Inr (c # cs), ?w1)"
    using assms(1,4) by (simp add: stmt_def Let_def)
  have 2: "stmt env (compact_rows (cc_source_entry_ids c)) ?w1 = (Inr out, ?w2)"
    using assms(5,7) by (simp add: stmt_def Let_def)
  have 3: "\<exists>w'. record_compaction env tj c about out rest ?w2 = (Inl e, w') \<and> w_db w' = d'" for about rest
    using assms(6) by (simp add: record_compaction_def bind_def now_utc_def new_v4_def stmt_def Let_def)
  from 3 [of "summary_fields c @ [(''candidate_source_count'', jint (cc_source_count c))]"
      "compact_groups env tj (max m 2) cs"] obtain w' where
    "compact_groups env tj (max m 2) (c # cs) ?w1 = (Inl e, w')" "w_db w' = d'"
    using big 2 by (auto simp: bind_def)
  with 1 show ?thesis by (simp add: compact_memory_records_def bind_def)
qed

lemma uuid_array_inject: "uuid_array xs = uuid_array ys \<longleftrightarrow> xs = ys"
  by (simp add: uuid_array_def inj_map_eq_map inj_on_def)

lemma sound_lists_compacted:
  assumes "memory_sound d" and "k \<in> set (d_compactions d)" and "mc_source_entry_ids k = uuid_array rids"
    and "r \<in> set (d_memory d)" and "m_id r \<in> set rids"
  shows "m_compacted_at r \<noteq> None"
proof -
  from assms(1,2) obtain g rids' where "mc_source_entry_ids k = uuid_array rids'" "listed d g rids'"
    unfolding memory_sound_def compaction_sound_def by blast
  moreover from this(1) assms(3) have "rids' = rids" by (simp add: uuid_array_inject)
  ultimately have "listed d g rids" by simp
  with assms(5) obtain q where "q \<in> set (d_memory d)" "m_id q = m_id r" "m_compacted_at q \<noteq> None"
    by (auto simp: listed_def hidden_def)
  with memory_inj [of d q r] assms(1,4) show ?thesis by (simp add: memory_sound_def)
qed

text \<open>
  Compaction is not atomic: when the insert into \<open>memory_compactions\<close> fails after the update of the
  first group, the records of that group (at least two) are hidden from every listing from then on, and
  no compaction row accounts for them.
\<close>

theorem failed_compaction_hides_memory:
  fixes w :: "'x world"
  assumes "memory_sound (w_db w)"
    and "compaction_candidates (o_now env (w_stmts w)) cutoff (max m 2) (max n 1) (w_db w) = (Inr (c # cs), w_db w)"
    and "o_fault env (w_stmts w) = None" and "o_fault env (Suc (w_stmts w)) = None"
    and "o_fault env (Suc (Suc (w_stmts w))) = Some e"
  shows "\<exists>w'. compact_memory_records env tj cutoff m n w = (Inl e, w') \<and>
    d_compactions (w_db w') = d_compactions (w_db w) \<and> 2 \<le> length (cc_source_entry_ids c) \<and> \<not> accounted (w_db w') \<and>
    (\<forall>now tenant agent mkind prefix limit. \<forall>r \<in> set (list_tenant_memory_records now tenant agent mkind prefix limit (w_db w')).
       m_id r \<notin> set (cc_source_entry_ids c))"
proof -
  let ?rids = "cc_source_entry_ids c"
  have ids: "memory_ids (w_db w)" using assms(1) by (simp add: memory_sound_def)
  have ok: "candidate_ok (max m 2) (w_db w) c"
    using candidates_found(2) [OF assms(2) ids] by (simp add: candidates_ok_def)
  obtain out d' where step: "compact_rows ?rids (o_now env (Suc (w_stmts w))) (w_db w) = (Inr out, d')"
    by (simp add: compact_rows_def Let_def)
  note m = compact_rows_memory [OF step]
  from compact_first_group [OF assms(2) ok ids assms(3-5) step]
  obtain w' where w': "compact_memory_records env tj cutoff m n w = (Inl e, w')" "w_db w' = d'" by blast
  have two: "2 \<le> length ?rids" using ok by (simp add: candidate_ok_def)
  then obtain i where i: "i \<in> set ?rids" by (cases ?rids) auto
  with ok obtain r where r: "r \<in> set (d_memory (w_db w))" "m_id r = i" "m_compacted_at r = None"
    by (auto simp: candidate_ok_def uncompacted_def)
  have gone: "m_compacted_at q \<noteq> None" if "q \<in> set (d_memory d')" "m_id q \<in> set ?rids" for q
    using that by (auto simp: m(1) split: if_splits)
  have "\<not> accounted d'"
  proof
    assume acc: "accounted d'"
    have "mark_compacted (o_now env (Suc (w_stmts w))) r \<in> set (d_memory d')"
      using r i by (auto simp: m(1) image_iff intro!: bexI [of _ r])
    with acc r(2) obtain k rids where "k \<in> set (d_compactions (w_db w))" "mc_source_entry_ids k = uuid_array rids"
        "m_id r \<in> set rids" unfolding accounted_def m(3) by fastforce
    from sound_lists_compacted [OF assms(1) this(1,2) r(1) this(3)] r(3) show False by simp
  qed
  moreover have "m_id q \<notin> set ?rids"
    if "q \<in> set (list_tenant_memory_records now tenant agent mkind prefix limit d')" for now tenant agent mkind prefix limit q
    using that gone [of q]
    by (auto simp: list_tenant_memory_records_def newest_first_def memory_live_def dest!: in_set_takeD)
  ultimately show ?thesis using w' two m(3) by blast
qed

section \<open>An example\<close>

definition sample_memory :: "string \<Rightarrow> memory_record" where
  "sample_memory i = \<lparr>m_id = i, m_tenant_id = ''a'', m_agent_id = ''g'', m_run_id = None, m_step_id = None,
     m_memory_kind = ''session'', m_scope = ''s'', m_content_json = JNull, m_summary_text = None, m_source = ''api'',
     m_redaction_applied = True, m_expires_at = None, m_compacted_at = None, m_created_at = 0, m_updated_at = 0\<rparr>"

definition sample_memory_world :: "unit world" where
  "sample_memory_world = \<lparr>w_db = empty_db\<lparr>d_memory := [sample_memory ''m1'', sample_memory ''m2'']\<rparr>,
     w_ext = (), w_uuids = 0, w_stmts = 0, w_calls = []\<rparr>"

definition sample_memory_env :: outside where
  "sample_memory_env = \<lparr>o_uuid = (\<lambda>n. replicate n CHR ''u''), o_now = (\<lambda>n. int n),
     o_fault = (\<lambda>n. if n = 2 then Some ''connection lost'' else None), o_sql_text = (\<lambda>_. ''sql'')\<rparr>"

lemma sample_memory_sound: "memory_sound (w_db sample_memory_world)"
  by (simp add: memory_sound_def memory_ids_def sample_memory_world_def sample_memory_def)

lemma sample_memory_candidates:
  "compaction_candidates 0 0 2 1 (w_db sample_memory_world) =
     (Inr [\<lparr>cc_group = (''a'', ''g'', ''session'', ''s''), cc_source_count = 2, cc_source_entry_ids = [''m1'', ''m2''],
        cc_run_id = None, cc_step_id = None\<rparr>], w_db sample_memory_world)"
proof -
  have "memory_old 0 0 (sample_memory i)" for i by (simp add: memory_old_def memory_live_def sample_memory_def)
  moreover have "group_of (sample_memory i) = (''a'', ''g'', ''session'', ''s'')" for i
    by (simp add: group_of_def sample_memory_def)
  moreover have "(0 :: int, ''m1'') \<le> (0, ''m2'')" by code_simp
  ultimately show ?thesis
    by (simp add: compaction_candidates_def Let_def sample_memory_world_def groups_with_def candidate_of_def)
      (simp add: sample_memory_def)
qed


theorem failed_compaction_hides_memory_witness:
  "\<exists>w'. compact_memory_records sample_memory_env jint 0 2 1 sample_memory_world = (Inl ''connection lost'', w') \<and>
     \<not> accounted (w_db w')"
proof -
  have 0: "w_stmts sample_memory_world = 0" by (simp add: sample_memory_world_def)
  have env: "o_now sample_memory_env 0 = 0" "o_fault sample_memory_env 0 = None" "o_fault sample_memory_env (Suc 0) = None"
      "o_fault sample_memory_env (Suc (Suc 0)) = Some ''connection lost''" "max 2 2 = (2 :: int)" "max 1 1 = (1 :: int)"
    by (simp_all add: sample_memory_env_def)
  from failed_compaction_hides_memory [where w=sample_memory_world and env=sample_memory_env and m=2 and n=1 and cutoff=0
      and tj=jint, unfolded 0 env, OF sample_memory_sound sample_memory_candidates refl refl refl]
  show ?thesis by blast
qed

end
