(* ===== verification/WorkerMaintenance.thy ===== *)
theory WorkerMaintenance
  imports SiemSafety MemorySafety TriggerProperties EndToEnd
begin

text \<open>
  What a worker cycle does between the requeue and the claim (\<open>process_once_dual\<close> in
  \<open>worker/src/lib.rs\<close>): memory compaction, the SIEM outbox, and the trigger scheduler. With this the
  argument \<open>y_before\<close> of the cycle is the code's, and the properties of the cycle hold of the whole.
\<close>

section \<open>The trigger scheduler\<close>

record scheduler_config =
  sg_enabled :: bool
  sg_tenant_max_inflight_runs :: int
  sg_dispatch_max_inflight_runs :: int
  sg_lease_enabled :: bool
  sg_lease_name :: string
  sg_lease_ttl :: nat

definition count_inflight_runs_dual :: "outside \<Rightarrow> ('x, int) comp" where
  "count_inflight_runs_dual env = stmt env (\<lambda>_ d. (Inr (count_inflight_runs (d_runs d)), d))"

definition try_acquire_scheduler_lease_dual ::
    "storage_backend \<Rightarrow> outside \<Rightarrow> scheduler_lease_params \<Rightarrow> ('x, bool) comp" where
  "try_acquire_scheduler_lease_dual b env p =
     stmt env (\<lambda>now d.
       case (case b of Postgres \<Rightarrow> try_acquire_scheduler_lease | Sqlite \<Rightarrow> try_acquire_scheduler_lease_sqlite)
              now p (d_leases d) of
         (ok, leases) \<Rightarrow> (Inr ok, d\<lparr>d_leases := leases\<rparr>))"

definition dispatch_next_due_trigger_with_limits_dual ::
    "storage_backend \<Rightarrow> outside \<Rightarrow> trigger_services \<Rightarrow> int \<Rightarrow> ('x, trigger_dispatch_record option) comp" where
  "dispatch_next_due_trigger_with_limits_dual b env sv tenant_max =
     (case b of
        Postgres \<Rightarrow> dispatch_next_due_trigger_with_limits env sv tenant_max
      | Sqlite \<Rightarrow> dispatch_next_due_trigger_with_limits_sqlite env sv tenant_max)"

definition should_dispatch :: "storage_backend \<Rightarrow> outside \<Rightarrow> string \<Rightarrow> scheduler_config \<Rightarrow> ('x, bool) comp" where
  "should_dispatch b env worker_id cfg =
     bind (count_inflight_runs_dual env) (\<lambda>global_inflight.
       if sg_dispatch_max_inflight_runs cfg \<le> global_inflight then ret False
       else if sg_lease_enabled cfg
       then try_acquire_scheduler_lease_dual b env
         \<lparr>slp_name = sg_lease_name cfg, slp_owner = worker_id, slp_for = sg_lease_ttl cfg\<rparr>
       else ret True)"

definition audit_dispatch ::
    "outside \<Rightarrow> (time \<Rightarrow> json) \<Rightarrow> string \<Rightarrow> trigger_dispatch_record \<Rightarrow> ('x, unit) comp" where
  "audit_dispatch env time_json worker_id v =
     bind (new_v4 env) (\<lambda>i. append_audit_event_with_trace env
       \<lparr>a_id = i, a_run = td_run_id v, a_step = None, a_tenant = td_tenant_id v, a_agent = Some (td_agent_id v),
        a_user = td_triggered_by_user_id v, a_actor = ''trigger-scheduler:'' @ worker_id,
        a_type = ''run.created'',
        a_payload = jobj [(''recipe_id'', JString (td_recipe_id v)), (''source'', JString ''trigger_scheduler''),
          (''trigger_id'', JString (td_trigger_id v)), (''trigger_type'', JString (td_trigger_type v)),
          (''trigger_event_id'', jopt JString (td_trigger_event_id v)),
          (''scheduled_for'', time_json (td_scheduled_for v)),
          (''next_fire_at'', time_json (td_next_fire_at v))]\<rparr> None)"

definition run_trigger_scheduler ::
    "storage_backend \<Rightarrow> outside \<Rightarrow> trigger_services \<Rightarrow> (time \<Rightarrow> json) \<Rightarrow> string \<Rightarrow> scheduler_config \<Rightarrow>
     ('x, unit) comp" where
  "run_trigger_scheduler b env sv time_json worker_id cfg =
     bind (should_dispatch b env worker_id cfg) (\<lambda>should.
       if \<not> should then ret ()
       else bind (dispatch_next_due_trigger_with_limits_dual b env sv (sg_tenant_max_inflight_runs cfg)) (\<lambda>dispatched.
         case dispatched of None \<Rightarrow> ret () | Some v \<Rightarrow> audit_dispatch env time_json worker_id v))"

section \<open>Between requeue and claim\<close>

record 'x maintenance =
  mt_backend :: storage_backend
  mt_memory :: memory_config
  mt_siem :: siem_config
  mt_siem_services :: "'x siem_services"
  mt_scheduler :: scheduler_config
  mt_triggers :: trigger_services
  mt_time_json :: "time \<Rightarrow> json"

definition before_claim :: "outside \<Rightarrow> string \<Rightarrow> 'x maintenance \<Rightarrow> ('x, unit) comp" where
  "before_claim env worker_id mt =
     seq [if mg_enabled (mt_memory mt)
          then compact_memory (mt_backend mt) env (mt_time_json mt) worker_id (mt_memory mt) else ret (),
          if sc_enabled (mt_siem mt)
          then process_compliance_siem_delivery_outbox (mt_backend mt) env (mt_siem_services mt) worker_id (mt_siem mt)
          else ret (),
          if sg_enabled (mt_scheduler mt)
          then run_trigger_scheduler (mt_backend mt) env (mt_triggers mt) (mt_time_json mt) worker_id (mt_scheduler mt)
          else ret ()]
       (ret ())"

text \<open>The cycle with its maintenance.\<close>

definition full_cycle :: "'x maintenance \<Rightarrow> 'x cycle \<Rightarrow> 'x cycle" where
  "full_cycle mt y = y\<lparr>y_before := before_claim (y_env y) (y_worker_id y) mt\<rparr>"

lemma full_cycle_fields:
  "y_store (full_cycle mt y) = y_store y" "y_claim_next (full_cycle mt y) = y_claim_next y"
  "y_others (full_cycle mt y) = y_others y" "y_config (full_cycle mt y) = y_config y"
  "y_env (full_cycle mt y) = y_env y"
  "y_before (full_cycle mt y) = before_claim (y_env y) (wc_worker_id (cy_worker (y_config y))) mt"
  by (simp_all add: full_cycle_def)

section \<open>It makes no connector calls\<close>

lemma quiet_audit_trace [kept]: "quiet (append_audit_event_with_trace env ev trace)"
  by (simp add: append_audit_event_with_trace_def worker_append_audit_event_def kept)

lemma quiet_record_compaction [kept]: "quiet rest \<Longrightarrow> quiet (record_compaction env tj c about out rest)"
  by (auto simp: record_compaction_def Let_def intro!: kept)

lemma quiet_or_next [kept]: "quiet m \<Longrightarrow> quiet k \<Longrightarrow> quiet (or_next m k)"
  by (auto simp: or_next_def intro!: kept split: option.split)

lemma quiet_memory [kept]: "quiet (compact_memory b env tj wk cfg)"
proof -
  have each: "quiet (compact_each_sqlite env rids)" for rids by (induction rids) (auto intro!: kept)
  have pg: "quiet (compact_groups env tj m cs)" for m cs by (induction cs) (auto intro!: kept)
  have lite: "quiet (compact_groups_sqlite env tj cutoff m cs)" for m cs cutoff
    by (induction cs) (auto intro!: kept each)
  have audit: "quiet (audit_compactions env wk gs)" for gs
    by (induction gs) (auto intro!: kept split: option.split prod.split)
  show ?thesis
    unfolding compact_memory_def compact_memory_records_dual_def
    by (cases b) (auto simp: compact_memory_records_def compact_memory_records_sqlite_def intro!: kept pg lite audit)
qed

lemma quiet_siem [kept]: "quiet (process_compliance_siem_delivery_outbox b env ss wk cfg)"
proof -
  have att: "quiet (attempt ss cfg r)" for r by (simp add: quiet_def attempt_def split: prod.split)
  have rec: "quiet (record_attempt env ss cfg r v)" for r v
    by (auto simp: record_attempt_def intro!: kept split: siem_delivery_attempt.split)
  have each: "quiet (deliver_each env ss cfg rs)" for rs by (induction rs) (auto intro!: kept att rec)
  show ?thesis
    unfolding process_compliance_siem_delivery_outbox_def claim_pending_compliance_siem_delivery_records_dual_def
    using pg_siem.claim_quiet lite_siem.claim_quiet by (cases b) (auto intro!: kept each split: option.split)
qed

lemma quiet_scheduler [kept]: "quiet (run_trigger_scheduler b env sv tj wk cfg)"
proof -
  have tx: "quiet (dispatch_tx env f tmax)" for f tmax by (auto simp: dispatch_tx_def intro!: kept)
  have dis: "quiet (dispatch_next_due_trigger_with_limits_dual b env sv tmax)" for tmax
    unfolding dispatch_next_due_trigger_with_limits_dual_def dispatch_next_due_trigger_with_limits_def
      dispatch_next_due_trigger_with_limits_sqlite_def
    by (cases b) (auto intro!: kept tx)
  show ?thesis
    by (auto simp: run_trigger_scheduler_def should_dispatch_def count_inflight_runs_dual_def
        try_acquire_scheduler_lease_dual_def audit_dispatch_def intro!: kept dis split: option.split)
qed

lemma quiet_before_claim [kept]: "quiet (before_claim env wk mt)"
  by (auto simp: before_claim_def intro!: kept)

section \<open>It takes no run\<close>

text \<open>Compaction and the outbox do not write to the \<open>runs\<close> table; the scheduler adds queued runs.\<close>

lemma runs_kept_audit_trace [runs_kept]: "keeps (\<lambda>d. P (d_runs d)) (append_audit_event_with_trace env ev trace)"
  unfolding append_audit_event_with_trace_def worker_append_audit_event_def
  by (intro keeps_stmt) (auto simp: append_audit_event_def split: if_splits)

lemma runs_kept_record_compaction [runs_kept]:
  assumes "keeps (\<lambda>d. P (d_runs d)) rest"
  shows "keeps (\<lambda>d. P (d_runs d)) (record_compaction env tj c about out rest)"
  using assms by (auto simp: record_compaction_def create_memory_compaction_record_def Let_def
      intro!: kept keeps_stmt split: if_splits)

lemma runs_kept_compact_rows [runs_kept]: "keeps (\<lambda>d. P (d_runs d)) (stmt env (compact_rows rids))"
  by (rule keeps_stmt) (auto simp: compact_rows_def Let_def)

lemma runs_kept_memory [runs_kept]: "keeps (\<lambda>d. P (d_runs d)) (compact_memory b env tj wk cfg)"
proof -
  have each: "keeps (\<lambda>d. P (d_runs d)) (compact_each_sqlite env rids)" for rids
    by (induction rids) (auto intro!: kept runs_kept)
  have pg: "keeps (\<lambda>d. P (d_runs d)) (compact_groups env tj m cs)" for m cs
    by (induction cs) (auto intro!: kept runs_kept)
  have lite: "keeps (\<lambda>d. P (d_runs d)) (compact_groups_sqlite env tj cutoff m cs)" for m cs cutoff
    by (induction cs) (auto intro!: kept runs_kept each keeps_stmt simp: group_ids_sqlite_def)
  have audit: "keeps (\<lambda>d. P (d_runs d)) (audit_compactions env wk gs)" for gs
    by (induction gs) (auto intro!: kept runs_kept split: option.split prod.split)
  show ?thesis
    unfolding compact_memory_def compact_memory_records_dual_def
    by (cases b) (auto simp: compact_memory_records_def compact_memory_records_sqlite_def
        compaction_candidates_def compaction_candidates_sqlite_def Let_def
        intro!: kept runs_kept pg lite audit keeps_stmt)
qed

lemma runs_kept_siem [runs_kept]:
  "keeps (\<lambda>d. P (d_runs d)) (process_compliance_siem_delivery_outbox b env ss wk cfg)"
proof -
  have att: "keeps (\<lambda>d. P (d_runs d)) (attempt ss cfg r)" for r by (simp add: keeps_def attempt_def split: prod.split)
  have upd: "update_siem_record rid f d = (Inr v, d') \<Longrightarrow> d_runs d' = d_runs d" for rid f d v d'
    by (auto simp: update_siem_record_def split: option.splits)
  have rec: "keeps (\<lambda>d. P (d_runs d)) (record_attempt env ss cfg r v)" for r v
    by (auto simp: record_attempt_def mark_compliance_siem_delivery_record_delivered_def
        mark_compliance_siem_delivery_record_failed_def mark_compliance_siem_delivery_record_dead_lettered_def
        intro!: kept keeps_stmt dest!: upd split: siem_delivery_attempt.split)
  have each: "keeps (\<lambda>d. P (d_runs d)) (deliver_each env ss cfg rs)" for rs
    by (induction rs) (auto intro!: kept att rec)
  have claim: "keeps (\<lambda>d. P (d_runs d)) (claim_pending_compliance_siem_delivery_records_dual b env wk l n)" for l n
    unfolding claim_pending_compliance_siem_delivery_records_dual_def
    using pg_siem.claim_tables [of "\<lambda>d. P (d_runs d)"] lite_siem.claim_tables [of "\<lambda>d. P (d_runs d)"]
    by (cases b) simp_all
  show ?thesis
    unfolding process_compliance_siem_delivery_outbox_def
    by (auto intro!: kept each claim split: option.split)
qed

definition adds_queued :: "runs \<Rightarrow> runs \<Rightarrow> bool" where
  "adds_queued rows rows' \<longleftrightarrow> rows' = rows \<or>
     (\<exists>fk now n. insert_check fk n rows = None \<and> nr_status n = ''queued'' \<and> rows' = rows @ [row_of_new now None n])"

lemma adds_queued_refl [simp]: "adds_queued rows rows"
  by (simp add: adds_queued_def)

lemma adds_queued_insert:
  "insert_run sv now n d = Inr d1 \<Longrightarrow> nr_status n = ''queued'' \<Longrightarrow> adds_queued (d_runs d) (d_runs d1)"
  by (auto simp: insert_run_Inr adds_queued_def)

lemma firing_runs: "insert_trigger_run tr d = Inr d1 \<Longrightarrow> d_runs d1 = d_runs d"
  by (simp add: insert_trigger_run_Inr)

lemma queued_runs [simp]: "nr_status (run_of_trigger t i inp) = ''queued''" "nr_status (webhook_run e t i) = ''queued''"
  by (simp_all add: run_of_trigger_def webhook_run_def)

lemma reserve_runs:
  "reserve_trigger t f d = (d1, n) \<Longrightarrow> d_runs d1 = d_runs d" "reserve_event e g d = (d1, n) \<Longrightarrow> d_runs d1 = d_runs d"
  by (auto simp: reserve_trigger_def reserve_event_def update_where_def)

lemmas fire_runs = firing_runs reserve_runs

lemma fire_schedule_adds:
  "fire_schedule sv i j now t ty inp nx d = Inr (v, d') \<Longrightarrow> adds_queued (d_runs d) (d_runs d')"
  "fire_schedule_sqlite sv i j now t ty nx d = Inr (v, d') \<Longrightarrow> adds_queued (d_runs d) (d_runs d')"
  by (auto simp: fire_schedule_def fire_schedule_sqlite_def try_then_Inr
      dest!: fire_runs adds_queued_insert split: prod.splits if_splits)

lemma fire_event_adds:
  "fire_event sv i j now e t d = Inr (v, d') \<Longrightarrow> adds_queued (d_runs d) (d_runs d')"
  "fire_event_sqlite sv i j now e t d = Inr (v, d') \<Longrightarrow> adds_queued (d_runs d) (d_runs d')"
  by (auto simp: fire_event_def fire_event_sqlite_def try_then_Inr
      dest!: fire_runs adds_queued_insert split: prod.splits if_splits)

lemma fire_cron_adds:
  "fire_cron sv i j now t d = Inr (v, d') \<Longrightarrow> adds_queued (d_runs d) (d_runs d')"
  "fire_cron_sqlite sv i j now t d = Inr (v, d') \<Longrightarrow> adds_queued (d_runs d) (d_runs d')"
  by (auto simp: fire_cron_def fire_cron_sqlite_def cron_failed_def cron_failed_sqlite_def try_then_Inr
      dest!: fire_runs fire_schedule_adds split: option.splits sum.splits prod.splits if_splits)

lemma fire_interval_adds:
  "fire_interval sv i j now t d = Inr (v, d') \<Longrightarrow> adds_queued (d_runs d) (d_runs d')"
  "fire_interval_sqlite sv i j now t d = Inr (v, d') \<Longrightarrow> adds_queued (d_runs d) (d_runs d')"
  by (auto simp: fire_interval_def fire_interval_sqlite_def Let_def try_then_Inr
      dest!: fire_runs fire_schedule_adds split: option.splits prod.splits if_splits)

lemma commit_ok: "commit d r = (Inr v, d') \<longleftrightarrow> r = Inr (v, d')"
  by (auto simp: commit_def split: sum.splits)

lemma dispatch_adds:
  assumes "f sv i j tmax now d = (Inr v, d')"
    and "f \<in> {dispatch_next_due_webhook_event, dispatch_next_due_cron_trigger,
      dispatch_next_due_interval_trigger_with_limits, dispatch_next_due_webhook_event_sqlite,
      dispatch_next_due_cron_trigger_sqlite, dispatch_next_due_interval_trigger_with_limits_sqlite}"
  shows "adds_queued (d_runs d) (d_runs d')"
  using assms(2,1)
  by (elim insertE emptyE)
    (auto simp: dispatch_next_due_webhook_event_def dispatch_next_due_cron_trigger_def
      dispatch_next_due_interval_trigger_with_limits_def dispatch_next_due_webhook_event_sqlite_def
      dispatch_next_due_cron_trigger_sqlite_def dispatch_next_due_interval_trigger_with_limits_sqlite_def commit_ok
      dest: fire_event_adds fire_cron_adds fire_interval_adds split: option.splits)

lemma adds_queued_holds:
  assumes "adds_queued rows rows'" and "holds_within wk A rows"
  shows "holds_within wk A rows'"
proof -
  have "holds_within wk A (rows @ [row_of_new now None n])"
    if "insert_check fk n rows = None" "nr_status n = ''queued''" for fk now n
  proof -
    have ok: "runs_ok rows" using assms(2) by (simp add: holds_within_def)
    from runs_ok_append [OF ok that] have ok': "runs_ok (rows @ [row_of_new now None n])" .
    have "lease_of rows rid = Some (Leased wk e)"
      if "lease_of (rows @ [row_of_new now None n]) rid = Some (Leased wk e)" for rid e
      using that \<open>nr_status n = ''queued''\<close>
      by (auto simp: lease_of_def row_of_append lease_row_def row_of_new_def Option.bind_eq_Some_conv
          split: if_splits option.splits)
    with ok' assms(2) show ?thesis by (auto simp: holds_within_def)
  qed
  with assms show ?thesis by (auto simp: adds_queued_def)
qed

lemma keeps_or_next [kept]: "keeps P m \<Longrightarrow> keeps P k \<Longrightarrow> keeps P (or_next m k)"
  by (auto simp: or_next_def intro!: kept split: option.split)

lemma keeps_dispatch: "keeps (\<lambda>d. holds_within wk A (d_runs d)) (dispatch_next_due_trigger_with_limits_dual b env sv tmax)"
proof -
  have tx: "keeps (\<lambda>d. holds_within wk A (d_runs d)) (dispatch_tx env (f sv) tmax)"
    if "f \<in> {dispatch_next_due_webhook_event, dispatch_next_due_cron_trigger,
      dispatch_next_due_interval_trigger_with_limits, dispatch_next_due_webhook_event_sqlite,
      dispatch_next_due_cron_trigger_sqlite, dispatch_next_due_interval_trigger_with_limits_sqlite}" for f
    unfolding dispatch_tx_def
    by (intro kept keeps_stmt) (use that in \<open>blast intro: adds_queued_holds dispatch_adds\<close>)
  show ?thesis
    unfolding dispatch_next_due_trigger_with_limits_dual_def dispatch_next_due_trigger_with_limits_def
      dispatch_next_due_trigger_with_limits_sqlite_def
    by (cases b) (auto intro!: kept tx)
qed

lemma keeps_scheduler: "keeps (\<lambda>d. holds_within wk A (d_runs d)) (run_trigger_scheduler b env sv tj wk' cfg)"
  unfolding run_trigger_scheduler_def should_dispatch_def count_inflight_runs_dual_def
    try_acquire_scheduler_lease_dual_def audit_dispatch_def
  by (auto intro!: kept runs_kept keeps_stmt keeps_dispatch split: option.split prod.splits)

lemma keeps_before_claim: "keeps (\<lambda>d. holds_within wk A (d_runs d)) (before_claim env wk' mt)"
  unfolding before_claim_def by (auto intro!: kept runs_kept keeps_scheduler)

section \<open>The whole cycle\<close>

text \<open>
  (C25) The complete cycle with compaction, SIEM deliveries and trigger dispatch: whatever the other
  processes do to the \<open>runs\<close> table between its statements, whichever statements fail, and whatever the
  outside answers, the table keeps its invariant. If the cycle returns an outcome, the worker holds no
  run afterwards, and success is reported only for a run whose row says \<open>succeeded\<close>; after an error it
  holds at most one run, which its expiry gives back.
\<close>

theorem full_cycle_releases_its_run:
  fixes w :: "'x world"
  assumes "y_store y = dual_store b fk" and "y_claim_next y = claim_next_queued_run_with_limits_dual b"
    and "foreign (dual_store b fk) (y_worker_id y) (y_others y)"
    and "holds_within (y_worker_id y) {} (d_runs (w_db w))"
    and "process_once_dual (full_cycle mt y) w = (res, w')"
  shows "case res of
      Inr out \<Rightarrow> holds_within (y_worker_id y) {} (d_runs (w_db w')) \<and>
        (\<forall>rid. out = ClaimedAndSucceeded rid \<longrightarrow>
          (\<exists>r. row_of (d_runs (w_db w')) rid = Some r \<and> r_status r = ''succeeded''))
    | Inl _ \<Rightarrow> \<exists>rid. holds_within (y_worker_id y) {rid} (d_runs (w_db w'))"
  by (rule cycle_releases_its_run [where y="full_cycle mt y", unfolded full_cycle_fields,
        OF assms(1-3) keeps_before_claim assms(4,5)])


section \<open>A trigger that stops the worker\<close>

definition due_event_dual ::
    "storage_backend \<Rightarrow> time \<Rightarrow> int \<Rightarrow> db \<Rightarrow> (trigger_event_row \<times> trigger_record) option" where
  "due_event_dual b = (case b of Postgres \<Rightarrow> due_event | Sqlite \<Rightarrow> due_event_sqlite)"

lemma dispatch_blocked:
  fixes w :: "'x world"
  assumes "ids_ok (w_db w)" and "firing_of (w_db w) e tr"
    and "due_event_dual b (o_now env (w_stmts w)) tmax (w_db w) = Some (e, t)"
  shows "\<exists>msg w'. dispatch_next_due_trigger_with_limits_dual b env sv tmax w = (Inl msg, w') \<and> w_db w' = w_db w"
proof (cases b)
  case Postgres
  with assms(3) have "due_event (o_now env (w_stmts w)) tmax (w_db w) = Some (e, t)" by (simp add: due_event_dual_def)
  from tried_event_rolls_back(1) [OF assms(1,2) this] Postgres show ?thesis
    by (simp add: dispatch_next_due_trigger_with_limits_dual_def dispatch_next_due_trigger_with_limits_def dispatch_fails)
next
  case Sqlite
  with assms(3) have "due_event_sqlite (o_now env (w_stmts w)) tmax (w_db w) = Some (e, t)" by (simp add: due_event_dual_def)
  from tried_event_rolls_back(2) [OF assms(1,2) this] Sqlite show ?thesis
    by (simp add: dispatch_next_due_trigger_with_limits_dual_def dispatch_next_due_trigger_with_limits_sqlite_def
        dispatch_fails)
qed

text \<open>The scheduler alone, without the lease: it counts the runs in flight and then dispatches.\<close>

lemma scheduler_blocked:
  fixes w :: "'x world"
  assumes "ids_ok (w_db w)" and "firing_of (w_db w) e tr" and "\<not> sg_lease_enabled cfg"
    and "count_inflight_runs (d_runs (w_db w)) < sg_dispatch_max_inflight_runs cfg"
    and "due_event_dual b (o_now env (Suc (w_stmts w))) (sg_tenant_max_inflight_runs cfg) (w_db w) = Some (e, t)"
  shows "\<exists>msg w'. run_trigger_scheduler b env sv tj wk cfg w = (Inl msg, w') \<and> w_db w' = w_db w \<and> w_calls w' = w_calls w"
proof -
  have quiet: "w_calls w' = w_calls w" if "run_trigger_scheduler b env sv tj wk cfg w = (r, w')" for r w'
    using quiet_scheduler [of b env sv tj wk cfg] that unfolding quiet_def by (metis snd_conv)
  show ?thesis
  proof (cases "o_fault env (w_stmts w)")
    case None
    let ?w1 = "w\<lparr>w_stmts := Suc (w_stmts w)\<rparr>"
    have "should_dispatch b env wk cfg w = (Inr True, ?w1)"
      using None assms(3,4) by (simp add: should_dispatch_def count_inflight_runs_dual_def bind_def stmt_def ret_def Let_def)
    moreover obtain msg w' where
      "dispatch_next_due_trigger_with_limits_dual b env sv (sg_tenant_max_inflight_runs cfg) ?w1 = (Inl msg, w')"
      "w_db w' = w_db ?w1"
      using dispatch_blocked [where w="?w1" and e=e and tr=tr and b=b and env=env and t=t and sv=sv
          and tmax="sg_tenant_max_inflight_runs cfg"] assms(1,2,5) by auto
    ultimately have "run_trigger_scheduler b env sv tj wk cfg w = (Inl msg, w')" "w_db w' = w_db w"
      by (simp_all add: run_trigger_scheduler_def bind_def)
    with quiet show ?thesis by blast
  next
    case (Some msg)
    then have "run_trigger_scheduler b env sv tj wk cfg w = (Inl msg, w\<lparr>w_stmts := Suc (w_stmts w)\<rparr>)"
      by (simp add: run_trigger_scheduler_def should_dispatch_def count_inflight_runs_dual_def bind_def stmt_def Let_def)
    then show ?thesis by simp
  qed
qed

text \<open>
  One event stops a worker: let a webhook event of any tenant have failed once and come first
  again, in a reachable state, with the scheduler running and compaction, outbox and scheduler lease
  off. Then the cycle ends in an error before it claims: no queued run of any tenant is taken up, no
  connector is called, and all the \<open>runs\<close> table sees is the requeue at the start of the cycle.
\<close>

theorem tried_event_stops_worker:
  fixes w :: "'x world"
  assumes "trigger_reach sv T (w_db w)" and "cron_lib sv" and "te_attempts e = 1"
    and y: "y_others y = (\<lambda>_ rows. rows)"
    and off: "\<not> mg_enabled (mt_memory mt)" "\<not> sc_enabled (mt_siem mt)" "\<not> sg_lease_enabled (mt_scheduler mt)"
    and sched: "sg_enabled (mt_scheduler mt)"
    and requeue: "st_requeue (y_store y) (o_now (y_env y) (w_stmts w)) (cy_requeue_limit (y_config y)) (d_runs (w_db w)) = (n, rows)"
    and room: "count_inflight_runs rows < sg_dispatch_max_inflight_runs (mt_scheduler mt)"
    and due: "due_event_dual (mt_backend mt) (o_now (y_env y) (Suc (Suc (w_stmts w))))
      (sg_tenant_max_inflight_runs (mt_scheduler mt)) ((w_db w)\<lparr>d_runs := rows\<rparr>) = Some (e, t)"
  shows "\<exists>msg w'. process_once_dual (full_cycle mt y) w = (Inl msg, w') \<and> w_calls w' = w_calls w \<and>
    (d_runs (w_db w') = d_runs (w_db w) \<or> d_runs (w_db w') = rows)"
proof -
  have inv: "trigger_inv sv' T (w_db w)" if "sv' = sv" for sv' using reachable_inv [OF assms(1,2)] that by simp
  then have ids: "ids_ok ((w_db w)\<lparr>d_runs := rows\<rparr>)" by (simp add: trigger_inv_def)
  let ?d = "(w_db w)\<lparr>d_runs := rows\<rparr>"
  have "event_now (sg_tenant_max_inflight_runs (mt_scheduler mt)) ?d e t"
  proof (cases "mt_backend mt")
    case Postgres
    with due show ?thesis by (intro due_event_law) (simp add: due_event_dual_def)
  next
    case Sqlite
    with due show ?thesis by (intro due_event_sqlite_law) (simp add: due_event_dual_def)
  qed
  then have e: "e \<in> set (d_trigger_events (w_db w))" "te_status e = ''pending''" by auto
  then have "event_ok sv (w_db w) e" using inv by (simp add: trigger_inv_def)
  with assms(3) e(2) obtain tr where tr: "firing_of (w_db w) e tr" by (auto simp: event_ok_def)
  then have tr: "firing_of ?d e tr" by (simp add: firing_of_def)
  let ?env = "y_env y"
  let ?w1 = "w\<lparr>w_stmts := Suc (w_stmts w), w_db := ?d\<rparr>"
  show ?thesis
  proof (cases "o_fault ?env (w_stmts w)")
    case None
    have 1: "runs_stmt (full_cycle mt y) (\<lambda>now. st_requeue (y_store y) now (cy_requeue_limit (y_config y))) w = (Inr n, ?w1)"
      using None requeue y
      by (simp add: runs_stmt_def interference_def bind_def stmt_def Let_def full_cycle_fields)
    obtain msg w' where blocked: "run_trigger_scheduler (mt_backend mt) ?env (mt_triggers mt) (mt_time_json mt)
        (y_worker_id y) (mt_scheduler mt) ?w1 = (Inl msg, w')" "w_db w' = w_db ?w1" "w_calls w' = w_calls ?w1"
      using scheduler_blocked [where w="?w1" and e=e and tr=tr and cfg="mt_scheduler mt" and b="mt_backend mt"
          and env="?env" and t=t and sv="mt_triggers mt" and tj="mt_time_json mt" and wk="y_worker_id y"]
        ids tr off(3) room due by auto
    have "before_claim ?env (y_worker_id y) mt ?w1 = (Inl msg, w')"
      using off(1,2) sched blocked(1) by (simp add: before_claim_def bind_def ret_def)
    with 1 have "process_once_dual (full_cycle mt y) w = (Inl msg, w')"
      by (simp add: process_once_dual_def bind_def full_cycle_fields)
    with blocked show ?thesis by auto
  next
    case (Some msg)
    then have "process_once_dual (full_cycle mt y) w = (Inl msg, w\<lparr>w_stmts := Suc (w_stmts w)\<rparr>)"
      using y by (simp add: process_once_dual_def runs_stmt_def interference_def bind_def stmt_def Let_def full_cycle_fields)
    then show ?thesis by simp
  qed
qed

section \<open>Witnesses\<close>

text \<open>
  The worker of the earlier example, with the scheduler on: at thirty seconds the event that was too
  large comes first again.
\<close>

definition sample_maintenance :: "nat maintenance" where
  "sample_maintenance = \<lparr>mt_backend = Postgres,
     mt_memory = \<lparr>mg_enabled = False, mg_min_records = 10, mg_max_groups_per_cycle = 5, mg_min_age_secs = 300\<rparr>,
     mt_siem = sample_siem_config\<lparr>sc_enabled := False\<rparr>,
     mt_siem_services = \<lparr>ss_client_error = None, ss_post = (\<lambda>_ x. (Inr (200, None), x)), ss_uuid_bytes = (\<lambda>_. [])\<rparr>,
     mt_scheduler = \<lparr>sg_enabled = True, sg_tenant_max_inflight_runs = 5, sg_dispatch_max_inflight_runs = 100,
       sg_lease_enabled = False, sg_lease_name = ''default'', sg_lease_ttl = 3000\<rparr>,
     mt_triggers = sample_sv 70000, mt_time_json = jint\<rparr>"

theorem full_cycle_releases_its_run_witness:
  "case process_once_dual (full_cycle sample_maintenance sample_cycle) (sample_table ''queued'') of (res, w') \<Rightarrow>
     (case res of
        Inr out \<Rightarrow> holds_within ''w1'' {} (d_runs (w_db w')) \<and>
          (\<forall>rid. out = ClaimedAndSucceeded rid \<longrightarrow>
            (\<exists>r. row_of (d_runs (w_db w')) rid = Some r \<and> r_status r = ''succeeded''))
      | Inl _ \<Rightarrow> \<exists>rid. holds_within ''w1'' {rid} (d_runs (w_db w')))"
proof -
  obtain res w' where e: "process_once_dual (full_cycle sample_maintenance sample_cycle) (sample_table ''queued'') = (res, w')"
    by force
  have wk: "y_worker_id sample_cycle = ''w1''" by (simp add: sample_cycle_def sample_config_def)
  have "case res of
      Inr out \<Rightarrow> holds_within (y_worker_id sample_cycle) {} (d_runs (w_db w')) \<and>
        (\<forall>rid. out = ClaimedAndSucceeded rid \<longrightarrow>
          (\<exists>r. row_of (d_runs (w_db w')) rid = Some r \<and> r_status r = ''succeeded''))
    | Inl _ \<Rightarrow> \<exists>rid. holds_within (y_worker_id sample_cycle) {rid} (d_runs (w_db w'))"
    by (rule full_cycle_releases_its_run [where b=Sqlite and fk="\<lambda>_. True", OF _ _ _ _ e])
      (simp_all add: sample_table_ok, simp_all add: sample_cycle_def sample_foreign)
  then show ?thesis unfolding e wk by simp
qed


definition sample_late_cycle :: "nat cycle" where
  "sample_late_cycle = sample_cycle\<lparr>y_env := sample_scheduler, y_store := postgres (\<lambda>_. True)\<rparr>"

definition sample_late_world :: "nat world" where
  "sample_late_world = \<lparr>w_db = sample_tried, w_ext = 0, w_uuids = 0, w_stmts = 0, w_calls = []\<rparr>"

theorem tried_event_stops_worker_witness:
  "\<exists>msg w'. process_once_dual (full_cycle sample_maintenance sample_late_cycle) sample_late_world = (Inl msg, w') \<and>
     w_calls w' = []"
proof -
  have runs: "d_runs sample_tried = []" by (simp add: sample_tried_def sample_db_def)
  have fields: "w_db sample_late_world = sample_tried" "w_stmts sample_late_world = 0" "w_calls sample_late_world = []"
      "y_others sample_late_cycle = (\<lambda>_ rows. rows)" "y_env sample_late_cycle = sample_scheduler"
    by (simp_all add: sample_late_world_def sample_late_cycle_def sample_cycle_def)
  have now: "o_now sample_scheduler k = 30000" for k by (simp add: sample_scheduler_def)
  have requeue: "st_requeue (y_store sample_late_cycle) 30000 (cy_requeue_limit (y_config sample_late_cycle)) [] = (0, [])"
    by (simp add: sample_late_cycle_def postgres_def requeue_expired_runs_def Let_def update_where_def)
  have db: "sample_tried\<lparr>d_runs := []\<rparr> = sample_tried" using runs by simp
  have tried: "te_attempts (mark_event_failed 0 False (sample_event 70000)) = 1"
    by (simp add: mark_event_failed_def sample_event_def)
  have "\<exists>msg w'. process_once_dual (full_cycle sample_maintenance sample_late_cycle) sample_late_world = (Inl msg, w') \<and>
      w_calls w' = w_calls sample_late_world \<and> (d_runs (w_db w') = d_runs (w_db sample_late_world) \<or> d_runs (w_db w') = [])"
    by (rule tried_event_stops_worker [where sv="sample_sv 70000" and T=0 and e="mark_event_failed 0 False (sample_event 70000)"
          and t=sample_hook and n=0])
      (simp_all add: sample_maintenance_def sample_siem_config_def count_inflight_runs_def fields sample_tried_reach
        sample_lib tried runs now requeue db sample_due_again due_event_dual_def)
  then show ?thesis using fields(3) by metis
qed

end
