(* ===== verification/SystemGrants.thy ===== *)
theory SystemGrants
  imports ApiTriggerSafety WorkerMaintenance
begin

text \<open>
  The parts together: the API creates runs and triggers, the scheduler of any worker starts runs of
  triggers, workers claim and finish runs, all on one database. Every run, however it came to be,
  carries capabilities that were resolved for the role of a caller of its own tenant.
\<close>

section \<open>Reachable databases\<close>

text \<open>The tenant and the role that the API takes from a request.\<close>

definition callers_of :: "app_state \<Rightarrow> headers \<Rightarrow> (string \<times> role_preset) set" where
  "callers_of st hs = {(tenant, role). tenant_from_headers hs = Inr tenant \<and> role_from_headers st hs = Inr role}"

fun inserts_run :: "run_stmt \<Rightarrow> bool" where
  "inserts_run (Insert n) = True"
| "inserts_run _ = False"

text \<open>
  \<open>C\<close> collects the callers of the API so far. The API has no connectors, so its world holds
  nothing behind them.
\<close>

inductive system_reach :: "(string \<times> role_preset) set \<Rightarrow> db \<Rightarrow> bool" where
  empty: "system_reach {} empty_db"
| create_run: "system_reach C (w_db (w :: unit world)) \<Longrightarrow> create_run_handler sh env sv st hs req w = (res, w') \<Longrightarrow>
    system_reach (C \<union> callers_of st hs) (w_db w')"
| trigger_call: "system_reach C (w_db (w :: unit world)) \<Longrightarrow> trigger_api env ty st hs call w = (tres, w') \<Longrightarrow>
    system_reach (C \<union> callers_of st hs) (w_db w')"
| dispatch: "system_reach C d \<Longrightarrow> f \<in> {dispatch_next_due_webhook_event, dispatch_next_due_cron_trigger,
      dispatch_next_due_interval_trigger_with_limits, dispatch_next_due_webhook_event_sqlite,
      dispatch_next_due_cron_trigger_sqlite, dispatch_next_due_interval_trigger_with_limits_sqlite} \<Longrightarrow>
    f tsv i j tmax now d = (dres, d') \<Longrightarrow> system_reach C d'"
| work: "system_reach C d \<Longrightarrow> \<not> inserts_run s \<Longrightarrow> S = postgres fk \<or> S = sqlite fk \<Longrightarrow>
    exec_stmt S now s (d_runs d) = (rows, ev) \<Longrightarrow> system_reach C (d\<lparr>d_runs := rows\<rparr>)"
| elsewhere: "system_reach C d \<Longrightarrow> d_runs d' = d_runs d \<Longrightarrow> d_triggers d' = d_triggers d \<Longrightarrow> system_reach C d'"

section \<open>The invariant\<close>

definition run_granted :: "(string \<times> role_preset) set \<Rightarrow> run_row \<Rightarrow> bool" where
  "run_granted C r \<longleftrightarrow> (\<exists>role. (r_tenant r, role) \<in> C \<and>
     resolve_granted_capabilities (r_recipe r) role (r_requested r) = Inr (r_granted r))"

definition trigger_granted :: "(string \<times> role_preset) set \<Rightarrow> trigger_record \<Rightarrow> bool" where
  "trigger_granted C t \<longleftrightarrow> (\<exists>role. (t_tenant_id t, role) \<in> C \<and> role \<noteq> Viewer \<and>
     resolve_granted_capabilities (t_recipe_id t) role (t_requested_capabilities t) = Inr (t_granted_capabilities t))"

definition all_granted :: "(string \<times> role_preset) set \<Rightarrow> db \<Rightarrow> bool" where
  "all_granted C d \<longleftrightarrow> (\<forall>r \<in> set (d_runs d). run_granted C r) \<and> (\<forall>t \<in> set (d_triggers d). trigger_granted C t)"

lemma run_granted_mono: "run_granted C r \<Longrightarrow> C \<subseteq> C' \<Longrightarrow> run_granted C' r"
  by (auto simp: run_granted_def)

lemma trigger_granted_mono: "trigger_granted C t \<Longrightarrow> C \<subseteq> C' \<Longrightarrow> trigger_granted C' t"
  by (auto simp: trigger_granted_def)

lemma all_granted_mono: "all_granted C d \<Longrightarrow> C \<subseteq> C' \<Longrightarrow> all_granted C' d"
  using run_granted_mono trigger_granted_mono by (fastforce simp: all_granted_def)

lemma run_granted_ident: "run_ident r' = run_ident r \<Longrightarrow> run_granted C r' = run_granted C r"
  by (simp add: run_granted_def run_ident_def)

lemma trigger_granted_ident: "trigger_ident t' = trigger_ident t \<Longrightarrow> trigger_granted C t' = trigger_granted C t"
  by (simp add: trigger_granted_def trigger_ident_def)

text \<open>A run of a granted trigger is granted.\<close>

lemma run_from_granted: "run_from t r \<Longrightarrow> trigger_granted C t \<Longrightarrow> run_granted C r"
  by (auto simp: run_from_def trigger_granted_def run_granted_def)

subsection \<open>Dispatch\<close>

named_theorems granted \<open>what the primitive changes of a dispatch keep\<close>

lemma granted_map_triggers:
  "all_granted C d \<Longrightarrow> (\<And>u. trigger_ident (f u) = trigger_ident u) \<Longrightarrow>
   all_granted C (d\<lparr>d_triggers := map (\<lambda>u. if P u then f u else u) (d_triggers d)\<rparr>)"
  by (auto simp: all_granted_def dest: trigger_granted_ident [THEN iffD2, rotated])

lemma granted_set_trigger [granted]:
  "all_granted C d \<Longrightarrow> (\<And>u. trigger_ident (f u) = trigger_ident u) \<Longrightarrow> all_granted C (set_trigger i f d)"
  unfolding set_trigger_def by (rule granted_map_triggers)

lemma granted_reserve [granted]:
  "reserve_trigger t f d = (d1, n) \<Longrightarrow> all_granted C d \<Longrightarrow> (\<And>u. trigger_ident (f u) = trigger_ident u) \<Longrightarrow> all_granted C d1"
  using granted_map_triggers [of C d f] by (auto simp: reserve_trigger_def update_where_def)

lemma granted_set_event [granted]: "all_granted C (set_event i g d) = all_granted C d"
  by (simp add: all_granted_def set_event_def)

lemma granted_reserve_event [granted]: "reserve_event e g d = (d1, n) \<Longrightarrow> all_granted C d1 = all_granted C d"
  by (auto simp: all_granted_def reserve_event_def update_where_def)

lemma granted_insert_firing [granted]: "insert_trigger_run tr d = Inr d1 \<Longrightarrow> all_granted C d1 = all_granted C d"
  by (auto simp: all_granted_def insert_trigger_run_Inr)

lemma granted_insert_run [granted]:
  assumes "insert_run sv now (run_of_trigger t i inp) d = Inr d1" "all_granted C d" "trigger_granted C t"
  shows "all_granted C d1"
proof -
  have "run_from t (row_of_new now None (run_of_trigger t i inp))"
    by (simp add: run_from_def row_of_new_def run_of_trigger_def)
  then show ?thesis using assms run_from_granted by (auto simp: insert_run_Inr all_granted_def)
qed

lemma ident_kept [simp]:
  "trigger_ident (mark_fired now u) = trigger_ident u"
  "trigger_ident (u\<lparr>t_next_fire_at := a\<rparr>) = trigger_ident u"
  "trigger_ident (u\<lparr>t_next_fire_at := a, t_updated_at := b\<rparr>) = trigger_ident u"
  "trigger_ident (dead_letter_trigger now s u) = trigger_ident u"
  by (simp_all add: trigger_ident_def mark_fired_def dead_letter_trigger_def)

lemma granted_fire_schedule:
  assumes "all_granted C d" "trigger_granted C t"
  shows "fire_schedule sv i j now t ty inp nx d = Inr (v, d') \<Longrightarrow> all_granted C d'"
    and "fire_schedule_sqlite sv i j now t ty nx d = Inr (v, d') \<Longrightarrow> all_granted C d'"
proof -
  show "all_granted C d'" if fire: "fire_schedule sv i j now t ty inp nx d = Inr (v, d')"
  proof -
    obtain d1 where ins: "insert_run sv now (run_of_trigger t i inp) d = Inr d1"
      and f: "insert_trigger_run (created_trigger_run j (t_id t) i (t_next_fire_at t) (nanos_key (t_next_fire_at t)))
         (set_trigger (t_id t) (\<lambda>u. (mark_fired now u)\<lparr>t_next_fire_at := nx\<rparr>) d1) = Inr d'"
      using fire by (auto simp: fire_schedule_def try_then_Inr)
    have "all_granted C (set_trigger (t_id t) (\<lambda>u. (mark_fired now u)\<lparr>t_next_fire_at := nx\<rparr>) d1)"
      by (rule granted_set_trigger [OF granted_insert_run [OF ins assms]]) simp
    then show ?thesis using f by (simp add: granted_insert_firing)
  qed
  show "all_granted C d'" if fire: "fire_schedule_sqlite sv i j now t ty nx d = Inr (v, d')"
  proof -
    obtain d1 n where r: "reserve_trigger t (\<lambda>u. (mark_fired now u)\<lparr>t_next_fire_at := nx\<rparr>) d = (d1, n)" by force
    have d1: "all_granted C d1" by (rule granted_reserve [OF r assms(1)]) simp
    show ?thesis
    proof (cases "n = 1")
      case True
      with fire obtain d2 where "insert_run sv now (run_of_trigger t i (inject_trace_id (t_input_json t) i)) d1 = Inr d2"
          and f: "insert_trigger_run (created_trigger_run j (t_id t) i (t_next_fire_at t)
            (nanos_key (t_next_fire_at t))) d2 = Inr d'"
        by (auto simp: fire_schedule_sqlite_def r try_then_Inr)
      then show ?thesis using granted_insert_run [OF _ d1 assms(2)] granted_insert_firing [OF f] by blast
    qed (use fire d1 in \<open>simp add: fire_schedule_sqlite_def r\<close>)
  qed
qed

lemma granted_fire_event:
  assumes "all_granted C d" "trigger_granted C t"
  shows "fire_event sv i j now e t d = Inr (v, d') \<Longrightarrow> all_granted C d'"
    and "fire_event_sqlite sv i j now e t d = Inr (v, d') \<Longrightarrow> all_granted C d'"
proof -
  show "all_granted C d'" if fire: "fire_event sv i j now e t d = Inr (v, d')"
  proof (cases "payload_too_large sv (te_payload_json e)")
    case True
    with fire assms(1) show ?thesis
      by (auto simp: fire_event_def try_then_Inr granted_insert_firing granted_set_event)
  next
    case False
    with fire obtain d1 where ins: "insert_run sv now (webhook_run e t i) d = Inr d1"
        and f: "insert_trigger_run (created_trigger_run j (t_id t) i now (te_event_id e))
          (set_trigger (t_id t) (mark_fired now) (set_event (te_id e) (mark_event_processed now) d1)) = Inr d'"
      by (auto simp: fire_event_def try_then_Inr)
    have "all_granted C d1" using granted_insert_run [OF ins [unfolded webhook_run_def] assms] .
    then show ?thesis unfolding granted_insert_firing [OF f] by (simp add: granted_set_trigger granted_set_event)
  qed
  show "all_granted C d'" if fire: "fire_event_sqlite sv i j now e t d = Inr (v, d')"
  proof (cases "payload_too_large sv (te_payload_json e)")
    case True
    with fire assms(1) show ?thesis
      by (auto simp: fire_event_sqlite_def try_then_Inr granted_insert_firing
          dest: granted_reserve_event [THEN iffD2] split: prod.splits if_splits)
  next
    case False
    obtain d1 n where r: "reserve_event e (mark_event_processed now) d = (d1, n)" by force
    have d1: "all_granted C d1" using granted_reserve_event [OF r] assms(1) by blast
    show ?thesis
    proof (cases "n = 1")
      case True
      with fire False obtain d2 where ins: "insert_run sv now (webhook_run e t i) d1 = Inr d2"
          and f: "insert_trigger_run (created_trigger_run j (t_id t) i now (te_event_id e))
            (set_trigger (t_id t) (mark_fired now) d2) = Inr d'"
        by (auto simp: fire_event_sqlite_def r try_then_Inr)
      have "all_granted C d2" using granted_insert_run [OF ins [unfolded webhook_run_def] d1 assms(2)] .
      then show ?thesis unfolding granted_insert_firing [OF f] by (simp add: granted_set_trigger)
    qed (use fire False d1 in \<open>simp add: fire_event_sqlite_def r\<close>)
  qed
qed

lemma granted_fire_cron:
  assumes "all_granted C d" "trigger_granted C t"
  shows "fire_cron sv i j now t d = Inr (v, d') \<Longrightarrow> all_granted C d'"
    and "fire_cron_sqlite sv i j now t d = Inr (v, d') \<Longrightarrow> all_granted C d'"
  using assms
  by (auto simp: fire_cron_def fire_cron_sqlite_def cron_failed_def cron_failed_sqlite_def try_then_Inr
      granted_insert_firing dest: granted_fire_schedule granted_reserve intro!: granted_set_trigger
      split: option.splits sum.splits if_splits prod.splits)

lemma granted_fire_interval:
  assumes "all_granted C d" "trigger_granted C t"
  shows "fire_interval sv i j now t d = Inr (v, d') \<Longrightarrow> all_granted C d'"
    and "fire_interval_sqlite sv i j now t d = Inr (v, d') \<Longrightarrow> all_granted C d'"
  using assms
  by (auto simp: fire_interval_def fire_interval_sqlite_def Let_def try_then_Inr
      granted_insert_firing dest: granted_fire_schedule granted_reserve intro!: granted_set_trigger
      split: option.splits if_splits prod.splits)

lemma granted_dispatch:
  assumes "all_granted C d" "f sv i j tmax now d = (res, d')"
    and "f \<in> {dispatch_next_due_webhook_event, dispatch_next_due_cron_trigger,
      dispatch_next_due_interval_trigger_with_limits, dispatch_next_due_webhook_event_sqlite,
      dispatch_next_due_cron_trigger_sqlite, dispatch_next_due_interval_trigger_with_limits_sqlite}"
  shows "all_granted C d'"
proof -
  have t: "trigger_granted C t" if "t \<in> set (d_triggers d)" for t using assms(1) that by (simp add: all_granted_def)
  have due: "trigger_granted C t" if "due_trigger ty now tmax d = Some t \<or> due_trigger_sqlite ty now tmax d = Some t \<or>
      due_event now tmax d = Some (e, t) \<or> due_event_sqlite now tmax d = Some (e, t)" for t e ty
    by (rule t) (use that due_trigger_law due_trigger_sqlite_law due_event_law due_event_sqlite_law in blast)
  have commit: "commit d r = (res, d') \<Longrightarrow> (\<And>v d1. r = Inr (v, d1) \<Longrightarrow> all_granted C d1) \<Longrightarrow> all_granted C d'" for r
    using assms(1) by (auto simp: commit_def split: sum.splits)
  note fire = granted_fire_event granted_fire_cron granted_fire_interval
  show ?thesis
    using assms(3,2,1)
    by (elim insertE emptyE)
      (auto simp: dispatch_next_due_webhook_event_def dispatch_next_due_cron_trigger_def
        dispatch_next_due_interval_trigger_with_limits_def dispatch_next_due_webhook_event_sqlite_def
        dispatch_next_due_cron_trigger_sqlite_def dispatch_next_due_interval_trigger_with_limits_sqlite_def
        intro: commit fire [OF assms(1) due] split: option.splits)
qed

subsection \<open>Work\<close>

lemma granted_rows:
  assumes "all_granted C d" "\<And>q. run_ident (g q) = run_ident q"
  shows "all_granted C (d\<lparr>d_runs := map (\<lambda>q. if P q then g q else q) (d_runs d)\<rparr>)"
  using assms by (auto simp: all_granted_def dest: run_granted_ident [THEN iffD2, rotated])

definition rows_kept :: "runs \<Rightarrow> runs \<Rightarrow> bool" where
  "rows_kept rows rows' \<longleftrightarrow> (\<exists>P g. (\<forall>q. run_ident (g q) = run_ident q) \<and>
     rows' = map (\<lambda>q. if P q then g q else q) rows)"

lemma rows_kept_refl: "rows_kept rows rows"
  unfolding rows_kept_def by (rule exI [of _ "\<lambda>_. False"], rule exI [of _ id]) simp

lemma rows_kept_update: "\<forall>q. run_ident (g q) = run_ident q \<Longrightarrow> rows_kept rows (fst (update_where P g rows))"
  unfolding rows_kept_def update_where_def by (rule exI [of _ P], rule exI [of _ g]) simp

lemma statements_keep_rows:
  "rows_kept rows (snd (try_claim now w l i rows))" "rows_kept rows (snd (try_claim_sqlite now w l i rows))"
  "rows_kept rows (snd (renew_run_lease now i w l rows))" "rows_kept rows (snd (renew_run_lease_sqlite now i w l rows))"
  "rows_kept rows (snd (mark_run_succeeded now i w rows))" "rows_kept rows (snd (mark_run_succeeded_sqlite now i w rows))"
  "rows_kept rows (snd (mark_run_failed now i w er rows))" "rows_kept rows (snd (mark_run_failed_sqlite now i w er rows))"
  "rows_kept rows (snd (requeue_expired_runs now n rows))" "rows_kept rows (snd (requeue_expired_runs_sqlite now n rows))"
  by (simp_all add: try_claim_def try_claim_sqlite_def renew_run_lease_def renew_run_lease_sqlite_def
      mark_run_succeeded_def mark_run_succeeded_sqlite_def mark_run_failed_def mark_run_failed_sqlite_def
      requeue_expired_runs_def requeue_expired_runs_sqlite_def Let_def split_beta rows_kept_refl rows_kept_update
      run_ident_def mark_claimed_def mark_requeued_def split: list.split)

lemma work_keeps_rows:
  assumes "\<not> inserts_run s" "S = postgres fk \<or> S = sqlite fk" "exec_stmt S now s rows = (rows', ev)"
  shows "rows_kept rows rows'"
proof -
  have "rows' = fst (exec_stmt S now s rows)" using assms(3) by simp
  then show ?thesis
    using assms(1,2) statements_keep_rows
    by (cases s) (auto simp: postgres_def sqlite_def split_beta split: prod.split option.split)
qed

lemma granted_work:
  assumes "all_granted C d" "rows_kept (d_runs d) rows"
  shows "all_granted C (d\<lparr>d_runs := rows\<rparr>)"
  using assms granted_rows unfolding rows_kept_def by blast

section \<open>Every run has the grants of a caller's role\<close>

lemma granted_created:
  assumes "all_granted C d" "d_triggers d' = d_triggers d" "d_runs d' = d_runs d @ [row]"
    and "new_row_for tenant role req key row" "(tenant, role) \<in> C"
  shows "all_granted C d'"
proof -
  have "run_granted C row" using assms(4,5) by (auto simp: run_granted_def new_row_for_def)
  then show ?thesis using assms(1-3) by (simp add: all_granted_def)
qed

lemma granted_changed:
  assumes "all_granted C d" "trigger_outcome ty st hs d d'" "callers_of st hs \<subseteq> C"
  shows "all_granted C d'"
proof -
  consider "d_triggers d' = d_triggers d" "d_runs d' = d_runs d"
    | (new) tenant role actor t where "mutation_caller ty st hs = Inr (tenant, role, actor)"
        "d_triggers d' = d_triggers d @ [t]" "created_for st tenant role actor d t" "d_runs d' = d_runs d"
    | (change) i t where "t \<in> set (d_triggers d)" "list_all2 (only_changes i) (d_triggers d) (d_triggers d')"
        "d_runs d' = d_runs d \<or> (\<exists>r. d_runs d' = d_runs d @ [r] \<and> run_from t r)"
    using assms(2) unfolding trigger_outcome_def authorised_change_def firings_kept_def fired_by_def by blast
  then show ?thesis
  proof cases
    case 1
    then show ?thesis using assms(1) by (simp add: all_granted_def)
  next
    case new
    have "(tenant, role) \<in> C" "role \<noteq> Viewer"
      using mutation_caller_Inr [OF new(1)] assms(3) by (auto simp: callers_of_def)
    then have "trigger_granted C t" using new(3) by (auto simp: trigger_granted_def created_for_def)
    then show ?thesis using new assms(1) by (simp add: all_granted_def)
  next
    case change
    have "trigger_granted C u'" if "u' \<in> set (d_triggers d')" for u'
    proof -
      from that obtain n where "n < length (d_triggers d')" "u' = d_triggers d' ! n" by (auto simp: in_set_conv_nth)
      then have "only_changes i (d_triggers d ! n) u'" "d_triggers d ! n \<in> set (d_triggers d)"
        using change(2) by (auto simp: list_all2_conv_all_nth)
      then show ?thesis
        using assms(1) trigger_granted_ident [of u' "d_triggers d ! n"] by (auto simp: only_changes_def all_granted_def)
    qed
    moreover have "run_granted C r" if "run_from t r" for r
      using run_from_granted [OF that] assms(1) change(1) by (simp add: all_granted_def)
    ultimately show ?thesis using change(3) assms(1) by (auto simp: all_granted_def)
  qed
qed

text \<open>Creating a run leaves the triggers alone.\<close>

abbreviation keeps_triggers :: "trigger_record list \<Rightarrow> db \<Rightarrow> bool" where
  "keeps_triggers ts d \<equiv> d_triggers d = ts"

lemma leaves_audit_created:
  assumes "keeps_triggers ts (w_db w)" "\<And>w'. keeps_triggers ts (w_db w') \<Longrightarrow> leaves (keeps_triggers ts) (k ()) w'"
  shows "leaves (keeps_triggers ts) (and_then (or_internal what (audit_run_created env tenant role req granted i)) k) w"
  unfolding audit_run_created_def
  by (intro leaves_bind_new leaves_change) (use assms in \<open>auto simp: append_audit_event_def split: if_splits\<close>)

lemma leaves_create_common:
  assumes "keeps_triggers ts (w_db w)"
  shows "leaves (keeps_triggers ts) (create_run_common env sv tenant role req) w"
proof -
  have load: "leaves (keeps_triggers ts) (and_then (or_internal what
      (stmt env (\<lambda>now d. (Inr (get_run_status tenant i (d_runs d)), d)))) (\<lambda>loaded. case loaded of
         None \<Rightarrow> reject e | Some run \<Rightarrow> done_with (code :: nat, run_to_response run))) w1"
    if "keeps_triggers ts (w_db w1)" for what i e code and w1 :: "'a world"
    by (intro leaves_change) (use that in \<open>auto intro: leaves_done split: option.split\<close>)
  have rest: "leaves (keeps_triggers ts) (and_then (if new then or_internal a (audit_run_created env tenant role req granted i)
      else done_with ()) (\<lambda>_. and_then (or_internal what
      (stmt env (\<lambda>now d. (Inr (get_run_status tenant i (d_runs d)), d)))) (\<lambda>loaded. case loaded of
         None \<Rightarrow> reject e | Some run \<Rightarrow> done_with (code :: nat, run_to_response run)))) w1"
    if "keeps_triggers ts (w_db w1)" for new a granted what i e code and w1 :: "'a world"
    using leaves_audit_created [OF that load] load [OF that]
    by (cases new) (simp_all add: leaves_def hwp_simps)
  have found: "leaves (keeps_triggers ts) (and_then (case created of
         Some row \<Rightarrow> done_with (r_id row, 201 :: nat, True)
       | None \<Rightarrow> and_then (or_internal what (stmt env (\<lambda>now d. (Inr (f d), d)))) (\<lambda>existing. case existing of
                None \<Rightarrow> reject e | Some i \<Rightarrow> done_with (i, 200, False))) k) w1"
    if "keeps_triggers ts (w_db w1)"
      and "\<And>v w2. keeps_triggers ts (w_db w2) \<Longrightarrow> leaves (keeps_triggers ts) (k v :: ('a, 'c) handler) w2"
    for created what f e k and w1 :: "'a world"
  proof (cases created)
    case None
    then show ?thesis
      unfolding leaves_def
      by (simp add: hwp_simps, intro wp_read) (use that in \<open>auto simp: hwp_simps leaves_def split: option.split\<close>)
  qed (use that in \<open>simp add: leaves_def hwp_simps\<close>)
  show ?thesis
    unfolding create_run_common_def
  proof (intro leaves_from_result leaves_bind_new leaves_change found, goal_cases)
    case (4 granted key i w1 now v d')
    then show ?case
      using assms create_statement [of "as_fk sv" now "make_new_run tenant req granted i" key "d_runs (w_db w1)"]
      by (auto simp: runs_table_def split: prod.splits)
  qed (use assms rest in \<open>auto split: prod.split\<close>)
qed

lemma create_run_handler_triggers:
  assumes "create_run_handler sh env sv st hs req w = (res, w')"
  shows "d_triggers (w_db w') = d_triggers (w_db w)"
proof -
  have "leaves (keeps_triggers (d_triggers (w_db w))) (create_run_handler sh env sv st hs req) w"
    unfolding create_run_handler_def
    by (intro leaves_from_result)
      (auto simp: leaves_def hwp_simps leaves_create_common [unfolded leaves_def] intro!: wp_read split: option.split)
  from hwp_run [OF this [unfolded leaves_def] assms] show ?thesis by (simp split: sum.splits)
qed

lemma system_granted: "system_reach C d \<Longrightarrow> all_granted C d"
proof (induction rule: system_reach.induct)
  case empty
  then show ?case by (simp add: all_granted_def)
next
  case (create_run C w sh env sv st hs req res w')
  let ?C = "C \<union> callers_of st hs"
  have old: "all_granted ?C (w_db w)" using create_run.IH by (rule all_granted_mono) blast
  have tr: "d_triggers (w_db w') = d_triggers (w_db w)" using create_run_handler_triggers [OF create_run(2)] .
  have "d_runs (w_db w') = d_runs (w_db w) \<or> (\<exists>tenant role key row. tenant_from_headers hs = Inr tenant \<and>
      role_from_headers st hs = Inr role \<and> d_runs (w_db w') = d_runs (w_db w) @ [row] \<and>
      new_row_for tenant role req key row)"
    using hwp_run [OF hwp_create_run_handler create_run(2)]
    by (auto simp: answered_def added_def split: sum.splits)
  then consider "d_runs (w_db w') = d_runs (w_db w)"
    | tenant role key row where "(tenant, role) \<in> ?C" "d_runs (w_db w') = d_runs (w_db w) @ [row]"
        "new_row_for tenant role req key row"
    by (auto simp: callers_of_def)
  then show ?case
  proof cases
    case 1
    then show ?thesis using old tr by (simp add: all_granted_def)
  next
    case 2
    then show ?thesis using granted_created [OF old tr 2(2,3,1)] by blast
  qed
next
  case (trigger_call C w env ty st hs call tres w')
  let ?C = "C \<union> callers_of st hs"
  have "all_granted ?C (w_db w)" using trigger_call.IH by (rule all_granted_mono) blast
  moreover have "trigger_outcome ty st hs (w_db w) (w_db w')"
    using trigger_api_outcome [OF trigger_call(2)] by (simp add: call_outcome_def)
  ultimately show ?case by (rule granted_changed) blast
next
  case (dispatch C d f tsv i j tmax now dres d')
  then show ?case using granted_dispatch by blast
next
  case (work C d s S fk now rows ev)
  then show ?case using granted_work work_keeps_rows by blast
next
  case (elsewhere C d d')
  then show ?case by (simp add: all_granted_def)
qed


lemma sample_run_row:
  "\<exists>r d. system_reach {(''t'', Operator)} d \<and> d_runs d = [r] \<and> r_tenant r = ''t'' \<and>
     r_granted r = JArray [capability_json ''payment.send'' ''nwc:alice'' None (Some MAX_PAYMENT_SEND_PAYLOAD_BYTES)]"
proof -
  obtain resp and w' :: "unit world" where e: "sample_creation = (Inr (201, resp), w')" using sample_created by blast
  have hs: "tenant_from_headers sample_headers = Inr ''t''" "role_from_headers sample_state sample_headers = Inr Operator"
    by code_simp+
  have d: "w_db sample_empty = empty_db" by (simp add: sample_empty_def)
  have C: "callers_of sample_state sample_headers = {(''t'', Operator)}" by (auto simp: callers_of_def hs)
  have "system_reach ({} \<union> callers_of sample_state sample_headers) (w_db w')"
    by (rule system_reach.create_run [OF _ e]) (simp add: d system_reach.empty)
  then have reach: "system_reach {(''t'', Operator)} (w_db w')" by (simp add: C)
  obtain key row where row: "d_runs (w_db w') = [row]" and new: "new_row_for ''t'' Operator sample_create key row"
    using hwp_run [OF hwp_create_run_handler e] by (auto simp: answered_def hs d)
  have t: "r_tenant row = ''t''"
      and g: "resolve_granted_capabilities (r_recipe row) Operator (r_requested row) = Inr (r_granted row)"
    using new unfolding new_row_for_def by blast+
  from new have "r_recipe row = ''payments_v1''" "r_requested row = sample_grant_request"
    by (simp_all add: new_row_for_def sample_create_def)
  with g sample_grants have "r_granted row =
      JArray [capability_json ''payment.send'' ''nwc:alice'' None (Some MAX_PAYMENT_SEND_PAYLOAD_BYTES)]" by simp
  then show ?thesis using reach row t by blast
qed


end
