(* ===== verification/NwcWallet.thy ===== *)
theory NwcWallet
  imports Effects
begin

text \<open>
  The wallet side of a Lightning payment, \<open>worker/src/nip47_wallet.rs\<close>: a request goes to the relays
  of a Nostr Wallet Connect URI, one after the other, until one of them brings a response of
  the wallet. What a relay does with a connection is an argument (\<open>relay_session\<close>), and so are
  parsing the URI and decrypting a response.
\<close>

section \<open>Requests, frames and sessions\<close>

datatype nwc_request =
    PayInvoiceRequest string "u64 option"
  | MakeInvoiceRequest u64 "string option"
  | GetBalanceRequest

record nwc_uri =
  nu_public_key :: string
  nu_relays :: "string list"

text \<open>An event of a relay: its id, its author, whether it is a wallet response, its content.\<close>

record relay_event =
  re_id :: string
  re_pubkey :: string
  re_is_response :: bool
  re_request :: "string option"
  re_content :: string

text \<open>
  \<open>re_request\<close> is the request a response refers to (its \<open>e\<close> tag). The code does not read it.

  A frame of the web socket: a relay message (\<open>OK\<close>, \<open>EVENT\<close>, any other), text that is no relay message,
  a frame that is not text, or a broken frame.
\<close>

datatype frame =
    OkMessage string bool string
  | EventMessage relay_event
  | OtherMessage
  | NotAMessage
  | NotText
  | BrokenFrame string

text \<open>
  A session with a relay: the errors of connecting (a timeout is one of them), of building the
  request event and of sending the subscription and the event; the id of the event; the frames with the time that passes before
  each; and whether the relay closes the connection after the last of them (else nothing more
  comes).
\<close>

record relay_session =
  rz_connect :: "string option"
  rz_event :: "string + string"
  rz_send_req :: "string option"
  rz_send_event :: "string option"
  rz_frames :: "(nat \<times> frame) list"
  rz_closes_after :: "nat option"

record 'r nwc_outcome =
  nwo_relay :: string
  nwo_request_event_id :: string
  nwo_response_event_id :: string
  nwo_response :: 'r

section \<open>One relay\<close>

text \<open>
  The loop over the frames; \<open>elapsed\<close> is the time since the request was sent. It ends with
  the first response of the wallet's key, a refusal of the request event, a broken frame, a closed
  connection, or when the time is up.
\<close>

fun await_response ::
    "(string \<Rightarrow> string + 'r) \<Rightarrow> nwc_uri \<Rightarrow> string \<Rightarrow> string \<Rightarrow> nat \<Rightarrow> nat option \<Rightarrow> nat \<Rightarrow>
     (nat \<times> frame) list \<Rightarrow> string + 'r nwc_outcome" where
  "await_response decrypt uri relay event_id budget closes elapsed [] =
     (if budget \<le> elapsed then Inl (''timeout waiting for NIP-47 response from relay '' @ relay)
      else case closes of
        Some d \<Rightarrow> if budget - elapsed < d then Inl (''timeout waiting for NIP-47 relay frame from '' @ relay)
                 else Inl (''relay '' @ relay @ '' closed connection during NIP-47 request'')
      | None \<Rightarrow> Inl (''timeout waiting for NIP-47 relay frame from '' @ relay))"
| "await_response decrypt uri relay event_id budget closes elapsed ((d, f) # fs) =
     (let go_on = await_response decrypt uri relay event_id budget closes (elapsed + d) fs in
      if budget \<le> elapsed then Inl (''timeout waiting for NIP-47 response from relay '' @ relay)
      else if budget - elapsed < d then Inl (''timeout waiting for NIP-47 relay frame from '' @ relay)
      else case f of
        BrokenFrame e \<Rightarrow> Inl (''NIP-47 relay frame error from '' @ relay @ '': '' @ e)
      | OkMessage i accepted message \<Rightarrow>
          if i = event_id \<and> \<not> accepted
          then Inl (''relay '' @ relay @ '' rejected NIP-47 request event: '' @ message)
          else go_on
      | EventMessage ev \<Rightarrow>
          if \<not> re_is_response ev \<or> re_pubkey ev \<noteq> nu_public_key uri then go_on
          else (case decrypt (re_content ev) of
             Inl e \<Rightarrow> Inl (''failed parsing/decrypting NIP-47 response event: '' @ e)
           | Inr r \<Rightarrow> Inr \<lparr>nwo_relay = relay, nwo_request_event_id = event_id,
               nwo_response_event_id = re_id ev, nwo_response = r\<rparr>)
      | _ \<Rightarrow> go_on)"

definition send_nwc_request_to_relay ::
    "(string \<Rightarrow> string + 'r) \<Rightarrow> nwc_uri \<Rightarrow> string \<Rightarrow> nat \<Rightarrow> relay_session \<Rightarrow> string + 'r nwc_outcome" where
  "send_nwc_request_to_relay decrypt uri relay budget z =
     (case rz_connect z of
        Some e \<Rightarrow> Inl e
      | None \<Rightarrow>
     case rz_event z of
        Inl e \<Rightarrow> Inl (''failed building/signing NIP-47 request event: '' @ e)
      | Inr event_id \<Rightarrow>
     case rz_send_req z of
        Some e \<Rightarrow> Inl e
      | None \<Rightarrow>
     case rz_send_event z of
        Some e \<Rightarrow> Inl e
      | None \<Rightarrow> await_response decrypt uri relay event_id budget (rz_closes_after z) 0 (rz_frames z))"

text \<open>The request event left the process for this relay.\<close>

definition event_sent :: "relay_session \<Rightarrow> bool" where
  "event_sent z \<longleftrightarrow> rz_connect z = None \<and> (\<exists>i. rz_event z = Inr i) \<and> rz_send_req z = None \<and> rz_send_event z = None"

section \<open>All relays\<close>

text \<open>The relays in their order; the errors of those that failed.\<close>

fun first_relay ::
    "(string \<Rightarrow> string + 'r nwc_outcome) \<Rightarrow> string list \<Rightarrow> string list \<Rightarrow> string + 'r nwc_outcome" where
  "first_relay send [] errors =
     Inl (''all NIP-47 relays failed for request: '' @ join '' | '' errors)"
| "first_relay send (relay # relays) errors =
     (case send relay of
        Inr outcome \<Rightarrow> Inr outcome
      | Inl e \<Rightarrow> first_relay send relays (errors @ [relay @ '': '' @ e]))"

record 'r nwc_wallet =
  nw_parse :: "string \<Rightarrow> string + nwc_uri"
  nw_decrypt :: "nwc_uri \<Rightarrow> string \<Rightarrow> string + 'r"
  nw_session :: "nat \<Rightarrow> string \<Rightarrow> nwc_request \<Rightarrow> string \<Rightarrow> relay_session"

text \<open>\<open>n\<close> is the moment of the call; \<open>nw_session\<close> says what each relay does then.\<close>

definition send_nwc_request ::
    "'r nwc_wallet \<Rightarrow> nat \<Rightarrow> string \<Rightarrow> nwc_request \<Rightarrow> nat \<Rightarrow> string + 'r nwc_outcome" where
  "send_nwc_request wl n uri_raw request timeout_budget =
     (case nw_parse wl uri_raw of
        Inl e \<Rightarrow> Inl (''failed to parse Nostr Wallet Connect URI: '' @ e)
      | Inr uri \<Rightarrow>
          if nu_relays uri = [] then Inl ''Nostr Wallet Connect URI does not include relay endpoints''
          else first_relay (\<lambda>relay. send_nwc_request_to_relay (nw_decrypt wl uri) uri relay timeout_budget
                 (nw_session wl n uri_raw request relay)) (nu_relays uri) [])"

section \<open>What a response guarantees\<close>

text \<open>A response comes from the first frame, in time, or from a later one.\<close>

lemma await_response_Cons:
  assumes "await_response decrypt uri relay i budget closes elapsed ((d, f) # fs) = Inr r"
  obtains (here) ev v where "f = EventMessage ev" "elapsed + d \<le> budget" "re_is_response ev"
      "re_pubkey ev = nu_public_key uri" "decrypt (re_content ev) = Inr v"
      "r = \<lparr>nwo_relay = relay, nwo_request_event_id = i, nwo_response_event_id = re_id ev, nwo_response = v\<rparr>"
  | (later) "await_response decrypt uri relay i budget closes (elapsed + d) fs = Inr r"
  using assms by (auto simp: Let_def split: if_splits frame.splits sum.splits)

lemma await_response_sound:
  "await_response decrypt uri relay i budget closes elapsed fs = Inr r \<Longrightarrow>
   \<exists>pre d ev post. fs = pre @ (d, EventMessage ev) # post \<and> elapsed + sum_list (map fst pre) + d \<le> budget \<and>
     re_is_response ev \<and> re_pubkey ev = nu_public_key uri \<and> decrypt (re_content ev) = Inr (nwo_response r) \<and>
     nwo_response_event_id r = re_id ev \<and> nwo_request_event_id r = i \<and> nwo_relay r = relay"
proof (induction fs arbitrary: elapsed)
  case (Cons x fs)
  obtain d f where x: "x = (d, f)" by force
  from Cons.prems [unfolded x] show ?case
  proof (cases rule: await_response_Cons)
    case (here ev v)
    then show ?thesis by (intro exI [of _ "[]"]) (auto simp: x)
  next
    case later
    from Cons.IH [OF this] obtain pre d' ev post where "fs = pre @ (d', EventMessage ev) # post"
      "elapsed + d + sum_list (map fst pre) + d' \<le> budget" and rest:
      "re_is_response ev \<and> re_pubkey ev = nu_public_key uri \<and> decrypt (re_content ev) = Inr (nwo_response r) \<and>
       nwo_response_event_id r = re_id ev \<and> nwo_request_event_id r = i \<and> nwo_relay r = relay" by blast
    then show ?thesis by (intro exI [of _ "x # pre"] exI [of _ d'] exI [of _ ev] exI [of _ post]) (simp add: x add.assoc)
  qed
qed (auto split: if_splits option.splits)

text \<open>
  The response need not answer the request: an event of the wallet that refers to another
  request is taken all the same. The subscription asks the relay for responses to this request only, and the relay is trusted to comply.
\<close>

lemma response_to_another_request_accepted:
  assumes "rz_connect z = None" "rz_event z = Inr i" "rz_send_req z = None" "rz_send_event z = None"
    and "rz_frames z = (0, EventMessage ev) # fs" and "0 < budget"
    and "re_is_response ev" "re_pubkey ev = nu_public_key uri" "decrypt (re_content ev) = Inr v"
    and "re_request ev = Some j" "j \<noteq> i"
  shows "send_nwc_request_to_relay decrypt uri relay budget z =
    Inr \<lparr>nwo_relay = relay, nwo_request_event_id = i, nwo_response_event_id = re_id ev, nwo_response = v\<rparr>"
  using assms by (simp add: send_nwc_request_to_relay_def)

end
