(* ===== verification/PaymentStore.thy ===== *)
theory PaymentStore
  imports NwcWallet SiemOutbox
begin

text \<open>
  What a payment keeps: the \<open>payment_requests\<close> and \<open>payment_results\<close> tables (\<open>core/src/db.rs\<close>, for SQLite
  \<open>core/src/db_worker_dual.rs\<close>, with the constraints of \<open>migrations/0007\<close> and \<open>0016\<close>), and the
  routes to wallets and mints with their health (\<open>worker/src/lib.rs\<close>).

  The state holds the tables, the files and artifact rows a payment writes, the health of the
  routes in the process, and a ghost log of the messages that left for a wallet or a mint, each with the
  table of requests at that moment. The outside answers by the number of the step at which it is asked.
  The mutex of the health map is taken to be free and not poisoned: no code panics while holding it.
\<close>

section \<open>Providers and operations\<close>

datatype payment_provider = Nwc | Cashu

fun provider_as_str :: "payment_provider \<Rightarrow> string" where
  "provider_as_str Nwc = ''nwc''"
| "provider_as_str Cashu = ''cashu''"

record parsed_payment_destination =
  pd_provider :: payment_provider
  pd_target :: string

definition parse_payment_destination :: "string \<Rightarrow> string + parsed_payment_destination" where
  "parse_payment_destination raw =
     (case split_once raw CHR '':'' of
        None \<Rightarrow> Inl ''payment.send destination must be provider-scoped''
      | Some (provider_raw, target_raw) \<Rightarrow>
          let p = to_ascii_lowercase (trim provider_raw); target = trim target_raw
          in try_then
            (if p = ''nwc'' then Inr Nwc
             else if p = ''cashu'' then Inr Cashu
             else Inl (''payment.send provider `'' @ p @ ''` is unsupported (expected nwc or cashu)''))
            (\<lambda>provider. if target = []
               then Inl (''payment.send destination target must not be empty: '' @ raw)
               else Inr \<lparr>pd_provider = provider, pd_target = target\<rparr>))"

datatype payment_operation = PayInvoice | MakeInvoice | GetBalance

definition parse_payment_operation :: "string \<Rightarrow> string + payment_operation" where
  "parse_payment_operation raw =
     (let op = to_ascii_lowercase (trim raw)
      in if op = ''pay_invoice'' then Inr PayInvoice
         else if op = ''make_invoice'' then Inr MakeInvoice
         else if op = ''get_balance'' then Inr GetBalance
         else Inl (''unsupported payment.send operation `'' @ op @
           ''` (expected pay_invoice, make_invoice, get_balance)''))"

fun operation_as_str :: "payment_operation \<Rightarrow> string" where
  "operation_as_str PayInvoice = ''pay_invoice''"
| "operation_as_str MakeInvoice = ''make_invoice''"
| "operation_as_str GetBalance = ''get_balance''"

fun requires_amount :: "payment_operation \<Rightarrow> bool" where
  "requires_amount PayInvoice = True"
| "requires_amount MakeInvoice = True"
| "requires_amount GetBalance = False"

section \<open>State and outside\<close>

record payment_request_row =
  pr_id :: uuid
  pr_action :: uuid
  pr_run :: uuid
  pr_tenant :: string
  pr_agent :: uuid
  pr_provider :: string
  pr_operation :: string
  pr_destination :: string
  pr_key :: string
  pr_amount :: "int option"
  pr_json :: json
  pr_status :: string
  pr_created_at :: time
  pr_updated_at :: time

record payment_result_row =
  px_id :: uuid
  px_request :: uuid
  px_status :: string
  px_result :: "json option"
  px_error :: "json option"
  px_created_at :: time

record route_health =
  ph_consecutive_failures :: nat
  ph_unhealthy_until :: "nat option"

record cashu_request =
  ca_method :: string
  ca_url :: string
  ca_headers :: "(string \<times> string) list"
  ca_body :: "string option"

datatype payment_message = WalletRequest nwc_request | MintRequest cashu_request

record payment_send =
  pm_request :: uuid
  pm_operation :: payment_operation
  pm_uri :: string
  pm_message :: payment_message
  pm_rows :: "payment_request_row list"

record till =
  pt_requests :: "payment_request_row list"
  pt_results :: "payment_result_row list"
  pt_artifacts :: "new_artifact list"
  pt_files :: files
  pt_health :: "string \<rightharpoonup> route_health"
  pt_sent :: "payment_send list"
  pt_step :: nat

datatype http_exchange = NotSent string | NoBody string | Reply nat string

record payment_outside =
  po_uuid :: "nat \<Rightarrow> uuid"
  po_now :: "nat \<Rightarrow> time"
  po_instant :: "nat \<Rightarrow> nat"
  po_fault :: "nat \<Rightarrow> string option"
  po_sql_text :: "db_error \<Rightarrow> string"
  po_fk :: "payment_request_row \<Rightarrow> bool"
  po_hash :: "string \<Rightarrow> string \<Rightarrow> u64"
  po_wallet :: "json nwc_wallet"
  po_to_pay_invoice :: "json \<Rightarrow> string + string \<times> u64 option"
  po_to_make_invoice :: "json \<Rightarrow> string + string \<times> json \<times> u64 option"
  po_to_get_balance :: "json \<Rightarrow> string + u64"
  po_client_error :: "string option"
  po_http :: "nat \<Rightarrow> cashu_request \<Rightarrow> http_exchange"
  po_url_scheme :: "string \<Rightarrow> string + string"
  po_url_join :: "string \<Rightarrow> string \<Rightarrow> string + string"
  po_from_str :: "string \<Rightarrow> json option"
  po_print :: "json \<Rightarrow> string"
  po_pretty :: "json \<Rightarrow> string + string"
  po_disk :: disk

type_synonym 'a pay = "(till, 'a) action"

definition pay_ask :: "(nat \<Rightarrow> 'a) \<Rightarrow> 'a pay" where
  "pay_ask f = (\<lambda>s. (Inr (f (pt_step s)), s\<lparr>pt_step := Suc (pt_step s)\<rparr>))"

definition pay_stmt :: "payment_outside \<Rightarrow> (time \<Rightarrow> till \<Rightarrow> (db_error + 'a) \<times> till) \<Rightarrow> 'a pay" where
  "pay_stmt env f = (\<lambda>s.
     let n = pt_step s; s1 = s\<lparr>pt_step := Suc n\<rparr>
     in case po_fault env n of
          Some e \<Rightarrow> (Inl e, s1)
        | None \<Rightarrow>
            (case f (po_now env n) s1 of
               (Inl e, _) \<Rightarrow> (Inl (po_sql_text env e), s1)
             | (Inr v, s2) \<Rightarrow> (Inr v, s2)))"

section \<open>The tables\<close>

text \<open>
  The checks of the schema. SQLite has none on the amount, which is the low 64 bits of the
  argument as a signed number.
\<close>

definition payment_row_checks :: "storage_backend \<Rightarrow> payment_request_row \<Rightarrow> bool" where
  "payment_row_checks be r \<longleftrightarrow>
     pr_provider r \<in> {''nwc'', ''cashu''} \<and> pr_operation r \<in> {''pay_invoice'', ''make_invoice'', ''get_balance''} \<and>
     (be = Postgres \<longrightarrow> pr_key r \<noteq> [] \<and> (case pr_amount r of None \<Rightarrow> True | Some a \<Rightarrow> 0 \<le> a))"

definition payment_by_key :: "string \<Rightarrow> string \<Rightarrow> payment_request_row list \<Rightarrow> payment_request_row option" where
  "payment_by_key tenant key = List.find (\<lambda>r. pr_tenant r = tenant \<and> pr_key r = key)"

text \<open>\<open>INSERT ... ON CONFLICT (tenant_id, idempotency_key) DO NOTHING\<close>\<close>

definition insert_payment_request ::
    "payment_outside \<Rightarrow> storage_backend \<Rightarrow> payment_request_row \<Rightarrow> time \<Rightarrow> till \<Rightarrow> (db_error + unit) \<times> till" where
  "insert_payment_request env be n now s =
     (if \<not> payment_row_checks be n then (Inl CheckViolation, s)
      else if payment_by_key (pr_tenant n) (pr_key n) (pt_requests s) \<noteq> None then (Inr (), s)
      else if list_ex (\<lambda>r. pr_id r = pr_id n \<or> pr_action r = pr_action n) (pt_requests s)
      then (Inl UniqueViolation, s)
      else if \<not> po_fk env n then (Inl ForeignKeyViolation, s)
      else (Inr (), s\<lparr>pt_requests := pt_requests s @ [n\<lparr>pr_created_at := now, pr_updated_at := now\<rparr>]\<rparr>))"

definition select_payment_request :: "string \<Rightarrow> string \<Rightarrow> time \<Rightarrow> till \<Rightarrow> (db_error + payment_request_row) \<times> till" where
  "select_payment_request tenant key now s =
     (case payment_by_key tenant key (pt_requests s) of
        None \<Rightarrow> (Inl RowNotFound, s)
      | Some r \<Rightarrow> (Inr r, s))"

text \<open>PostgreSQL inserts and selects in one statement, SQLite in two.\<close>

definition create_or_get_payment_request :: "payment_outside \<Rightarrow> payment_request_row \<Rightarrow> payment_request_row pay" where
  "create_or_get_payment_request env n = pay_stmt env (\<lambda>now s.
     case insert_payment_request env Postgres n now s of
       (Inl e, s1) \<Rightarrow> (Inl e, s1)
     | (Inr _, s1) \<Rightarrow> select_payment_request (pr_tenant n) (pr_key n) now s1)"

definition create_or_get_payment_request_sqlite ::
    "payment_outside \<Rightarrow> payment_request_row \<Rightarrow> payment_request_row pay" where
  "create_or_get_payment_request_sqlite env n =
     bind (pay_stmt env (insert_payment_request env Sqlite n)) (\<lambda>_.
       pay_stmt env (select_payment_request (pr_tenant n) (pr_key n)))"

definition create_or_get_payment_request_dual ::
    "storage_backend \<Rightarrow> payment_outside \<Rightarrow> payment_request_row \<Rightarrow> payment_request_row pay" where
  "create_or_get_payment_request_dual be =
     (case be of Postgres \<Rightarrow> create_or_get_payment_request | Sqlite \<Rightarrow> create_or_get_payment_request_sqlite)"

definition create_payment_result :: "payment_outside \<Rightarrow> payment_result_row \<Rightarrow> payment_result_row pay" where
  "create_payment_result env x = pay_stmt env (\<lambda>now s.
     if list_ex (\<lambda>y. px_id y = px_id x) (pt_results s) then (Inl UniqueViolation, s)
     else if \<not> list_ex (\<lambda>r. pr_id r = px_request x) (pt_requests s) then (Inl ForeignKeyViolation, s)
     else let x' = x\<lparr>px_created_at := now\<rparr> in (Inr x', s\<lparr>pt_results := pt_results s @ [x']\<rparr>))"

text \<open>\<open>ORDER BY created_at DESC, id DESC LIMIT 1\<close>; SQLite orders by whole seconds.\<close>

fun text_less :: "string \<Rightarrow> string \<Rightarrow> bool" where
  "text_less _ [] = False"
| "text_less [] (_ # _) = True"
| "text_less (a # s) (b # t) = (byte a < byte b \<or> a = b \<and> text_less s t)"

definition result_clock :: "storage_backend \<Rightarrow> payment_result_row \<Rightarrow> int" where
  "result_clock be x = (case be of Postgres \<Rightarrow> px_created_at x | Sqlite \<Rightarrow> secs (px_created_at x))"

definition later_result :: "storage_backend \<Rightarrow> payment_result_row \<Rightarrow> payment_result_row \<Rightarrow> payment_result_row" where
  "later_result be x y =
     (if result_clock be x < result_clock be y \<or>
         result_clock be x = result_clock be y \<and> text_less (px_id x) (px_id y) then y else x)"

fun latest_result :: "storage_backend \<Rightarrow> payment_result_row list \<Rightarrow> payment_result_row option" where
  "latest_result be [] = None"
| "latest_result be (x # xs) =
     (case latest_result be xs of None \<Rightarrow> Some x | Some y \<Rightarrow> Some (later_result be x y))"

definition get_latest_payment_result ::
    "storage_backend \<Rightarrow> payment_outside \<Rightarrow> uuid \<Rightarrow> payment_result_row option pay" where
  "get_latest_payment_result be env i = pay_stmt env (\<lambda>_ s.
     (Inr (latest_result be (filter (\<lambda>x. px_request x = i) (pt_results s))), s))"

definition update_payment_request_status :: "payment_outside \<Rightarrow> uuid \<Rightarrow> string \<Rightarrow> bool pay" where
  "update_payment_request_status env i status = pay_stmt env (\<lambda>now s.
     let (rows, n) = update_where (\<lambda>r. pr_id r = i) (\<lambda>r. r\<lparr>pr_status := status, pr_updated_at := now\<rparr>) (pt_requests s)
     in (Inr (n = 1), s\<lparr>pt_requests := rows\<rparr>))"

text \<open>
  The sums over executed payments. PostgreSQL adds without bound and casts the total to \<open>bigint\<close>; SQLite
  refuses as soon as a partial sum leaves the range.
\<close>

definition executed_amounts :: "(payment_request_row \<Rightarrow> bool) \<Rightarrow> payment_request_row list \<Rightarrow> int list" where
  "executed_amounts p rows =
     List.map_filter pr_amount
       (filter (\<lambda>r. p r \<and> pr_operation r = ''pay_invoice'' \<and> pr_status r = ''executed'') rows)"

definition in_i64 :: "int \<Rightarrow> int option" where
  "in_i64 n = (if i64_min \<le> n \<and> n \<le> i64_max then Some n else None)"

fun checked_sum :: "int \<Rightarrow> int list \<Rightarrow> int option" where
  "checked_sum acc [] = Some acc"
| "checked_sum acc (x # xs) = (case in_i64 (acc + x) of None \<Rightarrow> None | Some acc' \<Rightarrow> checked_sum acc' xs)"

definition payment_sum :: "storage_backend \<Rightarrow> int list \<Rightarrow> int option" where
  "payment_sum be xs = (case be of Postgres \<Rightarrow> in_i64 (sum_list xs) | Sqlite \<Rightarrow> checked_sum 0 xs)"

definition sum_executed :: "storage_backend \<Rightarrow> payment_outside \<Rightarrow> (payment_request_row \<Rightarrow> bool) \<Rightarrow> int pay" where
  "sum_executed be env p = pay_stmt env (\<lambda>_ s.
     case payment_sum be (executed_amounts p (pt_requests s)) of
       None \<Rightarrow> (Inl OutOfRange, s)
     | Some n \<Rightarrow> (Inr n, s))"

definition sum_executed_payment_amount_msat_for_tenant ::
    "storage_backend \<Rightarrow> payment_outside \<Rightarrow> string \<Rightarrow> int pay" where
  "sum_executed_payment_amount_msat_for_tenant be env tenant =
     sum_executed be env (\<lambda>r. pr_tenant r = tenant)"

definition sum_executed_payment_amount_msat_for_agent ::
    "storage_backend \<Rightarrow> payment_outside \<Rightarrow> string \<Rightarrow> uuid \<Rightarrow> int pay" where
  "sum_executed_payment_amount_msat_for_agent be env tenant agent =
     sum_executed be env (\<lambda>r. pr_tenant r = tenant \<and> pr_agent r = agent)"

text \<open>A payment that failed: both statements may fail in turn, and nobody hears of it.\<close>

definition persist_failed_payment_request :: "payment_outside \<Rightarrow> uuid \<Rightarrow> string \<Rightarrow> string \<Rightarrow> unit pay" where
  "persist_failed_payment_request env i code message =
     bind (pay_ask (po_uuid env)) (\<lambda>u.
     bind (try_ignore (create_payment_result env
       \<lparr>px_id = u, px_request = i, px_status = ''failed'', px_result = None,
        px_error = Some (jobj [(''code'', JString code), (''message'', JString message)]), px_created_at = 0\<rparr>)) (\<lambda>_.
     try_ignore (update_payment_request_status env i ''failed'')))"

section \<open>Routes\<close>

datatype route_strategy = Ordered | DeterministicHash

fun strategy_as_str :: "route_strategy \<Rightarrow> string" where
  "strategy_as_str Ordered = ''ordered''"
| "strategy_as_str DeterministicHash = ''deterministic_hash''"

definition strategy_from_env_var :: "string \<Rightarrow> string option \<Rightarrow> string + route_strategy" where
  "strategy_from_env_var var_name value =
     (let v = to_ascii_lowercase (trim (unwrap_or value ''ordered''))
      in if v = ''ordered'' then Inr Ordered
         else if v = ''deterministic_hash'' \<or> v = ''hash'' then Inr DeterministicHash
         else Inl (''invalid '' @ var_name @ '' `'' @ v @ ''` (supported: ordered, deterministic_hash)''))"

text \<open>The settings of the routes of one rail; times in nanoseconds.\<close>

record route_config =
  rt_strategy :: route_strategy
  rt_fallback_enabled :: bool
  rt_rollout_percent :: nat
  rt_fail_threshold :: nat
  rt_cooldown :: nat

definition split_route_value :: "string \<Rightarrow> string list" where
  "split_route_value raw = filter (\<lambda>v. v \<noteq> []) (map trim (split_on raw CHR ''|''))"

definition deterministic_route_offset :: "payment_outside \<Rightarrow> string \<Rightarrow> string \<Rightarrow> nat \<Rightarrow> nat" where
  "deterministic_route_offset env wallet key route_count =
     (if route_count = 0 then 0 else unat (po_hash env wallet key) mod route_count)"

definition is_payment_route_rollout_enabled :: "payment_outside \<Rightarrow> string \<Rightarrow> string \<Rightarrow> nat \<Rightarrow> bool" where
  "is_payment_route_rollout_enabled env wallet key rollout_pct =
     (if 100 \<le> rollout_pct then True
      else if rollout_pct = 0 then False
      else deterministic_route_offset env wallet key 100 < rollout_pct)"

text \<open>What both rails do with the routes that the configuration has for a target.\<close>

definition select_routes :: "payment_outside \<Rightarrow> route_config \<Rightarrow> string \<Rightarrow> string \<Rightarrow> string list \<Rightarrow> string list \<times> bool" where
  "select_routes env rc wallet key candidates =
     (if length candidates \<le> 1 then (candidates, False)
      else
        let rotated = (if rt_strategy rc = DeterministicHash
              then rotate (deterministic_route_offset env wallet key (length candidates)) candidates
              else candidates);
            limited = (rt_rollout_percent rc < 100 \<and>
              \<not> is_payment_route_rollout_enabled env wallet key (rt_rollout_percent rc));
            rolled = (if limited then take 1 rotated else rotated)
        in (if rt_fallback_enabled rc then rolled else take 1 rolled, limited))"

definition payment_route_health_key :: "string \<Rightarrow> string \<Rightarrow> string \<Rightarrow> string \<Rightarrow> string" where
  "payment_route_health_key worker_id ns wallet uri =
     worker_id @ ''|'' @ ns @ ''|'' @ wallet @ ''|'' @ uri"

text \<open>
  Whether a route is tried at a moment, with the health after the question: an entry whose time is up,
  or that has none, starts again from zero failures.
\<close>

definition attempt_route :: "nat \<Rightarrow> string \<Rightarrow> (string \<rightharpoonup> route_health) \<Rightarrow> bool \<times> (string \<rightharpoonup> route_health)" where
  "attempt_route now key h =
     (case h key of
        None \<Rightarrow> (True, h)
      | Some e \<Rightarrow>
          (case ph_unhealthy_until e of
             Some t \<Rightarrow> if now < t then (False, h)
                      else (True, h(key \<mapsto> \<lparr>ph_consecutive_failures = 0, ph_unhealthy_until = None\<rparr>))
           | None \<Rightarrow> (True, h(key \<mapsto> \<lparr>ph_consecutive_failures = 0, ph_unhealthy_until = None\<rparr>))))"

definition fail_route :: "nat \<Rightarrow> nat \<Rightarrow> nat \<Rightarrow> string \<Rightarrow> (string \<rightharpoonup> route_health) \<Rightarrow> (string \<rightharpoonup> route_health)" where
  "fail_route threshold cooldown now key h =
     (let e = unwrap_or (h key) \<lparr>ph_consecutive_failures = 0, ph_unhealthy_until = None\<rparr>;
          n = min (ph_consecutive_failures e + 1) (2 ^ 32 - 1)
      in h(key \<mapsto> (if threshold \<le> n
            then \<lparr>ph_consecutive_failures = 0, ph_unhealthy_until = Some (now + cooldown)\<rparr>
            else e\<lparr>ph_consecutive_failures := n\<rparr>)))"

definition should_attempt_payment_route :: "payment_outside \<Rightarrow> route_config \<Rightarrow> string \<Rightarrow> bool pay" where
  "should_attempt_payment_route env rc key =
     (if rt_fail_threshold rc = 0 \<or> rt_cooldown rc = 0 then ret True
      else bind (pay_ask (po_instant env)) (\<lambda>now s.
        let (ok, h) = attempt_route now key (pt_health s) in (Inr ok, s\<lparr>pt_health := h\<rparr>)))"

definition mark_payment_route_success :: "route_config \<Rightarrow> string \<Rightarrow> unit pay" where
  "mark_payment_route_success rc key = (\<lambda>s.
     (Inr (), if rt_fail_threshold rc = 0 then s else s\<lparr>pt_health := (pt_health s)(key := None)\<rparr>))"

definition mark_payment_route_failure :: "payment_outside \<Rightarrow> route_config \<Rightarrow> string \<Rightarrow> unit pay" where
  "mark_payment_route_failure env rc key =
     (if rt_fail_threshold rc = 0 \<or> rt_cooldown rc = 0 then ret ()
      else bind (pay_ask (po_instant env)) (\<lambda>now s.
        (Inr (), s\<lparr>pt_health := fail_route (rt_fail_threshold rc) (rt_cooldown rc) now key (pt_health s)\<rparr>)))"

end
