(* ===== verification/Payments.thy ===== *)
theory Payments
  imports PaymentStore
begin

text \<open>
  The \<open>payment.send\<close> connector (\<open>execute_payment_send_action\<close> in \<open>worker/src/lib.rs\<close>): arguments, the idempotent
  request row, approval and spend limits, the two rails (Nostr Wallet Connect and Cashu) with
  their routes, and the outbox record.
\<close>

section \<open>Configuration and arguments\<close>

record payment_config =
  pc_worker_id :: string
  pc_artifact_root :: path
  pc_nwc_enabled :: bool
  pc_nwc_uri :: "string option"
  pc_nwc_wallet_uris :: "(string \<times> string) list"
  pc_nwc_timeout :: nat
  pc_nwc_routes :: route_config
  pc_nwc_mock_balance_msat :: u64
  pc_cashu_enabled :: bool
  pc_cashu_mint_uris :: "(string \<times> string) list"
  pc_cashu_default_mint :: "string option"
  pc_cashu_timeout_ms :: nat
  pc_cashu_max_spend_msat_per_run :: "u64 option"
  pc_cashu_http_enabled :: bool
  pc_cashu_http_allow_insecure :: bool
  pc_cashu_auth_header :: string
  pc_cashu_auth_token :: "string option"
  pc_cashu_routes :: route_config
  pc_cashu_mock_enabled :: bool
  pc_cashu_mock_balance_msat :: u64
  pc_max_spend_msat_per_run :: "u64 option"
  pc_approval_threshold_msat :: "u64 option"
  pc_max_spend_msat_per_tenant :: "u64 option"
  pc_max_spend_msat_per_agent :: "u64 option"

record payment_call =
  py_env :: payment_outside
  py_backend :: storage_backend
  py_config :: payment_config

record payment_args =
  pa_destination :: string
  pa_parsed :: parsed_payment_destination
  pa_operation :: payment_operation
  pa_key :: string
  pa_amount :: "u64 option"
  pa_approved :: bool

definition ok_or :: "'e \<Rightarrow> 'a option \<Rightarrow> 'e + 'a" where
  "ok_or e x = (case x of None \<Rightarrow> Inl e | Some v \<Rightarrow> Inr v)"

definition parse_payment_args :: "json \<Rightarrow> string + payment_args" where
  "parse_payment_args args =
     try_then (ok_or ''payment.send args.destination is required'' (get_str args ''destination'')) (\<lambda>destination.
     try_then (parse_payment_destination destination) (\<lambda>parsed.
     try_then (ok_or ''payment.send args.operation is required'' (get_str args ''operation'')) (\<lambda>op_raw.
     try_then (parse_payment_operation op_raw) (\<lambda>operation.
     try_then (ok_or ''payment.send args.idempotency_key is required''
       (Option.bind (get_str args ''idempotency_key'') non_empty_trimmed)) (\<lambda>key.
     let amount = get_u64 args ''amount_msat'' in
     if requires_amount operation \<and> amount = None
     then Inl (''payment.send args.amount_msat is required for '' @ operation_as_str operation)
     else Inr \<lparr>pa_destination = destination, pa_parsed = parsed, pa_operation = operation, pa_key = key,
       pa_amount = amount, pa_approved = unwrap_or (get_bool args ''payment_approved'') False\<rparr>)))))"

definition opt_u64_json :: "u64 option \<Rightarrow> json" where
  "opt_u64_json x = (case x of None \<Rightarrow> JNull | Some n \<Rightarrow> JNumber (PosInt n))"

abbreviation u64_json :: "u64 \<Rightarrow> json" where
  "u64_json n \<equiv> JNumber (PosInt n)"

definition opt_json :: "json option \<Rightarrow> json" where
  "opt_json x = unwrap_or x JNull"

definition request_payload :: "payment_args \<Rightarrow> json \<Rightarrow> json" where
  "request_payload p args = jobj
     [(''destination'', JString (pa_destination p)), (''operation'', JString (operation_as_str (pa_operation p))),
      (''idempotency_key'', JString (pa_key p)), (''amount_msat'', opt_u64_json (pa_amount p)),
      (''payment_approved'', JBool (pa_approved p)), (''invoice'', opt_json (json_get args ''invoice'')),
      (''description'', opt_json (json_get args ''description''))]"

definition new_payment_request :: "run_row \<Rightarrow> uuid \<Rightarrow> json \<Rightarrow> payment_args \<Rightarrow> uuid \<Rightarrow> payment_request_row" where
  "new_payment_request run action_request_id args p i =
     \<lparr>pr_id = i, pr_action = action_request_id, pr_run = r_id run, pr_tenant = r_tenant run,
      pr_agent = r_agent run, pr_provider = provider_as_str (pd_provider (pa_parsed p)),
      pr_operation = operation_as_str (pa_operation p), pr_destination = pa_destination p, pr_key = pa_key p,
      pr_amount = map_option (\<lambda>a. as_i64 (unat a)) (pa_amount p), pr_json = request_payload p args,
      pr_status = ''requested'', pr_created_at = 0, pr_updated_at = 0\<rparr>"

definition duplicate_json :: "payment_args \<Rightarrow> payment_request_row \<Rightarrow> payment_result_row option \<Rightarrow> json" where
  "duplicate_json p r prior = jobj
     [(''provider'', JString (provider_as_str (pd_provider (pa_parsed p)))),
      (''destination'', JString (pa_destination p)), (''operation'', JString (operation_as_str (pa_operation p))),
      (''status'', JString ''duplicate''), (''payment_request_id'', JString (pr_id r)),
      (''idempotency_key'', JString (pr_key r)), (''prior_request_status'', JString (pr_status r)),
      (''prior_result_status'', opt_str_json (map_option px_status prior)),
      (''prior_result'', opt_json (Option.bind prior px_result))]"

section \<open>Approval and limits\<close>

abbreviation u64_str :: "u64 \<Rightarrow> string" where
  "u64_str n \<equiv> nat_to_string (unat n)"

text \<open>\<open>persist_failed_payment_request(..).await; return Err(anyhow!(message))\<close>\<close>

definition refuse :: "payment_outside \<Rightarrow> uuid \<Rightarrow> string \<Rightarrow> string \<Rightarrow> 'a pay" where
  "refuse env i code message = bind (persist_failed_payment_request env i code message) (\<lambda>_. fail message)"

definition check_approval :: "payment_call \<Rightarrow> uuid \<Rightarrow> payment_args \<Rightarrow> unit pay" where
  "check_approval c i p =
     (case (pc_approval_threshold_msat (py_config c), pa_amount p) of
        (Some threshold, Some amount) \<Rightarrow>
          if threshold \<le> amount \<and> \<not> pa_approved p
          then refuse (py_env c) i ''PAYMENT_APPROVAL_REQUIRED''
            (''payment.send requires approval for amount '' @ u64_str amount @ '' msat (threshold='' @
             u64_str threshold @ '')'')
          else ret ()
      | _ \<Rightarrow> ret ())"

definition check_spend ::
    "payment_call \<Rightarrow> uuid \<Rightarrow> string \<Rightarrow> string \<Rightarrow> u64 option \<Rightarrow> u64 option \<Rightarrow> u64 pay \<Rightarrow> unit pay" where
  "check_spend c i what code limit_msat amount_msat spent_of =
     (case (limit_msat, amount_msat) of
        (Some limit, Some amount) \<Rightarrow>
          bind spent_of (\<lambda>spent.
            if limit < saturating_add spent amount
            then refuse (py_env c) i code
              (''payment.send '' @ what @ '' spend budget exceeded (remaining='' @
               u64_str (saturating_sub limit spent) @ '', requested='' @ u64_str amount @ '')'')
            else ret ())
      | _ \<Rightarrow> ret ())"

definition stored_spend :: "int pay \<Rightarrow> u64 pay" where
  "stored_spend m = bind m (\<lambda>n. ret (of_int (max n 0)))"

definition check_payment_limits ::
    "payment_call \<Rightarrow> run_row \<Rightarrow> action_execution_context \<Rightarrow> uuid \<Rightarrow> payment_args \<Rightarrow> unit pay" where
  "check_payment_limits c run ctx i p =
     (let env = py_env c; cfg = py_config c; be = py_backend c in
      if pa_operation p \<noteq> PayInvoice then ret ()
      else seq
        [check_approval c i p,
         check_spend c i ''run'' ''PAYMENT_RUN_BUDGET_EXCEEDED'' (pc_max_spend_msat_per_run cfg) (pa_amount p)
           (ret (payment_spend_msat ctx)),
         check_spend c i ''tenant'' ''PAYMENT_TENANT_BUDGET_EXCEEDED'' (pc_max_spend_msat_per_tenant cfg) (pa_amount p)
           (stored_spend (sum_executed_payment_amount_msat_for_tenant be env (r_tenant run))),
         check_spend c i ''agent'' ''PAYMENT_AGENT_BUDGET_EXCEEDED'' (pc_max_spend_msat_per_agent cfg) (pa_amount p)
           (stored_spend (sum_executed_payment_amount_msat_for_agent be env (r_tenant run) (r_agent run)))]
        (ret ()))"

section \<open>Trying routes\<close>

definition configured_nwc_routes :: "payment_config \<Rightarrow> string \<Rightarrow> string list" where
  "configured_nwc_routes cfg wallet =
     (let uris = pc_nwc_wallet_uris cfg;
          candidates = (case map_of uris wallet of
            Some v \<Rightarrow> split_route_value v
          | None \<Rightarrow> (case map_of uris ''*'' of Some v \<Rightarrow> split_route_value v | None \<Rightarrow> []))
      in if candidates \<noteq> [] then candidates
         else case Option.bind (pc_nwc_uri cfg) non_empty_trimmed of
           Some uri \<Rightarrow> [uri]
         | None \<Rightarrow> [])"

definition resolve_nwc_uris_for_wallet ::
    "payment_outside \<Rightarrow> payment_config \<Rightarrow> string \<Rightarrow> string \<Rightarrow> string list \<times> bool" where
  "resolve_nwc_uris_for_wallet env cfg wallet key =
     select_routes env (pc_nwc_routes cfg) wallet key (configured_nwc_routes cfg wallet)"

definition configured_cashu_routes :: "payment_config \<Rightarrow> string \<Rightarrow> string list" where
  "configured_cashu_routes cfg mint =
     (let uris = pc_cashu_mint_uris cfg in
      case map_of uris mint of
        Some v \<Rightarrow> split_route_value v
      | None \<Rightarrow>
          (case Option.bind (pc_cashu_default_mint cfg) (map_of uris) of
             Some v \<Rightarrow> split_route_value v
           | None \<Rightarrow> (case map_of uris ''*'' of Some v \<Rightarrow> split_route_value v | None \<Rightarrow> [])))"

definition resolve_cashu_mint_uris ::
    "payment_outside \<Rightarrow> payment_config \<Rightarrow> string \<Rightarrow> string \<Rightarrow> string list \<times> bool" where
  "resolve_cashu_mint_uris env cfg mint key =
     select_routes env (pc_cashu_routes cfg) mint key (configured_cashu_routes cfg mint)"

record 'o route_tries =
  rr_outcome :: "('o \<times> nat) option"
  rr_attempted :: nat
  rr_skipped :: nat
  rr_errors :: "string list"

definition no_tries :: "'o route_tries" where
  "no_tries = \<lparr>rr_outcome = None, rr_attempted = 0, rr_skipped = 0, rr_errors = []\<rparr>"

text \<open>The loop over the candidates, from route number \<open>k\<close> on.\<close>

fun try_routes ::
    "payment_outside \<Rightarrow> route_config \<Rightarrow> (string \<Rightarrow> string) \<Rightarrow> (string \<Rightarrow> 'o pay) \<Rightarrow> nat \<Rightarrow> string list \<Rightarrow>
     'o route_tries \<Rightarrow> 'o route_tries pay" where
  "try_routes env rc key_of send k [] acc = ret acc"
| "try_routes env rc key_of send k (uri # uris) acc =
     bind (should_attempt_payment_route env rc (key_of uri)) (\<lambda>ok.
       if \<not> ok then try_routes env rc key_of send (Suc k) uris (acc\<lparr>rr_skipped := Suc (rr_skipped acc)\<rparr>)
       else
         let acc1 = acc\<lparr>rr_attempted := Suc (rr_attempted acc)\<rparr> in
         handle (send uri)
           (\<lambda>e. bind (mark_payment_route_failure env rc (key_of uri)) (\<lambda>_.
              let acc2 = acc1\<lparr>rr_errors := rr_errors acc1 @ [''route '' @ nat_to_string k @ '': '' @ e]\<rparr> in
              if rt_fallback_enabled rc then try_routes env rc key_of send (Suc k) uris acc2 else ret acc2))
           (\<lambda>v. bind (mark_payment_route_success rc (key_of uri)) (\<lambda>_.
              ret (acc1\<lparr>rr_outcome := Some (v, k)\<rparr>))))"

definition tries_message :: "string \<Rightarrow> 'o route_tries \<Rightarrow> string" where
  "tries_message all_unhealthy t =
     (if rr_errors t = [] \<and> 0 < rr_skipped t
      then all_unhealthy @ '' (skipped='' @ nat_to_string (rr_skipped t) @ '')''
      else if 0 < rr_skipped t
      then join '' | '' (rr_errors t) @ '' | skipped_unhealthy_routes='' @ nat_to_string (rr_skipped t)
      else join '' | '' (rr_errors t))"

definition route_meta :: "route_config \<Rightarrow> bool \<Rightarrow> nat \<Rightarrow> nat option \<Rightarrow> nat \<Rightarrow> nat \<Rightarrow> string list \<Rightarrow> json" where
  "route_meta rc limited candidates selected attempted skipped errors = jobj
     [(''strategy'', JString (strategy_as_str (rt_strategy rc))),
      (''fallback_enabled'', JBool (rt_fallback_enabled rc)),
      (''rollout_percent'', jnat (rt_rollout_percent rc)), (''rollout_limited'', JBool limited),
      (''candidate_count'', jnat candidates), (''attempted_count'', jnat attempted),
      (''skipped_unhealthy_count'', jnat skipped), (''selected_route_index'', opt_nat_json selected),
      (''error_count'', jnat (length errors)), (''health_fail_threshold'', jnat (rt_fail_threshold rc)),
      (''health_cooldown_secs'', jnat (rt_cooldown rc div 10 ^ 9)), (''errors'', JArray (map JString errors))]"

section \<open>Nostr Wallet Connect\<close>

definition payment_invoice :: "json \<Rightarrow> string + string" where
  "payment_invoice args = ok_or ''payment.send args.invoice is required for pay_invoice''
     (Option.bind (get_str args ''invoice'') non_empty_trimmed)"

definition build_nwc_request :: "payment_operation \<Rightarrow> json \<Rightarrow> u64 option \<Rightarrow> string + nwc_request" where
  "build_nwc_request operation args amount_msat =
     (case operation of
        PayInvoice \<Rightarrow> try_then (payment_invoice args) (\<lambda>invoice. Inr (PayInvoiceRequest invoice amount_msat))
      | MakeInvoice \<Rightarrow>
          try_then (ok_or ''payment.send args.amount_msat is required for make_invoice'' amount_msat) (\<lambda>amount.
            Inr (MakeInvoiceRequest amount (Option.bind (get_str args ''description'') non_empty_trimmed)))
      | GetBalance \<Rightarrow> Inr GetBalanceRequest)"

text \<open>Sending to a wallet; the ghost log notes the request before the answer is known.\<close>

definition log_send :: "uuid \<Rightarrow> payment_operation \<Rightarrow> string \<Rightarrow> payment_message \<Rightarrow> till \<Rightarrow> till" where
  "log_send i op uri m s = s\<lparr>pt_sent := pt_sent s @
     [\<lparr>pm_request = i, pm_operation = op, pm_uri = uri, pm_message = m, pm_rows = pt_requests s\<rparr>]\<rparr>"

definition send_to_wallet ::
    "payment_call \<Rightarrow> uuid \<Rightarrow> payment_operation \<Rightarrow> nwc_request \<Rightarrow> string \<Rightarrow> json nwc_outcome pay" where
  "send_to_wallet c i op request uri = (\<lambda>s.
     (send_nwc_request (po_wallet (py_env c)) (pt_step s) uri request (pc_nwc_timeout (py_config c)),
      (log_send i op uri (WalletRequest request) s)\<lparr>pt_step := Suc (pt_step s)\<rparr>))"

definition nwc_json :: "json nwc_outcome \<Rightarrow> json \<Rightarrow> json" where
  "nwc_json out meta = jobj
     [(''relay'', JString (nwo_relay out)), (''request_event_id'', JString (nwo_request_event_id out)),
      (''response_event_id'', JString (nwo_response_event_id out)), (''route'', meta)]"

definition nwc_result ::
    "payment_outside \<Rightarrow> payment_args \<Rightarrow> json nwc_outcome \<Rightarrow> json \<Rightarrow> string + json" where
  "nwc_result env p out meta =
     (let amount = unwrap_or (pa_amount p) 0;
          rest = [(''wallet'', JString (pd_target (pa_parsed p))), (''rail'', JString ''nwc_nip47''),
                  (''nwc'', nwc_json out meta)]
      in case pa_operation p of
        PayInvoice \<Rightarrow>
          try_then (po_to_pay_invoice env (nwo_response out)) (\<lambda>(preimage, fees).
            Inr (jobj ([(''settlement_status'', JString ''settled''), (''payment_preimage'', JString preimage),
              (''amount_msat'', u64_json amount), (''fee_msat'', u64_json (unwrap_or fees 0))] @ rest)))
      | MakeInvoice \<Rightarrow>
          try_then (po_to_make_invoice env (nwo_response out)) (\<lambda>(invoice, hash, invoiced).
            Inr (jobj ([(''invoice'', JString invoice), (''payment_hash'', hash),
              (''amount_msat'', u64_json (unwrap_or invoiced amount))] @ rest)))
      | GetBalance \<Rightarrow>
          try_then (po_to_get_balance env (nwo_response out)) (\<lambda>balance.
            Inr (jobj ((''balance_msat'', u64_json balance) # rest))))"

text \<open>Without any configured URI the rail answers by itself.\<close>

definition uuid_simple :: "uuid \<Rightarrow> string" where
  "uuid_simple i = filter (\<lambda>c. c \<noteq> CHR ''-'') i"

definition nwc_mock_result :: "payment_config \<Rightarrow> payment_args \<Rightarrow> uuid \<Rightarrow> json" where
  "nwc_mock_result cfg p i =
     (let amount = unwrap_or (pa_amount p) 0;
          rest = [(''wallet'', JString (pd_target (pa_parsed p))), (''rail'', JString ''nwc_mock'')]
      in jobj (case pa_operation p of
        PayInvoice \<Rightarrow>
          [(''settlement_status'', JString ''settled''), (''payment_hash'', JString (''mock-hash-'' @ i)),
           (''payment_preimage'', JString (''mock-preimage-'' @ i)), (''amount_msat'', u64_json amount),
           (''fee_msat'', jnat 0)] @ rest
      | MakeInvoice \<Rightarrow>
          [(''invoice'', JString (''lnbc'' @ u64_str amount @ ''n1pmock'' @ uuid_simple i)),
           (''amount_msat'', u64_json amount)] @ rest
      | GetBalance \<Rightarrow> (''balance_msat'', u64_json (pc_nwc_mock_balance_msat cfg)) # rest))"

definition nwc_rail :: "payment_call \<Rightarrow> payment_args \<Rightarrow> json \<Rightarrow> uuid \<Rightarrow> json pay" where
  "nwc_rail c p args i =
     (let env = py_env c; cfg = py_config c; rc = pc_nwc_routes cfg; wallet = pd_target (pa_parsed p) in
      if \<not> pc_nwc_enabled cfg
      then refuse env i ''PAYMENT_DISABLED'' ''payment.send is disabled; set PAYMENT_NWC_ENABLED=1''
      else if contains wallet ''nostr+walletconnect://''
      then refuse env i ''PAYMENT_INVALID_DESTINATION''
        ''payment.send destination target must be a logical wallet id; configure PAYMENT_NWC_URI/PAYMENT_NWC_URI_REF for credentials''
      else
        let (candidates, limited) = resolve_nwc_uris_for_wallet env cfg wallet (pa_key p) in
        if candidates = [] \<and> pc_nwc_wallet_uris cfg \<noteq> []
        then refuse env i ''PAYMENT_WALLET_NOT_CONFIGURED''
          (''payment wallet `'' @ wallet @ ''` is not configured; set PAYMENT_NWC_WALLET_URIS/PAYMENT_NWC_WALLET_URIS_REF (or wildcard `*`)'')
        else if candidates = [] then ret (nwc_mock_result cfg p i)
        else
          bind (lift (build_nwc_request (pa_operation p) args (pa_amount p))) (\<lambda>request.
          bind (try_routes env rc (payment_route_health_key (pc_worker_id cfg) ''nwc'' wallet)
                  (send_to_wallet c i (pa_operation p) request) 1 candidates no_tries) (\<lambda>t.
          case rr_outcome t of
            None \<Rightarrow> refuse env i ''PAYMENT_NWC_REQUEST_FAILED''
              (tries_message ''payment.send all candidate routes are temporarily unhealthy'' t)
          | Some (out, k) \<Rightarrow>
              (case nwc_result env p out (route_meta rc limited (length candidates) (Some k) (rr_attempted t)
                       (rr_skipped t) (rr_errors t)) of
                 Inl e \<Rightarrow> refuse env i ''PAYMENT_NWC_RESPONSE_ERROR'' e
               | Inr v \<Rightarrow> ret v))))"

section \<open>Cashu\<close>

definition extract_string_field :: "json \<Rightarrow> string list \<Rightarrow> string option" where
  "extract_string_field payload keys =
     fold (\<lambda>k found. or_else found (Option.bind (get_str payload k) non_empty_trimmed)) keys None"

text \<open>A number in the range of \<open>u64\<close>, or a string that parses as one.\<close>

definition u64_value :: "json \<Rightarrow> u64 option" where
  "u64_value v = or_else (as_u64 v)
     (Option.bind (Option.bind (as_str v) non_empty_trimmed) (\<lambda>raw. map_option of_nat (parse_u64 raw)))"

definition extract_u64_field :: "json \<Rightarrow> string list \<Rightarrow> u64 option" where
  "extract_u64_field payload keys =
     fold (\<lambda>k found. or_else found (Option.bind (json_get payload k) u64_value)) keys None"

definition build_cashu_endpoint_url :: "payment_outside \<Rightarrow> string \<Rightarrow> string \<Rightarrow> bool \<Rightarrow> string + string" where
  "build_cashu_endpoint_url env mint_uri endpoint_path allow_insecure_http =
     (let base = (if ends_with mint_uri ''/'' then mint_uri else mint_uri @ ''/'') in
      case po_url_scheme env base of
        Inl e \<Rightarrow> Inl (''invalid Cashu mint URI `'' @ mint_uri @ ''`: '' @ e)
      | Inr scheme \<Rightarrow>
          if scheme = ''https'' \<or> scheme = ''http'' \<and> allow_insecure_http
          then (case po_url_join env base endpoint_path of
              Inl e \<Rightarrow> Inl (''failed joining endpoint `'' @ endpoint_path @ ''` to `'' @ mint_uri @ ''`: '' @ e)
            | Inr url \<Rightarrow> Inr url)
          else if scheme = ''http''
          then Inl (''Cashu mint URI `'' @ mint_uri @ ''` is insecure; set PAYMENT_CASHU_HTTP_ALLOW_INSECURE=1 only for local/dev usage'')
          else Inl (''Cashu mint URI `'' @ mint_uri @ ''` uses unsupported scheme `'' @ scheme @
            ''` (expected https, or http when PAYMENT_CASHU_HTTP_ALLOW_INSECURE=1)''))"

definition cashu_endpoint_path :: "payment_operation \<Rightarrow> string" where
  "cashu_endpoint_path op =
     (case op of PayInvoice \<Rightarrow> ''v1/pay_invoice'' | MakeInvoice \<Rightarrow> ''v1/make_invoice'' | GetBalance \<Rightarrow> ''v1/balance'')"

definition cashu_request_body :: "payment_args \<Rightarrow> json \<Rightarrow> uuid \<Rightarrow> string + json option" where
  "cashu_request_body p args i =
     (let mint = JString (pd_target (pa_parsed p)); amount = u64_json (unwrap_or (pa_amount p) 0);
          op = JString (operation_as_str (pa_operation p))
      in case pa_operation p of
        PayInvoice \<Rightarrow>
          try_then (payment_invoice args) (\<lambda>invoice.
            Inr (Some (jobj [(''operation'', op), (''invoice'', JString invoice), (''amount_msat'', amount),
              (''idempotency_key'', JString i), (''mint_id'', mint)])))
      | MakeInvoice \<Rightarrow>
          Inr (Some (jobj [(''operation'', op), (''amount_msat'', amount),
            (''description'', opt_json (json_get args ''description'')), (''idempotency_key'', JString i),
            (''mint_id'', mint)]))
      | GetBalance \<Rightarrow> Inr None)"

definition cashu_http_request :: "payment_call \<Rightarrow> payment_args \<Rightarrow> json \<Rightarrow> uuid \<Rightarrow> string \<Rightarrow> string + cashu_request" where
  "cashu_http_request c p args i mint_uri =
     (let env = py_env c; cfg = py_config c in
      try_then (build_cashu_endpoint_url env mint_uri (cashu_endpoint_path (pa_operation p))
        (pc_cashu_http_allow_insecure cfg)) (\<lambda>url.
      case po_client_error env of
        Some e \<Rightarrow> Inl (''failed building Cashu HTTP client: '' @ e)
      | None \<Rightarrow>
      try_then (cashu_request_body p args i) (\<lambda>body.
      Inr \<lparr>ca_method = (if pa_operation p = GetBalance then ''GET'' else ''POST''), ca_url = url,
        ca_headers = [if pa_operation p = GetBalance then (''accept'', ''application/json'')
            else (''content-type'', ''application/json''),
          (''x-secureagnt-payment-rail'', ''cashu_http''), (''x-secureagnt-mint-id'', pd_target (pa_parsed p))] @
          with_optional_auth_header (pc_cashu_auth_header cfg) (pc_cashu_auth_token cfg),
        ca_body = map_option (po_print env) body\<rparr>)))"

definition cashu_normalized :: "payment_args \<Rightarrow> json \<Rightarrow> string + json" where
  "cashu_normalized p up =
     (case pa_operation p of
        PayInvoice \<Rightarrow> Inr (jobj
          [(''settlement_status'', JString (unwrap_or (extract_string_field up [''settlement_status'', ''status'']) ''settled'')),
           (''payment_hash'', opt_str_json (extract_string_field up [''payment_hash'', ''hash''])),
           (''payment_preimage'', opt_str_json (extract_string_field up [''payment_preimage'', ''preimage''])),
           (''amount_msat'', u64_json (unwrap_or (pa_amount p) 0)),
           (''fee_msat'', u64_json (unwrap_or (extract_u64_field up [''fee_msat'', ''fees_paid'']) 0))])
      | MakeInvoice \<Rightarrow>
          try_then (ok_or ''cashu HTTP make_invoice response missing invoice''
            (extract_string_field up [''invoice'', ''bolt11''])) (\<lambda>invoice. Inr (jobj
          [(''invoice'', JString invoice), (''payment_hash'', opt_str_json (extract_string_field up [''payment_hash'', ''hash''])),
           (''amount_msat'', u64_json (unwrap_or (or_else (extract_u64_field up [''amount_msat'', ''amount'']) (pa_amount p)) 0))]))
      | GetBalance \<Rightarrow>
          try_then (ok_or ''cashu HTTP get_balance response missing balance''
            (extract_u64_field up [''balance_msat'', ''balance''])) (\<lambda>balance.
          Inr (jobj [(''balance_msat'', u64_json balance)])))"

definition cashu_response :: "payment_outside \<Rightarrow> payment_args \<Rightarrow> string \<Rightarrow> http_exchange \<Rightarrow> string + json" where
  "cashu_response env p mint_uri x =
     (case x of
        NotSent e \<Rightarrow> Inl (''cashu HTTP request failed: '' @ e)
      | NoBody e \<Rightarrow> Inl (''failed reading cashu HTTP response body: '' @ e)
      | Reply status response_text \<Rightarrow>
          if \<not> (200 \<le> status \<and> status \<le> 299)
          then Inl (''cashu HTTP request failed: status='' @ nat_to_string status @ '' body='' @
            take_chars 512 response_text)
          else
            let up = (case po_from_str env response_text of
                Some v \<Rightarrow> v
              | None \<Rightarrow> jobj [(''raw_body'', JString response_text)])
            in try_then (cashu_normalized p up) (\<lambda>result. Inr (jobj
              [(''rail'', JString ''cashu_http''), (''mint_id'', JString (pd_target (pa_parsed p))),
               (''mint_uri'', JString mint_uri), (''operation'', JString (operation_as_str (pa_operation p))),
               (''amount_msat'', opt_u64_json (pa_amount p)), (''http_status'', jnat status),
               (''upstream'', up), (''result'', result)])))"

definition execute_cashu_payment_http ::
    "payment_call \<Rightarrow> payment_args \<Rightarrow> json \<Rightarrow> uuid \<Rightarrow> string \<Rightarrow> json pay" where
  "execute_cashu_payment_http c p args i mint_uri =
     bind (lift (cashu_http_request c p args i mint_uri)) (\<lambda>request s.
       (cashu_response (py_env c) p mint_uri (po_http (py_env c) (pt_step s) request),
        (log_send i (pa_operation p) mint_uri (MintRequest request) s)\<lparr>pt_step := Suc (pt_step s)\<rparr>))"

definition cashu_mock_result :: "payment_config \<Rightarrow> payment_args \<Rightarrow> uuid \<Rightarrow> string \<Rightarrow> json \<Rightarrow> json" where
  "cashu_mock_result cfg p i mint_uri meta =
     (let amount = u64_json (unwrap_or (pa_amount p) 0);
          rest = [(''mint_id'', JString (pd_target (pa_parsed p))), (''mint_uri'', JString mint_uri),
                  (''rail'', JString ''cashu_mock''), (''route'', meta), (''mock_mode'', JBool True)]
      in jobj (case pa_operation p of
        PayInvoice \<Rightarrow>
          [(''settlement_status'', JString ''settled''),
           (''payment_hash'', JString (''cashu-mock-hash-'' @ uuid_simple i)),
           (''payment_preimage'', JString (''cashu-mock-preimage-'' @ uuid_simple i)),
           (''amount_msat'', amount), (''fee_msat'', jnat 0)] @ rest
      | MakeInvoice \<Rightarrow>
          [(''invoice'', JString (''cashu-invoice-'' @ uuid_simple i)), (''amount_msat'', amount)] @ rest
      | GetBalance \<Rightarrow> (''balance_msat'', u64_json (pc_cashu_mock_balance_msat cfg)) # rest))"

fun insert_route :: "json \<Rightarrow> json \<Rightarrow> json" where
  "insert_route meta (JObject m) = JObject (obj_insert ''route'' meta m)"
| "insert_route meta v = v"

definition cashu_budget_message :: "u64 \<Rightarrow> u64 \<Rightarrow> string" where
  "cashu_budget_message limit amount =
     ''cashu scaffold run spend budget exceeded (limit='' @ u64_str limit @ '', requested='' @ u64_str amount @ '')''"

definition over_cashu_cap :: "payment_config \<Rightarrow> payment_args \<Rightarrow> (u64 \<times> u64) option" where
  "over_cashu_cap cfg p =
     (case (pc_cashu_max_spend_msat_per_run cfg, pa_amount p) of
        (Some limit, Some amount) \<Rightarrow> if limit < amount then Some (limit, amount) else None
      | _ \<Rightarrow> None)"

definition http_disabled_message :: "payment_call \<Rightarrow> payment_args \<Rightarrow> string" where
  "http_disabled_message c p =
     ''cashu rail live transport is disabled; set PAYMENT_CASHU_HTTP_ENABLED=1 (operation='' @
     operation_as_str (pa_operation p) @ '', mint='' @ pd_target (pa_parsed p) @ '')''"

definition http_disabled_details :: "payment_call \<Rightarrow> payment_args \<Rightarrow> string \<Rightarrow> json \<Rightarrow> json" where
  "http_disabled_details c p mint_uri meta = jobj
     [(''provider'', JString (provider_as_str (pd_provider (pa_parsed p)))), (''rail'', JString ''cashu_http''),
      (''mint_id'', JString (pd_target (pa_parsed p))), (''mint_uri'', JString mint_uri),
      (''operation'', JString (operation_as_str (pa_operation p))), (''amount_msat'', opt_u64_json (pa_amount p)),
      (''timeout_ms'', jnat (pc_cashu_timeout_ms (py_config c))), (''route'', meta)]"

definition execute_cashu_payment_scaffold :: "payment_call \<Rightarrow> payment_args \<Rightarrow> json \<Rightarrow> uuid \<Rightarrow> json pay" where
  "execute_cashu_payment_scaffold c p args i =
     (let env = py_env c; cfg = py_config c; rc = pc_cashu_routes cfg; mint = pd_target (pa_parsed p) in
      if \<not> pc_cashu_enabled cfg
      then refuse env i ''PAYMENT_CASHU_DISABLED''
        ''cashu rail is disabled; set PAYMENT_CASHU_ENABLED=1 to enable scaffold''
      else case over_cashu_cap cfg p of
        Some (limit, amount) \<Rightarrow>
          refuse env i ''PAYMENT_CASHU_RUN_BUDGET_EXCEEDED'' (cashu_budget_message limit amount)
      | None \<Rightarrow>
      if pc_cashu_mint_uris cfg = []
      then refuse env i ''PAYMENT_CASHU_MINTS_NOT_CONFIGURED''
        ''cashu scaffold requires mint routing; set PAYMENT_CASHU_MINT_URIS/PAYMENT_CASHU_MINT_URIS_REF''
      else
        let (candidates, limited) = resolve_cashu_mint_uris env cfg mint (pa_key p);
            meta = route_meta rc limited (length candidates) in
        case candidates of
          [] \<Rightarrow> refuse env i ''PAYMENT_CASHU_MINT_NOT_CONFIGURED''
            (''cashu mint `'' @ mint @ ''` is not configured; set PAYMENT_CASHU_MINT_URIS/PAYMENT_CASHU_MINT_URIS_REF or PAYMENT_CASHU_DEFAULT_MINT'')
        | mint_uri # _ \<Rightarrow>
            if pc_cashu_mock_enabled cfg then ret (cashu_mock_result cfg p i mint_uri (meta (Some 1) 1 0 []))
            else if \<not> pc_cashu_http_enabled cfg
            then bind (persist_failed_payment_request env i ''PAYMENT_CASHU_HTTP_DISABLED'' (http_disabled_message c p))
              (\<lambda>_. fail (http_disabled_message c p @ '' ('' @
                po_print env (http_disabled_details c p mint_uri (meta (Some 1) 0 0 [])) @ '')''))
            else
              bind (try_routes env rc (payment_route_health_key (pc_worker_id cfg) ''cashu'' mint)
                      (execute_cashu_payment_http c p args i) 1 candidates no_tries) (\<lambda>t.
              case rr_outcome t of
                None \<Rightarrow> refuse env i ''PAYMENT_CASHU_HTTP_FAILED''
                  (redact_text (tries_message ''cashu payment all candidate routes are temporarily unhealthy'' t))
              | Some (out, k) \<Rightarrow> ret (insert_route (meta (Some k) (rr_attempted t) (rr_skipped t) (rr_errors t)) out)))"

section \<open>The connector\<close>

definition payment_rail :: "payment_call \<Rightarrow> payment_args \<Rightarrow> json \<Rightarrow> uuid \<Rightarrow> json pay" where
  "payment_rail c p args i =
     (if pd_provider (pa_parsed p) = Cashu then execute_cashu_payment_scaffold c p args i else nwc_rail c p args i)"

text \<open>The result row, and the status of the request, which is allowed to fail.\<close>

definition record_executed :: "payment_outside \<Rightarrow> uuid \<Rightarrow> json \<Rightarrow> payment_result_row pay" where
  "record_executed env i out =
     bind (pay_ask (po_uuid env)) (\<lambda>u.
     bind (create_payment_result env
       \<lparr>px_id = u, px_request = i, px_status = ''executed'', px_result = Some out, px_error = None, px_created_at = 0\<rparr>) (\<lambda>x.
     bind (try_ignore (update_payment_request_status env i ''executed'')) (\<lambda>_. ret x)))"

definition charge_payment :: "payment_args \<Rightarrow> action_execution_context \<Rightarrow> action_execution_context" where
  "charge_payment p ctx =
     (if pa_operation p = PayInvoice
      then ctx\<lparr>payment_spend_msat := saturating_add (payment_spend_msat ctx) (unwrap_or (pa_amount p) 0)\<rparr>
      else ctx)"

definition pay_write_file :: "payment_outside \<Rightarrow> path \<Rightarrow> string \<Rightarrow> unit pay" where
  "pay_write_file env full_path bytes = (\<lambda>s.
     case k_mkdir (po_disk env) (path_parent full_path) of
       Some e \<Rightarrow> (Inl (''failed to create payment outbox dir '' @ path_parent full_path @ '': '' @ e), s)
     | None \<Rightarrow>
         (case k_write (po_disk env) full_path bytes of
            Some (e, left) \<Rightarrow> (Inl (''failed writing payment outbox '' @ full_path @ '': '' @ e),
              s\<lparr>pt_files := (pt_files s)(full_path := left)\<rparr>)
          | None \<Rightarrow> (Inr (), s\<lparr>pt_files := (pt_files s)(full_path \<mapsto> bytes)\<rparr>)))"

definition insert_artifact :: "payment_outside \<Rightarrow> new_artifact \<Rightarrow> new_artifact pay" where
  "insert_artifact env f = pay_stmt env (\<lambda>_ s.
     if list_ex (\<lambda>g. f_id g = f_id f \<or> f_run g = f_run f \<and> f_path g = f_path f) (pt_artifacts s)
     then (Inl UniqueViolation, s)
     else (Inr f, s\<lparr>pt_artifacts := pt_artifacts s @ [f]\<rparr>))"

definition with_error :: "string \<Rightarrow> string + 'a \<Rightarrow> string + 'a" where
  "with_error what r = (case r of Inl e \<Rightarrow> Inl (what @ '': '' @ e) | Inr v \<Rightarrow> Inr v)"

definition write_payment_outbox :: "payment_call \<Rightarrow> run_row \<Rightarrow> payment_args \<Rightarrow> json \<Rightarrow> json \<Rightarrow> new_artifact pay" where
  "write_payment_outbox c run p args out =
     (let env = py_env c; provider = provider_as_str (pd_provider (pa_parsed p)) in
      bind (lift (with_error ''failed serializing payment.send outbox payload'' (po_pretty env (jobj
        [(''provider'', JString provider), (''target'', JString (pd_target (pa_parsed p))),
         (''operation'', JString (operation_as_str (pa_operation p))), (''request'', request_payload p args),
         (''result'', out)])))) (\<lambda>bytes.
      bind (pay_ask (po_uuid env)) (\<lambda>u.
      let relative_path = path_push (path_push ''payments'' provider) (u @ ''.json'') in
      bind (lift (tenant_scoped_artifact_root (pc_artifact_root (py_config c)) (r_tenant run))) (\<lambda>tenant_root.
      let full_path = path_push tenant_root relative_path in
      bind (pay_write_file env full_path bytes) (\<lambda>_.
      bind (pay_ask (po_uuid env)) (\<lambda>i.
      insert_artifact env \<lparr>f_id = i, f_run = r_id run, f_path = relative_path,
        f_content_type = ''application/json'', f_size = int (length bytes), f_checksum = None,
        f_storage_ref = full_path\<rparr>))))))"

definition executed_json ::
    "payment_call \<Rightarrow> payment_args \<Rightarrow> payment_request_row \<Rightarrow> payment_result_row \<Rightarrow> u64 \<Rightarrow> json \<Rightarrow> new_artifact \<Rightarrow> json" where
  "executed_json c p r x spent out f =
     (let cfg = py_config c in jobj
      [(''provider'', JString (provider_as_str (pd_provider (pa_parsed p)))),
       (''destination'', JString (pa_destination p)), (''operation'', JString (operation_as_str (pa_operation p))),
       (''status'', JString ''executed''), (''payment_request_id'', JString (pr_id r)),
       (''payment_result_id'', JString (px_id x)), (''idempotency_key'', JString (pr_key r)),
       (''token_accounting'', jobj
         [(''payment_spend_msat'', u64_json spent),
          (''payment_budget_msat'', opt_u64_json (pc_max_spend_msat_per_run cfg)),
          (''payment_approval_threshold_msat'', opt_u64_json (pc_approval_threshold_msat cfg)),
          (''payment_budget_tenant_msat'', opt_u64_json (pc_max_spend_msat_per_tenant cfg)),
          (''payment_budget_agent_msat'', opt_u64_json (pc_max_spend_msat_per_agent cfg))]),
       (''result'', out), (''artifact_id'', JString (f_id f)), (''path'', JString (f_path f)),
       (''storage_ref'', JString (f_storage_ref f))])"

text \<open>Until the payment is executed: the request row, and what the rail returns for a request that is not a duplicate.\<close>

datatype payment_phase =
    Duplicate json
  | Executed payment_request_row payment_result_row json

definition run_payment ::
    "payment_call \<Rightarrow> run_row \<Rightarrow> uuid \<Rightarrow> json \<Rightarrow> action_execution_context \<Rightarrow> payment_args \<Rightarrow> payment_phase pay" where
  "run_payment c run request_id args ctx p =
     (let env = py_env c; be = py_backend c in
      bind (pay_ask (po_uuid env)) (\<lambda>i.
      bind (create_or_get_payment_request_dual be env (new_payment_request run request_id args p i)) (\<lambda>r.
      if pr_action r \<noteq> request_id
      then bind (get_latest_payment_result be env (pr_id r)) (\<lambda>prior. ret (Duplicate (duplicate_json p r prior)))
      else
        bind (check_payment_limits c run ctx (pr_id r) p) (\<lambda>_.
        bind (payment_rail c p args (pr_id r)) (\<lambda>out.
        bind (record_executed env (pr_id r) out) (\<lambda>x. ret (Executed r x out)))))))"

definition execute_payment_send_action :: "payment_call \<Rightarrow> till connector" where
  "execute_payment_send_action c run request_id args ctx s =
     (case parse_payment_args args of
        Inl e \<Rightarrow> (Inl e, ctx, s)
      | Inr p \<Rightarrow>
          (case run_payment c run request_id args ctx p s of
             (Inl e, s1) \<Rightarrow> (Inl e, ctx, s1)
           | (Inr (Duplicate v), s1) \<Rightarrow> (Inr v, ctx, s1)
           | (Inr (Executed r x out), s1) \<Rightarrow>
               (let ctx1 = charge_payment p ctx in
                case write_payment_outbox c run p args out s1 of
                  (Inl e, s2) \<Rightarrow> (Inl e, ctx1, s2)
                | (Inr f, s2) \<Rightarrow> (Inr (executed_json c p r x (payment_spend_msat ctx1) out f), ctx1, s2))))"

end
