(* ===== verification/PaymentSafety.thy ===== *)
theory PaymentSafety
  imports Payments
begin

text \<open>
  What payments guarantee: one idempotency key of a tenant stands for one action, messages
  leave only for configured routes and only within the approval threshold and the spend limits, and
  what is recorded as executed stays within the caps. And what they do not: a route that keeps failing
  is never put aside when more than one failure is asked for.
\<close>

section \<open>Steps\<close>

lemma wp_pay_ask [wp_simps]:
  "wp (pay_ask f) Q E = (\<lambda>s. Q (f (pt_step s)) (s\<lparr>pt_step := Suc (pt_step s)\<rparr>))"
  by (simp add: fun_eq_iff wp_def pay_ask_def)

lemma wp_pay_stmtI:
  assumes "\<And>e n. E e (s\<lparr>pt_step := n\<rparr>)"
    and "\<And>now v s' n. f now (s\<lparr>pt_step := n\<rparr>) = (Inr v, s') \<Longrightarrow> Q v s'"
  shows "wp (pay_stmt env f) Q E s"
  using assms by (auto simp: wp_def pay_stmt_def Let_def split: option.splits prod.splits sum.splits)

text \<open>The status of one request.\<close>

definition set_status :: "uuid \<Rightarrow> string \<Rightarrow> time \<Rightarrow> payment_request_row list \<Rightarrow> payment_request_row list" where
  "set_status i st now = map (\<lambda>r. if pr_id r = i then r\<lparr>pr_status := st, pr_updated_at := now\<rparr> else r)"

text \<open>
  The steps of a payment after its request row is there touch nothing that matters here but the
  status of that row: the messages, the health of routes and the other rows stay.
\<close>

definition marks :: "uuid \<Rightarrow> string \<Rightarrow> till \<Rightarrow> till \<Rightarrow> bool" where
  "marks i st s s' \<longleftrightarrow> pt_sent s' = pt_sent s \<and> pt_health s' = pt_health s \<and>
     (pt_requests s' = pt_requests s \<or> (\<exists>now. pt_requests s' = set_status i st now (pt_requests s)))"

lemma marks_refl [simp]: "marks i st s s" "marks i st s (s\<lparr>pt_step := n\<rparr>)"
  by (simp_all add: marks_def)

lemma wp_create_payment_result:
  "wp (create_payment_result env x) (\<lambda>_ s'. pt_sent s' = pt_sent s \<and> pt_health s' = pt_health s \<and> pt_requests s' = pt_requests s)
     (\<lambda>_ s'. pt_sent s' = pt_sent s \<and> pt_health s' = pt_health s \<and> pt_requests s' = pt_requests s) s"
  unfolding create_payment_result_def
  by (rule wp_pay_stmtI) (auto simp: Let_def split: if_splits)

lemma wp_update_status:
  "wp (update_payment_request_status env i st) (\<lambda>_. marks i st s) (\<lambda>_. marks i st s) s"
  unfolding update_payment_request_status_def
  by (rule wp_pay_stmtI) (auto simp: marks_def set_status_def update_where_def Let_def)

lemma marks_after:
  "pt_sent s1 = pt_sent s \<Longrightarrow> pt_health s1 = pt_health s \<Longrightarrow> pt_requests s1 = pt_requests s \<Longrightarrow> marks i st s1 s' \<Longrightarrow> marks i st s s'"
  by (simp add: marks_def)

lemma wp_persist_failed:
  "wp (persist_failed_payment_request env i code msg) (\<lambda>_. marks i ''failed'' s) (\<lambda>_ _. False) s"
proof -
  have upd: "wp (update_payment_request_status env i ''failed'') (\<lambda>_. marks i ''failed'' s) (\<lambda>_. marks i ''failed'' s) s1"
    if "pt_sent s1 = pt_sent s \<and> pt_health s1 = pt_health s \<and> pt_requests s1 = pt_requests s" for s1
    by (rule wp_mono [OF wp_update_status]) (use that marks_after in blast)+
  show ?thesis unfolding persist_failed_payment_request_def wp_bind wp_pay_ask wp_try_ignore
    by (rule wp_mono [OF wp_create_payment_result]; rule upd; simp)
qed

lemma wp_refuse: "wp (refuse env i code msg) Q (\<lambda>_. marks i ''failed'' s) s"
  unfolding refuse_def wp_bind wp_fail
  by (rule wp_mono [OF wp_persist_failed]) simp_all

section \<open>Routes\<close>

lemma split_route_value_trimmed: "u \<in> set (split_route_value raw) \<Longrightarrow> u \<noteq> []"
  by (simp add: split_route_value_def)

lemma set_select_routes: "set (fst (select_routes env rc w k us)) \<subseteq> set us"
  by (auto simp: select_routes_def Let_def dest: in_set_takeD)

lemma length_select_routes:
  "\<not> rt_fallback_enabled rc \<Longrightarrow> length (fst (select_routes env rc w k us)) \<le> 1"
  by (simp add: select_routes_def Let_def)

text \<open>
  What sending does to the log: at most one message per candidate, each accepted by \<open>P\<close> and noted with the
  requests as they are. The health of the routes goes through the functions \<open>attempt_route\<close>, \<open>fail_route\<close> or is
  forgotten; \<open>H\<close> is any property of it that these keep.
\<close>

definition sends :: "nat \<Rightarrow> (payment_send \<Rightarrow> bool) \<Rightarrow> till \<Rightarrow> till \<Rightarrow> bool" where
  "sends n P s s' \<longleftrightarrow> pt_requests s' = pt_requests s \<and>
     (\<exists>new. pt_sent s' = pt_sent s @ new \<and> length new \<le> n \<and> (\<forall>m\<in>set new. P m \<and> pm_rows m = pt_requests s))"

lemma sends_refl: "pt_requests s' = pt_requests s \<Longrightarrow> pt_sent s' = pt_sent s \<Longrightarrow> sends n P s s'"
  by (auto simp: sends_def)

lemma sends_trans: "sends n P s s1 \<Longrightarrow> sends k P s1 s2 \<Longrightarrow> n + k \<le> l \<Longrightarrow> sends l P s s2"
  unfolding sends_def
proof (elim conjE exE, intro conjI)
  fix new1 new2
  assume "pt_sent s1 = pt_sent s @ new1" "pt_sent s2 = pt_sent s1 @ new2" "length new1 \<le> n" "length new2 \<le> k"
    "\<forall>m\<in>set new1. P m \<and> pm_rows m = pt_requests s" "\<forall>m\<in>set new2. P m \<and> pm_rows m = pt_requests s1"
    "pt_requests s1 = pt_requests s" "n + k \<le> l"
  then show "\<exists>new. pt_sent s2 = pt_sent s @ new \<and> length new \<le> l \<and> (\<forall>m\<in>set new. P m \<and> pm_rows m = pt_requests s)"
    by (intro exI [of _ "new1 @ new2"]) auto
qed simp

definition keeps_health :: "((string \<rightharpoonup> route_health) \<Rightarrow> bool) \<Rightarrow> route_config \<Rightarrow> bool" where
  "keeps_health H rc \<longleftrightarrow> (\<forall>h key now now'. H h \<longrightarrow> H (h(key := None)) \<and> H (snd (attempt_route now key h)) \<and>
     H (fail_route (rt_fail_threshold rc) (rt_cooldown rc) now' key (snd (attempt_route now key h))))"

lemma keeps_healthD:
  assumes "keeps_health H rc" and "H h"
  shows "H (h(key := None))" and "H (snd (attempt_route now key h))"
    and "H (fail_route (rt_fail_threshold rc) (rt_cooldown rc) now' key (snd (attempt_route now key h)))"
  using assms by (simp_all add: keeps_health_def)

lemma keeps_health_True [simp]: "keeps_health (\<lambda>_. True) rc"
  by (simp add: keeps_health_def)

text \<open>Asking for a route, and what is known of its health then.\<close>

definition asked :: "route_config \<Rightarrow> string \<Rightarrow> (string \<rightharpoonup> route_health) \<Rightarrow> (string \<rightharpoonup> route_health) \<Rightarrow> bool" where
  "asked rc key h h' \<longleftrightarrow> (if rt_fail_threshold rc = 0 \<or> rt_cooldown rc = 0 then h' = h
     else \<exists>now. h' = snd (attempt_route now key h))"

lemma wp_should_attempt:
  "wp (should_attempt_payment_route env rc key)
     (\<lambda>_ s'. pt_requests s' = pt_requests s \<and> pt_sent s' = pt_sent s \<and> asked rc key (pt_health s) (pt_health s'))
     (\<lambda>_ _. False) s"
  by (auto simp: should_attempt_payment_route_def asked_def wp_def bind_def pay_ask_def ret_def Let_def case_prod_beta)

lemma asked_keeps:
  assumes "keeps_health H rc" "H h" "asked rc key h h'"
  shows "H h'" and "H (h'(key := None))"
    and "rt_fail_threshold rc = 0 \<or> rt_cooldown rc = 0 \<or> H (fail_route (rt_fail_threshold rc) (rt_cooldown rc) now key h')"
  using assms keeps_healthD [OF assms(1)] by (auto simp: asked_def split: if_splits)

lemma wp_mark_success:
  "wp (mark_payment_route_success rc key)
     (\<lambda>_ s'. pt_requests s' = pt_requests s \<and> pt_sent s' = pt_sent s \<and>
       pt_health s' \<in> {pt_health s, (pt_health s)(key := None)}) (\<lambda>_ _. False) s"
  by (simp add: mark_payment_route_success_def wp_def)

lemma wp_mark_failure:
  "wp (mark_payment_route_failure env rc key)
     (\<lambda>_ s'. pt_requests s' = pt_requests s \<and> pt_sent s' = pt_sent s \<and>
       (if rt_fail_threshold rc = 0 \<or> rt_cooldown rc = 0 then pt_health s' = pt_health s
        else \<exists>now. pt_health s' = fail_route (rt_fail_threshold rc) (rt_cooldown rc) now key (pt_health s)))
     (\<lambda>_ _. False) s"
  by (auto simp: mark_payment_route_failure_def wp_def bind_def pay_ask_def ret_def)

lemma wp_try_routes:
  assumes H: "keeps_health H rc"
    and send: "\<And>u s. u \<in> set us \<Longrightarrow> wp (send u) (\<lambda>_ s'. sends 1 P s s' \<and> pt_health s' = pt_health s)
      (\<lambda>_ s'. sends 1 P s s' \<and> pt_health s' = pt_health s) s"
  shows "H (pt_health s) \<Longrightarrow> wp (try_routes env rc key_of send k us acc)
    (\<lambda>_ s'. sends (length us) P s s' \<and> H (pt_health s')) (\<lambda>_ _. False) s"
  using send
proof (induction us arbitrary: s k acc)
  case Nil
  then show ?case by (simp add: wp_ret sends_refl)
next
  case (Cons u us)
  let ?n = "Suc (length us)"
  have IH: "wp (try_routes env rc key_of send k' us acc') (\<lambda>_ s'. sends ?n P s s' \<and> H (pt_health s')) (\<lambda>_ _. False) s1"
    if "sends 1 P s s1" "H (pt_health s1)" for s1 k' acc'
    by (rule wp_mono [OF Cons.IH [OF that(2) Cons.prems(2)]]) (auto intro: sends_trans [OF that(1)])
  show ?case unfolding try_routes.simps wp_bind
  proof (rule wp_mono [OF wp_should_attempt]; (elim conjE)?)
    fix ok :: bool and s1 :: till
    assume s1: "pt_requests s1 = pt_requests s" "pt_sent s1 = pt_sent s" "asked rc (key_of u) (pt_health s) (pt_health s1)"
    note kept = asked_keeps [OF H Cons.prems(1) s1(3)]
    have quiet: "sends 1 P s s1" using s1 by (simp add: sends_refl)
    have ok: "sends 1 P s s3" if "sends 1 P s1 s2" "pt_requests s3 = pt_requests s2" "pt_sent s3 = pt_sent s2" for s2 s3
      using that by (simp add: sends_def s1)
    have more: "sends 1 P s s3 \<Longrightarrow> sends ?n P s s3" for s3 by (erule sends_trans [OF _ sends_refl [of s3 s3 0]]) simp_all
    show "wp (if \<not> ok then try_routes env rc key_of send (Suc k) us (acc\<lparr>rr_skipped := Suc (rr_skipped acc)\<rparr>)
         else let acc1 = acc\<lparr>rr_attempted := Suc (rr_attempted acc)\<rparr> in
         handle (send u)
           (\<lambda>e. bind (mark_payment_route_failure env rc (key_of u)) (\<lambda>_.
              let acc2 = acc1\<lparr>rr_errors := rr_errors acc1 @ [''route '' @ nat_to_string k @ '': '' @ e]\<rparr> in
              if rt_fallback_enabled rc then try_routes env rc key_of send (Suc k) us acc2 else ret acc2))
           (\<lambda>v. bind (mark_payment_route_success rc (key_of u)) (\<lambda>_.
              ret (acc1\<lparr>rr_outcome := Some (v, k)\<rparr>))))
       (\<lambda>_ s'. sends (length (u # us)) P s s' \<and> H (pt_health s')) (\<lambda>_ _. False) s1"
    proof (cases ok)
      case False
      with IH [OF quiet kept(1)] show ?thesis by simp
    next
      case True
      have bad: "wp (bind (mark_payment_route_failure env rc (key_of u)) (\<lambda>_.
          if rt_fallback_enabled rc then try_routes env rc key_of send (Suc k) us acc2 else ret acc2))
          (\<lambda>_ s'. sends ?n P s s' \<and> H (pt_health s')) (\<lambda>_ _. False) s2"
        if "sends 1 P s1 s2" "pt_health s2 = pt_health s1" for s2 acc2
        unfolding wp_bind
        by (rule wp_mono [OF wp_mark_failure])
          (use kept ok [OF that(1)] that(2) in \<open>auto simp: wp_ret more IH split: if_splits\<close>)
      have good: "wp (bind (mark_payment_route_success rc (key_of u)) (\<lambda>_. ret acc2))
          (\<lambda>_ s'. sends ?n P s s' \<and> H (pt_health s')) (\<lambda>_ _. False) s2"
        if "sends 1 P s1 s2" "pt_health s2 = pt_health s1" for s2 acc2
        unfolding wp_bind wp_ret
        by (rule wp_mono [OF wp_mark_success]) (use kept ok [OF that(1)] that(2) more in \<open>auto simp: fun_upd_def\<close>)
      show ?thesis unfolding Let_def wp_handle using True
        by (auto simp: wp_handle intro!: wp_mono [OF Cons.prems(2)] bad good)
    qed
  qed simp
qed

section \<open>Limits\<close>

definition within_cap :: "u64 option \<Rightarrow> int \<Rightarrow> u64 \<Rightarrow> bool" where
  "within_cap limit spent a \<longleftrightarrow> (\<forall>l. limit = Some l \<longrightarrow> unat l < u64_max \<longrightarrow> spent + uint a \<le> uint l)"

text \<open>
  What the checks establish for a payment of an invoice, given the requests recorded so far: approval from
  the threshold on, and room under every cap.
\<close>

definition within_limits ::
    "payment_config \<Rightarrow> run_row \<Rightarrow> action_execution_context \<Rightarrow> payment_args \<Rightarrow> payment_request_row list \<Rightarrow> bool" where
  "within_limits cfg run ctx p rows \<longleftrightarrow>
     (\<forall>a. pa_operation p = PayInvoice \<longrightarrow> pa_amount p = Some a \<longrightarrow>
        (\<forall>t. pc_approval_threshold_msat cfg = Some t \<longrightarrow> t \<le> a \<longrightarrow> pa_approved p) \<and>
        within_cap (pc_max_spend_msat_per_run cfg) (uint (payment_spend_msat ctx)) a \<and>
        within_cap (pc_max_spend_msat_per_tenant cfg)
          (max 0 (sum_list (executed_amounts (\<lambda>r. pr_tenant r = r_tenant run) rows))) a \<and>
        within_cap (pc_max_spend_msat_per_agent cfg)
          (max 0 (sum_list (executed_amounts (\<lambda>r. pr_tenant r = r_tenant run \<and> pr_agent r = r_agent run) rows))) a)"

lemma saturating_add_cap:
  assumes "\<not> l < saturating_add spent a"
  shows "within_cap (Some l) (uint spent) a"
proof (cases "unat spent + unat a \<le> u64_max")
  case True
  then have "unat (spent + a) = unat spent + unat a"
    by (simp add: unat_word_ariths u64_max_def)
  with assms True have "unat spent + unat a \<le> unat l"
    by (simp add: saturating_add_def word_le_nat_alt not_less)
  then show ?thesis
    by (simp add: within_cap_def flip: uint_nat int_nat_eq of_nat_add) (metis of_nat_add of_nat_le_iff uint_nat)
next
  case False
  then have "unat l \<ge> u64_max"
    using assms by (simp add: saturating_add_def word_le_nat_alt not_less u64_max_def unat_of_nat)
  then show ?thesis by (simp add: within_cap_def)
qed

lemma checked_sum_Some: "checked_sum acc xs = Some n \<Longrightarrow> acc \<le> i64_max \<Longrightarrow> n = acc + sum_list xs \<and> n \<le> i64_max"
  by (induction xs arbitrary: acc) (fastforce simp: in_i64_def split: if_splits option.splits)+

lemma payment_sum_Some: "payment_sum be xs = Some n \<Longrightarrow> n = sum_list xs \<and> n \<le> i64_max"
  using checked_sum_Some [of 0 xs n]
  by (auto simp: payment_sum_def in_i64_def i64_max_def split: storage_backend.splits if_splits)

definition same_books :: "till \<Rightarrow> till \<Rightarrow> bool" where
  "same_books s s' \<longleftrightarrow> pt_requests s' = pt_requests s \<and> pt_sent s' = pt_sent s \<and> pt_health s' = pt_health s"

lemma same_books_refl [simp]: "same_books s s" "same_books s (s\<lparr>pt_step := n\<rparr>)"
  by (simp_all add: same_books_def)

lemma same_books_marks: "same_books s s1 \<Longrightarrow> marks i st s1 s' \<Longrightarrow> marks i st s s'" "same_books s s1 \<Longrightarrow> marks i st s s1"
  by (simp_all add: same_books_def marks_def)

lemma same_books_trans: "same_books s s1 \<Longrightarrow> same_books s1 s2 \<Longrightarrow> same_books s s2"
  by (simp add: same_books_def)

lemma wp_sum_executed:
  "wp (stored_spend (sum_executed be env q))
     (\<lambda>v s'. same_books s s' \<and> uint v = max 0 (sum_list (executed_amounts q (pt_requests s)))) (\<lambda>_. same_books s) s"
proof -
  have small: "uint (of_int (max n 0) :: u64) = max 0 n" if "n \<le> i64_max" for n :: int
    using that by (simp add: uint_word_of_int i64_max_def take_bit_int_eq_self max.commute word_of_int_eq_iff)
  show ?thesis unfolding stored_spend_def sum_executed_def wp_bind wp_ret
    by (rule wp_pay_stmtI) (auto simp: small dest!: payment_sum_Some split: option.splits)
qed

lemma wp_refuse_after: "same_books s s1 \<Longrightarrow> wp (refuse env i code msg) Q (\<lambda>_. marks i ''failed'' s) s1"
  by (rule wp_mono [OF wp_refuse [where s=s1]]) (auto intro: same_books_marks)

lemma wp_check_approval:
  assumes "same_books s s1"
  shows "wp (check_approval c i p)
    (\<lambda>_ s'. same_books s s' \<and> (\<forall>a t. pa_amount p = Some a \<longrightarrow> pc_approval_threshold_msat (py_config c) = Some t \<longrightarrow>
       t \<le> a \<longrightarrow> pa_approved p)) (\<lambda>_. marks i ''failed'' s) s1"
  unfolding check_approval_def using assms
  by (auto simp: wp_ret split: option.split intro: wp_refuse_after)

lemma wp_check_spend:
  assumes "same_books s s1"
    and "\<And>s2. same_books s s2 \<Longrightarrow> wp spent_of (\<lambda>v s'. same_books s s' \<and> uint v = n) (\<lambda>_. same_books s) s2"
  shows "wp (check_spend c i what code limit amount spent_of)
    (\<lambda>_ s'. same_books s s' \<and> (\<forall>a. amount = Some a \<longrightarrow> within_cap limit n a)) (\<lambda>_. marks i ''failed'' s) s1"
proof (cases "limit = None \<or> amount = None")
  case True
  with assms(1) show ?thesis by (auto simp: check_spend_def wp_ret within_cap_def split: option.split)
next
  case False
  then obtain l a where la: "limit = Some l" "amount = Some a" by auto
  show ?thesis unfolding check_spend_def la option.case prod.case wp_bind
  proof (rule wp_mono [OF assms(2) [OF assms(1)]]; (elim conjE)?)
    fix v :: u64 and s2 assume v: "same_books s s2" "uint v = n"
    show "wp (if l < saturating_add v a then refuse (py_env c) i code
           (''payment.send '' @ what @ '' spend budget exceeded (remaining='' @
               u64_str (saturating_sub l v) @ '', requested='' @ u64_str a @ '')'') else ret ())
        (\<lambda>_ s'. same_books s s' \<and> (\<forall>a'. Some a = Some a' \<longrightarrow> within_cap (Some l) n a')) (\<lambda>_. marks i ''failed'' s) s2"
      using wp_refuse_after [OF v(1)] saturating_add_cap [of l v a] v by (auto simp: wp_ret)
  qed (simp add: same_books_marks)
qed

lemma wp_stored_after:
  assumes "same_books s s2"
  shows "wp (stored_spend (sum_executed be env q))
     (\<lambda>v s'. same_books s s' \<and> uint v = max 0 (sum_list (executed_amounts q (pt_requests s)))) (\<lambda>_. same_books s) s2"
  by (rule wp_mono [OF wp_sum_executed]) (use assms in \<open>auto simp: same_books_def\<close>)

lemma wp_check_payment_limits:
  assumes "same_books s s1"
  shows "wp (check_payment_limits c run ctx i p)
    (\<lambda>_ s'. same_books s s' \<and> within_limits (py_config c) run ctx p (pt_requests s)) (\<lambda>_. marks i ''failed'' s) s1"
proof (cases "pa_operation p = PayInvoice")
  case False
  with assms show ?thesis by (simp add: check_payment_limits_def Let_def wp_ret within_limits_def)
next
  case True
  have run: "wp (ret (payment_spend_msat ctx)) (\<lambda>v s'. same_books s s' \<and> uint v = uint (payment_spend_msat ctx))
      (\<lambda>_. same_books s) s2" if "same_books s s2" for s2
    using that by (simp add: wp_ret)
  show ?thesis unfolding check_payment_limits_def Let_def wp_seq wp_ret True
      sum_executed_payment_amount_msat_for_tenant_def sum_executed_payment_amount_msat_for_agent_def
    apply (simp only: not_True_eq_False if_False simp_thms wp_seq wp_ret)
    apply (rule wp_mono [OF wp_check_approval [OF assms]]; (elim conjE)?; assumption?)
    apply (rule wp_mono [OF wp_check_spend [OF _ run]]; (elim conjE)?; assumption?)
    apply (rule wp_mono [OF wp_check_spend [OF _ wp_stored_after]]; (elim conjE)?; assumption?)
    apply (rule wp_mono [OF wp_check_spend [OF _ wp_stored_after]]; (elim conjE)?; assumption?)
    apply (simp add: within_limits_def True)
    done
qed

section \<open>Rails\<close>

text \<open>
  A message of a rail: for this request and operation, to a configured route of the destination, with the
  content the arguments ask for.
\<close>

definition rail_message :: "payment_call \<Rightarrow> payment_args \<Rightarrow> json \<Rightarrow> uuid \<Rightarrow> payment_send \<Rightarrow> bool" where
  "rail_message c p args i m \<longleftrightarrow> pm_request m = i \<and> pm_operation m = pa_operation p \<and>
     (case pd_provider (pa_parsed p) of
        Nwc \<Rightarrow> pm_uri m \<in> set (configured_nwc_routes (py_config c) (pd_target (pa_parsed p))) \<and>
          (\<exists>q. build_nwc_request (pa_operation p) args (pa_amount p) = Inr q \<and> pm_message m = WalletRequest q)
      | Cashu \<Rightarrow> pm_uri m \<in> set (configured_cashu_routes (py_config c) (pd_target (pa_parsed p))) \<and>
          (\<exists>q. cashu_http_request c p args i (pm_uri m) = Inr q \<and> pm_message m = MintRequest q))"

definition rail_bound :: "payment_call \<Rightarrow> payment_args \<Rightarrow> nat" where
  "rail_bound c p = length (fst (case pd_provider (pa_parsed p) of
     Nwc \<Rightarrow> resolve_nwc_uris_for_wallet (py_env c) (py_config c) (pd_target (pa_parsed p)) (pa_key p)
   | Cashu \<Rightarrow> resolve_cashu_mint_uris (py_env c) (py_config c) (pd_target (pa_parsed p)) (pa_key p)))"

lemma wp_send_to_wallet:
  assumes "pd_provider (pa_parsed p) = Nwc"
    and "build_nwc_request (pa_operation p) args (pa_amount p) = Inr q"
    and "uri \<in> set (configured_nwc_routes (py_config c) (pd_target (pa_parsed p)))"
  shows "wp (send_to_wallet c i (pa_operation p) q uri)
    (\<lambda>_ s'. sends 1 (rail_message c p args i) s s' \<and> pt_health s' = pt_health s)
    (\<lambda>_ s'. sends 1 (rail_message c p args i) s s' \<and> pt_health s' = pt_health s) s"
  using assms by (auto simp: wp_def send_to_wallet_def sends_def log_send_def rail_message_def split: sum.split)

lemma wp_execute_cashu_http:
  assumes "pd_provider (pa_parsed p) = Cashu"
    and "uri \<in> set (configured_cashu_routes (py_config c) (pd_target (pa_parsed p)))"
  shows "wp (execute_cashu_payment_http c p args i uri)
    (\<lambda>_ s'. sends 1 (rail_message c p args i) s s' \<and> pt_health s' = pt_health s)
    (\<lambda>_ s'. sends 1 (rail_message c p args i) s s' \<and> pt_health s' = pt_health s) s"
  using assms by (auto simp: wp_def execute_cashu_payment_http_def bind_def lift_def sends_def log_send_def
      rail_message_def split: sum.split)

text \<open>
  What a rail leaves behind: when it returns, the messages it sent; when it fails, these and
  perhaps the status of the request.
\<close>

definition railed :: "payment_call \<Rightarrow> payment_args \<Rightarrow> json \<Rightarrow> uuid \<Rightarrow> ((string \<rightharpoonup> route_health) \<Rightarrow> bool) \<Rightarrow> till \<Rightarrow> till \<Rightarrow> bool" where
  "railed c p args i H s s' \<longleftrightarrow> sends (rail_bound c p) (rail_message c p args i) s s' \<and> H (pt_health s')"

definition rail_failed :: "payment_call \<Rightarrow> payment_args \<Rightarrow> json \<Rightarrow> uuid \<Rightarrow> ((string \<rightharpoonup> route_health) \<Rightarrow> bool) \<Rightarrow> till \<Rightarrow> till \<Rightarrow> bool" where
  "rail_failed c p args i H s s' \<longleftrightarrow> (\<exists>s1. railed c p args i H s s1 \<and> marks i ''failed'' s1 s')"

lemma railed_refl: "H (pt_health s) \<Longrightarrow> railed c p args i H s s"
  by (simp add: railed_def sends_refl)

lemma wp_refuse_railed:
  assumes "railed c p args i H s s1"
  shows "wp (refuse env i code msg) Q (\<lambda>_. rail_failed c p args i H s) s1"
  by (rule wp_mono [OF wp_refuse [where s=s1]]) (use assms in \<open>auto simp: rail_failed_def\<close>)

lemma railed_failed: "railed c p args i H s s1 \<Longrightarrow> rail_failed c p args i H s s1"
  unfolding rail_failed_def by (rule exI [of _ s1]) simp

lemma wp_nwc_rail:
  assumes nwc: "pd_provider (pa_parsed p) = Nwc" and H: "keeps_health H (pc_nwc_routes (py_config c))" "H (pt_health s)"
  shows "wp (nwc_rail c p args i) (\<lambda>_. railed c p args i H s) (\<lambda>_. rail_failed c p args i H s) s"
proof -
  define cfg wallet where "cfg = py_config c" and "wallet = pd_target (pa_parsed p)"
  obtain us limited where us: "resolve_nwc_uris_for_wallet (py_env c) cfg wallet (pa_key p) = (us, limited)" by force
  have bound: "rail_bound c p = length us" using us by (simp add: rail_bound_def nwc cfg_def wallet_def)
  have conf: "set us \<subseteq> set (configured_nwc_routes cfg wallet)"
    using set_select_routes [of "py_env c" "pc_nwc_routes cfg" wallet "pa_key p" "configured_nwc_routes cfg wallet"] us
    by (simp add: resolve_nwc_uris_for_wallet_def)
  note here = railed_refl [of H s c p args i, OF H(2)]
  have tried: "wp (try_routes (py_env c) (pc_nwc_routes cfg) key_of (send_to_wallet c i (pa_operation p) q) n us acc)
      (\<lambda>_. railed c p args i H s) (\<lambda>_ _. False) s"
    if "build_nwc_request (pa_operation p) args (pa_amount p) = Inr q" for key_of q n acc
    unfolding railed_def bound
    by (rule wp_try_routes [OF H(1) [folded cfg_def]])
      (use conf that nwc H in \<open>auto simp: cfg_def wallet_def simp del: One_nat_def intro!: wp_send_to_wallet\<close>)
  show ?thesis
    unfolding nwc_rail_def Let_def us [unfolded cfg_def wallet_def] prod.case
    by (auto simp: wp_ret wp_bind wp_lift here railed_failed cfg_def wallet_def
        intro!: wp_refuse_railed [OF here] wp_mono [OF tried [unfolded cfg_def]] wp_refuse_railed split: sum.split option.split)
qed

lemma wp_cashu_rail:
  assumes cashu: "pd_provider (pa_parsed p) = Cashu" and H: "keeps_health H (pc_cashu_routes (py_config c))" "H (pt_health s)"
  shows "wp (execute_cashu_payment_scaffold c p args i) (\<lambda>_. railed c p args i H s) (\<lambda>_. rail_failed c p args i H s) s"
proof -
  define cfg mint where "cfg = py_config c" and "mint = pd_target (pa_parsed p)"
  obtain us limited where us: "resolve_cashu_mint_uris (py_env c) cfg mint (pa_key p) = (us, limited)" by force
  have bound: "rail_bound c p = length us" using us by (simp add: rail_bound_def cashu cfg_def mint_def)
  have conf: "set us \<subseteq> set (configured_cashu_routes cfg mint)"
    using set_select_routes [of "py_env c" "pc_cashu_routes cfg" mint "pa_key p" "configured_cashu_routes cfg mint"] us
    by (simp add: resolve_cashu_mint_uris_def)
  note here = railed_refl [of H s c p args i, OF H(2)]
  have tried: "wp (try_routes (py_env c) (pc_cashu_routes cfg) key_of (execute_cashu_payment_http c p args i) n us acc)
      (\<lambda>_. railed c p args i H s) (\<lambda>_ _. False) s" for key_of n acc
    unfolding railed_def bound
    by (rule wp_try_routes [OF H(1) [folded cfg_def]])
      (use conf cashu H in \<open>auto simp: cfg_def mint_def simp del: One_nat_def intro!: wp_execute_cashu_http\<close>)
  have off: "wp (bind (persist_failed_payment_request env i code msg) (\<lambda>_. fail msg')) Q (\<lambda>_. rail_failed c p args i H s) s"
    for env code msg msg' Q
    unfolding wp_bind wp_fail
    by (rule wp_mono [OF wp_persist_failed]) (use here in \<open>auto simp: rail_failed_def\<close>)
  show ?thesis
  proof (cases us)
    case Nil
    then show ?thesis
      unfolding execute_cashu_payment_scaffold_def Let_def us [unfolded cfg_def mint_def] prod.case
      by (auto intro!: wp_refuse_railed [OF here] split: option.split)
  next
    case (Cons u us')
    show ?thesis
      unfolding execute_cashu_payment_scaffold_def Let_def us [unfolded cfg_def mint_def] prod.case Cons list.case
      by (auto simp: wp_ret wp_bind here simp del: try_routes.simps
          intro!: wp_refuse_railed [OF here] off [unfolded wp_bind]
            wp_mono [OF tried [unfolded cfg_def Cons]] wp_refuse_railed split: option.split)
  qed
qed

lemma wp_payment_rail:
  assumes "keeps_health H (pc_nwc_routes (py_config c))" "keeps_health H (pc_cashu_routes (py_config c))" "H (pt_health s)"
  shows "wp (payment_rail c p args i) (\<lambda>_. railed c p args i H s) (\<lambda>_. rail_failed c p args i H s) s"
  using wp_cashu_rail [OF _ assms(2,3)] wp_nwc_rail [OF _ assms(1,3)]
  by (cases "pd_provider (pa_parsed p)") (simp_all add: payment_rail_def)

end
