(* ===== verification/PaymentProperties.thy ===== *)
theory PaymentProperties
  imports PaymentSafety
begin

text \<open>
  Whole calls of \<open>payment.send\<close> and sequences of them. The request table of either back end is the ledger
  that makes a call the first use of its key or a duplicate; a first use adds one row, and the messages, the limits
  and the final status belong to that row.
\<close>

section \<open>The ledger\<close>

text \<open>The row \<open>r\<close> made from \<open>n\<close> is the first with its key, its id and its action.\<close>

definition first_use :: "payment_request_row \<Rightarrow> till \<Rightarrow> payment_request_row \<Rightarrow> till \<Rightarrow> bool" where
  "first_use n s r s' \<longleftrightarrow> pt_sent s' = pt_sent s \<and> pt_health s' = pt_health s \<and>
     payment_by_key (pr_tenant n) (pr_key n) (pt_requests s) = None \<and>
     (\<forall>q\<in>set (pt_requests s). pr_id q \<noteq> pr_id n \<and> pr_action q \<noteq> pr_action n) \<and>
     (\<exists>now. r = n\<lparr>pr_created_at := now, pr_updated_at := now\<rparr>) \<and> pt_requests s' = pt_requests s @ [r]"

definition created :: "payment_request_row \<Rightarrow> till \<Rightarrow> till \<Rightarrow> bool" where
  "created n s s' \<longleftrightarrow> same_books s s' \<or> (\<exists>r. first_use n s r s')"

locale payment_ledger =
  fixes create :: "payment_request_row \<Rightarrow> payment_request_row pay"
  assumes create_law: "wp (create n) (\<lambda>r s'. created n s s' \<and>
      payment_by_key (pr_tenant n) (pr_key n) (pt_requests s') = Some r) (\<lambda>_. created n s) s"
begin

text \<open>An action that is new to the table makes the first use of its key, or gets the row of another action.\<close>

lemma first_or_duplicate:
  assumes "\<forall>q\<in>set (pt_requests s). pr_action q \<noteq> pr_action n"
  shows "wp (create n) (\<lambda>r s'. pr_action r \<noteq> pr_action n \<and> same_books s s' \<or>
    pr_action r = pr_action n \<and> first_use n s r s') (\<lambda>_. created n s) s"
proof (rule wp_mono [OF create_law]; (elim conjE)?)
  fix r s' assume c: "created n s s'" and r: "payment_by_key (pr_tenant n) (pr_key n) (pt_requests s') = Some r"
  show "pr_action r \<noteq> pr_action n \<and> same_books s s' \<or> pr_action r = pr_action n \<and> first_use n s r s'"
    using c unfolding created_def
  proof
    assume b: "same_books s s'"
    then have "r \<in> set (pt_requests s)"
      using r by (auto simp: payment_by_key_def find_Some_iff same_books_def)
    with assms b show ?thesis by blast
  next
    assume "\<exists>r0. first_use n s r0 s'"
    then obtain r0 where f: "first_use n s r0 s'" by blast
    then have "r0 = r" using r
      by (auto simp: first_use_def payment_by_key_def find_Some_iff find_None_iff nth_append split: if_splits)
    with f show ?thesis by (auto simp: first_use_def)
  qed
qed

end

lemma insert_payment_created:
  "insert_payment_request env be n now s = (Inr v, s') \<Longrightarrow> created n s s'"
  by (auto simp: insert_payment_request_def created_def first_use_def list_ex_iff split: if_splits)

lemma created_step: "created n (s\<lparr>pt_step := k\<rparr>) s' \<longleftrightarrow> created n s s'" "created n s (s'\<lparr>pt_step := k\<rparr>) \<longleftrightarrow> created n s s'"
  by (simp_all add: created_def first_use_def same_books_def)

lemma wp_select_payment:
  assumes "created n s0 s"
  shows "wp (pay_stmt env (select_payment_request (pr_tenant n) (pr_key n))) (\<lambda>r s'. created n s0 s' \<and>
      payment_by_key (pr_tenant n) (pr_key n) (pt_requests s') = Some r) (\<lambda>_. created n s0) s"
  by (rule wp_pay_stmtI) (use assms in \<open>auto simp: created_step select_payment_request_def split: option.splits\<close>)

interpretation pg_ledger: payment_ledger "create_or_get_payment_request env" for env
proof
  show "wp (create_or_get_payment_request env n) (\<lambda>r s'. created n s s' \<and>
      payment_by_key (pr_tenant n) (pr_key n) (pt_requests s') = Some r) (\<lambda>_. created n s) s" for n s
    unfolding create_or_get_payment_request_def
  proof (rule wp_pay_stmtI)
    show "created n s (s\<lparr>pt_step := k\<rparr>)" for k by (simp add: created_def)
    fix now r s' k
    assume "(case insert_payment_request env Postgres n now (s\<lparr>pt_step := k\<rparr>) of
       (Inl e, s1) \<Rightarrow> (Inl e, s1)
     | (Inr _, s1) \<Rightarrow> select_payment_request (pr_tenant n) (pr_key n) now s1) = (Inr r, s')"
    then show "created n s s' \<and> payment_by_key (pr_tenant n) (pr_key n) (pt_requests s') = Some r"
      using insert_payment_created [of env Postgres n now "s\<lparr>pt_step := k\<rparr>"]
      by (auto simp: created_step select_payment_request_def split: prod.splits sum.splits option.splits)
  qed
qed

interpretation lite_ledger: payment_ledger "create_or_get_payment_request_sqlite env" for env
proof
  show "wp (create_or_get_payment_request_sqlite env n) (\<lambda>r s'. created n s s' \<and>
      payment_by_key (pr_tenant n) (pr_key n) (pt_requests s') = Some r) (\<lambda>_. created n s) s" for n s
    unfolding create_or_get_payment_request_sqlite_def wp_bind
  proof (rule wp_pay_stmtI)
    show "created n s (s\<lparr>pt_step := k\<rparr>)" for k by (simp add: created_def)
    fix now v s' k assume "insert_payment_request env Sqlite n now (s\<lparr>pt_step := k\<rparr>) = (Inr v, s')"
    from insert_payment_created [OF this] have "created n s s'" by (simp add: created_step)
    then show "wp (pay_stmt env (select_payment_request (pr_tenant n) (pr_key n))) (\<lambda>r s'. created n s s' \<and>
      payment_by_key (pr_tenant n) (pr_key n) (pt_requests s') = Some r) (\<lambda>_. created n s) s'"
      by (rule wp_select_payment)
  qed
qed

lemma wp_create_dual:
  assumes "\<forall>q\<in>set (pt_requests s). pr_action q \<noteq> pr_action n"
  shows "wp (create_or_get_payment_request_dual be env n) (\<lambda>r s'. pr_action r \<noteq> pr_action n \<and> same_books s s' \<or>
    pr_action r = pr_action n \<and> first_use n s r s') (\<lambda>_. created n s) s"
  using pg_ledger.first_or_duplicate [OF assms] lite_ledger.first_or_duplicate [OF assms]
  by (cases be) (simp_all add: create_or_get_payment_request_dual_def)

section \<open>One call\<close>

text \<open>
  What a call leaves behind: nothing, or one new row, with a status it can have, the messages
  sent for it and, if there are any or the payment is executed, the limits that were found to hold.
\<close>

definition payment_booked ::
    "payment_call \<Rightarrow> run_row \<Rightarrow> uuid \<Rightarrow> json \<Rightarrow> action_execution_context \<Rightarrow> payment_args \<Rightarrow> till \<Rightarrow> till \<Rightarrow> bool" where
  "payment_booked c run rid args ctx p s s' \<longleftrightarrow> (\<exists>r i st t new.
     (\<exists>s1. first_use (new_payment_request run rid args p i) s r s1) \<and>
     pt_requests s' = pt_requests s @ [r\<lparr>pr_status := st, pr_updated_at := t\<rparr>] \<and>
     st \<in> {''requested'', ''failed'', ''executed''} \<and>
     pt_sent s' = pt_sent s @ new \<and> length new \<le> rail_bound c p \<and>
     (\<forall>m\<in>set new. rail_message c p args i m \<and> pm_rows m = pt_requests s @ [r]) \<and>
     (new \<noteq> [] \<or> st = ''executed'' \<longrightarrow> within_limits (py_config c) run ctx p (pt_requests s)))"

definition payment_step ::
    "payment_call \<Rightarrow> run_row \<Rightarrow> uuid \<Rightarrow> json \<Rightarrow> action_execution_context \<Rightarrow> till \<Rightarrow> till \<Rightarrow> bool" where
  "payment_step c run rid args ctx s s' \<longleftrightarrow>
     pt_requests s' = pt_requests s \<and> pt_sent s' = pt_sent s \<or>
     (\<exists>p. parse_payment_args args = Inr p \<and> payment_booked c run rid args ctx p s s')"

lemma set_status_last:
  assumes "\<forall>q\<in>set rows. pr_id q \<noteq> pr_id r"
  shows "set_status (pr_id r) st now (rows @ [r]) = rows @ [r\<lparr>pr_status := st, pr_updated_at := now\<rparr>]"
  using assms by (simp add: set_status_def map_idI)

lemma booked_after:
  assumes f: "first_use (new_payment_request run rid args p i) s r s1"
    and sent: "sends (rail_bound c p) (rail_message c p args i) s1 s2"
    and m: "marks i st s2 s3" and st: "st \<in> {''failed'', ''executed''}"
    and lim: "pt_sent s2 \<noteq> pt_sent s1 \<or> st = ''executed'' \<longrightarrow> within_limits (py_config c) run ctx p (pt_requests s)"
  shows "payment_booked c run rid args ctx p s s3"
proof -
  from f have r: "pr_id r = i" "pr_status r = ''requested''" "pt_requests s1 = pt_requests s @ [r]" "pt_sent s1 = pt_sent s"
    "\<forall>q\<in>set (pt_requests s). pr_id q \<noteq> pr_id r"
    by (auto simp: first_use_def new_payment_request_def)
  from sent obtain new where new: "pt_requests s2 = pt_requests s1" "pt_sent s2 = pt_sent s1 @ new"
    "length new \<le> rail_bound c p" "\<forall>m\<in>set new. rail_message c p args i m \<and> pm_rows m = pt_requests s1"
    unfolding sends_def by blast
  have same: "r = r\<lparr>pr_status := ''requested'', pr_updated_at := pr_updated_at r\<rparr>" using r(2) by simp
  have "pt_requests s3 = pt_requests s2 \<or> (\<exists>now. pt_requests s3 = set_status i st now (pt_requests s2))" "pt_sent s3 = pt_sent s2"
    using m by (auto simp: marks_def)
  then obtain st' t where q: "pt_requests s3 = pt_requests s @ [r\<lparr>pr_status := st', pr_updated_at := t\<rparr>]"
    and st': "st' = ''requested'' \<or> st' = st"
    using set_status_last [OF r(5), of st] r(1,3) new(1) same by metis
  have "new \<noteq> [] \<or> st' = ''executed'' \<longrightarrow> within_limits (py_config c) run ctx p (pt_requests s)"
    using lim new(2) st' st by auto
  moreover have "st' \<in> {''requested'', ''failed'', ''executed''}" using st st' by blast
  moreover have "pt_sent s3 = pt_sent s @ new" using new(2) r(4) \<open>pt_sent s3 = pt_sent s2\<close> by simp
  moreover have "\<forall>m\<in>set new. rail_message c p args i m \<and> pm_rows m = pt_requests s @ [r]" using new(4) r(3) by simp
  ultimately show ?thesis unfolding payment_booked_def using f q new(3) by blast
qed

lemma first_use_from: "same_books s s0 \<Longrightarrow> first_use n s0 r s1 \<Longrightarrow> first_use n s r s1"
  by (simp add: first_use_def same_books_def)

lemma executed_amounts_new:
  "pr_status r \<noteq> ''executed'' \<Longrightarrow> executed_amounts q (rows @ [r]) = executed_amounts q rows"
  by (simp add: executed_amounts_def List.map_filter_def)

lemma within_limits_new:
  "pr_status r \<noteq> ''executed'' \<Longrightarrow> within_limits cfg run ctx p (rows @ [r]) = within_limits cfg run ctx p rows"
  by (simp add: within_limits_def executed_amounts_new)

text \<open>The steps of a call that is the first use of its key, each with what it leaves behind.\<close>

lemma booked_limits:
  assumes "first_use (new_payment_request run rid args p i) s r s1" and "marks i ''failed'' s1 s2"
  shows "payment_booked c run rid args ctx p s s2"
  by (rule booked_after [OF assms(1) sends_refl [OF refl refl] assms(2)]) simp_all

lemma booked_rail:
  assumes "first_use (new_payment_request run rid args p i) s r s1" and "same_books s1 s2"
    and "within_limits (py_config c) run ctx p (pt_requests s1)" and "sends (rail_bound c p) (rail_message c p args i) s2 s3"
    and "marks i st s3 s4" and "st \<in> {''failed'', ''executed''}"
  shows "payment_booked c run rid args ctx p s s4"
proof (rule booked_after [OF assms(1) _ assms(5,6)])
  have "pr_status r = ''requested''" "pt_requests s1 = pt_requests s @ [r]"
    using assms(1) by (auto simp: first_use_def new_payment_request_def)
  then show "pt_sent s3 \<noteq> pt_sent s1 \<or> st = ''executed'' \<longrightarrow> within_limits (py_config c) run ctx p (pt_requests s)"
    using assms(3) within_limits_new [of r "py_config c" run ctx p "pt_requests s"] by simp
  show "sends (rail_bound c p) (rail_message c p args i) s1 s3"
    using assms(2,4) by (simp add: same_books_def sends_def)
qed

lemma wp_record_executed:
  "wp (record_executed env i out) (\<lambda>_. marks i ''executed'' s) (\<lambda>_. marks i ''executed'' s) s"
proof -
  have upd: "wp (update_payment_request_status env i ''executed'') (\<lambda>_. marks i ''executed'' s) (\<lambda>_. marks i ''executed'' s) s1"
    if "pt_sent s1 = pt_sent s \<and> pt_health s1 = pt_health s \<and> pt_requests s1 = pt_requests s" for s1
    by (rule wp_mono [OF wp_update_status]) (use that marks_after in blast)+
  show ?thesis unfolding record_executed_def wp_bind wp_pay_ask wp_try_ignore wp_ret
    by (rule wp_mono [OF wp_create_payment_result]; (rule upd)?; simp add: marks_def)
qed

definition health_kept :: "((string \<rightharpoonup> route_health) \<Rightarrow> bool) \<Rightarrow> payment_call \<Rightarrow> bool" where
  "health_kept H c \<longleftrightarrow> keeps_health H (pc_nwc_routes (py_config c)) \<and> keeps_health H (pc_cashu_routes (py_config c))"

lemma wp_run_payment:
  fixes run :: run_row and args :: json and ctx :: action_execution_context and p :: payment_args
  assumes H: "health_kept H c" "H (pt_health s)" and fresh: "\<forall>q\<in>set (pt_requests s). pr_action q \<noteq> rid"
  defines "ok s' \<equiv> (pt_requests s' = pt_requests s \<and> pt_sent s' = pt_sent s \<or> payment_booked c run rid args ctx p s s') \<and>
    H (pt_health s')"
  shows "wp (run_payment c run rid args ctx p) (\<lambda>_. ok) (\<lambda>_. ok) s"
proof -
  define i where "i = po_uuid (py_env c) (pt_step s)"
  define n where "n = new_payment_request run rid args p i"
  define s0 where "s0 = s\<lparr>pt_step := Suc (pt_step s)\<rparr>"
  have n [simp]: "pr_action n = rid" by (simp add: n_def new_payment_request_def)
  have same: "ok s'" if "same_books s s'" for s' using that H(2) by (simp add: ok_def same_books_def)
  have s0: "same_books s s0" by (simp add: s0_def)
  have fresh0: "\<forall>q\<in>set (pt_requests s0). pr_action q \<noteq> pr_action n" using fresh by (simp add: s0_def)
  have dup: "wp (bind (get_latest_payment_result (py_backend c) (py_env c) (pr_id r))
      (\<lambda>prior. ret (Duplicate (duplicate_json p r prior)))) (\<lambda>_. ok) (\<lambda>_. ok) s1" if "same_books s0 s1" for r s1
    unfolding get_latest_payment_result_def wp_bind wp_ret
    by (rule wp_pay_stmtI) (use same_books_trans [OF s0 that] in \<open>auto intro!: same simp: same_books_def\<close>)
  have first: "wp (bind (check_payment_limits c run ctx (pr_id r) p) (\<lambda>_.
        bind (payment_rail c p args (pr_id r)) (\<lambda>out.
        bind (record_executed (py_env c) (pr_id r) out) (\<lambda>x. ret (Executed r x out))))) (\<lambda>_. ok) (\<lambda>_. ok) s1"
    if f0: "first_use n s0 r s1" for r s1
  proof -
    have f: "first_use (new_payment_request run rid args p i) s r s1"
      using first_use_from [OF s0 f0] by (simp add: n_def)
    have id: "pr_id r = i" and h1: "H (pt_health s1)" using f H(2) by (auto simp: first_use_def new_payment_request_def)
    have failed: "ok s'" if "marks i ''failed'' s1 s'" for s'
      using booked_limits [OF f that] h1 that by (simp add: ok_def marks_def)
    show ?thesis unfolding wp_bind wp_ret id
    proof (rule wp_mono [OF wp_check_payment_limits [OF same_books_refl(1) [of s1]]]; (elim conjE)?)
      fix s2 assume s2: "same_books s1 s2" "within_limits (py_config c) run ctx p (pt_requests s1)"
      have h2: "H (pt_health s2)" using h1 s2 by (simp add: same_books_def)
      have settled: "ok s4" if "railed c p args i H s2 s3" "marks i st s3 s4" "st \<in> {''failed'', ''executed''}" for s3 s4 st
        using booked_rail [OF f s2 _ that(2,3)] that(1,2) by (simp add: ok_def railed_def marks_def)
      show "wp (payment_rail c p args i) (\<lambda>v. wp (record_executed (py_env c) i v) (\<lambda>_. ok) (\<lambda>_. ok)) (\<lambda>_. ok) s2"
        by (rule wp_mono [OF wp_payment_rail [of H c s2]])
          (use H h2 in \<open>auto simp: health_kept_def rail_failed_def intro: settled intro!: wp_mono [OF wp_record_executed]\<close>)
    qed (rule failed)
  qed
  have lost: "ok s1" if "created n s0 s1" for s1
    using that unfolding created_def
  proof (elim disjE exE)
    fix r assume "first_use n s0 r s1"
    from first_use_from [OF s0 this] have f: "first_use (new_payment_request run rid args p i) s r s1" by (simp add: n_def)
    from booked_limits [OF f marks_refl(1)] show ?thesis using f H(2) by (simp add: ok_def first_use_def)
  qed (rule same [OF same_books_trans [OF s0]])
  show ?thesis unfolding run_payment_def Let_def wp_bind wp_pay_ask
    unfolding i_def [symmetric] n_def [symmetric] s0_def [symmetric]
    by (rule wp_mono [OF wp_create_dual [OF fresh0]])
      (use dup first lost in \<open>auto simp: wp_bind\<close>)
qed

lemma wp_write_outbox:
  "wp (write_payment_outbox c run p args out) (\<lambda>_. same_books s) (\<lambda>_. same_books s) s"
proof -
  have art: "wp (insert_artifact (py_env c) f) (\<lambda>_. same_books s) (\<lambda>_. same_books s) s1" if "same_books s s1" for f s1
    unfolding insert_artifact_def
    by (rule wp_pay_stmtI) (use that in \<open>auto simp: same_books_def split: if_splits\<close>)
  have written: "wp (pay_write_file (py_env c) q b) (\<lambda>_. same_books s) (\<lambda>_. same_books s) s1" if "same_books s s1" for q b s1
    using that by (auto simp: wp_def pay_write_file_def same_books_def split: option.split)
  have step: "same_books s (s1\<lparr>pt_step := k\<rparr>)" if "same_books s s1" for s1 k using that by (simp add: same_books_def)
  show ?thesis unfolding write_payment_outbox_def Let_def
    by (auto simp: wp_bind wp_lift wp_pay_ask step split: sum.split intro!: wp_mono [OF written] art)
qed

text \<open>The whole call, whatever fails in it.\<close>

lemma payment_call_step:
  assumes "execute_payment_send_action c run rid args ctx s = (res, ctx', s')"
    and H: "health_kept H c" "H (pt_health s)" and fresh: "\<forall>q\<in>set (pt_requests s). pr_action q \<noteq> rid"
  shows "payment_step c run rid args ctx s s' \<and> H (pt_health s')"
proof (cases "parse_payment_args args")
  case (Inl e)
  with assms show ?thesis by (simp add: execute_payment_send_action_def payment_step_def)
next
  case (Inr p)
  obtain res1 s1 where r: "run_payment c run rid args ctx p s = (res1, s1)" by force
  from wp_run [OF wp_run_payment [OF H fresh] r] have s1: "(pt_requests s1 = pt_requests s \<and> pt_sent s1 = pt_sent s \<or>
      payment_booked c run rid args ctx p s s1) \<and> H (pt_health s1)"
    by (simp split: sum.splits)
  have "same_books s1 s'"
  proof (cases "\<exists>r x out. res1 = Inr (Executed r x out)")
    case True
    then obtain r' x out where e: "res1 = Inr (Executed r' x out)" by blast
    obtain res2 s2 where o: "write_payment_outbox c run p args out s1 = (res2, s2)" by force
    have "s' = s2" using assms(1) Inr r e o
      by (auto simp: execute_payment_send_action_def Let_def split: sum.splits)
    with wp_run [OF wp_write_outbox o] show ?thesis by (simp split: sum.splits)
  next
    case False
    with assms(1) Inr r have "s' = s1"
      by (auto simp: execute_payment_send_action_def split: sum.splits payment_phase.splits)
    then show ?thesis by simp
  qed
  with s1 have "(pt_requests s' = pt_requests s \<and> pt_sent s' = pt_sent s \<or> payment_booked c run rid args ctx p s s') \<and>
      H (pt_health s')"
    by (simp add: same_books_def payment_booked_def)
  with Inr show ?thesis by (auto simp: payment_step_def)
qed

section \<open>Sequences of calls\<close>

text \<open>
  Calls one after the other, of any runs and arguments, under any environment and configuration that \<open>C\<close>
  admits; a process may restart in between. Every action has its own request id.
\<close>

inductive pay_reach :: "(payment_call \<Rightarrow> bool) \<Rightarrow> till \<Rightarrow> uuid set \<Rightarrow> bool" for C where
  start: "pt_requests s = [] \<Longrightarrow> pt_sent s = [] \<Longrightarrow> pt_health s = Map.empty \<Longrightarrow> pay_reach C s {}"
| restart: "pay_reach C s used \<Longrightarrow> pay_reach C (s\<lparr>pt_health := Map.empty\<rparr>) used"
| call: "pay_reach C s used \<Longrightarrow> C c \<Longrightarrow> rid \<notin> used \<Longrightarrow>
    execute_payment_send_action c run rid args ctx s = (res, ctx', s') \<Longrightarrow> pay_reach C s' (insert rid used)"

definition books_ok :: "till \<Rightarrow> uuid set \<Rightarrow> bool" where
  "books_ok s used \<longleftrightarrow> distinct (map pr_id (pt_requests s)) \<and>
     distinct (map (\<lambda>r. (pr_tenant r, pr_key r)) (pt_requests s)) \<and>
     (\<forall>r\<in>set (pt_requests s). pr_action r \<in> used) \<and>
     (\<forall>m\<in>set (pt_sent s). pm_request m \<in> pr_id ` set (pt_requests s))"

text \<open>The row of a booked call, in terms of the table.\<close>

lemma bookedE:
  assumes "payment_booked c run rid args ctx p s s'"
  obtains r st new where
    "pt_requests s' = pt_requests s @ [r]" "pt_sent s' = pt_sent s @ new"
    "pr_id r \<notin> pr_id ` set (pt_requests s)"
    "(pr_tenant r, pr_key r) \<notin> (\<lambda>q. (pr_tenant q, pr_key q)) ` set (pt_requests s)"
    "pr_action r = rid" "pr_tenant r = r_tenant run" "pr_agent r = r_agent run" "pr_status r = st"
    "pr_operation r = operation_as_str (pa_operation p)"
    "pr_amount r = map_option (\<lambda>a. as_i64 (unat a)) (pa_amount p)"
    "length new \<le> rail_bound c p" "\<forall>m\<in>set new. rail_message c p args (pr_id r) m"
    "\<forall>m\<in>set new. \<exists>q. pm_rows m = pt_requests s @ [q] \<and> pr_status q = ''requested''"
    "new \<noteq> [] \<or> st = ''executed'' \<longrightarrow> within_limits (py_config c) run ctx p (pt_requests s)"
proof -
  from assms obtain r i st t new s1 where b: "first_use (new_payment_request run rid args p i) s r s1"
     "pt_requests s' = pt_requests s @ [r\<lparr>pr_status := st, pr_updated_at := t\<rparr>]"
     "pt_sent s' = pt_sent s @ new" "length new \<le> rail_bound c p"
     "\<forall>m\<in>set new. rail_message c p args i m \<and> pm_rows m = pt_requests s @ [r]"
     "new \<noteq> [] \<or> st = ''executed'' \<longrightarrow> within_limits (py_config c) run ctx p (pt_requests s)"
    unfolding payment_booked_def by blast
  then have "\<forall>q\<in>set (pt_requests s). \<not> (pr_tenant q = r_tenant run \<and> pr_key q = pa_key p)" "pr_status r = ''requested''"
    by (auto simp: first_use_def payment_by_key_def find_None_iff new_payment_request_def)
  with b show thesis
    by (intro that [of "r\<lparr>pr_status := st, pr_updated_at := t\<rparr>" new st])
      (auto simp: first_use_def new_payment_request_def)
qed

lemma reach_books: "pay_reach C s used \<Longrightarrow> books_ok s used"
proof (induction rule: pay_reach.induct)
  case (call s used c rid run args ctx res ctx' s')
  have "\<forall>q\<in>set (pt_requests s). pr_action q \<noteq> rid" using call.IH call.hyps(3) by (auto simp: books_ok_def)
  from payment_call_step [OF call.hyps(4), of "\<lambda>_. True", OF _ _ this]
  have "payment_step c run rid args ctx s s'" by (simp add: health_kept_def)
  then show ?case unfolding payment_step_def
  proof (elim disjE exE conjE)
    fix p assume "payment_booked c run rid args ctx p s s'"
    then show ?thesis by (rule bookedE) (use call.IH in \<open>auto simp: books_ok_def rail_message_def image_iff\<close>)
  qed (use call.IH in \<open>auto simp: books_ok_def\<close>)
qed (simp_all add: books_ok_def)

text \<open>A property of the books that single calls keep holds in every reachable state.\<close>

lemma reach_induct:
  assumes reach: "pay_reach C s used"
    and start: "P [] []"
    and booked: "\<And>s c run rid args ctx p s'. P (pt_requests s) (pt_sent s) \<Longrightarrow> C c \<Longrightarrow>
      \<forall>m\<in>set (pt_sent s). pm_request m \<in> pr_id ` set (pt_requests s) \<Longrightarrow>
      payment_booked c run rid args ctx p s s' \<Longrightarrow> P (pt_requests s') (pt_sent s')"
  shows "P (pt_requests s) (pt_sent s)"
  using reach
proof (induction rule: pay_reach.induct)
  case (call s used c rid run args ctx res ctx' s')
  from reach_books [OF call.hyps(1)] call.hyps(3)
  have fresh: "\<forall>q\<in>set (pt_requests s). pr_action q \<noteq> rid" and
    sent: "\<forall>m\<in>set (pt_sent s). pm_request m \<in> pr_id ` set (pt_requests s)" by (auto simp: books_ok_def)
  from payment_call_step [OF call.hyps(4), of "\<lambda>_. True", OF _ _ fresh]
  have "payment_step c run rid args ctx s s'" by (simp add: health_kept_def)
  then show ?case unfolding payment_step_def
    using call.IH booked [OF call.IH call.hyps(2) sent] by auto
qed (simp_all add: start)

lemma reach_health:
  assumes "pay_reach C s used" and "\<And>c. C c \<Longrightarrow> health_kept H c" and "H Map.empty"
  shows "H (pt_health s)"
  using assms(1)
proof (induction rule: pay_reach.induct)
  case (call s used c rid run args ctx res ctx' s')
  have "\<forall>q\<in>set (pt_requests s). pr_action q \<noteq> rid" using reach_books [OF call.hyps(1)] call.hyps(3) by (auto simp: books_ok_def)
  from payment_call_step [OF call.hyps(4) assms(2) [OF call.hyps(2)] call.IH this] show ?case by simp
qed (simp_all add: assms)

section \<open>One key, one payment\<close>

definition sent_key :: "payment_request_row list \<Rightarrow> payment_send \<Rightarrow> (string \<times> string) option" where
  "sent_key rows m = map_option (\<lambda>r. (pr_tenant r, pr_key r)) (List.find (\<lambda>r. pr_id r = pm_request m) rows)"

definition no_fallback :: "payment_call \<Rightarrow> bool" where
  "no_fallback c \<longleftrightarrow> \<not> rt_fallback_enabled (pc_nwc_routes (py_config c)) \<and> \<not> rt_fallback_enabled (pc_cashu_routes (py_config c))"

lemma rail_bound_no_fallback: "no_fallback c \<Longrightarrow> rail_bound c p \<le> 1"
  by (cases "pd_provider (pa_parsed p)")
    (simp_all add: no_fallback_def rail_bound_def resolve_nwc_uris_for_wallet_def resolve_cashu_mint_uris_def
      length_select_routes del: One_nat_def)

lemma one_message_per_request:
  assumes "pay_reach C s used" and "\<And>c. C c \<Longrightarrow> no_fallback c"
  shows "length (filter (\<lambda>m. pm_request m = i) (pt_sent s)) \<le> 1"
  using assms(1)
proof (rule reach_induct [where P="\<lambda>_ sent. length (filter (\<lambda>m. pm_request m = i) sent) \<le> 1"])
  fix s c run rid args ctx p s'
  assume IH: "length (filter (\<lambda>m. pm_request m = i) (pt_sent s)) \<le> 1" and c: "C c"
    and old: "\<forall>m\<in>set (pt_sent s). pm_request m \<in> pr_id ` set (pt_requests s)"
    and "payment_booked c run rid args ctx p s s'"
  from this(4) show "length (filter (\<lambda>m. pm_request m = i) (pt_sent s')) \<le> 1"
  proof (rule bookedE)
    fix r st new
    assume n: "pt_sent s' = pt_sent s @ new" "pr_id r \<notin> pr_id ` set (pt_requests s)" "length new \<le> rail_bound c p"
      "\<forall>m\<in>set new. rail_message c p args (pr_id r) m"
    have one: "length new \<le> 1" using n(3) rail_bound_no_fallback [OF assms(2) [OF c], of p] by linarith
    show ?thesis
    proof (cases "i = pr_id r")
      case True
      with old n(2) have "filter (\<lambda>m. pm_request m = i) (pt_sent s) = []"
        unfolding filter_empty_conv by metis
      moreover have "length (filter (\<lambda>m. pm_request m = i) new) \<le> 1" using one length_filter_le [of _ new] by (metis le_trans)
      ultimately show ?thesis using n(1) by simp
    next
      case False
      with n(4) have "filter (\<lambda>m. pm_request m = i) new = []" by (auto simp: filter_empty_conv rail_message_def)
      with IH n(1) show ?thesis by simp
    qed
  qed
qed simp

lemma sent_key_row:
  assumes "books_ok s used" and "m \<in> set (pt_sent s)"
  shows "\<exists>r\<in>set (pt_requests s). pr_id r = pm_request m \<and> sent_key (pt_requests s) m = Some (pr_tenant r, pr_key r)"
proof (cases "List.find (\<lambda>r. pr_id r = pm_request m) (pt_requests s)")
  case None
  have "pm_request m \<in> pr_id ` set (pt_requests s)" using assms by (simp add: books_ok_def)
  with None show ?thesis by (auto simp: find_None_iff image_iff)
next
  case (Some r)
  then show ?thesis by (auto simp: sent_key_def find_Some_iff intro!: bexI [of _ r])
qed

lemma same_key_same_request:
  assumes b: "books_ok s used" and m: "m \<in> set (pt_sent s)" "m' \<in> set (pt_sent s)"
    and k: "sent_key (pt_requests s) m = sent_key (pt_requests s) m'"
  shows "pm_request m = pm_request m'"
proof -
  obtain r r' where r: "r \<in> set (pt_requests s)" "pr_id r = pm_request m" "r' \<in> set (pt_requests s)" "pr_id r' = pm_request m'"
      "(pr_tenant r, pr_key r) = (pr_tenant r', pr_key r')"
    using sent_key_row [OF b m(1)] sent_key_row [OF b m(2)] k by auto
  have "inj_on (\<lambda>q. (pr_tenant q, pr_key q)) (set (pt_requests s))" using b by (simp add: books_ok_def distinct_map)
  with r have "r = r'" by (simp add: inj_on_def)
  with r show ?thesis by simp
qed


section \<open>Limits\<close>

text \<open>
  (C33) Nothing leaves for a wallet or a mint outside the limits. Each message of a call goes to a configured route
  of the destination and carries what the arguments ask for; for the payment of an invoice, at that moment the amount is below the approval
  threshold or the action says it is approved, and with what the run, the tenant and the agent
  have spent it stays within each configured cap. A failing call is included.
\<close>

theorem payments_within_limits:
  assumes "execute_payment_send_action c run rid args ctx s = (res, ctx', s')"
    and "\<forall>q\<in>set (pt_requests s). pr_action q \<noteq> rid"
  shows "\<exists>new. pt_sent s' = pt_sent s @ new \<and>
    (\<forall>m\<in>set new. \<exists>p. parse_payment_args args = Inr p \<and> rail_message c p args (pm_request m) m \<and>
       within_limits (py_config c) run ctx p (pm_rows m))"
proof -
  have "payment_step c run rid args ctx s s'"
    using payment_call_step [OF assms(1), of "\<lambda>_. True", OF _ _ assms(2)] by (simp add: health_kept_def)
  then show ?thesis unfolding payment_step_def
  proof (elim disjE exE conjE)
    fix p assume p: "parse_payment_args args = Inr p" and "payment_booked c run rid args ctx p s s'"
    from this(2) show ?thesis
    proof (rule bookedE)
      fix r st new assume n: "pt_sent s' = pt_sent s @ new" "\<forall>m\<in>set new. rail_message c p args (pr_id r) m"
        "\<forall>m\<in>set new. \<exists>q. pm_rows m = pt_requests s @ [q] \<and> pr_status q = ''requested''"
        "new \<noteq> [] \<or> st = ''executed'' \<longrightarrow> within_limits (py_config c) run ctx p (pt_requests s)"
      have "rail_message c p args (pm_request m) m \<and> within_limits (py_config c) run ctx p (pm_rows m)" if m: "m \<in> set new" for m
      proof -
        have "new \<noteq> []" using m by auto
        with n(4) have "within_limits (py_config c) run ctx p (pt_requests s)" by blast
        moreover obtain q where "pm_rows m = pt_requests s @ [q]" "pr_status q = ''requested''" using n(3) m by blast
        ultimately have "within_limits (py_config c) run ctx p (pm_rows m)" by (simp add: within_limits_new)
        with n(2) m show ?thesis by (auto simp: rail_message_def)
      qed
      with n(1) p show ?thesis by blast
    qed
  qed (intro exI [of _ "[]"], simp)
qed

text \<open>What a booked call adds to a sum over executed payments.\<close>

lemma as_i64_le: "as_i64 (unat a) \<le> uint (a :: u64)"
proof -
  have u: "0 \<le> uint a" by simp
  show ?thesis
  proof (cases "uint a < 2 ^ 63")
    case True
    with u have "(uint a + 2 ^ 63) mod 2 ^ 64 = uint a + 2 ^ 63" by (intro mod_pos_pos_trivial) auto
    then show ?thesis by (simp add: as_i64_def)
  next
    case False
    have "(uint a + 2 ^ 63) mod 2 ^ 64 < (2 :: int) ^ 64" by simp
    with False show ?thesis by (simp add: as_i64_def)
  qed
qed

lemma spend_after:
  assumes b: "payment_booked c run rid args ctx p s s'"
    and cap: "\<And>r a. q r \<Longrightarrow> pr_tenant r = r_tenant run \<Longrightarrow> pr_agent r = r_agent run \<Longrightarrow>
      within_limits (py_config c) run ctx p (pt_requests s) \<Longrightarrow> pa_operation p = PayInvoice \<Longrightarrow> pa_amount p = Some a \<Longrightarrow>
      max 0 (sum_list (executed_amounts q (pt_requests s))) + uint a \<le> l"
    and IH: "sum_list (executed_amounts q (pt_requests s)) \<le> l"
  shows "sum_list (executed_amounts q (pt_requests s')) \<le> l"
  using b
proof (rule bookedE)
  fix r st and new :: "payment_send list"
  assume who: "pr_tenant r = r_tenant run" "pr_agent r = r_agent run"
    and r: "pt_requests s' = pt_requests s @ [r]" "pr_status r = st" "pr_operation r = operation_as_str (pa_operation p)"
    "pr_amount r = map_option (\<lambda>a. as_i64 (unat a)) (pa_amount p)"
    "new \<noteq> [] \<or> st = ''executed'' \<longrightarrow> within_limits (py_config c) run ctx p (pt_requests s)"
  show ?thesis
  proof (cases "q r \<and> pr_operation r = ''pay_invoice'' \<and> st = ''executed'' \<and> pa_amount p \<noteq> None")
    case False
    then have "executed_amounts q (pt_requests s') = executed_amounts q (pt_requests s)"
      using r by (auto simp: executed_amounts_def List.map_filter_def)
    with IH show ?thesis by simp
  next
    case True
    then obtain a where a: "pa_amount p = Some a" "pa_operation p = PayInvoice"
      using r(3) by (cases "pa_operation p") auto
    have "executed_amounts q (pt_requests s') = executed_amounts q (pt_requests s) @ [as_i64 (unat a)]"
      using True r a by (simp add: executed_amounts_def List.map_filter_def)
    moreover have "max 0 (sum_list (executed_amounts q (pt_requests s))) + uint a \<le> l"
      using cap [OF _ who _ a(2,1)] r(5) True by blast
    ultimately show ?thesis using as_i64_le [of a] by simp
  qed
qed

lemma within_capD: "within_cap (Some l) n a \<Longrightarrow> unat l < u64_max \<Longrightarrow> n + uint a \<le> uint l"
  by (simp add: within_cap_def)

lemma spend_capped:
  assumes reach: "pay_reach C s used"
    and cap: "\<And>c run ctx p rows r a. C c \<Longrightarrow> q r \<Longrightarrow> pr_tenant r = r_tenant run \<Longrightarrow> pr_agent r = r_agent run \<Longrightarrow>
      within_limits (py_config c) run ctx p rows \<Longrightarrow> pa_operation p = PayInvoice \<Longrightarrow> pa_amount p = Some a \<Longrightarrow>
      max 0 (sum_list (executed_amounts q rows)) + uint a \<le> l"
    and "0 \<le> l"
  shows "sum_list (executed_amounts q (pt_requests s)) \<le> l"
proof (rule reach_induct [where P="\<lambda>rows _. sum_list (executed_amounts q rows) \<le> l", OF reach])
  show "sum_list (executed_amounts q []) \<le> l" using assms(3) by (simp add: executed_amounts_def List.map_filter_def)
  fix s c run rid args ctx p s'
  assume IH: "sum_list (executed_amounts q (pt_requests s)) \<le> l" and "C c" and b: "payment_booked c run rid args ctx p s s'"
  show "sum_list (executed_amounts q (pt_requests s')) \<le> l"
    by (rule spend_after [OF b cap [OF \<open>C c\<close>] IH])
qed


section \<open>Health of routes\<close>

text \<open>One failure is enough to put a route aside, for the cooldown, where the threshold is one.\<close>

lemma quarantine_after_one_failure:
  "fst (attempt_route now key (fail_route 1 cooldown t key h)) \<longleftrightarrow> t + cooldown \<le> now"
  by (auto simp: attempt_route_def fail_route_def Let_def)

definition breaker_closed :: "(string \<rightharpoonup> route_health) \<Rightarrow> bool" where
  "breaker_closed h \<longleftrightarrow> (\<forall>key e. h key = Some e \<longrightarrow> ph_unhealthy_until e = None)"

lemma breaker_stays_closed: "2 \<le> rt_fail_threshold rc \<Longrightarrow> keeps_health breaker_closed rc"
  by (auto simp: keeps_health_def breaker_closed_def attempt_route_def fail_route_def unwrap_or_def Let_def
      split: option.splits if_splits)

text \<open>
  With a threshold of two or more failures (the default is three), no route is ever put aside, however often
  and however many times in a row it fails: each attempt resets the count of failures, so that it never
  exceeds one.
\<close>

theorem failing_route_never_quarantined:
  assumes "pay_reach C s used"
    and "\<And>c. C c \<Longrightarrow> 2 \<le> rt_fail_threshold (pc_nwc_routes (py_config c)) \<and> 2 \<le> rt_fail_threshold (pc_cashu_routes (py_config c))"
  shows "fst (attempt_route now key (pt_health s))"
proof -
  have "breaker_closed (pt_health s)"
    by (rule reach_health [OF assms(1)]) (use assms(2) in \<open>simp_all add: health_kept_def breaker_stays_closed, simp add: breaker_closed_def\<close>)
  then show ?thesis by (auto simp: attempt_route_def breaker_closed_def split: option.splits)
qed

section \<open>Witnesses\<close>

definition sample_session :: relay_session where
  "sample_session = \<lparr>rz_connect = None, rz_event = Inr ''e1'', rz_send_req = None, rz_send_event = None,
     rz_frames = [(1, OkMessage ''e1'' True []),
       (1, EventMessage \<lparr>re_id = ''e2'', re_pubkey = ''pk'', re_is_response = True, re_request = Some ''e1'', re_content = []\<rparr>)],
     rz_closes_after = None\<rparr>"

definition sample_wallet :: "json nwc_wallet" where
  "sample_wallet = \<lparr>nw_parse = (\<lambda>_. Inr \<lparr>nu_public_key = ''pk'', nu_relays = [''wss://r'']\<rparr>),
     nw_decrypt = (\<lambda>_ _. Inr JNull), nw_session = (\<lambda>_ _ _ _. sample_session)\<rparr>"

definition sample_payment_outside :: payment_outside where
  "sample_payment_outside = \<lparr>po_uuid = (\<lambda>n. replicate n (CHR ''u'')), po_now = (\<lambda>n. int n), po_instant = (\<lambda>n. n),
     po_fault = (\<lambda>_. None), po_sql_text = (\<lambda>_. ''sql''), po_fk = (\<lambda>_. True), po_hash = (\<lambda>_ _. 0),
     po_wallet = sample_wallet, po_to_pay_invoice = (\<lambda>_. Inr (''pre'', None)),
     po_to_make_invoice = (\<lambda>_. Inl ''no''), po_to_get_balance = (\<lambda>_. Inl ''no''), po_client_error = None,
     po_http = (\<lambda>_ _. NotSent ''no''), po_url_scheme = (\<lambda>_. Inl ''no''), po_url_join = (\<lambda>_ _. Inl ''no''),
     po_from_str = (\<lambda>_. None), po_print = (\<lambda>_. []), po_pretty = (\<lambda>_. Inr []), po_disk = sample_disk\<rparr>"

definition sample_routes :: route_config where
  "sample_routes = \<lparr>rt_strategy = Ordered, rt_fallback_enabled = False, rt_rollout_percent = 100,
     rt_fail_threshold = 3, rt_cooldown = 1000\<rparr>"

definition sample_payment_config :: payment_config where
  "sample_payment_config = \<lparr>pc_worker_id = ''w1'', pc_artifact_root = ''/art'', pc_nwc_enabled = True, pc_nwc_uri = None,
     pc_nwc_wallet_uris = [(''*'', ''uri1|uri2'')], pc_nwc_timeout = 10, pc_nwc_routes = sample_routes,
     pc_nwc_mock_balance_msat = 0, pc_cashu_enabled = False, pc_cashu_mint_uris = [], pc_cashu_default_mint = None,
     pc_cashu_timeout_ms = 10, pc_cashu_max_spend_msat_per_run = None, pc_cashu_http_enabled = False,
     pc_cashu_http_allow_insecure = False, pc_cashu_auth_header = [], pc_cashu_auth_token = None,
     pc_cashu_routes = sample_routes, pc_cashu_mock_enabled = False, pc_cashu_mock_balance_msat = 0,
     pc_max_spend_msat_per_run = Some 50, pc_approval_threshold_msat = Some 20,
     pc_max_spend_msat_per_tenant = Some 9, pc_max_spend_msat_per_agent = Some 9\<rparr>"

definition sample_payment :: payment_call where
  "sample_payment = \<lparr>py_env = sample_payment_outside, py_backend = Postgres, py_config = sample_payment_config\<rparr>"

definition sample_payment_args :: "string \<Rightarrow> json" where
  "sample_payment_args key = jobj [(''destination'', JString ''nwc:main''), (''operation'', JString ''pay_invoice''),
     (''idempotency_key'', JString key), (''amount_msat'', jnat 5), (''invoice'', JString ''lnbc1'')]"

definition empty_till :: till where
  "empty_till = \<lparr>pt_requests = [], pt_results = [], pt_artifacts = [], pt_files = Map.empty, pt_health = Map.empty,
     pt_sent = [], pt_step = 0\<rparr>"

definition sample_context :: action_execution_context where
  "sample_context = \<lparr>remote_llm_tokens_remaining = None, payment_spend_msat = 0, last_llm_response_text = None\<rparr>"

definition sample_pay :: "string \<Rightarrow> uuid \<Rightarrow> till \<Rightarrow> till" where
  "sample_pay key rid s = snd (snd (execute_payment_send_action sample_payment (sample_object_run ''a'') rid
     (sample_payment_args key) sample_context s))"

definition sample_paid :: till where
  "sample_paid = sample_pay ''k1'' ''r1'' empty_till"

lemma sample_paid_reach: "pay_reach (\<lambda>c. c = sample_payment) sample_paid {''r1''}"
proof -
  obtain res ctx' s' where e: "execute_payment_send_action sample_payment (sample_object_run ''a'') ''r1''
      (sample_payment_args ''k1'') sample_context empty_till = (res, ctx', s')" by (metis prod_cases3)
  have "pay_reach (\<lambda>c. c = sample_payment) empty_till {}" by (rule pay_reach.start) (simp_all add: empty_till_def)
  from pay_reach.call [OF this refl _ e] show ?thesis by (simp add: sample_paid_def sample_pay_def e)
qed

definition sample_parsed :: "string \<Rightarrow> payment_args" where
  "sample_parsed key = \<lparr>pa_destination = ''nwc:main'', pa_parsed = \<lparr>pd_provider = Nwc, pd_target = ''main''\<rparr>,
     pa_operation = PayInvoice, pa_key = key, pa_amount = Some 5, pa_approved = False\<rparr>"

lemma sample_routes_resolved:
  "resolve_nwc_uris_for_wallet sample_payment_outside sample_payment_config ''main'' key = ([''uri1''], False)"
proof -
  have "configured_nwc_routes sample_payment_config ''main'' = [''uri1'', ''uri2'']" by code_simp
  then show ?thesis
    by (simp add: resolve_nwc_uris_for_wallet_def select_routes_def sample_payment_config_def sample_routes_def)
qed

lemma sample_answer:
  "send_nwc_request sample_wallet n ''uri1'' q 10 =
   Inr \<lparr>nwo_relay = ''wss://r'', nwo_request_event_id = ''e1'', nwo_response_event_id = ''e2'', nwo_response = JNull\<rparr>"
  by (simp add: send_nwc_request_def sample_wallet_def send_nwc_request_to_relay_def sample_session_def)

lemma sample_request: "build_nwc_request PayInvoice (sample_payment_args key) (Some 5) = Inr (PayInvoiceRequest ''lnbc1'' (Some 5))"
proof -
  have "payment_invoice (sample_payment_args []) = Inr ''lnbc1''" by code_simp
  moreover have "get_str (sample_payment_args key) ''invoice'' = get_str (sample_payment_args []) ''invoice''"
    by (simp add: sample_payment_args_def get_str_def jobj_def obj_of_list_def)
  ultimately show ?thesis by (simp add: build_nwc_request_def payment_invoice_def)
qed
lemma sample_wallet_name: "\<not> contains ''main'' ''nostr+walletconnect://''" by code_simp

lemma sample_rail:
  assumes "pt_health s = Map.empty"
  shows "\<exists>out s'. nwc_rail sample_payment (sample_parsed key) (sample_payment_args key) i s = (Inr out, s') \<and>
   pt_requests s' = pt_requests s \<and> pt_results s' = pt_results s \<and> pt_health s' = Map.empty \<and>
   pt_sent s' = pt_sent s @ [\<lparr>pm_request = i, pm_operation = PayInvoice, pm_uri = ''uri1'',
     pm_message = WalletRequest (PayInvoiceRequest ''lnbc1'' (Some 5)), pm_rows = pt_requests s\<rparr>]"
  using assms sample_routes_resolved [of key]
  by (simp add: nwc_rail_def Let_def sample_parsed_def sample_payment_def sample_wallet_name sample_request bind_def lift_def
     should_attempt_payment_route_def handle_def send_to_wallet_def sample_answer pay_ask_def attempt_route_def
     mark_payment_route_success_def ret_def nwc_result_def no_tries_def log_send_def
     sample_payment_config_def sample_payment_outside_def sample_routes_def)

lemma sample_args_parsed: "parse_payment_args (sample_payment_args ''k1'') = Inr (sample_parsed ''k1'')"
  by code_simp

lemma sample_limits:
  assumes "pt_requests s = [r]" "pr_status r = ''requested''"
  shows "\<exists>s'. check_payment_limits sample_payment (sample_object_run ''a'') sample_context i (sample_parsed key) s = (Inr (), s') \<and>
   pt_requests s' = pt_requests s \<and> pt_results s' = pt_results s \<and> pt_health s' = pt_health s \<and> pt_sent s' = pt_sent s"
proof -
  have "saturating_add (0 :: u64) 5 = 5" by (simp add: saturating_add_def u64_max_def)
  then show ?thesis using assms
  by (simp add: check_payment_limits_def Let_def sample_parsed_def sample_payment_def sample_payment_config_def check_approval_def
     check_spend_def stored_spend_def sum_executed_payment_amount_msat_for_tenant_def sum_executed_payment_amount_msat_for_agent_def
     sum_executed_def pay_stmt_def payment_sum_def in_i64_def executed_amounts_def List.map_filter_def i64_min_def i64_max_def
     sample_payment_outside_def bind_def ret_def sample_context_def)
qed


lemma sample_request_created:
  "\<exists>r. create_or_get_payment_request_dual Postgres sample_payment_outside
     (new_payment_request (sample_object_run ''a'') ''r1'' (sample_payment_args ''k1'') (sample_parsed ''k1'') [])
     (empty_till\<lparr>pt_step := Suc 0\<rparr>) = (Inr r, empty_till\<lparr>pt_step := 2, pt_requests := [r]\<rparr>) \<and> pr_id r = [] \<and>
     pr_action r = ''r1'' \<and> pr_status r = ''requested'' \<and> pr_amount r = Some 5 \<and> pr_tenant r = ''a'' \<and> pr_key r = ''k1'' \<and>
     pr_operation r = ''pay_invoice''"
  by (simp add: create_or_get_payment_request_dual_def create_or_get_payment_request_def pay_stmt_def Let_def
     insert_payment_request_def select_payment_request_def payment_row_checks_def new_payment_request_def sample_parsed_def
     sample_payment_outside_def payment_by_key_def empty_till_def as_i64_def sample_object_run_def row_of_new_def)

lemma sample_recorded:
  assumes "pt_requests s = [r]" "pt_results s = []" "pr_id r = i"
  shows "\<exists>x s' t. record_executed sample_payment_outside i out s = (Inr x, s') \<and>
    pt_requests s' = [r\<lparr>pr_status := ''executed'', pr_updated_at := t\<rparr>] \<and> pt_sent s' = pt_sent s"
  using assms by (auto simp: record_executed_def bind_def pay_ask_def create_payment_result_def pay_stmt_def Let_def
     sample_payment_outside_def try_ignore_def handle_def update_payment_request_status_def update_where_def ret_def)

lemma sample_paid_books:
  "\<exists>r m. pt_requests sample_paid = [r] \<and> pr_status r = ''executed'' \<and> pr_amount r = Some 5 \<and> pr_operation r = ''pay_invoice'' \<and>
     pr_tenant r = ''a'' \<and> pr_key r = ''k1'' \<and> pr_action r = ''r1'' \<and> pt_sent sample_paid = [m] \<and> pm_request m = pr_id r \<and>
     pm_operation m = PayInvoice"
proof -
  obtain r where r: "create_or_get_payment_request_dual Postgres sample_payment_outside
     (new_payment_request (sample_object_run ''a'') ''r1'' (sample_payment_args ''k1'') (sample_parsed ''k1'') [])
     (empty_till\<lparr>pt_step := Suc 0\<rparr>) = (Inr r, empty_till\<lparr>pt_step := 2, pt_requests := [r]\<rparr>)"
    "pr_id r = []" "pr_action r = ''r1''" "pr_status r = ''requested''" "pr_amount r = Some 5" "pr_tenant r = ''a''"
    "pr_key r = ''k1''" "pr_operation r = ''pay_invoice''"
    using sample_request_created by blast
  let ?s1 = "empty_till\<lparr>pt_step := 2, pt_requests := [r]\<rparr>"
  obtain s2 where s2: "check_payment_limits sample_payment (sample_object_run ''a'') sample_context [] (sample_parsed ''k1'') ?s1 = (Inr (), s2)"
    "pt_requests s2 = [r]" "pt_results s2 = []" "pt_health s2 = Map.empty" "pt_sent s2 = []"
    using sample_limits [of ?s1 r "[]" "''k1''"] r by (auto simp: empty_till_def)
  obtain out s3 where s3: "nwc_rail sample_payment (sample_parsed ''k1'') (sample_payment_args ''k1'') [] s2 = (Inr out, s3)"
    "pt_requests s3 = [r]" "pt_results s3 = []"
    "pt_sent s3 = [\<lparr>pm_request = [], pm_operation = PayInvoice, pm_uri = ''uri1'',
       pm_message = WalletRequest (PayInvoiceRequest ''lnbc1'' (Some 5)), pm_rows = [r]\<rparr>]"
    using sample_rail [OF s2(4), of "''k1''" "[]"] s2 by auto
  obtain x s4 t where s4: "record_executed sample_payment_outside [] out s3 = (Inr x, s4)"
    "pt_requests s4 = [r\<lparr>pr_status := ''executed'', pr_updated_at := t\<rparr>]" "pt_sent s4 = pt_sent s3"
    using sample_recorded [OF s3(2,3) r(2)] by blast
  have paid: "run_payment sample_payment (sample_object_run ''a'') ''r1'' (sample_payment_args ''k1'') sample_context
      (sample_parsed ''k1'') empty_till = (Inr (Executed r x out), s4)"
    using r s2(1) s3(1) s4(1)
    by (simp add: run_payment_def Let_def bind_def pay_ask_def ret_def payment_rail_def sample_payment_def
        sample_payment_outside_def empty_till_def sample_parsed_def)
  obtain res5 s5 where o: "write_payment_outbox sample_payment (sample_object_run ''a'') (sample_parsed ''k1'')
      (sample_payment_args ''k1'') out s4 = (res5, s5)" by force
  have "sample_paid = s5"
    by (cases res5) (simp_all add: sample_paid_def sample_pay_def execute_payment_send_action_def sample_args_parsed paid Let_def o)
  moreover have "same_books s4 s5" using wp_run [OF wp_write_outbox o] by (simp split: sum.splits)
  ultimately show ?thesis using s4 s3 r by (auto simp: same_books_def)
qed


theorem payments_within_limits_witness:
  "\<exists>m p. pt_sent sample_paid = [m] \<and> parse_payment_args (sample_payment_args ''k1'') = Inr p \<and>
     pa_operation p = PayInvoice \<and> pa_amount p = Some 5 \<and>
     within_limits sample_payment_config (sample_object_run ''a'') sample_context p (pm_rows m)"
proof -
  obtain res ctx' s' where e: "execute_payment_send_action sample_payment (sample_object_run ''a'') ''r1''
      (sample_payment_args ''k1'') sample_context empty_till = (res, ctx', s')" by (metis prod_cases3)
  then have s': "s' = sample_paid" by (simp add: sample_paid_def sample_pay_def)
  obtain m where m: "pt_sent sample_paid = [m]" using sample_paid_books by blast
  have "\<forall>q\<in>set (pt_requests empty_till). pr_action q \<noteq> ''r1''" by (simp add: empty_till_def)
  from payments_within_limits [OF e this]
  have "within_limits sample_payment_config (sample_object_run ''a'') sample_context (sample_parsed ''k1'') (pm_rows m)"
    using m by (auto simp: s' empty_till_def sample_args_parsed sample_payment_def)
  then show ?thesis using m sample_args_parsed by (auto simp: sample_parsed_def)
qed


theorem failing_route_never_quarantined_witness:
  "fst (attempt_route 7 ''w1|nwc|main|uri1'' (pt_health sample_paid))"
  by (rule failing_route_never_quarantined [OF sample_paid_reach])
    (simp add: sample_payment_def sample_payment_config_def sample_routes_def)

end
