(* ===== verification/Utf8.thy ===== *)
theory Utf8
  imports Prelude
begin

text \<open>
  Bytes that may be text: the output of child processes, decoded by \<open>String::from_utf8_lossy\<close> and
  \<open>String::from_utf8\<close>. A string of the model is the list of its bytes.
\<close>

section \<open>Replacing what is no text\<close>

text \<open>
  \<open>String::from_utf8_lossy\<close>: a maximal part that does not belong to a character becomes U+FFFD. \<open>char_at\<close> is
  the length of the character at the front, or the length of the part to replace.
\<close>

definition byte_in :: "nat \<Rightarrow> nat \<Rightarrow> string \<Rightarrow> nat \<Rightarrow> bool" where
  "byte_in lo hi s i \<longleftrightarrow> i < length s \<and> lo \<le> byte (s ! i) \<and> byte (s ! i) \<le> hi"

definition second_byte :: "nat \<Rightarrow> nat \<times> nat" where
  "second_byte b =
     (if b = 224 then (160, 191) else if b = 237 then (128, 159)
      else if b = 240 then (144, 191) else if b = 244 then (128, 143) else (128, 191))"

definition char_at :: "string \<Rightarrow> nat + nat" where
  "char_at s =
     (let b = byte (hd s); (lo, hi) = second_byte b; ok2 = byte_in lo hi s 1;
          ok3 = byte_in 128 191 s 2; ok4 = byte_in 128 191 s 3
      in if b < 128 then Inr 1
         else if 194 \<le> b \<and> b \<le> 223 then (if ok2 then Inr 2 else Inl 1)
         else if 224 \<le> b \<and> b \<le> 239 then (if \<not> ok2 then Inl 1 else if ok3 then Inr 3 else Inl 2)
         else if 240 \<le> b \<and> b \<le> 244
         then (if \<not> ok2 then Inl 1 else if \<not> ok3 then Inl 2 else if ok4 then Inr 4 else Inl 3)
         else Inl 1)"

definition replacement_character :: string where
  "replacement_character = [char_of (239 :: nat), char_of (191 :: nat), char_of (189 :: nat)]"

function from_utf8_lossy :: "string \<Rightarrow> string" where
  "from_utf8_lossy s =
     (if s = [] then []
      else case char_at s of
        Inr n \<Rightarrow> take n s @ from_utf8_lossy (drop (max n 1) s)
      | Inl n \<Rightarrow> replacement_character @ from_utf8_lossy (drop (max n 1) s))"
  by auto
termination by (relation "measure length") (auto simp: length_drop)

declare from_utf8_lossy.simps [simp del]

section \<open>Strict decoding\<close>

function is_utf8 :: "string \<Rightarrow> bool" where
  "is_utf8 s =
     (if s = [] then True
      else case char_at s of
        Inr n \<Rightarrow> is_utf8 (drop (max n 1) s)
      | Inl n \<Rightarrow> False)"
  by auto
termination by (relation "measure length") (auto simp: length_drop)

declare is_utf8.simps [simp del]

lemma char_at_pos: "char_at s = Inr n \<Longrightarrow> 0 < n"
  by (auto simp: char_at_def Let_def split: prod.splits if_splits)

text \<open>On text, both decodings keep the bytes.\<close>

lemma lossy_of_utf8: "is_utf8 s \<Longrightarrow> from_utf8_lossy s = s"
proof (induction s rule: is_utf8.induct)
  case (1 s)
  show ?case
  proof (cases "s = []")
    case False
    with 1(2) obtain n where n: "char_at s = Inr n" "is_utf8 (drop (max n 1) s)"
      by (subst (asm) is_utf8.simps) (auto split: sum.splits)
    moreover have "max n 1 = n" using char_at_pos [OF n(1)] by simp
    ultimately show ?thesis
      using 1(1) [OF False n(1)] False by (subst from_utf8_lossy.simps) simp
  qed (simp add: from_utf8_lossy.simps)
qed

end
