(* ===== verification/LocalExec.thy ===== *)
theory LocalExec
  imports ObjectStore Utf8
begin

text \<open>
  Local commands, \<open>worker/src/local_exec.rs\<close> and \<open>execute_local_exec_action\<close> of \<open>worker/src/lib.rs\<close>: three
  templates over files below configured directories. \<open>fs::canonicalize\<close> and \<open>is_file\<close> are
  arguments that say what the file system holds; running a command is an argument too. The state
  is a ghost log of the commands that were started.
\<close>

section \<open>Paths\<close>

text \<open>\<open>Path::parent\<close> and \<open>Path::file_name\<close>, by components.\<close>

fun components_path :: "path_component list \<Rightarrow> path" where
  "components_path [] = []"
| "components_path (RootDir # cs) = CHR ''/'' # components_path cs"
| "components_path (CurDir # cs) = ''.'' @ (if cs = [] then [] else CHR ''/'' # components_path cs)"
| "components_path (ParentDir # cs) = ''..'' @ (if cs = [] then [] else CHR ''/'' # components_path cs)"
| "components_path (Normal w # cs) = w @ (if cs = [] then [] else CHR ''/'' # components_path cs)"

definition parent_of :: "path \<Rightarrow> path option" where
  "parent_of p = (let cs = components p in
     if cs = [] \<or> last cs = RootDir then None else Some (components_path (butlast cs)))"

definition file_name :: "path \<Rightarrow> string option" where
  "file_name p = (let cs = components p in
     if cs = [] then None else case last cs of Normal w \<Rightarrow> Some w | _ \<Rightarrow> None)"

section \<open>Commands from templates\<close>

record local_exec_config =
  xc_enabled :: bool
  xc_timeout :: nat
  xc_max_output_bytes :: nat
  xc_max_memory_bytes :: nat
  xc_max_processes :: nat
  xc_read_roots :: "path list"
  xc_write_roots :: "path list"

record command_spec =
  xs_program :: string
  xs_args :: "string list"

record host_files =
  hf_canonicalize :: "path \<Rightarrow> string + path"
  hf_is_file :: "path \<Rightarrow> bool"
  hf_is_dir :: "path \<Rightarrow> bool"

definition path_is_within_roots :: "path \<Rightarrow> path list \<Rightarrow> bool" where
  "path_is_within_roots p roots = list_ex (path_starts_with p) roots"

definition required_path_arg :: "json \<Rightarrow> string \<Rightarrow> string + string" where
  "required_path_arg args key =
     (case Option.bind (get_str args key) non_empty_trimmed of
        None \<Rightarrow> Inl (''local.exec args.'' @ key @ '' is required'')
      | Some v \<Rightarrow> Inr v)"

definition validate_read_path :: "host_files \<Rightarrow> string \<Rightarrow> path list \<Rightarrow> string + path" where
  "validate_read_path hf path_raw roots =
     (if \<not> is_absolute path_raw then Inl (''local.exec read path must be absolute: '' @ path_raw)
      else case hf_canonicalize hf path_raw of
        Inl e \<Rightarrow> Inl (''failed to resolve local.exec read path `'' @ path_raw @ ''`: '' @ e)
      | Inr canonical \<Rightarrow>
          if \<not> hf_is_file hf canonical
          then Inl (''local.exec read path must resolve to a file: '' @ canonical)
          else if \<not> path_is_within_roots canonical roots
          then Inl (''local.exec read path `'' @ canonical @ ''` is outside allowed roots'')
          else Inr canonical)"

definition validate_write_path :: "host_files \<Rightarrow> string \<Rightarrow> path list \<Rightarrow> string + path" where
  "validate_write_path hf path_raw roots =
     (if \<not> is_absolute path_raw then Inl (''local.exec write path must be absolute: '' @ path_raw)
      else case parent_of path_raw of
        None \<Rightarrow> Inl (''local.exec write path must have a parent: '' @ path_raw)
      | Some parent \<Rightarrow>
          (case hf_canonicalize hf parent of
             Inl e \<Rightarrow> Inl (''failed to resolve parent for local.exec write path `'' @ parent @ ''`: '' @ e)
           | Inr canonical_parent \<Rightarrow>
               if \<not> path_is_within_roots canonical_parent roots
               then Inl (''local.exec write path parent `'' @ canonical_parent @ ''` is outside allowed roots'')
               else (case file_name path_raw of
                  None \<Rightarrow> Inl (''local.exec write path missing file name: '' @ path_raw)
                | Some name \<Rightarrow> Inr (path_push canonical_parent name))))"

definition build_command_from_template ::
    "host_files \<Rightarrow> string \<Rightarrow> json \<Rightarrow> local_exec_config \<Rightarrow> string + command_spec" where
  "build_command_from_template hf template_id args cfg =
     (if template_id = ''file.head'' then
        try_then (required_path_arg args ''path'') (\<lambda>raw.
        try_then (validate_read_path hf raw (xc_read_roots cfg)) (\<lambda>path.
        let n = unwrap_or (get_u64 args ''lines'') 20 in
        if n = 0 \<or> 200 < n then Inl ''local.exec file.head lines must be between 1 and 200''
        else Inr \<lparr>xs_program = ''head'', xs_args = [''-n'', nat_to_string (unat n), path]\<rparr>))
      else if template_id = ''file.word_count'' then
        try_then (required_path_arg args ''path'') (\<lambda>raw.
        try_then (validate_read_path hf raw (xc_read_roots cfg)) (\<lambda>path.
        Inr \<lparr>xs_program = ''wc'', xs_args = [''-w'', path]\<rparr>))
      else if template_id = ''file.touch'' then
        try_then (required_path_arg args ''path'') (\<lambda>raw.
        try_then (validate_write_path hf raw (xc_write_roots cfg)) (\<lambda>path.
        Inr \<lparr>xs_program = ''touch'', xs_args = [path]\<rparr>))
      else Inl (''unknown local.exec template `'' @ template_id @
        ''` (allowed: file.head, file.word_count, file.touch)''))"

text \<open>The configured directories are resolved when the worker starts.\<close>

fun parse_roots_from_env :: "host_files \<Rightarrow> string list \<Rightarrow> string \<Rightarrow> string + path list" where
  "parse_roots_from_env hf [] label = Inr []"
| "parse_roots_from_env hf (v # vs) label =
     (if \<not> is_absolute v then Inl (label @ '' entry must be absolute path: '' @ v)
      else case hf_canonicalize hf v of
        Inl e \<Rightarrow> Inl (''failed to canonicalize '' @ label @ '' entry `'' @ v @ ''` (ensure directory exists): '' @ e)
      | Inr canonical \<Rightarrow>
          if \<not> hf_is_dir hf canonical then Inl (label @ '' entry must be a directory: '' @ canonical)
          else try_then (parse_roots_from_env hf vs label) (\<lambda>roots. Inr (canonical # roots)))"

section \<open>Running a command\<close>

record process =
  pz_spec :: command_spec
  pz_env :: "(string \<times> string) list"
  pz_rlimit_as :: "nat option"
  pz_rlimit_nproc :: "nat option"
  pz_timeout :: nat

datatype process_end = TimedOut | NotRun string | Ended "int option" string string

record exec_outside =
  xo_files :: host_files
  xo_run :: "nat \<Rightarrow> process \<Rightarrow> process_end"

text \<open>The state: the processes started so far.\<close>

type_synonym 'a exec = "(process list, 'a) action"

definition apply_unix_limits :: "nat \<Rightarrow> nat option" where
  "apply_unix_limits n = (if 0 < n then Some n else None)"

definition process_of :: "command_spec \<Rightarrow> local_exec_config \<Rightarrow> process" where
  "process_of spec cfg = \<lparr>pz_spec = spec, pz_env = [(''PATH'', ''/usr/bin:/bin'')],
     pz_rlimit_as = apply_unix_limits (xc_max_memory_bytes cfg),
     pz_rlimit_nproc = apply_unix_limits (xc_max_processes cfg), pz_timeout = xc_timeout cfg\<rparr>"

definition run_command :: "exec_outside \<Rightarrow> command_spec \<Rightarrow> local_exec_config \<Rightarrow> (int option \<times> string \<times> string) exec" where
  "run_command xo spec cfg = (\<lambda>ps.
     let p = process_of spec cfg in
     (case xo_run xo (length ps) p of
        TimedOut \<Rightarrow> Inl ''local.exec command timed out''
      | NotRun e \<Rightarrow> Inl (''failed running local.exec command: '' @ e)
      | Ended code out err \<Rightarrow> Inr (code, out, err), ps @ [p]))"

record local_exec_result =
  xr_template_id :: string
  xr_exit_code :: int
  xr_stdout :: string
  xr_stderr :: string

text \<open>The exit code as it is printed: an \<open>i32\<close>.\<close>

definition int_to_string :: "int \<Rightarrow> string" where
  "int_to_string n = (if n < 0 then CHR ''-'' # nat_to_string (nat (- n)) else nat_to_string (nat n))"

definition exec_outcome ::
    "string \<Rightarrow> local_exec_config \<Rightarrow> int option \<times> string \<times> string \<Rightarrow> string + local_exec_result" where
  "exec_outcome template_id cfg output =
     (case output of (code, out, err) \<Rightarrow>
        if xc_max_output_bytes cfg < length out + length err
        then Inl (''local.exec output exceeded '' @ nat_to_string (xc_max_output_bytes cfg) @ '' bytes'')
        else case code of
          None \<Rightarrow> Inl ''local.exec terminated by signal''
        | Some exit_code \<Rightarrow>
            if exit_code \<noteq> 0
            then Inl (''local.exec template `'' @ template_id @ ''` exited non-zero ('' @ int_to_string exit_code @
              '') stderr='' @ trim (from_utf8_lossy err))
            else Inr \<lparr>xr_template_id = template_id, xr_exit_code = exit_code, xr_stdout = from_utf8_lossy out,
              xr_stderr = from_utf8_lossy err\<rparr>)"

definition execute_local_exec :: "exec_outside \<Rightarrow> json \<Rightarrow> local_exec_config \<Rightarrow> local_exec_result exec" where
  "execute_local_exec xo args cfg =
     (if \<not> xc_enabled cfg then fail ''local.exec is disabled (set WORKER_LOCAL_EXEC_ENABLED=1 to enable)''
      else case Option.bind (get_str args ''template_id'') non_empty_trimmed of
        None \<Rightarrow> fail ''local.exec args.template_id is required''
      | Some template_id \<Rightarrow>
          bind (lift (build_command_from_template (xo_files xo) template_id args cfg)) (\<lambda>spec.
          bind (run_command xo spec cfg) (\<lambda>output. lift (exec_outcome template_id cfg output))))"

definition execute_local_exec_action :: "exec_outside \<Rightarrow> local_exec_config \<Rightarrow> process list connector" where
  "execute_local_exec_action xo cfg run request_id args ctx ps =
     (case execute_local_exec xo args cfg ps of
        (Inl e, ps') \<Rightarrow> (Inl e, ctx, ps')
      | (Inr r, ps') \<Rightarrow>
          (Inr (jobj [(''template_id'', JString (xr_template_id r)),
             (''exit_code'', JNumber (if xr_exit_code r < 0 then NegInt (xr_exit_code r) else PosInt (of_int (xr_exit_code r)))),
             (''stdout'', JString (xr_stdout r)), (''stderr'', JString (xr_stderr r))]), ctx, ps'))"

section \<open>What a command may touch\<close>

text \<open>
  Canonical paths: resolving one again changes nothing, and it is absolute (the contract of
  \<open>fs::canonicalize\<close>).
\<close>

definition canonical_files :: "host_files \<Rightarrow> bool" where
  "canonical_files hf \<longleftrightarrow> (\<forall>p q. hf_canonicalize hf p = Inr q \<longrightarrow> hf_canonicalize hf q = Inr q \<and> is_absolute q)"

definition reads_within :: "host_files \<Rightarrow> path list \<Rightarrow> path \<Rightarrow> bool" where
  "reads_within hf roots p \<longleftrightarrow> hf_canonicalize hf p = Inr p \<and> hf_is_file hf p \<and> path_is_within_roots p roots"

text \<open>A file in a canonical directory within the roots.\<close>

definition names_within :: "host_files \<Rightarrow> path list \<Rightarrow> path \<Rightarrow> bool" where
  "names_within hf roots p \<longleftrightarrow> path_is_within_roots p roots \<and>
     (\<exists>dir name. p = path_push dir name \<and> clean_part name \<and> hf_canonicalize hf dir = Inr dir \<and> path_is_within_roots dir roots)"

definition command_confined :: "host_files \<Rightarrow> local_exec_config \<Rightarrow> command_spec \<Rightarrow> bool" where
  "command_confined hf cfg spec \<longleftrightarrow>
     (\<exists>p. xs_program spec = ''head'' \<and> (\<exists>n. 1 \<le> n \<and> n \<le> 200 \<and> xs_args spec = [''-n'', nat_to_string n, p]) \<and>
        reads_within hf (xc_read_roots cfg) p) \<or>
     (\<exists>p. xs_program spec = ''wc'' \<and> xs_args spec = [''-w'', p] \<and> reads_within hf (xc_read_roots cfg) p) \<or>
     (\<exists>p. xs_program spec = ''touch'' \<and> xs_args spec = [p] \<and> names_within hf (xc_write_roots cfg) p)"

lemma validate_read_within:
  "canonical_files hf \<Longrightarrow> validate_read_path hf raw roots = Inr p \<Longrightarrow> reads_within hf roots p"
  by (auto simp: validate_read_path_def reads_within_def canonical_files_def split: if_splits sum.splits)

lemma file_name_clean: "file_name p = Some w \<Longrightarrow> clean_part w"
  by (auto simp: file_name_def Let_def split: if_splits path_component.splits
      intro!: components_parts [of w p] dest: last_in_set)

lemma pushed_within:
  assumes "is_absolute dir" and "clean_part name" and "path_is_within_roots dir roots"
  shows "path_is_within_roots (path_push dir name) roots"
proof -
  have n: "\<not> is_absolute name" "hd (split_on name (CHR ''/'')) \<noteq> ''.''" "dir \<noteq> []"
    using assms(1,2) by (cases name; auto simp: is_absolute_def clean_part_def split_on_singleton)+
  have "path_starts_with (path_push dir name) root" if "path_starts_with dir root" for root
    using that components_path_push [OF n(3,1,2)] by (auto simp: path_starts_with_iff)
  with assms(3) show ?thesis by (auto simp: path_is_within_roots_def list_ex_iff)
qed

lemma validate_write_within:
  assumes "canonical_files hf" and "validate_write_path hf raw roots = Inr p"
  shows "names_within hf roots p"
proof -
  from assms(2) obtain parent dir name where w: "hf_canonicalize hf parent = Inr dir" "path_is_within_roots dir roots"
      "file_name raw = Some name" "p = path_push dir name"
    by (auto simp: validate_write_path_def split: if_splits option.splits sum.splits)
  with assms(1) have "hf_canonicalize hf dir = Inr dir" "is_absolute dir" unfolding canonical_files_def by blast+
  with w pushed_within [OF _ file_name_clean] show ?thesis unfolding names_within_def
    by (metis file_name_clean)
qed

lemma built_command_confined:
  assumes "canonical_files hf" and "build_command_from_template hf t args cfg = Inr spec"
  shows "command_confined hf cfg spec"
proof -
  have lines: "1 \<le> unat n \<and> unat n \<le> 200" if "n \<noteq> 0" "\<not> 200 < n" for n :: u64
    using that by (simp add: word_le_nat_alt not_less unat_gt_0 Suc_le_eq)
  consider "t = ''file.head''" | "t = ''file.word_count''" | "t = ''file.touch''"
    using assms(2) by (auto simp: build_command_from_template_def split: if_splits)
  then show ?thesis
  proof cases
    case 1
    with assms(2) obtain p where p: "reads_within hf (xc_read_roots cfg) p" "unwrap_or (get_u64 args ''lines'') 20 \<noteq> 0"
        "\<not> 200 < unwrap_or (get_u64 args ''lines'') 20"
        "spec = \<lparr>xs_program = ''head'', xs_args = [''-n'', nat_to_string (unat (unwrap_or (get_u64 args ''lines'') 20)), p]\<rparr>"
      by (auto simp: build_command_from_template_def try_then_Inr Let_def split: if_splits
          dest: validate_read_within [OF assms(1)])
    with lines [OF p(2,3)] show ?thesis unfolding command_confined_def by (intro disjI1) auto
  next
    case 2
    with assms(2) show ?thesis
      by (auto simp: build_command_from_template_def try_then_Inr command_confined_def validate_read_within [OF assms(1)])
  next
    case 3
    with assms(2) show ?thesis
      by (auto simp: build_command_from_template_def try_then_Inr command_confined_def validate_write_within [OF assms(1)])
  qed
qed


text \<open>
  The last component of a path to \<open>touch\<close> is not resolved: where it is a symbolic link, the file that is touched lies
  outside the roots. Reads resolve the whole path.
\<close>

definition linked_files :: host_files where
  "linked_files = \<lparr>hf_canonicalize = (\<lambda>p. if p = ''/w/link'' then Inr ''/etc/x'' else if is_absolute p then Inr p else Inl ''relative''),
     hf_is_file = (\<lambda>_. True), hf_is_dir = (\<lambda>_. True)\<rparr>"

lemma touch_follows_link:
  "canonical_files linked_files \<and> validate_write_path linked_files ''/w/link'' [''/w''] = Inr ''/w/link'' \<and>
   hf_canonicalize linked_files ''/w/link'' = Inr ''/etc/x'' \<and> \<not> path_is_within_roots ''/etc/x'' [''/w'']"
proof (intro conjI)
  show "canonical_files linked_files"
    by (auto simp: canonical_files_def linked_files_def is_absolute_def split: if_splits)
qed code_simp+

text \<open>The commands of a concrete worker.\<close>

definition sample_exec :: exec_outside where
  "sample_exec = \<lparr>xo_files = linked_files, xo_run = (\<lambda>_ _. Ended (Some 0) ''3'' [])\<rparr>"

definition sample_exec_config :: local_exec_config where
  "sample_exec_config = \<lparr>xc_enabled = True, xc_timeout = 5, xc_max_output_bytes = 10, xc_max_memory_bytes = 0,
     xc_max_processes = 8, xc_read_roots = [''/w''], xc_write_roots = []\<rparr>"

definition sample_exec_args :: json where
  "sample_exec_args = jobj [(''template_id'', JString ''file.word_count''), (''path'', JString ''/w/a'')]"


end
