(* ===== verification/NostrSigner.thy ===== *)
theory NostrSigner
  imports NwcWallet ObjectStore
begin

text \<open>
  Signing and publishing Nostr notes: the signer's configuration (\<open>worker/src/signer.rs\<close>), the remote signer of NIP-46
  (\<open>worker/src/nip46_signer.rs\<close>) and the publication of a signed event to the relays
  (\<open>worker/src/nostr_transport.rs\<close>). Keys and signatures are the \<open>nostr\<close> library's, an argument; so are the sessions with
  relays and the key file.
\<close>

section \<open>Keys and notes\<close>

type_synonym secret_key = string
type_synonym public_key = string

record unsigned_note =
  un_author :: public_key
  un_recipient :: public_key
  un_text :: string

record note_event =
  ne_id :: string
  ne_note :: unsigned_note

record nostr_lib =
  nl_secret :: "string \<Rightarrow> string + secret_key"
  nl_public_of :: "secret_key \<Rightarrow> public_key"
  nl_public :: "string \<Rightarrow> string + public_key"
  nl_bech32 :: "public_key \<Rightarrow> string + string"
  nl_sign :: "secret_key \<Rightarrow> unsigned_note \<Rightarrow> string + note_event"
  nl_json :: "string \<Rightarrow> string + json"

text \<open>\<open>with_context(|| c)\<close> on an error, as it is printed with its causes.\<close>

definition err_context :: "string \<Rightarrow> string + 'a \<Rightarrow> string + 'a" where
  "err_context c r = (case r of Inl e \<Rightarrow> Inl (c @ '': '' @ e) | Inr v \<Rightarrow> Inr v)"

lemma err_context_simps [simp]:
  "err_context c (Inl e) = Inl (c @ '': '' @ e)" "err_context c (Inr v) = Inr v"
  by (simp_all add: err_context_def)

section \<open>The signer\<close>

datatype signer_mode = LocalKey | Nip46Signer

fun signer_mode_as_str :: "signer_mode \<Rightarrow> string" where
  "signer_mode_as_str LocalKey = ''local_key''"
| "signer_mode_as_str Nip46Signer = ''nip46_signer''"

definition parse_signer_mode :: "string \<Rightarrow> string + signer_mode" where
  "parse_signer_mode raw =
     (let v = to_ascii_lowercase (trim raw)
      in if v = ''local_key'' \<or> v = ''local'' then Inr LocalKey
         else if v = ''nip46_signer'' \<or> v = ''nip46'' then Inr Nip46Signer
         else Inl (''invalid NOSTR_SIGNER_MODE `'' @ v @ ''` (supported: local_key, nip46_signer)''))"

record signer_identity =
  si_mode :: signer_mode
  si_public_key :: string

record signer_config =
  sn_mode :: signer_mode
  sn_local_secret_key :: "string option"
  sn_local_secret_key_file :: "path option"
  sn_nip46_bunker_uri :: "string option"
  sn_nip46_public_key :: "string option"
  sn_nip46_client_secret_key :: "string option"

definition signer_config_from_env :: "(string \<Rightarrow> string option) \<Rightarrow> string + signer_config" where
  "signer_config_from_env env =
     try_then (parse_signer_mode (unwrap_or (env ''NOSTR_SIGNER_MODE'') ''local_key'')) (\<lambda>mode.
     Inr \<lparr>sn_mode = mode, sn_local_secret_key = env ''NOSTR_SECRET_KEY'',
       sn_local_secret_key_file = Option.bind (env ''NOSTR_SECRET_KEY_FILE'') non_empty_trimmed,
       sn_nip46_bunker_uri = env ''NOSTR_NIP46_BUNKER_URI'',
       sn_nip46_public_key = or_else (env ''NOSTR_NIP46_PUBLIC_KEY'') (env ''NOSTR_PUBLIC_KEY''),
       sn_nip46_client_secret_key = env ''NOSTR_NIP46_CLIENT_SECRET_KEY''\<rparr>)"

text \<open>The key file: its permission bits, and its content.\<close>

record key_files =
  kf_mode :: "path \<Rightarrow> string + nat"
  kf_read :: "path \<Rightarrow> string + string"

fun octal :: "nat \<Rightarrow> string" where
  "octal n = (if n < 8 then [char_of (48 + n)] else octal (n div 8) @ [char_of (48 + n mod 8)])"

declare octal.simps [simp del]

text \<open>\<open>mode & 0o777\<close>, and the bits of group and others.\<close>

definition enforce_secret_file_permissions :: "key_files \<Rightarrow> path \<Rightarrow> string + unit" where
  "enforce_secret_file_permissions kf p =
     try_then (err_context (''failed to stat local key file `'' @ p @ ''`'') (kf_mode kf p)) (\<lambda>m.
       let mode = m mod 512 in
       if mode mod 64 \<noteq> 0
       then Inl (''local key file `'' @ p @ ''` is too permissive (mode '' @ octal mode @
         ''); require owner-only permissions (0600)'')
       else Inr ())"

definition parse_secret_key :: "nostr_lib \<Rightarrow> string \<Rightarrow> string + secret_key" where
  "parse_secret_key nl v =
     err_context ''failed to parse local Nostr secret key (expected nsec or hex format)'' (nl_secret nl v)"

definition load_local_secret_key :: "nostr_lib \<Rightarrow> key_files \<Rightarrow> signer_config \<Rightarrow> string + secret_key option" where
  "load_local_secret_key nl kf cfg =
     (case Option.bind (sn_local_secret_key cfg) non_empty_trimmed of
        Some v \<Rightarrow> try_then (parse_secret_key nl v) (\<lambda>k. Inr (Some k))
      | None \<Rightarrow>
          (case sn_local_secret_key_file cfg of
             None \<Rightarrow> Inr None
           | Some p \<Rightarrow>
               try_then (enforce_secret_file_permissions kf p) (\<lambda>_.
               try_then (err_context (''failed to read local key file `'' @ p @ ''`'') (kf_read kf p)) (\<lambda>content.
               case non_empty_trimmed content of
                 None \<Rightarrow> Inl (''local key file `'' @ p @ ''` is empty'')
               | Some v \<Rightarrow> try_then (parse_secret_key nl v) (\<lambda>k. Inr (Some k))))))"

definition resolve_local_identity :: "nostr_lib \<Rightarrow> key_files \<Rightarrow> signer_config \<Rightarrow> string + signer_identity option" where
  "resolve_local_identity nl kf cfg =
     try_then (load_local_secret_key nl kf cfg) (\<lambda>key.
       case key of
         None \<Rightarrow> Inr None
       | Some k \<Rightarrow>
           try_then (err_context ''failed to encode local signer public key'' (nl_bech32 nl (nl_public_of nl k))) (\<lambda>pk.
             Inr (Some \<lparr>si_mode = LocalKey, si_public_key = pk\<rparr>)))"

definition normalize_public_key :: "nostr_lib \<Rightarrow> string \<Rightarrow> string + string" where
  "normalize_public_key nl v =
     try_then (err_context ''failed to parse Nostr public key (expected npub or hex format)'' (nl_public nl v)) (\<lambda>pk.
       err_context ''failed to encode normalized Nostr public key'' (nl_bech32 nl pk))"

text \<open>The authority of a \<open>bunker://\<close> URI, if it is a public key.\<close>

definition after_scheme :: "string \<Rightarrow> string option" where
  "after_scheme uri = map_option (\<lambda>i. drop (i + 3) uri) (str_find uri ''://'')"

definition extract_bunker_pubkey :: "nostr_lib \<Rightarrow> string \<Rightarrow> string option" where
  "extract_bunker_pubkey nl uri =
     Option.bind (after_scheme uri) (\<lambda>rest.
     Option.bind (non_empty_trimmed (takeWhile (\<lambda>c. c \<notin> set ''/?#'') rest)) (\<lambda>candidate.
     case normalize_public_key nl candidate of Inl _ \<Rightarrow> None | Inr pk \<Rightarrow> Some pk))"

definition resolve_nip46_identity :: "nostr_lib \<Rightarrow> signer_config \<Rightarrow> string + signer_identity option" where
  "resolve_nip46_identity nl cfg =
     (case Option.bind (sn_nip46_bunker_uri cfg) non_empty_trimmed of
        None \<Rightarrow> Inl ''NOSTR_NIP46_BUNKER_URI is required when NOSTR_SIGNER_MODE=nip46_signer''
      | Some bunker_uri \<Rightarrow>
          try_then (try_map (normalize_public_key nl) (Option.bind (sn_nip46_public_key cfg) non_empty_trimmed)) (\<lambda>given.
          case or_else given (extract_bunker_pubkey nl bunker_uri) of
            None \<Rightarrow> Inl ''NIP-46 signer requires NOSTR_NIP46_PUBLIC_KEY or bunker URI containing the public key''
          | Some pk \<Rightarrow> Inr (Some \<lparr>si_mode = Nip46Signer, si_public_key = pk\<rparr>)))"

definition resolve_identity :: "nostr_lib \<Rightarrow> key_files \<Rightarrow> signer_config \<Rightarrow> string + signer_identity option" where
  "resolve_identity nl kf cfg =
     (case sn_mode cfg of
        LocalKey \<Rightarrow> resolve_local_identity nl kf cfg
      | Nip46Signer \<Rightarrow> resolve_nip46_identity nl cfg)"

text \<open>The key for publishing is read again, without the check of the permissions (\<open>worker/src/lib.rs\<close>).\<close>

definition resolve_local_secret_key_for_publish :: "nostr_lib \<Rightarrow> key_files \<Rightarrow> signer_config \<Rightarrow> string + secret_key" where
  "resolve_local_secret_key_for_publish nl kf cfg =
     (case Option.bind (sn_local_secret_key cfg) non_empty_trimmed of
        Some v \<Rightarrow> err_context ''failed to parse local Nostr secret key for publish'' (nl_secret nl v)
      | None \<Rightarrow>
          (case sn_local_secret_key_file cfg of
             Some p \<Rightarrow>
               try_then (err_context (''failed to read local Nostr secret key file for publish: '' @ p) (kf_read kf p)) (\<lambda>content.
               if trim content = [] then Inl (''local Nostr secret key file is empty: '' @ p)
               else err_context ''failed to parse local Nostr secret key from file for publish'' (nl_secret nl (trim content)))
           | None \<Rightarrow> Inl ''Nostr relay publish requires local key material (NOSTR_SECRET_KEY or NOSTR_SECRET_KEY_FILE)''))"

section \<open>Publishing\<close>

record relay_publish_result =
  rp_relay :: string
  rp_ok :: bool
  rp_message :: string

record nostr_publish_result =
  np_event_id :: string
  np_accepted_relays :: nat
  np_relay_results :: "relay_publish_result list"

text \<open>What a relay does: errors of connecting and sending, then its first frame, or none.\<close>

datatype ack_frame = AckText string | AckOther string | AckBroken string | AckClosed | AckTimeout

record ack_session =
  az_connect :: "string option"
  az_send :: "string option"
  az_ack :: ack_frame

definition parse_ack_message :: "nostr_lib \<Rightarrow> string \<Rightarrow> string \<Rightarrow> string + bool \<times> string" where
  "parse_ack_message nl t event_id =
     try_then (err_context ''invalid ACK JSON'' (nl_json nl t)) (\<lambda>v.
     case as_array v of
       None \<Rightarrow> Inl ''ACK message must be array''
     | Some arr \<Rightarrow>
         if length arr < 4 then Inl ''ACK message missing expected fields''
         else if as_str (arr ! 0) \<noteq> Some ''OK'' then Inl ''ACK message is not OK type''
         else case as_str (arr ! 1) of
           None \<Rightarrow> Inl ''ACK event id is not string''
         | Some ack_event_id \<Rightarrow>
             if ack_event_id \<noteq> event_id then Inl ''ACK event id mismatch''
             else case as_bool (arr ! 2) of
               None \<Rightarrow> Inl ''ACK success flag is not bool''
             | Some ok \<Rightarrow> Inr (ok, unwrap_or (as_str (arr ! 3)) []))"

definition publish_event_to_relay :: "nostr_lib \<Rightarrow> string \<Rightarrow> note_event \<Rightarrow> ack_session \<Rightarrow> string + relay_publish_result" where
  "publish_event_to_relay nl relay event z =
     (case az_connect z of
        Some e \<Rightarrow> Inl e
      | None \<Rightarrow>
     case az_send z of
        Some e \<Rightarrow> Inl e
      | None \<Rightarrow>
     case az_ack z of
        AckTimeout \<Rightarrow> Inl (''timeout waiting ACK from relay '' @ relay)
      | AckClosed \<Rightarrow> Inl (''relay '' @ relay @ '' closed connection without ACK'')
      | AckBroken e \<Rightarrow> Inl (''relay '' @ relay @ '' ACK stream error: '' @ e)
      | AckOther e \<Rightarrow> Inl (''unexpected non-text ACK frame: '' @ e)
      | AckText t \<Rightarrow>
          try_then (parse_ack_message nl t (ne_id event)) (\<lambda>(ok, message).
            Inr \<lparr>rp_relay = relay, rp_ok = ok, rp_message = message\<rparr>))"

definition relay_result :: "nostr_lib \<Rightarrow> note_event \<Rightarrow> (string \<Rightarrow> ack_session) \<Rightarrow> string \<Rightarrow> relay_publish_result" where
  "relay_result nl event session relay =
     (case err_context (''relay publish attempt failed for '' @ relay) (publish_event_to_relay nl relay event (session relay)) of
        Inr r \<Rightarrow> r
      | Inl e \<Rightarrow> \<lparr>rp_relay = relay, rp_ok = False, rp_message = e\<rparr>)"

text \<open>The event goes to every relay; it is published when one of them accepts it.\<close>

definition publish_signed_event ::
    "nostr_lib \<Rightarrow> note_event \<Rightarrow> string list \<Rightarrow> (string \<Rightarrow> ack_session) \<Rightarrow> string + nostr_publish_result" where
  "publish_signed_event nl event relays session =
     (if relays = [] then Inl ''Nostr relay list is empty''
      else let results = map (relay_result nl event session) relays;
               accepted = length (filter rp_ok results)
           in if accepted = 0 then Inl (''Nostr publish failed on all relays for event '' @ ne_id event)
              else Inr \<lparr>np_event_id = ne_id event, np_accepted_relays = accepted, np_relay_results = results\<rparr>)"

definition build_text_note_unsigned :: "public_key \<Rightarrow> public_key \<Rightarrow> string \<Rightarrow> unsigned_note" where
  "build_text_note_unsigned author recipient t = \<lparr>un_author = author, un_recipient = recipient, un_text = t\<rparr>"

section \<open>The remote signer\<close>

datatype connect_uri = Bunker public_key "string list" "string option" | ClientUri

datatype connect_request = Connect public_key "string option" | SignEvent unsigned_note

text \<open>
  One request on an open connection: composing, signing and sending it may fail, then frames arrive; \<open>cn_id\<close> is the
  id of the message, \<open>cn_event\<close> that of the event that carries it.
\<close>

record connect_exchange =
  cn_id :: string
  cn_event :: "string + string"
  cn_send :: "string option"
  cn_frames :: "(nat \<times> frame) list"
  cn_closes_after :: "nat option"

record connect_response =
  cp_error :: "string option"
  cp_result :: "json option"

record signer_lib =
  sl_uri :: "string \<Rightarrow> string + connect_uri"
  sl_keys :: "string \<Rightarrow> string + secret_key"
  sl_generate :: secret_key
  sl_hex :: "secret_key \<Rightarrow> string"
  sl_decrypt :: "secret_key \<Rightarrow> public_key \<Rightarrow> string \<Rightarrow> string + string"
  sl_decode :: "string \<Rightarrow> string + string \<times> json"
  sl_response :: "connect_request \<Rightarrow> json \<Rightarrow> string + connect_response"
  sl_to_ack :: "json \<Rightarrow> string + unit"
  sl_to_event :: "json \<Rightarrow> string + note_event"
  sl_public_of :: "secret_key \<Rightarrow> public_key"

definition method_name :: "connect_request \<Rightarrow> string" where
  "method_name q = (case q of Connect _ _ \<Rightarrow> ''connect'' | SignEvent _ \<Rightarrow> ''sign_event'')"

definition read_connect_event ::
    "signer_lib \<Rightarrow> secret_key \<Rightarrow> public_key \<Rightarrow> connect_request \<Rightarrow> string \<Rightarrow> string \<Rightarrow> (string + connect_response) option" where
  "read_connect_event sl app signer q request_id content =
     (case err_context ''failed decrypting NIP-46 response content'' (sl_decrypt sl app signer content) of
        Inl e \<Rightarrow> Some (Inl e)
      | Inr plain \<Rightarrow>
     case err_context ''failed decoding NIP-46 response message'' (sl_decode sl plain) of
        Inl e \<Rightarrow> Some (Inl e)
      | Inr (message_id, body) \<Rightarrow>
          if message_id \<noteq> request_id then None
          else Some (try_then (err_context (''invalid NIP-46 response for method '' @ method_name q) (sl_response sl q body)) (\<lambda>r.
            case cp_error r of
              Some e \<Rightarrow> Inl (''NIP-46 signer returned error: '' @ e)
            | None \<Rightarrow> Inr r)))"

fun await_connect ::
    "(string \<Rightarrow> (string + connect_response) option) \<Rightarrow> public_key \<Rightarrow> string \<Rightarrow> string \<Rightarrow> nat \<Rightarrow> nat option \<Rightarrow> nat \<Rightarrow>
     (nat \<times> frame) list \<Rightarrow> string + connect_response" where
  "await_connect read signer relay event_id budget closes elapsed [] =
     (if budget \<le> elapsed then Inl (''timeout waiting for NIP-46 response from relay '' @ relay)
      else case closes of
        Some d \<Rightarrow> if budget - elapsed < d then Inl (''timeout waiting for NIP-46 relay frame from '' @ relay)
                 else Inl (''relay '' @ relay @ '' closed connection during NIP-46 request'')
      | None \<Rightarrow> Inl (''timeout waiting for NIP-46 relay frame from '' @ relay))"
| "await_connect read signer relay event_id budget closes elapsed ((d, f) # fs) =
     (let go_on = await_connect read signer relay event_id budget closes (elapsed + d) fs in
      if budget \<le> elapsed then Inl (''timeout waiting for NIP-46 response from relay '' @ relay)
      else if budget - elapsed < d then Inl (''timeout waiting for NIP-46 relay frame from '' @ relay)
      else case f of
        BrokenFrame e \<Rightarrow> Inl (''NIP-46 relay frame error from '' @ relay @ '': '' @ e)
      | OkMessage i accepted message \<Rightarrow>
          if i = event_id \<and> \<not> accepted
          then Inl (''relay '' @ relay @ '' rejected NIP-46 request event: '' @ message)
          else go_on
      | EventMessage ev \<Rightarrow>
          if \<not> re_is_response ev \<or> re_pubkey ev \<noteq> signer then go_on
          else (case read (re_content ev) of None \<Rightarrow> go_on | Some r \<Rightarrow> r)
      | _ \<Rightarrow> go_on)"

definition send_request_and_wait_response ::
    "signer_lib \<Rightarrow> string \<Rightarrow> public_key \<Rightarrow> secret_key \<Rightarrow> connect_request \<Rightarrow> nat \<Rightarrow> connect_exchange \<Rightarrow> string + connect_response" where
  "send_request_and_wait_response sl relay signer app q budget x =
     (case cn_event x of
        Inl e \<Rightarrow> Inl e
      | Inr event_id \<Rightarrow>
     case cn_send x of
        Some e \<Rightarrow> Inl e
      | None \<Rightarrow> await_connect (read_connect_event sl app signer q (cn_id x)) signer relay event_id budget
          (cn_closes_after x) 0 (cn_frames x))"

text \<open>A session with a relay of the signer: connecting, subscribing, and the two exchanges.\<close>

record signer_session =
  sz_connect :: "string option"
  sz_subscribe :: "string option"
  sz_exchange :: "connect_request \<Rightarrow> connect_exchange"

definition sign_event_with_relay ::
    "signer_lib \<Rightarrow> unsigned_note \<Rightarrow> string \<Rightarrow> public_key \<Rightarrow> string option \<Rightarrow> secret_key \<Rightarrow> nat \<Rightarrow> signer_session \<Rightarrow>
     string + note_event" where
  "sign_event_with_relay sl unote relay signer bunker_secret app budget z =
     (case sz_connect z of
        Some e \<Rightarrow> Inl e
      | None \<Rightarrow>
     case sz_subscribe z of
        Some e \<Rightarrow> Inl e
      | None \<Rightarrow>
     (let hello = Connect (sl_public_of sl app) bunker_secret; ask = SignEvent unote in
      try_then (send_request_and_wait_response sl relay signer app hello budget (sz_exchange z hello)) (\<lambda>r1.
      case cp_result r1 of
        None \<Rightarrow> Inl ''missing NIP-46 connect result''
      | Some v1 \<Rightarrow>
          try_then (err_context ''NIP-46 connect request was not acknowledged'' (sl_to_ack sl v1)) (\<lambda>_.
          try_then (send_request_and_wait_response sl relay signer app ask budget (sz_exchange z ask)) (\<lambda>r2.
          case cp_result r2 of
            None \<Rightarrow> Inl ''missing NIP-46 sign_event result''
          | Some v2 \<Rightarrow> err_context ''invalid NIP-46 sign_event response payload'' (sl_to_event sl v2))))))"

record sign_outcome =
  so_signed_event :: note_event
  so_signer_relay :: string
  so_app_public_key :: string

fun first_signing_relay :: "(string \<Rightarrow> string + note_event) \<Rightarrow> string \<Rightarrow> string list \<Rightarrow> string list \<Rightarrow> string + sign_outcome" where
  "first_signing_relay sign app_pk [] errors =
     Inl (''all NIP-46 relays failed for signing: '' @ join '' | '' errors)"
| "first_signing_relay sign app_pk (relay # relays) errors =
     (case sign relay of
        Inr ev \<Rightarrow> Inr \<lparr>so_signed_event = ev, so_signer_relay = relay, so_app_public_key = app_pk\<rparr>
      | Inl e \<Rightarrow> first_signing_relay sign app_pk relays (errors @ [relay @ '': '' @ e]))"

definition sign_event_with_bunker ::
    "signer_lib \<Rightarrow> unsigned_note \<Rightarrow> string \<Rightarrow> string option \<Rightarrow> nat \<Rightarrow> (string \<Rightarrow> signer_session) \<Rightarrow> string + sign_outcome" where
  "sign_event_with_bunker sl unote bunker_uri app_secret_key budget session =
     try_then (err_context ''failed to parse NIP-46 bunker URI'' (sl_uri sl bunker_uri)) (\<lambda>uri.
     case uri of
       ClientUri \<Rightarrow> Inl ''NOSTR_NIP46_BUNKER_URI must use bunker:// scheme for remote signer mode''
     | Bunker signer relays bunker_secret \<Rightarrow>
         if relays = [] then Inl ''NIP-46 bunker URI does not include relay endpoints''
         else try_then (case Option.bind app_secret_key non_empty_trimmed of
             Some s \<Rightarrow> err_context ''failed to parse NOSTR_NIP46_CLIENT_SECRET_KEY'' (sl_keys sl s)
           | None \<Rightarrow> Inr (sl_generate sl)) (\<lambda>app.
           first_signing_relay (\<lambda>relay. sign_event_with_relay sl unote relay signer bunker_secret app budget (session relay))
             (sl_hex sl app) relays []))"

section \<open>Lemmas\<close>

text \<open>A key from a file is used as the identity only if the file is closed to group and others.\<close>

lemma key_file_private:
  assumes "load_local_secret_key nl kf cfg = Inr (Some k)" and "Option.bind (sn_local_secret_key cfg) non_empty_trimmed = None"
  shows "\<exists>p m. sn_local_secret_key_file cfg = Some p \<and> kf_mode kf p = Inr m \<and> m mod 64 = 0"
  using assms by (auto simp: load_local_secret_key_def enforce_secret_file_permissions_def try_then_Inr Let_def err_context_def
      mod_mod_cancel split: option.splits if_splits sum.splits)

text \<open>An event counts as published exactly if a relay acknowledges this event.\<close>

lemma published_iff:
  "(\<exists>r. publish_signed_event nl event relays session = Inr r) \<longleftrightarrow>
   (\<exists>relay\<in>set relays. \<exists>t message. az_connect (session relay) = None \<and> az_send (session relay) = None \<and>
      az_ack (session relay) = AckText t \<and> parse_ack_message nl t (ne_id event) = Inr (True, message))"
proof -
  have ok: "rp_ok (relay_result nl event session relay) \<longleftrightarrow>
     (\<exists>t message. az_connect (session relay) = None \<and> az_send (session relay) = None \<and>
      az_ack (session relay) = AckText t \<and> parse_ack_message nl t (ne_id event) = Inr (True, message))" for relay
    by (auto simp: relay_result_def publish_event_to_relay_def err_context_def try_then_def
        split: sum.splits option.splits ack_frame.splits prod.splits)
  have "(\<exists>r. publish_signed_event nl event relays session = Inr r) \<longleftrightarrow>
      relays \<noteq> [] \<and> filter rp_ok (map (relay_result nl event session) relays) \<noteq> []"
    by (simp add: publish_signed_event_def Let_def)
  also have "\<dots> \<longleftrightarrow> (\<exists>relay\<in>set relays. rp_ok (relay_result nl event session relay))"
    by (auto simp: filter_empty_conv)
  finally show ?thesis by (simp add: ok)
qed

end
