(* ===== verification/Messages.thy ===== *)
theory Messages
  imports NostrSigner
begin

text \<open>
  The connectors \<open>message.send\<close> and \<open>message.receive\<close> of \<open>worker/src/lib.rs\<close> with the Slack webhook of
  \<open>worker/src/slack.rs\<close>: the destination and its allowlist, the text with the last answer of the model filled in,
  delivery with retries, and the outbox file with its artifact row. The state holds the outbox and a
  ghost log of what left the process.
\<close>

section \<open>State\<close>

datatype message_out = SlackPost string string string | NostrPublish string note_event

record mail =
  ml_sent :: "message_out list"
  ml_slept :: "nat list"
  ml_files :: files
  ml_artifacts :: "new_artifact list"
  ml_step :: nat

datatype slack_exchange = SlackNoClient string | SlackNotSent string | SlackNoBody string | SlackReply nat string

record mail_outside =
  mo_uuid :: "nat \<Rightarrow> uuid"
  mo_fault :: "nat \<Rightarrow> string option"
  mo_sql_text :: "db_error \<Rightarrow> string"
  mo_pretty :: "json \<Rightarrow> string + string"
  mo_disk :: disk
  mo_slack :: "nat \<Rightarrow> string \<Rightarrow> string \<Rightarrow> string \<Rightarrow> slack_exchange"
  mo_nostr :: nostr_lib
  mo_keys :: key_files
  mo_relay :: "nat \<Rightarrow> string \<Rightarrow> ack_session"
  mo_signer :: signer_lib
  mo_signer_relay :: "nat \<Rightarrow> string \<Rightarrow> signer_session"

record mail_config =
  mc_artifact_root :: path
  mc_signer :: signer_config
  mc_nostr_relays :: "string list"
  mc_nostr_timeout :: nat
  mc_slack_webhook_url :: "string option"
  mc_slack_max_attempts :: nat
  mc_slack_retry_backoff_ms :: nat
  mc_whitenoise_allowlist :: "string list"
  mc_slack_allowlist :: "string list"

type_synonym 'a post = "(mail, 'a) action"

definition mail_ask :: "(nat \<Rightarrow> 'a) \<Rightarrow> 'a post" where
  "mail_ask f = (\<lambda>s. (Inr (f (ml_step s)), s\<lparr>ml_step := Suc (ml_step s)\<rparr>))"

section \<open>Destinations\<close>

datatype message_provider = WhiteNoise | Slack

fun message_provider_as_str :: "message_provider \<Rightarrow> string" where
  "message_provider_as_str WhiteNoise = ''whitenoise''"
| "message_provider_as_str Slack = ''slack''"

record message_destination =
  md_provider :: message_provider
  md_target :: string

definition parse_message_destination :: "string \<Rightarrow> string \<Rightarrow> string + message_destination" where
  "parse_message_destination act_name raw =
     (case split_once raw CHR '':'' of
        None \<Rightarrow> Inl (act_name @ '' destination must be provider-scoped'')
      | Some (provider_raw, target_raw) \<Rightarrow>
          let p = to_ascii_lowercase (trim provider_raw); target = trim target_raw
          in try_then
            (if p = ''whitenoise'' then Inr WhiteNoise
             else if p = ''slack'' then Inr Slack
             else Inl (act_name @ '' provider `'' @ p @ ''` is unsupported (expected whitenoise or slack)''))
            (\<lambda>provider. if target = []
               then Inl (act_name @ '' destination target must not be empty: '' @ raw)
               else Inr \<lparr>md_provider = provider, md_target = target\<rparr>))"

definition provider_allowlist :: "mail_config \<Rightarrow> message_provider \<Rightarrow> string list" where
  "provider_allowlist cfg p = (case p of WhiteNoise \<Rightarrow> mc_whitenoise_allowlist cfg | Slack \<Rightarrow> mc_slack_allowlist cfg)"

definition enforce_message_destination_allowlist :: "mail_config \<Rightarrow> message_destination \<Rightarrow> string \<Rightarrow> string + unit" where
  "enforce_message_destination_allowlist cfg d act_name =
     (let allowlist = provider_allowlist cfg (md_provider d); target = trim (md_target d)
      in if allowlist = [] then Inr ()
         else if list_ex (\<lambda>candidate. trim candidate = target) allowlist then Inr ()
         else Inl (act_name @ '' target `'' @ target @ ''` is not allowlisted for provider `'' @
           message_provider_as_str (md_provider d) @ ''`''))"

section \<open>Text\<close>

text \<open>\<open>str::replace\<close> of a pattern that is not empty: from the left, without overlaps.\<close>

function replace_all :: "string \<Rightarrow> string \<Rightarrow> string \<Rightarrow> string" where
  "replace_all pat new s =
     (if s = [] \<or> pat = [] then s
      else if starts_with s pat then new @ replace_all pat new (drop (length pat) s)
      else hd s # replace_all pat new (tl s))"
  by auto
termination by (relation "measure (\<lambda>(pat, new, s). length s)") (auto simp: length_drop)

declare replace_all.simps [simp del]

definition placeholder :: string where
  "placeholder = ''{{llm_response}}''"

definition message_content :: "string \<Rightarrow> json \<Rightarrow> string + string" where
  "message_content act_name args =
     (case or_else (get_str args ''text'') (get_str args ''content'') of
        None \<Rightarrow> Inl (act_name @ '' args.text (or args.content) is required'')
      | Some c \<Rightarrow> Inr c)"

definition fill_placeholder :: "string option \<Rightarrow> string \<Rightarrow> string + string" where
  "fill_placeholder llm content =
     (if \<not> contains content placeholder then Inr content
      else case llm of
        None \<Rightarrow> Inl ''message.send content placeholder requires prior llm.infer result''
      | Some response \<Rightarrow> Inr (replace_all placeholder response content))"

section \<open>Delivery\<close>

record delivery =
  dl_state :: string
  dl_result :: "json option"
  dl_error :: "string option"
  dl_context :: "json option"

definition send_webhook_message :: "mail_outside \<Rightarrow> string \<Rightarrow> string \<Rightarrow> string \<Rightarrow> (nat \<times> string) post" where
  "send_webhook_message mo url channel t = (\<lambda>s.
     (case mo_slack mo (ml_step s) url channel t of
        SlackNoClient e \<Rightarrow> Inl (''failed building Slack webhook HTTP client: '' @ e)
      | SlackNotSent e \<Rightarrow> Inl (''failed sending Slack webhook request: '' @ e)
      | SlackNoBody e \<Rightarrow> Inl (''failed reading Slack webhook response body: '' @ e)
      | SlackReply code body \<Rightarrow>
          if \<not> (200 \<le> code \<and> code < 300)
          then Inl (''Slack webhook returned HTTP '' @ nat_to_string code @ '' body='' @ body)
          else Inr (code, body),
      s\<lparr>ml_sent := ml_sent s @ [SlackPost url channel t], ml_step := Suc (ml_step s)\<rparr>))"

definition slack_backoff_ms :: "mail_config \<Rightarrow> nat \<Rightarrow> nat" where
  "slack_backoff_ms cfg attempt = min (mc_slack_retry_backoff_ms cfg * 2 ^ min (attempt - 1) 6) u64_max"

definition slack_context :: "mail_config \<Rightarrow> string \<Rightarrow> nat \<Rightarrow> nat \<Rightarrow> (string \<times> json) list \<Rightarrow> json" where
  "slack_context cfg status attempt max_attempts extra = jobj
     ([(''transport'', JString ''slack_webhook''), (''status'', JString status), (''attempts'', jnat attempt),
       (''max_attempts'', jnat max_attempts), (''retry_backoff_ms'', jnat (mc_slack_retry_backoff_ms cfg))] @ extra)"

text \<open>The loop; \<open>left\<close> attempts remain after this one, the \<open>attempt\<close>-th.\<close>

fun slack_attempts ::
    "mail_outside \<Rightarrow> mail_config \<Rightarrow> string \<Rightarrow> string \<Rightarrow> string \<Rightarrow> nat \<Rightarrow> nat \<Rightarrow> nat \<Rightarrow> string list \<Rightarrow> delivery post" where
  "slack_attempts mo cfg url channel t mx attempt left errors =
     handle (send_webhook_message mo url channel t)
       (\<lambda>e. case left of
          0 \<Rightarrow> ret \<lparr>dl_state = ''dead_lettered_local_outbox'', dl_result = None, dl_error = Some e,
                dl_context = Some (slack_context cfg ''dead_lettered'' attempt mx
                  [(''errors'', JArray (map JString (errors @ [e])))])\<rparr>
        | Suc l \<Rightarrow> (\<lambda>s. slack_attempts mo cfg url channel t mx (Suc attempt) l (errors @ [e])
              (s\<lparr>ml_slept := ml_slept s @ [slack_backoff_ms cfg attempt]\<rparr>)))
       (\<lambda>(code, body). ret \<lparr>dl_state = ''delivered_slack'',
          dl_result = Some (jobj [(''channel'', JString channel), (''status_code'', jnat code),
            (''response'', JString body), (''attempts'', jnat attempt)]),
          dl_error = None, dl_context = Some (slack_context cfg ''delivered'' attempt mx [])\<rparr>)"

declare slack_attempts.simps [simp del]

definition slack_max :: "mail_config \<Rightarrow> nat" where
  "slack_max cfg = max (mc_slack_max_attempts cfg) 1"

definition attempt_slack_send :: "mail_outside \<Rightarrow> mail_config \<Rightarrow> string \<Rightarrow> string \<Rightarrow> delivery post" where
  "attempt_slack_send mo cfg channel t =
     (case mc_slack_webhook_url cfg of
        None \<Rightarrow> ret \<lparr>dl_state = ''queued_local_outbox'', dl_result = None, dl_error = None,
          dl_context = Some (jobj [(''transport'', JString ''outbox_only''),
            (''reason'', JString ''SLACK_WEBHOOK_URL is not configured''),
            (''status'', JString ''queued_without_transport'')])\<rparr>
      | Some url \<Rightarrow> slack_attempts mo cfg url channel t (slack_max cfg) 1 (slack_max cfg - 1) [])"

text \<open>Publishing an event: it leaves for every relay that is reached.\<close>

definition publish_to_relays :: "mail_outside \<Rightarrow> note_event \<Rightarrow> string list \<Rightarrow> nostr_publish_result post" where
  "publish_to_relays mo event relays = (\<lambda>s.
     let session = mo_relay mo (ml_step s) in
     (publish_signed_event (mo_nostr mo) event relays session,
      s\<lparr>ml_sent := ml_sent s @ map (\<lambda>r. NostrPublish r event) (filter (\<lambda>r. az_connect (session r) = None) relays),
        ml_step := Suc (ml_step s)\<rparr>))"

definition publish_text_note :: "mail_outside \<Rightarrow> secret_key \<Rightarrow> string \<Rightarrow> string \<Rightarrow> string list \<Rightarrow> nostr_publish_result post" where
  "publish_text_note mo key recipient t relays =
     (let nl = mo_nostr mo in
      bind (lift (err_context ''message.send destination target must be npub/hex for whitenoise'' (nl_public nl recipient))) (\<lambda>pk.
      if relays = [] then fail ''Nostr relay list is empty''
      else
        bind (lift (err_context ''failed to build/sign Nostr text note event''
          (nl_sign nl key (build_text_note_unsigned (nl_public_of nl key) pk t)))) (\<lambda>event.
        publish_to_relays mo event relays)))"

definition attempt_whitenoise_publish ::
    "mail_outside \<Rightarrow> mail_config \<Rightarrow> signer_identity \<Rightarrow> string \<Rightarrow> string \<Rightarrow> (nostr_publish_result \<times> json option) post" where
  "attempt_whitenoise_publish mo cfg identity recipient t =
     (let nl = mo_nostr mo; sc = mc_signer cfg in
      bind (lift (err_context ''message.send destination target must be npub/hex for whitenoise'' (nl_public nl recipient))) (\<lambda>recipient_pk.
      case sn_mode sc of
        LocalKey \<Rightarrow>
          bind (lift (resolve_local_secret_key_for_publish nl (mo_keys mo) sc)) (\<lambda>key.
          bind (publish_text_note mo key recipient t (mc_nostr_relays cfg)) (\<lambda>r. ret (r, None)))
      | Nip46Signer \<Rightarrow>
          bind (lift (nl_public nl (si_public_key identity))) (\<lambda>signer_pk.
          case sn_nip46_bunker_uri sc of
            None \<Rightarrow> fail ''NOSTR_NIP46_BUNKER_URI is required for NIP-46 publish''
          | Some bunker_uri \<Rightarrow>
              bind (\<lambda>s. (sign_event_with_bunker (mo_signer mo) (build_text_note_unsigned signer_pk recipient_pk t) bunker_uri
                      (sn_nip46_client_secret_key sc) (mc_nostr_timeout cfg) (mo_signer_relay mo (ml_step s)),
                    s\<lparr>ml_step := Suc (ml_step s)\<rparr>)) (\<lambda>signed.
              bind (publish_to_relays mo (so_signed_event signed) (mc_nostr_relays cfg)) (\<lambda>r.
              ret (r, Some (jobj [(''nip46_signer_relay'', JString (so_signer_relay signed)),
                (''nip46_client_public_key'', JString (so_app_public_key signed))])))))))"

definition relay_result_json :: "relay_publish_result \<Rightarrow> json" where
  "relay_result_json r = jobj [(''relay'', JString (rp_relay r)), (''ok'', JBool (rp_ok r)), (''message'', JString (rp_message r))]"

definition deliver_whitenoise :: "mail_outside \<Rightarrow> mail_config \<Rightarrow> signer_identity \<Rightarrow> string \<Rightarrow> string \<Rightarrow> delivery post" where
  "deliver_whitenoise mo cfg identity target t =
     (if mc_nostr_relays cfg = []
      then ret \<lparr>dl_state = ''queued_local_outbox'', dl_result = None, dl_error = None,
        dl_context = Some (jobj [(''transport'', JString ''outbox_only'')])\<rparr>
      else handle (attempt_whitenoise_publish mo cfg identity target t)
        (\<lambda>e. ret \<lparr>dl_state = ''queued_local_outbox'', dl_result = None, dl_error = Some e, dl_context = None\<rparr>)
        (\<lambda>(r, ctx). ret \<lparr>dl_state = ''published_nostr'',
           dl_result = Some (jobj [(''event_id'', JString (np_event_id r)), (''accepted_relays'', jnat (np_accepted_relays r)),
             (''relay_results'', JArray (map relay_result_json (np_relay_results r)))]),
           dl_error = None, dl_context = ctx\<rparr>))"

section \<open>The outbox\<close>

definition mail_write_file :: "mail_outside \<Rightarrow> string \<Rightarrow> string \<Rightarrow> path \<Rightarrow> string \<Rightarrow> unit post" where
  "mail_write_file mo dir_error write_error full_path bytes = (\<lambda>s.
     case k_mkdir (mo_disk mo) (path_parent full_path) of
       Some e \<Rightarrow> (Inl (dir_error @ path_parent full_path @ '': '' @ e), s)
     | None \<Rightarrow>
         (case k_write (mo_disk mo) full_path bytes of
            Some (e, left) \<Rightarrow> (Inl (write_error @ full_path @ '': '' @ e), s\<lparr>ml_files := (ml_files s)(full_path := left)\<rparr>)
          | None \<Rightarrow> (Inr (), s\<lparr>ml_files := (ml_files s)(full_path \<mapsto> bytes)\<rparr>)))"

definition mail_artifact :: "mail_outside \<Rightarrow> new_artifact \<Rightarrow> new_artifact post" where
  "mail_artifact mo f = (\<lambda>s.
     let n = ml_step s; s1 = s\<lparr>ml_step := Suc n\<rparr> in
     case mo_fault mo n of
       Some e \<Rightarrow> (Inl e, s1)
     | None \<Rightarrow>
         if list_ex (\<lambda>g. f_id g = f_id f \<or> f_run g = f_run f \<and> f_path g = f_path f) (ml_artifacts s)
         then (Inl (mo_sql_text mo UniqueViolation), s1)
         else (Inr f, s1\<lparr>ml_artifacts := ml_artifacts s @ [f]\<rparr>))"

text \<open>The record as a file below the tenant's root, and its artifact row.\<close>

definition write_message ::
    "mail_outside \<Rightarrow> mail_config \<Rightarrow> run_row \<Rightarrow> string \<Rightarrow> string \<Rightarrow> string \<Rightarrow> path \<Rightarrow> json \<Rightarrow> new_artifact post" where
  "write_message mo cfg run what dir_error write_error dir v =
     bind (lift (err_context what (mo_pretty mo v))) (\<lambda>bytes.
     bind (mail_ask (mo_uuid mo)) (\<lambda>u.
     let relative_path = path_push dir (u @ ''.json'') in
     bind (lift (tenant_scoped_artifact_root (mc_artifact_root cfg) (r_tenant run))) (\<lambda>tenant_root.
     let full_path = path_push tenant_root relative_path in
     bind (mail_write_file mo dir_error write_error full_path bytes) (\<lambda>_.
     bind (mail_ask (mo_uuid mo)) (\<lambda>i.
     mail_artifact mo \<lparr>f_id = i, f_run = r_id run, f_path = relative_path, f_content_type = ''application/json'',
       f_size = int (length bytes), f_checksum = None, f_storage_ref = full_path\<rparr>)))))"

section \<open>The connectors\<close>

definition send_identity :: "mail_outside \<Rightarrow> mail_config \<Rightarrow> message_destination \<Rightarrow> string + signer_identity option" where
  "send_identity mo cfg d =
     (case md_provider d of
        Slack \<Rightarrow> Inr None
      | WhiteNoise \<Rightarrow>
          try_then (resolve_identity (mo_nostr mo) (mo_keys mo) (mc_signer cfg)) (\<lambda>identity.
          case identity of
            None \<Rightarrow> Inl ''message.send to White Noise requires a configured Nostr signer identity''
          | Some i \<Rightarrow> Inr (Some i)))"

definition deliver :: "mail_outside \<Rightarrow> mail_config \<Rightarrow> message_destination \<Rightarrow> signer_identity option \<Rightarrow> string \<Rightarrow> delivery post" where
  "deliver mo cfg d identity t =
     (case (md_provider d, identity) of
        (Slack, _) \<Rightarrow> attempt_slack_send mo cfg (md_target d) t
      | (WhiteNoise, Some i) \<Rightarrow> deliver_whitenoise mo cfg i (md_target d) t
      | (WhiteNoise, None) \<Rightarrow> fail ''message.send to White Noise requires a configured Nostr signer identity'')"

definition opt_or_null :: "json option \<Rightarrow> json" where
  "opt_or_null x = unwrap_or x JNull"

definition outbox_message :: "string \<Rightarrow> message_destination \<Rightarrow> string \<Rightarrow> signer_identity option \<Rightarrow> delivery \<Rightarrow> json" where
  "outbox_message destination d t identity x = jobj
     [(''provider'', JString (message_provider_as_str (md_provider d))), (''destination'', JString destination),
      (''target'', JString (md_target d)), (''text'', JString t),
      (''nostr_signer_mode'', opt_str_json (map_option (signer_mode_as_str \<circ> si_mode) identity)),
      (''nostr_public_key'', opt_str_json (map_option si_public_key identity)),
      (''delivery_state'', JString (dl_state x)), (''delivery_result'', opt_or_null (dl_result x)),
      (''delivery_error'', opt_str_json (dl_error x)), (''delivery_context'', opt_or_null (dl_context x))]"

definition message_send :: "mail_outside \<Rightarrow> mail_config \<Rightarrow> run_row \<Rightarrow> json \<Rightarrow> action_execution_context \<Rightarrow> json post" where
  "message_send mo cfg run args ctx =
     (case get_str args ''destination'' of
        None \<Rightarrow> fail ''message.send args.destination is required''
      | Some destination \<Rightarrow>
     bind (lift (message_content ''message.send'' args)) (\<lambda>content.
     bind (lift (fill_placeholder (last_llm_response_text ctx) content)) (\<lambda>t.
     bind (lift (parse_message_destination ''message.send'' destination)) (\<lambda>d.
     bind (lift (enforce_message_destination_allowlist cfg d ''message.send'')) (\<lambda>_.
     bind (lift (send_identity mo cfg d)) (\<lambda>identity.
     bind (deliver mo cfg d identity t) (\<lambda>x.
     bind (write_message mo cfg run ''failed serializing message.send outbox payload'' ''failed to create message outbox dir ''
       ''failed writing message outbox '' (path_push ''messages'' (message_provider_as_str (md_provider d)))
       (outbox_message destination d t identity x)) (\<lambda>f.
     ret (jobj [(''provider'', JString (message_provider_as_str (md_provider d))), (''destination'', JString destination),
       (''delivery_state'', JString (dl_state x)), (''artifact_id'', JString (f_id f)), (''path'', JString (f_path f)),
       (''size_bytes'', JNumber (PosInt (of_int (f_size f)))), (''storage_ref'', JString (f_storage_ref f)),
       (''nostr_public_key'', opt_str_json (map_option si_public_key identity)),
       (''delivery_result'', opt_or_null (dl_result x)), (''delivery_error'', opt_str_json (dl_error x)),
       (''delivery_context'', opt_or_null (dl_context x))])))))))))"

definition execute_message_send_action :: "mail_outside \<Rightarrow> mail_config \<Rightarrow> mail connector" where
  "execute_message_send_action mo cfg run request_id args ctx s =
     (case message_send mo cfg run args ctx s of (r, s') \<Rightarrow> (r, ctx, s'))"

definition message_receive :: "mail_outside \<Rightarrow> mail_config \<Rightarrow> run_row \<Rightarrow> json \<Rightarrow> json post" where
  "message_receive mo cfg run args =
     (case get_str args ''source'' of
        None \<Rightarrow> fail ''message.receive args.source is required''
      | Some source \<Rightarrow>
     bind (lift (message_content ''message.receive'' args)) (\<lambda>content.
     bind (lift (parse_message_destination ''message.receive'' source)) (\<lambda>d.
     bind (lift (enforce_message_destination_allowlist cfg d ''message.receive'')) (\<lambda>_.
     bind (write_message mo cfg run ''failed serializing message.receive payload'' ''failed to create message receive dir ''
       ''failed writing message receive artifact ''
       (path_push (path_push ''messages'' (message_provider_as_str (md_provider d))) ''received'')
       (jobj [(''direction'', JString ''inbound''), (''provider'', JString (message_provider_as_str (md_provider d))),
         (''source'', JString source), (''target'', JString (md_target d)), (''text'', JString content)])) (\<lambda>f.
     ret (jobj [(''direction'', JString ''inbound''), (''provider'', JString (message_provider_as_str (md_provider d))),
       (''source'', JString source), (''artifact_id'', JString (f_id f)), (''path'', JString (f_path f)),
       (''size_bytes'', JNumber (PosInt (of_int (f_size f)))), (''storage_ref'', JString (f_storage_ref f))]))))))"

definition execute_message_receive_action :: "mail_outside \<Rightarrow> mail_config \<Rightarrow> mail connector" where
  "execute_message_receive_action mo cfg run request_id args ctx s =
     (case message_receive mo cfg run args s of (r, s') \<Rightarrow> (r, ctx, s'))"

end
