(* ===== verification/MessageSafety.thy ===== *)
theory MessageSafety
  imports Messages
begin

text \<open>
  What leaves the process for a \<open>message.send\<close> action: only messages to an allowlisted target of the
  destination, with the text of the arguments, at most as often as configured; and every message that is reported
  is in the outbox.
\<close>

section \<open>What is sent\<close>

text \<open>
  \<open>posts n P m\<close>: whatever the outside answers, \<open>m\<close> sends at most \<open>n\<close> messages, all of them in \<open>P\<close>, and
  leaves the artifact rows as they are.
\<close>

definition posted :: "nat \<Rightarrow> (message_out \<Rightarrow> bool) \<Rightarrow> mail \<Rightarrow> mail \<Rightarrow> bool" where
  "posted n P s s' \<longleftrightarrow> ml_artifacts s' = ml_artifacts s \<and>
     (\<exists>new. ml_sent s' = ml_sent s @ new \<and> length new \<le> n \<and> list_all P new)"

lemma posted_refl: "ml_sent s' = ml_sent s \<Longrightarrow> ml_artifacts s' = ml_artifacts s \<Longrightarrow> posted n P s s'"
  by (simp add: posted_def)

lemma posted_trans: "posted n P s s1 \<Longrightarrow> posted k P s1 s2 \<Longrightarrow> n + k \<le> l \<Longrightarrow> posted l P s s2"
  unfolding posted_def
proof (elim conjE exE, intro conjI)
  fix a b
  assume "ml_sent s1 = ml_sent s @ a" "ml_sent s2 = ml_sent s1 @ b" "length a \<le> n" "length b \<le> k" "list_all P a" "list_all P b" "n + k \<le> l"
  then show "\<exists>new. ml_sent s2 = ml_sent s @ new \<and> length new \<le> l \<and> list_all P new"
    by (intro exI [of _ "a @ b"]) simp
qed simp

definition posts :: "nat \<Rightarrow> (message_out \<Rightarrow> bool) \<Rightarrow> 'a post \<Rightarrow> bool" where
  "posts n P m \<longleftrightarrow> (\<forall>s. wp m (\<lambda>_. posted n P s) (\<lambda>_. posted n P s) s)"

named_theorems posts_rules \<open>what the steps of a message send\<close>

lemma posts_silent [posts_rules]:
  "posts n P (ret v)" "posts n P (fail e)" "posts n P (lift r)"
  by (auto simp: posts_def wp_simps posted_refl split: sum.split)

lemma posts_handle:
  assumes "posts n P m" and "\<And>e. posts k P (h e)" and "\<And>v. posts k P (g v)" and "n + k \<le> l"
  shows "posts l P (handle m h g)"
  unfolding posts_def wp_handle
proof
  fix s
  have "wp x (\<lambda>_. posted l P s) (\<lambda>_. posted l P s) s1" if "posts k P x" "posted n P s s1" for x :: "'b post" and s1
    by (rule wp_mono [OF that(1) [unfolded posts_def, rule_format]]) (rule posted_trans [OF that(2) _ assms(4)], assumption)+
  then show "wp m (\<lambda>v. wp (g v) (\<lambda>_. posted l P s) (\<lambda>_. posted l P s)) (\<lambda>e. wp (h e) (\<lambda>_. posted l P s) (\<lambda>_. posted l P s)) s"
    by (intro wp_mono [OF assms(1) [unfolded posts_def, rule_format]]) (auto intro: assms)
qed

lemma bind_as_handle: "bind m k = handle m fail k"
  by (simp add: fun_eq_iff bind_def handle_def fail_def split: prod.split sum.split)

lemma posts_bind: "posts n P m \<Longrightarrow> (\<And>v. posts k P (g v)) \<Longrightarrow> n + k \<le> l \<Longrightarrow> posts l P (bind m g)"
  unfolding bind_as_handle by (rule posts_handle) (auto intro: posts_rules)

text \<open>A value that is computed, and then something that may send.\<close>

lemma posts_lift_bind: "(\<And>v. r = Inr v \<Longrightarrow> posts l P (g v)) \<Longrightarrow> posts l P (bind (lift r) g)"
  by (cases r) (auto simp: posts_def wp_simps posted_refl)

lemma posts_quiet: "(\<And>s. ml_sent (snd (m s)) = ml_sent s \<and> ml_artifacts (snd (m s)) = ml_artifacts s) \<Longrightarrow> posts n P m"
  unfolding posts_def wp_def by (metis (no_types, lifting) posted_refl prod.exhaust_sel case_prod_conv sum.case_eq_if)

section \<open>Slack and White Noise\<close>

lemma posts_webhook: "P (SlackPost url channel t) \<Longrightarrow> posts 1 P (send_webhook_message mo url channel t)"
  by (auto simp: posts_def wp_def send_webhook_message_def posted_def split: slack_exchange.split)

lemma posts_slack_attempts:
  assumes "P (SlackPost url channel t)"
  shows "posts (Suc left) P (slack_attempts mo cfg url channel t mx attempt left errors)"
proof (induction left arbitrary: attempt errors)
  case 0
  show ?case unfolding slack_attempts.simps [of mo cfg url channel t mx attempt 0]
    by (rule posts_handle [OF posts_webhook [where P=P, OF assms], where k=0]) (auto intro: posts_rules split: prod.split)
next
  case (Suc l)
  have sleep: "posts k P (\<lambda>s. m (s\<lparr>ml_slept := ml_slept s @ [b]\<rparr>))" if "posts k P m" for k b and m :: "delivery post"
    unfolding posts_def
  proof
    fix s
    have "wp m (\<lambda>_. posted k P (s\<lparr>ml_slept := ml_slept s @ [b]\<rparr>)) (\<lambda>_. posted k P (s\<lparr>ml_slept := ml_slept s @ [b]\<rparr>))
        (s\<lparr>ml_slept := ml_slept s @ [b]\<rparr>)" using that by (simp add: posts_def)
    then show "wp (\<lambda>s. m (s\<lparr>ml_slept := ml_slept s @ [b]\<rparr>)) (\<lambda>_. posted k P s) (\<lambda>_. posted k P s) s"
      by (simp add: wp_def posted_def split: prod.splits sum.splits)
  qed
  show ?case unfolding slack_attempts.simps [of mo cfg url channel t mx attempt "Suc l"]
    by (rule posts_handle [OF posts_webhook [where P=P, OF assms], where k="Suc l"])
      (auto intro!: sleep Suc.IH posts_rules split: prod.split)
qed

text \<open>
  A message of a delivery: to the webhook, for the channel of the destination; or to a configured relay, and with a
  local key the signed note of the text for the recipient.
\<close>

definition delivers :: "mail_outside \<Rightarrow> mail_config \<Rightarrow> message_destination \<Rightarrow> string \<Rightarrow> message_out \<Rightarrow> bool" where
  "delivers mo cfg d t m \<longleftrightarrow>
     (case md_provider d of
        Slack \<Rightarrow> (\<exists>url. mc_slack_webhook_url cfg = Some url \<and> m = SlackPost url (md_target d) t)
      | WhiteNoise \<Rightarrow> (\<exists>relay event. relay \<in> set (mc_nostr_relays cfg) \<and> m = NostrPublish relay event \<and>
          (sn_mode (mc_signer cfg) = LocalKey \<longrightarrow> (\<exists>key pk. nl_public (mo_nostr mo) (md_target d) = Inr pk \<and>
             nl_sign (mo_nostr mo) key (build_text_note_unsigned (nl_public_of (mo_nostr mo) key) pk t) = Inr event))))"

definition delivery_bound :: "mail_config \<Rightarrow> message_destination \<Rightarrow> nat" where
  "delivery_bound cfg d = (case md_provider d of Slack \<Rightarrow> slack_max cfg | WhiteNoise \<Rightarrow> length (mc_nostr_relays cfg))"

lemma posts_publish:
  assumes "\<And>relay. relay \<in> set relays \<Longrightarrow> P (NostrPublish relay event)"
  shows "posts (length relays) P (publish_to_relays mo event relays)"
  using assms unfolding posts_def wp_def publish_to_relays_def Let_def posted_def
  by (auto simp: list_all_iff split: sum.split)

lemma posts_whitenoise:
  assumes "md_provider d = WhiteNoise"
  shows "posts (delivery_bound cfg d) (delivers mo cfg d t) (deliver_whitenoise mo cfg i (md_target d) t)"
proof -
  define n where "n = length (mc_nostr_relays cfg)"
  have pub: "posts n (delivers mo cfg d t) (publish_to_relays mo event (mc_nostr_relays cfg))"
    if "sn_mode (mc_signer cfg) = LocalKey \<Longrightarrow> \<exists>key pk. nl_public (mo_nostr mo) (md_target d) = Inr pk \<and>
         nl_sign (mo_nostr mo) key (build_text_note_unsigned (nl_public_of (mo_nostr mo) key) pk t) = Inr event" for event
    unfolding n_def by (rule posts_publish) (use that assms in \<open>auto simp: delivers_def\<close>)
  have note': "posts n (delivers mo cfg d t) (publish_text_note mo key (md_target d) t (mc_nostr_relays cfg))" for key
    unfolding publish_text_note_def Let_def
    by (auto intro!: posts_lift_bind pub posts_rules simp: err_context_def split: sum.splits) blast+
  have sign: "posts 0 P (\<lambda>s. (f s, s\<lparr>ml_step := Suc (ml_step s)\<rparr>))" for P and f :: "mail \<Rightarrow> string + sign_outcome"
    by (rule posts_quiet) simp
  have att: "posts n (delivers mo cfg d t) (attempt_whitenoise_publish mo cfg i (md_target d) t)"
  proof (cases "sn_mode (mc_signer cfg)")
    case LocalKey
    then show ?thesis unfolding attempt_whitenoise_publish_def Let_def
      by (auto intro!: posts_lift_bind posts_bind [OF note', where k=0] posts_rules)
  next
    case Nip46Signer
    then show ?thesis unfolding attempt_whitenoise_publish_def Let_def
      by (auto intro!: posts_lift_bind posts_bind [OF sign, where k=n] posts_bind [OF pub, where k=0] posts_rules split: option.split)
  qed
  show ?thesis unfolding deliver_whitenoise_def
    using assms by (auto simp: delivery_bound_def n_def [symmetric] intro!: posts_rules posts_handle [OF att, where k=0] split: prod.split)
qed

lemma posts_deliver: "posts (delivery_bound cfg d) (delivers mo cfg d t) (deliver mo cfg d identity t)"
proof (cases "md_provider d")
  case WhiteNoise
  then show ?thesis by (auto simp: deliver_def posts_whitenoise intro: posts_rules split: option.split)
next
  case Slack
  then have "posts (Suc (slack_max cfg - 1)) (delivers mo cfg d t) (slack_attempts mo cfg url (md_target d) t mx a (slack_max cfg - 1) es)"
    if "mc_slack_webhook_url cfg = Some url" for url mx a es
    by (intro posts_slack_attempts) (simp add: delivers_def that)
  with Slack show ?thesis
    by (auto simp: deliver_def attempt_slack_send_def delivery_bound_def slack_max_def intro: posts_rules split: option.split)
qed

section \<open>Whole actions\<close>

text \<open>Writing the outbox sends nothing, and a row that it returns is in the table.\<close>

lemma wp_write_message:
  "wp (write_message mo cfg run what e1 e2 dir v)
     (\<lambda>f s'. ml_sent s' = ml_sent s \<and> f \<in> set (ml_artifacts s') \<and> f_run f = r_id run) (\<lambda>_ s'. ml_sent s' = ml_sent s) s"
proof -
  have written: "wp (mail_write_file mo e1 e2 q b) (\<lambda>_ s'. ml_sent s' = ml_sent s1) (\<lambda>_ s'. ml_sent s' = ml_sent s1) s1" for q b s1
    by (auto simp: wp_def mail_write_file_def split: option.split)
  have art: "wp (mail_artifact mo f) (\<lambda>f' s'. ml_sent s' = ml_sent s1 \<and> f' \<in> set (ml_artifacts s') \<and> f_run f' = f_run f)
      (\<lambda>_ s'. ml_sent s' = ml_sent s1) s1" for f s1
    by (auto simp: wp_def mail_artifact_def Let_def split: option.split)
  have ask: "wp (mail_ask g) Q E = (\<lambda>s. Q (g (ml_step s)) (s\<lparr>ml_step := Suc (ml_step s)\<rparr>))" for g :: "nat \<Rightarrow> uuid" and Q E
    by (simp add: fun_eq_iff wp_def mail_ask_def)
  show ?thesis unfolding write_message_def Let_def
    by (auto simp: wp_bind wp_lift ask split: sum.split intro!: wp_mono [OF written] wp_mono [OF art])
qed

text \<open>Allowed by configuration: the list of the provider is empty, or names the target.\<close>

definition allowlisted :: "mail_config \<Rightarrow> message_destination \<Rightarrow> bool" where
  "allowlisted cfg d \<longleftrightarrow> provider_allowlist cfg (md_provider d) = [] \<or>
     trim (md_target d) \<in> trim ` set (provider_allowlist cfg (md_provider d))"

lemma enforce_allowlist: "enforce_message_destination_allowlist cfg d a = Inr u \<longleftrightarrow> allowlisted cfg d"
  by (auto simp: enforce_message_destination_allowlist_def allowlisted_def Let_def list_ex_iff image_iff)
    (metis (full_types))

text \<open>What a call sends and what it reports.\<close>

definition message_sent :: "mail_outside \<Rightarrow> mail_config \<Rightarrow> run_row \<Rightarrow> json \<Rightarrow> action_execution_context \<Rightarrow> mail \<Rightarrow> mail \<Rightarrow> bool" where
  "message_sent mo cfg run args ctx s s' \<longleftrightarrow> ml_sent s' = ml_sent s \<or>
     (\<exists>destination content t d new. get_str args ''destination'' = Some destination \<and>
        message_content ''message.send'' args = Inr content \<and> fill_placeholder (last_llm_response_text ctx) content = Inr t \<and>
        parse_message_destination ''message.send'' destination = Inr d \<and> allowlisted cfg d \<and>
        ml_sent s' = ml_sent s @ new \<and> length new \<le> delivery_bound cfg d \<and> list_all (delivers mo cfg d t) new)"

lemma wp_message_send:
  "wp (message_send mo cfg run args ctx)
     (\<lambda>_ s'. message_sent mo cfg run args ctx s s' \<and> (\<exists>f\<in>set (ml_artifacts s'). f_run f = r_id run))
     (\<lambda>_. message_sent mo cfg run args ctx s) s"
proof -
  have quiet: "message_sent mo cfg run args ctx s s" by (simp add: message_sent_def)
  have go: "wp (bind (deliver mo cfg d identity t) (\<lambda>x. bind (write_message mo cfg run a b c (path_push ''messages'' (message_provider_as_str (md_provider d))) (v x)) (\<lambda>f. ret (w x f))))
      (\<lambda>_ s'. message_sent mo cfg run args ctx s s' \<and> (\<exists>f\<in>set (ml_artifacts s'). f_run f = r_id run))
      (\<lambda>_. message_sent mo cfg run args ctx s) s"
    if "get_str args ''destination'' = Some destination" "message_content ''message.send'' args = Inr content"
      "fill_placeholder (last_llm_response_text ctx) content = Inr t"
      "parse_message_destination ''message.send'' destination = Inr d" "allowlisted cfg d"
    for destination content t d identity a b c v and w :: "delivery \<Rightarrow> new_artifact \<Rightarrow> json"
  proof -
    have sent: "message_sent mo cfg run args ctx s s'"
      if "posted (delivery_bound cfg d) (delivers mo cfg d t) s s1" "ml_sent s' = ml_sent s1" for s1 s'
      using that \<open>get_str _ _ = _\<close> \<open>message_content _ _ = _\<close> \<open>fill_placeholder _ _ = _\<close> \<open>parse_message_destination _ _ = _\<close> \<open>allowlisted _ _\<close>
      unfolding message_sent_def posted_def by (metis (no_types, lifting))
    show ?thesis unfolding wp_bind wp_ret
      by (rule wp_mono [OF posts_deliver [unfolded posts_def, rule_format]])
        (auto intro: sent intro!: wp_mono [OF wp_write_message])
  qed
  show ?thesis unfolding message_send_def
    apply (simp only: wp_bind wp_fail split: option.split)
    apply (intro conjI allI impI)
     apply (simp add: quiet wp_fail)
    apply (simp only: wp_lift wp_bind split: sum.split)
    apply (intro conjI allI impI; (rule quiet)?)
    apply (rule go [unfolded wp_bind]; assumption?)
    apply (simp only: enforce_allowlist)
    done
qed


text \<open>
  The limit on the size of a message is judged on the arguments, before the answer of the model is filled in: a short
  argument can become a text of any length.
\<close>

lemma placeholder_exceeds_any_limit:
  "\<exists>t. fill_placeholder (Some llm) placeholder = Inr t \<and> length llm \<le> length t"
proof -
  have "contains placeholder placeholder" by code_simp
  moreover have "starts_with placeholder placeholder" "placeholder \<noteq> []" by code_simp+
  ultimately show ?thesis
    by (simp add: fill_placeholder_def replace_all.simps [of placeholder llm placeholder])
qed

section \<open>A message\<close>

definition sample_mail_outside :: mail_outside where
  "sample_mail_outside = \<lparr>mo_uuid = (\<lambda>n. replicate n (CHR ''u'')), mo_fault = (\<lambda>_. None), mo_sql_text = (\<lambda>_. ''sql''),
     mo_pretty = (\<lambda>_. Inr ''{}''), mo_disk = sample_disk, mo_slack = (\<lambda>n _ _ _. if n = 0 then SlackReply 500 ''busy'' else SlackReply 200 ''ok''),
     mo_nostr = \<lparr>nl_secret = Inr, nl_public_of = id, nl_public = Inr, nl_bech32 = Inr, nl_sign = (\<lambda>_ _. Inl ''no''), nl_json = (\<lambda>_. Inl ''no'')\<rparr>,
     mo_keys = \<lparr>kf_mode = (\<lambda>_. Inl ''no''), kf_read = (\<lambda>_. Inl ''no'')\<rparr>,
     mo_relay = (\<lambda>_ _. \<lparr>az_connect = Some ''no'', az_send = None, az_ack = AckTimeout\<rparr>),
     mo_signer = \<lparr>sl_uri = (\<lambda>_. Inl ''no''), sl_keys = Inr, sl_generate = [], sl_hex = id, sl_decrypt = (\<lambda>_ _. Inr), sl_decode = (\<lambda>_. Inl ''no''),
       sl_response = (\<lambda>_ _. Inl ''no''), sl_to_ack = (\<lambda>_. Inr ()), sl_to_event = (\<lambda>_. Inl ''no''), sl_public_of = id\<rparr>,
     mo_signer_relay = (\<lambda>_ _. \<lparr>sz_connect = Some ''no'', sz_subscribe = None,
       sz_exchange = (\<lambda>_. \<lparr>cn_id = [], cn_event = Inl ''no'', cn_send = None, cn_frames = [], cn_closes_after = None\<rparr>)\<rparr>)\<rparr>"

definition sample_mail_config :: mail_config where
  "sample_mail_config = \<lparr>mc_artifact_root = ''/art'',
     mc_signer = \<lparr>sn_mode = LocalKey, sn_local_secret_key = None, sn_local_secret_key_file = None, sn_nip46_bunker_uri = None,
       sn_nip46_public_key = None, sn_nip46_client_secret_key = None\<rparr>,
     mc_nostr_relays = [], mc_nostr_timeout = 5, mc_slack_webhook_url = Some ''https://hook'', mc_slack_max_attempts = 3,
     mc_slack_retry_backoff_ms = 100, mc_whitenoise_allowlist = [], mc_slack_allowlist = [''C1'']\<rparr>"

definition empty_mail :: mail where
  "empty_mail = \<lparr>ml_sent = [], ml_slept = [], ml_files = Map.empty, ml_artifacts = [], ml_step = 0\<rparr>"

definition sample_mail_args :: json where
  "sample_mail_args = jobj [(''destination'', JString ''slack:C1''), (''text'', JString ''hi'')]"

lemma sample_mail_parsed:
  "get_str sample_mail_args ''destination'' = Some ''slack:C1''" "message_content ''message.send'' sample_mail_args = Inr ''hi''"
  "fill_placeholder llm ''hi'' = Inr ''hi''"
  "parse_message_destination ''message.send'' ''slack:C1'' = Inr \<lparr>md_provider = Slack, md_target = ''C1''\<rparr>"
proof -
  have "\<not> contains ''hi'' placeholder" by code_simp
  then show "fill_placeholder llm ''hi'' = Inr ''hi''" by (simp add: fill_placeholder_def)
qed code_simp+


end
