(* ===== verification/Secrets.thy ===== *)
theory Secrets
  imports Utf8 Effects
begin

text \<open>
  Secrets, \<open>core/src/secrets.rs\<close>: references to an environment variable, a file or a secret in one of
  four stores that are asked through their command line clients, and the cache in front of them. The
  state holds the cache with its lock, a count of the looks at the outside world, and a ghost log of the
  programs that were started. What the outside answers at its \<open>n\<close>-th look is an argument: environment, files, programs
  and the monotonic clock, in nanoseconds.

  A failure is the chain of its messages, the outermost first; a panic of the thread is a result of its
  own, and leaves a lock it holds poisoned.
\<close>

section \<open>State\<close>

datatype secret_failure = Failed "string list" | Panicked

record cached_secret_value =
  cv_value :: string
  cv_expires_at :: nat

record secret_state =
  sv_moment :: nat
  sv_cache :: "(string \<times> cached_secret_value) list"
  sv_poisoned :: bool
  sv_runs :: "(string \<times> string list) list"

record cli_output =
  co_success :: bool
  co_stdout :: string
  co_stderr :: string

text \<open>
  \<open>sx_elapsed\<close> is the time that passes between two looks. \<open>sx_seed\<close> decides where a \<open>HashMap\<close> starts to list its
  keys: the code only takes the first key that fits, which can be any. \<open>sx_json\<close>, \<open>sx_to_json\<close> and \<open>sx_number\<close> are the
  JSON reader and writer.
\<close>

record secret_world =
  sx_env :: "nat \<Rightarrow> string \<Rightarrow> string + string"
  sx_read :: "nat \<Rightarrow> string \<Rightarrow> string + string"
  sx_cli :: "nat \<Rightarrow> string \<Rightarrow> string list \<Rightarrow> string + cli_output"
  sx_elapsed :: "nat \<Rightarrow> nat"
  sx_seed :: "nat \<Rightarrow> nat"
  sx_json :: "string \<Rightarrow> string + json"
  sx_to_json :: "json \<Rightarrow> string + string"
  sx_number :: "json_num \<Rightarrow> string"

definition sx_clock :: "secret_world \<Rightarrow> nat \<Rightarrow> nat" where
  "sx_clock sx n = sum_list (map (sx_elapsed sx) [0..<n])"

definition sx_order :: "secret_world \<Rightarrow> nat \<Rightarrow> string list \<Rightarrow> string list" where
  "sx_order sx n ks = rotate (sx_seed sx n) ks"

type_synonym 'a secret_result = "secret_failure + 'a"
type_synonym 'a secret_comp = "secret_state \<Rightarrow> 'a secret_result \<times> secret_state"

definition failed :: "string \<Rightarrow> 'a secret_result" where
  "failed e = Inl (Failed [e])"

text \<open>\<open>with_context(|| c)\<close> on an error of a library, and on an error of this module.\<close>

definition caused :: "string \<Rightarrow> string + 'a \<Rightarrow> 'a secret_result" where
  "caused c r = (case r of Inl e \<Rightarrow> Inl (Failed [c, e]) | Inr v \<Rightarrow> Inr v)"

text \<open>\<open>let v = m?; k(v)\<close>\<close>

definition then_do :: "'a secret_comp \<Rightarrow> ('a \<Rightarrow> 'b secret_comp) \<Rightarrow> 'b secret_comp" where
  "then_do m k = (\<lambda>s. case m s of (Inl e, s') \<Rightarrow> (Inl e, s') | (Inr v, s') \<Rightarrow> k v s')"

definition at_moment :: "(nat \<Rightarrow> 'a secret_comp) \<Rightarrow> 'a secret_comp" where
  "at_moment f = (\<lambda>s. f (sv_moment s) s)"

definition give :: "'a secret_result \<Rightarrow> 'a secret_comp" where
  "give r = (\<lambda>s. (r, s))"

section \<open>References\<close>

datatype secret_backend = EnvBackend | FileBackend | Vault | AwsSecretsManager | GcpSecretManager | AzureKeyVault

fun backend_as_str :: "secret_backend \<Rightarrow> string" where
  "backend_as_str EnvBackend = ''env''"
| "backend_as_str FileBackend = ''file''"
| "backend_as_str Vault = ''vault''"
| "backend_as_str AwsSecretsManager = ''aws-sm''"
| "backend_as_str GcpSecretManager = ''gcp-sm''"
| "backend_as_str AzureKeyVault = ''azure-kv''"

record secret_reference =
  rf_backend :: secret_backend
  rf_key :: string

definition parse_backend :: "string \<Rightarrow> secret_backend secret_result" where
  "parse_backend name =
     (if name = ''env'' then Inr EnvBackend
      else if name = ''file'' then Inr FileBackend
      else if name = ''vault'' then Inr Vault
      else if name = ''aws-sm'' then Inr AwsSecretsManager
      else if name = ''gcp-sm'' then Inr GcpSecretManager
      else if name = ''azure-kv'' then Inr AzureKeyVault
      else failed (''unsupported secret backend `'' @ name @ ''` (supported: env, file, vault, aws-sm, gcp-sm, azure-kv)''))"

definition parse_secret_reference :: "string \<Rightarrow> secret_reference secret_result" where
  "parse_secret_reference raw =
     (case split_once (trim raw) CHR '':'' of
        None \<Rightarrow> failed ''secret reference must be scheme-prefixed (e.g., env:VAR)''
      | Some (scheme, key) \<Rightarrow>
          try_then (parse_backend (to_ascii_lowercase (trim scheme))) (\<lambda>backend.
          if trim key = [] then failed ''secret reference key/path must not be empty''
          else Inr \<lparr>rf_backend = backend, rf_key = trim key\<rparr>))"

definition cache_key :: "secret_reference \<Rightarrow> string" where
  "cache_key r = backend_as_str (rf_backend r) @ '':'' @ rf_key r"

section \<open>Parameters of a key\<close>

text \<open>The pairs of the query, later ones over earlier ones.\<close>

fun query_params :: "string list \<Rightarrow> (string \<times> string) list \<Rightarrow> (string \<times> string) list secret_result" where
  "query_params [] ps = Inr ps"
| "query_params (pair # pairs) ps =
     (if trim pair = [] then query_params pairs ps
      else case split_once pair CHR ''='' of
        None \<Rightarrow> failed (''invalid secret query parameter `'' @ pair @ ''`; expected k=v'')
      | Some (raw_key, raw_value) \<Rightarrow>
          let key = to_ascii_lowercase (trim raw_key); value = trim raw_value
          in if key = [] \<or> value = []
             then failed (''invalid secret query parameter `'' @ pair @ ''`; key and value must be non-empty'')
             else query_params pairs (obj_insert key value ps))"

definition split_key_and_params :: "string \<Rightarrow> (string \<times> (string \<times> string) list) secret_result" where
  "split_key_and_params raw =
     (let trimmed = trim raw;
          (base, query) = (case split_once trimmed CHR ''?'' of
             Some (base, query) \<Rightarrow> (trim base, Some (trim query)) | None \<Rightarrow> (trimmed, None))
      in if base = [] then failed ''secret reference key/path must not be empty''
         else case query of
           None \<Rightarrow> Inr (base, [])
         | Some q \<Rightarrow>
             if q = [] then failed ''secret reference query string must not be empty''
             else try_then (query_params (split_on q CHR ''&'') []) (\<lambda>ps. Inr (base, ps)))"

fun unknown_param :: "string list \<Rightarrow> string list \<Rightarrow> unit secret_result" where
  "unknown_param allowed [] = Inr ()"
| "unknown_param allowed (key # keys) =
     (if key \<in> set allowed then unknown_param allowed keys
      else failed (''unsupported secret query parameter `'' @ key @ ''`; allowed: '' @ join '', '' allowed))"

definition ensure_only_known_params ::
    "secret_world \<Rightarrow> nat \<Rightarrow> (string \<times> string) list \<Rightarrow> string list \<Rightarrow> unit secret_result" where
  "ensure_only_known_params sx n params allowed = unknown_param allowed (sx_order sx n (map fst params))"

definition param :: "(string \<times> string) list \<Rightarrow> string \<Rightarrow> string option" where
  "param params key = Option.bind (map_of params key) (\<lambda>v. if trim v = [] then None else Some v)"

section \<open>Command line clients\<close>

definition run_cli :: "secret_world \<Rightarrow> string \<Rightarrow> string list \<Rightarrow> string \<Rightarrow> string secret_comp" where
  "run_cli sx program args ctx = (\<lambda>s.
     (try_then (caused (''failed launching `'' @ program @ ''` CLI'') (sx_cli sx (sv_moment s) program args)) (\<lambda>output.
      if \<not> co_success output then failed (ctx @ '': '' @ trim (from_utf8_lossy (co_stderr output)))
      else if \<not> is_utf8 (co_stdout output) then Inl (Failed [''CLI output was not UTF-8'', ''invalid utf-8 sequence''])
      else if trim (co_stdout output) = [] then failed (ctx @ '': CLI returned empty secret value'')
      else Inr (trim (co_stdout output))),
      s\<lparr>sv_moment := Suc (sv_moment s), sv_runs := sv_runs s @ [(program, args)]\<rparr>))"

definition value_from_json :: "secret_world \<Rightarrow> json \<Rightarrow> string secret_result" where
  "value_from_json sx v =
     (case v of
        JString s \<Rightarrow> Inr (trim s)
      | JNumber n \<Rightarrow> Inr (sx_number sx n)
      | JBool b \<Rightarrow> Inr (if b then ''true'' else ''false'')
      | other \<Rightarrow> caused ''failed encoding JSON secret value'' (sx_to_json sx other))"

text \<open>The field asked for of a version of a Vault secret, or its only field.\<close>

definition vault_value :: "secret_world \<Rightarrow> string option \<Rightarrow> string \<Rightarrow> string secret_result" where
  "vault_value sx field output =
     try_then (caused ''failed decoding vault JSON output'' (sx_json sx output)) (\<lambda>parsed.
     case Option.bind (Option.bind (json_get parsed ''data'') (\<lambda>v. json_get v ''data'')) as_object of
       None \<Rightarrow> failed ''vault response missing data.data object''
     | Some data \<Rightarrow>
         (case field of
            Some f \<Rightarrow>
              (case map_of data f of
                 None \<Rightarrow> failed (''vault secret missing field `'' @ f @ ''`'')
               | Some v \<Rightarrow> value_from_json sx v)
          | None \<Rightarrow>
              (case data of
                 [(_, v)] \<Rightarrow> value_from_json sx v
               | _ \<Rightarrow> failed ''vault secret has multiple fields; use vault:path#field to select one'')))"

definition resolve_with_vault_cli :: "secret_world \<Rightarrow> string \<Rightarrow> string secret_comp" where
  "resolve_with_vault_cli sx key = at_moment (\<lambda>n. then_do
     (give (try_then (split_key_and_params key) (\<lambda>(base_key, params).
        try_then (ensure_only_known_params sx n params [''version'']) (\<lambda>_.
        Inr (base_key, params)))))
     (\<lambda>(base_key, params).
        let (path, field) = (case split_once base_key CHR ''#'' of
              Some (path, field) \<Rightarrow> (trim path, Some (trim field)) | None \<Rightarrow> (trim base_key, None));
            version = (case param params ''version'' of Some v \<Rightarrow> [''-version='' @ v] | None \<Rightarrow> [])
        in then_do (run_cli sx ''vault'' ([''kv'', ''get'', ''-format=json''] @ version @ [path]) ''vault secret fetch failed'')
             (\<lambda>output. give (vault_value sx field output))))"

definition resolve_with_aws_sm_cli :: "secret_world \<Rightarrow> string \<Rightarrow> string secret_comp" where
  "resolve_with_aws_sm_cli sx key = at_moment (\<lambda>n. then_do
     (give (try_then (split_key_and_params key) (\<lambda>(secret_id, params).
        try_then (ensure_only_known_params sx n params [''version_id'', ''version_stage'']) (\<lambda>_.
        if param params ''version_id'' \<noteq> None \<and> param params ''version_stage'' \<noteq> None
        then failed ''aws secret reference must include at most one of `version_id` or `version_stage`''
        else Inr (secret_id, params)))))
     (\<lambda>(secret_id, params). run_cli sx ''aws''
        ([''secretsmanager'', ''get-secret-value'', ''--secret-id'', secret_id, ''--query'', ''SecretString'', ''--output'', ''text'']
         @ (case param params ''version_id'' of Some v \<Rightarrow> [''--version-id'', v] | None \<Rightarrow> [])
         @ (case param params ''version_stage'' of Some v \<Rightarrow> [''--version-stage'', v] | None \<Rightarrow> []))
        ''aws secrets manager fetch failed''))"

definition trim_slashes :: "string \<Rightarrow> string" where
  "trim_slashes s = rev (dropWhile (\<lambda>c. c = CHR ''/'') (rev (dropWhile (\<lambda>c. c = CHR ''/'') s)))"

text \<open>The two forms of a key; the first one that fits decides.\<close>

definition gcp_path_key :: "string option \<Rightarrow> string \<Rightarrow> (string \<times> string \<times> string) option secret_result" where
  "gcp_path_key query_version normalized =
     (let parts = split_on normalized CHR ''/'';
          project = parts ! 1; secret = parts ! 3; version = parts ! 5
      in if contains normalized ''/secrets/'' \<and> contains normalized ''/versions/'' \<and> 6 \<le> length parts \<and>
            project \<noteq> [] \<and> secret \<noteq> [] \<and> version \<noteq> []
         then (if query_version \<noteq> None \<and> query_version \<noteq> Some version
               then failed ''gcp secret reference version mismatch between path and query parameter''
               else Inr (Some (project, secret, version)))
         else Inr None)"

definition gcp_colon_key :: "string option \<Rightarrow> string \<Rightarrow> (string \<times> string \<times> string) option secret_result" where
  "gcp_colon_key query_version normalized =
     (let parts = split_on normalized CHR '':''
      in if length parts = 3 \<or> length parts = 2 \<and> query_version \<noteq> None then
           (let project = trim (parts ! 0); secret = trim (parts ! 1);
                version = (if length parts = 3 then trim (parts ! 2) else trim (unwrap_or query_version []))
            in if length parts = 3 \<and> query_version \<noteq> None \<and> query_version \<noteq> Some version
               then failed ''gcp secret reference version mismatch between key and query parameter''
               else Inr (if project \<noteq> [] \<and> secret \<noteq> [] \<and> version \<noteq> [] then Some (project, secret, version) else None))
         else Inr None)"

definition parse_gcp_secret_key :: "secret_world \<Rightarrow> nat \<Rightarrow> string \<Rightarrow> (string \<times> string \<times> string) secret_result" where
  "parse_gcp_secret_key sx n key =
     try_then (split_key_and_params key) (\<lambda>(base_key, params).
     try_then (ensure_only_known_params sx n params [''version'']) (\<lambda>_.
     let normalized = trim_slashes (trim base_key); query_version = param params ''version'' in
     try_then (gcp_path_key query_version normalized) (\<lambda>r.
     case r of
       Some k \<Rightarrow> Inr k
     | None \<Rightarrow>
         try_then (gcp_colon_key query_version normalized) (\<lambda>r.
         case r of
           Some k \<Rightarrow> Inr k
         | None \<Rightarrow> failed (''gcp secret key must be `project:secret:version` or '' @
             ''`projects/<project>/secrets/<secret>/versions/<version>`'')))))"

definition resolve_with_gcp_sm_cli :: "secret_world \<Rightarrow> string \<Rightarrow> string secret_comp" where
  "resolve_with_gcp_sm_cli sx key = at_moment (\<lambda>n. then_do (give (parse_gcp_secret_key sx n key))
     (\<lambda>(project, secret, version). run_cli sx ''gcloud''
        [''secrets'', ''versions'', ''access'', version, ''--secret'', secret, ''--project'', project, ''--quiet'']
        ''gcp secret manager fetch failed''))"

definition azure_secret_id :: "string \<Rightarrow> string option \<Rightarrow> string" where
  "azure_secret_id base_id version =
     (case version of
        Some v \<Rightarrow> rev (dropWhile (\<lambda>c. c = CHR ''/'') (rev base_id)) @ ''/'' @ v
      | None \<Rightarrow> base_id)"

definition resolve_with_azure_kv_cli :: "secret_world \<Rightarrow> string \<Rightarrow> string secret_comp" where
  "resolve_with_azure_kv_cli sx key = at_moment (\<lambda>n. then_do
     (give (try_then (split_key_and_params key) (\<lambda>(base_id, params).
        try_then (ensure_only_known_params sx n params [''version'']) (\<lambda>_.
        Inr (azure_secret_id base_id (param params ''version''))))))
     (\<lambda>secret_id. run_cli sx ''az''
        [''keyvault'', ''secret'', ''show'', ''--id'', secret_id, ''--query'', ''value'', ''-o'', ''tsv'']
        ''azure key vault fetch failed''))"

section \<open>The resolver without a cache\<close>

definition parse_env_bool :: "string \<Rightarrow> bool" where
  "parse_env_bool v = (to_ascii_lowercase (trim v) \<in> {''1'', ''true'', ''yes''})"

definition cli_resolver_from_env :: "(string \<Rightarrow> string option) \<Rightarrow> bool" where
  "cli_resolver_from_env env = unwrap_or (map_option parse_env_bool (env ''SECUREAGNT_SECRET_ENABLE_CLOUD_CLI'')) False"

definition ensure_cloud_enabled :: "bool \<Rightarrow> secret_backend \<Rightarrow> unit secret_result" where
  "ensure_cloud_enabled enabled backend =
     (if enabled then Inr ()
      else failed (''secret backend `'' @ backend_as_str backend @
        ''` is disabled; set SECUREAGNT_SECRET_ENABLE_CLOUD_CLI=1 to enable CLI adapters''))"

definition look :: "(nat \<Rightarrow> 'a secret_result) \<Rightarrow> 'a secret_comp" where
  "look f = (\<lambda>s. (f (sv_moment s), s\<lparr>sv_moment := Suc (sv_moment s)\<rparr>))"

definition cli_resolve :: "secret_world \<Rightarrow> bool \<Rightarrow> secret_reference \<Rightarrow> string secret_comp" where
  "cli_resolve sx enabled r =
     (let key = rf_key r; cloud = (\<lambda>m. then_do (give (ensure_cloud_enabled enabled (rf_backend r))) (\<lambda>_. m)) in
      case rf_backend r of
        EnvBackend \<Rightarrow> look (\<lambda>n. caused (''missing environment secret `'' @ key @ ''`'') (sx_env sx n key))
      | FileBackend \<Rightarrow> look (\<lambda>n. try_then (caused (''failed reading secret file `'' @ key @ ''`'') (sx_read sx n key)) (\<lambda>v. Inr (trim v)))
      | Vault \<Rightarrow> cloud (resolve_with_vault_cli sx key)
      | AwsSecretsManager \<Rightarrow> cloud (resolve_with_aws_sm_cli sx key)
      | GcpSecretManager \<Rightarrow> cloud (resolve_with_gcp_sm_cli sx key)
      | AzureKeyVault \<Rightarrow> cloud (resolve_with_azure_kv_cli sx key))"

section \<open>The cache\<close>

record cache_config =
  ch_ttl :: nat
  ch_max_entries :: nat

definition new_cache :: "nat \<Rightarrow> nat \<Rightarrow> cache_config" where
  "new_cache ttl max_entries = \<lparr>ch_ttl = ttl, ch_max_entries = max max_entries 1\<rparr>"

definition cache_from_env :: "(string \<Rightarrow> string option) \<Rightarrow> cache_config" where
  "cache_from_env env =
     (let number = (\<lambda>key dflt. unwrap_or (Option.bind (env key) (\<lambda>v. parse_u64 (trim v))) dflt)
      in new_cache (number ''SECUREAGNT_SECRET_CACHE_TTL_SECS'' 30) (number ''SECUREAGNT_SECRET_CACHE_MAX_ENTRIES'' 1024))"

definition cache_remove :: "string \<Rightarrow> (string \<times> 'v) list \<Rightarrow> (string \<times> 'v) list" where
  "cache_remove k = filter (\<lambda>e. fst e \<noteq> k)"

text \<open>\<open>Instant + Duration\<close> panics when the seconds leave \<open>i64\<close>.\<close>

definition instant_add :: "nat \<Rightarrow> nat \<Rightarrow> nat option" where
  "instant_add now dur = (let t = now + dur * 10 ^ 9 in if t < 2 ^ 63 * 10 ^ 9 then Some t else None)"

definition lookup_cached :: "string \<Rightarrow> nat \<Rightarrow> secret_state \<Rightarrow> string option \<times> secret_state" where
  "lookup_cached key now s =
     (if sv_poisoned s then (None, s)
      else case map_of (sv_cache s) key of
        None \<Rightarrow> (None, s)
      | Some entry \<Rightarrow>
          if now < cv_expires_at entry then (Some (cv_value entry), s)
          else (None, s\<lparr>sv_cache := cache_remove key (sv_cache s)\<rparr>))"

definition make_room :: "secret_world \<Rightarrow> cache_config \<Rightarrow> nat \<Rightarrow> (string \<times> 'v) list \<Rightarrow> (string \<times> 'v) list" where
  "make_room sx cfg n cache =
     (if ch_max_entries cfg \<le> length cache then
        (case sx_order sx n (map fst cache) of
           [] \<Rightarrow> cache
         | evict_key # _ \<Rightarrow> cache_remove evict_key cache)
      else cache)"

definition store_cached :: "secret_world \<Rightarrow> cache_config \<Rightarrow> string \<Rightarrow> string \<Rightarrow> nat \<Rightarrow> unit secret_comp" where
  "store_cached sx cfg key value now s =
     (if sv_poisoned s then (Inr (), s)
      else
        let live = filter (\<lambda>(_, entry). now < cv_expires_at entry) (sv_cache s);
            kept = make_room sx cfg (sv_moment s) live
        in case instant_add now (ch_ttl cfg) of
             None \<Rightarrow> (Inl Panicked, s\<lparr>sv_cache := kept, sv_poisoned := True\<rparr>)
           | Some t \<Rightarrow> (Inr (), s\<lparr>sv_cache := (key, \<lparr>cv_value = value, cv_expires_at = t\<rparr>) # cache_remove key kept\<rparr>))"

definition cached_resolve ::
    "(secret_reference \<Rightarrow> string secret_comp) \<Rightarrow> secret_world \<Rightarrow> cache_config \<Rightarrow> secret_reference \<Rightarrow> string secret_comp" where
  "cached_resolve inner sx cfg r s =
     (if ch_ttl cfg = 0 then inner r s
      else
        let now = sx_clock sx (sv_moment s); s0 = s\<lparr>sv_moment := Suc (sv_moment s)\<rparr>
        in case lookup_cached (cache_key r) now s0 of
             (Some v, s1) \<Rightarrow> (Inr v, s1)
           | (None, s1) \<Rightarrow>
               then_do (inner r) (\<lambda>v. then_do (store_cached sx cfg (cache_key r) v now) (\<lambda>_. give (Inr v))) s1)"

section \<open>Values for configuration\<close>

definition resolve_secret_value ::
    "string option \<Rightarrow> string option \<Rightarrow> (secret_reference \<Rightarrow> string secret_comp) \<Rightarrow> string option secret_comp" where
  "resolve_secret_value direct_value reference_value resolver =
     (case Option.bind reference_value non_empty_trimmed of
        Some reference_raw \<Rightarrow>
          then_do (give (parse_secret_reference reference_raw)) (\<lambda>reference.
          then_do (resolver reference) (\<lambda>v. give (Inr (Some v))))
      | None \<Rightarrow> give (Inr (Option.bind direct_value non_empty_trimmed)))"

definition shared_secret_resolver :: "secret_world \<Rightarrow> (string \<Rightarrow> string option) \<Rightarrow> secret_reference \<Rightarrow> string secret_comp" where
  "shared_secret_resolver sx env = cached_resolve (cli_resolve sx (cli_resolver_from_env env)) sx (cache_from_env env)"

definition read_env_secret :: "secret_world \<Rightarrow> (string \<Rightarrow> string option) \<Rightarrow> string \<Rightarrow> string \<Rightarrow> string option secret_comp" where
  "read_env_secret sx env value_key reference_key =
     resolve_secret_value (env value_key) (env reference_key) (shared_secret_resolver sx env)"

end
