(* ===== verification/SecretSafety.thy ===== *)
theory SecretSafety
  imports Secrets ApiTriggers
begin

text \<open>
  What holds of secrets however threads interleave. The lock of the cache is held for a lookup and for a
  store, not for the call of the resolver in between: a step relation over the phases of the threads
  says which orders are possible. The laws of a resolver are a locale, and the resolver of the command
  line clients is an instance.
\<close>

section \<open>Cache keys\<close>

lemma cache_key_inj: "cache_key r = cache_key r' \<Longrightarrow> r = r'"
proof -
  have *: "split_once (cache_key q) CHR '':'' = Some (backend_as_str (rf_backend q), rf_key q)" for q
    by (cases "rf_backend q") (simp_all add: cache_key_def split_once_Some)
  have b: "backend_as_str b = backend_as_str b' \<Longrightarrow> b = b'" for b b'
    by (cases b; cases b') simp_all
  assume "cache_key r = cache_key r'"
  with * [of r] * [of r'] show "r = r'"
    by (auto intro!: secret_reference.equality b)
qed

section \<open>Threads\<close>

text \<open>
  A thread is idle, or it missed a reference at a moment and is to ask the resolver, or it has the
  answer and is to store it. \<open>th_given\<close> lists what the calls returned, with the moment each began.
\<close>

datatype thread_phase = Resting | Missed secret_reference nat | Answered secret_reference nat string

record secret_threads =
  th_state :: secret_state
  th_phase :: "nat \<Rightarrow> thread_phase"
  th_given :: "(secret_reference \<times> nat \<times> string) list"

definition began :: "secret_state \<Rightarrow> secret_state" where
  "began s = s\<lparr>sv_moment := Suc (sv_moment s)\<rparr>"

inductive secret_step ::
    "(secret_reference \<Rightarrow> string secret_comp) \<Rightarrow> secret_world \<Rightarrow> cache_config \<Rightarrow> secret_threads \<Rightarrow> secret_threads \<Rightarrow> bool"
  for inner sx cfg where
  uncached: "th_phase x t = Resting \<Longrightarrow> ch_ttl cfg = 0 \<Longrightarrow> inner r (th_state x) = (res, s') \<Longrightarrow>
    secret_step inner sx cfg x (x\<lparr>th_state := s',
      th_given := (case res of Inr v \<Rightarrow> [(r, sv_moment (th_state x), v)] | Inl _ \<Rightarrow> []) @ th_given x\<rparr>)"
| hit: "th_phase x t = Resting \<Longrightarrow> ch_ttl cfg \<noteq> 0 \<Longrightarrow>
    lookup_cached (cache_key r) (sx_clock sx (sv_moment (th_state x))) (began (th_state x)) = (Some v, s') \<Longrightarrow>
    secret_step inner sx cfg x (x\<lparr>th_state := s', th_given := (r, sv_moment (th_state x), v) # th_given x\<rparr>)"
| miss: "th_phase x t = Resting \<Longrightarrow> ch_ttl cfg \<noteq> 0 \<Longrightarrow>
    lookup_cached (cache_key r) (sx_clock sx (sv_moment (th_state x))) (began (th_state x)) = (None, s') \<Longrightarrow>
    secret_step inner sx cfg x (x\<lparr>th_state := s', th_phase := (th_phase x)(t := Missed r (sv_moment (th_state x)))\<rparr>)"
| ask: "th_phase x t = Missed r n \<Longrightarrow> inner r (th_state x) = (res, s') \<Longrightarrow>
    secret_step inner sx cfg x (x\<lparr>th_state := s',
      th_phase := (th_phase x)(t := (case res of Inr v \<Rightarrow> Answered r n v | Inl _ \<Rightarrow> Resting))\<rparr>)"
| store: "th_phase x t = Answered r n v \<Longrightarrow>
    store_cached sx cfg (cache_key r) v (sx_clock sx n) (th_state x) = (res, s') \<Longrightarrow>
    secret_step inner sx cfg x (x\<lparr>th_state := s', th_phase := (th_phase x)(t := Resting),
      th_given := (case res of Inr _ \<Rightarrow> [(r, n, v)] | Inl _ \<Rightarrow> []) @ th_given x\<rparr>)"

text \<open>A call that no other thread interrupts is a run of these steps.\<close>

lemma cached_resolve_steps:
  assumes run: "cached_resolve inner sx cfg r (th_state x) = (res, s')" and idle: "th_phase x t = Resting"
  shows "\<exists>x'. (secret_step inner sx cfg)\<^sup>*\<^sup>* x x' \<and> th_state x' = s' \<and> th_phase x' t = Resting \<and>
    (\<forall>v. res = Inr v \<longrightarrow> (r, sv_moment (th_state x), v) \<in> set (th_given x'))"
proof (cases "ch_ttl cfg = 0")
  case True
  with run have "inner r (th_state x) = (res, s')" by (simp add: cached_resolve_def)
  with idle True have "secret_step inner sx cfg x (x\<lparr>th_state := s',
      th_given := (case res of Inr v \<Rightarrow> [(r, sv_moment (th_state x), v)] | Inl _ \<Rightarrow> []) @ th_given x\<rparr>)"
    (is "secret_step _ _ _ _ ?y")
    by (rule secret_step.uncached)
  with idle show ?thesis by (intro exI [of _ ?y]) (auto split: sum.splits)
next
  case ttl: False
  let ?n = "sv_moment (th_state x)"
  obtain got s1 where look: "lookup_cached (cache_key r) (sx_clock sx ?n) (began (th_state x)) = (got, s1)"
    by (cases "lookup_cached (cache_key r) (sx_clock sx ?n) (began (th_state x))")
  show ?thesis
  proof (cases got)
    case (Some v)
    with run ttl look have "res = Inr v" "s' = s1" by (simp_all add: cached_resolve_def began_def)
    moreover have "secret_step inner sx cfg x (x\<lparr>th_state := s1, th_given := (r, ?n, v) # th_given x\<rparr>)"
      (is "secret_step _ _ _ _ ?y")
      using secret_step.hit [of x t cfg r sx v s1 inner] look Some idle ttl by simp
    ultimately show ?thesis using idle by (intro exI [of _ ?y]) auto
  next
    case None
    let ?x1 = "x\<lparr>th_state := s1, th_phase := (th_phase x)(t := Missed r ?n)\<rparr>"
    obtain ans s2 where ask: "inner r s1 = (ans, s2)" by (cases "inner r s1")
    let ?x2 = "?x1\<lparr>th_state := s2, th_phase := (th_phase ?x1)(t := (case ans of Inr v \<Rightarrow> Answered r ?n v | Inl _ \<Rightarrow> Resting))\<rparr>"
    have 1: "secret_step inner sx cfg x ?x1"
      using secret_step.miss [of x t cfg r sx s1 inner] idle ttl look None by simp
    have 2: "secret_step inner sx cfg ?x1 ?x2"
      using secret_step.ask [of ?x1 t r ?n inner ans s2 sx cfg] ask by simp
    show ?thesis
    proof (cases ans)
      case (Inl e)
      with run ttl look None ask have "res = Inl e" "s' = s2" by (simp_all add: cached_resolve_def began_def then_do_def)
      moreover from 1 2 have "(secret_step inner sx cfg)\<^sup>*\<^sup>* x ?x2" by (meson r_into_rtranclp rtranclp_trans)
      ultimately show ?thesis using Inl by (intro exI [of _ ?x2]) auto
    next
      case (Inr v)
      obtain done3 s3 where st: "store_cached sx cfg (cache_key r) v (sx_clock sx ?n) s2 = (done3, s3)"
        by (cases "store_cached sx cfg (cache_key r) v (sx_clock sx ?n) s2")
      let ?x3 = "?x2\<lparr>th_state := s3, th_phase := (th_phase ?x2)(t := Resting),
        th_given := (case done3 of Inr _ \<Rightarrow> [(r, ?n, v)] | Inl _ \<Rightarrow> []) @ th_given ?x2\<rparr>"
      have 3: "secret_step inner sx cfg ?x2 ?x3"
        using secret_step.store [of ?x2 t r ?n v sx cfg done3 s3 inner] st Inr by simp
      from run ttl look None ask Inr st have "s' = s3" "\<And>w. res = Inr w \<Longrightarrow> w = v \<and> (\<exists>u. done3 = Inr u)"
        by (auto simp: cached_resolve_def began_def then_do_def give_def split: sum.splits)
      moreover from 1 2 3 have "(secret_step inner sx cfg)\<^sup>*\<^sup>* x ?x3" by (meson r_into_rtranclp rtranclp_trans)
      ultimately show ?thesis by (intro exI [of _ ?x3]) (auto split: sum.splits)
    qed
  qed
qed

lemma length_cache_remove: "length (cache_remove k cache) \<le> length cache"
  by (simp add: cache_remove_def)

lemma set_cache_remove: "set (cache_remove k cache) \<subseteq> set cache"
  by (auto simp: cache_remove_def)

section \<open>The laws of a resolver\<close>

text \<open>
  A resolver leaves the cache alone, its looks move time on, its value is the outside's answer at a
  moment of the call, and it starts permitted programs only.
\<close>

locale secret_source =
  fixes resolve :: "secret_reference \<Rightarrow> string secret_comp"
    and answer :: "nat \<Rightarrow> secret_reference \<Rightarrow> string \<Rightarrow> bool"
    and permitted :: "string \<times> string list \<Rightarrow> bool"
  assumes keeps_cache: "resolve r s = (res, s') \<Longrightarrow> sv_cache s' = sv_cache s \<and> sv_poisoned s' = sv_poisoned s"
    and moves_on: "resolve r s = (res, s') \<Longrightarrow> sv_moment s \<le> sv_moment s'"
    and answers: "resolve r s = (Inr v, s') \<Longrightarrow> \<exists>m. sv_moment s \<le> m \<and> m < sv_moment s' \<and> answer m r v"
    and runs: "resolve r s = (res, s') \<Longrightarrow> (\<forall>p \<in> set (sv_runs s). permitted p) \<Longrightarrow> (\<forall>p \<in> set (sv_runs s'). permitted p)"

text \<open>The clock does not go back, and a \<open>HashMap\<close> lists its keys.\<close>

locale cached_source = secret_source +
  fixes sx :: secret_world and cfg :: cache_config
  assumes monotonic: "m \<le> n \<Longrightarrow> sx_clock sx m \<le> sx_clock sx n"
    and lists_keys: "set (sx_order sx n ks) = set ks"
    and room: "1 \<le> ch_max_entries cfg"
begin

definition ttl_ns :: nat where
  "ttl_ns = ch_ttl cfg * 10 ^ 9"

definition answered :: "nat \<Rightarrow> secret_reference \<Rightarrow> nat \<Rightarrow> string \<Rightarrow> bool" where
  "answered now r n v \<longleftrightarrow> (\<exists>m < now. answer m r v \<and> (n \<le> m \<or> sx_clock sx n < sx_clock sx m + ttl_ns))"

definition entry_ok :: "nat \<Rightarrow> string \<times> cached_secret_value \<Rightarrow> bool" where
  "entry_ok now e \<longleftrightarrow> (\<exists>m r. m < now \<and> fst e = cache_key r \<and> answer m r (cv_value (snd e)) \<and>
     cv_expires_at (snd e) \<le> sx_clock sx m + ttl_ns)"

definition phase_ok :: "nat \<Rightarrow> thread_phase \<Rightarrow> bool" where
  "phase_ok now p \<longleftrightarrow> (case p of Resting \<Rightarrow> True | Missed r n \<Rightarrow> n < now
     | Answered r n v \<Rightarrow> (\<exists>m < now. n \<le> m \<and> answer m r v))"

definition cache_inv :: "secret_state \<Rightarrow> bool" where
  "cache_inv s \<longleftrightarrow> length (sv_cache s) \<le> ch_max_entries cfg \<and> (\<forall>e \<in> set (sv_cache s). entry_ok (sv_moment s) e) \<and>
     (\<forall>p \<in> set (sv_runs s). permitted p)"

definition secret_inv :: "secret_threads \<Rightarrow> bool" where
  "secret_inv x \<longleftrightarrow> cache_inv (th_state x) \<and> (\<forall>t. phase_ok (sv_moment (th_state x)) (th_phase x t)) \<and>
     (\<forall>(r, n, v) \<in> set (th_given x). answered (sv_moment (th_state x)) r n v)"

lemma later:
  assumes "now \<le> now'"
  shows "answered now r n v \<Longrightarrow> answered now' r n v" "entry_ok now e \<Longrightarrow> entry_ok now' e" "phase_ok now p \<Longrightarrow> phase_ok now' p"
  using assms by (auto simp: answered_def entry_ok_def phase_ok_def split: thread_phase.splits intro: less_le_trans)

lemma make_room_length:
  assumes "length cache \<le> ch_max_entries cfg"
  shows "length (cache_remove k (make_room sx cfg n cache)) < ch_max_entries cfg"
proof (cases "ch_max_entries cfg \<le> length cache")
  case True
  with room have "map fst cache \<noteq> []" by auto
  then have "sx_order sx n (map fst cache) \<noteq> []" using lists_keys [where n=n and ks="map fst cache"] by auto
  then obtain k1 ks where o1: "sx_order sx n (map fst cache) = k1 # ks" by (cases "sx_order sx n (map fst cache)") auto
  then have "k1 \<in> set (map fst cache)"
    using lists_keys [where n=n and ks="map fst cache"] by auto
  then have "length (cache_remove k1 cache) < length cache"
    by (auto simp: cache_remove_def intro: length_filter_less)
  then show ?thesis
    using True assms o1 length_cache_remove [of k "cache_remove k1 cache"] by (simp add: make_room_def)
next
  case False
  then show ?thesis using length_cache_remove [of k cache] by (simp add: make_room_def)
qed

lemma make_room_subset: "set (make_room sx cfg n cache) \<subseteq> set cache"
  using subsetD [OF set_cache_remove] by (auto simp: make_room_def split: list.splits)

lemma make_room_le: "length (make_room sx cfg n cache) \<le> length cache"
  by (simp add: make_room_def length_cache_remove split: list.split)

lemma lookup_cached_inv:
  assumes "lookup_cached k now s = (got, s')" "cache_inv s"
  shows "cache_inv s'" "sv_moment s' = sv_moment s"
  using assms length_cache_remove [of k "sv_cache s"] set_cache_remove [of k "sv_cache s"]
  by (auto simp: lookup_cached_def cache_inv_def split: if_splits option.splits)

lemma lookup_cached_hit:
  assumes "lookup_cached (cache_key r) (sx_clock sx n) s = (Some v, s')" "cache_inv s"
  shows "answered (sv_moment s) r n v"
proof -
  from assms(1) obtain e where e: "map_of (sv_cache s) (cache_key r) = Some e" "sx_clock sx n < cv_expires_at e" "v = cv_value e"
    by (auto simp: lookup_cached_def split: if_splits option.splits)
  then have "entry_ok (sv_moment s) (cache_key r, e)" using assms(2) by (auto simp: cache_inv_def dest: map_of_SomeD)
  then obtain m r' where "m < sv_moment s" "cache_key r = cache_key r'" "answer m r' v" "cv_expires_at e \<le> sx_clock sx m + ttl_ns"
    using e(3) by (auto simp: entry_ok_def)
  with e(2) cache_key_inj [of r r'] show ?thesis unfolding answered_def by fastforce
qed

lemma store_cached_inv:
  assumes st: "store_cached sx cfg (cache_key r) v (sx_clock sx n) s = (res, s')" and inv: "cache_inv s"
    and ans: "\<exists>m < sv_moment s. n \<le> m \<and> answer m r v"
  shows "cache_inv s'" "sv_moment s' = sv_moment s"
proof -
  let ?live = "filter (\<lambda>(_, e). sx_clock sx n < cv_expires_at e) (sv_cache s)"
  let ?kept = "make_room sx cfg (sv_moment s) ?live"
  have len: "length ?live \<le> ch_max_entries cfg"
    using inv order_trans [OF length_filter_le] by (auto simp: cache_inv_def)
  have kept: "\<forall>e \<in> set ?kept. entry_ok (sv_moment s) e"
    using make_room_subset [of "sv_moment s" ?live] inv by (auto simp: cache_inv_def)
  have room': "length ?kept \<le> ch_max_entries cfg"
    using make_room_le len by (rule order_trans)
  from ans obtain m where m: "m < sv_moment s" "n \<le> m" "answer m r v" by blast
  have new: "entry_ok (sv_moment s) (cache_key r, \<lparr>cv_value = v, cv_expires_at = t\<rparr>)"
    if "instant_add (sx_clock sx n) (ch_ttl cfg) = Some t" for t
    using that m monotonic [OF m(2)] unfolding entry_ok_def
    by (auto simp: instant_add_def Let_def ttl_ns_def split: if_splits intro!: exI [of _ m] exI [of _ r])
  show "cache_inv s'"
  proof (cases "sv_poisoned s")
    case True
    with st inv show ?thesis by (simp add: store_cached_def)
  next
    case False
    show ?thesis
    proof (cases "instant_add (sx_clock sx n) (ch_ttl cfg)")
      case None
      with st False have "s' = s\<lparr>sv_cache := ?kept, sv_poisoned := True\<rparr>" by (simp add: store_cached_def Let_def)
      with inv kept room' show ?thesis by (simp add: cache_inv_def)
    next
      case (Some t)
      with st False have "s' = s\<lparr>sv_cache := (cache_key r, \<lparr>cv_value = v, cv_expires_at = t\<rparr>) # cache_remove (cache_key r) ?kept\<rparr>"
        by (simp add: store_cached_def Let_def)
      with inv kept new [OF Some] make_room_length [OF len, of "cache_key r" "sv_moment s"] set_cache_remove [of "cache_key r" ?kept]
      show ?thesis by (auto simp: cache_inv_def Suc_le_eq)
    qed
  qed
  show "sv_moment s' = sv_moment s"
    using st by (auto simp: store_cached_def Let_def split: if_splits option.splits)
qed

lemma resolve_inv:
  assumes run: "resolve r s = (res, s')" and inv: "cache_inv s"
  shows "cache_inv s'"
proof -
  have "\<forall>e \<in> set (sv_cache s). entry_ok (sv_moment s') e"
    using inv later(2) [OF moves_on [OF run]] by (simp add: cache_inv_def)
  with keeps_cache [OF run] runs [OF run] inv show ?thesis by (simp add: cache_inv_def)
qed

lemma began_inv: "cache_inv s \<Longrightarrow> cache_inv (began s)"
  using later(2) [of "sv_moment s" "Suc (sv_moment s)"] by (simp add: cache_inv_def began_def)

lemma secret_step_inv:
  assumes "secret_step resolve sx cfg x x'" "secret_inv x"
  shows "secret_inv x'"
  using assms
proof (cases rule: secret_step.cases)
  case (uncached t r res s')
  note l = later [OF moves_on [OF uncached(4)]]
  have "answered (sv_moment s') r (sv_moment (th_state x)) v" if "res = Inr v" for v
    using answers [of r "th_state x" v s'] uncached(4) that by (auto simp: answered_def)
  with assms(2) l resolve_inv [OF uncached(4)] show ?thesis
    unfolding uncached(1) by (auto simp: secret_inv_def split: sum.splits)
next
  case (hit t r v s')
  have b: "cache_inv (began (th_state x))" using assms(2) began_inv by (simp add: secret_inv_def)
  note c = lookup_cached_inv [OF hit(4) b] and a = lookup_cached_hit [OF hit(4) b]
  have "sv_moment (th_state x) \<le> sv_moment s'" using c(2) by (simp add: began_def)
  from later [OF this] assms(2) a c show ?thesis
    unfolding hit(1) by (auto simp: secret_inv_def)
next
  case (miss t r s')
  have b: "cache_inv (began (th_state x))" using assms(2) began_inv by (simp add: secret_inv_def)
  note c = lookup_cached_inv [OF miss(4) b]
  have "sv_moment (th_state x) \<le> sv_moment s'" using c(2) by (simp add: began_def)
  from later [OF this] assms(2) c show ?thesis
    unfolding miss(1) by (auto simp: secret_inv_def phase_ok_def began_def split: thread_phase.splits)
next
  case (ask t r n res s')
  note l = later [OF moves_on [OF ask(3)]]
  from assms(2) ask(2) have "phase_ok (sv_moment (th_state x)) (Missed r n)"
    unfolding secret_inv_def by metis
  then have "n < sv_moment (th_state x)" by (simp add: phase_ok_def)
  then have "phase_ok (sv_moment s') (Answered r n v)" if "res = Inr v" for v
    using answers [of r "th_state x" v s'] ask(3) that by (auto simp: phase_ok_def)
  then have "phase_ok (sv_moment s') (case res of Inr v \<Rightarrow> Answered r n v | Inl _ \<Rightarrow> Resting)"
    by (simp add: phase_ok_def split: sum.split)
  with assms(2) l resolve_inv [OF ask(3)] show ?thesis
    unfolding ask(1) by (auto simp: secret_inv_def)
next
  case (store t r n v res s')
  from assms(2) store(2) have "phase_ok (sv_moment (th_state x)) (Answered r n v)"
    unfolding secret_inv_def by metis
  then have ans: "\<exists>m < sv_moment (th_state x). n \<le> m \<and> answer m r v" by (simp add: phase_ok_def)
  have "cache_inv (th_state x)" using assms(2) by (simp add: secret_inv_def)
  note c = store_cached_inv [OF store(3) this ans]
  from ans c(2) have "answered (sv_moment s') r n v" by (auto simp: answered_def)
  with assms(2) c show ?thesis
    unfolding store(1) by (auto simp: secret_inv_def phase_ok_def split: sum.splits)
qed

lemma secret_steps_inv: "(secret_step resolve sx cfg)\<^sup>*\<^sup>* x x' \<Longrightarrow> secret_inv x \<Longrightarrow> secret_inv x'"
  by (induction rule: rtranclp_induct) (auto intro: secret_step_inv)

end

section \<open>The resolver of the command line clients\<close>

definition blank_secrets :: "nat \<Rightarrow> secret_state" where
  "blank_secrets n = \<lparr>sv_moment = n, sv_cache = [], sv_poisoned = False, sv_runs = []\<rparr>"

text \<open>What the outside answers at its \<open>n\<close>-th look.\<close>

definition cli_answer :: "secret_world \<Rightarrow> bool \<Rightarrow> nat \<Rightarrow> secret_reference \<Rightarrow> string \<Rightarrow> bool" where
  "cli_answer sx enabled n r v \<longleftrightarrow> fst (cli_resolve sx enabled r (blank_secrets n)) = Inr v"

text \<open>Clients are started only when they are enabled, and to read a secret.\<close>

definition cli_permitted :: "bool \<Rightarrow> string \<times> string list \<Rightarrow> bool" where
  "cli_permitted enabled p \<longleftrightarrow> enabled \<and>
     (fst p = ''vault'' \<and> take 3 (snd p) = [''kv'', ''get'', ''-format=json''] \<or>
      fst p = ''aws'' \<and> take 2 (snd p) = [''secretsmanager'', ''get-secret-value''] \<or>
      fst p = ''gcloud'' \<and> take 3 (snd p) = [''secrets'', ''versions'', ''access''] \<or>
      fst p = ''az'' \<and> take 3 (snd p) = [''keyvault'', ''secret'', ''show''])"

text \<open>A computation that looks once, at the current moment, or fails before it looks.\<close>

definition one_look :: "(string \<times> string list \<Rightarrow> bool) \<Rightarrow> 'a secret_comp \<Rightarrow> bool" where
  "one_look P m \<longleftrightarrow> (\<forall>s. sv_cache (snd (m s)) = sv_cache s \<and> sv_poisoned (snd (m s)) = sv_poisoned s \<and>
     sv_moment (snd (m s)) \<in> {sv_moment s, Suc (sv_moment s)} \<and>
     ((\<exists>v. fst (m s) = Inr v) \<longrightarrow> sv_moment (snd (m s)) = Suc (sv_moment s)) \<and>
     fst (m s) = fst (m (blank_secrets (sv_moment s))) \<and>
     (\<forall>p \<in> set (sv_runs (snd (m s))). p \<in> set (sv_runs s) \<or> P p))"

named_theorems looks \<open>computations that look once\<close>

lemma one_look_look [looks]: "one_look P (look f)"
  by (simp add: one_look_def look_def blank_secrets_def)

lemma one_look_run_cli [looks]: "P (program, args) \<Longrightarrow> one_look P (run_cli sx program args ctx)"
  by (simp add: one_look_def run_cli_def blank_secrets_def)

lemma one_look_before [looks]: "(\<And>v. r = Inr v \<Longrightarrow> one_look P (k v)) \<Longrightarrow> one_look P (then_do (give r) k)"
  by (cases r) (simp_all add: one_look_def then_do_def give_def)

lemma one_look_after [looks]: "one_look P m \<Longrightarrow> one_look P (then_do m (\<lambda>v. give (f v)))"
proof -
  have "then_do m (\<lambda>v. give (f v)) s = (try_then (fst (m s)) f, snd (m s))" for s
    by (simp add: then_do_def give_def try_then_def split: prod.split sum.split)
  then show "one_look P m \<Longrightarrow> one_look P (then_do m (\<lambda>v. give (f v)))"
    by (auto simp: one_look_def try_then_Inr)
qed

lemma one_look_at [looks]:
  assumes "\<And>n. one_look P (m n)"
  shows "one_look P (at_moment m)"
  using assms unfolding one_look_def at_moment_def by (simp add: blank_secrets_def)

lemma one_look_cli: "one_look (cli_permitted enabled) (cli_resolve sx enabled r)"
proof -
  have "one_look (cli_permitted enabled) (resolve_with_vault_cli sx key)" if enabled for key
    using that unfolding resolve_with_vault_cli_def
    by (intro looks) (auto simp: Let_def cli_permitted_def split: prod.split intro!: looks)
  moreover have "one_look (cli_permitted enabled) (resolve_with_aws_sm_cli sx key)"
      "one_look (cli_permitted enabled) (resolve_with_gcp_sm_cli sx key)"
      "one_look (cli_permitted enabled) (resolve_with_azure_kv_cli sx key)" if enabled for key
    using that unfolding resolve_with_aws_sm_cli_def resolve_with_gcp_sm_cli_def resolve_with_azure_kv_cli_def
    by (intro looks; auto simp: cli_permitted_def split: prod.split intro!: looks)+
  ultimately show ?thesis
    by (cases "rf_backend r")
      (auto simp: cli_resolve_def Let_def ensure_cloud_enabled_def failed_def intro!: looks split: if_splits)
qed

interpretation cli: secret_source "cli_resolve sx enabled" "cli_answer sx enabled" "cli_permitted enabled" for sx enabled
proof
  fix r s res s' v
  note o = one_look_cli [of enabled sx r, unfolded one_look_def, rule_format, of s]
  show "sv_cache s' = sv_cache s \<and> sv_poisoned s' = sv_poisoned s" if "cli_resolve sx enabled r s = (res, s')"
    using o that by simp
  show "sv_moment s \<le> sv_moment s'" if "cli_resolve sx enabled r s = (res, s')"
    using o that by auto
  show "\<exists>m. sv_moment s \<le> m \<and> m < sv_moment s' \<and> cli_answer sx enabled m r v" if "cli_resolve sx enabled r s = (Inr v, s')"
    using o that by (intro exI [of _ "sv_moment s"]) (simp add: cli_answer_def)
  show "\<forall>p \<in> set (sv_runs s'). cli_permitted enabled p"
    if "cli_resolve sx enabled r s = (res, s')" "\<forall>p \<in> set (sv_runs s). cli_permitted enabled p"
    using o that by auto
qed

lemma sx_clock_mono: "m \<le> n \<Longrightarrow> sx_clock sx m \<le> sx_clock sx n"
  by (induction n) (auto simp: sx_clock_def le_Suc_eq)

interpretation shared: cached_source "cli_resolve sx enabled" "cli_answer sx enabled" "cli_permitted enabled" sx "new_cache ttl m"
  for sx enabled ttl m
  by unfold_locales (auto simp: sx_clock_mono sx_order_def new_cache_def)

lemma new_cache_sel: "ch_ttl (new_cache ttl m) = ttl" "ch_max_entries (new_cache ttl m) = max m 1"
  by (simp_all add: new_cache_def)

text \<open>The threads at the start, at any moment.\<close>

definition fresh_threads :: "nat \<Rightarrow> secret_threads" where
  "fresh_threads n = \<lparr>th_state = blank_secrets n, th_phase = (\<lambda>_. Resting), th_given = []\<rparr>"

lemma fresh_threads_inv: "shared.secret_inv sx enabled ttl m (fresh_threads n0)"
  by (simp add: shared.secret_inv_def shared.cache_inv_def shared.phase_ok_def fresh_threads_def blank_secrets_def)

section \<open>Properties\<close>

text \<open>
  (C37) However threads interleave, a secret that the cached resolver returns is what the outside answered to the
  same reference, after the call began or less than the time to live before; the cache never
  holds more entries than configured (at least one); and only the four clients are started, to read a
  secret, and only when they are enabled.
\<close>

theorem secrets_fresh_and_bounded:
  assumes "(secret_step (cli_resolve sx enabled) sx (new_cache ttl m))\<^sup>*\<^sup>* (fresh_threads n0) x"
  shows "(\<forall>(r, n, v) \<in> set (th_given x).
        \<exists>k. cli_answer sx enabled k r v \<and> (n \<le> k \<or> sx_clock sx n < sx_clock sx k + ttl * 10 ^ 9)) \<and>
      length (sv_cache (th_state x)) \<le> max m 1 \<and>
      (\<forall>p \<in> set (sv_runs (th_state x)). cli_permitted enabled p)"
proof -
  from shared.secret_steps_inv [OF assms fresh_threads_inv] have "shared.secret_inv sx enabled ttl m x" .
  then show ?thesis
    by (fastforce simp: shared.secret_inv_def shared.cache_inv_def shared.answered_def shared.ttl_ns_def new_cache_sel)
qed

text \<open>A variable changes between two calls; the second call still gives out the first one's value.\<close>

definition sample_secret_world :: secret_world where
  "sample_secret_world = \<lparr>sx_env = (\<lambda>n _. Inr (if n < 2 then ''old'' else ''new'')), sx_read = (\<lambda>_ _. Inl ''none''),
     sx_cli = (\<lambda>_ _ _. Inl ''none''), sx_elapsed = (\<lambda>_. 10 ^ 9), sx_seed = (\<lambda>_. 0), sx_json = (\<lambda>_. Inl ''none''),
     sx_to_json = (\<lambda>_. Inl ''none''), sx_number = (\<lambda>_. [])\<rparr>"

definition sample_secret_ref :: secret_reference where
  "sample_secret_ref = \<lparr>rf_backend = EnvBackend, rf_key = ''V''\<rparr>"

definition sample_call :: "secret_state \<Rightarrow> string secret_result \<times> secret_state" where
  "sample_call = cached_resolve (cli_resolve sample_secret_world False) sample_secret_world (new_cache 30 1) sample_secret_ref"

lemma sample_secret_calls:
  "fst (sample_call (blank_secrets 0)) = Inr ''old''"
  "sv_moment (snd (sample_call (blank_secrets 0))) = 2"
  "fst (sample_call (snd (sample_call (blank_secrets 0)))) = Inr ''old''"
  "fst (cli_resolve sample_secret_world False sample_secret_ref (blank_secrets 2)) = Inr ''new''"
  by (simp_all add: sample_call_def sample_secret_ref_def sample_secret_world_def cached_resolve_def cli_resolve_def Let_def
      blank_secrets_def lookup_cached_def look_def then_do_def give_def caused_def store_cached_def make_room_def
      instant_add_def new_cache_def sx_clock_def sx_order_def cache_remove_def cache_key_def upt_rec)

lemma sample_secret_run:
  "\<exists>x. (secret_step (cli_resolve sample_secret_world False) sample_secret_world (new_cache 30 1))\<^sup>*\<^sup>* (fresh_threads 0) x \<and>
     (sample_secret_ref, 2, ''old'') \<in> set (th_given x)"
proof -
  let ?inner = "cli_resolve sample_secret_world False"
  have 1: "cached_resolve ?inner sample_secret_world (new_cache 30 1) sample_secret_ref (th_state (fresh_threads 0)) =
      (Inr ''old'', snd (sample_call (blank_secrets 0)))"
    using sample_secret_calls(1) by (simp add: prod_eq_iff sample_call_def fresh_threads_def)
  obtain y where y: "(secret_step ?inner sample_secret_world (new_cache 30 1))\<^sup>*\<^sup>* (fresh_threads 0) y"
      "th_state y = snd (sample_call (blank_secrets 0))" "th_phase y 0 = Resting"
    using cached_resolve_steps [OF 1, of 0] by (auto simp: fresh_threads_def)
  have 2: "cached_resolve ?inner sample_secret_world (new_cache 30 1) sample_secret_ref (th_state y) =
      (Inr ''old'', snd (sample_call (th_state y)))"
    using sample_secret_calls(3) by (simp add: prod_eq_iff sample_call_def y(2))
  have m: "sv_moment (th_state y) = 2" by (simp add: y(2) sample_secret_calls(2))
  from cached_resolve_steps [OF 2 y(3)] obtain z where
    "(secret_step ?inner sample_secret_world (new_cache 30 1))\<^sup>*\<^sup>* y z" "(sample_secret_ref, 2, ''old'') \<in> set (th_given z)"
    unfolding m by auto
  with y(1) show ?thesis by (meson rtranclp_trans)
qed

theorem secrets_fresh_and_bounded_witness:
  "(\<exists>x. (secret_step (cli_resolve sample_secret_world False) sample_secret_world (new_cache 30 1))\<^sup>*\<^sup>* (fresh_threads 0) x \<and>
      (sample_secret_ref, 2, ''old'') \<in> set (th_given x) \<and> length (sv_cache (th_state x)) \<le> 1) \<and>
   (\<exists>k. cli_answer sample_secret_world False k sample_secret_ref ''old'' \<and>
      (2 \<le> k \<or> sx_clock sample_secret_world 2 < sx_clock sample_secret_world k + 30 * 10 ^ 9))"
proof -
  obtain x where x: "(secret_step (cli_resolve sample_secret_world False) sample_secret_world (new_cache 30 1))\<^sup>*\<^sup>* (fresh_threads 0) x"
      "(sample_secret_ref, 2, ''old'') \<in> set (th_given x)"
    using sample_secret_run by blast
  from secrets_fresh_and_bounded [OF x(1)] x show ?thesis by auto
qed

section \<open>Boundary cases\<close>

text \<open>
  A time to live beyond the range of the clock: the first secret that is found makes the thread panic,
  and the poisoned lock switches the cache off for good.
\<close>

lemma huge_ttl_panics:
  assumes "2 ^ 63 \<le> ttl" "sv_cache s = []" "\<not> sv_poisoned s" "cli_resolve sx enabled r (began s) = (Inr v, s1)"
  shows "\<exists>s'. cached_resolve (cli_resolve sx enabled) sx (new_cache ttl m) r s = (Inl Panicked, s') \<and> sv_poisoned s'"
proof -
  have "instant_add now ttl = None" for now
    using assms(1) by (simp add: instant_add_def Let_def)
  moreover have "\<not> sv_poisoned s1" "sv_cache s1 = []"
    using cli.keeps_cache [OF assms(4)] assms(2,3) by (simp_all add: began_def)
  ultimately show ?thesis
    using assms by (simp add: cached_resolve_def lookup_cached_def began_def then_do_def store_cached_def new_cache_def Let_def)
qed

text \<open>What follows the scheme of a Vault reference reaches the client as an argument, options included.\<close>

lemma vault_path_may_be_an_option:
  "parse_secret_reference ''vault:-address=http://evil'' = Inr \<lparr>rf_backend = Vault, rf_key = ''-address=http://evil''\<rparr>"
  "sv_runs (snd (cli_resolve sample_secret_world True \<lparr>rf_backend = Vault, rf_key = ''-address=http://evil''\<rparr> (blank_secrets 0))) =
     [(''vault'', [''kv'', ''get'', ''-format=json'', ''-address=http://evil''])]"
proof -
  have "split_key_and_params ''-address=http://evil'' = Inr (''-address=http://evil'', [])"
      "split_once ''-address=http://evil'' CHR ''#'' = None" "trim ''-address=http://evil'' = ''-address=http://evil''"
    by code_simp+
  then show "sv_runs (snd (cli_resolve sample_secret_world True \<lparr>rf_backend = Vault, rf_key = ''-address=http://evil''\<rparr> (blank_secrets 0))) =
     [(''vault'', [''kv'', ''get'', ''-format=json'', ''-address=http://evil''])]"
    by (simp add: cli_resolve_def resolve_with_vault_cli_def at_moment_def then_do_def give_def ensure_cloud_enabled_def
        ensure_only_known_params_def sx_order_def param_def run_cli_def sample_secret_world_def caused_def blank_secrets_def)
qed code_simp

text \<open>
  The check of a webhook's secret with the resolver of this module: the text of a failure is its
  outermost message.
\<close>

definition trigger_secret :: "(secret_reference \<Rightarrow> string secret_comp) \<Rightarrow> secret_state \<Rightarrow> string \<Rightarrow> string + string option" where
  "trigger_secret resolver s reference =
     (case fst (resolve_secret_value None (Some reference) resolver s) of
        Inr v \<Rightarrow> Inr v
      | Inl (Failed es) \<Rightarrow> Inl (hd es)
      | Inl Panicked \<Rightarrow> Inl [])"

lemma trigger_secret_Some:
  assumes "trigger_secret resolver s raw = Inr (Some v)"
  shows "\<exists>r s'. parse_secret_reference (trim raw) = Inr r \<and> resolver r s = (Inr v, s')"
proof -
  from assms have "Option.bind (Some raw) non_empty_trimmed = Some (trim raw)"
    by (auto simp: trigger_secret_def resolve_secret_value_def give_def non_empty_trimmed_def Let_def split: if_splits)
  with assms show ?thesis
    by (auto simp: trigger_secret_def resolve_secret_value_def then_do_def give_def
        split: option.splits sum.splits prod.splits secret_failure.splits)
qed

text \<open>
  A webhook event with a secret passes when the header holds what the reference of the trigger names, read after the
  request came in or less than the time to live before.
\<close>

lemma webhook_secret_checked:
  assumes reach: "(secret_step (cli_resolve sx enabled) sx (new_cache ttl m))\<^sup>*\<^sup>* (fresh_threads n0) x" and idle: "th_phase x t = Resting"
    and ok: "check_trigger_secret (trigger_secret (cached_resolve (cli_resolve sx enabled) sx (new_cache ttl m)) (th_state x)) hs tr = Inr ()"
    and raw: "t_webhook_secret_ref tr = Some raw"
  shows "\<exists>r v k. parse_secret_reference (trim raw) = Inr r \<and> hs ''x-trigger-secret'' = Some (Some v) \<and>
    cli_answer sx enabled k r v \<and>
    (sv_moment (th_state x) \<le> k \<or> sx_clock sx (sv_moment (th_state x)) < sx_clock sx k + ttl * 10 ^ 9)"
proof -
  let ?resolver = "cached_resolve (cli_resolve sx enabled) sx (new_cache ttl m)"
  from ok raw obtain v where v: "hs ''x-trigger-secret'' = Some (Some v)" "trigger_secret ?resolver (th_state x) raw = Inr (Some v)"
    by (auto simp: check_trigger_secret_def split: option.splits sum.splits if_splits)
  from trigger_secret_Some [OF v(2)] obtain r s' where
    r: "parse_secret_reference (trim raw) = Inr r" "?resolver r (th_state x) = (Inr v, s')"
    by blast
  from cached_resolve_steps [OF r(2) idle] obtain y where
    y: "(secret_step (cli_resolve sx enabled) sx (new_cache ttl m))\<^sup>*\<^sup>* x y" "(r, sv_moment (th_state x), v) \<in> set (th_given y)"
    by blast
  have "shared.secret_inv sx enabled ttl m y"
    by (rule shared.secret_steps_inv [OF rtranclp_trans [OF reach y(1)] fresh_threads_inv])
  with y(2) have "shared.answered sx enabled ttl m (sv_moment (th_state y)) r (sv_moment (th_state x)) v"
    by (auto simp: shared.secret_inv_def)
  with r(1) v(1) show ?thesis
    by (auto simp: shared.answered_def shared.ttl_ns_def new_cache_sel)
qed

text \<open>A file of white space is a secret, the empty one: an event with an empty header then passes.\<close>

lemma blank_file_accepts_empty_header:
  assumes "sx_read sx (sv_moment s) path = Inr content" "trim content = []"
    and "t_webhook_secret_ref tr = Some raw" "parse_secret_reference (trim raw) = Inr \<lparr>rf_backend = FileBackend, rf_key = path\<rparr>"
    and "hs ''x-trigger-secret'' = Some (Some [])"
  shows "check_trigger_secret (trigger_secret (cli_resolve sx enabled) s) hs tr = Inr ()"
proof -
  have "trim raw \<noteq> []" using assms(4) by (auto simp: parse_secret_reference_def failed_def)
  then show ?thesis
    using assms by (simp add: check_trigger_secret_def trigger_secret_def resolve_secret_value_def non_empty_trimmed_def
        then_do_def give_def cli_resolve_def look_def caused_def Let_def)
qed

end
