(* ===== verification/Heartbeat.thy ===== *)
theory Heartbeat
  imports TriggerStore
begin

text \<open>
  The heartbeat file of an agent, \<open>core/src/agent_context.rs\<close>: a line of the file is a schedule, interval or cron,
  with options; the compiler turns the lines into trigger candidates and issues. Parsing a cron
  expression and a time zone are arguments, as for triggers.
\<close>

section \<open>Candidates and issues\<close>

datatype heartbeat_intent_kind = IntervalIntent | CronIntent

record heartbeat_trigger_candidate =
  hc_kind :: heartbeat_intent_kind
  hc_recipe_id :: string
  hc_interval_seconds :: "int option"
  hc_cron_expression :: "string option"
  hc_timezone :: "string option"
  hc_max_inflight_runs :: int
  hc_jitter_seconds :: int
  hc_line :: nat
  hc_source_line :: string

record heartbeat_compile_issue =
  hi_line :: nat
  hi_code :: string
  hi_message :: string

record heartbeat_compile_report =
  hr_candidates :: "heartbeat_trigger_candidate list"
  hr_issues :: "heartbeat_compile_issue list"

definition issue :: "nat \<Rightarrow> string \<Rightarrow> string \<Rightarrow> heartbeat_compile_issue + 'a" where
  "issue line code message = Inl \<lparr>hi_line = line, hi_code = code, hi_message = message\<rparr>"

section \<open>Lines and tokens\<close>

definition strip_cr :: "string \<Rightarrow> string" where
  "strip_cr l = (case strip_suffix l [CHR 0x0D] of Some t \<Rightarrow> t | None \<Rightarrow> l)"

definition str_lines :: "string \<Rightarrow> string list" where
  "str_lines s =
     (let parts = split_on s (CHR 0x0A)
      in map strip_cr (butlast parts) @ (if last parts = [] then [] else [last parts]))"

text \<open>
  Tokens are separated by white space outside of quotes; the quotes themselves are dropped. A white
  space character may take several bytes.
\<close>

function tokenize_line :: "string \<Rightarrow> string \<Rightarrow> bool \<Rightarrow> string list" where
  "tokenize_line [] current in_quotes = (if current = [] then [] else [current])"
| "tokenize_line (c # cs) current in_quotes =
     (if c = CHR 0x22 then tokenize_line cs current (\<not> in_quotes)
      else case (if in_quotes then None else find (starts_with (c # cs)) white_space) of
        Some w \<Rightarrow> (if current = [] then [] else [current]) @ tokenize_line (drop (length w - 1) cs) [] in_quotes
      | None \<Rightarrow> tokenize_line cs (current @ [c]) in_quotes)"
  by pat_completeness auto
termination by (relation "measure (\<lambda>(s, _, _). length s)") auto

definition tokenize_heartbeat_line :: "string \<Rightarrow> string list" where
  "tokenize_heartbeat_line line = tokenize_line line [] False"

section \<open>Options\<close>

record heartbeat_options =
  ho_recipe_id :: "string option"
  ho_timezone :: "string option"
  ho_max_inflight_runs :: int
  ho_jitter_seconds :: int

definition heartbeat_option ::
    "nat \<Rightarrow> string \<Rightarrow> string \<Rightarrow> heartbeat_options \<Rightarrow> heartbeat_compile_issue + heartbeat_options" where
  "heartbeat_option line key value opts =
     (if key = ''recipe'' \<or> key = ''recipe_id'' then Inr (opts\<lparr>ho_recipe_id := Some value\<rparr>)
      else if key = ''timezone'' \<or> key = ''tz'' then Inr (opts\<lparr>ho_timezone := Some value\<rparr>)
      else if key = ''max_inflight'' \<or> key = ''max_inflight_runs'' then
        (case parse_i32 value of
           None \<Rightarrow> issue line ''invalid_max_inflight'' (''max_inflight must be an integer, got `'' @ value @ ''`'')
         | Some n \<Rightarrow>
             if 1 \<le> n \<and> n \<le> 1000 then Inr (opts\<lparr>ho_max_inflight_runs := n\<rparr>)
             else issue line ''max_inflight_out_of_bounds'' ''max_inflight must be between 1 and 1000'')
      else if key = ''jitter'' \<or> key = ''jitter_seconds'' then
        (case parse_i32 value of
           None \<Rightarrow> issue line ''invalid_jitter'' (''jitter must be an integer, got `'' @ value @ ''`'')
         | Some n \<Rightarrow>
             if 0 \<le> n \<and> n \<le> 3600 then Inr (opts\<lparr>ho_jitter_seconds := n\<rparr>)
             else issue line ''jitter_out_of_bounds'' ''jitter must be between 0 and 3600 seconds'')
      else issue line ''unknown_option'' (''unsupported heartbeat option `'' @ key @ ''`''))"

fun heartbeat_options_from ::
    "string list \<Rightarrow> nat \<Rightarrow> heartbeat_options \<Rightarrow> heartbeat_compile_issue + heartbeat_options" where
  "heartbeat_options_from [] line opts = Inr opts"
| "heartbeat_options_from (token # tokens) line opts =
     (case split_once token CHR ''='' of
        None \<Rightarrow> issue line ''invalid_option'' (''option `'' @ token @ ''` must use key=value format'')
      | Some (raw_key, raw_value) \<Rightarrow>
          if trim raw_value = [] then issue line ''invalid_option'' (''option `'' @ token @ ''` has an empty value'')
          else try_then (heartbeat_option line (to_ascii_lowercase (trim raw_key)) (trim raw_value) opts)
            (heartbeat_options_from tokens line))"

definition parse_heartbeat_options :: "string list \<Rightarrow> nat \<Rightarrow> heartbeat_compile_issue + heartbeat_options" where
  "parse_heartbeat_options tokens line = heartbeat_options_from tokens line
     \<lparr>ho_recipe_id = None, ho_timezone = None, ho_max_inflight_runs = 1, ho_jitter_seconds = 0\<rparr>"

section \<open>Directives\<close>

definition required_recipe :: "heartbeat_options \<Rightarrow> nat \<Rightarrow> heartbeat_compile_issue + string" where
  "required_recipe opts line =
     (case ho_recipe_id opts of
        None \<Rightarrow> issue line ''missing_recipe'' ''heartbeat directive requires recipe=<recipe_id>''
      | Some r \<Rightarrow> Inr r)"

definition parse_interval_heartbeat_line ::
    "string list \<Rightarrow> nat \<Rightarrow> string \<Rightarrow> heartbeat_compile_issue + heartbeat_trigger_candidate" where
  "parse_interval_heartbeat_line tokens line source_line =
     (if length tokens < 3 then issue line ''invalid_interval_syntax''
        ''interval syntax: every <seconds> recipe=<recipe_id> [max_inflight=<n>] [jitter=<sec>]''
      else case parse_i64 (tokens ! 1) of
        None \<Rightarrow> issue line ''invalid_interval_seconds'' ''interval seconds must be a positive integer''
      | Some n \<Rightarrow>
          if \<not> (60 \<le> n \<and> n \<le> 31536000)
          then issue line ''interval_out_of_bounds'' ''interval seconds must be between 60 and 31536000''
          else try_then (parse_heartbeat_options (drop 2 tokens) line) (\<lambda>opts.
            try_then (required_recipe opts line) (\<lambda>recipe_id.
            Inr \<lparr>hc_kind = IntervalIntent, hc_recipe_id = recipe_id, hc_interval_seconds = Some n, hc_cron_expression = None,
              hc_timezone = None, hc_max_inflight_runs = ho_max_inflight_runs opts, hc_jitter_seconds = ho_jitter_seconds opts,
              hc_line = line, hc_source_line = source_line\<rparr>)))"

definition parse_cron_heartbeat_line ::
    "trigger_services \<Rightarrow> string list \<Rightarrow> nat \<Rightarrow> string \<Rightarrow> heartbeat_compile_issue + heartbeat_trigger_candidate" where
  "parse_cron_heartbeat_line sv tokens line source_line =
     (if length tokens < 3 then issue line ''invalid_cron_syntax''
        ''cron syntax: cron \"<expr>\" recipe=<recipe_id> [timezone=<iana>] [max_inflight=<n>] [jitter=<sec>]''
      else
        let cron_expression = trim (tokens ! 1)
        in if cron_expression = [] then issue line ''invalid_cron_expression'' ''cron expression must not be empty''
           else case ts_schedule_error sv cron_expression of
             Some err \<Rightarrow> issue line ''invalid_cron_expression'' (''cron parse error: '' @ err)
           | None \<Rightarrow>
               try_then (parse_heartbeat_options (drop 2 tokens) line) (\<lambda>opts.
               try_then (required_recipe opts line) (\<lambda>recipe_id.
               let timezone = unwrap_or (ho_timezone opts) ''UTC'' in
               if ts_timezone_error sv timezone \<noteq> None
               then issue line ''invalid_timezone'' (''timezone `'' @ timezone @ ''` is not a valid IANA timezone'')
               else Inr \<lparr>hc_kind = CronIntent, hc_recipe_id = recipe_id, hc_interval_seconds = None,
                 hc_cron_expression = Some cron_expression, hc_timezone = Some timezone,
                 hc_max_inflight_runs = ho_max_inflight_runs opts, hc_jitter_seconds = ho_jitter_seconds opts,
                 hc_line = line, hc_source_line = source_line\<rparr>)))"

definition parse_heartbeat_line ::
    "trigger_services \<Rightarrow> string list \<Rightarrow> nat \<Rightarrow> string \<Rightarrow> heartbeat_compile_issue + heartbeat_trigger_candidate" where
  "parse_heartbeat_line sv tokens line source_line =
     (let directive = to_ascii_lowercase (hd tokens)
      in if directive = ''every'' \<or> directive = ''interval'' then parse_interval_heartbeat_line tokens line source_line
         else if directive = ''cron'' then parse_cron_heartbeat_line sv tokens line source_line
         else issue line ''unsupported_directive'' (''unsupported heartbeat directive `'' @ directive @ ''`''))"

section \<open>The compiler\<close>

definition max_candidates :: nat where
  "max_candidates = 128"

text \<open>What is left of a line without its bullet; \<open>None\<close> for a blank line or a heading.\<close>

definition heartbeat_text :: "string \<Rightarrow> string option" where
  "heartbeat_text raw_line =
     (let trimmed = trim raw_line;
          normalized = unwrap_or (or_else (strip_prefix trimmed ''- '') (strip_prefix trimmed ''* '')) trimmed
      in if trimmed = [] \<or> starts_with trimmed ''#'' \<or> normalized = [] then None else Some normalized)"

fun compile_lines ::
    "trigger_services \<Rightarrow> string list \<Rightarrow> nat \<Rightarrow> heartbeat_compile_report \<Rightarrow> heartbeat_compile_report" where
  "compile_lines sv [] n report = report"
| "compile_lines sv (raw_line # rest) n report =
     (case heartbeat_text raw_line of
        None \<Rightarrow> compile_lines sv rest (Suc n) report
      | Some normalized \<Rightarrow>
          if max_candidates \<le> length (hr_candidates report)
          then report\<lparr>hr_issues := hr_issues report @ [\<lparr>hi_line = n, hi_code = ''candidate_limit_exceeded'',
            hi_message = ''maximum heartbeat candidate limit (128) exceeded; remaining lines skipped''\<rparr>]\<rparr>
          else
            let tokens = tokenize_heartbeat_line normalized
            in if tokens = [] then compile_lines sv rest (Suc n) report
               else case parse_heartbeat_line sv tokens n normalized of
                 Inr candidate \<Rightarrow> compile_lines sv rest (Suc n) (report\<lparr>hr_candidates := hr_candidates report @ [candidate]\<rparr>)
               | Inl i \<Rightarrow> compile_lines sv rest (Suc n) (report\<lparr>hr_issues := hr_issues report @ [i]\<rparr>))"

definition compile_heartbeat_markdown :: "trigger_services \<Rightarrow> string \<Rightarrow> heartbeat_compile_report" where
  "compile_heartbeat_markdown sv markdown = compile_lines sv (str_lines markdown) 1 \<lparr>hr_candidates = [], hr_issues = []\<rparr>"

section \<open>What a candidate satisfies\<close>

text \<open>A candidate can be stored as a trigger: it meets the bounds the trigger endpoints check.\<close>

definition heartbeat_candidate_ok :: "trigger_services \<Rightarrow> heartbeat_trigger_candidate \<Rightarrow> bool" where
  "heartbeat_candidate_ok sv c \<longleftrightarrow>
     1 \<le> hc_max_inflight_runs c \<and> hc_max_inflight_runs c \<le> 1000 \<and> 0 \<le> hc_jitter_seconds c \<and> hc_jitter_seconds c \<le> 3600 \<and>
     (case hc_kind c of
        IntervalIntent \<Rightarrow> (\<exists>n. hc_interval_seconds c = Some n \<and> 60 \<le> n \<and> n \<le> 31536000) \<and> hc_cron_expression c = None
      | CronIntent \<Rightarrow> hc_interval_seconds c = None \<and>
          (\<exists>e tz. hc_cron_expression c = Some e \<and> e \<noteq> [] \<and> ts_schedule_error sv e = None \<and>
             hc_timezone c = Some tz \<and> ts_timezone_error sv tz = None))"

definition options_ok :: "heartbeat_options \<Rightarrow> bool" where
  "options_ok o1 \<longleftrightarrow> 1 \<le> ho_max_inflight_runs o1 \<and> ho_max_inflight_runs o1 \<le> 1000 \<and>
     0 \<le> ho_jitter_seconds o1 \<and> ho_jitter_seconds o1 \<le> 3600"

lemma if_chain: "(if A then a else if B then b else if C then c else if D then d else e) = r \<Longrightarrow> r = a \<or> r = b \<or> r = c \<or> r = d \<or> r = e"
  by (auto split: if_splits)

lemma heartbeat_option_ok: "heartbeat_option line key v o1 = Inr o2 \<Longrightarrow> options_ok o1 \<Longrightarrow> options_ok o2"
  unfolding heartbeat_option_def
  by (drule if_chain) (auto simp: options_ok_def issue_def split: if_splits option.splits)

lemma heartbeat_options_from_ok: "heartbeat_options_from ts line o1 = Inr o2 \<Longrightarrow> options_ok o1 \<Longrightarrow> options_ok o2"
proof (induction ts arbitrary: o1)
  case (Cons token tokens)
  from Cons.prems(1) obtain k v o3 where "heartbeat_option line k v o1 = Inr o3" "heartbeat_options_from tokens line o3 = Inr o2"
    by (auto simp: issue_def try_then_Inr split: option.splits if_splits)
  with Cons.IH [of o3] heartbeat_option_ok [of line k v o1 o3] Cons.prems(2) show ?case by blast
qed simp

lemma parse_heartbeat_options_ok: "parse_heartbeat_options ts line = Inr o2 \<Longrightarrow> options_ok o2"
  unfolding parse_heartbeat_options_def by (erule heartbeat_options_from_ok) (simp add: options_ok_def)

lemma parse_heartbeat_line_ok:
  assumes "parse_heartbeat_line sv ts line src = Inr c"
  shows "heartbeat_candidate_ok sv c" "hc_line c = line"
proof -
  have "heartbeat_candidate_ok sv c \<and> hc_line c = line" if "parse_interval_heartbeat_line ts line src = Inr c"
    using that by (auto simp: parse_interval_heartbeat_line_def issue_def try_then_Inr heartbeat_candidate_ok_def options_ok_def
        split: if_splits option.splits dest!: parse_heartbeat_options_ok)
  moreover have "heartbeat_candidate_ok sv c \<and> hc_line c = line" if "parse_cron_heartbeat_line sv ts line src = Inr c"
    using that by (auto simp: parse_cron_heartbeat_line_def issue_def try_then_Inr heartbeat_candidate_ok_def options_ok_def Let_def
        split: if_splits option.splits dest!: parse_heartbeat_options_ok)
  ultimately show "heartbeat_candidate_ok sv c" "hc_line c = line"
    using assms by (auto simp: parse_heartbeat_line_def issue_def Let_def split: if_splits)
qed

definition report_ok :: "trigger_services \<Rightarrow> nat \<Rightarrow> heartbeat_compile_report \<Rightarrow> bool" where
  "report_ok sv n r \<longleftrightarrow> length (hr_candidates r) \<le> max_candidates \<and>
     (\<forall>c \<in> set (hr_candidates r). heartbeat_candidate_ok sv c \<and> hc_line c < n) \<and> sorted_wrt (<) (map hc_line (hr_candidates r))"

lemma report_ok_mono: "report_ok sv n r \<Longrightarrow> n \<le> m \<Longrightarrow> report_ok sv m r"
  by (auto simp: report_ok_def)

lemma compile_lines_ok: "report_ok sv n r \<Longrightarrow> report_ok sv (n + length ls) (compile_lines sv ls n r)"
proof (induction sv ls n r rule: compile_lines.induct)
  case (2 sv raw rest n r)
  show ?case
  proof (cases "heartbeat_text raw")
    case None
    with "2.IH"(1) [OF None] "2.prems" show ?thesis by (simp add: report_ok_mono)
  next
    case (Some t)
    show ?thesis
    proof (cases "max_candidates \<le> length (hr_candidates r)")
      case True
      with Some "2.prems" show ?thesis by (auto simp: report_ok_def)
    next
      case False
      show ?thesis
      proof (cases "tokenize_heartbeat_line t = []")
        case True
        with "2.IH"(2) [OF Some False refl True] "2.prems" Some False show ?thesis by (simp add: report_ok_mono)
      next
        case nonempty: False
        show ?thesis
        proof (cases "parse_heartbeat_line sv (tokenize_heartbeat_line t) n t")
          case (Inl i)
          have "report_ok sv (Suc n) (r\<lparr>hr_issues := hr_issues r @ [i]\<rparr>)" using "2.prems" by (auto simp: report_ok_def)
          with "2.IH"(3) [OF Some False refl nonempty Inl] Some False nonempty Inl show ?thesis by simp
        next
          case (Inr c)
          have "report_ok sv (Suc n) (r\<lparr>hr_candidates := hr_candidates r @ [c]\<rparr>)"
            using "2.prems" False parse_heartbeat_line_ok [OF Inr] by (auto simp: report_ok_def sorted_wrt_append)
          with "2.IH"(4) [OF Some False refl nonempty Inr] Some False nonempty Inr show ?thesis by simp
        qed
      qed
    qed
  qed
qed simp

lemma compile_heartbeat_ok: "report_ok sv (Suc (length (str_lines md))) (compile_heartbeat_markdown sv md)"
  using compile_lines_ok [of sv 1 "\<lparr>hr_candidates = [], hr_issues = []\<rparr>" "str_lines md"]
  by (simp add: compile_heartbeat_markdown_def report_ok_def)

end
