(* ===== verification/AgentContext.thy ===== *)
theory AgentContext
  imports LocalExec Heartbeat
begin

text \<open>
  The context files of an agent, \<open>core/src/agent_context.rs\<close>: which directory belongs to an agent, loading
  the required files and the newest notes and sessions within limits, which files may be changed by
  whom, and the JSON handed to a skill.

  The file system is a list of directories and of files with their bytes. A path names a file by its components: \<open>..\<close>
  and symbolic links are not resolved. Which operations fail is an argument. A relative path is shown with single
  separators.
\<close>

section \<open>The file system\<close>

record context_fs =
  xf_dirs :: "path_component list list"
  xf_files :: "(path_component list \<times> string) list"

datatype io_op = Metadata | ReadFile | ReadDir | ReadEntry | MakeDir | WriteFile | OpenAppend | AppendFile | ReadBack

text \<open>
  Which operations fail and with which text, and how many bytes a failed write has written (none: it could not
  open the file).
\<close>

record context_io =
  xo_fault :: "io_op \<Rightarrow> path \<Rightarrow> string option"
  xo_written :: "path \<Rightarrow> nat option"

definition file_at :: "context_fs \<Rightarrow> path \<Rightarrow> string option" where
  "file_at fs p = map_of (xf_files fs) (components p)"

definition is_dir_at :: "context_fs \<Rightarrow> path \<Rightarrow> bool" where
  "is_dir_at fs p \<longleftrightarrow> components p \<in> set (xf_dirs fs)"

definition put_file :: "path \<Rightarrow> string \<Rightarrow> context_fs \<Rightarrow> context_fs" where
  "put_file p c fs = fs\<lparr>xf_files := (components p, c) # filter (\<lambda>e. fst e \<noteq> components p) (xf_files fs)\<rparr>"

definition make_dirs :: "path \<Rightarrow> context_fs \<Rightarrow> context_fs" where
  "make_dirs p fs = fs\<lparr>xf_dirs := map (\<lambda>i. take (Suc i) (components p)) [0..<length (components p)] @ xf_dirs fs\<rparr>"

fun child_name :: "path_component list \<Rightarrow> path_component list \<Rightarrow> string option" where
  "child_name [] [Normal n] = Some n"
| "child_name (c # cs) (d # ds) = (if c = d then child_name cs ds else None)"
| "child_name _ _ = None"

text \<open>The names of the files in a directory.\<close>

definition file_names_in :: "context_fs \<Rightarrow> path \<Rightarrow> string list" where
  "file_names_in fs dir = List.map_filter (\<lambda>e. child_name (components dir) (fst e)) (xf_files fs)"

section \<open>Configuration and results\<close>

definition default_required_files :: "string list" where
  "default_required_files = [''AGENTS.md'', ''TOOLS.md'', ''IDENTITY.md'', ''SOUL.md'', ''USER.md'', ''MEMORY.md'', ''HEARTBEAT.md'']"

record agent_context_loader_config =
  xl_root_dir :: path
  xl_required_files :: "string list"
  xl_max_file_bytes :: nat
  xl_max_total_bytes :: nat
  xl_max_dynamic_files_per_dir :: nat

definition loader_with_defaults :: "path \<Rightarrow> agent_context_loader_config" where
  "loader_with_defaults root_dir =
     \<lparr>xl_root_dir = root_dir, xl_required_files = default_required_files, xl_max_file_bytes = 64 * 1024,
      xl_max_total_bytes = 256 * 1024, xl_max_dynamic_files_per_dir = 8\<rparr>"

record agent_context_file =
  xa_slot :: string
  xa_relative_path :: string
  xa_sha256 :: string
  xa_bytes :: nat
  xa_content :: string

record agent_context_snapshot =
  xn_source_dir :: path
  xn_loaded_at :: time
  xn_required_files :: "agent_context_file list"
  xn_memory_files :: "agent_context_file list"
  xn_session_files :: "agent_context_file list"
  xn_missing_required_files :: "string list"
  xn_warnings :: "string list"

datatype agent_context_load_error =
    InvalidConfig string
  | ContextDirNotFound "path list"
  | ContextIo path string

section \<open>Paths\<close>

fun is_normal :: "path_component \<Rightarrow> bool" where
  "is_normal (Normal _) = True"
| "is_normal _ = False"

definition validate_relative_path :: "string \<Rightarrow> agent_context_load_error + unit" where
  "validate_relative_path path =
     (if trim path = [] then Inl (InvalidConfig ''required file entry cannot be empty'')
      else if is_absolute path then Inl (InvalidConfig (''required file `'' @ path @ ''` cannot be absolute''))
      else if \<not> list_all is_normal (components path)
      then Inl (InvalidConfig (''required file `'' @ path @ ''` contains invalid path components''))
      else Inr ())"

definition safe_join_relative :: "path \<Rightarrow> string \<Rightarrow> agent_context_load_error + path" where
  "safe_join_relative base rel = try_then (validate_relative_path rel) (\<lambda>_. Inr (path_push base rel))"

fun validate_required :: "string list \<Rightarrow> agent_context_load_error + unit" where
  "validate_required [] = Inr ()"
| "validate_required (r # rs) = try_then (validate_relative_path r) (\<lambda>_. validate_required rs)"

definition validate_loader_config :: "agent_context_loader_config \<Rightarrow> agent_context_load_error + unit" where
  "validate_loader_config cfg =
     (if xl_max_file_bytes cfg = 0 then Inl (InvalidConfig ''max_file_bytes must be > 0'')
      else if xl_max_total_bytes cfg = 0 then Inl (InvalidConfig ''max_total_bytes must be > 0'')
      else if xl_max_dynamic_files_per_dir cfg = 0 then Inl (InvalidConfig ''max_dynamic_files_per_dir must be > 0'')
      else validate_required (xl_required_files cfg))"

definition tenant_agent_dir :: "agent_context_loader_config \<Rightarrow> string \<Rightarrow> uuid \<Rightarrow> path" where
  "tenant_agent_dir cfg tenant_id agent_id = path_push (path_push (xl_root_dir cfg) (trim tenant_id)) agent_id"

definition flat_agent_dir :: "agent_context_loader_config \<Rightarrow> uuid \<Rightarrow> path" where
  "flat_agent_dir cfg agent_id = path_push (xl_root_dir cfg) agent_id"

definition resolve_source_dir ::
    "context_fs \<Rightarrow> agent_context_loader_config \<Rightarrow> string \<Rightarrow> uuid \<Rightarrow> agent_context_load_error + path" where
  "resolve_source_dir fs cfg tenant_id agent_id =
     (let tenant_agent = tenant_agent_dir cfg tenant_id agent_id; flat_agent = flat_agent_dir cfg agent_id
      in if is_dir_at fs tenant_agent then Inr tenant_agent
         else if is_dir_at fs flat_agent then Inr flat_agent
         else Inl (ContextDirNotFound [tenant_agent, flat_agent]))"

text \<open>\<open>path.strip_prefix(base).unwrap_or(path)\<close> as text.\<close>

definition relative_to :: "path \<Rightarrow> path \<Rightarrow> string" where
  "relative_to base p =
     (if path_starts_with p base then components_path (drop (length (components base)) (components p)) else p)"

definition extension :: "string \<Rightarrow> string option" where
  "extension name =
     (case split_once (rev name) CHR ''.'' of
        None \<Rightarrow> None
      | Some (ext, before) \<Rightarrow> if before = [] then None else Some (rev ext))"

section \<open>Loading\<close>

text \<open>What the loader threads through: the bytes loaded so far and the warnings.\<close>

type_synonym load_state = "nat \<times> string list"

definition load_context_file ::
    "context_io \<Rightarrow> (string \<Rightarrow> string) \<Rightarrow> context_fs \<Rightarrow> path \<Rightarrow> path \<Rightarrow> string \<Rightarrow> agent_context_loader_config \<Rightarrow> load_state \<Rightarrow>
     (agent_context_load_error + agent_context_file option) \<times> load_state" where
  "load_context_file io sha fs source_dir full_path slot cfg st =
     (case st of (loaded, warnings) \<Rightarrow>
      case file_at fs full_path of
        None \<Rightarrow>
          if is_dir_at fs full_path
          then (Inr None, loaded, warnings @ [''context path `'' @ full_path @ ''` is not a regular file; skipped''])
          else (Inr None, st)
      | Some bytes \<Rightarrow>
          (case xo_fault io Metadata full_path of
             Some e \<Rightarrow> (Inl (ContextIo full_path e), st)
           | None \<Rightarrow>
               if xl_max_file_bytes cfg < length bytes
               then (Inr None, loaded, warnings @ [''context file `'' @ full_path @ ''` exceeds max_file_bytes '' @
                 nat_to_string (xl_max_file_bytes cfg) @ ''; skipped''])
               else if xl_max_total_bytes cfg < min (loaded + length bytes) u64_max
               then (Inr None, loaded, warnings @ [''loading `'' @ full_path @ ''` would exceed max_total_bytes '' @
                 nat_to_string (xl_max_total_bytes cfg) @ ''; skipped''])
               else case xo_fault io ReadFile full_path of
                 Some e \<Rightarrow> (Inl (ContextIo full_path e), st)
               | None \<Rightarrow>
                   if \<not> is_utf8 bytes
                   then (Inr None, loaded, warnings @ [''context file `'' @ full_path @ ''` is not valid UTF-8; skipped''])
                   else (Inr (Some \<lparr>xa_slot = slot, xa_relative_path = from_utf8_lossy (relative_to source_dir full_path),
                          xa_sha256 = sha bytes, xa_bytes = length bytes, xa_content = bytes\<rparr>),
                        min (loaded + length bytes) u64_max, warnings)))"

fun load_required ::
    "context_io \<Rightarrow> (string \<Rightarrow> string) \<Rightarrow> context_fs \<Rightarrow> path \<Rightarrow> agent_context_loader_config \<Rightarrow> string list \<Rightarrow> load_state \<Rightarrow>
     (agent_context_load_error + agent_context_file list \<times> string list) \<times> load_state" where
  "load_required io sha fs source_dir cfg [] st = (Inr ([], []), st)"
| "load_required io sha fs source_dir cfg (required # rest) st =
     (case safe_join_relative source_dir required of
        Inl e \<Rightarrow> (Inl e, st)
      | Inr required_path \<Rightarrow>
          (case load_context_file io sha fs source_dir required_path required cfg st of
             (Inl e, st1) \<Rightarrow> (Inl e, st1)
           | (Inr f, st1) \<Rightarrow>
               (case load_required io sha fs source_dir cfg rest st1 of
                  (Inl e, st2) \<Rightarrow> (Inl e, st2)
                | (Inr (files, missing), st2) \<Rightarrow>
                    (Inr (case f of Some file \<Rightarrow> (file # files, missing) | None \<Rightarrow> (files, required # missing)), st2))))"

fun load_files ::
    "context_io \<Rightarrow> (string \<Rightarrow> string) \<Rightarrow> context_fs \<Rightarrow> path \<Rightarrow> string \<Rightarrow> agent_context_loader_config \<Rightarrow> path list \<Rightarrow> load_state \<Rightarrow>
     (agent_context_load_error + agent_context_file list) \<times> load_state" where
  "load_files io sha fs source_dir slot_prefix cfg [] st = (Inr [], st)"
| "load_files io sha fs source_dir slot_prefix cfg (p # ps) st =
     (case load_context_file io sha fs source_dir p (slot_prefix @ '':'' @ from_utf8_lossy (relative_to source_dir p)) cfg st of
        (Inl e, st1) \<Rightarrow> (Inl e, st1)
      | (Inr f, st1) \<Rightarrow>
          (case load_files io sha fs source_dir slot_prefix cfg ps st1 of
             (Inl e, st2) \<Rightarrow> (Inl e, st2)
           | (Inr files, st2) \<Rightarrow> (Inr (case f of Some file \<Rightarrow> file # files | None \<Rightarrow> files), st2)))"

text \<open>The files of one directory, by descending name; entries that cannot be read are skipped.\<close>

definition dynamic_paths :: "context_io \<Rightarrow> context_fs \<Rightarrow> path \<Rightarrow> string \<Rightarrow> path list" where
  "dynamic_paths io fs dir ext =
     map (path_push dir) (rev (sort (filter
       (\<lambda>name. xo_fault io ReadEntry (path_push dir name) = None \<and>
          (case extension name of Some e \<Rightarrow> is_utf8 e \<and> eq_ignore_ascii_case e ext | None \<Rightarrow> False))
       (file_names_in fs dir))))"

definition load_dynamic_context_files ::
    "context_io \<Rightarrow> (string \<Rightarrow> string) \<Rightarrow> context_fs \<Rightarrow> path \<Rightarrow> string \<Rightarrow> string \<Rightarrow> string \<Rightarrow> agent_context_loader_config \<Rightarrow> load_state \<Rightarrow>
     (agent_context_load_error + agent_context_file list) \<times> load_state" where
  "load_dynamic_context_files io sha fs source_dir subdir ext slot_prefix cfg st =
     (let dynamic_dir = path_push source_dir subdir
      in if \<not> is_dir_at fs dynamic_dir then (Inr [], st)
         else case xo_fault io ReadDir dynamic_dir of
           Some e \<Rightarrow> (Inl (ContextIo dynamic_dir e), st)
         | None \<Rightarrow> load_files io sha fs source_dir slot_prefix cfg
             (take (xl_max_dynamic_files_per_dir cfg) (dynamic_paths io fs dynamic_dir ext)) st)"

definition load_agent_context_snapshot ::
    "context_io \<Rightarrow> (string \<Rightarrow> string) \<Rightarrow> time \<Rightarrow> context_fs \<Rightarrow> agent_context_loader_config \<Rightarrow> string \<Rightarrow> uuid \<Rightarrow>
     agent_context_load_error + agent_context_snapshot" where
  "load_agent_context_snapshot io sha now fs cfg tenant_id agent_id =
     try_then (validate_loader_config cfg) (\<lambda>_.
     try_then (resolve_source_dir fs cfg tenant_id agent_id) (\<lambda>source_dir.
     case load_required io sha fs source_dir cfg (xl_required_files cfg) (0, []) of
       (Inl e, _) \<Rightarrow> Inl e
     | (Inr (required_files, missing), st1) \<Rightarrow>
         (case load_dynamic_context_files io sha fs source_dir ''memory'' ''md'' ''memory'' cfg st1 of
            (Inl e, _) \<Rightarrow> Inl e
          | (Inr memory_files, st2) \<Rightarrow>
              (case load_dynamic_context_files io sha fs source_dir ''sessions'' ''jsonl'' ''session'' cfg st2 of
                 (Inl e, _) \<Rightarrow> Inl e
               | (Inr session_files, (_, warnings)) \<Rightarrow>
                   Inr \<lparr>xn_source_dir = source_dir, xn_loaded_at = now, xn_required_files = required_files,
                     xn_memory_files = memory_files, xn_session_files = session_files,
                     xn_missing_required_files = missing, xn_warnings = warnings\<rparr>))))"

section \<open>What a snapshot reports\<close>

definition snapshot_files :: "agent_context_snapshot \<Rightarrow> agent_context_file list" where
  "snapshot_files n = xn_required_files n @ xn_memory_files n @ xn_session_files n"

definition loaded_file_count :: "agent_context_snapshot \<Rightarrow> nat" where
  "loaded_file_count n = length (xn_required_files n) + length (xn_memory_files n) + length (xn_session_files n)"

definition total_loaded_bytes :: "agent_context_snapshot \<Rightarrow> nat" where
  "total_loaded_bytes n = sum_list (map xa_bytes (snapshot_files n))"

definition aggregate_sha256 :: "(string \<Rightarrow> string) \<Rightarrow> agent_context_snapshot \<Rightarrow> string" where
  "aggregate_sha256 sha n = sha (join [CHR 0x0A] (sort (map (\<lambda>f.
     xa_slot f @ '':'' @ xa_relative_path f @ '':'' @ xa_sha256 f @ '':'' @ nat_to_string (xa_bytes f)) (snapshot_files n))))"

definition metadata_pairs :: "agent_context_file \<Rightarrow> (string \<times> json) list" where
  "metadata_pairs f = [(''slot'', JString (xa_slot f)), (''relative_path'', JString (xa_relative_path f)),
     (''sha256'', JString (xa_sha256 f)), (''bytes'', jnat (xa_bytes f))]"

definition metadata_json :: "agent_context_file \<Rightarrow> json" where
  "metadata_json f = jobj (metadata_pairs f)"

definition skill_json :: "agent_context_file \<Rightarrow> json" where
  "skill_json f = jobj (metadata_pairs f @ [(''content'', JString (xa_content f))])"

definition summary_json :: "(string \<Rightarrow> string) \<Rightarrow> (time \<Rightarrow> json) \<Rightarrow> agent_context_snapshot \<Rightarrow> json" where
  "summary_json sha time_json n = jobj
     [(''source_dir'', JString (xn_source_dir n)), (''loaded_at'', time_json (xn_loaded_at n)),
      (''required_file_count'', jnat (length (xn_required_files n))), (''memory_file_count'', jnat (length (xn_memory_files n))),
      (''session_file_count'', jnat (length (xn_session_files n))), (''loaded_file_count'', jnat (loaded_file_count n)),
      (''total_loaded_bytes'', jnat (total_loaded_bytes n)),
      (''missing_required_files'', JArray (map JString (xn_missing_required_files n))),
      (''warnings'', JArray (map JString (xn_warnings n))), (''aggregate_sha256'', JString (aggregate_sha256 sha n)),
      (''required_files'', JArray (map metadata_json (xn_required_files n))),
      (''memory_files'', JArray (map metadata_json (xn_memory_files n))),
      (''session_files'', JArray (map metadata_json (xn_session_files n)))]"

definition skill_context_json :: "(string \<Rightarrow> string) \<Rightarrow> (time \<Rightarrow> json) \<Rightarrow> agent_context_snapshot \<Rightarrow> json" where
  "skill_context_json sha time_json n = jobj
     [(''schema_version'', JString ''v1''), (''source_dir'', JString (xn_source_dir n)), (''loaded_at'', time_json (xn_loaded_at n)),
      (''aggregate_sha256'', JString (aggregate_sha256 sha n)),
      (''missing_required_files'', JArray (map JString (xn_missing_required_files n))),
      (''warnings'', JArray (map JString (xn_warnings n))),
      (''required_files'', JArray (map skill_json (xn_required_files n))),
      (''memory_files'', JArray (map skill_json (xn_memory_files n))),
      (''session_files'', JArray (map skill_json (xn_session_files n)))]"

definition required_file_content :: "agent_context_snapshot \<Rightarrow> string \<Rightarrow> string option" where
  "required_file_content n relative_path =
     map_option xa_content (find (\<lambda>f. eq_ignore_ascii_case (xa_relative_path f) relative_path) (xn_required_files n))"

section \<open>Who may change a file\<close>

datatype mutability = Immutable | HumanPrimary | AgentManaged

fun part_text :: "path_component \<Rightarrow> string" where
  "part_text (Normal part) = from_utf8_lossy part"
| "part_text _ = []"

definition normalize_context_relative_path :: "string \<Rightarrow> string option" where
  "normalize_context_relative_path relative_path =
     (let trimmed = trim relative_path
      in if trimmed = [] \<or> is_absolute trimmed \<or> \<not> list_all is_normal (components trimmed) \<or> components trimmed = [] then None
         else Some (join ''/'' (map part_text (components trimmed))))"

definition classify_mutability :: "string \<Rightarrow> mutability option" where
  "classify_mutability relative_path =
     (case normalize_context_relative_path relative_path of
        None \<Rightarrow> None
      | Some p \<Rightarrow>
          if p \<in> set [''AGENTS.md'', ''TOOLS.md'', ''IDENTITY.md'', ''SOUL.md''] then Some Immutable
          else if p \<in> set [''USER.md'', ''HEARTBEAT.md'', ''BOOTSTRAP.md''] then Some HumanPrimary
          else if p = ''MEMORY.md'' then Some AgentManaged
          else if starts_with p ''memory/'' \<and> ends_with p ''.md'' then Some AgentManaged
          else if starts_with p ''sessions/'' \<and> ends_with p ''.jsonl'' then Some AgentManaged
          else None)"

definition normalize_required_files :: "string list \<Rightarrow> string list" where
  "normalize_required_files values = remdups (sort (filter (\<lambda>v. v \<noteq> []) (map trim values)))"

end
