(* ===== verification/ContextApi.thy ===== *)
theory ContextApi
  imports AgentContext ApiTriggers
begin

text \<open>
  The endpoints for agent context of \<open>api/src/lib.rs\<close>: inspecting the context, changing its files, the bootstrap
  workflow, and compiling and applying the heartbeat. The state behind a handler is the file system of
  the context. The handlers of the SQLite server are the same code over the same fields of its state; they
  differ only where triggers are stored.
\<close>

section \<open>State, services and requests\<close>

record context_api_state =
  xs_app :: app_state
  xs_loader :: agent_context_loader_config
  xs_mutation_enabled :: bool
  xs_bootstrap_enabled :: bool

record context_services =
  xv_triggers :: trigger_api_services
  xv_io :: context_io
  xv_sha256_hex :: "string \<Rightarrow> string"
  xv_to_json :: "json \<Rightarrow> string + string"
  xv_json :: "string \<Rightarrow> string + json"
  xv_format_time :: "time \<Rightarrow> string + string"
  xv_parse_time :: "string \<Rightarrow> string + time"

type_synonym 'a context_handler = "(context_fs, 'a) handler"

record mutate_agent_context_request =
  mq_relative_path :: string
  mq_content :: string
  mq_mode :: string

record complete_bootstrap_request =
  bq_identity_markdown :: "string option"
  bq_soul_markdown :: "string option"
  bq_user_markdown :: "string option"
  bq_heartbeat_markdown :: "string option"
  bq_completion_note :: "string option"
  bq_force :: bool

section \<open>Steps on files\<close>

text \<open>An operation that only fails or succeeds, with its message before the path.\<close>

definition check_io :: "context_services \<Rightarrow> io_op \<Rightarrow> string \<Rightarrow> string \<Rightarrow> path \<Rightarrow> unit context_handler" where
  "check_io xv op before behind p =
     (case xo_fault (xv_io xv) op p of
        Some e \<Rightarrow> reject (internal (before @ p @ behind @ '': '' @ e))
      | None \<Rightarrow> done_with ())"

definition on_fs :: "(context_fs \<Rightarrow> context_fs) \<Rightarrow> unit context_handler" where
  "on_fs f = (\<lambda>w. (Inr (), w\<lparr>w_ext := f (w_ext w)\<rparr>))"

definition context_create_dir_all :: "context_services \<Rightarrow> string \<Rightarrow> path \<Rightarrow> unit context_handler" where
  "context_create_dir_all xv before p = and_then (check_io xv MakeDir before [] p) (\<lambda>_. on_fs (make_dirs p))"

definition create_parent_dir :: "context_services \<Rightarrow> path \<Rightarrow> unit context_handler" where
  "create_parent_dir xv p =
     (case parent_of p of
        None \<Rightarrow> done_with ()
      | Some parent \<Rightarrow> context_create_dir_all xv ''failed creating context file directory '' parent)"

text \<open>\<open>fs::write\<close>: a failure after opening leaves a prefix of the content.\<close>

definition context_write_file :: "context_services \<Rightarrow> string \<Rightarrow> path \<Rightarrow> string \<Rightarrow> unit context_handler" where
  "context_write_file xv before p bytes =
     (case xo_fault (xv_io xv) WriteFile p of
        None \<Rightarrow> on_fs (put_file p bytes)
      | Some e \<Rightarrow>
          and_then (case xo_written (xv_io xv) p of None \<Rightarrow> done_with () | Some n \<Rightarrow> on_fs (put_file p (take n bytes)))
            (\<lambda>_. reject (internal (before @ p @ '': '' @ e))))"

definition content_at :: "context_fs \<Rightarrow> path \<Rightarrow> string" where
  "content_at fs p = unwrap_or (file_at fs p) []"

text \<open>Open for appending, creating the file, and \<open>write_all\<close>.\<close>

definition append_file :: "context_services \<Rightarrow> path \<Rightarrow> string \<Rightarrow> unit context_handler" where
  "append_file xv p bytes =
     and_then (check_io xv OpenAppend ''failed opening context file '' '' for append'' p) (\<lambda>_ w.
       let old = content_at (w_ext w) p in
       case xo_fault (xv_io xv) AppendFile p of
         None \<Rightarrow> on_fs (put_file p (old @ bytes)) w
       | Some e \<Rightarrow>
           and_then (on_fs (put_file p (old @ take (unwrap_or (xo_written (xv_io xv) p) 0) bytes)))
             (\<lambda>_. reject (internal (''failed appending context file '' @ p @ '': '' @ e))) w)"

definition read_back :: "context_services \<Rightarrow> string \<Rightarrow> path \<Rightarrow> string context_handler" where
  "read_back xv before p = and_then (check_io xv ReadBack before [] p) (\<lambda>_ w. (Inr (content_at (w_ext w) p), w))"

text \<open>\<open>fs::metadata(p).map(len).unwrap_or(0)\<close>\<close>

definition current_len :: "context_services \<Rightarrow> context_fs \<Rightarrow> path \<Rightarrow> nat" where
  "current_len xv fs p = (if xo_fault (xv_io xv) Metadata p = None then length (content_at fs p) else 0)"

section \<open>Loading\<close>

definition map_agent_context_load_error :: "agent_context_load_error \<Rightarrow> api_error" where
  "map_agent_context_load_error err =
     (case err of
        ContextDirNotFound paths \<Rightarrow> not_found (''agent context not found; searched: '' @ join '', '' paths)
      | InvalidConfig m \<Rightarrow> internal (''agent context loader is misconfigured: '' @ m)
      | ContextIo p e \<Rightarrow> internal (''failed reading agent context at '' @ p @ '': '' @ e))"

definition load_snapshot ::
    "outside \<Rightarrow> context_services \<Rightarrow> context_api_state \<Rightarrow> string \<Rightarrow> uuid \<Rightarrow> agent_context_snapshot context_handler" where
  "load_snapshot env xv st tenant_id agent_id = (\<lambda>w.
     case load_agent_context_snapshot (xv_io xv) (xv_sha256_hex xv) (o_now env (w_stmts w)) (w_ext w) (xs_loader st) tenant_id agent_id of
       Inl e \<Rightarrow> (Inl (map_agent_context_load_error e), w)
     | Inr n \<Rightarrow> (Inr n, w))"

definition summary_digest_sha256 :: "context_services \<Rightarrow> string \<Rightarrow> agent_context_snapshot \<Rightarrow> string context_handler" where
  "summary_digest_sha256 xv what n =
     (case xv_to_json xv (summary_json (xv_sha256_hex xv) (ty_time_json (xv_triggers xv)) n) of
        Inl e \<Rightarrow> reject (internal (what @ '': '' @ e))
      | Inr bytes \<Rightarrow> done_with (xv_sha256_hex xv bytes))"

definition ensure_usage_query_role :: "role_preset \<Rightarrow> api_error + unit" where
  "ensure_usage_query_role role = reject_if (role = Viewer) (forbidden ''viewer role cannot query reporting endpoints'')"

definition ensure_owner_role :: "role_preset \<Rightarrow> string \<Rightarrow> api_error + unit" where
  "ensure_owner_role role message = reject_if (role \<noteq> Owner) (forbidden message)"

definition ensure_memory_write_role :: "role_preset \<Rightarrow> api_error + unit" where
  "ensure_memory_write_role role = reject_if (role = Viewer) (forbidden ''viewer role cannot write memory'')"

text \<open>The lines that open the endpoints that only report.\<close>

definition reporting_caller :: "context_api_state \<Rightarrow> headers \<Rightarrow> api_error + string" where
  "reporting_caller st hs =
     try_then (tenant_from_headers hs) (\<lambda>tenant_id.
     try_then (role_from_headers (xs_app st) hs) (\<lambda>role.
     try_then (ensure_usage_query_role role) (\<lambda>_. Inr tenant_id)))"

definition agent_context_precedence_order :: "string list" where
  "agent_context_precedence_order = [''runtime policy enforcement'', ''AGENTS.md + TOOLS.md'', ''IDENTITY.md + SOUL.md'',
     ''USER.md'', ''MEMORY.md'', ''memory/*.md + sessions/*.jsonl'']"

record agent_context_file_response =
  fq_slot :: string
  fq_relative_path :: string
  fq_sha256 :: string
  fq_bytes :: nat
  fq_mutability :: "mutability option"

definition agent_context_file_to_response :: "agent_context_file \<Rightarrow> agent_context_file_response" where
  "agent_context_file_to_response f =
     \<lparr>fq_slot = xa_slot f, fq_relative_path = xa_relative_path f, fq_sha256 = xa_sha256 f, fq_bytes = xa_bytes f,
      fq_mutability = classify_mutability (xa_relative_path f)\<rparr>"

record agent_context_inspect_response =
  ir_tenant_id :: string
  ir_agent_id :: uuid
  ir_source_dir :: path
  ir_loaded_at :: time
  ir_loaded_file_count :: nat
  ir_total_loaded_bytes :: nat
  ir_aggregate_sha256 :: string
  ir_summary_digest_sha256 :: string
  ir_missing_required_files :: "string list"
  ir_warnings :: "string list"
  ir_precedence_order :: "string list"
  ir_required_files :: "agent_context_file_response list"
  ir_memory_files :: "agent_context_file_response list"
  ir_session_files :: "agent_context_file_response list"

definition get_agent_context_handler ::
    "outside \<Rightarrow> context_services \<Rightarrow> context_api_state \<Rightarrow> headers \<Rightarrow> uuid \<Rightarrow> (nat \<times> agent_context_inspect_response) context_handler" where
  "get_agent_context_handler env xv st hs agent_id =
     and_then (from_result (reporting_caller st hs)) (\<lambda>tenant_id.
     and_then (load_snapshot env xv st tenant_id agent_id) (\<lambda>n.
     and_then (summary_digest_sha256 xv ''failed serializing agent context summary'' n) (\<lambda>digest.
     done_with (200,
       \<lparr>ir_tenant_id = tenant_id, ir_agent_id = agent_id, ir_source_dir = xn_source_dir n, ir_loaded_at = xn_loaded_at n,
        ir_loaded_file_count = loaded_file_count n, ir_total_loaded_bytes = total_loaded_bytes n,
        ir_aggregate_sha256 = aggregate_sha256 (xv_sha256_hex xv) n, ir_summary_digest_sha256 = digest,
        ir_missing_required_files = xn_missing_required_files n, ir_warnings = xn_warnings n,
        ir_precedence_order = agent_context_precedence_order,
        ir_required_files = map agent_context_file_to_response (xn_required_files n),
        ir_memory_files = map agent_context_file_to_response (xn_memory_files n),
        ir_session_files = map agent_context_file_to_response (xn_session_files n)\<rparr>))))"

definition get_agent_context_sqlite_handler ::
    "outside \<Rightarrow> context_services \<Rightarrow> context_api_state \<Rightarrow> headers \<Rightarrow> uuid \<Rightarrow> (nat \<times> agent_context_inspect_response) context_handler" where
  "get_agent_context_sqlite_handler = get_agent_context_handler"

section \<open>Changing a file\<close>

datatype context_mutation_mode = Replace | Append

fun mutation_mode_as_str :: "context_mutation_mode \<Rightarrow> string" where
  "mutation_mode_as_str Replace = ''replace''"
| "mutation_mode_as_str Append = ''append''"

definition parse_context_mutation_mode :: "string \<Rightarrow> api_error + context_mutation_mode" where
  "parse_context_mutation_mode raw =
     (let m = to_ascii_lowercase (trim raw)
      in if m = ''replace'' then Inr Replace
         else if m = ''append'' then Inr Append
         else Inl (bad_request ''mode must be one of: replace, append''))"

fun mutation_parts :: "path_component list \<Rightarrow> api_error + string list" where
  "mutation_parts [] = Inr []"
| "mutation_parts (Normal part # cs) =
     (if trim (from_utf8_lossy part) = [] then Inl (bad_request ''relative_path contains empty path component'')
      else try_then (mutation_parts cs) (\<lambda>ps. Inr (from_utf8_lossy part # ps)))"
| "mutation_parts (c # cs) = Inl (bad_request ''relative_path contains invalid path components'')"

definition normalize_context_mutation_path :: "string \<Rightarrow> api_error + string" where
  "normalize_context_mutation_path raw =
     (let trimmed = trim raw
      in if trimmed = [] then Inl (bad_request ''relative_path must not be empty'')
         else if is_absolute trimmed then Inl (bad_request ''relative_path must be a relative path'')
         else try_then (mutation_parts (components trimmed)) (\<lambda>parts.
           if parts = [] then Inl (bad_request ''relative_path must not be empty'') else Inr (join ''/'' parts)))"

definition ensure_context_mutation_role :: "role_preset \<Rightarrow> mutability \<Rightarrow> api_error + unit" where
  "ensure_context_mutation_role role m =
     (case m of
        Immutable \<Rightarrow> Inl (forbidden ''immutable agent-context files cannot be mutated via API'')
      | HumanPrimary \<Rightarrow> ensure_owner_role role ''only owner role can mutate human-primary agent-context files''
      | AgentManaged \<Rightarrow> ensure_memory_write_role role)"

definition validate_context_mutation_mode :: "context_mutation_mode \<Rightarrow> string \<Rightarrow> mutability \<Rightarrow> api_error + unit" where
  "validate_context_mutation_mode mode relative_path m =
     try_then (reject_if (starts_with relative_path ''sessions/'' \<and> \<not> ends_with relative_path ''.jsonl'')
       (bad_request ''sessions/ context files must use .jsonl extension'')) (\<lambda>_.
     try_then (reject_if (starts_with relative_path ''memory/'' \<and> \<not> ends_with relative_path ''.md'')
       (bad_request ''memory/ context files must use .md extension'')) (\<lambda>_.
     try_then (reject_if ((m = HumanPrimary \<or> m = Immutable) \<and> mode = Append)
       (bad_request ''append mode is not allowed for immutable or human-primary files'')) (\<lambda>_.
     reject_if (starts_with relative_path ''sessions/'' \<and> mode \<noteq> Append)
       (bad_request ''sessions/*.jsonl mutations must use append mode''))))"

definition resolve_or_create_agent_context_source_dir ::
    "context_services \<Rightarrow> agent_context_loader_config \<Rightarrow> string \<Rightarrow> uuid \<Rightarrow> path context_handler" where
  "resolve_or_create_agent_context_source_dir xv cfg tenant_id agent_id = (\<lambda>w.
     let tenant_agent = tenant_agent_dir cfg tenant_id agent_id; flat_agent = flat_agent_dir cfg agent_id
     in if is_dir_at (w_ext w) tenant_agent then (Inr tenant_agent, w)
        else if is_dir_at (w_ext w) flat_agent then (Inr flat_agent, w)
        else and_then (context_create_dir_all xv ''failed creating agent context directory '' tenant_agent)
          (\<lambda>_. done_with tenant_agent) w)"

record agent_context_mutation_response =
  mr_tenant_id :: string
  mr_agent_id :: uuid
  mr_relative_path :: string
  mr_mode :: string
  mr_mutability :: mutability
  mr_sha256 :: string
  mr_bytes :: nat

text \<open>What the request asks for, after all checks that need no file.\<close>

definition mutation_request ::
    "context_api_state \<Rightarrow> headers \<Rightarrow> mutate_agent_context_request \<Rightarrow>
     api_error + string \<times> context_mutation_mode \<times> string \<times> mutability" where
  "mutation_request st hs req =
     (if \<not> xs_mutation_enabled st
      then Inl (forbidden ''agent-context mutation endpoints are disabled by API_AGENT_CONTEXT_MUTATION_ENABLED'')
      else
        try_then (tenant_from_headers hs) (\<lambda>tenant_id.
        try_then (role_from_headers (xs_app st) hs) (\<lambda>role.
        try_then (parse_context_mutation_mode (mq_mode req)) (\<lambda>mode.
        try_then (normalize_context_mutation_path (mq_relative_path req)) (\<lambda>relative_path.
        case classify_mutability relative_path of
          None \<Rightarrow> Inl (bad_request (''relative_path must target a supported agent-context file '' @
            ''(USER.md, HEARTBEAT.md, BOOTSTRAP.md, MEMORY.md, memory/*.md, sessions/*.jsonl)''))
        | Some m \<Rightarrow>
            try_then (ensure_context_mutation_role role m) (\<lambda>_.
            try_then (validate_context_mutation_mode mode relative_path m) (\<lambda>_.
            Inr (tenant_id, mode, relative_path, m))))))))"

definition with_newline :: "string \<Rightarrow> string" where
  "with_newline s = (if ends_with s [CHR 0x0A] then s else s @ [CHR 0x0A])"

definition apply_mutation ::
    "context_services \<Rightarrow> nat \<Rightarrow> context_mutation_mode \<Rightarrow> path \<Rightarrow> string \<Rightarrow> unit context_handler" where
  "apply_mutation xv limit mode full_path payload = (\<lambda>w.
     let projected_len = (case mode of
           Replace \<Rightarrow> length payload
         | Append \<Rightarrow> min (current_len xv (w_ext w) full_path + length payload) u64_max)
     in if limit < projected_len
        then (Inl (bad_request (''mutation exceeds max file size ('' @ nat_to_string limit @ '' bytes)'')), w)
        else (case mode of
            Replace \<Rightarrow> context_write_file xv ''failed writing context file '' full_path payload
          | Append \<Rightarrow> append_file xv full_path payload) w)"

definition mutate_agent_context_handler ::
    "context_services \<Rightarrow> context_api_state \<Rightarrow> headers \<Rightarrow> uuid \<Rightarrow> mutate_agent_context_request \<Rightarrow>
     (nat \<times> agent_context_mutation_response) context_handler" where
  "mutate_agent_context_handler xv st hs agent_id req =
     and_then (from_result (mutation_request st hs req)) (\<lambda>(tenant_id, mode, relative_path, m).
     and_then (resolve_or_create_agent_context_source_dir xv (xs_loader st) tenant_id agent_id) (\<lambda>source_dir.
     let full_path = path_push source_dir relative_path;
         payload = (if mode = Append \<and> starts_with relative_path ''sessions/'' then with_newline (mq_content req) else mq_content req) in
     and_then (create_parent_dir xv full_path) (\<lambda>_.
     and_then (apply_mutation xv (xl_max_file_bytes (xs_loader st)) mode full_path payload) (\<lambda>_.
     and_then (read_back xv ''failed reading updated context file '' full_path) (\<lambda>bytes.
     done_with (200, \<lparr>mr_tenant_id = tenant_id, mr_agent_id = agent_id, mr_relative_path = relative_path,
       mr_mode = mutation_mode_as_str mode, mr_mutability = m, mr_sha256 = xv_sha256_hex xv bytes, mr_bytes = length bytes\<rparr>))))))"

definition mutate_agent_context_sqlite_handler ::
    "context_services \<Rightarrow> context_api_state \<Rightarrow> headers \<Rightarrow> uuid \<Rightarrow> mutate_agent_context_request \<Rightarrow>
     (nat \<times> agent_context_mutation_response) context_handler" where
  "mutate_agent_context_sqlite_handler = mutate_agent_context_handler"

end
