(* ===== verification/HeartbeatApi.thy ===== *)
theory HeartbeatApi
  imports ContextApi
begin

text \<open>
  Compiling the heartbeat of an agent and applying it, \<open>api/src/lib.rs\<close>: every candidate becomes a trigger unless
  one like it exists. Finding and creating triggers differ between the PostgreSQL and the SQLite server; the
  handler takes them as arguments and is instantiated for both.
\<close>

section \<open>Where the heartbeat comes from\<close>

record heartbeat_source =
  hs_markdown :: string
  hs_source :: string
  hs_source_path :: "string option"
  hs_aggregate_sha256 :: "string option"
  hs_summary_digest_sha256 :: "string option"

definition heartbeat_source_of ::
    "outside \<Rightarrow> context_services \<Rightarrow> context_api_state \<Rightarrow> string \<Rightarrow> uuid \<Rightarrow> string option \<Rightarrow> string \<Rightarrow> heartbeat_source context_handler" where
  "heartbeat_source_of env xv st tenant_id agent_id inline_markdown what =
     (case Option.bind inline_markdown non_empty_trimmed of
        Some inline \<Rightarrow> done_with \<lparr>hs_markdown = inline, hs_source = ''inline'', hs_source_path = None,
          hs_aggregate_sha256 = None, hs_summary_digest_sha256 = None\<rparr>
      | None \<Rightarrow>
          and_then (load_snapshot env xv st tenant_id agent_id) (\<lambda>n.
          case required_file_content n ''HEARTBEAT.md'' of
            None \<Rightarrow> reject (bad_request ''HEARTBEAT.md is missing; provide heartbeat_markdown inline or add the file'')
          | Some heartbeat \<Rightarrow>
              and_then (summary_digest_sha256 xv (''failed serializing agent context summary for heartbeat '' @ what) n) (\<lambda>digest.
              done_with \<lparr>hs_markdown = heartbeat, hs_source = ''context_file'',
                hs_source_path = Some (xn_source_dir n @ ''/HEARTBEAT.md''),
                hs_aggregate_sha256 = Some (aggregate_sha256 (xv_sha256_hex xv) n), hs_summary_digest_sha256 = Some digest\<rparr>)))"

section \<open>Compiling\<close>

record agent_heartbeat_compile_response =
  cp_tenant_id :: string
  cp_agent_id :: uuid
  cp_source :: heartbeat_source
  cp_candidate_count :: nat
  cp_issue_count :: nat
  cp_report :: heartbeat_compile_report

definition compile_agent_heartbeat_handler ::
    "outside \<Rightarrow> context_services \<Rightarrow> context_api_state \<Rightarrow> headers \<Rightarrow> uuid \<Rightarrow> string option \<Rightarrow>
     (nat \<times> agent_heartbeat_compile_response) context_handler" where
  "compile_agent_heartbeat_handler env xv st hs agent_id inline_markdown =
     and_then (from_result (reporting_caller st hs)) (\<lambda>tenant_id.
     and_then (heartbeat_source_of env xv st tenant_id agent_id inline_markdown ''compile'') (\<lambda>src.
     let report = compile_heartbeat_markdown (ty_trigger (xv_triggers xv)) (hs_markdown src) in
     done_with (200, \<lparr>cp_tenant_id = tenant_id, cp_agent_id = agent_id, cp_source = src,
       cp_candidate_count = length (hr_candidates report), cp_issue_count = length (hr_issues report), cp_report = report\<rparr>)))"

definition compile_agent_heartbeat_sqlite_handler ::
    "outside \<Rightarrow> context_services \<Rightarrow> context_api_state \<Rightarrow> headers \<Rightarrow> uuid \<Rightarrow> string option \<Rightarrow>
     (nat \<times> agent_heartbeat_compile_response) context_handler" where
  "compile_agent_heartbeat_sqlite_handler = compile_agent_heartbeat_handler"

section \<open>The trigger of a candidate\<close>

definition heartbeat_kind :: "heartbeat_trigger_candidate \<Rightarrow> string" where
  "heartbeat_kind c = (case hc_kind c of IntervalIntent \<Rightarrow> ''interval'' | CronIntent \<Rightarrow> ''cron'')"

text \<open>The conditions of the query for an existing trigger: neither the status nor the owner is among them.\<close>

definition same_schedule :: "string \<Rightarrow> uuid \<Rightarrow> heartbeat_trigger_candidate \<Rightarrow> trigger_record \<Rightarrow> bool" where
  "same_schedule tenant_id agent_id c t \<longleftrightarrow>
     t_tenant_id t = tenant_id \<and> t_agent_id t = agent_id \<and> t_trigger_type t = heartbeat_kind c \<and>
     t_recipe_id t = hc_recipe_id c \<and> t_max_inflight_runs t = hc_max_inflight_runs c \<and> t_jitter_seconds t = hc_jitter_seconds c \<and>
     (case hc_kind c of
        IntervalIntent \<Rightarrow> t_interval_seconds t = hc_interval_seconds c
      | CronIntent \<Rightarrow> t_cron_expression t = hc_cron_expression c \<and> t_schedule_timezone t = unwrap_or (hc_timezone c) ''UTC'')"

definition schedule_missing :: "heartbeat_trigger_candidate \<Rightarrow> api_error + unit" where
  "schedule_missing c =
     (case hc_kind c of
        IntervalIntent \<Rightarrow> reject_if (hc_interval_seconds c = None) (internal ''heartbeat interval candidate missing interval seconds'')
      | CronIntent \<Rightarrow> reject_if (hc_cron_expression c = None) (internal ''heartbeat cron candidate missing cron expression''))"

text \<open>\<open>ORDER BY created_at DESC LIMIT 1\<close>; of rows of the same time PostgreSQL may return any, the model the first.\<close>

fun newest :: "(trigger_record \<Rightarrow> trigger_record \<Rightarrow> bool) \<Rightarrow> trigger_record list \<Rightarrow> trigger_record option" where
  "newest before [] = None"
| "newest before (t # ts) = (case newest before ts of None \<Rightarrow> Some t | Some u \<Rightarrow> Some (if before t u then u else t))"

definition find_existing_heartbeat_trigger_id ::
    "outside \<Rightarrow> string \<Rightarrow> uuid \<Rightarrow> heartbeat_trigger_candidate \<Rightarrow> ('x, uuid option) handler" where
  "find_existing_heartbeat_trigger_id env tenant_id agent_id c =
     and_then (from_result (schedule_missing c)) (\<lambda>_.
     or_internal (''failed checking existing '' @ heartbeat_kind c @ '' heartbeat trigger'')
       (stmt env (\<lambda>now d. (Inr (map_option t_id (newest (\<lambda>t u. t_created_at t < t_created_at u)
          (filter (same_schedule tenant_id agent_id c) (d_triggers d)))), d))))"

text \<open>SQLite orders by whole seconds, then by the text of the id; the id it returns is parsed.\<close>

definition find_existing_heartbeat_trigger_id_sqlite ::
    "outside \<Rightarrow> (string \<Rightarrow> uuid option) \<Rightarrow> string \<Rightarrow> uuid \<Rightarrow> heartbeat_trigger_candidate \<Rightarrow> ('x, uuid option) handler" where
  "find_existing_heartbeat_trigger_id_sqlite env parse_uuid tenant_id agent_id c =
     and_then (from_result (schedule_missing c)) (\<lambda>_.
     and_then (or_internal (''failed checking existing '' @ heartbeat_kind c @ '' heartbeat trigger'')
       (stmt env (\<lambda>now d. (Inr (map_option t_id (newest
          (\<lambda>t u. (t_created_at t div 1000 < t_created_at u div 1000) \<or>
             t_created_at t div 1000 = t_created_at u div 1000 \<and> t_id t < t_id u)
          (filter (same_schedule tenant_id agent_id c) (d_triggers d)))), d)))) (\<lambda>found.
     case found of
       None \<Rightarrow> done_with None
     | Some raw \<Rightarrow>
         (case parse_uuid raw of
            Some i \<Rightarrow> done_with (Some i)
          | None \<Rightarrow> reject (internal (''invalid trigger id returned from sqlite heartbeat lookup: (value='' @ raw @ '')'')))))"

record heartbeat_apply =
  hp_tenant_id :: string
  hp_agent_id :: uuid
  hp_role :: role_preset
  hp_user :: "uuid option"
  hp_input :: json
  hp_requested :: json
  hp_cron_max_attempts :: int

definition create_heartbeat_trigger ::
    "outside \<Rightarrow> trigger_services \<Rightarrow> heartbeat_apply \<Rightarrow> heartbeat_trigger_candidate \<Rightarrow> json \<Rightarrow> ('x, uuid) handler" where
  "create_heartbeat_trigger env sv a c granted =
     (let what = (\<lambda>kind. ''failed creating '' @ kind @ '' trigger from heartbeat line '' @ nat_to_string (hc_line c)) in
      case hc_kind c of
        IntervalIntent \<Rightarrow>
          (case hc_interval_seconds c of
             None \<Rightarrow> reject (internal ''heartbeat interval candidate missing interval seconds'')
           | Some n \<Rightarrow>
               and_then (or_internal (what ''interval'') (bind (new_v4 env) (\<lambda>i. bind (now_utc env) (\<lambda>t.
                 stmt env (\<lambda>now. create_interval_trigger sv now
                   \<lparr>ni_id = i, ni_tenant_id = hp_tenant_id a, ni_agent_id = hp_agent_id a, ni_triggered_by_user_id = hp_user a,
                    ni_recipe_id = hc_recipe_id c, ni_interval_seconds = n, ni_input_json = hp_input a,
                    ni_requested_capabilities = hp_requested a, ni_granted_capabilities = granted,
                    ni_next_fire_at = t + seconds n, ni_status = ''enabled'', ni_misfire_policy = ''fire_now'', ni_max_attempts = 3,
                    ni_max_inflight_runs = hc_max_inflight_runs c, ni_jitter_seconds = hc_jitter_seconds c,
                    ni_webhook_secret_ref = None\<rparr>))))) (\<lambda>created. done_with (t_id created)))
      | CronIntent \<Rightarrow>
          (case hc_cron_expression c of
             None \<Rightarrow> reject (internal ''heartbeat cron candidate missing cron expression'')
           | Some e \<Rightarrow>
               and_then (or_internal (what ''cron'') (bind (new_v4 env) (\<lambda>i.
                 stmt env (\<lambda>now. create_cron_trigger sv now
                   \<lparr>nc_id = i, nc_tenant_id = hp_tenant_id a, nc_agent_id = hp_agent_id a, nc_triggered_by_user_id = hp_user a,
                    nc_recipe_id = hc_recipe_id c, nc_cron_expression = e,
                    nc_schedule_timezone = unwrap_or (hc_timezone c) ''UTC'', nc_input_json = hp_input a,
                    nc_requested_capabilities = hp_requested a, nc_granted_capabilities = granted,
                    nc_status = ''enabled'', nc_misfire_policy = ''fire_now'', nc_max_attempts = hp_cron_max_attempts a,
                    nc_max_inflight_runs = hc_max_inflight_runs c, nc_jitter_seconds = hc_jitter_seconds c\<rparr>))))
                 (\<lambda>created. done_with (t_id created))))"

text \<open>SQLite inserts the row directly; a cron trigger is then due at once.\<close>

definition heartbeat_row ::
    "uuid \<Rightarrow> time \<Rightarrow> time \<Rightarrow> heartbeat_apply \<Rightarrow> heartbeat_trigger_candidate \<Rightarrow> json \<Rightarrow> trigger_record" where
  "heartbeat_row i now at_time a c granted =
     \<lparr>t_id = i, t_tenant_id = hp_tenant_id a, t_agent_id = hp_agent_id a, t_triggered_by_user_id = hp_user a,
      t_recipe_id = hc_recipe_id c, t_status = ''enabled'', t_trigger_type = heartbeat_kind c,
      t_interval_seconds = (case hc_kind c of IntervalIntent \<Rightarrow> hc_interval_seconds c | CronIntent \<Rightarrow> None),
      t_cron_expression = (case hc_kind c of IntervalIntent \<Rightarrow> None | CronIntent \<Rightarrow> hc_cron_expression c),
      t_schedule_timezone = (case hc_kind c of IntervalIntent \<Rightarrow> ''UTC'' | CronIntent \<Rightarrow> unwrap_or (hc_timezone c) ''UTC''),
      t_misfire_policy = ''fire_now'',
      t_max_attempts = (case hc_kind c of IntervalIntent \<Rightarrow> 3 | CronIntent \<Rightarrow> hp_cron_max_attempts a),
      t_max_inflight_runs = hc_max_inflight_runs c, t_jitter_seconds = hc_jitter_seconds c, t_consecutive_failures = 0,
      t_dead_lettered_at = None, t_dead_letter_reason = None, t_webhook_secret_ref = None, t_input_json = hp_input a,
      t_requested_capabilities = hp_requested a, t_granted_capabilities = granted,
      t_next_fire_at = (case hc_kind c of
         IntervalIntent \<Rightarrow> at_time + seconds (unwrap_or (hc_interval_seconds c) 0) | CronIntent \<Rightarrow> at_time),
      t_last_fired_at = None, t_created_at = now, t_updated_at = now\<rparr>"

definition create_heartbeat_trigger_sqlite ::
    "outside \<Rightarrow> (time \<Rightarrow> string + string) \<Rightarrow> trigger_services \<Rightarrow> heartbeat_apply \<Rightarrow> heartbeat_trigger_candidate \<Rightarrow> json \<Rightarrow>
     ('x, uuid) handler" where
  "create_heartbeat_trigger_sqlite env format_time sv a c granted =
     and_then (or_internal [] (bind (new_v4 env) (\<lambda>i. bind (now_utc env) (\<lambda>t. ret (i, t))))) (\<lambda>(i, t).
     and_then (from_result (schedule_missing c)) (\<lambda>_.
     case format_time (t_next_fire_at (heartbeat_row i t t a c granted)) of
       Inl e \<Rightarrow> reject (internal (''failed formatting heartbeat '' @ heartbeat_kind c @ '' next_fire_at: '' @ e))
     | Inr _ \<Rightarrow>
         and_then (or_internal (''failed creating '' @ heartbeat_kind c @ '' trigger from heartbeat candidate'')
           (stmt env (\<lambda>now. insert_trigger sv (heartbeat_row i now t a c granted)))) (\<lambda>_. done_with i)))"

section \<open>Applying\<close>

record materialize_heartbeat_request =
  zq_heartbeat_markdown :: "string option"
  zq_apply :: bool
  zq_approval_confirmed :: bool
  zq_approval_note :: "string option"
  zq_input :: "json option"
  zq_requested_capabilities :: "json option"
  zq_triggered_by_user_id :: "uuid option"
  zq_cron_max_attempts :: "int option"

definition normalize_requested_capabilities_payload :: "json option \<Rightarrow> api_error + json" where
  "normalize_requested_capabilities_payload payload =
     (case payload of
        None \<Rightarrow> Inr (JArray [])
      | Some JNull \<Rightarrow> Inr (JArray [])
      | Some (JArray xs) \<Rightarrow> Inr (JArray xs)
      | Some _ \<Rightarrow> Inl (bad_request ''requested_capabilities must be an array''))"

definition normalize_materialization_input_payload :: "json option \<Rightarrow> json" where
  "normalize_materialization_input_payload payload =
     (case payload of None \<Rightarrow> JObject [] | Some JNull \<Rightarrow> JObject [] | Some v \<Rightarrow> v)"

datatype item_status = Planned | is_existing: Existing uuid | is_created: Created uuid

text \<open>What the loop records of a candidate: the response shows its fields with the status and the trigger.\<close>

type_synonym materialize_item = "heartbeat_trigger_candidate \<times> item_status"

record agent_heartbeat_materialize_response =
  zr_tenant_id :: string
  zr_agent_id :: uuid
  zr_source :: heartbeat_source
  zr_apply_requested :: bool
  zr_approval_confirmed :: bool
  zr_approval_note :: "string option"
  zr_approved_by_user_id :: "uuid option"
  zr_cron_max_attempts :: int
  zr_candidate_count :: nat
  zr_issue_count :: nat
  zr_planned_count :: nat
  zr_created_count :: nat
  zr_existing_count :: nat
  zr_items :: "materialize_item list"
  zr_issues :: "heartbeat_compile_issue list"

definition materialize_details ::
    "materialize_heartbeat_request \<Rightarrow> heartbeat_source \<Rightarrow> uuid option \<Rightarrow> int \<Rightarrow> heartbeat_trigger_candidate \<Rightarrow> json" where
  "materialize_details req src actor cron_max_attempts c = jobj
     [(''source'', JString (hs_source src)), (''line'', jnat (hc_line c)), (''source_line'', JString (hc_source_line c)),
      (''recipe_id'', JString (hc_recipe_id c)), (''approval_confirmed'', JBool (zq_approval_confirmed req)),
      (''approval_note'', opt_str_json (zq_approval_note req)), (''approved_by_user_id'', opt_str_json actor),
      (''cron_max_attempts'', jint cron_max_attempts)]"

text \<open>One candidate: a trigger like it is reused; otherwise the limit of the tenant, the grants, the insert, the audit event.\<close>

definition materialize_candidate ::
    "outside \<Rightarrow> context_services \<Rightarrow> context_api_state \<Rightarrow> ('x, uuid option) handler \<Rightarrow>
     (json \<Rightarrow> ('x, uuid) handler) \<Rightarrow> heartbeat_apply \<Rightarrow> (heartbeat_trigger_candidate \<Rightarrow> json) \<Rightarrow>
     heartbeat_trigger_candidate \<Rightarrow> ('x, item_status) handler" where
  "materialize_candidate env xv st find_trigger create_trigger a details c =
     and_then find_trigger (\<lambda>existing.
     case existing of
       Some i \<Rightarrow> done_with (Existing i)
     | None \<Rightarrow>
         and_then (ensure_tenant_trigger_capacity env (ty_show_int (xv_triggers xv)) (xs_app st) (hp_tenant_id a)) (\<lambda>_.
         and_then (from_result (resolve_granted_capabilities (hc_recipe_id c) (hp_role a) (hp_requested a))) (\<lambda>granted.
         and_then (create_trigger granted) (\<lambda>i.
         and_then (append_trigger_audit env (hp_tenant_id a) i (hp_role a) ''trigger.materialized'' (details c)) (\<lambda>_.
         done_with (Created i))))))"

fun materialize_candidates ::
    "(heartbeat_trigger_candidate \<Rightarrow> ('x, item_status) handler) \<Rightarrow> heartbeat_trigger_candidate list \<Rightarrow>
     ('x, materialize_item list) handler" where
  "materialize_candidates one [] = done_with []"
| "materialize_candidates one (c # cs) =
     and_then (one c) (\<lambda>s.
     and_then (materialize_candidates one cs) (\<lambda>items. done_with ((c, s) # items)))"

text \<open>Who asks and for what, before the heartbeat is read.\<close>

definition materialize_request ::
    "context_services \<Rightarrow> context_api_state \<Rightarrow> headers \<Rightarrow> uuid \<Rightarrow> materialize_heartbeat_request \<Rightarrow>
     api_error + uuid option \<times> heartbeat_apply" where
  "materialize_request xv st hs agent_id req =
     try_then (tenant_from_headers hs) (\<lambda>tenant_id.
     try_then (role_from_headers (xs_app st) hs) (\<lambda>role.
     try_then (ensure_trigger_mutation_role role) (\<lambda>_.
     try_then (user_id_from_headers (ty_parse_uuid (xv_triggers xv)) (xs_app st) hs) (\<lambda>actor.
     try_then (reject_if (zq_apply req \<and> \<not> zq_approval_confirmed req)
       (forbidden ''heartbeat materialization requires approval_confirmed=true'')) (\<lambda>_.
     try_then (reject_if (zq_apply req \<and> actor = None)
       (forbidden ''heartbeat materialization requires x-user-id for approval attribution'')) (\<lambda>_.
     let cron_max_attempts = unwrap_or (zq_cron_max_attempts req) 3 in
     try_then (reject_if (\<not> (1 \<le> cron_max_attempts \<and> cron_max_attempts \<le> 20))
       (bad_request ''cron_max_attempts must be between 1 and 20'')) (\<lambda>_.
     try_then (normalize_requested_capabilities_payload (zq_requested_capabilities req)) (\<lambda>requested.
     try_then (if zq_apply req then resolve_trigger_actor_for_create role actor (zq_triggered_by_user_id req) else Inr None) (\<lambda>user.
     Inr (actor, \<lparr>hp_tenant_id = tenant_id, hp_agent_id = agent_id, hp_role = role, hp_user = user,
       hp_input = normalize_materialization_input_payload (zq_input req), hp_requested = requested,
       hp_cron_max_attempts = cron_max_attempts\<rparr>))))))))))"

definition materialize_heartbeat_with ::
    "outside \<Rightarrow> context_services \<Rightarrow> context_api_state \<Rightarrow>
     (heartbeat_apply \<Rightarrow> heartbeat_trigger_candidate \<Rightarrow> uuid option context_handler) \<Rightarrow>
     (heartbeat_apply \<Rightarrow> heartbeat_trigger_candidate \<Rightarrow> json \<Rightarrow> uuid context_handler) \<Rightarrow>
     headers \<Rightarrow> uuid \<Rightarrow> materialize_heartbeat_request \<Rightarrow> (nat \<times> agent_heartbeat_materialize_response) context_handler" where
  "materialize_heartbeat_with env xv st find_trigger create_trigger hs agent_id req =
     and_then (from_result (materialize_request xv st hs agent_id req)) (\<lambda>(actor, a).
     and_then (heartbeat_source_of env xv st (hp_tenant_id a) agent_id (zq_heartbeat_markdown req) ''materialization'') (\<lambda>src.
     let report = compile_heartbeat_markdown (ty_trigger (xv_triggers xv)) (hs_markdown src) in
     and_then (from_result (reject_if (zq_apply req \<and> hr_issues report \<noteq> [])
       (conflict ''heartbeat compile produced issues; resolve issues before apply''))) (\<lambda>_.
     and_then (materialize_candidates
       (\<lambda>c. if zq_apply req
            then materialize_candidate env xv st (find_trigger a c) (create_trigger a c) a
              (materialize_details req src actor (hp_cron_max_attempts a)) c
            else done_with Planned) (hr_candidates report)) (\<lambda>items.
     done_with (200, \<lparr>zr_tenant_id = hp_tenant_id a, zr_agent_id = agent_id, zr_source = src, zr_apply_requested = zq_apply req,
       zr_approval_confirmed = zq_approval_confirmed req, zr_approval_note = zq_approval_note req,
       zr_approved_by_user_id = actor, zr_cron_max_attempts = hp_cron_max_attempts a,
       zr_candidate_count = length (hr_candidates report), zr_issue_count = length (hr_issues report),
       zr_planned_count = length (filter (\<lambda>i. snd i = Planned) items), zr_created_count = length (filter (is_created \<circ> snd) items),
       zr_existing_count = length (filter (is_existing \<circ> snd) items), zr_items = items,
       zr_issues = hr_issues report\<rparr>)))))"

definition materialize_agent_heartbeat_handler ::
    "outside \<Rightarrow> context_services \<Rightarrow> context_api_state \<Rightarrow> headers \<Rightarrow> uuid \<Rightarrow> materialize_heartbeat_request \<Rightarrow>
     (nat \<times> agent_heartbeat_materialize_response) context_handler" where
  "materialize_agent_heartbeat_handler env xv st = materialize_heartbeat_with env xv st
     (\<lambda>a. find_existing_heartbeat_trigger_id env (hp_tenant_id a) (hp_agent_id a))
     (create_heartbeat_trigger env (ty_trigger (xv_triggers xv)))"

definition materialize_agent_heartbeat_sqlite_handler ::
    "outside \<Rightarrow> context_services \<Rightarrow> context_api_state \<Rightarrow> headers \<Rightarrow> uuid \<Rightarrow> materialize_heartbeat_request \<Rightarrow>
     (nat \<times> agent_heartbeat_materialize_response) context_handler" where
  "materialize_agent_heartbeat_sqlite_handler env xv st = materialize_heartbeat_with env xv st
     (\<lambda>a. find_existing_heartbeat_trigger_id_sqlite env (ty_parse_uuid (xv_triggers xv)) (hp_tenant_id a) (hp_agent_id a))
     (create_heartbeat_trigger_sqlite env (xv_format_time xv) (ty_trigger (xv_triggers xv)))"

end
