(* ===== verification/BootstrapApi.thy ===== *)
theory BootstrapApi
  imports ContextApi
begin

text \<open>
  The bootstrap workflow of \<open>api/src/lib.rs\<close>: whether it is completed is read from a session file that
  completing it appends to.
\<close>

section \<open>The status file\<close>

definition BOOTSTRAP_FILE_NAME :: string where
  "BOOTSTRAP_FILE_NAME = ''BOOTSTRAP.md''"

definition BOOTSTRAP_STATUS_FILE_PATH :: string where
  "BOOTSTRAP_STATUS_FILE_PATH = ''sessions/bootstrap.status.jsonl''"

record bootstrap_completion_record =
  bc_completed_at :: time
  bc_completed_by_user_id :: uuid
  bc_completion_note :: "string option"
  bc_updated_files :: "string list"

definition bootstrap_completion_of :: "context_services \<Rightarrow> json \<Rightarrow> api_error + bootstrap_completion_record option" where
  "bootstrap_completion_of xv v =
     (if get_str v ''status'' \<noteq> Some ''completed'' then Inr None
      else case get_str v ''completed_at'' of
        None \<Rightarrow> Inl (internal ''bootstrap completion status is missing completed_at timestamp'')
      | Some at_raw \<Rightarrow>
     case xv_parse_time xv at_raw of
        Inl err \<Rightarrow> Inl (internal (''invalid bootstrap completion timestamp `'' @ at_raw @ ''`: '' @ err))
      | Inr completed_at \<Rightarrow>
     case get_str v ''completed_by_user_id'' of
        None \<Rightarrow> Inl (internal ''bootstrap completion status is missing completed_by_user_id'')
      | Some by_raw \<Rightarrow>
     case ty_parse_uuid (xv_triggers xv) by_raw of
        None \<Rightarrow> Inl (internal (''invalid bootstrap completion user id `'' @ by_raw @ ''`''))
      | Some by_user \<Rightarrow>
          Inr (Some \<lparr>bc_completed_at = completed_at, bc_completed_by_user_id = by_user,
            bc_completion_note = get_str v ''completion_note'',
            bc_updated_files = (case Option.bind (json_get v ''updated_files'') as_array of
               Some items \<Rightarrow> List.map_filter as_str items | None \<Rightarrow> [])\<rparr>))"

fun latest_completion ::
    "context_services \<Rightarrow> string list \<Rightarrow> bootstrap_completion_record option \<Rightarrow> api_error + bootstrap_completion_record option" where
  "latest_completion xv [] latest = Inr latest"
| "latest_completion xv (line # lines) latest =
     (if trim line = [] then latest_completion xv lines latest
      else case xv_json xv (trim line) of
        Inl err \<Rightarrow> Inl (internal (''failed decoding bootstrap status line in '' @ BOOTSTRAP_STATUS_FILE_PATH @ '': '' @ err))
      | Inr v \<Rightarrow> try_then (bootstrap_completion_of xv v) (\<lambda>c. latest_completion xv lines (or_else c latest)))"

definition find_latest_bootstrap_completion ::
    "context_services \<Rightarrow> agent_context_file list \<Rightarrow> api_error + bootstrap_completion_record option" where
  "find_latest_bootstrap_completion xv session_files =
     (case find (\<lambda>f. eq_ignore_ascii_case (xa_relative_path f) BOOTSTRAP_STATUS_FILE_PATH) session_files of
        None \<Rightarrow> Inr None
      | Some status_file \<Rightarrow> latest_completion xv (str_lines (xa_content status_file)) None)"

section \<open>Inspecting\<close>

record agent_bootstrap_inspect_response =
  br_tenant_id :: string
  br_agent_id :: uuid
  br_enabled :: bool
  br_status :: string
  br_source_dir :: string
  br_bootstrap_present :: bool
  br_bootstrap_path :: "path option"
  br_bootstrap_sha256 :: "string option"
  br_bootstrap_bytes :: "nat option"
  br_bootstrap_markdown :: "string option"
  br_completion :: "bootstrap_completion_record option"

text \<open>\<open>fs::read(path).ok()\<close>\<close>

definition read_ok :: "context_services \<Rightarrow> path \<Rightarrow> string option context_handler" where
  "read_ok xv p = (\<lambda>w. (Inr (if xo_fault (xv_io xv) ReadBack p = None then file_at (w_ext w) p else None), w))"

definition get_agent_bootstrap_handler ::
    "outside \<Rightarrow> context_services \<Rightarrow> context_api_state \<Rightarrow> headers \<Rightarrow> uuid \<Rightarrow> (nat \<times> agent_bootstrap_inspect_response) context_handler" where
  "get_agent_bootstrap_handler env xv st hs agent_id =
     and_then (from_result (reporting_caller st hs)) (\<lambda>tenant_id.
     if \<not> xs_bootstrap_enabled st
     then done_with (200, \<lparr>br_tenant_id = tenant_id, br_agent_id = agent_id, br_enabled = False, br_status = ''disabled'',
       br_source_dir = [], br_bootstrap_present = False, br_bootstrap_path = None, br_bootstrap_sha256 = None, br_bootstrap_bytes = None,
       br_bootstrap_markdown = None, br_completion = None\<rparr>)
     else
       and_then (load_snapshot env xv st tenant_id agent_id) (\<lambda>n.
       let bootstrap_path = path_push (xn_source_dir n) BOOTSTRAP_FILE_NAME in
       and_then (read_ok xv bootstrap_path) (\<lambda>bytes.
       let markdown = Option.bind bytes (\<lambda>b. if is_utf8 b then Some b else None) in
       and_then (from_result (find_latest_bootstrap_completion xv (xn_session_files n))) (\<lambda>completion.
       done_with (200, \<lparr>br_tenant_id = tenant_id, br_agent_id = agent_id, br_enabled = True,
         br_status = (if completion \<noteq> None then ''completed'' else if markdown \<noteq> None then ''pending'' else ''not_configured''),
         br_source_dir = xn_source_dir n, br_bootstrap_present = (markdown \<noteq> None),
         br_bootstrap_path = map_option (\<lambda>_. bootstrap_path) markdown,
         br_bootstrap_sha256 = map_option (xv_sha256_hex xv) bytes, br_bootstrap_bytes = map_option length bytes,
         br_bootstrap_markdown = markdown, br_completion = completion\<rparr>)))))"

definition get_agent_bootstrap_sqlite_handler ::
    "outside \<Rightarrow> context_services \<Rightarrow> context_api_state \<Rightarrow> headers \<Rightarrow> uuid \<Rightarrow> (nat \<times> agent_bootstrap_inspect_response) context_handler" where
  "get_agent_bootstrap_sqlite_handler = get_agent_bootstrap_handler"

section \<open>Completing\<close>

definition append_context_jsonl_line :: "context_services \<Rightarrow> path \<Rightarrow> string \<Rightarrow> string \<Rightarrow> nat \<Rightarrow> unit context_handler" where
  "append_context_jsonl_line xv source_dir relative_path line max_file_bytes =
     (let full_path = path_push source_dir relative_path; payload = with_newline line in
      and_then (create_parent_dir xv full_path) (\<lambda>_ w.
      if max_file_bytes < min (current_len xv (w_ext w) full_path + length payload) u64_max
      then (Inl (bad_request (relative_path @ '' exceeds max file size ('' @ nat_to_string max_file_bytes @ '' bytes)'')), w)
      else append_file xv full_path payload w))"

record bootstrap_file_write_response =
  bw_relative_path :: string
  bw_sha256 :: string
  bw_bytes :: nat

record agent_bootstrap_complete_response =
  bm_tenant_id :: string
  bm_agent_id :: uuid
  bm_status :: string
  bm_source_dir :: path
  bm_completed_at :: time
  bm_completed_by_user_id :: uuid
  bm_completion_note :: "string option"
  bm_force :: bool
  bm_updated_files :: "bootstrap_file_write_response list"
  bm_status_record_relative_path :: string

definition bootstrap_updates :: "complete_bootstrap_request \<Rightarrow> (string \<times> string) list" where
  "bootstrap_updates req = List.map_filter (\<lambda>(name, v). map_option (Pair name) (Option.bind v non_empty_trimmed))
     [(''IDENTITY.md'', bq_identity_markdown req), (''SOUL.md'', bq_soul_markdown req),
      (''USER.md'', bq_user_markdown req), (''HEARTBEAT.md'', bq_heartbeat_markdown req)]"

definition bootstrap_write :: "context_services \<Rightarrow> nat \<Rightarrow> path \<Rightarrow> string \<Rightarrow> string \<Rightarrow> bootstrap_file_write_response context_handler" where
  "bootstrap_write xv limit source_dir relative_path content =
     (let full_path = path_push source_dir relative_path in
      and_then (create_parent_dir xv full_path) (\<lambda>_.
      and_then (from_result (reject_if (limit < length content)
        (bad_request (relative_path @ '' exceeds max file size ('' @ nat_to_string limit @ '' bytes)'')))) (\<lambda>_.
      and_then (context_write_file xv ''failed writing bootstrap target '' full_path content) (\<lambda>_.
      and_then (read_back xv ''failed reading bootstrap target '' full_path) (\<lambda>bytes.
      done_with \<lparr>bw_relative_path = relative_path, bw_sha256 = xv_sha256_hex xv bytes, bw_bytes = length bytes\<rparr>)))))"

fun bootstrap_writes ::
    "context_services \<Rightarrow> nat \<Rightarrow> path \<Rightarrow> (string \<times> string) list \<Rightarrow> bootstrap_file_write_response list context_handler" where
  "bootstrap_writes xv limit source_dir [] = done_with []"
| "bootstrap_writes xv limit source_dir ((relative_path, content) # rest) =
     and_then (bootstrap_write xv limit source_dir relative_path content) (\<lambda>r.
     and_then (bootstrap_writes xv limit source_dir rest) (\<lambda>rs. done_with (r # rs)))"

text \<open>Who may complete the workflow, and in which state of the files.\<close>

definition bootstrap_caller :: "context_services \<Rightarrow> context_api_state \<Rightarrow> headers \<Rightarrow> api_error + string \<times> uuid" where
  "bootstrap_caller xv st hs =
     (if \<not> xs_bootstrap_enabled st
      then Inl (forbidden ''agent bootstrap is disabled by API_AGENT_BOOTSTRAP_ENABLED'')
      else
        try_then (tenant_from_headers hs) (\<lambda>tenant_id.
        try_then (role_from_headers (xs_app st) hs) (\<lambda>role.
        try_then (ensure_owner_role role ''only owner role can complete agent bootstrap workflow'') (\<lambda>_.
        try_then (user_id_from_headers (ty_parse_uuid (xv_triggers xv)) (xs_app st) hs) (\<lambda>user.
        case user of
          None \<Rightarrow> Inl (forbidden ''bootstrap completion requires x-user-id for attribution'')
        | Some actor \<Rightarrow> Inr (tenant_id, actor))))))"

definition bootstrap_ready ::
    "context_services \<Rightarrow> complete_bootstrap_request \<Rightarrow> agent_context_snapshot \<Rightarrow> unit context_handler" where
  "bootstrap_ready xv req n = (\<lambda>w.
     if file_at (w_ext w) (path_push (xn_source_dir n) BOOTSTRAP_FILE_NAME) = None
     then (Inl (conflict ''BOOTSTRAP.md is missing; add the file before completing bootstrap''), w)
     else and_then (from_result (find_latest_bootstrap_completion xv (xn_session_files n))) (\<lambda>existing.
       from_result (reject_if (existing \<noteq> None \<and> \<not> bq_force req)
         (conflict ''bootstrap is already completed; pass force=true to record a new completion event''))) w)"

definition completion_json :: "string \<Rightarrow> uuid \<Rightarrow> string option \<Rightarrow> bootstrap_file_write_response list \<Rightarrow> json" where
  "completion_json at_text actor completion_note written = jobj
     [(''schema_version'', JString ''v1''), (''status'', JString ''completed''), (''completed_at'', JString at_text),
      (''completed_by_user_id'', JString actor), (''completion_note'', opt_str_json completion_note),
      (''updated_files'', JArray (map (JString \<circ> bw_relative_path) written))]"

definition or_500 :: "string \<Rightarrow> string + 'a \<Rightarrow> api_error + 'a" where
  "or_500 what r = (case r of Inl e \<Rightarrow> Inl (internal (what @ '': '' @ e)) | Inr v \<Rightarrow> Inr v)"

definition complete_agent_bootstrap_handler ::
    "outside \<Rightarrow> context_services \<Rightarrow> context_api_state \<Rightarrow> headers \<Rightarrow> uuid \<Rightarrow> complete_bootstrap_request \<Rightarrow>
     (nat \<times> agent_bootstrap_complete_response) context_handler" where
  "complete_agent_bootstrap_handler env xv st hs agent_id req =
     and_then (from_result (bootstrap_caller xv st hs)) (\<lambda>(tenant_id, actor).
     and_then (load_snapshot env xv st tenant_id agent_id) (\<lambda>n.
     and_then (bootstrap_ready xv req n) (\<lambda>_.
     and_then (bootstrap_writes xv (xl_max_file_bytes (xs_loader st)) (xn_source_dir n) (bootstrap_updates req)) (\<lambda>written w.
     let completed_at = o_now env (w_stmts w); completion_note = Option.bind (bq_completion_note req) non_empty_trimmed in
     and_then (from_result (or_500 ''failed formatting bootstrap completion timestamp'' (xv_format_time xv completed_at))) (\<lambda>at_text.
     and_then (from_result (or_500 ''failed serializing bootstrap completion status payload''
       (xv_to_json xv (completion_json at_text actor completion_note written)))) (\<lambda>status_payload.
     and_then (append_context_jsonl_line xv (xn_source_dir n) BOOTSTRAP_STATUS_FILE_PATH status_payload
       (xl_max_file_bytes (xs_loader st))) (\<lambda>_.
     done_with (200, \<lparr>bm_tenant_id = tenant_id, bm_agent_id = agent_id, bm_status = ''completed'', bm_source_dir = xn_source_dir n,
       bm_completed_at = completed_at, bm_completed_by_user_id = actor, bm_completion_note = completion_note,
       bm_force = bq_force req, bm_updated_files = written,
       bm_status_record_relative_path = BOOTSTRAP_STATUS_FILE_PATH\<rparr>)))) w))))"

definition complete_agent_bootstrap_sqlite_handler ::
    "outside \<Rightarrow> context_services \<Rightarrow> context_api_state \<Rightarrow> headers \<Rightarrow> uuid \<Rightarrow> complete_bootstrap_request \<Rightarrow>
     (nat \<times> agent_bootstrap_complete_response) context_handler" where
  "complete_agent_bootstrap_sqlite_handler = complete_agent_bootstrap_handler"

end
