(* ===== verification/ContextSafety.thy ===== *)
theory ContextSafety
  imports BootstrapApi ApiTriggerSafety "HOL-Library.Sublist"
begin

text \<open>
  What a request on agent context can change, whoever sends it, and the limits of what is loaded for a
  skill.
\<close>

section \<open>Files\<close>

lemma file_at_make_dirs [simp]: "file_at (make_dirs p fs) q = file_at fs q"
  by (simp add: file_at_def make_dirs_def)

lemma file_at_put [simp]:
  "file_at (put_file p c fs) q = (if components q = components p then Some c else file_at fs q)"
proof -
  have "k \<noteq> k' \<Longrightarrow> map_of (filter (\<lambda>e. fst e \<noteq> k') xs) k = map_of xs k" for k k' and xs :: "(path_component list \<times> string) list"
    by (induction xs) auto
  then show ?thesis by (simp add: file_at_def put_file_def)
qed

lemma lossy_keeps_or_replaces: "from_utf8_lossy s = s \<or> char_of (239 :: nat) \<in> set (from_utf8_lossy s)"
proof (induction s rule: from_utf8_lossy.induct)
  case (1 s)
  show ?case
  proof (cases "s = []")
    case False
    show ?thesis
    proof (cases "char_at s")
      case (Inl n)
      with False show ?thesis by (subst (2) from_utf8_lossy.simps) (simp add: replacement_character_def)
    next
      case (Inr n)
      then have "max n 1 = n" using char_at_pos [OF Inr] by simp
      then have "from_utf8_lossy s = take n s @ from_utf8_lossy (drop n s)"
        using False Inr by (subst from_utf8_lossy.simps) simp
      with 1(2) [OF False Inr] \<open>max n 1 = n\<close> show ?thesis by auto
    qed
  qed (simp add: from_utf8_lossy.simps)
qed

lemma set_lossy: "set (from_utf8_lossy s) \<subseteq> set s \<union> set replacement_character"
proof (induction s rule: from_utf8_lossy.induct)
  case (1 s)
  show ?case
  proof (cases "s = []")
    case False
    then have "set (from_utf8_lossy s) \<subseteq> set s \<union> set replacement_character \<union>
        (case char_at s of Inr n \<Rightarrow> set (from_utf8_lossy (drop (max n 1) s)) | Inl n \<Rightarrow> set (from_utf8_lossy (drop (max n 1) s)))"
      by (subst from_utf8_lossy.simps) (auto split: sum.split dest: in_set_takeD)
    moreover have "set (drop k s) \<subseteq> set s" for k by (rule set_drop_subset)
    ultimately show ?thesis using 1 False by (fastforce split: sum.splits)
  qed (simp add: from_utf8_lossy.simps)
qed

lemma clean_part_lossy: "clean_part w \<Longrightarrow> clean_part (from_utf8_lossy w)"
proof -
  assume w: "clean_part w"
  have "CHR ''/'' \<notin> set replacement_character" by code_simp
  then have slash: "CHR ''/'' \<notin> set (from_utf8_lossy w)"
    using set_lossy [of w] w by (auto simp: clean_part_def)
  from lossy_keeps_or_replaces [of w] show ?thesis
  proof
    assume r: "char_of (239 :: nat) \<in> set (from_utf8_lossy w)"
    have "char_of (239 :: nat) \<notin> set ''.''" "char_of (239 :: nat) \<notin> set ''..''" by code_simp+
    with r have "from_utf8_lossy w \<noteq> ''.''" "from_utf8_lossy w \<noteq> ''..''" "from_utf8_lossy w \<noteq> []"
      by (metis, metis, auto)
    with slash show ?thesis by (simp add: clean_part_def)
  qed (use w in simp)
qed

section \<open>The path of a change\<close>

lemma mutation_parts_Inr:
  "mutation_parts cs = Inr ps \<Longrightarrow> (\<And>w. Normal w \<in> set cs \<Longrightarrow> clean_part w) \<Longrightarrow> list_all clean_part ps"
  by (induction cs arbitrary: ps rule: mutation_parts.induct) (auto simp: try_then_Inr clean_part_lossy split: if_splits)

lemma normalized_parts:
  assumes "normalize_context_mutation_path raw = Inr rel"
  shows "\<exists>ps. ps \<noteq> [] \<and> list_all clean_part ps \<and> rel = join ''/'' ps"
proof -
  from assms obtain ps where "mutation_parts (components (trim raw)) = Inr ps" "ps \<noteq> []" "rel = join ''/'' ps"
    by (auto simp: normalize_context_mutation_path_def Let_def try_then_Inr split: if_splits)
  with mutation_parts_Inr [OF this(1)] components_parts [of _ "trim raw"] show ?thesis by blast
qed

text \<open>What a role may change, and the files no request of the role reaches.\<close>

definition may_change_context :: "role_preset \<Rightarrow> mutability \<Rightarrow> bool" where
  "may_change_context role m \<longleftrightarrow> (case m of Immutable \<Rightarrow> False | HumanPrimary \<Rightarrow> role = Owner | AgentManaged \<Rightarrow> role \<noteq> Viewer)"

definition protected_files :: "role_preset \<Rightarrow> string list" where
  "protected_files role = [''AGENTS.md'', ''TOOLS.md'', ''IDENTITY.md'', ''SOUL.md''] @
     (if role = Owner then [] else [''USER.md'', ''HEARTBEAT.md'', ''BOOTSTRAP.md''])"

lemma role_check: "ensure_context_mutation_role role m = Inr () \<longleftrightarrow> may_change_context role m"
  by (cases m) (simp_all add: ensure_context_mutation_role_def may_change_context_def ensure_owner_role_def ensure_memory_write_role_def reject_if_def)

lemma protected_classes:
  "classify_mutability ''AGENTS.md'' = Some Immutable" "classify_mutability ''TOOLS.md'' = Some Immutable"
  "classify_mutability ''IDENTITY.md'' = Some Immutable" "classify_mutability ''SOUL.md'' = Some Immutable"
  "classify_mutability ''USER.md'' = Some HumanPrimary" "classify_mutability ''HEARTBEAT.md'' = Some HumanPrimary"
  "classify_mutability ''BOOTSTRAP.md'' = Some HumanPrimary"
  by code_simp+

lemma changed_not_protected:
  "classify_mutability rel = Some m \<Longrightarrow> may_change_context role m \<Longrightarrow> rel \<notin> set (protected_files role)"
  by (auto simp: protected_files_def protected_classes may_change_context_def split: if_splits)

definition mutation_allowed ::
    "context_api_state \<Rightarrow> headers \<Rightarrow> context_mutation_mode \<Rightarrow> string \<Rightarrow> string \<Rightarrow> bool" where
  "mutation_allowed st hs mode tenant rel \<longleftrightarrow> xs_mutation_enabled st \<and> tenant_from_headers hs = Inr tenant \<and>
     (\<exists>role m. role_from_headers (xs_app st) hs = Inr role \<and> classify_mutability rel = Some m \<and> may_change_context role m \<and>
        rel \<notin> set (protected_files role)) \<and>
     (starts_with rel ''sessions/'' \<longrightarrow> mode = Append)"

lemma mutation_request_Inr:
  assumes "mutation_request st hs req = Inr (tenant, mode, rel, m)"
  shows "mutation_allowed st hs mode tenant rel" "\<exists>ps. ps \<noteq> [] \<and> list_all clean_part ps \<and> rel = join ''/'' ps"
proof -
  from assms obtain role where *: "xs_mutation_enabled st" "tenant_from_headers hs = Inr tenant"
      "role_from_headers (xs_app st) hs = Inr role" "classify_mutability rel = Some m" "may_change_context role m"
      "validate_context_mutation_mode mode rel m = Inr ()" "normalize_context_mutation_path (mq_relative_path req) = Inr rel"
    by (auto simp: mutation_request_def try_then_Inr role_check split: if_splits option.splits)
  from *(6) have "starts_with rel ''sessions/'' \<longrightarrow> mode = Append"
    by (auto simp: validate_context_mutation_mode_def try_then_Inr reject_if_def split: if_splits)
  with * changed_not_protected [OF *(4,5)] show "mutation_allowed st hs mode tenant rel"
    by (auto simp: mutation_allowed_def)
  show "\<exists>ps. ps \<noteq> [] \<and> list_all clean_part ps \<and> rel = join ''/'' ps" by (rule normalized_parts [OF *(7)])
qed

section \<open>Steps on files\<close>

text \<open>The step leaves the database and every file as they are.\<close>

definition same_files :: "context_fs world \<Rightarrow> context_fs world \<Rightarrow> bool" where
  "same_files w w' \<longleftrightarrow> w_db w' = w_db w \<and> (\<forall>q. file_at (w_ext w') q = file_at (w_ext w) q)"

lemma same_files_refl [simp]: "same_files w w"
  by (simp add: same_files_def)

lemma same_files_trans: "same_files w w1 \<Longrightarrow> same_files w1 w2 \<Longrightarrow> same_files w w2"
  by (simp add: same_files_def)

definition context_quiet :: "'a context_handler \<Rightarrow> bool" where
  "context_quiet m \<longleftrightarrow> (\<forall>w. same_files w (snd (m w)))"

named_theorems quiet_rules \<open>steps that change no file\<close>

lemma files_quiet_basic [quiet_rules]: "context_quiet (done_with v)" "context_quiet (reject e)" "context_quiet (from_result r)"
  by (simp_all add: context_quiet_def done_with_def reject_def from_result_def split: sum.split)

lemma quiet_and_then [quiet_rules]: "context_quiet m \<Longrightarrow> (\<And>v. context_quiet (k v)) \<Longrightarrow> context_quiet (and_then m k)"
  by (fastforce simp: context_quiet_def and_then_def split: prod.split sum.split intro: same_files_trans)

lemma quiet_create_dir_all [quiet_rules]: "context_quiet (context_create_dir_all xv what p)"
  unfolding context_create_dir_all_def
  by (intro quiet_rules) (auto simp: check_io_def context_quiet_def on_fs_def same_files_def reject_def done_with_def split: option.split)

lemma quiet_create_parent_dir [quiet_rules]: "context_quiet (create_parent_dir xv p)"
  by (simp add: create_parent_dir_def quiet_rules split: option.split)

lemma quiet_read_back [quiet_rules]: "context_quiet (read_back xv what p)"
  unfolding read_back_def
  by (intro quiet_rules) (auto simp: check_io_def context_quiet_def reject_def done_with_def split: option.split)

lemma quiet_resolve_dir [quiet_rules]: "context_quiet (resolve_or_create_agent_context_source_dir xv cfg tenant agent)"
proof -
  have "context_quiet (and_then (context_create_dir_all xv what p) (\<lambda>_. done_with v))" for what p and v :: path by (intro quiet_rules)
  then show ?thesis
    by (auto simp: resolve_or_create_agent_context_source_dir_def context_quiet_def Let_def)
qed

text \<open>The step changes one file at most, and its new content is in \<open>P\<close>.\<close>

definition one_file :: "path \<Rightarrow> (string \<Rightarrow> string \<Rightarrow> bool) \<Rightarrow> context_fs world \<Rightarrow> context_fs world \<Rightarrow> bool" where
  "one_file p P w w' \<longleftrightarrow> w_db w' = w_db w \<and>
     (\<forall>q. file_at (w_ext w') q \<noteq> file_at (w_ext w) q \<longrightarrow>
        components q = components p \<and> (\<exists>c. file_at (w_ext w') q = Some c \<and> P (content_at (w_ext w) p) c))"

lemma one_file_same: "same_files w w' \<Longrightarrow> one_file p P w w'"
  by (simp add: one_file_def same_files_def)

lemma one_file_after: "same_files w w1 \<Longrightarrow> one_file p P w1 w2 \<Longrightarrow> one_file p P w w2"
  by (simp add: one_file_def same_files_def content_at_def)

lemma one_file_before: "one_file p P w w1 \<Longrightarrow> same_files w1 w2 \<Longrightarrow> one_file p P w w2"
  by (simp add: one_file_def same_files_def)

lemma one_file_put: "P (content_at (w_ext w) p) c \<Longrightarrow> one_file p P w (w\<lparr>w_ext := put_file p c (w_ext w)\<rparr>)"
  by (simp add: one_file_def)

lemma write_file_one:
  assumes "\<And>n. P (content_at (w_ext w) p) (take n bytes)"
  shows "one_file p P w (snd (context_write_file xv what p bytes w))"
  using assms [of "length bytes"] assms
  by (auto simp: context_write_file_def on_fs_def and_then_def done_with_def reject_def one_file_same one_file_put split: option.split)

lemma append_file_one:
  assumes "\<And>n. P (content_at (w_ext w) p) (content_at (w_ext w) p @ take n bytes)"
  shows "one_file p P w (snd (append_file xv p bytes w))"
  using assms [of "length bytes"] assms
  by (auto simp: append_file_def check_io_def on_fs_def and_then_def done_with_def reject_def Let_def one_file_same one_file_put
      split: option.split)

text \<open>What \<open>apply_mutation\<close> may make of a content.\<close>

definition mutated :: "context_services \<Rightarrow> nat \<Rightarrow> context_mutation_mode \<Rightarrow> path \<Rightarrow> string \<Rightarrow> string \<Rightarrow> bool" where
  "mutated xv limit mode p old new \<longleftrightarrow> (mode = Append \<longrightarrow> prefix old new) \<and>
     (xo_fault (xv_io xv) Metadata p = None \<longrightarrow> length new \<le> limit)"

lemma apply_mutation_one:
  assumes "limit < u64_max"
  shows "one_file p (mutated xv limit mode p) w (snd (apply_mutation xv limit mode p payload w))"
proof (cases mode)
  case Replace
  have "one_file p (mutated xv limit mode p) w (snd (context_write_file xv what p payload w))" if "length payload \<le> limit" for what
    using that by (intro write_file_one) (simp add: mutated_def Replace min.coboundedI1)
  then show ?thesis by (simp add: apply_mutation_def Replace one_file_same)
next
  case Append
  have "one_file p (mutated xv limit mode p) w (snd (append_file xv p payload w))"
    if "\<not> limit < min (current_len xv (w_ext w) p + length payload) u64_max"
    using that assms by (intro append_file_one) (auto simp: mutated_def Append current_len_def)
  then show ?thesis by (simp add: apply_mutation_def Append one_file_same)
qed

lemma one_file_and_then:
  "(\<And>v w1. m w = (Inr v, w1) \<Longrightarrow> same_files w w1 \<Longrightarrow> one_file p P w1 (snd (k v w1))) \<Longrightarrow> context_quiet m \<Longrightarrow>
   one_file p P w (snd (and_then m k w))"
  by (fastforce simp: and_then_def context_quiet_def split: prod.split sum.split intro: one_file_after one_file_same)

lemma resolved_dir:
  "resolve_or_create_agent_context_source_dir xv cfg tenant agent w = (Inr src, w1) \<Longrightarrow>
   src \<in> {tenant_agent_dir cfg tenant agent, flat_agent_dir cfg agent}"
  by (auto simp: resolve_or_create_agent_context_source_dir_def Let_def and_then_def done_with_def
      split: if_splits prod.splits sum.splits)

lemma mutate_one_file:
  assumes "mutation_request st hs req = Inr (tenant, mode, rel, m)" "xl_max_file_bytes (xs_loader st) < u64_max"
  shows "\<exists>src \<in> {tenant_agent_dir (xs_loader st) tenant agent, flat_agent_dir (xs_loader st) agent}.
    one_file (path_push src rel) (mutated xv (xl_max_file_bytes (xs_loader st)) mode (path_push src rel)) w
      (snd (mutate_agent_context_handler xv st hs agent req w))"
proof -
  let ?limit = "xl_max_file_bytes (xs_loader st)"
  let ?dir = "resolve_or_create_agent_context_source_dir xv (xs_loader st) tenant agent"
  define rest where "rest = (\<lambda>source_dir.
     let full_path = path_push source_dir rel;
         payload = (if mode = Append \<and> starts_with rel ''sessions/'' then with_newline (mq_content req) else mq_content req) in
     and_then (create_parent_dir xv full_path) (\<lambda>_.
     and_then (apply_mutation xv ?limit mode full_path payload) (\<lambda>_.
     and_then (read_back xv ''failed reading updated context file '' full_path) (\<lambda>bytes.
     done_with (200 :: nat, \<lparr>mr_tenant_id = tenant, mr_agent_id = agent, mr_relative_path = rel,
       mr_mode = mutation_mode_as_str mode, mr_mutability = m, mr_sha256 = xv_sha256_hex xv bytes, mr_bytes = length bytes\<rparr>)))))"
  have run: "mutate_agent_context_handler xv st hs agent req w = and_then ?dir rest w"
    by (simp add: mutate_agent_context_handler_def rest_def assms(1) from_result_def and_then_def done_with_def)
  have one: "one_file p P w0 (snd (and_then a k w0))" if "one_file p P w0 (snd (a w0))" "\<And>v. context_quiet (k v)" for p P w0 and a :: "unit context_handler" and k :: "unit \<Rightarrow> 'z context_handler"
    using that by (fastforce simp: and_then_def context_quiet_def split: prod.split sum.split intro: one_file_before)
  have step: "one_file (path_push src rel) (mutated xv ?limit mode (path_push src rel)) w1 (snd (rest src w1))" for src w1
    unfolding rest_def Let_def
    by (intro one_file_and_then one apply_mutation_one quiet_rules assms(2))
  show ?thesis
  proof (cases "?dir w")
    case (Pair res w1)
    have same: "same_files w w1" using quiet_resolve_dir Pair by (metis context_quiet_def snd_conv)
    show ?thesis
    proof (cases res)
      case (Inl e)
      with Pair same show ?thesis by (auto simp: run and_then_def one_file_same)
    next
      case (Inr src)
      with Pair have "snd (mutate_agent_context_handler xv st hs agent req w) = snd (rest src w1)" by (simp add: run and_then_def)
      with one_file_after [OF same step] resolved_dir [of xv "xs_loader st" tenant agent w src w1] Pair Inr
      show ?thesis by metis
    qed
  qed
qed

section \<open>Loading\<close>

text \<open>A loaded file: the whole content of a file at one of the given paths, text, and within the limit.\<close>

definition loaded_ok :: "context_fs \<Rightarrow> agent_context_loader_config \<Rightarrow> path set \<Rightarrow> agent_context_file \<Rightarrow> bool" where
  "loaded_ok fs cfg ps f \<longleftrightarrow> xa_bytes f = length (xa_content f) \<and> xa_bytes f \<le> xl_max_file_bytes cfg \<and> is_utf8 (xa_content f) \<and>
     (\<exists>p \<in> ps. file_at fs p = Some (xa_content f))"

definition bytes_of :: "agent_context_file list \<Rightarrow> nat" where
  "bytes_of files = sum_list (map xa_bytes files)"

lemma load_context_file_bytes:
  assumes "load_context_file io sha fs src p slot cfg (l, ws) = (r, (l', ws'))" "xl_max_total_bytes cfg < u64_max"
  shows "(\<forall>f. r = Inr (Some f) \<longrightarrow> l' = l + xa_bytes f \<and> l' \<le> xl_max_total_bytes cfg \<and> loaded_ok fs cfg {p} f) \<and>
    ((\<forall>f. r \<noteq> Inr (Some f)) \<longrightarrow> l' = l)"
  using assms by (auto simp: load_context_file_def loaded_ok_def split: option.splits if_splits)

lemma loaded_ok_mono: "loaded_ok fs cfg ps f \<Longrightarrow> ps \<subseteq> qs \<Longrightarrow> loaded_ok fs cfg qs f"
  by (auto simp: loaded_ok_def)

lemma load_files_bytes:
  assumes "load_files io sha fs src slot cfg ps (l, ws) = (Inr files, (l', ws'))"
    and "xl_max_total_bytes cfg < u64_max" "l \<le> xl_max_total_bytes cfg"
  shows "l' = l + bytes_of files \<and> l' \<le> xl_max_total_bytes cfg \<and> length files \<le> length ps \<and>
    (\<forall>f \<in> set files. loaded_ok fs cfg (set ps) f)"
  using assms
proof (induction ps arbitrary: l ws files)
  case (Cons p ps)
  obtain r l1 ws1 where one: "load_context_file io sha fs src p (slot @ '':'' @ from_utf8_lossy (relative_to src p)) cfg (l, ws) = (r, (l1, ws1))"
    by (metis prod.exhaust)
  note b = load_context_file_bytes [OF one Cons.prems(2)]
  from Cons.prems(1) one obtain fo rest where fo: "r = Inr fo" and
    rest: "load_files io sha fs src slot cfg ps (l1, ws1) = (Inr rest, (l', ws'))"
    and files: "files = (case fo of Some f \<Rightarrow> f # rest | None \<Rightarrow> rest)"
    by (auto split: sum.splits prod.splits)
  from b fo Cons.prems(3) have l1: "l1 \<le> xl_max_total_bytes cfg" by (cases fo) auto
  from Cons.IH [OF rest Cons.prems(2) l1] b fo files show ?case
    by (cases fo) (auto simp: bytes_of_def intro: loaded_ok_mono)
qed (simp add: bytes_of_def)

lemma load_dynamic_bytes:
  assumes "load_dynamic_context_files io sha fs src d ext slot cfg (l, ws) = (Inr files, (l', ws'))"
    and "xl_max_total_bytes cfg < u64_max" "l \<le> xl_max_total_bytes cfg"
  shows "l' = l + bytes_of files \<and> l' \<le> xl_max_total_bytes cfg \<and> length files \<le> xl_max_dynamic_files_per_dir cfg \<and>
    (\<forall>f \<in> set files. loaded_ok fs cfg (set (dynamic_paths io fs (path_push src d) ext)) f)"
proof (cases "is_dir_at fs (path_push src d)")
  case True
  let ?ps = "take (xl_max_dynamic_files_per_dir cfg) (dynamic_paths io fs (path_push src d) ext)"
  from assms(1) True have "load_files io sha fs src slot cfg ?ps (l, ws) = (Inr files, (l', ws'))"
    by (auto simp: load_dynamic_context_files_def Let_def split: option.splits)
  from load_files_bytes [OF this assms(2,3)] show ?thesis
    using set_take_subset [of "xl_max_dynamic_files_per_dir cfg"] by (fastforce intro: loaded_ok_mono)
qed (use assms in \<open>auto simp: load_dynamic_context_files_def Let_def bytes_of_def\<close>)

definition required_paths :: "path \<Rightarrow> string list \<Rightarrow> path set" where
  "required_paths src rs = path_push src ` {r \<in> set rs. list_all is_normal (components r) \<and> \<not> is_absolute r}"

lemma load_required_bytes:
  assumes "load_required io sha fs src cfg rs (l, ws) = (Inr (files, missing), (l', ws'))"
    and "xl_max_total_bytes cfg < u64_max" "l \<le> xl_max_total_bytes cfg"
  shows "l' = l + bytes_of files \<and> l' \<le> xl_max_total_bytes cfg \<and> length files + length missing = length rs \<and>
    (\<forall>f \<in> set files. loaded_ok fs cfg (required_paths src rs) f)"
  using assms
proof (induction rs arbitrary: l ws files missing)
  case (Cons r rs)
  from Cons.prems(1) have ok: "safe_join_relative src r = Inr (path_push src r)" and valid: "validate_relative_path r = Inr ()"
    by (auto simp: safe_join_relative_def try_then_Inr split: sum.splits)
  obtain x l1 ws1 where one: "load_context_file io sha fs src (path_push src r) r cfg (l, ws) = (x, (l1, ws1))"
    by (metis prod.exhaust)
  note b = load_context_file_bytes [OF one Cons.prems(2)]
  from Cons.prems(1) one ok obtain fo files1 missing1 where fo: "x = Inr fo" and
    rest: "load_required io sha fs src cfg rs (l1, ws1) = (Inr (files1, missing1), (l', ws'))"
    and files: "(files, missing) = (case fo of Some f \<Rightarrow> (f # files1, missing1) | None \<Rightarrow> (files1, r # missing1))"
    by (auto split: sum.splits prod.splits)
  from b fo Cons.prems(3) have l1: "l1 \<le> xl_max_total_bytes cfg" by (cases fo) auto
  have "path_push src r \<in> required_paths src (r # rs)" "required_paths src rs \<subseteq> required_paths src (r # rs)"
    using valid by (auto simp: required_paths_def validate_relative_path_def split: if_splits)
  with Cons.IH [OF rest Cons.prems(2) l1] b fo files show ?case
    by (cases fo) (auto simp: bytes_of_def intro: loaded_ok_mono)
qed (simp add: bytes_of_def)

section \<open>Properties\<close>



section \<open>Witnesses\<close>

definition sample_context_io :: context_io where
  "sample_context_io = \<lparr>xo_fault = (\<lambda>_ _. None), xo_written = (\<lambda>_. None)\<rparr>"

definition sample_context_services :: context_services where
  "sample_context_services = \<lparr>xv_triggers = sample_ty, xv_io = sample_context_io, xv_sha256_hex = (\<lambda>_. ''h''), xv_to_json = (\<lambda>_. Inr ''{}''),
     xv_json = (\<lambda>_. Inl ''none''), xv_format_time = (\<lambda>_. Inr ''t''), xv_parse_time = (\<lambda>_. Inl ''none'')\<rparr>"

definition sample_loader :: agent_context_loader_config where
  "sample_loader = \<lparr>xl_root_dir = ''ctx'', xl_required_files = [''USER.md'', ''SOUL.md''], xl_max_file_bytes = 8, xl_max_total_bytes = 9,
     xl_max_dynamic_files_per_dir = 1\<rparr>"

definition sample_context_state :: context_api_state where
  "sample_context_state = \<lparr>xs_app = sample_state, xs_loader = sample_loader, xs_mutation_enabled = True, xs_bootstrap_enabled = True\<rparr>"

text \<open>One agent with a user file, two notes of which only the newer one is loaded, and no soul.\<close>

definition sample_fs :: context_fs where
  "sample_fs = \<lparr>xf_dirs = map components [''ctx/t/a'', ''ctx/t/a/memory''],
     xf_files = map (\<lambda>(p, c). (components p, c)) [(''ctx/t/a/USER.md'', ''user''), (''ctx/t/a/memory/1.md'', ''one''), (''ctx/t/a/memory/2.md'', ''two'')]\<rparr>"

definition sample_context_world :: "context_fs world" where
  "sample_context_world = \<lparr>w_db = empty_db, w_ext = sample_fs, w_uuids = 0, w_stmts = 0, w_calls = []\<rparr>"

definition sample_mutation :: mutate_agent_context_request where
  "sample_mutation = \<lparr>mq_relative_path = ''memory/2.md'', mq_content = ''more'', mq_mode = ''replace''\<rparr>"

abbreviation sample_mutated :: "(api_error + nat \<times> agent_context_mutation_response) \<times> context_fs world" where
  "sample_mutated \<equiv> mutate_agent_context_handler sample_context_services sample_context_state sample_headers ''a'' sample_mutation sample_context_world"

lemma sample_mutated_file: "file_at (w_ext (snd sample_mutated)) ''ctx/t/a/memory/2.md'' = Some ''more''"
  by code_simp


lemma sample_load_evals:
  "validate_loader_config sample_loader = Inr ()" "resolve_source_dir sample_fs sample_loader ''t'' ''a'' = Inr ''ctx/t/a''"
  "safe_join_relative ''ctx/t/a'' ''USER.md'' = Inr ''ctx/t/a/USER.md''" "safe_join_relative ''ctx/t/a'' ''SOUL.md'' = Inr ''ctx/t/a/SOUL.md''"
  "file_at sample_fs ''ctx/t/a/USER.md'' = Some ''user''" "file_at sample_fs ''ctx/t/a/SOUL.md'' = None" "\<not> is_dir_at sample_fs ''ctx/t/a/SOUL.md''"
  "path_push ''ctx/t/a'' ''memory'' = ''ctx/t/a/memory''" "is_dir_at sample_fs ''ctx/t/a/memory''"
  "path_push ''ctx/t/a'' ''sessions'' = ''ctx/t/a/sessions''" "\<not> is_dir_at sample_fs ''ctx/t/a/sessions''"
  "dynamic_paths sample_context_io sample_fs ''ctx/t/a/memory'' ''md'' = [''ctx/t/a/memory/2.md'', ''ctx/t/a/memory/1.md'']"
  "file_at sample_fs ''ctx/t/a/memory/2.md'' = Some ''two''" "is_utf8 ''user''" "is_utf8 ''two''"
  by code_simp+

lemma sample_load:
  "\<exists>n. load_agent_context_snapshot sample_context_io (\<lambda>_. ''h'') 0 sample_fs sample_loader ''t'' ''a'' = Inr n \<and>
     map xa_content (snapshot_files n) = [''user'', ''two''] \<and> xn_missing_required_files n = [''SOUL.md'']"
proof -
  note evals = sample_load_evals
  have files: "xl_required_files sample_loader = [''USER.md'', ''SOUL.md'']" "xl_max_file_bytes sample_loader = 8"
      "xl_max_total_bytes sample_loader = 9" "xl_max_dynamic_files_per_dir sample_loader = 1" "xo_fault sample_context_io op p = None" for op p
    by (simp_all add: sample_loader_def sample_context_io_def)
  show ?thesis
    by (simp add: load_agent_context_snapshot_def evals files load_context_file_def load_dynamic_context_files_def u64_max_def
        snapshot_files_def Let_def)
qed


section \<open>Boundary cases\<close>

text \<open>The tenant of the header is joined to the root as it is: an absolute path replaces the root.\<close>

lemma absolute_tenant_leaves_root:
  assumes "is_absolute (trim tenant)"
  shows "tenant_agent_dir cfg tenant agent = path_push (trim tenant) agent"
  using assms by (simp add: tenant_agent_dir_def path_push_def)

text \<open>
  The status of the bootstrap is a session file, which every role but the viewer may append to: an operator can
  add a completion, or a line that is no JSON, after which the status cannot be read.
\<close>

lemma operator_may_append_status:
  assumes "xs_mutation_enabled st" "tenant_from_headers hs = Inr tenant" "role_from_headers (xs_app st) hs = Inr role" "role \<noteq> Viewer"
  shows "mutation_request st hs \<lparr>mq_relative_path = BOOTSTRAP_STATUS_FILE_PATH, mq_content = line, mq_mode = ''append''\<rparr> =
    Inr (tenant, Append, BOOTSTRAP_STATUS_FILE_PATH, AgentManaged)"
proof -
  have "parse_context_mutation_mode ''append'' = Inr Append" "classify_mutability BOOTSTRAP_STATUS_FILE_PATH = Some AgentManaged"
      "normalize_context_mutation_path BOOTSTRAP_STATUS_FILE_PATH = Inr BOOTSTRAP_STATUS_FILE_PATH"
      "validate_context_mutation_mode Append BOOTSTRAP_STATUS_FILE_PATH AgentManaged = Inr ()"
    by code_simp+
  with assms role_check [of role AgentManaged] show ?thesis
    by (simp add: mutation_request_def may_change_context_def)
qed

lemma broken_line_blocks_status:
  assumes "find (\<lambda>f. eq_ignore_ascii_case (xa_relative_path f) BOOTSTRAP_STATUS_FILE_PATH) files = Some f"
    and "line \<in> set (str_lines (xa_content f))" "trim line \<noteq> []" "xv_json xv (trim line) = Inl err"
  shows "\<exists>e. find_latest_bootstrap_completion xv files = Inl e"
proof -
  have "line \<in> set ls \<Longrightarrow> \<exists>e. latest_completion xv ls latest = Inl e" for ls latest
    using assms(3,4)
    by (induction ls arbitrary: latest) (auto split: sum.splits simp: try_then_def)
  with assms(1,2) show ?thesis by (simp add: find_latest_bootstrap_completion_def)
qed

end
