(* ===== verification/HeartbeatSafety.thy ===== *)
theory HeartbeatSafety
  imports HeartbeatApi ContextSafety
begin

text \<open>
  Applying a heartbeat: which triggers it may add, on either server. The laws of finding and creating
  a trigger are a locale with an instance per back end.
\<close>

section \<open>Steps that leave the triggers\<close>

abbreviation triggers_of :: "'x world \<Rightarrow> trigger_record list" where
  "triggers_of w \<equiv> d_triggers (w_db w)"

definition keeps_all_triggers :: "('x world \<Rightarrow> 'r \<times> 'x world) \<Rightarrow> bool" where
  "keeps_all_triggers m \<longleftrightarrow> (\<forall>w. triggers_of (snd (m w)) = triggers_of w)"

lemma keepsD: "keeps_all_triggers m \<Longrightarrow> m w = (r, w1) \<Longrightarrow> triggers_of w1 = triggers_of w"
  by (metis keeps_all_triggers_def snd_conv)

lemma keeps_snd: "keeps_all_triggers m \<Longrightarrow> triggers_of (snd (m w)) = triggers_of w"
  by (simp add: keeps_all_triggers_def)

named_theorems keeps_rules \<open>steps that leave the triggers\<close>

lemma trigger_keeps_basic [keeps_rules]:
  "keeps_all_triggers (done_with v)" "keeps_all_triggers (reject e)" "keeps_all_triggers (from_result r)" "keeps_all_triggers (new_v4 env)"
  "keeps_all_triggers (now_utc env)" "keeps_all_triggers (ret v)"
  by (simp_all add: keeps_all_triggers_def done_with_def reject_def from_result_def new_v4_def now_utc_def ret_def split: sum.split)

lemma trigger_keeps_bind [keeps_rules]: "keeps_all_triggers m \<Longrightarrow> (\<And>v. keeps_all_triggers (k v)) \<Longrightarrow> keeps_all_triggers (bind m k)"
  by (subst keeps_all_triggers_def) (auto simp: bind_def keeps_snd dest: keepsD split: prod.split sum.split)

lemma keeps_and_then [keeps_rules]: "keeps_all_triggers m \<Longrightarrow> (\<And>v. keeps_all_triggers (k v)) \<Longrightarrow> keeps_all_triggers (and_then m k)"
  by (subst keeps_all_triggers_def) (auto simp: and_then_def keeps_snd dest: keepsD split: prod.split sum.split)

lemma keeps_or_internal [keeps_rules]: "keeps_all_triggers m \<Longrightarrow> keeps_all_triggers (or_internal what m)"
  by (subst keeps_all_triggers_def) (auto simp: or_internal_def keeps_snd dest: keepsD split: prod.split sum.split)

lemma trigger_keeps_stmt [keeps_rules]:
  "(\<And>now d. d_triggers (snd (f now d)) = d_triggers d) \<Longrightarrow> keeps_all_triggers (stmt env f)"
  unfolding keeps_all_triggers_def stmt_def Let_def
  by (auto split: option.split prod.split sum.split) (metis snd_conv)

lemma keeps_audit [keeps_rules]: "keeps_all_triggers (append_trigger_audit env tenant i role etype payload)"
  unfolding append_trigger_audit_def
  by (intro keeps_rules) (simp add: append_trigger_audit_event_def)

lemma keeps_capacity [keeps_rules]: "keeps_all_triggers (ensure_tenant_trigger_capacity env show st tenant)"
  unfolding ensure_tenant_trigger_capacity_def
  by (cases "st_tenant_max_triggers st") (auto intro!: keeps_rules)

section \<open>What applying may add\<close>

definition heartbeat_trigger :: "heartbeat_apply \<Rightarrow> heartbeat_trigger_candidate \<Rightarrow> json \<Rightarrow> trigger_record \<Rightarrow> bool" where
  "heartbeat_trigger a c granted t \<longleftrightarrow> same_schedule (hp_tenant_id a) (hp_agent_id a) c t \<and> t_granted_capabilities t = granted \<and>
     t_triggered_by_user_id t = hp_user a \<and> t_status t = ''enabled'' \<and> t_input_json t = hp_input a"

abbreviation has_trigger :: "heartbeat_apply \<Rightarrow> heartbeat_trigger_candidate \<Rightarrow> trigger_record list \<Rightarrow> bool" where
  "has_trigger a c ts \<equiv> \<exists>t \<in> set ts. same_schedule (hp_tenant_id a) (hp_agent_id a) c t"

definition applied :: "heartbeat_apply \<Rightarrow> heartbeat_trigger_candidate list \<Rightarrow> trigger_record list \<Rightarrow> trigger_record list \<Rightarrow> bool" where
  "applied a cs old new \<longleftrightarrow> (\<exists>ts. new = old @ ts \<and>
     (\<forall>t \<in> set ts. \<exists>c \<in> set cs. \<exists>granted. heartbeat_trigger a c granted t \<and> \<not> has_trigger a c old \<and>
        resolve_granted_capabilities (hc_recipe_id c) (hp_role a) (hp_requested a) = Inr granted))"

lemma applied_refl: "applied a cs ts ts"
  by (simp add: applied_def)

lemma applied_trans: "applied a [c] old mid \<Longrightarrow> applied a cs mid new \<Longrightarrow> applied a (c # cs) old new"
  unfolding applied_def by clarsimp (metis Un_iff)

section \<open>The laws of the store\<close>

locale heartbeat_store =
  fixes find_trigger :: "heartbeat_apply \<Rightarrow> heartbeat_trigger_candidate \<Rightarrow> uuid option context_handler"
    and create_trigger :: "heartbeat_apply \<Rightarrow> heartbeat_trigger_candidate \<Rightarrow> json \<Rightarrow> uuid context_handler"
  assumes find_keeps: "keeps_all_triggers (find_trigger a c)"
    and find_none: "find_trigger a c w = (Inr None, w1) \<Longrightarrow> \<not> has_trigger a c (triggers_of w)"
    and find_some: "find_trigger a c w = (Inr (Some i), w1) \<Longrightarrow> has_trigger a c (triggers_of w)"
    and create_adds: "create_trigger a c granted w = (Inr i, w1) \<Longrightarrow>
      \<exists>t. triggers_of w1 = triggers_of w @ [t] \<and> heartbeat_trigger a c granted t"
    and create_fails: "create_trigger a c granted w = (Inl e, w1) \<Longrightarrow> triggers_of w1 = triggers_of w"
begin

lemma candidate_applied:
  assumes "materialize_candidate env xv st (find_trigger a c) (create_trigger a c) a details c w = (res, w')"
  shows "applied a [c] (triggers_of w) (triggers_of w')" "res = Inr v \<Longrightarrow> has_trigger a c (triggers_of w')"
    "has_trigger a c (triggers_of w) \<Longrightarrow> triggers_of w' = triggers_of w"
proof -
  let ?goal = "applied a [c] (triggers_of w) (triggers_of w') \<and> (\<forall>v. res = Inr v \<longrightarrow> has_trigger a c (triggers_of w')) \<and>
    (has_trigger a c (triggers_of w) \<longrightarrow> triggers_of w' = triggers_of w)"
  obtain r1 w1 where f: "find_trigger a c w = (r1, w1)" by (cases "find_trigger a c w")
  have k1: "triggers_of w1 = triggers_of w" by (rule keepsD [OF find_keeps f])
  consider (err) e where "r1 = Inl e" | (some) i where "r1 = Inr (Some i)" | (none) "r1 = Inr None"
    by (metis sum.exhaust option.exhaust)
  then have ?goal
  proof cases
    case err
    with assms f k1 show ?thesis by (auto simp: materialize_candidate_def and_then_def applied_refl)
  next
    case some
    with assms f k1 find_some [of a c w i w1] show ?thesis
      by (auto simp: materialize_candidate_def and_then_def done_with_def applied_refl)
  next
    case none
    with f have no: "\<not> has_trigger a c (triggers_of w)" using find_none [of a c w w1] by simp
    obtain r2 w2 where cap: "ensure_tenant_trigger_capacity env (ty_show_int (xv_triggers xv)) (xs_app st) (hp_tenant_id a) w1 = (r2, w2)"
      by (metis prod.exhaust)
    have k2: "triggers_of w2 = triggers_of w" using keepsD [OF keeps_capacity cap] k1 by simp
    show ?thesis
    proof (cases "\<exists>u granted. r2 = Inr u \<and> resolve_granted_capabilities (hc_recipe_id c) (hp_role a) (hp_requested a) = Inr granted")
      case False
      with assms f none cap k2 no show ?thesis
        by (auto simp: materialize_candidate_def and_then_def from_result_def reject_def applied_refl split: sum.splits)
    next
      case True
      then obtain u granted where g: "r2 = Inr u" "resolve_granted_capabilities (hc_recipe_id c) (hp_role a) (hp_requested a) = Inr granted"
        by blast
      obtain r3 w3 where cr: "create_trigger a c granted w2 = (r3, w3)" by (cases "create_trigger a c granted w2")
      show ?thesis
      proof (cases r3)
        case (Inl e)
        with create_fails [of a c granted w2 e w3] cr have "triggers_of w3 = triggers_of w" using k2 by simp
        with assms f none cap g cr Inl no show ?thesis
          by (auto simp: materialize_candidate_def and_then_def from_result_def done_with_def applied_refl)
      next
        case (Inr i)
        with create_adds [of a c granted w2 i w3] cr k2 obtain t where t: "triggers_of w3 = triggers_of w @ [t]" "heartbeat_trigger a c granted t"
          by auto
        have "triggers_of w' = triggers_of w3"
          using assms f none cap g cr Inr keeps_audit [of env "hp_tenant_id a" i "hp_role a" "''trigger.materialized''" "details c"]
          by (auto simp: materialize_candidate_def and_then_def from_result_def done_with_def dest: keepsD
              split: prod.splits sum.splits)
        with t no g show ?thesis by (auto simp: applied_def heartbeat_trigger_def)
      qed
    qed
  qed
  then show "applied a [c] (triggers_of w) (triggers_of w')" "res = Inr v \<Longrightarrow> has_trigger a c (triggers_of w')"
    "has_trigger a c (triggers_of w) \<Longrightarrow> triggers_of w' = triggers_of w" by auto
qed

lemma candidates_applied:
  assumes "materialize_candidates (\<lambda>c. materialize_candidate env xv st (find_trigger a c) (create_trigger a c) a details c) cs w = (res, w')"
  shows "applied a cs (triggers_of w) (triggers_of w') \<and>
    (\<forall>v. res = Inr v \<longrightarrow> (\<forall>c \<in> set cs. has_trigger a c (triggers_of w'))) \<and>
    ((\<forall>c \<in> set cs. has_trigger a c (triggers_of w)) \<longrightarrow> triggers_of w' = triggers_of w)"
  using assms
proof (induction cs arbitrary: w res w')
  case (Cons c cs)
  let ?one = "\<lambda>c. materialize_candidate env xv st (find_trigger a c) (create_trigger a c) a details c"
  obtain r1 w1 where one: "?one c w = (r1, w1)" by (cases "?one c w")
  note c1 = candidate_applied [OF one]
  show ?case
  proof (cases r1)
    case (Inl e)
    with Cons.prems one have "w' = w1" "res = Inl e" by (auto simp: and_then_def)
    with c1 applied_trans [OF c1(1) applied_refl, of cs] show ?thesis by auto
  next
    case (Inr s)
    obtain r2 w2 where rest: "materialize_candidates ?one cs w1 = (r2, w2)" by (cases "materialize_candidates ?one cs w1")
    with Cons.prems one Inr have w2: "w' = w2" "(\<exists>v. res = Inr v) \<longrightarrow> (\<exists>v. r2 = Inr v)"
      by (auto simp: and_then_def done_with_def split: sum.splits)
    note ih = Cons.IH [OF rest]
    have old: "has_trigger a c (triggers_of w2)"
      using c1(2) [OF Inr] ih [THEN conjunct1] unfolding applied_def by auto
    have "triggers_of w2 = triggers_of w" if "\<forall>d \<in> set (c # cs). has_trigger a d (triggers_of w)"
    proof -
      have "triggers_of w1 = triggers_of w" using that c1(3) by simp
      with that ih show ?thesis by simp
    qed
    with applied_trans [OF c1(1) ih [THEN conjunct1]] old ih w2 show ?thesis by auto
  qed
qed (auto simp: done_with_def applied_refl)

end

section \<open>The two servers\<close>

lemma newest_None: "newest before ts = None \<longleftrightarrow> ts = []"
  by (cases ts) (auto split: option.splits)

lemma newest_in: "newest before ts = Some t \<Longrightarrow> t \<in> set ts"
  by (induction ts arbitrary: t) (auto split: option.splits if_splits)

text \<open>A query that succeeds returns its value and leaves the tables.\<close>

lemma query_result:
  "or_internal what (stmt env (\<lambda>now d. (Inr (f d), d))) w = (Inr v, w1) \<Longrightarrow> v = f (w_db w)"
  by (auto simp: or_internal_def stmt_def Let_def split: prod.splits sum.splits option.splits)

lemma found_trigger: "(map_option t_id (newest before (filter P ts)) = None) = (\<not> (\<exists>t \<in> set ts. P t))"
  by (auto simp: newest_None filter_empty_conv)

lemma and_then_Inr: "and_then m k w = (Inr v, w') \<longleftrightarrow> (\<exists>u w1. m w = (Inr u, w1) \<and> k u w1 = (Inr v, w'))"
  by (auto simp: and_then_def split: prod.splits sum.splits)

lemma from_result_Inr: "from_result r w = (Inr v, w') \<longleftrightarrow> r = Inr v \<and> w' = w"
  by (auto simp: from_result_def reject_def done_with_def split: sum.splits)

lemma insert_trigger_result:
  "insert_trigger sv t d = (r, d') \<Longrightarrow> (\<forall>u. r = Inr u \<longrightarrow> u = t \<and> d_triggers d' = d_triggers d @ [t]) \<and> (\<forall>e. r = Inl e \<longrightarrow> d' = d)"
  by (auto simp: insert_trigger_def split: if_splits)

text \<open>A statement that inserts a trigger.\<close>

lemma stmt_insert:
  assumes "\<And>now d r d'. f now d = (r, d') \<Longrightarrow> (\<forall>u. r = Inr u \<longrightarrow> P u \<and> d_triggers d' = d_triggers d @ [u]) \<and> (\<forall>e. r = Inl e \<longrightarrow> d' = d)"
    and "stmt env f w = (r, w')"
  shows "(\<forall>u. r = Inr u \<longrightarrow> P u \<and> triggers_of w' = triggers_of w @ [u]) \<and> (\<forall>e. r = Inl e \<longrightarrow> triggers_of w' = triggers_of w)"
  using assms(2) assms(1) [of "o_now env (w_stmts w)" "w_db w"]
  by (auto simp: stmt_def Let_def split: option.splits prod.splits sum.splits)

lemma find_pg:
  assumes "find_existing_heartbeat_trigger_id env tenant agent c w = (Inr r, w1)"
  shows "r = map_option t_id (newest (\<lambda>t u. t_created_at t < t_created_at u) (filter (same_schedule tenant agent c) (triggers_of w)))"
  using assms query_result unfolding find_existing_heartbeat_trigger_id_def and_then_Inr from_result_Inr by fastforce

lemma find_lite:
  assumes "find_existing_heartbeat_trigger_id_sqlite env parse tenant agent c w = (Inr r, w1)"
  shows "\<exists>before. (r = None) = (map_option t_id (newest before (filter (same_schedule tenant agent c) (triggers_of w))) = None)"
proof -
  let ?before = "\<lambda>t u. (t_created_at t div 1000 < t_created_at u div 1000) \<or> t_created_at t div 1000 = t_created_at u div 1000 \<and> t_id t < t_id u"
  let ?query = "or_internal (''failed checking existing '' @ heartbeat_kind c @ '' heartbeat trigger'')
       (stmt env (\<lambda>now d. (Inr (map_option t_id (newest ?before (filter (same_schedule tenant agent c) (d_triggers d)))), d)))"
  obtain found w0 where q: "?query w = (Inr found, w0)"
    and k: "(case found of None \<Rightarrow> done_with None | Some raw \<Rightarrow> (case parse raw of Some i \<Rightarrow> done_with (Some i)
      | None \<Rightarrow> reject (internal (''invalid trigger id returned from sqlite heartbeat lookup: (value='' @ raw @ '')'')))) w0 = (Inr r, w1)"
    using assms unfolding find_existing_heartbeat_trigger_id_sqlite_def and_then_Inr from_result_Inr by blast
  from k have "(r = None) = (found = None)"
    by (cases found) (auto simp: done_with_def reject_def split: option.splits, metis)
  with query_result [OF q] show ?thesis by (intro exI [of _ ?before]) simp
qed

lemma find_pg_keeps: "keeps_all_triggers (find_existing_heartbeat_trigger_id env tenant agent c)"
  unfolding find_existing_heartbeat_trigger_id_def by (intro keeps_rules) simp

lemma find_lite_keeps: "keeps_all_triggers (find_existing_heartbeat_trigger_id_sqlite env parse tenant agent c)"
  unfolding find_existing_heartbeat_trigger_id_sqlite_def by (intro keeps_rules) (auto intro: keeps_rules split: option.split)

text \<open>What a store step makes of the triggers: one is added, or the step fails and none is.\<close>

definition adds_one :: "(trigger_record \<Rightarrow> bool) \<Rightarrow> ('x, 'v) handler \<Rightarrow> bool" where
  "adds_one P m \<longleftrightarrow> (\<forall>w. case m w of
     (Inr _, w1) \<Rightarrow> (\<exists>t. triggers_of w1 = triggers_of w @ [t] \<and> P t)
   | (Inl _, w1) \<Rightarrow> triggers_of w1 = triggers_of w)"

lemma adds_one_reject: "adds_one P (reject e)"
  by (simp add: adds_one_def reject_def)

lemma adds_one_before:
  assumes m: "keeps_all_triggers m" and k: "\<And>v. adds_one P (k v)"
  shows "adds_one P (and_then m k)"
  unfolding adds_one_def
proof
  fix w
  obtain r w1 where r: "m w = (r, w1)" by (cases "m w")
  have same: "triggers_of w1 = triggers_of w" by (rule keepsD [OF m r])
  have "case k v w1 of (Inr _, w2) \<Rightarrow> (\<exists>t. triggers_of w2 = triggers_of w @ [t] \<and> P t)
      | (Inl _, w2) \<Rightarrow> triggers_of w2 = triggers_of w" for v
    using spec [OF k [of v, unfolded adds_one_def], of w1] unfolding same .
  with same show "case and_then m k w of (Inr _, w2) \<Rightarrow> (\<exists>t. triggers_of w2 = triggers_of w @ [t] \<and> P t)
      | (Inl _, w2) \<Rightarrow> triggers_of w2 = triggers_of w"
    by (cases r) (simp_all add: and_then_def r)
qed

lemma adds_one_after: "adds_one P m \<Longrightarrow> adds_one P (and_then m (\<lambda>v. done_with (f v)))"
  by (fastforce simp: adds_one_def and_then_def done_with_def split: prod.splits sum.splits)

lemma adds_one_stmt:
  assumes "\<And>now d r d'. f now d = (r, d') \<Longrightarrow> (\<forall>u. r = Inr u \<longrightarrow> P u \<and> d_triggers d' = d_triggers d @ [u]) \<and> (\<forall>e. r = Inl e \<longrightarrow> d' = d)"
  shows "adds_one P (or_internal what (stmt env f))"
  unfolding adds_one_def
proof
  fix w
  obtain r w1 where "stmt env f w = (r, w1)" by (cases "stmt env f w")
  with stmt_insert [OF assms this] show "case or_internal what (stmt env f) w of
      (Inr _, w1) \<Rightarrow> (\<exists>t. triggers_of w1 = triggers_of w @ [t] \<and> P t) | (Inl _, w1) \<Rightarrow> triggers_of w1 = triggers_of w"
    by (cases r) (auto simp: or_internal_def)
qed

lemma or_internal_bind:
  "or_internal what (bind m k) = and_then (or_internal what m) (\<lambda>v. or_internal what (k v))"
  by (auto simp: fun_eq_iff or_internal_def bind_def and_then_def split: prod.split sum.split)

lemma create_lite_adds:
  "adds_one (heartbeat_trigger a c granted) (create_heartbeat_trigger_sqlite env fmt sv a c granted)"
proof -
  have row: "heartbeat_trigger a c granted (heartbeat_row i now t a c granted)" for i now t
    by (cases "hc_kind c") (simp_all add: heartbeat_trigger_def same_schedule_def heartbeat_row_def)
  have ins: "adds_one (heartbeat_trigger a c granted) (or_internal what (stmt env (\<lambda>now. insert_trigger sv (heartbeat_row i now t a c granted))))"
    for what i t by (intro adds_one_stmt) (use row in \<open>auto dest: insert_trigger_result\<close>)
  show ?thesis
    unfolding create_heartbeat_trigger_sqlite_def
    by (intro adds_one_before keeps_rules) (auto intro!: adds_one_before adds_one_after adds_one_reject ins keeps_rules split: sum.split)
qed

lemma create_pg_adds:
  "adds_one (heartbeat_trigger a c granted) (create_heartbeat_trigger env sv a c granted)"
proof (cases "hc_kind c")
  case IntervalIntent
  then show ?thesis
    unfolding create_heartbeat_trigger_def Let_def
    by (auto simp: or_internal_bind split: option.split intro!: adds_one_reject adds_one_after adds_one_before adds_one_stmt keeps_rules)
      (auto simp: create_interval_trigger_def heartbeat_trigger_def same_schedule_def heartbeat_kind_def dest!: insert_trigger_result)
next
  case CronIntent
  then show ?thesis
    unfolding create_heartbeat_trigger_def Let_def
    by (auto simp: or_internal_bind split: option.split intro!: adds_one_reject adds_one_after adds_one_before adds_one_stmt keeps_rules)
      (auto simp: create_cron_trigger_def heartbeat_trigger_def same_schedule_def heartbeat_kind_def dest!: insert_trigger_result split: sum.splits)
qed

lemma adds_one_result:
  assumes "adds_one P m" "m w = (r, w1)"
  shows "r = Inr i \<Longrightarrow> \<exists>t. triggers_of w1 = triggers_of w @ [t] \<and> P t" "r = Inl e \<Longrightarrow> triggers_of w1 = triggers_of w"
  using spec [OF assms(1) [unfolded adds_one_def], of w] assms(2) by auto

lemma found_either:
  "(r = None) = (map_option t_id (newest before (filter (same_schedule (hp_tenant_id a) (hp_agent_id a) c) ts)) = None) \<Longrightarrow>
   (r = None) = (\<not> has_trigger a c ts)"
  by (simp only: found_trigger)

interpretation pg_heartbeat: heartbeat_store
  "\<lambda>a. find_existing_heartbeat_trigger_id env (hp_tenant_id a) (hp_agent_id a)" "create_heartbeat_trigger env sv" for env sv
proof
  fix a :: heartbeat_apply and c granted i e and w w1 :: "context_fs world"
  let ?find = "find_existing_heartbeat_trigger_id env (hp_tenant_id a) (hp_agent_id a) c"
  show "keeps_all_triggers ?find" by (rule find_pg_keeps)
  have find: "(r = None) = (\<not> has_trigger a c (triggers_of w))" if "?find w = (Inr r, w1)" for r
    using find_pg [OF that] by (intro found_either) simp
  show "\<not> has_trigger a c (triggers_of w)" if "?find w = (Inr None, w1)" using find [OF that] by simp
  show "has_trigger a c (triggers_of w)" if "?find w = (Inr (Some i), w1)" using find [OF that] by simp
  show "\<exists>t. triggers_of w1 = triggers_of w @ [t] \<and> heartbeat_trigger a c granted t"
    if "create_heartbeat_trigger env sv a c granted w = (Inr i, w1)" by (rule adds_one_result(1) [OF create_pg_adds that refl])
  show "triggers_of w1 = triggers_of w" if "create_heartbeat_trigger env sv a c granted w = (Inl e, w1)"
    by (rule adds_one_result(2) [OF create_pg_adds that refl])
qed

interpretation lite_heartbeat: heartbeat_store
  "\<lambda>a. find_existing_heartbeat_trigger_id_sqlite env parse (hp_tenant_id a) (hp_agent_id a)"
  "create_heartbeat_trigger_sqlite env fmt sv" for env parse fmt sv
proof
  fix a :: heartbeat_apply and c granted i e and w w1 :: "context_fs world"
  let ?find = "find_existing_heartbeat_trigger_id_sqlite env parse (hp_tenant_id a) (hp_agent_id a) c"
  show "keeps_all_triggers ?find" by (rule find_lite_keeps)
  have find: "(r = None) = (\<not> has_trigger a c (triggers_of w))" if "?find w = (Inr r, w1)" for r
    using find_lite [OF that] by (elim exE) (rule found_either)
  show "\<not> has_trigger a c (triggers_of w)" if "?find w = (Inr None, w1)" using find [OF that] by simp
  show "has_trigger a c (triggers_of w)" if "?find w = (Inr (Some i), w1)" using find [OF that] by simp
  show "\<exists>t. triggers_of w1 = triggers_of w @ [t] \<and> heartbeat_trigger a c granted t"
    if "create_heartbeat_trigger_sqlite env fmt sv a c granted w = (Inr i, w1)" by (rule adds_one_result(1) [OF create_lite_adds that refl])
  show "triggers_of w1 = triggers_of w" if "create_heartbeat_trigger_sqlite env fmt sv a c granted w = (Inl e, w1)"
    by (rule adds_one_result(2) [OF create_lite_adds that refl])
qed

section \<open>The handlers\<close>

lemma heartbeat_source_keeps: "keeps_all_triggers (heartbeat_source_of env xv st tenant agent inline what)"
proof -
  have "keeps_all_triggers (load_snapshot env xv st tenant agent)"
    by (simp add: keeps_all_triggers_def load_snapshot_def split: sum.split)
  moreover have "keeps_all_triggers (summary_digest_sha256 xv what n)" for what n
    by (auto simp: summary_digest_sha256_def intro: keeps_rules split: sum.split)
  ultimately show ?thesis
    unfolding heartbeat_source_of_def by (auto intro!: keeps_rules split: option.split)
qed

text \<open>Who may apply.\<close>

lemma materialize_request_Inr:
  assumes "materialize_request xv st hs agent req = Inr (actor, a)"
  shows "tenant_from_headers hs = Inr (hp_tenant_id a)" "role_from_headers (xs_app st) hs = Inr (hp_role a)" "hp_role a \<noteq> Viewer"
    "user_id_from_headers (ty_parse_uuid (xv_triggers xv)) (xs_app st) hs = Inr actor" "hp_agent_id a = agent"
    "zq_apply req \<Longrightarrow> zq_approval_confirmed req \<and> actor \<noteq> None"
    "1 \<le> hp_cron_max_attempts a \<and> hp_cron_max_attempts a \<le> 20"
  using assms
  by (auto simp: materialize_request_def try_then_Inr reject_if_def Let_def ensure_trigger_mutation_role_def split: if_splits)

text \<open>What one call of either handler does to the triggers.\<close>

definition heartbeat_outcome ::
    "outside \<Rightarrow> context_services \<Rightarrow> context_api_state \<Rightarrow> headers \<Rightarrow> uuid \<Rightarrow> materialize_heartbeat_request \<Rightarrow>
     context_fs world \<Rightarrow> bool \<Rightarrow> trigger_record list \<Rightarrow> bool" where
  "heartbeat_outcome env xv st hs agent req w succeeded new \<longleftrightarrow>
     (\<exists>actor a src w1. zq_apply req \<and> zq_approval_confirmed req \<and>
        tenant_from_headers hs = Inr (hp_tenant_id a) \<and> role_from_headers (xs_app st) hs = Inr (hp_role a) \<and> hp_role a \<noteq> Viewer \<and>
        user_id_from_headers (ty_parse_uuid (xv_triggers xv)) (xs_app st) hs = Inr (Some actor) \<and> hp_agent_id a = agent \<and>
        heartbeat_source_of env xv st (hp_tenant_id a) agent (zq_heartbeat_markdown req) ''materialization'' w = (Inr src, w1) \<and>
        (let report = compile_heartbeat_markdown (ty_trigger (xv_triggers xv)) (hs_markdown src); cs = hr_candidates report
         in hr_issues report = [] \<and> length cs \<le> max_candidates \<and> (\<forall>c \<in> set cs. heartbeat_candidate_ok (ty_trigger (xv_triggers xv)) c) \<and>
            applied a cs (triggers_of w) new \<and>
            (succeeded \<longrightarrow> (\<forall>c \<in> set cs. has_trigger a c new)) \<and>
            ((\<forall>c \<in> set cs. has_trigger a c (triggers_of w)) \<longrightarrow> new = triggers_of w)))"

lemma planned_keeps: "keeps_all_triggers (materialize_candidates (\<lambda>c. done_with Planned) cs)"
  by (induction cs) (auto intro!: keeps_rules)

context heartbeat_store
begin

lemma materialize_outcome:
  assumes "materialize_heartbeat_with env xv st find_trigger create_trigger hs agent req w = (res, w')"
  shows "heartbeat_outcome env xv st hs agent req w (\<exists>v. res = Inr v) (triggers_of w') \<or>
    triggers_of w' = triggers_of w \<and> (zq_apply req \<longrightarrow> (\<exists>e. res = Inl e))"
proof (cases "materialize_request xv st hs agent req")
  case (Inl e)
  with assms show ?thesis by (auto simp: materialize_heartbeat_with_def from_result_def and_then_def reject_def)
next
  case (Inr p)
  then obtain actor a where r: "materialize_request xv st hs agent req = Inr (actor, a)" by (cases p) auto
  note caller = materialize_request_Inr [OF r]
  let ?sv = "ty_trigger (xv_triggers xv)"
  obtain rs w1 where src: "heartbeat_source_of env xv st (hp_tenant_id a) agent (zq_heartbeat_markdown req) ''materialization'' w = (rs, w1)"
    by (metis prod.exhaust)
  have w1: "triggers_of w1 = triggers_of w" by (rule keepsD [OF heartbeat_source_keeps src])
  show ?thesis
  proof (cases rs)
    case (Inl e)
    with assms r src w1 show ?thesis by (auto simp: materialize_heartbeat_with_def from_result_def done_with_def and_then_def)
  next
    case (Inr h)
    let ?report = "compile_heartbeat_markdown ?sv (hs_markdown h)"
    let ?loop = "\<lambda>one. materialize_candidates one (hr_candidates ?report) w1"
    let ?one = "\<lambda>c. materialize_candidate env xv st (find_trigger a c) (create_trigger a c) a
      (materialize_details req h actor (hp_cron_max_attempts a)) c"
    consider (plan) "\<not> zq_apply req" | (issues) "zq_apply req" "hr_issues ?report \<noteq> []" | (go) "zq_apply req" "hr_issues ?report = []"
      by blast
    then show ?thesis
    proof cases
      case plan
      obtain rl w2 where l: "?loop (\<lambda>c. done_with Planned) = (rl, w2)"
        by (cases "?loop (\<lambda>c. done_with Planned)")
      from keepsD [OF planned_keeps l] w1 assms r src Inr plan l show ?thesis
        by (auto simp: materialize_heartbeat_with_def from_result_def done_with_def and_then_def reject_if_def Let_def split: sum.splits)
    next
      case issues
      with assms r src Inr w1 show ?thesis
        by (auto simp: materialize_heartbeat_with_def from_result_def done_with_def reject_def and_then_def reject_if_def Let_def)
    next
      case go
      obtain rl w2 where l: "?loop ?one = (rl, w2)" by (cases "?loop ?one")
      have end_state: "w' = w2" "(\<exists>v. res = Inr v) \<longleftrightarrow> (\<exists>v. rl = Inr v)"
        using assms r src Inr go l
        by (auto simp: materialize_heartbeat_with_def from_result_def done_with_def and_then_def reject_if_def Let_def split: sum.splits)
      from compile_heartbeat_ok [of ?sv "hs_markdown h"]
      have ok: "length (hr_candidates ?report) \<le> max_candidates" "\<forall>c \<in> set (hr_candidates ?report). heartbeat_candidate_ok ?sv c"
        by (auto simp: report_ok_def)
      from caller(6) [OF go(1)] obtain u where u: "actor = Some u" "zq_approval_confirmed req" by auto
      note done_all = candidates_applied [OF l, unfolded w1]
      have "heartbeat_outcome env xv st hs agent req w (\<exists>v. rl = Inr v) (triggers_of w2)"
        unfolding heartbeat_outcome_def Let_def
        using caller(1-5) go u src [unfolded Inr] ok done_all by (intro exI [of _ u] exI [of _ a] exI [of _ h] exI [of _ w1]) auto
      with end_state show ?thesis by simp
    qed
  qed
qed

end

section \<open>Properties\<close>


section \<open>Witness\<close>

definition sample_heartbeat :: materialize_heartbeat_request where
  "sample_heartbeat = \<lparr>zq_heartbeat_markdown = Some ''- every 60 recipe=r'', zq_apply = True, zq_approval_confirmed = True,
     zq_approval_note = None, zq_input = None, zq_requested_capabilities = None, zq_triggered_by_user_id = None,
     zq_cron_max_attempts = None\<rparr>"

definition sample_candidate :: heartbeat_trigger_candidate where
  "sample_candidate = \<lparr>hc_kind = IntervalIntent, hc_recipe_id = ''r'', hc_interval_seconds = Some 60, hc_cron_expression = None,
     hc_timezone = None, hc_max_inflight_runs = 1, hc_jitter_seconds = 0, hc_line = 1, hc_source_line = ''every 60 recipe=r''\<rparr>"

lemma sample_compiled:
  "compile_heartbeat_markdown sv ''- every 60 recipe=r'' = \<lparr>hr_candidates = [sample_candidate], hr_issues = []\<rparr>"
proof -
  have evals: "str_lines ''- every 60 recipe=r'' = [''- every 60 recipe=r'']" "heartbeat_text ''- every 60 recipe=r'' = Some ''every 60 recipe=r''"
      "tokenize_heartbeat_line ''every 60 recipe=r'' = [''every'', ''60'', ''recipe=r'']"
      "to_ascii_lowercase ''every'' = ''every''" "parse_i64 ''60'' = Some 60"
      "parse_heartbeat_options [''recipe=r''] 1 = Inr \<lparr>ho_recipe_id = Some ''r'', ho_timezone = None, ho_max_inflight_runs = 1, ho_jitter_seconds = 0\<rparr>"
    by code_simp+
  show ?thesis
    using evals by (simp add: compile_heartbeat_markdown_def max_candidates_def parse_heartbeat_line_def parse_interval_heartbeat_line_def
        required_recipe_def sample_candidate_def)
qed

abbreviation sample_applied :: "(api_error + nat \<times> agent_heartbeat_materialize_response) \<times> context_fs world" where
  "sample_applied \<equiv> materialize_agent_heartbeat_handler sample_clock sample_context_services sample_context_state operator_headers ''a''
     sample_heartbeat sample_context_world"

lemma sample_applied_adds: "\<exists>r w' t. sample_applied = (Inr r, w') \<and> triggers_of w' = [t] \<and> t_recipe_id t = ''r''"
proof -
  have limit: "st_tenant_max_triggers sample_state = Some 5" by (simp add: sample_state_def)
  have ty: "ty_trigger sample_ty = sample_trigger_sv" "ts_trigger_fk sample_trigger_sv a u" "ts_timestamp_error sample_trigger_sv t = None" for a u t
    by (simp_all add: sample_ty_def sample_trigger_sv_def)
  have inline: "non_empty_trimmed ''- every 60 recipe=r'' = Some ''- every 60 recipe=r''" by code_simp
  have grants: "resolve_granted_capabilities ''r'' Operator (JArray []) = Inr (JArray [])" by code_simp
  have caller: "tenant_from_headers operator_headers = Inr ''t''" "role_from_headers sample_state operator_headers = Inr Operator"
      "user_id_from_headers (ty_parse_uuid sample_ty) sample_state operator_headers = Inr (Some ''me'')"
    using mutation_caller_Inr [OF operator_caller] by simp_all
  show ?thesis
    by (simp add: materialize_agent_heartbeat_handler_def materialize_heartbeat_with_def materialize_request_def caller limit ty inline grants
        sample_heartbeat_def sample_context_state_def sample_context_services_def sample_context_world_def heartbeat_source_of_def
        sample_compiled sample_candidate_def materialize_candidate_def find_existing_heartbeat_trigger_id_def schedule_missing_def
        create_heartbeat_trigger_def create_interval_trigger_def insert_trigger_def trigger_check_def trigger_type_check_def
        ensure_trigger_mutation_role_def normalize_requested_capabilities_payload_def resolve_trigger_actor_for_create_def
        ensure_tenant_trigger_capacity_def count_tenant_triggers_def append_trigger_audit_def append_trigger_audit_event_def
        from_result_def and_then_def done_with_def reject_if_def or_internal_def stmt_def bind_def new_v4_def now_utc_def
        sample_clock_def unwrap_or_def Let_def)
qed


end
