(* ===== verification/Spec2Isabelle.thy ===== *)
theory Spec2Isabelle
  imports LlmEndToEnd SystemGrants PaymentProperties LocalExec MessageSafety SecretSafety HeartbeatSafety
begin

text \<open>
  SecureAgnt runs agents under capabilities. Callers create runs and triggers through an HTTP API
  (\<open>api/src/lib.rs\<close>); the API resolves from the caller's role and the recipe the capabilities a run is
  granted, and stores them with the run. Workers (\<open>worker/src/lib.rs\<close>) take runs from a queue in
  PostgreSQL or SQLite under leases, invoke a skill in a child process (\<open>skillrunner/src\<close>), and
  carry out the actions the skill asks for, each after contract validation and a policy decision
  (\<open>core/src/policy.rs\<close>), through connectors: the object store, the LLM gateway
  (\<open>worker/src/llm.rs\<close>), payments, messages, local commands. What is stored on the way is redacted
  (\<open>core/src/redaction.rs\<close>). Between runs a worker compacts agent memory, delivers compliance events
  and dispatches due triggers. The statements on the database are in \<open>core/src/db.rs\<close>
  (PostgreSQL), \<open>core/src/db_dual.rs\<close> and \<open>core/src/db_worker_dual.rs\<close> (SQLite); constraints come
  from \<open>migrations/\<close>.

  \<^bold>\<open>How the code is modelled.\<close> A Rust struct is a record, an enum a datatype, \<open>u64\<close> a \<open>64 word\<close> or a
  natural number with the saturation written out, a \<open>str\<close> the list of its UTF-8 bytes as characters,
  \<open>serde_json::Value\<close> the datatype \<open>json\<close>. \<open>Result\<close> is a sum with the error on the left. A table is
  a list of rows; a statement is a function on the tables that checks the constraints of the
  schema. Stateful code is a computation (\<open>Effects\<close>) over a state that carries the database, the
  supplies of UUIDs and clock readings, and ghost logs of what leaves the process. Any statement
  may fail, at the discretion of the environment. Code that is not in the repository is an argument: the JSON
  library, HTTP clients, child processes, the file system, hashes, cron and time zones, secret
  back ends. What a theorem needs of an argument is a hypothesis of that theorem.

  \<^bold>\<open>The theories.\<close>
  \<^item> \<open>Prelude\<close>: strings, integers, JSON, \<open>Option\<close> and \<open>Result\<close> helpers and their lemmas.
  \<^item> \<open>Policy\<close> (\<open>core/src/policy.rs\<close>): grants, scopes and \<open>is_action_allowed\<close>; an action is allowed iff one
    grant covers it.
  \<^item> \<open>Redaction\<close> (\<open>core/src/redaction.rs\<close>): the text passes and \<open>redact_json\<close>, with the termination of
    their loops; no secret remains.
  \<^item> \<open>Skillrunner\<close> (\<open>skillrunner/src/protocol.rs\<close>, \<open>runner.rs\<close>): messages and \<open>invoke\<close>; what is accepted,
    the round trip, and exactly when a call returns.
  \<^item> \<open>ActionContract\<close> (\<open>worker/src/lib.rs\<close>): \<open>normalize_action\<close>, \<open>validate_action_contract\<close>,
    \<open>to_policy_request\<close>, grant parsing; the scope judged is the argument executed.
  \<^item> \<open>RunStore\<close>, \<open>RunLeases\<close>, \<open>RunClaims\<close> (\<open>core/src/db.rs\<close>, \<open>db_dual.rs\<close>, \<open>db_worker_dual.rs\<close>): the
    \<open>runs\<close> table and the scheduler leases statement by statement. \<open>RunLeases\<close> refines any interleaving of
    statements on either back end to one lease per run (locale \<open>run_store\<close>, interpreted as \<open>pg\<close>
    and \<open>lite\<close>); \<open>RunClaims\<close> has what a claim takes, caps, deduplication, and the
    scheduler lock (locale \<open>scheduler_lock\<close>, \<open>pg_lock\<close> and \<open>lite_lock\<close>).
  \<^item> \<open>StepStore\<close>, \<open>Effects\<close>, \<open>Worker\<close>: the step, action, artifact and audit tables; computations with their
    weakest preconditions; \<open>process_claimed_run\<close> with every branch. \<open>WorkerSafety\<close>: calls are authorised
    and audited, what is stored is redacted, success means executed. \<open>WorkerLiveness\<close>: permitted work
    goes through.
  \<^item> \<open>ObjectStore\<close> (\<open>worker/src/lib.rs\<close>, \<open>core/src/storage.rs\<close>): \<open>object.write\<close>, confined to the tenant's
    directory.
  \<^item> \<open>WorkerCycle\<close>, \<open>EndToEnd\<close>, \<open>WorkerMaintenance\<close>: \<open>process_once_dual\<close> under interference of other
    processes (locale \<open>cycle_store\<close> extends \<open>run_store\<close>; \<open>pg_cycle\<close>, \<open>lite_cycle\<close>); a cycle releases the
    run it claimed, and calls only what the run was granted.
  \<^item> \<open>ApiGrants\<close>, \<open>ApiRuns\<close>, \<open>ApiToWorker\<close> (\<open>api/src/lib.rs\<close>): grant resolution, the run endpoints, and the
    way from the caller's role to the connectors.
  \<^item> \<open>LlmConfig\<close>, \<open>LlmText\<close>, \<open>LlmRouting\<close>, \<open>LlmGateway\<close>, \<open>LlmControls\<close>, \<open>LlmSafety\<close>, \<open>LlmAction\<close>,
    \<open>LlmEndToEnd\<close> (\<open>worker/src/llm.rs\<close>, \<open>execute_llm_infer_action\<close>): configuration, prompts, routing, caches
    and admission, verifier and escalation, budgets; every request is accounted for.
  \<^item> \<open>TriggerRows\<close>, \<open>TriggerStore\<close>, \<open>TriggerDispatch\<close> (\<open>core/src/db.rs\<close>, \<open>db_worker_dual.rs\<close>): the trigger tables
    and the dispatch transactions. \<open>TriggerSafety\<close>, \<open>TriggerInvariant\<close>, \<open>TriggerProperties\<close>: the invariant
    under any sequence of statements (locale \<open>trigger_backend\<close>, \<open>pg_triggers\<close> and \<open>lite_triggers\<close>),
    and what follows for runs, slots, events and caps.
  \<^item> \<open>ApiTriggers\<close>, \<open>ApiTriggerSafety\<close>: the nine trigger endpoints, and who may change what.
  \<^item> \<open>MaintenanceRows\<close>, \<open>MemoryStore\<close>, \<open>MemorySafety\<close>: agent memory and its compaction (locale
    \<open>memory_compactor\<close>, \<open>pg_memory\<close>, \<open>lite_memory\<close>).
  \<^item> \<open>SiemOutbox\<close>, \<open>SiemSafety\<close>: the compliance outbox and its delivery pass (locale \<open>siem_store\<close>,
    \<open>pg_siem\<close>, \<open>lite_siem\<close>).
  \<^item> \<open>NwcWallet\<close>, \<open>PaymentStore\<close>, \<open>Payments\<close>, \<open>PaymentSafety\<close>, \<open>PaymentProperties\<close> (\<open>worker/src/nip47_wallet.rs\<close>,
    \<open>execute_payment_send_action\<close>, \<open>core/src/db.rs\<close>): \<open>payment.send\<close> on both rails, its ledger (locale
    \<open>payment_ledger\<close>, \<open>pg_ledger\<close>, \<open>lite_ledger\<close>); one key, one action; limits before anything is sent.
  \<^item> \<open>LocalExec\<close> (\<open>worker/src/local_exec.rs\<close>): \<open>local.exec\<close>, three fixed programs on paths below configured
    directories.
  \<^item> \<open>NostrSigner\<close>, \<open>Messages\<close>, \<open>MessageSafety\<close> (\<open>worker/src/signer.rs\<close>, \<open>nostr_transport.rs\<close>, \<open>nip46_signer.rs\<close>,
    \<open>slack.rs\<close>): key files, remote signing, publishing; \<open>message.send\<close> and \<open>message.receive\<close>; what leaves follows
    the allowlist.
  \<^item> \<open>Utf8\<close>, \<open>Secrets\<close>, \<open>SecretSafety\<close> (\<open>core/src/secrets.rs\<close>): secret references, back ends and the cache. Threads
    interleave as a step relation; the laws of a resolver are the locale \<open>secret_source\<close>, those of the
    cache \<open>cached_source\<close> (instances \<open>cli\<close> and \<open>shared\<close>).
  \<^item> \<open>Heartbeat\<close>, \<open>AgentContext\<close> (\<open>core/src/agent_context.rs\<close>): the heartbeat compiler; loading the context files of
    an agent. \<open>ContextApi\<close>, \<open>BootstrapApi\<close>, \<open>HeartbeatApi\<close> (\<open>api/src/lib.rs\<close>): their endpoints on both servers.
    \<open>ContextSafety\<close>: what a request may change, the limits of loading. \<open>HeartbeatSafety\<close>: applying a
    heartbeat adds the approved triggers only (locale \<open>heartbeat_store\<close>, \<open>pg_heartbeat\<close>, \<open>lite_heartbeat\<close>).
  \<^item> \<open>SystemGrants\<close>: the whole database under API calls, dispatches and worker statements.

  \<^bold>\<open>Loops and bounds.\<close> The loops of the code are total functions with a measure where the recursion is
  not structural; none needs fuel. The skill runner, which may wait for its child for ever, returns an
  option, and the theorem on its termination says exactly when it returns. Ghost logs grow with every
  call and are read by theorems only.

  \<^bold>\<open>Simplifications.\<close> A transaction runs as one step (row locks of concurrent transactions are not
  modelled); concurrency is the interleaving of statements. The text encoding of SQLite columns is
  not modelled; where SQLite compares times as \<open>datetime\<close>, whole seconds are compared.

  \<^bold>\<open>Not modelled.\<close> The other API endpoints (memory, compliance export, usage and operations reports), the
  SQLite handlers for runs, triggers and reports, the command line client \<open>agntctl\<close>, connection pools, the
  reading of the worker's environment and its main loop: they are front ends over statements that
  are modelled, or they mostly perform I/O. Symbolic links are not resolved among context files.
\<close>

end
